(* ===== verification/Prelude.thy ===== *)
theory Prelude
  imports Complex_Main "HOL-Library.AList" "HOL-Library.Multiset" "HOL-Library.Monad_Syntax"
begin

text \<open>
  Shared vocabulary of the development: the collections of simplification rules, and the
  containers of the JavaScript standard library that the console uses (insertion-ordered
  \<open>Map\<close> and \<open>Set\<close>, stable \<open>sort\<close>, \<open>find\<close>, \<open>slice\<close>, \<open>at\<close>) over HOL lists. An
  insertion-ordered \<open>Map\<close> is an association list: \<^const>\<open>AList.update\<close> replaces the value of a
  present key in place and appends a new key at the end, as \<open>Map.prototype.set\<close> does.
\<close>

named_theorems js_eval \<comment> \<open>definitions of the JavaScript library, for evaluation\<close>
named_theorems guard_defs \<comment> \<open>definitions of the validation predicates\<close>

section \<open>Lists\<close>

definition js_first :: "'a list \<Rightarrow> 'a option" where
  "js_first xs = (case xs of [] \<Rightarrow> None | x # _ \<Rightarrow> Some x)"

definition js_last :: "'a list \<Rightarrow> 'a option" where
  \<comment> \<open>\<open>xs.at(-1)\<close>\<close>
  "js_last xs = (if xs = [] then None else Some (last xs))"

definition take_last :: "nat \<Rightarrow> 'a list \<Rightarrow> 'a list" where
  \<comment> \<open>\<open>xs.slice(-n)\<close> for \<open>n > 0\<close>\<close>
  "take_last n xs = drop (length xs - n) xs"

definition js_set :: "'a list \<Rightarrow> 'a list" where
  \<comment> \<open>\<open>[...new Set(xs)]\<close>: the first occurrences, in order\<close>
  "js_set xs = rev (remdups (rev xs))"

declare js_first_def [js_eval] js_last_def [js_eval] take_last_def [js_eval] js_set_def [js_eval]

lemma js_first_simps [simp]: "js_first [] = None" "js_first (x # xs) = Some x"
  by (simp_all add: js_first_def)

lemma js_first_None_iff [simp]: "js_first xs = None \<longleftrightarrow> xs = []"
  by (cases xs) auto

lemma js_last_simps [simp]: "js_last [] = None" "js_last (xs @ [x]) = Some x"
  by (simp_all add: js_last_def)

lemma js_first_SomeD: "js_first xs = Some x \<Longrightarrow> x \<in> set xs"
  by (cases xs) auto

lemma js_last_SomeD: "js_last xs = Some x \<Longrightarrow> x \<in> set xs"
  by (auto simp: js_last_def split: if_splits)

lemma find_SomeD: "List.find P xs = Some x \<Longrightarrow> x \<in> set xs \<and> P x"
  by (auto simp: find_Some_iff)

lemma set_js_set [simp]: "set (js_set xs) = set xs"
  by (simp add: js_set_def)

lemma distinct_js_set [simp]: "distinct (js_set xs)"
  by (simp add: js_set_def)

lemma js_set_distinct: "distinct xs \<Longrightarrow> js_set xs = xs"
  by (simp add: js_set_def distinct_remdups_id)

lemma length_take_last [simp]: "length (take_last n xs) = min n (length xs)"
  by (auto simp: take_last_def)

lemma take_last_id: "length xs \<le> n \<Longrightarrow> take_last n xs = xs"
  by (simp add: take_last_def)

lemma set_take_last_subset: "set (take_last n xs) \<subseteq> set xs"
  by (simp add: take_last_def set_drop_subset)

lemma distinct_take_last: "distinct xs \<Longrightarrow> distinct (take_last n xs)"
  by (simp add: take_last_def)

lemma take_last_snoc: "0 < n \<Longrightarrow> take_last n (xs @ [x]) = take_last (n - 1) xs @ [x]"
  by (cases n) (auto simp: take_last_def Suc_diff_le)

lemma set_map_filter: "set (List.map_filter f xs) = {y. \<exists>x \<in> set xs. f x = Some y}"
  by (force simp: List.map_filter_def)

lemma filter_length_partition:
  assumes "\<And>x. x \<in> set xs \<Longrightarrow> P x \<longleftrightarrow> \<not> Q x"
  shows "length (filter P xs) + length (filter Q xs) = length xs"
  using assms by (induction xs) auto

section \<open>Insertion-ordered maps\<close>

abbreviation map_set :: "'k \<Rightarrow> 'v \<Rightarrow> ('k \<times> 'v) list \<Rightarrow> ('k \<times> 'v) list" where
  "map_set \<equiv> AList.update"

abbreviation map_values :: "('k \<times> 'v) list \<Rightarrow> 'v list" where
  "map_values m \<equiv> map snd m"

abbreviation map_keys :: "('k \<times> 'v) list \<Rightarrow> 'k list" where
  "map_keys m \<equiv> map fst m"

lemma fst_set_map_set [simp]: "fst ` set (map_set k v m) = insert k (fst ` set m)"
  using dom_update [of k v m] by simp

text \<open>\<open>new Map(xs.map(x => [f x, x]))\<close>: a later element replaces an earlier one in its place.\<close>

definition index_by :: "('a \<Rightarrow> 'k) \<Rightarrow> 'a list \<Rightarrow> ('k \<times> 'a) list" where
  "index_by f xs = foldl (\<lambda>m x. map_set (f x) x m) [] xs"

lemma index_by_snoc: "index_by f (xs @ [x]) = map_set (f x) x (index_by f xs)"
  by (simp add: index_by_def)

lemma index_by_Nil [simp]: "index_by f [] = []"
  by (simp add: index_by_def)

lemma distinct_index_by [simp]: "distinct (map_keys (index_by f xs))"
  by (induction xs rule: rev_induct) (simp_all add: index_by_snoc distinct_update)

lemma set_keys_index_by [simp]: "fst ` set (index_by f xs) = f ` set xs"
  by (induction xs rule: rev_induct) (simp_all add: index_by_snoc)

lemma map_of_index_by: "map_of (index_by f xs) k = List.find (\<lambda>x. f x = k) (rev xs)"
  by (induction xs rule: rev_induct) (auto simp: index_by_snoc update_conv)

lemma index_by_lookupD: "map_of (index_by f xs) k = Some x \<Longrightarrow> x \<in> set xs \<and> f x = k"
  by (auto simp: map_of_index_by dest: find_SomeD)

lemma index_by_lookup_NoneD: "map_of (index_by f xs) k = None \<Longrightarrow> x \<in> set xs \<Longrightarrow> f x \<noteq> k"
  by (auto simp: map_of_index_by find_None_iff)

lemma index_by_values: "x \<in> set (map_values (index_by f xs)) \<Longrightarrow> x \<in> set xs"
proof -
  assume "x \<in> set (map_values (index_by f xs))"
  then obtain k where "(k, x) \<in> set (index_by f xs)" by auto
  then have "map_of (index_by f xs) k = Some x" by (intro map_of_is_SomeI) simp_all
  then show ?thesis by (rule index_by_lookupD [THEN conjunct1])
qed

text \<open>The grouping loop: \<open>const current = grouped.get(key) ?? []; current.push(x); grouped.set(key, current)\<close>.\<close>

definition group_push :: "('a \<Rightarrow> 'k) \<Rightarrow> ('k \<times> 'a list) list \<Rightarrow> 'a \<Rightarrow> ('k \<times> 'a list) list" where
  "group_push f m x =
     map_set (f x) ((case map_of m (f x) of None \<Rightarrow> [] | Some c \<Rightarrow> c) @ [x]) m"

definition group_by :: "('a \<Rightarrow> 'k) \<Rightarrow> 'a list \<Rightarrow> ('k \<times> 'a list) list" where
  "group_by f xs = foldl (group_push f) [] xs"

lemma group_by_Nil [simp]: "group_by f [] = []"
  by (simp add: group_by_def)

lemma group_by_snoc: "group_by f (xs @ [x]) = group_push f (group_by f xs) x"
  by (simp add: group_by_def)

lemma map_of_group_by:
  "map_of (group_by f xs) k =
     (if k \<in> f ` set xs then Some (filter (\<lambda>x. f x = k) xs) else None)"
proof (induction xs rule: rev_induct)
  case (snoc x xs)
  have "f x \<notin> f ` set xs \<Longrightarrow> filter (\<lambda>y. f y = f x) xs = []"
    by (auto simp: filter_empty_conv image_iff)
  with snoc show ?case
    by (auto simp: group_by_snoc group_push_def update_conv)
qed simp

lemma distinct_group_by [simp]: "distinct (map_keys (group_by f xs))"
  by (induction xs rule: rev_induct) (simp_all add: group_by_snoc group_push_def distinct_update)

lemma set_keys_group_by [simp]: "fst ` set (group_by f xs) = f ` set xs"
  by (induction xs rule: rev_induct) (simp_all add: group_by_snoc group_push_def)

lemma group_by_memD:
  assumes "(k, ys) \<in> set (group_by f xs)"
  shows "ys = filter (\<lambda>x. f x = k) xs" and "k \<in> f ` set xs" and "ys \<noteq> []"
proof -
  from assms have m: "map_of (group_by f xs) k = Some ys" by (intro map_of_is_SomeI) simp_all
  then show ys: "ys = filter (\<lambda>x. f x = k) xs" and k: "k \<in> f ` set xs"
    by (auto simp: map_of_group_by split: if_splits)
  then show "ys \<noteq> []" by (auto simp: filter_empty_conv)
qed

section \<open>Sorting\<close>

text \<open>
  \<open>xs.sort((a, b) => key a - key b)\<close> is stable and sorts by the key: this is
  \<^const>\<open>sort_key\<close>. \<open>sort_desc\<close> is the sort with the arguments of the comparator swapped.
\<close>

definition sort_desc :: "('a \<Rightarrow> int) \<Rightarrow> 'a list \<Rightarrow> 'a list" where
  "sort_desc f xs = sort_key (\<lambda>x. - f x) xs"

declare sort_desc_def [js_eval]

lemma set_sort_desc [simp]: "set (sort_desc f xs) = set xs"
  by (simp add: sort_desc_def)

lemma length_sort_desc [simp]: "length (sort_desc f xs) = length xs"
  by (simp add: sort_desc_def)

lemma sorted_sort_desc: "sorted_wrt (\<lambda>a b. f b \<le> f a) (sort_desc f xs)"
proof -
  have "sorted (map (\<lambda>x. - f x) (sort_desc f xs))" by (simp add: sort_desc_def)
  then show ?thesis by (simp add: sorted_map)
qed

lemma sort_key_ordered: "sorted_wrt (\<lambda>a b. f a \<le> f b) (sort_key f xs)"
  using sorted_sort_key [of f xs] by (simp only: sorted_map)

lemma sort_key_first_least:
  "js_first (sort_key f xs) = Some m \<Longrightarrow> m \<in> set xs \<and> (\<forall>x \<in> set xs. f m \<le> f x)"
proof -
  assume a: "js_first (sort_key f xs) = Some m"
  then obtain ys where ys: "sort_key f xs = m # ys"
    by (cases "sort_key f xs") auto
  have "sorted (map f (sort_key f xs))" by simp
  then have "\<forall>y \<in> set ys. f m \<le> f y" by (simp add: ys)
  moreover have "set xs = insert m (set ys)"
    using set_sort [of f xs] by (simp add: ys)
  ultimately show ?thesis by auto
qed

lemma foldl_max_upper:
  fixes f :: "'a \<Rightarrow> int"
  shows "m \<le> foldl (\<lambda>c x. max c (f x)) m xs \<and> (\<forall>x \<in> set xs. f x \<le> foldl (\<lambda>c x. max c (f x)) m xs)"
proof (induction xs arbitrary: m)
  case (Cons x xs)
  from Cons.IH [of "max m (f x)"] show ?case by auto
qed simp

end
