(* ===== verification/JsValues.thy ===== *)
theory JsValues
  imports Prelude
begin

text \<open>
  Values of the JavaScript language that reach the console as \<open>unknown\<close>: the result of
  \<open>JSON.parse\<close> and of property reads on it, with \<open>undefined\<close> for an absent property. A
  \<open>number\<close> is a double: a finite one is the rational it denotes, the others are named. The
  validators compare doubles and test them for integrality, both exact on this representation.
  A string is a list of UTF-16 code units; the model covers code units below 256 (\<^typ>\<open>char\<close>),
  so no surrogate pair occurs and code units and code points agree.
\<close>

section \<open>Numbers\<close>

datatype jsnum = Fin rat | PosInf | NegInf | NaN

definition is_integer_rat :: "rat \<Rightarrow> bool" where
  "is_integer_rat q \<longleftrightarrow> of_int \<lfloor>q\<rfloor> = q"

definition max_safe_integer :: int where
  "max_safe_integer = 9007199254740991"

text \<open>\<open>Number.isInteger\<close> and \<open>Number.isSafeInteger\<close>: the integer, when there is one.\<close>

fun num_integer :: "jsnum \<Rightarrow> int option" where
  "num_integer (Fin q) = (if is_integer_rat q then Some \<lfloor>q\<rfloor> else None)"
| "num_integer _ = None"

definition num_safe_integer :: "jsnum \<Rightarrow> int option" where
  "num_safe_integer n =
     (case num_integer n of
        None \<Rightarrow> None
      | Some i \<Rightarrow> if \<bar>i\<bar> \<le> max_safe_integer then Some i else None)"

lemma is_integer_rat_of_int [simp]: "is_integer_rat (of_int i)"
  by (simp add: is_integer_rat_def)

lemma num_integer_of_int [simp]: "num_integer (Fin (of_int i)) = Some i"
  by simp

lemma num_integer_SomeD: "num_integer n = Some i \<Longrightarrow> n = Fin (of_int i)"
  by (cases n) (auto simp: is_integer_rat_def split: if_splits)

lemma num_safe_integer_SomeD:
  "num_safe_integer n = Some i \<Longrightarrow> n = Fin (of_int i) \<and> \<bar>i\<bar> \<le> max_safe_integer"
  by (auto simp: num_safe_integer_def dest: num_integer_SomeD split: option.splits if_splits)

lemma num_safe_integer_of_int:
  "\<bar>i\<bar> \<le> max_safe_integer \<Longrightarrow> num_safe_integer (Fin (of_int i)) = Some i"
  by (simp add: num_safe_integer_def)

section \<open>Values\<close>

datatype jsval =
    Undefined
  | Null
  | Bool bool
  | Num jsnum
  | Str string
  | Arr "jsval list"
  | Obj "(string \<times> jsval) list"

abbreviation jint :: "int \<Rightarrow> jsval" where
  "jint i \<equiv> Num (Fin (of_int i))"

fun is_record :: "jsval \<Rightarrow> bool" where
  \<comment> \<open>\<open>typeof value === "object" && value !== null && !Array.isArray(value)\<close>\<close>
  "is_record (Obj _) = True"
| "is_record _ = False"

definition prop_or :: "(string \<times> jsval) list \<Rightarrow> string \<Rightarrow> jsval" where
  "prop_or fs k = (case map_of fs k of None \<Rightarrow> Undefined | Some v \<Rightarrow> v)"

fun get_prop :: "jsval \<Rightarrow> string \<Rightarrow> jsval" where
  "get_prop (Obj fs) k = prop_or fs k"
| "get_prop _ k = Undefined"

fun obj_keys :: "jsval \<Rightarrow> string list" where
  "obj_keys (Obj fs) = map fst fs"
| "obj_keys _ = []"

definition nullish :: "jsval \<Rightarrow> jsval \<Rightarrow> jsval" where
  \<comment> \<open>\<open>v ?? d\<close>\<close>
  "nullish v d = (if v = Undefined \<or> v = Null then d else v)"

declare prop_or_def [js_eval] nullish_def [js_eval]

fun as_string :: "jsval \<Rightarrow> string option" where
  "as_string (Str s) = Some s"
| "as_string _ = None"

fun as_bool :: "jsval \<Rightarrow> bool option" where
  "as_bool (Bool b) = Some b"
| "as_bool _ = None"

fun as_array :: "jsval \<Rightarrow> jsval list option" where
  "as_array (Arr xs) = Some xs"
| "as_array _ = None"

fun as_integer :: "jsval \<Rightarrow> int option" where
  \<comment> \<open>\<open>Number.isInteger(v)\<close>, which is false on a value that is no number\<close>
  "as_integer (Num n) = num_integer n"
| "as_integer _ = None"

fun as_safe_integer :: "jsval \<Rightarrow> int option" where
  "as_safe_integer (Num n) = num_safe_integer n"
| "as_safe_integer _ = None"

fun as_finite :: "jsval \<Rightarrow> rat option" where
  \<comment> \<open>\<open>typeof v === "number" && Number.isFinite(v)\<close>\<close>
  "as_finite (Num (Fin q)) = Some q"
| "as_finite _ = None"

lemma as_string_Some_iff [simp]: "as_string v = Some s \<longleftrightarrow> v = Str s"
  by (cases v) auto

lemma as_bool_Some_iff [simp]: "as_bool v = Some b \<longleftrightarrow> v = Bool b"
  by (cases v) auto

lemma as_array_Some_iff [simp]: "as_array v = Some xs \<longleftrightarrow> v = Arr xs"
  by (cases v) auto

lemma as_finite_Some_iff [simp]: "as_finite v = Some q \<longleftrightarrow> v = Num (Fin q)"
  by (cases v rule: as_finite.cases) auto

lemma as_integer_SomeD: "as_integer v = Some i \<Longrightarrow> v = jint i"
  by (cases v) (auto dest: num_integer_SomeD)

lemma as_integer_jint [simp]: "as_integer (jint i) = Some i"
  by simp

lemma as_safe_integer_SomeD: "as_safe_integer v = Some i \<Longrightarrow> v = jint i \<and> \<bar>i\<bar> \<le> max_safe_integer"
  by (cases v) (auto dest: num_safe_integer_SomeD)

lemma as_safe_integer_jint:
  "\<bar>i\<bar> \<le> max_safe_integer \<Longrightarrow> as_safe_integer (jint i) = Some i"
  by (simp add: num_safe_integer_of_int)

section \<open>Characters and strings\<close>

definition code :: "char \<Rightarrow> nat" where
  "code c = of_char c"

definition is_digit :: "char \<Rightarrow> bool" where
  "is_digit c \<longleftrightarrow> 48 \<le> code c \<and> code c \<le> 57"

definition is_lower :: "char \<Rightarrow> bool" where
  "is_lower c \<longleftrightarrow> 97 \<le> code c \<and> code c \<le> 122"

definition is_upper :: "char \<Rightarrow> bool" where
  "is_upper c \<longleftrightarrow> 65 \<le> code c \<and> code c \<le> 90"

definition is_alnum :: "char \<Rightarrow> bool" where
  "is_alnum c \<longleftrightarrow> is_digit c \<or> is_lower c \<or> is_upper c"

definition is_hex_lower :: "char \<Rightarrow> bool" where
  "is_hex_lower c \<longleftrightarrow> is_digit c \<or> (97 \<le> code c \<and> code c \<le> 102)"

definition is_hex_any :: "char \<Rightarrow> bool" where
  "is_hex_any c \<longleftrightarrow> is_hex_lower c \<or> (65 \<le> code c \<and> code c \<le> 70)"

declare code_def [js_eval] is_digit_def [js_eval] is_lower_def [js_eval] is_upper_def [js_eval]
  is_alnum_def [js_eval] is_hex_lower_def [js_eval] is_hex_any_def [js_eval]

text \<open>A pattern \<open>^[class]{lo,hi}$\<close>.\<close>

definition chars_between :: "(char \<Rightarrow> bool) \<Rightarrow> nat \<Rightarrow> nat \<Rightarrow> string \<Rightarrow> bool" where
  "chars_between P lo hi s \<longleftrightarrow> lo \<le> length s \<and> length s \<le> hi \<and> list_all P s"

text \<open>A pattern \<open>^[first][rest]{0,n}$\<close>.\<close>

definition headed_chars :: "(char \<Rightarrow> bool) \<Rightarrow> (char \<Rightarrow> bool) \<Rightarrow> nat \<Rightarrow> string \<Rightarrow> bool" where
  "headed_chars P Q n s =
     (case s of [] \<Rightarrow> False | c # cs \<Rightarrow> P c \<and> length cs \<le> n \<and> list_all Q cs)"

declare chars_between_def [js_eval] headed_chars_def [js_eval]

lemma headed_chars_nonempty: "headed_chars P Q n s \<Longrightarrow> s \<noteq> []"
  by (auto simp: headed_chars_def)

lemma chars_between_nonempty: "chars_between P (Suc lo) hi s \<Longrightarrow> s \<noteq> []"
  by (auto simp: chars_between_def)

text \<open>\<open>String.prototype.trim\<close>, \<open>toLowerCase\<close>, \<open>startsWith\<close>, \<open>split\<close>, \<open>join\<close> on code units below 256.\<close>

definition is_space :: "char \<Rightarrow> bool" where
  "is_space c \<longleftrightarrow> (9 \<le> code c \<and> code c \<le> 13) \<or> code c = 32 \<or> code c = 160"

definition trim :: "string \<Rightarrow> string" where
  "trim s = rev (dropWhile is_space (rev (dropWhile is_space s)))"

definition lower_char :: "char \<Rightarrow> char" where
  "lower_char c =
     (if (65 \<le> code c \<and> code c \<le> 90) \<or> (192 \<le> code c \<and> code c \<le> 222 \<and> code c \<noteq> 215)
      then char_of (code c + 32) else c)"

definition to_lower :: "string \<Rightarrow> string" where
  "to_lower s = map lower_char s"

definition starts_with :: "string \<Rightarrow> string \<Rightarrow> bool" where
  "starts_with p s \<longleftrightarrow> take (length p) s = p"

definition ends_with :: "string \<Rightarrow> string \<Rightarrow> bool" where
  "ends_with p s \<longleftrightarrow> length p \<le> length s \<and> drop (length s - length p) s = p"

declare is_space_def [js_eval] trim_def [js_eval] lower_char_def [js_eval] to_lower_def [js_eval]
  starts_with_def [js_eval] ends_with_def [js_eval]

fun split_on :: "char \<Rightarrow> string \<Rightarrow> string list" where
  "split_on d [] = [[]]"
| "split_on d (c # cs) =
     (if c = d then [] # split_on d cs
      else (case split_on d cs of [] \<Rightarrow> [[c]] | x # xs \<Rightarrow> (c # x) # xs))"

fun join :: "string \<Rightarrow> string list \<Rightarrow> string" where
  "join sep [] = []"
| "join sep [x] = x"
| "join sep (x # y # xs) = x @ sep @ join sep (y # xs)"

lemma split_on_nonempty [simp]: "split_on d s \<noteq> []"
  by (induction s) (auto split: list.splits)

lemma split_on_plain: "d \<notin> set s \<Longrightarrow> split_on d s = [s]"
  by (induction s) auto

lemma split_on_append: "d \<notin> set x \<Longrightarrow> split_on d (x @ d # s) = x # split_on d s"
  by (induction x) auto

lemma split_on_join:
  assumes "xs \<noteq> []" and "\<And>x. x \<in> set xs \<Longrightarrow> d \<notin> set x"
  shows "split_on d (join [d] xs) = xs"
  using assms by (induction "[d]" xs rule: join.induct) (auto simp: split_on_plain split_on_append)

lemma split_on_no_sep: "x \<in> set (split_on d s) \<Longrightarrow> d \<notin> set x"
  by (induction s arbitrary: x) (auto split: if_splits list.splits)

section \<open>Decimal digits\<close>

definition digit_char :: "nat \<Rightarrow> char" where
  "digit_char n = char_of (48 + n mod 10)"

definition digit_val :: "char \<Rightarrow> nat" where
  "digit_val c = code c - 48"

declare digit_char_def [js_eval] digit_val_def [js_eval]

lemma code_char_of [simp]: "n < 256 \<Longrightarrow> code (char_of n) = n"
  by (simp add: code_def)

lemma code_digit_char [simp]: "code (digit_char n) = 48 + n mod 10"
proof -
  have "48 + n mod 10 < 256" by (simp add: order_le_less_trans [of _ "48 + 9"])
  then show ?thesis by (simp add: digit_char_def)
qed

lemma is_digit_digit_char [simp]: "is_digit (digit_char n)"
  by (simp add: is_digit_def)

lemma digit_val_digit_char [simp]: "digit_val (digit_char n) = n mod 10"
  by (simp add: digit_val_def)

lemma digit_val_lt: "is_digit c \<Longrightarrow> digit_val c < 10"
  by (auto simp: is_digit_def digit_val_def)

text \<open>The decimal text of a number with a fixed number of digits, and its value.\<close>

fun dec :: "nat \<Rightarrow> nat \<Rightarrow> string" where
  "dec 0 n = []"
| "dec (Suc w) n = dec w (n div 10) @ [digit_char n]"

definition dec_val :: "string \<Rightarrow> nat" where
  "dec_val s = foldl (\<lambda>a c. 10 * a + digit_val c) 0 s"

declare dec_val_def [js_eval]

lemma length_dec [simp]: "length (dec w n) = w"
  by (induction w arbitrary: n) auto

lemma list_all_digit_dec [simp]: "list_all is_digit (dec w n)"
  by (induction w arbitrary: n) auto

lemma dec_val_snoc [simp]: "dec_val (s @ [c]) = 10 * dec_val s + digit_val c"
  by (simp add: dec_val_def)

lemma dec_val_Nil [simp]: "dec_val [] = 0"
  by (simp add: dec_val_def)

lemma dec_val_dec: "dec_val (dec w n) = n mod 10 ^ w"
proof (induction w arbitrary: n)
  case (Suc w)
  have "10 * ((n div 10) mod 10 ^ w) + n mod 10 = n mod (10 * 10 ^ w)"
    by (metis mod_mult2_eq mult.commute add.commute)
  with Suc show ?case by simp
qed simp

lemma dec_val_dec_small: "n < 10 ^ w \<Longrightarrow> dec_val (dec w n) = n"
  by (simp add: dec_val_dec)

text \<open>The decimal text of an integer, \<open>String(n)\<close>.\<close>

fun nat_text :: "nat \<Rightarrow> string" where
  "nat_text n = (if n < 10 then [digit_char n] else nat_text (n div 10) @ [digit_char n])"

declare nat_text.simps [simp del]

definition int_text :: "int \<Rightarrow> string" where
  "int_text i = (if i < 0 then CHR ''-'' # nat_text (nat (- i)) else nat_text (nat i))"

declare int_text_def [js_eval]

lemma dec_val_nat_text [simp]: "dec_val (nat_text n) = n"
proof (induction n rule: nat_text.induct)
  case (1 n)
  then show ?case by (subst nat_text.simps) (auto simp: dec_val_snoc [of "[]", simplified])
qed

lemma list_all_digit_nat_text [simp]: "list_all is_digit (nat_text n)"
proof (induction n rule: nat_text.induct)
  case (1 n)
  then show ?case by (subst nat_text.simps) auto
qed

lemma nat_text_inject [simp]: "nat_text m = nat_text n \<longleftrightarrow> m = n"
  by (metis dec_val_nat_text)

lemma nat_text_nonempty [simp]: "nat_text n \<noteq> []"
  by (subst nat_text.simps) simp

lemma nat_text_no_minus: "CHR ''-'' \<notin> set (nat_text n)"
proof
  assume "CHR ''-'' \<in> set (nat_text n)"
  then have "is_digit (CHR ''-'')"
    using list_all_digit_nat_text by (auto simp: list_all_iff simp del: list_all_digit_nat_text)
  then show False by (simp add: is_digit_def code_def)
qed

lemma int_text_inject [simp]: "int_text i = int_text j \<longleftrightarrow> i = j"
proof
  assume eq: "int_text i = int_text j"
  show "i = j"
  proof (cases "i < 0 \<longleftrightarrow> j < 0")
    case True
    with eq show ?thesis by (auto simp: int_text_def split: if_splits)
  next
    case False
    have "\<And>m n. CHR ''-'' # nat_text m \<noteq> nat_text n"
      by (metis list.set_intros(1) nat_text_no_minus)
    with eq False show ?thesis by (auto simp: int_text_def split: if_splits dest: sym)
  qed
qed simp

section \<open>Number conversion\<close>

text \<open>
  \<open>Number(s)\<close> on a string: optional white space, then nothing (0), \<open>Infinity\<close>, a hexadecimal,
  octal or binary literal, or a signed decimal literal. A decimal literal is read exactly, without
  the rounding to the nearest double.
\<close>

definition scale10 :: "rat \<Rightarrow> int \<Rightarrow> rat" where
  "scale10 q e = (if 0 \<le> e then q * 10 ^ nat e else q / 10 ^ nat (- e))"

definition parse_exponent :: "string \<Rightarrow> int option" where
  "parse_exponent s =
     (case s of
        [] \<Rightarrow> Some 0
      | c # r \<Rightarrow>
          if c \<noteq> CHR ''e'' \<and> c \<noteq> CHR ''E'' then None
          else (let neg = (r \<noteq> [] \<and> hd r = CHR ''-'');
                    ds = (if r \<noteq> [] \<and> (hd r = CHR ''-'' \<or> hd r = CHR ''+'') then tl r else r)
                in if ds \<noteq> [] \<and> list_all is_digit ds
                   then Some ((if neg then -1 else 1) * int (dec_val ds)) else None))"

definition parse_unsigned :: "string \<Rightarrow> rat option" where
  "parse_unsigned s =
     (let ip = takeWhile is_digit s; r1 = dropWhile is_digit s;
          dot = (r1 \<noteq> [] \<and> hd r1 = CHR ''.'');
          fp = (if dot then takeWhile is_digit (tl r1) else []);
          r2 = (if dot then dropWhile is_digit (tl r1) else r1)
      in if ip = [] \<and> fp = [] then None
         else (case parse_exponent r2 of
                 None \<Rightarrow> None
               | Some e \<Rightarrow> Some (scale10 (of_nat (dec_val (ip @ fp))) (e - int (length fp)))))"

definition hex_val :: "char \<Rightarrow> nat" where
  "hex_val c = (if is_digit c then code c - 48 else if 97 \<le> code c then code c - 87 else code c - 55)"

definition radix_val :: "nat \<Rightarrow> string \<Rightarrow> nat" where
  "radix_val b s = foldl (\<lambda>a c. b * a + hex_val c) 0 s"

definition parse_radix :: "string \<Rightarrow> rat option" where
  "parse_radix s =
     (case s of
        z # x # r \<Rightarrow>
          if z \<noteq> CHR ''0'' \<or> r = [] then None
          else if (x = CHR ''x'' \<or> x = CHR ''X'') \<and> list_all is_hex_any r then Some (of_nat (radix_val 16 r))
          else if (x = CHR ''o'' \<or> x = CHR ''O'') \<and> list_all (\<lambda>c. is_digit c \<and> code c \<le> 55) r
            then Some (of_nat (radix_val 8 r))
          else if (x = CHR ''b'' \<or> x = CHR ''B'') \<and> list_all (\<lambda>c. is_digit c \<and> code c \<le> 49) r
            then Some (of_nat (radix_val 2 r))
          else None
      | _ \<Rightarrow> None)"

definition string_to_number :: "string \<Rightarrow> jsnum" where
  "string_to_number s0 =
     (let s = trim s0;
          neg = (s \<noteq> [] \<and> hd s = CHR ''-'');
          body = (if s \<noteq> [] \<and> (hd s = CHR ''-'' \<or> hd s = CHR ''+'') then tl s else s)
      in if s = [] then Fin 0
         else (case parse_radix s of
                 Some q \<Rightarrow> Fin q
               | None \<Rightarrow>
                   if body = ''Infinity'' then (if neg then NegInf else PosInf)
                   else (case parse_unsigned body of
                           None \<Rightarrow> NaN
                         | Some q \<Rightarrow> Fin (if neg then - q else q))))"

declare scale10_def [js_eval] parse_exponent_def [js_eval] parse_unsigned_def [js_eval]
  hex_val_def [js_eval] radix_val_def [js_eval] parse_radix_def [js_eval] string_to_number_def [js_eval]

text \<open>
  \<open>Number(v)\<close>. An array goes through its text: the empty array is 0, a one-element array converts
  its element (\<open>null\<close> and \<open>undefined\<close> have the empty text there), a longer one contains a comma.
\<close>

fun to_number :: "jsval \<Rightarrow> jsnum" where
  "to_number Undefined = NaN"
| "to_number Null = Fin 0"
| "to_number (Bool b) = Fin (if b then 1 else 0)"
| "to_number (Num n) = n"
| "to_number (Str s) = string_to_number s"
| "to_number (Arr []) = Fin 0"
| "to_number (Arr [Undefined]) = Fin 0"
| "to_number (Arr [Null]) = Fin 0"
| "to_number (Arr [Bool b]) = NaN"
| "to_number (Arr [v]) = to_number v"
| "to_number (Arr (v # w # vs)) = NaN"
| "to_number (Obj _) = NaN"

lemma to_number_safe_jint: "\<bar>i\<bar> \<le> max_safe_integer \<Longrightarrow> num_safe_integer (to_number (jint i)) = Some i"
  by (simp add: num_safe_integer_of_int)

section \<open>Inherited members\<close>

definition OBJECT_MEMBERS :: "string list" where
  \<comment> \<open>the names of what every object inherits, which a property access and \<open>in\<close> find too\<close>
  "OBJECT_MEMBERS = [''constructor'', ''__defineGetter__'', ''__defineSetter__'', ''hasOwnProperty'', ''__lookupGetter__'',
     ''__lookupSetter__'', ''isPrototypeOf'', ''propertyIsEnumerable'', ''toString'', ''valueOf'', ''__proto__'',
     ''toLocaleString'']"

end
