(* ===== verification/JsDates.thy ===== *)
theory JsDates
  imports JsValues
begin

text \<open>
  Dates of the JavaScript standard library. \<open>Date_parse\<close> is \<open>Date.parse\<close> on the ECMAScript
  date-time interchange format (date, or date and time with \<open>Z\<close>, an offset or none; the server's
  local time is UTC), in milliseconds, with \<open>None\<close> for \<open>NaN\<close>; any other text is read as \<open>NaN\<close>.
  \<open>Date_toISOString\<close> is \<open>new Date(t).toISOString()\<close>, with \<open>None\<close> for the \<open>RangeError\<close> of a time
  outside the range of dates. The round trip \<open>Date_parse_iso_text\<close> lets the component theories
  reason about times where the code passes strings.
\<close>

section \<open>The proleptic Gregorian calendar\<close>

definition days_from_civil :: "int \<Rightarrow> int \<Rightarrow> int \<Rightarrow> int" where
  "days_from_civil y m d =
     (let y' = (if m \<le> 2 then y - 1 else y);
          era = y' div 400; yoe = y' mod 400;
          mp = (if m > 2 then m - 3 else m + 9);
          doy = (153 * mp + 2) div 5 + d - 1;
          doe = yoe * 365 + yoe div 4 - yoe div 100 + doy
      in era * 146097 + doe - 719468)"

definition split_days :: "int \<Rightarrow> int \<times> int \<times> int \<times> int \<times> int" where
  \<comment> \<open>era of 400 years, century, four-year cycle, year of it, day of the year from 1 March\<close>
  "split_days z' =
     (let era = z' div 146097; doe = z' mod 146097;
          c = min 3 (doe div 36524); r1 = doe - c * 36524;
          q = min 24 (r1 div 1461); r2 = r1 - q * 1461;
          n = min 3 (r2 div 365)
      in (era, c, q, n, r2 - n * 365))"

definition civil_from_days :: "int \<Rightarrow> int \<times> int \<times> int" where
  "civil_from_days z =
     (case split_days (z + 719468) of (era, c, q, n, doy) \<Rightarrow>
        let mp = (5 * doy + 2) div 153;
            d = doy - (153 * mp + 2) div 5 + 1;
            m = (if mp < 10 then mp + 3 else mp - 9);
            y = era * 400 + 100 * c + 4 * q + n
        in (if m \<le> 2 then y + 1 else y, m, d))"

declare days_from_civil_def [js_eval] split_days_def [js_eval] civil_from_days_def [js_eval]

lemma split_days_parts:
  assumes "split_days z = (era, c, q, n, doy)"
  shows "0 \<le> c" "c \<le> 3" "0 \<le> q" "q \<le> 24" "0 \<le> n" "n \<le> 3" "0 \<le> doy" "doy \<le> 365"
    and "z = 146097 * era + 36524 * c + 1461 * q + 365 * n + doy" and "era = z div 146097"
proof -
  define doe where "doe = z mod 146097"
  define r1 where "r1 = doe - c * 36524"
  define r2 where "r2 = r1 - q * 1461"
  have c: "c = min 3 (doe div 36524)" and q: "q = min 24 (r1 div 1461)"
    and n: "n = min 3 (r2 div 365)" and doy: "doy = r2 - n * 365" and era: "era = z div 146097"
    using assms unfolding split_days_def Let_def doe_def r1_def r2_def prod.inject
    by - (clarify; rule refl)+
  have doe: "0 \<le> doe" "doe < 146097" by (simp_all add: doe_def)
  then show "0 \<le> c" "c \<le> 3" by (auto simp: c)
  have r1: "0 \<le> r1" "r1 \<le> 36524" using doe by (auto simp: r1_def c min_def)
  then show "0 \<le> q" "q \<le> 24" by (auto simp: q)
  have r2: "0 \<le> r2" "r2 \<le> 1460" using r1 by (auto simp: r2_def q min_def)
  then show "0 \<le> n" "n \<le> 3" by (auto simp: n)
  show "0 \<le> doy" "doy \<le> 365" using r2 by (auto simp: doy n min_def)
  have "z = 146097 * era + doe" by (simp add: era doe_def)
  then show "z = 146097 * era + 36524 * c + 1461 * q + 365 * n + doy"
    by (simp add: doy r2_def r1_def)
  show "era = z div 146097" by (rule era)
qed

lemma month_parts:
  fixes doy :: int
  assumes "0 \<le> doy" "doy \<le> 365" and mp: "mp = (5 * doy + 2) div 153"
  shows "0 \<le> mp" "mp \<le> 11" "1 \<le> doy - (153 * mp + 2) div 5 + 1" "doy - (153 * mp + 2) div 5 + 1 \<le> 31"
proof -
  define t where "t = (153 * mp + 2) div 5"
  have b: "153 * mp \<le> 5 * doy + 2" "5 * doy + 2 < 153 * mp + 153"
    unfolding mp by (simp_all add: mult.commute [of 153] minus_mod_eq_div_mult [symmetric] del: minus_mod_eq_mult_div)
  have t: "5 * t \<le> 153 * mp + 2" "153 * mp + 2 < 5 * t + 5"
    unfolding t_def by (simp_all add: mult.commute [of 5] minus_mod_eq_div_mult [symmetric] del: minus_mod_eq_mult_div)
  show "0 \<le> mp" "mp \<le> 11" using b assms(1,2) by linarith+
  show "1 \<le> doy - (153 * mp + 2) div 5 + 1" "doy - (153 * mp + 2) div 5 + 1 \<le> 31"
    using b t unfolding t_def [symmetric] by linarith+
qed

lemma civil_cases:
  assumes "civil_from_days z = (y, m, d)"
  obtains era c q n doy mp where
    "split_days (z + 719468) = (era, c, q, n, doy)" "mp = (5 * doy + 2) div 153"
    "d = doy - (153 * mp + 2) div 5 + 1" "m = (if mp < 10 then mp + 3 else mp - 9)"
    "y = (if m \<le> 2 then 1 else 0) + (era * 400 + 100 * c + 4 * q + n)"
proof -
  obtain era c q n doy where s: "split_days (z + 719468) = (era, c, q, n, doy)"
    by (cases "split_days (z + 719468)")
  define mp where "mp = (5 * doy + 2) div 153"
  show thesis
    by (rule that [OF s mp_def]) (use assms in \<open>auto simp: civil_from_days_def s mp_def [symmetric] Let_def\<close>)
qed

lemma civil_from_days_inverse:
  assumes "civil_from_days z = (y, m, d)"
  shows "days_from_civil y m d = z" and "1 \<le> m" and "m \<le> 12" and "1 \<le> d" and "d \<le> 31"
proof -
  from assms obtain era c q n doy mp where
    s: "split_days (z + 719468) = (era, c, q, n, doy)" and mp_def: "mp = (5 * doy + 2) div 153"
    and d: "d = doy - (153 * mp + 2) div 5 + 1" and m: "m = (if mp < 10 then mp + 3 else mp - 9)"
    and y: "y = (if m \<le> 2 then 1 else 0) + (era * 400 + 100 * c + 4 * q + n)"
    by (rule civil_cases)
  note parts = split_days_parts [OF s]
  note mparts = month_parts [OF parts(7,8) mp_def]
  show "1 \<le> m" "m \<le> 12" using mparts(1,2) by (auto simp: m)
  show "1 \<le> d" "d \<le> 31" using mparts(3,4) by (auto simp: d)
  have yy: "(if m \<le> 2 then y - 1 else y) = (100 * c + 4 * q + n) + era * 400"
    by (simp add: y)
  have bound: "0 \<le> 100 * c + 4 * q + n" "100 * c + 4 * q + n < 400"
    using parts(1-6) by linarith+
  have era: "((100 * c + 4 * q + n) + era * 400) div 400 = era"
    "((100 * c + 4 * q + n) + era * 400) mod 400 = 100 * c + 4 * q + n"
    using bound by simp_all
  have mp: "(if m > 2 then m - 3 else m + 9) = mp"
    using mparts(1,2) by (auto simp: m)
  have four: "(100 * c + 4 * q + n) div 4 = 25 * c + q"
    using parts(5,6) by linarith
  have hundred: "(100 * c + 4 * q + n) div 100 = c"
    using parts(3-6) by linarith
  have "days_from_civil y m d =
      era * 146097 + ((100 * c + 4 * q + n) * 365 + (25 * c + q) - c + ((153 * mp + 2) div 5 + d - 1)) - 719468"
    unfolding days_from_civil_def Let_def yy era mp four hundred ..
  also have "\<dots> = z"
    using parts(9) by (simp add: d)
  finally show "days_from_civil y m d = z" .
qed

lemma civil_year_bounds:
  assumes "civil_from_days z = (y, m, d)" "\<bar>z\<bar> \<le> 100000000"
  shows "\<bar>y\<bar> \<le> 276000"
proof -
  from assms(1) obtain era c q n doy mp where
    s: "split_days (z + 719468) = (era, c, q, n, doy)"
    and y: "y = (if m \<le> 2 then 1 else 0) + (era * 400 + 100 * c + 4 * q + n)"
    by (rule civil_cases)
  note parts = split_days_parts [OF s]
  have "-680 \<le> era" "era \<le> 689"
    using assms(2) parts(1-9) by linarith+
  then show ?thesis using parts(1-6) by (simp add: y abs_le_iff)
qed

section \<open>Reading and writing the interchange format\<close>

definition take_digits :: "nat \<Rightarrow> string \<Rightarrow> (int \<times> string) option" where
  "take_digits n s =
     (if n \<le> length s \<and> list_all is_digit (take n s)
      then Some (int (dec_val (take n s)), drop n s) else None)"

definition take_after :: "char \<Rightarrow> string \<Rightarrow> (int \<times> string) option" where
  \<comment> \<open>a separator followed by two digits\<close>
  "take_after c s = (case s of [] \<Rightarrow> None | x # r \<Rightarrow> if x = c then take_digits 2 r else None)"

definition next_is :: "char \<Rightarrow> string \<Rightarrow> bool" where
  "next_is c s = (case s of [] \<Rightarrow> False | x # _ \<Rightarrow> x = c)"

definition parse_year :: "string \<Rightarrow> (int \<times> string) option" where
  "parse_year s =
     (if next_is CHR ''+'' s then take_digits 6 (tl s)
      else if next_is CHR ''-'' s then
        (case take_digits 6 (tl s) of
           None \<Rightarrow> None
         | Some (n, r) \<Rightarrow> if n = 0 then None else Some (- n, r))
      else take_digits 4 s)"

definition parse_fraction :: "string \<Rightarrow> (int \<times> string) option" where
  \<comment> \<open>fraction of a second, truncated to milliseconds\<close>
  "parse_fraction s =
     (let ds = takeWhile is_digit s
      in if ds = [] then None
         else Some (int (dec_val (take 3 (ds @ ''000''))), dropWhile is_digit s))"

definition parse_offset :: "string \<Rightarrow> int option" where
  \<comment> \<open>offset from UTC in minutes\<close>
  "parse_offset s =
     (if s = [] \<or> s = ''Z'' then Some 0
      else if next_is CHR ''+'' s \<or> next_is CHR ''-'' s then
        do {
          (h, r1) \<leftarrow> take_digits 2 (tl s);
          (m, r2) \<leftarrow> take_after CHR '':'' r1;
          if r2 = [] \<and> h \<le> 23 \<and> m \<le> 59
          then Some ((if next_is CHR ''-'' s then -1 else 1) * (h * 60 + m)) else None
        }
      else None)"

definition parse_time :: "string \<Rightarrow> int option" where
  "parse_time r = do {
     (h, r1) \<leftarrow> take_digits 2 r;
     (mi, r2) \<leftarrow> take_after CHR '':'' r1;
     (se, ms, r3) \<leftarrow>
       (if next_is CHR '':'' r2 then
          do {
            (se, r3) \<leftarrow> take_after CHR '':'' r2;
            if next_is CHR ''.'' r3 then
              do { (ms, r4) \<leftarrow> parse_fraction (tl r3); Some (se, ms, r4) }
            else Some (se, 0, r3)
          }
        else Some (0, 0, r2));
     off \<leftarrow> parse_offset r3;
     if mi \<le> 59 \<and> se \<le> 59 \<and> (h \<le> 23 \<or> (h = 24 \<and> mi = 0 \<and> se = 0 \<and> ms = 0))
     then Some (h * 3600000 + mi * 60000 + se * 1000 + ms - off * 60000) else None
   }"

definition max_time :: int where
  "max_time = 8640000000000000"

definition Date_parse :: "string \<Rightarrow> int option" where
  "Date_parse s = do {
     (y, r1) \<leftarrow> parse_year s;
     (m, r2) \<leftarrow> (if next_is CHR ''-'' r1 then take_after CHR ''-'' r1 else Some (1, r1));
     (d, r3) \<leftarrow> (if next_is CHR ''-'' r2 then take_after CHR ''-'' r2 else Some (1, r2));
     tod \<leftarrow> (if r3 = [] then Some 0 else if next_is CHR ''T'' r3 then parse_time (tl r3) else None);
     let t = days_from_civil y m d * 86400000 + tod
     in if 1 \<le> m \<and> m \<le> 12 \<and> 1 \<le> d \<and> d \<le> 31 \<and> \<bar>t\<bar> \<le> max_time then Some t else None
   }"

definition year_text :: "int \<Rightarrow> string" where
  "year_text y =
     (if 0 \<le> y \<and> y \<le> 9999 then dec 4 (nat y)
      else if y < 0 then CHR ''-'' # dec 6 (nat (- y)) else CHR ''+'' # dec 6 (nat y))"

definition iso_text :: "int \<Rightarrow> string" where
  "iso_text t =
     (let days = t div 86400000; tod = t mod 86400000
      in case civil_from_days days of (y, m, d) \<Rightarrow>
         year_text y @ CHR ''-'' # dec 2 (nat m) @ CHR ''-'' # dec 2 (nat d) @
         CHR ''T'' # dec 2 (nat (tod div 3600000)) @
         CHR '':'' # dec 2 (nat (tod div 60000 mod 60)) @
         CHR '':'' # dec 2 (nat (tod div 1000 mod 60)) @
         CHR ''.'' # dec 3 (nat (tod mod 1000)) @ ''Z'')"

definition Date_toISOString :: "int \<Rightarrow> string option" where
  "Date_toISOString t = (if \<bar>t\<bar> \<le> max_time then Some (iso_text t) else None)"

declare take_digits_def [js_eval] take_after_def [js_eval] next_is_def [js_eval]
  parse_year_def [js_eval] parse_fraction_def [js_eval] parse_offset_def [js_eval]
  parse_time_def [js_eval] max_time_def [js_eval] Date_parse_def [js_eval] year_text_def [js_eval]
  iso_text_def [js_eval] Date_toISOString_def [js_eval]

lemma take_digits_dec [simp]:
  "n < 10 ^ w \<Longrightarrow> take_digits w (dec w n @ r) = Some (int n, r)"
  by (simp add: take_digits_def dec_val_dec_small)

lemma take_after_dec [simp]:
  "n < 100 \<Longrightarrow> take_after c (c # dec 2 n @ r) = Some (int n, r)"
  by (simp add: take_after_def)

lemma next_is_Cons [simp]: "next_is c (x # r) \<longleftrightarrow> x = c"
  by (simp add: next_is_def)

lemma next_is_dec [simp]:
  assumes "\<not> is_digit c" "0 < w"
  shows "\<not> next_is c (dec w n @ r)"
proof (cases "dec w n")
  case Nil
  then have "length (dec w n) = 0" by simp
  with assms show ?thesis by simp
next
  case (Cons x xs)
  with list_all_digit_dec [of w n] assms show ?thesis by (auto simp del: list_all_digit_dec)
qed

lemma not_digits [simp]:
  "\<not> is_digit (CHR ''+'')" "\<not> is_digit (CHR ''-'')" "\<not> is_digit (CHR ''Z'')" "\<not> is_digit (CHR ''T'')"
  "\<not> is_digit (CHR '':'')" "\<not> is_digit (CHR ''.'')"
  by (simp_all add: is_digit_def code_def)

lemma parse_year_text:
  assumes "\<bar>y\<bar> < 1000000"
  shows "parse_year (year_text y @ r) = Some (y, r)"
proof -
  consider "0 \<le> y" "y \<le> 9999" | "y < 0" | "y > 9999" by linarith
  then show ?thesis
  proof cases
    case 1
    have "\<not> next_is (CHR ''+'') (dec 4 (nat y) @ r)" "\<not> next_is (CHR ''-'') (dec 4 (nat y) @ r)"
      by (simp_all del: dec.simps)
    with 1 show ?thesis by (simp add: year_text_def parse_year_def)
  next
    case 2
    with assms show ?thesis by (simp add: year_text_def parse_year_def)
  next
    case 3
    with assms show ?thesis by (simp add: year_text_def parse_year_def)
  qed
qed

lemma parse_fraction_dec: "n < 1000 \<Longrightarrow> parse_fraction (dec 3 n @ ''Z'') = Some (int n, ''Z'')"
proof -
  assume n: "n < 1000"
  have ds: "\<And>x. x \<in> set (dec 3 n) \<Longrightarrow> is_digit x"
    using list_all_digit_dec [of 3 n] by (simp add: list_all_iff del: list_all_digit_dec)
  have "takeWhile is_digit (dec 3 n @ ''Z'') = dec 3 n"
    "dropWhile is_digit (dec 3 n @ ''Z'') = ''Z''"
    using ds by (simp_all add: takeWhile_append2 dropWhile_append2)
  moreover have "dec 3 n \<noteq> []"
    by (metis length_dec list.size(3) zero_neq_numeral)
  ultimately show ?thesis
    using n by (simp add: parse_fraction_def dec_val_dec_small)
qed

lemma parse_time_iso:
  assumes "0 \<le> tod" "tod < 86400000"
  shows "parse_time (dec 2 (nat (tod div 3600000)) @
         CHR '':'' # dec 2 (nat (tod div 60000 mod 60)) @
         CHR '':'' # dec 2 (nat (tod div 1000 mod 60)) @
         CHR ''.'' # dec 3 (nat (tod mod 1000)) @ ''Z'') = Some tod"
proof -
  define h where "h = tod div 3600000"
  define mi where "mi = tod div 60000 mod 60"
  define se where "se = tod div 1000 mod 60"
  define ms where "ms = tod mod 1000"
  have h: "0 \<le> h" "h \<le> 23" using assms by (auto simp: h_def)
  have mi: "0 \<le> mi" "mi \<le> 59" by (auto simp: mi_def)
  have se: "0 \<le> se" "se \<le> 59" by (auto simp: se_def)
  have ms: "0 \<le> ms" "ms < 1000" by (auto simp: ms_def)
  have sum: "h * 3600000 + mi * 60000 + se * 1000 + ms = tod"
  proof -
    define a where "a = tod div 1000"
    define b where "b = a div 60"
    have "tod div 60000 = b" "tod div 3600000 = b div 60"
      by (simp_all add: a_def b_def zdiv_zmult2_eq [symmetric])
    then have "mi = b mod 60" "h = b div 60" "se = a mod 60" by (simp_all add: mi_def h_def se_def a_def)
    moreover have "tod = a * 1000 + ms" by (simp add: a_def ms_def)
    moreover have "a = b * 60 + a mod 60" by (simp add: b_def)
    moreover have "b = b div 60 * 60 + b mod 60" by simp
    ultimately show ?thesis by linarith
  qed
  have off: "parse_offset ''Z'' = Some 0" by (simp add: parse_offset_def)
  show ?thesis
    unfolding h_def [symmetric] mi_def [symmetric] se_def [symmetric] ms_def [symmetric]
    using h mi se ms sum
    by (simp add: parse_time_def parse_fraction_dec off)
qed

lemma Date_parse_iso_text [simp]:
  assumes "\<bar>t\<bar> \<le> max_time"
  shows "Date_parse (iso_text t) = Some t"
proof -
  define days where "days = t div 86400000"
  define tod where "tod = t mod 86400000"
  obtain y m d where c: "civil_from_days days = (y, m, d)" by (cases "civil_from_days days")
  note inv = civil_from_days_inverse [OF c]
  have tod: "0 \<le> tod" "tod < 86400000" by (simp_all add: tod_def)
  have days: "\<bar>days\<bar> \<le> 100000000"
    using assms unfolding days_def max_time_def by linarith
  have year: "\<bar>y\<bar> < 1000000" using civil_year_bounds [OF c days] by simp
  have t: "days * 86400000 + tod = t" by (simp add: days_def tod_def)
  have m: "nat m < 100" "int (nat m) = m" and d: "nat d < 100" "int (nat d) = d"
    using inv by auto
  show ?thesis
    unfolding iso_text_def Let_def days_def [symmetric] tod_def [symmetric] c prod.case Date_parse_def
    using parse_year_text [OF year] parse_time_iso [OF tod] inv t assms m d
    by simp
qed

lemma Date_toISOString_SomeD:
  "Date_toISOString t = Some s \<Longrightarrow> Date_parse s = Some t"
  by (auto simp: Date_toISOString_def split: if_splits)

lemma Date_toISOString_defined: "Date_toISOString t = None \<longleftrightarrow> max_time < \<bar>t\<bar>"
  by (auto simp: Date_toISOString_def)

lemma Date_parse_bound: "Date_parse s = Some t \<Longrightarrow> \<bar>t\<bar> \<le> max_time"
  by (auto simp: Date_parse_def Let_def bind_eq_Some_conv split: if_splits prod.splits)

text \<open>The arithmetic value of a timestamp in the comparators of sorts over validated rows.\<close>

definition ms_of :: "string \<Rightarrow> int" where
  "ms_of s = (case Date_parse s of None \<Rightarrow> 0 | Some t \<Rightarrow> t)"

lemma ms_of_parse [simp]: "Date_parse s = Some t \<Longrightarrow> ms_of s = t"
  by (simp add: ms_of_def)

text \<open>Comparisons of times: false when a side is \<open>NaN\<close>.\<close>

fun nan_le :: "int option \<Rightarrow> int option \<Rightarrow> bool" where
  "nan_le (Some a) (Some b) = (a \<le> b)"
| "nan_le _ _ = False"

fun nan_less :: "int option \<Rightarrow> int option \<Rightarrow> bool" where
  "nan_less (Some a) (Some b) = (a < b)"
| "nan_less _ _ = False"

lemma nan_le_iff: "nan_le a b \<longleftrightarrow> (\<exists>x y. a = Some x \<and> b = Some y \<and> x \<le> y)"
  by (cases "(a, b)" rule: nan_le.cases) auto

lemma nan_less_iff: "nan_less a b \<longleftrightarrow> (\<exists>x y. a = Some x \<and> b = Some y \<and> x < y)"
  by (cases "(a, b)" rule: nan_less.cases) auto

text \<open>Instants of the examples, evaluated once.\<close>

lemma sample_instants:
  "Date_parse ''2026-01-01T00:00:00Z'' = Some 1767225600000 \<and>
   Date_parse ''2026-01-01T00:00:02Z'' = Some 1767225602000 \<and>
   Date_parse ''2026-01-01T01:00:00Z'' = Some 1767229200000 \<and>
   Date_parse ''2026-01-02T00:00:00Z'' = Some 1767312000000 \<and>
   Date_parse ''2026-01-02T01:00:00Z'' = Some 1767315600000 \<and>
   Date_parse ''2026-01-01T00:00:00+00:00'' = Some 1767225600000 \<and>
   Date_parse ''2026-01-02T00:00:00+00:00'' = Some 1767312000000 \<and>
   Date_parse ''2026-02-31T00:00Z'' = Some 1772496000000 \<and>
   Date_parse ''2026-06-01T00:00:00Z'' = Some 1780272000000 \<and>
   Date_parse ''2026-07-01T08:00:00.000Z'' = Some 1782892800000 \<and>
   Date_parse ''2026-07-01T08:05:00.000Z'' = Some 1782893100000 \<and>
   Date_parse ''2026-07-01T10:00:00.000Z'' = Some 1782900000000 \<and>
   Date_parse ''2026-07-01T10:00:05.000Z'' = Some 1782900005000 \<and>
   Date_parse ''2026-07-01T11:00:00.000Z'' = Some 1782903600000 \<and>
   Date_parse ''2026-07-01T11:59:55.000Z'' = Some 1782907195000 \<and>
   Date_parse ''2026-07-01T12:00:00.000Z'' = Some 1782907200000 \<and>
   Date_parse ''2023-11-14T22:10:00Z'' = Some 1699999800000 \<and>
   Date_parse ''2023-11-14T22:12:00Z'' = Some 1699999920000 \<and>
   Date_parse ''2023-11-14T22:13:20Z'' = Some 1700000000000 \<and>
   Date_parse ''2023-11-14T22:13:20.000000Z'' = Some 1700000000000"
  by code_simp

lemma Date_parse_Nil: "Date_parse [] = None"
  by code_simp

end
