(* ===== verification/Monitoring.thy ===== *)
theory Monitoring
  imports JsDates "HOL-Library.List_Lexorder" "HOL-Library.Char_ord" "HOL-Library.Product_Lexorder"
begin

text \<open>
  The monitoring snapshot (\<open>apps/web/lib/monitoring.ts\<close>): the status of every host from the age
  of its last heartbeat, and the status of every container from the age of its last sample, its
  expectation row and its maintenance mode. The rows are what the database API returned; the
  collation key of \<open>localeCompare\<close> is a parameter of the snapshot.
\<close>

section \<open>Rows and views\<close>

datatype host_status = HostOnline | HostOffline | HostStale

datatype container_status =
  CtOnline | CtOffline | CtStale | CtError | CtStandby | CtMaintenance

datatype container_state =
  CreatedState | RunningState | PausedState | RestartingState | RemovingState | ExitedState | DeadState | UnknownState | NotFoundState

datatype container_health =
  StartingHealth | HealthyHealth | UnhealthyHealth | NoneHealth | UnknownHealth

datatype expected_state = ExpectRunning | ExpectStopped | ExpectAbsent

record host_row =
  hr_id :: string
  hr_server_id :: string
  hr_display_name :: string
  hr_provider :: string
  hr_environment :: string
  hr_enabled :: bool

record heartbeat_row =
  hb_host_id :: string
  hb_agent_version :: string
  hb_received_at :: string
  hb_sent_at :: string
  hb_cpu_count :: rat
  hb_memory_total_bytes :: rat
  hb_memory_available_bytes :: rat
  hb_disk_total_bytes :: rat
  hb_disk_available_bytes :: rat
  hb_load_average_1 :: rat
  hb_load_average_5 :: rat
  hb_load_average_15 :: rat
  hb_uptime_seconds :: rat

record container_sample_row =
  cs_host_id :: string
  cs_container_name :: string
  cs_state :: container_state
  cs_health :: container_health
  cs_restart_count :: rat
  cs_oom_killed :: bool
  cs_exit_code :: "rat option"
  cs_cpu_percent :: "rat option"
  cs_memory_usage_bytes :: "rat option"
  cs_memory_limit_bytes :: "rat option"
  cs_network_rx_bytes :: "rat option"
  cs_network_tx_bytes :: "rat option"
  cs_block_read_bytes :: "rat option"
  cs_block_write_bytes :: "rat option"
  cs_pids :: "rat option"
  cs_received_at :: string

record container_expectation_row =
  ce_host_id :: string
  ce_container_name :: string
  ce_expected_state :: expected_state
  ce_maintenance_mode :: bool
  ce_maintenance_reason :: "string option"
  ce_maintenance_until :: "string option"

record host_overview =
  ho_id :: string
  ho_serverId :: string
  ho_displayName :: string
  ho_provider :: string
  ho_environment :: string
  ho_status :: host_status
  ho_agentVersion :: "string option"
  ho_receivedAt :: "string option"
  ho_sentAt :: "string option"
  ho_ageSeconds :: "int option"
  ho_cpuCount :: "rat option"
  ho_memoryTotalBytes :: "rat option"
  ho_memoryAvailableBytes :: "rat option"
  ho_diskTotalBytes :: "rat option"
  ho_diskAvailableBytes :: "rat option"
  ho_loadAverage1 :: "rat option"
  ho_loadAverage5 :: "rat option"
  ho_loadAverage15 :: "rat option"
  ho_uptimeSeconds :: "rat option"

record container_overview =
  co_hostId :: string
  co_hostDisplayName :: string
  co_name :: string
  co_status :: container_status
  co_state :: container_state
  co_health :: container_health
  co_restartCount :: rat
  co_oomKilled :: bool
  co_exitCode :: "rat option"
  co_cpuPercent :: "rat option"
  co_memoryUsageBytes :: "rat option"
  co_memoryLimitBytes :: "rat option"
  co_networkRxBytes :: "rat option"
  co_networkTxBytes :: "rat option"
  co_blockReadBytes :: "rat option"
  co_blockWriteBytes :: "rat option"
  co_pids :: "rat option"
  co_receivedAt :: string
  co_ageSeconds :: int
  co_expectedState :: "expected_state option"
  co_maintenanceMode :: bool
  co_maintenanceActive :: bool
  co_maintenanceReason :: "string option"
  co_maintenanceUntil :: "string option"

record monitoring_snapshot =
  ms_hosts :: "host_overview list"
  ms_containers :: "container_overview list"
  ms_generatedAt :: string

section \<open>Statuses\<close>

definition ONLINE_THRESHOLD_SECONDS :: int where
  "ONLINE_THRESHOLD_SECONDS = 45"

definition STALE_THRESHOLD_SECONDS :: int where
  "STALE_THRESHOLD_SECONDS = 180"

definition age_seconds :: "string \<Rightarrow> int \<Rightarrow> int option" where
  \<comment> \<open>\<open>now\<close> in milliseconds\<close>
  "age_seconds timestamp now =
     (case Date_parse timestamp of
        None \<Rightarrow> None
      | Some ms \<Rightarrow> Some (max 0 ((now - ms) div 1000)))"

definition determineHostStatus :: "int option \<Rightarrow> host_status" where
  "determineHostStatus age =
     (case age of
        None \<Rightarrow> HostOffline
      | Some a \<Rightarrow>
          if a > STALE_THRESHOLD_SECONDS then HostOffline
          else if a > ONLINE_THRESHOLD_SECONDS then HostStale
          else HostOnline)"

definition isMaintenanceActive :: "container_expectation_row option \<Rightarrow> int \<Rightarrow> bool" where
  "isMaintenanceActive expectation now =
     (case expectation of
        None \<Rightarrow> False
      | Some e \<Rightarrow>
          if \<not> ce_maintenance_mode e then False
          else (case ce_maintenance_until e of
                  None \<Rightarrow> True
                | Some until \<Rightarrow>
                    if until = [] then True
                    else nan_less (Some now) (Date_parse until)))"

definition determineContainerStatus ::
  "container_sample_row \<Rightarrow> int \<Rightarrow> container_expectation_row option \<Rightarrow> int \<Rightarrow> container_status" where
  "determineContainerStatus c age expectation now =
     (if age > STALE_THRESHOLD_SECONDS then CtOffline
      else if age > ONLINE_THRESHOLD_SECONDS then CtStale
      else if isMaintenanceActive expectation now then CtMaintenance
      else (case map_option ce_expected_state expectation of
         Some ExpectStopped \<Rightarrow>
           if cs_state c = ExitedState \<or> cs_state c = CreatedState then CtStandby else CtError
       | Some ExpectAbsent \<Rightarrow>
           if cs_state c = NotFoundState then CtStandby else CtError
       | Some ExpectRunning \<Rightarrow>
           if cs_oom_killed c \<or> cs_health c = UnhealthyHealth \<or>
              cs_state c \<in> {DeadState, ExitedState, CreatedState, RemovingState, NotFoundState, UnknownState}
           then CtError
           else if cs_state c = RestartingState \<or> cs_state c = PausedState \<or>
              cs_health c = StartingHealth \<or> cs_health c = UnknownHealth
           then CtStale
           else if cs_state c = RunningState then CtOnline else CtError
       | None \<Rightarrow>
           if cs_oom_killed c \<or> cs_health c = UnhealthyHealth \<or> cs_state c = DeadState
           then CtError
           else if cs_state c = RestartingState \<or> cs_state c = PausedState \<or> cs_health c = StartingHealth
           then CtStale
           else if cs_state c = RunningState then CtOnline else CtOffline))"

section \<open>The snapshot\<close>

definition container_key :: "string \<Rightarrow> string \<Rightarrow> string" where
  "container_key host_id name = host_id @ '':'' @ name"

text \<open>The loops that keep the first row of a key: rows arrive newest first.\<close>

definition keep_first :: "('a \<Rightarrow> 'k) \<Rightarrow> ('a \<Rightarrow> bool) \<Rightarrow> 'a list \<Rightarrow> ('k \<times> 'a) list" where
  "keep_first key ok rows =
     foldl (\<lambda>m r. if map_of m (key r) = None \<and> ok r then map_set (key r) r m else m) [] rows"

definition latest_by_host :: "heartbeat_row list \<Rightarrow> (string \<times> heartbeat_row) list" where
  "latest_by_host heartbeats = keep_first hb_host_id (\<lambda>_. True) heartbeats"

definition host_name_by_id :: "host_row list \<Rightarrow> (string \<times> host_row) list" where
  "host_name_by_id hosts = index_by hr_id hosts"

definition latest_container_by_key ::
  "host_row list \<Rightarrow> container_sample_row list \<Rightarrow> (string \<times> container_sample_row) list" where
  "latest_container_by_key hosts samples =
     keep_first (\<lambda>c. container_key (cs_host_id c) (cs_container_name c))
       (\<lambda>c. map_of (host_name_by_id hosts) (cs_host_id c) \<noteq> None) samples"

definition expectation_by_key ::
  "container_expectation_row list \<Rightarrow> (string \<times> container_expectation_row) list" where
  "expectation_by_key rows = index_by (\<lambda>e. container_key (ce_host_id e) (ce_container_name e)) rows"

definition host_view :: "int \<Rightarrow> heartbeat_row list \<Rightarrow> host_row \<Rightarrow> host_overview" where
  "host_view now heartbeats host =
     (let heartbeat = map_of (latest_by_host heartbeats) (hr_id host);
          age = Option.bind heartbeat (\<lambda>h. age_seconds (hb_received_at h) now)
      in \<lparr> ho_id = hr_id host, ho_serverId = hr_server_id host, ho_displayName = hr_display_name host,
           ho_provider = hr_provider host, ho_environment = hr_environment host,
           ho_status = determineHostStatus age,
           ho_agentVersion = map_option hb_agent_version heartbeat,
           ho_receivedAt = map_option hb_received_at heartbeat,
           ho_sentAt = map_option hb_sent_at heartbeat, ho_ageSeconds = age,
           ho_cpuCount = map_option hb_cpu_count heartbeat,
           ho_memoryTotalBytes = map_option hb_memory_total_bytes heartbeat,
           ho_memoryAvailableBytes = map_option hb_memory_available_bytes heartbeat,
           ho_diskTotalBytes = map_option hb_disk_total_bytes heartbeat,
           ho_diskAvailableBytes = map_option hb_disk_available_bytes heartbeat,
           ho_loadAverage1 = map_option hb_load_average_1 heartbeat,
           ho_loadAverage5 = map_option hb_load_average_5 heartbeat,
           ho_loadAverage15 = map_option hb_load_average_15 heartbeat,
           ho_uptimeSeconds = map_option hb_uptime_seconds heartbeat \<rparr>)"

definition container_view ::
  "int \<Rightarrow> host_row list \<Rightarrow> container_expectation_row list \<Rightarrow> container_sample_row \<Rightarrow> container_overview" where
  "container_view now hosts expectations c =
     (let age = (case age_seconds (cs_received_at c) now of None \<Rightarrow> STALE_THRESHOLD_SECONDS + 1 | Some a \<Rightarrow> a);
          expectation = map_of (expectation_by_key expectations)
            (container_key (cs_host_id c) (cs_container_name c))
      in \<lparr> co_hostId = cs_host_id c,
           co_hostDisplayName = (case map_of (host_name_by_id hosts) (cs_host_id c) of
              None \<Rightarrow> ''Unknown Host'' | Some h \<Rightarrow> hr_display_name h),
           co_name = cs_container_name c,
           co_status = determineContainerStatus c age expectation now,
           co_state = cs_state c, co_health = cs_health c, co_restartCount = cs_restart_count c,
           co_oomKilled = cs_oom_killed c, co_exitCode = cs_exit_code c, co_cpuPercent = cs_cpu_percent c,
           co_memoryUsageBytes = cs_memory_usage_bytes c, co_memoryLimitBytes = cs_memory_limit_bytes c,
           co_networkRxBytes = cs_network_rx_bytes c, co_networkTxBytes = cs_network_tx_bytes c,
           co_blockReadBytes = cs_block_read_bytes c, co_blockWriteBytes = cs_block_write_bytes c,
           co_pids = cs_pids c, co_receivedAt = cs_received_at c, co_ageSeconds = age,
           co_expectedState = map_option ce_expected_state expectation,
           co_maintenanceMode = (case expectation of None \<Rightarrow> False | Some e \<Rightarrow> ce_maintenance_mode e),
           co_maintenanceActive = isMaintenanceActive expectation now,
           co_maintenanceReason = Option.bind expectation ce_maintenance_reason,
           co_maintenanceUntil = Option.bind expectation ce_maintenance_until \<rparr>)"

definition getMonitoringSnapshot ::
  "(string \<Rightarrow> string) \<Rightarrow> int \<Rightarrow> host_row list \<Rightarrow> heartbeat_row list \<Rightarrow>
   container_sample_row list \<Rightarrow> container_expectation_row list \<Rightarrow> monitoring_snapshot" where
  "getMonitoringSnapshot collate now hosts heartbeats samples expectations =
     \<lparr> ms_hosts = map (host_view now heartbeats) hosts,
       ms_containers =
         sort_key (\<lambda>c. collate (co_hostDisplayName c @ '':'' @ co_name c))
           (map (container_view now hosts expectations)
             (map_values (latest_container_by_key hosts samples))),
       ms_generatedAt = iso_text now \<rparr>"

section \<open>Lemmas\<close>

lemma keep_first_snoc:
  "keep_first key ok (rows @ [r]) =
     (if map_of (keep_first key ok rows) (key r) = None \<and> ok r
      then map_set (key r) r (keep_first key ok rows) else keep_first key ok rows)"
  by (simp add: keep_first_def)

lemma keep_first_Nil [simp]: "keep_first key ok [] = []"
  by (simp add: keep_first_def)

lemma map_of_keep_first:
  "map_of (keep_first key ok rows) k = List.find (\<lambda>r. key r = k \<and> ok r) rows"
proof (induction rows rule: rev_induct)
  case (snoc r rows)
  have app: "List.find P (xs @ [x]) =
      (case List.find P xs of None \<Rightarrow> if P x then Some x else None | Some y \<Rightarrow> Some y)"
    for P :: "'a \<Rightarrow> bool" and xs x by (induction xs) auto
  from snoc show ?case
    by (auto simp: keep_first_snoc app update_conv split: option.splits)
qed simp

lemma distinct_keep_first [simp]: "distinct (map_keys (keep_first key ok rows))"
  by (induction rows rule: rev_induct) (auto simp: keep_first_snoc distinct_update)

lemma keep_first_memD:
  assumes "(k, r) \<in> set (keep_first key ok rows)"
  shows "List.find (\<lambda>r. key r = k \<and> ok r) rows = Some r"
proof -
  from assms have "map_of (keep_first key ok rows) k = Some r" by (intro map_of_is_SomeI) simp_all
  then show ?thesis by (simp add: map_of_keep_first)
qed

lemma determineHostStatus_iff:
  "determineHostStatus age = HostOnline \<longleftrightarrow> (\<exists>a. age = Some a \<and> a \<le> 45)"
  "determineHostStatus age = HostStale \<longleftrightarrow> (\<exists>a. age = Some a \<and> 45 < a \<and> a \<le> 180)"
  "determineHostStatus age = HostOffline \<longleftrightarrow> (\<forall>a. age = Some a \<longrightarrow> 180 < a)"
  by (auto simp: determineHostStatus_def STALE_THRESHOLD_SECONDS_def ONLINE_THRESHOLD_SECONDS_def
      split: option.splits)

lemma determineContainerStatus_fresh:
  assumes "determineContainerStatus c age e now \<in> {CtOnline, CtError, CtStandby, CtMaintenance}"
  shows "age \<le> 45"
  using assms by (auto simp: determineContainerStatus_def STALE_THRESHOLD_SECONDS_def
      ONLINE_THRESHOLD_SECONDS_def split: if_splits)

lemma determineContainerStatus_maintenance_iff:
  "determineContainerStatus c age e now = CtMaintenance \<longleftrightarrow> age \<le> 45 \<and> isMaintenanceActive e now"
  by (auto simp: determineContainerStatus_def STALE_THRESHOLD_SECONDS_def
      ONLINE_THRESHOLD_SECONDS_def split: option.splits expected_state.splits)

lemma keep_first_values:
  "set (map_values (keep_first key ok rows)) = {r. \<exists>k. List.find (\<lambda>r. key r = k \<and> ok r) rows = Some r}"
  (is "?l = ?r")
proof
  show "?l \<subseteq> ?r" using keep_first_memD by fastforce
  show "?r \<subseteq> ?l"
  proof
    fix r
    assume "r \<in> ?r"
    then obtain k where "map_of (keep_first key ok rows) k = Some r"
      by (auto simp: map_of_keep_first)
    then have "(k, r) \<in> set (keep_first key ok rows)" by (rule map_of_SomeD)
    then show "r \<in> ?l" by force
  qed
qed

section \<open>Properties\<close>

text \<open>A host is online when its newest heartbeat (the first row of the feed for that host) was
  received less than 46 seconds before now, stale when it is older but less than 181 seconds, and
  offline otherwise: when it is older still, has no readable time, or there is no heartbeat.\<close>

theorem host_status_by_heartbeat_age:
  fixes now :: int and heartbeats :: "heartbeat_row list" and host :: host_row
  defines "received \<equiv> (case List.find (\<lambda>h. hb_host_id h = hr_id host) heartbeats of
      None \<Rightarrow> None | Some h \<Rightarrow> Date_parse (hb_received_at h))"
  shows "ho_status (host_view now heartbeats host) =
    (case received of
       None \<Rightarrow> HostOffline
     | Some t \<Rightarrow> if now - t < 46000 then HostOnline
                else if now - t < 181000 then HostStale else HostOffline)"
  unfolding received_def
  by (auto simp: host_view_def latest_by_host_def map_of_keep_first age_seconds_def Let_def
      determineHostStatus_def STALE_THRESHOLD_SECONDS_def ONLINE_THRESHOLD_SECONDS_def
      split: option.splits)

text \<open>A container is shown online exactly when its sample is at most 45 seconds old, it is not
  under active maintenance, it runs, was not killed for memory, is neither unhealthy nor starting,
  and its expectation row (if any) expects it to run, in which case its health is known.\<close>

theorem container_online_iff:
  "determineContainerStatus c age expectation now = CtOnline \<longleftrightarrow>
     age \<le> 45 \<and> \<not> isMaintenanceActive expectation now \<and> cs_state c = RunningState \<and>
     \<not> cs_oom_killed c \<and> cs_health c \<notin> {UnhealthyHealth, StartingHealth} \<and>
     (case expectation of
        None \<Rightarrow> True
      | Some e \<Rightarrow> ce_expected_state e = ExpectRunning \<and> cs_health c \<noteq> UnknownHealth)"
  by (cases expectation; cases "map_option ce_expected_state expectation")
    (auto simp: determineContainerStatus_def STALE_THRESHOLD_SECONDS_def
      ONLINE_THRESHOLD_SECONDS_def split: option.splits expected_state.splits)

text \<open>The snapshot shows every host row once, in order, and of every container of a known host
  exactly its newest sample (the first row of its key), no two views with the same key.\<close>

theorem snapshot_newest_sample_per_container:
  fixes samples :: "container_sample_row list" and hosts :: "host_row list"
  defines "key \<equiv> \<lambda>c. container_key (cs_host_id c) (cs_container_name c)"
    and "known \<equiv> \<lambda>c. cs_host_id c \<in> hr_id ` set hosts"
  shows "map ho_id (ms_hosts (getMonitoringSnapshot collate now hosts heartbeats samples expectations)) = map hr_id hosts \<and>
    set (ms_containers (getMonitoringSnapshot collate now hosts heartbeats samples expectations)) =
      container_view now hosts expectations `
        {c. \<exists>k. List.find (\<lambda>r. key r = k \<and> known r) samples = Some c} \<and>
    distinct (map (\<lambda>c. container_key (co_hostId c) (co_name c))
      (ms_containers (getMonitoringSnapshot collate now hosts heartbeats samples expectations)))"
proof -
  let ?m = "keep_first key known samples"
  have m: "latest_container_by_key hosts samples = ?m"
    by (simp add: latest_container_by_key_def key_def known_def host_name_by_id_def map_of_eq_None_iff)
  have entry: "key r = k" if "(k, r) \<in> set ?m" for k r
    using keep_first_memD [OF that] by (auto dest: find_SomeD)
  have vals: "set (map_values ?m) = {c. \<exists>k. List.find (\<lambda>r. key r = k \<and> known r) samples = Some c}"
    by (rule keep_first_values)
  have "map key (map_values ?m) = map_keys ?m"
    using entry by auto
  then have "distinct (map key (map_values ?m))" by (simp only: distinct_keep_first)
  then have "distinct (map (\<lambda>c. container_key (co_hostId c) (co_name c))
      (map (container_view now hosts expectations) (map_values ?m)))"
    by (simp add: comp_def container_view_def Let_def key_def)
  moreover have "distinct (map g (sort_key f ys)) \<longleftrightarrow> distinct (map g ys)" for f :: "container_overview \<Rightarrow> string" and g :: "_ \<Rightarrow> string" and ys
    by (metis mset_map mset_sort mset_eq_imp_distinct_iff)
  ultimately show ?thesis
    unfolding getMonitoringSnapshot_def m vals [symmetric]
    by (simp add: comp_def host_view_def Let_def image_image)
qed

end
