(* ===== verification/Patterns.thy ===== *)
theory Patterns
  imports JsDates
begin

text \<open>
  The regular expressions that several modules of \<open>apps/web/lib\<close> share, as executable
  predicates on strings: server identifiers, container names, UUIDs, Discord snowflakes, and the
  helpers that read a bounded string, a timestamp or an integer from an untyped row.
\<close>

definition id_char :: "char \<Rightarrow> bool" where
  "id_char c \<longleftrightarrow> is_alnum c \<or> c = CHR ''.'' \<or> c = CHR ''_'' \<or> c = CHR ''-''"

definition label_char :: "char \<Rightarrow> bool" where
  \<comment> \<open>\<open>[A-Za-z0-9._:-]\<close>\<close>
  "label_char c \<longleftrightarrow> id_char c \<or> c = CHR '':''"

definition SERVER_ID_PATTERN :: "string \<Rightarrow> bool" where
  \<comment> \<open>\<open>^[A-Za-z0-9._-]{1,64}$\<close>\<close>
  "SERVER_ID_PATTERN = chars_between id_char 1 64"

definition CONTAINER_IDENTIFIER_PATTERN :: "string \<Rightarrow> bool" where
  \<comment> \<open>\<open>^[A-Za-z0-9][A-Za-z0-9_.-]{0,127}$\<close>\<close>
  "CONTAINER_IDENTIFIER_PATTERN = headed_chars is_alnum id_char 127"

definition TARGET_NAME_PATTERN :: "string \<Rightarrow> bool" where
  \<comment> \<open>\<open>^[A-Za-z0-9][A-Za-z0-9_.-]{0,63}$\<close>\<close>
  "TARGET_NAME_PATTERN = headed_chars is_alnum id_char 63"

definition IPV4_LITERAL_PATTERN :: "string \<Rightarrow> bool" where
  \<comment> \<open>\<open>^(?:[0-9]{1,3}\.){3}[0-9]{1,3}$\<close>\<close>
  "IPV4_LITERAL_PATTERN s \<longleftrightarrow>
     (let parts = split_on CHR ''.'' s in length parts = 4 \<and> list_all (chars_between is_digit 1 3) parts)"

definition SNOWFLAKE_PATTERN :: "string \<Rightarrow> bool" where
  \<comment> \<open>\<open>^[0-9]{17,20}$\<close>\<close>
  "SNOWFLAKE_PATTERN = chars_between is_digit 17 20"

definition uuid_with :: "(char \<Rightarrow> bool) \<Rightarrow> string \<Rightarrow> bool" where
  \<comment> \<open>\<open>^[0-9a-f]{8}-[0-9a-f]{4}-[V][0-9a-f]{3}-[89ab][0-9a-f]{3}-[0-9a-f]{12}$\<close> ignoring case\<close>
  "uuid_with V s \<longleftrightarrow>
     (case split_on CHR ''-'' s of
        [a, b, c, d, e] \<Rightarrow>
          chars_between is_hex_any 8 8 a \<and> chars_between is_hex_any 4 4 b \<and>
          chars_between is_hex_any 4 4 c \<and> V (hd c) \<and>
          chars_between is_hex_any 4 4 d \<and> hd d \<in> set ''89abAB'' \<and>
          chars_between is_hex_any 12 12 e
      | _ \<Rightarrow> False)"

definition UUID_PATTERN :: "string \<Rightarrow> bool" where
  \<comment> \<open>version digit 1 to 5\<close>
  "UUID_PATTERN = uuid_with (\<lambda>c. c \<in> set ''12345'')"

definition UUID8_PATTERN :: "string \<Rightarrow> bool" where
  \<comment> \<open>version digit 1 to 8\<close>
  "UUID8_PATTERN = uuid_with (\<lambda>c. c \<in> set ''12345678'')"

declare id_char_def [js_eval] label_char_def [js_eval] SERVER_ID_PATTERN_def [js_eval]
  CONTAINER_IDENTIFIER_PATTERN_def [js_eval] TARGET_NAME_PATTERN_def [js_eval]
  IPV4_LITERAL_PATTERN_def [js_eval] SNOWFLAKE_PATTERN_def [js_eval] uuid_with_def [js_eval]
  UUID_PATTERN_def [js_eval] UUID8_PATTERN_def [js_eval]

text \<open>
  Row readers. A reader that yields \<open>null\<close> for an unusable value has an \<open>option\<close> result; one that
  distinguishes an accepted \<open>null\<close> from an unusable value (\<open>undefined\<close>) has a nested one.
\<close>

definition string_at_most :: "nat \<Rightarrow> jsval \<Rightarrow> string option" where
  "string_at_most n v =
     (case as_string v of None \<Rightarrow> None | Some s \<Rightarrow> if length s \<le> n then Some s else None)"

definition nonempty :: "string option \<Rightarrow> string option" where
  \<comment> \<open>the falsy reading of a string: \<open>null\<close> and the empty string together\<close>
  "nonempty v = (case v of None \<Rightarrow> None | Some s \<Rightarrow> if s = [] then None else Some s)"

definition read_timestamp :: "jsval \<Rightarrow> string option" where
  "read_timestamp v =
     (case as_string v of
        None \<Rightarrow> None
      | Some s \<Rightarrow> if Date_parse s \<noteq> None then Some s else None)"

definition nullable :: "(jsval \<Rightarrow> 'a option) \<Rightarrow> jsval \<Rightarrow> 'a option option" where
  \<comment> \<open>\<open>null\<close> stays \<open>null\<close>; otherwise an unusable value is \<open>undefined\<close> (the outer \<open>None\<close>)\<close>
  "nullable r v = (if v = Null then Some None else (case r v of None \<Rightarrow> None | Some x \<Rightarrow> Some (Some x)))"

definition coerced_integer :: "jsval \<Rightarrow> int option" where
  \<comment> \<open>\<open>Number.isSafeInteger(typeof v === "number" ? v : Number(v))\<close>\<close>
  "coerced_integer v = num_safe_integer (to_number v)"

declare string_at_most_def [js_eval] nonempty_def [js_eval] read_timestamp_def [js_eval]
  nullable_def [js_eval] coerced_integer_def [js_eval] num_safe_integer_def [js_eval]
  max_safe_integer_def [js_eval] is_integer_rat_def [js_eval]

lemma string_at_most_SomeD: "string_at_most n v = Some s \<Longrightarrow> v = Str s \<and> length s \<le> n"
  by (auto simp: string_at_most_def split: option.splits if_splits)

lemma nonempty_SomeD: "nonempty v = Some s \<Longrightarrow> v = Some s \<and> s \<noteq> []"
  by (auto simp: nonempty_def split: option.splits if_splits)

lemma read_timestamp_SomeD: "read_timestamp v = Some s \<Longrightarrow> v = Str s \<and> (\<exists>t. Date_parse s = Some t)"
  by (auto simp: read_timestamp_def split: option.splits if_splits)

lemma nullable_timestampD:
  "nullable read_timestamp v = Some (Some s) \<Longrightarrow> \<exists>t. Date_parse s = Some t"
  by (auto simp: nullable_def dest: read_timestamp_SomeD split: option.splits if_splits)

lemma coerced_integer_bound: "coerced_integer v = Some i \<Longrightarrow> \<bar>i\<bar> \<le> max_safe_integer"
  by (auto simp: coerced_integer_def dest: num_safe_integer_SomeD)

text \<open>\<open>payload.map(parse)\<close> with an exception for the first unusable row.\<close>

fun map_rows :: "('a \<Rightarrow> 'b option) \<Rightarrow> 'a list \<Rightarrow> 'b list option" where
  "map_rows f [] = Some []"
| "map_rows f (x # xs) =
     (case f x of
        None \<Rightarrow> None
      | Some y \<Rightarrow> (case map_rows f xs of None \<Rightarrow> None | Some ys \<Rightarrow> Some (y # ys)))"

lemma map_rows_Some_iff: "map_rows f xs = Some ys \<longleftrightarrow> map f xs = map Some ys"
proof (induction xs arbitrary: ys)
  case Nil
  show ?case by auto
next
  case (Cons x xs)
  show ?case
  proof (cases ys)
    case (Cons y zs)
    with Cons.IH [of zs] show ?thesis by (auto split: option.splits)
  qed (auto split: option.splits)
qed

lemma map_rows_set: "map_rows f xs = Some ys \<Longrightarrow> y \<in> set ys \<Longrightarrow> \<exists>x \<in> set xs. f x = Some y"
proof -
  assume "map_rows f xs = Some ys" and y: "y \<in> set ys"
  then have "map f xs = map Some ys" by (simp add: map_rows_Some_iff)
  then have "Some y \<in> set (map f xs)" using y by simp
  then show ?thesis by auto
qed

lemma map_rows_length: "map_rows f xs = Some ys \<Longrightarrow> length ys = length xs"
  by (metis map_rows_Some_iff length_map)

lemma map_rows_None: "map_rows f xs = None \<longleftrightarrow> (\<exists>x \<in> set xs. f x = None)"
  by (induction xs) (auto split: option.splits)

section \<open>Facts about identifiers\<close>

lemma join_split_on: "join [d] (split_on d s) = s"
proof (induction s)
  case (Cons c s)
  obtain x xs where "split_on d s = x # xs" by (cases "split_on d s") auto
  with Cons show ?case by (cases xs) auto
qed simp

lemma uuid_chars: "UUID_PATTERN k \<Longrightarrow> length k = 36 \<and> list_all label_char k"
proof -
  assume "UUID_PATTERN k"
  then obtain a b c d e where parts: "split_on CHR ''-'' k = [a, b, c, d, e]"
    and lengths: "length a = 8" "length b = 4" "length c = 4" "length d = 4" "length e = 12"
    and hex: "list_all is_hex_any (a @ b @ c @ d @ e)"
    by (auto simp: UUID_PATTERN_def uuid_with_def chars_between_def split: list.splits)
  from parts have k: "k = a @ ''-'' @ b @ ''-'' @ c @ ''-'' @ d @ ''-'' @ e"
    using join_split_on [of "CHR ''-''" k] by simp
  have "label_char x" if "is_hex_any x" for x
    using that by (auto simp: label_char_def id_char_def is_hex_any_def is_hex_lower_def is_alnum_def is_lower_def
        is_upper_def is_digit_def)
  moreover have "label_char CHR ''-''" by (simp add: js_eval)
  ultimately have "list_all label_char k" using hex unfolding k by (auto simp: list_all_iff)
  moreover have "length k = 36" unfolding k by (simp add: lengths)
  ultimately show ?thesis by simp
qed

end
