(* ===== verification/MonitoringEvents.thy ===== *)
theory MonitoringEvents
  imports Monitoring Patterns
begin

text \<open>
  The validated rows of the two monitoring event feeds: container events
  (\<open>apps/web/lib/monitoring-events.ts\<close>) and host events
  (\<open>apps/web/lib/host-monitoring-events.ts\<close>). A feed is refused as a whole when one row is
  unusable, so that every event of an accepted feed has a finite time.
\<close>

section \<open>Container events\<close>

datatype event_severity = InfoSeverity | WarningSeverity | CriticalSeverity | RecoverySeverity

datatype event_type =
  StateChanged | HealthChanged | RestartCountIncreased | OomKilled | ExitCodeChanged
  | MaintenanceStarted | MaintenanceEnded

record monitoring_event =
  ev_id :: int
  ev_hostId :: string
  ev_serverId :: string
  ev_hostDisplayName :: string
  ev_containerName :: string
  ev_occurredAt :: string
  ev_eventType :: event_type
  ev_severity :: event_severity
  ev_fromValue :: "string option"
  ev_toValue :: "string option"
  ev_numericValue :: "int option"
  ev_expectedState :: "expected_state option"

definition parse_event_type :: "string \<Rightarrow> event_type option" where
  "parse_event_type s = map_of
     [(''state_changed'', StateChanged), (''health_changed'', HealthChanged),
      (''restart_count_increased'', RestartCountIncreased), (''oom_killed'', OomKilled),
      (''exit_code_changed'', ExitCodeChanged), (''maintenance_started'', MaintenanceStarted),
      (''maintenance_ended'', MaintenanceEnded)] s"

definition parse_severity :: "string \<Rightarrow> event_severity option" where
  "parse_severity s = map_of
     [(''info'', InfoSeverity), (''warning'', WarningSeverity), (''critical'', CriticalSeverity),
      (''recovery'', RecoverySeverity)] s"

definition parse_expected_state :: "string \<Rightarrow> expected_state option" where
  "parse_expected_state s = map_of
     [(''running'', ExpectRunning), (''stopped'', ExpectStopped), (''absent'', ExpectAbsent)] s"

definition isValidHostServerId :: "string \<Rightarrow> bool" where
  "isValidHostServerId s \<longleftrightarrow> SERVER_ID_PATTERN s \<and> \<not> IPV4_LITERAL_PATTERN s"

definition integerValue :: "jsval \<Rightarrow> int option" where
  "integerValue v =
     (if v = Null \<or> v = Undefined \<or> v = Str [] then None else coerced_integer v)"

definition parseEventRow :: "jsval \<Rightarrow> monitoring_event option" where
  "parseEventRow row = do {
     id \<leftarrow> integerValue (get_prop row ''event_id'');
     hostId \<leftarrow> nonempty (string_at_most 64 (get_prop row ''host_id''));
     serverId \<leftarrow> nonempty (string_at_most 64 (get_prop row ''server_id''));
     hostDisplayName \<leftarrow> nonempty (string_at_most 256 (get_prop row ''host_display_name''));
     containerName \<leftarrow> nonempty (string_at_most 128 (get_prop row ''container_name''));
     occurredAt \<leftarrow> nonempty (read_timestamp (get_prop row ''occurred_at''));
     eventType \<leftarrow> Option.bind (string_at_most 128 (get_prop row ''event_type'')) parse_event_type;
     severity \<leftarrow> Option.bind (string_at_most 128 (get_prop row ''severity'')) parse_severity;
     if id < 0 \<or> \<not> isValidHostServerId serverId \<or> \<not> CONTAINER_IDENTIFIER_PATTERN containerName
     then None
     else Some
       \<lparr> ev_id = id, ev_hostId = hostId, ev_serverId = serverId, ev_hostDisplayName = hostDisplayName,
         ev_containerName = containerName, ev_occurredAt = occurredAt, ev_eventType = eventType,
         ev_severity = severity,
         ev_fromValue = string_at_most 128 (get_prop row ''from_value''),
         ev_toValue = string_at_most 128 (get_prop row ''to_value''),
         ev_numericValue = integerValue (get_prop row ''numeric_value''),
         ev_expectedState =
           Option.bind (string_at_most 128 (get_prop row ''expected_state'')) parse_expected_state \<rparr>
   }"

definition parseEventPayload :: "jsval \<Rightarrow> monitoring_event list option" where
  \<comment> \<open>\<open>None\<close>: the feed is refused\<close>
  "parseEventPayload payload = Option.bind (as_array payload) (map_rows parseEventRow)"

definition event_ok :: "monitoring_event \<Rightarrow> bool" where
  "event_ok e \<longleftrightarrow> 0 \<le> ev_id e \<and> ev_id e \<le> max_safe_integer \<and> ev_hostId e \<noteq> [] \<and> ev_containerName e \<noteq> []
     \<and> isValidHostServerId (ev_serverId e) \<and> CONTAINER_IDENTIFIER_PATTERN (ev_containerName e)
     \<and> Date_parse (ev_occurredAt e) \<noteq> None"

section \<open>Host events\<close>

datatype host_event_type = HostRebootDetected | AgentVersionChanged | HeartbeatGapDetected

datatype host_event_severity = HostInfo | HostWarning

record host_monitoring_event =
  hev_id :: int
  hev_hostId :: string
  hev_serverId :: string
  hev_hostDisplayName :: string
  hev_occurredAt :: string
  hev_eventType :: host_event_type
  hev_severity :: host_event_severity
  hev_fromValue :: "string option"
  hev_toValue :: "string option"
  hev_numericValue :: "int option"

definition parse_host_event_type :: "string \<Rightarrow> host_event_type option" where
  "parse_host_event_type s = map_of
     [(''host_reboot_detected'', HostRebootDetected), (''agent_version_changed'', AgentVersionChanged),
      (''heartbeat_gap_detected'', HeartbeatGapDetected)] s"

definition parse_host_severity :: "string \<Rightarrow> host_event_severity option" where
  "parse_host_severity s = map_of [(''info'', HostInfo), (''warning'', HostWarning)] s"

definition safeInteger :: "jsval \<Rightarrow> int option" where
  "safeInteger v =
     (if v = Null \<or> v = Undefined then None
      else (case coerced_integer v of None \<Rightarrow> None | Some i \<Rightarrow> if 0 \<le> i then Some i else None))"

definition parseHostEventRow :: "jsval \<Rightarrow> host_monitoring_event option" where
  "parseHostEventRow row = do {
     id \<leftarrow> safeInteger (get_prop row ''event_id'');
     hostId \<leftarrow> nonempty (string_at_most 64 (get_prop row ''host_id''));
     serverId \<leftarrow> nonempty (string_at_most 64 (get_prop row ''server_id''));
     hostDisplayName \<leftarrow> nonempty (string_at_most 256 (get_prop row ''host_display_name''));
     occurredAt \<leftarrow> nonempty (read_timestamp (get_prop row ''occurred_at''));
     eventType \<leftarrow> Option.bind (string_at_most 128 (get_prop row ''event_type'')) parse_host_event_type;
     severity \<leftarrow> Option.bind (string_at_most 128 (get_prop row ''severity'')) parse_host_severity;
     if \<not> isValidHostServerId serverId then None
     else Some
       \<lparr> hev_id = id, hev_hostId = hostId, hev_serverId = serverId, hev_hostDisplayName = hostDisplayName,
         hev_occurredAt = occurredAt, hev_eventType = eventType, hev_severity = severity,
         hev_fromValue = string_at_most 128 (get_prop row ''from_value''),
         hev_toValue = string_at_most 128 (get_prop row ''to_value''),
         hev_numericValue = safeInteger (get_prop row ''numeric_value'') \<rparr>
   }"

definition parseHostEventPayload :: "jsval \<Rightarrow> host_monitoring_event list option" where
  "parseHostEventPayload payload = Option.bind (as_array payload) (map_rows parseHostEventRow)"

definition host_event_ok :: "host_monitoring_event \<Rightarrow> bool" where
  "host_event_ok e \<longleftrightarrow> 0 \<le> hev_id e \<and> hev_hostId e \<noteq> [] \<and> isValidHostServerId (hev_serverId e)
     \<and> Date_parse (hev_occurredAt e) \<noteq> None
     \<and> (case hev_numericValue e of None \<Rightarrow> True | Some n \<Rightarrow> 0 \<le> n \<and> n \<le> max_safe_integer)"

section \<open>Every event of an accepted feed is well formed\<close>

lemma integerValue_bound: "integerValue v = Some i \<Longrightarrow> \<bar>i\<bar> \<le> max_safe_integer"
  by (auto simp: integerValue_def coerced_integer_bound split: if_splits)

lemma safeInteger_bound: "safeInteger v = Some i \<Longrightarrow> 0 \<le> i \<and> i \<le> max_safe_integer"
  by (auto simp: safeInteger_def dest: coerced_integer_bound split: if_splits option.splits)

lemma parseEventRow_ok: "parseEventRow row = Some e \<Longrightarrow> event_ok e"
  by (auto simp: parseEventRow_def event_ok_def bind_eq_Some_conv
      dest!: nonempty_SomeD read_timestamp_SomeD integerValue_bound split: if_splits)

lemma parseHostEventRow_ok: "parseHostEventRow row = Some e \<Longrightarrow> host_event_ok e"
  by (auto simp: parseHostEventRow_def host_event_ok_def bind_eq_Some_conv
      dest!: nonempty_SomeD read_timestamp_SomeD safeInteger_bound split: if_splits option.splits)

lemma parseEventPayload_ok: "parseEventPayload p = Some es \<Longrightarrow> e \<in> set es \<Longrightarrow> event_ok e"
  by (auto simp: parseEventPayload_def bind_eq_Some_conv dest!: map_rows_set parseEventRow_ok)

lemma parseHostEventPayload_ok: "parseHostEventPayload p = Some es \<Longrightarrow> e \<in> set es \<Longrightarrow> host_event_ok e"
  by (auto simp: parseHostEventPayload_def bind_eq_Some_conv dest!: map_rows_set parseHostEventRow_ok)

end
