(* ===== verification/EpisodeLog.thy ===== *)
theory EpisodeLog
  imports Prelude
begin

text \<open>
  The contract of the loops that turn a time-ordered sequence of events into closed episodes: the
  monitoring incidents of a container and the failure episodes of a backup target both satisfy it.
  A step keeps the log, and an episode that is open afterwards was open before or begins now; or it
  closes the episode and appends it, ended now.
\<close>

locale episode_log =
  fixes step :: "'s \<Rightarrow> 'e \<Rightarrow> 's" and log :: "'s \<Rightarrow> 'i list" and open_since :: "'s \<Rightarrow> int option"
    and time :: "'e \<Rightarrow> int" and began :: "'i \<Rightarrow> int" and ended :: "'i \<Rightarrow> int" and ok :: "'i \<Rightarrow> bool"
  assumes step_cases:
    "(log (step s e) = log s \<and>
        (\<forall>t. open_since (step s e) = Some t \<longrightarrow> open_since s = Some t \<or> t = time e)) \<or>
     (\<exists>i. log (step s e) = log s @ [i] \<and> ok i \<and> ended i = time e \<and> open_since (step s e) = None \<and>
        (open_since s = Some (began i) \<or> began i = time e))"
begin

definition log_inv :: "int option \<Rightarrow> 's \<Rightarrow> bool" where
  \<comment> \<open>\<open>None\<close>: before the first event\<close>
  "log_inv now s \<longleftrightarrow>
     list_all ok (log s) \<and> sorted_wrt (\<lambda>a b. ended a \<le> began b) (log s) \<and>
     (\<forall>i \<in> set (log s). \<exists>t. now = Some t \<and> ended i \<le> t) \<and>
     (\<forall>t. open_since s = Some t \<longrightarrow> (\<forall>i \<in> set (log s). ended i \<le> t))"

lemma log_inv_start: "log s = [] \<Longrightarrow> log_inv None s"
  by (simp add: log_inv_def)

lemma log_inv_step:
  assumes inv: "log_inv now s" and t: "\<forall>t. now = Some t \<longrightarrow> t \<le> time e"
  shows "log_inv (Some (time e)) (step s e)"
proof -
  have before: "\<forall>i \<in> set (log s). ended i \<le> time e"
    using inv t unfolding log_inv_def by fastforce
  from step_cases [of s e] show ?thesis
  proof
    assume "log (step s e) = log s \<and>
      (\<forall>t. open_since (step s e) = Some t \<longrightarrow> open_since s = Some t \<or> t = time e)"
    with inv before show ?thesis unfolding log_inv_def by auto
  next
    assume "\<exists>i. log (step s e) = log s @ [i] \<and> ok i \<and> ended i = time e \<and> open_since (step s e) = None \<and>
        (open_since s = Some (began i) \<or> began i = time e)"
    then obtain i where i: "log (step s e) = log s @ [i]" "ok i" "ended i = time e"
        "open_since (step s e) = None" "open_since s = Some (began i) \<or> began i = time e"
      by blast
    then have "\<forall>j \<in> set (log s). ended j \<le> began i"
      using inv before unfolding log_inv_def by auto
    with i inv before show ?thesis by (auto simp: log_inv_def sorted_wrt_append)
  qed
qed

lemma log_inv_fold:
  assumes "sorted (map time es)" "log_inv now s" "\<forall>t. now = Some t \<longrightarrow> (\<forall>e \<in> set es. t \<le> time e)"
  shows "\<exists>now'. log_inv now' (foldl step s es)"
  using assms
proof (induction es arbitrary: now s)
  case (Cons e es)
  then have "log_inv (Some (time e)) (step s e)" by (intro log_inv_step) auto
  from Cons.IH [OF _ this] Cons.prems show ?case by simp
qed auto

text \<open>The closed episodes are all sound, and each begins after the end of every earlier one.\<close>

lemma closed_episodes:
  assumes "sorted (map time es)" "log s = []"
  shows "list_all ok (log (foldl step s es)) \<and>
    sorted_wrt (\<lambda>a b. ended a \<le> began b) (log (foldl step s es))"
  using log_inv_fold [OF assms(1) log_inv_start [OF assms(2)]] by (auto simp: log_inv_def)

end

end
