(* ===== verification/Urls.thy ===== *)
theory Urls
  imports JsValues
begin

text \<open>
  The part of the URL library that the console uses: \<open>encodeURIComponent\<close>, and the parse of a
  reference that begins with a slash against the fixed base of the console, following the URL
  standard: tabs and line ends are removed, a backslash separates like a slash, dot segments are
  resolved, and the path and the query are percent-encoded. A reference that names an authority of
  its own is left to a parameter, since it needs the host parser.
\<close>

section \<open>Percent encoding\<close>

definition unreserved :: "char \<Rightarrow> bool" where
  "unreserved c \<longleftrightarrow> is_alnum c \<or> c \<in> set ''-_.!~*()'' \<or> code c = 39"

definition hex_digit :: "nat \<Rightarrow> char" where
  "hex_digit n = (if n < 10 then char_of (48 + n) else char_of (55 + n))"

definition percent :: "nat \<Rightarrow> string" where
  "percent n = [CHR ''%'', hex_digit (n div 16), hex_digit (n mod 16)]"

definition utf8_percent :: "char \<Rightarrow> string" where
  \<comment> \<open>the UTF-8 bytes of a code unit below 256\<close>
  "utf8_percent c =
     (if code c < 128 then percent (code c)
      else percent (192 + code c div 64) @ percent (128 + code c mod 64))"

definition encode_unless :: "(char \<Rightarrow> bool) \<Rightarrow> string \<Rightarrow> string" where
  "encode_unless keep s = concat (map (\<lambda>c. if keep c then [c] else utf8_percent c) s)"

definition encodeURIComponent :: "string \<Rightarrow> string" where
  "encodeURIComponent s = encode_unless unreserved s"

section \<open>Paths\<close>

definition path_keep :: "char \<Rightarrow> bool" where
  \<comment> \<open>the complement of the path percent-encode set\<close>
  "path_keep c \<longleftrightarrow> 32 < code c \<and> code c < 127 \<and> c \<notin> set ''\"#<>?^`{}''"

definition query_keep :: "char \<Rightarrow> bool" where
  \<comment> \<open>the complement of the special-query percent-encode set\<close>
  "query_keep c \<longleftrightarrow> 32 < code c \<and> code c < 127 \<and> c \<notin> set ''\"#<>'' \<and> code c \<noteq> 39"

definition is_slash :: "char \<Rightarrow> bool" where
  "is_slash c \<longleftrightarrow> c = CHR ''/'' \<or> code c = 92"

fun segments :: "string \<Rightarrow> string list" where
  "segments [] = [[]]"
| "segments (c # cs) =
     (if is_slash c then [] # segments cs
      else (case segments cs of [] \<Rightarrow> [[c]] | x # xs \<Rightarrow> (c # x) # xs))"

definition single_dot :: "string \<Rightarrow> bool" where
  "single_dot s \<longleftrightarrow> s \<in> {''.'', ''%2e'', ''%2E''}"

definition double_dot :: "string \<Rightarrow> bool" where
  "double_dot s \<longleftrightarrow> s \<in> {''..'', ''.%2e'', ''.%2E'', ''%2e.'', ''%2E.'', ''%2e%2e'', ''%2e%2E'',
     ''%2E%2e'', ''%2E%2E''}"

fun resolve_segments :: "string list \<Rightarrow> string list \<Rightarrow> string list" where
  "resolve_segments path [] = path"
| "resolve_segments path (s # rest) =
     (if double_dot s then resolve_segments (butlast path @ (if rest = [] then [[]] else [])) rest
      else if single_dot s then resolve_segments (path @ (if rest = [] then [[]] else [])) rest
      else resolve_segments (path @ [encode_unless path_keep s]) rest)"

definition path_text :: "string list \<Rightarrow> string" where
  "path_text path = concat (map (\<lambda>s. CHR ''/'' # s) path)"

section \<open>The parse\<close>

record url_parts =
  url_origin :: string
  url_pathname :: string
  url_search :: string

definition drop_tabs :: "string \<Rightarrow> string" where
  \<comment> \<open>trailing controls and spaces, then every tab and line end\<close>
  "drop_tabs s =
     filter (\<lambda>c. code c \<noteq> 9 \<and> code c \<noteq> 10 \<and> code c \<noteq> 13) (rev (dropWhile (\<lambda>c. code c \<le> 32) (rev s)))"

definition path_end :: "char \<Rightarrow> bool" where
  "path_end c \<longleftrightarrow> c = CHR ''?'' \<or> c = CHR ''#''"

definition query_of :: "string \<Rightarrow> string" where
  \<comment> \<open>the query of what follows the path, without its question mark\<close>
  "query_of rest =
     (case rest of
        [] \<Rightarrow> []
      | c # r \<Rightarrow> if c = CHR ''?'' then encode_unless query_keep (takeWhile (\<lambda>c. c \<noteq> CHR ''#'') r) else [])"

definition CONSOLE_ORIGIN :: string where
  "CONSOLE_ORIGIN = ''https://console.ivrm.jp''"

definition rooted_url :: "string \<Rightarrow> url_parts" where
  \<comment> \<open>the parse of a reference with a single leading slash, given what follows the slash\<close>
  "rooted_url rest =
     (let query = query_of (dropWhile (Not \<circ> path_end) rest)
      in \<lparr> url_origin = CONSOLE_ORIGIN,
           url_pathname = path_text (resolve_segments [] (segments (takeWhile (Not \<circ> path_end) rest))),
           url_search = (if query = [] then [] else CHR ''?'' # query) \<rparr>)"

definition parse_rooted :: "(string \<Rightarrow> url_parts option) \<Rightarrow> string \<Rightarrow> url_parts option" where
  \<comment> \<open>\<open>new URL(value, "https://console.ivrm.jp")\<close> for a value that begins with a slash; \<open>None\<close> throws\<close>
  "parse_rooted authority value =
     (case drop_tabs value of
        first # second # rest \<Rightarrow>
          if is_slash second then authority (second # rest) else Some (rooted_url (second # rest))
      | _ \<Rightarrow> Some (rooted_url []))"

declare unreserved_def [js_eval] hex_digit_def [js_eval] percent_def [js_eval] utf8_percent_def [js_eval]
  encode_unless_def [js_eval] encodeURIComponent_def [js_eval] path_keep_def [js_eval]
  query_keep_def [js_eval] is_slash_def [js_eval] single_dot_def [js_eval] double_dot_def [js_eval]
  path_text_def [js_eval] drop_tabs_def [js_eval] path_end_def [js_eval] query_of_def [js_eval]
  CONSOLE_ORIGIN_def [js_eval] rooted_url_def [js_eval] parse_rooted_def [js_eval]

section \<open>Normal paths\<close>

definition plain_segment :: "string \<Rightarrow> bool" where
  "plain_segment s \<longleftrightarrow>
     list_all (\<lambda>c. path_keep c \<and> \<not> is_slash c) s \<and> \<not> single_dot s \<and> \<not> double_dot s"

definition plain_query :: "string \<Rightarrow> bool" where
  \<comment> \<open>the search part: empty, or a question mark and kept characters\<close>
  "plain_query q \<longleftrightarrow> q = [] \<or> (\<exists>r. q = CHR ''?'' # r \<and> list_all (\<lambda>c. 32 < code c \<and> code c < 127 \<and> c \<noteq> CHR ''#'') r)"

lemma code_nibble: "n < 16 \<Longrightarrow> code (hex_digit n) = (if n < 10 then 48 + n else 55 + n)"
  by (simp add: hex_digit_def)

lemma code_lt_256 [simp]: "code c < 256"
  by (simp add: code_def)

lemma code_inject: "code a = code b \<longleftrightarrow> a = b"
  by (simp add: code_def)

lemma mem_codes: "c \<in> set cs \<longleftrightarrow> code c \<in> code ` set cs"
  by (auto simp: code_inject)

lemma path_keep_code:
  "path_keep c \<longleftrightarrow> 32 < code c \<and> code c < 127 \<and> code c \<notin> {34, 35, 60, 62, 63, 94, 96, 123, 125}"
  unfolding path_keep_def mem_codes [of c] by (simp add: code_def)

lemma query_keep_code:
  "query_keep c \<longleftrightarrow> 32 < code c \<and> code c < 127 \<and> code c \<notin> {34, 35, 39, 60, 62}"
  unfolding query_keep_def mem_codes [of c] by (auto simp: code_def)

lemma is_slash_code: "is_slash c \<longleftrightarrow> code c = 47 \<or> code c = 92"
  using code_inject [of c "CHR ''/''"] by (auto simp: is_slash_def code_def)

lemma hex_digit_kept:
  assumes "n < 16"
  shows "path_keep (hex_digit n)" "query_keep (hex_digit n)" "\<not> is_slash (hex_digit n)"
  using code_nibble [OF assms] assms by (auto simp: path_keep_code query_keep_code is_slash_code)

lemma utf8_percent_kept:
  "list_all (\<lambda>c. path_keep c \<and> query_keep c \<and> \<not> is_slash c) (utf8_percent c)"
proof -
  have percent_char: "path_keep CHR ''%''" "query_keep CHR ''%''" "\<not> is_slash CHR ''%''" by (simp_all add: js_eval)
  have "list_all (\<lambda>c. path_keep c \<and> query_keep c \<and> \<not> is_slash c) (percent n)" if "n < 256" for n
    using that percent_char by (simp add: percent_def hex_digit_kept)
  moreover have "code c div 64 < 4" by (rule less_mult_imp_div_less) simp
  then have "192 + code c div 64 < 256" "128 + code c mod 64 < 256"
    using mod_less_divisor [of 64 "code c"] by linarith+
  ultimately show ?thesis by (simp add: utf8_percent_def)
qed

lemma encode_unless_simps [simp]:
  "encode_unless keep [] = []"
  "encode_unless keep (c # s) = (if keep c then [c] else utf8_percent c) @ encode_unless keep s"
  by (simp_all add: encode_unless_def)

lemma encode_unless_id: "list_all keep s \<Longrightarrow> encode_unless keep s = s"
  by (induction s) auto

lemma encode_path_kept: "list_all (\<lambda>c. \<not> is_slash c) s \<Longrightarrow> list_all (\<lambda>c. path_keep c \<and> \<not> is_slash c) (encode_unless path_keep s)"
proof (induction s)
  case (Cons c s)
  have "list_all (\<lambda>c. path_keep c \<and> \<not> is_slash c) (utf8_percent c)"
    using utf8_percent_kept [of c] by (rule list.pred_mono_strong) blast
  with Cons show ?case by simp
qed simp

lemma encode_query_kept: "list_all query_keep (encode_unless query_keep s)"
proof (induction s)
  case (Cons c s)
  have "list_all query_keep (utf8_percent c)"
    using utf8_percent_kept [of c] by (rule list.pred_mono_strong) blast
  with Cons show ?case by simp
qed simp

text \<open>Encoding never produces a dot segment out of another segment.\<close>

lemma utf8_percent_not_dot:
  assumes "\<not> path_keep c"
  shows "utf8_percent c @ r \<noteq> CHR ''%'' # CHR ''2'' # CHR ''E'' # r'"
    and "utf8_percent c @ r \<noteq> CHR ''%'' # CHR ''2'' # CHR ''e'' # r'"
    and "utf8_percent c @ r \<noteq> CHR ''.'' # r'"
proof -
  have two: "n = 2 \<and> m = 14" if "hex_digit n = CHR ''2''" "hex_digit m = CHR ''E''" "n < 16" "m < 16" for n m
  proof -
    have "code (hex_digit n) = 50" "code (hex_digit m) = 69" using that by (simp_all add: code_def)
    with code_nibble [OF that(3)] code_nibble [OF that(4)] show ?thesis by (simp split: if_splits)
  qed
  have lower: "hex_digit m \<noteq> CHR ''e''" if "m < 16" for m
  proof
    assume "hex_digit m = CHR ''e''"
    then have "code (hex_digit m) = 101" by (simp add: code_def)
    with code_nibble [OF that] that show False by (simp split: if_splits)
  qed
  have high: "hex_digit n \<noteq> CHR ''2''" if "12 \<le> n" "n < 16" for n
  proof
    assume "hex_digit n = CHR ''2''"
    then have "code (hex_digit n) = 50" by (simp add: code_def)
    with code_nibble [OF that(2)] that show False by (simp split: if_splits)
  qed
  have dot: "code c \<noteq> 46"
  proof
    assume "code c = 46"
    then have "c = CHR ''.''" using code_inject [of c "CHR ''.''"] by (simp add: code_def)
    then have "path_keep c" by (simp add: js_eval)
    with assms show False by simp
  qed
  have small: "code c div 16 < 16" "code c mod 16 < 16" "(192 + code c div 64) div 16 < 16"
    "12 \<le> (192 + code c div 64) div 16"
  proof -
    have "code c div 64 < 4" by (rule less_mult_imp_div_less) simp
    then show "(192 + code c div 64) div 16 < 16" "12 \<le> (192 + code c div 64) div 16" by linarith+
    show "code c div 16 < 16" by (rule less_mult_imp_div_less) simp
  qed simp
  have code46: "code c = 46" if "code c div 16 = 2" "code c mod 16 = 14" using that by presburger
  show "utf8_percent c @ r \<noteq> CHR ''%'' # CHR ''2'' # CHR ''E'' # r'"
  proof (cases "code c < 128")
    case True
    have "\<not> (hex_digit (code c div 16) = CHR ''2'' \<and> hex_digit (code c mod 16) = CHR ''E'')"
      using two [OF _ _ small(1,2)] code46 dot by blast
    with True show ?thesis by (auto simp: utf8_percent_def percent_def)
  next
    case False
    with high [OF small(4,3)] show ?thesis by (simp add: utf8_percent_def percent_def)
  qed
  show "utf8_percent c @ r \<noteq> CHR ''%'' # CHR ''2'' # CHR ''e'' # r'"
    using lower [OF small(2)] high [OF small(4,3)] by (simp add: utf8_percent_def percent_def)
  show "utf8_percent c @ r \<noteq> CHR ''.'' # r'"
    by (simp add: utf8_percent_def percent_def)
qed

lemma encode_charD:
  "encode_unless path_keep s = x # r \<Longrightarrow> x \<noteq> CHR ''%'' \<Longrightarrow>
   \<exists>s'. s = x # s' \<and> encode_unless path_keep s' = r"
  by (cases s) (auto simp: utf8_percent_def percent_def split: if_splits)

lemma encode_escapeD:
  assumes e: "encode_unless path_keep s = CHR ''%'' # CHR ''2'' # x # r" and x: "x = CHR ''e'' \<or> x = CHR ''E''"
  shows "\<exists>s'. s = CHR ''%'' # CHR ''2'' # x # s' \<and> encode_unless path_keep s' = r"
proof (cases s)
  case (Cons c cs)
  have keep: "path_keep c"
    using e x utf8_percent_not_dot(1,2) [of c] Cons by (auto split: if_splits)
  with e Cons have c: "c = CHR ''%''" and cs: "encode_unless path_keep cs = CHR ''2'' # x # r" by auto
  from encode_charD [OF cs] obtain cs' where cs': "cs = CHR ''2'' # cs'" "encode_unless path_keep cs' = x # r"
    by auto
  have "x \<noteq> CHR ''%''" using x by auto
  from encode_charD [OF cs'(2) this] Cons c cs' show ?thesis by auto
qed (use e in simp)

lemma encode_empty: "encode_unless path_keep s = [] \<longleftrightarrow> s = []"
  by (cases s) (auto simp: utf8_percent_def percent_def)

inductive dot_tokens :: "string \<Rightarrow> bool" where
  no_token: "dot_tokens []"
| plain_dot: "dot_tokens r \<Longrightarrow> dot_tokens (CHR ''.'' # r)"
| escaped_dot: "dot_tokens r \<Longrightarrow> x = CHR ''e'' \<or> x = CHR ''E'' \<Longrightarrow>
    dot_tokens (CHR ''%'' # CHR ''2'' # x # r)"

lemma encode_dot_tokens: "dot_tokens t \<Longrightarrow> encode_unless path_keep s = t \<Longrightarrow> s = t"
proof (induction arbitrary: s rule: dot_tokens.induct)
  case no_token
  then show ?case by (simp add: encode_empty)
next
  case (plain_dot r)
  with encode_charD [OF plain_dot.prems] show ?case by auto
next
  case (escaped_dot r x)
  with encode_escapeD [OF escaped_dot.prems] show ?case by auto
qed

lemma encode_single_dot: "single_dot (encode_unless path_keep s) \<Longrightarrow> single_dot s"
proof -
  assume dot: "single_dot (encode_unless path_keep s)"
  then have "dot_tokens (encode_unless path_keep s)"
    unfolding single_dot_def by (elim insertE emptyE) (simp_all add: dot_tokens.intros)
  from encode_dot_tokens [OF this refl] dot show ?thesis by simp
qed

lemma encode_double_dot: "double_dot (encode_unless path_keep s) \<Longrightarrow> double_dot s"
proof -
  assume dot: "double_dot (encode_unless path_keep s)"
  then have "dot_tokens (encode_unless path_keep s)"
    unfolding double_dot_def by (elim insertE emptyE) (simp_all add: dot_tokens.intros)
  from encode_dot_tokens [OF this refl] dot show ?thesis by simp
qed

lemma segments_nonempty [simp]: "segments s \<noteq> []"
  by (induction s) (auto split: list.splits)

lemma segments_no_slash: "list_all (list_all (\<lambda>c. \<not> is_slash c)) (segments s)"
  by (induction s) (auto split: list.splits)

lemma resolve_plain:
  "list_all plain_segment path \<Longrightarrow> list_all (list_all (\<lambda>c. \<not> is_slash c)) ss \<Longrightarrow>
   list_all plain_segment (resolve_segments path ss)"
proof (induction path ss rule: resolve_segments.induct)
  case (2 path s rest)
  have empty: "plain_segment []" by (simp add: plain_segment_def single_dot_def double_dot_def)
  have seg: "plain_segment (encode_unless path_keep s)" if "\<not> single_dot s" "\<not> double_dot s"
    using 2(5) that encode_single_dot encode_double_dot encode_path_kept by (auto simp: plain_segment_def)
  have "list_all plain_segment (butlast path)"
    using 2(4) by (auto simp: list_all_iff dest: in_set_butlastD)
  with 2 empty seg show ?case by simp
qed simp

lemma resolve_nonempty: "path \<noteq> [] \<or> ss \<noteq> [] \<Longrightarrow> ss \<noteq> [] \<or> path \<noteq> [] \<Longrightarrow> ss \<noteq> [] \<Longrightarrow> resolve_segments path ss \<noteq> []"
proof (induction path ss rule: resolve_segments.induct)
  case (2 path s rest)
  then show ?case by (cases "rest = []") auto
qed simp

lemma resolve_plain_id:
  "list_all plain_segment ss \<Longrightarrow> resolve_segments path ss = path @ ss"
proof (induction ss arbitrary: path)
  case (Cons s ss)
  have "encode_unless path_keep s = s"
    using Cons.prems by (intro encode_unless_id) (auto simp: plain_segment_def list_all_iff)
  with Cons show ?case by (simp add: plain_segment_def)
qed simp

lemma segments_plain:
  "list_all plain_segment (s # ss) \<Longrightarrow> segments (s @ path_text ss) = s # ss"
proof (induction ss arbitrary: s)
  case Nil
  then have "list_all (\<lambda>c. \<not> is_slash c) s" by (auto simp: plain_segment_def list_all_iff)
  then show ?case by (induction s) (auto simp: path_text_def)
next
  case (Cons t ts)
  have slash: "is_slash CHR ''/''" by (simp add: js_eval)
  have rest: "segments (t @ path_text ts) = t # ts" using Cons by simp
  have "list_all (\<lambda>c. \<not> is_slash c) s" using Cons.prems by (auto simp: plain_segment_def list_all_iff)
  then show ?case
    using rest slash by (induction s) (auto simp: path_text_def)
qed

text \<open>A parse gives a normal path, and a normal path is parsed to itself.\<close>

definition normal_parts :: "url_parts \<Rightarrow> string list \<Rightarrow> bool" where
  "normal_parts u segs \<longleftrightarrow>
     segs \<noteq> [] \<and> list_all plain_segment segs \<and> url_pathname u = path_text segs \<and> plain_query (url_search u)"

lemma plain_encoded_query: "list_all (\<lambda>c. 32 < code c \<and> code c < 127 \<and> c \<noteq> CHR ''#'') (encode_unless query_keep s)"
proof -
  have "query_keep c \<Longrightarrow> 32 < code c \<and> code c < 127 \<and> c \<noteq> CHR ''#''" for c
    by (auto simp: query_keep_def)
  with encode_query_kept show ?thesis by (rule list.pred_mono_strong)
qed

lemma rooted_normal: "\<exists>segs. normal_parts (rooted_url rest) segs"
proof -
  let ?segs = "resolve_segments [] (segments (takeWhile (Not \<circ> path_end) rest))"
  have "?segs \<noteq> []" by (rule resolve_nonempty) simp_all
  moreover have "list_all plain_segment ?segs"
    by (rule resolve_plain) (simp_all add: segments_no_slash)
  moreover have "plain_query (url_search (rooted_url rest))"
    by (auto simp: rooted_url_def query_of_def plain_query_def plain_encoded_query Let_def split: list.splits)
  ultimately show ?thesis by (auto simp: normal_parts_def rooted_url_def Let_def)
qed

lemma plain_chars:
  assumes "plain_segment s" "c \<in> set s"
  shows "32 < code c" "code c < 127" "\<not> path_end c" "\<not> is_slash c"
  using assms by (auto simp: plain_segment_def list_all_iff path_keep_def path_end_def)

lemma path_chars:
  assumes "list_all plain_segment segs" "c \<in> set (path_text segs)"
  shows "32 < code c \<and> code c < 127 \<and> \<not> path_end c"
proof -
  have slash: "32 < code CHR ''/''" "code CHR ''/'' < 127" "\<not> path_end CHR ''/''" by (simp_all add: js_eval)
  have "\<exists>s \<in> set segs. c = CHR ''/'' \<or> c \<in> set s"
    using assms(2) by (induction segs) (auto simp: path_text_def)
  then obtain s where "s \<in> set segs" "c = CHR ''/'' \<or> c \<in> set s" by blast
  with assms(1) slash plain_chars [of s c] show ?thesis by (auto simp: list_all_iff)
qed

lemma drop_tabs_id: "list_all (\<lambda>c. 32 < code c) s \<Longrightarrow> drop_tabs s = s"
proof -
  assume s: "list_all (\<lambda>c. 32 < code c) s"
  have "dropWhile (\<lambda>c. code c \<le> 32) (rev s) = rev s"
    using s by (cases s rule: rev_cases) auto
  moreover have "filter (\<lambda>c. code c \<noteq> 9 \<and> code c \<noteq> 10 \<and> code c \<noteq> 13) s = s"
    using s by (auto simp: filter_id_conv list_all_iff)
  ultimately show ?thesis by (simp add: drop_tabs_def)
qed

lemma rooted_of_normal:
  assumes "list_all plain_segment (s # segs)" "plain_query q"
  shows "url_pathname (rooted_url (s @ path_text segs @ q)) = path_text (s # segs)"
proof -
  have all: "\<forall>c \<in> set (s @ path_text segs). (Not \<circ> path_end) c"
    using assms(1) plain_chars(3) [of s] path_chars [of segs] by auto
  have "takeWhile (Not \<circ> path_end) (s @ path_text segs @ q) = s @ path_text segs"
  proof (cases q)
    case Nil
    then show ?thesis using all by (simp add: takeWhile_eq_all_conv)
  next
    case (Cons c r)
    then have "path_end c" using assms(2) by (auto simp: plain_query_def path_end_def)
    then show ?thesis using all Cons by (simp add: takeWhile_append2 [of "s @ path_text segs", simplified])
  qed
  then show ?thesis
    using segments_plain [OF assms(1)] resolve_plain_id [OF assms(1), of "[]"]
    by (simp only: rooted_url_def Let_def url_parts.simps append_Nil)
qed

end
