(* ===== verification/Incidents.thy ===== *)
theory Incidents
  imports MonitoringEvents EpisodeLog Urls
begin

text \<open>
  The incident centre (\<open>apps/web/lib/incidents.ts\<close>): open signals and closed episodes are folded
  out of the ordered events of each container, active incidents are joined with the monitoring
  snapshot, heartbeat gaps become recovered host incidents, and the summary counts them. Display
  texts are structured: a constructor of \<open>reason\<close> stands for one text of the source with the
  values it interpolates.
\<close>

section \<open>Data\<close>

datatype incident_range = Range24h | Range7d | Range30d

definition incident_range_hours :: "incident_range \<Rightarrow> int" where
  "incident_range_hours r = (case r of Range24h \<Rightarrow> 24 | Range7d \<Rightarrow> 24 * 7 | Range30d \<Rightarrow> 24 * 30)"

definition incident_range_text :: "incident_range \<Rightarrow> string" where
  "incident_range_text r = (case r of Range24h \<Rightarrow> ''24h'' | Range7d \<Rightarrow> ''7d'' | Range30d \<Rightarrow> ''30d'')"

definition parseIncidentRange :: "string option \<Rightarrow> incident_range" where
  "parseIncidentRange value =
     (case value of
        None \<Rightarrow> Range24h
      | Some s \<Rightarrow> if s = ''7d'' then Range7d else if s = ''30d'' then Range30d else Range24h)"

datatype incident_severity = WarningIncident | CriticalIncident

datatype monitored_entity = HostEntity | ContainerEntity

datatype incident_status = StaleIncident | OfflineIncident | ErrorIncident

datatype reason =
    StateTransition "string option" "string option"
  | HealthTransition "string option" "string option"
  | ExitCodeTransition "string option" "string option"
  | RestartCountTransition "string option" "string option"
  | OomKilledDetected
  | MaintenanceBegan
  | MaintenanceFinished
  | UptimeDropped
  | AgentTransition "string option" "string option"
  | HeartbeatGapText int
  | StartNotIdentified
  | StartUnknownUntilRecovery
  | HeartbeatAgeExceeded int
  | HeartbeatResumed

record active_incident =
  ai_id :: string
  ai_entityType :: monitored_entity
  ai_severity :: incident_severity
  ai_hostId :: string
  ai_serverId :: string
  ai_hostDisplayName :: string
  ai_containerName :: "string option"
  ai_currentStatus :: incident_status
  ai_startedAt :: "string option"
  ai_durationSeconds :: "int option"
  ai_startReason :: reason
  ai_latestTransitionAt :: "string option"
  ai_latestTransition :: "reason option"
  ai_relatedEventCount :: nat
  ai_exactStart :: bool
  ai_detailHref :: string
  ai_eventsHref :: string

record recovered_incident =
  ri_id :: string
  ri_entityType :: monitored_entity
  ri_severity :: incident_severity
  ri_hostId :: string
  ri_serverId :: string
  ri_hostDisplayName :: string
  ri_containerName :: "string option"
  ri_startedAt :: string
  ri_recoveredAt :: string
  ri_durationSeconds :: int
  ri_startReason :: reason
  ri_recoveryReason :: reason
  ri_relatedEventCount :: nat
  ri_detailHref :: string
  ri_eventsHref :: string

record incident_summary =
  su_activeCount :: nat
  su_activeCriticalCount :: nat
  su_activeWarningCount :: nat
  su_recoveredCount :: nat
  su_criticalEventCount :: nat
  su_warningEventCount :: nat
  su_exactRecoveryCount :: nat
  su_medianRecoverySeconds :: "int option"
  su_longestRecoverySeconds :: "int option"
  su_affectedEntityCount :: nat
  su_latestRecoveredAt :: "string option"

record incident_center_snapshot =
  ic_generatedAt :: string
  ic_range :: incident_range
  ic_active :: "active_incident list"
  ic_recovered :: "recovered_incident list"
  ic_summary :: incident_summary

datatype signal = StateSignal | HealthSignal | ExitSignal

record open_signal =
  os_startedAt :: string
  os_severity :: incident_severity
  os_startEvent :: monitoring_event

record open_episode =
  ep_startedAt :: string
  ep_severity :: incident_severity
  ep_startEvent :: monitoring_event
  ep_eventCount :: nat

definition HOST_STALE_AFTER_SECONDS :: int where
  "HOST_STALE_AFTER_SECONDS = 45"

definition HOST_OFFLINE_AFTER_SECONDS :: int where
  "HOST_OFFLINE_AFTER_SECONDS = 180"

definition INCIDENT_CONTEXT_HOURS :: int where
  "INCIDENT_CONTEXT_HOURS = 24 * 30"

section \<open>Classification of events\<close>

definition entityKey :: "string \<Rightarrow> string option \<Rightarrow> string" where
  "entityKey hostId containerName =
     (case nonempty containerName of
        Some c \<Rightarrow> hostId @ '':'' @ c
      | None \<Rightarrow> ''host:'' @ hostId)"

definition severityRank :: "incident_severity \<Rightarrow> int" where
  "severityRank s = (if s = CriticalIncident then 2 else 1)"

definition maxSeverity :: "incident_severity \<Rightarrow> incident_severity \<Rightarrow> incident_severity" where
  "maxSeverity l r = (if severityRank r > severityRank l then r else l)"

definition incidentSeverity :: "event_severity \<Rightarrow> incident_severity option" where
  "incidentSeverity s =
     (case s of CriticalSeverity \<Rightarrow> Some CriticalIncident | WarningSeverity \<Rightarrow> Some WarningIncident | _ \<Rightarrow> None)"

definition signalName :: "monitoring_event \<Rightarrow> signal option" where
  "signalName e =
     (case ev_eventType e of
        StateChanged \<Rightarrow> Some StateSignal | HealthChanged \<Rightarrow> Some HealthSignal
      | ExitCodeChanged \<Rightarrow> Some ExitSignal | _ \<Rightarrow> None)"

definition resolvesSignal :: "monitoring_event \<Rightarrow> bool" where
  "resolvesSignal e =
     (if ev_severity e = RecoverySeverity then True
      else if ev_eventType e = HealthChanged then ev_toValue e = Some ''healthy''
      else if ev_eventType e = ExitCodeChanged then
        (case ev_toValue e of None \<Rightarrow> False | Some v \<Rightarrow> string_to_number v = Fin 0)
      else if ev_eventType e \<noteq> StateChanged then False
      else if ev_expectedState e = Some ExpectStopped \<and>
              (ev_toValue e = Some ''exited'' \<or> ev_toValue e = Some ''created'') then True
      else if ev_expectedState e = Some ExpectAbsent \<and> ev_toValue e = Some ''not_found'' then True
      else ev_expectedState e \<noteq> Some ExpectStopped \<and> ev_expectedState e \<noteq> Some ExpectAbsent \<and>
           ev_toValue e = Some ''running'')"

definition eventTransition :: "monitoring_event \<Rightarrow> reason" where
  "eventTransition e =
     (case ev_eventType e of
        StateChanged \<Rightarrow> StateTransition (ev_fromValue e) (ev_toValue e)
      | HealthChanged \<Rightarrow> HealthTransition (ev_fromValue e) (ev_toValue e)
      | ExitCodeChanged \<Rightarrow> ExitCodeTransition (ev_fromValue e) (ev_toValue e)
      | RestartCountIncreased \<Rightarrow> RestartCountTransition (ev_fromValue e) (ev_toValue e)
      | OomKilled \<Rightarrow> OomKilledDetected
      | MaintenanceStarted \<Rightarrow> MaintenanceBegan
      | MaintenanceEnded \<Rightarrow> MaintenanceFinished)"

definition hostEventTransition :: "host_monitoring_event \<Rightarrow> reason" where
  "hostEventTransition e =
     (case hev_eventType e of
        HostRebootDetected \<Rightarrow> UptimeDropped
      | AgentVersionChanged \<Rightarrow> AgentTransition (hev_fromValue e) (hev_toValue e)
      | HeartbeatGapDetected \<Rightarrow>
          HeartbeatGapText (case hev_numericValue e of None \<Rightarrow> 0 | Some n \<Rightarrow> n))"

section \<open>Grouping\<close>

definition event_order :: "monitoring_event \<Rightarrow> int \<times> int" where
  "event_order e = (ms_of (ev_occurredAt e), ev_id e)"

definition event_key :: "monitoring_event \<Rightarrow> string" where
  "event_key e = entityKey (ev_hostId e) (Some (ev_containerName e))"

definition eventByEntity :: "monitoring_event list \<Rightarrow> (string \<times> monitoring_event list) list" where
  "eventByEntity events = map (\<lambda>(k, es). (k, sort_key event_order es)) (group_by event_key events)"

definition hostEventsByEntity ::
  "host_monitoring_event list \<Rightarrow> (string \<times> host_monitoring_event list) list" where
  "hostEventsByEntity events =
     map (\<lambda>(k, es). (k, sort_key (\<lambda>e. (ms_of (hev_occurredAt e), hev_id e)) es))
       (group_by (\<lambda>e. entityKey (hev_hostId e) None) events)"

definition mergeUniqueEvents ::
  "monitoring_event list \<Rightarrow> monitoring_event list \<Rightarrow> monitoring_event list" where
  "mergeUniqueEvents contextEvents rangeEvents =
     map_values (index_by ev_id (contextEvents @ rangeEvents))"

definition events_of :: "(string \<times> 'e list) list \<Rightarrow> string \<Rightarrow> 'e list" where
  \<comment> \<open>\<open>grouped.get(key) ?? []\<close>\<close>
  "events_of grouped key = (case map_of grouped key of None \<Rightarrow> [] | Some es \<Rightarrow> es)"

section \<open>Open signals\<close>

record signal_state =
  ss_signals :: "signal \<rightharpoonup> open_signal"
  ss_expected :: "expected_state option option" \<comment> \<open>\<open>None\<close>: no event seen yet\<close>

definition signal_step :: "signal_state \<Rightarrow> monitoring_event \<Rightarrow> signal_state" where
  "signal_step st e =
     (let signals =
            (if ss_expected st \<noteq> None \<and> ss_expected st \<noteq> Some (ev_expectedState e)
             then Map.empty else ss_signals st);
          next_st = st\<lparr>ss_signals := signals, ss_expected := Some (ev_expectedState e)\<rparr>
      in case signalName e of
           None \<Rightarrow> next_st
         | Some sg \<Rightarrow>
             (case incidentSeverity (ev_severity e) of
                Some sev \<Rightarrow>
                  (case signals sg of
                     Some opened \<Rightarrow>
                       next_st\<lparr>ss_signals := signals(sg \<mapsto> opened\<lparr>os_severity := maxSeverity (os_severity opened) sev\<rparr>)\<rparr>
                   | None \<Rightarrow>
                       next_st\<lparr>ss_signals := signals(sg \<mapsto>
                         \<lparr>os_startedAt = ev_occurredAt e, os_severity = sev, os_startEvent = e\<rparr>)\<rparr>)
              | None \<Rightarrow>
                  if resolvesSignal e then next_st\<lparr>ss_signals := signals(sg := None)\<rparr> else next_st))"

definition signal_start :: signal_state where
  "signal_start = \<lparr>ss_signals = Map.empty, ss_expected = None\<rparr>"

definition deriveOpenSignals :: "monitoring_event list \<Rightarrow> (signal \<rightharpoonup> open_signal)" where
  "deriveOpenSignals events = ss_signals (foldl signal_step signal_start events)"

section \<open>Active incidents\<close>

definition currentStateIsIncident :: "container_overview \<Rightarrow> bool" where
  "currentStateIsIncident c =
     (case co_expectedState c of
        Some ExpectRunning \<Rightarrow>
          co_state c \<in> {CreatedState, PausedState, RestartingState, RemovingState, ExitedState,
            DeadState, UnknownState, NotFoundState}
      | Some ExpectStopped \<Rightarrow> co_state c \<noteq> ExitedState \<and> co_state c \<noteq> CreatedState
      | Some ExpectAbsent \<Rightarrow> co_state c \<noteq> NotFoundState
      | None \<Rightarrow> co_state c \<noteq> RunningState)"

definition currentHealthIsIncident :: "container_overview \<Rightarrow> bool" where
  "currentHealthIsIncident c =
     (if co_expectedState c = Some ExpectStopped \<or> co_expectedState c = Some ExpectAbsent then False
      else if co_expectedState c = Some ExpectRunning then
        co_health c \<in> {UnhealthyHealth, StartingHealth, UnknownHealth}
      else co_health c = UnhealthyHealth \<or> co_health c = StartingHealth)"

definition durationSeconds :: "string option \<Rightarrow> string \<Rightarrow> int option" where
  "durationSeconds startedAt endedAt =
     (case nonempty startedAt of
        None \<Rightarrow> None
      | Some s \<Rightarrow>
          (case (Date_parse s, Date_parse endedAt) of
             (Some start, Some end_) \<Rightarrow> if end_ < start then None else Some ((end_ - start) div 1000)
           | _ \<Rightarrow> None))"

definition containerDetailHref :: "string \<Rightarrow> string \<Rightarrow> incident_range \<Rightarrow> string" where
  "containerDetailHref serverId containerName rng =
     ''/containers/'' @ encodeURIComponent serverId @ ''/'' @ encodeURIComponent containerName @
     ''?range='' @ incident_range_text rng"

definition containerEventsHref :: "string \<Rightarrow> string \<Rightarrow> incident_range \<Rightarrow> string" where
  "containerEventsHref serverId containerName rng =
     ''/events?range='' @ incident_range_text rng @ ''&target='' @
     encodeURIComponent (serverId @ ''/'' @ containerName)"

definition hostDetailHref :: "string \<Rightarrow> incident_range \<Rightarrow> string" where
  "hostDetailHref serverId rng =
     ''/hosts/'' @ encodeURIComponent serverId @ ''?range='' @ incident_range_text rng"

definition incident_status_of :: "container_status \<Rightarrow> incident_status option" where
  \<comment> \<open>membership in \<open>ACTIVE_CONTAINER_STATUSES\<close> and the cast that follows it\<close>
  "incident_status_of s =
     (case s of CtError \<Rightarrow> Some ErrorIncident | CtStale \<Rightarrow> Some StaleIncident
      | CtOffline \<Rightarrow> Some OfflineIncident | _ \<Rightarrow> None)"

definition fallbackSeverity :: "incident_status \<Rightarrow> incident_severity" where
  "fallbackSeverity s = (if s = StaleIncident then WarningIncident else CriticalIncident)"

definition incident_candidates :: "container_overview \<Rightarrow> monitoring_event list \<Rightarrow> open_signal list" where
  "incident_candidates c events =
     (let signals = deriveOpenSignals events;
          matching = (\<lambda>sg. case signals sg of
             None \<Rightarrow> []
           | Some s \<Rightarrow> if ev_expectedState (os_startEvent s) = co_expectedState c then [s] else [])
      in sort_key (\<lambda>s. ms_of (os_startedAt s))
        ((if currentStateIsIncident c then matching StateSignal else []) @
         (if currentHealthIsIncident c then matching HealthSignal else []) @
         (if co_oomKilled c then
            (case List.find (\<lambda>e. ev_eventType e = OomKilled \<and> ev_severity e = CriticalSeverity) (rev events) of
               None \<Rightarrow> []
             | Some e \<Rightarrow> [\<lparr>os_startedAt = ev_occurredAt e, os_severity = CriticalIncident, os_startEvent = e\<rparr>])
          else [])))"

definition since :: "string option \<Rightarrow> monitoring_event \<Rightarrow> bool" where
  "since startedAt e =
     (case nonempty startedAt of
        None \<Rightarrow> True
      | Some s \<Rightarrow> nan_le (Date_parse s) (Date_parse (ev_occurredAt e)))"

definition active_container_incident ::
  "string \<Rightarrow> incident_range \<Rightarrow> container_overview \<Rightarrow> incident_status \<Rightarrow> host_overview \<Rightarrow>
   monitoring_event list \<Rightarrow> active_incident" where
  "active_container_incident generatedAt rng c status host events =
     (let candidates = incident_candidates c events;
          first = js_first candidates;
          severity = (case first of
             None \<Rightarrow> fallbackSeverity status
           | Some f \<Rightarrow> foldl (\<lambda>cur s. maxSeverity cur (os_severity s)) (os_severity f) candidates);
          startedAt = map_option os_startedAt first;
          latestEvent = List.find (since startedAt) (rev events)
      in \<lparr> ai_id = ''active-container:'' @ co_hostId c @ '':'' @ co_name c,
           ai_entityType = ContainerEntity, ai_severity = severity, ai_hostId = co_hostId c,
           ai_serverId = ho_serverId host, ai_hostDisplayName = ho_displayName host,
           ai_containerName = Some (co_name c), ai_currentStatus = status, ai_startedAt = startedAt,
           ai_durationSeconds = durationSeconds startedAt generatedAt,
           ai_startReason = (case first of None \<Rightarrow> StartNotIdentified | Some f \<Rightarrow> eventTransition (os_startEvent f)),
           ai_latestTransitionAt = map_option ev_occurredAt latestEvent,
           ai_latestTransition = map_option eventTransition latestEvent,
           ai_relatedEventCount = length (filter (since startedAt) events),
           ai_exactStart = (first \<noteq> None),
           ai_detailHref = containerDetailHref (ho_serverId host) (co_name c) rng,
           ai_eventsHref = containerEventsHref (ho_serverId host) (co_name c) rng \<rparr>)"

definition deriveActiveContainerIncidents ::
  "monitoring_snapshot \<Rightarrow> (string \<times> monitoring_event list) list \<Rightarrow> incident_range \<Rightarrow> active_incident list" where
  "deriveActiveContainerIncidents snapshot grouped rng =
     (let hostById = index_by ho_id (ms_hosts snapshot)
      in concat (map (\<lambda>c.
           case incident_status_of (co_status c) of
             None \<Rightarrow> []
           | Some status \<Rightarrow>
               if co_maintenanceActive c then []
               else (case map_of hostById (co_hostId c) of
                       None \<Rightarrow> []
                     | Some host \<Rightarrow>
                         [active_container_incident (ms_generatedAt snapshot) rng c status host
                            (events_of grouped (entityKey (co_hostId c) (Some (co_name c))))]))
         (ms_containers snapshot)))"

definition host_incident_status :: "host_status \<Rightarrow> incident_status option" where
  "host_incident_status s =
     (case s of HostStale \<Rightarrow> Some StaleIncident | HostOffline \<Rightarrow> Some OfflineIncident | HostOnline \<Rightarrow> None)"

definition deriveActiveHostIncidents ::
  "monitoring_snapshot \<Rightarrow> (string \<times> host_monitoring_event list) list \<Rightarrow> incident_range \<Rightarrow> active_incident list" where
  "deriveActiveHostIncidents snapshot grouped rng =
     concat (map (\<lambda>host.
       case host_incident_status (ho_status host) of
         None \<Rightarrow> []
       | Some status \<Rightarrow>
           (let events = events_of grouped (entityKey (ho_id host) None);
                latestEvent = js_last events
            in [\<lparr> ai_id = ''active-host:'' @ ho_id host, ai_entityType = HostEntity,
                  ai_severity = fallbackSeverity status, ai_hostId = ho_id host,
                  ai_serverId = ho_serverId host, ai_hostDisplayName = ho_displayName host,
                  ai_containerName = None, ai_currentStatus = status, ai_startedAt = None,
                  ai_durationSeconds = None, ai_startReason = StartUnknownUntilRecovery,
                  ai_latestTransitionAt = map_option hev_occurredAt latestEvent,
                  ai_latestTransition = map_option hostEventTransition latestEvent,
                  ai_relatedEventCount = length events, ai_exactStart = False,
                  ai_detailHref = hostDetailHref (ho_serverId host) rng,
                  ai_eventsHref = hostDetailHref (ho_serverId host) rng \<rparr>]))
       (ms_hosts snapshot))"

section \<open>Recovered incidents\<close>

record recovery_state =
  rs_active :: "signal set"
  rs_episode :: "open_episode option"
  rs_expected :: "expected_state option option"
  rs_recovered :: "recovered_incident list"

definition recovered_container ::
  "incident_range \<Rightarrow> open_episode \<Rightarrow> monitoring_event \<Rightarrow> int \<Rightarrow> int \<Rightarrow> recovered_incident" where
  "recovered_container rng ep e start recoveredAt =
     \<lparr> ri_id = ''recovered-container:'' @ int_text (ev_id (ep_startEvent ep)) @ '':'' @ int_text (ev_id e),
       ri_entityType = ContainerEntity, ri_severity = ep_severity ep, ri_hostId = ev_hostId e,
       ri_serverId = ev_serverId e, ri_hostDisplayName = ev_hostDisplayName e,
       ri_containerName = Some (ev_containerName e), ri_startedAt = ep_startedAt ep,
       ri_recoveredAt = ev_occurredAt e, ri_durationSeconds = (recoveredAt - start) div 1000,
       ri_startReason = eventTransition (ep_startEvent ep), ri_recoveryReason = eventTransition e,
       ri_relatedEventCount = ep_eventCount ep,
       ri_detailHref = containerDetailHref (ev_serverId e) (ev_containerName e) rng,
       ri_eventsHref = containerEventsHref (ev_serverId e) (ev_containerName e) rng \<rparr>"

definition recovered_if_in_range ::
  "int \<Rightarrow> incident_range \<Rightarrow> open_episode \<Rightarrow> monitoring_event \<Rightarrow> recovered_incident list" where
  "recovered_if_in_range rangeStart rng ep e =
     (case (Date_parse (ep_startedAt ep), Date_parse (ev_occurredAt e)) of
        (Some start, Some recoveredAt) \<Rightarrow>
          if start \<le> recoveredAt \<and> rangeStart \<le> recoveredAt
          then [recovered_container rng ep e start recoveredAt] else []
      | _ \<Rightarrow> [])"

definition open_or_extend :: "open_episode option \<Rightarrow> monitoring_event \<Rightarrow> incident_severity \<Rightarrow> open_episode" where
  "open_or_extend episode e sev =
     (case episode of
        None \<Rightarrow> \<lparr>ep_startedAt = ev_occurredAt e, ep_severity = sev, ep_startEvent = e, ep_eventCount = 1\<rparr>
      | Some ep \<Rightarrow> ep\<lparr>ep_severity := maxSeverity (ep_severity ep) sev, ep_eventCount := Suc (ep_eventCount ep)\<rparr>)"

definition note_expected :: "recovery_state \<Rightarrow> monitoring_event \<Rightarrow> recovery_state" where
  \<comment> \<open>a change of the expected state drops the signals and the open episode\<close>
  "note_expected st e =
     (if rs_expected st \<noteq> None \<and> rs_expected st \<noteq> Some (ev_expectedState e)
      then st\<lparr>rs_active := {}, rs_episode := None, rs_expected := Some (ev_expectedState e)\<rparr>
      else st\<lparr>rs_expected := Some (ev_expectedState e)\<rparr>)"

definition close_signal ::
  "int \<Rightarrow> incident_range \<Rightarrow> signal \<Rightarrow> recovery_state \<Rightarrow> monitoring_event \<Rightarrow> recovery_state" where
  \<comment> \<open>an event that opens nothing: it may resolve its signal and, with the last one, the episode\<close>
  "close_signal rangeStart rng sg st e =
     (case rs_episode st of
        None \<Rightarrow> st
      | Some ep \<Rightarrow>
          if \<not> resolvesSignal e \<or> sg \<notin> rs_active st then st
          else (let active = rs_active st - {sg};
                    ep' = ep\<lparr>ep_eventCount := Suc (ep_eventCount ep)\<rparr>
                in if active \<noteq> {} then st\<lparr>rs_active := active, rs_episode := Some ep'\<rparr>
                   else st\<lparr>rs_active := active, rs_episode := None,
                           rs_recovered := rs_recovered st @
                             recovered_if_in_range rangeStart rng ep' e\<rparr>))"

definition recovery_step :: "int \<Rightarrow> incident_range \<Rightarrow> recovery_state \<Rightarrow> monitoring_event \<Rightarrow> recovery_state" where
  "recovery_step rangeStart rng st0 e =
     (let st = note_expected st0 e
      in case signalName e of
           None \<Rightarrow> st
         | Some sg \<Rightarrow>
             (case incidentSeverity (ev_severity e) of
                Some sev \<Rightarrow>
                  st\<lparr>rs_active := insert sg (rs_active st),
                     rs_episode := Some (open_or_extend (rs_episode st) e sev)\<rparr>
              | None \<Rightarrow> close_signal rangeStart rng sg st e))"

definition recovery_start :: recovery_state where
  "recovery_start = \<lparr>rs_active = {}, rs_episode = None, rs_expected = None, rs_recovered = []\<rparr>"

definition recover_entity :: "int \<Rightarrow> incident_range \<Rightarrow> monitoring_event list \<Rightarrow> recovered_incident list" where
  "recover_entity rangeStart rng events =
     rs_recovered (foldl (recovery_step rangeStart rng) recovery_start events)"

definition deriveRecoveredContainerIncidents ::
  "monitoring_event list \<Rightarrow> int \<Rightarrow> incident_range \<Rightarrow> recovered_incident list" where
  "deriveRecoveredContainerIncidents events rangeStart rng =
     concat (map (recover_entity rangeStart rng) (map_values (eventByEntity events)))"

definition host_gap_incident ::
  "int \<Rightarrow> incident_range \<Rightarrow> host_monitoring_event \<Rightarrow> recovered_incident list option" where
  \<comment> \<open>the outer \<open>None\<close>: \<open>toISOString\<close> raised a \<open>RangeError\<close>\<close>
  "host_gap_incident rangeStart rng e =
     (case (hev_eventType e, hev_numericValue e) of
        (HeartbeatGapDetected, Some gap) \<Rightarrow>
          if gap \<le> HOST_STALE_AFTER_SECONDS then Some []
          else (case Date_parse (hev_occurredAt e) of
                  None \<Rightarrow> Some []
                | Some recoveredAt \<Rightarrow>
                    if recoveredAt < rangeStart then Some []
                    else (let incidentDuration = gap - HOST_STALE_AFTER_SECONDS
                          in case Date_toISOString (recoveredAt - incidentDuration * 1000) of
                               None \<Rightarrow> None
                             | Some startedAt \<Rightarrow>
                                 Some [\<lparr> ri_id = ''recovered-host-gap:'' @ int_text (hev_id e),
                                   ri_entityType = HostEntity,
                                   ri_severity = (if gap > HOST_OFFLINE_AFTER_SECONDS
                                     then CriticalIncident else WarningIncident),
                                   ri_hostId = hev_hostId e, ri_serverId = hev_serverId e,
                                   ri_hostDisplayName = hev_hostDisplayName e, ri_containerName = None,
                                   ri_startedAt = startedAt, ri_recoveredAt = hev_occurredAt e,
                                   ri_durationSeconds = incidentDuration,
                                   ri_startReason = HeartbeatAgeExceeded HOST_STALE_AFTER_SECONDS,
                                   ri_recoveryReason = HeartbeatResumed, ri_relatedEventCount = 1,
                                   ri_detailHref = hostDetailHref (hev_serverId e) rng,
                                   ri_eventsHref = hostDetailHref (hev_serverId e) rng \<rparr>]))
      | _ \<Rightarrow> Some [])"

definition deriveRecoveredHostGaps ::
  "host_monitoring_event list \<Rightarrow> int \<Rightarrow> incident_range \<Rightarrow> recovered_incident list option" where
  "deriveRecoveredHostGaps events rangeStart rng =
     map_option concat (map_rows (host_gap_incident rangeStart rng) events)"

section \<open>The incident centre\<close>

definition median :: "int list \<Rightarrow> int option" where
  "median values =
     (if values = [] then None
      else (let sorted = sort values; middle = length sorted div 2
            in if odd (length sorted) then Some (sorted ! middle)
               else Some ((sorted ! (middle - 1) + sorted ! middle) div 2)))"

definition maximum :: "int list \<Rightarrow> int option" where
  \<comment> \<open>\<open>xs.length ? Math.max(...xs) : null\<close>\<close>
  "maximum xs = (if xs = [] then None else Some (Max (set xs)))"

definition active_order :: "active_incident \<Rightarrow> int \<times> int \<times> int" where
  \<comment> \<open>severity first, then the start, with an unknown start after every known one\<close>
  "active_order i =
     (- severityRank (ai_severity i),
      (case nonempty (ai_startedAt i) of None \<Rightarrow> (1, 0) | Some s \<Rightarrow> (0, ms_of s)))"

definition incident_summary_of ::
  "active_incident list \<Rightarrow> recovered_incident list \<Rightarrow> monitoring_event list \<Rightarrow>
   host_monitoring_event list \<Rightarrow> incident_summary" where
  "incident_summary_of active recovered containerEventsInRange hostEventsInRange =
     \<lparr> su_activeCount = length active,
       su_activeCriticalCount = length (filter (\<lambda>i. ai_severity i = CriticalIncident) active),
       su_activeWarningCount = length (filter (\<lambda>i. ai_severity i = WarningIncident) active),
       su_recoveredCount = length recovered,
       su_criticalEventCount = length (filter (\<lambda>e. ev_severity e = CriticalSeverity) containerEventsInRange),
       su_warningEventCount =
         length (filter (\<lambda>e. ev_severity e = WarningSeverity) containerEventsInRange) +
         length (filter (\<lambda>e. hev_severity e = HostWarning) hostEventsInRange),
       su_exactRecoveryCount = length recovered,
       su_medianRecoverySeconds = median (map ri_durationSeconds recovered),
       su_longestRecoverySeconds = maximum (map ri_durationSeconds recovered),
       su_affectedEntityCount =
         card (set (map (\<lambda>i. entityKey (ai_hostId i) (ai_containerName i)) active) \<union>
               set (map (\<lambda>i. entityKey (ri_hostId i) (ri_containerName i)) recovered)),
       su_latestRecoveredAt = map_option ri_recoveredAt (js_first recovered) \<rparr>"

text \<open>
  The feeds of the centre: what \<open>getMonitoringEvents\<close>, \<open>getMonitoringIncidentContext\<close> (given its
  boundary) and \<open>getHostMonitoringEvents\<close> resolve to, \<open>None\<close> for a rejected promise.
\<close>

record incident_feeds =
  fd_events :: "monitoring_event list option"
  fd_context :: "string \<Rightarrow> monitoring_event list option"
  fd_hostEvents :: "host_monitoring_event list option"

definition getIncidentCenterSnapshot ::
  "incident_range \<Rightarrow> monitoring_snapshot \<Rightarrow> incident_feeds \<Rightarrow> incident_center_snapshot option" where
  "getIncidentCenterSnapshot rng snapshot feeds = do {
     generated \<leftarrow> Date_parse (ms_generatedAt snapshot);
     contextBoundary \<leftarrow> Date_toISOString (generated - INCIDENT_CONTEXT_HOURS * 3600000);
     containerEvents \<leftarrow> fd_events feeds;
     containerContext \<leftarrow> fd_context feeds contextBoundary;
     hostEvents \<leftarrow> fd_hostEvents feeds;
     let incidentContainerEvents = mergeUniqueEvents containerContext containerEvents;
         rangeStart = generated - incident_range_hours rng * 3600000;
         active = sort_key active_order
           (deriveActiveHostIncidents snapshot (hostEventsByEntity hostEvents) rng @
            deriveActiveContainerIncidents snapshot (eventByEntity incidentContainerEvents) rng)
     in do {
       gaps \<leftarrow> deriveRecoveredHostGaps hostEvents rangeStart rng;
       let recovered = sort_desc (\<lambda>i. ms_of (ri_recoveredAt i))
             (deriveRecoveredContainerIncidents incidentContainerEvents rangeStart rng @ gaps);
           in_range = (\<lambda>occurredAt. nan_le (Some rangeStart) (Date_parse occurredAt))
       in Some \<lparr> ic_generatedAt = ms_generatedAt snapshot, ic_range = rng, ic_active = active,
            ic_recovered = recovered,
            ic_summary = incident_summary_of active recovered
              (filter (\<lambda>e. in_range (ev_occurredAt e)) containerEvents)
              (filter (\<lambda>e. in_range (hev_occurredAt e)) hostEvents) \<rparr>
     }
   }"

section \<open>Severities are ranked\<close>

text \<open>
  Several parts of the console keep the worst of two levels by comparing ranks. The interface
  asks only that the choice is one of its arguments and that it has the larger rank.
\<close>

locale worst_of =
  fixes rank :: "'a \<Rightarrow> int" and worst :: "'a \<Rightarrow> 'a \<Rightarrow> 'a"
  assumes worst_choice: "worst a b = a \<or> worst a b = b"
    and worst_left: "rank a \<le> rank (worst a b)"
    and worst_right: "rank b \<le> rank (worst a b)"
begin

lemma fold_upper: "rank a \<le> rank (foldl (\<lambda>c x. worst c (f x)) a xs)"
proof (induction xs arbitrary: a)
  case (Cons x xs)
  from worst_left [of a "f x"] Cons.IH [of "worst a (f x)"] show ?case by simp
qed simp

lemma fold_upper_mem: "x \<in> set xs \<Longrightarrow> rank (f x) \<le> rank (foldl (\<lambda>c x. worst c (f x)) a xs)"
proof (induction xs arbitrary: a)
  case (Cons y xs)
  have "rank (f y) \<le> rank (foldl (\<lambda>c x. worst c (f x)) (worst a (f y)) xs)"
    by (rule order_trans [OF worst_right fold_upper])
  with Cons show ?case by auto
qed simp

lemma fold_choice: "foldl (\<lambda>c x. worst c (f x)) a xs \<in> insert a (f ` set xs)"
proof (induction xs arbitrary: a)
  case (Cons y xs)
  from Cons.IH [of "worst a (f y)"] worst_choice [of a "f y"] show ?case by auto
qed simp

end

interpretation severity: worst_of severityRank maxSeverity
  by unfold_locales (auto simp: maxSeverity_def)

instantiation incident_severity :: linorder
begin

definition less_eq_incident_severity :: "incident_severity \<Rightarrow> incident_severity \<Rightarrow> bool" where
  "less_eq_incident_severity a b \<longleftrightarrow> severityRank a \<le> severityRank b"

definition less_incident_severity :: "incident_severity \<Rightarrow> incident_severity \<Rightarrow> bool" where
  "less_incident_severity a b \<longleftrightarrow> severityRank a < severityRank b"

instance
proof
  fix a b :: incident_severity
  assume "a \<le> b" "b \<le> a"
  then show "a = b"
    by (cases a; cases b) (auto simp: less_eq_incident_severity_def severityRank_def)
qed (auto simp: less_eq_incident_severity_def less_incident_severity_def)

end

lemma maxSeverity_max: "maxSeverity a b = max a b"
  by (cases a; cases b) (auto simp: maxSeverity_def max_def less_eq_incident_severity_def severityRank_def)

section \<open>What the signal machines compute\<close>

text \<open>
  The specification of every loop over the events of a container: the set of open signals and
  the expected state of the last event. An event with another expected state empties the set.
\<close>

definition opens :: "signal \<Rightarrow> monitoring_event \<Rightarrow> bool" where
  "opens sg e \<longleftrightarrow> signalName e = Some sg \<and> incidentSeverity (ev_severity e) \<noteq> None"

definition closes :: "signal \<Rightarrow> monitoring_event \<Rightarrow> bool" where
  "closes sg e \<longleftrightarrow>
     signalName e = Some sg \<and> incidentSeverity (ev_severity e) = None \<and> resolvesSignal e"

definition keeps_open :: "signal \<Rightarrow> expected_state option \<Rightarrow> monitoring_event \<Rightarrow> bool" where
  "keeps_open sg expected e \<longleftrightarrow> \<not> closes sg e \<and> ev_expectedState e = expected"

type_synonym spec_state = "signal set \<times> expected_state option option"

definition spec_step :: "spec_state \<Rightarrow> monitoring_event \<Rightarrow> spec_state" where
  "spec_step st e =
     ({sg. opens sg e \<or>
           sg \<in> fst st \<and> (snd st = None \<or> snd st = Some (ev_expectedState e)) \<and> \<not> closes sg e},
      Some (ev_expectedState e))"

definition spec_run :: "monitoring_event list \<Rightarrow> spec_state" where
  "spec_run es = foldl spec_step ({}, None) es"

lemma spec_run_snoc: "spec_run (es @ [e]) = spec_step (spec_run es) e"
  by (simp add: spec_run_def)

lemma spec_run_Nil [simp]: "spec_run [] = ({}, None)"
  by (simp add: spec_run_def)

lemma spec_run_expected: "snd (spec_run es) = map_option ev_expectedState (js_last es)"
  by (induction es rule: rev_induct) (simp_all add: spec_run_snoc spec_step_def)

definition opened_by :: "signal \<Rightarrow> monitoring_event list \<Rightarrow> monitoring_event list \<Rightarrow>
    monitoring_event \<Rightarrow> monitoring_event list \<Rightarrow> bool" where
  \<comment> \<open>\<open>e\<close> opened the signal, and nothing since closed it or changed the expectation\<close>
  "opened_by sg es pre e post \<longleftrightarrow>
     es = pre @ e # post \<and> opens sg e \<and> list_all (keeps_open sg (ev_expectedState e)) post"

lemma opened_by_last:
  "opened_by sg es pre e post \<Longrightarrow> snd (spec_run es) = Some (ev_expectedState e)"
  unfolding spec_run_expected
  by (cases post rule: rev_cases) (auto simp: opened_by_def keeps_open_def js_last_def)

lemma spec_run_open_iff:
  "sg \<in> fst (spec_run es) \<longleftrightarrow> (\<exists>pre e post. opened_by sg es pre e post)"
proof (induction es rule: rev_induct)
  case (snoc x es)
  have step: "(\<exists>pre e post. opened_by sg (es @ [x]) pre e post) \<longleftrightarrow>
      opens sg x \<or> (\<exists>pre e post. opened_by sg es pre e post \<and> keeps_open sg (ev_expectedState e) x)"
    (is "?l \<longleftrightarrow> ?r")
  proof
    assume ?l
    then obtain pre e post where "opened_by sg (es @ [x]) pre e post" by blast
    then show ?r by (cases post rule: rev_cases) (auto simp: opened_by_def)
  next
    assume ?r
    then show ?l
    proof
      assume "opens sg x"
      then have "opened_by sg (es @ [x]) es x []" by (simp add: opened_by_def)
      then show ?l by blast
    next
      assume "\<exists>pre e post. opened_by sg es pre e post \<and> keeps_open sg (ev_expectedState e) x"
      then obtain pre e post where "opened_by sg es pre e post" "keeps_open sg (ev_expectedState e) x"
        by blast
      then have "opened_by sg (es @ [x]) pre e (post @ [x])" by (auto simp: opened_by_def)
      then show ?l by blast
    qed
  qed
  have "sg \<in> fst (spec_run es) \<and> (snd (spec_run es) = None \<or>
        snd (spec_run es) = Some (ev_expectedState x)) \<and> \<not> closes sg x \<longleftrightarrow>
      (\<exists>pre e post. opened_by sg es pre e post \<and> keeps_open sg (ev_expectedState e) x)"
    unfolding snoc keeps_open_def using opened_by_last by fastforce
  then show ?case unfolding step by (simp add: spec_run_snoc spec_step_def)
qed (simp add: opened_by_def)

text \<open>
  A loop implements the specification when its state, read through \<open>abs\<close>, steps as the
  specification does, under an invariant of its own.
\<close>

locale signal_loop =
  fixes start :: 's and step :: "'s \<Rightarrow> monitoring_event \<Rightarrow> 's"
    and abs :: "'s \<Rightarrow> spec_state" and inv :: "'s \<Rightarrow> bool"
  assumes inv_start: "inv start"
    and inv_step: "inv s \<Longrightarrow> inv (step s e)"
    and abs_start: "abs start = ({}, None)"
    and abs_step: "inv s \<Longrightarrow> abs (step s e) = spec_step (abs s) e"
begin

lemma inv_run: "inv (foldl step start es)"
  by (induction es rule: rev_induct) (simp_all add: inv_start inv_step)

lemma abs_run: "abs (foldl step start es) = spec_run es"
  by (induction es rule: rev_induct) (simp_all add: abs_start abs_step inv_run spec_run_snoc)

lemma open_iff: "sg \<in> fst (abs (foldl step start es)) \<longleftrightarrow> (\<exists>pre e post. opened_by sg es pre e post)"
  by (simp add: abs_run spec_run_open_iff)

end

lemmas loop_defs = signal_step_def recovery_step_def note_expected_def close_signal_def
  spec_step_def opens_def closes_def Let_def

definition signal_abs :: "signal_state \<Rightarrow> spec_state" where
  "signal_abs s = (dom (ss_signals s), ss_expected s)"

definition recovery_abs :: "recovery_state \<Rightarrow> spec_state" where
  "recovery_abs r = (rs_active r, rs_expected r)"

definition recovery_wf :: "recovery_state \<Rightarrow> bool" where
  "recovery_wf r \<longleftrightarrow> (rs_episode r = None \<longleftrightarrow> rs_active r = {})"

interpretation signals: signal_loop signal_start signal_step signal_abs "\<lambda>_. True"
proof unfold_locales
  fix s e
  show "signal_abs (signal_step s e) = spec_step (signal_abs s) e"
    by (auto simp: signal_abs_def loop_defs split: option.splits)
qed (simp_all add: signal_abs_def signal_start_def)

interpretation recovery: signal_loop recovery_start "recovery_step rangeStart rng" recovery_abs recovery_wf
  for rangeStart :: int and rng :: incident_range
proof unfold_locales
  fix s e
  assume "recovery_wf s"
  then show "recovery_abs (recovery_step rangeStart rng s e) = spec_step (recovery_abs s) e"
    by (auto simp: recovery_wf_def recovery_abs_def loop_defs split: option.splits)
next
  fix s e
  assume "recovery_wf s"
  then show "recovery_wf (recovery_step rangeStart rng s e)"
    by (auto simp: recovery_wf_def loop_defs split: option.splits)
qed (simp_all add: recovery_wf_def recovery_abs_def recovery_start_def)

text \<open>Times of a recovered incident.\<close>

definition recovered_ok :: "int \<Rightarrow> recovered_incident \<Rightarrow> bool" where
  "recovered_ok rangeStart i \<longleftrightarrow>
     (\<exists>s r. Date_parse (ri_startedAt i) = Some s \<and> Date_parse (ri_recoveredAt i) = Some r \<and>
        s \<le> r \<and> rangeStart \<le> r \<and> ri_durationSeconds i = (r - s) div 1000)"

lemma recovered_ok_duration: "recovered_ok rangeStart i \<Longrightarrow> 0 \<le> ri_durationSeconds i"
  by (auto simp: recovered_ok_def)

lemma recovered_if_in_range_cases:
  obtains "recovered_if_in_range rangeStart rng ep e = []"
  | i where "recovered_if_in_range rangeStart rng ep e = [i]" "recovered_ok rangeStart i"
    "ri_startedAt i = ep_startedAt ep" "ri_recoveredAt i = ev_occurredAt e"
proof (cases "recovered_if_in_range rangeStart rng ep e")
  case Nil
  then show thesis by (rule that(1))
next
  case (Cons i rest)
  then have "recovered_if_in_range rangeStart rng ep e = [i] \<and> recovered_ok rangeStart i \<and>
      ri_startedAt i = ep_startedAt ep \<and> ri_recoveredAt i = ev_occurredAt e"
    by (auto simp: recovered_if_in_range_def recovered_ok_def recovered_container_def
        split: option.splits if_splits)
  then show thesis using that(2) by blast
qed

definition episode_since :: "recovery_state \<Rightarrow> int option" where
  "episode_since st = map_option (\<lambda>ep. ms_of (ep_startedAt ep)) (rs_episode st)"

definition event_time :: "monitoring_event \<Rightarrow> int" where
  "event_time e = ms_of (ev_occurredAt e)"

lemma note_expected_log:
  "rs_recovered (note_expected st e) = rs_recovered st"
  "episode_since (note_expected st e) = Some t \<Longrightarrow> episode_since st = Some t"
  by (auto simp: note_expected_def episode_since_def split: if_splits)

lemma close_signal_log:
  "rs_recovered (close_signal rangeStart rng sg st e) = rs_recovered st \<and>
     (\<forall>t. episode_since (close_signal rangeStart rng sg st e) = Some t \<longrightarrow> episode_since st = Some t) \<or>
   (\<exists>i. rs_recovered (close_signal rangeStart rng sg st e) = rs_recovered st @ [i] \<and>
      recovered_ok rangeStart i \<and> ms_of (ri_recoveredAt i) = event_time e \<and>
      episode_since (close_signal rangeStart rng sg st e) = None \<and>
      episode_since st = Some (ms_of (ri_startedAt i)))"
proof (cases "rs_episode st")
  case None
  then show ?thesis by (simp add: close_signal_def)
next
  case (Some ep)
  let ?ep = "ep\<lparr>ep_eventCount := Suc (ep_eventCount ep)\<rparr>"
  show ?thesis
    by (rule recovered_if_in_range_cases [of rangeStart rng ?ep e])
      (auto simp: close_signal_def Some Let_def episode_since_def event_time_def)
qed

interpretation recovery_log: episode_log "recovery_step rangeStart rng" rs_recovered episode_since
    event_time "\<lambda>i. ms_of (ri_startedAt i)" "\<lambda>i. ms_of (ri_recoveredAt i)" "recovered_ok rangeStart"
  for rangeStart :: int and rng :: incident_range
proof unfold_locales
  fix s e
  define st where "st = note_expected s e"
  have log: "rs_recovered st = rs_recovered s"
    and since: "\<And>t. episode_since st = Some t \<Longrightarrow> episode_since s = Some t"
    unfolding st_def by (rule note_expected_log, erule note_expected_log(2))
  let ?step = "recovery_step rangeStart rng s e"
  consider "?step = st"
    | sev where "?step = st\<lparr>rs_active := insert (the (signalName e)) (rs_active st),
        rs_episode := Some (open_or_extend (rs_episode st) e sev)\<rparr>"
    | sg where "?step = close_signal rangeStart rng sg st e"
    unfolding recovery_step_def Let_def st_def [symmetric]
    by (cases "signalName e"; cases "incidentSeverity (ev_severity e)") simp_all
  then show "(rs_recovered ?step = rs_recovered s \<and>
        (\<forall>t. episode_since ?step = Some t \<longrightarrow> episode_since s = Some t \<or> t = event_time e)) \<or>
     (\<exists>i. rs_recovered ?step = rs_recovered s @ [i] \<and> recovered_ok rangeStart i \<and>
        ms_of (ri_recoveredAt i) = event_time e \<and> episode_since ?step = None \<and>
        (episode_since s = Some (ms_of (ri_startedAt i)) \<or> ms_of (ri_startedAt i) = event_time e))"
  proof cases
    case 1
    with log since show ?thesis by auto
  next
    case 2
    have "episode_since ?step = Some t \<Longrightarrow> episode_since st = Some t \<or> t = event_time e" for t
      unfolding 2 by (auto simp: episode_since_def open_or_extend_def event_time_def split: option.splits)
    moreover have "rs_recovered ?step = rs_recovered st" unfolding 2 by simp
    ultimately show ?thesis using log since by auto
  next
    case (3 sg)
    with close_signal_log [of rangeStart rng sg st e] log since show ?thesis by metis
  qed
qed

lemma event_times_sorted: "sorted (map event_time (sort_key event_order es))"
proof -
  have "sorted (map event_order (sort_key event_order es))" by simp
  then show ?thesis
    unfolding sorted_map by (rule sorted_wrt_mono_rel [rotated]) (auto simp: event_order_def event_time_def)
qed

lemma recover_entity_episodes:
  "list_all (recovered_ok rangeStart) (recover_entity rangeStart rng (sort_key event_order es)) \<and>
   sorted_wrt (\<lambda>a b. ms_of (ri_recoveredAt a) \<le> ms_of (ri_startedAt b))
     (recover_entity rangeStart rng (sort_key event_order es))"
  unfolding recover_entity_def
  by (rule recovery_log.closed_episodes [OF event_times_sorted]) (simp add: recovery_start_def)

section \<open>Active incidents and the summary\<close>

lemma incidentSeverity_ranks: "severityRank s = 1 \<or> severityRank s = 2"
  by (cases s) (auto simp: severityRank_def)

lemma active_order_le_iff:
  "active_order a \<le> active_order b \<longleftrightarrow>
     severityRank (ai_severity b) < severityRank (ai_severity a) \<or>
     (ai_severity a = ai_severity b \<and>
        (nonempty (ai_startedAt b) = None \<or>
         (\<exists>s t. nonempty (ai_startedAt a) = Some s \<and> nonempty (ai_startedAt b) = Some t \<and> ms_of s \<le> ms_of t)))"
  by (cases "ai_severity a"; cases "ai_severity b")
    (auto simp: active_order_def less_eq_prod_def severityRank_def split: option.splits)

lemma severity_partition:
  "length (filter (\<lambda>i. ai_severity i = CriticalIncident) xs) +
   length (filter (\<lambda>i. ai_severity i = WarningIncident) xs) = length xs"
  by (rule filter_length_partition) (metis incident_severity.exhaust incident_severity.distinct(1))

lemma median_bounds:
  assumes "median xs = Some m"
  shows "Min (set xs) \<le> m \<and> m \<le> Max (set xs)"
proof -
  have ne: "xs \<noteq> []" using assms by (auto simp: median_def)
  let ?n = "length xs"
  have in_set: "sort xs ! i \<in> set xs" if "i < ?n" for i
    using that by (metis length_sort nth_mem set_sort)
  have bounds: "Min (set xs) \<le> sort xs ! i \<and> sort xs ! i \<le> Max (set xs)" if "i < ?n" for i
    using in_set [OF that] by simp
  have i: "?n div 2 < ?n" "?n div 2 - 1 < ?n" using ne by (auto simp: less_imp_diff_less)
  from assms ne consider "m = sort xs ! (?n div 2)"
    | "m = (sort xs ! (?n div 2 - 1) + sort xs ! (?n div 2)) div 2"
    by (auto simp: median_def Let_def split: if_splits)
  then show ?thesis
    using bounds [OF i(1)] bounds [OF i(2)] by cases linarith+
qed

lemma median_None_iff: "median xs = None \<longleftrightarrow> xs = []"
  by (simp add: median_def Let_def)

lemma maximum_Some: "maximum xs = Some m \<longleftrightarrow> xs \<noteq> [] \<and> m \<in> set xs \<and> (\<forall>x \<in> set xs. x \<le> m)"
  by (auto simp: maximum_def Max_eq_iff intro: sym)

lemma first_desc_latest:
  assumes "js_first (sort_desc f xs) = Some i"
  shows "i \<in> set xs \<and> (\<forall>x \<in> set xs. f x \<le> f i)"
  using sort_key_first_least [of "\<lambda>x. - f x" xs i] assms by (auto simp: sort_desc_def)

text \<open>The recovered host gaps are well timed too.\<close>

lemma host_gap_ok:
  assumes "host_gap_incident rangeStart rng e = Some xs" "i \<in> set xs"
  shows "recovered_ok rangeStart i"
proof -
  from assms obtain gap r s where e: "Date_parse (hev_occurredAt e) = Some r"
    and gap: "45 < gap" and r: "rangeStart \<le> r"
    and s: "Date_toISOString (r - (gap - 45) * 1000) = Some s"
    and i: "ri_startedAt i = s" "ri_recoveredAt i = hev_occurredAt e" "ri_durationSeconds i = gap - 45"
    by (auto simp: host_gap_incident_def HOST_STALE_AFTER_SECONDS_def Let_def
        split: host_event_type.splits option.splits if_splits)
  from Date_toISOString_SomeD [OF s] e r gap show ?thesis
    by (auto simp: recovered_ok_def i)
qed

lemma host_gaps_ok:
  assumes "deriveRecoveredHostGaps es rangeStart rng = Some xs" "i \<in> set xs"
  shows "recovered_ok rangeStart i"
  using assms by (auto simp: deriveRecoveredHostGaps_def) (metis map_rows_set host_gap_ok)

lemma eventByEntity_memD:
  assumes "(k, es) \<in> set (eventByEntity events)"
  shows "es = sort_key event_order (filter (\<lambda>e. event_key e = k) events)"
  using assms by (auto simp: eventByEntity_def dest: group_by_memD(1))

lemma recovered_containers_ok:
  assumes "i \<in> set (deriveRecoveredContainerIncidents events rangeStart rng)"
  shows "recovered_ok rangeStart i"
proof -
  from assms obtain k es where "(k, es) \<in> set (eventByEntity events)"
    and i: "i \<in> set (recover_entity rangeStart rng es)"
    by (auto simp: deriveRecoveredContainerIncidents_def)
  then have "es = sort_key event_order (filter (\<lambda>e. event_key e = k) events)"
    by (auto dest: eventByEntity_memD)
  with recover_entity_episodes [of rangeStart rng "filter (\<lambda>e. event_key e = k) events"] i
  show ?thesis by (simp add: list_all_iff)
qed

lemma getIncidentCenterSnapshot_cases:
  assumes "getIncidentCenterSnapshot rng snapshot feeds = Some ic"
  obtains generated ctx events hostEvents gaps where
    "Date_parse (ms_generatedAt snapshot) = Some generated"
    "fd_events feeds = Some events" "fd_hostEvents feeds = Some hostEvents"
    "deriveRecoveredHostGaps hostEvents (generated - incident_range_hours rng * 3600000) rng = Some gaps"
    "ic_active ic = sort_key active_order
       (deriveActiveHostIncidents snapshot (hostEventsByEntity hostEvents) rng @
        deriveActiveContainerIncidents snapshot (eventByEntity (mergeUniqueEvents ctx events)) rng)"
    "ic_recovered ic = sort_desc (\<lambda>i. ms_of (ri_recoveredAt i))
       (deriveRecoveredContainerIncidents (mergeUniqueEvents ctx events)
          (generated - incident_range_hours rng * 3600000) rng @ gaps)"
    "ic_summary ic = incident_summary_of (ic_active ic) (ic_recovered ic)
       (filter (\<lambda>e. nan_le (Some (generated - incident_range_hours rng * 3600000)) (Date_parse (ev_occurredAt e))) events)
       (filter (\<lambda>e. nan_le (Some (generated - incident_range_hours rng * 3600000)) (Date_parse (hev_occurredAt e))) hostEvents)"
proof -
  from assms obtain generated boundary events ctx hostEvents gaps where
    "Date_parse (ms_generatedAt snapshot) = Some generated"
    "Date_toISOString (generated - INCIDENT_CONTEXT_HOURS * 3600000) = Some boundary"
    "fd_events feeds = Some events" "fd_context feeds boundary = Some ctx"
    "fd_hostEvents feeds = Some hostEvents"
    "deriveRecoveredHostGaps hostEvents (generated - incident_range_hours rng * 3600000) rng = Some gaps"
    unfolding getIncidentCenterSnapshot_def bind_eq_Some_conv Let_def by blast
  note facts = this
  from assms facts show thesis
    by (intro that [of generated events hostEvents gaps ctx])
      (auto simp: getIncidentCenterSnapshot_def Let_def)
qed

lemma centre_recovered_ok:
  assumes "getIncidentCenterSnapshot rng snapshot feeds = Some ic" "i \<in> set (ic_recovered ic)"
  shows "\<exists>generated. Date_parse (ms_generatedAt snapshot) = Some generated \<and>
    recovered_ok (generated - incident_range_hours rng * 3600000) i"
  by (rule getIncidentCenterSnapshot_cases [OF assms(1)])
    (use assms(2) in \<open>auto intro: recovered_containers_ok host_gaps_ok\<close>)


section \<open>Properties\<close>

text \<open>C14. A signal of a container (state, health or exit code) is open after a sequence of events
  exactly when some warning or critical event of that signal was followed by no event that resolves
  it and by no event with another expected state.\<close>

theorem open_signal_iff:
  "deriveOpenSignals es sg \<noteq> None \<longleftrightarrow>
     (\<exists>pre e post. es = pre @ e # post \<and>
        signalName e = Some sg \<and> incidentSeverity (ev_severity e) \<noteq> None \<and>
        list_all (\<lambda>x. ev_expectedState x = ev_expectedState e \<and>
          \<not> (signalName x = Some sg \<and> incidentSeverity (ev_severity x) = None \<and> resolvesSignal x)) post)"
proof -
  have "deriveOpenSignals es sg \<noteq> None \<longleftrightarrow> (\<exists>pre e post. opened_by sg es pre e post)"
    using signals.open_iff [of sg es] by (simp add: deriveOpenSignals_def signal_abs_def dom_def)
  then show ?thesis
    unfolding opened_by_def opens_def keeps_open_def [abs_def] closes_def
    by (simp only: conj_assoc conj_commute)
qed

text \<open>C13. The loop that closes episodes and the loop that lists open signals agree on every sequence
  of events: the recovery loop has the same signals active, and it holds an open episode exactly
  while some signal is open, so no active incident is also pending as a recovered one.\<close>

theorem recovery_loop_agrees_with_open_signals:
  "rs_active (foldl (recovery_step rangeStart rng) recovery_start es) = dom (deriveOpenSignals es) \<and>
   (rs_episode (foldl (recovery_step rangeStart rng) recovery_start es) = None \<longleftrightarrow>
      deriveOpenSignals es = Map.empty)"
proof -
  let ?r = "foldl (recovery_step rangeStart rng) recovery_start es"
  have "recovery_abs ?r = signal_abs (foldl signal_step signal_start es)"
    by (simp only: recovery.abs_run signals.abs_run)
  then have active: "rs_active ?r = dom (deriveOpenSignals es)"
    by (simp add: recovery_abs_def signal_abs_def deriveOpenSignals_def)
  moreover have "recovery_wf ?r" by (rule recovery.inv_run)
  ultimately show ?thesis by (auto simp: recovery_wf_def)
qed

text \<open>The recovered incidents of one container, its events in time order, are well timed (the
  start is readable and not after the recovery, the recovery is inside the range, the duration is the
  difference in whole seconds) and follow each other: each starts at or after the recovery of every
  earlier one.\<close>

theorem recovered_incidents_sequential:
  "list_all (recovered_ok rangeStart) (recover_entity rangeStart rng (sort_key event_order es)) \<and>
   sorted_wrt (\<lambda>a b. ms_of (ri_recoveredAt a) \<le> ms_of (ri_startedAt b))
     (recover_entity rangeStart rng (sort_key event_order es))"
  by (rule recover_entity_episodes)

text \<open>The active incident of a container starts at the earliest of its candidates (the open
  signals that the current state confirms, and the last memory kill), has the worst severity of
  them, and reports an exact start exactly when there is a candidate.\<close>

theorem active_incident_start_and_severity:
  fixes c :: container_overview and events :: "monitoring_event list" and generatedAt :: string
    and rng :: incident_range and status :: incident_status and host :: host_overview
  defines "i \<equiv> active_container_incident generatedAt rng c status host events"
    and "cs \<equiv> incident_candidates c events"
  shows "(ai_exactStart i \<longleftrightarrow> cs \<noteq> []) \<and>
    (ai_startedAt i = None \<longleftrightarrow> cs = []) \<and>
    list_all (\<lambda>s. (\<exists>t. ai_startedAt i = Some t \<and> ms_of t \<le> ms_of (os_startedAt s)) \<and>
                  severityRank (os_severity s) \<le> severityRank (ai_severity i)) cs \<and>
    ai_severity i \<in> (if cs = [] then {fallbackSeverity status} else os_severity ` set cs)"
proof (cases cs)
  case Nil
  then show ?thesis
    by (simp add: i_def active_container_incident_def cs_def [symmetric] Let_def)
next
  case (Cons f rest)
  have sev: "ai_severity i = foldl (\<lambda>cur s. maxSeverity cur (os_severity s)) (os_severity f) cs"
    and start: "ai_startedAt i = Some (os_startedAt f)" and exact: "ai_exactStart i"
    by (simp_all add: i_def active_container_incident_def cs_def [symmetric] Let_def Cons)
  have "sorted_wrt (\<lambda>a b. ms_of (os_startedAt a) \<le> ms_of (os_startedAt b)) cs"
    unfolding cs_def incident_candidates_def Let_def by (rule sort_key_ordered)
  then have least: "\<forall>s \<in> set cs. ms_of (os_startedAt f) \<le> ms_of (os_startedAt s)"
    by (simp add: Cons)
  have "ai_severity i \<in> os_severity ` set cs"
    using severity.fold_choice [of os_severity "os_severity f" cs] unfolding sev by (auto simp: Cons)
  then show ?thesis
    using least severity.fold_upper_mem [of _ cs os_severity "os_severity f"]
    by (auto simp: start exact sev list_all_iff Cons)
qed

lemma summary_counts:
  assumes "getIncidentCenterSnapshot rng snapshot feeds = Some ic"
  shows "su_activeCriticalCount (ic_summary ic) + su_activeWarningCount (ic_summary ic) = length (ic_active ic)"
  by (rule getIncidentCenterSnapshot_cases [OF assms]) (simp add: incident_summary_of_def severity_partition)

text \<open>When the centre is produced, every recovered incident ended inside the requested range and
  lasted a non-negative whole number of seconds, the newest recovery comes first, and the active
  incidents come critical before warning and, within a severity, oldest known start first.\<close>

theorem incident_centre_lists:
  assumes "getIncidentCenterSnapshot rng snapshot feeds = Some ic"
  shows "list_all (\<lambda>i. \<exists>generated. Date_parse (ms_generatedAt snapshot) = Some generated \<and>
      recovered_ok (generated - incident_range_hours rng * 3600000) i) (ic_recovered ic) \<and>
    sorted_wrt (\<lambda>a b. ms_of (ri_recoveredAt b) \<le> ms_of (ri_recoveredAt a)) (ic_recovered ic) \<and>
    sorted_wrt (\<lambda>a b. severityRank (ai_severity b) < severityRank (ai_severity a) \<or>
       (ai_severity a = ai_severity b \<and>
          (nonempty (ai_startedAt b) = None \<or>
           (\<exists>s t. nonempty (ai_startedAt a) = Some s \<and> nonempty (ai_startedAt b) = Some t \<and>
              ms_of s \<le> ms_of t)))) (ic_active ic)"
proof (rule getIncidentCenterSnapshot_cases [OF assms])
  fix generated ctx events hostEvents gaps
  assume "ic_active ic = sort_key active_order
      (deriveActiveHostIncidents snapshot (hostEventsByEntity hostEvents) rng @
       deriveActiveContainerIncidents snapshot (eventByEntity (mergeUniqueEvents ctx events)) rng)"
    and "ic_recovered ic = sort_desc (\<lambda>i. ms_of (ri_recoveredAt i))
      (deriveRecoveredContainerIncidents (mergeUniqueEvents ctx events)
        (generated - incident_range_hours rng * 3600000) rng @ gaps)"
  then show ?thesis
    using centre_recovered_ok [OF assms]
    unfolding active_order_le_iff [symmetric] list_all_iff
    by (intro conjI ballI) (simp_all only: sort_key_ordered sorted_sort_desc)
qed

text \<open>A centre with an open container incident, a recovered one and a recovered host gap.\<close>

definition sample_host :: host_overview where
  "sample_host = \<lparr> ho_id = ''h1'', ho_serverId = ''alpha'', ho_displayName = ''Alpha'',
     ho_provider = ''oci'', ho_environment = ''prod'', ho_status = HostOnline,
     ho_agentVersion = None, ho_receivedAt = None, ho_sentAt = None, ho_ageSeconds = Some 5,
     ho_cpuCount = None, ho_memoryTotalBytes = None, ho_memoryAvailableBytes = None,
     ho_diskTotalBytes = None, ho_diskAvailableBytes = None, ho_loadAverage1 = None,
     ho_loadAverage5 = None, ho_loadAverage15 = None, ho_uptimeSeconds = None \<rparr>"

definition sample_container :: container_overview where
  "sample_container = \<lparr> co_hostId = ''h1'', co_hostDisplayName = ''Alpha'', co_name = ''web'',
     co_status = CtError, co_state = ExitedState, co_health = NoneHealth, co_restartCount = 0,
     co_oomKilled = False, co_exitCode = Some 1, co_cpuPercent = None, co_memoryUsageBytes = None,
     co_memoryLimitBytes = None, co_networkRxBytes = None, co_networkTxBytes = None,
     co_blockReadBytes = None, co_blockWriteBytes = None, co_pids = None,
     co_receivedAt = ''2026-07-01T11:59:55.000Z'', co_ageSeconds = 5,
     co_expectedState = Some ExpectRunning, co_maintenanceMode = False, co_maintenanceActive = False,
     co_maintenanceReason = None, co_maintenanceUntil = None \<rparr>"

definition sample_event :: "int \<Rightarrow> string \<Rightarrow> event_severity \<Rightarrow> string \<Rightarrow> monitoring_event" where
  "sample_event n t sev to = \<lparr> ev_id = n, ev_hostId = ''h1'', ev_serverId = ''alpha'',
     ev_hostDisplayName = ''Alpha'', ev_containerName = ''web'', ev_occurredAt = t,
     ev_eventType = StateChanged, ev_severity = sev, ev_fromValue = None, ev_toValue = Some to,
     ev_numericValue = None, ev_expectedState = Some ExpectRunning \<rparr>"

definition sample_gap :: host_monitoring_event where
  "sample_gap = \<lparr> hev_id = 4, hev_hostId = ''h1'', hev_serverId = ''alpha'',
     hev_hostDisplayName = ''Alpha'', hev_occurredAt = ''2026-07-01T10:00:00.000Z'',
     hev_eventType = HeartbeatGapDetected, hev_severity = HostWarning, hev_fromValue = None,
     hev_toValue = None, hev_numericValue = Some 200 \<rparr>"

definition sample_snapshot :: monitoring_snapshot where
  "sample_snapshot = \<lparr> ms_hosts = [sample_host], ms_containers = [sample_container],
     ms_generatedAt = ''2026-07-01T12:00:00.000Z'' \<rparr>"

definition sample_feeds :: incident_feeds where
  "sample_feeds = \<lparr> fd_events = Some
       [sample_event 1 ''2026-07-01T08:00:00.000Z'' CriticalSeverity ''exited'',
        sample_event 2 ''2026-07-01T08:05:00.000Z'' RecoverySeverity ''running'',
        sample_event 3 ''2026-07-01T11:00:00.000Z'' CriticalSeverity ''exited''],
     fd_context = (\<lambda>_. Some []), fd_hostEvents = Some [sample_gap] \<rparr>"

lemmas sample_defs = sample_host_def sample_container_def sample_event_def sample_gap_def
  sample_snapshot_def sample_feeds_def

lemma sample_generated: "Date_parse ''2026-07-01T12:00:00.000Z'' = Some 1782907200000"
  by (simp add: sample_instants)

lemma sample_gaps: "\<exists>g. deriveRecoveredHostGaps [sample_gap] 1782820800000 Range24h = Some g"
proof -
  have "Date_parse ''2026-07-01T10:00:00.000Z'' = Some 1782900000000" by (simp add: sample_instants)
  then show ?thesis
    by (simp add: deriveRecoveredHostGaps_def host_gap_incident_def sample_gap_def
        HOST_STALE_AFTER_SECONDS_def Date_toISOString_def max_time_def Let_def)
qed

lemma sample_boundary: "\<exists>s. Date_toISOString (1782907200000 - INCIDENT_CONTEXT_HOURS * 3600000) = Some s"
  by (simp add: INCIDENT_CONTEXT_HOURS_def Date_toISOString_def max_time_def)

lemma sample_centre: "\<exists>ic. getIncidentCenterSnapshot Range24h sample_snapshot sample_feeds = Some ic"
  using sample_gaps sample_boundary
  by (auto simp: getIncidentCenterSnapshot_def Let_def sample_snapshot_def sample_feeds_def
      sample_generated incident_range_hours_def)

theorem incident_centre_lists_witness:
  "\<exists>ic. getIncidentCenterSnapshot Range24h sample_snapshot sample_feeds = Some ic \<and>
     sorted_wrt (\<lambda>a b. ms_of (ri_recoveredAt b) \<le> ms_of (ri_recoveredAt a)) (ic_recovered ic)"
  using sample_centre incident_centre_lists [of Range24h sample_snapshot sample_feeds] by blast

text \<open>The summary agrees with the lists it summarises: critical and warning active incidents add
  up to the active ones, the median recovery is between the shortest and the longest one, the longest
  is attained and bounds all of them, and the latest recovery is not before any recovery listed.\<close>

theorem incident_summary_consistent:
  assumes "getIncidentCenterSnapshot rng snapshot feeds = Some ic"
  shows "su_activeCriticalCount (ic_summary ic) + su_activeWarningCount (ic_summary ic) = length (ic_active ic) \<and>
    su_recoveredCount (ic_summary ic) = length (ic_recovered ic) \<and>
    (su_medianRecoverySeconds (ic_summary ic) = None \<longleftrightarrow> ic_recovered ic = []) \<and>
    (\<forall>m. su_medianRecoverySeconds (ic_summary ic) = Some m \<longrightarrow>
       Min (ri_durationSeconds ` set (ic_recovered ic)) \<le> m \<and>
       su_longestRecoverySeconds (ic_summary ic) = Some (Max (ri_durationSeconds ` set (ic_recovered ic))) \<and>
       m \<le> Max (ri_durationSeconds ` set (ic_recovered ic))) \<and>
    (\<forall>t. su_latestRecoveredAt (ic_summary ic) = Some t \<longrightarrow>
       (\<forall>i \<in> set (ic_recovered ic). ms_of (ri_recoveredAt i) \<le> ms_of t))"
proof (rule getIncidentCenterSnapshot_cases [OF assms])
  fix generated ctx events hostEvents gaps ces hes
  assume summary: "ic_summary ic = incident_summary_of (ic_active ic) (ic_recovered ic)
       (filter (\<lambda>e. nan_le (Some (generated - incident_range_hours rng * 3600000)) (Date_parse (ev_occurredAt e))) events)
       (filter (\<lambda>e. nan_le (Some (generated - incident_range_hours rng * 3600000)) (Date_parse (hev_occurredAt e))) hostEvents)"
    and recovered: "ic_recovered ic = sort_desc (\<lambda>i. ms_of (ri_recoveredAt i))
      (deriveRecoveredContainerIncidents (mergeUniqueEvents ctx events)
        (generated - incident_range_hours rng * 3600000) rng @ gaps)"
  let ?d = "map ri_durationSeconds (ic_recovered ic)"
  have latest: "ms_of (ri_recoveredAt x) \<le> ms_of (ri_recoveredAt i)"
    if "js_first (ic_recovered ic) = Some i" "x \<in> set (ic_recovered ic)" for i x
    using first_desc_latest [OF that(1) [unfolded recovered]] that(2) by (simp add: recovered)
  have "median ?d = Some m \<Longrightarrow> Min (set ?d) \<le> m \<and> m \<le> Max (set ?d)" for m
    by (rule median_bounds)
  moreover have "median ?d = Some m \<Longrightarrow> ic_recovered ic \<noteq> []" for m
    by (auto simp: median_def)
  ultimately show ?thesis using latest
    by (auto simp: summary incident_summary_of_def severity_partition median_None_iff maximum_def)
qed

theorem incident_summary_consistent_witness:
  "\<exists>ic. getIncidentCenterSnapshot Range24h sample_snapshot sample_feeds = Some ic \<and>
     su_activeCriticalCount (ic_summary ic) + su_activeWarningCount (ic_summary ic) = length (ic_active ic)"
  using sample_centre incident_summary_consistent [of Range24h sample_snapshot sample_feeds] by blast

end
