(* ===== verification/MetricHistory.thy ===== *)
theory MetricHistory
  imports Patterns Monitoring
begin

text \<open>
  The metric history (\<open>apps/web/lib/history.ts\<close>): the range of a chart, the call of a database
  function, the host and container series with their points in time order, and the retention state.
  The transport is a parameter; a rejected promise is \<open>None\<close>. A figure is the rational its double
  denotes.
\<close>

section \<open>Ranges and rows\<close>

datatype history_range = History1h | History6h | History24h | History7d | History30d

definition history_range_text :: "history_range \<Rightarrow> string" where
  "history_range_text r =
     (case r of History1h \<Rightarrow> ''1h'' | History6h \<Rightarrow> ''6h'' | History24h \<Rightarrow> ''24h'' | History7d \<Rightarrow> ''7d''
      | History30d \<Rightarrow> ''30d'')"

definition history_range_config :: "history_range \<Rightarrow> int \<times> int \<times> int" where
  \<comment> \<open>hours, seconds of a bucket, milliseconds between two refreshes\<close>
  "history_range_config r =
     (case r of
        History1h \<Rightarrow> (1, 60, 60000)
      | History6h \<Rightarrow> (6, 120, 60000)
      | History24h \<Rightarrow> (24, 300, 60000)
      | History7d \<Rightarrow> (168, 1800, 300000)
      | History30d \<Rightarrow> (720, 3600, 300000))"

definition parseHistoryRange :: "string option \<Rightarrow> history_range" where
  "parseHistoryRange value =
     (case nonempty value of
        None \<Rightarrow> History24h
      | Some s \<Rightarrow>
          (case List.find (\<lambda>r. history_range_text r = s)
                  [History1h, History6h, History24h, History7d, History30d] of
             None \<Rightarrow> History24h
           | Some r \<Rightarrow> r))"

datatype history_data_source = RawSource | RollupSource

record host_history_point =
  hp_timestamp :: string
  hp_loadAverage1 :: "rat option"
  hp_loadAverage5 :: "rat option"
  hp_loadAverage15 :: "rat option"
  hp_memoryPercent :: "rat option"
  hp_diskPercent :: "rat option"
  hp_sampleCount :: int

record host_history_series =
  hs_hostId :: string
  hs_hostDisplayName :: string
  hs_dataSource :: history_data_source
  hs_bucketSeconds :: int
  hs_points :: "host_history_point list"

record container_history_point =
  cp_timestamp :: string
  cp_cpuPercent :: "rat option"
  cp_memoryPercent :: "rat option"
  cp_pids :: "rat option"
  cp_restartCount :: "rat option"
  cp_networkRxRateBps :: "rat option"
  cp_networkTxRateBps :: "rat option"
  cp_blockReadRateBps :: "rat option"
  cp_blockWriteRateBps :: "rat option"
  cp_sampleCount :: int

record container_history_series =
  ch_hostId :: string
  ch_hostDisplayName :: string
  ch_containerName :: string
  ch_dataSource :: history_data_source
  ch_bucketSeconds :: int
  ch_points :: "container_history_point list"

record retention_state =
  rs_enabled :: bool
  rs_rawRetentionDays :: int
  rs_rollupRetentionDays :: int
  rs_batchSize :: int
  rs_lastRunAt :: "string option"
  rs_lastRawCutoff :: "string option"
  rs_lastRollupCutoff :: "string option"
  rs_lastDeletedContainerSamples :: int
  rs_lastDeletedMinecraftSamples :: int
  rs_lastDeletedHeartbeats :: int
  rs_lastDeletedHostRollups :: int
  rs_lastDeletedContainerRollups :: int
  rs_lastDeletedMinecraftRollups :: int

section \<open>The database call\<close>

record rpc_request =
  rq_url :: string
  rq_key :: string \<comment> \<open>of the headers \<open>apikey\<close> and \<open>Authorization\<close>\<close>
  rq_payload :: jsval

definition required_setting :: "(string \<Rightarrow> string option) \<Rightarrow> string \<Rightarrow> string option" where
  "required_setting env name = nonempty (map_option trim (env name))"

definition drop_last_slash :: "string \<Rightarrow> string" where
  \<comment> \<open>\<open>s.replace(/\/$/, "")\<close>\<close>
  "drop_last_slash s = (if s \<noteq> [] \<and> last s = CHR ''/'' then butlast s else s)"

definition supabaseConfiguration :: "(string \<Rightarrow> string option) \<Rightarrow> (string \<times> string) option" where
  "supabaseConfiguration env = do {
     url \<leftarrow> required_setting env ''SUPABASE_URL'';
     key \<leftarrow> required_setting env ''SUPABASE_SERVICE_ROLE_KEY'';
     Some (drop_last_slash url, key)
   }"

definition callSupabaseRpc ::
  "(string \<Rightarrow> string option) \<Rightarrow> (rpc_request \<Rightarrow> (int \<times> jsval option) option) \<Rightarrow> string \<Rightarrow> jsval \<Rightarrow> jsval option" where
  \<comment> \<open>\<open>fetch\<close> yields the status and the JSON of the body, or fails\<close>
  "callSupabaseRpc env fetch rpcName payload = do {
     (url, key) \<leftarrow> supabaseConfiguration env;
     (status, body) \<leftarrow> fetch \<lparr> rq_url = url @ ''/rest/v1/rpc/'' @ rpcName, rq_key = key, rq_payload = payload \<rparr>;
     if 200 \<le> status \<and> status \<le> 299 then body else None
   }"

section \<open>Readers\<close>

definition nullableNumber :: "jsval \<Rightarrow> rat option" where
  "nullableNumber value =
     (if value = Null \<or> value = Undefined then None
      else (case to_number value of Fin q \<Rightarrow> Some q | _ \<Rightarrow> None))"

definition nonNegativeInteger :: "jsval \<Rightarrow> int" where
  "nonNegativeInteger value =
     (case coerced_integer value of None \<Rightarrow> 0 | Some i \<Rightarrow> if i < 0 then 0 else i)"

definition requiredPositiveInteger :: "jsval \<Rightarrow> int option" where
  "requiredPositiveInteger value =
     (case coerced_integer value of None \<Rightarrow> None | Some i \<Rightarrow> if i > 0 then Some i else None)"

definition dataSource :: "jsval \<Rightarrow> history_data_source" where
  "dataSource value = (if value = Str ''rollup_5m'' then RollupSource else RawSource)"

definition host_point :: "jsval \<Rightarrow> host_history_point option" where
  "host_point item =
     (if \<not> is_record item then None
      else (case read_timestamp (get_prop item ''timestamp'') of
              None \<Rightarrow> None
            | Some t \<Rightarrow> Some \<lparr> hp_timestamp = t,
                hp_loadAverage1 = nullableNumber (get_prop item ''loadAverage1''),
                hp_loadAverage5 = nullableNumber (get_prop item ''loadAverage5''),
                hp_loadAverage15 = nullableNumber (get_prop item ''loadAverage15''),
                hp_memoryPercent = nullableNumber (get_prop item ''memoryPercent''),
                hp_diskPercent = nullableNumber (get_prop item ''diskPercent''),
                hp_sampleCount = nonNegativeInteger (get_prop item ''sampleCount'') \<rparr>))"

definition parseHostPoints :: "jsval \<Rightarrow> host_history_point list" where
  "parseHostPoints value =
     (case as_array value of
        None \<Rightarrow> []
      | Some items \<Rightarrow> sort_key (\<lambda>p. ms_of (hp_timestamp p)) (List.map_filter host_point items))"

definition container_point :: "jsval \<Rightarrow> container_history_point option" where
  "container_point item =
     (if \<not> is_record item then None
      else (case read_timestamp (get_prop item ''timestamp'') of
              None \<Rightarrow> None
            | Some t \<Rightarrow> Some \<lparr> cp_timestamp = t,
                cp_cpuPercent = nullableNumber (get_prop item ''cpuPercent''),
                cp_memoryPercent = nullableNumber (get_prop item ''memoryPercent''),
                cp_pids = nullableNumber (get_prop item ''pids''),
                cp_restartCount = nullableNumber (get_prop item ''restartCount''),
                cp_networkRxRateBps = nullableNumber (get_prop item ''networkRxRateBps''),
                cp_networkTxRateBps = nullableNumber (get_prop item ''networkTxRateBps''),
                cp_blockReadRateBps = nullableNumber (get_prop item ''blockReadRateBps''),
                cp_blockWriteRateBps = nullableNumber (get_prop item ''blockWriteRateBps''),
                cp_sampleCount = nonNegativeInteger (get_prop item ''sampleCount'') \<rparr>))"

definition parseContainerPoints :: "jsval \<Rightarrow> container_history_point list" where
  "parseContainerPoints value =
     (case as_array value of
        None \<Rightarrow> []
      | Some items \<Rightarrow> sort_key (\<lambda>p. ms_of (cp_timestamp p)) (List.map_filter container_point items))"

section \<open>Series\<close>

definition integer_number :: "jsval \<Rightarrow> int option" where
  \<comment> \<open>\<open>Number(v)\<close> when \<open>Number.isInteger(Number(v))\<close>\<close>
  "integer_number v = num_integer (to_number v)"

definition host_series :: "jsval \<Rightarrow> host_history_series option" where
  "host_series row = do {
     hostId \<leftarrow> as_string (get_prop row ''host_id'');
     displayName \<leftarrow> as_string (get_prop row ''host_display_name'');
     bucket \<leftarrow> integer_number (get_prop row ''bucket_seconds'');
     Some \<lparr> hs_hostId = hostId, hs_hostDisplayName = displayName,
       hs_dataSource = dataSource (get_prop row ''data_source''), hs_bucketSeconds = bucket,
       hs_points = parseHostPoints (get_prop row ''points'') \<rparr>
   }"

definition readable_rows :: "jsval \<Rightarrow> jsval list option" where
  \<comment> \<open>\<open>rows.filter\<close> needs an array; reading a property of a \<open>null\<close> row throws\<close>
  "readable_rows payload =
     (case as_array payload of
        None \<Rightarrow> None
      | Some rows \<Rightarrow> if Null \<in> set rows \<or> Undefined \<in> set rows then None else Some rows)"

definition getHostMetricHistory ::
  "(string \<Rightarrow> string) \<Rightarrow> (string \<Rightarrow> jsval \<Rightarrow> jsval option) \<Rightarrow> history_range \<Rightarrow> host_history_series list option" where
  "getHostMetricHistory collate rpc rng = do {
     payload \<leftarrow> rpc ''get_host_metric_history_v3'' (Obj [(''p_range'', Str (history_range_text rng))]);
     rows \<leftarrow> readable_rows payload;
     Some (sort_key (\<lambda>s. collate (hs_hostDisplayName s)) (List.map_filter host_series rows))
   }"

definition container_series :: "jsval \<Rightarrow> container_history_series option" where
  "container_series row = do {
     hostId \<leftarrow> as_string (get_prop row ''host_id'');
     displayName \<leftarrow> as_string (get_prop row ''host_display_name'');
     containerName \<leftarrow> as_string (get_prop row ''container_name'');
     bucket \<leftarrow> integer_number (get_prop row ''bucket_seconds'');
     Some \<lparr> ch_hostId = hostId, ch_hostDisplayName = displayName, ch_containerName = containerName,
       ch_dataSource = dataSource (get_prop row ''data_source''), ch_bucketSeconds = bucket,
       ch_points = parseContainerPoints (get_prop row ''points'') \<rparr>
   }"

definition getContainerMetricHistory ::
  "(string \<Rightarrow> string) \<Rightarrow> (string \<Rightarrow> jsval \<Rightarrow> jsval option) \<Rightarrow> history_range \<Rightarrow>
   container_history_series list option" where
  "getContainerMetricHistory collate rpc rng = do {
     payload \<leftarrow> rpc ''get_container_metric_history_v3'' (Obj [(''p_range'', Str (history_range_text rng))]);
     rows \<leftarrow> readable_rows payload;
     Some (sort_key (\<lambda>s. collate (ch_hostDisplayName s @ '':'' @ ch_containerName s))
       (List.map_filter container_series rows))
   }"

fun first_item :: "jsval \<Rightarrow> jsval option" where
  \<comment> \<open>\<open>rows[0]\<close>\<close>
  "first_item (Arr (x # _)) = Some x"
| "first_item (Obj fs) = Some (prop_or fs ''0'')"
| "first_item Null = None"
| "first_item Undefined = None"
| "first_item _ = Some Undefined"

definition getObservabilityRetentionState ::
  "(string \<Rightarrow> jsval \<Rightarrow> jsval option) \<Rightarrow> retention_state option" where
  "getObservabilityRetentionState rpc = do {
     payload \<leftarrow> rpc ''get_observability_retention_state_v2'' (Obj []);
     row \<leftarrow> first_item payload;
     enabled \<leftarrow> as_bool (get_prop row ''enabled'');
     rawDays \<leftarrow> requiredPositiveInteger (get_prop row ''raw_retention_days'');
     rollupDays \<leftarrow> requiredPositiveInteger (get_prop row ''rollup_retention_days'');
     batch \<leftarrow> requiredPositiveInteger (get_prop row ''batch_size'');
     Some \<lparr> rs_enabled = enabled, rs_rawRetentionDays = rawDays, rs_rollupRetentionDays = rollupDays,
       rs_batchSize = batch,
       rs_lastRunAt = read_timestamp (get_prop row ''last_run_at''),
       rs_lastRawCutoff = read_timestamp (get_prop row ''last_raw_cutoff''),
       rs_lastRollupCutoff = read_timestamp (get_prop row ''last_rollup_cutoff''),
       rs_lastDeletedContainerSamples = nonNegativeInteger (get_prop row ''last_deleted_container_samples''),
       rs_lastDeletedMinecraftSamples = nonNegativeInteger (get_prop row ''last_deleted_minecraft_samples''),
       rs_lastDeletedHeartbeats = nonNegativeInteger (get_prop row ''last_deleted_heartbeats''),
       rs_lastDeletedHostRollups = nonNegativeInteger (get_prop row ''last_deleted_host_rollups''),
       rs_lastDeletedContainerRollups = nonNegativeInteger (get_prop row ''last_deleted_container_rollups''),
       rs_lastDeletedMinecraftRollups = nonNegativeInteger (get_prop row ''last_deleted_minecraft_rollups'') \<rparr>
   }"

declare parseHistoryRange_def [js_eval] nullableNumber_def [js_eval] nonNegativeInteger_def [js_eval]
  dataSource_def [js_eval] host_point_def [js_eval] parseHostPoints_def [js_eval]
  container_point_def [js_eval] parseContainerPoints_def [js_eval]

section \<open>Lemmas\<close>

lemma nonNegativeInteger_bounds: "0 \<le> nonNegativeInteger v \<and> nonNegativeInteger v \<le> max_safe_integer"
  using coerced_integer_bound [of v]
  by (auto simp: nonNegativeInteger_def max_safe_integer_def split: option.splits)

lemma host_point_SomeD:
  "host_point v = Some p \<Longrightarrow> (\<exists>t. Date_parse (hp_timestamp p) = Some t) \<and> 0 \<le> hp_sampleCount p"
  using nonNegativeInteger_bounds
  by (auto simp: host_point_def dest: read_timestamp_SomeD split: option.splits if_splits)

lemma host_points_read:
  "p \<in> set (parseHostPoints v) \<Longrightarrow> (\<exists>t. Date_parse (hp_timestamp p) = Some t) \<and> 0 \<le> hp_sampleCount p"
  by (auto simp: parseHostPoints_def set_map_filter dest: host_point_SomeD split: option.splits)

lemma container_point_SomeD:
  "container_point v = Some p \<Longrightarrow> (\<exists>t. Date_parse (cp_timestamp p) = Some t) \<and> 0 \<le> cp_sampleCount p"
  using nonNegativeInteger_bounds
  by (auto simp: container_point_def dest: read_timestamp_SomeD split: option.splits if_splits)

lemma container_points_read:
  "p \<in> set (parseContainerPoints v) \<Longrightarrow> (\<exists>t. Date_parse (cp_timestamp p) = Some t) \<and> 0 \<le> cp_sampleCount p"
  by (auto simp: parseContainerPoints_def set_map_filter dest: container_point_SomeD split: option.splits)

lemma host_points_sorted: "sorted_wrt (\<lambda>p q. ms_of (hp_timestamp p) \<le> ms_of (hp_timestamp q)) (parseHostPoints v)"
  by (auto simp: parseHostPoints_def sort_key_ordered split: option.split)

end
