(* ===== verification/HistoryOverlays.thy ===== *)
theory HistoryOverlays
  imports Incidents MetricHistory
begin

text \<open>
  The status overlays of the history charts (\<open>apps/web/lib/history-status-overlays.ts\<close>): regions in
  which a host or a container was stale, offline, failing or under maintenance, derived from the events
  and the current snapshot, clipped to the chart and merged. \<open>signalName\<close>, \<open>resolvesSignal\<close>, the keys and
  the grouping of events are those of the incident centre, whose functions the module repeats word for
  word. Instants are milliseconds; a region carries their ISO texts, as in the code.
\<close>

section \<open>Regions\<close>

datatype overlay_kind = StaleKind | OfflineKind | ErrorKind | MaintenanceKind

record overlay_region =
  or_id :: string
  or_startAt :: string
  or_endAt :: string
  or_label :: string
  or_kind :: overlay_kind
  or_entityType :: monitored_entity
  or_hostId :: string
  or_containerName :: "string option"

record overlay_snapshot =
  ovs_generatedAt :: string
  ovs_hostRegions :: "overlay_region list"
  ovs_containerRegions :: "overlay_region list"

definition ONLINE_THRESHOLD_MS :: int where
  "ONLINE_THRESHOLD_MS = 45000"

definition OFFLINE_THRESHOLD_MS :: int where
  "OFFLINE_THRESHOLD_MS = 180000"

definition contextRange :: "history_range \<Rightarrow> history_range" where
  "contextRange r = (if r = History7d \<or> r = History30d then History30d else History7d)"

definition overlay_kind_text :: "overlay_kind \<Rightarrow> string" where
  "overlay_kind_text k =
     (case k of StaleKind \<Rightarrow> ''stale'' | OfflineKind \<Rightarrow> ''offline'' | ErrorKind \<Rightarrow> ''error''
      | MaintenanceKind \<Rightarrow> ''maintenance'')"

definition regionLabel :: "string \<Rightarrow> overlay_kind \<Rightarrow> string option \<Rightarrow> string" where
  "regionLabel hostDisplayName kind containerName =
     (let kindLabel = (case kind of StaleKind \<Rightarrow> ''Stale'' | OfflineKind \<Rightarrow> ''Offline'' | ErrorKind \<Rightarrow> ''Error''
            | MaintenanceKind \<Rightarrow> ''Maintenance'')
      in case nonempty containerName of
           Some c \<Rightarrow> c @ '' / '' @ hostDisplayName @ '' / '' @ kindLabel
         | None \<Rightarrow> hostDisplayName @ '' / '' @ kindLabel)"

record region_input =
  rgi_id :: string
  rgi_startMs :: int
  rgi_endMs :: int
  rgi_label :: string
  rgi_kind :: overlay_kind
  rgi_entityType :: monitored_entity
  rgi_hostId :: string
  rgi_containerName :: "string option"

definition createRegion :: "region_input \<Rightarrow> int \<Rightarrow> int \<Rightarrow> overlay_region option" where
  \<comment> \<open>within a chart whose ends are dates, so that the conversions to text succeed\<close>
  "createRegion i rangeStart rangeEnd =
     (let startMs = max (rgi_startMs i) rangeStart; endMs = min (rgi_endMs i) rangeEnd
      in if endMs \<le> startMs then None
         else Some \<lparr> or_id = rgi_id i, or_startAt = iso_text startMs, or_endAt = iso_text endMs,
           or_label = rgi_label i, or_kind = rgi_kind i, or_entityType = rgi_entityType i,
           or_hostId = rgi_hostId i, or_containerName = rgi_containerName i \<rparr>)"

definition pushRegion :: "int \<Rightarrow> int \<Rightarrow> overlay_region list \<Rightarrow> region_input \<Rightarrow> overlay_region list" where
  "pushRegion rangeStart rangeEnd regions i =
     (case createRegion i rangeStart rangeEnd of None \<Rightarrow> regions | Some r \<Rightarrow> regions @ [r])"

definition push_all :: "int \<Rightarrow> int \<Rightarrow> region_input list \<Rightarrow> overlay_region list" where
  \<comment> \<open>a sequence of \<open>pushRegion\<close> on a new list\<close>
  "push_all rangeStart rangeEnd inputs = foldl (pushRegion rangeStart rangeEnd) [] inputs"

section \<open>Hosts\<close>

definition host_region :: "string \<Rightarrow> overlay_kind \<Rightarrow> string \<Rightarrow> string \<Rightarrow> int \<Rightarrow> int \<Rightarrow> region_input" where
  "host_region prefix kind name hostId startMs endMs =
     \<lparr> rgi_id = prefix, rgi_startMs = startMs, rgi_endMs = endMs, rgi_label = regionLabel name kind None,
       rgi_kind = kind, rgi_entityType = HostEntity, rgi_hostId = hostId, rgi_containerName = None \<rparr>"

definition host_gap :: "host_monitoring_event \<Rightarrow> region_input list" where
  "host_gap e =
     (case (hev_numericValue e, Date_parse (hev_occurredAt e)) of
        (Some gap, Some recovered) \<Rightarrow>
          if hev_eventType e \<noteq> HeartbeatGapDetected \<or> gap \<le> 45 then []
          else (let gapStart = recovered - gap * 1000;
                    staleStart = gapStart + ONLINE_THRESHOLD_MS;
                    offlineStart = gapStart + OFFLINE_THRESHOLD_MS
                in host_region (''host-gap-stale:'' @ int_text (hev_id e)) StaleKind (hev_hostDisplayName e)
                     (hev_hostId e) staleStart (min offlineStart recovered) #
                   (if recovered > offlineStart
                    then [host_region (''host-gap-offline:'' @ int_text (hev_id e)) OfflineKind
                      (hev_hostDisplayName e) (hev_hostId e) offlineStart recovered]
                    else []))
      | _ \<Rightarrow> [])"

definition hostGapRegions :: "host_monitoring_event list \<Rightarrow> int \<Rightarrow> int \<Rightarrow> overlay_region list" where
  "hostGapRegions events rangeStart rangeEnd = push_all rangeStart rangeEnd (concat (map host_gap events))"

definition active_host :: "string \<Rightarrow> host_overview \<Rightarrow> region_input list" where
  "active_host generatedAt h =
     (case (Option.bind (nonempty (ho_receivedAt h)) Date_parse, Date_parse generatedAt) of
        (Some seen, Some generated) \<Rightarrow>
          if ho_status h \<noteq> HostStale \<and> ho_status h \<noteq> HostOffline then []
          else (let offlineStart = seen + OFFLINE_THRESHOLD_MS
                in host_region (''active-host-stale:'' @ ho_id h) StaleKind (ho_displayName h) (ho_id h)
                     (seen + ONLINE_THRESHOLD_MS)
                     (if ho_status h = HostOffline then min offlineStart generated else generated) #
                   (if ho_status h = HostOffline
                    then [host_region (''active-host-offline:'' @ ho_id h) OfflineKind (ho_displayName h) (ho_id h)
                      offlineStart generated]
                    else []))
      | _ \<Rightarrow> [])"

definition activeHostRegions :: "host_overview list \<Rightarrow> string \<Rightarrow> int \<Rightarrow> int \<Rightarrow> overlay_region list" where
  "activeHostRegions hosts generatedAt rangeStart rangeEnd =
     push_all rangeStart rangeEnd (concat (map (active_host generatedAt) hosts))"

section \<open>Container incidents\<close>

definition eventOverlayKind :: "monitoring_event \<Rightarrow> overlay_kind option" where
  "eventOverlayKind e =
     (case ev_severity e of CriticalSeverity \<Rightarrow> Some ErrorKind | WarningSeverity \<Rightarrow> Some StaleKind | _ \<Rightarrow> None)"

definition strongestSignalKind :: "(signal \<rightharpoonup> overlay_kind) \<Rightarrow> overlay_kind option" where
  "strongestSignalKind signals =
     (let present = List.map_filter signals [StateSignal, HealthSignal, ExitSignal]
      in if ErrorKind \<in> set present then Some ErrorKind
         else if present \<noteq> [] then Some StaleKind else None)"

record band =
  bd_signals :: "signal \<rightharpoonup> overlay_kind"
  bd_kind :: "overlay_kind option"
  bd_start :: "int option"
  bd_expected :: "expected_state option option"  \<comment> \<open>\<open>None\<close>: no event seen yet\<close>

definition band_signals :: "band \<Rightarrow> monitoring_event \<Rightarrow> (signal \<rightharpoonup> overlay_kind)" where
  \<comment> \<open>the signals after the event\<close>
  "band_signals b e =
     (let signals = (if bd_expected b \<noteq> None \<and> bd_expected b \<noteq> Some (ev_expectedState e) then Map.empty
            else bd_signals b)
      in case signalName e of
           None \<Rightarrow> signals
         | Some sg \<Rightarrow>
             (case eventOverlayKind e of
                Some k \<Rightarrow> signals(sg \<mapsto> k)
              | None \<Rightarrow> if resolvesSignal e then signals(sg := None) else signals))"

definition container_region ::
  "string \<Rightarrow> overlay_kind \<Rightarrow> string \<Rightarrow> string \<Rightarrow> string \<Rightarrow> int \<Rightarrow> int \<Rightarrow> region_input" where
  "container_region regionId kind hostName hostId containerName startMs endMs =
     \<lparr> rgi_id = regionId, rgi_startMs = startMs, rgi_endMs = endMs,
       rgi_label = regionLabel hostName kind (Some containerName), rgi_kind = kind,
       rgi_entityType = ContainerEntity, rgi_hostId = hostId, rgi_containerName = Some containerName \<rparr>"

definition band_step ::
  "string \<Rightarrow> monitoring_event \<Rightarrow> band \<times> region_input list \<Rightarrow> monitoring_event \<Rightarrow> band \<times> region_input list" where
  \<comment> \<open>the body of the loop over the events of a container, with its first event\<close>
  "band_step key firstEvent = (\<lambda>(b, out) e.
     case Date_parse (ev_occurredAt e) of
       None \<Rightarrow> (b, out)
     | Some eventMs \<Rightarrow>
         (let previousKind = strongestSignalKind (bd_signals b);
              signals = band_signals b e;
              nextKind = strongestSignalKind signals;
              b' = b \<lparr> bd_signals := signals, bd_expected := Some (ev_expectedState e) \<rparr>
          in if previousKind = nextKind
             then (if nextKind \<noteq> None \<and> bd_start b = None
                   then (b' \<lparr> bd_start := Some eventMs, bd_kind := nextKind \<rparr>, out) else (b', out))
             else (b' \<lparr> bd_start := (if nextKind = None then None else Some eventMs), bd_kind := nextKind \<rparr>,
                   (case (previousKind, bd_start b) of
                      (Some k, Some start) \<Rightarrow>
                        out @ [container_region (''container-incident:'' @ key @ '':'' @ int_text start @ '':'' @
                          int_text eventMs @ '':'' @ overlay_kind_text k) k (ev_hostDisplayName firstEvent)
                          (ev_hostId firstEvent) (ev_containerName firstEvent) start eventMs]
                    | _ \<Rightarrow> out))))"

definition band_start :: band where
  "band_start = \<lparr> bd_signals = Map.empty, bd_kind = None, bd_start = None, bd_expected = None \<rparr>"

definition open_band :: "string \<Rightarrow> container_overview option \<Rightarrow> int option \<Rightarrow> band \<Rightarrow> region_input list" where
  \<comment> \<open>the band that is still open after the last event\<close>
  "open_band key current generated b =
     (case (bd_kind b, bd_start b, current, generated) of
        (Some kind, Some start, Some c, Some now) \<Rightarrow>
          if co_maintenanceActive c then []
          else (case (if co_status c = CtError then Some now
                      else if co_status c = CtStale \<or> co_status c = CtOffline
                      then map_option (\<lambda>t. min now (t + ONLINE_THRESHOLD_MS)) (Date_parse (co_receivedAt c))
                      else None) of
                  None \<Rightarrow> []
                | Some endMs \<Rightarrow>
                    [container_region (''active-container-incident:'' @ key @ '':'' @ int_text start @ '':'' @
                       overlay_kind_text kind) kind (co_hostDisplayName c) (co_hostId c) (co_name c) start endMs])
      | _ \<Rightarrow> [])"

definition container_key_of :: "container_overview \<Rightarrow> string" where
  "container_key_of c = entityKey (co_hostId c) (Some (co_name c))"

definition container_bands :: "container_overview list \<Rightarrow> string \<Rightarrow> string \<times> monitoring_event list \<Rightarrow> region_input list" where
  "container_bands containers generatedAt = (\<lambda>(key, events).
     case events of
       [] \<Rightarrow> []
     | firstEvent # _ \<Rightarrow>
         (let (b, closed) = foldl (band_step key firstEvent) (band_start, []) events
          in closed @ open_band key (map_of (index_by container_key_of containers) key) (Date_parse generatedAt) b))"

definition covered_until :: "overlay_region list \<Rightarrow> overlay_kind \<Rightarrow> string \<Rightarrow> string \<Rightarrow> bool" where
  \<comment> \<open>\<open>alreadyCovered\<close>: a region of the kind that ends at most a second before now\<close>
  "covered_until regions kind key generatedAt \<longleftrightarrow>
     list_ex (\<lambda>r. entityKey (or_hostId r) (or_containerName r) = key \<and> or_kind r = kind \<and>
       ms_of (or_endAt r) \<ge> ms_of generatedAt - 1000) regions"

definition error_fallback ::
  "string \<Rightarrow> int \<Rightarrow> int \<Rightarrow> overlay_region list \<Rightarrow> container_overview \<Rightarrow> overlay_region list" where
  "error_fallback generatedAt rangeStart rangeEnd regions c =
     (if co_maintenanceActive c \<or> co_status c \<noteq> CtError \<or>
         covered_until regions ErrorKind (container_key_of c) generatedAt then regions
      else (case (Date_parse (co_receivedAt c), Date_parse generatedAt) of
              (Some received, Some generated) \<Rightarrow>
                pushRegion rangeStart rangeEnd regions
                  (container_region (''active-container-fallback:'' @ container_key_of c) ErrorKind
                    (co_hostDisplayName c) (co_hostId c) (co_name c) received generated)
            | _ \<Rightarrow> regions))"

definition containerIncidentRegions ::
  "monitoring_event list \<Rightarrow> container_overview list \<Rightarrow> string \<Rightarrow> int \<Rightarrow> int \<Rightarrow> overlay_region list" where
  "containerIncidentRegions events containers generatedAt rangeStart rangeEnd =
     foldl (error_fallback generatedAt rangeStart rangeEnd)
       (push_all rangeStart rangeEnd (concat (map (container_bands containers generatedAt) (eventByEntity events))))
       containers"

section \<open>Freshness and maintenance\<close>

definition stale_container :: "string \<Rightarrow> container_overview \<Rightarrow> region_input list" where
  "stale_container generatedAt c =
     (case (Date_parse (co_receivedAt c), Date_parse generatedAt) of
        (Some received, Some generated) \<Rightarrow>
          if co_status c \<noteq> CtStale \<and> co_status c \<noteq> CtOffline then []
          else (let offlineStart = received + OFFLINE_THRESHOLD_MS;
                    region = (\<lambda>prefix kind. container_region (prefix @ co_hostId c @ '':'' @ co_name c) kind
                      (co_hostDisplayName c) (co_hostId c) (co_name c))
                in region ''active-container-stale:'' StaleKind (received + ONLINE_THRESHOLD_MS)
                     (if co_status c = CtOffline then min offlineStart generated else generated) #
                   (if co_status c = CtOffline
                    then [region ''active-container-offline:'' OfflineKind offlineStart generated] else []))
      | _ \<Rightarrow> [])"

definition containerFreshnessRegions :: "container_overview list \<Rightarrow> string \<Rightarrow> int \<Rightarrow> int \<Rightarrow> overlay_region list" where
  "containerFreshnessRegions containers generatedAt rangeStart rangeEnd =
     push_all rangeStart rangeEnd (concat (map (stale_container generatedAt) containers))"

definition maintenance_step ::
  "string \<Rightarrow> monitoring_event \<Rightarrow> int \<Rightarrow> int option \<times> region_input list \<Rightarrow> monitoring_event \<Rightarrow>
   int option \<times> region_input list" where
  "maintenance_step key firstEvent rangeStart = (\<lambda>(started, out) e.
     case Date_parse (ev_occurredAt e) of
       None \<Rightarrow> (started, out)
     | Some eventMs \<Rightarrow>
         if ev_eventType e = MaintenanceStarted
         then ((case started of None \<Rightarrow> Some eventMs | Some s \<Rightarrow> Some s), out)
         else if ev_eventType e \<noteq> MaintenanceEnded then (started, out)
         else (let safeStart = (case started of None \<Rightarrow> rangeStart | Some s \<Rightarrow> s)
               in (None, out @ [container_region (''maintenance:'' @ key @ '':'' @ int_text safeStart @ '':'' @
                    int_text (ev_id e)) MaintenanceKind (ev_hostDisplayName firstEvent) (ev_hostId firstEvent)
                    (ev_containerName firstEvent) safeStart eventMs])))"

definition container_maintenance ::
  "container_overview list \<Rightarrow> string \<Rightarrow> int \<Rightarrow> string \<times> monitoring_event list \<Rightarrow> region_input list" where
  "container_maintenance containers generatedAt rangeStart = (\<lambda>(key, events).
     case events of
       [] \<Rightarrow> []
     | firstEvent # _ \<Rightarrow>
         (let (started, closed) = foldl (maintenance_step key firstEvent rangeStart) (None, []) events
          in closed @
             (case (map_of (index_by container_key_of containers) key, Date_parse generatedAt) of
                (Some c, Some generated) \<Rightarrow>
                  if \<not> co_maintenanceActive c then []
                  else [container_region (''active-maintenance:'' @ key) MaintenanceKind (co_hostDisplayName c)
                    (co_hostId c) (co_name c) (case started of None \<Rightarrow> rangeStart | Some s \<Rightarrow> s) generated]
              | _ \<Rightarrow> [])))"

definition maintenance_fallback ::
  "string \<Rightarrow> int \<Rightarrow> int \<Rightarrow> overlay_region list \<Rightarrow> container_overview \<Rightarrow> overlay_region list" where
  "maintenance_fallback generatedAt rangeStart rangeEnd regions c =
     (if \<not> co_maintenanceActive c \<or> covered_until regions MaintenanceKind (container_key_of c) generatedAt
      then regions
      else (case Date_parse generatedAt of
              None \<Rightarrow> regions
            | Some generated \<Rightarrow>
                pushRegion rangeStart rangeEnd regions
                  (container_region (''active-maintenance-fallback:'' @ container_key_of c) MaintenanceKind
                    (co_hostDisplayName c) (co_hostId c) (co_name c) rangeStart generated)))"

definition maintenanceRegions ::
  "monitoring_event list \<Rightarrow> container_overview list \<Rightarrow> string \<Rightarrow> int \<Rightarrow> int \<Rightarrow> overlay_region list" where
  "maintenanceRegions events containers generatedAt rangeStart rangeEnd =
     foldl (maintenance_fallback generatedAt rangeStart rangeEnd)
       (push_all rangeStart rangeEnd
         (concat (map (container_maintenance containers generatedAt rangeStart) (eventByEntity events))))
       containers"

section \<open>Merging\<close>

definition entity_text :: "monitored_entity \<Rightarrow> string" where
  "entity_text t = (case t of HostEntity \<Rightarrow> ''host'' | ContainerEntity \<Rightarrow> ''container'')"

definition region_order ::
  "(string \<Rightarrow> string) \<Rightarrow> overlay_region \<Rightarrow> string \<times> string \<times> string \<times> string \<times> int" where
  "region_order collate r =
     (collate (entity_text (or_entityType r)), collate (or_hostId r),
      collate (case or_containerName r of None \<Rightarrow> [] | Some c \<Rightarrow> c),
      collate (overlay_kind_text (or_kind r)), ms_of (or_startAt r))"

definition same_series :: "overlay_region \<Rightarrow> overlay_region \<Rightarrow> bool" where
  "same_series p r \<longleftrightarrow>
     or_entityType p = or_entityType r \<and> or_hostId p = or_hostId r \<and>
     or_containerName p = or_containerName r \<and> or_kind p = or_kind r"

definition merge_into :: "overlay_region list \<Rightarrow> overlay_region \<Rightarrow> overlay_region list" where
  "merge_into merged r =
     (if merged \<noteq> [] \<and> same_series (last merged) r \<and> ms_of (or_startAt r) \<le> ms_of (or_endAt (last merged)) + 1000
      then butlast merged @ [(last merged) \<lparr> or_endAt := iso_text (max (ms_of (or_endAt (last merged)))
             (ms_of (or_endAt r))) \<rparr>]
      else merged @ [r])"

definition mergeRegions :: "(string \<Rightarrow> string) \<Rightarrow> overlay_region list \<Rightarrow> overlay_region list" where
  "mergeRegions collate regions =
     sort_key (\<lambda>r. ms_of (or_startAt r)) (foldl merge_into [] (sort_key (region_order collate) regions))"

section \<open>The snapshot\<close>

record overlay_feeds =
  of_events :: "history_range \<Rightarrow> monitoring_event list option"
  of_context :: "string \<Rightarrow> monitoring_event list option"
  of_hostEvents :: "history_range \<Rightarrow> host_monitoring_event list option"

definition getHistoryStatusOverlays ::
  "(string \<Rightarrow> string) \<Rightarrow> monitoring_snapshot option \<Rightarrow> overlay_feeds \<Rightarrow> history_range \<Rightarrow> overlay_snapshot option" where
  "getHistoryStatusOverlays collate monitoring feeds rng = do {
     snapshot \<leftarrow> monitoring;
     rangeEnd \<leftarrow> Date_parse (ms_generatedAt snapshot);
     let rangeStart = rangeEnd - fst (history_range_config rng) * 60 * 60 * 1000;
     boundary \<leftarrow> Date_toISOString rangeStart;
     containerEvents \<leftarrow> of_events feeds (contextRange rng);
     containerContext \<leftarrow> of_context feeds boundary;
     hostEvents \<leftarrow> of_hostEvents feeds (contextRange rng);
     let generatedAt = ms_generatedAt snapshot;
     let incidentEvents = mergeUniqueEvents containerContext containerEvents;
     Some \<lparr> ovs_generatedAt = generatedAt,
       ovs_hostRegions = mergeRegions collate
         (hostGapRegions hostEvents rangeStart rangeEnd @
          activeHostRegions (ms_hosts snapshot) generatedAt rangeStart rangeEnd),
       ovs_containerRegions = mergeRegions collate
         (containerIncidentRegions incidentEvents (ms_containers snapshot) generatedAt rangeStart rangeEnd @
          containerFreshnessRegions (ms_containers snapshot) generatedAt rangeStart rangeEnd @
          maintenanceRegions containerEvents (ms_containers snapshot) generatedAt rangeStart rangeEnd) \<rparr>
   }"

section \<open>Lemmas\<close>

definition span_ok :: "int \<Rightarrow> int \<Rightarrow> overlay_region \<Rightarrow> bool" where
  \<comment> \<open>a region that is not empty and lies in the chart\<close>
  "span_ok lo hi r \<longleftrightarrow>
     (\<exists>s e. Date_parse (or_startAt r) = Some s \<and> Date_parse (or_endAt r) = Some e \<and> lo \<le> s \<and> s < e \<and> e \<le> hi)"

definition entity_ok :: "overlay_region \<Rightarrow> bool" where
  \<comment> \<open>a region of a host names no container\<close>
  "entity_ok r \<longleftrightarrow> (or_containerName r = None \<longleftrightarrow> or_entityType r = HostEntity)"

definition apart :: "overlay_region \<Rightarrow> overlay_region \<Rightarrow> bool" where
  \<comment> \<open>regions of the same series in this order are more than a second apart\<close>
  "apart p r \<longleftrightarrow> (same_series p r \<longrightarrow> ms_of (or_endAt p) + 1000 < ms_of (or_startAt r))"

definition covers :: "overlay_region \<Rightarrow> overlay_region \<Rightarrow> bool" where
  "covers m r \<longleftrightarrow> same_series m r \<and> ms_of (or_startAt m) \<le> ms_of (or_startAt r) \<and> ms_of (or_endAt r) \<le> ms_of (or_endAt m)"

lemma ms_of_iso_text [simp]: "\<bar>t\<bar> \<le> max_time \<Longrightarrow> ms_of (iso_text t) = t"
  by (simp add: ms_of_def)

lemma span_okD:
  assumes "span_ok lo hi r"
  shows "lo \<le> ms_of (or_startAt r) \<and> ms_of (or_startAt r) < ms_of (or_endAt r) \<and> ms_of (or_endAt r) \<le> hi
     \<and> \<bar>ms_of (or_endAt r)\<bar> \<le> max_time"
  using assms by (auto simp: span_ok_def ms_of_def dest: Date_parse_bound)

lemma createRegion_ok:
  assumes "createRegion i lo hi = Some r" "\<bar>lo\<bar> \<le> max_time" "\<bar>hi\<bar> \<le> max_time"
  shows "span_ok lo hi r \<and> or_entityType r = rgi_entityType i \<and> or_containerName r = rgi_containerName i"
proof -
  have "\<bar>max (rgi_startMs i) lo\<bar> \<le> max_time" "\<bar>min (rgi_endMs i) hi\<bar> \<le> max_time"
    "max (rgi_startMs i) lo < min (rgi_endMs i) hi"
    using assms by (auto simp: createRegion_def Let_def split: if_splits)
  with assms(1) show ?thesis
    by (auto simp: createRegion_def Let_def span_ok_def split: if_splits)
qed

definition input_ok :: "region_input \<Rightarrow> bool" where
  "input_ok i \<longleftrightarrow> (rgi_containerName i = None \<longleftrightarrow> rgi_entityType i = HostEntity)"

lemma pushRegion_ok:
  assumes "\<forall>r \<in> set rs. span_ok lo hi r \<and> entity_ok r" "input_ok i" "\<bar>lo\<bar> \<le> max_time" "\<bar>hi\<bar> \<le> max_time"
  shows "\<forall>r \<in> set (pushRegion lo hi rs i). span_ok lo hi r \<and> entity_ok r"
  using assms createRegion_ok [of i lo hi]
  by (auto simp: pushRegion_def input_ok_def entity_ok_def split: option.splits)

lemma push_all_ok:
  assumes "\<forall>i \<in> set is. input_ok i" "\<bar>lo\<bar> \<le> max_time" "\<bar>hi\<bar> \<le> max_time"
  shows "\<forall>r \<in> set (push_all lo hi is). span_ok lo hi r \<and> entity_ok r"
proof -
  have "set is' \<subseteq> set is \<Longrightarrow> \<forall>r \<in> set (foldl (pushRegion lo hi) [] is'). span_ok lo hi r \<and> entity_ok r"
    for is'
  proof (induction is' rule: rev_induct)
    case (snoc i is')
    then have "\<forall>r \<in> set (foldl (pushRegion lo hi) [] is'). span_ok lo hi r \<and> entity_ok r" "input_ok i"
      using assms(1) by auto
    from pushRegion_ok [OF this assms(2,3)] show ?case by simp
  qed simp
  from this [OF subset_refl] show ?thesis by (simp add: push_all_def)
qed

lemma host_region_ok [simp]: "input_ok (host_region p k n h s e)"
  by (simp add: host_region_def input_ok_def)

lemma container_region_ok [simp]: "input_ok (container_region p k n h c s e)"
  by (simp add: container_region_def input_ok_def)

lemma host_inputs_ok: "\<forall>i \<in> set (host_gap e). input_ok i" "\<forall>i \<in> set (active_host g h). input_ok i"
  by (auto simp: host_gap_def active_host_def Let_def split: option.splits if_splits)

lemma band_step_ok:
  "\<forall>i \<in> set (snd st). input_ok i \<Longrightarrow> \<forall>i \<in> set (snd (band_step key f st e)). input_ok i"
  by (cases st) (auto simp: band_step_def Let_def split: option.splits)

lemma maintenance_step_ok:
  "\<forall>i \<in> set (snd st). input_ok i \<Longrightarrow> \<forall>i \<in> set (snd (maintenance_step key f lo st e)). input_ok i"
  by (cases st) (auto simp: maintenance_step_def Let_def split: option.splits)

lemma foldl_keeps: "P s \<Longrightarrow> (\<And>s e. P s \<Longrightarrow> P (f s e)) \<Longrightarrow> P (foldl f s es)"
  by (induction es arbitrary: s) auto

lemma container_bands_ok: "\<forall>i \<in> set (container_bands cs g ke). input_ok i"
proof (cases ke)
  case (Pair key es)
  show ?thesis
  proof (cases es)
    case (Cons f rest)
    have "\<forall>i \<in> set (snd (foldl (band_step key f) (band_start, []) es)). input_ok i"
      by (rule foldl_keeps [where P = "\<lambda>st. \<forall>i \<in> set (snd st). input_ok i"]) (use band_step_ok in auto)
    moreover have "\<forall>i \<in> set (open_band key c n b). input_ok i" for c n b
      by (auto simp: open_band_def split: option.splits)
    moreover obtain b out where "foldl (band_step key f) (band_start, []) es = (b, out)" by fastforce
    ultimately show ?thesis by (auto simp: container_bands_def Pair Cons)
  qed (simp add: container_bands_def Pair)
qed

lemma container_maintenance_ok: "\<forall>i \<in> set (container_maintenance cs g lo ke). input_ok i"
proof (cases ke)
  case (Pair key es)
  show ?thesis
  proof (cases es)
    case (Cons f rest)
    have "\<forall>i \<in> set (snd (foldl (maintenance_step key f lo) (None, []) es)). input_ok i"
      by (rule foldl_keeps [where P = "\<lambda>st. \<forall>i \<in> set (snd st). input_ok i"]) (use maintenance_step_ok in auto)
    moreover obtain b out where "foldl (maintenance_step key f lo) (None, []) es = (b, out)" by fastforce
    ultimately show ?thesis by (auto simp: container_maintenance_def Pair Cons split: option.splits)
  qed (simp add: container_maintenance_def Pair)
qed

lemma stale_container_ok: "\<forall>i \<in> set (stale_container g c). input_ok i"
  by (auto simp: stale_container_def Let_def split: option.splits if_splits)

text \<open>Merging keeps the regions of a series apart and covers every region it is given.\<close>

definition merge_inv :: "(string \<Rightarrow> string) \<Rightarrow> int \<Rightarrow> int \<Rightarrow> overlay_region list \<Rightarrow> bool" where
  "merge_inv collate lo hi M \<longleftrightarrow>
     (\<forall>r \<in> set M. span_ok lo hi r \<and> entity_ok r) \<and>
     sorted_wrt (\<lambda>a b. region_order collate a \<le> region_order collate b) M \<and> sorted_wrt apart M"

lemma same_series_refl [simp]: "same_series r r"
  by (simp add: same_series_def)

lemma same_series_between:
  assumes "inj collate" "entity_ok p" "entity_ok q" "entity_ok r" "same_series p r"
    and "region_order collate p \<le> region_order collate q" "region_order collate q \<le> region_order collate r"
  shows "same_series p q \<and> same_series q r"
proof -
  let ?k = "\<lambda>r. (collate (entity_text (or_entityType r)), collate (or_hostId r),
      collate (case or_containerName r of None \<Rightarrow> [] | Some c \<Rightarrow> c), collate (overlay_kind_text (or_kind r)))"
  have "?k p = ?k r" using assms(5) by (simp add: same_series_def)
  then have "?k q = ?k p" using assms(6,7) by (auto simp: region_order_def)
  then have "or_entityType q = or_entityType p" "or_hostId q = or_hostId p" "or_kind q = or_kind p"
    "(case or_containerName q of None \<Rightarrow> [] | Some c \<Rightarrow> c) = (case or_containerName p of None \<Rightarrow> [] | Some c \<Rightarrow> c)"
    by (auto simp: inj_eq [OF assms(1)] entity_text_def overlay_kind_text_def
        split: monitored_entity.splits overlay_kind.splits)
  moreover from this have "or_containerName q = or_containerName p"
    using assms(2,3) by (auto simp: entity_ok_def split: option.splits)
  ultimately show ?thesis using assms(5) by (simp add: same_series_def)
qed

lemma extend_end:
  assumes "span_ok lo hi p" "span_ok lo hi r"
  shows "span_ok lo hi (p \<lparr> or_endAt := iso_text (max (ms_of (or_endAt p)) (ms_of (or_endAt r))) \<rparr>)"
proof -
  have "\<bar>max (ms_of (or_endAt p)) (ms_of (or_endAt r))\<bar> \<le> max_time"
    using span_okD [OF assms(1)] span_okD [OF assms(2)] by linarith
  with assms show ?thesis by (auto simp: span_ok_def ms_of_def)
qed

lemma merge_into_inv:
  assumes "inj collate" and inv: "merge_inv collate lo hi M" and r: "span_ok lo hi r" "entity_ok r"
    and order: "\<forall>m \<in> set M. region_order collate m \<le> region_order collate r"
  shows "merge_inv collate lo hi (merge_into M r)"
proof (cases "M = []")
  case True
  with r show ?thesis by (simp add: merge_inv_def merge_into_def)
next
  case False
  then obtain N p where M: "M = N @ [p]" by (metis rev_exhaust)
  have p: "span_ok lo hi p" "entity_ok p" using inv M by (auto simp: merge_inv_def)
  show ?thesis
  proof (cases "same_series p r \<and> ms_of (or_startAt r) \<le> ms_of (or_endAt p) + 1000")
    case True
    then have "merge_into M r = N @ [p \<lparr> or_endAt := iso_text (max (ms_of (or_endAt p)) (ms_of (or_endAt r))) \<rparr>]"
      by (simp add: merge_into_def M)
    moreover have "span_ok lo hi (p \<lparr> or_endAt := iso_text (max (ms_of (or_endAt p)) (ms_of (or_endAt r))) \<rparr>)"
      using extend_end p(1) r(1) by blast
    ultimately show ?thesis
      using inv by (auto simp: merge_inv_def M sorted_wrt_append entity_ok_def region_order_def apart_def same_series_def)
  next
    case False
    then have merged: "merge_into M r = M @ [r]" by (auto simp: merge_into_def M)
    have "apart m r" if m: "m \<in> set M" for m
    proof (cases "m = p")
      case True
      with False show ?thesis by (auto simp: apart_def)
    next
      case other: False
      with m have mN: "m \<in> set N" by (simp add: M)
      then have before: "region_order collate m \<le> region_order collate p" "apart m p" and m_ok: "entity_ok m"
        using inv by (auto simp: merge_inv_def M sorted_wrt_append)
      show ?thesis
      proof (unfold apart_def, intro impI)
        assume "same_series m r"
        from same_series_between [OF assms(1) m_ok p(2) r(2) this before(1)] order
        have "same_series m p" "same_series p r" by (auto simp: M)
        with before(2) False span_okD [OF p(1)] show "ms_of (or_endAt m) + 1000 < ms_of (or_startAt r)"
          by (auto simp: apart_def)
      qed
    qed
    with inv r order show ?thesis by (auto simp: merged merge_inv_def sorted_wrt_append)
  qed
qed

lemma merge_into_keys:
  "region_order collate ` set (merge_into M r) \<subseteq> region_order collate ` set M \<union> {region_order collate r}"
  by (cases M rule: rev_cases) (auto simp: merge_into_def region_order_def)

lemma merge_into_covers:
  assumes "span_ok lo hi r" "\<forall>m \<in> set M. span_ok lo hi m \<and> region_order collate m \<le> region_order collate r"
  shows "(\<exists>m \<in> set (merge_into M r). covers m r) \<and>
     (\<forall>q. (\<exists>m \<in> set M. covers m q) \<longrightarrow> (\<exists>m \<in> set (merge_into M r). covers m q))"
proof (cases "M \<noteq> [] \<and> same_series (last M) r \<and> ms_of (or_startAt r) \<le> ms_of (or_endAt (last M)) + 1000")
  case True
  then obtain N p where M: "M = N @ [p]" by (metis rev_exhaust)
  have p: "span_ok lo hi p" "region_order collate p \<le> region_order collate r" using assms(2) M by auto
  have "\<bar>max (ms_of (or_endAt p)) (ms_of (or_endAt r))\<bar> \<le> max_time"
    using span_okD [OF assms(1)] span_okD [OF p(1)] by linarith
  moreover have "ms_of (or_startAt p) \<le> ms_of (or_startAt r)"
    using p(2) True by (auto simp: M region_order_def same_series_def)
  ultimately show ?thesis
    using True by (auto simp: M merge_into_def covers_def same_series_def)
qed (auto simp: merge_into_def covers_def)

lemma merged_regions:
  assumes "inj collate" "\<forall>r \<in> set rs. span_ok lo hi r \<and> entity_ok r"
    and "sorted_wrt (\<lambda>a b. region_order collate a \<le> region_order collate b) rs"
  shows "merge_inv collate lo hi (foldl merge_into [] rs) \<and>
     region_order collate ` set (foldl merge_into [] rs) \<subseteq> region_order collate ` set rs \<and>
     (\<forall>r \<in> set rs. \<exists>m \<in> set (foldl merge_into [] rs). covers m r)"
  using assms(2,3)
proof (induction rs rule: rev_induct)
  case Nil
  show ?case by (simp add: merge_inv_def)
next
  case (snoc r rs)
  let ?M = "foldl merge_into [] rs"
  have IH: "merge_inv collate lo hi ?M" "region_order collate ` set ?M \<subseteq> region_order collate ` set rs"
    "\<forall>r \<in> set rs. \<exists>m \<in> set ?M. covers m r"
    using snoc by (auto simp: sorted_wrt_append)
  have r: "span_ok lo hi r" "entity_ok r" using snoc(2) by auto
  have order: "\<forall>m \<in> set ?M. region_order collate m \<le> region_order collate r"
  proof
    fix m assume "m \<in> set ?M"
    then obtain q where "q \<in> set rs" "region_order collate m = region_order collate q" using IH(2) by blast
    then show "region_order collate m \<le> region_order collate r"
      using snoc(3) by (simp add: sorted_wrt_append)
  qed
  have "merge_inv collate lo hi (merge_into ?M r)"
    using merge_into_inv [OF assms(1) IH(1) r order] .
  moreover have "region_order collate ` set (merge_into ?M r) \<subseteq> region_order collate ` set (rs @ [r])"
    using merge_into_keys [of collate ?M r] IH(2) by auto
  moreover have "\<forall>q \<in> set (rs @ [r]). \<exists>m \<in> set (merge_into ?M r). covers m q"
    using merge_into_covers [OF r(1), of ?M collate] IH(1,3) order by (auto simp: merge_inv_def)
  ultimately show ?case by simp
qed

definition overlay_ok :: "int \<Rightarrow> int \<Rightarrow> overlay_region list \<Rightarrow> bool" where
  \<comment> \<open>what the charts rely on: regions inside the chart, in order of their starts, those of a series apart\<close>
  "overlay_ok lo hi M \<longleftrightarrow>
     (\<forall>r \<in> set M. span_ok lo hi r) \<and>
     sorted_wrt (\<lambda>a b. ms_of (or_startAt a) \<le> ms_of (or_startAt b)) M \<and> sorted_wrt apart M"

lemma apart_by_series: "(\<forall>p. sorted_wrt apart (filter (same_series p) S)) \<Longrightarrow> sorted_wrt apart S"
proof (induction S)
  case (Cons x S)
  have "apart x y" if "y \<in> set S" for y
    using Cons.prems [rule_format, of x] that by (auto simp: apart_def)
  moreover have "\<forall>p. sorted_wrt apart (filter (same_series p) S)"
    using Cons.prems by (auto split: if_splits)
  ultimately show ?case using Cons.IH by simp
qed simp

lemma sorted_wrt_apart_sort:
  assumes "sorted_wrt apart M" "\<forall>r \<in> set M. span_ok lo hi r"
  shows "sorted_wrt apart (sort_key (\<lambda>r. ms_of (or_startAt r)) M)"
proof (rule apart_by_series, rule allI)
  fix p
  let ?F = "filter (same_series p) M"
  have apart: "sorted_wrt apart ?F" using assms(1) by (rule sorted_wrt_filter)
  have "sorted_wrt (\<lambda>a b. ms_of (or_startAt a) \<le> ms_of (or_startAt b)) ?F"
  proof (rule sorted_wrt_mono_rel [OF _ apart])
    fix a b assume ab: "a \<in> set ?F" "b \<in> set ?F" "apart a b"
    then have "same_series a b" by (auto simp: same_series_def)
    with ab span_okD [of lo hi a] assms(2) show "ms_of (or_startAt a) \<le> ms_of (or_startAt b)"
      by (fastforce simp: apart_def)
  qed
  then have "sort_key (\<lambda>r. ms_of (or_startAt r)) ?F = ?F"
    by (intro sort_key_id_if_sorted) (simp add: sorted_map)
  then show "sorted_wrt apart (filter (same_series p) (sort_key (\<lambda>r. ms_of (or_startAt r)) M))"
    using apart by (simp add: filter_sort)
qed

lemma mergeRegions_ok:
  assumes "inj collate" "\<forall>r \<in> set rs. span_ok lo hi r \<and> entity_ok r"
  shows "overlay_ok lo hi (mergeRegions collate rs) \<and>
     (\<forall>r \<in> set rs. \<exists>m \<in> set (mergeRegions collate rs). covers m r)"
proof -
  let ?S = "sort_key (region_order collate) rs"
  have "\<forall>r \<in> set ?S. span_ok lo hi r \<and> entity_ok r" using assms(2) by simp
  from merged_regions [OF assms(1) this sort_key_ordered]
  have m: "merge_inv collate lo hi (foldl merge_into [] ?S)"
    "\<forall>r \<in> set ?S. \<exists>m \<in> set (foldl merge_into [] ?S). covers m r" by blast+
  from m(1) have "sorted_wrt apart (mergeRegions collate rs)"
    unfolding mergeRegions_def merge_inv_def by (intro sorted_wrt_apart_sort) auto
  with m show ?thesis
    by (auto simp: overlay_ok_def mergeRegions_def merge_inv_def sort_key_ordered)
qed

lemma fallback_ok:
  assumes "\<bar>lo\<bar> \<le> max_time" "\<bar>hi\<bar> \<le> max_time" "\<forall>r \<in> set rs. span_ok lo hi r \<and> entity_ok r"
  shows "\<forall>r \<in> set (foldl (error_fallback g lo hi) rs cs). span_ok lo hi r \<and> entity_ok r"
    "\<forall>r \<in> set (foldl (maintenance_fallback g lo hi) rs cs). span_ok lo hi r \<and> entity_ok r"
proof -
  let ?P = "\<lambda>rs. \<forall>r \<in> set rs. span_ok lo hi r \<and> entity_ok r"
  have step: "?P (error_fallback g lo hi rs c)" "?P (maintenance_fallback g lo hi rs c)" if "?P rs" for rs c
    using that pushRegion_ok [OF that container_region_ok assms(1,2)]
    by (auto simp: error_fallback_def maintenance_fallback_def split: option.splits)
  show "?P (foldl (error_fallback g lo hi) rs cs)"
    using foldl_keeps [where P = ?P, OF assms(3) step(1)] .
  show "?P (foldl (maintenance_fallback g lo hi) rs cs)"
    using foldl_keeps [where P = ?P, OF assms(3) step(2)] .
qed

lemma region_lists_ok:
  assumes "\<bar>lo\<bar> \<le> max_time" "\<bar>hi\<bar> \<le> max_time"
  shows "\<forall>r \<in> set (hostGapRegions hes lo hi @ activeHostRegions hs g lo hi). span_ok lo hi r \<and> entity_ok r"
    and "\<forall>r \<in> set (containerIncidentRegions es cs g lo hi @ containerFreshnessRegions cs g lo hi @
      maintenanceRegions es' cs g lo hi). span_ok lo hi r \<and> entity_ok r"
proof -
  note push = push_all_ok [OF _ assms]
  have "\<forall>r \<in> set (hostGapRegions hes lo hi). span_ok lo hi r \<and> entity_ok r"
    "\<forall>r \<in> set (activeHostRegions hs g lo hi). span_ok lo hi r \<and> entity_ok r"
    unfolding hostGapRegions_def activeHostRegions_def by (rule push; use host_inputs_ok in fastforce)+
  then show "\<forall>r \<in> set (hostGapRegions hes lo hi @ activeHostRegions hs g lo hi). span_ok lo hi r \<and> entity_ok r"
    by auto
  have "\<forall>r \<in> set (containerIncidentRegions es cs g lo hi). span_ok lo hi r \<and> entity_ok r"
    unfolding containerIncidentRegions_def
    by (rule fallback_ok(1) [OF assms], rule push) (use container_bands_ok in fastforce)
  moreover have "\<forall>r \<in> set (containerFreshnessRegions cs g lo hi). span_ok lo hi r \<and> entity_ok r"
    unfolding containerFreshnessRegions_def by (rule push) (use stale_container_ok in fastforce)
  moreover have "\<forall>r \<in> set (maintenanceRegions es' cs g lo hi). span_ok lo hi r \<and> entity_ok r"
    unfolding maintenanceRegions_def
    by (rule fallback_ok(2) [OF assms], rule push) (use container_maintenance_ok in fastforce)
  ultimately show "\<forall>r \<in> set (containerIncidentRegions es cs g lo hi @ containerFreshnessRegions cs g lo hi @
      maintenanceRegions es' cs g lo hi). span_ok lo hi r \<and> entity_ok r"
    by auto
qed

lemma overlay_lists_ok:
  assumes "inj collate" and "getHistoryStatusOverlays collate monitoring feeds rng = Some s"
  obtains hi where "Date_parse (ovs_generatedAt s) = Some hi"
    "overlay_ok (hi - fst (history_range_config rng) * 3600000) hi (ovs_hostRegions s)"
    "overlay_ok (hi - fst (history_range_config rng) * 3600000) hi (ovs_containerRegions s)"
proof -
  obtain m hi where hi: "monitoring = Some m" "Date_parse (ms_generatedAt m) = Some hi"
    using assms(2) by (auto simp: getHistoryStatusOverlays_def bind_eq_Some_conv)
  define lo where "lo = hi - fst (history_range_config rng) * 60 * 60 * 1000"
  from assms(2) hi obtain es cs hes where
    lo: "Date_toISOString lo \<noteq> None" and
    host: "ovs_hostRegions s = mergeRegions collate
      (hostGapRegions hes lo hi @ activeHostRegions (ms_hosts m) (ms_generatedAt m) lo hi)" and
    container: "ovs_containerRegions s = mergeRegions collate
      (containerIncidentRegions cs (ms_containers m) (ms_generatedAt m) lo hi @
       containerFreshnessRegions (ms_containers m) (ms_generatedAt m) lo hi @
       maintenanceRegions es (ms_containers m) (ms_generatedAt m) lo hi)" and
    g: "ovs_generatedAt s = ms_generatedAt m"
    by (auto simp: getHistoryStatusOverlays_def bind_eq_Some_conv Let_def lo_def)
  have bounds: "\<bar>lo\<bar> \<le> max_time" "\<bar>hi\<bar> \<le> max_time"
    using lo Date_parse_bound [OF hi(2)] by (auto simp: Date_toISOString_def split: if_splits)
  have "overlay_ok lo hi (ovs_hostRegions s)" "overlay_ok lo hi (ovs_containerRegions s)"
    unfolding host container using mergeRegions_ok [OF assms(1)] region_lists_ok [OF bounds] by blast+
  then show ?thesis using that [of hi] hi g by (simp add: lo_def mult.commute)
qed

text \<open>C28. The overlays of a history chart: every region is not empty, starts and ends within the chart's
  period and the list is in the order of the starts; two regions of the same host or container and the same
  kind do not overlap, nor lie within a second of each other. Names are compared by a collation that
  distinguishes them.\<close>

theorem overlay_regions_are_separate:
  assumes "inj collate"
    and "getHistoryStatusOverlays collate monitoring feeds rng = Some s"
  shows "\<exists>hi. Date_parse (ovs_generatedAt s) = Some hi \<and>
     overlay_ok (hi - fst (history_range_config rng) * 3600000) hi (ovs_hostRegions s) \<and>
     overlay_ok (hi - fst (history_range_config rng) * 3600000) hi (ovs_containerRegions s)"
  using assms by (auto elim: overlay_lists_ok)

definition sample_overlay_feeds :: overlay_feeds where
  "sample_overlay_feeds = \<lparr> of_events = (\<lambda>_. fd_events sample_feeds), of_context = (\<lambda>_. Some []),
     of_hostEvents = (\<lambda>_. Some [sample_gap]) \<rparr>"

lemma sample_overlays:
  "\<exists>s. getHistoryStatusOverlays id (Some sample_snapshot) sample_overlay_feeds History24h = Some s"
  by (simp add: getHistoryStatusOverlays_def sample_overlay_feeds_def sample_generated sample_snapshot_def
      sample_feeds_def history_range_config_def Date_toISOString_def max_time_def Let_def)

theorem overlay_regions_are_separate_witness:
  "\<exists>s hi. getHistoryStatusOverlays id (Some sample_snapshot) sample_overlay_feeds History24h = Some s \<and>
     overlay_ok (hi - 86400000) hi (ovs_hostRegions s) \<and> overlay_ok (hi - 86400000) hi (ovs_containerRegions s)"
  using sample_overlays overlay_regions_are_separate [of id "Some sample_snapshot" sample_overlay_feeds History24h]
  by (fastforce simp: history_range_config_def)

end
