(* ===== verification/DiscordAuth.thy ===== *)
theory DiscordAuth
  imports Patterns Urls
begin

text \<open>
  Discord sign-in (\<open>apps/web/lib/discord-auth.ts\<close>): the configuration, the role map and the
  resolution of the console role, the return path, the state cookie, and the validation of what
  Discord and the session RPCs answer. The environment, the hash of a token and the remote calls are
  parameters; a \<open>DiscordAuthError\<close> is the left injection of a sum.
\<close>

section \<open>Data\<close>

datatype console_role = Viewer | Operator | Administrator | Owner

datatype discord_auth_mode = DiscordDisabled | DiscordReport | DiscordEnforce

datatype login_failure =
    OauthDenied | OauthProviderError | OauthStateInvalid | OauthCodeMissing | OauthExchangeFailed
  | DiscordIdentityInvalid | GuildMembershipRequired | MembershipScreeningPending
  | RequiredRoleMissing | SessionCreateFailed | ConfigurationError

record discord_configuration =
  dc_mode :: discord_auth_mode
  dc_clientId :: string
  dc_clientSecret :: string
  dc_guildId :: string
  dc_redirectUri :: string
  dc_roleMap :: "console_role \<Rightarrow> string list"
  dc_sessionTtlSeconds :: int

record discord_identity =
  id_userId :: string
  id_username :: string
  id_globalName :: "string option"
  id_avatarHash :: "string option"
  id_roleIds :: "string list"
  id_pending :: bool

record role_resolution =
  rr_consoleRole :: console_role
  rr_matchedRoleIds :: "string list"

record discord_session_row =
  ds_sessionId :: string
  ds_discordUserId :: string
  ds_discordUsername :: string
  ds_discordGlobalName :: "string option"
  ds_discordAvatarHash :: "string option"
  ds_guildId :: string
  ds_matchedRoleIds :: "string list"
  ds_consoleRole :: console_role
  ds_createdAt :: string
  ds_expiresAt :: string

definition DISCORD_ROLE_ORDER :: "console_role list" where
  "DISCORD_ROLE_ORDER = [Owner, Administrator, Operator, Viewer]"

definition role_text :: "console_role \<Rightarrow> string" where
  "role_text r = (case r of Viewer \<Rightarrow> ''viewer'' | Operator \<Rightarrow> ''operator''
     | Administrator \<Rightarrow> ''administrator'' | Owner \<Rightarrow> ''owner'')"

definition isConsoleRole :: "string \<Rightarrow> console_role option" where
  "isConsoleRole s = map_of
     [(''viewer'', Viewer), (''operator'', Operator), (''administrator'', Administrator), (''owner'', Owner)] s"

definition SESSION_HASH_PATTERN :: "string \<Rightarrow> bool" where
  "SESSION_HASH_PATTERN = chars_between is_hex_lower 64 64"

definition token_char :: "char \<Rightarrow> bool" where
  \<comment> \<open>\<open>[A-Za-z0-9_-]\<close>\<close>
  "token_char c \<longleftrightarrow> is_alnum c \<or> c = CHR ''_'' \<or> c = CHR ''-''"

definition OAUTH_STATE_PATTERN :: "string \<Rightarrow> bool" where
  "OAUTH_STATE_PATTERN = chars_between token_char 32 256"

definition OAUTH_PROVIDER_ERROR_PATTERN :: "string \<Rightarrow> bool" where
  "OAUTH_PROVIDER_ERROR_PATTERN = chars_between (\<lambda>c. is_lower c \<or> is_digit c \<or> c = CHR ''_'') 1 64"

definition OAUTH_STATE_MAX_ENTRIES :: nat where
  "OAUTH_STATE_MAX_ENTRIES = 4"

definition OAUTH_STATE_COOKIE_MAX_LENGTH :: nat where
  "OAUTH_STATE_COOKIE_MAX_LENGTH = 1200"

section \<open>Configuration\<close>

type_synonym environment = "string \<Rightarrow> string option"

definition requireEnvironment :: "environment \<Rightarrow> string \<Rightarrow> string option" where
  "requireEnvironment env name = nonempty (map_option trim (env name))"

definition parseSnowflake :: "string \<Rightarrow> string option" where
  "parseSnowflake value = (if SNOWFLAKE_PATTERN value then Some value else None)"

text \<open>The role identifiers of one console role, checked against all that were seen before.\<close>

fun read_role_ids :: "string list \<Rightarrow> jsval list \<Rightarrow> string list option" where
  "read_role_ids seen [] = Some []"
| "read_role_ids seen (v # vs) =
     (case as_string v of
        None \<Rightarrow> None
      | Some roleId \<Rightarrow>
          if \<not> SNOWFLAKE_PATTERN roleId then None
          else if roleId \<in> set seen then None
          else map_option ((#) roleId) (read_role_ids (roleId # seen) vs))"

fun read_roles ::
  "jsval \<Rightarrow> string list \<Rightarrow> console_role list \<Rightarrow> (console_role \<times> string list) list option" where
  "read_roles parsed seen [] = Some []"
| "read_roles parsed seen (role # roles) =
     (case as_array (nullish (get_prop parsed (role_text role)) (Arr [])) of
        None \<Rightarrow> None
      | Some value \<Rightarrow>
          if length value > 16 then None
          else (case read_role_ids seen value of
                  None \<Rightarrow> None
                | Some ids \<Rightarrow> map_option ((#) (role, ids)) (read_roles parsed (ids @ seen) roles)))"

definition parseRoleMap :: "jsval option \<Rightarrow> (console_role \<Rightarrow> string list) option" where
  \<comment> \<open>the argument is the parsed JSON, \<open>None\<close> when it is no JSON\<close>
  "parseRoleMap json =
     (case json of
        None \<Rightarrow> None
      | Some parsed \<Rightarrow>
          if \<not> is_record parsed then None
          else if \<not> list_all (\<lambda>k. isConsoleRole k \<noteq> None) (obj_keys parsed) then None
          else (case read_roles parsed [] DISCORD_ROLE_ORDER of
                  None \<Rightarrow> None
                | Some entries \<Rightarrow>
                    if concat (map snd entries) = [] then None
                    else Some (\<lambda>role. case map_of entries role of None \<Rightarrow> [] | Some ids \<Rightarrow> ids)))"

definition parseSessionTtl :: "environment \<Rightarrow> int option" where
  "parseSessionTtl env =
     (let raw = (case requireEnvironment env ''IVRM_DISCORD_SESSION_TTL_SECONDS'' of
                   None \<Rightarrow> ''14400'' | Some v \<Rightarrow> v)
      in if raw = [] \<or> \<not> list_all is_digit raw then None
         else (let value = int (dec_val raw)
               in if value > max_safe_integer \<or> value < 300 \<or> value > 86400 then None else Some value))"

record redirect_url =
  ru_protocol :: string
  ru_hostname :: string
  ru_username :: string
  ru_password :: string
  ru_hash :: string
  ru_text :: string

definition parseRedirectUri :: "redirect_url option \<Rightarrow> string option" where
  \<comment> \<open>the parsed URL, \<open>None\<close> when the text is none\<close>
  "parseRedirectUri url =
     (case url of
        None \<Rightarrow> None
      | Some v \<Rightarrow>
          (let localDevelopment = (ru_protocol v = ''http:'' \<and>
                 (ru_hostname v = ''localhost'' \<or> ru_hostname v = ''127.0.0.1''))
           in if ru_protocol v \<noteq> ''https:'' \<and> \<not> localDevelopment then None
              else if ru_username v \<noteq> [] \<or> ru_password v \<noteq> [] \<or> ru_hash v \<noteq> [] then None
              else Some (ru_text v)))"

definition getDiscordAuthMode :: "environment \<Rightarrow> discord_auth_mode option" where
  "getDiscordAuthMode env =
     (case nonempty (map_option (to_lower \<circ> trim) (env ''IVRM_DISCORD_AUTH_MODE'')) of
        None \<Rightarrow> Some DiscordDisabled
      | Some v \<Rightarrow> map_of [(''disabled'', DiscordDisabled), (''report'', DiscordReport),
                         (''enforce'', DiscordEnforce)] v)"

definition getDiscordAuthConfiguration ::
  "environment \<Rightarrow> (string \<Rightarrow> redirect_url option) \<Rightarrow> (string \<Rightarrow> jsval option) \<Rightarrow>
   discord_configuration option option" where
  \<comment> \<open>the outer \<open>None\<close> is an exception, the inner one the disabled mode\<close>
  "getDiscordAuthConfiguration env parse_url parse_json = do {
     mode \<leftarrow> getDiscordAuthMode env;
     if mode = DiscordDisabled then Some None
     else do {
       clientId \<leftarrow> Option.bind (requireEnvironment env ''DISCORD_CLIENT_ID'') parseSnowflake;
       clientSecret \<leftarrow> requireEnvironment env ''DISCORD_CLIENT_SECRET'';
       guildId \<leftarrow> Option.bind (requireEnvironment env ''DISCORD_GUILD_ID'') parseSnowflake;
       redirectUri \<leftarrow> Option.bind (requireEnvironment env ''DISCORD_REDIRECT_URI'')
         (\<lambda>raw. parseRedirectUri (parse_url raw));
       roleMap \<leftarrow> Option.bind (requireEnvironment env ''IVRM_DISCORD_ROLE_MAP_JSON'')
         (\<lambda>raw. parseRoleMap (parse_json raw));
       ttl \<leftarrow> parseSessionTtl env;
       Some (Some \<lparr> dc_mode = mode, dc_clientId = clientId, dc_clientSecret = clientSecret,
         dc_guildId = guildId, dc_redirectUri = redirectUri, dc_roleMap = roleMap,
         dc_sessionTtlSeconds = ttl \<rparr>)
     }
   }"

section \<open>The state cookie\<close>

definition parseDiscordOAuthStates :: "string option \<Rightarrow> string list" where
  "parseDiscordOAuthStates value =
     (case nonempty value of
        None \<Rightarrow> []
      | Some v \<Rightarrow>
          if length v > OAUTH_STATE_COOKIE_MAX_LENGTH then []
          else take_last OAUTH_STATE_MAX_ENTRIES (js_set (filter OAUTH_STATE_PATTERN (split_on CHR ''.'' v))))"

definition appendDiscordOAuthState :: "string option \<Rightarrow> string \<Rightarrow> string option" where
  "appendDiscordOAuthState cookieValue state =
     (if \<not> OAUTH_STATE_PATTERN state then None
      else Some (join ''.'' (take_last OAUTH_STATE_MAX_ENTRIES
             (filter (\<lambda>c. c \<noteq> state) (parseDiscordOAuthStates cookieValue) @ [state]))))"

definition matchesDiscordOAuthState :: "string option \<Rightarrow> string option \<Rightarrow> bool" where
  "matchesDiscordOAuthState returnedState cookieValue =
     (case returnedState of
        None \<Rightarrow> False
      | Some s \<Rightarrow> OAUTH_STATE_PATTERN s \<and> s \<in> set (parseDiscordOAuthStates cookieValue))"

definition consumeDiscordOAuthState :: "string \<Rightarrow> string option \<Rightarrow> string option" where
  "consumeDiscordOAuthState returnedState cookieValue =
     (if \<not> OAUTH_STATE_PATTERN returnedState then cookieValue
      else (let remaining = filter (\<lambda>s. s \<noteq> returnedState) (parseDiscordOAuthStates cookieValue)
            in if remaining = [] then None else Some (join ''.'' remaining)))"

definition sanitizeDiscordOAuthProviderError :: "string option \<Rightarrow> string option" where
  "sanitizeDiscordOAuthProviderError value =
     (case nonempty value of
        None \<Rightarrow> None
      | Some v \<Rightarrow>
          (let normalized = to_lower (trim v)
           in Some (if OAUTH_PROVIDER_ERROR_PATTERN normalized then normalized else ''unknown'')))"

definition sanitizeReturnPath :: "(string \<Rightarrow> url_parts option) \<Rightarrow> string option \<Rightarrow> string" where
  "sanitizeReturnPath authority value =
     (case nonempty value of
        None \<Rightarrow> ''/''
      | Some v \<Rightarrow>
          if length v > 1024 \<or> \<not> starts_with ''/'' v \<or> starts_with ''//'' v then ''/''
          else (case parse_rooted authority v of
                  None \<Rightarrow> ''/''
                | Some parsed \<Rightarrow>
                    if url_origin parsed \<noteq> CONSOLE_ORIGIN then ''/''
                    else if url_pathname parsed = ''/login'' \<or> starts_with ''/api/auth/'' (url_pathname parsed)
                    then ''/''
                    else url_pathname parsed @ url_search parsed))"

section \<open>Roles\<close>

fun first_role ::
  "console_role list \<Rightarrow> string list \<Rightarrow> (console_role \<Rightarrow> string list) \<Rightarrow> role_resolution option" where
  "first_role [] memberRoleIds roleMap = None"
| "first_role (r # rs) memberRoleIds roleMap =
     (let matched = filter (\<lambda>roleId. roleId \<in> set memberRoleIds) (roleMap r)
      in if matched \<noteq> [] then Some \<lparr>rr_consoleRole = r, rr_matchedRoleIds = matched\<rparr>
         else first_role rs memberRoleIds roleMap)"

definition resolveDiscordConsoleRole ::
  "string list \<Rightarrow> (console_role \<Rightarrow> string list) \<Rightarrow> role_resolution option" where
  "resolveDiscordConsoleRole memberRoleIds roleMap = first_role DISCORD_ROLE_ORDER memberRoleIds roleMap"

section \<open>What Discord answers\<close>

definition parseDiscordTokenResponse :: "jsval \<Rightarrow> string option" where
  \<comment> \<open>the access token\<close>
  "parseDiscordTokenResponse value =
     (case (as_string (get_prop value ''access_token''), as_string (get_prop value ''token_type'')) of
        (Some accessToken, Some tokenType) \<Rightarrow>
          if \<not> is_record value \<or> length accessToken < 20 \<or> to_lower tokenType \<noteq> ''bearer'' then None
          else Some accessToken
      | _ \<Rightarrow> None)"

definition exchangeDiscordAuthorizationCode ::
  "(string \<Rightarrow> discord_configuration \<Rightarrow> jsval option) \<Rightarrow> string \<Rightarrow> discord_configuration \<Rightarrow> login_failure + string" where
  "exchangeDiscordAuthorizationCode token_endpoint authCode configuration =
     (case Option.bind (token_endpoint authCode configuration) parseDiscordTokenResponse of
        None \<Rightarrow> Inl OauthExchangeFailed
      | Some t \<Rightarrow> Inr t)"

definition nullable_string :: "jsval \<Rightarrow> string option option" where
  "nullable_string v = nullable as_string v"

definition parseDiscordMember :: "jsval \<Rightarrow> (string list \<times> bool) option" where
  "parseDiscordMember value =
     (if \<not> is_record value then None
      else do {
        roles \<leftarrow> as_array (get_prop value ''roles'');
        roleIds \<leftarrow> map_rows (\<lambda>v. Option.bind (as_string v) parseSnowflake) roles;
        Some (roleIds, get_prop value ''pending'' = Bool True)
      })"

definition parseDiscordIdentity :: "jsval \<Rightarrow> jsval \<Rightarrow> discord_identity option" where
  \<comment> \<open>\<open>{ ...parseDiscordUser(user), ...parseDiscordMember(member) }\<close>\<close>
  "parseDiscordIdentity user member =
     (if \<not> is_record user then None
      else do {
        userId \<leftarrow> Option.bind (as_string (get_prop user ''id'')) parseSnowflake;
        username \<leftarrow> as_string (get_prop user ''username'');
        globalName \<leftarrow> nullable_string (get_prop user ''global_name'');
        avatarHash \<leftarrow> nullable_string (get_prop user ''avatar'');
        (roleIds, pending) \<leftarrow> parseDiscordMember member;
        if length username < 1 \<or> length username > 80 then None
        else Some \<lparr> id_userId = userId, id_username = username, id_globalName = globalName,
          id_avatarHash = avatarHash, id_roleIds = roleIds, id_pending = pending \<rparr>
      })"

type_synonym discord_get = "string \<Rightarrow> string \<Rightarrow> (nat \<times> jsval) option"

definition fetchDiscordIdentity ::
  "discord_get \<Rightarrow> string \<Rightarrow> discord_configuration \<Rightarrow> login_failure + discord_identity" where
  \<comment> \<open>\<open>None\<close>: the request itself failed\<close>
  "fetchDiscordIdentity get accessToken configuration =
     (case (get ''/users/@me'' accessToken,
            get (''/users/@me/guilds/'' @ dc_guildId configuration @ ''/member'') accessToken) of
        (Some (userStatus, user), Some (memberStatus, member)) \<Rightarrow>
          if userStatus \<noteq> 200 then Inl DiscordIdentityInvalid
          else if memberStatus = 404 \<or> memberStatus = 403 then Inl GuildMembershipRequired
          else if memberStatus \<noteq> 200 then Inl DiscordIdentityInvalid
          else (case parseDiscordIdentity user member of
                  None \<Rightarrow> Inl DiscordIdentityInvalid | Some identity \<Rightarrow> Inr identity)
      | _ \<Rightarrow> Inl DiscordIdentityInvalid)"

section \<open>Sessions\<close>

definition parseSessionRow :: "jsval \<Rightarrow> discord_session_row option" where
  "parseSessionRow value =
     (if \<not> is_record value then None
      else do {
        sessionId \<leftarrow> as_string (get_prop value ''session_id'');
        userId \<leftarrow> as_string (get_prop value ''discord_user_id'');
        username \<leftarrow> as_string (get_prop value ''discord_username'');
        globalName \<leftarrow> nullable_string (get_prop value ''discord_global_name'');
        avatarHash \<leftarrow> nullable_string (get_prop value ''discord_avatar_hash'');
        guildId \<leftarrow> as_string (get_prop value ''guild_id'');
        matched \<leftarrow> Option.bind (as_array (get_prop value ''matched_role_ids'')) (map_rows as_string);
        consoleRole \<leftarrow> Option.bind (as_string (get_prop value ''console_role'')) isConsoleRole;
        createdAt \<leftarrow> as_string (get_prop value ''created_at'');
        expiresAt \<leftarrow> as_string (get_prop value ''expires_at'');
        Some \<lparr> ds_sessionId = sessionId, ds_discordUserId = userId, ds_discordUsername = username,
          ds_discordGlobalName = globalName, ds_discordAvatarHash = avatarHash, ds_guildId = guildId,
          ds_matchedRoleIds = matched, ds_consoleRole = consoleRole, ds_createdAt = createdAt,
          ds_expiresAt = expiresAt \<rparr>
      })"

text \<open>
  An RPC of the database: its name and arguments, \<open>None\<close> for a failed request. The hash of a token
  is a parameter.
\<close>

type_synonym session_rpc = "string \<Rightarrow> (string \<times> jsval) list \<Rightarrow> jsval option"

definition token_length_ok :: "string \<Rightarrow> bool" where
  "token_length_ok sessionToken \<longleftrightarrow> 32 \<le> length sessionToken \<and> length sessionToken \<le> 256"

definition createDiscordConsoleSession ::
  "session_rpc \<Rightarrow> (string \<Rightarrow> string) \<Rightarrow> string \<Rightarrow> string \<Rightarrow> discord_identity \<Rightarrow> role_resolution \<Rightarrow>
   discord_configuration \<Rightarrow> login_failure + string \<times> string" where
  \<comment> \<open>the fresh opaque token is an argument; a failed RPC throws a plain error, which the caller
     reports as a configuration error\<close>
  "createDiscordConsoleSession rpc hash sessionToken requestId identity resolution configuration =
     (case rpc ''create_discord_console_session''
        [(''p_request_id'', Str requestId), (''p_session_token_hash'', Str (hash sessionToken)),
         (''p_discord_user_id'', Str (id_userId identity)),
         (''p_discord_username'', Str (id_username identity)),
         (''p_discord_global_name'', (case id_globalName identity of None \<Rightarrow> Null | Some s \<Rightarrow> Str s)),
         (''p_discord_avatar_hash'', (case id_avatarHash identity of None \<Rightarrow> Null | Some s \<Rightarrow> Str s)),
         (''p_guild_id'', Str (dc_guildId configuration)),
         (''p_matched_role_ids'', Arr (map Str (rr_matchedRoleIds resolution))),
         (''p_console_role'', Str (role_text (rr_consoleRole resolution))),
         (''p_ttl_seconds'', jint (dc_sessionTtlSeconds configuration))] of
        None \<Rightarrow> Inl ConfigurationError
      | Some (Arr [row]) \<Rightarrow>
          (case as_string (get_prop row ''expires_at'') of
             None \<Rightarrow> Inl SessionCreateFailed
           | Some expiresAt \<Rightarrow> Inr (sessionToken, expiresAt))
      | Some _ \<Rightarrow> Inl SessionCreateFailed)"

definition resolveDiscordConsoleSession ::
  "session_rpc \<Rightarrow> (string \<Rightarrow> string) \<Rightarrow> string \<Rightarrow> discord_session_row option option" where
  \<comment> \<open>the outer \<open>None\<close> is an exception of the RPC\<close>
  "resolveDiscordConsoleSession rpc hash sessionToken =
     (if \<not> token_length_ok sessionToken then Some None
      else (case rpc ''resolve_discord_console_session'' [(''p_session_token_hash'', Str (hash sessionToken))] of
              None \<Rightarrow> None
            | Some (Arr [row]) \<Rightarrow> Some (parseSessionRow row)
            | Some _ \<Rightarrow> Some None))"

definition revokeDiscordConsoleSession ::
  "session_rpc \<Rightarrow> (string \<Rightarrow> string) \<Rightarrow> string \<Rightarrow> string \<Rightarrow> jsval option" where
  "revokeDiscordConsoleSession rpc hash requestId sessionToken =
     (if \<not> token_length_ok sessionToken then Some (Bool False)
      else rpc ''revoke_discord_console_session''
        [(''p_request_id'', Str requestId), (''p_session_token_hash'', Str (hash sessionToken)),
         (''p_reason'', Str ''logout'')])"

record denied_login =
  dl_targetId :: string
  dl_reason :: login_failure
  dl_guildId :: "string option"
  dl_providerError :: "string option"

definition recordDiscordLoginDenied ::
  "string option \<Rightarrow> login_failure \<Rightarrow> string option \<Rightarrow> string option \<Rightarrow> denied_login" where
  \<comment> \<open>the audit entry; a failure to store it is ignored\<close>
  "recordDiscordLoginDenied discordUserId reason guildId providerError =
     \<lparr> dl_targetId = (case nonempty discordUserId of
          Some u \<Rightarrow> if SNOWFLAKE_PATTERN u then u else ''unknown'' | None \<Rightarrow> ''unknown''),
       dl_reason = reason, dl_guildId = guildId,
       dl_providerError = sanitizeDiscordOAuthProviderError providerError \<rparr>"

definition discordAvatarUrl :: "string option \<Rightarrow> string option \<Rightarrow> string option" where
  "discordAvatarUrl userId avatarHash =
     (case (nonempty userId, nonempty avatarHash) of
        (Some u, Some h) \<Rightarrow>
          if \<not> SNOWFLAKE_PATTERN u then None
          else Some (''https://cdn.discordapp.com/avatars/'' @ u @ ''/'' @ h @ ''.'' @
            (if starts_with ''a_'' h then ''gif'' else ''png'') @ ''?size=128'')
      | _ \<Rightarrow> None)"

section \<open>The role map\<close>

definition role_rank :: "console_role \<Rightarrow> int" where
  \<comment> \<open>\<open>ROLE_RANK\<close> of \<open>console-auth.ts\<close>\<close>
  "role_rank r = (case r of Viewer \<Rightarrow> 0 | Operator \<Rightarrow> 1 | Administrator \<Rightarrow> 2 | Owner \<Rightarrow> 3)"

lemma role_rank_inject [simp]: "role_rank a = role_rank b \<longleftrightarrow> a = b"
  by (cases a; cases b) (simp_all add: role_rank_def)

instantiation console_role :: linorder
begin

definition less_eq_console_role :: "console_role \<Rightarrow> console_role \<Rightarrow> bool" where
  "less_eq_console_role a b \<longleftrightarrow> role_rank a \<le> role_rank b"

definition less_console_role :: "console_role \<Rightarrow> console_role \<Rightarrow> bool" where
  "less_console_role a b \<longleftrightarrow> role_rank a < role_rank b"

instance
  by standard (auto simp: less_eq_console_role_def less_console_role_def)

end

lemma read_role_ids_SomeD:
  "read_role_ids seen vs = Some ids \<Longrightarrow>
     distinct ids \<and> set ids \<inter> set seen = {} \<and> list_all SNOWFLAKE_PATTERN ids \<and> length ids = length vs"
proof (induction seen vs arbitrary: ids rule: read_role_ids.induct)
  case (2 seen v vs)
  then obtain roleId rest where v: "v = Str roleId" "SNOWFLAKE_PATTERN roleId" "roleId \<notin> set seen"
    and rest: "read_role_ids (roleId # seen) vs = Some rest" "ids = roleId # rest"
    by (auto split: option.splits if_splits)
  with "2.IH" [of roleId rest] show ?case by auto
qed simp

definition clean_ids :: "string list \<Rightarrow> bool" where
  "clean_ids ids \<longleftrightarrow> distinct ids \<and> list_all SNOWFLAKE_PATTERN ids \<and> length ids \<le> 16"

lemma read_roles_SomeD:
  "read_roles parsed seen roles = Some entries \<Longrightarrow>
     map fst entries = roles \<and> list_all (\<lambda>e. clean_ids (snd e)) entries \<and>
     distinct (concat (map snd entries)) \<and> set (concat (map snd entries)) \<inter> set seen = {}"
proof (induction roles arbitrary: seen entries)
  case (Cons role roles)
  from Cons.prems obtain vs ids rest where vs: "length vs \<le> 16" "read_role_ids seen vs = Some ids"
    and rest: "read_roles parsed (ids @ seen) roles = Some rest" "entries = (role, ids) # rest"
    by (auto simp: not_less split: option.splits if_splits)
  from read_role_ids_SomeD [OF vs(2)] vs(1) Cons.IH [OF rest(1)] rest(2)
  show ?case by (auto simp: clean_ids_def)
qed simp

lemma distinct_concat_disjoint:
  assumes "distinct (concat (map f xs))" "x \<in> set xs" "y \<in> set xs" "x \<noteq> y"
  shows "set (f x) \<inter> set (f y) = {}"
  using assms by (induction xs) auto

lemma parseRoleMap_cases:
  assumes "parseRoleMap json = Some m"
  obtains entries where "map fst entries = DISCORD_ROLE_ORDER"
    "list_all (\<lambda>e. clean_ids (snd e)) entries" "distinct (concat (map snd entries))"
    "concat (map snd entries) \<noteq> []" "\<And>r ids. (r, ids) \<in> set entries \<Longrightarrow> m r = ids"
proof -
  from assms obtain parsed entries where e: "read_roles parsed [] DISCORD_ROLE_ORDER = Some entries"
    and ne: "concat (map snd entries) \<noteq> []"
    and m: "m = (\<lambda>role. case map_of entries role of None \<Rightarrow> [] | Some ids \<Rightarrow> ids)"
    by (auto simp: parseRoleMap_def split: option.splits if_splits)
  note facts = read_roles_SomeD [OF e]
  then have "distinct (map fst entries)" by (simp add: DISCORD_ROLE_ORDER_def)
  then have "\<And>r ids. (r, ids) \<in> set entries \<Longrightarrow> m r = ids" by (simp add: m map_of_is_SomeI)
  with facts ne show thesis by (intro that) auto
qed

lemma all_roles: "set DISCORD_ROLE_ORDER = UNIV"
proof -
  have "r \<in> set DISCORD_ROLE_ORDER" for r by (cases r) (simp_all add: DISCORD_ROLE_ORDER_def)
  then show ?thesis by auto
qed

lemma first_role_None: "first_role rs ids m = None \<longleftrightarrow> list_all (\<lambda>r. set (m r) \<inter> set ids = {}) rs"
  by (induction rs) (auto simp: Let_def filter_empty_conv)

lemma resolve_cases:
  "resolveDiscordConsoleRole ids m = Some res \<longleftrightarrow>
     rr_matchedRoleIds res = filter (\<lambda>i. i \<in> set ids) (m (rr_consoleRole res)) \<and>
     rr_matchedRoleIds res \<noteq> [] \<and>
     (\<forall>r. rr_consoleRole res < r \<longrightarrow> filter (\<lambda>i. i \<in> set ids) (m r) = [])"
proof -
  have all: "(\<forall>r. P r) \<longleftrightarrow> P Viewer \<and> P Operator \<and> P Administrator \<and> P Owner" for P
    by (metis console_role.exhaust)
  show ?thesis
    by (cases res; cases "rr_consoleRole res")
      (auto simp: resolveDiscordConsoleRole_def DISCORD_ROLE_ORDER_def Let_def all
        less_console_role_def role_rank_def)
qed

section \<open>The return path\<close>

text \<open>What the URL standard guarantees of a parsed reference: its path is normal.\<close>

definition authority_normal :: "(string \<Rightarrow> url_parts option) \<Rightarrow> bool" where
  "authority_normal authority \<longleftrightarrow> (\<forall>s u. authority s = Some u \<longrightarrow> (\<exists>segs. normal_parts u segs))"

definition local_path :: "string \<Rightarrow> bool" where
  \<comment> \<open>a slash, and no second slash or backslash after it: a reference inside the origin\<close>
  "local_path p \<longleftrightarrow>
     (case p of [] \<Rightarrow> False | c # r \<Rightarrow> c = CHR ''/'' \<and> (case r of [] \<Rightarrow> True | d # _ \<Rightarrow> \<not> is_slash d))"

lemma parse_rooted_normal:
  assumes "authority_normal authority" "parse_rooted authority v = Some u"
  shows "\<exists>segs. normal_parts u segs"
  using assms rooted_normal unfolding authority_normal_def parse_rooted_def
  by (auto split: list.splits if_splits)

lemma local_path_query:
  assumes "list_all plain_segment (s # segs)" "plain_query q" "\<not> starts_with ''//'' (path_text (s # segs) @ q)"
  shows "local_path (path_text (s # segs) @ q)"
proof (cases "s @ path_text segs @ q")
  case Nil
  then show ?thesis by (simp add: local_path_def path_text_def)
next
  case (Cons d r)
  have "\<not> is_slash d"
  proof (cases s)
    case Nil
    show ?thesis
    proof (cases segs)
      case Nil
      with Cons \<open>s = []\<close> assms(2) show ?thesis by (auto simp: path_text_def plain_query_def js_eval)
    next
      case (Cons t ts)
      with \<open>s = []\<close> assms(3) show ?thesis by (simp add: path_text_def starts_with_def)
    qed
  next
    case (Cons c cs)
    with \<open>s @ path_text segs @ q = d # r\<close> assms(1) show ?thesis by (auto simp: plain_segment_def)
  qed
  then show ?thesis using Cons by (simp add: local_path_def path_text_def)
qed

lemma sanitize_cases:
  assumes "authority_normal authority"
  obtains "sanitizeReturnPath authority value = ''/''"
  | s segs q where "sanitizeReturnPath authority value = path_text (s # segs) @ q"
      "list_all plain_segment (s # segs)" "plain_query q"
proof (cases "sanitizeReturnPath authority value = ''/''")
  case False
  then obtain v u where "parse_rooted authority v = Some u"
    and r: "sanitizeReturnPath authority value = url_pathname u @ url_search u"
    by (auto simp: sanitizeReturnPath_def split: option.splits if_splits)
  from parse_rooted_normal [OF assms this(1)] obtain segs where "normal_parts u segs" by blast
  then show thesis using r that(2) by (cases segs) (auto simp: normal_parts_def)
qed (rule that(1))

lemma normal_chars:
  assumes "list_all plain_segment segs" "plain_query q"
  shows "list_all (\<lambda>c. 32 < code c \<and> code c < 127) (path_text segs @ q)"
proof -
  have "list_all (\<lambda>c. 32 < code c \<and> code c < 127) q"
  proof (cases q)
    case (Cons c r)
    with assms(2) have "c = CHR ''?''" "\<forall>x \<in> set r. 32 < code x \<and> code x < 127" by (auto simp: plain_query_def list_all_iff)
    with Cons show ?thesis by (simp add: list_all_iff code_def)
  qed simp
  moreover have "list_all (\<lambda>c. 32 < code c \<and> code c < 127) (path_text segs)"
    using path_chars [OF assms(1)] by (auto simp: list_all_iff)
  ultimately show ?thesis by simp
qed

lemma sanitize_root: "sanitizeReturnPath authority (Some ''/'') = ''/''"
  by (simp add: sanitizeReturnPath_def js_eval)

lemma sanitize_guard: "starts_with ''//'' v \<Longrightarrow> sanitizeReturnPath authority (Some v) = ''/''"
  by (simp add: sanitizeReturnPath_def split: option.split) (simp add: nonempty_def)

lemma sanitize_parsed:
  "sanitizeReturnPath authority (Some v) \<noteq> ''/'' \<Longrightarrow>
   \<exists>u. parse_rooted authority v = Some u \<and>
     sanitizeReturnPath authority (Some v) = url_pathname u @ url_search u"
  by (auto simp: sanitizeReturnPath_def nonempty_def split: option.split_asm if_split_asm)

lemma sanitize_twice_local:
  assumes "authority_normal authority"
  shows "local_path (sanitizeReturnPath authority (Some (sanitizeReturnPath authority value)))"
proof (rule sanitize_cases [OF assms, of "value"])
  have root: "local_path ''/''" by (simp add: local_path_def)
  let ?x = "sanitizeReturnPath authority value"
  {
    assume "?x = ''/''"
    then show ?thesis using root by (simp add: sanitize_root)
  next
    fix s segs q
    assume x: "?x = path_text (s # segs) @ q" and plain: "list_all plain_segment (s # segs)" and q: "plain_query q"
    show ?thesis
    proof (cases "sanitizeReturnPath authority (Some ?x) = ''/''")
      case True
      then show ?thesis using root by simp
    next
      case False
      then have not_double: "\<not> starts_with ''//'' ?x" using sanitize_guard by blast
      from local_path_query [OF plain q] not_double x have local: "local_path ?x" by simp
      have tabs: "drop_tabs ?x = ?x" unfolding x
        by (rule drop_tabs_id) (rule list.pred_mono_strong [OF normal_chars [OF plain q]], simp)
      have parsed: "parse_rooted authority ?x = Some (rooted_url (s @ path_text segs @ q))"
      proof (cases "s @ path_text segs @ q")
        case Nil
        then show ?thesis using tabs x by (simp add: parse_rooted_def path_text_def)
      next
        case (Cons d r)
        have "\<not> is_slash d" using local x Cons by (simp add: local_path_def path_text_def)
        then show ?thesis using tabs x Cons by (simp add: parse_rooted_def path_text_def)
      qed
      obtain segs' where n: "normal_parts (rooted_url (s @ path_text segs @ q)) segs'"
        using rooted_normal by blast
      have path: "url_pathname (rooted_url (s @ path_text segs @ q)) = path_text (s # segs)"
        by (rule rooted_of_normal [OF plain q])
      have result: "sanitizeReturnPath authority (Some ?x) =
          path_text (s # segs) @ url_search (rooted_url (s @ path_text segs @ q))"
        using sanitize_parsed [OF False] parsed path by auto
      have q': "plain_query (url_search (rooted_url (s @ path_text segs @ q)))"
        using n by (simp add: normal_parts_def)
      have "\<not> starts_with ''//'' (path_text (s # segs) @ url_search (rooted_url (s @ path_text segs @ q)))"
      proof (cases "s = [] \<and> segs \<noteq> []")
        case True
        then show ?thesis using not_double x by (cases segs) (simp_all add: path_text_def starts_with_def)
      next
        case no: False
        show ?thesis
        proof (cases s)
          case Nil
          with no q' show ?thesis by (auto simp: path_text_def starts_with_def plain_query_def)
        next
          case (Cons c cs)
          then have "c \<noteq> CHR ''/''" using plain by (auto simp: plain_segment_def is_slash_def)
          with Cons show ?thesis by (simp add: path_text_def starts_with_def)
        qed
      qed
      from local_path_query [OF plain q' this] result show ?thesis by simp
    qed
  }
qed

text \<open>
  One application is not enough: a path whose dot segments hide a double slash is returned as a
  reference to another host.
\<close>

lemma sanitize_once_leaks: "sanitizeReturnPath authority (Some ''/.//evil.example'') = ''//evil.example''"
  by (simp add: sanitizeReturnPath_def js_eval)

text \<open>A role map that is accepted is unambiguous: it names at least one role, every identifier is a
  snowflake, no console role has more than sixteen, and no identifier stands for two console roles or
  twice for one.
\<close>

theorem accepted_role_map_is_unambiguous:
  assumes "parseRoleMap json = Some m"
  shows "(\<exists>r. m r \<noteq> []) \<and> distinct (m r) \<and> list_all SNOWFLAKE_PATTERN (m r) \<and> length (m r) \<le> 16 \<and>
    (set (m r) \<inter> set (m q) \<noteq> {} \<longrightarrow> r = q)"
proof -
  obtain entries where keys: "map fst entries = DISCORD_ROLE_ORDER"
    and clean: "list_all (\<lambda>e. clean_ids (snd e)) entries" and apart: "distinct (concat (map snd entries))"
    and ne: "concat (map snd entries) \<noteq> []" and m: "\<forall>r ids. (r, ids) \<in> set entries \<longrightarrow> m r = ids"
    using parseRoleMap_cases [OF assms] by metis
  have entry: "(r, m r) \<in> set entries" for r
  proof -
    have "r \<in> set (map fst entries)" by (simp add: keys all_roles)
    then show ?thesis using m by auto
  qed
  have "\<exists>r. m r \<noteq> []" using ne m by force
  moreover have "clean_ids (m r)" using clean entry [of r] by (auto simp: list_all_iff)
  moreover have "r = q" if "set (m r) \<inter> set (m q) \<noteq> {}"
    using distinct_concat_disjoint [OF apart entry entry, of r q] that by auto
  ultimately show ?thesis by (auto simp: clean_ids_def)
qed

lemma accepted_role_map_is_unambiguous_witness:
  "\<exists>m. parseRoleMap (Some (Obj [(''viewer'', Arr [Str ''12345678901234567''])])) = Some m \<and>
     (\<exists>r. m r \<noteq> []) \<and> length (m Viewer) \<le> 16"
proof -
  obtain m where m: "parseRoleMap (Some (Obj [(''viewer'', Arr [Str ''12345678901234567''])])) = Some m"
    by (simp add: parseRoleMap_def DISCORD_ROLE_ORDER_def role_text_def isConsoleRole_def js_eval)
  from accepted_role_map_is_unambiguous [OF m] m show ?thesis by blast
qed

text \<open>A member gets the highest console role that one of the member's Discord roles stands for: a role
  resolves, with the list of the member's identifiers that stand for it, exactly when that list is not
  empty and no higher role has one.
\<close>

theorem resolved_role_is_highest:
  "resolveDiscordConsoleRole memberRoleIds m = Some \<lparr> rr_consoleRole = r, rr_matchedRoleIds = ids \<rparr> \<longleftrightarrow>
     ids = filter (\<lambda>i. i \<in> set memberRoleIds) (m r) \<and> ids \<noteq> [] \<and>
     {q. \<exists>i. i \<in> set (m q) \<and> i \<in> set memberRoleIds} \<subseteq> {..r}"
  unfolding resolve_cases by (auto simp: filter_empty_conv not_le [symmetric])

end
