(* ===== verification/DiscordOAuthCookies.thy ===== *)
theory DiscordOAuthCookies
  imports DiscordAuth "HOL-Library.Word"
begin

text \<open>
  The signed OAuth state (\<open>apps/web/lib/discord-oauth-cookies.ts\<close>): a payload of a version byte, the
  issue time (32 bits, big endian), a nonce, the length of the return path (16 bits) and the path,
  followed by its MAC; a cookie binds the state to the browser by its fingerprint. Buffers are lists
  of 8-bit words. The MAC, the digest and the random nonce are parameters.
\<close>

type_synonym byte = "8 word"

section \<open>Bytes\<close>

fun be_bytes :: "nat \<Rightarrow> nat \<Rightarrow> byte list" where
  \<comment> \<open>\<open>k\<close> bytes, most significant first\<close>
  "be_bytes 0 n = []"
| "be_bytes (Suc k) n = be_bytes k (n div 256) @ [word_of_nat n]"

definition be_value :: "byte list \<Rightarrow> nat" where
  "be_value bs = foldl (\<lambda>a b. a * 256 + unat b) 0 bs"

definition text_bytes :: "string \<Rightarrow> byte list" where
  \<comment> \<open>the UTF-8 bytes of code units below 256\<close>
  "text_bytes s = concat (map (\<lambda>c. if code c < 128 then [word_of_nat (code c)]
     else [word_of_nat (192 + code c div 64), word_of_nat (128 + code c mod 64)]) s)"

fun bytes_text :: "byte list \<Rightarrow> string" where
  \<comment> \<open>UTF-8 decoding within code units below 256; other sequences, which no text of the model has,
     give a substitute character\<close>
  "bytes_text [] = []"
| "bytes_text [b] = [if unat b < 128 then char_of (unat b) else char_of (26::nat)]"
| "bytes_text (b # c # bs) =
     (if unat b < 128 then char_of (unat b) # bytes_text (c # bs)
      else if (unat b = 194 \<or> unat b = 195) \<and> 128 \<le> unat c \<and> unat c < 192
      then char_of ((unat b - 192) * 64 + (unat c - 128)) # bytes_text bs
      else char_of (26::nat) # bytes_text (c # bs))"

definition base64url_char :: "nat \<Rightarrow> char" where
  "base64url_char n =
     (if n < 26 then char_of (65 + n) else if n < 52 then char_of (71 + n)
      else if n < 62 then char_of (n - 4) else if n = 62 then CHR ''-'' else CHR ''_'')"

definition base64url_index :: "char \<Rightarrow> nat" where
  \<comment> \<open>on the characters of the alphabet\<close>
  "base64url_index c =
     (if is_upper c then code c - 65 else if is_lower c then code c - 71
      else if is_digit c then code c + 4 else if c = CHR ''-'' then 62 else 63)"

fun base64url_encode :: "byte list \<Rightarrow> string" where
  "base64url_encode [] = []"
| "base64url_encode [a] = [base64url_char (unat a div 4), base64url_char (unat a mod 4 * 16)]"
| "base64url_encode [a, b] =
     [base64url_char (unat a div 4), base64url_char (unat a mod 4 * 16 + unat b div 16),
      base64url_char (unat b mod 16 * 4)]"
| "base64url_encode (a # b # c # bs) =
     base64url_char (unat a div 4) # base64url_char (unat a mod 4 * 16 + unat b div 16) #
     base64url_char (unat b mod 16 * 4 + unat c div 64) # base64url_char (unat c mod 64) #
     base64url_encode bs"

definition sextets_byte :: "nat \<Rightarrow> byte" where
  "sextets_byte n = word_of_nat n"

fun base64url_decode :: "string \<Rightarrow> byte list" where
  \<comment> \<open>the lenient decoder of \<open>Buffer\<close> on alphabet characters: spare bits and a single spare
     character are dropped\<close>
  "base64url_decode [] = []"
| "base64url_decode [p] = []"
| "base64url_decode [p, q] = [sextets_byte (base64url_index p * 4 + base64url_index q div 16)]"
| "base64url_decode [p, q, r] =
     [sextets_byte (base64url_index p * 4 + base64url_index q div 16),
      sextets_byte (base64url_index q mod 16 * 16 + base64url_index r div 4)]"
| "base64url_decode (p # q # r # s # cs) =
     sextets_byte (base64url_index p * 4 + base64url_index q div 16) #
     sextets_byte (base64url_index q mod 16 * 16 + base64url_index r div 4) #
     sextets_byte (base64url_index r mod 4 * 64 + base64url_index s) #
     base64url_decode cs"

section \<open>Constants\<close>

definition OAUTH_STATE_VERSION :: nat where
  "OAUTH_STATE_VERSION = 1"

definition OAUTH_STATE_NONCE_BYTES :: nat where
  "OAUTH_STATE_NONCE_BYTES = 24"

definition OAUTH_STATE_SIGNATURE_BYTES :: nat where
  "OAUTH_STATE_SIGNATURE_BYTES = 32"

definition OAUTH_STATE_HEADER_BYTES :: nat where
  "OAUTH_STATE_HEADER_BYTES = 1 + 4 + 24 + 2"

definition OAUTH_STATE_MAX_AGE_SECONDS :: int where
  "OAUTH_STATE_MAX_AGE_SECONDS = 600"

definition OAUTH_STATE_FUTURE_SKEW_SECONDS :: int where
  "OAUTH_STATE_FUTURE_SKEW_SECONDS = 30"

definition OAUTH_RETURN_PATH_MAX_BYTES :: nat where
  "OAUTH_RETURN_PATH_MAX_BYTES = 512"

definition OAUTH_COOKIE_SLOT_COUNT :: nat where
  "OAUTH_COOKIE_SLOT_COUNT = 32"

definition OAUTH_STATE_TOKEN_PATTERN :: "string \<Rightarrow> bool" where
  "OAUTH_STATE_TOKEN_PATTERN = chars_between token_char 80 800"

definition OAUTH_COOKIE_FINGERPRINT_PATTERN :: "string \<Rightarrow> bool" where
  "OAUTH_COOKIE_FINGERPRINT_PATTERN = chars_between token_char 43 43"

section \<open>Attempts\<close>

record oauth_attempt =
  oa_state :: string
  oa_returnTo :: string
  oa_cookieName :: string
  oa_cookieValue :: string

text \<open>
  The digest and the keyed MAC of the payload under the context string of the module.
\<close>

record oauth_crypto =
  oc_sha256 :: "string \<Rightarrow> byte list"
  oc_signPayload :: "byte list \<Rightarrow> string \<Rightarrow> byte list"

definition hex_lower :: "nat \<Rightarrow> char" where
  "hex_lower n = (if n < 10 then char_of (48 + n) else char_of (87 + n))"

definition oauthCookieNameFromFingerprint :: "byte list \<Rightarrow> string" where
  "oauthCookieNameFromFingerprint fingerprint =
     (let slot = be_value (take 2 fingerprint) mod OAUTH_COOKIE_SLOT_COUNT
      in ''__Host-ivrm_discord_oauth_slot_'' @ [hex_lower (slot div 16), hex_lower (slot mod 16)])"

definition safeReturnPath :: "(string \<Rightarrow> url_parts option) \<Rightarrow> string \<Rightarrow> string" where
  "safeReturnPath authority value =
     (let sanitized = sanitizeReturnPath authority (Some value)
      in if length (text_bytes sanitized) \<le> OAUTH_RETURN_PATH_MAX_BYTES then sanitized else ''/'')"

definition oauth_payload :: "nat \<Rightarrow> byte list \<Rightarrow> byte list \<Rightarrow> byte list" where
  "oauth_payload issuedAtSeconds nonce returnBytes =
     be_bytes 1 OAUTH_STATE_VERSION @ be_bytes 4 issuedAtSeconds @ nonce @
     be_bytes 2 (length returnBytes) @ returnBytes"

definition createDiscordOAuthAttempt ::
  "(string \<Rightarrow> url_parts option) \<Rightarrow> oauth_crypto \<Rightarrow> byte list \<Rightarrow> string \<Rightarrow> string \<Rightarrow> int \<Rightarrow> oauth_attempt option" where
  "createDiscordOAuthAttempt authority crypto nonce returnPath clientSecret issuedAtMilliseconds =
     (if clientSecret = [] then None
      else if issuedAtMilliseconds < 0 then None
      else (let returnTo = safeReturnPath authority returnPath;
                issuedAtSeconds = issuedAtMilliseconds div 1000
            in if issuedAtSeconds > 4294967295 then None
               else (let payload = oauth_payload (nat issuedAtSeconds) nonce (text_bytes returnTo);
                         state = base64url_encode (payload @ oc_signPayload crypto payload clientSecret);
                         fingerprint = oc_sha256 crypto state
                     in Some \<lparr> oa_state = state, oa_returnTo = returnTo,
                          oa_cookieName = oauthCookieNameFromFingerprint fingerprint,
                          oa_cookieValue = base64url_encode fingerprint \<rparr>)))"

definition getDiscordOAuthSlotCookieName :: "oauth_crypto \<Rightarrow> string option \<Rightarrow> string option" where
  "getDiscordOAuthSlotCookieName crypto state =
     (case state of
        None \<Rightarrow> None
      | Some s \<Rightarrow>
          if \<not> OAUTH_STATE_TOKEN_PATTERN s then None
          else Some (oauthCookieNameFromFingerprint (oc_sha256 crypto s)))"

definition verifyDiscordOAuthAttempt ::
  "(string \<Rightarrow> url_parts option) \<Rightarrow> oauth_crypto \<Rightarrow> string option \<Rightarrow> string option \<Rightarrow> string \<Rightarrow> int \<Rightarrow> string option" where
  "verifyDiscordOAuthAttempt authority crypto returnedState cookieValue clientSecret now =
     (case (returnedState, cookieValue) of
        (Some returned, Some cookie) \<Rightarrow>
          if clientSecret = [] \<or> \<not> OAUTH_STATE_TOKEN_PATTERN returned \<or>
             \<not> OAUTH_COOKIE_FINGERPRINT_PATTERN cookie
          then None
          else (let encoded = base64url_decode returned;
                    minimumLength = OAUTH_STATE_HEADER_BYTES + 1 + OAUTH_STATE_SIGNATURE_BYTES;
                    maximumLength = OAUTH_STATE_HEADER_BYTES + OAUTH_RETURN_PATH_MAX_BYTES +
                      OAUTH_STATE_SIGNATURE_BYTES
                in if length encoded < minimumLength \<or> length encoded > maximumLength then None
                   else (let payload = take (length encoded - OAUTH_STATE_SIGNATURE_BYTES) encoded;
                             signature = drop (length encoded - OAUTH_STATE_SIGNATURE_BYTES) encoded;
                             issuedAtSeconds = int (be_value (take 4 (drop 1 payload)));
                             nowSeconds = now div 1000;
                             returnLength = be_value (take 2 (drop (5 + OAUTH_STATE_NONCE_BYTES) payload))
                         in if signature \<noteq> oc_signPayload crypto payload clientSecret then None
                            else if be_value (take 1 payload) \<noteq> OAUTH_STATE_VERSION then None
                            else if issuedAtSeconds > nowSeconds + OAUTH_STATE_FUTURE_SKEW_SECONDS \<or>
                                    nowSeconds - issuedAtSeconds > OAUTH_STATE_MAX_AGE_SECONDS then None
                            else if returnLength < 1 \<or> returnLength > OAUTH_RETURN_PATH_MAX_BYTES \<or>
                                    length payload \<noteq> OAUTH_STATE_HEADER_BYTES + returnLength then None
                            else if base64url_encode (oc_sha256 crypto returned) \<noteq> cookie then None
                            else Some (safeReturnPath authority
                                   (bytes_text (drop OAUTH_STATE_HEADER_BYTES payload)))))
      | _ \<Rightarrow> None)"

lemmas oauth_constants = OAUTH_STATE_VERSION_def OAUTH_STATE_NONCE_BYTES_def
  OAUTH_STATE_SIGNATURE_BYTES_def OAUTH_STATE_HEADER_BYTES_def OAUTH_STATE_MAX_AGE_SECONDS_def
  OAUTH_STATE_FUTURE_SKEW_SECONDS_def OAUTH_RETURN_PATH_MAX_BYTES_def OAUTH_COOKIE_SLOT_COUNT_def

section \<open>Encoding and decoding\<close>

lemma sextet_round_trip:
  assumes "n < 64"
  shows "base64url_index (base64url_char n) = n" "token_char (base64url_char n)"
proof -
  have c: "code (char_of k) = k mod 256" for k by (simp add: code_def)
  note d = base64url_char_def base64url_index_def token_char_def is_alnum_def is_upper_def is_lower_def is_digit_def c
  consider "n < 26" | "26 \<le> n" "n < 52" | "52 \<le> n" "n < 62" | "n = 62" | "n = 63" using assms by linarith
  then have "base64url_index (base64url_char n) = n \<and> token_char (base64url_char n)"
    by cases (auto simp: d code_def)
  then show "base64url_index (base64url_char n) = n" "token_char (base64url_char n)"
    by simp_all
qed

lemma byte_small: "unat (a :: byte) < 256"
  using unsigned_less [where 'b = 8 and 'a = nat and w = a] by simp

lemma byte_of_unat: "sextets_byte n = a \<longleftrightarrow> n mod 256 = unat a"
proof -
  have "sextets_byte n = a \<longleftrightarrow> unat (sextets_byte n) = unat a"
    by (simp only: word_eq_iff_unsigned [where 'a = nat])
  then show ?thesis by (simp add: sextets_byte_def unsigned_of_nat take_bit_eq_mod)
qed

lemma sextet_bounds:
  "unat (a :: byte) div 4 < 64" "unat a mod 4 * 16 < 64" "unat a mod 4 * 16 + unat (b :: byte) div 16 < 64"
  "unat b mod 16 * 4 < 64" "unat b mod 16 * 4 + unat (c :: byte) div 64 < 64" "unat c mod 64 < 64"
  using byte_small [of a] byte_small [of b] byte_small [of c] by linarith+

lemma byte_quotients: "unat (a :: byte) div 16 < 16" "unat a div 64 < 4"
  using byte_small [of a] by linarith+

lemma base64url_round_trip: "base64url_decode (base64url_encode bs) = bs"
  by (induction bs rule: base64url_encode.induct)
    (simp_all add: sextet_round_trip sextet_bounds byte_of_unat byte_small byte_quotients)

lemma base64url_chars: "list_all token_char (base64url_encode bs)"
  by (induction bs rule: base64url_encode.induct) (simp_all add: sextet_round_trip sextet_bounds)

lemma base64url_length: "length (base64url_encode bs) = (length bs * 4 + 2) div 3"
  by (induction bs rule: base64url_encode.induct) simp_all

lemma be_bytes_length: "length (be_bytes k n) = k"
  by (induction k arbitrary: n) simp_all

lemma be_round_trip: "be_value (be_bytes k n) = n mod 256 ^ k"
proof (induction k arbitrary: n)
  case (Suc k)
  have "unat (word_of_nat n :: byte) = n mod 256" by (simp add: unsigned_of_nat take_bit_eq_mod)
  with Suc show ?case by (simp add: be_value_def mod_mult2_eq mult.commute)
qed (simp add: be_value_def)

lemma ascii_round_trip:
  assumes "list_all (\<lambda>c. code c < 128) s"
  shows "text_bytes s = map (\<lambda>c. word_of_nat (code c)) s" "bytes_text (text_bytes s) = s"
proof -
  show bytes: "text_bytes s = map (\<lambda>c. word_of_nat (code c)) s"
    using assms by (induction s) (simp_all add: text_bytes_def)
  have small: "unat (word_of_nat (code c) :: byte) = code c" if "code c < 128" for c
    using that by (simp add: unsigned_of_nat take_bit_eq_mod)
  have "bytes_text (map (\<lambda>c. word_of_nat (code c)) s) = s" using assms
  proof (induction s)
    case (Cons c s)
    have c: "char_of (code c) = c" by (simp add: code_def)
    with Cons show ?case by (cases s) (simp_all add: small)
  qed simp
  with bytes show "bytes_text (text_bytes s) = s" by simp
qed

section \<open>Creating and verifying a state\<close>

lemma safeReturnPath_cases:
  assumes "authority_normal authority"
  shows "list_all (\<lambda>c. code c < 128) (safeReturnPath authority v)"
    "safeReturnPath authority v \<noteq> []"
    "length (text_bytes (safeReturnPath authority v)) \<le> 512"
    "local_path (safeReturnPath authority (safeReturnPath authority v))"
proof -
  let ?x = "sanitizeReturnPath authority (Some v)"
  have x: "list_all (\<lambda>c. code c < 128) ?x \<and> ?x \<noteq> []"
  proof (rule sanitize_cases [OF assms, of "Some v"])
    assume "?x = ''/''"
    then show ?thesis by (simp add: code_def)
  next
    fix s segs q
    assume x: "?x = path_text (s # segs) @ q" "list_all plain_segment (s # segs)" "plain_query q"
    show ?thesis unfolding x(1)
      using list.pred_mono_strong [OF normal_chars [OF x(2,3)], of "\<lambda>c. code c < 128"] by (simp add: path_text_def)
  qed
  then show "list_all (\<lambda>c. code c < 128) (safeReturnPath authority v)" "safeReturnPath authority v \<noteq> []"
    by (simp_all add: safeReturnPath_def Let_def code_def)
  have root: "length (text_bytes ''/'') = 1" by (simp add: text_bytes_def code_def)
  then show "length (text_bytes (safeReturnPath authority v)) \<le> 512"
    by (simp add: safeReturnPath_def oauth_constants Let_def)
  have "local_path ''/''" by (simp add: local_path_def)
  then show "local_path (safeReturnPath authority (safeReturnPath authority v))"
    using sanitize_twice_local [OF assms, of "Some v"]
    by (simp add: safeReturnPath_def Let_def sanitize_root)
qed

text \<open>The fields of a payload, at the offsets where the verifier reads them.\<close>

lemma payload_fields:
  fixes n :: nat and nonce bs :: "byte list"
  assumes "length nonce = 24" "length bs < 65536"
  defines "p \<equiv> oauth_payload n nonce bs"
  shows "length p = 31 + length bs" "be_value (take 1 p) = 1" "be_value (take 4 (drop 1 p)) = n mod 256 ^ 4"
    "be_value (take 2 (drop 29 p)) = length bs" "drop 31 p = bs"
proof -
  have v: "length (be_bytes 1 1) = Suc 0" by (simp add: be_bytes_length)
  show "length p = 31 + length bs" "drop 31 p = bs"
    using assms(1) by (simp_all add: p_def oauth_payload_def be_bytes_length)
  have "take 1 p = be_bytes 1 1" "take 4 (drop 1 p) = be_bytes 4 n"
    "take 2 (drop 29 p) = be_bytes 2 (length bs)"
    using assms(1) by (simp_all add: p_def oauth_payload_def be_bytes_length oauth_constants v del: be_bytes.simps)
  then show "be_value (take 1 p) = 1" "be_value (take 4 (drop 1 p)) = n mod 256 ^ 4"
    "be_value (take 2 (drop 29 p)) = length bs"
    using assms(2) by (simp_all add: be_round_trip del: be_bytes.simps)
qed

lemma token_pattern_encoded:
  assumes "60 \<le> length bs" "length bs \<le> 600"
  shows "OAUTH_STATE_TOKEN_PATTERN (base64url_encode bs)"
  using assms base64url_chars by (simp add: OAUTH_STATE_TOKEN_PATTERN_def chars_between_def base64url_length) linarith

lemma nat_below: "0 \<le> (k :: int) \<Longrightarrow> k < 256 ^ 4 \<Longrightarrow> nat k < 256 ^ 4 \<and> int (nat k) = k"
  by (simp add: nat_less_iff)

lemma create_cases:
  assumes "createDiscordOAuthAttempt authority crypto nonce path secret issued = Some attempt"
  obtains payload where "payload = oauth_payload (nat (issued div 1000)) nonce (text_bytes (safeReturnPath authority path))"
    "0 \<le> issued div 1000" "issued div 1000 < 256 ^ 4" "secret \<noteq> []"
    "oa_state attempt = base64url_encode (payload @ oc_signPayload crypto payload secret)"
    "oa_returnTo attempt = safeReturnPath authority path"
    "oa_cookieValue attempt = base64url_encode (oc_sha256 crypto (oa_state attempt))"
    "oa_cookieName attempt = oauthCookieNameFromFingerprint (oc_sha256 crypto (oa_state attempt))"
  using assms
  by (auto simp: createDiscordOAuthAttempt_def Let_def split: if_split_asm)

lemma created_state_verifies:
  assumes "authority_normal authority" "length nonce = 24"
    and "\<forall>p s. length (oc_signPayload crypto p s) = 32" "\<forall>s. length (oc_sha256 crypto s) = 32"
    and "createDiscordOAuthAttempt authority crypto nonce path secret issued = Some attempt"
    and "issued div 1000 \<le> now div 1000 + 30" "now div 1000 \<le> issued div 1000 + 600"
  shows "verifyDiscordOAuthAttempt authority crypto (Some (oa_state attempt)) (Some (oa_cookieValue attempt)) secret now =
      Some (safeReturnPath authority (oa_returnTo attempt))"
    and "getDiscordOAuthSlotCookieName crypto (Some (oa_state attempt)) = Some (oa_cookieName attempt)"
    and "oa_returnTo attempt = safeReturnPath authority path"
proof -
  let ?ret = "safeReturnPath authority path"
  let ?n = "nat (issued div 1000)"
  note safe = safeReturnPath_cases [OF assms(1)]
  obtain payload where p: "payload = oauth_payload ?n nonce (text_bytes ?ret)"
    and time: "0 \<le> issued div 1000" "issued div 1000 < 256 ^ 4" and secret: "secret \<noteq> []"
    and state: "oa_state attempt = base64url_encode (payload @ oc_signPayload crypto payload secret)"
    and ret: "oa_returnTo attempt = ?ret"
    and cookie: "oa_cookieValue attempt = base64url_encode (oc_sha256 crypto (oa_state attempt))"
      "oa_cookieName attempt = oauthCookieNameFromFingerprint (oc_sha256 crypto (oa_state attempt))"
    by (rule create_cases [OF assms(5)])
  have len: "length (text_bytes ?ret) \<le> 512" "1 \<le> length (text_bytes ?ret)"
    using safe(2,3) ascii_round_trip(1) [OF safe(1)] by (simp_all add: Suc_le_eq)
  have ne: "text_bytes ?ret \<noteq> []" using len(2) by auto
  have small: "?n < 256 ^ 4" "int ?n = issued div 1000"
    using nat_below [OF time] by blast+
  have fields: "length payload = 31 + length (text_bytes ?ret)" "be_value (take 1 payload) = 1"
    "be_value (take 4 (drop 1 payload)) = ?n"
    "be_value (take 2 (drop 29 payload)) = length (text_bytes ?ret)" "drop 31 payload = text_bytes ?ret"
    using payload_fields [OF assms(2), of "text_bytes ?ret" ?n] len(1) small
    by (simp_all only: p mod_less)
  have token: "OAUTH_STATE_TOKEN_PATTERN (oa_state attempt)"
    unfolding state by (rule token_pattern_encoded) (use fields len assms(3) in auto)
  have print: "OAUTH_COOKIE_FINGERPRINT_PATTERN (oa_cookieValue attempt)"
    using base64url_chars assms(4)
    by (simp add: OAUTH_COOKIE_FINGERPRINT_PATTERN_def chars_between_def cookie base64url_length)
  have decoded: "base64url_decode (oa_state attempt) = payload @ oc_signPayload crypto payload secret"
    by (simp add: state base64url_round_trip)
  show "getDiscordOAuthSlotCookieName crypto (Some (oa_state attempt)) = Some (oa_cookieName attempt)"
    using token by (simp add: getDiscordOAuthSlotCookieName_def cookie)
  show "oa_returnTo attempt = safeReturnPath authority path" by (rule ret)
  show "verifyDiscordOAuthAttempt authority crypto (Some (oa_state attempt)) (Some (oa_cookieValue attempt)) secret now =
      Some (safeReturnPath authority (oa_returnTo attempt))"
    unfolding verifyDiscordOAuthAttempt_def ret
    using token print secret fields len ne small assms(3,6,7) ascii_round_trip(2) [OF safe(1)] decoded
    by (simp add: Let_def cookie(1) oauth_constants)
qed

text \<open>C24.
  An OAuth state survives its round trip: a state that the start route issued is accepted, with the
  cookie it was issued with and under the same secret, from thirty seconds before its issue to ten
  minutes after it; the callback finds its cookie under the name the start route chose, and the path
  it returns to stays inside the origin.
\<close>

theorem oauth_state_round_trip:
  assumes "authority_normal authority" "length nonce = 24"
    and "\<forall>p s. length (oc_signPayload crypto p s) = 32" "\<forall>s. length (oc_sha256 crypto s) = 32"
    and "createDiscordOAuthAttempt authority crypto nonce path secret issued = Some attempt"
    and "issued div 1000 \<le> now div 1000 + 30" "now div 1000 \<le> issued div 1000 + 600"
  shows "verifyDiscordOAuthAttempt authority crypto (Some (oa_state attempt)) (Some (oa_cookieValue attempt)) secret now =
      Some (safeReturnPath authority (oa_returnTo attempt)) \<and>
    getDiscordOAuthSlotCookieName crypto (Some (oa_state attempt)) = Some (oa_cookieName attempt) \<and>
    local_path (safeReturnPath authority (oa_returnTo attempt))"
  using created_state_verifies [OF assms] safeReturnPath_cases(4) [OF assms(1)] by simp_all

definition sample_crypto :: oauth_crypto where
  \<comment> \<open>a stand-in for SHA-256 and its MAC, of the right widths\<close>
  "sample_crypto = \<lparr> oc_sha256 = (\<lambda>s. replicate 32 (word_of_nat (length s))),
     oc_signPayload = (\<lambda>p s. replicate 32 (word_of_nat (length p + length s))) \<rparr>"

lemma oauth_state_round_trip_witness:
  "verifyDiscordOAuthAttempt (\<lambda>_. None) sample_crypto
     (map_option oa_state (createDiscordOAuthAttempt (\<lambda>_. None) sample_crypto (replicate 24 9) ''/servers'' ''key'' 5000))
     (map_option oa_cookieValue (createDiscordOAuthAttempt (\<lambda>_. None) sample_crypto (replicate 24 9) ''/servers'' ''key'' 5000))
     ''key'' 604000 = Some ''/servers''"
proof -
  let ?create = "createDiscordOAuthAttempt (\<lambda>_. None) sample_crypto (replicate 24 9) ''/servers'' ''key'' 5000"
  have path: "safeReturnPath (\<lambda>_. None) ''/servers'' = ''/servers''"
    by (simp add: safeReturnPath_def sanitizeReturnPath_def js_eval Let_def text_bytes_def oauth_constants)
  obtain attempt where a: "?create = Some attempt" "oa_returnTo attempt = ''/servers''"
    by (simp add: createDiscordOAuthAttempt_def Let_def path)
  show ?thesis
    using oauth_state_round_trip [OF _ _ _ _ a(1), of 604000] a path
    by (simp add: authority_normal_def sample_crypto_def)
qed

text \<open>C6.
  A state is only accepted when it is authentic: what it carries is signed under the secret, the
  cookie is the fingerprint of this very state, so the browser that returns is the one that started,
  and it was issued at most ten minutes ago and at most thirty seconds ahead. The path it carries is
  sanitised again before it is used.
\<close>

theorem verified_state_is_authentic:
  assumes "verifyDiscordOAuthAttempt authority crypto state cookie secret now = Some path"
  shows "\<exists>returned payload issued. state = Some returned \<and>
      base64url_decode returned = payload @ oc_signPayload crypto payload secret \<and>
      cookie = Some (base64url_encode (oc_sha256 crypto returned)) \<and>
      issued = int (be_value (take 4 (drop 1 payload))) \<and>
      issued \<le> now div 1000 + 30 \<and> now div 1000 \<le> issued + 600 \<and>
      path = safeReturnPath authority (bytes_text (drop 31 payload))"
proof -
  from assms obtain returned given where given: "state = Some returned" "cookie = Some given"
    by (auto simp: verifyDiscordOAuthAttempt_def split: option.splits)
  let ?e = "base64url_decode returned"
  let ?p = "take (length ?e - 32) ?e"
  have facts: "drop (length ?e - 32) ?e = oc_signPayload crypto ?p secret"
    "given = base64url_encode (oc_sha256 crypto returned)"
    "int (be_value (take 4 (drop 1 ?p))) \<le> now div 1000 + 30"
    "now div 1000 \<le> int (be_value (take 4 (drop 1 ?p))) + 600"
    "path = safeReturnPath authority (bytes_text (drop 31 ?p))"
    using assms unfolding given verifyDiscordOAuthAttempt_def Let_def oauth_constants
    by (auto split: if_split_asm)
  have "?e = ?p @ oc_signPayload crypto ?p secret"
    unfolding facts(1) [symmetric] by simp
  with facts(2-) given show ?thesis by metis
qed

lemma verified_state_is_authentic_witness:
  "\<exists>attempt returned payload issued.
     createDiscordOAuthAttempt (\<lambda>_. None) sample_crypto (replicate 24 9) ''/servers'' ''key'' 5000 = Some attempt \<and>
     oa_state attempt = returned \<and>
     base64url_decode returned = payload @ oc_signPayload sample_crypto payload ''key'' \<and>
     issued = int (be_value (take 4 (drop 1 payload))) \<and> issued \<le> 604 + 30 \<and> 604 \<le> issued + 600"
proof -
  obtain attempt where a:
    "createDiscordOAuthAttempt (\<lambda>_. None) sample_crypto (replicate 24 9) ''/servers'' ''key'' 5000 = Some attempt"
    by (simp add: createDiscordOAuthAttempt_def Let_def)
  have "verifyDiscordOAuthAttempt (\<lambda>_. None) sample_crypto (Some (oa_state attempt))
      (Some (oa_cookieValue attempt)) ''key'' 604000 = Some (safeReturnPath (\<lambda>_. None) (oa_returnTo attempt))"
    by (rule created_state_verifies [OF _ _ _ _ a]) (simp_all add: authority_normal_def sample_crypto_def)
  from verified_state_is_authentic [OF this] show ?thesis using a by auto
qed

end
