(* ===== verification/CloudflareAccess.thy ===== *)
theory CloudflareAccess
  imports DiscordOAuthCookies
begin

text \<open>
  Cloudflare Access (\<open>apps/web/lib/cloudflare-access.ts\<close>): the mode and configuration, the cache of
  signing keys as explicit state, and the verification of an Access JWT. The environment, URL parsing,
  the decoding of a segment, the key endpoint and the signature check are parameters; an exception is
  \<open>None\<close>. Successive readings of the clock are a function of their number.
\<close>

section \<open>Data\<close>

datatype access_mode = AccessDisabled | AccessReport | AccessEnforce

datatype access_state = StateDisabled | StateConfigMissing | StateMissing | StateInvalid | StateVerified

record access_identity =
  ai_subject :: string
  ai_email :: string
  ai_issuedAt :: int
  ai_expiresAt :: int

record access_configuration =
  ac_teamDomain :: string
  ac_audience :: string

record jwt_header =
  jh_alg :: string
  jh_kid :: string

datatype jwt_audience = OneAudience string | Audiences "string list"

record jwt_payload =
  jp_aud :: jwt_audience
  jp_email :: string
  jp_exp :: jsnum
  jp_iat :: jsnum
  jp_nbf :: "jsnum option"
  jp_iss :: string
  jp_sub :: string
  jp_type :: "string option"

record jwks_cache =
  jc_teamDomain :: string
  jc_expiresAt :: int
  jc_keys :: "jsval list"

text \<open>The library the module relies on.\<close>

record access_library =
  al_decode_json :: "string \<Rightarrow> jsval option" \<comment> \<open>\<open>JSON.parse\<close> of the decoded text\<close>
  al_decode_bytes :: "string \<Rightarrow> byte list"
  al_fetch_certs :: "nat \<Rightarrow> string \<Rightarrow> jsval option"  \<comment> \<open>\<open>None\<close>: the request failed\<close>
  al_verify :: "jsval \<Rightarrow> byte list \<Rightarrow> string \<Rightarrow> bool option"  \<comment> \<open>import the key, check the signature\<close>
  al_clock :: "nat \<Rightarrow> int"

definition CLOCK_SKEW_SECONDS :: int where
  "CLOCK_SKEW_SECONDS = 60"

definition JWKS_CACHE_MILLISECONDS :: int where
  "JWKS_CACHE_MILLISECONDS = 5 * 60 * 1000"

section \<open>Configuration\<close>

definition getAccessMode :: "environment \<Rightarrow> access_mode option" where
  "getAccessMode env =
     (case nonempty (map_option (to_lower \<circ> trim) (env ''IVRM_ACCESS_MODE'')) of
        None \<Rightarrow> Some AccessDisabled
      | Some raw \<Rightarrow> map_of [(''disabled'', AccessDisabled), (''report'', AccessReport),
                           (''enforce'', AccessEnforce)] raw)"

record access_url = redirect_url +
  xu_pathname :: string
  xu_search :: string

definition normalizeTeamDomain :: "(string \<Rightarrow> access_url option) \<Rightarrow> string \<Rightarrow> string option" where
  "normalizeTeamDomain parse_url raw =
     (case parse_url raw of
        None \<Rightarrow> None
      | Some url \<Rightarrow>
          if ru_protocol url \<noteq> ''https:'' \<or> ru_username url \<noteq> [] \<or> ru_password url \<noteq> [] \<or>
             xu_search url \<noteq> [] \<or> ru_hash url \<noteq> [] \<or>
             (xu_pathname url \<noteq> ''/'' \<and> xu_pathname url \<noteq> []) \<or>
             \<not> ends_with ''.cloudflareaccess.com'' (ru_hostname url)
          then None else Some (''https://'' @ ru_hostname url))"

definition getAccessConfiguration ::
  "environment \<Rightarrow> (string \<Rightarrow> access_url option) \<Rightarrow> access_configuration option option" where
  \<comment> \<open>the outer \<open>None\<close> is an exception, the inner one a missing configuration\<close>
  "getAccessConfiguration env parse_url =
     (case (nonempty (map_option trim (env ''CF_ACCESS_TEAM_DOMAIN'')),
            nonempty (map_option trim (env ''CF_ACCESS_AUD''))) of
        (Some teamDomain, Some audience) \<Rightarrow>
          if length audience > 256 \<or> list_ex is_space audience then None
          else (case normalizeTeamDomain parse_url teamDomain of
                  None \<Rightarrow> None
                | Some d \<Rightarrow> Some (Some \<lparr> ac_teamDomain = d, ac_audience = audience \<rparr>))
      | _ \<Rightarrow> Some None)"

section \<open>Segments of a token\<close>

definition decodeJsonSegment :: "access_library \<Rightarrow> string \<Rightarrow> jsval option" where
  "decodeJsonSegment lib segment =
     (if segment = [] \<or> length segment > 16384 then None else al_decode_json lib segment)"

definition parseHeader :: "jsval \<Rightarrow> jwt_header option" where
  "parseHeader value =
     (if \<not> is_record value \<or> get_prop value ''alg'' \<noteq> Str ''RS256'' then None
      else (case as_string (get_prop value ''kid'') of
              None \<Rightarrow> None
            | Some kid \<Rightarrow> if kid = [] \<or> length kid > 256 then None
                else Some \<lparr> jh_alg = ''RS256'', jh_kid = kid \<rparr>))"

fun as_number :: "jsval \<Rightarrow> jsnum option" where
  "as_number (Num n) = Some n"
| "as_number _ = None"

definition read_audience :: "jsval \<Rightarrow> jwt_audience option" where
  "read_audience v =
     (case v of
        Str s \<Rightarrow> Some (OneAudience s)
      | Arr vs \<Rightarrow> map_option Audiences (map_rows as_string vs)
      | _ \<Rightarrow> None)"

definition optional_claim :: "(jsval \<Rightarrow> 'a option) \<Rightarrow> jsval \<Rightarrow> 'a option option" where
  "optional_claim r v = (if v = Undefined then Some None else map_option Some (r v))"

definition parsePayload :: "jsval \<Rightarrow> jwt_payload option" where
  "parsePayload value =
     (if \<not> is_record value then None
      else do {
        aud \<leftarrow> read_audience (get_prop value ''aud'');
        email \<leftarrow> as_string (get_prop value ''email'');
        expiry \<leftarrow> as_number (get_prop value ''exp'');
        iat \<leftarrow> as_number (get_prop value ''iat'');
        nbf \<leftarrow> optional_claim as_number (get_prop value ''nbf'');
        iss \<leftarrow> as_string (get_prop value ''iss'');
        sub \<leftarrow> as_string (get_prop value ''sub'');
        kind \<leftarrow> optional_claim as_string (get_prop value ''type'');
        Some \<lparr> jp_aud = aud, jp_email = email, jp_exp = expiry, jp_iat = iat, jp_nbf = nbf,
          jp_iss = iss, jp_sub = sub, jp_type = kind \<rparr>
      })"

section \<open>Signing keys\<close>

fun truthy :: "jsval \<Rightarrow> bool" where
  "truthy Undefined = False"
| "truthy Null = False"
| "truthy (Bool b) = b"
| "truthy (Num n) = (n \<noteq> Fin 0 \<and> n \<noteq> NaN)"
| "truthy (Str s) = (s \<noteq> [])"
| "truthy _ = True"

definition signing_key :: "jsval \<Rightarrow> bool" where
  \<comment> \<open>an entry that is \<open>null\<close> would throw in the code; it is refused here by \<open>keys_readable\<close>\<close>
  "signing_key key \<longleftrightarrow>
     get_prop key ''kty'' = Str ''RSA'' \<and>
     (case as_string (get_prop key ''kid'') of None \<Rightarrow> False | Some kid \<Rightarrow> kid \<noteq> []) \<and>
     (\<not> truthy (get_prop key ''use'') \<or> get_prop key ''use'' = Str ''sig'')"

definition keys_readable :: "jsval list \<Rightarrow> bool" where
  \<comment> \<open>reading a property of \<open>null\<close> throws\<close>
  "keys_readable ks \<longleftrightarrow> Null \<notin> set ks \<and> Undefined \<notin> set ks"

definition select_signing_keys :: "jsval \<Rightarrow> jsval list option" where
  "select_signing_keys body =
     (case (if is_record body then as_array (get_prop body ''keys'') else None) of
        None \<Rightarrow> None
      | Some ks \<Rightarrow>
          if \<not> keys_readable ks then None
          else (let keys = filter signing_key ks
                in if keys = [] \<or> length keys > 20 then None else Some keys))"

text \<open>
  The state is the cache; the number of the call picks the reading of the clock and the request.
\<close>

definition getSigningKeys ::
  "access_library \<Rightarrow> nat \<Rightarrow> string \<Rightarrow> bool \<Rightarrow> jwks_cache option \<Rightarrow> jsval list option \<times> jwks_cache option" where
  "getSigningKeys lib call teamDomain forceRefresh cache =
     (let now = al_clock lib call
      in case (if forceRefresh then None
               else Option.bind cache (\<lambda>c. if jc_teamDomain c = teamDomain \<and> jc_expiresAt c > now
                                     then Some (jc_keys c) else None)) of
           Some keys \<Rightarrow> (Some keys, cache)
         | None \<Rightarrow>
             (case Option.bind (al_fetch_certs lib call teamDomain) select_signing_keys of
                None \<Rightarrow> (None, cache)
              | Some keys \<Rightarrow> (Some keys, Some \<lparr> jc_teamDomain = teamDomain,
                  jc_expiresAt = now + JWKS_CACHE_MILLISECONDS, jc_keys = keys \<rparr>)))"

definition find_key :: "string \<Rightarrow> jsval list \<Rightarrow> jsval option" where
  "find_key kid keys = find (\<lambda>key. get_prop key ''kid'' = Str kid) keys"

definition find_signing_key ::
  "access_library \<Rightarrow> string \<Rightarrow> string \<Rightarrow> jwks_cache option \<Rightarrow> jsval option \<times> jwks_cache option" where
  \<comment> \<open>the cached keys first, then once more with a refresh\<close>
  "find_signing_key lib teamDomain kid cache =
     (case getSigningKeys lib 0 teamDomain False cache of
        (None, cache') \<Rightarrow> (None, cache')
      | (Some keys, cache') \<Rightarrow>
          (case find_key kid keys of
             Some key \<Rightarrow> (Some key, cache')
           | None \<Rightarrow>
               (case getSigningKeys lib 1 teamDomain True cache' of
                  (None, cache'') \<Rightarrow> (None, cache'')
                | (Some keys', cache'') \<Rightarrow> (find_key kid keys', cache''))))"

section \<open>Claims\<close>

fun audienceMatches :: "jwt_audience \<Rightarrow> string \<Rightarrow> bool" where
  "audienceMatches (Audiences as) expected \<longleftrightarrow> expected \<in> set as"
| "audienceMatches (OneAudience a) expected \<longleftrightarrow> a = expected"

definition control_char :: "char \<Rightarrow> bool" where
  "control_char c \<longleftrightarrow> code c \<le> 31 \<or> code c = 127"

definition normalizeEmail :: "string \<Rightarrow> string option" where
  "normalizeEmail raw =
     (let email = to_lower (trim raw)
      in if length email < 3 \<or> length email > 320 \<or> CHR ''@'' \<notin> set email \<or> list_ex control_char email
         then None else Some email)"

definition claims_valid :: "access_configuration \<Rightarrow> int \<Rightarrow> jwt_payload \<Rightarrow> (int \<times> int) option" where
  \<comment> \<open>the integers \<open>iat\<close> and \<open>exp\<close> of acceptable claims\<close>
  "claims_valid configuration nowSeconds payload =
     (case (num_integer (jp_exp payload), num_integer (jp_iat payload)) of
        (Some expiry, Some iat) \<Rightarrow>
          if jp_iss payload \<noteq> ac_teamDomain configuration \<or>
             \<not> audienceMatches (jp_aud payload) (ac_audience configuration) \<or>
             expiry \<le> nowSeconds - CLOCK_SKEW_SECONDS \<or> iat > nowSeconds + CLOCK_SKEW_SECONDS \<or>
             (case jp_nbf payload of
                None \<Rightarrow> False
              | Some n \<Rightarrow> (case num_integer n of None \<Rightarrow> True | Some nbf \<Rightarrow> nbf > nowSeconds + CLOCK_SKEW_SECONDS)) \<or>
             (jp_type payload \<noteq> None \<and> jp_type payload \<noteq> Some ''app'')
          then None else Some (iat, expiry)
      | _ \<Rightarrow> None)"

definition access_identity_of :: "jwt_payload \<Rightarrow> int \<times> int \<Rightarrow> access_identity option" where
  "access_identity_of payload validity =
     (let subject = trim (jp_sub payload)
      in if subject = [] \<or> length subject > 255 \<or> list_ex control_char subject then None
         else (case normalizeEmail (jp_email payload) of
                 None \<Rightarrow> None
               | Some email \<Rightarrow> Some \<lparr> ai_subject = subject, ai_email = email,
                   ai_issuedAt = fst validity, ai_expiresAt = snd validity \<rparr>))"

text \<open>The three segments as the header, the payload and the signature.\<close>

definition read_token :: "access_library \<Rightarrow> string \<Rightarrow> (string \<times> jwt_header \<times> jwt_payload \<times> byte list) option" where
  "read_token lib token =
     (if token = [] \<or> length token > 16384 then None
      else (case split_on CHR ''.'' token of
              [h, p, s] \<Rightarrow> do {
                header \<leftarrow> Option.bind (decodeJsonSegment lib h) parseHeader;
                payload \<leftarrow> Option.bind (decodeJsonSegment lib p) parsePayload;
                let signature = al_decode_bytes lib s in
                  if signature = [] \<or> length signature > 1024 then None
                  else Some (h @ ''.'' @ p, header, payload, signature)
              }
            | _ \<Rightarrow> None))"

definition verifyCloudflareAccessJwt ::
  "access_library \<Rightarrow> string \<Rightarrow> access_configuration \<Rightarrow> jwks_cache option \<Rightarrow>
   access_identity option \<times> jwks_cache option" where
  "verifyCloudflareAccessJwt lib token configuration cache =
     (case read_token lib token of
        None \<Rightarrow> (None, cache)
      | Some (signingInput, header, payload, signature) \<Rightarrow>
          (case find_signing_key lib (ac_teamDomain configuration) (jh_kid header) cache of
             (None, cache') \<Rightarrow> (None, cache')
           | (Some signingKey, cache') \<Rightarrow>
               (if al_verify lib signingKey signature signingInput \<noteq> Some True then None
                else Option.bind (claims_valid configuration (al_clock lib 2 div 1000) payload)
                       (access_identity_of payload),
                cache')))"

section \<open>What a verified token shows\<close>

definition cache_valid :: "jwks_cache option \<Rightarrow> bool" where
  "cache_valid cache \<longleftrightarrow>
     (case cache of None \<Rightarrow> True
      | Some c \<Rightarrow> list_all signing_key (jc_keys c) \<and> jc_keys c \<noteq> [] \<and> length (jc_keys c) \<le> 20)"

text \<open>The keys that the team domain vouches for: those of a request to it, or of a cache of one that has not expired.\<close>

definition domain_keys :: "access_library \<Rightarrow> string \<Rightarrow> jwks_cache option \<Rightarrow> jsval list \<Rightarrow> bool" where
  "domain_keys lib teamDomain cache keys \<longleftrightarrow>
     (\<exists>c. cache = Some c \<and> jc_teamDomain c = teamDomain \<and> al_clock lib 0 < jc_expiresAt c \<and> keys = jc_keys c) \<or>
     (\<exists>call body. al_fetch_certs lib call teamDomain = Some body \<and> select_signing_keys body = Some keys)"

lemma select_signing_keys_SomeD:
  "select_signing_keys body = Some keys \<Longrightarrow> list_all signing_key keys \<and> keys \<noteq> [] \<and> length keys \<le> 20"
  by (auto simp: select_signing_keys_def Let_def list_all_iff split: option.splits if_split_asm)

lemma getSigningKeys_cases:
  assumes "getSigningKeys lib call teamDomain force cache = (r, cache')"
  obtains c where "\<not> force" "cache = Some c" "jc_teamDomain c = teamDomain" "al_clock lib call < jc_expiresAt c"
      "r = Some (jc_keys c)" "cache' = cache"
  | body keys where "al_fetch_certs lib call teamDomain = Some body" "select_signing_keys body = Some keys"
      "r = Some keys" "cache' = Some \<lparr> jc_teamDomain = teamDomain,
         jc_expiresAt = al_clock lib call + JWKS_CACHE_MILLISECONDS, jc_keys = keys \<rparr>"
  | "r = None" "cache' = cache"
  using assms
  by (auto simp: getSigningKeys_def Let_def bind_eq_Some_conv split: option.splits if_split_asm)

lemma getSigningKeys_trusted:
  assumes "cache_valid cache" "getSigningKeys lib call teamDomain force cache = (r, cache')" "force \<or> call = 0"
  shows "cache_valid cache' \<and>
     (\<forall>keys. r = Some keys \<longrightarrow> domain_keys lib teamDomain cache keys \<and> list_all signing_key keys)"
  using assms(2)
proof (cases rule: getSigningKeys_cases)
  case (1 c)
  then have "call = 0" using assms(3) by simp
  with 1 assms(1) show ?thesis by (auto simp: cache_valid_def domain_keys_def)
next
  case (2 body keys)
  with select_signing_keys_SomeD [OF 2(2)] show ?thesis by (auto simp: cache_valid_def domain_keys_def)
qed (use assms(1) in simp)

lemma find_key_SomeD: "find_key kid keys = Some key \<Longrightarrow> key \<in> set keys \<and> get_prop key ''kid'' = Str kid"
  by (auto simp: find_key_def find_Some_iff)

lemma find_signing_key_trusted:
  assumes "cache_valid cache" "find_signing_key lib teamDomain kid cache = (r, cache')"
  shows "cache_valid cache'"
    "r = Some key \<Longrightarrow> signing_key key \<and> get_prop key ''kid'' = Str kid \<and>
       (\<exists>keys. domain_keys lib teamDomain cache keys \<and> key \<in> set keys)"
proof -
  obtain r1 c1 where one: "getSigningKeys lib 0 teamDomain False cache = (r1, c1)" by force
  obtain r2 c2 where two: "getSigningKeys lib 1 teamDomain True c1 = (r2, c2)" by force
  note t1 = getSigningKeys_trusted [OF assms(1) one]
  have ok1: "cache_valid c1" using t1 by simp
  note t2 = getSigningKeys_trusted [OF ok1 two]
  have ok2: "cache_valid c2" using t2 by simp
  have source2: "r2 = Some keys \<Longrightarrow> domain_keys lib teamDomain cache keys" for keys
    using two by (cases rule: getSigningKeys_cases) (auto simp: domain_keys_def)
  show "cache_valid cache'"
    using assms(2) one two ok1 ok2 by (auto simp: find_signing_key_def split: option.splits)
  show "r = Some key \<Longrightarrow> signing_key key \<and> get_prop key ''kid'' = Str kid \<and>
       (\<exists>keys. domain_keys lib teamDomain cache keys \<and> key \<in> set keys)"
    using assms(2) one two t1 t2 source2
    by (fastforce simp: find_signing_key_def list_all_iff dest: find_key_SomeD split: option.splits)
qed

lemma read_token_SomeD:
  "read_token lib token = Some (input, header, payload, signature) \<Longrightarrow>
     \<exists>h p s claims. split_on CHR ''.'' token = [h, p, s] \<and> input = h @ ''.'' @ p \<and>
       signature = al_decode_bytes lib s \<and> decodeJsonSegment lib p = Some claims \<and> parsePayload claims = Some payload"
  by (auto simp: read_token_def Let_def bind_eq_Some_conv split: list.splits if_split_asm)

lemma claims_valid_SomeD:
  "claims_valid configuration now payload = Some (iat, expiry) \<Longrightarrow>
     jp_iss payload = ac_teamDomain configuration \<and> audienceMatches (jp_aud payload) (ac_audience configuration) \<and>
     num_integer (jp_exp payload) = Some expiry \<and> num_integer (jp_iat payload) = Some iat \<and>
     now - 60 < expiry \<and> iat \<le> now + 60"
  by (auto simp: claims_valid_def CLOCK_SKEW_SECONDS_def split: option.splits if_split_asm)

lemma access_identity_SomeD:
  "access_identity_of payload (iat, expiry) = Some identity \<Longrightarrow>
     ai_subject identity = trim (jp_sub payload) \<and> ai_subject identity \<noteq> [] \<and>
     ai_email identity = to_lower (trim (jp_email payload)) \<and> ai_email identity \<noteq> [] \<and>
     ai_issuedAt identity = iat \<and> ai_expiresAt identity = expiry"
  by (auto simp: access_identity_of_def normalizeEmail_def Let_def split: if_split_asm option.splits)

text \<open>C5.
  An Access identity is only returned for a token of the configured team: its signature verifies over
  its first two segments under an RSA signing key that the team domain itself published (just now, or
  in a cached answer that has not expired), its issuer is the team domain, its audience this
  application, it has not expired and was not issued in the future beyond a minute of clock skew, and
  the identity is the one it names. The cache stays well formed whatever the token is.
\<close>

theorem access_identity_is_authentic:
  assumes "cache_valid cache"
    and "verifyCloudflareAccessJwt lib token configuration cache = (result, cache')"
  shows "cache_valid cache' \<and>
    (\<forall>identity. result = Some identity \<longrightarrow>
      (\<exists>h p s claims payload key keys. split_on CHR ''.'' token = [h, p, s] \<and>
        decodeJsonSegment lib p = Some claims \<and> parsePayload claims = Some payload \<and>
        signing_key key \<and> key \<in> set keys \<and> domain_keys lib (ac_teamDomain configuration) cache keys \<and>
        al_verify lib key (al_decode_bytes lib s) (h @ ''.'' @ p) = Some True \<and>
        jp_iss payload = ac_teamDomain configuration \<and>
        audienceMatches (jp_aud payload) (ac_audience configuration) \<and>
        al_clock lib 2 div 1000 - 60 < ai_expiresAt identity \<and>
        ai_issuedAt identity \<le> al_clock lib 2 div 1000 + 60 \<and>
        ai_subject identity = trim (jp_sub payload) \<and> ai_email identity = to_lower (trim (jp_email payload))))"
proof (intro conjI allI impI)
  show "cache_valid cache'"
    using assms find_signing_key_trusted(1) [OF assms(1)]
    by (fastforce simp: verifyCloudflareAccessJwt_def split: option.splits prod.splits)
  fix identity
  assume "result = Some identity"
  with assms(2) obtain input header payload signature key validity where
      token: "read_token lib token = Some (input, header, payload, signature)"
    and key: "find_signing_key lib (ac_teamDomain configuration) (jh_kid header) cache = (Some key, cache')"
    and ok: "al_verify lib key signature input = Some True"
    and claims: "claims_valid configuration (al_clock lib 2 div 1000) payload = Some validity"
    and identity: "access_identity_of payload validity = Some identity"
    by (auto simp: verifyCloudflareAccessJwt_def bind_eq_Some_conv split: option.splits prod.splits if_split_asm)
  obtain iat expiry where v: "validity = (iat, expiry)" by force
  show "\<exists>h p s claims payload key keys. split_on CHR ''.'' token = [h, p, s] \<and>
        decodeJsonSegment lib p = Some claims \<and> parsePayload claims = Some payload \<and>
        signing_key key \<and> key \<in> set keys \<and> domain_keys lib (ac_teamDomain configuration) cache keys \<and>
        al_verify lib key (al_decode_bytes lib s) (h @ ''.'' @ p) = Some True \<and>
        jp_iss payload = ac_teamDomain configuration \<and>
        audienceMatches (jp_aud payload) (ac_audience configuration) \<and>
        al_clock lib 2 div 1000 - 60 < ai_expiresAt identity \<and>
        ai_issuedAt identity \<le> al_clock lib 2 div 1000 + 60 \<and>
        ai_subject identity = trim (jp_sub payload) \<and> ai_email identity = to_lower (trim (jp_email payload))"
    using read_token_SomeD [OF token] find_signing_key_trusted(2) [OF assms(1) key refl]
      ok claims_valid_SomeD [OF claims [unfolded v]] access_identity_SomeD [OF identity [unfolded v]]
    by metis
qed

definition sample_key :: jsval where
  "sample_key = Obj [(''kty'', Str ''RSA''), (''kid'', Str ''k1''), (''use'', Str ''sig'')]"

definition sample_library :: access_library where
  \<comment> \<open>a key endpoint that publishes one key, and a token \<open>h.p.s\<close> that is valid under it\<close>
  "sample_library = \<lparr> al_decode_json = map_of
       [(''h'', Obj [(''alg'', Str ''RS256''), (''kid'', Str ''k1'')]),
        (''p'', Obj [(''aud'', Arr [Str ''console'']), (''email'', Str '' Admin@ivroom.jp ''), (''exp'', jint 2000),
           (''iat'', jint 900), (''iss'', Str ''https://ivroom.cloudflareaccess.com''), (''sub'', Str ''user-1'')])],
     al_decode_bytes = (\<lambda>s. [7]),
     al_fetch_certs = (\<lambda>_ _. Some (Obj [(''keys'', Arr [sample_key])])),
     al_verify = (\<lambda>key signature input. Some (key = sample_key \<and> signature = [7] \<and> input = ''h.p'')),
     al_clock = (\<lambda>_. 1000000) \<rparr>"

definition sample_access :: access_configuration where
  "sample_access = \<lparr> ac_teamDomain = ''https://ivroom.cloudflareaccess.com'', ac_audience = ''console'' \<rparr>"

lemma sample_token_verifies:
  "\<exists>identity cache. verifyCloudflareAccessJwt sample_library ''h.p.s'' sample_access None = (Some identity, cache) \<and>
     ai_subject identity = ''user-1'' \<and> ai_email identity = ''admin@ivroom.jp''"
  by (simp add: verifyCloudflareAccessJwt_def read_token_def sample_library_def sample_access_def sample_key_def
      decodeJsonSegment_def parseHeader_def parsePayload_def read_audience_def optional_claim_def
      find_signing_key_def getSigningKeys_def select_signing_keys_def keys_readable_def signing_key_def
      find_key_def claims_valid_def access_identity_of_def normalizeEmail_def control_char_def
      CLOCK_SKEW_SECONDS_def js_eval char_of_def bit_0)

lemma access_identity_is_authentic_witness:
  "\<exists>identity cache key. verifyCloudflareAccessJwt sample_library ''h.p.s'' sample_access None = (Some identity, cache) \<and>
     ai_subject identity = ''user-1'' \<and> signing_key key \<and> al_verify sample_library key [7] ''h.p'' = Some True"
proof -
  from sample_token_verifies obtain identity cache where
      v: "verifyCloudflareAccessJwt sample_library ''h.p.s'' sample_access None = (Some identity, cache)"
    and s: "ai_subject identity = ''user-1''" by blast
  have "\<exists>key. signing_key key \<and> al_verify sample_library key [7] ''h.p'' = Some True"
    using access_identity_is_authentic [OF _ v] by (auto simp: cache_valid_def sample_library_def)
  with v s show ?thesis by blast
qed

text \<open>Key rotation does not lock users out: when the cached keys of the domain, still unexpired, do not
  have the key a token names but the domain now publishes it, the lookup finds the published key, and
  the new answer replaces the cached one.
\<close>

theorem rotated_key_is_found:
  assumes "jc_teamDomain c = teamDomain" "al_clock lib 0 < jc_expiresAt c" "find_key kid (jc_keys c) = None"
    and "al_fetch_certs lib 1 teamDomain = Some body" "select_signing_keys body = Some keys"
    and "find_key kid keys = Some key"
  shows "find_signing_key lib teamDomain kid (Some c) =
    (Some key, Some \<lparr> jc_teamDomain = teamDomain,
       jc_expiresAt = al_clock lib 1 + JWKS_CACHE_MILLISECONDS, jc_keys = keys \<rparr>)"
  using assms by (simp add: find_signing_key_def getSigningKeys_def)

lemma rotated_key_is_found_witness:
  "find_signing_key sample_library ''d'' ''k1'' (Some \<lparr> jc_teamDomain = ''d'', jc_expiresAt = 1000001, jc_keys = [] \<rparr>) =
    (Some sample_key, Some \<lparr> jc_teamDomain = ''d'', jc_expiresAt = 1300000, jc_keys = [sample_key] \<rparr>)"
proof -
  have "al_clock sample_library 1 + JWKS_CACHE_MILLISECONDS = 1300000"
    by (simp add: sample_library_def JWKS_CACHE_MILLISECONDS_def)
  moreover have "find_signing_key sample_library ''d'' ''k1'' (Some \<lparr> jc_teamDomain = ''d'', jc_expiresAt = 1000001, jc_keys = [] \<rparr>) =
    (Some sample_key, Some \<lparr> jc_teamDomain = ''d'',
       jc_expiresAt = al_clock sample_library 1 + JWKS_CACHE_MILLISECONDS, jc_keys = [sample_key] \<rparr>)"
    by (rule rotated_key_is_found [where body = "Obj [(''keys'', Arr [sample_key])]"])
      (simp_all add: sample_library_def sample_key_def select_signing_keys_def keys_readable_def signing_key_def
         find_key_def Let_def prop_or_def)
  ultimately show ?thesis by simp
qed

end
