(* ===== verification/ConsoleAuth.thy ===== *)
theory ConsoleAuth
  imports CloudflareAccess
begin

text \<open>
  Who may use the console: the session of a request (\<open>apps/web/lib/console-auth.ts\<close>) and the proxy in
  front of every page (\<open>apps/web/proxy.ts\<close>). Header names are lower case, as \<open>Headers\<close> stores them; a
  header or cookie store is a partial function. The environment, the session RPC and the user table
  are parameters.
\<close>

section \<open>Data\<close>

datatype auth_provider = DiscordProvider | CloudflareProvider | NoProvider

datatype session_status =
  SessionDisabled | Unauthenticated | Unregistered | Inactive | IdentityMismatch | Authenticated | SessionError

record console_session =
  cs_mode :: access_mode
  cs_accessState :: access_state
  cs_discordMode :: discord_auth_mode
  cs_authProvider :: auth_provider
  cs_status :: session_status
  cs_email :: "string option"
  cs_displayName :: "string option"
  cs_role :: "console_role option"
  cs_discordUserId :: "string option"
  cs_discordUsername :: "string option"
  cs_discordAvatarUrl :: "string option"
  cs_matchedDiscordRoleIds :: "string list"
  cs_sessionExpiresAt :: "string option"

record console_user =
  cu_id :: string
  cu_access_subject :: string
  cu_email :: string
  cu_display_name :: "string option"
  cu_role :: console_role
  cu_is_active :: bool

type_synonym reader = "string \<Rightarrow> string option"

definition HEADER_MODE :: string where
  "HEADER_MODE = ''x-ivrm-access-mode''"

definition HEADER_STATE :: string where
  "HEADER_STATE = ''x-ivrm-access-state''"

definition HEADER_SUBJECT :: string where
  "HEADER_SUBJECT = ''x-ivrm-access-subject''"

definition HEADER_EMAIL :: string where
  "HEADER_EMAIL = ''x-ivrm-access-email''"

definition DISCORD_PUBLIC_ROUTE_HEADER :: string where
  "DISCORD_PUBLIC_ROUTE_HEADER = ''x-ivrm-discord-public-route''"

definition DISCORD_SESSION_COOKIE :: string where
  "DISCORD_SESSION_COOKIE = ''__Host-ivrm_console_session''"

definition access_mode_text :: "access_mode \<Rightarrow> string" where
  "access_mode_text m =
     (case m of AccessDisabled \<Rightarrow> ''disabled'' | AccessReport \<Rightarrow> ''report'' | AccessEnforce \<Rightarrow> ''enforce'')"

definition parse_access_mode :: "string \<Rightarrow> access_mode option" where
  "parse_access_mode = map_of
     [(''disabled'', AccessDisabled), (''report'', AccessReport), (''enforce'', AccessEnforce)]"

definition access_state_text :: "access_state \<Rightarrow> string" where
  "access_state_text s =
     (case s of StateDisabled \<Rightarrow> ''disabled'' | StateConfigMissing \<Rightarrow> ''config_missing''
      | StateMissing \<Rightarrow> ''missing'' | StateInvalid \<Rightarrow> ''invalid'' | StateVerified \<Rightarrow> ''verified'')"

definition isAccessState :: "string \<Rightarrow> access_state option" where
  "isAccessState = map_of
     [(''disabled'', StateDisabled), (''config_missing'', StateConfigMissing), (''missing'', StateMissing),
      (''invalid'', StateInvalid), (''verified'', StateVerified)]"

section \<open>Console users\<close>

definition parseConsoleUser :: "jsval \<Rightarrow> console_user option" where
  "parseConsoleUser value =
     (if \<not> is_record value then None
      else do {
        uid \<leftarrow> as_string (get_prop value ''id'');
        subject \<leftarrow> as_string (get_prop value ''access_subject'');
        email \<leftarrow> as_string (get_prop value ''email'');
        displayName \<leftarrow> nullable_string (get_prop value ''display_name'');
        role \<leftarrow> Option.bind (as_string (get_prop value ''role'')) isConsoleRole;
        active \<leftarrow> as_bool (get_prop value ''is_active'');
        Some \<lparr> cu_id = uid, cu_access_subject = subject, cu_email = email, cu_display_name = displayName,
          cu_role = role, cu_is_active = active \<rparr>
      })"

definition findConsoleUser :: "(string \<Rightarrow> jsval option) \<Rightarrow> string \<Rightarrow> console_user option option" where
  \<comment> \<open>the argument answers a path of the database, \<open>None\<close> for a failed request; the outer \<open>None\<close> is an exception\<close>
  "findConsoleUser fetch subject =
     (case fetch (''/rest/v1/console_users'' @
            ''?select=id,access_subject,email,display_name,role,is_active'' @
            ''&access_subject=eq.'' @ encodeURIComponent subject @ ''&limit=1'') of
        Some (Arr []) \<Rightarrow> Some None
      | Some (Arr [row]) \<Rightarrow> map_option Some (parseConsoleUser row)
      | _ \<Rightarrow> None)"

section \<open>Sessions\<close>

definition safeDiscordMode :: "environment \<Rightarrow> discord_auth_mode" where
  "safeDiscordMode env = (case getDiscordAuthMode env of None \<Rightarrow> DiscordEnforce | Some m \<Rightarrow> m)"

definition plain_session ::
  "access_mode \<Rightarrow> access_state \<Rightarrow> discord_auth_mode \<Rightarrow> auth_provider \<Rightarrow> session_status \<Rightarrow>
   string option \<Rightarrow> string option \<Rightarrow> console_role option \<Rightarrow> console_session" where
  \<comment> \<open>a session with \<open>emptyDiscordFields()\<close>\<close>
  "plain_session mode accessState discordMode provider status email displayName role =
     \<lparr> cs_mode = mode, cs_accessState = accessState, cs_discordMode = discordMode,
       cs_authProvider = provider, cs_status = status, cs_email = email, cs_displayName = displayName,
       cs_role = role, cs_discordUserId = None, cs_discordUsername = None, cs_discordAvatarUrl = None,
       cs_matchedDiscordRoleIds = [], cs_sessionExpiresAt = None \<rparr>"

definition user_session ::
  "access_mode \<Rightarrow> access_state \<Rightarrow> discord_auth_mode \<Rightarrow> string \<Rightarrow> string \<Rightarrow>
   console_user option option \<Rightarrow> console_session" where
  "user_session mode accessState discordMode subject email found =
     (let session = plain_session mode accessState discordMode CloudflareProvider
      in case found of
           None \<Rightarrow> session SessionError (Some email) None None
         | Some None \<Rightarrow> session Unregistered (Some email) None None
         | Some (Some user) \<Rightarrow>
             if cu_email user \<noteq> email \<or> cu_access_subject user \<noteq> subject
             then session IdentityMismatch (Some email) None None
             else if \<not> cu_is_active user then session Inactive (Some email) (cu_display_name user) None
             else session Authenticated (Some email) (cu_display_name user) (Some (cu_role user)))"

definition getConsoleSessionFromHeaders ::
  "environment \<Rightarrow> (string \<Rightarrow> jsval option) \<Rightarrow> reader \<Rightarrow> console_session" where
  "getConsoleSessionFromHeaders env fetch header =
     (let discordMode = safeDiscordMode env
      in case (case Option.bind (header HEADER_MODE) parse_access_mode of
                 Some m \<Rightarrow> Some m | None \<Rightarrow> getAccessMode env) of
           None \<Rightarrow> plain_session AccessEnforce StateConfigMissing discordMode NoProvider SessionError None None None
         | Some mode \<Rightarrow>
             (let accessState = (case Option.bind (header HEADER_STATE) isAccessState of
                    Some s \<Rightarrow> s
                  | None \<Rightarrow> if mode = AccessDisabled then StateDisabled else StateMissing)
              in if mode = AccessDisabled
                 then plain_session mode accessState discordMode NoProvider SessionDisabled None None None
                 else (case (nonempty (map_option trim (header HEADER_SUBJECT)),
                             nonempty (map_option (to_lower \<circ> trim) (header HEADER_EMAIL))) of
                         (Some subject, Some email) \<Rightarrow>
                           if accessState \<noteq> StateVerified
                           then plain_session mode accessState discordMode NoProvider Unauthenticated None None None
                           else user_session mode accessState discordMode subject email
                                  (findConsoleUser fetch subject)
                       | _ \<Rightarrow> plain_session mode accessState discordMode NoProvider Unauthenticated None None None)))"

definition discord_session :: "discord_auth_mode \<Rightarrow> discord_session_row \<Rightarrow> console_session" where
  "discord_session discordMode row =
     \<lparr> cs_mode = AccessDisabled, cs_accessState = StateDisabled, cs_discordMode = discordMode,
       cs_authProvider = DiscordProvider, cs_status = Authenticated, cs_email = None,
       cs_displayName = (case nonempty (ds_discordGlobalName row) of
          Some n \<Rightarrow> Some n | None \<Rightarrow> Some (ds_discordUsername row)),
       cs_role = Some (ds_consoleRole row), cs_discordUserId = Some (ds_discordUserId row),
       cs_discordUsername = Some (ds_discordUsername row),
       cs_discordAvatarUrl = discordAvatarUrl (Some (ds_discordUserId row)) (ds_discordAvatarHash row),
       cs_matchedDiscordRoleIds = ds_matchedRoleIds row, cs_sessionExpiresAt = Some (ds_expiresAt row) \<rparr>"

definition getConsoleSession ::
  "environment \<Rightarrow> session_rpc \<Rightarrow> (string \<Rightarrow> string) \<Rightarrow> (string \<Rightarrow> jsval option) \<Rightarrow> reader \<Rightarrow> reader \<Rightarrow> console_session" where
  "getConsoleSession env rpc hash fetch header cookie =
     (let discordMode = safeDiscordMode env;
          fallback = (if discordMode = DiscordEnforce
            then plain_session AccessDisabled StateDisabled discordMode NoProvider Unauthenticated None None None
            else getConsoleSessionFromHeaders env fetch header)
      in if discordMode = DiscordDisabled then getConsoleSessionFromHeaders env fetch header
         else (case nonempty (cookie DISCORD_SESSION_COOKIE) of
                 None \<Rightarrow> fallback
               | Some sessionToken \<Rightarrow>
                   (case resolveDiscordConsoleSession rpc hash sessionToken of
                      Some (Some row) \<Rightarrow> discord_session discordMode row
                    | Some None \<Rightarrow> fallback
                    | None \<Rightarrow>
                        if discordMode = DiscordEnforce
                        then plain_session AccessDisabled StateDisabled discordMode DiscordProvider SessionError None None None
                        else fallback)))"

definition isPublicConsoleRoute :: "reader \<Rightarrow> bool" where
  "isPublicConsoleRoute header \<longleftrightarrow> header DISCORD_PUBLIC_ROUTE_HEADER = Some ''1''"

definition hasConsoleRole :: "console_session \<Rightarrow> console_role \<Rightarrow> bool" where
  "hasConsoleRole session minimumRole \<longleftrightarrow>
     cs_status session = Authenticated \<and>
     (case cs_role session of None \<Rightarrow> False | Some r \<Rightarrow> role_rank r \<ge> role_rank minimumRole)"

definition canReadConsoleDuringRollout :: "console_session \<Rightarrow> bool" where
  "canReadConsoleDuringRollout session \<longleftrightarrow>
     (if cs_discordMode session = DiscordEnforce then hasConsoleRole session Viewer
      else if cs_mode session \<noteq> AccessEnforce then True
      else hasConsoleRole session Viewer)"

definition canPerformConsoleAction :: "console_session \<Rightarrow> console_role \<Rightarrow> bool" where
  "canPerformConsoleAction session minimumRole \<longleftrightarrow> hasConsoleRole session minimumRole"

section \<open>The proxy\<close>

record web_request =
  wr_pathname :: string
  wr_search :: string
  wr_header :: reader
  wr_cookie :: reader

datatype proxy_error = AccessDenied | AccessNotConfigured

datatype proxy_result =
    Forward reader  \<comment> \<open>the page runs with these request headers\<close>
  | Refused nat proxy_error bool  \<comment> \<open>status; as JSON, or as a page\<close>
  | DiscordRequiredJson
  | RedirectToLogin string  \<comment> \<open>the return path\<close>

definition PUBLIC_DISCORD_PATHS :: "string list" where
  "PUBLIC_DISCORD_PATHS =
     [''/login'', ''/api/auth/discord/start'', ''/api/auth/discord/callback'', ''/api/auth/logout'']"

definition isDiscordPublicRoute :: "string \<Rightarrow> bool" where
  "isDiscordPublicRoute pathname \<longleftrightarrow> pathname \<in> set PUBLIC_DISCORD_PATHS"

definition cleanRequestHeaders :: "reader \<Rightarrow> reader" where
  "cleanRequestHeaders header =
     header(HEADER_MODE := None, HEADER_STATE := None, HEADER_SUBJECT := None, HEADER_EMAIL := None,
       DISCORD_PUBLIC_ROUTE_HEADER := None)"

definition continueRequest :: "reader \<Rightarrow> access_mode \<Rightarrow> access_state \<Rightarrow> proxy_result" where
  "continueRequest header mode state =
     Forward (header(HEADER_MODE := Some (access_mode_text mode), HEADER_STATE := Some (access_state_text state)))"

definition accessError :: "web_request \<Rightarrow> nat \<Rightarrow> proxy_error \<Rightarrow> proxy_result" where
  "accessError request status err = Refused status err (starts_with ''/api/'' (wr_pathname request))"

definition discordAuthenticationRequired :: "web_request \<Rightarrow> proxy_result" where
  "discordAuthenticationRequired request =
     (if starts_with ''/api/'' (wr_pathname request) then DiscordRequiredJson
      else RedirectToLogin (wr_pathname request @ wr_search request))"

definition access_request ::
  "access_library \<Rightarrow> access_mode \<Rightarrow> access_configuration \<Rightarrow> web_request \<Rightarrow> reader \<Rightarrow> jwks_cache option \<Rightarrow>
   proxy_result \<times> jwks_cache option" where
  \<comment> \<open>the tail of \<open>proxy\<close>, once Access is configured\<close>
  "access_request lib mode configuration request header cache =
     (case nonempty (map_option trim (wr_header request ''cf-access-jwt-assertion'')) of
        None \<Rightarrow>
          (if mode = AccessEnforce then accessError request 403 AccessDenied
           else continueRequest header mode StateMissing, cache)
      | Some token \<Rightarrow>
          (case verifyCloudflareAccessJwt lib token configuration cache of
             (Some identity, cache') \<Rightarrow>
               (continueRequest (header(HEADER_SUBJECT := Some (ai_subject identity),
                  HEADER_EMAIL := Some (ai_email identity))) mode StateVerified, cache')
           | (None, cache') \<Rightarrow>
               (if mode = AccessEnforce then accessError request 403 AccessDenied
                else continueRequest header mode StateInvalid, cache')))"

definition proxy ::
  "environment \<Rightarrow> (string \<Rightarrow> access_url option) \<Rightarrow> access_library \<Rightarrow> web_request \<Rightarrow> jwks_cache option \<Rightarrow>
   proxy_result \<times> jwks_cache option" where
  "proxy env parse_url lib request cache =
     (let publicRoute = isDiscordPublicRoute (wr_pathname request);
          header = (if publicRoute
            then (cleanRequestHeaders (wr_header request))(DISCORD_PUBLIC_ROUTE_HEADER := Some ''1'')
            else cleanRequestHeaders (wr_header request))
      in case getDiscordAuthMode env of
           None \<Rightarrow> (if publicRoute then continueRequest header AccessDisabled StateDisabled
                   else accessError request 503 AccessNotConfigured, cache)
         | Some discordMode \<Rightarrow>
             if discordMode \<noteq> DiscordDisabled \<and> publicRoute
             then (continueRequest header AccessDisabled StateDisabled, cache)
             else if discordMode = DiscordEnforce
             then (if nonempty (wr_cookie request DISCORD_SESSION_COOKIE) \<noteq> None
                   then continueRequest header AccessDisabled StateDisabled
                   else discordAuthenticationRequired request, cache)
             else (case getAccessMode env of
                     None \<Rightarrow> (accessError request 503 AccessNotConfigured, cache)
                   | Some mode \<Rightarrow>
                       if mode = AccessDisabled then (continueRequest header mode StateDisabled, cache)
                       else (case getAccessConfiguration env parse_url of
                               Some (Some configuration) \<Rightarrow>
                                 access_request lib mode configuration request header cache
                             | _ \<Rightarrow>
                                 (if mode = AccessEnforce then accessError request 503 AccessNotConfigured
                                  else continueRequest header mode StateConfigMissing, cache))))"

section \<open>Who the console lets in\<close>

lemma header_names [simp]:
  "HEADER_MODE \<noteq> HEADER_STATE" "HEADER_MODE \<noteq> HEADER_SUBJECT" "HEADER_MODE \<noteq> HEADER_EMAIL"
  "HEADER_STATE \<noteq> HEADER_MODE" "HEADER_STATE \<noteq> HEADER_SUBJECT" "HEADER_STATE \<noteq> HEADER_EMAIL"
  "HEADER_SUBJECT \<noteq> HEADER_MODE" "HEADER_SUBJECT \<noteq> HEADER_STATE" "HEADER_SUBJECT \<noteq> HEADER_EMAIL"
  "HEADER_EMAIL \<noteq> HEADER_MODE" "HEADER_EMAIL \<noteq> HEADER_STATE" "HEADER_EMAIL \<noteq> HEADER_SUBJECT"
  "DISCORD_PUBLIC_ROUTE_HEADER \<noteq> HEADER_SUBJECT" "DISCORD_PUBLIC_ROUTE_HEADER \<noteq> HEADER_EMAIL"
  "HEADER_SUBJECT \<noteq> DISCORD_PUBLIC_ROUTE_HEADER" "HEADER_EMAIL \<noteq> DISCORD_PUBLIC_ROUTE_HEADER"
  by (simp_all add: HEADER_MODE_def HEADER_STATE_def HEADER_SUBJECT_def HEADER_EMAIL_def DISCORD_PUBLIC_ROUTE_HEADER_def)

lemma mode_round_trip [simp]: "parse_access_mode (access_mode_text m) = Some m"
  by (cases m) (simp_all add: parse_access_mode_def access_mode_text_def)

lemma state_round_trip [simp]: "isAccessState (access_state_text s) = Some s"
  by (cases s) (simp_all add: isAccessState_def access_state_text_def)

lemma console_role_le: "(a :: console_role) \<le> b \<longleftrightarrow> role_rank a \<le> role_rank b"
  by (simp add: less_eq_console_role_def)

lemma no_role [simp]:
  "\<not> hasConsoleRole (plain_session m s d p st e n None) r"
  "st \<noteq> Authenticated \<Longrightarrow> \<not> hasConsoleRole (plain_session m s d p st e n q) r"
  by (simp_all add: hasConsoleRole_def plain_session_def)

lemma role_of_discord_session: "hasConsoleRole (discord_session d row) r \<longleftrightarrow> r \<le> ds_consoleRole row"
  by (simp add: hasConsoleRole_def discord_session_def console_role_le)

lemma role_of_user_session:
  "hasConsoleRole (user_session m s d subject email found) r \<longleftrightarrow>
     (\<exists>user. found = Some (Some user) \<and> cu_email user = email \<and> cu_access_subject user = subject \<and>
        cu_is_active user \<and> r \<le> cu_role user)"
  by (auto simp: user_session_def Let_def hasConsoleRole_def plain_session_def console_role_le split: option.splits)

lemma role_from_headers:
  assumes "continueRequest h mode state = Forward header"
  shows "hasConsoleRole (getConsoleSessionFromHeaders env fetch header) r \<longleftrightarrow>
     mode \<noteq> AccessDisabled \<and> state = StateVerified \<and>
     (\<exists>subject email user. nonempty (map_option trim (h HEADER_SUBJECT)) = Some subject \<and>
        nonempty (map_option (to_lower \<circ> trim) (h HEADER_EMAIL)) = Some email \<and>
        findConsoleUser fetch subject = Some (Some user) \<and> cu_email user = email \<and>
        cu_access_subject user = subject \<and> cu_is_active user \<and> r \<le> cu_role user)"
proof -
  have "header = h(HEADER_MODE := Some (access_mode_text mode), HEADER_STATE := Some (access_state_text state))"
    using assms by (simp add: continueRequest_def)
  then show ?thesis
    by (auto simp: getConsoleSessionFromHeaders_def Let_def role_of_user_session split: option.splits)
qed

text \<open>Trimming and lower casing are idempotent, so what the proxy writes is what the session reads.\<close>

lemma trim_idem [simp]: "trim (trim s) = trim s"
proof -
  let ?d = "dropWhile is_space"
  have idem: "?d xs = xs" if "xs = [] \<or> \<not> is_space (hd xs)" for xs using that by (cases xs) auto
  have "?d (trim s) = trim s"
  proof (rule idem, cases "trim s")
    case (Cons c cs)
    then have "hd (trim s) = hd (?d s)"
      unfolding trim_def
      by (metis hd_append2 hd_rev last_rev rev_rev_ident rev_is_Nil_conv takeWhile_dropWhile_id rev_append list.discI)
    moreover have "?d s \<noteq> []" using Cons unfolding trim_def
      by (metis dropWhile.simps(1) list.discI rev.simps(1))
    ultimately show "trim s = [] \<or> \<not> is_space (hd (trim s))" using hd_dropWhile by metis
  qed simp
  moreover have "?d (rev (trim s)) = rev (trim s)" by (simp add: trim_def)
  ultimately show ?thesis by (simp add: trim_def)
qed

lemma lower_char_idem [simp]: "lower_char (lower_char c) = lower_char c"
proof -
  have c: "code (char_of k) = k mod 256" for k by (simp add: code_def)
  show ?thesis by (auto simp: lower_char_def c)
qed

lemma lower_char_space [simp]: "is_space (lower_char c) = is_space c"
proof -
  have c: "code (char_of k) = k mod 256" for k by (simp add: code_def)
  show ?thesis by (auto simp: lower_char_def is_space_def c)
qed

lemma to_lower_idem: "to_lower (trim (to_lower (trim s))) = to_lower (trim s)"
proof -
  have d: "dropWhile is_space (map lower_char xs) = map lower_char (dropWhile is_space xs)" for xs
    by (simp add: dropWhile_map comp_def)
  have "trim (map lower_char xs) = map lower_char (trim xs)" for xs
    by (simp add: trim_def d rev_map)
  then show ?thesis by (simp add: to_lower_def)
qed

lemma verified_identity_normal:
  assumes "verifyCloudflareAccessJwt lib token configuration cache = (Some identity, cache')"
  shows "nonempty (Some (trim (ai_subject identity))) = Some (ai_subject identity)"
    "nonempty (Some (to_lower (trim (ai_email identity)))) = Some (ai_email identity)"
proof -
  from assms obtain payload iat expiry where "access_identity_of payload (iat, expiry) = Some identity"
    by (auto simp: verifyCloudflareAccessJwt_def bind_eq_Some_conv split: option.splits prod.splits if_split_asm)
  from access_identity_SomeD [OF this]
  show "nonempty (Some (trim (ai_subject identity))) = Some (ai_subject identity)"
    "nonempty (Some (to_lower (trim (ai_email identity)))) = Some (ai_email identity)"
    by (auto simp: nonempty_def to_lower_idem)
qed

lemma not_forward [simp]:
  "accessError request n e \<noteq> Forward h" "discordAuthenticationRequired request \<noteq> Forward h"
  by (simp_all add: accessError_def discordAuthenticationRequired_def)

text \<open>
  Every way in which the proxy lets a request through: without a verdict, so that no identity is
  among the headers, or with the identity of a verified token.
\<close>

lemma proxy_forwards:
  assumes "proxy env parse_url lib request cache = (Forward header, cache')"
  obtains h mode state where "continueRequest h mode state = Forward header" "mode = AccessDisabled \<or> state \<noteq> StateVerified"
  | h mode configuration token identity where
      "continueRequest h mode StateVerified = Forward header"
      "h HEADER_SUBJECT = Some (ai_subject identity)" "h HEADER_EMAIL = Some (ai_email identity)"
      "getAccessConfiguration env parse_url = Some (Some configuration)"
      "nonempty (map_option trim (wr_header request ''cf-access-jwt-assertion'')) = Some token"
      "verifyCloudflareAccessJwt lib token configuration cache = (Some identity, cache')"
proof -
  note plain = that(1) and verified = that(2)
  have tail: thesis
    if acc: "access_request lib mode configuration request h cache = (Forward header, cache')"
      and conf: "getAccessConfiguration env parse_url = Some (Some configuration)" for mode configuration h
  proof (cases "nonempty (map_option trim (wr_header request ''cf-access-jwt-assertion''))")
    case None
    with acc have "continueRequest h mode StateMissing = Forward header"
      by (auto simp: access_request_def split: if_split_asm)
    then show thesis by (rule plain) simp
  next
    case (Some token)
    obtain r c where v: "verifyCloudflareAccessJwt lib token configuration cache = (r, c)" by force
    show thesis
    proof (cases r)
      case None
      with acc Some v have "continueRequest h mode StateInvalid = Forward header"
        by (auto simp: access_request_def split: if_split_asm)
      then show thesis by (rule plain) simp
    next
      case (Some identity)
      let ?h = "h(HEADER_SUBJECT := Some (ai_subject identity), HEADER_EMAIL := Some (ai_email identity))"
      from Some acc v \<open>nonempty _ = Some token\<close>
      have "continueRequest ?h mode StateVerified = Forward header" "c = cache'"
        by (simp_all add: access_request_def)
      then show thesis using conf \<open>nonempty _ = Some token\<close> v Some
        by (intro verified [of ?h mode identity configuration token]) auto
    qed
  qed
  show thesis
    using assms plain tail
    by (auto simp: proxy_def Let_def split: option.splits if_split_asm)
qed

text \<open>C1.
  No console right without an identity. If a request passes the proxy and the page then finds that the
  session has a role, whatever headers the client sent, then either Discord sign-in is on and the
  session cookie resolves to a live Discord session of at least that role, or Cloudflare Access
  verified the token of this very request and the user it names is registered under the same subject
  and address, active, and of at least that role.
\<close>

theorem console_role_needs_identity:
  assumes "proxy env parse_url lib request cache = (Forward header, cache')"
    and "hasConsoleRole (getConsoleSession env rpc hash fetch header (wr_cookie request)) role"
  shows "(\<exists>token row. safeDiscordMode env \<noteq> DiscordDisabled \<and>
       wr_cookie request DISCORD_SESSION_COOKIE = Some token \<and>
       resolveDiscordConsoleSession rpc hash token = Some (Some row) \<and> role \<le> ds_consoleRole row) \<or>
     (\<exists>token configuration identity user.
       getAccessConfiguration env parse_url = Some (Some configuration) \<and>
       nonempty (map_option trim (wr_header request ''cf-access-jwt-assertion'')) = Some token \<and>
       verifyCloudflareAccessJwt lib token configuration cache = (Some identity, cache') \<and>
       findConsoleUser fetch (ai_subject identity) = Some (Some user) \<and>
       cu_access_subject user = ai_subject identity \<and> cu_email user = ai_email identity \<and>
       cu_is_active user \<and> role \<le> cu_role user)"
proof (cases "hasConsoleRole (getConsoleSessionFromHeaders env fetch header) role")
  case True
  from assms(1) show ?thesis
  proof (cases rule: proxy_forwards)
    case (1 h mode state)
    with role_from_headers [OF 1(1)] True show ?thesis by blast
  next
    case (2 h mode configuration token identity)
    from True [unfolded role_from_headers [OF 2(1)]] 2(2,3) verified_identity_normal [OF 2(6)]
    obtain user where "findConsoleUser fetch (ai_subject identity) = Some (Some user)"
        "cu_email user = ai_email identity" "cu_access_subject user = ai_subject identity"
        "cu_is_active user" "role \<le> cu_role user" by auto
    with 2 show ?thesis by blast
  qed
next
  case False
  with assms(2) show ?thesis
    by (auto simp: getConsoleSession_def Let_def role_of_discord_session
        dest: nonempty_SomeD split: option.splits if_split_asm)
qed

text \<open>C25.
  Under enforced Discord sign-in, which is also what an unreadable setting falls back to, the console
  can be read exactly by the holders of a session cookie that resolves to a live session; Access
  headers do not help, and neither does a failing session service.
\<close>

theorem enforced_discord_sign_in:
  assumes "getDiscordAuthMode env = Some DiscordEnforce \<or> getDiscordAuthMode env = None"
  shows "canReadConsoleDuringRollout (getConsoleSession env rpc hash fetch header cookie) \<longleftrightarrow>
    (\<exists>token row. cookie DISCORD_SESSION_COOKIE = Some token \<and>
       resolveDiscordConsoleSession rpc hash token = Some (Some row))"
proof -
  have mode: "safeDiscordMode env = DiscordEnforce" using assms by (auto simp: safeDiscordMode_def)
  have empty: "resolveDiscordConsoleSession rpc hash [] = Some None"
    by (simp add: resolveDiscordConsoleSession_def token_length_ok_def)
  have viewer: "Viewer \<le> r" for r by (cases r) (simp_all add: console_role_le role_rank_def)
  have session_mode: "cs_discordMode (plain_session m s d p st e n q) = d" "cs_discordMode (discord_session d row) = d"
    for m s d p st e n q row by (simp_all add: plain_session_def discord_session_def)
  show ?thesis
    by (auto simp: getConsoleSession_def mode Let_def nonempty_def empty canReadConsoleDuringRollout_def
        session_mode role_of_discord_session viewer split: option.split)
qed

definition sample_environment :: environment where
  "sample_environment = map_of
     [(''IVRM_ACCESS_MODE'', ''enforce''), (''CF_ACCESS_TEAM_DOMAIN'', ''https://ivroom.cloudflareaccess.com''),
      (''CF_ACCESS_AUD'', ''console'')]"

definition sample_url :: "string \<Rightarrow> access_url option" where
  "sample_url s = Some \<lparr> ru_protocol = ''https:'', ru_hostname = ''ivroom.cloudflareaccess.com'',
     ru_username = [], ru_password = [], ru_hash = [], ru_text = s, xu_pathname = ''/'', xu_search = [] \<rparr>"

definition sample_request :: web_request where
  "sample_request = \<lparr> wr_pathname = ''/servers'', wr_search = [],
     wr_header = map_of [(''cf-access-jwt-assertion'', ''h.p.s'')], wr_cookie = (\<lambda>_. None) \<rparr>"

definition sample_users :: "string \<Rightarrow> jsval option" where
  "sample_users path = Some (Arr [Obj [(''id'', Str ''1''), (''access_subject'', Str ''user-1''),
     (''email'', Str ''admin@ivroom.jp''), (''display_name'', Null), (''role'', Str ''operator''),
     (''is_active'', Bool True)]])"

lemma sample_user_found:
  "\<exists>user. findConsoleUser sample_users s = Some (Some user) \<and> cu_email user = ''admin@ivroom.jp'' \<and>
     cu_access_subject user = ''user-1'' \<and> cu_is_active user \<and> cu_role user = Operator"
  by (simp add: findConsoleUser_def sample_users_def parseConsoleUser_def prop_or_def nullable_string_def
      nullable_def isConsoleRole_def)

lemma sample_configuration:
  "getDiscordAuthMode sample_environment = Some DiscordDisabled"
  "getAccessMode sample_environment = Some AccessEnforce"
  "getAccessConfiguration sample_environment sample_url = Some (Some sample_access)"
  by (simp_all add: sample_environment_def sample_url_def sample_access_def getDiscordAuthMode_def getAccessMode_def
      getAccessConfiguration_def normalizeTeamDomain_def js_eval)

lemma console_role_needs_identity_witness:
  "\<exists>identity user. fst (verifyCloudflareAccessJwt sample_library ''h.p.s'' sample_access None) = Some identity \<and>
     findConsoleUser sample_users (ai_subject identity) = Some (Some user) \<and> Viewer \<le> cu_role user"
proof -
  obtain identity cache where
      v: "verifyCloudflareAccessJwt sample_library ''h.p.s'' sample_access None = (Some identity, cache)"
    and s: "ai_subject identity = ''user-1''" "ai_email identity = ''admin@ivroom.jp''"
    using sample_token_verifies by blast
  let ?h = "(cleanRequestHeaders (wr_header sample_request))
     (HEADER_SUBJECT := Some (ai_subject identity), HEADER_EMAIL := Some (ai_email identity))"
  obtain header where h: "continueRequest ?h AccessEnforce StateVerified = Forward header"
    by (simp add: continueRequest_def)
  have token: "nonempty (map_option trim (wr_header sample_request ''cf-access-jwt-assertion'')) = Some ''h.p.s''"
    by (simp add: sample_request_def js_eval)
  have p: "proxy sample_environment sample_url sample_library sample_request None = (Forward header, cache)"
    using h token v
    by (simp add: proxy_def sample_configuration access_request_def)
      (simp add: sample_request_def isDiscordPublicRoute_def PUBLIC_DISCORD_PATHS_def)
  have "hasConsoleRole (getConsoleSessionFromHeaders sample_environment sample_users header) Viewer"
    unfolding role_from_headers [OF h] using sample_user_found [of "''user-1''"] verified_identity_normal [OF v]
    by (auto simp: s console_role_le role_rank_def)
  then have r: "hasConsoleRole (getConsoleSession sample_environment (\<lambda>_ _. None) id sample_users header
      (wr_cookie sample_request)) Viewer"
    by (simp add: getConsoleSession_def safeDiscordMode_def sample_configuration)
  from console_role_needs_identity [OF p r] show ?thesis
    by (auto simp: sample_configuration safeDiscordMode_def token)
qed

definition enforced_environment :: environment where
  "enforced_environment = map_of [(''IVRM_DISCORD_AUTH_MODE'', ''enforce'')]"

definition sample_session_rpc :: session_rpc where
  "sample_session_rpc name args = Some (Arr [Obj [(''session_id'', Str ''s''), (''discord_user_id'', Str ''1''),
     (''discord_username'', Str ''u''), (''discord_global_name'', Null), (''discord_avatar_hash'', Null),
     (''guild_id'', Str ''g''), (''matched_role_ids'', Arr []), (''console_role'', Str ''viewer''),
     (''created_at'', Str ''a''), (''expires_at'', Str ''b'')]])"

lemma enforced_discord_sign_in_witness:
  "canReadConsoleDuringRollout (getConsoleSession enforced_environment sample_session_rpc id sample_users
     (\<lambda>_. None) (map_of [(DISCORD_SESSION_COOKIE, replicate 40 CHR ''t'')]))"
proof -
  have mode: "getDiscordAuthMode enforced_environment = Some DiscordEnforce \<or> getDiscordAuthMode enforced_environment = None"
    by (simp add: enforced_environment_def getDiscordAuthMode_def js_eval)
  have "\<exists>row. resolveDiscordConsoleSession sample_session_rpc id (replicate 40 CHR ''t'') = Some (Some row)"
    by (simp add: resolveDiscordConsoleSession_def token_length_ok_def sample_session_rpc_def parseSessionRow_def
        prop_or_def nullable_string_def nullable_def isConsoleRole_def)
  then show ?thesis unfolding enforced_discord_sign_in [OF mode] by auto
qed

end
