(* ===== verification/ConsoleUi.thy ===== *)
theory ConsoleUi
  imports MetricHistory ConsoleAuth
begin

text \<open>
  What the pages of the console share: tones (\<open>components/console-ui.tsx\<close>), the reading of a query parameter, the
  texts of amounts, the navigation (\<open>app/console-navigation.ts\<close>, \<open>app/navigation-links.tsx\<close>,
  \<open>app/console-current-context.tsx\<close>, \<open>app/console-page-landmark.tsx\<close>), the decision of the root layout
  (\<open>app/layout.tsx\<close>) and the refresh timer (\<open>components/auto-refresh.tsx\<close>). Labels and descriptions in
  Japanese are left out; an age is a value of \<open>elapsed\<close>.
\<close>

section \<open>Tones and query parameters\<close>

datatype console_tone = NeutralUi | SuccessUi | WarningUi | DangerUi | InfoUi | MaintenanceUi

datatype query_param = Absent | One string | Many "string list"

definition firstValue :: "query_param \<Rightarrow> string option" where
  \<comment> \<open>\<open>Array.isArray(value) ? value[0] || null : value || null\<close>\<close>
  "firstValue v = (case v of Absent \<Rightarrow> None | One s \<Rightarrow> nonempty (Some s) | Many l \<Rightarrow> nonempty (js_first l))"

section \<open>Texts of amounts\<close>

definition fixed_abs :: "nat \<Rightarrow> rat \<Rightarrow> string" where
  "fixed_abs d q =
     (let n = nat \<lfloor>q * 10 ^ d + 1 / 2\<rfloor>
      in if d = 0 then nat_text n else nat_text (n div 10 ^ d) @ ''.'' @ dec d (n mod 10 ^ d))"

definition toFixed :: "nat \<Rightarrow> rat \<Rightarrow> string" where
  \<comment> \<open>\<open>q.toFixed(d)\<close> below \<open>10^21\<close>\<close>
  "toFixed d q = (if q < 0 then ''-'' @ fixed_abs d (- q) else fixed_abs d q)"

fun scaled_by :: "rat \<Rightarrow> rat \<Rightarrow> string list \<Rightarrow> rat \<times> string" where
  \<comment> \<open>divide while the amount reaches the step and a larger unit is left\<close>
  "scaled_by step v [] = (v, [])"
| "scaled_by step v [u] = (v, u)"
| "scaled_by step v (u # w # us) = (if v \<ge> step then scaled_by step (v / step) (w # us) else (v, u))"

definition formatBytes :: "rat option \<Rightarrow> string option" where
  \<comment> \<open>\<open>None\<close> where the page says that the amount is not known\<close>
  "formatBytes bytes =
     map_option (\<lambda>b.
       case scaled_by 1024 b [''B'', ''KiB'', ''MiB'', ''GiB'', ''TiB'', ''PiB''] of
         (v, u) \<Rightarrow> toFixed (if v \<ge> 10 \<or> u = ''B'' then 1 else 2) v @ '' '' @ u) bytes"

datatype elapsed = TimeUnknown | SecondsAgo int | MinutesAgo int | HoursAgo int | DaysAgo int

definition elapsed_of :: "int \<Rightarrow> elapsed" where
  "elapsed_of s =
     (if s < 60 then SecondsAgo s else if s < 3600 then MinutesAgo (s div 60)
      else if s < 86400 then HoursAgo (s div 3600) else DaysAgo (s div 86400))"

definition formatRelativeTime :: "string \<Rightarrow> string \<Rightarrow> elapsed" where
  "formatRelativeTime timestamp reference =
     (case (Date_parse timestamp, Date_parse reference) of
        (Some target, Some now) \<Rightarrow> elapsed_of (max 0 ((now - target) div 1000))
      | _ \<Rightarrow> TimeUnknown)"

definition used_percent :: "rat option \<Rightarrow> rat option \<Rightarrow> rat option" where
  "used_percent whole free =
     (case (whole, free) of
        (Some t, Some a) \<Rightarrow> if t \<le> 0 then None else Some (min 100 (max 0 ((t - a) / t * 100)))
      | _ \<Rightarrow> None)"

lemma used_percent_bounds: "used_percent whole free = Some p \<Longrightarrow> 0 \<le> p \<and> p \<le> 100"
  by (auto simp: used_percent_def split: option.splits if_splits)

lemma scaled_by_below:
  "us \<noteq> [] \<Longrightarrow> scaled_by step v us = (x, u) \<Longrightarrow> u \<in> set us \<and> (u \<noteq> last us \<longrightarrow> x < step)"
  by (induction step v us rule: scaled_by.induct) (auto split: if_splits)

section \<open>Navigation\<close>

datatype navigation_group = OverviewGroup | MinecraftGroup | InfrastructureGroup | ObservabilityGroup | ProtectionGroup
  | AdministrationGroup

record navigation_item =
  ni_href :: string
  ni_group :: navigation_group
  ni_supportedRanges :: "history_range list"

definition group_label :: "navigation_group \<Rightarrow> string" where
  "group_label g =
     (case g of OverviewGroup \<Rightarrow> ''Overview'' | MinecraftGroup \<Rightarrow> ''Minecraft'' | InfrastructureGroup \<Rightarrow> ''Infrastructure''
      | ObservabilityGroup \<Rightarrow> ''Observability'' | ProtectionGroup \<Rightarrow> ''Protection''
      | AdministrationGroup \<Rightarrow> ''Administration'')"

definition consoleNavigationGroups :: "navigation_group list" where
  "consoleNavigationGroups =
     [OverviewGroup, MinecraftGroup, InfrastructureGroup, ObservabilityGroup, ProtectionGroup, AdministrationGroup]"

definition INCIDENT_RANGES :: "history_range list" where
  "INCIDENT_RANGES = [History24h, History7d, History30d]"

definition HISTORY_RANGES :: "history_range list" where
  "HISTORY_RANGES = [History1h, History6h, History24h, History7d, History30d]"

definition nav_item :: "string \<Rightarrow> navigation_group \<Rightarrow> history_range list \<Rightarrow> navigation_item" where
  "nav_item href g ranges = \<lparr> ni_href = href, ni_group = g, ni_supportedRanges = ranges \<rparr>"

definition consoleNavigationItems :: "navigation_item list" where
  "consoleNavigationItems =
     [nav_item ''/'' OverviewGroup [], nav_item ''/services'' OverviewGroup [],
      nav_item ''/minecraft'' MinecraftGroup [], nav_item ''/logs'' MinecraftGroup [],
      nav_item ''/operations'' MinecraftGroup [],
      nav_item ''/hosts'' InfrastructureGroup [], nav_item ''/containers'' InfrastructureGroup [],
      nav_item ''/inventory'' InfrastructureGroup [], nav_item ''/cloud'' InfrastructureGroup [],
      nav_item ''/capacity'' InfrastructureGroup INCIDENT_RANGES,
      nav_item ''/incidents'' ObservabilityGroup INCIDENT_RANGES,
      nav_item ''/events'' ObservabilityGroup HISTORY_RANGES,
      nav_item ''/history'' ObservabilityGroup HISTORY_RANGES,
      nav_item ''/reliability'' ObservabilityGroup INCIDENT_RANGES,
      nav_item ''/backups'' ProtectionGroup INCIDENT_RANGES, nav_item ''/notifications'' ProtectionGroup [],
      nav_item ''/status-center'' AdministrationGroup [], nav_item ''/security'' AdministrationGroup []]"

definition isConsoleNavigationItemActive :: "string \<Rightarrow> navigation_item \<Rightarrow> bool" where
  "isConsoleNavigationItemActive pathname item \<longleftrightarrow>
     (if ni_href item = ''/'' then pathname = ''/''
      else pathname = ni_href item \<or> starts_with (ni_href item @ ''/'') pathname)"

definition getConsoleNavigationHref :: "navigation_item \<Rightarrow> string option \<Rightarrow> string" where
  "getConsoleNavigationHref item currentRange =
     (case nonempty currentRange of
        None \<Rightarrow> ni_href item
      | Some r \<Rightarrow>
          if r \<notin> history_range_text ` set (ni_supportedRanges item) then ni_href item
          else ni_href item @ ''?range='' @ r)"

definition getActiveConsoleNavigationItem :: "string \<Rightarrow> navigation_item option" where
  "getActiveConsoleNavigationItem pathname = List.find (isConsoleNavigationItemActive pathname) consoleNavigationItems"

definition getConsoleNavigationGroup :: "navigation_group \<Rightarrow> navigation_group" where
  "getConsoleNavigationGroup groupId =
     (case List.find (\<lambda>g. g = groupId) consoleNavigationGroups of
        None \<Rightarrow> hd consoleNavigationGroups | Some g \<Rightarrow> g)"

record navigation_link =
  nl_href :: string
  nl_item :: string
  nl_current :: bool

definition NavigationLinks :: "string \<Rightarrow> string option \<Rightarrow> (string \<times> navigation_link list) list" where
  \<comment> \<open>one section for each group\<close>
  "NavigationLinks pathname currentRange =
     map (\<lambda>g. (group_label g,
       map (\<lambda>item. \<lparr> nl_href = getConsoleNavigationHref item currentRange, nl_item = ni_href item,
              nl_current = isConsoleNavigationItemActive pathname item \<rparr>)
         (filter (\<lambda>item. ni_group item = g) consoleNavigationItems))) consoleNavigationGroups"

definition ConsoleCurrentContext :: "string \<Rightarrow> string \<times> string option" where
  \<comment> \<open>the label of the group, and the item whose label is shown\<close>
  "ConsoleCurrentContext pathname =
     (case getActiveConsoleNavigationItem pathname of
        None \<Rightarrow> (''IVRM Console'', None)
      | Some item \<Rightarrow> (group_label (getConsoleNavigationGroup (ni_group item)), Some (ni_href item)))"

definition hasOwnMainLandmark :: "string \<Rightarrow> bool" where
  "hasOwnMainLandmark pathname \<longleftrightarrow>
     list_ex (\<lambda>p. pathname = p \<or> starts_with (p @ ''/'') pathname) [''/operations'', ''/security'']"

section \<open>The root layout and the refresh timer\<close>

record shell =
  sh_environment :: string
  sh_userLabel :: string
  sh_role :: "console_role option"
  sh_showUser :: bool
  sh_avatar :: "string option"
  sh_showReportLogin :: bool
  sh_showLogout :: bool

datatype layout = BareLayout | RedirectLayout string | ShellLayout shell

definition environment_label :: "string option \<Rightarrow> string" where
  "environment_label vercelEnv =
     (case (case vercelEnv of None \<Rightarrow> ''development'' | Some e \<Rightarrow> e) of
        e \<Rightarrow> if e = ''production'' then ''PRODUCTION'' else if e = ''preview'' then ''PREVIEW'' else ''LOCAL'')"

definition RootLayout :: "console_session \<Rightarrow> bool \<Rightarrow> string option \<Rightarrow> layout" where
  "RootLayout session publicRoute vercelEnv =
     (if publicRoute then BareLayout
      else if \<not> canReadConsoleDuringRollout session then RedirectLayout ''/login?error=unauthenticated''
      else ShellLayout
        \<lparr> sh_environment = environment_label vercelEnv,
          sh_userLabel = (case nonempty (cs_displayName session) of
             Some n \<Rightarrow> n
           | None \<Rightarrow> (case nonempty (cs_discordUsername session) of
               Some n \<Rightarrow> n
             | None \<Rightarrow> (case nonempty (cs_email session) of Some n \<Rightarrow> n | None \<Rightarrow> ''Console user''))),
          sh_role = cs_role session, sh_showUser = (cs_authProvider session \<noteq> NoProvider),
          sh_avatar = nonempty (cs_discordAvatarUrl session),
          sh_showReportLogin = (cs_discordMode session = DiscordReport \<and> cs_authProvider session \<noteq> DiscordProvider),
          sh_showLogout = (cs_authProvider session = DiscordProvider) \<rparr>)"

record active_element =
  ae_isField :: bool  \<comment> \<open>an input, a text area or a select\<close>
  ae_isContentEditable :: bool

definition hasActiveEditor :: "active_element option \<Rightarrow> bool" where
  "hasActiveEditor active \<longleftrightarrow> (case active of None \<Rightarrow> False | Some a \<Rightarrow> ae_isField a \<or> ae_isContentEditable a)"

definition refresh_tick :: "bool \<Rightarrow> active_element option \<Rightarrow> bool" where
  \<comment> \<open>whether a tick of the timer refreshes the page\<close>
  "refresh_tick visible active \<longleftrightarrow> visible \<and> \<not> hasActiveEditor active"

section \<open>One active item\<close>

definition first_segment :: "string \<Rightarrow> string" where
  "first_segment p = takeWhile (\<lambda>c. c \<noteq> CHR ''/'') (tl p)"

lemma first_segment_append:
  assumes "CHR ''/'' \<notin> set w" and "p = CHR ''/'' # w \<or> starts_with (CHR ''/'' # w @ ''/'') p"
  shows "first_segment p = w"
  using assms(2)
proof
  assume "p = CHR ''/'' # w"
  then show ?thesis using assms(1) by (auto simp: first_segment_def takeWhile_eq_all_conv)
next
  assume "starts_with (CHR ''/'' # w @ ''/'') p"
  then have "p = CHR ''/'' # w @ CHR ''/'' # drop (length w + 2) p"
    using append_take_drop_id [of "length w + 2" p] unfolding starts_with_def by simp
  then obtain r where "p = CHR ''/'' # w @ CHR ''/'' # r" ..
  then show ?thesis using assms(1)
    by (auto simp: first_segment_def takeWhile_append)
qed

lemma active_segment:
  assumes "item \<in> set consoleNavigationItems" and "isConsoleNavigationItemActive p item"
  shows "first_segment p = tl (ni_href item)"
proof -
  have "ni_href item = CHR ''/'' # tl (ni_href item) \<and> CHR ''/'' \<notin> set (tl (ni_href item))"
    using assms(1) by (auto simp: consoleNavigationItems_def nav_item_def)
  moreover from this assms(2)
  have "p = ni_href item \<or> starts_with (ni_href item @ ''/'') p"
    by (auto simp: isConsoleNavigationItemActive_def split: if_splits)
  ultimately show ?thesis by (metis append_Cons first_segment_append)
qed

lemma filter_unique_find:
  assumes "distinct (map f xs)" and "\<forall>x \<in> set xs. P x \<longrightarrow> f x = k"
  shows "filter P xs = (case List.find P xs of None \<Rightarrow> [] | Some x \<Rightarrow> [x])"
  using assms
proof (induction xs)
  case (Cons x xs)
  have "filter P xs = []" if "P x"
    using that Cons.prems by (auto simp: filter_empty_conv) (metis imageI)
  with Cons show ?case by auto
qed simp

text \<open>Whatever the path is, the navigation marks at most one item as current, and it is the item whose group and
  label the header shows.\<close>

theorem one_navigation_item_is_current:
  "filter (isConsoleNavigationItemActive pathname) consoleNavigationItems =
     (case getActiveConsoleNavigationItem pathname of None \<Rightarrow> [] | Some item \<Rightarrow> [item])"
proof -
  have d: "distinct (map (\<lambda>i. tl (ni_href i)) consoleNavigationItems)"
    by (simp add: consoleNavigationItems_def nav_item_def)
  have "\<forall>i \<in> set consoleNavigationItems. isConsoleNavigationItemActive pathname i \<longrightarrow> tl (ni_href i) = first_segment pathname"
    using active_segment by simp
  from filter_unique_find [OF d this] show ?thesis by (simp only: getActiveConsoleNavigationItem_def)
qed

lemma shell_needs_reader:
  "RootLayout session publicRoute vercelEnv = ShellLayout s \<Longrightarrow> canReadConsoleDuringRollout session"
  by (auto simp: RootLayout_def split: if_splits)

end
