(* ===== verification/Charts.thy ===== *)
theory Charts
  imports HistoryOverlays ConsoleUi
begin

text \<open>
  The line chart of a metric (\<open>components/metric-line-chart.tsx\<close>): which points, markers and regions are visible,
  how a series is cut where samples are missing, and where everything is drawn, and the scroller around it
  (\<open>components/latest-horizontal-scroller.tsx\<close>). Coordinates are rationals; texts in Japanese are left out.
\<close>

section \<open>Input\<close>

record chart_series =
  cr_id :: string
  cr_label :: string
  cr_points :: "(string \<times> rat option) list"  \<comment> \<open>\<open>None\<close> is no value, or one that is not finite\<close>

record chart_marker =
  ck_id :: string
  ck_timestamp :: string
  ck_label :: string
  ck_severity :: event_severity

record chart_region =
  cg_id :: string
  cg_startAt :: string
  cg_endAt :: string
  cg_label :: string
  cg_kind :: overlay_kind

record chart_input =
  cp_series :: "chart_series list"
  cp_startAt :: string
  cp_endAt :: string
  cp_expectedIntervalSeconds :: int
  cp_unit :: string
  cp_maximum :: "rat option"
  cp_valueDigits :: "nat option"
  cp_markers :: "chart_marker list"
  cp_regions :: "chart_region list"

record positioned_point =
  pp_timestamp :: int
  pp_x :: rat
  pp_y :: rat
  pp_value :: rat

section \<open>Output\<close>

datatype drawing = Dot rat rat | Path string

record drawn_line =
  dl_id :: string
  dl_hue :: nat
  dl_drawings :: "drawing list"
  dl_last :: "(rat \<times> rat) option"

record legend_entry =
  le_label :: string
  le_hue :: nat
  le_latest :: string
  le_minimum :: string
  le_maximum :: string

record drawn_region =
  dr_id :: string
  dr_x :: rat
  dr_width :: rat
  dr_kind :: overlay_kind

record drawn_chart =
  dc_lateStart :: "int option"
  dc_regions :: "drawn_region list"
  dc_yTicks :: "(rat \<times> string) list"
  dc_xTicks :: "(rat \<times> rat) list"
  dc_markers :: "(string \<times> rat \<times> event_severity) list"
  dc_lines :: "drawn_line list"
  dc_legend :: "legend_entry list"
  dc_kinds :: "overlay_kind list"

section \<open>Geometry\<close>

definition CHART_WIDTH :: rat where "CHART_WIDTH = 960"

definition CHART_HEIGHT :: rat where "CHART_HEIGHT = 300"

definition PADDING_TOP :: rat where "PADDING_TOP = 22"

definition PADDING_RIGHT :: rat where "PADDING_RIGHT = 20"

definition PADDING_BOTTOM :: rat where "PADDING_BOTTOM = 38"

definition PADDING_LEFT :: rat where "PADDING_LEFT = 58"

definition PLOT_WIDTH :: rat where "PLOT_WIDTH = CHART_WIDTH - PADDING_LEFT - PADDING_RIGHT"

definition PLOT_HEIGHT :: rat where "PLOT_HEIGHT = CHART_HEIGHT - PADDING_TOP - PADDING_BOTTOM"

definition plot_x :: "int \<Rightarrow> int \<Rightarrow> rat \<Rightarrow> rat" where
  "plot_x start duration t = PADDING_LEFT + (t - of_int start) / of_int duration * PLOT_WIDTH"

definition plot_y :: "rat \<Rightarrow> rat \<Rightarrow> rat" where
  "plot_y yMaximum v = PADDING_TOP + PLOT_HEIGHT - v / max yMaximum 1 * PLOT_HEIGHT"

definition seriesColor :: "nat \<Rightarrow> nat" where
  "seriesColor index = (index * 47 + 84) mod 360"

definition formatValue :: "rat \<Rightarrow> string \<Rightarrow> nat option \<Rightarrow> string" where
  "formatValue v unit valueDigits =
     toFixed (case valueDigits of Some d \<Rightarrow> d | None \<Rightarrow> if v \<ge> 10 then 1 else 2) v @ unit"

definition maximum_gap :: "int \<Rightarrow> rat" where
  "maximum_gap expectedIntervalSeconds = of_int expectedIntervalSeconds * (11 / 10) * 1000"

definition segment_step ::
  "int \<Rightarrow> positioned_point list list \<times> positioned_point list \<Rightarrow> positioned_point \<Rightarrow>
   positioned_point list list \<times> positioned_point list" where
  "segment_step interval st point =
     (case st of
        (pieces, current) \<Rightarrow>
          if (case js_last current of
                None \<Rightarrow> False
              | Some previous \<Rightarrow> of_int (pp_timestamp point - pp_timestamp previous) > maximum_gap interval)
          then (pieces @ [current], [point])
          else (pieces, current @ [point]))"

definition splitSegments :: "positioned_point list \<Rightarrow> int \<Rightarrow> positioned_point list list" where
  "splitSegments points interval =
     (case foldl (segment_step interval) ([], []) points of
        (pieces, current) \<Rightarrow> if current \<noteq> [] then pieces @ [current] else pieces)"

section \<open>What is visible\<close>

definition visible_points :: "int \<Rightarrow> int \<Rightarrow> (string \<times> rat option) list \<Rightarrow> (int \<times> rat) list" where
  "visible_points start finish points =
     sort_key fst
       (filter (\<lambda>p. start \<le> fst p \<and> fst p \<le> finish)
         (List.map_filter (\<lambda>p. case (Date_parse (fst p), snd p) of (Some t, Some v) \<Rightarrow> Some (t, v) | _ \<Rightarrow> None) points))"

definition visible_series :: "int \<Rightarrow> int \<Rightarrow> chart_series list \<Rightarrow> (chart_series \<times> (int \<times> rat) list) list" where
  "visible_series start finish series =
     filter (\<lambda>s. snd s \<noteq> []) (map (\<lambda>s. (s, visible_points start finish (cr_points s))) series)"

definition visible_markers :: "int \<Rightarrow> int \<Rightarrow> chart_marker list \<Rightarrow> (chart_marker \<times> int) list" where
  "visible_markers start finish markers =
     sort_key snd
       (filter (\<lambda>m. start \<le> snd m \<and> snd m \<le> finish)
         (List.map_filter (\<lambda>m. map_option (Pair m) (Date_parse (ck_timestamp m))) markers))"

definition visible_regions :: "int \<Rightarrow> int \<Rightarrow> chart_region list \<Rightarrow> (chart_region \<times> int \<times> int) list" where
  "visible_regions start finish regions =
     sort_key snd
       (filter (\<lambda>r. snd (snd r) > fst (snd r))
         (List.map_filter (\<lambda>r.
            case (Date_parse (cg_startAt r), Date_parse (cg_endAt r)) of
              (Some s, Some e) \<Rightarrow> Some (r, max s start, min e finish) | _ \<Rightarrow> None) regions))"

definition y_maximum :: "rat option \<Rightarrow> rat list \<Rightarrow> rat" where
  "y_maximum fixed vs =
     (case fixed of
        Some m \<Rightarrow> m
      | None \<Rightarrow> max 1 (of_int \<lceil>(case vs of [] \<Rightarrow> 0 | v # r \<Rightarrow> foldl max v r) * (115 / 100) * 10\<rceil> / 10))"

definition RATIOS :: "rat list" where
  "RATIOS = [0, 1 / 4, 1 / 2, 3 / 4, 1]"

definition first_data :: "(chart_series \<times> (int \<times> rat) list) list \<Rightarrow> int option" where
  "first_data visible =
     foldl (\<lambda>earliest s. case js_first (snd s) of
        None \<Rightarrow> earliest
      | Some p \<Rightarrow> (case earliest of None \<Rightarrow> Some (fst p) | Some e \<Rightarrow> Some (min e (fst p)))) None visible"

definition late_start :: "int \<Rightarrow> int \<Rightarrow> (chart_series \<times> (int \<times> rat) list) list \<Rightarrow> int option" where
  "late_start start interval visible =
     (case first_data visible of
        None \<Rightarrow> None
      | Some t \<Rightarrow> if of_int (t - start) > (of_int interval * (3 / 2) * 1000 :: rat) then Some t else None)"

section \<open>The chart\<close>

definition position_points :: "int \<Rightarrow> int \<Rightarrow> rat \<Rightarrow> (int \<times> rat) list \<Rightarrow> positioned_point list" where
  "position_points start duration yMaximum points =
     map (\<lambda>p. \<lparr> pp_timestamp = fst p, pp_x = plot_x start duration (of_int (fst p)),
            pp_y = plot_y yMaximum (snd p), pp_value = snd p \<rparr>) points"

definition path_text :: "positioned_point list \<Rightarrow> string" where
  "path_text segment =
     join '' '' (map (\<lambda>(i, p). (if i = 0 then ''M'' else ''L'') @ toFixed 2 (pp_x p) @ '','' @ toFixed 2 (pp_y p))
       (zip [0 :: nat..<length segment] segment))"

definition draw_segment :: "positioned_point list \<Rightarrow> drawing" where
  "draw_segment segment = (case segment of [p] \<Rightarrow> Dot (pp_x p) (pp_y p) | _ \<Rightarrow> Path (path_text segment))"

definition draw_line :: "int \<Rightarrow> nat \<Rightarrow> string \<Rightarrow> positioned_point list \<Rightarrow> drawn_line" where
  "draw_line interval index lid points =
     \<lparr> dl_id = lid, dl_hue = seriesColor index, dl_drawings = map draw_segment (splitSegments points interval),
       dl_last = map_option (\<lambda>p. (pp_x p, pp_y p)) (js_last points) \<rparr>"

definition legend_of :: "chart_input \<Rightarrow> nat \<Rightarrow> chart_series \<times> (int \<times> rat) list \<Rightarrow> legend_entry" where
  "legend_of c index s =
     (let vs = map snd (snd s);
          show_value = (\<lambda>v. formatValue v (cp_unit c) (cp_valueDigits c))
      in \<lparr> le_label = cr_label (fst s), le_hue = seriesColor index, le_latest = show_value (last (0 # vs)),
           le_minimum = show_value (foldl min (hd vs) (tl vs)), le_maximum = show_value (foldl max (hd vs) (tl vs)) \<rparr>)"

definition chart_duration :: "int \<Rightarrow> int \<Rightarrow> int" where
  "chart_duration start finish = max 1 (finish - start)"

definition draw_region :: "int \<Rightarrow> int \<Rightarrow> chart_region \<times> int \<times> int \<Rightarrow> drawn_region" where
  "draw_region start duration r =
     (let x = plot_x start duration (of_int (fst (snd r)));
          endX = plot_x start duration (of_int (snd (snd r)))
      in \<lparr> dr_id = cg_id (fst r), dr_x = x, dr_width = max (3 / 2) (endX - x), dr_kind = cg_kind (fst r) \<rparr>)"

definition positioned_series :: "chart_input \<Rightarrow> int \<Rightarrow> int \<Rightarrow> (chart_series \<times> positioned_point list) list" where
  "positioned_series c start finish =
     (let visible = visible_series start finish (cp_series c);
          yMaximum = y_maximum (cp_maximum c) (concat (map (\<lambda>s. map snd (snd s)) visible))
      in map (\<lambda>s. (fst s, position_points start (chart_duration start finish) yMaximum (snd s))) visible)"

definition MetricLineChart :: "chart_input \<Rightarrow> drawn_chart option" where
  \<comment> \<open>\<open>None\<close> is the panel that says that there is nothing to draw\<close>
  "MetricLineChart c =
     (case (Date_parse (cp_startAt c), Date_parse (cp_endAt c)) of
        (Some start, Some finish) \<Rightarrow>
          (let visible = visible_series start finish (cp_series c);
               duration = chart_duration start finish;
               regions = visible_regions start finish (cp_regions c);
               yMaximum = y_maximum (cp_maximum c) (concat (map (\<lambda>s. map snd (snd s)) visible))
           in if visible = [] then None
              else Some
                \<lparr> dc_lateStart = late_start start (cp_expectedIntervalSeconds c) visible,
                  dc_regions = map (draw_region start duration) regions,
                  dc_yTicks = map (\<lambda>r. (plot_y yMaximum (yMaximum * r),
                    formatValue (yMaximum * r) (cp_unit c) (cp_valueDigits c))) RATIOS,
                  dc_xTicks = map (\<lambda>r. (of_int start + of_int duration * r,
                    plot_x start duration (of_int start + of_int duration * r))) RATIOS,
                  dc_markers = map (\<lambda>m. (ck_id (fst m), plot_x start duration (of_int (snd m)), ck_severity (fst m)))
                    (visible_markers start finish (cp_markers c)),
                  dc_lines = map (\<lambda>(i, s). draw_line (cp_expectedIntervalSeconds c) i (cr_id (fst s)) (snd s))
                    (zip [0..<length visible] (positioned_series c start finish)),
                  dc_legend = map (\<lambda>(i, s). legend_of c i s) (zip [0..<length visible] visible),
                  dc_kinds = js_set (map (\<lambda>r. cg_kind (fst r)) regions) \<rparr>)
      | _ \<Rightarrow> None)"

section \<open>The scroller\<close>

record scroll_element =
  se_scrollWidth :: int
  se_clientWidth :: int
  se_scrollLeft :: int

record scroll_state =
  ss_canScrollHorizontally :: bool
  ss_isShowingLatest :: bool

definition SCROLL_END_TOLERANCE_PX :: int where
  "SCROLL_END_TOLERANCE_PX = 8"

definition scrollMaximum :: "scroll_element \<Rightarrow> int" where
  "scrollMaximum e = max 0 (se_scrollWidth e - se_clientWidth e)"

definition isAtLatestScrollPosition :: "scroll_element \<Rightarrow> bool" where
  "isAtLatestScrollPosition e \<longleftrightarrow>
     scrollMaximum e \<le> SCROLL_END_TOLERANCE_PX \<or> scrollMaximum e - se_scrollLeft e \<le> SCROLL_END_TOLERANCE_PX"

definition syncScrollState :: "scroll_element option \<Rightarrow> scroll_state \<Rightarrow> scroll_state" where
  "syncScrollState element st =
     (case element of
        None \<Rightarrow> st
      | Some e \<Rightarrow> \<lparr> ss_canScrollHorizontally = (scrollMaximum e > SCROLL_END_TOLERANCE_PX),
          ss_isShowingLatest = isAtLatestScrollPosition e \<rparr>)"

definition scrollToLatest :: "scroll_element \<Rightarrow> scroll_element" where
  "scrollToLatest e = e \<lparr> se_scrollLeft := scrollMaximum e \<rparr>"

section \<open>Segments\<close>

definition gap_after :: "int \<Rightarrow> positioned_point \<Rightarrow> positioned_point \<Rightarrow> bool" where
  "gap_after interval p q \<longleftrightarrow> of_int (pp_timestamp q - pp_timestamp p) > maximum_gap interval"

fun cut_at :: "('a \<Rightarrow> 'a \<Rightarrow> bool) \<Rightarrow> 'a list \<Rightarrow> 'a list list" where
  \<comment> \<open>the reference: cut a list between neighbours that are related\<close>
  "cut_at R [] = []"
| "cut_at R [x] = [[x]]"
| "cut_at R (x # y # ys) =
     (if R x y then [x] # cut_at R (y # ys)
      else (case cut_at R (y # ys) of [] \<Rightarrow> [[x]] | s # ss \<Rightarrow> (x # s) # ss))"

definition finish_segments :: "positioned_point list list \<times> positioned_point list \<Rightarrow> positioned_point list list" where
  "finish_segments st = fst st @ (if snd st = [] then [] else [snd st])"

lemma splitSegments_finish: "splitSegments points interval = finish_segments (foldl (segment_step interval) ([], []) points)"
  by (simp add: splitSegments_def finish_segments_def split: prod.split)

lemma cut_at_ne: "cut_at R (x # xs) \<noteq> []"
  by (induction xs arbitrary: x) (auto split: list.splits)

lemma segment_loop:
  "finish_segments (foldl (segment_step interval) (ss, c @ [p]) points) =
     ss @ (case cut_at (gap_after interval) (p # points) of [] \<Rightarrow> [] | s # rest \<Rightarrow> (c @ s) # rest)"
proof (induction points arbitrary: ss c p)
  case Nil
  show ?case by (simp add: finish_segments_def)
next
  case (Cons q qs)
  obtain s rest where s: "cut_at (gap_after interval) (q # qs) = s # rest"
    using cut_at_ne [of "gap_after interval" q qs] by (cases "cut_at (gap_after interval) (q # qs)") auto
  show ?case
  proof (cases "gap_after interval p q")
    case True
    then have "segment_step interval (ss, c @ [p]) q = (ss @ [c @ [p]], [] @ [q])"
      by (simp add: segment_step_def gap_after_def)
    then show ?thesis using Cons.IH [of "ss @ [c @ [p]]" "[]" q] True s by simp
  next
    case False
    then have "segment_step interval (ss, c @ [p]) q = (ss, (c @ [p]) @ [q])"
      by (simp add: segment_step_def gap_after_def)
    then show ?thesis using Cons.IH [of ss "c @ [p]" q] False s by simp
  qed
qed

text \<open>The loop that cuts a series into segments agrees with the plain reference: a series is cut exactly between
  two neighbouring samples that are further apart than the expected interval and a tenth, and nowhere else.\<close>

theorem segments_cut_at_gaps: "splitSegments points interval = cut_at (gap_after interval) points"
proof (cases points)
  case (Cons p ps)
  have "segment_step interval ([], []) p = ([], [] @ [p])" by (simp add: segment_step_def)
  moreover obtain s rest where "cut_at (gap_after interval) (p # ps) = s # rest"
    using cut_at_ne [of "gap_after interval" p ps] by (cases "cut_at (gap_after interval) (p # ps)") auto
  ultimately show ?thesis
    using segment_loop [of interval "[]" "[]" p ps] by (simp add: splitSegments_finish Cons)
qed (simp add: splitSegments_finish finish_segments_def)

lemma concat_cut_at: "concat (cut_at R xs) = xs"
  by (induction R xs rule: cut_at.induct) (auto simp: cut_at_ne split: list.splits dest: arg_cong [where f = concat])

section \<open>Everything is drawn inside the plot\<close>

lemma plot_sizes: "PLOT_WIDTH = 882" "PLOT_HEIGHT = 240"
  by (simp_all add: PLOT_WIDTH_def PLOT_HEIGHT_def CHART_WIDTH_def CHART_HEIGHT_def PADDING_LEFT_def PADDING_RIGHT_def
      PADDING_TOP_def PADDING_BOTTOM_def)

lemma plot_x_inside:
  assumes "of_int start \<le> t" and "t \<le> of_int finish"
  shows "PADDING_LEFT \<le> plot_x start (chart_duration start finish) t \<and>
    plot_x start (chart_duration start finish) t \<le> CHART_WIDTH - PADDING_RIGHT"
proof -
  let ?d = "of_int (chart_duration start finish) :: rat"
  have d: "0 < ?d" "t - of_int start \<le> ?d" using assms by (auto simp: chart_duration_def of_int_max)
  define r where "r = (t - of_int start) / ?d"
  have "0 \<le> r" "r \<le> 1" using d assms by (simp_all add: r_def)
  moreover have "plot_x start (chart_duration start finish) t = PADDING_LEFT + r * PLOT_WIDTH"
    by (simp add: plot_x_def r_def)
  ultimately show ?thesis
    by (simp add: plot_sizes CHART_WIDTH_def PADDING_LEFT_def PADDING_RIGHT_def)
qed

lemma plot_y_inside:
  assumes "0 \<le> v" and "v \<le> max yMaximum 1"
  shows "PADDING_TOP \<le> plot_y yMaximum v \<and> plot_y yMaximum v \<le> CHART_HEIGHT - PADDING_BOTTOM"
proof -
  define r where "r = v / max yMaximum 1"
  have "0 \<le> r" "r \<le> 1" using assms by (simp_all add: r_def)
  moreover have "plot_y yMaximum v = PADDING_TOP + PLOT_HEIGHT - r * PLOT_HEIGHT" by (simp add: plot_y_def r_def)
  ultimately show ?thesis
    by (simp add: plot_sizes PADDING_TOP_def PADDING_BOTTOM_def CHART_HEIGHT_def)
qed

lemma foldl_max_ge: "a \<le> foldl max (a :: rat) xs \<and> (\<forall>x \<in> set xs. x \<le> foldl max a xs)"
proof (induction xs arbitrary: a)
  case (Cons x xs)
  from Cons.IH [of "max a x"] show ?case by auto
qed simp

lemma y_maximum_covers:
  assumes "v \<in> set vs" and "0 \<le> v"
  shows "v \<le> y_maximum None vs"
proof -
  define m where "m = (case vs of [] \<Rightarrow> 0 | v # r \<Rightarrow> foldl max v r)"
  have "v \<le> m" using assms(1) foldl_max_ge by (cases vs) (auto simp: m_def)
  then have "v \<le> m * (115 / 100)" using assms(2) by simp
  also have "m * (115 / 100) * 10 \<le> of_int \<lceil>m * (115 / 100) * 10\<rceil>" by (rule le_of_int_ceiling)
  then have "m * (115 / 100) \<le> of_int \<lceil>m * (115 / 100) * 10\<rceil> / 10" by simp
  finally show ?thesis by (simp add: y_maximum_def m_def le_max_iff_disj)
qed

lemma visible_points_given:
  "p \<in> set (visible_points start finish points) \<Longrightarrow> \<exists>t. (t, Some (snd p)) \<in> set points"
proof -
  assume "p \<in> set (visible_points start finish points)"
  then obtain q where "q \<in> set points"
      "(case (Date_parse (fst q), snd q) of (Some t, Some v) \<Rightarrow> Some (t, v) | _ \<Rightarrow> None) = Some p"
    by (auto simp: visible_points_def set_map_filter)
  then have "snd q = Some (snd p)" "q \<in> set points" by (auto split: option.splits)
  then show ?thesis by (metis prod.collapse)
qed

lemma visible_points_window:
  "p \<in> set (visible_points start finish points) \<Longrightarrow> start \<le> fst p \<and> fst p \<le> finish"
  by (auto simp: visible_points_def)

definition inside_plot :: "positioned_point \<Rightarrow> bool" where
  "inside_plot p \<longleftrightarrow>
     PADDING_LEFT \<le> pp_x p \<and> pp_x p \<le> CHART_WIDTH - PADDING_RIGHT \<and>
     PADDING_TOP \<le> pp_y p \<and> pp_y p \<le> CHART_HEIGHT - PADDING_BOTTOM"

text \<open>C33. When the chart chooses its own scale and no value is negative, every point of every series is drawn inside
  the plot: whatever the values and the times are, the curve never leaves its frame.\<close>

theorem points_are_drawn_inside_the_plot:
  assumes "cp_maximum c = None"
    and "\<And>s t v. s \<in> set (cp_series c) \<Longrightarrow> (t, Some v) \<in> set (cr_points s) \<Longrightarrow> 0 \<le> v"
  shows "list_all inside_plot (concat (map snd (positioned_series c start finish)))"
proof -
  let ?visible = "visible_series start finish (cp_series c)"
  let ?vs = "concat (map (\<lambda>s. map snd (snd s)) ?visible)"
  have "inside_plot \<lparr> pp_timestamp = fst p, pp_x = plot_x start (chart_duration start finish) (of_int (fst p)),
      pp_y = plot_y (y_maximum None ?vs) (snd p), pp_value = snd p \<rparr>"
    if s: "s \<in> set ?visible" and p: "p \<in> set (snd s)" for s p
  proof -
    from s have m: "fst s \<in> set (cp_series c)" "snd s = visible_points start finish (cr_points (fst s))"
      by (auto simp: visible_series_def)
    with p obtain t where "(t, Some (snd p)) \<in> set (cr_points (fst s))"
      using visible_points_given by metis
    with m(1) have "0 \<le> snd p" by (rule assms(2))
    moreover from this have "snd p \<le> y_maximum None ?vs"
      using s p by (intro y_maximum_covers) auto
    moreover have "start \<le> fst p" "fst p \<le> finish"
      using p visible_points_window unfolding m(2) by blast+
    ultimately show ?thesis
      using plot_x_inside [of start "of_int (fst p)" finish] plot_y_inside [of "snd p" "y_maximum None ?vs"]
      by (simp add: inside_plot_def)
  qed
  then show ?thesis
    by (auto simp: positioned_series_def Let_def position_points_def assms(1) list_all_iff)
qed

definition sample_chart :: chart_input where
  "sample_chart =
     \<lparr> cp_series = [\<lparr> cr_id = ''a'', cr_label = ''A'',
         cr_points = [(''2026-01-01T00:00:00Z'', Some 3), (''2026-01-01T00:01:00Z'', None)] \<rparr>],
       cp_startAt = ''2026-01-01T00:00:00Z'', cp_endAt = ''2026-01-01T01:00:00Z'', cp_expectedIntervalSeconds = 60,
       cp_unit = [], cp_maximum = None, cp_valueDigits = None, cp_markers = [], cp_regions = [] \<rparr>"

theorem points_are_drawn_inside_the_plot_witness:
  "list_all inside_plot (concat (map snd (positioned_series sample_chart 0 60000)))"
  by (rule points_are_drawn_inside_the_plot) (auto simp: sample_chart_def)

lemma latest_after_scroll: "ss_isShowingLatest (syncScrollState (Some (scrollToLatest e)) st)"
  by (simp add: syncScrollState_def isAtLatestScrollPosition_def scrollToLatest_def scrollMaximum_def
      SCROLL_END_TOLERANCE_PX_def)

lemma unscrollable_is_latest:
  "\<not> ss_canScrollHorizontally (syncScrollState (Some e) st) \<Longrightarrow> ss_isShowingLatest (syncScrollState (Some e) st)"
  by (simp add: syncScrollState_def isAtLatestScrollPosition_def)

end
