(* ===== verification/Minecraft.thy ===== *)
theory Minecraft
  imports MetricHistory ConsoleAuth
begin

text \<open>
  The state of the Minecraft service (\<open>lib/minecraft.ts\<close>) from its newest sample and its two containers in the
  monitoring snapshot, the route that shows it (\<open>app/api/minecraft/overview\<close>), and the history of its metrics
  (\<open>lib/minecraft-history.ts\<close>). The sample row is what the database returned.
\<close>

section \<open>The overview\<close>

datatype minecraft_status =
    MinecraftOperational | MinecraftDegraded | PartialOutage | MajorOutage | MinecraftMaintenance | MinecraftUnknown

record minecraft_endpoint =
  me_reachable :: bool
  me_latencyMs :: "rat option"
  me_version :: "string option"
  me_online :: "rat option"
  me_max :: "rat option"

record minecraft_performance =
  mp_source :: "string option"
  mp_tps1m :: "rat option"
  mp_tps5m :: "rat option"
  mp_tps15m :: "rat option"
  mp_msptMedian1m :: "rat option"
  mp_msptP951m :: "rat option"
  mp_msptMax1m :: "rat option"

record minecraft_sample =
  mc_received_at :: string
  mc_public_reachable :: bool
  mc_public_latency_ms :: "rat option"
  mc_public_version :: "string option"
  mc_public_online :: "rat option"
  mc_public_max :: "rat option"
  mc_backend_reachable :: bool
  mc_backend_latency_ms :: "rat option"
  mc_backend_version :: "string option"
  mc_backend_online :: "rat option"
  mc_backend_max :: "rat option"
  mc_proxy_port_published :: bool
  mc_backend_port_published :: bool
  mc_voice_chat_port_published :: bool
  mc_performance_source :: "string option"
  mc_tps_1m :: "rat option"
  mc_tps_5m :: "rat option"
  mc_tps_15m :: "rat option"
  mc_mspt_median_1m :: "rat option"
  mc_mspt_p95_1m :: "rat option"
  mc_mspt_max_1m :: "rat option"

record minecraft_overview =
  mo_status :: minecraft_status
  mo_checkedAt :: "string option"
  mo_ageSeconds :: "int option"
  mo_publicEndpoint :: minecraft_endpoint
  mo_velocity :: "container_overview option"
  mo_backend :: "container_overview option"
  mo_backendProbe :: minecraft_endpoint
  mo_performance :: minecraft_performance
  mo_voiceChatPublished :: bool
  mo_proxyPortPublished :: bool
  mo_backendPortPublished :: bool
  mo_backendDirectAccessBlocked :: bool

definition TARGET_SERVER_ID :: string where
  "TARGET_SERVER_ID = ''oci-minecraft-01''"

definition MINECRAFT_STALE_SECONDS :: int where
  "MINECRAFT_STALE_SECONDS = 180"

definition no_endpoint :: minecraft_endpoint where
  "no_endpoint = \<lparr> me_reachable = False, me_latencyMs = None, me_version = None, me_online = None, me_max = None \<rparr>"

definition public_endpoint :: "minecraft_sample option \<Rightarrow> minecraft_endpoint" where
  "public_endpoint sample =
     (case sample of
        None \<Rightarrow> no_endpoint
      | Some s \<Rightarrow> \<lparr> me_reachable = mc_public_reachable s, me_latencyMs = mc_public_latency_ms s,
          me_version = mc_public_version s, me_online = mc_public_online s, me_max = mc_public_max s \<rparr>)"

definition backend_endpoint :: "minecraft_sample option \<Rightarrow> minecraft_endpoint" where
  "backend_endpoint sample =
     (case sample of
        None \<Rightarrow> no_endpoint
      | Some s \<Rightarrow> \<lparr> me_reachable = mc_backend_reachable s, me_latencyMs = mc_backend_latency_ms s,
          me_version = mc_backend_version s, me_online = mc_backend_online s, me_max = mc_backend_max s \<rparr>)"

definition minecraft_performance_of :: "minecraft_sample option \<Rightarrow> minecraft_performance" where
  "minecraft_performance_of sample =
     \<lparr> mp_source = Option.bind sample mc_performance_source, mp_tps1m = Option.bind sample mc_tps_1m,
       mp_tps5m = Option.bind sample mc_tps_5m, mp_tps15m = Option.bind sample mc_tps_15m,
       mp_msptMedian1m = Option.bind sample mc_mspt_median_1m, mp_msptP951m = Option.bind sample mc_mspt_p95_1m,
       mp_msptMax1m = Option.bind sample mc_mspt_max_1m \<rparr>"

definition containerIsUnavailable :: "container_overview option \<Rightarrow> bool" where
  "containerIsUnavailable container \<longleftrightarrow>
     (case container of
        None \<Rightarrow> True
      | Some c \<Rightarrow> co_status c = CtOffline \<or> co_status c = CtError \<or> co_state c \<noteq> RunningState \<or> co_oomKilled c)"

definition holds_for :: "('a \<Rightarrow> bool) \<Rightarrow> 'a option \<Rightarrow> bool" where
  \<comment> \<open>\<open>x?.p\<close> as a condition\<close>
  "holds_for p x \<longleftrightarrow> (case x of None \<Rightarrow> False | Some a \<Rightarrow> p a)"

definition determineMinecraftStatus ::
  "minecraft_sample option \<Rightarrow> int option \<Rightarrow> container_overview option \<Rightarrow> container_overview option \<Rightarrow> minecraft_status" where
  "determineMinecraftStatus sample age velocity backend =
     (if holds_for co_maintenanceActive velocity \<or> holds_for co_maintenanceActive backend then MinecraftMaintenance
      else (case (sample, age) of
              (Some s, Some a) \<Rightarrow>
                if a > MINECRAFT_STALE_SECONDS then MinecraftUnknown
                else if containerIsUnavailable velocity \<or> containerIsUnavailable backend \<or>
                   \<not> mc_proxy_port_published s \<or> \<not> mc_public_reachable s then MajorOutage
                else if \<not> mc_backend_reachable s then PartialOutage
                else if holds_for (\<lambda>c. co_status c = CtStale) velocity \<or> holds_for (\<lambda>c. co_status c = CtStale) backend \<or>
                   \<not> mc_voice_chat_port_published s \<or> mc_backend_port_published s then MinecraftDegraded
                else MinecraftOperational
            | _ \<Rightarrow> MinecraftUnknown))"

definition target_container :: "monitoring_snapshot \<Rightarrow> string \<Rightarrow> container_overview option" where
  "target_container monitoring name =
     (case List.find (\<lambda>h. ho_serverId h = TARGET_SERVER_ID) (ms_hosts monitoring) of
        None \<Rightarrow> None
      | Some host \<Rightarrow> List.find (\<lambda>c. co_name c = name) (filter (\<lambda>c. co_hostId c = ho_id host) (ms_containers monitoring)))"

definition sample_age :: "string \<Rightarrow> minecraft_sample option \<Rightarrow> int option" where
  "sample_age generatedAt sample =
     (case Option.bind sample (\<lambda>s. Date_parse (mc_received_at s)) of
        None \<Rightarrow> None
      | Some ms \<Rightarrow> Some (max 0 ((ms_of generatedAt - ms) div 1000)))"

definition published :: "(minecraft_sample \<Rightarrow> bool) \<Rightarrow> minecraft_sample option \<Rightarrow> bool" where
  "published p sample \<longleftrightarrow> (case sample of None \<Rightarrow> False | Some s \<Rightarrow> p s)"

definition minecraft_overview_of :: "monitoring_snapshot \<Rightarrow> minecraft_sample option \<Rightarrow> minecraft_overview" where
  "minecraft_overview_of monitoring sample =
     (let velocity = target_container monitoring ''ivrm-velocity'';
          backend = target_container monitoring ''mc-main'';
          age = sample_age (ms_generatedAt monitoring) sample
      in \<lparr> mo_status = determineMinecraftStatus sample age velocity backend,
           mo_checkedAt = map_option mc_received_at sample, mo_ageSeconds = age,
           mo_publicEndpoint = public_endpoint sample, mo_velocity = velocity, mo_backend = backend,
           mo_backendProbe = backend_endpoint sample, mo_performance = minecraft_performance_of sample,
           mo_voiceChatPublished = published mc_voice_chat_port_published sample,
           mo_proxyPortPublished = published mc_proxy_port_published sample,
           mo_backendPortPublished = published mc_backend_port_published sample,
           mo_backendDirectAccessBlocked = published (\<lambda>s. \<not> mc_backend_port_published s) sample \<rparr>)"

definition getMinecraftOverview ::
  "monitoring_snapshot option \<Rightarrow> minecraft_sample list option \<Rightarrow> minecraft_overview option" where
  \<comment> \<open>the snapshot and the sample rows, \<open>None\<close> where the promise is rejected\<close>
  "getMinecraftOverview monitoring rows =
     (case (monitoring, rows) of
        (Some m, Some r) \<Rightarrow> Some (minecraft_overview_of m (js_first r))
      | _ \<Rightarrow> None)"

datatype minecraft_reply = MinecraftShown minecraft_overview | MinecraftRefused nat string

definition minecraft_get ::
  "console_session \<Rightarrow> monitoring_snapshot option \<Rightarrow> minecraft_sample list option \<Rightarrow> minecraft_reply" where
  "minecraft_get session monitoring rows =
     (if \<not> canReadConsoleDuringRollout session then MinecraftRefused 403 ''access_denied''
      else (case getMinecraftOverview monitoring rows of
              None \<Rightarrow> MinecraftRefused 503 ''minecraft_overview_unavailable''
            | Some overview \<Rightarrow> MinecraftShown overview))"

section \<open>The history\<close>

record minecraft_point =
  np_timestamp :: string
  np_publicOnline :: "rat option"
  np_backendOnline :: "rat option"
  np_publicLatencyMs :: "rat option"
  np_backendLatencyMs :: "rat option"
  np_tps1m :: "rat option"
  np_tps5m :: "rat option"
  np_tps15m :: "rat option"
  np_msptMedian1m :: "rat option"
  np_msptP95_1m :: "rat option"
  np_msptMax1m :: "rat option"
  np_performanceSampleCount :: int
  np_sampleCount :: int

record minecraft_series =
  mx_hostId :: string
  mx_hostDisplayName :: string
  mx_dataSource :: history_data_source
  mx_bucketSeconds :: int
  mx_points :: "minecraft_point list"

definition nullableNonNegativeNumber :: "jsval \<Rightarrow> rat option" where
  "nullableNonNegativeNumber value =
     Option.bind (nullableNumber value) (\<lambda>q. if q \<ge> 0 then Some q else None)"

definition known_source :: "jsval \<Rightarrow> history_data_source option" where
  "known_source value =
     (if value = Str ''raw'' then Some RawSource else if value = Str ''rollup_5m'' then Some RollupSource else None)"

definition minecraft_point_of :: "jsval \<Rightarrow> minecraft_point option" where
  "minecraft_point_of item =
     (if \<not> is_record item then None
      else (case as_string (get_prop item ''timestamp'') of
              None \<Rightarrow> None
            | Some s \<Rightarrow>
                if Date_parse s = None then None
                else (let number = (\<lambda>k. nullableNonNegativeNumber (get_prop item k))
                      in Some \<lparr> np_timestamp = s, np_publicOnline = number ''publicOnline'',
                           np_backendOnline = number ''backendOnline'', np_publicLatencyMs = number ''publicLatencyMs'',
                           np_backendLatencyMs = number ''backendLatencyMs'', np_tps1m = number ''tps1m'',
                           np_tps5m = number ''tps5m'', np_tps15m = number ''tps15m'',
                           np_msptMedian1m = number ''msptMedian1m'', np_msptP95_1m = number ''msptP95_1m'',
                           np_msptMax1m = number ''msptMax1m'',
                           np_performanceSampleCount = nonNegativeInteger (get_prop item ''performanceSampleCount''),
                           np_sampleCount = nonNegativeInteger (get_prop item ''sampleCount'') \<rparr>)))"

definition minecraft_points :: "jsval \<Rightarrow> minecraft_point list" where
  "minecraft_points value =
     (case as_array value of
        None \<Rightarrow> []
      | Some items \<Rightarrow> sort_key (\<lambda>p. ms_of (np_timestamp p)) (List.map_filter minecraft_point_of items))"

definition minecraft_series_of :: "jsval \<Rightarrow> minecraft_series option" where
  "minecraft_series_of row =
     (if \<not> is_record row then None
      else do {
        hostId \<leftarrow> as_string (get_prop row ''host_id'');
        displayName \<leftarrow> as_string (get_prop row ''host_display_name'');
        bucketSeconds \<leftarrow> requiredPositiveInteger (get_prop row ''bucket_seconds'');
        source \<leftarrow> known_source (get_prop row ''data_source'');
        Some \<lparr> mx_hostId = hostId, mx_hostDisplayName = displayName, mx_dataSource = source,
          mx_bucketSeconds = bucketSeconds, mx_points = minecraft_points (get_prop row ''points'') \<rparr>
      })"

definition getMinecraftMetricHistory ::
  "(string \<Rightarrow> string) \<Rightarrow> (string \<Rightarrow> jsval \<Rightarrow> jsval option) \<Rightarrow> history_range \<Rightarrow> minecraft_series list option" where
  "getMinecraftMetricHistory collate rpc rng =
     do {
       payload \<leftarrow> rpc ''get_minecraft_metric_history_v1'' (Obj [(''p_range'', Str (history_range_text rng))]);
       rows \<leftarrow> as_array payload;
       Some (sort_key (\<lambda>s. collate (mx_hostDisplayName s)) (List.map_filter minecraft_series_of rows))
     }"

section \<open>When the service is operational\<close>

definition container_runs :: "container_overview option \<Rightarrow> bool" where
  "container_runs container \<longleftrightarrow> (\<exists>c. container = Some c \<and> co_status c = CtOnline)"

lemma container_view_running:
  assumes "co_status (container_view now hosts expectations c) = CtOnline"
  shows "co_state (container_view now hosts expectations c) = RunningState \<and>
    \<not> co_oomKilled (container_view now hosts expectations c) \<and>
    \<not> co_maintenanceActive (container_view now hosts expectations c)"
  using assms
  by (auto simp: container_view_def Let_def determineContainerStatus_def split: if_splits option.splits expected_state.splits)

lemma container_view_running_states:
  assumes "co_state (container_view now hosts expectations c) = RunningState"
    "\<not> co_maintenanceActive (container_view now hosts expectations c)"
  shows "co_status (container_view now hosts expectations c) \<in> {CtOnline, CtStale, CtOffline, CtError}"
  using assms
  by (auto simp: container_view_def Let_def determineContainerStatus_def split: if_splits option.splits expected_state.splits)

lemma target_container_viewed:
  assumes "target_container (getMonitoringSnapshot collate now hosts beats samples expectations) name = Some c"
  shows "\<exists>row. c = container_view now hosts expectations row"
proof -
  from assms have "c \<in> set (ms_containers (getMonitoringSnapshot collate now hosts beats samples expectations))"
    by (auto simp: target_container_def find_Some_iff split: option.splits) (metis filter_is_subset nth_mem subsetD)
  then show ?thesis by (auto simp: getMonitoringSnapshot_def)
qed

lemma available_iff_runs:
  assumes "target_container (getMonitoringSnapshot collate now hosts beats samples expectations) name = c"
  shows "(\<not> holds_for co_maintenanceActive c \<and> \<not> containerIsUnavailable c \<and> \<not> holds_for (\<lambda>c. co_status c = CtStale) c)
    \<longleftrightarrow> container_runs c"
proof (cases c)
  case (Some v)
  with assms target_container_viewed obtain row where v: "v = container_view now hosts expectations row" by blast
  show ?thesis
    using container_view_running [of now hosts expectations row] container_view_running_states [of now hosts expectations row]
    unfolding Some v by (auto simp: container_runs_def holds_for_def containerIsUnavailable_def)
qed (simp add: container_runs_def containerIsUnavailable_def)

text \<open>On the monitoring snapshot that the console computes, the Minecraft service is operational exactly when
  there is a sample that is at most three minutes old, both endpoints were reachable, the proxy and voice
  ports are published and the backend port is not, and both containers are online; nothing else counts.\<close>

theorem minecraft_operational_iff:
  "mo_status (minecraft_overview_of (getMonitoringSnapshot collate now hosts beats samples expectations) sample)
     = MinecraftOperational \<longleftrightarrow>
   (\<exists>s age. sample = Some s \<and> sample_age (iso_text now) sample = Some age \<and> age \<le> 180 \<and>
      mc_public_reachable s \<and> mc_backend_reachable s \<and> mc_proxy_port_published s \<and>
      mc_voice_chat_port_published s \<and> \<not> mc_backend_port_published s \<and>
      container_runs (target_container (getMonitoringSnapshot collate now hosts beats samples expectations) ''ivrm-velocity'') \<and>
      container_runs (target_container (getMonitoringSnapshot collate now hosts beats samples expectations) ''mc-main''))"
proof -
  let ?m = "getMonitoringSnapshot collate now hosts beats samples expectations"
  have g: "ms_generatedAt ?m = iso_text now" by (simp add: getMonitoringSnapshot_def)
  show ?thesis
    unfolding available_iff_runs [OF refl, symmetric]
    by (cases sample; cases "sample_age (iso_text now) sample")
      (auto simp: minecraft_overview_of_def g Let_def determineMinecraftStatus_def MINECRAFT_STALE_SECONDS_def)
qed

lemma shown_to_readers:
  "minecraft_get session monitoring rows = MinecraftShown overview \<Longrightarrow> canReadConsoleDuringRollout session"
  by (auto simp: minecraft_get_def split: if_splits option.splits)

lemma minecraft_points_sorted:
  "sorted (map (\<lambda>p. ms_of (np_timestamp p)) (minecraft_points value)) \<and>
     (\<forall>p \<in> set (minecraft_points value). Date_parse (np_timestamp p) \<noteq> None)"
proof -
  have "Date_parse (np_timestamp p) \<noteq> None" if "minecraft_point_of item = Some p" for item p
    using that by (auto simp: minecraft_point_of_def Let_def split: if_splits option.splits)
  then show ?thesis
    by (auto simp: minecraft_points_def map_filter_def split: option.splits)
qed

end
