(* ===== verification/HistoryPage.thy ===== *)
theory HistoryPage
  imports Charts Minecraft
begin

text \<open>
  The history page (\<open>app/history/page.tsx\<close>): the series of every chart from the metric histories, the
  background regions each chart is given, and the period they share. The unit of the players chart, which is
  a Japanese word, is a parameter.
\<close>

section \<open>Series\<close>

definition line :: "string \<Rightarrow> string \<Rightarrow> ('p \<Rightarrow> string) \<Rightarrow> 'p list \<Rightarrow> ('p \<Rightarrow> rat option) \<Rightarrow> chart_series" where
  "line lid label time points selector =
     \<lparr> cr_id = lid, cr_label = label, cr_points = map (\<lambda>p. (time p, selector p)) points \<rparr>"

definition toKiBPerSecond :: "rat option \<Rightarrow> rat option" where
  "toKiBPerSecond v = map_option (\<lambda>q. q / 1024) v"

definition host_line :: "string \<Rightarrow> string \<Rightarrow> (host_history_point \<Rightarrow> rat option) \<Rightarrow> host_history_series \<Rightarrow> chart_series" where
  "host_line ending label selector item =
     line (hs_hostId item @ ending) (hs_hostDisplayName item @ label) hp_timestamp (hs_points item) selector"

definition hostLoadSeries :: "host_history_series list \<Rightarrow> chart_series list" where
  "hostLoadSeries history =
     concat (map (\<lambda>item.
       [host_line '':load1'' '' / Load 1m'' hp_loadAverage1 item, host_line '':load5'' '' / Load 5m'' hp_loadAverage5 item,
        host_line '':load15'' '' / Load 15m'' hp_loadAverage15 item]) history)"

definition hostMemorySeries :: "host_history_series list \<Rightarrow> chart_series list" where
  "hostMemorySeries = map (host_line '':memory'' [] hp_memoryPercent)"

definition hostDiskSeries :: "host_history_series list \<Rightarrow> chart_series list" where
  "hostDiskSeries = map (host_line '':disk'' [] hp_diskPercent)"

definition minecraft_line :: "string \<Rightarrow> string \<Rightarrow> (minecraft_point \<Rightarrow> rat option) \<Rightarrow> minecraft_series \<Rightarrow> chart_series" where
  "minecraft_line ending label selector item =
     line (mx_hostId item @ '':minecraft-'' @ ending) (mx_hostDisplayName item @ '' / '' @ label) np_timestamp
       (mx_points item) selector"

definition minecraftPlayerSeries :: "minecraft_series list \<Rightarrow> chart_series list" where
  "minecraftPlayerSeries history =
     concat (map (\<lambda>item.
       [minecraft_line ''public-online'' ''Public'' np_publicOnline item,
        minecraft_line ''backend-online'' ''Backend'' np_backendOnline item]) history)"

definition minecraftLatencySeries :: "minecraft_series list \<Rightarrow> chart_series list" where
  "minecraftLatencySeries history =
     concat (map (\<lambda>item.
       [minecraft_line ''public-latency'' ''Public'' np_publicLatencyMs item,
        minecraft_line ''backend-latency'' ''Backend'' np_backendLatencyMs item]) history)"

definition minecraftTpsSeries :: "minecraft_series list \<Rightarrow> chart_series list" where
  "minecraftTpsSeries history =
     concat (map (\<lambda>item.
       [minecraft_line ''tps-1m'' ''TPS 1m'' np_tps1m item, minecraft_line ''tps-5m'' ''TPS 5m'' np_tps5m item,
        minecraft_line ''tps-15m'' ''TPS 15m'' np_tps15m item]) history)"

definition minecraftMsptSeries :: "minecraft_series list \<Rightarrow> chart_series list" where
  "minecraftMsptSeries history =
     concat (map (\<lambda>item.
       [minecraft_line ''mspt-median'' ''Median'' np_msptMedian1m item,
        minecraft_line ''mspt-p95'' ''P95'' np_msptP95_1m item,
        minecraft_line ''mspt-max'' ''Max'' np_msptMax1m item]) history)"

definition containerLabel :: "string \<Rightarrow> string \<Rightarrow> string" where
  "containerLabel host container = container @ '' / '' @ host"

definition container_line ::
  "string \<Rightarrow> string \<Rightarrow> (container_history_point \<Rightarrow> rat option) \<Rightarrow> container_history_series \<Rightarrow> chart_series" where
  "container_line ending label selector item =
     line (ch_hostId item @ '':'' @ ch_containerName item @ '':'' @ ending)
       (containerLabel (ch_hostDisplayName item) (ch_containerName item) @ label) cp_timestamp (ch_points item) selector"

definition cpuSeries :: "container_history_series list \<Rightarrow> chart_series list" where
  "cpuSeries = map (container_line ''cpu'' [] cp_cpuPercent)"

definition memorySeries :: "container_history_series list \<Rightarrow> chart_series list" where
  "memorySeries = map (container_line ''memory'' [] cp_memoryPercent)"

definition pidsSeries :: "container_history_series list \<Rightarrow> chart_series list" where
  "pidsSeries = map (container_line ''pids'' [] cp_pids)"

definition restartSeries :: "container_history_series list \<Rightarrow> chart_series list" where
  "restartSeries = map (container_line ''restart'' [] cp_restartCount)"

definition networkSeries :: "container_history_series list \<Rightarrow> chart_series list" where
  "networkSeries history =
     concat (map (\<lambda>item.
       [container_line ''network-rx'' '' / RX'' (toKiBPerSecond \<circ> cp_networkRxRateBps) item,
        container_line ''network-tx'' '' / TX'' (toKiBPerSecond \<circ> cp_networkTxRateBps) item]) history)"

definition blockSeries :: "container_history_series list \<Rightarrow> chart_series list" where
  "blockSeries history =
     concat (map (\<lambda>item.
       [container_line ''block-read'' '' / Read'' (toKiBPerSecond \<circ> cp_blockReadRateBps) item,
        container_line ''block-write'' '' / Write'' (toKiBPerSecond \<circ> cp_blockWriteRateBps) item]) history)"

section \<open>Regions\<close>

definition MINECRAFT_CONTAINER_NAMES :: "string list" where
  "MINECRAFT_CONTAINER_NAMES = [''ivrm-velocity'', ''mc-main'']"

definition minecraftRegions :: "overlay_snapshot option \<Rightarrow> minecraft_series list \<Rightarrow> overlay_region list" where
  "minecraftRegions overlay history =
     (let hostIds = map mx_hostId history
      in case overlay of
           None \<Rightarrow> []
         | Some ov \<Rightarrow>
             filter (\<lambda>r. or_hostId r \<in> set hostIds) (ovs_hostRegions ov) @
             filter (\<lambda>r. or_hostId r \<in> set hostIds \<and>
                 (case or_containerName r of None \<Rightarrow> False | Some n \<Rightarrow> n \<in> set MINECRAFT_CONTAINER_NAMES))
               (ovs_containerRegions ov))"

definition hostRegions :: "overlay_snapshot option \<Rightarrow> overlay_region list" where
  "hostRegions overlay = (case overlay of None \<Rightarrow> [] | Some ov \<Rightarrow> ovs_hostRegions ov)"

definition containerRegions :: "overlay_snapshot option \<Rightarrow> overlay_region list" where
  "containerRegions overlay = (case overlay of None \<Rightarrow> [] | Some ov \<Rightarrow> ovs_hostRegions ov @ ovs_containerRegions ov)"

definition chart_region_of :: "overlay_region \<Rightarrow> chart_region" where
  "chart_region_of r =
     \<lparr> cg_id = or_id r, cg_startAt = or_startAt r, cg_endAt = or_endAt r, cg_label = or_label r, cg_kind = or_kind r \<rparr>"

section \<open>The page\<close>

record shared_props =
  sd_startAt :: string
  sd_endAt :: string
  sd_expectedIntervalSeconds :: int

definition history_chart ::
  "shared_props \<Rightarrow> overlay_region list \<Rightarrow> string \<Rightarrow> rat option \<Rightarrow> nat option \<Rightarrow> chart_series list \<Rightarrow> chart_input" where
  "history_chart shared regions unit limit digits series =
     \<lparr> cp_series = series, cp_startAt = sd_startAt shared, cp_endAt = sd_endAt shared,
       cp_expectedIntervalSeconds = sd_expectedIntervalSeconds shared, cp_unit = unit, cp_maximum = limit,
       cp_valueDigits = digits, cp_markers = [], cp_regions = map chart_region_of regions \<rparr>"

record history_sources =
  hy_host :: "host_history_series list option"
  hy_container :: "container_history_series list option"
  hy_minecraft :: "minecraft_series list option"
  hy_retention :: "retention_state option"
  hy_overlay :: "overlay_snapshot option"

record history_page =
  hg_range :: history_range
  hg_refreshMs :: int
  hg_minecraftCharts :: "chart_input list option"  \<comment> \<open>\<open>None\<close> is the panel that reports a failed source\<close>
  hg_hostCharts :: "chart_input list option"
  hg_containerCharts :: "chart_input list option"
  hg_hostSamples :: "int option"
  hg_containerSamples :: "int option"
  hg_minecraftSamples :: "int option"
  hg_performanceSamples :: int
  hg_retention :: "retention_state option"
  hg_retentionTone :: console_tone

definition or_empty :: "'a list option \<Rightarrow> 'a list" where
  \<comment> \<open>\<open>result.status === "fulfilled" ? result.value : []\<close>\<close>
  "or_empty v = (case v of None \<Rightarrow> [] | Some l \<Rightarrow> l)"

definition minecraft_charts :: "string \<Rightarrow> shared_props \<Rightarrow> overlay_region list \<Rightarrow> minecraft_series list \<Rightarrow> chart_input list" where
  "minecraft_charts people shared regions history =
     [history_chart shared regions people None (Some 1) (minecraftPlayerSeries history),
      history_chart shared regions '' ms'' None (Some 0) (minecraftLatencySeries history),
      history_chart shared regions [] None (Some 2) (minecraftTpsSeries history),
      history_chart shared regions '' ms'' None (Some 1) (minecraftMsptSeries history)]"

definition host_charts :: "shared_props \<Rightarrow> overlay_region list \<Rightarrow> host_history_series list \<Rightarrow> chart_input list" where
  "host_charts shared regions history =
     [history_chart shared regions [] None None (hostLoadSeries history),
      history_chart shared regions ''%'' (Some 100) None (hostMemorySeries history),
      history_chart shared regions ''%'' (Some 100) None (hostDiskSeries history)]"

definition container_charts :: "shared_props \<Rightarrow> overlay_region list \<Rightarrow> container_history_series list \<Rightarrow> chart_input list" where
  "container_charts shared regions history =
     [history_chart shared regions ''%'' None None (cpuSeries history),
      history_chart shared regions ''%'' (Some 100) None (memorySeries history),
      history_chart shared regions [] None (Some 0) (pidsSeries history),
      history_chart shared regions [] None (Some 0) (restartSeries history),
      history_chart shared regions '' KiB/s'' None None (networkSeries history),
      history_chart shared regions '' KiB/s'' None None (blockSeries history)]"

definition history_period :: "history_range \<Rightarrow> string \<Rightarrow> shared_props option" where
  \<comment> \<open>\<open>toISOString\<close> throws where the end is not a date\<close>
  "history_period rng chartEndAt = do {
     finish \<leftarrow> Date_parse chartEndAt;
     startAt \<leftarrow> Date_toISOString (finish - fst (history_range_config rng) * 60 * 60 * 1000);
     Some \<lparr> sd_startAt = startAt, sd_endAt = chartEndAt,
       sd_expectedIntervalSeconds = fst (snd (history_range_config rng)) \<rparr>
   }"

definition HistoryPage :: "string \<Rightarrow> query_param \<Rightarrow> int \<Rightarrow> (history_range \<Rightarrow> history_sources) \<Rightarrow> history_page option" where
  "HistoryPage people rangeParam now load =
     (let rng = parseHistoryRange (firstValue rangeParam);
          sources = load rng;
          overlay = hy_overlay sources;
          hosts = or_empty (hy_host sources);
          containers = or_empty (hy_container sources);
          minecraft = or_empty (hy_minecraft sources)
      in map_option (\<lambda>shared.
        \<lparr> hg_range = rng, hg_refreshMs = snd (snd (history_range_config rng)),
          hg_minecraftCharts = map_option (minecraft_charts people shared (minecraftRegions overlay minecraft)) (hy_minecraft sources),
          hg_hostCharts = map_option (host_charts shared (hostRegions overlay)) (hy_host sources),
          hg_containerCharts = map_option (container_charts shared (containerRegions overlay)) (hy_container sources),
          hg_hostSamples = map_option (\<lambda>h. \<Sum>item \<leftarrow> h. \<Sum>p \<leftarrow> hs_points item. hp_sampleCount p) (hy_host sources),
          hg_containerSamples = map_option (\<lambda>h. \<Sum>item \<leftarrow> h. \<Sum>p \<leftarrow> ch_points item. cp_sampleCount p) (hy_container sources),
          hg_minecraftSamples = map_option (\<lambda>h. \<Sum>item \<leftarrow> h. \<Sum>p \<leftarrow> mx_points item. np_sampleCount p) (hy_minecraft sources),
          hg_performanceSamples = (\<Sum>item \<leftarrow> minecraft. \<Sum>p \<leftarrow> mx_points item. np_performanceSampleCount p),
          hg_retention = hy_retention sources,
          hg_retentionTone = (case hy_retention sources of None \<Rightarrow> DangerUi
            | Some r \<Rightarrow> if rs_enabled r then SuccessUi else WarningUi) \<rparr>)
        (history_period rng (case overlay of None \<Rightarrow> iso_text now | Some ov \<Rightarrow> ovs_generatedAt ov)))"

section \<open>Every region reaches its chart\<close>

definition page_charts :: "history_page \<Rightarrow> chart_input list" where
  "page_charts page =
     or_empty (hg_minecraftCharts page) @ or_empty (hg_hostCharts page) @ or_empty (hg_containerCharts page)"

definition placed_region :: "chart_region \<Rightarrow> chart_region \<times> int \<times> int" where
  \<comment> \<open>the region with its own bounds, neither clipped nor moved\<close>
  "placed_region r = (r, ms_of (cg_startAt r), ms_of (cg_endAt r))"

lemma visible_regions_inside:
  assumes "\<forall>r \<in> set rs. span_ok lo hi r"
  shows "mset (visible_regions lo hi (map chart_region_of rs)) = mset (map placed_region (map chart_region_of rs))"
proof -
  let ?clip = "\<lambda>r. case (Date_parse (cg_startAt r), Date_parse (cg_endAt r)) of
    (Some s, Some e) \<Rightarrow> Some (r, max s lo, min e hi) | _ \<Rightarrow> None"
  have keep: "?clip (chart_region_of r) = Some (placed_region (chart_region_of r)) \<and>
      snd (snd (placed_region (chart_region_of r))) > fst (snd (placed_region (chart_region_of r)))"
    if "span_ok lo hi r" for r
    using that by (auto simp: span_ok_def chart_region_of_def placed_region_def ms_of_def)
  have "filter (\<lambda>r. snd (snd r) > fst (snd r)) (List.map_filter ?clip (map chart_region_of xs)) =
      map placed_region (map chart_region_of xs)" if "\<forall>r \<in> set xs. span_ok lo hi r" for xs
    using that
  proof (induction xs)
    case (Cons x xs)
    then show ?case using keep [of x] by (simp add: List.map_filter_simps)
  qed (simp add: List.map_filter_simps)
  with assms show ?thesis by (simp add: visible_regions_def)
qed

definition chart_given :: "shared_props \<Rightarrow> overlay_region list \<Rightarrow> chart_input \<Rightarrow> bool" where
  "chart_given shared regions c \<longleftrightarrow>
     cp_startAt c = sd_startAt shared \<and> cp_endAt c = sd_endAt shared \<and>
     (\<exists>rs. set rs \<subseteq> set regions \<and> cp_regions c = map chart_region_of rs)"

lemma history_chart_given: "set rs \<subseteq> set regions \<Longrightarrow> chart_given shared regions (history_chart shared rs u m d s)"
  by (auto simp: chart_given_def history_chart_def)

lemma region_lists_subset:
  "set (minecraftRegions overlay history) \<subseteq> set (containerRegions overlay)"
  "set (hostRegions overlay) \<subseteq> set (containerRegions overlay)"
  by (auto simp: minecraftRegions_def hostRegions_def containerRegions_def Let_def split: option.splits)

lemma charts_given:
  "c \<in> set (minecraft_charts people shared rs m) \<Longrightarrow> set rs \<subseteq> set regions \<Longrightarrow> chart_given shared regions c"
  "c \<in> set (host_charts shared rs h) \<Longrightarrow> set rs \<subseteq> set regions \<Longrightarrow> chart_given shared regions c"
  "c \<in> set (container_charts shared rs k) \<Longrightarrow> set rs \<subseteq> set regions \<Longrightarrow> chart_given shared regions c"
  by (auto simp: minecraft_charts_def host_charts_def container_charts_def intro: history_chart_given)

lemma or_empty_map: "c \<in> set (or_empty (map_option f x)) \<longleftrightarrow> (\<exists>y. x = Some y \<and> c \<in> set (f y))"
  by (cases x) (auto simp: or_empty_def)

lemma page_charts_given:
  assumes "HistoryPage people param now load = Some page" and "c \<in> set (page_charts page)"
  obtains rng shared where "rng = parseHistoryRange (firstValue param)"
    "history_period rng (case hy_overlay (load rng) of None \<Rightarrow> iso_text now | Some ov \<Rightarrow> ovs_generatedAt ov) = Some shared"
    "chart_given shared (containerRegions (hy_overlay (load rng))) c"
proof -
  let ?rng = "parseHistoryRange (firstValue param)"
  from assms(1) obtain shared where s: "history_period ?rng (case hy_overlay (load ?rng) of None \<Rightarrow> iso_text now
      | Some ov \<Rightarrow> ovs_generatedAt ov) = Some shared"
    by (auto simp: HistoryPage_def Let_def)
  have "chart_given shared (containerRegions (hy_overlay (load ?rng))) c"
    using assms s
    by (auto simp: HistoryPage_def Let_def page_charts_def or_empty_map
        dest: charts_given(1) [OF _ region_lists_subset(1)] charts_given(2) [OF _ region_lists_subset(2)]
          charts_given(3) [OF _ subset_refl])
  with s that show ?thesis by blast
qed

lemma history_period_parsed:
  assumes "history_period rng e = Some shared"
  obtains hi where "Date_parse e = Some hi" "sd_endAt shared = e"
    "Date_parse (sd_startAt shared) = Some (hi - fst (history_range_config rng) * 3600000)"
  using assms
  by (auto simp: history_period_def bind_eq_Some_conv Date_toISOString_def mult.commute split: if_splits)

text \<open>The page and the overlays agree on the period: every background region that is computed for a chart is
  drawn in it, with its own beginning and end; none is dropped, clipped or moved.\<close>

theorem regions_reach_their_charts:
  assumes "inj collate"
    and "\<And>rng. hy_overlay (load rng) = getHistoryStatusOverlays collate monitoring feeds rng"
    and "HistoryPage people param now load = Some page" and "c \<in> set (page_charts page)"
  shows "\<exists>lo hi. Date_parse (cp_startAt c) = Some lo \<and> Date_parse (cp_endAt c) = Some hi \<and>
    mset (visible_regions lo hi (cp_regions c)) = mset (map placed_region (cp_regions c))"
proof -
  obtain rng shared where period: "history_period rng (case hy_overlay (load rng) of None \<Rightarrow> iso_text now
      | Some ov \<Rightarrow> ovs_generatedAt ov) = Some shared" and c: "chart_given shared (containerRegions (hy_overlay (load rng))) c"
    using page_charts_given [OF assms(3,4)] by blast
  obtain hi where hi: "Date_parse (sd_endAt shared) = Some hi"
      "Date_parse (sd_startAt shared) = Some (hi - fst (history_range_config rng) * 3600000)"
    using history_period_parsed [OF period] by metis
  let ?lo = "hi - fst (history_range_config rng) * 3600000"
  have "\<forall>r \<in> set (containerRegions (hy_overlay (load rng))). span_ok ?lo hi r"
  proof (cases "hy_overlay (load rng)")
    case (Some s)
    with assms(2) have "getHistoryStatusOverlays collate monitoring feeds rng = Some s" by simp
    then obtain hi' where "Date_parse (ovs_generatedAt s) = Some hi'"
        "overlay_ok (hi' - fst (history_range_config rng) * 3600000) hi' (ovs_hostRegions s)"
        "overlay_ok (hi' - fst (history_range_config rng) * 3600000) hi' (ovs_containerRegions s)"
      using overlay_lists_ok [OF assms(1)] by metis
    moreover from this have "hi' = hi"
      using hi(1) history_period_parsed [OF period] Some by (metis option.inject option.simps(5))
    ultimately show ?thesis by (auto simp: Some containerRegions_def overlay_ok_def)
  qed (simp add: containerRegions_def)
  moreover obtain rs where rs: "set rs \<subseteq> set (containerRegions (hy_overlay (load rng)))" "cp_regions c = map chart_region_of rs"
      "cp_startAt c = sd_startAt shared" "cp_endAt c = sd_endAt shared"
    using c by (auto simp: chart_given_def)
  ultimately have "\<forall>r \<in> set rs. span_ok ?lo hi r" by blast
  from visible_regions_inside [OF this] hi rs show ?thesis by auto
qed

definition sample_history_sources :: "history_range \<Rightarrow> history_sources" where
  "sample_history_sources rng =
     \<lparr> hy_host = Some [], hy_container = None, hy_minecraft = None, hy_retention = None,
       hy_overlay = getHistoryStatusOverlays id (Some sample_snapshot) sample_overlay_feeds rng \<rparr>"

lemma overlay_has_period:
  "getHistoryStatusOverlays collate monitoring feeds rng = Some s \<Longrightarrow>
     \<exists>shared. history_period rng (ovs_generatedAt s) = Some shared"
  by (auto simp: getHistoryStatusOverlays_def history_period_def bind_eq_Some_conv Let_def)

lemma sample_history_shown:
  "\<exists>page c. HistoryPage [] Absent 0 sample_history_sources = Some page \<and> c \<in> set (page_charts page)"
proof -
  obtain s where s: "getHistoryStatusOverlays id (Some sample_snapshot) sample_overlay_feeds History24h = Some s"
    using sample_overlays by blast
  obtain shared where "history_period History24h (ovs_generatedAt s) = Some shared"
    using overlay_has_period [OF s] by blast
  then show ?thesis
    by (auto simp: HistoryPage_def sample_history_sources_def firstValue_def parseHistoryRange_def nonempty_def s Let_def
        page_charts_def or_empty_def host_charts_def)
qed

theorem regions_reach_their_charts_witness:
  "\<exists>page c lo hi. HistoryPage [] Absent 0 sample_history_sources = Some page \<and> c \<in> set (page_charts page) \<and>
     mset (visible_regions lo hi (cp_regions c)) = mset (map placed_region (cp_regions c))"
proof -
  obtain page c where p: "HistoryPage [] Absent 0 sample_history_sources = Some page" "c \<in> set (page_charts page)"
    using sample_history_shown by blast
  have "hy_overlay (sample_history_sources rng) = getHistoryStatusOverlays id (Some sample_snapshot) sample_overlay_feeds rng"
    for rng by (simp add: sample_history_sources_def)
  from regions_reach_their_charts [OF inj_on_id this p] p show ?thesis by blast
qed

end
