(* ===== verification/Inventory.thy ===== *)
theory Inventory
  imports Minecraft
begin

text \<open>
  The infrastructure inventory (\<open>lib/inventory.ts\<close>): the hosts and containers of the monitoring snapshot with
  what the inventory adds to them, the network services of the Minecraft installation, and the totals. The
  helpers of its page (\<open>app/inventory/inventory-format.ts\<close>) that compute an amount or a tone are here too.
  Display notes are constructors of \<open>service_note\<close>; the labels of the roles are kept.
\<close>

section \<open>Data\<close>

datatype inventory_view = AllView | AttentionView

datatype agent_capability = CurrentAgent | UpgradeRecommended | UnknownAgent

datatype inventory_role = ProxyRole | BackendRole | ResourceRole | RouterRole | OtherRole

record inventory_container =
  nc_container :: container_overview
  nc_role :: inventory_role
  nc_roleLabel :: string
  nc_managed :: bool
  nc_needsAttention :: bool
  nc_detailHref :: string

record inventory_host =
  nh_host :: host_overview
  nh_agentCapability :: agent_capability
  nh_containers :: "inventory_container list"
  nh_managedContainerCount :: nat
  nh_needsAttention :: bool
  nh_detailHref :: string

datatype network_protocol = TcpService | UdpService

datatype network_exposure = PublicService | InternalService

datatype network_status = ReadyService | BlockedService | UnknownService | AttentionService

datatype service_note =
    ProbeMissing | PortUnconfirmed | BackendProbeMissing | ProxyUnpublished | PublicUnreachable
  | PublicVersion string | VersionMissing | UdpConfirmed | NotExposed | BackendExposed

record network_service =
  nv_id :: string
  nv_name :: string
  nv_endpoint :: string
  nv_protocol :: network_protocol
  nv_exposure :: network_exposure
  nv_status :: network_status
  nv_note :: service_note

record inventory_summary =
  nu_hostCount :: nat
  nu_containerCount :: nat
  nu_attentionCount :: nat
  nu_unmanagedContainerCount :: nat
  nu_maintenanceCount :: nat
  nu_agentUpgradeRecommendedCount :: nat
  nu_cpuCoreCount :: "rat option"
  nu_cpuCapacityComplete :: bool
  nu_memoryTotalBytes :: "rat option"
  nu_memoryCapacityComplete :: bool
  nu_diskTotalBytes :: "rat option"
  nu_diskCapacityComplete :: bool

record inventory =
  ny_generatedAt :: string
  ny_view :: inventory_view
  ny_minecraftDataAvailable :: bool
  ny_hosts :: "inventory_host list"
  ny_services :: "network_service list"
  ny_summary :: inventory_summary

definition parseInventoryView :: "string option \<Rightarrow> inventory_view" where
  "parseInventoryView v = (if v = Some ''attention'' then AttentionView else AllView)"

section \<open>Agents\<close>

definition digits_then :: "string \<Rightarrow> (nat \<times> string) option" where
  \<comment> \<open>\<open>(\d+)\<close>, greedy, with the rest of the text\<close>
  "digits_then s =
     (let d = takeWhile is_digit s in if d = [] then None else Some (dec_val d, dropWhile is_digit s))"

definition dot_then :: "string \<Rightarrow> string option" where
  "dot_then s = (case s of [] \<Rightarrow> None | c # r \<Rightarrow> if c = CHR ''.'' then Some r else None)"

definition version_suffix :: "string \<Rightarrow> bool" where
  \<comment> \<open>\<open>(?:[-+].*)?$\<close>: nothing, or a sign and no line terminator after it\<close>
  "version_suffix s =
     (case s of [] \<Rightarrow> True
      | c # r \<Rightarrow> (c = CHR ''-'' \<or> c = CHR ''+'') \<and> list_all (\<lambda>x. x \<noteq> CHR 0x0A \<and> x \<noteq> CHR 0x0D) r)"

definition versionParts :: "string option \<Rightarrow> (nat \<times> nat \<times> nat) option" where
  "versionParts version = do {
     v \<leftarrow> nonempty version;
     (major, r1) \<leftarrow> digits_then v;
     r2 \<leftarrow> dot_then r1;
     (minor, r3) \<leftarrow> digits_then r2;
     r4 \<leftarrow> dot_then r3;
     (patch, r5) \<leftarrow> digits_then r4;
     if version_suffix r5 then Some (major, minor, patch) else None
   }"

definition agentCapability :: "string option \<Rightarrow> agent_capability" where
  "agentCapability version =
     (case versionParts version of
        None \<Rightarrow> UnknownAgent
      | Some (major, minor, patch) \<Rightarrow> if major > 0 \<or> minor \<ge> 5 then CurrentAgent else UpgradeRecommended)"

section \<open>Containers\<close>

definition workload_role :: "string \<Rightarrow> inventory_role \<times> string" where
  "workload_role name =
     (if name = ''ivrm-velocity'' then (ProxyRole, ''Minecraft Proxy'')
      else if name = ''mc-main'' then (BackendRole, ''Minecraft Backend'')
      else if name = ''mc-resource'' then (ResourceRole, ''Resource Server'')
      else if name = ''mc-resource-router'' then (RouterRole, ''Resource Router'')
      else (OtherRole, ''Other Workload''))"

definition ATTENTION_CONTAINER_STATUSES :: "container_status list" where
  "ATTENTION_CONTAINER_STATUSES = [CtError, CtStale, CtOffline]"

definition inventoryContainer :: "container_overview \<Rightarrow> string \<Rightarrow> inventory_container" where
  "inventoryContainer container serverId =
     (let workload = workload_role (co_name container);
          managed = co_expectedState container \<noteq> None
      in \<lparr> nc_container = container, nc_role = fst workload, nc_roleLabel = snd workload, nc_managed = managed,
           nc_needsAttention = (co_status container \<in> set ATTENTION_CONTAINER_STATUSES \<or> \<not> managed),
           nc_detailHref = ''/containers/'' @ encodeURIComponent serverId @ ''/'' @
             encodeURIComponent (co_name container) \<rparr>)"

definition serverIdByHost :: "monitoring_snapshot \<Rightarrow> (string \<times> string) list" where
  "serverIdByHost monitoring =
     foldl (\<lambda>m host. map_set (ho_id host) (ho_serverId host) m) [] (ms_hosts monitoring)"

definition placed_containers :: "monitoring_snapshot \<Rightarrow> (string \<times> inventory_container) list" where
  \<comment> \<open>the containers of the loop that are not skipped, with the host they are filed under\<close>
  "placed_containers monitoring =
     List.map_filter (\<lambda>container.
       map_option (\<lambda>serverId. (co_hostId container, inventoryContainer container serverId))
         (nonempty (map_of (serverIdByHost monitoring) (co_hostId container)))) (ms_containers monitoring)"

definition containersByHost :: "monitoring_snapshot \<Rightarrow> string \<Rightarrow> inventory_container list" where
  "containersByHost monitoring hostId =
     (case map_of (group_by fst (placed_containers monitoring)) hostId of
        None \<Rightarrow> [] | Some found \<Rightarrow> map snd found)"

section \<open>Hosts\<close>

definition managed_count :: "inventory_container list \<Rightarrow> nat" where
  "managed_count containers = length (filter nc_managed containers)"

definition inventoryHost :: "monitoring_snapshot \<Rightarrow> host_overview \<Rightarrow> inventory_host" where
  "inventoryHost monitoring host =
     (let containers = containersByHost monitoring (ho_id host);
          capability = agentCapability (ho_agentVersion host)
      in \<lparr> nh_host = host, nh_agentCapability = capability, nh_containers = containers,
           nh_managedContainerCount = managed_count containers,
           nh_needsAttention = (ho_status host \<noteq> HostOnline \<or> capability \<noteq> CurrentAgent \<or>
             list_ex nc_needsAttention containers),
           nh_detailHref = ''/hosts/'' @ encodeURIComponent (ho_serverId host) \<rparr>)"

definition allHosts :: "monitoring_snapshot \<Rightarrow> inventory_host list" where
  "allHosts monitoring = map (inventoryHost monitoring) (ms_hosts monitoring)"

definition attention_host :: "inventory_host \<Rightarrow> inventory_host" where
  "attention_host host =
     (let containers = filter nc_needsAttention (nh_containers host)
      in host \<lparr> nh_containers := containers, nh_managedContainerCount := managed_count containers \<rparr>)"

definition hosts_in_view :: "inventory_view \<Rightarrow> inventory_host list \<Rightarrow> inventory_host list" where
  "hosts_in_view view hosts =
     (if view = AttentionView then map attention_host (filter nh_needsAttention hosts) else hosts)"

section \<open>Services\<close>

definition minecraftServiceStatus :: "minecraft_status \<Rightarrow> network_status" where
  "minecraftServiceStatus status =
     (if status = MinecraftOperational \<or> status = MinecraftMaintenance then ReadyService
      else if status = MinecraftUnknown then UnknownService else AttentionService)"

definition minecraft_service ::
  "string \<Rightarrow> string \<Rightarrow> string \<Rightarrow> network_protocol \<Rightarrow> network_exposure \<Rightarrow> network_status \<Rightarrow> service_note \<Rightarrow> network_service" where
  "minecraft_service sid name endpoint protocol exposure status note =
     \<lparr> nv_id = sid, nv_name = name, nv_endpoint = endpoint, nv_protocol = protocol, nv_exposure = exposure,
       nv_status = status, nv_note = note \<rparr>"

definition public_note :: "minecraft_overview \<Rightarrow> service_note" where
  "public_note m =
     (if \<not> mo_proxyPortPublished m then ProxyUnpublished
      else if \<not> me_reachable (mo_publicEndpoint m) then PublicUnreachable
      else (case me_version (mo_publicEndpoint m) of None \<Rightarrow> VersionMissing | Some v \<Rightarrow> PublicVersion v))"

definition servicesFromMinecraft :: "minecraft_overview option \<Rightarrow> network_service list" where
  "servicesFromMinecraft minecraft =
     (case minecraft of
        None \<Rightarrow>
          [minecraft_service ''minecraft-public'' ''Minecraft Public'' ''mc.ivrm.jp:25565'' TcpService PublicService
             UnknownService ProbeMissing,
           minecraft_service ''minecraft-voice'' ''Simple Voice Chat'' ''mc.ivrm.jp:24454'' UdpService PublicService
             UnknownService PortUnconfirmed,
           minecraft_service ''minecraft-backend'' ''Minecraft Backend'' ''mc-main:25565'' TcpService InternalService
             UnknownService BackendProbeMissing]
      | Some m \<Rightarrow>
          [minecraft_service ''minecraft-public'' ''Minecraft Public'' ''mc.ivrm.jp:25565'' TcpService PublicService
             (if mo_proxyPortPublished m \<and> me_reachable (mo_publicEndpoint m)
              then minecraftServiceStatus (mo_status m) else AttentionService)
             (public_note m),
           minecraft_service ''minecraft-voice'' ''Simple Voice Chat'' ''mc.ivrm.jp:24454'' UdpService PublicService
             (if mo_voiceChatPublished m then ReadyService else AttentionService)
             (if mo_voiceChatPublished m then UdpConfirmed else PortUnconfirmed),
           minecraft_service ''minecraft-backend'' ''Minecraft Backend'' ''mc-main:25565'' TcpService InternalService
             (if mo_backendDirectAccessBlocked m
              then (if me_reachable (mo_backendProbe m) then ReadyService else AttentionService)
              else AttentionService)
             (if mo_backendDirectAccessBlocked m then NotExposed else BackendExposed)])"

section \<open>The inventory\<close>

definition knownTotal :: "rat option list \<Rightarrow> rat option \<times> bool" where
  "knownTotal vs =
     (if vs = [] then (Some 0, True)
      else (let known = List.map_filter (\<lambda>v. v) vs
            in (if known \<noteq> [] then Some (foldl (+) 0 known) else None, length known = length vs)))"

definition MINECRAFT_FRESH_SECONDS :: int where
  "MINECRAFT_FRESH_SECONDS = 180"

definition minecraft_fresh :: "minecraft_overview option \<Rightarrow> bool" where
  "minecraft_fresh minecraft \<longleftrightarrow>
     (case minecraft of
        None \<Rightarrow> False
      | Some m \<Rightarrow> mo_status m \<noteq> MinecraftUnknown \<and> nonempty (mo_checkedAt m) \<noteq> None \<and>
          (case mo_ageSeconds m of None \<Rightarrow> False | Some a \<Rightarrow> a \<le> MINECRAFT_FRESH_SECONDS))"

definition inventory_summary_of :: "inventory_host list \<Rightarrow> inventory_summary" where
  "inventory_summary_of hosts =
     (let containers = concat (map nh_containers hosts);
          cpu = knownTotal (map (ho_cpuCount \<circ> nh_host) hosts);
          memory = knownTotal (map (ho_memoryTotalBytes \<circ> nh_host) hosts);
          disk = knownTotal (map (ho_diskTotalBytes \<circ> nh_host) hosts)
      in \<lparr> nu_hostCount = length hosts, nu_containerCount = length containers,
           nu_attentionCount = length (filter nh_needsAttention hosts) + length (filter nc_needsAttention containers),
           nu_unmanagedContainerCount = length (filter (\<lambda>c. \<not> nc_managed c) containers),
           nu_maintenanceCount = length (filter (\<lambda>c. co_maintenanceActive (nc_container c)) containers),
           nu_agentUpgradeRecommendedCount = length (filter (\<lambda>h. nh_agentCapability h = UpgradeRecommended) hosts),
           nu_cpuCoreCount = fst cpu, nu_cpuCapacityComplete = snd cpu,
           nu_memoryTotalBytes = fst memory, nu_memoryCapacityComplete = snd memory,
           nu_diskTotalBytes = fst disk, nu_diskCapacityComplete = snd disk \<rparr>)"

definition getInfrastructureInventory ::
  "inventory_view \<Rightarrow> monitoring_snapshot option \<Rightarrow> minecraft_sample list option \<Rightarrow> inventory option" where
  \<comment> \<open>the monitoring snapshot and the sample rows, \<open>None\<close> for a rejected promise; only the former is rethrown\<close>
  "getInfrastructureInventory view snapshot rows =
     map_option (\<lambda>monitoring.
       let minecraft = getMinecraftOverview (Some monitoring) rows;
           hosts = allHosts monitoring
       in \<lparr> ny_generatedAt = ms_generatedAt monitoring, ny_view = view,
            ny_minecraftDataAvailable = minecraft_fresh minecraft, ny_hosts = hosts_in_view view hosts,
            ny_services = servicesFromMinecraft (if minecraft_fresh minecraft then minecraft else None),
            ny_summary = inventory_summary_of hosts \<rparr>) snapshot"

section \<open>Amounts of the page\<close>

definition memoryUsed :: "host_overview \<Rightarrow> rat option" where
  "memoryUsed host =
     (case (ho_memoryTotalBytes host, ho_memoryAvailableBytes host) of
        (Some whole, Some free) \<Rightarrow> Some (max 0 (whole - free)) | _ \<Rightarrow> None)"

definition diskUsed :: "host_overview \<Rightarrow> rat option" where
  "diskUsed host =
     (case (ho_diskTotalBytes host, ho_diskAvailableBytes host) of
        (Some whole, Some free) \<Rightarrow> Some (max 0 (whole - free)) | _ \<Rightarrow> None)"

datatype status_tone = GoodTone | WarnTone | BadTone | UnknownTone

definition statusClass :: "string \<Rightarrow> status_tone" where
  "statusClass status =
     (if status \<in> set [''online'', ''ready'', ''standby''] then GoodTone
      else if status \<in> set [''maintenance'', ''stale''] then WarnTone
      else if status \<in> set [''error'', ''offline'', ''attention''] then BadTone else UnknownTone)"

section \<open>Each container is listed once\<close>

lemma map_of_serverIdByHost:
  assumes "distinct (map ho_id (ms_hosts monitoring))"
  shows "map_of (serverIdByHost monitoring) = map_of (map (\<lambda>h. (ho_id h, ho_serverId h)) (ms_hosts monitoring))"
proof -
  have "map_of (foldl (\<lambda>m h. map_set (ho_id h) (ho_serverId h) m) [] hs) =
      map_of (map (\<lambda>h. (ho_id h, ho_serverId h)) hs)" if "distinct (map ho_id hs)" for hs
    using that
  proof (induction hs rule: rev_induct)
    case (snoc h hs)
    then have "map_of (map (\<lambda>h. (ho_id h, ho_serverId h)) hs) (ho_id h) = None"
      by (auto simp: map_of_eq_None_iff image_iff)
    with snoc show ?case by (auto simp: update_conv' map_add_def split: option.splits)
  qed simp
  then show ?thesis using assms by (simp add: serverIdByHost_def)
qed

definition reported_container :: "monitoring_snapshot \<Rightarrow> container_overview \<Rightarrow> bool" where
  "reported_container monitoring c \<longleftrightarrow>
     (\<exists>h \<in> set (ms_hosts monitoring). ho_id h = co_hostId c \<and> ho_serverId h \<noteq> [])"

lemma server_lookup:
  assumes "distinct (map ho_id (ms_hosts monitoring))"
  shows "nonempty (map_of (serverIdByHost monitoring) k) = Some s \<longleftrightarrow>
    (\<exists>h \<in> set (ms_hosts monitoring). ho_id h = k \<and> ho_serverId h = s \<and> s \<noteq> [])"
proof -
  have d: "distinct (map fst (map (\<lambda>h. (ho_id h, ho_serverId h)) (ms_hosts monitoring)))"
    using assms by (simp add: o_def)
  have "nonempty x = Some s \<longleftrightarrow> x = Some s \<and> s \<noteq> []" for x
    by (auto simp: nonempty_def split: option.splits)
  then show ?thesis
    by (auto simp: map_of_serverIdByHost [OF assms] map_of_eq_Some_iff [OF d])
qed

lemma containersByHost_filter:
  "containersByHost monitoring k = map snd (filter (\<lambda>p. fst p = k) (placed_containers monitoring))"
  by (auto simp: containersByHost_def map_of_group_by image_iff filter_empty_conv split: option.splits if_splits)

lemma placed_under_reported_host:
  assumes "distinct (map ho_id (ms_hosts monitoring))"
    and "p \<in> set (placed_containers monitoring)"
  shows "fst p \<in> set (map ho_id (ms_hosts monitoring))"
proof -
  from assms(2) obtain c s where "nonempty (map_of (serverIdByHost monitoring) (co_hostId c)) = Some s"
      "p = (co_hostId c, inventoryContainer c s)"
    by (auto simp: placed_containers_def set_map_filter)
  then show ?thesis by (auto simp: server_lookup [OF assms(1)] intro: rev_image_eqI)
qed

lemma concat_filter_keys:
  assumes "distinct ks" and "\<forall>p \<in> set xs. f p \<in> set ks"
  shows "mset (concat (map (\<lambda>k. filter (\<lambda>p. f p = k) xs) ks)) = mset xs"
  using assms
proof (induction ks arbitrary: xs)
  case (Cons k ks)
  let ?rest = "filter (\<lambda>p. f p \<noteq> k) xs"
  have "filter (\<lambda>p. f p = j) xs = filter (\<lambda>p. f p = j) ?rest" if "j \<in> set ks" for j
    using that Cons.prems(1) by (auto intro!: filter_cong)
  then have eq: "map (\<lambda>j. filter (\<lambda>p. f p = j) xs) ks = map (\<lambda>j. filter (\<lambda>p. f p = j) ?rest) ks"
    by (intro map_cong) simp_all
  have "mset (concat (map (\<lambda>j. filter (\<lambda>p. f p = j) ?rest) ks)) = mset ?rest"
    using Cons.prems by (intro Cons.IH) auto
  then show ?case
    unfolding list.map concat.simps mset_append eq
    by (simp add: multiset_partition [of "mset xs" "\<lambda>p. f p = k", symmetric])
qed simp

lemma placed_containers_kept:
  assumes "distinct (map ho_id (ms_hosts monitoring))"
  shows "map (nc_container \<circ> snd) (placed_containers monitoring) =
    filter (reported_container monitoring) (ms_containers monitoring)"
proof -
  let ?sid = "\<lambda>c. nonempty (map_of (serverIdByHost monitoring) (co_hostId c))"
  have known: "?sid c \<noteq> None \<longleftrightarrow> reported_container monitoring c" for c
    using server_lookup [OF assms, of "co_hostId c"] by (auto simp: reported_container_def)
  have "map (nc_container \<circ> snd) (List.map_filter (\<lambda>c. map_option (\<lambda>s. (co_hostId c, inventoryContainer c s)) (?sid c)) cs) =
      filter (\<lambda>c. ?sid c \<noteq> None) cs" for cs
    by (induction cs) (auto simp: List.map_filter_simps inventoryContainer_def Let_def split: option.splits)
  then show ?thesis unfolding placed_containers_def known .
qed

lemma containers_of_allHosts:
  "concat (map nh_containers (allHosts monitoring)) =
     map snd (concat (map (\<lambda>k. filter (\<lambda>p. fst p = k) (placed_containers monitoring)) (map ho_id (ms_hosts monitoring))))"
  by (simp add: allHosts_def inventoryHost_def Let_def containersByHost_filter map_concat o_def)

text \<open>When no two hosts share an identifier, the inventory of all hosts lists exactly the containers of the
  monitoring snapshot whose host is reported and has a server name, each one once.\<close>

theorem inventory_lists_each_container_once:
  assumes "distinct (map ho_id (ms_hosts monitoring))"
    and "getInfrastructureInventory AllView (Some monitoring) rows = Some i"
  shows "mset (map nc_container (concat (map nh_containers (ny_hosts i)))) =
    mset (filter (reported_container monitoring) (ms_containers monitoring))"
proof -
  from assms(2) have "ny_hosts i = allHosts monitoring"
    by (auto simp: getInfrastructureInventory_def hosts_in_view_def Let_def)
  moreover have "mset (concat (map (\<lambda>k. filter (\<lambda>p. fst p = k) (placed_containers monitoring))
      (map ho_id (ms_hosts monitoring)))) = mset (placed_containers monitoring)"
    using assms(1) placed_under_reported_host by (intro concat_filter_keys) blast+
  ultimately have "mset (map nc_container (concat (map nh_containers (ny_hosts i)))) =
      mset (map (nc_container \<circ> snd) (placed_containers monitoring))"
    by (simp only: containers_of_allHosts map_map mset_map o_assoc)
  then show ?thesis by (simp only: placed_containers_kept [OF assms(1)])
qed

definition sample_monitoring :: monitoring_snapshot where
  "sample_monitoring =
     getMonitoringSnapshot id 0
       [\<lparr> hr_id = ''h1'', hr_server_id = ''oci-1'', hr_display_name = ''OCI'', hr_provider = ''oci'',
          hr_environment = ''production'', hr_enabled = True \<rparr>] [] [] []"

theorem inventory_lists_each_container_once_witness:
  "\<exists>i. getInfrastructureInventory AllView (Some sample_monitoring) None = Some i \<and>
     mset (map nc_container (concat (map nh_containers (ny_hosts i)))) =
       mset (filter (reported_container sample_monitoring) (ms_containers sample_monitoring))"
proof -
  have d: "distinct (map ho_id (ms_hosts sample_monitoring))"
    by (simp add: sample_monitoring_def getMonitoringSnapshot_def host_view_def Let_def)
  obtain i where i: "getInfrastructureInventory AllView (Some sample_monitoring) None = Some i"
    by (simp add: getInfrastructureInventory_def)
  from inventory_lists_each_container_once [OF d i] i show ?thesis by blast
qed

section \<open>The attention view\<close>

lemma calm_host_has_calm_containers:
  "h \<in> set (allHosts monitoring) \<Longrightarrow> \<not> nh_needsAttention h \<Longrightarrow> filter nc_needsAttention (nh_containers h) = []"
  by (auto simp: allHosts_def inventoryHost_def Let_def list_ex_iff filter_empty_conv)

lemma attention_total:
  assumes "\<forall>h \<in> set hs. \<not> nh_needsAttention h \<longrightarrow> filter nc_needsAttention (nh_containers h) = []"
  shows "length (filter nh_needsAttention hs) + length (filter nc_needsAttention (concat (map nh_containers hs))) =
    (\<Sum>h \<leftarrow> map attention_host (filter nh_needsAttention hs). 1 + length (nh_containers h))"
  using assms by (induction hs) (auto simp: attention_host_def Let_def)

text \<open>Whatever view is asked for, the number of things that need attention in the summary is the number of
  rows that the attention view shows: its hosts and, under them, its containers. No container that needs
  attention is hidden with its host.\<close>

theorem attention_count_is_what_the_view_shows:
  "map_option (\<lambda>i. nu_attentionCount (ny_summary i)) (getInfrastructureInventory view snapshot rows) =
   map_option (\<lambda>i. \<Sum>h \<leftarrow> ny_hosts i. 1 + length (nh_containers h))
     (getInfrastructureInventory AttentionView snapshot rows)"
proof (cases snapshot)
  case (Some monitoring)
  have "\<forall>h \<in> set (allHosts monitoring). \<not> nh_needsAttention h \<longrightarrow> filter nc_needsAttention (nh_containers h) = []"
    using calm_host_has_calm_containers by blast
  from attention_total [OF this] show ?thesis
    by (simp add: Some getInfrastructureInventory_def Let_def inventory_summary_of_def hosts_in_view_def)
qed (simp add: getInfrastructureInventory_def)

lemma knownTotal_complete:
  "snd (knownTotal vs) \<Longrightarrow> fst (knownTotal vs) = Some (sum_list (map the vs)) \<and> None \<notin> set vs"
proof -
  assume c: "snd (knownTotal vs)"
  have le: "length (List.map_filter (\<lambda>v. v) ws) \<le> length ws" for ws :: "rat option list"
    by (induction ws) (auto simp: List.map_filter_simps split: option.splits)
  have all: "length (List.map_filter (\<lambda>v. v) ws) = length ws \<Longrightarrow> List.map_filter (\<lambda>v. v) ws = map the ws \<and> None \<notin> set ws"
    for ws :: "rat option list"
  proof (induction ws)
    case (Cons w ws)
    then show ?case using le [of ws] by (cases w) (auto simp: List.map_filter_simps)
  qed (simp add: List.map_filter_simps)
  have "foldl (+) a xs = a + sum_list xs" for a :: rat and xs
    by (induction xs arbitrary: a) (simp_all add: add.assoc)
  with c all [of vs] show ?thesis
    by (auto simp: knownTotal_def Let_def split: if_splits)
qed

lemma agentCapability_iff:
  "agentCapability version = CurrentAgent \<longleftrightarrow>
     (\<exists>major minor patch. versionParts version = Some (major, minor, patch) \<and> (0, 5) \<le> (major, minor))"
  by (auto simp: agentCapability_def less_eq_prod_def split: option.splits if_splits)

end
