(* ===== verification/Backups.thy ===== *)
theory Backups
  imports Incidents
begin

text \<open>
  The backup centre (\<open>apps/web/lib/backups.ts\<close>): validation of the policy and history rows, the
  health of a backup target from its latest run and latest success, and the summary over targets and
  history. Reason texts are constructors of \<open>backup_reason\<close>.
\<close>

section \<open>Data\<close>

datatype backup_type = WorldBackup | ConfigBackup | PermissionsBackup | FullBackup

datatype backup_destination = LocalDestination | S3Destination

datatype backup_outcome = BackupSuccess | BackupFailed | BackupRunning | BackupUnknown

datatype backup_failure_code =
    SourceUnavailable | ArchiveFailed | ChecksumFailed | RemoteSyncFailed | RetentionFailed
  | BackupTimeout | PermissionDenied | InsufficientSpace | UnknownFailure

datatype backup_health = BackupHealthy | BackupWarning | BackupCritical | BackupHealthUnknown

datatype restore_readiness = RestoreReady | RestoreWarning | RestoreUnknown

datatype backup_reason =
    LatestFailed "backup_failure_code option"
  | NoSuccessYet
  | CriticalSlaExceeded
  | WarningSlaExceeded
  | ShaVerificationFailed
  | ShaNotAvailable
  | RetentionExpired
  | RetentionNotAvailable
  | LatestNotSettled
  | RemoteSyncLate
  | RestoreTestMissing
  | RestoreTestInFuture
  | RestoreTestStale
  | AgePausedOtherwiseFine
  | NothingWrong

record backup_run_summary =
  br_runId :: string
  br_outcome :: backup_outcome
  br_startedAt :: string
  br_completedAt :: "string option"
  br_durationSeconds :: "int option"
  br_sizeBytes :: "int option"
  br_sha256Verified :: "bool option"
  br_destinationType :: backup_destination
  br_remoteSyncedAt :: "string option"
  br_restoreTestedAt :: "string option"
  br_retentionExpiresAt :: "string option"
  br_failureCode :: "backup_failure_code option"

record backup_success_summary =
  bs_runId :: string
  bs_completedAt :: string
  bs_sizeBytes :: "int option"
  bs_sha256Verified :: "bool option"
  bs_destinationType :: backup_destination
  bs_remoteSyncedAt :: "string option"
  bs_restoreTestedAt :: "string option"
  bs_retentionExpiresAt :: "string option"

record backup_history_run = backup_run_summary +
  bh_rowId :: int
  bh_hostId :: string
  bh_serverId :: string
  bh_hostDisplayName :: string
  bh_backupTarget :: string
  bh_gameMode :: string
  bh_backupType :: backup_type

record backup_policy =
  bt_policyId :: int
  bt_hostId :: string
  bt_serverId :: string
  bt_hostDisplayName :: string
  bt_backupTarget :: string
  bt_gameMode :: string
  bt_backupType :: backup_type
  bt_remoteSyncRequired :: bool
  bt_warningAfterSeconds :: int
  bt_criticalAfterSeconds :: int
  bt_remoteSyncWarningSeconds :: int
  bt_restoreTestWarningSeconds :: int
  bt_agePausedUntil :: "string option"
  bt_agePauseReason :: "string option"
  bt_latest :: "backup_run_summary option"
  bt_latestSuccess :: "backup_success_summary option"

record backup_target_snapshot = backup_policy +
  bt_health :: backup_health
  bt_healthReasons :: "backup_reason list"
  bt_backupAgeSeconds :: "int option"
  bt_remoteSyncPending :: bool
  bt_restoreReadiness :: restore_readiness

record backup_summary =
  bc_overallHealth :: backup_health
  bc_targetCount :: nat
  bc_healthyCount :: nat
  bc_warningCount :: nat
  bc_criticalCount :: nat
  bc_unknownCount :: nat
  bc_latestSuccessAt :: "string option"
  bc_latestFailureAt :: "string option"
  bc_successRatePercent :: "rat option"
  bc_completedRunCount :: nat
  bc_successRunCount :: nat
  bc_remoteSyncPendingCount :: nat
  bc_restoreReadyCount :: nat

record backup_center_snapshot =
  bk_generatedAt :: string
  bk_range :: string
  bk_targets :: "backup_target_snapshot list"
  bk_history :: "backup_history_run list"
  bk_summary :: backup_summary

section \<open>Rows\<close>

definition parse_backup_type :: "string \<Rightarrow> backup_type option" where
  "parse_backup_type s = map_of
     [(''world'', WorldBackup), (''config'', ConfigBackup), (''permissions'', PermissionsBackup),
      (''full'', FullBackup)] s"

definition parse_destination :: "string \<Rightarrow> backup_destination option" where
  "parse_destination s = map_of [(''local'', LocalDestination), (''s3'', S3Destination)] s"

definition parse_outcome :: "string \<Rightarrow> backup_outcome option" where
  "parse_outcome s = map_of
     [(''success'', BackupSuccess), (''failed'', BackupFailed), (''running'', BackupRunning),
      (''unknown'', BackupUnknown)] s"

definition parse_failure_code :: "string \<Rightarrow> backup_failure_code option" where
  "parse_failure_code s = map_of
     [(''source_unavailable'', SourceUnavailable), (''archive_failed'', ArchiveFailed),
      (''checksum_failed'', ChecksumFailed), (''remote_sync_failed'', RemoteSyncFailed),
      (''retention_failed'', RetentionFailed), (''timeout'', BackupTimeout),
      (''permission_denied'', PermissionDenied), (''insufficient_space'', InsufficientSpace),
      (''unknown'', UnknownFailure)] s"

definition text_of :: "nat \<Rightarrow> jsval \<Rightarrow> string option" where
  "text_of limit v = nonempty (string_at_most limit v)"

definition uuid_text :: "jsval \<Rightarrow> string option" where
  \<comment> \<open>\<open>text(v, 36)\<close> followed by the test of \<open>UUID_PATTERN\<close>\<close>
  "uuid_text v = (case text_of 36 v of None \<Rightarrow> None | Some s \<Rightarrow> if UUID_PATTERN s then Some s else None)"

definition enum_text :: "(string \<Rightarrow> 'a option) \<Rightarrow> jsval \<Rightarrow> 'a option" where
  "enum_text parse v = Option.bind (text_of 256 v) parse"

definition failure_code_of :: "jsval \<Rightarrow> backup_failure_code option option" where
  \<comment> \<open>an unusable value that is not a non-empty string is read as \<open>null\<close>; the outer \<open>None\<close> refuses\<close>
  "failure_code_of v =
     (case text_of 256 v of
        None \<Rightarrow> Some None
      | Some s \<Rightarrow> (case parse_failure_code s of None \<Rightarrow> None | Some c \<Rightarrow> Some (Some c)))"

definition parseLatest :: "jsval \<Rightarrow> backup_run_summary option option" where
  \<comment> \<open>the outer \<open>None\<close> is \<open>undefined\<close>: the row is refused\<close>
  "parseLatest row =
     (if get_prop row ''latest_run_id'' = Null then Some None
      else do {
        runId \<leftarrow> uuid_text (get_prop row ''latest_run_id'');
        outcome \<leftarrow> enum_text parse_outcome (get_prop row ''latest_outcome'');
        startedAt \<leftarrow> nonempty (read_timestamp (get_prop row ''latest_started_at''));
        completedAt \<leftarrow> nullable read_timestamp (get_prop row ''latest_completed_at'');
        durationSeconds \<leftarrow> nullable coerced_integer (get_prop row ''latest_duration_seconds'');
        sizeBytes \<leftarrow> nullable coerced_integer (get_prop row ''latest_size_bytes'');
        sha256Verified \<leftarrow> nullable as_bool (get_prop row ''latest_sha256_verified'');
        destinationType \<leftarrow> enum_text parse_destination (get_prop row ''latest_destination_type'');
        remoteSyncedAt \<leftarrow> nullable read_timestamp (get_prop row ''latest_remote_synced_at'');
        restoreTestedAt \<leftarrow> nullable read_timestamp (get_prop row ''latest_restore_tested_at'');
        retentionExpiresAt \<leftarrow> nullable read_timestamp (get_prop row ''latest_retention_expires_at'');
        failureCode \<leftarrow> failure_code_of (get_prop row ''latest_failure_code'');
        Some (Some \<lparr> br_runId = runId, br_outcome = outcome, br_startedAt = startedAt,
          br_completedAt = completedAt, br_durationSeconds = durationSeconds, br_sizeBytes = sizeBytes,
          br_sha256Verified = sha256Verified, br_destinationType = destinationType,
          br_remoteSyncedAt = remoteSyncedAt, br_restoreTestedAt = restoreTestedAt,
          br_retentionExpiresAt = retentionExpiresAt, br_failureCode = failureCode \<rparr>)
      })"

definition parseLatestSuccess :: "jsval \<Rightarrow> backup_success_summary option option" where
  "parseLatestSuccess row =
     (if get_prop row ''latest_success_run_id'' = Null then Some None
      else do {
        runId \<leftarrow> uuid_text (get_prop row ''latest_success_run_id'');
        completedAt \<leftarrow> nonempty (read_timestamp (get_prop row ''latest_success_at''));
        sizeBytes \<leftarrow> nullable coerced_integer (get_prop row ''latest_success_size_bytes'');
        sha256Verified \<leftarrow> nullable as_bool (get_prop row ''latest_success_sha256_verified'');
        destinationType \<leftarrow> enum_text parse_destination (get_prop row ''latest_success_destination_type'');
        remoteSyncedAt \<leftarrow> nullable read_timestamp (get_prop row ''latest_success_remote_synced_at'');
        restoreTestedAt \<leftarrow> nullable read_timestamp (get_prop row ''latest_success_restore_tested_at'');
        retentionExpiresAt \<leftarrow> nullable read_timestamp (get_prop row ''latest_success_retention_expires_at'');
        Some (Some \<lparr> bs_runId = runId, bs_completedAt = completedAt, bs_sizeBytes = sizeBytes,
          bs_sha256Verified = sha256Verified, bs_destinationType = destinationType,
          bs_remoteSyncedAt = remoteSyncedAt, bs_restoreTestedAt = restoreTestedAt,
          bs_retentionExpiresAt = retentionExpiresAt \<rparr>)
      })"

definition age_pause_reason_of :: "jsval \<Rightarrow> string option" where
  "age_pause_reason_of v =
     (case string_at_most 256 v of None \<Rightarrow> None | Some s \<Rightarrow> if trim s = [] then None else Some s)"

definition parseCenterRow :: "jsval \<Rightarrow> backup_policy option" where
  "parseCenterRow row =
     (if \<not> is_record row then None
      else do {
        policyId \<leftarrow> coerced_integer (get_prop row ''policy_id'');
        hostId \<leftarrow> uuid_text (get_prop row ''host_id'');
        serverId \<leftarrow> text_of 64 (get_prop row ''server_id'');
        hostDisplayName \<leftarrow> text_of 256 (get_prop row ''host_display_name'');
        backupTarget \<leftarrow> text_of 64 (get_prop row ''backup_target'');
        gameMode \<leftarrow> text_of 64 (get_prop row ''game_mode'');
        backupType \<leftarrow> enum_text parse_backup_type (get_prop row ''backup_type'');
        remoteSyncRequired \<leftarrow> as_bool (get_prop row ''remote_sync_required'');
        warningAfter \<leftarrow> coerced_integer (get_prop row ''warning_after_seconds'');
        criticalAfter \<leftarrow> coerced_integer (get_prop row ''critical_after_seconds'');
        syncWarning \<leftarrow> coerced_integer (get_prop row ''remote_sync_warning_seconds'');
        restoreWarning \<leftarrow> coerced_integer (get_prop row ''restore_test_warning_seconds'');
        latest \<leftarrow> parseLatest row;
        latestSuccess \<leftarrow> parseLatestSuccess row;
        agePausedUntil \<leftarrow> nullable read_timestamp (get_prop row ''age_paused_until'');
        let agePauseReason = age_pause_reason_of (get_prop row ''age_pause_reason'')
        in if policyId < 1 \<or>
              (if agePausedUntil = None then get_prop row ''age_pause_reason'' \<noteq> Null
               else agePauseReason = None)
           then None
           else Some \<lparr> bt_policyId = policyId, bt_hostId = hostId, bt_serverId = serverId,
             bt_hostDisplayName = hostDisplayName, bt_backupTarget = backupTarget,
             bt_gameMode = gameMode, bt_backupType = backupType,
             bt_remoteSyncRequired = remoteSyncRequired, bt_warningAfterSeconds = warningAfter,
             bt_criticalAfterSeconds = criticalAfter, bt_remoteSyncWarningSeconds = syncWarning,
             bt_restoreTestWarningSeconds = restoreWarning, bt_agePausedUntil = agePausedUntil,
             bt_agePauseReason = agePauseReason, bt_latest = latest, bt_latestSuccess = latestSuccess \<rparr>
      })"

definition parseCenterRows :: "jsval \<Rightarrow> backup_policy list option" where
  "parseCenterRows payload = Option.bind (as_array payload) (map_rows parseCenterRow)"

definition parseHistoryRow :: "jsval \<Rightarrow> backup_history_run option" where
  "parseHistoryRow row =
     (if \<not> is_record row then None
      else do {
        rowId \<leftarrow> coerced_integer (get_prop row ''row_id'');
        runId \<leftarrow> uuid_text (get_prop row ''run_id'');
        hostId \<leftarrow> uuid_text (get_prop row ''host_id'');
        serverId \<leftarrow> text_of 64 (get_prop row ''server_id'');
        hostDisplayName \<leftarrow> text_of 256 (get_prop row ''host_display_name'');
        backupTarget \<leftarrow> text_of 64 (get_prop row ''backup_target'');
        gameMode \<leftarrow> text_of 64 (get_prop row ''game_mode'');
        backupType \<leftarrow> enum_text parse_backup_type (get_prop row ''backup_type'');
        destinationType \<leftarrow> enum_text parse_destination (get_prop row ''destination_type'');
        startedAt \<leftarrow> nonempty (read_timestamp (get_prop row ''started_at''));
        completedAt \<leftarrow> nullable read_timestamp (get_prop row ''completed_at'');
        outcome \<leftarrow> enum_text parse_outcome (get_prop row ''outcome'');
        durationSeconds \<leftarrow> nullable coerced_integer (get_prop row ''duration_seconds'');
        sizeBytes \<leftarrow> nullable coerced_integer (get_prop row ''size_bytes'');
        sha256Verified \<leftarrow> nullable as_bool (get_prop row ''sha256_verified'');
        remoteSyncedAt \<leftarrow> nullable read_timestamp (get_prop row ''remote_synced_at'');
        restoreTestedAt \<leftarrow> nullable read_timestamp (get_prop row ''restore_tested_at'');
        retentionExpiresAt \<leftarrow> nullable read_timestamp (get_prop row ''retention_expires_at'');
        failureCode \<leftarrow> failure_code_of (get_prop row ''failure_code'');
        if rowId < 1 then None
        else Some \<lparr> br_runId = runId, br_outcome = outcome, br_startedAt = startedAt,
          br_completedAt = completedAt, br_durationSeconds = durationSeconds, br_sizeBytes = sizeBytes,
          br_sha256Verified = sha256Verified, br_destinationType = destinationType,
          br_remoteSyncedAt = remoteSyncedAt, br_restoreTestedAt = restoreTestedAt,
          br_retentionExpiresAt = retentionExpiresAt, br_failureCode = failureCode,
          bh_rowId = rowId, bh_hostId = hostId, bh_serverId = serverId,
          bh_hostDisplayName = hostDisplayName, bh_backupTarget = backupTarget,
          bh_gameMode = gameMode, bh_backupType = backupType \<rparr>
      })"

definition parseHistoryRows :: "jsval \<Rightarrow> backup_history_run list option" where
  "parseHistoryRows payload = Option.bind (as_array payload) (map_rows parseHistoryRow)"

section \<open>Evaluation of a target\<close>

definition healthRank :: "backup_health \<Rightarrow> int" where
  "healthRank h =
     (case h of BackupHealthy \<Rightarrow> 0 | BackupHealthUnknown \<Rightarrow> 1 | BackupWarning \<Rightarrow> 2 | BackupCritical \<Rightarrow> 3)"

definition isBackupAgePaused :: "'a backup_policy_scheme \<Rightarrow> int \<Rightarrow> bool" where
  "isBackupAgePaused target now \<longleftrightarrow>
     (case bt_agePauseReason target of None \<Rightarrow> False | Some r \<Rightarrow> trim r \<noteq> []) \<and>
     (case nonempty (bt_agePausedUntil target) of
        None \<Rightarrow> False | Some u \<Rightarrow> nan_less (Some now) (Date_parse u))"

text \<open>The local variables \<open>health\<close> and \<open>reasons\<close>, threaded through the checks in their order.\<close>

type_synonym verdict = "backup_health \<times> backup_reason list"

definition warn :: "backup_reason \<Rightarrow> verdict \<Rightarrow> verdict" where
  "warn r v = (if fst v = BackupCritical then BackupCritical else BackupWarning, snd v @ [r])"

definition fail_with :: "backup_reason \<Rightarrow> verdict \<Rightarrow> verdict" where
  "fail_with r v = (BackupCritical, snd v @ [r])"

definition check_latest :: "backup_run_summary option \<Rightarrow> verdict \<Rightarrow> verdict" where
  "check_latest latest v =
     (case latest of
        None \<Rightarrow> v
      | Some l \<Rightarrow> if br_outcome l = BackupFailed then fail_with (LatestFailed (br_failureCode l)) v else v)"

definition check_age :: "bool \<Rightarrow> int \<Rightarrow> int \<Rightarrow> int \<Rightarrow> verdict \<Rightarrow> verdict" where
  "check_age paused age warningAfter criticalAfter v =
     (if \<not> paused \<and> age > criticalAfter then fail_with CriticalSlaExceeded v
      else if \<not> paused \<and> age > warningAfter \<and> fst v \<noteq> BackupCritical
      then (BackupWarning, snd v @ [WarningSlaExceeded]) else v)"

definition check_sha :: "bool option \<Rightarrow> verdict \<Rightarrow> verdict" where
  "check_sha sha v =
     (case sha of Some False \<Rightarrow> fail_with ShaVerificationFailed v
      | None \<Rightarrow> warn ShaNotAvailable v | Some True \<Rightarrow> v)"

definition retention_over :: "string option \<Rightarrow> int \<Rightarrow> bool" where
  "retention_over expires now =
     (case nonempty expires of None \<Rightarrow> False | Some r \<Rightarrow> nan_le (Date_parse r) (Some now))"

definition check_retention :: "string option \<Rightarrow> int \<Rightarrow> verdict \<Rightarrow> verdict" where
  "check_retention expires now v =
     (let v1 = (if retention_over expires now then fail_with RetentionExpired v else v)
      in if expires = None then warn RetentionNotAvailable v1 else v1)"

definition unsettled :: "backup_run_summary option \<Rightarrow> bool" where
  "unsettled latest \<longleftrightarrow>
     (case latest of None \<Rightarrow> False | Some l \<Rightarrow> br_outcome l = BackupRunning \<or> br_outcome l = BackupUnknown)"

definition sync_pending :: "'a backup_policy_scheme \<Rightarrow> bool" where
  "sync_pending target \<longleftrightarrow>
     (case bt_latestSuccess target of
        None \<Rightarrow> False
      | Some s \<Rightarrow> bt_remoteSyncRequired target \<and> nonempty (bs_remoteSyncedAt s) = None)"

definition sync_late :: "'a backup_policy_scheme \<Rightarrow> int \<Rightarrow> bool" where
  "sync_late target now \<longleftrightarrow>
     sync_pending target \<and>
     (case bt_latestSuccess target of
        None \<Rightarrow> False
      | Some s \<Rightarrow> now - ms_of (bs_completedAt s) > bt_remoteSyncWarningSeconds target * 1000)"

definition restore_age :: "backup_success_summary \<Rightarrow> int \<Rightarrow> int option" where
  "restore_age s now = map_option (\<lambda>t. now - ms_of t) (nonempty (bs_restoreTestedAt s))"

definition check_restore :: "backup_success_summary \<Rightarrow> int \<Rightarrow> int \<Rightarrow> verdict \<Rightarrow> restore_readiness \<times> verdict" where
  "check_restore s restoreWarning now v =
     (let retentionValid = (case nonempty (bs_retentionExpiresAt s) of
            None \<Rightarrow> False | Some r \<Rightarrow> nan_less (Some now) (Date_parse r));
          age = restore_age s now;
          fresh = (case age of None \<Rightarrow> False | Some a \<Rightarrow> 0 \<le> a \<and> a \<le> restoreWarning * 1000);
          ready = (if bs_sha256Verified s = Some True \<and> retentionValid \<and> fresh
                   then RestoreReady else RestoreUnknown)
      in case age of
           None \<Rightarrow> (ready, warn RestoreTestMissing v)
         | Some a \<Rightarrow>
             if a < 0 then (ready, warn RestoreTestInFuture v)
             else if \<not> fresh then (RestoreWarning, warn RestoreTestStale v)
             else (ready, v))"

definition backup_age :: "backup_success_summary \<Rightarrow> int \<Rightarrow> int" where
  "backup_age s now = max 0 ((now - ms_of (bs_completedAt s)) div 1000)"

definition success_checks :: "'a backup_policy_scheme \<Rightarrow> int \<Rightarrow> backup_success_summary \<Rightarrow> verdict \<Rightarrow> verdict" where
  "success_checks target now s v =
     (let v1 = check_age (isBackupAgePaused target now) (backup_age s now)
            (bt_warningAfterSeconds target) (bt_criticalAfterSeconds target) v;
          v2 = check_sha (bs_sha256Verified s) v1;
          v3 = check_retention (bs_retentionExpiresAt s) now v2
      in if unsettled (bt_latest target) then warn LatestNotSettled v3 else v3)"

definition evaluateTarget :: "backup_policy \<Rightarrow> int \<Rightarrow> backup_target_snapshot" where
  "evaluateTarget target now =
     (let success = bt_latestSuccess target;
          v0 = (if success = None then BackupHealthUnknown else BackupHealthy, []);
          v1 = check_latest (bt_latest target) v0;
          v2 = (case success of
                  None \<Rightarrow> (fst v1, snd v1 @ [NoSuccessYet])
                | Some s \<Rightarrow> success_checks target now s v1);
          v3 = (if sync_late target now then warn RemoteSyncLate v2 else v2);
          (readiness, v4) = (case success of
                  None \<Rightarrow> (RestoreUnknown, v3)
                | Some s \<Rightarrow> check_restore s (bt_restoreTestWarningSeconds target) now v3);
          reasons = (if fst v4 = BackupHealthy \<and> snd v4 = []
                     then [if isBackupAgePaused target now then AgePausedOtherwiseFine else NothingWrong]
                     else snd v4)
      in backup_policy.extend target
           \<lparr> bt_health = fst v4, bt_healthReasons = reasons,
             bt_backupAgeSeconds = map_option (\<lambda>s. backup_age s now) success,
             bt_remoteSyncPending = sync_pending target, bt_restoreReadiness = readiness \<rparr>)"

section \<open>The snapshot\<close>

definition latest_time :: "string list \<Rightarrow> string option" where
  \<comment> \<open>\<open>xs.sort((a, b) => Date.parse(b) - Date.parse(a))[0] ?? null\<close>\<close>
  "latest_time xs = js_first (sort_desc ms_of xs)"

definition worse_health :: "backup_health \<Rightarrow> backup_health \<Rightarrow> backup_health" where
  "worse_health worst h = (if healthRank h > healthRank worst then h else worst)"

definition backup_summary_of :: "backup_target_snapshot list \<Rightarrow> backup_history_run list \<Rightarrow> backup_summary" where
  "backup_summary_of targets history =
     (let completed = filter (\<lambda>r. br_outcome r = BackupSuccess \<or> br_outcome r = BackupFailed) history;
          successes = filter (\<lambda>r. br_outcome r = BackupSuccess) completed;
          failures = filter (\<lambda>r. br_outcome r = BackupFailed \<and> nonempty (br_completedAt r) \<noteq> None) completed;
          count = (\<lambda>h. length (filter (\<lambda>t. bt_health t = h) targets))
      in \<lparr> bc_overallHealth =
             (if targets = [] then BackupHealthUnknown
              else foldl (\<lambda>worst t. worse_health worst (bt_health t)) BackupHealthy targets),
           bc_targetCount = length targets,
           bc_healthyCount = count BackupHealthy, bc_warningCount = count BackupWarning,
           bc_criticalCount = count BackupCritical, bc_unknownCount = count BackupHealthUnknown,
           bc_latestSuccessAt = latest_time
             (List.map_filter (\<lambda>t. map_option bs_completedAt (bt_latestSuccess t)) targets),
           bc_latestFailureAt = latest_time (List.map_filter br_completedAt failures),
           bc_successRatePercent =
             (if completed = [] then None
              else Some (of_nat (length successes) / of_nat (length completed) * 100)),
           bc_completedRunCount = length completed, bc_successRunCount = length successes,
           bc_remoteSyncPendingCount = length (filter bt_remoteSyncPending targets),
           bc_restoreReadyCount = length (filter (\<lambda>t. bt_restoreReadiness t = RestoreReady) targets) \<rparr>)"

definition getBackupCenterSnapshot ::
  "string \<Rightarrow> int \<Rightarrow> jsval option \<Rightarrow> backup_history_run list option \<Rightarrow> backup_center_snapshot option" where
  \<comment> \<open>the payload of the centre and the collected history, \<open>None\<close> for a request that failed\<close>
  "getBackupCenterSnapshot rng now centerPayload collected = do {
     payload \<leftarrow> centerPayload;
     history \<leftarrow> collected;
     rows \<leftarrow> parseCenterRows payload;
     let targets = map (\<lambda>t. evaluateTarget t now) rows
     in Some \<lparr> bk_generatedAt = iso_text now, bk_range = rng, bk_targets = targets, bk_history = history,
          bk_summary = backup_summary_of targets history \<rparr>
   }"

section \<open>What each check does to the health\<close>

named_theorems health_rules \<comment> \<open>when a check leaves the health critical, healthy or unknown\<close>

lemma warn_health [health_rules]:
  "fst (warn r v) = BackupCritical \<longleftrightarrow> fst v = BackupCritical"
  "fst (warn r v) \<noteq> BackupHealthy" "fst (warn r v) \<noteq> BackupHealthUnknown"
  by (auto simp: warn_def)

lemma check_latest_health [health_rules]:
  "fst (check_latest l v) = BackupCritical \<longleftrightarrow>
     fst v = BackupCritical \<or> (\<exists>x. l = Some x \<and> br_outcome x = BackupFailed)"
  "fst (check_latest l v) = BackupHealthy \<longleftrightarrow>
     fst v = BackupHealthy \<and> \<not> (\<exists>x. l = Some x \<and> br_outcome x = BackupFailed)"
  "fst (check_latest l v) = BackupHealthUnknown \<longleftrightarrow>
     fst v = BackupHealthUnknown \<and> \<not> (\<exists>x. l = Some x \<and> br_outcome x = BackupFailed)"
  by (auto simp: check_latest_def fail_with_def split: option.splits)

lemma check_age_health [health_rules]:
  "fst (check_age p a w c v) = BackupCritical \<longleftrightarrow> fst v = BackupCritical \<or> \<not> p \<and> a > c"
  "fst (check_age p a w c v) = BackupHealthy \<longleftrightarrow> fst v = BackupHealthy \<and> (p \<or> a \<le> c \<and> a \<le> w)"
  "fst v \<noteq> BackupHealthUnknown \<Longrightarrow> fst (check_age p a w c v) \<noteq> BackupHealthUnknown"
  by (auto simp: check_age_def fail_with_def)

lemma check_sha_health [health_rules]:
  "fst (check_sha sha v) = BackupCritical \<longleftrightarrow> fst v = BackupCritical \<or> sha = Some False"
  "fst (check_sha sha v) = BackupHealthy \<longleftrightarrow> fst v = BackupHealthy \<and> sha = Some True"
  "fst v \<noteq> BackupHealthUnknown \<Longrightarrow> fst (check_sha sha v) \<noteq> BackupHealthUnknown"
  by (auto simp: check_sha_def fail_with_def health_rules split: option.splits bool.splits)

lemma check_retention_health [health_rules]:
  "fst (check_retention e now v) = BackupCritical \<longleftrightarrow> fst v = BackupCritical \<or> retention_over e now"
  "fst (check_retention e now v) = BackupHealthy \<longleftrightarrow> fst v = BackupHealthy \<and> e \<noteq> None \<and> \<not> retention_over e now"
  "fst v \<noteq> BackupHealthUnknown \<Longrightarrow> fst (check_retention e now v) \<noteq> BackupHealthUnknown"
  by (auto simp: check_retention_def fail_with_def health_rules Let_def)

definition restore_due :: "backup_success_summary \<Rightarrow> int \<Rightarrow> int \<Rightarrow> bool" where
  "restore_due s restoreWarning now \<longleftrightarrow>
     (case restore_age s now of None \<Rightarrow> True | Some a \<Rightarrow> a < 0 \<or> a > restoreWarning * 1000)"

lemma check_restore_health [health_rules]:
  "fst (snd (check_restore s w now v)) = BackupCritical \<longleftrightarrow> fst v = BackupCritical"
  "fst (snd (check_restore s w now v)) = BackupHealthy \<longleftrightarrow> fst v = BackupHealthy \<and> \<not> restore_due s w now"
  "fst v \<noteq> BackupHealthUnknown \<Longrightarrow> fst (snd (check_restore s w now v)) \<noteq> BackupHealthUnknown"
  by (auto simp: check_restore_def restore_due_def health_rules Let_def split: option.splits)

lemma success_checks_health [health_rules]:
  "fst (success_checks t now s v) = BackupCritical \<longleftrightarrow> fst v = BackupCritical \<or>
     \<not> isBackupAgePaused t now \<and> backup_age s now > bt_criticalAfterSeconds t \<or>
     bs_sha256Verified s = Some False \<or> retention_over (bs_retentionExpiresAt s) now"
  "fst (success_checks t now s v) = BackupHealthy \<longleftrightarrow> fst v = BackupHealthy \<and>
     (isBackupAgePaused t now \<or>
        backup_age s now \<le> bt_criticalAfterSeconds t \<and> backup_age s now \<le> bt_warningAfterSeconds t) \<and>
     bs_sha256Verified s = Some True \<and> bs_retentionExpiresAt s \<noteq> None \<and>
     \<not> retention_over (bs_retentionExpiresAt s) now \<and> \<not> unsettled (bt_latest t)"
  "fst v \<noteq> BackupHealthUnknown \<Longrightarrow> fst (success_checks t now s v) \<noteq> BackupHealthUnknown"
  by (auto simp: success_checks_def health_rules Let_def)

text \<open>The causes of a critical and of a warning health, as the policy describes them.\<close>

definition critical_cause :: "backup_policy \<Rightarrow> int \<Rightarrow> bool" where
  "critical_cause t now \<longleftrightarrow>
     (\<exists>l. bt_latest t = Some l \<and> br_outcome l = BackupFailed) \<or>
     (\<exists>s. bt_latestSuccess t = Some s \<and>
        (\<not> isBackupAgePaused t now \<and> backup_age s now > bt_criticalAfterSeconds t \<or>
         bs_sha256Verified s = Some False \<or> retention_over (bs_retentionExpiresAt s) now))"

definition warning_cause :: "backup_policy \<Rightarrow> backup_success_summary \<Rightarrow> int \<Rightarrow> bool" where
  "warning_cause t s now \<longleftrightarrow>
     \<not> isBackupAgePaused t now \<and> backup_age s now > bt_warningAfterSeconds t \<or>
     bs_sha256Verified s = None \<or> bs_retentionExpiresAt s = None \<or> unsettled (bt_latest t) \<or>
     sync_late t now \<or> restore_due s (bt_restoreTestWarningSeconds t) now"

lemma evaluateTarget_fields:
  "bt_health (evaluateTarget t now) =
     (case bt_latestSuccess t of
        None \<Rightarrow> fst (check_latest (bt_latest t) (BackupHealthUnknown, []))
      | Some s \<Rightarrow>
          (let v = success_checks t now s (check_latest (bt_latest t) (BackupHealthy, []))
           in fst (snd (check_restore s (bt_restoreTestWarningSeconds t) now
                (if sync_late t now then warn RemoteSyncLate v else v)))))"
  "bt_restoreReadiness (evaluateTarget t now) =
     (case bt_latestSuccess t of
        None \<Rightarrow> RestoreUnknown
      | Some s \<Rightarrow> fst (check_restore s (bt_restoreTestWarningSeconds t) now (BackupHealthy, [])))"
  by (auto simp: evaluateTarget_def backup_policy.defs Let_def sync_late_def sync_pending_def
      check_restore_def split: option.splits prod.splits)

section \<open>Properties\<close>

text \<open>C19. The health of a backup target: critical exactly when a critical cause holds (the latest
  run failed, or the latest success is over the critical age outside a pause, failed its checksum or
  outlived its retention), unknown when there is neither such a cause nor a success, and healthy
  exactly when there is a success with no critical and no warning cause.\<close>

theorem backup_health_by_cause:
  "bt_health (evaluateTarget t now) =
     (if critical_cause t now then BackupCritical
      else case bt_latestSuccess t of
             None \<Rightarrow> BackupHealthUnknown
           | Some s \<Rightarrow> if warning_cause t s now then BackupWarning else BackupHealthy)"
proof -
  let ?h = "bt_health (evaluateTarget t now)"
  have crit: "?h = BackupCritical \<longleftrightarrow> critical_cause t now"
    by (auto simp: evaluateTarget_fields critical_cause_def health_rules Let_def split: option.splits)
  have none: "?h = BackupHealthUnknown" if "bt_latestSuccess t = None" "\<not> critical_cause t now"
    using that by (auto simp: evaluateTarget_fields critical_cause_def health_rules)
  have healthy: "?h = BackupHealthy \<longleftrightarrow> \<not> critical_cause t now \<and> \<not> warning_cause t s now"
    and known: "?h \<noteq> BackupHealthUnknown" if "bt_latestSuccess t = Some s" for s
    using that
    by (auto simp: evaluateTarget_fields critical_cause_def warning_cause_def health_rules Let_def)
  show ?thesis
  proof (cases "bt_latestSuccess t")
    case None
    with crit none show ?thesis by auto
  next
    case (Some s)
    with crit healthy [OF Some] known [OF Some] show ?thesis by (cases "?h") auto
  qed
qed

text \<open>A target is ready to restore exactly when its latest success has a verified checksum, a
  retention that ends after now and a restore test that lies in the past and within the policy
  period; a readiness warning means the test is too old.\<close>

theorem restore_ready_iff:
  "(bt_restoreReadiness (evaluateTarget t now) = RestoreReady \<longleftrightarrow>
      (\<exists>s expires tested. bt_latestSuccess t = Some s \<and> bs_sha256Verified s = Some True \<and>
         nonempty (bs_retentionExpiresAt s) = Some expires \<and> nan_less (Some now) (Date_parse expires) \<and>
         nonempty (bs_restoreTestedAt s) = Some tested \<and> ms_of tested \<le> now \<and>
         now - ms_of tested \<le> bt_restoreTestWarningSeconds t * 1000)) \<and>
   (bt_restoreReadiness (evaluateTarget t now) = RestoreWarning \<longleftrightarrow>
      (\<exists>s tested. bt_latestSuccess t = Some s \<and> nonempty (bs_restoreTestedAt s) = Some tested \<and>
         ms_of tested \<le> now \<and> now - ms_of tested > bt_restoreTestWarningSeconds t * 1000))"
  by (auto simp: evaluateTarget_fields check_restore_def restore_age_def Let_def split: option.splits)

interpretation backup_rank: worst_of healthRank worse_health
  by unfold_locales (auto simp: worse_health_def)

lemma healthRank_inject [simp]: "healthRank a = healthRank b \<longleftrightarrow> a = b"
  by (cases a; cases b) (auto simp: healthRank_def)

lemma healthRank_bounds: "0 \<le> healthRank h" "healthRank h \<le> 3"
  by (cases h; simp add: healthRank_def)+

lemma backup_health_counts:
  "length (filter (\<lambda>t. f t = BackupHealthy) ts) + length (filter (\<lambda>t. f t = BackupWarning) ts) +
   length (filter (\<lambda>t. f t = BackupCritical) ts) + length (filter (\<lambda>t. f t = BackupHealthUnknown) ts) = length ts"
proof (induction ts)
  case (Cons t ts)
  then show ?case by (cases "f t") simp_all
qed simp

lemma overall_health:
  fixes ts :: "backup_target_snapshot list"
  assumes "ts \<noteq> []"
  defines "h \<equiv> foldl (\<lambda>worst t. worse_health worst (bt_health t)) BackupHealthy ts"
  shows "h \<in> bt_health ` set ts \<and> (\<forall>t \<in> set ts. healthRank (bt_health t) \<le> healthRank h)"
proof -
  have upper: "\<forall>t \<in> set ts. healthRank (bt_health t) \<le> healthRank h"
    unfolding h_def using backup_rank.fold_upper_mem [of _ ts bt_health BackupHealthy] by blast
  moreover have "h \<in> insert BackupHealthy (bt_health ` set ts)"
    unfolding h_def by (rule backup_rank.fold_choice)
  moreover have "h \<in> bt_health ` set ts" if "h = BackupHealthy"
  proof -
    obtain t where t: "t \<in> set ts" using assms(1) by (cases ts) auto
    with upper that have "healthRank (bt_health t) \<le> 0" by (auto simp: healthRank_def)
    with healthRank_bounds(1) [of "bt_health t"] have "healthRank (bt_health t) = healthRank BackupHealthy"
      by (simp add: healthRank_def)
    with t that show ?thesis by force
  qed
  ultimately show ?thesis by auto
qed

text \<open>In the summary of a snapshot with targets the four counts add up to the number of targets,
  and the overall health is the health of some target and the worst of all of them; without targets
  it is unknown. The success rate is a percentage.\<close>

theorem backup_summary_worst_health:
  "bc_healthyCount (backup_summary_of ts hs) + bc_warningCount (backup_summary_of ts hs) +
     bc_criticalCount (backup_summary_of ts hs) + bc_unknownCount (backup_summary_of ts hs) = length ts \<and>
   (if ts = [] then bc_overallHealth (backup_summary_of ts hs) = BackupHealthUnknown
    else bc_overallHealth (backup_summary_of ts hs) \<in> bt_health ` set ts \<and>
      list_all (\<lambda>t. healthRank (bt_health t) \<le> healthRank (bc_overallHealth (backup_summary_of ts hs))) ts) \<and>
   (case bc_successRatePercent (backup_summary_of ts hs) of None \<Rightarrow> True | Some p \<Rightarrow> 0 \<le> p \<and> p \<le> 100)"
proof -
  let ?c = "filter (\<lambda>r. br_outcome r = BackupSuccess \<or> br_outcome r = BackupFailed) hs"
  let ?s = "filter (\<lambda>r. br_outcome r = BackupSuccess) ?c"
  have rate: "0 \<le> (of_nat (length ?s) / of_nat (length ?c) * 100 :: rat) \<and>
      (of_nat (length ?s) / of_nat (length ?c) * 100 :: rat) \<le> 100" if "?c \<noteq> []"
  proof -
    have "length ?s \<le> length ?c" by (rule length_filter_le)
    then have "(of_nat (length ?s) :: rat) \<le> of_nat (length ?c)" by (simp only: of_nat_le_iff)
    moreover have "(0::rat) < of_nat (length ?c)" using that by simp
    ultimately show ?thesis by (simp add: field_simps)
  qed
  have counts: "bc_healthyCount (backup_summary_of ts hs) + bc_warningCount (backup_summary_of ts hs) +
     bc_criticalCount (backup_summary_of ts hs) + bc_unknownCount (backup_summary_of ts hs) = length ts"
    by (simp add: backup_summary_of_def Let_def backup_health_counts)
  show ?thesis
    using overall_health [of ts] rate
    by (intro conjI counts) (auto simp: backup_summary_of_def Let_def list_all_iff)
qed

text \<open>An unusable failure code that is no non-empty string does not refuse the row.\<close>

lemma failure_code_not_text: "failure_code_of (Num (Fin 5)) = Some None" "failure_code_of (Str []) = Some None"
  by (simp_all add: failure_code_of_def text_of_def js_eval)

end
