(* ===== verification/Paging.thy ===== *)
theory Paging
  imports Prelude "HOL-Library.Product_Lexorder" "HOL-Library.Sublist"
begin

text \<open>
  Keyset pagination. The loops of \<open>apps/web/lib\<close> ask an RPC for pages of at most a fixed size, each
  after the last row of the page before, until a short page arrives; one of them gives up after a
  fixed number of pages. The pages are those of a query ordered by a time and an identifier, both
  descending, which the migrations under \<open>supabase/migrations\<close> define.
\<close>

section \<open>The loops\<close>

text \<open>
  \<open>while (true)\<close>: the outer \<open>None\<close> is a loop that does not return, the inner one a request that
  threw.
\<close>

partial_function (option) page_loop ::
  "('c option \<Rightarrow> 'r list option) \<Rightarrow> nat \<Rightarrow> ('r \<Rightarrow> 'c) \<Rightarrow> 'c option \<Rightarrow> 'r list \<Rightarrow> 'r list option option" where
  "page_loop fetch limit cursor before rows =
     (case fetch before of
        None \<Rightarrow> Some None
      | Some page \<Rightarrow>
          (let rows' = rows @ page
           in if length page < limit then Some (Some rows')
              else (case js_last page of
                      None \<Rightarrow> Some (Some rows')
                    | Some l \<Rightarrow> page_loop fetch limit cursor (Some (cursor l)) rows')))"

text \<open>\<open>for (let page = 0; page < MAX; page += 1)\<close>, with an exception when the pages run out.\<close>

fun bounded_pages ::
  "('c option \<Rightarrow> 'r list option) \<Rightarrow> nat \<Rightarrow> ('r \<Rightarrow> 'c) \<Rightarrow> nat \<Rightarrow> 'c option \<Rightarrow> 'r list \<Rightarrow> 'r list option" where
  "bounded_pages fetch limit cursor 0 before rows = None"
| "bounded_pages fetch limit cursor (Suc n) before rows =
     (case fetch before of
        None \<Rightarrow> None
      | Some page \<Rightarrow>
          (let rows' = rows @ page
           in if length page < limit then Some rows'
              else (case js_last page of
                      None \<Rightarrow> Some rows'
                    | Some l \<Rightarrow> bounded_pages fetch limit cursor n (Some (cursor l)) rows')))"

section \<open>The page source\<close>

text \<open>
  What the loops rely on: the first page is the head of the result, and the page after the cursor of a row is
  the head of what follows that row. The query has a window that moves while the pages are read: \<open>kept before\<close>
  says which rows the request with that cursor still sees. A window only loses rows at the end of the result,
  and no request sees a row the first one did not.
\<close>

locale keyset_feed =
  fixes fetch :: "'c option \<Rightarrow> 'r list option" and cursor :: "'r \<Rightarrow> 'c" and limit :: nat
    and kept :: "'c option \<Rightarrow> 'r \<Rightarrow> bool" and result :: "'r list"
  assumes limit_pos: "0 < limit"
    and first_page: "fetch None = Some (take limit (filter (kept None) result))"
    and next_page: "result = pre @ r # post \<Longrightarrow>
      fetch (Some (cursor r)) = Some (take limit (filter (kept (Some (cursor r))) post))"
    and kept_earlier: "result = pre @ x # mid @ y # post \<Longrightarrow> kept before y \<Longrightarrow> kept before x"
    and kept_first: "kept before x \<Longrightarrow> kept None x"
begin

text \<open>
  What a loop has read in the end: a head of the result, of rows the first request saw, with every row the last
  request saw. The last request had no cursor or that of a row read.
\<close>

definition gathered :: "'r list \<Rightarrow> bool" where
  "gathered es \<longleftrightarrow> prefix es result \<and> (\<forall>r \<in> set es. kept None r) \<and>
     (\<exists>before. (before = None \<or> (\<exists>e \<in> set es. before = Some (cursor e))) \<and>
        (\<forall>r \<in> set result. kept before r \<longrightarrow> r \<in> set es))"

lemma page_at:
  assumes "result = pre @ post" "before = map_option cursor (js_last pre)"
  shows "fetch before = Some (take limit (filter (kept before) post))"
proof (cases pre rule: rev_cases)
  case Nil
  with assms first_page show ?thesis by simp
next
  case (snoc ys r)
  with assms next_page [of ys r post] show ?thesis by simp
qed

lemma kept_head:
  assumes "result = pre @ post"
  shows "filter (kept before) post = takeWhile (kept before) post"
  using assms
proof (induction post arbitrary: pre)
  case (Cons x xs)
  show ?case
  proof (cases "kept before x")
    case True
    with Cons.IH [of "pre @ [x]"] Cons.prems show ?thesis by simp
  next
    case False
    have "\<not> kept before y" if "y \<in> set xs" for y
    proof -
      from that obtain mid rest where "xs = mid @ y # rest" by (meson split_list)
      with Cons.prems False kept_earlier [of pre x mid y rest before] show ?thesis by auto
    qed
    with False show ?thesis by (simp add: filter_empty_conv)
  qed
qed simp

text \<open>One page: the rows read so far grow by a head of the rest, and after a short page nothing is left.\<close>

lemma page_step:
  assumes "result = pre @ post" "before = map_option cursor (js_last pre)" "\<forall>r \<in> set pre. kept None r"
  obtains page rest where "fetch before = Some page" "post = page @ rest" "\<forall>r \<in> set (pre @ page). kept None r"
    "length page \<le> limit" "length page \<le> length (filter (kept None) post)"
    "length page < limit \<Longrightarrow> gathered (pre @ page)"
proof
  let ?page = "take limit (filter (kept before) post)"
  have head: "?page = take (min limit (length (filter (kept before) post))) post"
    unfolding kept_head [OF assms(1)] by (metis takeWhile_eq_take take_take)
  show "fetch before = Some ?page" by (rule page_at [OF assms(1,2)])
  show "post = ?page @ drop (min limit (length (filter (kept before) post))) post"
    by (simp only: head append_take_drop_id)
  have page: "r \<in> set post \<and> kept before r" if "r \<in> set ?page" for r using in_set_takeD [OF that] by simp
  then show kept: "\<forall>r \<in> set (pre @ ?page). kept None r" using assms(3) kept_first by (metis Un_iff set_append)
  show "length ?page \<le> limit" by simp
  have "length (filter (kept before) post) \<le> length (filter (kept None) post)"
    using kept_first by (induction post) auto
  then show "length ?page \<le> length (filter (kept None) post)" by simp
  assume "length ?page < limit"
  then have all: "?page = filter (kept before) post" by (simp add: min_def split: if_splits)
  have "\<forall>r \<in> set result. kept before r \<longrightarrow> r \<in> set (pre @ ?page)" by (auto simp: all assms(1))
  moreover have "before = None \<or> (\<exists>e \<in> set (pre @ ?page). before = Some (cursor e))"
    by (cases pre rule: rev_cases) (simp_all add: assms(2))
  moreover have "prefix (pre @ ?page) result"
    unfolding assms(1) same_prefix_prefix head by (rule take_is_prefix)
  ultimately show "gathered (pre @ ?page)" using kept unfolding gathered_def by blast
qed

lemma js_last_append: "page \<noteq> [] \<Longrightarrow> js_last (pre @ page) = js_last page"
  by (simp add: js_last_def)

lemma loop_from:
  assumes "result = pre @ post" "before = map_option cursor (js_last pre)" "\<forall>r \<in> set pre. kept None r"
  shows "\<exists>es. page_loop fetch limit cursor before pre = Some (Some es) \<and> gathered es"
  using assms
proof (induction "length post" arbitrary: pre post before rule: less_induct)
  case less
  obtain page rest where page: "fetch before = Some page" "post = page @ rest"
      "\<forall>r \<in> set (pre @ page). kept None r" "length page \<le> limit" "length page < limit \<Longrightarrow> gathered (pre @ page)"
    by (rule page_step [OF less.prems]) blast
  show ?case
  proof (cases "length page < limit")
    case True
    with page show ?thesis by (subst page_loop.simps) simp
  next
    case False
    then have ne: "page \<noteq> []" using limit_pos by auto
    then obtain l where l: "js_last page = Some l" by (simp add: js_last_def)
    have "\<exists>es. page_loop fetch limit cursor (Some (cursor l)) (pre @ page) = Some (Some es) \<and> gathered es"
      by (rule less.hyps [of rest]) (use less.prems page ne l in \<open>auto simp: js_last_append\<close>)
    then show ?thesis using page(1) l False by (subst page_loop.simps) (simp add: Let_def)
  qed
qed

text \<open>The loop returns.\<close>

lemma loop_complete: "\<exists>es. page_loop fetch limit cursor None [] = Some (Some es) \<and> gathered es"
  by (rule loop_from) simp_all

lemma bounded_from:
  assumes "result = pre @ post" "before = map_option cursor (js_last pre)" "\<forall>r \<in> set pre. kept None r"
  shows "case bounded_pages fetch limit cursor n before pre of
      None \<Rightarrow> n * limit \<le> length (filter (kept None) post)
    | Some es \<Rightarrow> gathered es \<and> length es < length pre + n * limit"
  using assms
proof (induction n arbitrary: pre post before)
  case (Suc n)
  obtain page rest where page: "fetch before = Some page" "post = page @ rest"
      "\<forall>r \<in> set (pre @ page). kept None r" "length page \<le> limit" "length page < limit \<Longrightarrow> gathered (pre @ page)"
    by (rule page_step [OF Suc.prems]) blast
  show ?case
  proof (cases "length page < limit")
    case True
    with page show ?thesis by simp
  next
    case False
    then have ne: "page \<noteq> []" and len: "length page = limit" using limit_pos page(4) by auto
    then obtain l where l: "js_last page = Some l" by (simp add: js_last_def)
    have "case bounded_pages fetch limit cursor n (Some (cursor l)) (pre @ page) of
        None \<Rightarrow> n * limit \<le> length (filter (kept None) rest)
      | Some es \<Rightarrow> gathered es \<and> length es < length (pre @ page) + n * limit"
      by (rule Suc.IH) (use Suc.prems page ne l in \<open>auto simp: js_last_append\<close>)
    moreover have "filter (kept None) page = page" using page(3) by (simp add: filter_id_conv)
    ultimately show ?thesis using page(1,2) l len False by (auto simp: Let_def split: option.splits)
  qed
qed simp

text \<open>
  The bounded loop gives up only when the first request saw as many rows as its pages hold together.
\<close>

lemma bounded_complete:
  "case bounded_pages fetch limit cursor n None [] of
     None \<Rightarrow> n * limit \<le> length (filter (kept None) result)
   | Some es \<Rightarrow> gathered es \<and> length es < n * limit"
  using bounded_from [of "[]" result None n] by (simp split: option.splits)

end

section \<open>The query behind the pages\<close>

text \<open>
  \<open>where t >= lower and (t, id) < (before_t, before_id) order by t desc, id desc limit n\<close> over a table whose
  primary key is the identifier: rows with the identifier of a later one are not in the table. The lower end of
  the window is that of the instant of the request.
\<close>

type_synonym sort_position = "int \<times> int"

definition table_rows :: "('r \<Rightarrow> int) \<Rightarrow> 'r list \<Rightarrow> 'r list" where
  "table_rows ident rows = map_values (index_by ident rows)"

definition query_result :: "('r \<Rightarrow> int) \<Rightarrow> ('r \<Rightarrow> int) \<Rightarrow> 'r list \<Rightarrow> 'r list" where
  "query_result stamp ident rows = rev (sort_key (\<lambda>r. (stamp r, ident r)) (table_rows ident rows))"

definition keyset_page ::
  "('r \<Rightarrow> int) \<Rightarrow> ('r \<Rightarrow> int) \<Rightarrow> 'r list \<Rightarrow> int \<Rightarrow> nat \<Rightarrow> sort_position option \<Rightarrow> 'r list" where
  "keyset_page stamp ident rows lower limit before =
     take limit (filter (\<lambda>r. lower \<le> stamp r \<and> (case before of None \<Rightarrow> True | Some b \<Rightarrow> (stamp r, ident r) < b))
       (query_result stamp ident rows))"

lemma distinct_table_rows: "distinct (map ident (table_rows ident rows))"
proof -
  have "ident r = k" if "(k, r) \<in> set (index_by ident rows)" for k r
    using index_by_lookupD [of ident rows k r] map_of_is_SomeI [OF distinct_index_by that] by blast
  then have "map ident (table_rows ident rows) = map_keys (index_by ident rows)"
    by (auto simp: table_rows_def)
  then show ?thesis by (simp only: distinct_index_by)
qed

lemma set_table_rows: "set (table_rows ident rows) \<subseteq> set rows"
  unfolding table_rows_def by (rule subsetI) (rule index_by_values)

lemma query_result_descending:
  "sorted_wrt (\<lambda>a b. (stamp b, ident b) < (stamp a, ident a)) (query_result stamp ident rows)"
proof -
  let ?key = "\<lambda>r. (stamp r, ident r)"
  let ?xs = "sort_key ?key (table_rows ident rows)"
  have "mset (map ident ?xs) = mset (map ident (table_rows ident rows))" by simp
  then have "distinct (map ident ?xs)"
    using distinct_table_rows [of ident rows] mset_eq_imp_distinct_iff by blast
  then have "distinct (map ?key ?xs)" by (auto simp: distinct_map inj_on_def)
  moreover have "sorted (map ?key ?xs)" by simp
  ultimately have "sorted_wrt (<) (map ?key ?xs)" by (simp only: strict_sorted_iff)
  then show ?thesis by (simp add: query_result_def sorted_wrt_rev sorted_wrt_map)
qed

lemma keyset_page_after:
  assumes "query_result stamp ident rows = pre @ r # post"
  shows "keyset_page stamp ident rows lower limit (Some (stamp r, ident r)) =
    take limit (filter (\<lambda>x. lower \<le> stamp x) post)"
proof -
  have "sorted_wrt (\<lambda>a b. (stamp b, ident b) < (stamp a, ident a)) (pre @ r # post)"
    using query_result_descending [of stamp ident rows] assms by simp
  then have "filter (\<lambda>x. lower \<le> stamp x \<and> (stamp x, ident x) < (stamp r, ident r)) pre = []"
    and "filter (\<lambda>x. lower \<le> stamp x \<and> (stamp x, ident x) < (stamp r, ident r)) post = filter (\<lambda>x. lower \<le> stamp x) post"
    by (fastforce simp: sorted_wrt_append filter_empty_conv intro!: filter_cong)+
  then show ?thesis by (simp add: keyset_page_def assms)
qed

lemma query_result_window:
  assumes "query_result stamp ident rows = pre @ x # mid @ y # post" and "lower \<le> stamp y"
  shows "lower \<le> stamp x"
proof -
  have "sorted_wrt (\<lambda>a b. (stamp b, ident b) < (stamp a, ident a)) (pre @ x # mid @ y # post)"
    using query_result_descending [of stamp ident rows] assms(1) by simp
  then have "(stamp y, ident y) < (stamp x, ident x)" by (simp add: sorted_wrt_append)
  then have "stamp y \<le> stamp x" by (auto simp: less_prod_def)
  with assms(2) show ?thesis by simp
qed

lemma set_query_result: "set (query_result stamp ident rows) = set (table_rows ident rows)"
  by (simp add: query_result_def)

text \<open>The lower end of the window when the first request was made, or when a later one was.\<close>

definition window_start :: "int \<Rightarrow> ('c \<Rightarrow> int) \<Rightarrow> 'c option \<Rightarrow> int" where
  "window_start first later before = (case before of None \<Rightarrow> first | Some c \<Rightarrow> max first (later c))"

interpretation query: keyset_feed
    "\<lambda>before. Some (keyset_page stamp ident rows (window_start first later before) (Suc n) before)"
    "\<lambda>r. (stamp r, ident r)" "Suc n" "\<lambda>before r. window_start first later before \<le> stamp r"
    "query_result stamp ident rows"
  for stamp :: "'r \<Rightarrow> int" and ident :: "'r \<Rightarrow> int" and rows :: "'r list" and n :: nat
    and first :: int and later :: "sort_position \<Rightarrow> int"
proof unfold_locales
  fix before :: "sort_position option" and x :: 'r
  show "window_start first later before \<le> stamp x \<Longrightarrow> window_start first later None \<le> stamp x"
    by (auto simp: window_start_def split: option.splits)
qed (simp_all add: keyset_page_after query_result_window, simp add: keyset_page_def)

end
