(* ===== verification/EventFeeds.thy ===== *)
theory EventFeeds
  imports Backups Paging
begin

text \<open>
  The requests behind the feeds: \<open>getMonitoringEvents\<close> and \<open>getMonitoringIncidentContext\<close>
  (\<open>monitoring-events.ts\<close>), \<open>getHostMonitoringEvents\<close> (\<open>host-monitoring-events.ts\<close>) and
  \<open>getAllBackupHistory\<close> (\<open>backups.ts\<close>). The RPC endpoint is a parameter that answers a
  request with a JSON value, or with \<open>None\<close> when the configuration is missing, the connection fails
  or the status is not 2xx. A result \<open>Some None\<close> is an exception, the outer \<open>None\<close> a loop that
  does not return.
\<close>

definition PAGE_SIZE :: nat where
  "PAGE_SIZE = 500"

definition HISTORY_PAGE_SIZE :: nat where
  "HISTORY_PAGE_SIZE = 500"

definition MAX_HISTORY_PAGES :: nat where
  "MAX_HISTORY_PAGES = 1000"

section \<open>Container events\<close>

record event_request =
  rq_range :: string
  rq_server_id :: "string option"
  rq_container_name :: "string option"
  rq_severity :: "string option"
  rq_before_at :: "string option"
  rq_before_id :: "int option"
  rq_limit :: nat

definition hostIdentifier :: "string option \<Rightarrow> string option option" where
  \<comment> \<open>the outer \<open>None\<close> is the exception\<close>
  "hostIdentifier value =
     (case nonempty value of
        None \<Rightarrow> Some None
      | Some s \<Rightarrow> if isValidHostServerId s then Some (Some s) else None)"

definition containerIdentifier :: "string option \<Rightarrow> string option option" where
  "containerIdentifier value =
     (case nonempty value of
        None \<Rightarrow> Some None
      | Some s \<Rightarrow> if CONTAINER_IDENTIFIER_PATTERN s then Some (Some s) else None)"

definition parseMonitoringEventSeverity :: "string option \<Rightarrow> event_severity option" where
  \<comment> \<open>\<open>None\<close> is \<open>"all"\<close>\<close>
  "parseMonitoringEventSeverity value = Option.bind (nonempty value) parse_severity"

definition fetchEventPage ::
  "(event_request \<Rightarrow> jsval option) \<Rightarrow> string \<Rightarrow> string option \<Rightarrow> string option \<Rightarrow> string option \<Rightarrow>
   (string \<times> int) option \<Rightarrow> monitoring_event list option" where
  "fetchEventPage rpc rng serverId containerName severity before =
     Option.bind
       (rpc \<lparr> rq_range = rng, rq_server_id = serverId, rq_container_name = containerName,
              rq_severity = severity, rq_before_at = map_option fst before,
              rq_before_id = map_option snd before, rq_limit = PAGE_SIZE \<rparr>)
       parseEventPayload"

definition event_cursor :: "monitoring_event \<Rightarrow> string \<times> int" where
  "event_cursor e = (ev_occurredAt e, ev_id e)"

definition getMonitoringEvents ::
  "(event_request \<Rightarrow> jsval option) \<Rightarrow> string \<Rightarrow> string option \<Rightarrow> string option \<Rightarrow> string option \<Rightarrow>
   monitoring_event list option option" where
  "getMonitoringEvents rpc rng serverId containerName severity =
     (case (hostIdentifier serverId, containerIdentifier containerName) of
        (Some safeServerId, Some safeContainerName) \<Rightarrow>
          if (safeServerId = None) \<noteq> (safeContainerName = None) then Some None
          else if (case nonempty severity of None \<Rightarrow> False | Some s \<Rightarrow> parse_severity s = None) then Some None
          else page_loop (fetchEventPage rpc rng safeServerId safeContainerName severity)
                 PAGE_SIZE event_cursor None []
      | _ \<Rightarrow> Some None)"

definition getMonitoringIncidentContext ::
  "(string \<Rightarrow> jsval option) \<Rightarrow> string \<Rightarrow> monitoring_event list option" where
  "getMonitoringIncidentContext rpc beforeAt =
     (if Date_parse beforeAt = None then None else Option.bind (rpc beforeAt) parseEventPayload)"

section \<open>Host events\<close>

record host_event_request =
  hq_range :: string
  hq_server_id :: "string option"
  hq_before_at :: "string option"
  hq_before_id :: "int option"
  hq_limit :: nat

definition fetchHostEventPage ::
  "(host_event_request \<Rightarrow> jsval option) \<Rightarrow> string \<Rightarrow> string option \<Rightarrow> (string \<times> int) option \<Rightarrow>
   host_monitoring_event list option" where
  "fetchHostEventPage rpc rng serverId before =
     Option.bind
       (rpc \<lparr> hq_range = rng, hq_server_id = serverId, hq_before_at = map_option fst before,
              hq_before_id = map_option snd before, hq_limit = PAGE_SIZE \<rparr>)
       parseHostEventPayload"

definition getHostMonitoringEvents ::
  "(host_event_request \<Rightarrow> jsval option) \<Rightarrow> string \<Rightarrow> string option \<Rightarrow>
   host_monitoring_event list option option" where
  "getHostMonitoringEvents rpc rng serverId =
     (let safeServerId = nonempty (map_option trim serverId)
      in if (case safeServerId of None \<Rightarrow> False | Some s \<Rightarrow> \<not> isValidHostServerId s) then Some None
         else page_loop (fetchHostEventPage rpc rng safeServerId) PAGE_SIZE
                (\<lambda>e. (hev_occurredAt e, hev_id e)) None [])"

section \<open>Backup history\<close>

record backup_request =
  bq_range :: string
  bq_limit :: nat
  bq_before_started_at :: "string option"
  bq_before_id :: "int option"

definition fetchBackupPage ::
  "(backup_request \<Rightarrow> jsval option) \<Rightarrow> string \<Rightarrow> (string \<times> int) option \<Rightarrow> backup_history_run list option" where
  "fetchBackupPage rpc rng before =
     Option.bind
       (rpc \<lparr> bq_range = rng, bq_limit = HISTORY_PAGE_SIZE, bq_before_started_at = map_option fst before,
              bq_before_id = map_option snd before \<rparr>)
       parseHistoryRows"

definition backup_cursor :: "backup_history_run \<Rightarrow> string \<times> int" where
  "backup_cursor r = (br_startedAt r, bh_rowId r)"

definition getAllBackupHistory ::
  "(backup_request \<Rightarrow> jsval option) \<Rightarrow> string \<Rightarrow> backup_history_run list option" where
  "getAllBackupHistory rpc rng =
     bounded_pages (fetchBackupPage rpc rng) HISTORY_PAGE_SIZE backup_cursor MAX_HISTORY_PAGES None []"

section \<open>Cursors as positions\<close>

text \<open>
  The cursor travels as text; the database reads it back with \<open>stamp\<close>. The pages are those of the query of
  \<^const>\<open>keyset_page\<close>, over a window whose lower end moves on with the clock of the database, from the first
  request, which sends no cursor, to later ones, which send that of a row. Of other cursors nothing is asked:
  the database refuses an identifier below one or a text that is no timestamp.
\<close>

definition position :: "(string \<Rightarrow> int) \<Rightarrow> string \<times> int \<Rightarrow> sort_position" where
  "position stamp c = (stamp (fst c), snd c)"

definition answers_query ::
  "(string \<Rightarrow> int) \<Rightarrow> ((string \<times> int) option \<Rightarrow> int) \<Rightarrow> nat \<Rightarrow> ('r \<Rightarrow> string \<times> int) \<Rightarrow> 'r list \<Rightarrow>
   ((string \<times> int) option \<Rightarrow> 'r list option) \<Rightarrow> bool" where
  \<comment> \<open>\<open>lower\<close> is the lower end of the window at each request\<close>
  "answers_query stamp lower limit cursor rows fetch \<longleftrightarrow>
     (\<forall>before. (before = None \<or> (\<exists>r \<in> set rows. before = Some (cursor r))) \<longrightarrow>
        lower None \<le> lower before \<and>
        fetch before = Some (keyset_page (\<lambda>r. stamp (fst (cursor r))) (\<lambda>r. snd (cursor r)) rows (lower before) limit
          (map_option (position stamp) before)))"

definition query_rows :: "(string \<Rightarrow> int) \<Rightarrow> ('r \<Rightarrow> string \<times> int) \<Rightarrow> 'r list \<Rightarrow> 'r list" where
  "query_rows stamp cursor rows =
     query_result (\<lambda>r. stamp (fst (cursor r))) (\<lambda>r. snd (cursor r)) rows"

text \<open>The rows a request sees; only cursors of rows and none occur.\<close>

definition seen_by :: "(string \<Rightarrow> int) \<Rightarrow> ((string \<times> int) option \<Rightarrow> int) \<Rightarrow> ('r \<Rightarrow> string \<times> int) \<Rightarrow> (string \<times> int) option \<Rightarrow>
    'r \<Rightarrow> bool" where
  "seen_by stamp lower cursor before r \<longleftrightarrow>
     lower None \<le> stamp (fst (cursor r)) \<and> lower before \<le> stamp (fst (cursor r))"

lemma set_query_rows: "set (query_rows stamp cursor rows) \<subseteq> set rows"
  unfolding query_rows_def set_query_result by (rule set_table_rows)

lemma answers_query_feed:
  assumes "answers_query stamp lower limit cursor rows fetch" "0 < limit"
  shows "keyset_feed fetch cursor limit (seen_by stamp lower cursor) (query_rows stamp cursor rows)"
proof unfold_locales
  show "fetch None = Some (take limit (filter (seen_by stamp lower cursor None) (query_rows stamp cursor rows)))"
    using assms(1) by (simp add: answers_query_def query_rows_def keyset_page_def seen_by_def [abs_def])
next
  fix pre r post
  assume rows: "query_rows stamp cursor rows = pre @ r # post"
  then have "r \<in> set rows" using set_query_rows [of stamp cursor rows] by auto
  then have *: "lower None \<le> lower (Some (cursor r))"
    "fetch (Some (cursor r)) = Some (keyset_page (\<lambda>r. stamp (fst (cursor r))) (\<lambda>r. snd (cursor r)) rows
       (lower (Some (cursor r))) limit (Some (stamp (fst (cursor r)), snd (cursor r))))"
    using assms(1) by (auto simp: answers_query_def position_def)
  then have "seen_by stamp lower cursor (Some (cursor r)) = (\<lambda>x. lower (Some (cursor r)) \<le> stamp (fst (cursor x)))"
    by (auto simp: seen_by_def fun_eq_iff)
  then show "fetch (Some (cursor r)) = Some (take limit (filter (seen_by stamp lower cursor (Some (cursor r))) post))"
    unfolding *(2) by (simp only: keyset_page_after [OF rows [unfolded query_rows_def]])
next
  fix pre x mid y post before
  assume rows: "query_rows stamp cursor rows = pre @ x # mid @ y # post" and y: "seen_by stamp lower cursor before y"
  show "seen_by stamp lower cursor before x"
    using query_result_window [OF rows [unfolded query_rows_def]] y by (simp add: seen_by_def)
next
  fix before x
  show "seen_by stamp lower cursor before x \<Longrightarrow> seen_by stamp lower cursor None x" by (simp add: seen_by_def)
qed (rule assms(2))

text \<open>A query over an empty table, for the witnesses below, and one row in its JSON form.\<close>

definition event_json :: "monitoring_event \<Rightarrow> jsval" where
  "event_json e = Obj
     [(''event_id'', jint (ev_id e)), (''host_id'', Str (ev_hostId e)),
      (''server_id'', Str (ev_serverId e)), (''host_display_name'', Str (ev_hostDisplayName e)),
      (''container_name'', Str (ev_containerName e)), (''occurred_at'', Str (ev_occurredAt e)),
      (''event_type'', Str ''state_changed''), (''severity'', Str ''critical''),
      (''from_value'', Null),
      (''to_value'', (case ev_toValue e of None \<Rightarrow> Null | Some v \<Rightarrow> Str v)),
      (''numeric_value'', Null), (''expected_state'', Str ''running'')]"

lemma query_rows_facts:
  fixes rows :: "'r list"
  shows "distinct (map (snd \<circ> cursor) (query_rows stamp cursor rows))"
    "set (query_rows stamp cursor rows) \<subseteq> set rows"
    "(snd \<circ> cursor) ` set (query_rows stamp cursor rows) = (snd \<circ> cursor) ` set rows"
proof -
  let ?id = "\<lambda>r. snd (cursor r)"
  have set: "set (query_rows stamp cursor rows) = set (table_rows ?id rows)"
    by (simp add: query_rows_def set_query_result)
  then show "set (query_rows stamp cursor rows) \<subseteq> set rows"
    using set_table_rows [of ?id rows] by simp
  have "mset (query_rows stamp cursor rows) = mset (table_rows ?id rows)"
    by (simp add: query_rows_def query_result_def)
  then have "distinct (map ?id (query_rows stamp cursor rows)) \<longleftrightarrow> distinct (map ?id (table_rows ?id rows))"
    by (metis mset_map mset_eq_imp_distinct_iff)
  then show "distinct (map (snd \<circ> cursor) (query_rows stamp cursor rows))"
    by (simp add: distinct_table_rows comp_def)
  have entry: "?id (snd x) = fst x" if "x \<in> set (index_by ?id rows)" for x
    using index_by_lookupD [of ?id rows "fst x" "snd x"]
      map_of_is_SomeI [OF distinct_index_by, of "fst x" "snd x"] that by simp
  have "?id ` set (table_rows ?id rows) = fst ` set (index_by ?id rows)"
    unfolding table_rows_def set_map image_image by (rule image_cong) (simp_all add: entry)
  then show "(snd \<circ> cursor) ` set (query_rows stamp cursor rows) = (snd \<circ> cursor) ` set rows"
    by (simp add: set image_comp [symmetric] comp_def image_image)
qed

lemma parseEventPayload_json:
  assumes "\<forall>e \<in> set es. parseEventRow (event_json e) = Some e"
  shows "parseEventPayload (Arr (map event_json es)) = Some es"
  using assms by (auto simp: parseEventPayload_def map_rows_Some_iff)

section \<open>Properties\<close>

text \<open>C18. When the database answers the page requests it can get with the pages of its ordered query over a
  window that moves with its clock, the event loop returns, whatever the number of pages: with rows of the table
  that the first request saw, newest first, each event identifier exactly once, and with every row of the table
  that is still within the window at the last request; only rows that have left the window while the pages were
  read may be missing. Requests without a cursor or with that of a row of the table are answered, the only ones
  that occur, and no row is stored below a cursor meanwhile: new rows are later than it.\<close>

theorem monitoring_events_complete:
  assumes "hostIdentifier serverId = Some sid" "containerIdentifier containerName = Some cid"
    and "(sid = None) = (cid = None)"
    and "case nonempty severity of None \<Rightarrow> True | Some s \<Rightarrow> parse_severity s \<noteq> None"
    and "answers_query stamp lower PAGE_SIZE event_cursor rows (fetchEventPage rpc rng sid cid severity)"
  shows "\<exists>es before. getMonitoringEvents rpc rng serverId containerName severity = Some (Some es) \<and>
    set es \<subseteq> set rows \<and> distinct (map ev_id es) \<and>
    sorted_wrt (\<lambda>a b. (stamp (ev_occurredAt b), ev_id b) < (stamp (ev_occurredAt a), ev_id a)) es \<and>
    (\<forall>e \<in> set es. lower None \<le> stamp (ev_occurredAt e)) \<and>
    (before = None \<or> (\<exists>e \<in> set es. before = Some (event_cursor e))) \<and>
    (\<forall>e \<in> set (table_rows ev_id rows). lower before \<le> stamp (ev_occurredAt e) \<longrightarrow> e \<in> set es)"
proof -
  let ?result = "query_rows stamp event_cursor rows"
  have feed: "keyset_feed (fetchEventPage rpc rng sid cid severity) event_cursor PAGE_SIZE
      (seen_by stamp lower event_cursor) ?result"
    by (rule answers_query_feed [OF assms(5)]) (simp add: PAGE_SIZE_def)
  obtain es before where es: "getMonitoringEvents rpc rng serverId containerName severity = Some (Some es)"
      "prefix es ?result" "\<forall>e \<in> set es. seen_by stamp lower event_cursor None e"
      "before = None \<or> (\<exists>e \<in> set es. before = Some (event_cursor e))"
      "\<forall>e \<in> set ?result. seen_by stamp lower event_cursor before e \<longrightarrow> e \<in> set es"
    using keyset_feed.loop_complete [OF feed] assms(1-4) unfolding keyset_feed.gathered_def [OF feed]
    by (auto simp: getMonitoringEvents_def split: option.splits)
  from es(2) obtain rest where rest: "?result = es @ rest" by (auto simp: prefix_def)
  then have sub: "set es \<subseteq> set rows" using set_query_rows [of stamp event_cursor rows] by auto
  have "sorted_wrt (\<lambda>a b. (stamp (ev_occurredAt b), ev_id b) < (stamp (ev_occurredAt a), ev_id a)) ?result"
    unfolding query_rows_def event_cursor_def fst_conv snd_conv by (rule query_result_descending)
  then have sorted: "sorted_wrt (\<lambda>a b. (stamp (ev_occurredAt b), ev_id b) < (stamp (ev_occurredAt a), ev_id a)) es"
    by (simp add: rest sorted_wrt_append)
  have ids: "snd \<circ> event_cursor = ev_id" by (simp add: fun_eq_iff event_cursor_def)
  have "distinct (map ev_id es)"
    using query_rows_facts(1) [of event_cursor stamp rows] by (simp add: ids rest)
  moreover have "lower None \<le> lower before"
    using es(4) sub assms(5) by (auto simp: answers_query_def)
  moreover have "set ?result = set (table_rows ev_id rows)"
    by (simp add: query_rows_def set_query_result event_cursor_def)
  ultimately show ?thesis
    using es sub sorted by (intro exI [of _ es] exI [of _ before]) (auto simp: seen_by_def event_cursor_def)
qed

definition sample_rows :: "monitoring_event list" where
  "sample_rows = [sample_event 1 ''2026-07-01T08:00:00.000Z'' CriticalSeverity ''exited'',
                  sample_event 3 ''2026-07-01T11:00:00.000Z'' CriticalSeverity ''dead'']"

text \<open>The window of the first request starts at eight; that of a later one, an instant later.\<close>

definition sample_lower :: "string option \<Rightarrow> int" where
  "sample_lower before = ms_of ''2026-07-01T08:00:00.000Z'' + (if before = None then 0 else 1)"

definition sample_events_rpc :: "event_request \<Rightarrow> jsval option" where
  "sample_events_rpc q = Some (Arr (map event_json
     (keyset_page (\<lambda>r. ms_of (fst (event_cursor r))) (\<lambda>r. snd (event_cursor r)) sample_rows (sample_lower (rq_before_at q)) (rq_limit q)
        (case (rq_before_at q, rq_before_id q) of (Some t, Some i) \<Rightarrow> Some (ms_of t, i) | _ \<Rightarrow> None))))"

lemma sample_rows_parse: "e \<in> set sample_rows \<Longrightarrow> parseEventRow (event_json e) = Some e"
  unfolding sample_rows_def set_simps insert_iff empty_iff
  by (elim disjE FalseE; simp add: sample_event_def event_json_def parseEventRow_def integerValue_def
      parse_event_type_def parse_severity_def parse_expected_state_def isValidHostServerId_def sample_instants js_eval
      del: Date_parse_def)

lemma sample_rpc_answers:
  "answers_query ms_of (\<lambda>before. sample_lower (map_option fst before)) PAGE_SIZE event_cursor sample_rows
     (fetchEventPage sample_events_rpc ''24h'' None None None)"
  unfolding answers_query_def
proof (intro allI impI conjI)
  fix before :: "(string \<times> int) option"
  show "sample_lower (map_option fst None) \<le> sample_lower (map_option fst before)" by (simp add: sample_lower_def)
next
  fix before :: "(string \<times> int) option"
  let ?page = "keyset_page (\<lambda>r. ms_of (fst (event_cursor r))) (\<lambda>r. snd (event_cursor r)) sample_rows
    (sample_lower (map_option fst before)) PAGE_SIZE (map_option (position ms_of) before)"
  have "set ?page \<subseteq> set (table_rows (\<lambda>r. snd (event_cursor r)) sample_rows)"
    unfolding keyset_page_def
    by (metis (no_types, lifting) set_take_subset filter_is_subset set_query_result subset_trans)
  then have "\<forall>e \<in> set ?page. parseEventRow (event_json e) = Some e"
    using set_table_rows [of "\<lambda>r. snd (event_cursor r)" sample_rows] sample_rows_parse by blast
  then have "parseEventPayload (Arr (map event_json ?page)) = Some ?page"
    by (rule parseEventPayload_json)
  then show "fetchEventPage sample_events_rpc ''24h'' None None None before = Some ?page"
    by (cases before) (simp_all add: fetchEventPage_def sample_events_rpc_def position_def)
qed

theorem monitoring_events_complete_witness:
  "\<exists>es. getMonitoringEvents sample_events_rpc ''24h'' None None None = Some (Some es) \<and> 3 \<in> ev_id ` set es"
proof -
  have none: "hostIdentifier None = Some None" "containerIdentifier None = Some None"
    by (simp_all add: hostIdentifier_def containerIdentifier_def nonempty_def)
  obtain es and before :: "(string \<times> int) option" where
    es: "getMonitoringEvents sample_events_rpc ''24h'' None None None = Some (Some es)"
    "\<forall>e \<in> set (table_rows ev_id sample_rows). sample_lower (map_option fst before) \<le> ms_of (ev_occurredAt e) \<longrightarrow>
       e \<in> set es"
    using monitoring_events_complete [OF none _ _ sample_rpc_answers] by (auto simp: nonempty_def)
  let ?e = "sample_event 3 ''2026-07-01T11:00:00.000Z'' CriticalSeverity ''dead''"
  have "sample_lower (map_option fst before) \<le> ms_of (ev_occurredAt ?e)"
    by (simp add: sample_lower_def sample_event_def ms_of_def sample_instants del: Date_parse_def)
  moreover have "?e \<in> set (table_rows ev_id sample_rows)"
    by (simp add: sample_rows_def table_rows_def index_by_def sample_event_def)
  ultimately have "?e \<in> set es" using es(2) by blast
  then have "ev_id ?e \<in> ev_id ` set es" by (rule imageI)
  then show ?thesis using es(1) by (simp add: sample_event_def)
qed

text \<open>
  Under the same contract the backup history is read with every run that is still in the window at the last
  request, or refused, when the first request saw half a million runs: it is never silently cut.
\<close>

theorem backup_history_complete_or_refused:
  assumes "answers_query stamp lower HISTORY_PAGE_SIZE backup_cursor rows (fetchBackupPage rpc rng)"
  shows "case getAllBackupHistory rpc rng of
      None \<Rightarrow> 500000 \<le> length (filter (seen_by stamp lower backup_cursor None) (query_rows stamp backup_cursor rows))
    | Some runs \<Rightarrow> prefix runs (query_rows stamp backup_cursor rows) \<and>
        (\<exists>before. (before = None \<or> (\<exists>r \<in> set runs. before = Some (backup_cursor r))) \<and>
           (\<forall>r \<in> set (query_rows stamp backup_cursor rows). seen_by stamp lower backup_cursor before r \<longrightarrow>
              r \<in> set runs))"
proof -
  have feed: "keyset_feed (fetchBackupPage rpc rng) backup_cursor HISTORY_PAGE_SIZE
      (seen_by stamp lower backup_cursor) (query_rows stamp backup_cursor rows)"
    by (rule answers_query_feed [OF assms]) (simp add: HISTORY_PAGE_SIZE_def)
  from keyset_feed.bounded_complete [OF feed, of MAX_HISTORY_PAGES] show ?thesis
    unfolding keyset_feed.gathered_def [OF feed]
    by (auto simp: getAllBackupHistory_def HISTORY_PAGE_SIZE_def MAX_HISTORY_PAGES_def split: option.splits)
qed

theorem backup_history_complete_or_refused_witness:
  "getAllBackupHistory (\<lambda>_. Some (Arr [])) ''24h'' = Some []"
proof -
  have "answers_query ms_of (\<lambda>_. 0) HISTORY_PAGE_SIZE backup_cursor []
      (fetchBackupPage (\<lambda>_. Some (Arr [])) ''24h'')"
    by (simp add: answers_query_def fetchBackupPage_def parseHistoryRows_def keyset_page_def
        query_result_def table_rows_def)
  from backup_history_complete_or_refused [OF this] show ?thesis
    by (simp add: query_rows_def query_result_def table_rows_def split: option.splits)
qed

end
