(* ===== verification/DetailPages.thy ===== *)
theory DetailPages
  imports HistoryPage Inventory EventFeeds
begin

text \<open>
  The pages of one host (\<open>app/hosts/[serverId]/page.tsx\<close>) and of one container
  (\<open>app/containers/[serverId]/[containerName]/page.tsx\<close>) with its panel of events
  (\<open>components/container-event-panel.tsx\<close>). A page that is not found is \<open>NotFound\<close>. The Japanese labels of the event
  types and the Japanese words of durations are arguments or constructors; dates for display and markup are left out.
\<close>

section \<open>Amounts\<close>

definition formatCapacity :: "rat option \<Rightarrow> rat option \<Rightarrow> string option" where
  "formatCapacity whole free =
     (case (used_percent whole free, whole, free) of
        (Some usage, Some t, Some a) \<Rightarrow>
          Some (the (formatBytes (Some (max 0 (t - a)))) @ '' / '' @ the (formatBytes (Some t)) @ '' ('' @ toFixed 1 usage @ ''%)'')
      | _ \<Rightarrow> None)"

definition memoryPercent :: "container_overview \<Rightarrow> rat option" where
  "memoryPercent c =
     (case (co_memoryUsageBytes c, co_memoryLimitBytes c) of
        (Some usage, Some limit) \<Rightarrow> if limit \<le> 0 then None else Some (usage / limit * 100)
      | _ \<Rightarrow> None)"

definition formatMemory :: "container_overview \<Rightarrow> string option" where
  "formatMemory c =
     (case (memoryPercent c, co_memoryUsageBytes c, co_memoryLimitBytes c) of
        (Some p, Some usage, Some limit) \<Rightarrow>
          Some (the (formatBytes (Some usage)) @ '' / '' @ the (formatBytes (Some limit)) @ '' ('' @ toFixed 1 p @ ''%)'')
      | _ \<Rightarrow> None)"

datatype duration = NoDuration | DaysHours jsnum jsnum | HoursMinutes int int | MinutesSeconds int rat | OnlySeconds jsnum

definition js_remainder :: "rat \<Rightarrow> rat \<Rightarrow> rat" where
  \<comment> \<open>the operator \<open>%\<close>: the sign of the dividend\<close>
  "js_remainder a b = (if a < 0 then - (- a - b * of_int \<lfloor>- a / b\<rfloor>) else a - b * of_int \<lfloor>a / b\<rfloor>)"

definition formatDuration :: "jsnum option \<Rightarrow> duration" where
  \<comment> \<open>of an infinite amount only the days are a number\<close>
  "formatDuration seconds =
     (case seconds of
        None \<Rightarrow> NoDuration
      | Some NaN \<Rightarrow> OnlySeconds NaN
      | Some NegInf \<Rightarrow> OnlySeconds NaN
      | Some PosInf \<Rightarrow> DaysHours PosInf NaN
      | Some (Fin s) \<Rightarrow>
          (let days = \<lfloor>s / 86400\<rfloor>; hours = \<lfloor>js_remainder s 86400 / 3600\<rfloor>; minutes = \<lfloor>js_remainder s 3600 / 60\<rfloor>;
               rest = js_remainder s 60
           in if days > 0 then DaysHours (Fin (of_int days)) (Fin (of_int hours))
              else if hours > 0 then HoursMinutes hours minutes
              else if minutes > 0 then MinutesSeconds minutes rest else OnlySeconds (Fin rest)))"

definition loadText :: "host_overview \<Rightarrow> string option" where
  "loadText h =
     (case (ho_loadAverage1 h, ho_loadAverage5 h, ho_loadAverage15 h) of
        (Some a, Some b, Some c) \<Rightarrow> Some (toFixed 2 a @ '' / '' @ toFixed 2 b @ '' / '' @ toFixed 2 c)
      | _ \<Rightarrow> None)"

definition formatExit :: "container_overview \<Rightarrow> string option" where
  \<comment> \<open>\<open>None\<close> is the dash; an exit code is an integer\<close>
  "formatExit c =
     (if co_oomKilled c then Some ''OOMKilled''
      else map_option (\<lambda>n. ''Code '' @ int_text \<lfloor>n\<rfloor>) (co_exitCode c))"

definition peak :: "'p list \<Rightarrow> ('p \<Rightarrow> rat option) \<Rightarrow> rat option" where
  "peak points selector =
     (let vs = List.map_filter selector points in if vs = [] then None else Some (Max (set vs)))"

fun newest :: "'p list \<Rightarrow> ('p \<Rightarrow> rat option) \<Rightarrow> rat option" where
  \<comment> \<open>the loop of \<open>latest\<close>, on the reversed list\<close>
  "newest [] selector = None"
| "newest (p # ps) selector = (case selector p of Some v \<Rightarrow> Some v | None \<Rightarrow> newest ps selector)"

definition latest_value :: "'p list \<Rightarrow> ('p \<Rightarrow> rat option) \<Rightarrow> rat option" where
  "latest_value points selector = newest (rev points) selector"

section \<open>Charts\<close>

definition container_markers :: "(event_type \<Rightarrow> string) \<Rightarrow> monitoring_event list \<Rightarrow> chart_marker list" where
  "container_markers labels events =
     map (\<lambda>e. \<lparr> ck_id = int_text (ev_id e), ck_timestamp = ev_occurredAt e, ck_label = labels (ev_eventType e),
       ck_severity = ev_severity e \<rparr>) events"

definition host_marker_severity :: "host_event_severity \<Rightarrow> event_severity" where
  \<comment> \<open>the severities of a host are two of those of a marker\<close>
  "host_marker_severity s = (case s of HostInfo \<Rightarrow> InfoSeverity | HostWarning \<Rightarrow> WarningSeverity)"

definition hostMarkers :: "(host_event_type \<Rightarrow> string) \<Rightarrow> host_monitoring_event list \<Rightarrow> chart_marker list" where
  "hostMarkers labels events =
     map (\<lambda>e. \<lparr> ck_id = ''host-event-'' @ int_text (hev_id e), ck_timestamp = hev_occurredAt e,
       ck_label = labels (hev_eventType e), ck_severity = host_marker_severity (hev_severity e) \<rparr>) events"

definition container_singleSeries ::
  "container_history_series option \<Rightarrow> string \<Rightarrow> string \<Rightarrow> (container_history_point \<Rightarrow> rat option) \<Rightarrow> chart_series list" where
  "container_singleSeries history sid label selector =
     (case history of None \<Rightarrow> [] | Some h \<Rightarrow> [line sid label cp_timestamp (ch_points h) selector])"

definition container_dualSeries ::
  "container_history_series option \<Rightarrow> (string \<times> string \<times> (container_history_point \<Rightarrow> rat option)) list \<Rightarrow> chart_series list" where
  \<comment> \<open>both series are divided by 1024\<close>
  "container_dualSeries history items =
     (case history of None \<Rightarrow> []
      | Some h \<Rightarrow> map (\<lambda>(sid, label, selector). line sid label cp_timestamp (ch_points h) (toKiBPerSecond \<circ> selector)) items)"

definition host_singleSeries ::
  "host_history_series option \<Rightarrow> string \<Rightarrow> string \<Rightarrow> (host_history_point \<Rightarrow> rat option) \<Rightarrow> chart_series list" where
  "host_singleSeries history sid label selector =
     (case history of None \<Rightarrow> [] | Some h \<Rightarrow> [line sid label hp_timestamp (hs_points h) selector])"

definition host_loadSeries :: "host_history_series option \<Rightarrow> chart_series list" where
  "host_loadSeries history =
     (case history of None \<Rightarrow> []
      | Some h \<Rightarrow> map (\<lambda>(sid, label, selector). line sid label hp_timestamp (hs_points h) selector)
          [(''load1'', ''Load 1m'', hp_loadAverage1), (''load5'', ''Load 5m'', hp_loadAverage5),
           (''load15'', ''Load 15m'', hp_loadAverage15)])"

definition detail_chart ::
  "shared_props \<Rightarrow> chart_marker list \<Rightarrow> string \<Rightarrow> rat option \<Rightarrow> nat option \<Rightarrow> chart_series list \<Rightarrow> chart_input" where
  "detail_chart shared markers unit limit digits series =
     \<lparr> cp_series = series, cp_startAt = sd_startAt shared, cp_endAt = sd_endAt shared,
       cp_expectedIntervalSeconds = sd_expectedIntervalSeconds shared, cp_unit = unit, cp_maximum = limit,
       cp_valueDigits = digits, cp_markers = markers, cp_regions = [] \<rparr>"

definition default_source :: "history_range \<Rightarrow> history_data_source" where
  "default_source rng = (if rng = History7d \<or> rng = History30d then RollupSource else RawSource)"

definition host_historyHref :: "string \<Rightarrow> history_range \<Rightarrow> string" where
  "host_historyHref serverId rng = ''/hosts/'' @ encodeURIComponent serverId @ ''?range='' @ history_range_text rng"

definition container_historyHref :: "string \<Rightarrow> string \<Rightarrow> history_range \<Rightarrow> string" where
  "container_historyHref serverId containerName rng =
     ''/containers/'' @ encodeURIComponent serverId @ ''/'' @ encodeURIComponent containerName @ ''?range='' @
     history_range_text rng"

section \<open>The panel of events\<close>

datatype event_transition =
    FromTo "string option" "string option" | RestartsBy "string option" "string option" int
  | IntoMaintenance | OutOfMaintenance

definition transition :: "monitoring_event \<Rightarrow> event_transition" where
  "transition e =
     (if ev_eventType e = RestartCountIncreased
      then RestartsBy (ev_fromValue e) (ev_toValue e) (case ev_numericValue e of None \<Rightarrow> 0 | Some n \<Rightarrow> n)
      else if ev_eventType e = MaintenanceStarted then IntoMaintenance
      else if ev_eventType e = MaintenanceEnded then OutOfMaintenance
      else FromTo (ev_fromValue e) (ev_toValue e))"

record event_panel =
  evp_href :: string
  evp_failed :: bool
  evp_shown :: "(monitoring_event \<times> event_transition) list"

definition ContainerEventPanel :: "monitoring_event list \<Rightarrow> history_range \<Rightarrow> string \<Rightarrow> string \<Rightarrow> bool \<Rightarrow> event_panel" where
  "ContainerEventPanel events rng serverId containerName failed =
     \<lparr> evp_href = ''/events?range='' @ history_range_text rng @ ''&target='' @
         encodeURIComponent (serverId @ ''/'' @ containerName),
       evp_failed = failed, evp_shown = (if failed then [] else map (\<lambda>e. (e, transition e)) (take 12 events)) \<rparr>"

section \<open>The page of a container\<close>

record container_detail =
  cd_container :: "container_overview option"
  cd_currentError :: bool
  cd_charts :: "chart_input list option"
  cd_peakCpu :: "rat option"
  cd_peakMemory :: "rat option"
  cd_peakPids :: "rat option"
  cd_latestRestart :: "rat option"
  cd_totalSamples :: int
  cd_source :: history_data_source
  cd_events :: event_panel

definition container_detail_charts :: "shared_props \<Rightarrow> chart_marker list \<Rightarrow> container_history_series option \<Rightarrow> string \<Rightarrow> chart_input list" where
  "container_detail_charts shared markers history label =
     [detail_chart shared markers ''%'' None None (container_singleSeries history ''cpu'' label cp_cpuPercent),
      detail_chart shared markers ''%'' (Some 100) None (container_singleSeries history ''memory'' label cp_memoryPercent),
      detail_chart shared markers [] None (Some 0) (container_singleSeries history ''pids'' label cp_pids),
      detail_chart shared markers [] None (Some 0) (container_singleSeries history ''restart'' label cp_restartCount),
      detail_chart shared markers '' KiB/s'' None None (container_dualSeries history
        [(''network-rx'', ''RX'', cp_networkRxRateBps), (''network-tx'', ''TX'', cp_networkTxRateBps)]),
      detail_chart shared markers '' KiB/s'' None None (container_dualSeries history
        [(''block-read'', ''Read'', cp_blockReadRateBps), (''block-write'', ''Write'', cp_blockWriteRateBps)])]"

definition detail_period :: "history_range \<Rightarrow> string \<Rightarrow> int \<Rightarrow> shared_props option" where
  \<comment> \<open>the period that ends at \<open>endAt\<close>, \<open>None\<close> where \<open>toISOString\<close> throws\<close>
  "detail_period rng endAt bucket = do {
     finish \<leftarrow> Date_parse endAt;
     startAt \<leftarrow> Date_toISOString (finish - fst (history_range_config rng) * 3600000);
     Some \<lparr> sd_startAt = startAt, sd_endAt = endAt, sd_expectedIntervalSeconds = bucket \<rparr>
   }"

datatype 'a found = NotFound | PageThrows | Found 'a

definition container_history_of :: "host_overview \<Rightarrow> string \<Rightarrow> container_history_series list option \<Rightarrow> container_history_series option" where
  "container_history_of host name listed =
     (case listed of None \<Rightarrow> None
      | Some items \<Rightarrow> find (\<lambda>i. ch_hostId i = ho_id host \<and> ch_containerName i = name) items)"

definition container_detail_view ::
  "(event_type \<Rightarrow> string) \<Rightarrow> history_range \<Rightarrow> string \<Rightarrow> string \<Rightarrow> string \<Rightarrow> (host_overview \<times> container_overview) option \<Rightarrow>
   container_history_series list option \<Rightarrow> monitoring_event list option \<Rightarrow> container_detail found" where
  \<comment> \<open>the rest of the page; without a host nothing more is read\<close>
  "container_detail_view labels rng serverId containerName endAt current listed loaded =
     (let history = (case current of None \<Rightarrow> None | Some (h, _) \<Rightarrow> container_history_of h containerName listed);
          historyError = (current \<noteq> None \<and> listed = None);
          eventError = (current \<noteq> None \<and> loaded = None);
          events = (case (current, loaded) of (Some _, Some l) \<Rightarrow> l | _ \<Rightarrow> []);
          points = (case history of None \<Rightarrow> [] | Some h \<Rightarrow> ch_points h);
          bucket = (case history of None \<Rightarrow> fst (snd (history_range_config rng)) | Some h \<Rightarrow> ch_bucketSeconds h);
          label = (case current of None \<Rightarrow> containerName | Some (_, c) \<Rightarrow> co_name c @ '' / '' @ co_hostDisplayName c)
      in case detail_period rng endAt bucket of
           None \<Rightarrow> PageThrows
         | Some shared \<Rightarrow> Found
             \<lparr> cd_container = map_option snd current, cd_currentError = (current = None),
               cd_charts = (if historyError then None
                 else Some (container_detail_charts shared (container_markers labels events) history label)),
               cd_peakCpu = peak points cp_cpuPercent, cd_peakMemory = peak points cp_memoryPercent,
               cd_peakPids = peak points cp_pids, cd_latestRestart = latest_value points cp_restartCount,
               cd_totalSamples = (\<Sum>p \<leftarrow> points. cp_sampleCount p),
               cd_source = (case history of None \<Rightarrow> default_source rng | Some h \<Rightarrow> ch_dataSource h),
               cd_events = ContainerEventPanel events rng serverId containerName eventError \<rparr>)"

definition ContainerDetailPage ::
  "(event_type \<Rightarrow> string) \<Rightarrow> string \<Rightarrow> string \<Rightarrow> query_param \<Rightarrow> int \<Rightarrow> monitoring_snapshot option \<Rightarrow>
   container_history_series list option \<Rightarrow> monitoring_event list option \<Rightarrow> container_detail found" where
  \<comment> \<open>a snapshot, a history or a feed that fails is \<open>None\<close>\<close>
  "ContainerDetailPage labels serverId containerName rangeParam now snapshot listed loaded =
     (let rng = parseHistoryRange (firstValue rangeParam)
      in if \<not> CONTAINER_IDENTIFIER_PATTERN serverId \<or> \<not> CONTAINER_IDENTIFIER_PATTERN containerName then NotFound
         else (case snapshot of
                 None \<Rightarrow> container_detail_view labels rng serverId containerName (iso_text now) None listed loaded
               | Some snap \<Rightarrow>
                   (case find (\<lambda>h. ho_serverId h = serverId) (ms_hosts snap) of
                      None \<Rightarrow> NotFound
                    | Some host \<Rightarrow>
                        (case find (\<lambda>c. co_hostId c = ho_id host \<and> co_name c = containerName) (ms_containers snap) of
                           None \<Rightarrow> NotFound
                         | Some c \<Rightarrow> container_detail_view labels rng serverId containerName (ms_generatedAt snap)
                             (Some (host, c)) listed loaded))))"

section \<open>The page of a host\<close>

datatype event_detail = VersionChange "string option" "string option" | HeartbeatGap duration | Reboot duration duration

record host_detail =
  hd_host :: "host_overview option"
  hd_currentError :: bool
  hd_containers :: "container_overview list"
  hd_problems :: nat
  hd_charts :: "chart_input list option"
  hd_peakLoad :: "rat option"
  hd_peakMemory :: "rat option"
  hd_peakDisk :: "rat option"
  hd_samples :: int
  hd_source :: history_data_source
  hd_events :: "(host_monitoring_event \<times> event_detail) list"
  hd_eventError :: bool

definition host_detail_charts :: "shared_props \<Rightarrow> chart_marker list \<Rightarrow> host_history_series option \<Rightarrow> string \<Rightarrow> chart_input list" where
  "host_detail_charts shared markers history name =
     [detail_chart shared markers [] None (Some 2) (host_loadSeries history),
      detail_chart shared markers ''%'' (Some 100) None (host_singleSeries history ''memory'' name hp_memoryPercent),
      detail_chart shared markers ''%'' (Some 100) None (host_singleSeries history ''disk'' name hp_diskPercent)]"

definition eventDetail :: "host_monitoring_event \<Rightarrow> event_detail" where
  \<comment> \<open>an empty text is no value; the others go through \<open>Number\<close>\<close>
  "eventDetail e =
     (let duration_of = (\<lambda>v. formatDuration (map_option string_to_number (nonempty v)))
      in case hev_eventType e of
           AgentVersionChanged \<Rightarrow> VersionChange (hev_fromValue e) (hev_toValue e)
         | HeartbeatGapDetected \<Rightarrow> HeartbeatGap (formatDuration (map_option (\<lambda>n. Fin (of_int n)) (hev_numericValue e)))
         | HostRebootDetected \<Rightarrow> Reboot (duration_of (hev_fromValue e)) (duration_of (hev_toValue e)))"

definition host_history_of :: "host_overview option \<Rightarrow> host_history_series list option \<Rightarrow> host_history_series option" where
  "host_history_of host listed =
     (case (host, listed) of
        (Some h, Some items) \<Rightarrow> find (\<lambda>i. hs_hostId i = ho_id h) items
      | _ \<Rightarrow> None)"

definition host_detail_view ::
  "(host_event_type \<Rightarrow> string) \<Rightarrow> history_range \<Rightarrow> string \<Rightarrow> int \<Rightarrow>
   host_overview option \<Rightarrow> container_overview list \<Rightarrow> host_history_series list option \<Rightarrow>
   host_monitoring_event list option \<Rightarrow> host_detail found" where
  \<comment> \<open>the rest of the page; the events are read with or without a host\<close>
  "host_detail_view labels rng serverId now host containers listed loaded =
     (let history = host_history_of host listed;
          historyError = (host \<noteq> None \<and> listed = None);
          events = (case loaded of Some l \<Rightarrow> l | None \<Rightarrow> []);
          points = (case history of None \<Rightarrow> [] | Some h \<Rightarrow> hs_points h);
          bucket = (case history of None \<Rightarrow> fst (snd (history_range_config rng)) | Some h \<Rightarrow> hs_bucketSeconds h);
          name = (case host of None \<Rightarrow> serverId | Some h \<Rightarrow> ho_displayName h)
      in case detail_period rng (iso_text now) bucket of
           None \<Rightarrow> PageThrows
         | Some shared \<Rightarrow> Found
             \<lparr> hd_host = host, hd_currentError = (host = None), hd_containers = containers,
               hd_problems = length (filter (\<lambda>c. co_status c \<in> set [CtError, CtOffline, CtStale]) containers),
               hd_charts = (if historyError then None
                 else Some (host_detail_charts shared (hostMarkers labels events) history name)),
               hd_peakLoad = peak points hp_loadAverage1, hd_peakMemory = peak points hp_memoryPercent,
               hd_peakDisk = peak points hp_diskPercent, hd_samples = (\<Sum>p \<leftarrow> points. hp_sampleCount p),
               hd_source = (case history of None \<Rightarrow> default_source rng | Some h \<Rightarrow> hs_dataSource h),
               hd_events = map (\<lambda>e. (e, eventDetail e)) (take 20 events), hd_eventError = (loaded = None) \<rparr>)"

definition HostDetailPage ::
  "(host_event_type \<Rightarrow> string) \<Rightarrow> string \<Rightarrow> query_param \<Rightarrow> int \<Rightarrow>
   monitoring_snapshot option \<Rightarrow> host_history_series list option \<Rightarrow> host_monitoring_event list option \<Rightarrow>
   host_detail found" where
  "HostDetailPage labels serverId rangeParam now snapshot listed loaded =
     (let rng = parseHistoryRange (firstValue rangeParam)
      in if \<not> isValidHostServerId serverId then NotFound
         else (case snapshot of
                 None \<Rightarrow> host_detail_view labels rng serverId now None [] listed loaded
               | Some snap \<Rightarrow>
                   (case find (\<lambda>h. ho_serverId h = serverId) (ms_hosts snap) of
                      None \<Rightarrow> NotFound
                    | Some host \<Rightarrow>
                        host_detail_view labels rng serverId now (Some host)
                          (filter (\<lambda>c. co_hostId c = ho_id host) (ms_containers snap)) listed loaded)))"

section \<open>The links of the inventory\<close>

lemma find_unique:
  assumes "x \<in> set xs" and "P x" and "\<And>y. y \<in> set xs \<Longrightarrow> P y \<Longrightarrow> y = x"
  shows "find P xs = Some x"
proof (cases "find P xs")
  case None
  then show ?thesis using assms(1,2) by (auto simp: find_None_iff)
next
  case (Some y)
  then have "y \<in> set xs" "P y" by (auto simp: find_Some_iff)
  then show ?thesis using Some assms(3) by simp
qed

lemma alnum_id_char: "is_alnum c \<Longrightarrow> id_char c"
  by (simp add: id_char_def)

lemma identifier_chars: "CONTAINER_IDENTIFIER_PATTERN s \<Longrightarrow> list_all id_char s"
  using alnum_id_char by (cases s) (simp_all add: CONTAINER_IDENTIFIER_PATTERN_def headed_chars_def chars_between_def)

lemma slash_no_id_char: "\<not> id_char CHR ''/''"
  by (simp add: js_eval)

lemma id_char_unreserved: "id_char c \<Longrightarrow> unreserved c"
  by (auto simp: id_char_def unreserved_def)

lemma encode_identifier:
  assumes "CONTAINER_IDENTIFIER_PATTERN s"
  shows "encodeURIComponent s = s" and "CHR ''/'' \<notin> set s"
proof -
  have chars: "list_all id_char s" using identifier_chars [OF assms] .
  show "encodeURIComponent s = s"
    unfolding encodeURIComponent_def
    by (rule encode_unless_id) (rule list.pred_mono_strong [OF chars], rule id_char_unreserved)
  show "CHR ''/'' \<notin> set s" using chars slash_no_id_char unfolding list_all_iff by metis
qed

lemma detail_period_defined:
  assumes "Date_parse endAt = Some t" and "0 \<le> t"
  shows "detail_period rng endAt bucket \<noteq> None"
proof -
  have "t \<le> max_time" using Date_parse_bound [OF assms(1)] by simp
  then have "Date_toISOString (t - fst (history_range_config rng) * 3600000) \<noteq> None"
    using assms(2) by (cases rng) (simp_all add: Date_toISOString_def history_range_config_def max_time_def)
  then show ?thesis using assms(1) by (auto simp: detail_period_def)
qed

lemma found_when:
  assumes "x \<noteq> None" and "\<And>s. Q (f s)"
  shows "\<exists>page. (case x of None \<Rightarrow> PageThrows | Some s \<Rightarrow> Found (f s)) = Found page \<and> Q page"
  using assms by auto

lemma container_view_found:
  assumes "Date_parse endAt = Some t" and "0 \<le> t"
  shows "\<exists>page. container_detail_view labels rng serverId name endAt (Some (h, c)) listed loaded = Found page \<and>
    cd_container page = Some c"
  unfolding container_detail_view_def Let_def
  by (rule found_when [OF detail_period_defined [OF assms]]) simp

lemma host_view_found:
  assumes "0 \<le> now" and "now \<le> max_time"
  shows "\<exists>page. host_detail_view labels rng serverId now (Some h) containers listed loaded = Found page \<and>
    hd_host page = Some h \<and> hd_containers page = containers"
proof -
  have parse: "Date_parse (iso_text now) = Some now" using assms by simp
  show ?thesis
    unfolding host_detail_view_def Let_def
    by (rule found_when [OF detail_period_defined [OF parse assms(1)]]) simp
qed

lemma listed_host:
  assumes "getInfrastructureInventory view (Some snap) rows = Some listing" and "h \<in> set (ny_hosts listing)"
  shows "\<exists>host \<in> set (ms_hosts snap). nh_host h = host \<and>
    nh_detailHref h = ''/hosts/'' @ encodeURIComponent (ho_serverId host) \<and>
    set (nh_containers h) \<subseteq> set (containersByHost snap (ho_id host))"
proof -
  have "h \<in> set (hosts_in_view view (allHosts snap))"
    using assms(1,2) by (auto simp: getInfrastructureInventory_def Let_def)
  then obtain g where g: "g \<in> set (allHosts snap)" "nh_host h = nh_host g" "nh_detailHref h = nh_detailHref g"
      "set (nh_containers h) \<subseteq> set (nh_containers g)"
    by (fastforce simp: hosts_in_view_def attention_host_def Let_def split: if_splits)
  from g(1) obtain host where "host \<in> set (ms_hosts snap)" "nh_host g = host"
      "nh_detailHref g = ''/hosts/'' @ encodeURIComponent (ho_serverId host)"
      "nh_containers g = containersByHost snap (ho_id host)"
    by (auto simp: allHosts_def inventoryHost_def Let_def)
  with g show ?thesis by auto
qed

lemma placed_container:
  assumes "distinct (map ho_id (ms_hosts snap))" and "host \<in> set (ms_hosts snap)"
    and "c \<in> set (containersByHost snap (ho_id host))"
  shows "\<exists>o1 \<in> set (ms_containers snap). co_hostId o1 = ho_id host \<and> c = inventoryContainer o1 (ho_serverId host)"
proof -
  obtain o1 s where o1: "o1 \<in> set (ms_containers snap)" "co_hostId o1 = ho_id host" "c = inventoryContainer o1 s"
    and s: "nonempty (map_of (serverIdByHost snap) (ho_id host)) = Some s"
    using assms(3) by (auto simp: containersByHost_filter placed_containers_def map_filter_def split: option.splits)
  from s server_lookup [OF assms(1)] obtain g where g: "g \<in> set (ms_hosts snap)" "ho_id g = ho_id host" "ho_serverId g = s"
    by blast
  then have "g = host" using assms(1,2) by (auto simp: distinct_map inj_on_def)
  then show ?thesis using o1 g by blast
qed

text \<open>C36. The pages behind the links of the inventory exist, read from the snapshot the inventory was built from. The
  link of every listed host, with containers or without, leads to a page that shows that host; the link of every
  container listed under it leads to a page that shows that container, which the page of the host lists too; and
  this whatever becomes of the histories and the events, so that no link of the inventory answers that nothing is
  there. Assumed are: identifiers and server identifiers of the hosts distinct, server identifiers of the pattern of
  both pages, container names of their pattern and distinct on each host, the time of the snapshot readable and,
  like that of the request, not before 1970 and within the range of dates.\<close>

lemma inventory_links_lead_to_pages:
  assumes "getInfrastructureInventory view (Some snap) rows = Some listing" and "h \<in> set (ny_hosts listing)"
    and "distinct (map ho_id (ms_hosts snap))" and "distinct (map ho_serverId (ms_hosts snap))"
    and "\<forall>g \<in> set (ms_hosts snap). isValidHostServerId (ho_serverId g) \<and> CONTAINER_IDENTIFIER_PATTERN (ho_serverId g)"
    and "distinct (map (\<lambda>o1. (co_hostId o1, co_name o1)) (ms_containers snap))"
    and "\<forall>o1 \<in> set (ms_containers snap). CONTAINER_IDENTIFIER_PATTERN (co_name o1)"
    and "Date_parse (ms_generatedAt snap) = Some t" and "0 \<le> t" and "0 \<le> now" and "now \<le> max_time"
  shows "\<exists>serverId hostPage. split_on CHR ''/'' (nh_detailHref h) = [[], ''hosts'', serverId] \<and>
    HostDetailPage hostLabels serverId hostRange now (Some snap) hostHistory hostEvents = Found hostPage \<and>
    hd_host hostPage = Some (nh_host h) \<and>
    (\<forall>c \<in> set (nh_containers h). nc_container c \<in> set (hd_containers hostPage) \<and>
       (\<exists>name page. split_on CHR ''/'' (nc_detailHref c) = [[], ''containers'', serverId, name] \<and>
          ContainerDetailPage labels serverId name rng now (Some snap) histories events = Found page \<and>
          cd_container page = Some (nc_container c)))"
proof -
  obtain host where host: "host \<in> set (ms_hosts snap)" "nh_host h = host"
    "nh_detailHref h = ''/hosts/'' @ encodeURIComponent (ho_serverId host)"
    "set (nh_containers h) \<subseteq> set (containersByHost snap (ho_id host))"
    using listed_host [OF assms(1,2)] by blast
  let ?sid = "ho_serverId host"
  have valid: "isValidHostServerId ?sid" "CONTAINER_IDENTIFIER_PATTERN ?sid" using assms(5) host(1) by auto
  have found: "find (\<lambda>g. ho_serverId g = ?sid) (ms_hosts snap) = Some host"
    using host(1) assms(4) by (intro find_unique) (auto simp: distinct_map inj_on_def)
  obtain hostPage where hostPage:
    "HostDetailPage hostLabels ?sid hostRange now (Some snap) hostHistory hostEvents = Found hostPage"
    "hd_host hostPage = Some host" "hd_containers hostPage = filter (\<lambda>o1. co_hostId o1 = ho_id host) (ms_containers snap)"
    using host_view_found [OF assms(10,11)] valid(1) found by (fastforce simp: HostDetailPage_def Let_def)
  have "nc_container c \<in> set (hd_containers hostPage) \<and>
      (\<exists>name page. split_on CHR ''/'' (nc_detailHref c) = [[], ''containers'', ?sid, name] \<and>
         ContainerDetailPage labels ?sid name rng now (Some snap) histories events = Found page \<and>
         cd_container page = Some (nc_container c))" if listed: "c \<in> set (nh_containers h)" for c
  proof -
    obtain o1 where o1: "o1 \<in> set (ms_containers snap)" "co_hostId o1 = ho_id host" "c = inventoryContainer o1 ?sid"
      using placed_container [OF assms(3) host(1)] host(4) listed by blast
    have name: "CONTAINER_IDENTIFIER_PATTERN (co_name o1)" using assms(7) o1(1) by blast
    have "find (\<lambda>x. co_hostId x = ho_id host \<and> co_name x = co_name o1) (ms_containers snap) = Some o1"
      using o1(1,2) assms(6) by (intro find_unique) (auto simp: distinct_map inj_on_def)
    then obtain page where
      "ContainerDetailPage labels ?sid (co_name o1) rng now (Some snap) histories events = Found page"
      "cd_container page = Some o1"
      using container_view_found [OF assms(8,9)] valid(2) name found by (fastforce simp: ContainerDetailPage_def Let_def)
    moreover have "split_on CHR ''/'' (nc_detailHref c) = [[], ''containers'', ?sid, co_name o1]"
      using encode_identifier [OF valid(2)] encode_identifier [OF name]
      by (simp add: o1(3) inventoryContainer_def Let_def split_on_plain split_on_append)
    ultimately show ?thesis using o1 hostPage(3) by (auto simp: inventoryContainer_def Let_def)
  qed
  moreover have "split_on CHR ''/'' (nh_detailHref h) = [[], ''hosts'', ?sid]"
    using encode_identifier [OF valid(2)] by (simp add: host(3) split_on_plain split_on_append)
  ultimately show ?thesis using hostPage(1,2) host(2) by blast
qed

definition linked_host :: host_overview where
  "linked_host = \<lparr> ho_id = ''h1'', ho_serverId = ''oci-1'', ho_displayName = ''OCI'', ho_provider = ''oci'',
     ho_environment = ''production'', ho_status = HostOnline, ho_agentVersion = Some ''0.5.2'', ho_receivedAt = None,
     ho_sentAt = None, ho_ageSeconds = None, ho_cpuCount = None, ho_memoryTotalBytes = None,
     ho_memoryAvailableBytes = None, ho_diskTotalBytes = None, ho_diskAvailableBytes = None, ho_loadAverage1 = None,
     ho_loadAverage5 = None, ho_loadAverage15 = None, ho_uptimeSeconds = None \<rparr>"

definition linked_container :: container_overview where
  "linked_container = \<lparr> co_hostId = ''h1'', co_hostDisplayName = ''OCI'', co_name = ''mc-main'', co_status = CtOnline,
     co_state = RunningState, co_health = HealthyHealth, co_restartCount = 0, co_oomKilled = False, co_exitCode = None,
     co_cpuPercent = None, co_memoryUsageBytes = None, co_memoryLimitBytes = None, co_networkRxBytes = None,
     co_networkTxBytes = None, co_blockReadBytes = None, co_blockWriteBytes = None, co_pids = None,
     co_receivedAt = ''2026-07-01T10:00:00.000Z'', co_ageSeconds = 5, co_expectedState = Some ExpectRunning,
     co_maintenanceMode = False, co_maintenanceActive = False, co_maintenanceReason = None,
     co_maintenanceUntil = None \<rparr>"

definition linked_snapshot :: monitoring_snapshot where
  "linked_snapshot = \<lparr> ms_hosts = [linked_host], ms_containers = [linked_container],
     ms_generatedAt = ''2026-07-01T10:00:05.000Z'' \<rparr>"

lemma linked_container_listed:
  "nc_container (inventoryContainer linked_container ''oci-1'') = linked_container \<and>
   containersByHost linked_snapshot ''h1'' = [inventoryContainer linked_container ''oci-1'']"
  by (simp add: containersByHost_filter placed_containers_def linked_snapshot_def serverIdByHost_def
      linked_host_def linked_container_def nonempty_def map_filter_def inventoryContainer_def Let_def)

theorem inventory_links_lead_to_pages_witness:
  "\<exists>listing h c serverId name hostPage page.
    getInfrastructureInventory AllView (Some linked_snapshot) None = Some listing \<and> h \<in> set (ny_hosts listing) \<and>
    c \<in> set (nh_containers h) \<and> nc_container c = linked_container \<and>
    HostDetailPage (\<lambda>_. []) serverId Absent 0 (Some linked_snapshot) None None = Found hostPage \<and>
    ContainerDetailPage (\<lambda>_. []) serverId name Absent 0 (Some linked_snapshot) None None = Found page \<and>
    cd_container page = Some linked_container"
proof -
  let ?h = "inventoryHost linked_snapshot linked_host"
  let ?c = "inventoryContainer linked_container ''oci-1''"
  obtain listing where listing: "getInfrastructureInventory AllView (Some linked_snapshot) None = Some listing"
    "ny_hosts listing = [?h]"
    by (simp add: getInfrastructureInventory_def Let_def hosts_in_view_def allHosts_def linked_snapshot_def)
  have c: "?c \<in> set (nh_containers ?h)" "nc_container ?c = linked_container"
    using linked_container_listed by (simp_all add: inventoryHost_def Let_def linked_host_def)
  have time: "Date_parse (ms_generatedAt linked_snapshot) = Some 1782900005000"
    by (simp add: linked_snapshot_def sample_instants)
  have ids: "isValidHostServerId ''oci-1''" "CONTAINER_IDENTIFIER_PATTERN ''oci-1''"
    "CONTAINER_IDENTIFIER_PATTERN ''mc-main''"
    by (simp_all add: isValidHostServerId_def js_eval)
  note lists = linked_snapshot_def linked_host_def linked_container_def
  have h: "?h \<in> set (ny_hosts listing)" using listing(2) by simp
  have d: "distinct (map ho_id (ms_hosts linked_snapshot))" "distinct (map ho_serverId (ms_hosts linked_snapshot))"
    "distinct (map (\<lambda>o1. (co_hostId o1, co_name o1)) (ms_containers linked_snapshot))"
    by (simp_all add: lists)
  have v: "\<forall>g \<in> set (ms_hosts linked_snapshot). isValidHostServerId (ho_serverId g) \<and>
    CONTAINER_IDENTIFIER_PATTERN (ho_serverId g)"
    "\<forall>o1 \<in> set (ms_containers linked_snapshot). CONTAINER_IDENTIFIER_PATTERN (co_name o1)"
    using ids by (simp_all add: lists)
  have now: "(0::int) \<le> 1782900005000" "(0::int) \<le> 0" "0 \<le> max_time" by (simp_all add: max_time_def)
  show ?thesis
    using inventory_links_lead_to_pages [OF listing(1) h d(1,2) v(1) d(3) v(2) time now(1,2,3),
        of "\<lambda>_. []" Absent None None "\<lambda>_. []" Absent None None] listing(1) h c
    by metis
qed

text \<open>The two pages disagree on server identifiers: a host that its own page accepts has no container pages when its
  identifier does not begin with a letter or a digit, although the inventory links them.\<close>

lemma server_with_sign_has_no_container_pages:
  "isValidHostServerId ''_lab'' \<and>
   ContainerDetailPage labels ''_lab'' name rng now snapshot histories events = NotFound"
  by (simp add: isValidHostServerId_def ContainerDetailPage_def Let_def js_eval)

end
