(* ===== verification/UnifiedIncidents.thy ===== *)
theory UnifiedIncidents
  imports EventFeeds
begin

text \<open>
  The unified incident centre (\<open>apps/web/lib/unified-incidents.ts\<close> and
  \<open>backup-incident-context.ts\<close>): the runs of every backup target are folded into failure episodes,
  seeded by what was open before the history begins; active backup incidents come from the evaluated
  targets; both are merged with the incidents of the monitoring centre.
\<close>

section \<open>The context before the history\<close>

record backup_incident_context =
  bx_hostId :: string
  bx_serverId :: string
  bx_hostDisplayName :: string
  bx_backupTarget :: string
  bx_gameMode :: string
  bx_backupType :: backup_type
  bx_failureStartedAt :: "string option"
  bx_consecutiveFailureCount :: int
  bx_checksumStartedAt :: "string option"
  bx_relatedRunCount :: int

definition parseContextRow :: "jsval \<Rightarrow> backup_incident_context option" where
  "parseContextRow row =
     (if \<not> is_record row then None
      else do {
        hostId \<leftarrow> uuid_text (get_prop row ''host_id'');
        serverId \<leftarrow> text_of 64 (get_prop row ''server_id'');
        hostDisplayName \<leftarrow> text_of 256 (get_prop row ''host_display_name'');
        backupTarget \<leftarrow> text_of 64 (get_prop row ''backup_target'');
        gameMode \<leftarrow> text_of 64 (get_prop row ''game_mode'');
        backupType \<leftarrow> Option.bind (text_of 32 (get_prop row ''backup_type'')) parse_backup_type;
        failureStartedAt \<leftarrow> nullable read_timestamp (get_prop row ''failure_started_at'');
        failures \<leftarrow> coerced_integer (get_prop row ''consecutive_failure_count'');
        checksumStartedAt \<leftarrow> nullable read_timestamp (get_prop row ''checksum_started_at'');
        relatedRuns \<leftarrow> coerced_integer (get_prop row ''related_run_count'');
        if failureStartedAt = None \<and> checksumStartedAt = None \<or> failures < 0 \<or> relatedRuns < 0
        then None
        else Some \<lparr> bx_hostId = hostId, bx_serverId = serverId, bx_hostDisplayName = hostDisplayName,
          bx_backupTarget = backupTarget, bx_gameMode = gameMode, bx_backupType = backupType,
          bx_failureStartedAt = failureStartedAt, bx_consecutiveFailureCount = failures,
          bx_checksumStartedAt = checksumStartedAt, bx_relatedRunCount = relatedRuns \<rparr>
      })"

definition parseContext :: "jsval \<Rightarrow> backup_incident_context list option" where
  "parseContext payload = Option.bind (as_array payload) (map_rows parseContextRow)"

definition getBackupIncidentContext ::
  "(string \<Rightarrow> jsval option) \<Rightarrow> string \<Rightarrow> backup_incident_context list option" where
  "getBackupIncidentContext rpc before =
     (if Date_parse before = None then None else Option.bind (rpc before) parseContext)"

section \<open>Data\<close>

datatype backup_start_reason =
    ChecksumRunFailed
  | BackupRunFailed "backup_failure_code option"
  | Sha256Failed
  | ProtectionSignal
  | Sha256FailedBeforeBoundary
  | BackupFailedBeforeBoundary

datatype backup_recovery_reason = BackupSucceeded | BackupSucceededVerified

datatype backup_transition =
    TransitionFailed "backup_failure_code option"
  | TransitionSuccess "bool option"
  | TransitionOther backup_outcome

record backup_active_incident =
  ba_id :: string
  ba_severity :: incident_severity
  ba_hostId :: string
  ba_serverId :: string
  ba_hostDisplayName :: string
  ba_backupTarget :: string
  ba_gameMode :: string
  ba_backupType :: backup_type
  ba_startedAt :: "string option"
  ba_durationSeconds :: "int option"
  ba_startReason :: "backup_reason list" \<comment> \<open>joined with slashes\<close>
  ba_latestTransitionAt :: "string option"
  ba_latestTransition :: "backup_transition option"
  ba_relatedEventCount :: int
  ba_exactStart :: bool
  ba_detailHref :: string

record backup_recovered_incident =
  bi_id :: string
  bi_severity :: incident_severity
  bi_hostId :: string
  bi_serverId :: string
  bi_hostDisplayName :: string
  bi_backupTarget :: string
  bi_gameMode :: string
  bi_backupType :: backup_type
  bi_startedAt :: string
  bi_recoveredAt :: string
  bi_durationSeconds :: int
  bi_startReason :: backup_start_reason
  bi_recoveryReason :: backup_recovery_reason
  bi_relatedEventCount :: int
  bi_detailHref :: string

datatype any_active = MonitoringActive active_incident | BackupActive backup_active_incident

datatype any_recovered = MonitoringRecovered recovered_incident | BackupRecovered backup_recovered_incident

datatype backup_signal = RunFailureSignal | ChecksumSignal

record backup_episode =
  be_startedAt :: string
  be_severity :: incident_severity
  be_startReason :: backup_start_reason
  be_eventCount :: int

record backup_signal_state =
  st_activeSignals :: "backup_signal set"
  st_episode :: "backup_episode option"
  st_consecutiveFailures :: int

section \<open>Keys and texts\<close>

definition backup_type_text :: "backup_type \<Rightarrow> string" where
  "backup_type_text t =
     (case t of WorldBackup \<Rightarrow> ''world'' | ConfigBackup \<Rightarrow> ''config''
      | PermissionsBackup \<Rightarrow> ''permissions'' | FullBackup \<Rightarrow> ''full'')"

definition backupEntityKey :: "string \<Rightarrow> string \<Rightarrow> string \<Rightarrow> backup_type \<Rightarrow> string" where
  "backupEntityKey hostId backupTarget gameMode backupType =
     ''backup:'' @ hostId @ '':'' @ backupTarget @ '':'' @ gameMode @ '':'' @ backup_type_text backupType"

definition targetKey :: "'a backup_policy_scheme \<Rightarrow> string" where
  "targetKey t = backupEntityKey (bt_hostId t) (bt_backupTarget t) (bt_gameMode t) (bt_backupType t)"

definition runKey :: "backup_history_run \<Rightarrow> string" where
  "runKey r = backupEntityKey (bh_hostId r) (bh_backupTarget r) (bh_gameMode r) (bh_backupType r)"

definition contextKey :: "backup_incident_context \<Rightarrow> string" where
  "contextKey c = backupEntityKey (bx_hostId c) (bx_backupTarget c) (bx_gameMode c) (bx_backupType c)"

definition backupHref :: "incident_range \<Rightarrow> string \<Rightarrow> string \<Rightarrow> string \<Rightarrow> backup_type \<Rightarrow> string" where
  "backupHref rng hostId target mode type =
     ''/backups?range='' @ incident_range_text rng @ ''#backup-target-'' @ hostId @ ''-'' @ target @
     ''-'' @ mode @ ''-'' @ backup_type_text type"

definition latestTransition :: "'a backup_policy_scheme \<Rightarrow> backup_transition option" where
  "latestTransition t =
     map_option (\<lambda>l. case br_outcome l of
         BackupFailed \<Rightarrow> TransitionFailed (br_failureCode l)
       | BackupSuccess \<Rightarrow> TransitionSuccess (br_sha256Verified l)
       | other \<Rightarrow> TransitionOther other) (bt_latest t)"

definition firstStartReason :: "backup_history_run \<Rightarrow> backup_start_reason" where
  "firstStartReason r =
     (if br_failureCode r = Some ChecksumFailed then ChecksumRunFailed
      else if br_outcome r = BackupFailed then BackupRunFailed (br_failureCode r)
      else if br_sha256Verified r = Some False then Sha256Failed
      else ProtectionSignal)"

section \<open>Episodes of a target\<close>

definition no_signals :: backup_signal_state where
  "no_signals = \<lparr>st_activeSignals = {}, st_episode = None, st_consecutiveFailures = 0\<rparr>"

definition context_starts :: "backup_incident_context \<Rightarrow> string list" where
  "context_starts c =
     sort_key ms_of (List.map_filter (\<lambda>x. x) [bx_failureStartedAt c, bx_checksumStartedAt c])"

definition checksum_first :: "backup_incident_context \<Rightarrow> bool" where
  "checksum_first c =
     (case bx_checksumStartedAt c of
        None \<Rightarrow> False
      | Some k \<Rightarrow> nan_le (Date_parse k)
          (Date_parse (case bx_failureStartedAt c of None \<Rightarrow> k | Some f \<Rightarrow> f)))"

definition seedSignalState :: "backup_incident_context option \<Rightarrow> backup_signal_state" where
  "seedSignalState context_opt =
     (case context_opt of
        None \<Rightarrow> no_signals
      | Some c \<Rightarrow>
          (let signals =
                 (if nonempty (bx_failureStartedAt c) \<noteq> None then {RunFailureSignal} else {}) \<union>
                 (if nonempty (bx_checksumStartedAt c) \<noteq> None then {ChecksumSignal} else {})
           in case nonempty (js_first (context_starts c)) of
                None \<Rightarrow> no_signals\<lparr>st_activeSignals := signals\<rparr>
              | Some startedAt \<Rightarrow>
                  \<lparr> st_activeSignals = signals,
                    st_episode = Some
                      \<lparr> be_startedAt = startedAt,
                        be_severity =
                          (if bx_checksumStartedAt c \<noteq> None \<or> bx_consecutiveFailureCount c \<ge> 2
                           then CriticalIncident else WarningIncident),
                        be_startReason =
                          (if checksum_first c then Sha256FailedBeforeBoundary
                           else BackupFailedBeforeBoundary),
                        be_eventCount = bx_relatedRunCount c \<rparr>,
                    st_consecutiveFailures = bx_consecutiveFailureCount c \<rparr>))"

definition checksum_failed :: "backup_history_run \<Rightarrow> bool" where
  "checksum_failed r \<longleftrightarrow>
     br_failureCode r = Some ChecksumFailed \<or>
     (br_outcome r = BackupSuccess \<and> br_sha256Verified r = Some False)"

definition raise_episode ::
  "(incident_severity \<Rightarrow> incident_severity) \<Rightarrow> incident_severity \<Rightarrow> string \<Rightarrow> backup_history_run \<Rightarrow>
   backup_episode option \<Rightarrow> backup_episode" where
  \<comment> \<open>a new episode of the given severity, or the open one with its severity raised\<close>
  "raise_episode raise_to fresh occurredAt r episode =
     (case episode of
        None \<Rightarrow> \<lparr>be_startedAt = occurredAt, be_severity = fresh, be_startReason = firstStartReason r,
                 be_eventCount = 0\<rparr>
      | Some ep \<Rightarrow> ep\<lparr>be_severity := raise_to (be_severity ep)\<rparr>)"

definition note_failure :: "string \<Rightarrow> backup_history_run \<Rightarrow> backup_signal_state \<Rightarrow> backup_signal_state" where
  "note_failure occurredAt r st =
     (if br_outcome r \<noteq> BackupFailed then st
      else (let failures = st_consecutiveFailures st + 1;
                severity = (if failures \<ge> 2 then CriticalIncident else WarningIncident)
            in \<lparr> st_activeSignals = insert RunFailureSignal (st_activeSignals st),
                 st_episode = Some (raise_episode (\<lambda>s. maxSeverity s severity) severity occurredAt r (st_episode st)),
                 st_consecutiveFailures = failures \<rparr>))"

definition note_checksum :: "string \<Rightarrow> backup_history_run \<Rightarrow> backup_signal_state \<Rightarrow> backup_signal_state" where
  "note_checksum occurredAt r st =
     (if \<not> checksum_failed r then st
      else st\<lparr> st_activeSignals := insert ChecksumSignal (st_activeSignals st),
               st_episode := Some (raise_episode (\<lambda>_. CriticalIncident) CriticalIncident occurredAt r (st_episode st)) \<rparr>)"

definition verified_checksum :: "backup_history_run \<Rightarrow> backup_signal_state \<Rightarrow> bool" where
  "verified_checksum r st \<longleftrightarrow>
     br_outcome r = BackupSuccess \<and> br_sha256Verified r = Some True \<and> ChecksumSignal \<in> st_activeSignals st"

definition note_success :: "backup_history_run \<Rightarrow> backup_signal_state \<Rightarrow> backup_signal_state" where
  "note_success r st =
     (if br_outcome r \<noteq> BackupSuccess then st
      else st\<lparr> st_consecutiveFailures := 0,
               st_activeSignals := st_activeSignals st - {RunFailureSignal} -
                 (if br_sha256Verified r = Some True then {ChecksumSignal} else {}) \<rparr>)"

definition transitioned :: "backup_history_run \<Rightarrow> backup_signal_state \<Rightarrow> bool" where
  \<comment> \<open>the state after the failure and checksum updates\<close>
  "transitioned r st \<longleftrightarrow>
     br_outcome r = BackupFailed \<or> checksum_failed r \<or>
     (br_outcome r = BackupSuccess \<and> RunFailureSignal \<in> st_activeSignals st) \<or> verified_checksum r st"

definition count_transition :: "bool \<Rightarrow> backup_signal_state \<Rightarrow> backup_signal_state" where
  "count_transition t st =
     (if t then st\<lparr>st_episode := map_option (\<lambda>ep. ep\<lparr>be_eventCount := be_eventCount ep + 1\<rparr>) (st_episode st)\<rparr>
      else st)"

definition recovered_backup ::
  "int \<Rightarrow> incident_range \<Rightarrow> string \<Rightarrow> backup_history_run \<Rightarrow> backup_recovery_reason \<Rightarrow> backup_episode \<Rightarrow>
   backup_recovered_incident list" where
  "recovered_backup rangeStart rng occurredAt r recoveryReason ep =
     (case (Date_parse (be_startedAt ep), Date_parse occurredAt) of
        (Some started, Some recoveredAt) \<Rightarrow>
          if started \<le> recoveredAt \<and> rangeStart \<le> recoveredAt
          then [\<lparr> bi_id = ''recovered-backup:'' @ runKey r @ '':'' @ be_startedAt ep @ '':'' @ int_text (bh_rowId r),
                  bi_severity = be_severity ep, bi_hostId = bh_hostId r, bi_serverId = bh_serverId r,
                  bi_hostDisplayName = bh_hostDisplayName r, bi_backupTarget = bh_backupTarget r,
                  bi_gameMode = bh_gameMode r, bi_backupType = bh_backupType r,
                  bi_startedAt = be_startedAt ep, bi_recoveredAt = occurredAt,
                  bi_durationSeconds = (recoveredAt - started) div 1000,
                  bi_startReason = be_startReason ep, bi_recoveryReason = recoveryReason,
                  bi_relatedEventCount = be_eventCount ep,
                  bi_detailHref = backupHref rng (bh_hostId r) (bh_backupTarget r) (bh_gameMode r) (bh_backupType r) \<rparr>]
          else []
      | _ \<Rightarrow> [])"

definition run_time :: "backup_history_run \<Rightarrow> string" where
  \<comment> \<open>\<open>run.completedAt as string\<close>\<close>
  "run_time r = (case br_completedAt r of None \<Rightarrow> [] | Some t \<Rightarrow> t)"

definition run_step ::
  "int \<Rightarrow> incident_range \<Rightarrow> backup_signal_state \<times> backup_recovered_incident list \<Rightarrow> backup_history_run \<Rightarrow>
   backup_signal_state \<times> backup_recovered_incident list" where
  "run_step rangeStart rng acc r =
     (let st2 = note_checksum (run_time r) r (note_failure (run_time r) r (fst acc));
          recoveryReason = (if verified_checksum r st2 then BackupSucceededVerified else BackupSucceeded);
          st3 = count_transition (transitioned r st2) (note_success r st2)
      in case st_episode st3 of
           None \<Rightarrow> (st3, snd acc)
         | Some ep \<Rightarrow>
             if st_activeSignals st3 \<noteq> {} \<or> br_outcome r \<noteq> BackupSuccess then (st3, snd acc)
             else (st3\<lparr>st_episode := None\<rparr>,
                   snd acc @ recovered_backup rangeStart rng (run_time r) r recoveryReason ep))"

definition run_order :: "backup_history_run \<Rightarrow> int \<times> int" where
  "run_order r = (ms_of (run_time r), bh_rowId r)"

definition settled_run :: "backup_history_run \<Rightarrow> bool" where
  "settled_run r \<longleftrightarrow>
     nonempty (br_completedAt r) \<noteq> None \<and> (br_outcome r = BackupSuccess \<or> br_outcome r = BackupFailed)"

definition target_episodes ::
  "int \<Rightarrow> incident_range \<Rightarrow> backup_incident_context option \<Rightarrow> backup_history_run list \<Rightarrow>
   backup_signal_state \<times> backup_recovered_incident list" where
  "target_episodes rangeStart rng c runs =
     foldl (run_step rangeStart rng) (seedSignalState c, []) (sort_key run_order runs)"

definition deriveRunEpisodes ::
  "backup_history_run list \<Rightarrow> backup_incident_context list \<Rightarrow> int \<Rightarrow> incident_range \<Rightarrow>
   backup_recovered_incident list \<times> (string \<times> backup_signal_state) list" where
  "deriveRunEpisodes history contexts rangeStart rng =
     (let grouped = group_by runKey (filter settled_run history);
          contextsByKey = index_by contextKey contexts;
          keys = js_set (map_keys grouped @ map_keys contextsByKey);
          results = map (\<lambda>k. (k, target_episodes rangeStart rng (map_of contextsByKey k) (events_of grouped k))) keys
      in (concat (map (\<lambda>(k, r). snd r) results),
          List.map_filter (\<lambda>(k, r).
            if st_episode (fst r) \<noteq> None \<and> st_activeSignals (fst r) \<noteq> {} then Some (k, fst r) else None) results))"

section \<open>Active backup incidents\<close>

definition exact_candidates ::
  "backup_target_snapshot \<Rightarrow> int \<Rightarrow> backup_episode option \<Rightarrow> string list" where
  \<comment> \<open>the known start times, in the order in which the code collects them\<close>
  "exact_candidates target now episode =
     (case episode of None \<Rightarrow> [] | Some ep \<Rightarrow> [be_startedAt ep]) @
     (case bt_latestSuccess target of
        None \<Rightarrow> []
      | Some s \<Rightarrow>
          (if bs_sha256Verified s = None then [bs_completedAt s] else []) @
          (case nonempty (bs_retentionExpiresAt s) of
             None \<Rightarrow> []
           | Some r \<Rightarrow> if nan_le (Date_parse r) (Some now) then [r] else [])) @
     (case bt_latest target of
        None \<Rightarrow> []
      | Some l \<Rightarrow> if unsettled (Some l) then [br_startedAt l] else [])"

definition policy_dependent :: "backup_target_snapshot \<Rightarrow> int \<Rightarrow> bool" where
  "policy_dependent target now \<longleftrightarrow>
     (\<not> isBackupAgePaused target now \<and>
        (case bt_backupAgeSeconds target of None \<Rightarrow> False | Some a \<Rightarrow> a > bt_warningAfterSeconds target)) \<or>
     (bt_remoteSyncPending target \<and>
        (case bt_latestSuccess target of
           None \<Rightarrow> False
         | Some s \<Rightarrow> now - ms_of (bs_completedAt s) > bt_remoteSyncWarningSeconds target * 1000)) \<or>
     bt_restoreReadiness target = RestoreWarning"

definition active_severity_of :: "backup_health \<Rightarrow> incident_severity option" where
  \<comment> \<open>\<open>target.health !== "warning" && target.health !== "critical"\<close> is skipped\<close>
  "active_severity_of h =
     (case h of BackupWarning \<Rightarrow> Some WarningIncident | BackupCritical \<Rightarrow> Some CriticalIncident | _ \<Rightarrow> None)"

definition active_backup_incident ::
  "string \<Rightarrow> incident_range \<Rightarrow> (string \<times> backup_signal_state) list \<Rightarrow> (string \<times> backup_history_run list) list \<Rightarrow>
   backup_target_snapshot \<Rightarrow> incident_severity \<Rightarrow> backup_active_incident" where
  "active_backup_incident generatedAt rng openStates historyByTarget target severity =
     (let now = ms_of generatedAt;
          episode = Option.bind (map_of openStates (targetKey target)) st_episode;
          candidates = exact_candidates target now episode;
          exactStart = (candidates \<noteq> [] \<and> \<not> policy_dependent target now);
          startedAt = (if exactStart then js_first (sort_key ms_of candidates) else None);
          href = backupHref rng (bt_hostId target) (bt_backupTarget target) (bt_gameMode target) (bt_backupType target)
      in \<lparr> ba_id = ''active-backup:'' @ int_text (bt_policyId target), ba_severity = severity,
           ba_hostId = bt_hostId target, ba_serverId = bt_serverId target,
           ba_hostDisplayName = bt_hostDisplayName target, ba_backupTarget = bt_backupTarget target,
           ba_gameMode = bt_gameMode target, ba_backupType = bt_backupType target,
           ba_startedAt = startedAt, ba_durationSeconds = durationSeconds startedAt generatedAt,
           ba_startReason = bt_healthReasons target,
           ba_latestTransitionAt =
             (case Option.bind (bt_latest target) br_completedAt of
                Some t \<Rightarrow> Some t
              | None \<Rightarrow> (case bt_latest target of
                  Some l \<Rightarrow> Some (br_startedAt l)
                | None \<Rightarrow> map_option bs_completedAt (bt_latestSuccess target))),
           ba_latestTransition = latestTransition target,
           ba_relatedEventCount = int (length (events_of historyByTarget (targetKey target))) +
             (case episode of None \<Rightarrow> 0 | Some ep \<Rightarrow> be_eventCount ep),
           ba_exactStart = exactStart, ba_detailHref = href \<rparr>)"

definition deriveActiveBackupIncidents ::
  "backup_center_snapshot \<Rightarrow> (string \<times> backup_signal_state) list \<Rightarrow> incident_range \<Rightarrow> backup_active_incident list" where
  "deriveActiveBackupIncidents backup openStates rng =
     List.map_filter (\<lambda>t. map_option
         (active_backup_incident (bk_generatedAt backup) rng openStates (group_by runKey (bk_history backup)) t)
         (active_severity_of (bt_health t)))
       (bk_targets backup)"

section \<open>The merged centre\<close>

definition any_severity :: "any_active \<Rightarrow> incident_severity" where
  "any_severity i = (case i of MonitoringActive a \<Rightarrow> ai_severity a | BackupActive b \<Rightarrow> ba_severity b)"

definition any_startedAt :: "any_active \<Rightarrow> string option" where
  "any_startedAt i = (case i of MonitoringActive a \<Rightarrow> ai_startedAt a | BackupActive b \<Rightarrow> ba_startedAt b)"

definition any_recoveredAt :: "any_recovered \<Rightarrow> string" where
  "any_recoveredAt i = (case i of MonitoringRecovered r \<Rightarrow> ri_recoveredAt r | BackupRecovered b \<Rightarrow> bi_recoveredAt b)"

definition any_durationSeconds :: "any_recovered \<Rightarrow> int" where
  "any_durationSeconds i =
     (case i of MonitoringRecovered r \<Rightarrow> ri_durationSeconds r | BackupRecovered b \<Rightarrow> bi_durationSeconds b)"

definition active_key :: "any_active \<Rightarrow> string" where
  "active_key i =
     (case i of
        MonitoringActive a \<Rightarrow> entityKey (ai_hostId a) (ai_containerName a)
      | BackupActive b \<Rightarrow> backupEntityKey (ba_hostId b) (ba_backupTarget b) (ba_gameMode b) (ba_backupType b))"

definition recovered_key :: "any_recovered \<Rightarrow> string" where
  "recovered_key i =
     (case i of
        MonitoringRecovered r \<Rightarrow> entityKey (ri_hostId r) (ri_containerName r)
      | BackupRecovered b \<Rightarrow> backupEntityKey (bi_hostId b) (bi_backupTarget b) (bi_gameMode b) (bi_backupType b))"

definition any_active_order :: "any_active \<Rightarrow> int \<times> int \<times> int" where
  "any_active_order i =
     (- severityRank (any_severity i),
      (case nonempty (any_startedAt i) of None \<Rightarrow> (1, 0) | Some s \<Rightarrow> (0, ms_of s)))"

definition sortActive :: "any_active list \<Rightarrow> any_active list" where
  "sortActive active = sort_key any_active_order active"

definition backupContextBoundary :: "backup_center_snapshot \<Rightarrow> string" where
  "backupContextBoundary backup =
     (case js_first (sort_key ms_of (map br_startedAt (bk_history backup))) of
        None \<Rightarrow> bk_generatedAt backup | Some t \<Rightarrow> t)"

record unified_snapshot =
  un_generatedAt :: string
  un_range :: incident_range
  un_backupDataAvailable :: bool
  un_active :: "any_active list"
  un_recovered :: "any_recovered list"
  un_summary :: incident_summary
  un_backupActiveCount :: nat
  un_backupRecoveredCount :: nat

definition unified_without_backup :: "incident_center_snapshot \<Rightarrow> unified_snapshot" where
  "unified_without_backup base =
     \<lparr> un_generatedAt = ic_generatedAt base, un_range = ic_range base, un_backupDataAvailable = False,
       un_active = map MonitoringActive (ic_active base),
       un_recovered = map MonitoringRecovered (ic_recovered base),
       un_summary = ic_summary base, un_backupActiveCount = 0, un_backupRecoveredCount = 0 \<rparr>"

definition unified_summary ::
  "incident_summary \<Rightarrow> any_active list \<Rightarrow> any_recovered list \<Rightarrow> incident_summary" where
  "unified_summary base active recovered =
     (let durations = map any_durationSeconds recovered
      in \<lparr> su_activeCount = length active,
           su_activeCriticalCount = length (filter (\<lambda>i. any_severity i = CriticalIncident) active),
           su_activeWarningCount = length (filter (\<lambda>i. any_severity i = WarningIncident) active),
           su_recoveredCount = length recovered,
           su_criticalEventCount = su_criticalEventCount base,
           su_warningEventCount = su_warningEventCount base,
           su_exactRecoveryCount = length recovered,
           su_medianRecoverySeconds = median durations, su_longestRecoverySeconds = maximum durations,
           su_affectedEntityCount = card (active_key ` set active \<union> recovered_key ` set recovered),
           su_latestRecoveredAt = map_option any_recoveredAt (js_first recovered) \<rparr>)"

definition unified_with_backup ::
  "incident_range \<Rightarrow> incident_center_snapshot \<Rightarrow> backup_center_snapshot \<Rightarrow> backup_incident_context list \<Rightarrow>
   unified_snapshot" where
  "unified_with_backup rng base backup contexts =
     (let rangeStart = ms_of (ic_generatedAt base) - incident_range_hours rng * 3600000;
          (backupRecovered, openStates) = deriveRunEpisodes (bk_history backup) contexts rangeStart rng;
          backupActive = deriveActiveBackupIncidents backup openStates rng;
          active = sortActive (map MonitoringActive (ic_active base) @ map BackupActive backupActive);
          recovered = sort_desc (\<lambda>i. ms_of (any_recoveredAt i))
            (map MonitoringRecovered (ic_recovered base) @ map BackupRecovered backupRecovered)
      in \<lparr> un_generatedAt = ic_generatedAt base, un_range = rng, un_backupDataAvailable = True,
           un_active = active, un_recovered = recovered,
           un_summary = unified_summary (ic_summary base) active recovered,
           un_backupActiveCount = length backupActive,
           un_backupRecoveredCount = length backupRecovered \<rparr>)"

definition getUnifiedIncidentCenterSnapshot ::
  "incident_range \<Rightarrow> incident_center_snapshot option \<Rightarrow> backup_center_snapshot option \<Rightarrow>
   (string \<Rightarrow> jsval option) \<Rightarrow> unified_snapshot option" where
  \<comment> \<open>the awaited centres, \<open>None\<close> for a rejected promise, and the context RPC\<close>
  "getUnifiedIncidentCenterSnapshot rng base backup contextRpc =
     map_option (\<lambda>ic.
       case Option.bind backup (\<lambda>b. map_option (Pair b) (getBackupIncidentContext contextRpc (backupContextBoundary b))) of
         None \<Rightarrow> unified_without_backup ic
       | Some (b, contexts) \<Rightarrow> unified_with_backup rng ic b contexts) base"

section \<open>Contexts that the parser accepts\<close>

definition context_ok :: "backup_incident_context \<Rightarrow> bool" where
  "context_ok c \<longleftrightarrow>
     (bx_failureStartedAt c \<noteq> None \<or> bx_checksumStartedAt c \<noteq> None) \<and>
     (\<forall>s. bx_failureStartedAt c = Some s \<or> bx_checksumStartedAt c = Some s \<longrightarrow> Date_parse s \<noteq> None) \<and>
     0 \<le> bx_consecutiveFailureCount c \<and> 0 \<le> bx_relatedRunCount c"

lemma parseContextRow_ok: "parseContextRow row = Some c \<Longrightarrow> context_ok c"
  by (auto simp: parseContextRow_def context_ok_def bind_eq_Some_conv
      dest!: nullable_timestampD split: if_splits)

lemma parseContext_ok: "parseContext payload = Some cs \<Longrightarrow> c \<in> set cs \<Longrightarrow> context_ok c"
  by (auto simp: parseContext_def bind_eq_Some_conv dest!: map_rows_set parseContextRow_ok)

lemma not_parsed_empty: "Date_parse [] = None"
  by (simp add: js_eval)

lemma parsed_nonempty [simp]: "Date_parse s \<noteq> None \<Longrightarrow> nonempty (Some s) = Some s"
  by (cases s) (auto simp: nonempty_def not_parsed_empty)

lemma seed_of_ok:
  assumes "context_ok c"
  obtains ep where
    "st_episode (seedSignalState (Some c)) = Some ep"
    "Date_parse (be_startedAt ep) \<noteq> None"
    "st_activeSignals (seedSignalState (Some c)) =
       (if bx_failureStartedAt c \<noteq> None then {RunFailureSignal} else {}) \<union>
       (if bx_checksumStartedAt c \<noteq> None then {ChecksumSignal} else {})"
    "be_severity ep = (if bx_checksumStartedAt c \<noteq> None \<or> bx_consecutiveFailureCount c \<ge> 2
       then CriticalIncident else WarningIncident)"
    "st_consecutiveFailures (seedSignalState (Some c)) = bx_consecutiveFailureCount c"
proof -
  have ne: "context_starts c \<noteq> []" and parsed: "\<forall>s \<in> set (context_starts c). Date_parse s \<noteq> None"
    using assms
    by (auto simp: context_ok_def context_starts_def List.map_filter_def dest: arg_cong [where f = set]
        split: option.splits if_splits)
  then obtain s where s: "js_first (context_starts c) = Some s" "Date_parse s \<noteq> None"
    by (cases "context_starts c") auto
  have truthy: "nonempty (bx_failureStartedAt c) = bx_failureStartedAt c"
    "nonempty (bx_checksumStartedAt c) = bx_checksumStartedAt c"
    using assms by (auto simp: context_ok_def nonempty_def not_parsed_empty split: option.splits)
  define sev where "sev = (if bx_checksumStartedAt c \<noteq> None \<or> bx_consecutiveFailureCount c \<ge> 2
    then CriticalIncident else WarningIncident)"
  define ep where "ep = \<lparr> be_startedAt = s, be_severity = sev,
    be_startReason = (if checksum_first c then Sha256FailedBeforeBoundary else BackupFailedBeforeBoundary),
    be_eventCount = bx_relatedRunCount c \<rparr>"
  have seed: "seedSignalState (Some c) =
      \<lparr> st_activeSignals =
          (if bx_failureStartedAt c \<noteq> None then {RunFailureSignal} else {}) \<union>
          (if bx_checksumStartedAt c \<noteq> None then {ChecksumSignal} else {}),
        st_episode = Some ep, st_consecutiveFailures = bx_consecutiveFailureCount c \<rparr>"
    by (simp only: seedSignalState_def Let_def s(1) parsed_nonempty [OF s(2)] truthy option.case
        ep_def sev_def)
  have "be_startedAt ep = s" "be_severity ep = sev" by (simp_all add: ep_def)
  with s(2) show thesis by (intro that [of ep]) (simp_all add: seed sev_def)
qed

section \<open>States of a target that can occur\<close>

inductive run_reachable ::
  "int \<Rightarrow> incident_range \<Rightarrow> backup_incident_context option \<Rightarrow>
   backup_signal_state \<times> backup_recovered_incident list \<Rightarrow> bool"
  for rangeStart rng c where
  seed: "run_reachable rangeStart rng c (seedSignalState c, [])"
| run: "run_reachable rangeStart rng c acc \<Longrightarrow> run_reachable rangeStart rng c (run_step rangeStart rng acc r)"

lemma target_episodes_reachable: "run_reachable rangeStart rng c (target_episodes rangeStart rng c runs)"
proof -
  have "run_reachable rangeStart rng c acc \<Longrightarrow> run_reachable rangeStart rng c (foldl (run_step rangeStart rng) acc rs)" for acc rs
    by (induction rs arbitrary: acc) (simp_all add: run)
  then show ?thesis unfolding target_episodes_def by (blast intro: seed)
qed

text \<open>
  Invariant: an episode is open exactly while a signal is, and it is critical as soon as the
  checksum failed or two runs in a row did.
\<close>

definition episode_inv :: "backup_signal_state \<Rightarrow> bool" where
  "episode_inv st \<longleftrightarrow>
     (st_episode st = None \<longleftrightarrow> st_activeSignals st = {}) \<and>
     (\<forall>ep. st_episode st = Some ep \<and> (st_consecutiveFailures st \<ge> 2 \<or> ChecksumSignal \<in> st_activeSignals st) \<longrightarrow>
        be_severity ep = CriticalIncident)"

lemmas run_step_parts = run_step_def note_failure_def note_checksum_def note_success_def
  count_transition_def raise_episode_def Let_def

lemma maxSeverity_critical [simp]:
  "maxSeverity CriticalIncident s = CriticalIncident" "maxSeverity s CriticalIncident = CriticalIncident"
  by (cases s; simp add: maxSeverity_def severityRank_def)+

lemma episode_inv_seed:
  assumes "case c of None \<Rightarrow> True | Some x \<Rightarrow> context_ok x"
  shows "episode_inv (seedSignalState c)"
proof (cases c)
  case None
  then show ?thesis by (simp add: seedSignalState_def no_signals_def episode_inv_def)
next
  case (Some x)
  with assms have "context_ok x" by simp
  then show ?thesis
    unfolding Some by (rule seed_of_ok) (use \<open>context_ok x\<close> in \<open>auto simp: episode_inv_def context_ok_def split: if_splits\<close>)
qed

lemma note_failure_inv: "episode_inv st \<Longrightarrow> episode_inv (note_failure t r st)"
  by (cases "br_outcome r = BackupFailed"; cases "st_episode st")
    (simp_all add: note_failure_def episode_inv_def raise_episode_def Let_def)

lemma note_checksum_inv: "episode_inv st \<Longrightarrow> episode_inv (note_checksum t r st)"
  by (cases "checksum_failed r"; cases "st_episode st")
    (simp_all add: note_checksum_def episode_inv_def raise_episode_def)

lemma run_step_inv:
  assumes "episode_inv (fst acc)"
  shows "episode_inv (fst (run_step rangeStart rng acc r))"
proof -
  define st2 where "st2 = note_checksum (run_time r) r (note_failure (run_time r) r (fst acc))"
  have inv2: "episode_inv st2"
    unfolding st2_def by (intro note_checksum_inv note_failure_inv assms)
  define st3 where "st3 = count_transition (transitioned r st2) (note_success r st2)"
  have step: "fst (run_step rangeStart rng acc r) =
      (if st_episode st3 = None \<or> st_activeSignals st3 \<noteq> {} \<or> br_outcome r \<noteq> BackupSuccess
       then st3 else st3\<lparr>st_episode := None\<rparr>)"
    by (simp add: run_step_def st2_def [symmetric] st3_def [symmetric] Let_def split: option.splits)
  have signals: "st_activeSignals st3 = st_activeSignals (note_success r st2)"
    and failures: "st_consecutiveFailures st3 = st_consecutiveFailures (note_success r st2)"
    and none: "st_episode st3 = None \<longleftrightarrow> st_episode st2 = None"
    by (simp_all add: st3_def count_transition_def note_success_def)
  have severity: "\<exists>ep'. st_episode st2 = Some ep' \<and> be_severity ep = be_severity ep'"
    if "st_episode st3 = Some ep" for ep
    using that by (auto simp: st3_def count_transition_def note_success_def split: if_splits)
  have sub: "st_activeSignals st3 \<subseteq> st_activeSignals st2"
    and cf: "st_consecutiveFailures st3 \<ge> 2 \<Longrightarrow> st_consecutiveFailures st2 \<ge> 2"
    and same: "br_outcome r \<noteq> BackupSuccess \<Longrightarrow> st_activeSignals st3 = st_activeSignals st2"
    unfolding signals failures by (auto simp: note_success_def split: if_splits)
  have crit: "be_severity ep = CriticalIncident"
    if ep: "st_episode st3 = Some ep"
      and "st_consecutiveFailures st3 \<ge> 2 \<or> ChecksumSignal \<in> st_activeSignals st3" for ep
  proof -
    from severity [OF ep] obtain ep' where "st_episode st2 = Some ep'" "be_severity ep = be_severity ep'"
      by blast
    then show ?thesis using inv2 that(2) sub cf unfolding episode_inv_def by auto
  qed
  have empty: "st_activeSignals st2 = {} \<longleftrightarrow> st_episode st3 = None"
    using inv2 none unfolding episode_inv_def by auto
  show ?thesis
  proof (cases "st_episode st3 = None \<or> st_activeSignals st3 \<noteq> {} \<or> br_outcome r \<noteq> BackupSuccess")
    case True
    then have "st_episode st3 = None \<longleftrightarrow> st_activeSignals st3 = {}"
      using empty sub same by auto
    with True crit show ?thesis unfolding step episode_inv_def by auto
  next
    case False
    then show ?thesis unfolding step episode_inv_def by auto
  qed
qed

lemma run_reachable_inv:
  assumes "run_reachable rangeStart rng c acc" "case c of None \<Rightarrow> True | Some x \<Rightarrow> context_ok x"
  shows "episode_inv (fst acc)"
  using assms by induction (simp_all add: episode_inv_seed run_step_inv)

section \<open>Closed episodes\<close>

definition backup_ok :: "int \<Rightarrow> backup_recovered_incident \<Rightarrow> bool" where
  "backup_ok rangeStart i \<longleftrightarrow>
     (\<exists>s r. Date_parse (bi_startedAt i) = Some s \<and> Date_parse (bi_recoveredAt i) = Some r \<and>
        s \<le> r \<and> rangeStart \<le> r \<and> bi_durationSeconds i = (r - s) div 1000)"

lemma recovered_backup_cases:
  obtains "recovered_backup rangeStart rng t r reason ep = []"
  | i where "recovered_backup rangeStart rng t r reason ep = [i]" "backup_ok rangeStart i"
    "bi_startedAt i = be_startedAt ep" "bi_recoveredAt i = t"
proof (cases "recovered_backup rangeStart rng t r reason ep")
  case Nil
  then show thesis by (rule that(1))
next
  case (Cons i rest)
  then have "recovered_backup rangeStart rng t r reason ep = [i] \<and> backup_ok rangeStart i \<and>
      bi_startedAt i = be_startedAt ep \<and> bi_recoveredAt i = t"
    by (auto simp: recovered_backup_def backup_ok_def split: option.splits if_splits)
  then show thesis using that(2) by blast
qed

definition failing_since :: "backup_signal_state \<Rightarrow> int option" where
  "failing_since st = map_option (\<lambda>ep. ms_of (be_startedAt ep)) (st_episode st)"

definition settle_time :: "backup_history_run \<Rightarrow> int" where
  "settle_time r = ms_of (run_time r)"

lemma note_failure_since:
  "failing_since (note_failure (run_time r) r st) = Some t \<Longrightarrow> failing_since st = Some t \<or> t = settle_time r"
  by (cases "st_episode st")
    (auto simp: note_failure_def failing_since_def raise_episode_def settle_time_def Let_def split: if_splits)

lemma note_checksum_since:
  "failing_since (note_checksum (run_time r) r st) = Some t \<Longrightarrow> failing_since st = Some t \<or> t = settle_time r"
  by (cases "st_episode st")
    (auto simp: note_checksum_def failing_since_def raise_episode_def settle_time_def split: if_splits)

lemma late_steps_since:
  "failing_since (count_transition b (note_success r st)) = failing_since st"
  by (cases "st_episode st") (simp_all add: count_transition_def note_success_def failing_since_def)

interpretation backup_log: episode_log "run_step rangeStart rng" snd "\<lambda>acc. failing_since (fst acc)"
    settle_time "\<lambda>i. ms_of (bi_startedAt i)" "\<lambda>i. ms_of (bi_recoveredAt i)" "backup_ok rangeStart"
  for rangeStart :: int and rng :: incident_range
proof unfold_locales
  fix acc r
  let ?step = "run_step rangeStart rng acc r"
  define st2 where "st2 = note_checksum (run_time r) r (note_failure (run_time r) r (fst acc))"
  define st3 where "st3 = count_transition (transitioned r st2) (note_success r st2)"
  define reason where "reason = (if verified_checksum r st2 then BackupSucceededVerified else BackupSucceeded)"
  have since: "failing_since (fst acc) = Some t \<or> t = settle_time r" if "failing_since st3 = Some t" for t
    using that note_checksum_since note_failure_since unfolding st3_def late_steps_since st2_def by blast
  have step: "?step = (case st_episode st3 of
       None \<Rightarrow> (st3, snd acc)
     | Some ep \<Rightarrow>
         if st_activeSignals st3 \<noteq> {} \<or> br_outcome r \<noteq> BackupSuccess then (st3, snd acc)
         else (st3\<lparr>st_episode := None\<rparr>,
               snd acc @ recovered_backup rangeStart rng (run_time r) r reason ep))"
    unfolding run_step_def Let_def st2_def [symmetric] st3_def [symmetric] reason_def [symmetric] ..
  consider "?step = (st3, snd acc)"
    | ep where "st_episode st3 = Some ep" "?step = (st3\<lparr>st_episode := None\<rparr>,
        snd acc @ recovered_backup rangeStart rng (run_time r) r reason ep)"
    unfolding step
    by (cases "st_episode st3"; cases "st_activeSignals st3 \<noteq> {} \<or> br_outcome r \<noteq> BackupSuccess") simp_all
  then show "(snd ?step = snd acc \<and>
        (\<forall>t. failing_since (fst ?step) = Some t \<longrightarrow> failing_since (fst acc) = Some t \<or> t = settle_time r)) \<or>
     (\<exists>i. snd ?step = snd acc @ [i] \<and> backup_ok rangeStart i \<and>
        ms_of (bi_recoveredAt i) = settle_time r \<and> failing_since (fst ?step) = None \<and>
        (failing_since (fst acc) = Some (ms_of (bi_startedAt i)) \<or> ms_of (bi_startedAt i) = settle_time r))"
  proof cases
    case 1
    with since show ?thesis by auto
  next
    case (2 ep)
    have none: "failing_since (st3\<lparr>st_episode := None\<rparr>) = None" by (simp add: failing_since_def)
    have "failing_since st3 = Some (ms_of (be_startedAt ep))" by (simp add: failing_since_def 2)
    from since [OF this] show ?thesis
      by (cases rule: recovered_backup_cases [of rangeStart rng "run_time r" r reason ep])
        (auto simp: 2 none settle_time_def)
  qed
qed

lemma settle_times_sorted: "sorted (map settle_time (sort_key run_order runs))"
proof -
  have "sorted (map run_order (sort_key run_order runs))" by simp
  then show ?thesis
    unfolding sorted_map by (rule sorted_wrt_mono_rel [rotated]) (auto simp: run_order_def settle_time_def)
qed

section \<open>Properties\<close>

text \<open>C15. After any runs of a backup target, starting from what the context feed reported, a failure
  episode is open exactly while a failure or checksum signal is active, and an open episode is
  critical as soon as two runs in a row failed or a checksum is unverified.\<close>

theorem backup_episode_invariant:
  fixes rangeStart :: int and rng :: incident_range and runs :: "backup_history_run list"
  assumes "case c of None \<Rightarrow> True | Some x \<Rightarrow> \<exists>payload cs. parseContext payload = Some cs \<and> x \<in> set cs"
  defines "st \<equiv> fst (target_episodes rangeStart rng c runs)"
  shows "(st_episode st = None \<longleftrightarrow> st_activeSignals st = {}) \<and>
    (\<forall>ep. st_episode st = Some ep \<and> (st_consecutiveFailures st \<ge> 2 \<or> ChecksumSignal \<in> st_activeSignals st) \<longrightarrow>
       be_severity ep = CriticalIncident)"
proof -
  have "case c of None \<Rightarrow> True | Some x \<Rightarrow> context_ok x"
    using assms(1) parseContext_ok by (auto split: option.splits)
  with target_episodes_reachable have "episode_inv st"
    unfolding st_def by (rule run_reachable_inv)
  then show ?thesis unfolding episode_inv_def .
qed

definition sample_context_payload :: jsval where
  "sample_context_payload = Arr [Obj
     [(''host_id'', Str ''11111111-2222-4333-8444-555555555555''), (''server_id'', Str ''alpha''),
      (''host_display_name'', Str ''Alpha''), (''backup_target'', Str ''world''), (''game_mode'', Str ''survival''),
      (''backup_type'', Str ''full''), (''failure_started_at'', Str ''2026-06-01T00:00:00Z''),
      (''consecutive_failure_count'', jint 3), (''checksum_started_at'', Null), (''related_run_count'', jint 4)]]"

lemma sample_context_parse:
  "\<exists>x. parseContext sample_context_payload = Some [x] \<and> bx_consecutiveFailureCount x = 3"
proof -
  have uuid: "uuid_text (Str ''11111111-2222-4333-8444-555555555555'') = Some ''11111111-2222-4333-8444-555555555555''"
    by (simp add: uuid_text_def text_of_def js_eval)
  have time: "nullable read_timestamp (Str ''2026-06-01T00:00:00Z'') = Some (Some ''2026-06-01T00:00:00Z'')"
    by (simp add: sample_instants js_eval del: Date_parse_def)
  have numbers: "coerced_integer (jint 3) = Some 3" "coerced_integer (jint 4) = Some 4"
    by (simp_all add: js_eval)
  show ?thesis
    using uuid time numbers
    by (simp add: sample_context_payload_def parseContext_def parseContextRow_def text_of_def
        string_at_most_def nonempty_def prop_or_def parse_backup_type_def nullable_def)
qed

theorem backup_episode_invariant_witness:
  "\<exists>x ep. parseContext sample_context_payload = Some [x] \<and>
     st_episode (fst (target_episodes 0 Range30d (Some x) [])) = Some ep \<and> be_severity ep = CriticalIncident"
proof -
  obtain x where x: "parseContext sample_context_payload = Some [x]" "bx_consecutiveFailureCount x = 3"
    using sample_context_parse by blast
  then have "context_ok x" by (auto intro: parseContext_ok)
  then obtain ep where ep: "st_episode (seedSignalState (Some x)) = Some ep"
      "st_consecutiveFailures (seedSignalState (Some x)) = 3"
    using x(2) by (rule_tac seed_of_ok) auto
  have "\<exists>payload cs. parseContext payload = Some cs \<and> x \<in> set cs"
    using x(1) by (intro exI [of _ sample_context_payload] exI [of _ "[x]"]) simp
  then have "be_severity ep = CriticalIncident"
    using backup_episode_invariant [of "Some x" 0 Range30d "[]"] ep by (simp add: target_episodes_def)
  with x ep show ?thesis by (auto simp: target_episodes_def)
qed

text \<open>The recovered incidents of a backup target are well timed, lie in the requested range and
  follow each other, whatever the context before the history was.\<close>

theorem backup_recoveries_sequential:
  "list_all (backup_ok rangeStart) (snd (target_episodes rangeStart rng c runs)) \<and>
   sorted_wrt (\<lambda>a b. ms_of (bi_recoveredAt a) \<le> ms_of (bi_startedAt b))
     (snd (target_episodes rangeStart rng c runs))"
  unfolding target_episodes_def by (rule backup_log.closed_episodes [OF settle_times_sorted]) simp

lemma any_severity_partition:
  "length (filter (\<lambda>i. any_severity i = CriticalIncident) xs) +
   length (filter (\<lambda>i. any_severity i = WarningIncident) xs) = length xs"
  by (rule filter_length_partition) (metis incident_severity.exhaust incident_severity.distinct(1))

lemma mset_sort_desc [simp]: "mset (sort_desc f xs) = mset xs"
  by (simp add: sort_desc_def)

text \<open>A failing backup feed never hides a monitoring incident: whenever the monitoring centre is
  available, so is the unified one; it lists exactly the monitoring incidents and, if the backup feed
  answered, the backup incidents that its counters report, and its critical and warning counts add
  up to the active list.\<close>

theorem unified_centre_keeps_monitoring_incidents:
  assumes "su_activeCriticalCount (ic_summary ic) + su_activeWarningCount (ic_summary ic) = length (ic_active ic)"
  shows "\<exists>u bs rs. getUnifiedIncidentCenterSnapshot rng (Some ic) backup contextRpc = Some u \<and>
    mset (un_active u) = mset (map MonitoringActive (ic_active ic)) + mset (map BackupActive bs) \<and>
    mset (un_recovered u) = mset (map MonitoringRecovered (ic_recovered ic)) + mset (map BackupRecovered rs) \<and>
    un_backupActiveCount u = length bs \<and> un_backupRecoveredCount u = length rs \<and>
    (un_backupDataAvailable u \<or> bs = [] \<and> rs = []) \<and>
    su_activeCriticalCount (un_summary u) + su_activeWarningCount (un_summary u) = length (un_active u)"
proof (cases "Option.bind backup (\<lambda>b. map_option (Pair b) (getBackupIncidentContext contextRpc (backupContextBoundary b)))")
  case None
  then show ?thesis
    using assms
    by (intro exI [of _ "unified_without_backup ic"] exI [of _ "[]"])
      (simp add: getUnifiedIncidentCenterSnapshot_def unified_without_backup_def)
next
  case (Some bc)
  obtain b contexts where bc: "bc = (b, contexts)" by (cases bc)
  obtain rs openStates where d: "deriveRunEpisodes (bk_history b) contexts
      (ms_of (ic_generatedAt ic) - incident_range_hours rng * 3600000) rng = (rs, openStates)"
    by (cases "deriveRunEpisodes (bk_history b) contexts
      (ms_of (ic_generatedAt ic) - incident_range_hours rng * 3600000) rng")
  show ?thesis
    using Some unfolding bc
    by (intro exI [of _ "unified_with_backup rng ic b contexts"]
        exI [of _ "deriveActiveBackupIncidents b openStates rng"] exI [of _ rs])
      (simp add: getUnifiedIncidentCenterSnapshot_def unified_with_backup_def Let_def d sortActive_def
        unified_summary_def any_severity_partition)
qed

theorem unified_centre_keeps_monitoring_incidents_witness:
  "\<exists>ic u. getIncidentCenterSnapshot Range24h sample_snapshot sample_feeds = Some ic \<and>
     getUnifiedIncidentCenterSnapshot Range24h (Some ic) None (\<lambda>_. None) = Some u \<and>
     su_activeCriticalCount (un_summary u) + su_activeWarningCount (un_summary u) = length (un_active u)"
proof -
  obtain ic where ic: "getIncidentCenterSnapshot Range24h sample_snapshot sample_feeds = Some ic"
    using sample_centre by blast
  then have "su_activeCriticalCount (ic_summary ic) + su_activeWarningCount (ic_summary ic) = length (ic_active ic)"
    by (rule summary_counts)
  from unified_centre_keeps_monitoring_incidents [OF this, of Range24h None "\<lambda>_. None"] ic
  show ?thesis by blast
qed

end
