(* ===== verification/Reliability.thy ===== *)
theory Reliability
  imports UnifiedIncidents
begin

text \<open>
  Downtime of the reliability page (\<open>apps/web/lib/reliability-metrics.ts\<close> and
  \<open>reliability-maintenance-metrics.ts\<close>): incident intervals are clipped to the range, maintenance
  windows are cut out of them, and the seconds of the union are counted. Intervals are half open in
  milliseconds; \<open>cover\<close> gives them their meaning as a set of instants.
\<close>

section \<open>Intervals\<close>

record reliability_interval =
  iv_start :: int
  iv_end :: int

definition finite_interval :: "int option \<Rightarrow> int option \<Rightarrow> reliability_interval option" where
  \<comment> \<open>\<open>Number.isFinite(start) && Number.isFinite(end) && end > start ? { start, end } : null\<close>\<close>
  "finite_interval start finish =
     (case (start, finish) of
        (Some s, Some e) \<Rightarrow> if e > s then Some \<lparr>iv_start = s, iv_end = e\<rparr> else None
      | _ \<Rightarrow> None)"

definition clipInterval :: "string \<Rightarrow> string \<Rightarrow> int \<Rightarrow> int \<Rightarrow> reliability_interval option" where
  "clipInterval startedAt endedAt rangeStart rangeEnd =
     finite_interval (map_option (\<lambda>t. max t rangeStart) (Date_parse startedAt))
                     (map_option (\<lambda>t. min t rangeEnd) (Date_parse endedAt))"

definition interval_order :: "reliability_interval \<Rightarrow> int \<times> int" where
  "interval_order i = (iv_start i, iv_end i)"

fun union_loop :: "reliability_interval \<Rightarrow> int \<Rightarrow> reliability_interval list \<Rightarrow> int" where
  "union_loop current milliseconds [] = milliseconds + iv_end current - iv_start current"
| "union_loop current milliseconds (i # rest) =
     (if iv_start i \<le> iv_end current
      then union_loop \<lparr>iv_start = iv_start current, iv_end = max (iv_end current) (iv_end i)\<rparr> milliseconds rest
      else union_loop i (milliseconds + (iv_end current - iv_start current)) rest)"

definition unionSeconds :: "reliability_interval list \<Rightarrow> int" where
  "unionSeconds intervals =
     (case sort_key interval_order intervals of
        [] \<Rightarrow> 0
      | first # rest \<Rightarrow> union_loop first 0 rest div 1000)"

section \<open>Known downtime\<close>

definition any_interval_start :: "any_active \<Rightarrow> string option" where
  \<comment> \<open>the start of an active incident, when it is exact\<close>
  "any_interval_start i =
     (case i of
        MonitoringActive a \<Rightarrow> if ai_exactStart a then nonempty (ai_startedAt a) else None
      | BackupActive b \<Rightarrow> if ba_exactStart b then nonempty (ba_startedAt b) else None)"

definition recovered_startedAt :: "any_recovered \<Rightarrow> string" where
  "recovered_startedAt i =
     (case i of MonitoringRecovered r \<Rightarrow> ri_startedAt r | BackupRecovered b \<Rightarrow> bi_startedAt b)"

definition recovered_interval :: "int \<Rightarrow> int \<Rightarrow> any_recovered \<Rightarrow> reliability_interval option" where
  "recovered_interval rangeStart rangeEnd i =
     clipInterval (recovered_startedAt i) (any_recoveredAt i) rangeStart rangeEnd"

definition active_interval :: "int \<Rightarrow> int \<Rightarrow> any_active \<Rightarrow> reliability_interval option" where
  "active_interval rangeStart rangeEnd i =
     Option.bind (any_interval_start i)
       (\<lambda>s. clipInterval s (iso_text rangeEnd) rangeStart rangeEnd)"

record known_downtime =
  kd_seconds :: int
  kd_exactCoverage :: bool

definition collectKnownDowntime ::
  "any_active list \<Rightarrow> any_recovered list \<Rightarrow> int \<Rightarrow> int \<Rightarrow> known_downtime" where
  "collectKnownDowntime active recovered rangeStart rangeEnd =
     \<lparr> kd_seconds = unionSeconds
         (List.map_filter (recovered_interval rangeStart rangeEnd) recovered @
          List.map_filter (active_interval rangeStart rangeEnd) active),
       kd_exactCoverage = list_all (\<lambda>i. any_interval_start i \<noteq> None) active \<rparr>"

section \<open>Maintenance windows\<close>

datatype maintenance_scope = ServiceScope | HostScope | ContainerScope | BackupScope

datatype slo_service = OverallService | HostService | ContainerService | BackupService

record maintenance_window =
  mw_id :: string
  mw_scopeType :: maintenance_scope
  mw_serviceId :: "slo_service option"
  mw_hostId :: "string option"
  mw_serverId :: "string option"
  mw_hostDisplayName :: "string option"
  mw_containerName :: "string option"
  mw_backupTarget :: "string option"
  mw_gameMode :: "string option"
  mw_backupType :: "backup_type option"
  mw_startsAt :: string
  mw_endsAt :: string
  mw_reason :: string
  mw_cancelledAt :: "string option"
  mw_createdAt :: string

definition SLO_SERVICE_IDS :: "slo_service list" where
  "SLO_SERVICE_IDS = [OverallService, HostService, ContainerService, BackupService]"

definition effectiveWindowInterval :: "maintenance_window \<Rightarrow> int \<Rightarrow> int \<Rightarrow> reliability_interval option" where
  "effectiveWindowInterval w rangeStart rangeEnd =
     (let endsAt = Date_parse (mw_endsAt w);
          effectiveEnd = (case nonempty (mw_cancelledAt w) of
             None \<Rightarrow> endsAt
           | Some c \<Rightarrow> (case (endsAt, Date_parse c) of (Some a, Some b) \<Rightarrow> Some (min a b) | _ \<Rightarrow> None))
      in finite_interval (map_option (\<lambda>t. max t rangeStart) (Date_parse (mw_startsAt w)))
                         (map_option (\<lambda>t. min t rangeEnd) effectiveEnd))"

text \<open>An incident of either list, as the maintenance rules see it.\<close>

datatype any_incident = ActiveOf any_active | RecoveredOf any_recovered

definition incident_entity :: "any_incident \<Rightarrow> slo_service" where
  \<comment> \<open>\<open>entityType\<close>\<close>
  "incident_entity i =
     (case i of
        ActiveOf (MonitoringActive a) \<Rightarrow>
          (case ai_entityType a of HostEntity \<Rightarrow> HostService | ContainerEntity \<Rightarrow> ContainerService)
      | RecoveredOf (MonitoringRecovered r) \<Rightarrow>
          (case ri_entityType r of HostEntity \<Rightarrow> HostService | ContainerEntity \<Rightarrow> ContainerService)
      | _ \<Rightarrow> BackupService)"

definition incident_host :: "any_incident \<Rightarrow> string" where
  "incident_host i =
     (case i of
        ActiveOf (MonitoringActive a) \<Rightarrow> ai_hostId a | ActiveOf (BackupActive b) \<Rightarrow> ba_hostId b
      | RecoveredOf (MonitoringRecovered r) \<Rightarrow> ri_hostId r | RecoveredOf (BackupRecovered b) \<Rightarrow> bi_hostId b)"

definition incident_container :: "any_incident \<Rightarrow> string option" where
  "incident_container i =
     (case i of
        ActiveOf (MonitoringActive a) \<Rightarrow> ai_containerName a
      | RecoveredOf (MonitoringRecovered r) \<Rightarrow> ri_containerName r | _ \<Rightarrow> None)"

definition incident_backup :: "any_incident \<Rightarrow> (string \<times> string \<times> backup_type) option" where
  "incident_backup i =
     (case i of
        ActiveOf (BackupActive b) \<Rightarrow> Some (ba_backupTarget b, ba_gameMode b, ba_backupType b)
      | RecoveredOf (BackupRecovered b) \<Rightarrow> Some (bi_backupTarget b, bi_gameMode b, bi_backupType b)
      | _ \<Rightarrow> None)"

definition maintenanceExcludable :: "any_incident \<Rightarrow> bool" where
  "maintenanceExcludable i \<longleftrightarrow>
     \<not> (case i of
          ActiveOf (MonitoringActive a) \<Rightarrow> ai_entityType a = ContainerEntity \<and> ai_startReason a = OomKilledDetected
        | RecoveredOf (MonitoringRecovered r) \<Rightarrow> ri_entityType r = ContainerEntity \<and> ri_startReason r = OomKilledDetected
        | _ \<Rightarrow> False)"

definition appliesToIncident :: "maintenance_window \<Rightarrow> any_incident \<Rightarrow> bool" where
  "appliesToIncident w i =
     (if \<not> maintenanceExcludable i then False
      else (case mw_scopeType w of
          ServiceScope \<Rightarrow> mw_serviceId w = Some OverallService \<or> mw_serviceId w = Some (incident_entity i)
        | HostScope \<Rightarrow> mw_hostId w = Some (incident_host i)
        | ContainerScope \<Rightarrow> incident_entity i = ContainerService \<and> mw_hostId w = Some (incident_host i) \<and>
            mw_containerName w = incident_container i
        | BackupScope \<Rightarrow> incident_entity i = BackupService \<and> mw_hostId w = Some (incident_host i) \<and>
            (case incident_backup i of
               None \<Rightarrow> False
             | Some (target, mode, type) \<Rightarrow> mw_backupTarget w = Some target \<and>
                 mw_gameMode w = Some mode \<and> mw_backupType w = Some type)))"

text \<open>
  \<open>subtractIntervals\<close>: the loop over the clipped exclusions with its cursor; it stops when the cursor
  reaches the end of the source.
\<close>

fun subtract_loop ::
  "int \<Rightarrow> int \<Rightarrow> reliability_interval list \<Rightarrow> reliability_interval list \<Rightarrow> reliability_interval list \<times> int" where
  "subtract_loop source_end cursor result [] = (result, cursor)"
| "subtract_loop source_end cursor result (x # rest) =
     (if iv_end x \<le> cursor then subtract_loop source_end cursor result rest
      else (let result' = (if iv_start x > cursor
                  then result @ [\<lparr>iv_start = cursor, iv_end = min (iv_start x) source_end\<rparr>] else result);
                cursor' = max cursor (iv_end x)
            in if cursor' \<ge> source_end then (result', cursor')
               else subtract_loop source_end cursor' result' rest))"

definition proper_interval :: "reliability_interval \<Rightarrow> bool" where
  "proper_interval i \<longleftrightarrow> iv_end i > iv_start i"

definition clip_to :: "reliability_interval \<Rightarrow> reliability_interval \<Rightarrow> reliability_interval" where
  "clip_to source x =
     \<lparr>iv_start = max (iv_start source) (iv_start x), iv_end = min (iv_end source) (iv_end x)\<rparr>"

definition subtractIntervals ::
  "reliability_interval \<Rightarrow> reliability_interval list \<Rightarrow> reliability_interval list" where
  "subtractIntervals source exclusions =
     (let clipped = sort_key interval_order (filter proper_interval (map (clip_to source) exclusions))
      in if clipped = [] then [source]
         else (let (result, cursor) = subtract_loop (iv_end source) (iv_start source) [] clipped
               in filter proper_interval
                    (if cursor < iv_end source
                     then result @ [\<lparr>iv_start = cursor, iv_end = iv_end source\<rparr>] else result)))"

section \<open>Adjusted downtime\<close>

record adjusted_downtime =
  ad_rawDowntimeSeconds :: int
  ad_countedDowntimeSeconds :: int
  ad_excludedMaintenanceSeconds :: int
  ad_exactCoverage :: bool

definition window_intervals ::
  "maintenance_window list \<Rightarrow> int \<Rightarrow> int \<Rightarrow> (maintenance_window \<times> reliability_interval) list" where
  "window_intervals windows rangeStart rangeEnd =
     List.map_filter (\<lambda>w. map_option (Pair w) (effectiveWindowInterval w rangeStart rangeEnd)) windows"

definition incident_interval :: "int \<Rightarrow> int \<Rightarrow> any_incident \<Rightarrow> reliability_interval option" where
  "incident_interval rangeStart rangeEnd i =
     (case i of
        RecoveredOf r \<Rightarrow> recovered_interval rangeStart rangeEnd r
      | ActiveOf a \<Rightarrow> active_interval rangeStart rangeEnd a)"

definition counted_parts ::
  "(maintenance_window \<times> reliability_interval) list \<Rightarrow> any_incident \<Rightarrow> reliability_interval \<Rightarrow> reliability_interval list" where
  "counted_parts windowIntervals i interval =
     subtractIntervals interval (map snd (filter (\<lambda>(w, x). appliesToIncident w i) windowIntervals))"

definition collectMaintenanceAdjustedDowntime ::
  "any_active list \<Rightarrow> any_recovered list \<Rightarrow> maintenance_window list \<Rightarrow> int \<Rightarrow> int \<Rightarrow> adjusted_downtime" where
  "collectMaintenanceAdjustedDowntime active recovered windows rangeStart rangeEnd =
     (let windowIntervals = window_intervals windows rangeStart rangeEnd;
          intervals = List.map_filter
            (\<lambda>i. map_option (Pair i) (incident_interval rangeStart rangeEnd i))
            (map RecoveredOf recovered @ map ActiveOf active);
          raw = unionSeconds (map snd intervals);
          counted = unionSeconds (concat (map (\<lambda>(i, interval). counted_parts windowIntervals i interval) intervals))
      in \<lparr> ad_rawDowntimeSeconds = raw, ad_countedDowntimeSeconds = counted,
           ad_excludedMaintenanceSeconds = max 0 (raw - counted),
           ad_exactCoverage = list_all (\<lambda>i. any_interval_start i \<noteq> None) active \<rparr>)"

definition in_service :: "slo_service \<Rightarrow> any_incident \<Rightarrow> bool" where
  "in_service s i \<longleftrightarrow> s = OverallService \<or> incident_entity i = s"

definition buildReliabilityMaintenanceAdjustments ::
  "any_active list \<Rightarrow> any_recovered list \<Rightarrow> maintenance_window list \<Rightarrow> int \<Rightarrow> int \<Rightarrow>
   (slo_service \<times> adjusted_downtime) list" where
  "buildReliabilityMaintenanceAdjustments active recovered windows rangeStart rangeEnd =
     map (\<lambda>s. (s, collectMaintenanceAdjustedDowntime
             (filter (\<lambda>a. in_service s (ActiveOf a)) active)
             (filter (\<lambda>r. in_service s (RecoveredOf r)) recovered) windows rangeStart rangeEnd))
       SLO_SERVICE_IDS"

section \<open>What the intervals cover\<close>

definition instants :: "reliability_interval \<Rightarrow> int set" where
  "instants i = {iv_start i ..< iv_end i}"

definition cover :: "reliability_interval list \<Rightarrow> int set" where
  "cover is = (\<Union>i \<in> set is. instants i)"

lemma finite_instants [simp]: "finite (instants i)"
  by (simp add: instants_def)

lemma finite_cover [simp]: "finite (cover is)"
  by (simp add: cover_def)

lemma cover_simps [simp]:
  "cover [] = {}" "cover (i # is) = instants i \<union> cover is" "cover (as @ bs) = cover as \<union> cover bs"
  by (auto simp: cover_def)

lemma cover_set: "set as = set bs \<Longrightarrow> cover as = cover bs"
  by (simp add: cover_def)

lemma card_instants: "iv_start i \<le> iv_end i \<Longrightarrow> int (card (instants i)) = iv_end i - iv_start i"
  by (simp add: instants_def)

lemma union_loop_cover:
  assumes "sorted_wrt (\<lambda>a b. iv_start a \<le> iv_start b) (current # is)"
    and "list_all (\<lambda>i. iv_start i \<le> iv_end i) (current # is)"
  shows "union_loop current ms is = ms + int (card (cover (current # is)))"
  using assms
proof (induction current ms "is" rule: union_loop.induct)
  case (1 current ms)
  then show ?case by (simp add: card_instants)
next
  case (2 current ms i rest)
  let ?joined = "\<lparr>iv_start = iv_start current, iv_end = max (iv_end current) (iv_end i)\<rparr>"
  show ?case
  proof (cases "iv_start i \<le> iv_end current")
    case True
    have "instants ?joined = instants current \<union> instants i"
      using True 2(3,4) by (auto simp: instants_def)
    moreover have "union_loop ?joined ms rest = ms + int (card (cover (?joined # rest)))"
      using True 2(3,4) by (intro "2.IH"(1)) auto
    ultimately show ?thesis using True by (simp add: Un_assoc)
  next
    case False
    have "union_loop i (ms + (iv_end current - iv_start current)) rest =
        ms + (iv_end current - iv_start current) + int (card (cover (i # rest)))"
      using False 2(3,4) by (intro "2.IH"(2)) auto
    moreover have "instants current \<inter> cover (i # rest) = {}"
      using False 2(3) by (auto simp: instants_def cover_def)
    then have "card (cover (current # i # rest)) = card (instants current) + card (cover (i # rest))"
      by (simp add: card_Un_disjoint)
    ultimately show ?thesis using False 2(4) by (simp add: card_instants)
  qed
qed

lemma unionSeconds_cover:
  assumes "list_all (\<lambda>i. iv_start i \<le> iv_end i) is"
  shows "unionSeconds is = int (card (cover is)) div 1000"
proof (cases "sort_key interval_order is")
  case Nil
  then have "set is = {}" using set_sort [of interval_order "is"] by simp
  then show ?thesis using Nil by (simp add: unionSeconds_def)
next
  case (Cons first rest)
  have "sorted_wrt (\<lambda>a b. interval_order a \<le> interval_order b) (first # rest)"
    using sort_key_ordered [of interval_order "is"] by (simp only: Cons)
  then have "sorted_wrt (\<lambda>a b. iv_start a \<le> iv_start b) (first # rest)"
    by (rule sorted_wrt_mono_rel [rotated]) (auto simp: interval_order_def)
  moreover have set: "set (first # rest) = set is"
    using set_sort [of interval_order "is"] by (simp only: Cons)
  then have "list_all (\<lambda>i. iv_start i \<le> iv_end i) (first # rest)"
    using assms by (simp only: list_all_iff)
  ultimately have "union_loop first 0 rest = int (card (cover (first # rest)))"
    by (simp add: union_loop_cover)
  with set cover_set [OF set] show ?thesis by (simp only: unionSeconds_def Cons list.case)
qed

section \<open>Subtraction\<close>

lemma subtract_loop_spec:
  assumes "subtract_loop e cursor result xs = (result', cursor')"
    and "sorted_wrt (\<lambda>a b. iv_start a \<le> iv_start b) xs"
    and "\<forall>x \<in> set xs. s \<le> iv_start x \<and> iv_start x < iv_end x \<and> iv_end x \<le> e"
    and "s \<le> cursor" "cursor < e"
    and "cover result \<inter> {s ..< cursor} = cover result"
    and "cover result \<inter> cover xs = {}"
  shows "cover result' = cover result \<union> ({cursor ..< cursor'} - cover xs) \<and>
    {cursor' ..< e} \<inter> cover xs = {} \<and> cursor \<le> cursor' \<and> cursor' \<le> e"
  using assms
proof (induction e cursor result xs arbitrary: result' cursor' rule: subtract_loop.induct)
  case (1 e cursor result)
  then show ?case by simp
next
  case (2 e cursor result x rest)
  have rest: "sorted_wrt (\<lambda>a b. iv_start a \<le> iv_start b) rest"
      "\<forall>x \<in> set rest. s \<le> iv_start x \<and> iv_start x < iv_end x \<and> iv_end x \<le> e"
    and later: "\<forall>y \<in> set rest. iv_start x \<le> iv_start y"
    using "2.prems"(2,3) by auto
  have x: "s \<le> iv_start x" "iv_start x < iv_end x" "iv_end x \<le> e" using "2.prems"(3) by auto
  show ?case
  proof (cases "iv_end x \<le> cursor")
    case True
    have "cover result' = cover result \<union> ({cursor ..< cursor'} - cover rest) \<and>
        {cursor' ..< e} \<inter> cover rest = {} \<and> cursor \<le> cursor' \<and> cursor' \<le> e"
      using "2.prems" True rest by (intro "2.IH"(1)) auto
    then show ?thesis using True by (auto simp: instants_def)
  next
    case False
    define r where "r = (if iv_start x > cursor
        then result @ [\<lparr>iv_start = cursor, iv_end = min (iv_start x) e\<rparr>] else result)"
    define c where "c = max cursor (iv_end x)"
    have c: "c = iv_end x" "cursor < c" using False by (auto simp: c_def)
    have r: "cover r = cover result \<union> {cursor ..< iv_start x}"
      using x by (auto simp: r_def instants_def)
    have gap: "{cursor ..< iv_start x} \<inter> cover (x # rest) = {}"
      using later by (fastforce simp: cover_def instants_def)
    show ?thesis
    proof (cases "c \<ge> e")
      case True
      then have "result' = r" "cursor' = c"
        using "2.prems"(1) False by (simp_all add: r_def c_def Let_def)
      with True c x r gap show ?thesis by (auto simp: instants_def)
    next
      case not_done: False
      have "cover result' = cover r \<union> ({c ..< cursor'} - cover rest) \<and>
          {cursor' ..< e} \<inter> cover rest = {} \<and> c \<le> cursor' \<and> cursor' \<le> e"
      proof (rule "2.IH"(2) [OF False r_def c_def])
        show "\<not> c \<ge> e" by fact
        show "subtract_loop e c r rest = (result', cursor')"
          using "2.prems"(1) False not_done by (simp add: r_def [symmetric] c_def [symmetric] Let_def)
        show "s \<le> c" "c < e" using "2.prems"(4) c not_done by auto
        show "cover r \<inter> {s ..< c} = cover r"
          using "2.prems"(4,6) c r x by fastforce
        show "cover r \<inter> cover rest = {}"
          using "2.prems"(7) gap r by auto
      qed (use rest in auto)
      with c x r gap show ?thesis by (auto simp: instants_def)
    qed
  qed
qed

lemma subtract_cover:
  assumes "iv_start source < iv_end source"
  shows "cover (subtractIntervals source xs) = instants source - cover xs"
proof -
  define clipped where "clipped = sort_key interval_order (filter proper_interval (map (clip_to source) xs))"
  have "cover (filter proper_interval ys) = cover ys" for ys
    by (auto simp: cover_def instants_def proper_interval_def)
  note proper = this
  have clipped: "cover clipped = instants source \<inter> cover xs"
  proof -
    have "cover clipped = cover (map (clip_to source) xs)"
      unfolding clipped_def by (metis cover_set proper set_sort)
    then show ?thesis by (auto simp: cover_def instants_def clip_to_def)
  qed
  show ?thesis
  proof (cases "clipped = []")
    case True
    with clipped have "instants source \<inter> cover xs = {}" by simp
    with True show ?thesis by (auto simp: subtractIntervals_def clipped_def [symmetric])
  next
    case False
    obtain result cursor where loop:
      "subtract_loop (iv_end source) (iv_start source) [] clipped = (result, cursor)"
      by (cases "subtract_loop (iv_end source) (iv_start source) [] clipped")
    have "sorted_wrt (\<lambda>a b. interval_order a \<le> interval_order b) clipped"
      unfolding clipped_def by (rule sort_key_ordered)
    then have sorted: "sorted_wrt (\<lambda>a b. iv_start a \<le> iv_start b) clipped"
      by (rule sorted_wrt_mono_rel [rotated]) (auto simp: interval_order_def)
    have inside: "\<forall>x \<in> set clipped. iv_start source \<le> iv_start x \<and> iv_start x < iv_end x \<and> iv_end x \<le> iv_end source"
      by (auto simp: clipped_def proper_interval_def clip_to_def)
    from subtract_loop_spec [OF loop sorted inside order_refl assms]
    have spec: "cover result = {iv_start source ..< cursor} - cover clipped"
      "{cursor ..< iv_end source} \<inter> cover clipped = {}" "iv_start source \<le> cursor" "cursor \<le> iv_end source"
      by simp_all
    have "subtractIntervals source xs = filter proper_interval
        (if cursor < iv_end source then result @ [\<lparr>iv_start = cursor, iv_end = iv_end source\<rparr>] else result)"
      using False loop by (simp add: subtractIntervals_def clipped_def [symmetric])
    with spec have "cover (subtractIntervals source xs) =
        {iv_start source ..< iv_end source} - cover clipped"
      by (auto simp: proper instants_def)
    then show ?thesis by (auto simp: clipped instants_def)
  qed
qed
section \<open>The incidents and windows as sets of instants\<close>

definition option_instants :: "reliability_interval option \<Rightarrow> int set" where
  "option_instants x = (case x of None \<Rightarrow> {} | Some i \<Rightarrow> instants i)"

definition incident_instants :: "int \<Rightarrow> int \<Rightarrow> any_incident \<Rightarrow> int set" where
  "incident_instants rangeStart rangeEnd i = option_instants (incident_interval rangeStart rangeEnd i)"

definition excluded_instants :: "maintenance_window list \<Rightarrow> int \<Rightarrow> int \<Rightarrow> any_incident \<Rightarrow> int set" where
  "excluded_instants windows rangeStart rangeEnd i =
     (\<Union>w \<in> {w \<in> set windows. appliesToIncident w i}.
        option_instants (effectiveWindowInterval w rangeStart rangeEnd))"

lemma finite_interval_proper: "finite_interval a b = Some i \<Longrightarrow> iv_start i < iv_end i"
  by (auto simp: finite_interval_def split: option.splits if_splits)

lemma recovered_interval_proper: "recovered_interval a b r = Some i \<Longrightarrow> iv_start i < iv_end i"
  by (auto simp: recovered_interval_def clipInterval_def intro: finite_interval_proper)

lemma active_interval_proper: "active_interval a b x = Some i \<Longrightarrow> iv_start i < iv_end i"
  by (auto simp: active_interval_def clipInterval_def bind_eq_Some_conv intro: finite_interval_proper)

lemma incident_interval_proper: "incident_interval a b x = Some i \<Longrightarrow> iv_start i < iv_end i"
  by (auto simp: incident_interval_def recovered_interval_proper active_interval_proper
      split: any_incident.splits)

lemma cover_map_filter: "cover (List.map_filter f xs) = (\<Union>x \<in> set xs. option_instants (f x))"
  by (force simp: cover_def set_map_filter option_instants_def split: option.splits)

definition incident_pairs :: "int \<Rightarrow> int \<Rightarrow> any_incident list \<Rightarrow> (any_incident \<times> reliability_interval) list" where
  "incident_pairs rangeStart rangeEnd incidents =
     List.map_filter (\<lambda>i. map_option (Pair i) (incident_interval rangeStart rangeEnd i)) incidents"

lemma incident_pairs_mem:
  "(i, x) \<in> set (incident_pairs a b is) \<longleftrightarrow> i \<in> set is \<and> incident_interval a b i = Some x"
  by (auto simp: incident_pairs_def set_map_filter)

lemma cover_raw: "cover (map snd (incident_pairs a b is)) = (\<Union>i \<in> set is. incident_instants a b i)"
proof -
  have "map snd (incident_pairs a b is) = List.map_filter (incident_interval a b) is"
    by (induction "is") (auto simp: incident_pairs_def List.map_filter_def)
  then show ?thesis by (simp add: cover_map_filter incident_instants_def)
qed

lemma cover_windows:
  "cover (map snd (filter (\<lambda>(w, x). appliesToIncident w i) (window_intervals ws a b))) = excluded_instants ws a b i"
proof -
  have "map snd (filter (\<lambda>(w, x). appliesToIncident w i) (window_intervals ws a b)) =
      List.map_filter (\<lambda>w. effectiveWindowInterval w a b) (filter (\<lambda>w. appliesToIncident w i) ws)"
    by (induction ws) (auto simp: window_intervals_def List.map_filter_def)
  then show ?thesis by (simp add: cover_map_filter excluded_instants_def)
qed

lemma cover_concat: "cover (concat xss) = (\<Union>xs \<in> set xss. cover xs)"
  by (auto simp: cover_def)

lemma cover_counted:
  "cover (concat (map (\<lambda>(i, x). counted_parts (window_intervals ws a b) i x) (incident_pairs a b is))) =
     (\<Union>i \<in> set is. incident_instants a b i - excluded_instants ws a b i)"
proof -
  have part: "cover (counted_parts (window_intervals ws a b) i x) = incident_instants a b i - excluded_instants ws a b i"
    if "(i, x) \<in> set (incident_pairs a b is)" for i x
    using that incident_interval_proper [of a b i x]
    by (simp add: counted_parts_def subtract_cover cover_windows incident_pairs_mem incident_instants_def
        option_instants_def)
  have empty: "incident_instants a b i = {}" if "i \<in> set is" "\<forall>x. (i, x) \<notin> set (incident_pairs a b is)" for i
    using that by (auto simp: incident_pairs_mem incident_instants_def option_instants_def split: option.splits)
  show ?thesis
  proof (intro set_eqI iffI)
    fix t
    assume "t \<in> cover (concat (map (\<lambda>(i, x). counted_parts (window_intervals ws a b) i x) (incident_pairs a b is)))"
    then obtain i x where "(i, x) \<in> set (incident_pairs a b is)"
      "t \<in> cover (counted_parts (window_intervals ws a b) i x)"
      by (auto simp: cover_concat)
    then show "t \<in> (\<Union>i \<in> set is. incident_instants a b i - excluded_instants ws a b i)"
      by (auto simp: part incident_pairs_mem)
  next
    fix t
    assume "t \<in> (\<Union>i \<in> set is. incident_instants a b i - excluded_instants ws a b i)"
    then obtain i where i: "i \<in> set is" "t \<in> incident_instants a b i - excluded_instants ws a b i" by blast
    with empty obtain x where "(i, x) \<in> set (incident_pairs a b is)" by blast
    with i part show "t \<in> cover (concat (map (\<lambda>(i, x). counted_parts (window_intervals ws a b) i x) (incident_pairs a b is)))"
      by (force simp: cover_concat)
  qed
qed

lemma counted_parts_proper:
  assumes "iv_start x < iv_end x" "y \<in> set (counted_parts ws i x)"
  shows "iv_start y \<le> iv_end y"
  using assms unfolding counted_parts_def subtractIntervals_def Let_def case_prod_beta
  by (auto simp: proper_interval_def split: if_split_asm)

lemma unionSeconds_mono:
  assumes "list_all (\<lambda>i. iv_start i \<le> iv_end i) as" "list_all (\<lambda>i. iv_start i \<le> iv_end i) bs"
    and "cover as \<subseteq> cover bs"
  shows "unionSeconds as \<le> unionSeconds bs"
  using card_mono [OF finite_cover assms(3)] assms(1,2)
  by (simp add: unionSeconds_cover zdiv_mono1)

text \<open>A memory kill of a container is never excused by a maintenance window: its instants are
  counted in full.\<close>

lemma memory_kill_always_counted:
  "incident_entity i = ContainerService \<and>
     (case i of ActiveOf (MonitoringActive a) \<Rightarrow> ai_startReason a = OomKilledDetected
      | RecoveredOf (MonitoringRecovered r) \<Rightarrow> ri_startReason r = OomKilledDetected | _ \<Rightarrow> False) \<Longrightarrow>
   excluded_instants windows rangeStart rangeEnd i = {}"
  by (auto simp: excluded_instants_def appliesToIncident_def maintenanceExcludable_def incident_entity_def
      split: any_incident.splits any_active.splits any_recovered.splits monitored_entity.splits)

section \<open>Properties\<close>

text \<open>C16. The known downtime is the number of whole seconds of the set of instants that some
  incident with a known start covers inside the range, overlaps counted once, and the coverage is
  exact when every active incident has an exact start.\<close>

theorem known_downtime_is_union:
  "kd_seconds (collectKnownDowntime active recovered rangeStart rangeEnd) =
     int (card ((\<Union>r \<in> set recovered. incident_instants rangeStart rangeEnd (RecoveredOf r)) \<union>
                (\<Union>a \<in> set active. incident_instants rangeStart rangeEnd (ActiveOf a)))) div 1000 \<and>
   (kd_exactCoverage (collectKnownDowntime active recovered rangeStart rangeEnd) \<longleftrightarrow>
     list_all (\<lambda>i. case i of
         MonitoringActive a \<Rightarrow> ai_exactStart a \<and> nonempty (ai_startedAt a) \<noteq> None
       | BackupActive b \<Rightarrow> ba_exactStart b \<and> nonempty (ba_startedAt b) \<noteq> None) active)"
proof -
  let ?is = "List.map_filter (recovered_interval rangeStart rangeEnd) recovered @
    List.map_filter (active_interval rangeStart rangeEnd) active"
  have "list_all (\<lambda>i. iv_start i \<le> iv_end i) ?is"
    using recovered_interval_proper active_interval_proper
    by (fastforce simp: list_all_iff set_map_filter)
  then have "unionSeconds ?is = int (card (cover ?is)) div 1000" by (rule unionSeconds_cover)
  moreover have "any_interval_start i \<noteq> None \<longleftrightarrow> (case i of
         MonitoringActive a \<Rightarrow> ai_exactStart a \<and> nonempty (ai_startedAt a) \<noteq> None
       | BackupActive b \<Rightarrow> ba_exactStart b \<and> nonempty (ba_startedAt b) \<noteq> None)" for i
    by (simp add: any_interval_start_def split: any_active.splits)
  ultimately show ?thesis
    by (simp add: collectKnownDowntime_def cover_map_filter incident_instants_def incident_interval_def)
qed

text \<open>C17. Maintenance adjustment: the raw downtime counts the instants of the incidents, the counted
  downtime those of each incident outside the windows that apply to it; it never exceeds the raw one,
  and the excluded seconds are their difference.\<close>

theorem maintenance_adjusted_downtime:
  fixes active :: "any_active list" and recovered :: "any_recovered list"
    and windows :: "maintenance_window list" and rangeStart rangeEnd :: int
  defines "d \<equiv> collectMaintenanceAdjustedDowntime active recovered windows rangeStart rangeEnd"
    and "incidents \<equiv> RecoveredOf ` set recovered \<union> ActiveOf ` set active"
  shows "ad_rawDowntimeSeconds d = int (card (\<Union>i \<in> incidents. incident_instants rangeStart rangeEnd i)) div 1000 \<and>
    ad_countedDowntimeSeconds d =
      int (card (\<Union>i \<in> incidents. incident_instants rangeStart rangeEnd i -
        excluded_instants windows rangeStart rangeEnd i)) div 1000 \<and>
    0 \<le> ad_countedDowntimeSeconds d \<and> ad_countedDowntimeSeconds d \<le> ad_rawDowntimeSeconds d \<and>
    ad_excludedMaintenanceSeconds d = ad_rawDowntimeSeconds d - ad_countedDowntimeSeconds d"
proof -
  let ?is = "map RecoveredOf recovered @ map ActiveOf active"
  let ?p = "incident_pairs rangeStart rangeEnd ?is"
  let ?raw = "map snd ?p"
  let ?counted = "concat (map (\<lambda>(i, x). counted_parts (window_intervals windows rangeStart rangeEnd) i x) ?p)"
  have set: "set ?is = incidents" by (simp add: incidents_def)
  have raw_ok: "list_all (\<lambda>i. iv_start i \<le> iv_end i) ?raw"
    using incident_interval_proper by (fastforce simp: list_all_iff incident_pairs_mem)
  have counted_ok: "list_all (\<lambda>i. iv_start i \<le> iv_end i) ?counted"
    using incident_interval_proper counted_parts_proper
    by (fastforce simp: list_all_iff incident_pairs_mem)
  have d: "ad_rawDowntimeSeconds d = unionSeconds ?raw" "ad_countedDowntimeSeconds d = unionSeconds ?counted"
    "ad_excludedMaintenanceSeconds d = max 0 (unionSeconds ?raw - unionSeconds ?counted)"
    by (simp_all add: d_def collectMaintenanceAdjustedDowntime_def incident_pairs_def [symmetric] Let_def)
  have le: "unionSeconds ?counted \<le> unionSeconds ?raw"
    by (rule unionSeconds_mono [OF counted_ok raw_ok]) (auto simp: cover_raw cover_counted)
  show ?thesis
    using le unionSeconds_cover [OF raw_ok] unionSeconds_cover [OF counted_ok]
    unfolding d cover_raw cover_counted set by simp
qed

text \<open>Cutting windows out of an interval removes exactly their instants, for windows in any order
  and with any overlaps.\<close>

theorem subtractIntervals_removes_windows:
  assumes "iv_start source < iv_end source"
  shows "cover (subtractIntervals source windows) = instants source - cover windows"
  by (rule subtract_cover [OF assms])

theorem subtractIntervals_removes_windows_witness:
  "cover (subtractIntervals \<lparr>iv_start = 0, iv_end = 10\<rparr>
      [\<lparr>iv_start = 4, iv_end = 6\<rparr>, \<lparr>iv_start = 2, iv_end = 5\<rparr>]) = {0, 1, 6, 7, 8, 9}"
proof -
  have "cover (subtractIntervals \<lparr>iv_start = 0, iv_end = 10\<rparr>
      [\<lparr>iv_start = 4, iv_end = 6\<rparr>, \<lparr>iv_start = 2, iv_end = 5\<rparr>]) = {0..<10} - ({4..<6} \<union> {2..<5})"
    using subtractIntervals_removes_windows [of "\<lparr>iv_start = 0, iv_end = 10\<rparr>"
        "[\<lparr>iv_start = 4, iv_end = 6\<rparr>, \<lparr>iv_start = 2, iv_end = 5\<rparr>]"]
    by (simp add: instants_def)
  also have "\<dots> = {0, 1, 6, 7, 8, 9::int}" by auto
  finally show ?thesis .
qed

end
