(* ===== verification/AuthRoutes.thy ===== *)
theory AuthRoutes
  imports ConsoleAuth
begin

text \<open>
  The sign-in routes: \<open>app/api/auth/discord/start\<close>, \<open>app/api/auth/discord/callback\<close> and
  \<open>app/api/auth/logout\<close>. A response is the target of its redirect with the cookies it sets; the
  callback also yields the audit entries it records and the access tokens it revokes. The request, the
  clock, the random values and the remote services are parameters.
\<close>

section \<open>Starting\<close>

definition OAUTH_SCOPES :: string where
  "OAUTH_SCOPES = ''identify guilds.members.read''"

definition form_char :: "char \<Rightarrow> bool" where
  \<comment> \<open>what \<open>URLSearchParams\<close> leaves as it is\<close>
  "form_char c \<longleftrightarrow> is_alnum c \<or> c \<in> set ''*-._''"

definition form_encode :: "string \<Rightarrow> string" where
  "form_encode s = concat (map (\<lambda>c. if c = CHR '' '' then ''+'' else encode_unless form_char [c]) s)"

definition createDiscordAuthorizationUrl :: "discord_configuration \<Rightarrow> string \<Rightarrow> string" where
  "createDiscordAuthorizationUrl configuration state =
     ''https://discord.com/oauth2/authorize?'' @
     join ''&'' (map (\<lambda>(k, v). form_encode k @ ''='' @ form_encode v)
       [(''response_type'', ''code''), (''client_id'', dc_clientId configuration), (''scope'', OAUTH_SCOPES),
        (''state'', state), (''redirect_uri'', dc_redirectUri configuration), (''prompt'', ''consent'')])"

datatype start_response =
    ToLoginError string
  | ToDiscord string string string  \<comment> \<open>the URL; the cookie's name and value\<close>

record auth_environment =
  ae_env :: environment
  ae_parse_redirect :: "string \<Rightarrow> redirect_url option"
  ae_parse_json :: "string \<Rightarrow> jsval option"
  ae_authority :: "string \<Rightarrow> url_parts option"
  ae_crypto :: oauth_crypto

definition configuration_of :: "auth_environment \<Rightarrow> discord_configuration option option" where
  "configuration_of e = getDiscordAuthConfiguration (ae_env e) (ae_parse_redirect e) (ae_parse_json e)"

definition start_route :: "auth_environment \<Rightarrow> byte list \<Rightarrow> int \<Rightarrow> reader \<Rightarrow> start_response" where
  "start_route e nonce now query =
     (case configuration_of e of
        None \<Rightarrow> ToLoginError ''configuration_error''
      | Some None \<Rightarrow> ToLoginError ''auth_disabled''
      | Some (Some configuration) \<Rightarrow>
          (let returnPath = sanitizeReturnPath (ae_authority e) (query ''returnTo'')
           in case createDiscordOAuthAttempt (ae_authority e) (ae_crypto e) nonce returnPath
                     (dc_clientSecret configuration) now of
                None \<Rightarrow> ToLoginError ''configuration_error''
              | Some attempt \<Rightarrow>
                  ToDiscord (createDiscordAuthorizationUrl configuration (oa_state attempt))
                    (oa_cookieName attempt) (oa_cookieValue attempt)))"

section \<open>The callback\<close>

record auth_services =
  as_token_endpoint :: "string \<Rightarrow> discord_configuration \<Rightarrow> jsval option"
  as_discord_get :: discord_get
  as_rpc :: session_rpc
  as_hash :: "string \<Rightarrow> string"

datatype login_redirect = LoginError login_failure | LoggedIn string

record login_outcome =
  lo_redirect :: login_redirect
  lo_session :: "(string \<times> int) option"  \<comment> \<open>the session cookie: token and expiry\<close>
  lo_denied :: "denied_login list"
  lo_revoked :: "string list"  \<comment> \<open>access tokens handed back to Discord\<close>

definition denied_outcome ::
  "string option \<Rightarrow> login_failure \<Rightarrow> string option \<Rightarrow> string option \<Rightarrow> string list \<Rightarrow> login_outcome" where
  "denied_outcome discordUserId reason guildId providerError revoked =
     \<lparr> lo_redirect = LoginError reason, lo_session = None,
       lo_denied = [recordDiscordLoginDenied discordUserId reason guildId providerError],
       lo_revoked = revoked \<rparr>"

definition open_session ::
  "auth_services \<Rightarrow> string \<Rightarrow> string \<Rightarrow> discord_configuration \<Rightarrow> discord_identity \<Rightarrow>
   login_failure + string \<times> int" where
  \<comment> \<open>from the identity to the cookie; \<open>token\<close> is the fresh session token\<close>
  "open_session services token requestId configuration identity =
     (if id_pending identity then Inl MembershipScreeningPending
      else (case resolveDiscordConsoleRole (id_roleIds identity) (dc_roleMap configuration) of
              None \<Rightarrow> Inl RequiredRoleMissing
            | Some resolution \<Rightarrow>
                (case createDiscordConsoleSession (as_rpc services) (as_hash services) token requestId
                        identity resolution configuration of
                   Inl reason \<Rightarrow> Inl reason
                 | Inr (sessionToken, expiresAt) \<Rightarrow>
                     (case Date_parse expiresAt of
                        None \<Rightarrow> Inl SessionCreateFailed
                      | Some t \<Rightarrow> Inr (sessionToken, t)))))"

definition authenticate ::
  "auth_services \<Rightarrow> string \<Rightarrow> string \<Rightarrow> discord_configuration \<Rightarrow> string \<Rightarrow> string \<Rightarrow> login_outcome" where
  \<comment> \<open>the second \<open>try\<close> block with its \<open>catch\<close> and \<open>finally\<close>\<close>
  "authenticate services token requestId configuration returnTo authCode =
     (case exchangeDiscordAuthorizationCode (as_token_endpoint services) authCode configuration of
        Inl reason \<Rightarrow> denied_outcome None reason (Some (dc_guildId configuration)) None []
      | Inr accessToken \<Rightarrow>
          (case fetchDiscordIdentity (as_discord_get services) accessToken configuration of
             Inl reason \<Rightarrow> denied_outcome None reason (Some (dc_guildId configuration)) None [accessToken]
           | Inr identity \<Rightarrow>
               (case open_session services token requestId configuration identity of
                  Inl reason \<Rightarrow>
                    denied_outcome (Some (id_userId identity)) reason (Some (dc_guildId configuration)) None [accessToken]
                | Inr session \<Rightarrow>
                    \<lparr> lo_redirect = LoggedIn returnTo, lo_session = Some session, lo_denied = [],
                      lo_revoked = [accessToken] \<rparr>)))"

definition callback_route ::
  "auth_environment \<Rightarrow> auth_services \<Rightarrow> string \<Rightarrow> string \<Rightarrow> int \<Rightarrow> reader \<Rightarrow> reader \<Rightarrow> login_outcome" where
  "callback_route e services token requestId now query cookie =
     (case configuration_of e of
        Some (Some configuration) \<Rightarrow>
          (let guildId = Some (dc_guildId configuration);
               returnedState = query ''state'';
               cookieName = getDiscordOAuthSlotCookieName (ae_crypto e) returnedState;
               cookieValue = Option.bind cookieName (\<lambda>n. nonempty (cookie n));
               attempt = verifyDiscordOAuthAttempt (ae_authority e) (ae_crypto e) returnedState cookieValue
                 (dc_clientSecret configuration) now
           in case (cookieName, attempt) of
                (Some _, Some returnTo) \<Rightarrow>
                  (case sanitizeDiscordOAuthProviderError (query ''error'') of
                     Some oauthError \<Rightarrow>
                       denied_outcome None (if oauthError = ''access_denied'' then OauthDenied else OauthProviderError)
                         guildId (Some oauthError) []
                   | None \<Rightarrow>
                       (case nonempty (query ''code'') of
                          Some authCode \<Rightarrow>
                            if length authCode > 4096 then denied_outcome None OauthCodeMissing guildId None []
                            else authenticate services token requestId configuration returnTo authCode
                        | None \<Rightarrow> denied_outcome None OauthCodeMissing guildId None []))
              | _ \<Rightarrow> denied_outcome None OauthStateInvalid guildId None [])
      | _ \<Rightarrow> denied_outcome None ConfigurationError None None [])"

section \<open>Logging out\<close>

datatype logout_response =
    OriginMismatch
  | LoggedOut  \<comment> \<open>the session cookie is cleared\<close>

definition logout_route ::
  "session_rpc \<Rightarrow> (string \<Rightarrow> string) \<Rightarrow> string \<Rightarrow> string \<Rightarrow> reader \<Rightarrow> reader \<Rightarrow>
   logout_response \<times> jsval option option" where
  \<comment> \<open>the answer, and the revocation that was asked for, if any; its failure is ignored\<close>
  "logout_route rpc hash requestId own_origin header cookie =
     (case nonempty (header ''origin'') of
        Some origin \<Rightarrow>
          if origin \<noteq> own_origin then (OriginMismatch, None)
          else (LoggedOut, map_option (revokeDiscordConsoleSession rpc hash requestId)
                             (nonempty (cookie DISCORD_SESSION_COOKIE)))
      | None \<Rightarrow>
          (LoggedOut, map_option (revokeDiscordConsoleSession rpc hash requestId)
                        (nonempty (cookie DISCORD_SESSION_COOKIE))))"

section \<open>What a sign-in does\<close>

lemma denied_fields [simp]:
  "lo_session (denied_outcome u r g p rv) = None" "lo_redirect (denied_outcome u r g p rv) = LoginError r"
  "lo_revoked (denied_outcome u r g p rv) = rv"
  "lo_denied (denied_outcome u r g p rv) = [recordDiscordLoginDenied u r g p]"
  by (simp_all add: denied_outcome_def)

definition outcome_consistent :: "login_outcome \<Rightarrow> bool" where
  "outcome_consistent out \<longleftrightarrow>
     (case lo_redirect out of
        LoggedIn path \<Rightarrow> lo_session out \<noteq> None \<and> lo_denied out = [] \<and> length (lo_revoked out) = 1
      | LoginError reason \<Rightarrow> lo_session out = None \<and> map dl_reason (lo_denied out) = [reason])"

lemma denied_consistent: "outcome_consistent (denied_outcome u r g p rv)"
  by (simp add: outcome_consistent_def denied_outcome_def recordDiscordLoginDenied_def)

lemma authenticate_cases:
  obtains reason user revoked where
      "authenticate services token requestId configuration returnTo authCode =
         denied_outcome user reason (Some (dc_guildId configuration)) None revoked"
      "reason \<noteq> OauthStateInvalid"
  | accessToken identity session where
      "exchangeDiscordAuthorizationCode (as_token_endpoint services) authCode configuration = Inr accessToken"
      "fetchDiscordIdentity (as_discord_get services) accessToken configuration = Inr identity"
      "open_session services token requestId configuration identity = Inr session"
      "authenticate services token requestId configuration returnTo authCode =
         \<lparr> lo_redirect = LoggedIn returnTo, lo_session = Some session, lo_denied = [], lo_revoked = [accessToken] \<rparr>"
proof -
  have exchange: "r = OauthExchangeFailed"
    if "exchangeDiscordAuthorizationCode (as_token_endpoint services) authCode configuration = Inl r" for r
    using that by (auto simp: exchangeDiscordAuthorizationCode_def split: option.splits)
  have fetch: "r \<noteq> OauthStateInvalid"
    if "fetchDiscordIdentity (as_discord_get services) t configuration = Inl r" for r t
    using that by (auto simp: fetchDiscordIdentity_def split: option.splits prod.splits if_split_asm)
  have create: "r \<noteq> OauthStateInvalid"
    if "createDiscordConsoleSession (as_rpc services) (as_hash services) token requestId i res configuration = Inl r" for r i res
    using that by (auto simp: createDiscordConsoleSession_def split: option.splits jsval.splits list.splits)
  have opened: "r \<noteq> OauthStateInvalid"
    if "open_session services token requestId configuration i = Inl r" for r i
    using that create
    by (auto simp: open_session_def split: option.splits sum.splits prod.splits if_split_asm)
  show thesis
  proof (cases "exchangeDiscordAuthorizationCode (as_token_endpoint services) authCode configuration")
    case (Inl r)
    then show thesis using exchange that(1) by (fastforce simp: authenticate_def)
  next
    case (Inr accessToken)
    show thesis
    proof (cases "fetchDiscordIdentity (as_discord_get services) accessToken configuration")
      case (Inl r)
      with Inr \<open>exchangeDiscordAuthorizationCode _ _ _ = _\<close> fetch that(1) show thesis
        by (fastforce simp: authenticate_def)
    next
      case identity: (Inr identity)
      show thesis
      proof (cases "open_session services token requestId configuration identity")
        case (Inl r)
        with Inr identity opened that(1) show thesis by (fastforce simp: authenticate_def)
      next
        case (Inr session)
        with identity \<open>exchangeDiscordAuthorizationCode _ _ _ = _\<close> that(2) show thesis
          by (simp add: authenticate_def)
      qed
    qed
  qed
qed

lemma authenticate_consistent: "outcome_consistent (authenticate services token requestId c path authCode)"
  by (rule authenticate_cases [of services token requestId c path authCode])
    (simp_all add: denied_consistent, simp add: outcome_consistent_def)

text \<open>C27.
  A sign-in either completes or is recorded: each callback sets the session cookie, records no denial
  and hands exactly one access token back, or it sets no cookie and records exactly one denial, with
  the reason the user is shown. Whatever happens after the code exchange, the access token that
  Discord issued is revoked.
\<close>

theorem callback_completes_or_records:
  "outcome_consistent (callback_route e services token requestId now query cookie) \<and>
   lo_revoked (authenticate services token requestId configuration returnTo authCode) =
     (case exchangeDiscordAuthorizationCode (as_token_endpoint services) authCode configuration of
        Inl _ \<Rightarrow> [] | Inr accessToken \<Rightarrow> [accessToken])"
proof
  show "outcome_consistent (callback_route e services token requestId now query cookie)"
    by (auto simp: callback_route_def Let_def denied_consistent authenticate_consistent split: option.split)
  show "lo_revoked (authenticate services token requestId configuration returnTo authCode) =
     (case exchangeDiscordAuthorizationCode (as_token_endpoint services) authCode configuration of
        Inl _ \<Rightarrow> [] | Inr accessToken \<Rightarrow> [accessToken])"
    by (simp add: authenticate_def split: sum.split)
qed

text \<open>C2.
  A console session is only opened at the end of the whole chain: the state and its cookie verify,
  Discord reports no error, the code is exchanged, the member is identified in the guild and past its
  screening, and one of the configured roles applies; the session is stored under exactly that
  resolution, the cookie is the stored session's token with its expiry, and the redirect goes to the
  path the verified state carries.
\<close>

theorem session_needs_whole_chain:
  assumes "lo_session (callback_route e services token requestId now query cookie) = Some (sessionToken, expiry)"
  shows "\<exists>configuration name path authCode accessToken identity resolution expiresAt.
    configuration_of e = Some (Some configuration) \<and>
    getDiscordOAuthSlotCookieName (ae_crypto e) (query ''state'') = Some name \<and>
    verifyDiscordOAuthAttempt (ae_authority e) (ae_crypto e) (query ''state'') (nonempty (cookie name))
      (dc_clientSecret configuration) now = Some path \<and>
    nonempty (query ''error'') = None \<and> query ''code'' = Some authCode \<and>
    exchangeDiscordAuthorizationCode (as_token_endpoint services) authCode configuration = Inr accessToken \<and>
    fetchDiscordIdentity (as_discord_get services) accessToken configuration = Inr identity \<and>
    \<not> id_pending identity \<and>
    resolveDiscordConsoleRole (id_roleIds identity) (dc_roleMap configuration) = Some resolution \<and>
    createDiscordConsoleSession (as_rpc services) (as_hash services) token requestId identity resolution
      configuration = Inr (sessionToken, expiresAt) \<and>
    Date_parse expiresAt = Some expiry \<and>
    lo_redirect (callback_route e services token requestId now query cookie) = LoggedIn path"
proof -
  let ?out = "callback_route e services token requestId now query cookie"
  from assms obtain configuration name path authCode where
      conf: "configuration_of e = Some (Some configuration)"
    and name: "getDiscordOAuthSlotCookieName (ae_crypto e) (query ''state'') = Some name"
    and path: "verifyDiscordOAuthAttempt (ae_authority e) (ae_crypto e) (query ''state'') (nonempty (cookie name))
      (dc_clientSecret configuration) now = Some path"
    and err: "sanitizeDiscordOAuthProviderError (query ''error'') = None"
    and code: "nonempty (query ''code'') = Some authCode"
    and out: "?out = authenticate services token requestId configuration path authCode"
    by (auto simp: callback_route_def Let_def split: option.splits if_split_asm)
  from err have err': "nonempty (query ''error'') = None"
    by (auto simp: sanitizeDiscordOAuthProviderError_def Let_def split: option.splits)
  from assms out obtain accessToken identity where
      chain: "exchangeDiscordAuthorizationCode (as_token_endpoint services) authCode configuration = Inr accessToken"
        "fetchDiscordIdentity (as_discord_get services) accessToken configuration = Inr identity"
        "open_session services token requestId configuration identity = Inr (sessionToken, expiry)"
        "lo_redirect ?out = LoggedIn path"
    using authenticate_cases [of services token requestId configuration path authCode]
    by (metis denied_fields(1) login_outcome.select_convs(1,2) option.distinct(1) option.inject)
  from chain(3) obtain resolution expiresAt where
      "\<not> id_pending identity"
      "resolveDiscordConsoleRole (id_roleIds identity) (dc_roleMap configuration) = Some resolution"
      "createDiscordConsoleSession (as_rpc services) (as_hash services) token requestId identity resolution
        configuration = Inr (sessionToken, expiresAt)"
      "Date_parse expiresAt = Some expiry"
    by (auto simp: open_session_def split: option.splits sum.splits prod.splits if_split_asm)
  with conf name path err' nonempty_SomeD [OF code] chain show ?thesis by blast
qed

text \<open>C26.
  The two halves of the sign-in fit together: whatever the start route hands to the browser, a
  callback that brings its state back with its cookie, from thirty seconds before the start to ten
  minutes after it, is never refused for its state; if the sign-in completes, it ends at one path that
  was fixed at the start and lies inside the origin.
\<close>

theorem started_sign_in_can_finish:
  assumes "authority_normal (ae_authority e)" "length nonce = 24"
    and "\<forall>p s. length (oc_signPayload (ae_crypto e) p s) = 32" "\<forall>s. length (oc_sha256 (ae_crypto e) s) = 32"
    and "start_route e nonce issued query = ToDiscord url name cookieValue"
  shows "\<exists>configuration state path. url = createDiscordAuthorizationUrl configuration state \<and> local_path path \<and>
    (\<forall>services token requestId now query' cookie.
       query' ''state'' = Some state \<and> cookie name = Some cookieValue \<and>
       issued div 1000 \<le> now div 1000 + 30 \<and> now div 1000 \<le> issued div 1000 + 600 \<longrightarrow>
       lo_redirect (callback_route e services token requestId now query' cookie) \<noteq> LoginError OauthStateInvalid \<and>
       (\<forall>p. lo_redirect (callback_route e services token requestId now query' cookie) = LoggedIn p \<longrightarrow> p = path))"
proof -
  from assms(5) obtain configuration attempt where conf: "configuration_of e = Some (Some configuration)"
    and attempt: "createDiscordOAuthAttempt (ae_authority e) (ae_crypto e) nonce
        (sanitizeReturnPath (ae_authority e) (query ''returnTo'')) (dc_clientSecret configuration) issued = Some attempt"
    and shown: "url = createDiscordAuthorizationUrl configuration (oa_state attempt)"
        "name = oa_cookieName attempt" "cookieValue = oa_cookieValue attempt"
    by (auto simp: start_route_def Let_def split: option.splits)
  let ?path = "safeReturnPath (ae_authority e) (oa_returnTo attempt)"
  have "length (oa_cookieValue attempt) = 43"
    by (rule create_cases [OF attempt]) (simp add: base64url_length assms(4))
  then have filled: "nonempty (Some (oa_cookieValue attempt)) = Some (oa_cookieValue attempt)"
    by (auto simp: nonempty_def)
  have origin: "oa_returnTo attempt = safeReturnPath (ae_authority e)
      (sanitizeReturnPath (ae_authority e) (query ''returnTo''))"
    by (rule create_cases [OF attempt])
  have finishes: "lo_redirect (callback_route e services token requestId now query' cookie) \<noteq> LoginError OauthStateInvalid \<and>
       (\<forall>p. lo_redirect (callback_route e services token requestId now query' cookie) = LoggedIn p \<longrightarrow> p = ?path)"
    if "query' ''state'' = Some (oa_state attempt)" "cookie name = Some cookieValue"
       "issued div 1000 \<le> now div 1000 + 30" "now div 1000 \<le> issued div 1000 + 600"
    for services token requestId now query' cookie
  proof -
    note verified = created_state_verifies [OF assms(1-4) attempt that(3,4)]
    have "lo_redirect (authenticate services token requestId configuration ?path authCode) \<noteq> LoginError OauthStateInvalid \<and>
        (\<forall>p. lo_redirect (authenticate services token requestId configuration ?path authCode) = LoggedIn p \<longrightarrow> p = ?path)"
      for authCode
      by (rule authenticate_cases [of services token requestId configuration ?path authCode]) simp_all
    then show ?thesis
      using verified(1,2) that(1,2) filled
      by (simp add: callback_route_def conf shown Let_def split: option.split)
  qed
  have "local_path ?path" unfolding origin by (rule safeReturnPath_cases(4) [OF assms(1)])
  with finishes shown(1) show ?thesis by blast
qed

definition sample_id :: string where
  "sample_id = ''12345678901234567''"

definition sample_auth :: auth_environment where
  \<comment> \<open>enforced sign-in with one viewer role\<close>
  "sample_auth = \<lparr> ae_env = map_of
       [(''IVRM_DISCORD_AUTH_MODE'', ''enforce''), (''DISCORD_CLIENT_ID'', sample_id),
        (''DISCORD_CLIENT_SECRET'', ''key''), (''DISCORD_GUILD_ID'', sample_id),
        (''DISCORD_REDIRECT_URI'', ''u''), (''IVRM_DISCORD_ROLE_MAP_JSON'', ''j'')],
     ae_parse_redirect = (\<lambda>s. Some \<lparr> ru_protocol = ''https:'', ru_hostname = ''h'', ru_username = [],
        ru_password = [], ru_hash = [], ru_text = s \<rparr>),
     ae_parse_json = (\<lambda>_. Some (Obj [(''viewer'', Arr [Str sample_id])])),
     ae_authority = (\<lambda>_. None), ae_crypto = sample_crypto \<rparr>"

lemma sample_auth_configured:
  "\<exists>c. configuration_of sample_auth = Some (Some c) \<and> dc_clientSecret c = ''key'' \<and> dc_guildId c = sample_id \<and>
     dc_roleMap c Viewer = [sample_id] \<and> dc_roleMap c Operator = [] \<and> dc_roleMap c Administrator = [] \<and>
     dc_roleMap c Owner = []"
  by (simp add: configuration_of_def sample_auth_def sample_id_def getDiscordAuthConfiguration_def getDiscordAuthMode_def
      requireEnvironment_def parseSnowflake_def parseRedirectUri_def parseRoleMap_def parseSessionTtl_def
      DISCORD_ROLE_ORDER_def role_text_def isConsoleRole_def js_eval)

lemma sample_attempt_created:
  "\<exists>attempt. createDiscordOAuthAttempt (\<lambda>_. None) sample_crypto (replicate 24 9) path ''key'' 5000 = Some attempt"
  by (simp add: createDiscordOAuthAttempt_def Let_def)

lemma sample_start:
  "\<exists>url name value. start_route sample_auth (replicate 24 9) 5000 (\<lambda>_. None) = ToDiscord url name value"
proof -
  obtain c where c: "configuration_of sample_auth = Some (Some c)" "dc_clientSecret c = ''key''"
    using sample_auth_configured by blast
  obtain attempt where "createDiscordOAuthAttempt (ae_authority sample_auth) (ae_crypto sample_auth) (replicate 24 9)
      (sanitizeReturnPath (ae_authority sample_auth) None) ''key'' 5000 = Some attempt"
    using sample_attempt_created by (auto simp: sample_auth_def)
  with c show ?thesis by (simp add: start_route_def Let_def)
qed

lemma sample_crypto_widths:
  "authority_normal (ae_authority sample_auth)"
  "\<forall>p s. length (oc_signPayload (ae_crypto sample_auth) p s) = 32"
  "\<forall>s. length (oc_sha256 (ae_crypto sample_auth) s) = 32"
  by (simp_all add: authority_normal_def sample_auth_def sample_crypto_def)

lemma started_sign_in_can_finish_witness:
  "\<exists>url name value configuration state path.
     start_route sample_auth (replicate 24 9) 5000 (\<lambda>_. None) = ToDiscord url name value \<and>
     url = createDiscordAuthorizationUrl configuration state \<and> local_path path"
proof -
  obtain url name v where s: "start_route sample_auth (replicate 24 9) 5000 (\<lambda>_. None) = ToDiscord url name v"
    using sample_start by blast
  from started_sign_in_can_finish [OF sample_crypto_widths(1) _ sample_crypto_widths(2,3) s] obtain configuration state path
    where "url = createDiscordAuthorizationUrl configuration state" "local_path path" by auto
  with s show ?thesis by blast
qed

definition sample_services :: auth_services where
  "sample_services = \<lparr>
     as_token_endpoint = (\<lambda>_ _. Some (Obj [(''access_token'', Str (replicate 20 CHR ''a'')), (''token_type'', Str ''Bearer'')])),
     as_discord_get = (\<lambda>path _. if path = ''/users/@me''
       then Some (200, Obj [(''id'', Str sample_id), (''username'', Str ''u''), (''global_name'', Null), (''avatar'', Null)])
       else Some (200, Obj [(''roles'', Arr [Str sample_id]), (''pending'', Bool False)])),
     as_rpc = (\<lambda>_ _. Some (Arr [Obj [(''expires_at'', Str ''2026-01-01T00:00:00Z'')]])),
     as_hash = id \<rparr>"

lemma sample_identity:
  "\<exists>identity. fetchDiscordIdentity (as_discord_get sample_services) t c = Inr identity \<and> \<not> id_pending identity \<and>
     id_roleIds identity = [sample_id]"
  by (simp add: fetchDiscordIdentity_def sample_services_def sample_id_def parseDiscordIdentity_def parseDiscordMember_def
      parseSnowflake_def nullable_string_def js_eval)

lemma sample_exchange:
  "exchangeDiscordAuthorizationCode (as_token_endpoint sample_services) k c = Inr (replicate 20 CHR ''a'')"
  by (simp add: exchangeDiscordAuthorizationCode_def sample_services_def parseDiscordTokenResponse_def prop_or_def
     to_lower_def lower_char_def code_def char_of_def bit_0)

lemma sample_session:
  assumes "dc_roleMap c Viewer = [sample_id]" "dc_roleMap c Operator = []" "dc_roleMap c Administrator = []"
    "dc_roleMap c Owner = []" "\<not> id_pending identity" "id_roleIds identity = [sample_id]"
  shows "\<exists>t. open_session sample_services tok r c identity = Inr (tok, t)"
proof -
  have "\<exists>t. Date_parse ''2026-01-01T00:00:00Z'' = Some t" by (simp add: sample_instants)
  then show ?thesis using assms
    by (auto simp: open_session_def resolveDiscordConsoleRole_def DISCORD_ROLE_ORDER_def createDiscordConsoleSession_def
        sample_services_def prop_or_def)
qed

lemma session_needs_whole_chain_witness:
  "\<exists>attempt configuration path resolution. \<exists>identity :: discord_identity.
     createDiscordOAuthAttempt (ae_authority sample_auth) (ae_crypto sample_auth) (replicate 24 9) ''/servers'' ''key'' 5000 = Some attempt \<and>
     configuration_of sample_auth = Some (Some configuration) \<and>
     lo_redirect (callback_route sample_auth sample_services ''tok'' ''r'' 6000
       (map_of [(''state'', oa_state attempt), (''code'', ''c'')])
       (map_of [(oa_cookieName attempt, oa_cookieValue attempt)])) = LoggedIn path \<and>
     resolveDiscordConsoleRole (id_roleIds identity) (dc_roleMap configuration) = Some resolution"
proof -
  obtain c where c: "configuration_of sample_auth = Some (Some c)" "dc_clientSecret c = ''key''"
      "dc_roleMap c Viewer = [sample_id]" "dc_roleMap c Operator = []" "dc_roleMap c Administrator = []"
      "dc_roleMap c Owner = []"
    using sample_auth_configured by blast
  obtain attempt where a: "createDiscordOAuthAttempt (ae_authority sample_auth) (ae_crypto sample_auth)
      (replicate 24 9) ''/servers'' ''key'' 5000 = Some attempt"
    using sample_attempt_created by (auto simp: sample_auth_def)
  let ?query = "map_of [(''state'', oa_state attempt), (''code'', ''c'')]"
  let ?cookie = "map_of [(oa_cookieName attempt, oa_cookieValue attempt)]"
  have "length (oa_cookieValue attempt) = 43"
    by (rule create_cases [OF a]) (simp add: base64url_length sample_crypto_widths)
  then have filled: "nonempty (Some (oa_cookieValue attempt)) = Some (oa_cookieValue attempt)"
    by (auto simp: nonempty_def)
  note verified = created_state_verifies [OF sample_crypto_widths(1) _ sample_crypto_widths(2,3) a, of 6000]
  obtain identity where i: "fetchDiscordIdentity (as_discord_get sample_services) (replicate 20 CHR ''a'') c = Inr identity"
      "\<not> id_pending identity" "id_roleIds identity = [sample_id]"
    using sample_identity by blast
  obtain t where t: "open_session sample_services ''tok'' ''r'' c identity = Inr (''tok'', t)"
    using sample_session [OF c(3-6) i(2,3)] by blast
  have out: "lo_session (callback_route sample_auth sample_services ''tok'' ''r'' 6000 ?query ?cookie) = Some (''tok'', t)"
    using verified c(2) filled
    by (simp add: callback_route_def c(1) Let_def sanitizeDiscordOAuthProviderError_def nonempty_def
        authenticate_def sample_exchange i(1) t)
  from session_needs_whole_chain [OF out] obtain configuration path and identity' :: discord_identity and resolution where
      "configuration_of sample_auth = Some (Some configuration)"
      "resolveDiscordConsoleRole (id_roleIds identity') (dc_roleMap configuration) = Some resolution"
      "lo_redirect (callback_route sample_auth sample_services ''tok'' ''r'' 6000 ?query ?cookie) = LoggedIn path"
    by (elim exE conjE) (rule that; assumption)
  with a show ?thesis by blast
qed

end
