(* ===== verification/Operations.thy ===== *)
theory Operations
  imports AuthRoutes
begin

text \<open>
  Remote operations of the game server, as the console sees them: the catalogue of operations
  (\<open>apps/web/lib/operation-catalog.ts\<close>), the queries of the job queue
  (\<open>apps/web/lib/mc-main-operations.ts\<close>) and the request route
  (\<open>apps/web/app/api/operations/jobs\<close>). The labels of the catalogue are left out. The RPCs of the
  database, URL parsing, JSON decoding and the digest are parameters; an exception is \<open>None\<close>.
\<close>

section \<open>The catalogue\<close>

datatype operation_type =
    SaveWorld | RestartBackend | RestartProxy | StartBackend | StopBackend | MaintenanceStart
  | MaintenanceEnd | CreateBackup | VerifyBackup

datatype operation_risk = LowRisk | MediumRisk | HighRisk | CriticalRisk

datatype lock_category = LockWorld | LockExclusive | LockMaintenance

record operation_definition =
  od_type :: operation_type
  od_requiredRole :: console_role
  od_risk :: operation_risk
  od_requiresConfirmation :: bool
  od_confirmationPhrase :: "string option"
  od_lockCategory :: lock_category

record operation_capability =
  oc_type :: operation_type
  oc_requiredRole :: console_role
  oc_risk :: operation_risk
  oc_requiresConfirmation :: bool
  oc_lockCategory :: lock_category
  oc_allowed :: bool

definition operation_text :: "operation_type \<Rightarrow> string" where
  "operation_text t = (case t of
     SaveWorld \<Rightarrow> ''save_world'' | RestartBackend \<Rightarrow> ''restart_backend'' | RestartProxy \<Rightarrow> ''restart_proxy''
   | StartBackend \<Rightarrow> ''start_backend'' | StopBackend \<Rightarrow> ''stop_backend''
   | MaintenanceStart \<Rightarrow> ''maintenance_start'' | MaintenanceEnd \<Rightarrow> ''maintenance_end''
   | CreateBackup \<Rightarrow> ''create_backup'' | VerifyBackup \<Rightarrow> ''verify_backup'')"

definition define_operation ::
  "operation_type \<Rightarrow> console_role \<Rightarrow> operation_risk \<Rightarrow> string option \<Rightarrow> lock_category \<Rightarrow> operation_definition" where
  \<comment> \<open>in the catalogue, confirmation is required exactly where there is a phrase\<close>
  "define_operation t role risk phrase lock =
     \<lparr> od_type = t, od_requiredRole = role, od_risk = risk, od_requiresConfirmation = (phrase \<noteq> None),
       od_confirmationPhrase = phrase, od_lockCategory = lock \<rparr>"

definition OPERATION_DEFINITIONS :: "operation_definition list" where
  "OPERATION_DEFINITIONS =
     [define_operation SaveWorld Operator LowRisk None LockWorld,
      define_operation RestartBackend Operator HighRisk (Some ''RESTART'') LockExclusive,
      define_operation RestartProxy Administrator CriticalRisk (Some ''RESTART PROXY'') LockExclusive,
      define_operation StartBackend Operator MediumRisk None LockExclusive,
      define_operation StopBackend Administrator CriticalRisk (Some ''STOP'') LockExclusive,
      define_operation MaintenanceStart Operator MediumRisk None LockMaintenance,
      define_operation MaintenanceEnd Operator MediumRisk None LockMaintenance,
      define_operation CreateBackup Operator MediumRisk None LockExclusive,
      define_operation VerifyBackup Operator LowRisk None LockExclusive]"

definition isOperationType :: "jsval \<Rightarrow> operation_type option" where
  "isOperationType v = (case as_string v of None \<Rightarrow> None
     | Some s \<Rightarrow> map_of (map (\<lambda>d. (operation_text (od_type d), od_type d)) OPERATION_DEFINITIONS) s)"

definition getOperationDefinition :: "operation_type \<Rightarrow> operation_definition option" where
  "getOperationDefinition t = find (\<lambda>d. od_type d = t) OPERATION_DEFINITIONS"

definition getOperationCapabilities :: "console_session \<Rightarrow> operation_capability list" where
  "getOperationCapabilities session =
     map (\<lambda>d. \<lparr> oc_type = od_type d, oc_requiredRole = od_requiredRole d, oc_risk = od_risk d,
        oc_requiresConfirmation = od_requiresConfirmation d, oc_lockCategory = od_lockCategory d,
        oc_allowed = canPerformConsoleAction session (od_requiredRole d) \<rparr>) OPERATION_DEFINITIONS"

definition validateOperationPayload :: "jsval \<Rightarrow> bool" where
  "validateOperationPayload v \<longleftrightarrow> is_record v \<and> obj_keys v = []"

definition validateOperationConfirmation :: "operation_type \<Rightarrow> jsval \<Rightarrow> bool" where
  \<comment> \<open>the definition of a listed type exists; for another the code throws\<close>
  "validateOperationConfirmation t confirmation =
     (case getOperationDefinition t of
        None \<Rightarrow> False
      | Some d \<Rightarrow>
          if \<not> od_requiresConfirmation d
          then confirmation = Undefined \<or> confirmation = Null \<or> confirmation = Str []
          else (case od_confirmationPhrase d of None \<Rightarrow> False | Some phrase \<Rightarrow> confirmation = Str phrase))"

definition validateIdempotencyKey :: "string option \<Rightarrow> string option" where
  "validateIdempotencyKey value =
     (case value of
        None \<Rightarrow> None
      | Some s \<Rightarrow> if length s < 16 \<or> length s > 128 \<or> \<not> chars_between label_char 1 (length s) s
          then None else Some s)"

section \<open>Jobs\<close>

datatype job_status = Queued | Leased | Running | Succeeded | Failed | Cancelled | Expired

definition parse_job_status :: "string \<Rightarrow> job_status option" where
  "parse_job_status = map_of
     [(''queued'', Queued), (''leased'', Leased), (''running'', Running), (''succeeded'', Succeeded),
      (''failed'', Failed), (''cancelled'', Cancelled), (''expired'', Expired)]"

definition isStatus :: "jsval \<Rightarrow> job_status option" where
  "isStatus v = Option.bind (as_string v) parse_job_status"

definition MC_MAIN_OPERATION_SERVER_ID :: string where
  "MC_MAIN_OPERATION_SERVER_ID = ''oci-minecraft-01''"

definition MC_MAIN_OPERATION_TARGET :: string where
  "MC_MAIN_OPERATION_TARGET = ''mc-main''"

definition MC_MAIN_OPERATION_ACTIONS :: "operation_type list" where
  "MC_MAIN_OPERATION_ACTIONS = [StartBackend, RestartBackend, StopBackend]"

definition isAction :: "jsval \<Rightarrow> operation_type option" where
  "isAction v = (case as_string v of None \<Rightarrow> None
     | Some s \<Rightarrow> map_of (map (\<lambda>t. (operation_text t, t)) MC_MAIN_OPERATION_ACTIONS) s)"

record job_view =
  jv_id :: string
  jv_action :: operation_type
  jv_status :: job_status
  jv_confirmationVerified :: bool
  jv_phase :: "string option"
  jv_errorCode :: "string option"
  jv_createdAt :: string
  jv_startedAt :: "string option"
  jv_finishedAt :: "string option"

record enqueue_request =
  eq_discordSessionId :: string
  eq_action :: operation_type
  eq_idempotencyKeyHash :: string
  eq_confirmation :: "string option"
  eq_requestId :: string

record enqueue_result =
  er_jobId :: "string option"
  er_jobStatus :: "job_status option"
  er_outcome :: jsval
  er_errorCode :: "string option"

record claimed_job =
  cj_jobId :: string
  cj_action :: operation_type
  cj_status :: job_status
  cj_leaseExpiresAt :: string

definition firstRow :: "jsval \<Rightarrow> jsval option" where
  "firstRow v = (case v of Arr [row] \<Rightarrow> if is_record row then Some row else None | _ \<Rightarrow> None)"

definition or_null :: "string option \<Rightarrow> jsval" where
  "or_null v = (case v of None \<Rightarrow> Null | Some s \<Rightarrow> Str s)"

fun outcome_text :: "jsval \<Rightarrow> string option" where
  \<comment> \<open>\<open>String(v)\<close>, as far as it can be one of the words it is compared with: a list of one value prints as that value\<close>
  "outcome_text (Str s) = Some s"
| "outcome_text (Arr [v]) = outcome_text v"
| "outcome_text _ = None"

definition enqueueDiscordOperationJob :: "session_rpc \<Rightarrow> enqueue_request \<Rightarrow> enqueue_result option" where
  "enqueueDiscordOperationJob rpc input = do {
     response \<leftarrow> rpc ''enqueue_discord_operation_job''
       [(''p_discord_session_id'', Str (eq_discordSessionId input)),
        (''p_server_id'', Str MC_MAIN_OPERATION_SERVER_ID),
        (''p_operation_type'', Str (operation_text (eq_action input))), (''p_payload'', Obj []),
        (''p_idempotency_key_hash'', Str (eq_idempotencyKeyHash input)),
        (''p_confirmation_text'', or_null (eq_confirmation input)),
        (''p_request_id'', Str (eq_requestId input))];
     row \<leftarrow> firstRow response;
     text \<leftarrow> outcome_text (get_prop row ''outcome'');
     jobId \<leftarrow> nullable as_string (get_prop row ''job_id'');
     jobStatus \<leftarrow> nullable isStatus (get_prop row ''job_status'');
     errorCode \<leftarrow> nullable as_string (get_prop row ''error_code'');
     if text \<notin> {''created'', ''existing'', ''conflict'', ''denied''} then None
     else Some \<lparr> er_jobId = jobId, er_jobStatus = jobStatus, er_outcome = get_prop row ''outcome'',
       er_errorCode = errorCode \<rparr>
   }"

definition SAFE_PHASES :: "string list" where
  "SAFE_PHASES = [''claimed'', ''executing'', ''health_gate_passed'', ''stopped'', ''execution_failed'']"

definition parse_job_row :: "jsval \<Rightarrow> job_view option" where
  "parse_job_row value =
     (if \<not> is_record value then None
      else do {
        jid \<leftarrow> as_string (get_prop value ''id'');
        action \<leftarrow> isAction (get_prop value ''operation_type'');
        status \<leftarrow> isStatus (get_prop value ''status'');
        verified \<leftarrow> as_bool (get_prop value ''confirmation_verified'');
        errorCode \<leftarrow> nullable as_string (get_prop value ''error_code'');
        createdAt \<leftarrow> as_string (get_prop value ''created_at'');
        startedAt \<leftarrow> nullable as_string (get_prop value ''started_at'');
        finishedAt \<leftarrow> nullable as_string (get_prop value ''finished_at'');
        let summary = get_prop value ''result_summary'';
            phase = (if is_record summary then as_string (get_prop summary ''phase'') else None)
        in Some \<lparr> jv_id = jid, jv_action = action, jv_status = status, jv_confirmationVerified = verified,
             jv_phase = (case phase of Some p \<Rightarrow> if p \<in> set SAFE_PHASES then Some p else None | None \<Rightarrow> None),
             jv_errorCode = errorCode, jv_createdAt = createdAt, jv_startedAt = startedAt,
             jv_finishedAt = finishedAt \<rparr>
      })"

definition listDiscordOperationJobs ::
  "jsval option \<Rightarrow> (string \<Rightarrow> string \<Rightarrow> jsval option) \<Rightarrow> string \<Rightarrow> job_view list option" where
  \<comment> \<open>the answer of the host query, and the job query by host and user\<close>
  "listDiscordOperationJobs hosts query discordUserId =
     (if \<not> SNOWFLAKE_PATTERN discordUserId then Some []
      else (case hosts of
              None \<Rightarrow> None
            | Some hs \<Rightarrow>
                (case Option.bind (firstRow hs) (\<lambda>h. as_string (get_prop h ''id'')) of
                   None \<Rightarrow> Some []
                 | Some hostId \<Rightarrow>
                     Option.bind (query hostId discordUserId)
                       (\<lambda>body. Option.bind (as_array body) (map_rows parse_job_row)))))"

definition acceptOperationAgentRequest :: "session_rpc \<Rightarrow> string \<Rightarrow> string \<Rightarrow> string \<Rightarrow> string \<Rightarrow> bool option" where
  "acceptOperationAgentRequest rpc serverId kind nonce bodySha256 =
     Option.bind (rpc ''accept_operation_agent_request''
       [(''p_server_id'', Str serverId), (''p_request_kind'', Str kind), (''p_nonce'', Str nonce),
        (''p_body_sha256'', Str bodySha256)]) as_bool"

definition claimMcMainOperationJob ::
  "session_rpc \<Rightarrow> string \<Rightarrow> string \<Rightarrow> string \<Rightarrow> claimed_job option option" where
  \<comment> \<open>the outer \<open>None\<close> is an exception, the inner one an empty queue\<close>
  "claimMcMainOperationJob rpc serverId leaseOwner requestId =
     (case rpc ''claim_mc_main_operation_job''
        [(''p_server_id'', Str serverId), (''p_lease_owner'', Str leaseOwner),
         (''p_request_id'', Str requestId), (''p_lease_seconds'', jint 300)] of
        Some (Arr []) \<Rightarrow> Some None
      | Some (Arr [row]) \<Rightarrow>
          (if \<not> is_record row then None
           else do {
             jobId \<leftarrow> as_string (get_prop row ''job_id'');
             action \<leftarrow> isAction (get_prop row ''operation_type'');
             status \<leftarrow> isStatus (get_prop row ''job_status'');
             expiresAt \<leftarrow> as_string (get_prop row ''lease_expires_at'');
             if status \<noteq> Leased \<and> status \<noteq> Running then None
             else Some (Some \<lparr> cj_jobId = jobId, cj_action = action, cj_status = status,
               cj_leaseExpiresAt = expiresAt \<rparr>)
           })
      | _ \<Rightarrow> None)"

record operation_transition =
  ot_jobId :: string
  ot_action :: operation_type
  ot_expectedStatus :: string
  ot_newStatus :: string
  ot_leaseOwner :: string
  ot_requestId :: string
  ot_details :: jsval

definition transitionMcMainOperationJob :: "session_rpc \<Rightarrow> operation_transition \<Rightarrow> unit option" where
  "transitionMcMainOperationJob rpc input =
     (case Option.bind (rpc ''transition_mc_main_operation_job''
        [(''p_server_id'', Str MC_MAIN_OPERATION_SERVER_ID), (''p_job_id'', Str (ot_jobId input)),
         (''p_operation_type'', Str (operation_text (ot_action input))),
         (''p_expected_status'', Str (ot_expectedStatus input)),
         (''p_new_status'', Str (ot_newStatus input)), (''p_lease_owner'', Str (ot_leaseOwner input)),
         (''p_request_id'', Str (ot_requestId input)), (''p_details'', ot_details input)]) firstRow of
        None \<Rightarrow> None
      | Some row \<Rightarrow>
          if get_prop row ''job_id'' \<noteq> Str (ot_jobId input) \<or>
             get_prop row ''job_status'' \<noteq> Str (ot_newStatus input)
          then None else Some ())"

end
