(* ===== verification/AgentAuth.thy ===== *)
theory AgentAuth
  imports DiscordOAuthCookies
begin

text \<open>
  What the agents' routes share: reading a bounded body from a stream of chunks
  (\<open>readOperationAgentBody\<close> of \<open>apps/web/lib/operation-agent-auth.ts\<close>), the secrets of the agents, and
  the signature of a request (\<open>apps/web/lib/operation-agent-auth-core.ts\<close>). The keyed MAC, the
  digest and JSON decoding are parameters; a thrown error is its status and code.
\<close>

type_synonym agent_error = "nat \<times> string"

type_synonym header_reader = "string \<Rightarrow> string option"

section \<open>Bounded bodies\<close>

fun read_chunks :: "nat \<Rightarrow> nat \<Rightarrow> byte list list \<Rightarrow> byte list list option" where
  \<comment> \<open>the chunks read so far are kept; \<open>None\<close> as soon as the total passes the limit\<close>
  "read_chunks limit sofar [] = Some []"
| "read_chunks limit sofar (chunk # chunks) =
     (if sofar + length chunk > limit then None
      else map_option ((#) chunk) (read_chunks limit (sofar + length chunk) chunks))"

definition declared_length :: "header_reader \<Rightarrow> rat option" where
  \<comment> \<open>\<open>Number(headers.get("content-length") ?? "0")\<close> where it is finite\<close>
  "declared_length header =
     as_finite (Num (to_number (Str (case header ''content-length'' of None \<Rightarrow> ''0'' | Some s \<Rightarrow> s))))"

definition json_content :: "header_reader \<Rightarrow> bool" where
  "json_content header \<longleftrightarrow>
     starts_with ''application/json'' (case header ''content-type'' of None \<Rightarrow> [] | Some s \<Rightarrow> to_lower s)"

definition declared_too_large :: "nat \<Rightarrow> header_reader \<Rightarrow> bool" where
  "declared_too_large limit header \<longleftrightarrow>
     (case declared_length header of None \<Rightarrow> False | Some n \<Rightarrow> n > of_nat limit)"

definition MAX_OPERATION_AGENT_BODY_BYTES :: nat where
  "MAX_OPERATION_AGENT_BODY_BYTES = 4 * 1024"

definition readOperationAgentBody :: "header_reader \<Rightarrow> byte list list option \<Rightarrow> agent_error + byte list" where
  \<comment> \<open>the body is the sequence of the chunks of its stream\<close>
  "readOperationAgentBody header body =
     (if \<not> json_content header then Inl (415, ''unsupported_media_type'')
      else if declared_too_large MAX_OPERATION_AGENT_BODY_BYTES header then Inl (413, ''payload_too_large'')
      else (case body of
              None \<Rightarrow> Inl (400, ''empty_payload'')
            | Some chunks \<Rightarrow>
                (case read_chunks MAX_OPERATION_AGENT_BODY_BYTES 0 chunks of
                   None \<Rightarrow> Inl (413, ''payload_too_large'')
                 | Some read \<Rightarrow>
                     if concat read = [] then Inl (400, ''empty_payload'') else Inr (concat read))))"

lemma read_chunks_iff:
  "sofar \<le> limit \<Longrightarrow> read_chunks limit sofar chunks =
     (if sofar + length (concat chunks) \<le> limit then Some chunks else None)"
  by (induction limit sofar chunks rule: read_chunks.induct) auto

section \<open>Secrets\<close>

type_synonym secret_map = "(string \<times> string) list"

fun read_secrets :: "(string \<times> jsval) list \<Rightarrow> secret_map option" where
  "read_secrets [] = Some []"
| "read_secrets ((serverId, secret) # entries) =
     (case secret of
        Str s \<Rightarrow>
          if \<not> SERVER_ID_PATTERN serverId \<or> length s < 32 then None
          else map_option ((#) (serverId, s)) (read_secrets entries)
      | _ \<Rightarrow> None)"

definition parseAgentSecretMap :: "(string \<Rightarrow> jsval option) \<Rightarrow> string option \<Rightarrow> agent_error + secret_map" where
  \<comment> \<open>the keys of a parsed object are distinct; assigning to \<open>__proto__\<close> of an object adds no entry\<close>
  "parseAgentSecretMap parse_json raw =
     (case nonempty raw of
        None \<Rightarrow> Inl (503, ''service_not_configured'')
      | Some text \<Rightarrow>
          (case parse_json text of
             Some (Obj entries) \<Rightarrow>
               (case read_secrets entries of
                  None \<Rightarrow> Inl (503, ''service_not_configured'')
                | Some secrets \<Rightarrow> Inr (filter (\<lambda>e. fst e \<noteq> ''__proto__'') secrets))
           | _ \<Rightarrow> Inl (503, ''service_not_configured'')))"

definition parseAgentSecretMaps ::
  "(string \<Rightarrow> jsval option) \<Rightarrow> string option \<Rightarrow> string option \<Rightarrow> agent_error + secret_map" where
  "parseAgentSecretMaps parse_json base additional =
     (case parseAgentSecretMap parse_json base of
        Inl e \<Rightarrow> Inl e
      | Inr result \<Rightarrow>
          (case nonempty additional of
             None \<Rightarrow> Inr result
           | Some further \<Rightarrow>
               (case parseAgentSecretMap parse_json (Some further) of
                  Inl e \<Rightarrow> Inl e
                | Inr extra \<Rightarrow>
                    if list_ex (\<lambda>e. fst e \<in> fst ` set result) extra then Inl (503, ''service_not_configured'')
                    else Inr (result @ extra))))"

section \<open>Signed requests\<close>

definition MAX_CLOCK_SKEW_SECONDS :: int where
  "MAX_CLOCK_SKEW_SECONDS = 300"

definition TIMESTAMP_PATTERN :: "string \<Rightarrow> bool" where
  "TIMESTAMP_PATTERN = chars_between is_digit 10 10"

definition NONCE_PATTERN :: "string \<Rightarrow> bool" where
  "NONCE_PATTERN = chars_between is_hex_lower 32 32"

definition SIGNATURE_PATTERN :: "string \<Rightarrow> bool" where
  "SIGNATURE_PATTERN = chars_between is_hex_lower 64 64"

fun hex_bytes :: "string \<Rightarrow> byte list" where
  \<comment> \<open>\<open>Buffer.from(s, "hex")\<close> on an even number of hexadecimal digits\<close>
  "hex_bytes (a # b # cs) = word_of_nat (16 * hex_val a + hex_val b) # hex_bytes cs"
| "hex_bytes _ = []"

record agent_crypto =
  ag_hmac :: "string \<Rightarrow> byte list \<Rightarrow> byte list"
  ag_sha256_hex :: "byte list \<Rightarrow> string"

definition signed_message :: "string \<Rightarrow> string \<Rightarrow> byte list \<Rightarrow> byte list" where
  "signed_message timestamp nonce rawBody =
     text_bytes timestamp @ text_bytes ''.'' @ text_bytes nonce @ text_bytes ''.'' @ rawBody"

definition header_or_empty :: "header_reader \<Rightarrow> string \<Rightarrow> string" where
  "header_or_empty header name = (case header name of None \<Rightarrow> [] | Some s \<Rightarrow> s)"

text \<open>
  The checks that the operation routes and the heartbeat route make alike, once the agent's identifier
  is known to match: time stamp, nonce, form of the signature, secret, signature. The clock is in
  milliseconds. The secrets are an ordinary object: a name that every object inherits finds a member that is no
  secret, and the MAC with it throws an error of another kind, to which each route has its own reply.
\<close>

definition INTERNAL_ERROR :: agent_error where
  "INTERNAL_ERROR = (500, ''internal_error'')"

definition check_signature ::
  "agent_crypto \<Rightarrow> header_reader \<Rightarrow> byte list \<Rightarrow> string \<Rightarrow> agent_error + secret_map \<Rightarrow> int \<Rightarrow>
   agent_error + string \<times> string" where
  "check_signature crypto header rawBody serverId secrets nowMilliseconds =
     (let timestamp = header_or_empty header ''x-ivrm-timestamp'';
          nonce = header_or_empty header ''x-ivrm-nonce'';
          signature = header_or_empty header ''x-ivrm-signature''
      in if \<not> TIMESTAMP_PATTERN timestamp then Inl (401, ''invalid_timestamp'')
         else if \<bar>nowMilliseconds - 1000 * int (dec_val timestamp)\<bar> > 1000 * MAX_CLOCK_SKEW_SECONDS
         then Inl (401, ''expired_request'')
         else if \<not> NONCE_PATTERN nonce then Inl (401, ''invalid_nonce'')
         else if \<not> SIGNATURE_PATTERN signature then Inl (401, ''invalid_signature'')
         else (case secrets of
                 Inl e \<Rightarrow> Inl e
               | Inr known \<Rightarrow>
                   (case nonempty (map_of known serverId) of
                      None \<Rightarrow>
                        if serverId \<in> set OBJECT_MEMBERS \<and> map_of known serverId = None then Inl INTERNAL_ERROR
                        else Inl (401, ''unknown_agent'')
                    | Some secret \<Rightarrow>
                        if hex_bytes signature \<noteq> ag_hmac crypto secret (signed_message timestamp nonce rawBody)
                        then Inl (401, ''invalid_signature'')
                        else Inr (nonce, ag_sha256_hex crypto rawBody))))"

definition authenticateOperationAgentWithSecrets ::
  "agent_crypto \<Rightarrow> header_reader \<Rightarrow> byte list \<Rightarrow> string \<Rightarrow> secret_map \<Rightarrow> int \<Rightarrow> agent_error + string \<times> string" where
  "authenticateOperationAgentWithSecrets crypto header rawBody expectedServerId secrets nowMilliseconds =
     (let serverId = header_or_empty header ''x-ivrm-agent-id''
      in if serverId \<noteq> expectedServerId \<or> \<not> SERVER_ID_PATTERN serverId then Inl (401, ''agent_id_mismatch'')
         else check_signature crypto header rawBody serverId (Inr secrets) nowMilliseconds)"

definition authenticateOperationAgent ::
  "agent_crypto \<Rightarrow> (string \<Rightarrow> jsval option) \<Rightarrow> environment \<Rightarrow> header_reader \<Rightarrow> byte list \<Rightarrow> string \<Rightarrow> int \<Rightarrow>
   agent_error + string \<times> string" where
  "authenticateOperationAgent crypto parse_json env header rawBody expectedServerId nowMilliseconds =
     (case parseAgentSecretMaps parse_json (env ''IVRM_AGENT_SECRETS_JSON'')
             (env ''IVRM_AGENT_SECRETS_ADDITIONAL_JSON'') of
        Inl e \<Rightarrow> Inl e
      | Inr secrets \<Rightarrow>
          authenticateOperationAgentWithSecrets crypto header rawBody expectedServerId secrets nowMilliseconds)"

definition parseOperationAgentJson :: "(byte list \<Rightarrow> jsval option) \<Rightarrow> byte list \<Rightarrow> agent_error + jsval" where
  \<comment> \<open>the parameter decodes UTF-8 strictly and parses JSON\<close>
  "parseOperationAgentJson decode_json rawBody =
     (case decode_json rawBody of
        None \<Rightarrow> Inl (400, ''invalid_payload'')
      | Some v \<Rightarrow> if is_record v then Inr v else Inl (400, ''invalid_payload''))"

text \<open>What a signature check establishes.\<close>

definition authentic ::
  "agent_crypto \<Rightarrow> header_reader \<Rightarrow> byte list \<Rightarrow> string \<Rightarrow> secret_map \<Rightarrow> int \<Rightarrow> bool" where
  "authentic crypto header rawBody serverId secrets now \<longleftrightarrow>
     (\<exists>timestamp nonce signature secret.
        header ''x-ivrm-timestamp'' = Some timestamp \<and> header ''x-ivrm-nonce'' = Some nonce \<and>
        header ''x-ivrm-signature'' = Some signature \<and>
        (serverId, secret) \<in> set secrets \<and>
        hex_bytes signature = ag_hmac crypto secret (signed_message timestamp nonce rawBody) \<and>
        \<bar>now - 1000 * int (dec_val timestamp)\<bar> \<le> 300000)"

lemma check_signature_sound:
  assumes "check_signature crypto header rawBody serverId (Inr secrets) now = Inr (nonce, sha)"
  shows "authentic crypto header rawBody serverId secrets now \<and> header ''x-ivrm-nonce'' = Some nonce \<and>
    NONCE_PATTERN nonce \<and> sha = ag_sha256_hex crypto rawBody"
proof -
  have present: "header n = Some (header_or_empty header n)" if "header_or_empty header n \<noteq> []" for n
    using that by (simp add: header_or_empty_def split: option.splits)
  have "header_or_empty header n \<noteq> []" if "chars_between P k m (header_or_empty header n)" "0 < k" for n P k m
    using that by (auto simp: chars_between_def)
  note here = present [OF this]
  show ?thesis
    using assms
    by (auto simp: check_signature_def Let_def authentic_def MAX_CLOCK_SKEW_SECONDS_def TIMESTAMP_PATTERN_def
        NONCE_PATTERN_def SIGNATURE_PATTERN_def not_less here dest!: nonempty_SomeD map_of_SomeD
        split: if_split_asm option.splits)
qed

text \<open>Asked about an inherited name, the code does not answer that the agent is unknown.\<close>

lemma inherited_agent_id:
  assumes "TIMESTAMP_PATTERN (header_or_empty header ''x-ivrm-timestamp'')"
    and "\<bar>now - 1000 * int (dec_val (header_or_empty header ''x-ivrm-timestamp''))\<bar> \<le> 300000"
    and "NONCE_PATTERN (header_or_empty header ''x-ivrm-nonce'')"
    and "SIGNATURE_PATTERN (header_or_empty header ''x-ivrm-signature'')"
    and "serverId \<in> set OBJECT_MEMBERS" "map_of secrets serverId = None"
  shows "check_signature crypto header rawBody serverId (Inr secrets) now = Inl INTERNAL_ERROR"
  using assms by (simp add: check_signature_def Let_def MAX_CLOCK_SKEW_SECONDS_def nonempty_def del: not_None_eq)

lemma internal_error_inherited:
  assumes "check_signature crypto header rawBody serverId (Inr secrets) now = Inl INTERNAL_ERROR"
  shows "serverId \<in> set OBJECT_MEMBERS"
  using assms by (auto simp: check_signature_def Let_def INTERNAL_ERROR_def split: if_split_asm option.splits)

lemma agent_authentic:
  assumes "authenticateOperationAgent crypto parse_json env header rawBody serverId now = Inr (nonce, sha)"
  shows "\<exists>secrets. parseAgentSecretMaps parse_json (env ''IVRM_AGENT_SECRETS_JSON'')
             (env ''IVRM_AGENT_SECRETS_ADDITIONAL_JSON'') = Inr secrets \<and>
     authentic crypto header rawBody serverId secrets now \<and> header ''x-ivrm-agent-id'' = Some serverId \<and>
     header ''x-ivrm-nonce'' = Some nonce \<and> sha = ag_sha256_hex crypto rawBody"
  using assms check_signature_sound
  by (auto simp: authenticateOperationAgent_def authenticateOperationAgentWithSecrets_def Let_def
      header_or_empty_def SERVER_ID_PATTERN_def chars_between_def split: sum.splits if_split_asm option.splits)

text \<open>A concrete signed request, with a stand-in for the MAC of the right width.\<close>

lemma list_all_copies [simp]: "list_all P (replicate n x) \<longleftrightarrow> n = 0 \<or> P x"
  by (induction n) auto

lemma hex_bytes_ones: "hex_bytes (replicate (2 * n) CHR ''1'') = replicate n 17"
  by (induction n) (simp_all add: js_eval)

definition sample_agent_crypto :: agent_crypto where
  "sample_agent_crypto =
     \<lparr> ag_hmac = (\<lambda>secret m. replicate 32 17), ag_sha256_hex = (\<lambda>b. replicate 64 CHR ''0'') \<rparr>"

definition sample_header :: "string \<Rightarrow> header_reader" where
  "sample_header serverId = map_of
     [(''content-type'', ''application/json''), (''x-ivrm-agent-id'', serverId),
      (''x-ivrm-timestamp'', ''1700000000''), (''x-ivrm-nonce'', replicate 32 CHR ''a''),
      (''x-ivrm-signature'', replicate 64 CHR ''1'')]"

lemma sample_header_json: "json_content (sample_header i)" "declared_length (sample_header i) = Some 0"
  by (simp_all add: json_content_def declared_length_def sample_header_def to_lower_def lower_char_def js_eval)

lemma sample_header_id: "header_or_empty (sample_header i) ''x-ivrm-agent-id'' = i"
  by (simp add: header_or_empty_def sample_header_def)

lemma sample_check:
  "check_signature sample_agent_crypto (sample_header i) raw i (Inr [(i, replicate 32 CHR ''k'')]) 1700000000000 =
     Inr (replicate 32 CHR ''a'', replicate 64 CHR ''0'')"
proof -
  have "hex_bytes (replicate 64 CHR ''1'') = replicate 32 17" using hex_bytes_ones [of 32] by simp
  then show ?thesis
    by (simp add: check_signature_def Let_def header_or_empty_def sample_header_def sample_agent_crypto_def
        TIMESTAMP_PATTERN_def NONCE_PATTERN_def SIGNATURE_PATTERN_def MAX_CLOCK_SKEW_SECONDS_def js_eval)
qed

end
