(* ===== verification/OperationRoutes.thy ===== *)
theory OperationRoutes
  imports Operations AgentAuth
begin

text \<open>
  The routes of the operation queue: an operator's request
  (\<open>apps/web/app/api/operations/jobs/route.ts\<close>) and the agent's two calls
  (\<open>apps/web/app/api/agent/operations/claim\<close> and \<open>.../transition\<close>). Each handler yields its reply
  together with what it asked of the database: audit entries, enqueued jobs, claims, transitions.
\<close>

section \<open>Requesting an operation\<close>

definition MAX_BODY_BYTES :: nat where
  "MAX_BODY_BYTES = 1024"

record site =
  st_origin :: string
  st_host :: string

record job_services =
  js_env :: environment
  js_parse_url :: "string \<Rightarrow> site option"
  js_decode_json :: "byte list \<Rightarrow> jsval option"
  js_sha256_hex :: "string \<Rightarrow> string"
  js_hash :: "string \<Rightarrow> string"
  js_rpc :: session_rpc

record job_request =
  rq_header :: reader
  rq_cookie :: reader
  rq_origin :: string  \<comment> \<open>\<open>request.nextUrl.origin\<close>\<close>
  rq_body :: "byte list list option"

definition trustedOrigin :: "job_services \<Rightarrow> string option" where
  "trustedOrigin s = map_option st_origin
     (Option.bind (nonempty (map_option trim (js_env s ''DISCORD_REDIRECT_URI''))) (js_parse_url s))"

definition validateRequestOrigin :: "job_services \<Rightarrow> job_request \<Rightarrow> bool" where
  "validateRequestOrigin s r =
     (let host = (case rq_header r ''host'' of None \<Rightarrow> [] | Some h \<Rightarrow> to_lower h);
          forwardedHost = (case rq_header r ''x-forwarded-host'' of
             None \<Rightarrow> host | Some h \<Rightarrow> to_lower (trim (hd (split_on CHR '','' h))))
      in case Option.bind (trustedOrigin s) (js_parse_url s) of
           None \<Rightarrow> False
         | Some trusted \<Rightarrow>
             (case nonempty (rq_header r ''origin'') of
                None \<Rightarrow> False
              | Some origin \<Rightarrow>
                  origin = st_origin trusted \<and> rq_origin r = st_origin trusted \<and>
                  host = st_host trusted \<and> forwardedHost = st_host trusted))"

definition resolveSession :: "job_services \<Rightarrow> job_request \<Rightarrow> discord_session_row option option" where
  \<comment> \<open>the outer \<open>None\<close> is an exception\<close>
  "resolveSession s r =
     (case getDiscordAuthMode (js_env s) of
        None \<Rightarrow> None
      | Some mode \<Rightarrow>
          if mode = DiscordDisabled then Some None
          else (case nonempty (rq_cookie r DISCORD_SESSION_COOKIE) of
                  None \<Rightarrow> Some None
                | Some token \<Rightarrow> resolveDiscordConsoleSession (js_rpc s) (js_hash s) token))"

definition roleAllows :: "console_role \<Rightarrow> operation_type \<Rightarrow> bool" where
  "roleAllows role t =
     (case getOperationDefinition t of None \<Rightarrow> False | Some d \<Rightarrow> role_rank role \<ge> role_rank (od_requiredRole d))"

datatype limited_json = BodyTooLarge | BodyInvalid | BodyJson jsval

definition readLimitedJson :: "job_services \<Rightarrow> job_request \<Rightarrow> limited_json" where
  "readLimitedJson s r =
     (if declared_too_large MAX_BODY_BYTES (rq_header r) then BodyTooLarge
      else if \<not> json_content (rq_header r) then BodyInvalid
      else (case rq_body r of
              None \<Rightarrow> BodyInvalid
            | Some chunks \<Rightarrow>
                (case read_chunks MAX_BODY_BYTES 0 chunks of
                   None \<Rightarrow> BodyTooLarge
                 | Some read \<Rightarrow>
                     if concat read = [] then BodyInvalid
                     else (case js_decode_json s (concat read) of
                             None \<Rightarrow> BodyInvalid
                           | Some parsed \<Rightarrow> if is_record parsed then BodyJson parsed else BodyInvalid))))"

record denied_request =
  dr_requestId :: string
  dr_discordUserId :: string
  dr_role :: console_role
  dr_reason :: string
  dr_action :: "operation_type option"

record job_reply =
  jr_status :: nat
  jr_error :: "string option"
  jr_job :: "enqueue_result option"
  jr_denied :: "denied_request list"
  jr_enqueued :: "enqueue_request list"

definition plain_reply :: "nat \<Rightarrow> string \<Rightarrow> job_reply" where
  "plain_reply status err =
     \<lparr> jr_status = status, jr_error = Some err, jr_job = None, jr_denied = [], jr_enqueued = [] \<rparr>"

definition deny_request ::
  "discord_session_row \<Rightarrow> string \<Rightarrow> nat \<Rightarrow> string \<Rightarrow> operation_type option \<Rightarrow> job_reply" where
  \<comment> \<open>\<open>recordOperationRequestDenied\<close> and the refusal; a failure to store the entry is ignored\<close>
  "deny_request session requestId status reason action =
     \<lparr> jr_status = status, jr_error = Some reason, jr_job = None,
       jr_denied = [\<lparr> dr_requestId = requestId, dr_discordUserId = ds_discordUserId session,
          dr_role = ds_consoleRole session, dr_reason = reason, dr_action = action \<rparr>],
       jr_enqueued = [] \<rparr>"

definition or_text :: "string option \<Rightarrow> string \<Rightarrow> string" where
  "or_text v d = (case v of None \<Rightarrow> d | Some s \<Rightarrow> s)"

definition enqueue_reply :: "job_services \<Rightarrow> enqueue_request \<Rightarrow> job_reply" where
  "enqueue_reply s input =
     (let reply = (\<lambda>status err job. \<lparr> jr_status = status, jr_error = err, jr_job = job, jr_denied = [],
             jr_enqueued = [input] \<rparr>)
      in case enqueueDiscordOperationJob (js_rpc s) input of
           None \<Rightarrow> reply 503 (Some ''operation_enqueue_failed'') None
         | Some result \<Rightarrow>
             if er_outcome result = Str ''conflict''
             then reply 409 (Some (or_text (er_errorCode result) ''operation_conflict'')) (Some result)
             else if er_outcome result = Str ''denied''
             then reply (if er_errorCode result = Some ''insufficient_role'' then 403 else 400)
                    (Some (or_text (er_errorCode result) ''operation_denied'')) (Some result)
             else reply (if er_outcome result = Str ''created'' then 201 else 200) None (Some result))"

definition BODY_KEYS :: "string list" where
  "BODY_KEYS = [''target'', ''action'', ''confirmation'', ''payload'']"

definition job_action :: "jsval \<Rightarrow> operation_type option" where
  \<comment> \<open>\<open>isAllowedAction(action) && isOperationType(action)\<close>\<close>
  "job_action v = Option.bind (isAction v) (\<lambda>_. isOperationType v)"

definition job_body :: "job_services \<Rightarrow> job_request \<Rightarrow> discord_session_row \<Rightarrow> string \<Rightarrow> jsval \<Rightarrow> job_reply" where
  \<comment> \<open>from a readable body to the queue\<close>
  "job_body s r session requestId body =
     (if \<not> list_all (\<lambda>k. k \<in> set BODY_KEYS) (obj_keys body)
      then deny_request session requestId 400 ''request_body_invalid'' None
      else if get_prop body ''target'' \<noteq> Str MC_MAIN_OPERATION_TARGET
      then deny_request session requestId 400 ''target_not_allowed'' None
      else (case job_action (get_prop body ''action'') of
              None \<Rightarrow> deny_request session requestId 400 ''action_not_allowed'' None
            | Some action \<Rightarrow>
                if \<not> roleAllows (ds_consoleRole session) action
                then deny_request session requestId 403 ''insufficient_role'' (Some action)
                else if \<not> validateOperationPayload (nullish (get_prop body ''payload'') (Obj []))
                then deny_request session requestId 400 ''payload_not_allowed'' (Some action)
                else if \<not> validateOperationConfirmation action (get_prop body ''confirmation'')
                then deny_request session requestId 400 ''confirmation_invalid'' (Some action)
                else (case validateIdempotencyKey (rq_header r ''idempotency-key'') of
                        None \<Rightarrow> deny_request session requestId 400 ''idempotency_invalid'' (Some action)
                      | Some key \<Rightarrow>
                          enqueue_reply s \<lparr> eq_discordSessionId = ds_sessionId session, eq_action = action,
                            eq_idempotencyKeyHash = js_sha256_hex s key,
                            eq_confirmation = nonempty (as_string (get_prop body ''confirmation'')),
                            eq_requestId = requestId \<rparr>)))"

definition jobs_post :: "job_services \<Rightarrow> job_request \<Rightarrow> string \<Rightarrow> job_reply" where
  "jobs_post s r requestId =
     (if \<not> validateRequestOrigin s r then plain_reply 403 ''origin_or_host_mismatch''
      else if map_option (to_lower \<circ> trim) (js_env s ''IVRM_OPERATION_REQUESTS_ENABLED'') \<noteq> Some ''true''
      then plain_reply 503 ''operation_requests_disabled''
      else (case resolveSession s r of
              None \<Rightarrow> plain_reply 503 ''session_unavailable''
            | Some None \<Rightarrow> plain_reply 401 ''discord_authentication_required''
            | Some (Some session) \<Rightarrow>
                (case readLimitedJson s r of
                   BodyTooLarge \<Rightarrow> deny_request session requestId 413 ''request_body_too_large'' None
                 | BodyInvalid \<Rightarrow> deny_request session requestId 400 ''request_body_invalid'' None
                 | BodyJson body \<Rightarrow> job_body s r session requestId body)))"

datatype jobs_reply = JobList "job_view list" | JobsRefused nat string

definition jobs_get ::
  "job_services \<Rightarrow> jsval option \<Rightarrow> (string \<Rightarrow> string \<Rightarrow> jsval option) \<Rightarrow> job_request \<Rightarrow> jobs_reply" where
  "jobs_get s hosts query r =
     (case resolveSession s r of
        None \<Rightarrow> JobsRefused 503 ''operation_jobs_unavailable''
      | Some None \<Rightarrow> JobsRefused 401 ''discord_authentication_required''
      | Some (Some session) \<Rightarrow>
          (case listDiscordOperationJobs hosts query (ds_discordUserId session) of
             None \<Rightarrow> JobsRefused 503 ''operation_jobs_unavailable''
           | Some jobs \<Rightarrow> JobList jobs))"

definition capabilities_get :: "console_session \<Rightarrow> operation_capability list option" where
  \<comment> \<open>\<open>app/api/operations/capabilities\<close>; \<open>None\<close> is the refusal with status 403\<close>
  "capabilities_get session =
     (if \<not> canReadConsoleDuringRollout session then None else Some (getOperationCapabilities session))"

section \<open>The agent\<close>

record agent_services =
  sv_env :: environment
  sv_crypto :: agent_crypto
  sv_parse_json :: "string \<Rightarrow> jsval option"
  sv_decode_json :: "byte list \<Rightarrow> jsval option"
  sv_rpc :: session_rpc

definition LEASE_OWNER_PATTERN :: "string \<Rightarrow> bool" where
  "LEASE_OWNER_PATTERN = chars_between label_char 1 120"

definition ERROR_CODE_PATTERN :: "string \<Rightarrow> bool" where
  \<comment> \<open>\<open>[a-z0-9._:-]{1,120}\<close>\<close>
  "ERROR_CODE_PATTERN = chars_between (\<lambda>c. label_char c \<and> \<not> is_upper c) 1 120"

definition text_matching :: "(string \<Rightarrow> bool) \<Rightarrow> jsval \<Rightarrow> string option" where
  "text_matching P v = (case as_string v of None \<Rightarrow> None | Some s \<Rightarrow> if P s then Some s else None)"

definition claim_body :: "jsval \<Rightarrow> string option" where
  \<comment> \<open>the lease owner of a valid claim\<close>
  "claim_body body =
     (if \<not> list_all (\<lambda>k. k \<in> set [''serverId'', ''leaseOwner'']) (obj_keys body) \<or>
         get_prop body ''serverId'' \<noteq> Str MC_MAIN_OPERATION_SERVER_ID
      then None else text_matching LEASE_OWNER_PATTERN (get_prop body ''leaseOwner''))"

definition TRANSITION_KEYS :: "string list" where
  "TRANSITION_KEYS = [''serverId'', ''jobId'', ''action'', ''expectedStatus'', ''newStatus'', ''leaseOwner'',
     ''requestId'', ''details'']"

definition valid_details :: "jsval \<Rightarrow> bool" where
  "valid_details details \<longleftrightarrow>
     is_record details \<and> list_all (\<lambda>k. k \<in> set [''phase'', ''errorCode'']) (obj_keys details) \<and>
     (\<exists>phase \<in> set [''executing'', ''health_gate_passed'', ''stopped'', ''execution_failed''].
        get_prop details ''phase'' = Str phase) \<and>
     (get_prop details ''errorCode'' \<noteq> Undefined \<longrightarrow>
        text_matching ERROR_CODE_PATTERN (get_prop details ''errorCode'') \<noteq> None)"

definition validTransitionBody :: "jsval \<Rightarrow> operation_transition option" where
  "validTransitionBody body =
     (if \<not> list_all (\<lambda>k. k \<in> set TRANSITION_KEYS) (obj_keys body) \<or>
         get_prop body ''serverId'' \<noteq> Str MC_MAIN_OPERATION_SERVER_ID
      then None
      else do {
        jobId \<leftarrow> text_matching UUID8_PATTERN (get_prop body ''jobId'');
        action \<leftarrow> isAction (get_prop body ''action'');
        expected \<leftarrow> text_matching (\<lambda>s. s \<in> set [''leased'', ''running'']) (get_prop body ''expectedStatus'');
        new \<leftarrow> text_matching (\<lambda>s. s \<in> set [''running'', ''succeeded'', ''failed'']) (get_prop body ''newStatus'');
        leaseOwner \<leftarrow> text_matching LEASE_OWNER_PATTERN (get_prop body ''leaseOwner'');
        requestId \<leftarrow> text_matching UUID8_PATTERN (get_prop body ''requestId'');
        if \<not> valid_details (get_prop body ''details'') then None
        else Some \<lparr> ot_jobId = jobId, ot_action = action, ot_expectedStatus = expected, ot_newStatus = new,
          ot_leaseOwner = leaseOwner, ot_requestId = requestId, ot_details = get_prop body ''details'' \<rparr>
      })"

datatype 'a agent_reply = Refused nat string | Replayed | InternalError | Performed 'a

text \<open>
  Both routes read, validate, authenticate and then ask the replay ledger; \<open>perform\<close> is what the
  route does for an accepted request. The replies carry whether \<open>perform\<close> ran.
\<close>

definition agent_route ::
  "agent_services \<Rightarrow> string \<Rightarrow> (jsval \<Rightarrow> 'b option) \<Rightarrow> ('b \<Rightarrow> 'a option) \<Rightarrow> header_reader \<Rightarrow>
   byte list list option \<Rightarrow> int \<Rightarrow> 'a agent_reply \<times> 'b list" where
  "agent_route s kind validate perform header body now =
     (case readOperationAgentBody header body of
        Inl (status, err) \<Rightarrow> (Refused status err, [])
      | Inr rawBody \<Rightarrow>
          (case parseOperationAgentJson (sv_decode_json s) rawBody of
             Inl (status, err) \<Rightarrow> (Refused status err, [])
           | Inr value \<Rightarrow>
               (case validate value of
                  None \<Rightarrow> (Refused 400 ''invalid_payload'', [])
                | Some input \<Rightarrow>
                    (case authenticateOperationAgent (sv_crypto s) (sv_parse_json s) (sv_env s) header rawBody
                            MC_MAIN_OPERATION_SERVER_ID now of
                       Inl (status, err) \<Rightarrow> (Refused status err, [])
                     | Inr (nonce, bodySha256) \<Rightarrow>
                         (case acceptOperationAgentRequest (sv_rpc s) MC_MAIN_OPERATION_SERVER_ID kind nonce
                                 bodySha256 of
                            None \<Rightarrow> (InternalError, [])
                          | Some False \<Rightarrow> (Replayed, [])
                          | Some True \<Rightarrow>
                              (case perform input of
                                 None \<Rightarrow> (InternalError, [input])
                               | Some result \<Rightarrow> (Performed result, [input])))))))"

definition claim_post ::
  "agent_services \<Rightarrow> string \<Rightarrow> header_reader \<Rightarrow> byte list list option \<Rightarrow> int \<Rightarrow>
   claimed_job option agent_reply \<times> string list" where
  "claim_post s requestId =
     agent_route s ''claim'' claim_body
       (\<lambda>leaseOwner. claimMcMainOperationJob (sv_rpc s) MC_MAIN_OPERATION_SERVER_ID leaseOwner requestId)"

definition transition_post ::
  "agent_services \<Rightarrow> header_reader \<Rightarrow> byte list list option \<Rightarrow> int \<Rightarrow>
   (string \<times> string) agent_reply \<times> operation_transition list" where
  "transition_post s =
     agent_route s ''transition'' validTransitionBody
       (\<lambda>t. map_option (\<lambda>_. (ot_jobId t, ot_newStatus t)) (transitionMcMainOperationJob (sv_rpc s) t))"

section \<open>When a job is queued\<close>

text \<open>The three operations that can be requested, with who may request them and what must be typed.\<close>

definition operation_rule :: "operation_type \<Rightarrow> (console_role \<times> string option) option" where
  "operation_rule t = (case t of
     StartBackend \<Rightarrow> Some (Operator, None) | RestartBackend \<Rightarrow> Some (Operator, Some ''RESTART'')
   | StopBackend \<Rightarrow> Some (Administrator, Some ''STOP'') | _ \<Rightarrow> None)"

definition confirmed :: "string option \<Rightarrow> jsval \<Rightarrow> bool" where
  "confirmed phrase v \<longleftrightarrow> (case phrase of Some p \<Rightarrow> v = Str p | None \<Rightarrow> v = Undefined \<or> v = Null \<or> v = Str [])"

lemma job_action_SomeD: "job_action v = Some t \<Longrightarrow> t \<in> set MC_MAIN_OPERATION_ACTIONS \<and> v = Str (operation_text t)"
  by (auto simp: job_action_def isAction_def isOperationType_def bind_eq_Some_conv MC_MAIN_OPERATION_ACTIONS_def
      OPERATION_DEFINITIONS_def define_operation_def operation_text_def split: option.splits if_split_asm)

lemma role_rule: "operation_rule t = Some (role, phrase) \<Longrightarrow> roleAllows r t \<longleftrightarrow> role \<le> r"
  by (cases t) (auto simp: operation_rule_def roleAllows_def getOperationDefinition_def OPERATION_DEFINITIONS_def
      define_operation_def console_role_le)

lemma confirmation_rule:
  "operation_rule t = Some (role, phrase) \<Longrightarrow> validateOperationConfirmation t v \<longleftrightarrow> confirmed phrase v"
  by (cases t) (auto simp: operation_rule_def validateOperationConfirmation_def getOperationDefinition_def
      OPERATION_DEFINITIONS_def define_operation_def confirmed_def)

lemma requested_rule: "t \<in> set MC_MAIN_OPERATION_ACTIONS \<Longrightarrow> \<exists>role phrase. operation_rule t = Some (role, phrase)"
  by (auto simp: MC_MAIN_OPERATION_ACTIONS_def operation_rule_def)

lemma job_effects [simp]:
  "jr_enqueued (plain_reply n e) = []" "jr_denied (plain_reply n e) = []"
  "jr_enqueued (deny_request d i n e a) = []" "length (jr_denied (deny_request d i n e a)) = 1"
  "jr_enqueued (enqueue_reply s input) = [input]" "jr_denied (enqueue_reply s input) = []"
  by (auto simp: plain_reply_def deny_request_def enqueue_reply_def Let_def split: option.split)

text \<open>C3.
  An operation is only queued when every safeguard holds: the request comes from the console's own
  origin and host, requests are switched on, the session is live, the target is the one server, the
  operation is one of the three that may be requested, the member's role suffices for it, no parameters
  are given, the phrase of a disruptive operation is typed exactly, and the request carries a key
  against double submission, whose digest and the session's own identifier reach the queue.
\<close>

theorem queued_operation_is_authorised:
  assumes "input \<in> set (jr_enqueued (jobs_post s r requestId))"
  shows "\<exists>session body role phrase key.
    validateRequestOrigin s r \<and>
    map_option (to_lower \<circ> trim) (js_env s ''IVRM_OPERATION_REQUESTS_ENABLED'') = Some ''true'' \<and>
    resolveSession s r = Some (Some session) \<and> readLimitedJson s r = BodyJson body \<and>
    get_prop body ''target'' = Str ''mc-main'' \<and> get_prop body ''action'' = Str (operation_text (eq_action input)) \<and>
    operation_rule (eq_action input) = Some (role, phrase) \<and> role \<le> ds_consoleRole session \<and>
    confirmed phrase (get_prop body ''confirmation'') \<and>
    nullish (get_prop body ''payload'') (Obj []) = Obj [] \<and>
    rq_header r ''idempotency-key'' = Some key \<and> 16 \<le> length key \<and>
    eq_idempotencyKeyHash input = js_sha256_hex s key \<and> eq_discordSessionId input = ds_sessionId session \<and>
    eq_requestId input = requestId \<and> jr_enqueued (jobs_post s r requestId) = [input]"
proof -
  from assms obtain session body where
      pre: "validateRequestOrigin s r"
        "map_option (to_lower \<circ> trim) (js_env s ''IVRM_OPERATION_REQUESTS_ENABLED'') = Some ''true''"
        "resolveSession s r = Some (Some session)" "readLimitedJson s r = BodyJson body"
    and reply: "jobs_post s r requestId = job_body s r session requestId body"
    by (auto simp: jobs_post_def split: option.splits limited_json.splits if_split_asm)
  from assms [unfolded reply] obtain action key where
      action: "job_action (get_prop body ''action'') = Some action"
    and checks: "get_prop body ''target'' = Str ''mc-main''" "roleAllows (ds_consoleRole session) action"
        "validateOperationPayload (nullish (get_prop body ''payload'') (Obj []))"
        "validateOperationConfirmation action (get_prop body ''confirmation'')"
    and key: "validateIdempotencyKey (rq_header r ''idempotency-key'') = Some key"
    and queued: "jr_enqueued (job_body s r session requestId body) = [input]" "eq_action input = action"
        "eq_idempotencyKeyHash input = js_sha256_hex s key" "eq_discordSessionId input = ds_sessionId session"
        "eq_requestId input = requestId"
    by (auto simp: job_body_def MC_MAIN_OPERATION_TARGET_def split: option.splits if_split_asm)
  obtain role phrase where rule: "operation_rule action = Some (role, phrase)"
    using job_action_SomeD [OF action] requested_rule by blast
  have "role \<le> ds_consoleRole session" "confirmed phrase (get_prop body ''confirmation'')"
    using checks(2,4) role_rule [OF rule] confirmation_rule [OF rule] by simp_all
  moreover have "nullish (get_prop body ''payload'') (Obj []) = Obj []"
    using checks(3) by (cases "nullish (get_prop body ''payload'') (Obj [])") (auto simp: validateOperationPayload_def)
  moreover have "rq_header r ''idempotency-key'' = Some key" "16 \<le> length key"
    using key by (auto simp: validateIdempotencyKey_def split: option.splits if_split_asm)
  ultimately show ?thesis
    using pre reply rule checks(1) job_action_SomeD [OF action] queued by metis
qed

text \<open>Every request of a signed-in member to a console that takes requests ends in exactly one trace: one
  job request to the queue, or one audit entry that names the refusal; any other request leaves none.
\<close>

theorem one_trace_per_request:
  "length (jr_enqueued (jobs_post s r requestId)) + length (jr_denied (jobs_post s r requestId)) =
    (if validateRequestOrigin s r \<and>
        map_option (to_lower \<circ> trim) (js_env s ''IVRM_OPERATION_REQUESTS_ENABLED'') = Some ''true'' \<and>
        Option.bind (resolveSession s r) id \<noteq> None
     then 1 else 0)"
proof -
  have body: "length (jr_enqueued (job_body s r session requestId body)) +
      length (jr_denied (job_body s r session requestId body)) = 1" for session body
    by (simp add: job_body_def split: option.split)
  show ?thesis
    by (simp add: jobs_post_def body split: option.split limited_json.split)
qed

section \<open>What an agent may do\<close>

text \<open>C4.
  The queue is only touched for an authentic, fresh request: an agent's call makes at most one claim or
  one transition, and only if its body is the signed one, under a secret configured for the server,
  its time stamp is within five minutes, and the replay ledger accepted its nonce and digest for this
  kind of call. What is performed is what the body, once validated, says.
\<close>

theorem agent_call_is_authentic:
  assumes "agent_route s kind validate perform header body now = (reply, input # inputs)"
  shows "\<exists>rawBody value secrets nonce. inputs = [] \<and>
    readOperationAgentBody header body = Inr rawBody \<and> sv_decode_json s rawBody = Some value \<and>
    validate value = Some input \<and>
    parseAgentSecretMaps (sv_parse_json s) (sv_env s ''IVRM_AGENT_SECRETS_JSON'')
      (sv_env s ''IVRM_AGENT_SECRETS_ADDITIONAL_JSON'') = Inr secrets \<and>
    authentic (sv_crypto s) header rawBody MC_MAIN_OPERATION_SERVER_ID secrets now \<and>
    header ''x-ivrm-nonce'' = Some nonce \<and>
    acceptOperationAgentRequest (sv_rpc s) MC_MAIN_OPERATION_SERVER_ID kind nonce
      (ag_sha256_hex (sv_crypto s) rawBody) = Some True \<and>
    reply = (case perform input of None \<Rightarrow> InternalError | Some result \<Rightarrow> Performed result)"
proof -
  from assms obtain rawBody val nonce sha where
      body: "readOperationAgentBody header body = Inr rawBody"
    and decoded: "parseOperationAgentJson (sv_decode_json s) rawBody = Inr val"
    and valid: "validate val = Some input" "inputs = []"
    and auth: "authenticateOperationAgent (sv_crypto s) (sv_parse_json s) (sv_env s) header rawBody
        MC_MAIN_OPERATION_SERVER_ID now = Inr (nonce, sha)"
    and accepted: "acceptOperationAgentRequest (sv_rpc s) MC_MAIN_OPERATION_SERVER_ID kind nonce sha = Some True"
    and reply: "reply = (case perform input of None \<Rightarrow> InternalError | Some result \<Rightarrow> Performed result)"
    by (auto simp: agent_route_def split: sum.splits prod.splits option.splits bool.splits)
  have "sv_decode_json s rawBody = Some val"
    using decoded by (auto simp: parseOperationAgentJson_def split: option.splits if_split_asm)
  with body valid reply accepted agent_authentic [OF auth] show ?thesis by blast
qed


definition sample_site :: site where
  "sample_site = \<lparr> st_origin = ''https://c'', st_host = ''c'' \<rparr>"

definition sample_jobs :: job_services where
  \<comment> \<open>a member with the viewer role of \<open>sample_session_rpc\<close> raised to operator, and a queue that answers\<close>
  "sample_jobs = \<lparr> js_env = map_of
       [(''DISCORD_REDIRECT_URI'', ''https://c''), (''IVRM_OPERATION_REQUESTS_ENABLED'', ''true''),
        (''IVRM_DISCORD_AUTH_MODE'', ''enforce'')],
     js_parse_url = (\<lambda>_. Some sample_site),
     js_decode_json = (\<lambda>_. Some (Obj [(''target'', Str ''mc-main''), (''action'', Str ''restart_backend''),
        (''confirmation'', Str ''RESTART'')])),
     js_sha256_hex = id, js_hash = id,
     js_rpc = (\<lambda>name args. if name = ''resolve_discord_console_session''
       then Some (Arr [Obj [(''session_id'', Str ''s''), (''discord_user_id'', Str ''1''),
         (''discord_username'', Str ''u''), (''discord_global_name'', Null), (''discord_avatar_hash'', Null),
         (''guild_id'', Str ''g''), (''matched_role_ids'', Arr []), (''console_role'', Str ''operator''),
         (''created_at'', Str ''a''), (''expires_at'', Str ''b'')]])
       else None) \<rparr>"

definition sample_job_request :: job_request where
  "sample_job_request = \<lparr> rq_header = map_of
       [(''origin'', ''https://c''), (''host'', ''c''), (''content-type'', ''application/json''),
        (''idempotency-key'', replicate 16 CHR ''k'')],
     rq_cookie = map_of [(DISCORD_SESSION_COOKIE, replicate 40 CHR ''t'')],
     rq_origin = ''https://c'', rq_body = Some [[1, 2], [3]] \<rparr>"

lemma sample_job_parts:
  "validateRequestOrigin sample_jobs sample_job_request"
  "\<exists>d. resolveSession sample_jobs sample_job_request = Some (Some d) \<and> ds_consoleRole d = Operator"
  "readLimitedJson sample_jobs sample_job_request = BodyJson (Obj [(''target'', Str ''mc-main''),
     (''action'', Str ''restart_backend''), (''confirmation'', Str ''RESTART'')])"
proof -
  show "validateRequestOrigin sample_jobs sample_job_request"
    by (simp add: validateRequestOrigin_def trustedOrigin_def sample_jobs_def sample_job_request_def sample_site_def js_eval)
  show "\<exists>d. resolveSession sample_jobs sample_job_request = Some (Some d) \<and> ds_consoleRole d = Operator"
    by (simp add: resolveSession_def sample_jobs_def sample_job_request_def getDiscordAuthMode_def
        resolveDiscordConsoleSession_def token_length_ok_def parseSessionRow_def nullable_string_def
        DiscordAuth.isConsoleRole_def js_eval)
  show "readLimitedJson sample_jobs sample_job_request = BodyJson (Obj [(''target'', Str ''mc-main''),
     (''action'', Str ''restart_backend''), (''confirmation'', Str ''RESTART'')])"
    by (simp add: readLimitedJson_def declared_too_large_def declared_length_def json_content_def MAX_BODY_BYTES_def
        sample_jobs_def sample_job_request_def read_chunks_iff to_lower_def lower_char_def js_eval)
qed

lemma queued_operation_is_authorised_witness:
  "\<exists>input role phrase. jr_enqueued (jobs_post sample_jobs sample_job_request ''r'') = [input] \<and>
     eq_action input = RestartBackend \<and> operation_rule RestartBackend = Some (role, phrase) \<and>
     confirmed phrase (Str ''RESTART'') \<and> 16 \<le> length (eq_idempotencyKeyHash input)"
proof -
  obtain d where d: "resolveSession sample_jobs sample_job_request = Some (Some d)" "ds_consoleRole d = Operator"
    using sample_job_parts(2) by blast
  have enabled: "map_option (to_lower \<circ> trim) (js_env sample_jobs ''IVRM_OPERATION_REQUESTS_ENABLED'') = Some ''true''"
    by (simp add: sample_jobs_def to_lower_def lower_char_def js_eval)
  have action: "job_action (Str ''restart_backend'') = Some RestartBackend"
    by (simp add: job_action_def isAction_def isOperationType_def MC_MAIN_OPERATION_ACTIONS_def
        OPERATION_DEFINITIONS_def define_operation_def operation_text_def)
  have key: "validateIdempotencyKey (rq_header sample_job_request ''idempotency-key'') = Some (replicate 16 CHR ''k'')"
    by (simp add: validateIdempotencyKey_def sample_job_request_def js_eval)
  have checks: "roleAllows Operator RestartBackend" "validateOperationConfirmation RestartBackend (Str ''RESTART'')"
    using role_rule [of RestartBackend] confirmation_rule [of RestartBackend]
    by (simp_all add: operation_rule_def confirmed_def)
  obtain input where i: "jr_enqueued (jobs_post sample_jobs sample_job_request ''r'') = [input]"
      "eq_action input = RestartBackend"
    by (simp add: jobs_post_def sample_job_parts enabled d job_body_def BODY_KEYS_def prop_or_def
        MC_MAIN_OPERATION_TARGET_def action checks key validateOperationPayload_def nullish_def)
  then have "input \<in> set (jr_enqueued (jobs_post sample_jobs sample_job_request ''r''))" by simp
  moreover have "js_sha256_hex sample_jobs k = k" for k by (simp add: sample_jobs_def)
  ultimately show ?thesis
    using queued_operation_is_authorised [of input sample_jobs sample_job_request "''r''"] i
    by (auto simp: sample_job_parts prop_or_def)
qed

definition sample_agent :: agent_services where
  "sample_agent = \<lparr> sv_env = map_of [(''IVRM_AGENT_SECRETS_JSON'', ''j'')],
     sv_crypto = sample_agent_crypto,
     sv_parse_json = (\<lambda>_. Some (Obj [(MC_MAIN_OPERATION_SERVER_ID, Str (replicate 32 CHR ''k''))])),
     sv_decode_json = (\<lambda>_. Some (Obj [(''serverId'', Str MC_MAIN_OPERATION_SERVER_ID), (''leaseOwner'', Str ''worker'')])),
     sv_rpc = (\<lambda>name args. if name = ''accept_operation_agent_request'' then Some (Bool True) else Some (Arr [])) \<rparr>"

abbreviation sample_agent_header :: header_reader where
  "sample_agent_header \<equiv> sample_header MC_MAIN_OPERATION_SERVER_ID"

lemma sample_secrets:
  "parseAgentSecretMaps (sv_parse_json sample_agent) (sv_env sample_agent ''IVRM_AGENT_SECRETS_JSON'')
     (sv_env sample_agent ''IVRM_AGENT_SECRETS_ADDITIONAL_JSON'') =
   Inr [(MC_MAIN_OPERATION_SERVER_ID, replicate 32 CHR ''k'')]"
  by (simp add: parseAgentSecretMaps_def parseAgentSecretMap_def sample_agent_def MC_MAIN_OPERATION_SERVER_ID_def js_eval)

lemma sample_agent_authenticates:
  "authenticateOperationAgent (sv_crypto sample_agent) (sv_parse_json sample_agent) (sv_env sample_agent)
     sample_agent_header raw MC_MAIN_OPERATION_SERVER_ID 1700000000000 =
   Inr (replicate 32 CHR ''a'', replicate 64 CHR ''0'')"
proof -
  have "sv_crypto sample_agent = sample_agent_crypto" "SERVER_ID_PATTERN MC_MAIN_OPERATION_SERVER_ID"
    by (simp_all add: sample_agent_def MC_MAIN_OPERATION_SERVER_ID_def js_eval)
  then show ?thesis
    by (simp add: authenticateOperationAgent_def sample_secrets authenticateOperationAgentWithSecrets_def Let_def
        sample_header_id sample_check)
qed

lemma agent_call_is_authentic_witness:
  "\<exists>inputs secrets. claim_post sample_agent ''r'' sample_agent_header (Some [[1]]) 1700000000000 =
       (Performed None, ''worker'' # inputs) \<and> inputs = [] \<and>
     authentic (sv_crypto sample_agent) sample_agent_header [1] MC_MAIN_OPERATION_SERVER_ID secrets 1700000000000"
proof -
  have body: "readOperationAgentBody sample_agent_header (Some [[1]]) = Inr [1]"
    by (simp add: readOperationAgentBody_def sample_header_json declared_too_large_def
        MAX_OPERATION_AGENT_BODY_BYTES_def read_chunks_iff)
  have decoded: "parseOperationAgentJson (sv_decode_json sample_agent) [1] =
      Inr (Obj [(''serverId'', Str MC_MAIN_OPERATION_SERVER_ID), (''leaseOwner'', Str ''worker'')])"
    by (simp add: parseOperationAgentJson_def sample_agent_def)
  have valid: "claim_body (Obj [(''serverId'', Str MC_MAIN_OPERATION_SERVER_ID), (''leaseOwner'', Str ''worker'')]) = Some ''worker''"
    by (simp add: claim_body_def text_matching_def LEASE_OWNER_PATTERN_def js_eval)
  have rpc: "acceptOperationAgentRequest (sv_rpc sample_agent) MC_MAIN_OPERATION_SERVER_ID ''claim'' n h = Some True"
    "claimMcMainOperationJob (sv_rpc sample_agent) MC_MAIN_OPERATION_SERVER_ID l r = Some None" for n h l r
    by (simp_all add: acceptOperationAgentRequest_def claimMcMainOperationJob_def sample_agent_def)
  have run: "agent_route sample_agent ''claim'' claim_body (\<lambda>leaseOwner. claimMcMainOperationJob (sv_rpc sample_agent)
      MC_MAIN_OPERATION_SERVER_ID leaseOwner ''r'') sample_agent_header (Some [[1]]) 1700000000000 =
      (Performed None, [''worker''])"
    by (simp add: agent_route_def body decoded valid sample_agent_authenticates rpc)
  from agent_call_is_authentic [OF run] body run show ?thesis
    by (auto simp: claim_post_def)
qed

end
