(* ===== verification/Maintenance.thy ===== *)
theory Maintenance
  imports Reliability OperationRoutes
begin

text \<open>
  Maintenance windows of the reliability centre (\<open>apps/web/lib/reliability-maintenance.ts\<close> and
  \<open>reliability-maintenance-validation.ts\<close>): reading the pages of windows and the targets, and the two
  mutations; and the route through which an administrator plans or cancels a window
  (\<open>apps/web/app/api/reliability/maintenance/route.ts\<close>). Database requests are parameters, \<open>None\<close> for a
  failure; what a mutation asks of the database is part of its result.
\<close>

section \<open>Validation\<close>

definition slo_service_text :: "slo_service \<Rightarrow> string" where
  "slo_service_text s =
     (case s of OverallService \<Rightarrow> ''overall'' | HostService \<Rightarrow> ''host'' | ContainerService \<Rightarrow> ''container''
      | BackupService \<Rightarrow> ''backup'')"

definition isReliabilitySloServiceId :: "string \<Rightarrow> slo_service option" where
  "isReliabilitySloServiceId v = List.find (\<lambda>s. slo_service_text s = v) SLO_SERVICE_IDS"

definition scope_text :: "maintenance_scope \<Rightarrow> string" where
  "scope_text s =
     (case s of ServiceScope \<Rightarrow> ''service'' | HostScope \<Rightarrow> ''host'' | ContainerScope \<Rightarrow> ''container''
      | BackupScope \<Rightarrow> ''backup'')"

definition isReliabilityMaintenanceScopeType :: "jsval \<Rightarrow> maintenance_scope option" where
  "isReliabilityMaintenanceScopeType value =
     (case value of
        Str s \<Rightarrow> List.find (\<lambda>x. scope_text x = s) [ServiceScope, HostScope, ContainerScope, BackupScope]
      | _ \<Rightarrow> None)"

definition isReliabilityBackupType :: "string \<Rightarrow> backup_type option" where
  "isReliabilityBackupType v =
     List.find (\<lambda>x. backup_type_text x = v) [WorldBackup, ConfigBackup, PermissionsBackup, FullBackup]"

section \<open>Windows\<close>

definition WINDOW_PAGE_SIZE :: nat where
  "WINDOW_PAGE_SIZE = 200"

definition MAX_WINDOW_PAGES :: nat where
  "MAX_WINDOW_PAGES = 25"

record host_label =
  hl_serverId :: string
  hl_displayName :: string
  hl_enabled :: bool

fun parse_hosts :: "jsval list \<Rightarrow> (string \<times> host_label) list \<Rightarrow> (string \<times> host_label) list option" where
  "parse_hosts [] hosts = Some hosts"
| "parse_hosts (item # items) hosts = do {
     rowId \<leftarrow> (if is_record item then as_string (get_prop item ''id'') else None);
     serverId \<leftarrow> as_string (get_prop item ''server_id'');
     displayName \<leftarrow> as_string (get_prop item ''display_name'');
     enabled \<leftarrow> (if get_prop item ''enabled'' = Undefined then Some True else as_bool (get_prop item ''enabled''));
     if \<not> UUID_PATTERN rowId then None
     else parse_hosts items (map_set rowId
       \<lparr> hl_serverId = serverId, hl_displayName = displayName, hl_enabled = enabled \<rparr> hosts)
   }"

definition parseHosts :: "jsval \<Rightarrow> (string \<times> host_label) list option" where
  "parseHosts payload = Option.bind (as_array payload) (\<lambda>items. parse_hosts items [])"

definition optional_text :: "(string \<Rightarrow> 'a option) \<Rightarrow> jsval \<Rightarrow> 'a option option" where
  \<comment> \<open>\<open>nullableString\<close> followed by the check of a present text\<close>
  "optional_text check v = nullable (\<lambda>x. Option.bind (as_string x) check) v"

definition satisfying :: "(string \<Rightarrow> bool) \<Rightarrow> string \<Rightarrow> string option" where
  "satisfying P s = (if P s then Some s else None)"

definition target_shape ::
  "maintenance_scope \<Rightarrow> slo_service option \<Rightarrow> string option \<Rightarrow> string option \<Rightarrow> string option \<Rightarrow>
   string option \<Rightarrow> backup_type option \<Rightarrow> bool" where
  \<comment> \<open>\<open>shapeValid\<close>: exactly the fields that the scope needs\<close>
  "target_shape scope service hostId container target mode type =
     (case scope of
        ServiceScope \<Rightarrow> service \<noteq> None \<and> hostId = None \<and> container = None \<and> target = None \<and> mode = None \<and> type = None
      | HostScope \<Rightarrow> service = None \<and> hostId \<noteq> None \<and> container = None \<and> target = None \<and> mode = None \<and> type = None
      | ContainerScope \<Rightarrow> service = None \<and> hostId \<noteq> None \<and> container \<noteq> None \<and> target = None \<and> mode = None \<and> type = None
      | BackupScope \<Rightarrow> service = None \<and> hostId \<noteq> None \<and> container = None \<and> target \<noteq> None \<and> mode \<noteq> None \<and> type \<noteq> None)"

definition parseWindow :: "jsval \<Rightarrow> (string \<times> host_label) list \<Rightarrow> maintenance_window option" where
  "parseWindow row hosts = do {
     startsAt \<leftarrow> read_timestamp (get_prop row ''starts_at'');
     endsAt \<leftarrow> read_timestamp (get_prop row ''ends_at'');
     cancelledAt \<leftarrow> nullable read_timestamp (get_prop row ''cancelled_at'');
     createdAt \<leftarrow> read_timestamp (get_prop row ''created_at'');
     rowId \<leftarrow> Option.bind (as_string (get_prop row ''id'')) (satisfying UUID_PATTERN);
     scope \<leftarrow> isReliabilityMaintenanceScopeType (get_prop row ''scope_type'');
     reason \<leftarrow> Option.bind (as_string (get_prop row ''reason''))
       (satisfying (\<lambda>s. 1 \<le> length s \<and> length s \<le> 200));
     serviceId \<leftarrow> optional_text isReliabilitySloServiceId (get_prop row ''service_id'');
     hostId \<leftarrow> optional_text (satisfying UUID_PATTERN) (get_prop row ''host_id'');
     containerName \<leftarrow> optional_text (satisfying CONTAINER_IDENTIFIER_PATTERN) (get_prop row ''container_name'');
     backupTarget \<leftarrow> optional_text (satisfying TARGET_NAME_PATTERN) (get_prop row ''backup_target'');
     gameMode \<leftarrow> optional_text (satisfying TARGET_NAME_PATTERN) (get_prop row ''game_mode'');
     backupType \<leftarrow> optional_text isReliabilityBackupType (get_prop row ''backup_type'');
     if \<not> target_shape scope serviceId hostId containerName backupTarget gameMode backupType then None
     else (let host = Option.bind (nonempty hostId) (map_of hosts)
           in Some \<lparr> mw_id = rowId, mw_scopeType = scope, mw_serviceId = serviceId, mw_hostId = hostId,
                mw_serverId = map_option hl_serverId host, mw_hostDisplayName = map_option hl_displayName host,
                mw_containerName = containerName, mw_backupTarget = backupTarget, mw_gameMode = gameMode,
                mw_backupType = backupType, mw_startsAt = startsAt, mw_endsAt = endsAt, mw_reason = reason,
                mw_cancelledAt = cancelledAt, mw_createdAt = createdAt \<rparr>)
   }"

text \<open>
  The loop over the pages: \<open>fetch page\<close> is the page at offset \<open>page * WINDOW_PAGE_SIZE\<close>; a short page
  ends the loop, and a full last page is refused, so a result is never cut short.
\<close>

fun window_pages :: "(nat \<Rightarrow> jsval option) \<Rightarrow> nat \<Rightarrow> nat \<Rightarrow> jsval list \<Rightarrow> jsval list option" where
  "window_pages fetch page 0 rows = None"
| "window_pages fetch page (Suc n) rows = do {
     payload \<leftarrow> fetch page;
     items \<leftarrow> as_array payload;
     if \<not> list_all is_record items then None
     else if length items < WINDOW_PAGE_SIZE then Some (rows @ items)
     else window_pages fetch (Suc page) n (rows @ items)
   }"

record window_query =
  wq_startsBefore :: string
  wq_endsAfter :: string
  wq_limit :: nat
  wq_offset :: nat

definition getWindowRows ::
  "(window_query \<Rightarrow> jsval option) \<Rightarrow> string \<Rightarrow> string \<Rightarrow> jsval list option" where
  "getWindowRows query rangeStart horizon =
     window_pages (\<lambda>page. query \<lparr> wq_startsBefore = horizon, wq_endsAfter = rangeStart,
       wq_limit = WINDOW_PAGE_SIZE, wq_offset = page * WINDOW_PAGE_SIZE \<rparr>) 0 MAX_WINDOW_PAGES []"

definition window_relevant :: "int \<Rightarrow> int \<Rightarrow> maintenance_window \<Rightarrow> bool" where
  "window_relevant rangeStart generatedAt w \<longleftrightarrow>
     (let effectiveEnd = (case nonempty (mw_cancelledAt w) of
            None \<Rightarrow> ms_of (mw_endsAt w)
          | Some c \<Rightarrow> min (ms_of (mw_endsAt w)) (ms_of c))
      in effectiveEnd > rangeStart \<or> ms_of (mw_startsAt w) > generatedAt)"

definition getReliabilityMaintenanceWindows ::
  "(window_query \<Rightarrow> jsval option) \<Rightarrow> jsval option \<Rightarrow> string \<Rightarrow> string \<Rightarrow> int option \<Rightarrow> maintenance_window list option" where
  "getReliabilityMaintenanceWindows query hostsPayload rangeStart generatedAt upcomingDays = do {
     rangeStartMs \<leftarrow> Date_parse rangeStart;
     generatedAtMs \<leftarrow> Date_parse generatedAt;
     let days = min (max (case upcomingDays of None \<Rightarrow> 30 | Some d \<Rightarrow> d) 1) 90;
     horizon \<leftarrow> Date_toISOString (generatedAtMs + days * 86400000);
     rows \<leftarrow> getWindowRows query rangeStart horizon;
     hosts \<leftarrow> Option.bind hostsPayload parseHosts;
     windows \<leftarrow> map_rows (\<lambda>row. parseWindow row hosts) rows;
     Some (filter (window_relevant rangeStartMs generatedAtMs) windows)
   }"

section \<open>Targets\<close>

record host_target =
  ht_hostId :: string
  ht_serverId :: string
  ht_displayName :: string

record container_target =
  ct_hostId :: string
  ct_serverId :: string
  ct_hostDisplayName :: string
  ct_containerName :: string

record backup_target_row =
  bq_hostId :: string
  bq_serverId :: string
  bq_hostDisplayName :: string
  bq_backupTarget :: string
  bq_gameMode :: string
  bq_backupType :: backup_type

record target_catalog =
  tc_hosts :: "host_target list"
  tc_containers :: "container_target list"
  tc_backups :: "backup_target_row list"

definition add_target :: "target_catalog \<Rightarrow> jsval \<Rightarrow> target_catalog option" where
  "add_target c row =
     (if \<not> is_record row then None
      else do {
        scope \<leftarrow> isReliabilityMaintenanceScopeType (get_prop row ''scope_type'');
        hostId \<leftarrow> Option.bind (as_string (get_prop row ''host_id'')) (satisfying UUID_PATTERN);
        serverId \<leftarrow> as_string (get_prop row ''server_id'');
        displayName \<leftarrow> as_string (get_prop row ''host_display_name'');
        let absent = (\<lambda>k. get_prop row k = Null);
        case scope of
          ServiceScope \<Rightarrow> None
        | HostScope \<Rightarrow>
            if \<not> (absent ''container_name'' \<and> absent ''backup_target'' \<and> absent ''game_mode'' \<and> absent ''backup_type'')
            then None
            else Some (c \<lparr> tc_hosts := tc_hosts c @
              [\<lparr> ht_hostId = hostId, ht_serverId = serverId, ht_displayName = displayName \<rparr>] \<rparr>)
        | ContainerScope \<Rightarrow> do {
            name \<leftarrow> Option.bind (as_string (get_prop row ''container_name'')) (satisfying CONTAINER_IDENTIFIER_PATTERN);
            if \<not> (absent ''backup_target'' \<and> absent ''game_mode'' \<and> absent ''backup_type'') then None
            else Some (c \<lparr> tc_containers := tc_containers c @
              [\<lparr> ct_hostId = hostId, ct_serverId = serverId, ct_hostDisplayName = displayName,
                 ct_containerName = name \<rparr>] \<rparr>)
          }
        | BackupScope \<Rightarrow> do {
            target \<leftarrow> Option.bind (as_string (get_prop row ''backup_target'')) (satisfying TARGET_NAME_PATTERN);
            mode \<leftarrow> Option.bind (as_string (get_prop row ''game_mode'')) (satisfying TARGET_NAME_PATTERN);
            type \<leftarrow> Option.bind (as_string (get_prop row ''backup_type'')) isReliabilityBackupType;
            if \<not> absent ''container_name'' then None
            else Some (c \<lparr> tc_backups := tc_backups c @
              [\<lparr> bq_hostId = hostId, bq_serverId = serverId, bq_hostDisplayName = displayName,
                 bq_backupTarget = target, bq_gameMode = mode, bq_backupType = type \<rparr>] \<rparr>)
          }
      })"

fun add_targets :: "target_catalog \<Rightarrow> jsval list \<Rightarrow> target_catalog option" where
  "add_targets c [] = Some c"
| "add_targets c (row # rows) = Option.bind (add_target c row) (\<lambda>c'. add_targets c' rows)"

definition getReliabilityMaintenanceTargets :: "(string \<Rightarrow> jsval \<Rightarrow> jsval option) \<Rightarrow> target_catalog option" where
  "getReliabilityMaintenanceTargets rpc = do {
     payload \<leftarrow> rpc ''list_reliability_maintenance_targets_v1'' (Obj []);
     rows \<leftarrow> as_array payload;
     add_targets \<lparr> tc_hosts = [], tc_containers = [], tc_backups = [] \<rparr> rows
   }"

section \<open>Mutations\<close>

record actor =
  ac_email :: "string option"
  ac_discordUserId :: "string option"
  ac_role :: console_role

definition validateIdentity :: "actor \<Rightarrow> bool" where
  "validateIdentity a \<longleftrightarrow>
     (case ac_discordUserId a of None \<Rightarrow> True | Some d \<Rightarrow> SNOWFLAKE_PATTERN d) \<and>
     (nonempty (ac_email a) \<noteq> None \<or> nonempty (ac_discordUserId a) \<noteq> None)"

record database =
  db_rpc :: "string \<Rightarrow> jsval \<Rightarrow> jsval option"
  db_hosts :: "jsval option"

type_synonym rpc_call = "string \<times> jsval"

definition callMutationRpc ::
  "database \<Rightarrow> string \<Rightarrow> jsval \<Rightarrow> maintenance_window option \<times> rpc_call list" where
  \<comment> \<open>a failure to read the hosts leaves the labels empty\<close>
  "callMutationRpc db name body =
     (do {
        payload \<leftarrow> db_rpc db name body;
        rows \<leftarrow> as_array payload;
        row \<leftarrow> (case rows of [r] \<Rightarrow> Some r | _ \<Rightarrow> None);
        if \<not> is_record row then None
        else parseWindow row (case Option.bind (db_hosts db) parseHosts of None \<Rightarrow> [] | Some hosts \<Rightarrow> hosts)
      }, [(name, body)])"

definition or_null :: "string option \<Rightarrow> jsval" where
  "or_null v = (case v of None \<Rightarrow> Null | Some s \<Rightarrow> Str s)"

definition role_text :: "console_role \<Rightarrow> string" where
  "role_text r = (case r of Viewer \<Rightarrow> ''viewer'' | Operator \<Rightarrow> ''operator'' | Administrator \<Rightarrow> ''administrator''
     | Owner \<Rightarrow> ''owner'')"

record maintenance_target =
  mt_serviceId :: "slo_service option"
  mt_hostId :: "string option"
  mt_containerName :: "string option"
  mt_backupTarget :: "string option"
  mt_gameMode :: "string option"
  mt_backupType :: "backup_type option"

record create_input =
  ci_scopeType :: maintenance_scope
  ci_target :: maintenance_target
  ci_startsAt :: string
  ci_endsAt :: string
  ci_reason :: string
  ci_idempotencyKey :: string
  ci_actor :: actor

definition create_body :: "create_input \<Rightarrow> jsval" where
  "create_body i =
     Obj [(''p_scope_type'', Str (scope_text (ci_scopeType i))),
       (''p_service_id'', or_null (map_option slo_service_text (mt_serviceId (ci_target i)))),
       (''p_host_id'', or_null (mt_hostId (ci_target i))),
       (''p_container_name'', or_null (mt_containerName (ci_target i))),
       (''p_backup_target'', or_null (mt_backupTarget (ci_target i))),
       (''p_game_mode'', or_null (mt_gameMode (ci_target i))),
       (''p_backup_type'', or_null (map_option backup_type_text (mt_backupType (ci_target i)))),
       (''p_starts_at'', Str (ci_startsAt i)), (''p_ends_at'', Str (ci_endsAt i)),
       (''p_reason'', Str (trim (ci_reason i))), (''p_idempotency_key'', Str (ci_idempotencyKey i)),
       (''p_actor_email'', or_null (ac_email (ci_actor i))),
       (''p_actor_role'', Str (role_text (ac_role (ci_actor i)))),
       (''p_actor_discord_user_id'', or_null (ac_discordUserId (ci_actor i)))]"

definition createReliabilityMaintenanceWindow ::
  "database \<Rightarrow> create_input \<Rightarrow> maintenance_window option \<times> rpc_call list" where
  "createReliabilityMaintenanceWindow db i =
     (if \<not> validateIdentity (ci_actor i) \<or> \<not> UUID_PATTERN (ci_idempotencyKey i) \<or>
         Date_parse (ci_startsAt i) = None \<or> Date_parse (ci_endsAt i) = None \<or>
         length (trim (ci_reason i)) < 1 \<or> length (trim (ci_reason i)) > 200
      then (None, [])
      else callMutationRpc db ''create_reliability_maintenance_window_v2'' (create_body i))"

definition cancelReliabilityMaintenanceWindow ::
  "database \<Rightarrow> string \<Rightarrow> string \<Rightarrow> actor \<Rightarrow> maintenance_window option \<times> rpc_call list" where
  "cancelReliabilityMaintenanceWindow db windowId requestId a =
     (if \<not> validateIdentity a \<or> \<not> UUID_PATTERN requestId \<or> \<not> UUID_PATTERN windowId then (None, [])
      else callMutationRpc db ''cancel_reliability_maintenance_window_v1''
        (Obj [(''p_window_id'', Str windowId), (''p_request_id'', Str requestId),
          (''p_actor_email'', or_null (ac_email a)), (''p_actor_role'', Str (role_text (ac_role a))),
          (''p_actor_discord_user_id'', or_null (ac_discordUserId a))]))"

section \<open>The route\<close>

definition MAX_MAINTENANCE_BODY_BYTES :: nat where
  "MAX_MAINTENANCE_BODY_BYTES = 8192"

definition MAX_DURATION_MS :: int where
  "MAX_DURATION_MS = 7 * 86400000"

definition JST_OFFSET_MS :: int where
  "JST_OFFSET_MS = 9 * 3600000"

fun str_includes :: "string \<Rightarrow> string \<Rightarrow> bool" where
  \<comment> \<open>\<open>s.includes(p)\<close>\<close>
  "str_includes p [] = (p = [])"
| "str_includes p (c # cs) = (starts_with p (c # cs) \<or> str_includes p cs)"

record form_services =
  fs_decode_text :: "byte list \<Rightarrow> string option"  \<comment> \<open>UTF-8, \<open>None\<close> for ill-formed bytes\<close>
  fs_parse_json :: "string \<Rightarrow> jsval option"
  fs_parse_form :: "string \<Rightarrow> (string \<times> string) list"  \<comment> \<open>\<open>URLSearchParams\<close>\<close>

record form_request =
  fr_header :: reader
  fr_origin :: string  \<comment> \<open>\<open>request.nextUrl.origin\<close>\<close>
  fr_body :: "byte list list option"

datatype body_result = FormOk jsval | FormInvalid | FormTooLarge

definition length_declared_too_large :: "nat \<Rightarrow> reader \<Rightarrow> bool" where
  "length_declared_too_large limit header \<longleftrightarrow>
     (case nonempty (header ''content-length'') of
        None \<Rightarrow> False
      | Some s \<Rightarrow> (case to_number (Str s) of Fin n \<Rightarrow> n > of_nat limit | _ \<Rightarrow> False))"

definition FORM_FIELDS :: "string list" where
  "FORM_FIELDS = [''action'', ''scopeType'', ''targetKey'', ''startsAt'', ''endsAt'', ''reason'']"

definition form_body :: "(string \<times> string) list \<Rightarrow> jsval" where
  "form_body form =
     (let field = (\<lambda>k. (k, or_null (map_of form k)))
      in Obj (map field FORM_FIELDS @ [(''acknowledged'', Bool (map_of form ''acknowledged'' \<noteq> None))] @
           map field [''idempotencyKey'', ''windowId'', ''range'']))"

definition readLimitedText :: "form_services \<Rightarrow> form_request \<Rightarrow> body_result + string" where
  "readLimitedText s r =
     (if length_declared_too_large MAX_MAINTENANCE_BODY_BYTES (fr_header r) then Inl FormTooLarge
      else (case fr_body r of
              None \<Rightarrow> Inr []
            | Some chunks \<Rightarrow>
                (case read_chunks MAX_MAINTENANCE_BODY_BYTES 0 chunks of
                   None \<Rightarrow> Inl FormTooLarge
                 | Some read \<Rightarrow>
                     (case fs_decode_text s (concat read) of None \<Rightarrow> Inl FormInvalid | Some text \<Rightarrow> Inr text))))"

definition readBody :: "form_services \<Rightarrow> form_request \<Rightarrow> body_result" where
  "readBody s r =
     (case readLimitedText s r of
        Inl failure \<Rightarrow> failure
      | Inr text \<Rightarrow>
          (let contentType = (case fr_header r ''content-type'' of None \<Rightarrow> [] | Some c \<Rightarrow> to_lower c)
           in if str_includes ''application/json'' contentType
              then (case fs_parse_json s text of
                      Some (Obj entries) \<Rightarrow> FormOk (Obj entries)
                    | _ \<Rightarrow> FormInvalid)
              else if str_includes ''application/x-www-form-urlencoded'' contentType
              then FormOk (form_body (fs_parse_form s text))
              else FormInvalid))"

definition empty_target :: maintenance_target where
  "empty_target = \<lparr> mt_serviceId = None, mt_hostId = None, mt_containerName = None, mt_backupTarget = None,
     mt_gameMode = None, mt_backupType = None \<rparr>"

definition parseTarget :: "maintenance_scope \<Rightarrow> jsval \<Rightarrow> maintenance_target option" where
  "parseTarget scope value = do {
     text \<leftarrow> as_string value;
     if length text < 1 \<or> length text > 400 then None
     else (let parts = split_on CHR ''/'' text
           in case scope of
                ServiceScope \<Rightarrow>
                  if length parts \<noteq> 1 then None
                  else map_option (\<lambda>s. empty_target \<lparr> mt_serviceId := Some s \<rparr>) (isReliabilitySloServiceId text)
              | HostScope \<Rightarrow>
                  if length parts \<noteq> 1 \<or> \<not> UUID_PATTERN text then None
                  else Some (empty_target \<lparr> mt_hostId := Some text \<rparr>)
              | ContainerScope \<Rightarrow>
                  (case parts of
                     [host, name] \<Rightarrow>
                       if \<not> UUID_PATTERN host \<or> \<not> CONTAINER_IDENTIFIER_PATTERN name then None
                       else Some (empty_target \<lparr> mt_hostId := Some host, mt_containerName := Some name \<rparr>)
                   | _ \<Rightarrow> None)
              | BackupScope \<Rightarrow>
                  (case parts of
                     [host, target, mode, type] \<Rightarrow>
                       if \<not> UUID_PATTERN host \<or> \<not> TARGET_NAME_PATTERN target \<or> \<not> TARGET_NAME_PATTERN mode then None
                       else map_option (\<lambda>t. empty_target \<lparr> mt_hostId := Some host, mt_backupTarget := Some target,
                              mt_gameMode := Some mode, mt_backupType := Some t \<rparr>) (isReliabilityBackupType type)
                   | _ \<Rightarrow> None))
   }"

definition has_zone :: "string \<Rightarrow> bool" where
  \<comment> \<open>\<open>/Z$|[+-]\d{2}:\d{2}$/\<close>\<close>
  "has_zone s \<longleftrightarrow>
     ends_with ''Z'' s \<or>
     (6 \<le> length s \<and>
      (case drop (length s - 6) s of
         [g, a, b, c, d, e] \<Rightarrow> g \<in> set ''+-'' \<and> c = CHR '':'' \<and> list_all is_digit [a, b, d, e]
       | _ \<Rightarrow> False))"

definition local_parts :: "string \<Rightarrow> (int \<times> int \<times> int \<times> int \<times> int) option" where
  \<comment> \<open>\<open>/^(\d{4})-(\d{2})-(\d{2})T(\d{2}):(\d{2})$/\<close>\<close>
  "local_parts s = do {
     (y, r1) \<leftarrow> take_digits 4 s;
     (m, r2) \<leftarrow> take_after CHR ''-'' r1;
     (d, r3) \<leftarrow> take_after CHR ''-'' r2;
     (h, r4) \<leftarrow> take_after CHR ''T'' r3;
     (mi, r5) \<leftarrow> take_after CHR '':'' r4;
     if r5 = [] then Some (y, m, d, h, mi) else None
   }"

definition Date_UTC :: "int \<Rightarrow> int \<Rightarrow> int \<Rightarrow> int \<Rightarrow> int \<Rightarrow> int" where
  \<comment> \<open>a year below 100 is one of the twentieth century\<close>
  "Date_UTC y m d h mi =
     days_from_civil (if 0 \<le> y \<and> y \<le> 99 then 1900 + y else y) m d * 86400000 + h * 3600000 + mi * 60000"

definition parseDateTime :: "jsval \<Rightarrow> string option" where
  "parseDateTime value =
     (case as_string value of
        None \<Rightarrow> None
      | Some raw \<Rightarrow>
          if length raw > 40 then None
          else (let text = trim raw
                in if has_zone text then Option.bind (Date_parse text) Date_toISOString
                   else (case local_parts text of
                           None \<Rightarrow> None
                         | Some (y, m, d, h, mi) \<Rightarrow>
                             if m < 1 \<or> m > 12 \<or> d < 1 \<or> d > 31 \<or> h < 0 \<or> h > 23 \<or> mi < 0 \<or> mi > 59 then None
                             else (let timestamp = Date_UTC y m d h mi - JST_OFFSET_MS;
                                       check = timestamp + JST_OFFSET_MS
                                   in if civil_from_days (check div 86400000) \<noteq> (y, m, d) \<or>
                                         check mod 86400000 div 3600000 \<noteq> h \<or>
                                         check mod 3600000 div 60000 \<noteq> mi then None
                                      else Date_toISOString timestamp))))"

lemma parseDateTime_local:
  assumes "length raw \<le> 40" and "\<not> has_zone (trim raw)" and "local_parts (trim raw) = Some (y, m, d, h, mi)"
    and "\<not> (m < 1 \<or> m > 12 \<or> d < 1 \<or> d > 31 \<or> h < 0 \<or> h > 23 \<or> mi < 0 \<or> mi > 59)"
    and "Date_UTC y m d h mi = v" and "civil_from_days (v div 86400000) = (y, m, d)"
    and "v mod 86400000 div 3600000 = h" and "v mod 3600000 div 60000 = mi"
  shows "parseDateTime (Str raw) = Date_toISOString (v - JST_OFFSET_MS)"
proof -
  have "\<not> length raw > 40" "v - JST_OFFSET_MS + JST_OFFSET_MS = v" using assms(1) by simp_all
  with assms(2-8) show ?thesis
    by (simp only: parseDateTime_def Let_def as_string.simps option.case prod.case if_False simp_thms)
qed

definition acknowledgement :: "jsval \<Rightarrow> bool" where
  "acknowledgement value \<longleftrightarrow> value \<in> {Bool True, Str ''true'', Str ''1'', Str ''on''}"

datatype maintenance_reply =
    JsonError nat string
  | WindowReply nat maintenance_window
  | RedirectReply incident_range string

definition wantsJson :: "form_request \<Rightarrow> bool" where
  "wantsJson r \<longleftrightarrow> (case fr_header r ''accept'' of None \<Rightarrow> False | Some a \<Rightarrow> str_includes ''application/json'' a)"

definition refuse :: "form_request \<Rightarrow> incident_range \<Rightarrow> nat \<Rightarrow> string \<Rightarrow> string \<Rightarrow> maintenance_reply" where
  "refuse r rng status err outcome = (if wantsJson r then JsonError status err else RedirectReply rng outcome)"

definition answer ::
  "form_request \<Rightarrow> incident_range \<Rightarrow> nat \<Rightarrow> string \<Rightarrow> string \<Rightarrow> maintenance_window option \<times> rpc_call list \<Rightarrow>
   maintenance_reply \<times> rpc_call list" where
  \<comment> \<open>the end of both mutations\<close>
  "answer r rng status completed failed result =
     ((case fst result of
         Some w \<Rightarrow> if wantsJson r then WindowReply status w else RedirectReply rng completed
       | None \<Rightarrow> refuse r rng 503 failed ''mutation_failed''), snd result)"

definition text_or_empty :: "jsval \<Rightarrow> string" where
  "text_or_empty v = (case as_string v of None \<Rightarrow> [] | Some s \<Rightarrow> s)"

definition times_invalid :: "int \<Rightarrow> int \<Rightarrow> int \<Rightarrow> bool" where
  "times_invalid startMs endMs now \<longleftrightarrow>
     endMs \<le> startMs \<or> endMs - startMs > MAX_DURATION_MS \<or> startMs < now - 5 * 60000 \<or>
     startMs > now + 365 * 86400000"

definition create_window ::
  "database \<Rightarrow> actor \<Rightarrow> int \<Rightarrow> form_request \<Rightarrow> incident_range \<Rightarrow> jsval \<Rightarrow> maintenance_reply \<times> rpc_call list" where
  "create_window db who now r rng body =
     (let reason = trim (text_or_empty (get_prop body ''reason''));
          idempotencyKey = text_or_empty (get_prop body ''idempotencyKey'');
          startsAt = parseDateTime (get_prop body ''startsAt'');
          endsAt = parseDateTime (get_prop body ''endsAt'')
      in case isReliabilityMaintenanceScopeType (get_prop body ''scopeType'') of
           None \<Rightarrow> (refuse r rng 400 ''maintenance_target_invalid'' ''target_invalid'', [])
         | Some scope \<Rightarrow>
             (case parseTarget scope (get_prop body ''targetKey'') of
                None \<Rightarrow> (refuse r rng 400 ''maintenance_target_invalid'' ''target_invalid'', [])
              | Some target \<Rightarrow>
                  if \<not> UUID_PATTERN idempotencyKey
                  then (refuse r rng 400 ''maintenance_idempotency_key_invalid'' ''idempotency_invalid'', [])
                  else if \<not> acknowledgement (get_prop body ''acknowledged'')
                  then (refuse r rng 400 ''maintenance_acknowledgement_required'' ''acknowledgement_required'', [])
                  else (case (startsAt, endsAt) of
                          (Some a, Some b) \<Rightarrow>
                            if times_invalid (ms_of a) (ms_of b) now
                            then (refuse r rng 400 ''maintenance_time_invalid'' ''time_invalid'', [])
                            else if length reason < 1 \<or> length reason > 200
                            then (refuse r rng 400 ''maintenance_reason_invalid'' ''reason_invalid'', [])
                            else answer r rng 201 ''created'' ''maintenance_create_failed''
                              (createReliabilityMaintenanceWindow db
                                \<lparr> ci_scopeType = scope, ci_target = target, ci_startsAt = a, ci_endsAt = b,
                                  ci_reason = reason, ci_idempotencyKey = idempotencyKey, ci_actor = who \<rparr>)
                        | _ \<Rightarrow> (refuse r rng 400 ''maintenance_time_invalid'' ''time_invalid'', []))))"

definition cancel_window ::
  "database \<Rightarrow> actor \<Rightarrow> string \<Rightarrow> form_request \<Rightarrow> incident_range \<Rightarrow> jsval \<Rightarrow> maintenance_reply \<times> rpc_call list" where
  "cancel_window db who requestId r rng body =
     (let windowId = text_or_empty (get_prop body ''windowId'')
      in if \<not> UUID_PATTERN windowId then (refuse r rng 400 ''window_id_invalid'' ''window_invalid'', [])
         else answer r rng 200 ''cancelled'' ''maintenance_cancel_failed''
           (cancelReliabilityMaintenanceWindow db windowId requestId who))"

definition administrator_of :: "console_session \<Rightarrow> console_role option" where
  "administrator_of session =
     (case cs_role session of
        None \<Rightarrow> None
      | Some role \<Rightarrow>
          if hasConsoleRole session Administrator \<and> (role = Administrator \<or> role = Owner) then Some role else None)"

definition same_origin :: "form_request \<Rightarrow> bool" where
  "same_origin r \<longleftrightarrow> nonempty (fr_header r ''origin'') = Some (fr_origin r)"

definition maintenance_post ::
  "form_services \<Rightarrow> database \<Rightarrow> console_session option \<Rightarrow> form_request \<Rightarrow> int \<Rightarrow> string \<Rightarrow>
   maintenance_reply \<times> rpc_call list" where
  \<comment> \<open>the session is \<open>None\<close> when reading it failed; the last argument is \<open>randomUUID()\<close>\<close>
  "maintenance_post s db sessionResult r now requestId =
     (if \<not> same_origin r then (JsonError 403 ''origin_mismatch'', [])
      else (case sessionResult of
              None \<Rightarrow> (JsonError 503 ''session_unavailable'', [])
            | Some session \<Rightarrow>
                (case administrator_of session of
                   None \<Rightarrow> (JsonError 403 ''administrator_role_required'', [])
                 | Some role \<Rightarrow>
                     (case readBody s r of
                        FormTooLarge \<Rightarrow> (JsonError 413 ''request_body_too_large'', [])
                      | FormInvalid \<Rightarrow> (JsonError 400 ''request_body_invalid'', [])
                      | FormOk body \<Rightarrow>
                          (let rng = parseIncidentRange (as_string (get_prop body ''range''));
                               who = \<lparr> ac_email = cs_email session, ac_discordUserId = cs_discordUserId session,
                                 ac_role = role \<rparr>
                           in if get_prop body ''action'' = Str ''cancel''
                              then cancel_window db who requestId r rng body
                              else if get_prop body ''action'' \<noteq> Str ''create''
                              then (JsonError 400 ''action_invalid'', [])
                              else create_window db who now r rng body)))))"

section \<open>What a mutation needs\<close>

lemma read_targets_shape:
  "parseTarget scope v = Some t \<Longrightarrow>
     target_shape scope (mt_serviceId t) (mt_hostId t) (mt_containerName t) (mt_backupTarget t) (mt_gameMode t)
       (mt_backupType t)"
  by (cases scope)
    (auto simp: parseTarget_def target_shape_def empty_target_def bind_eq_Some_conv Let_def
      split: if_splits list.splits)

lemma parsed_window_shape:
  "parseWindow row hosts = Some w \<Longrightarrow>
     target_shape (mw_scopeType w) (mw_serviceId w) (mw_hostId w) (mw_containerName w) (mw_backupTarget w)
       (mw_gameMode w) (mw_backupType w)"
  by (auto simp: parseWindow_def bind_eq_Some_conv Let_def split: if_splits)

lemma parseDateTime_SomeD: "parseDateTime v = Some s \<Longrightarrow> \<exists>t. s = iso_text t \<and> \<bar>t\<bar> \<le> max_time"
  by (auto simp: parseDateTime_def Let_def Date_toISOString_def bind_eq_Some_conv
      split: option.splits if_splits prod.splits)

lemma mutation_calls [simp]:
  "snd (callMutationRpc db name body) = [(name, body)]"
  "snd (answer r rng status d f result) = snd result"
  by (simp_all add: callMutationRpc_def answer_def)

lemma create_call:
  assumes "call \<in> set (snd (createReliabilityMaintenanceWindow db i))"
  shows "call = (''create_reliability_maintenance_window_v2'', create_body i) \<and> validateIdentity (ci_actor i)"
  using assms by (auto simp: createReliabilityMaintenanceWindow_def split: if_splits)

lemma cancel_call:
  assumes "call \<in> set (snd (cancelReliabilityMaintenanceWindow db windowId requestId who))"
  shows "fst call = ''cancel_reliability_maintenance_window_v1'' \<and> validateIdentity who \<and>
    get_prop (snd call) ''p_window_id'' = Str windowId \<and>
    get_prop (snd call) ''p_actor_role'' = Str (role_text (ac_role who))"
  using assms by (auto simp: cancelReliabilityMaintenanceWindow_def prop_or_def split: if_splits)

definition planned :: "int \<Rightarrow> actor \<Rightarrow> create_input \<Rightarrow> bool" where
  \<comment> \<open>a request that may reach the database: complete for its scope, at most seven days, from five minutes
    ago to a year ahead\<close>
  "planned now who i \<longleftrightarrow>
     ci_actor i = who \<and> UUID_PATTERN (ci_idempotencyKey i) \<and>
     (case ci_target i of t \<Rightarrow>
        target_shape (ci_scopeType i) (mt_serviceId t) (mt_hostId t) (mt_containerName t) (mt_backupTarget t)
          (mt_gameMode t) (mt_backupType t)) \<and>
     (case (Date_parse (ci_startsAt i), Date_parse (ci_endsAt i)) of
        (Some a, Some b) \<Rightarrow> a < b \<and> b - a \<le> MAX_DURATION_MS \<and> now - 300000 \<le> a \<and> a \<le> now + 31536000000
      | _ \<Rightarrow> False) \<and>
     1 \<le> length (ci_reason i) \<and> length (ci_reason i) \<le> 200"

lemma create_window_call:
  assumes "call \<in> set (snd (create_window db who now r rng body))"
  shows "\<exists>i. call = (''create_reliability_maintenance_window_v2'', create_body i) \<and> planned now who i \<and>
    validateIdentity who \<and> acknowledgement (get_prop body ''acknowledged'')"
proof -
  let ?key = "text_or_empty (get_prop body ''idempotencyKey'')"
  let ?reason = "trim (text_or_empty (get_prop body ''reason''))"
  from assms obtain scope target a b where
    target: "parseTarget scope (get_prop body ''targetKey'') = Some target"
    and times: "parseDateTime (get_prop body ''startsAt'') = Some a" "parseDateTime (get_prop body ''endsAt'') = Some b"
      "\<not> times_invalid (ms_of a) (ms_of b) now"
    and key: "UUID_PATTERN ?key" and ack: "acknowledgement (get_prop body ''acknowledged'')"
    and reason: "?reason \<noteq> []" "length ?reason \<le> 200"
    and call: "call \<in> set (snd (createReliabilityMaintenanceWindow db
      \<lparr> ci_scopeType = scope, ci_target = target, ci_startsAt = a, ci_endsAt = b, ci_reason = ?reason,
        ci_idempotencyKey = ?key, ci_actor = who \<rparr>))"
    by (auto simp: create_window_def Let_def not_less split: option.splits if_splits)
  let ?i = "\<lparr> ci_scopeType = scope, ci_target = target, ci_startsAt = a, ci_endsAt = b, ci_reason = ?reason,
      ci_idempotencyKey = ?key, ci_actor = who \<rparr>"
  from times(1,2) obtain t u where "a = iso_text t" "b = iso_text u" "\<bar>t\<bar> \<le> max_time" "\<bar>u\<bar> \<le> max_time"
    by (auto dest!: parseDateTime_SomeD)
  with times(3) key reason read_targets_shape [OF target] have "planned now who ?i"
    by (simp add: planned_def times_invalid_def Suc_le_eq)
  with create_call [OF call] ack show ?thesis by auto
qed

lemma administrator_of_SomeD:
  "administrator_of session = Some role \<Longrightarrow>
     cs_status session = Authenticated \<and> cs_role session = Some role \<and> role \<in> {Administrator, Owner}"
  by (auto simp: administrator_of_def hasConsoleRole_def split: option.splits if_splits)

text \<open>C7. A maintenance window is only planned or cancelled by an authenticated administrator or owner from
  the console's own origin, and only one database function is called. A planned window names exactly the
  fields of its scope, was acknowledged, has an end after its start, lasts at most seven days and starts
  between five minutes ago and a year ahead; the request records who made it.\<close>

theorem maintenance_change_is_authorised:
  assumes "call \<in> set (snd (maintenance_post s db sessionResult r now requestId))"
  shows "\<exists>session role who. sessionResult = Some session \<and> same_origin r \<and>
    cs_status session = Authenticated \<and> cs_role session = Some role \<and> role \<in> {Administrator, Owner} \<and>
    who = \<lparr> ac_email = cs_email session, ac_discordUserId = cs_discordUserId session, ac_role = role \<rparr> \<and>
    validateIdentity who \<and> snd (maintenance_post s db sessionResult r now requestId) = [call] \<and>
    ((\<exists>body i. readBody s r = FormOk body \<and> acknowledgement (get_prop body ''acknowledged'') \<and>
        call = (''create_reliability_maintenance_window_v2'', create_body i) \<and> planned now who i) \<or>
     (\<exists>w. fst call = ''cancel_reliability_maintenance_window_v1'' \<and> UUID_PATTERN w \<and>
        get_prop (snd call) ''p_window_id'' = Str w \<and>
        get_prop (snd call) ''p_actor_role'' = Str (role_text role)))"
proof -
  from assms obtain session role body where
    session: "sessionResult = Some session" "same_origin r" "administrator_of session = Some role"
    and body: "readBody s r = FormOk body"
    by (auto simp: maintenance_post_def split: if_splits option.splits body_result.splits)
  let ?who = "\<lparr> ac_email = cs_email session, ac_discordUserId = cs_discordUserId session, ac_role = role \<rparr>"
  let ?rng = "parseIncidentRange (as_string (get_prop body ''range''))"
  have post: "maintenance_post s db sessionResult r now requestId =
      (if get_prop body ''action'' = Str ''cancel'' then cancel_window db ?who requestId r ?rng body
       else if get_prop body ''action'' \<noteq> Str ''create'' then (JsonError 400 ''action_invalid'', [])
       else create_window db ?who now r ?rng body)"
    using session body by (simp add: maintenance_post_def)
  note who = administrator_of_SomeD [OF session(3)]
  show ?thesis
  proof (cases "get_prop body ''action'' = Str ''cancel''")
    case True
    with assms post have c: "call \<in> set (snd (cancelReliabilityMaintenanceWindow db
        (text_or_empty (get_prop body ''windowId'')) requestId ?who))"
      and w: "UUID_PATTERN (text_or_empty (get_prop body ''windowId''))"
      by (auto simp: cancel_window_def Let_def split: if_splits)
    have "snd (maintenance_post s db sessionResult r now requestId) = [call]"
      using c True post w
      by (auto simp: cancel_window_def cancelReliabilityMaintenanceWindow_def split: if_splits)
    with who session cancel_call [OF c] w show ?thesis by auto
  next
    case False
    with assms post have c: "call \<in> set (snd (create_window db ?who now r ?rng body))"
      and p: "maintenance_post s db sessionResult r now requestId = create_window db ?who now r ?rng body"
      by (auto split: if_splits)
    have "snd (maintenance_post s db sessionResult r now requestId) = [call]"
      unfolding p using c
      by (auto simp: create_window_def createReliabilityMaintenanceWindow_def Let_def
          split: if_splits option.splits)
    with who session body create_window_call [OF c] show ?thesis by auto
  qed
qed

definition sample_admin :: console_session where
  "sample_admin = (plain_session AccessEnforce StateVerified DiscordEnforce DiscordProvider Authenticated
     (Some ''admin@ivroom.jp'') None (Some Administrator)) \<lparr> cs_discordUserId := Some ''123456789012345678'' \<rparr>"

definition sample_form_services :: form_services where
  "sample_form_services = \<lparr> fs_decode_text = (\<lambda>_. Some ''text''), fs_parse_json = (\<lambda>_. Some (Obj
     [(''action'', Str ''create''), (''scopeType'', Str ''service''), (''targetKey'', Str ''host''),
      (''startsAt'', Str ''2026-01-01T12:00''), (''endsAt'', Str ''2026-01-01T13:00''),
      (''reason'', Str ''reboot''), (''acknowledged'', Bool True),
      (''idempotencyKey'', Str ''00000000-0000-4000-8000-000000000000'')])), fs_parse_form = (\<lambda>_. []) \<rparr>"

definition sample_form_request :: form_request where
  "sample_form_request = \<lparr> fr_header = map_of [(''origin'', ''https://ivroom.jp''),
     (''content-type'', ''application/json''), (''accept'', ''application/json'')],
     fr_origin = ''https://ivroom.jp'', fr_body = Some [[1]] \<rparr>"

definition sample_database :: database where
  "sample_database = \<lparr> db_rpc = (\<lambda>_ _. None), db_hosts = None \<rparr>"

lemma sample_window_created:
  "snd (maintenance_post sample_form_services sample_database (Some sample_admin) sample_form_request
     1767236400000 ''id'') \<noteq> []"
proof -
  have body: "readBody sample_form_services sample_form_request = FormOk (Obj
     [(''action'', Str ''create''), (''scopeType'', Str ''service''), (''targetKey'', Str ''host''),
      (''startsAt'', Str ''2026-01-01T12:00''), (''endsAt'', Str ''2026-01-01T13:00''),
      (''reason'', Str ''reboot''), (''acknowledged'', Bool True),
      (''idempotencyKey'', Str ''00000000-0000-4000-8000-000000000000'')])"
    by (simp add: readBody_def readLimitedText_def sample_form_services_def sample_form_request_def
        length_declared_too_large_def nonempty_def MAX_MAINTENANCE_BODY_BYTES_def js_eval)
  have admin: "administrator_of sample_admin = Some Administrator"
    by (simp add: administrator_of_def sample_admin_def plain_session_def hasConsoleRole_def role_rank_def)
  have origin: "same_origin sample_form_request"
    by (simp add: same_origin_def sample_form_request_def nonempty_def)
  have plain: "trim ''2026-01-01T12:00'' = ''2026-01-01T12:00''" "trim ''2026-01-01T13:00'' = ''2026-01-01T13:00''"
    "\<not> has_zone ''2026-01-01T12:00''" "\<not> has_zone ''2026-01-01T13:00''"
    by (simp_all add: has_zone_def js_eval)
  have parts: "local_parts ''2026-01-01T12:00'' = Some (2026, 1, 1, 12, 0)"
    "local_parts ''2026-01-01T13:00'' = Some (2026, 1, 1, 13, 0)"
    by (simp_all add: local_parts_def js_eval)
  have utc: "Date_UTC 2026 1 1 12 0 = 1767268800000" "Date_UTC 2026 1 1 13 0 = 1767272400000"
    by (simp_all add: Date_UTC_def days_from_civil_def)
  have civil: "civil_from_days 20454 = (2026, 1, 1)"
    by code_simp
  have times: "parseDateTime (Str ''2026-01-01T12:00'') = Some (iso_text 1767236400000)"
    "parseDateTime (Str ''2026-01-01T13:00'') = Some (iso_text 1767240000000)"
    by (simp_all add: parseDateTime_def plain parts utc civil JST_OFFSET_MS_def Date_toISOString_def max_time_def)
  have target: "parseTarget ServiceScope (Str ''host'') =
      Some (empty_target \<lparr> mt_serviceId := Some HostService \<rparr>)"
    by (simp add: parseTarget_def isReliabilitySloServiceId_def SLO_SERVICE_IDS_def slo_service_text_def Let_def)
  have uuid: "UUID_PATTERN ''00000000-0000-4000-8000-000000000000''" by (simp add: js_eval)
  have ms: "ms_of (iso_text 1767236400000) = 1767236400000" "ms_of (iso_text 1767240000000) = 1767240000000"
    by (simp_all add: max_time_def)
  have reason: "trim ''reboot'' = ''reboot''" by (simp add: js_eval)
  have snowflake: "SNOWFLAKE_PATTERN ''123456789012345678''" by (simp add: js_eval)
  show ?thesis
    using origin admin
    by (simp add: maintenance_post_def body create_window_def prop_or_def Let_def text_or_empty_def target uuid times
        isReliabilityMaintenanceScopeType_def scope_text_def acknowledgement_def times_invalid_def ms
        MAX_DURATION_MS_def createReliabilityMaintenanceWindow_def validateIdentity_def sample_admin_def
        plain_session_def max_time_def nonempty_def reason snowflake)
qed

theorem maintenance_change_is_authorised_witness:
  "length (snd (maintenance_post sample_form_services sample_database (Some sample_admin)
       sample_form_request 1767236400000 ''id'')) = 1 \<and>
     cs_status sample_admin = Authenticated \<and> same_origin sample_form_request"
proof -
  obtain call where c: "call \<in> set (snd (maintenance_post sample_form_services sample_database (Some sample_admin)
       sample_form_request 1767236400000 ''id''))"
    using sample_window_created by (metis list.set_intros(1) neq_Nil_conv)
  from maintenance_change_is_authorised [OF c] show ?thesis by auto
qed

end
