(* ===== verification/JsDoubles.thy ===== *)
theory JsDoubles
  imports JsValues "HOL-Library.Log_Nat"
begin

text \<open>
  The arithmetic of JavaScript numbers. A number is an IEEE double; the developments of the program keep it as
  the rational it stands for, and \<open>js_float\<close> rounds an exact rational to the nearest double, a tie to the
  even significand. An operation of the code is the exact operation followed by \<open>js_float\<close>. The significand
  has 53 bits; the exponent is not bounded, so overflow and subnormal numbers are left out: the quantities
  rounded here lie between \<open>2\<close> to the power of \<open>- 60\<close> and of \<open>60\<close>, or are zero.
\<close>

section \<open>Rounding to the nearest double\<close>

definition round_half_even :: "rat \<Rightarrow> int" where
  "round_half_even q =
     (let f = \<lfloor>q\<rfloor>; r = q - of_int f
      in if r < 1 / 2 \<or> (r = 1 / 2 \<and> even f) then f else f + 1)"

definition binary_exponent :: "rat \<Rightarrow> int" where
  \<comment> \<open>of a positive rational\<close>
  "binary_exponent q =
     (case quotient_of q of (n, d) \<Rightarrow>
        (let e = bitlen n - bitlen d in if 2 powi e \<le> q then e else e - 1))"

definition unit_in_last_place :: "rat \<Rightarrow> rat" where
  "unit_in_last_place q = 2 powi (binary_exponent q - 52)"

definition js_float :: "rat \<Rightarrow> rat" where
  "js_float q =
     (if q = 0 then 0
      else sgn q * of_int (round_half_even (\<bar>q\<bar> / unit_in_last_place \<bar>q\<bar>)) * unit_in_last_place \<bar>q\<bar>)"

lemma round_half_even_error: "\<bar>of_int (round_half_even q) - q\<bar> \<le> 1 / 2"
proof -
  have "of_int \<lfloor>q\<rfloor> \<le> q" "q \<le> of_int \<lfloor>q\<rfloor> + 1" by linarith+
  then show ?thesis by (simp add: round_half_even_def Let_def abs_le_iff field_simps)
qed

lemma round_half_even_ge: "of_int n \<le> q \<Longrightarrow> n \<le> round_half_even q"
  using le_floor_iff [of n q] by (auto simp: round_half_even_def Let_def)

lemma round_half_even_le: "q \<le> of_int n \<Longrightarrow> round_half_even q \<le> n"
proof (cases "of_int \<lfloor>q\<rfloor> = q")
  case True
  then show "q \<le> of_int n \<Longrightarrow> round_half_even q \<le> n"
    using floor_mono [of q "of_int n"] by (auto simp: round_half_even_def Let_def)
next
  case False
  then have "of_int \<lfloor>q\<rfloor> < q" by linarith
  then show "q \<le> of_int n \<Longrightarrow> round_half_even q \<le> n"
    using floor_less_iff [of q n] by (auto simp: round_half_even_def Let_def dest: order.strict_trans2)
qed

lemma binary_exponent_bounds:
  assumes "0 < q"
  shows "2 powi binary_exponent q \<le> q" and "q < 2 powi (binary_exponent q + 1)"
proof -
  obtain n d where nd: "quotient_of q = (n, d)" by (cases "quotient_of q")
  then have q: "q = of_int n / of_int d" and d: "0 < d"
    by (auto intro: quotient_of_div quotient_of_denom_pos)
  with assms have n: "0 < n" by (simp add: zero_less_divide_iff)
  define a b where "a = nat (bitlen n - 1)" and "b = nat (bitlen d - 1)"
  have ln: "bitlen n = int a + 1" and ld: "bitlen d = int b + 1"
    using n d bitlen_nonneg [of n] bitlen_nonneg [of d] bitlen_eq_zero_iff [of n] bitlen_eq_zero_iff [of d]
    by (simp_all add: a_def b_def)
  have "2 ^ a \<le> n" "n < 2 ^ (a + 1)" "2 ^ b \<le> d" "d < 2 ^ (b + 1)"
    using bitlen_bounds [OF n] bitlen_bounds [OF d] by (simp_all add: ln ld nat_add_distrib)
  then have bnd: "2 ^ a \<le> (of_int n :: rat)" "of_int n < (2 :: rat) ^ (a + 1)"
      "2 ^ b \<le> (of_int d :: rat)" "of_int d < (2 :: rat) ^ (b + 1)"
    by (metis of_int_le_iff of_int_less_iff of_int_numeral of_int_power)+
  let ?e = "int a - int b"
  have e: "(2 :: rat) powi ?e = 2 ^ a / 2 ^ b" by (simp add: power_int_diff)
  have e1: "(2 :: rat) powi (?e + 1) = 2 * (2 ^ a / 2 ^ b)" by (subst power_int_add) (simp_all add: e)
  have e2: "(2 :: rat) powi (?e - 1) = 2 ^ a / 2 ^ b / 2" by (subst power_int_diff) (simp_all add: e)
  have up: "q < 2 powi (?e + 1)"
  proof -
    have "of_int n * (2 :: rat) ^ b < 2 ^ (a + 1) * of_int d"
      using bnd d n by (intro mult_less_le_imp_less) auto
    then show ?thesis using d unfolding e1 q by (simp add: field_simps)
  qed
  have lo: "2 powi (?e - 1) \<le> q"
  proof -
    have "(2 :: rat) ^ a * of_int d \<le> of_int n * 2 ^ (b + 1)"
      using bnd d n by (intro mult_mono) (use n in \<open>auto simp: less_imp_le\<close>)
    then show ?thesis using d unfolding e2 q by (simp add: field_simps)
  qed
  have be: "binary_exponent q = (if 2 powi ?e \<le> q then ?e else ?e - 1)"
    by (simp add: binary_exponent_def nd ln ld Let_def)
  show "2 powi binary_exponent q \<le> q" using lo by (simp add: be)
  show "q < 2 powi (binary_exponent q + 1)" using up by (simp add: be)
qed

lemma unit_pos [simp]: "0 < unit_in_last_place q"
  by (simp add: unit_in_last_place_def)

lemma unit_nonzero [simp]: "unit_in_last_place q \<noteq> 0" "0 \<le> unit_in_last_place q"
  by (simp_all add: unit_in_last_place_def)

lemma significand:
  assumes "0 < q"
  shows "2 ^ 52 \<le> q / unit_in_last_place q" and "q / unit_in_last_place q < 2 ^ 53"
proof -
  have u: "2 powi binary_exponent q = 2 ^ 52 * unit_in_last_place q"
    "2 powi (binary_exponent q + 1) = 2 ^ 53 * unit_in_last_place q"
    by (simp_all add: unit_in_last_place_def power_int_diff power_int_add)
  show "2 ^ 52 \<le> q / unit_in_last_place q"
    using binary_exponent_bounds(1) [OF assms] unfolding u by (simp add: pos_le_divide_eq)
  show "q / unit_in_last_place q < 2 ^ 53"
    using binary_exponent_bounds(2) [OF assms] unfolding u by (simp add: pos_divide_less_eq)
qed

lemma js_float_zero [simp]: "js_float 0 = 0"
  by (simp add: js_float_def)

lemma js_float_uminus: "js_float (- q) = - js_float q"
  by (simp add: js_float_def)

lemma js_float_significand:
  assumes "0 < q"
  obtains m where "js_float q = of_int m * unit_in_last_place q" and "2 ^ 52 \<le> m" and "m \<le> 2 ^ 53"
proof
  let ?m = "round_half_even (q / unit_in_last_place q)"
  show "js_float q = of_int ?m * unit_in_last_place q" using assms by (simp add: js_float_def)
  show "2 ^ 52 \<le> ?m" by (rule round_half_even_ge) (use significand(1) [OF assms] in simp)
  show "?m \<le> 2 ^ 53" by (rule round_half_even_le) (use significand(2) [OF assms] in simp)
qed

lemma js_float_error_pos:
  assumes "0 < q"
  shows "\<bar>js_float q - q\<bar> \<le> q / 2 ^ 53"
proof -
  let ?u = "unit_in_last_place q"
  have "js_float q - q = (of_int (round_half_even (q / ?u)) - q / ?u) * ?u"
    using assms by (simp add: js_float_def left_diff_distrib)
  then have "\<bar>js_float q - q\<bar> = \<bar>of_int (round_half_even (q / ?u)) - q / ?u\<bar> * ?u"
    by (simp add: abs_mult)
  also have "\<dots> \<le> 1 / 2 * ?u" by (intro mult_right_mono round_half_even_error) (simp add: less_imp_le)
  also have "\<dots> \<le> q / 2 ^ 53"
    using significand(1) [OF assms] by (simp add: pos_le_divide_eq)
  finally show ?thesis .
qed

text \<open>The relative error of one operation.\<close>

lemma js_float_error: "\<bar>js_float q - q\<bar> \<le> \<bar>q\<bar> / 2 ^ 53"
  using js_float_error_pos [of q] js_float_error_pos [of "- q"]
  by (cases "q = 0"; cases "q > 0") (auto simp: js_float_uminus abs_if split: if_splits)

lemma js_float_pos: "0 < q \<Longrightarrow> 0 < js_float q"
  by (rule js_float_significand [of q]) (auto intro!: mult_pos_pos)

lemma js_float_neg: "q < 0 \<Longrightarrow> js_float q < 0"
  using js_float_pos [of "- q"] by (simp add: js_float_uminus)

text \<open>A quotient of at least one is not rounded below one, and one clearly below it not up to one.\<close>

lemma js_float_ge_one:
  assumes "1 \<le> q"
  shows "1 \<le> js_float q"
proof -
  have q: "0 < q" using assms by simp
  have "0 \<le> binary_exponent q"
  proof (rule ccontr)
    assume "\<not> ?thesis"
    then have "(2 :: rat) powi (binary_exponent q + 1) \<le> 2 powi 0" by (intro power_int_increasing) auto
    then show False using binary_exponent_bounds(2) [OF q] assms by simp
  qed
  then have e: "1 \<le> (2 :: rat) powi binary_exponent q" by (intro one_le_power_int) auto
  obtain m where m: "js_float q = of_int m * unit_in_last_place q" "2 ^ 52 \<le> m"
    by (rule js_float_significand [OF q])
  have m52: "2 ^ 52 \<le> (of_int m :: rat)" using m(2) by (metis of_int_le_iff of_int_numeral of_int_power)
  have "2 powi binary_exponent q = 2 ^ 52 * unit_in_last_place q"
    by (simp add: unit_in_last_place_def power_int_diff)
  also have "\<dots> \<le> js_float q"
    unfolding m(1) by (intro mult_right_mono m52) simp
  finally show ?thesis using e by simp
qed

lemma js_float_less_one:
  assumes "q \<le> 1 - 1 / 2 ^ 53"
  shows "js_float q < 1"
proof (cases "0 < q")
  case True
  have "js_float q \<le> q + q / 2 ^ 53" using js_float_error_pos [OF True] by linarith
  also have "\<dots> = q * (1 + 1 / 2 ^ 53)" by (simp add: field_simps)
  also have "\<dots> \<le> (1 - 1 / 2 ^ 53) * (1 + 1 / 2 ^ 53)" using assms by (intro mult_right_mono) auto
  also have "\<dots> < 1" by simp
  finally show ?thesis .
next
  case False
  then show ?thesis using js_float_neg [of q] by (cases "q = 0") auto
qed

text \<open>
  A rounded number is a multiple of its unit, and of two multiples the smaller one is smaller by a whole unit.
\<close>

lemma multiple_below:
  assumes x: "x = of_int m * u" and y: "y = of_int n * u" and u: "0 < u" and less: "y < (x :: rat)"
  shows "y \<le> x - u"
proof -
  have "n < m" using less u by (simp add: x y)
  then have "of_int n * u \<le> (of_int m - 1) * u"
    using u by (intro mult_right_mono) (metis of_int_1 of_int_diff of_int_le_iff zle_diff1_eq, simp)
  then show ?thesis by (simp add: x y left_diff_distrib)
qed

lemma integer_multiple_of_unit:
  assumes "binary_exponent q \<le> 52"
  shows "\<exists>n. of_int k = of_int n * unit_in_last_place q"
proof -
  define j where "j = nat (52 - binary_exponent q)"
  have "binary_exponent q - 52 = - int j" using assms by (simp add: j_def)
  then have "unit_in_last_place q = 1 / 2 ^ j"
    by (simp add: unit_in_last_place_def power_int_minus inverse_eq_divide)
  then have "of_int k = of_int (k * 2 ^ j) * unit_in_last_place q" by simp
  then show ?thesis by blast
qed

lemma exponent_less:
  assumes "0 < q" and "q < 2 ^ n"
  shows "binary_exponent q < int n"
proof (rule ccontr)
  assume "\<not> ?thesis"
  then have "(2 :: rat) powi int n \<le> 2 powi binary_exponent q" by (intro power_int_increasing) auto
  then show False using binary_exponent_bounds(1) [OF assms(1)] assms(2) by simp
qed

text \<open>A quotient by a rounded number reaches one exactly when the integer reaches that number.\<close>

lemma js_float_quotient_ge_one:
  assumes q: "0 < q" "q < 2 ^ 52"
  shows "1 \<le> js_float (of_int k / js_float q) \<longleftrightarrow> js_float q \<le> of_int k"
proof
  assume "js_float q \<le> of_int k"
  then show "1 \<le> js_float (of_int k / js_float q)"
    using js_float_pos [OF q(1)] by (intro js_float_ge_one) simp
next
  assume one: "1 \<le> js_float (of_int k / js_float q)"
  show "js_float q \<le> of_int k"
  proof (rule ccontr)
    assume "\<not> ?thesis"
    then have less: "of_int k < js_float q" by simp
    let ?u = "unit_in_last_place q"
    obtain m where m: "js_float q = of_int m * ?u" "2 ^ 52 \<le> m" "m \<le> 2 ^ 53"
      by (rule js_float_significand [OF q(1)])
    have "binary_exponent q \<le> 52" using exponent_less [OF q] by simp
    from integer_multiple_of_unit [OF this, of k] obtain n where n: "of_int k = of_int n * ?u" by blast
    have "of_int k \<le> js_float q - ?u" by (rule multiple_below [OF m(1) n unit_pos less])
    moreover have "js_float q \<le> 2 ^ 53 * ?u"
      unfolding m(1) using m(3) by (intro mult_right_mono) (metis of_int_le_iff of_int_numeral of_int_power, simp)
    ultimately have "of_int k \<le> (1 - 1 / 2 ^ 53) * js_float q" by (simp add: field_simps)
    then have "of_int k / js_float q \<le> 1 - 1 / 2 ^ 53"
      using js_float_pos [OF q(1)] by (simp add: pos_divide_le_eq)
    from js_float_less_one [OF this] one show False by simp
  qed
qed

text \<open>The largest double below a hundred.\<close>

lemma js_float_below_hundred:
  assumes "js_float q < 100" and "0 < q"
  shows "js_float q \<le> 100 - 1 / 2 ^ 46"
proof -
  let ?e = "binary_exponent q" and ?u = "unit_in_last_place q"
  obtain m where m: "js_float q = of_int m * ?u" "2 ^ 52 \<le> m" "m \<le> 2 ^ 53"
    by (rule js_float_significand [OF assms(2)])
  have m': "2 ^ 52 \<le> (of_int m :: rat)" "of_int m \<le> (2 :: rat) ^ 53"
    using m(2,3) by (metis of_int_le_iff of_int_numeral of_int_power)+
  have p: "2 powi ?e = 2 ^ 52 * ?u" by (simp add: unit_in_last_place_def power_int_diff)
  have "2 powi ?e \<le> js_float q" unfolding p m(1) by (intro mult_right_mono m') simp
  then have e: "?e < 7"
    using assms(1) power_int_increasing [of 7 ?e "2 :: rat"] by (cases "7 \<le> ?e") auto
  show ?thesis
  proof (cases "?e = 6")
    case True
    then have u: "?u = 1 / 2 ^ 46" by (simp add: unit_in_last_place_def power_int_def inverse_eq_divide power_one_over)
    from integer_multiple_of_unit [of q 100] e obtain n where n: "of_int 100 = of_int n * ?u" by auto
    have "js_float q < of_int 100" using assms(1) by simp
    from multiple_below [OF n m(1) unit_pos this] show ?thesis by (simp add: u)
  next
    case False
    then have "2 powi ?e \<le> (2 :: rat) powi 5" using e by (intro power_int_increasing) auto
    moreover have "js_float q \<le> 2 ^ 53 * ?u" unfolding m(1) by (intro mult_right_mono m') simp
    ultimately have "js_float q \<le> 64" unfolding p by simp
    moreover have "(64 :: rat) \<le> 100 - 1 / 2 ^ 46" by simp
    ultimately show ?thesis by linarith
  qed
qed

end
