(* ===== verification/ReliabilityCenter.thy ===== *)
theory ReliabilityCenter
  imports Maintenance JsDoubles
begin

text \<open>
  The reliability centre: the services and the overall state (\<open>apps/web/lib/reliability-incident-service.ts\<close>,
  \<open>reliability-notification-service.ts\<close>, \<open>reliability-overall-data.ts\<close>), the notification summary it shows
  (\<open>notification-summary.ts\<close>), the error budgets (\<open>reliability-slo.ts\<close>) with the route that sets a policy
  (\<open>app/api/reliability/slo/route.ts\<close>), and the page's snapshot (\<open>reliability.ts\<close>). Ratios, percentages
  and allowances are doubles: each operation of the code is rounded by \<open>js_float\<close>. The burn rates are in
  theory \<open>BurnRates\<close>.
\<close>

section \<open>Notification summary\<close>

record notification_summary =
  ns_generatedAt :: string
  ns_channelEnabled :: bool
  ns_channelConfigured :: bool
  ns_channelDisplayName :: string
  ns_activeSignalCount :: int
  ns_activeCriticalCount :: int
  ns_activeWarningCount :: int
  ns_pendingCount :: int
  ns_retryCount :: int
  ns_failedCount :: int
  ns_suppressedCount :: int
  ns_sent24hCount :: int
  ns_activeSuppressionCount :: int
  ns_lastDeliveryAt :: "string option"
  ns_channelLastErrorAt :: "string option"
  ns_channelLastErrorCode :: "string option"
  ns_dispatcherLastInvokedAt :: "string option"
  ns_dispatcherLastSuccessAt :: "string option"
  ns_dispatcherLastErrorAt :: "string option"
  ns_dispatcherLastErrorCode :: "string option"

definition count_value :: "jsval \<Rightarrow> int option" where
  "count_value v =
     (if (case v of Num _ \<Rightarrow> True | Str s \<Rightarrow> s \<noteq> [] \<and> list_all is_digit s | _ \<Rightarrow> False)
      then (case coerced_integer v of Some i \<Rightarrow> if i \<ge> 0 then Some i else None | None \<Rightarrow> None)
      else None)"

definition nullableText :: "jsval \<Rightarrow> string option option" where
  "nullableText = optional_text (satisfying (\<lambda>s. s \<noteq> [] \<and> length s \<le> 128))"

definition getNotificationSummary :: "(string \<Rightarrow> jsval \<Rightarrow> jsval option) \<Rightarrow> notification_summary option" where
  "getNotificationSummary rpc = do {
     payload \<leftarrow> rpc ''get_notification_center_summary_v1'' (Obj []);
     rows \<leftarrow> as_array payload;
     row \<leftarrow> (case rows of [r] \<Rightarrow> Some r | _ \<Rightarrow> None);
     counts \<leftarrow> map_rows (\<lambda>k. count_value (get_prop row k))
       [''active_signal_count'', ''active_critical_count'', ''active_warning_count'', ''pending_count'',
        ''retry_count'', ''failed_count'', ''suppressed_count'', ''sent_24h_count'', ''active_suppression_count''];
     generatedAt \<leftarrow> read_timestamp (get_prop row ''generated_at'');
     enabled \<leftarrow> as_bool (get_prop row ''channel_enabled'');
     configured \<leftarrow> as_bool (get_prop row ''channel_configured'');
     displayName \<leftarrow> nonempty (as_string (get_prop row ''channel_display_name''));
     lastDeliveryAt \<leftarrow> nullable read_timestamp (get_prop row ''last_delivery_at'');
     channelErrorAt \<leftarrow> nullable read_timestamp (get_prop row ''channel_last_error_at'');
     channelErrorCode \<leftarrow> nullableText (get_prop row ''channel_last_error_code'');
     invokedAt \<leftarrow> nullable read_timestamp (get_prop row ''dispatcher_last_invoked_at'');
     successAt \<leftarrow> nullable read_timestamp (get_prop row ''dispatcher_last_success_at'');
     errorAt \<leftarrow> nullable read_timestamp (get_prop row ''dispatcher_last_error_at'');
     errorCode \<leftarrow> nullableText (get_prop row ''dispatcher_last_error_code'');
     Some \<lparr> ns_generatedAt = generatedAt, ns_channelEnabled = enabled, ns_channelConfigured = configured,
       ns_channelDisplayName = displayName, ns_activeSignalCount = counts ! 0,
       ns_activeCriticalCount = counts ! 1, ns_activeWarningCount = counts ! 2, ns_pendingCount = counts ! 3,
       ns_retryCount = counts ! 4, ns_failedCount = counts ! 5, ns_suppressedCount = counts ! 6,
       ns_sent24hCount = counts ! 7, ns_activeSuppressionCount = counts ! 8,
       ns_lastDeliveryAt = lastDeliveryAt, ns_channelLastErrorAt = channelErrorAt,
       ns_channelLastErrorCode = channelErrorCode, ns_dispatcherLastInvokedAt = invokedAt,
       ns_dispatcherLastSuccessAt = successAt, ns_dispatcherLastErrorAt = errorAt,
       ns_dispatcherLastErrorCode = errorCode \<rparr>
   }"

section \<open>Services\<close>

datatype reliability_health = Operational | Degraded | CriticalHealth | DisabledHealth | UnknownServiceHealth

datatype reliability_service_id = HostReliability | ContainerReliability | BackupReliability | NotificationReliability

record reliability_service =
  sr_id :: reliability_service_id
  sr_label :: string
  sr_health :: reliability_health
  sr_activeIncidentCount :: int
  sr_activeCriticalCount :: int
  sr_activeWarningCount :: int
  sr_recoveredIncidentCount :: int
  sr_knownDowntimeSeconds :: "int option"
  sr_incidentFreeRatio :: "rat option"
  sr_exactCoverage :: bool
  sr_medianRecoverySeconds :: "int option"
  sr_longestRecoverySeconds :: "int option"
  sr_latestRecoveredAt :: "string option"
  sr_affectedEntityCount :: int
  sr_detailHref :: string

definition incidentEntityKey :: "any_incident \<Rightarrow> string" where
  "incidentEntityKey i =
     (case incident_backup i of
        Some (target, mode, type) \<Rightarrow>
          incident_host i @ '':'' @ target @ '':'' @ mode @ '':'' @ backup_type_text type
      | None \<Rightarrow>
          (case nonempty (incident_container i) of
             Some name \<Rightarrow> incident_host i @ '':'' @ name
           | None \<Rightarrow> ''host:'' @ incident_host i))"

definition range_seconds :: "incident_range \<Rightarrow> int" where
  "range_seconds rng = incident_range_hours rng * 3600"

definition free_ratio :: "int \<Rightarrow> incident_range \<Rightarrow> rat" where
  "free_ratio downtime rng =
     max 0 (min 1 (js_float (1 - js_float (of_int downtime / of_int (range_seconds rng)))))"

definition incident_health :: "any_active list \<Rightarrow> bool \<Rightarrow> reliability_health" where
  "incident_health active available =
     (if \<not> available then UnknownServiceHealth
      else if list_ex (\<lambda>i. any_severity i = CriticalIncident) active then CriticalHealth
      else if active \<noteq> [] then Degraded else Operational)"

definition count_severity :: "incident_severity \<Rightarrow> any_active list \<Rightarrow> int" where
  "count_severity s active = int (length (filter (\<lambda>i. any_severity i = s) active))"

definition service_of_entity :: "slo_service \<Rightarrow> reliability_service_id" where
  "service_of_entity t = (case t of HostService \<Rightarrow> HostReliability | ContainerService \<Rightarrow> ContainerReliability
     | _ \<Rightarrow> BackupReliability)"

definition SLO_LABELS :: "slo_service \<Rightarrow> string" where
  "SLO_LABELS s =
     (case s of OverallService \<Rightarrow> ''Overall Reliability'' | HostService \<Rightarrow> ''Host Platform''
      | ContainerService \<Rightarrow> ''Container Runtime'' | BackupService \<Rightarrow> ''Backup Protection'')"

definition buildIncidentService ::
  "slo_service \<Rightarrow> any_active list \<Rightarrow> any_recovered list \<Rightarrow> incident_range \<Rightarrow> string \<Rightarrow> bool \<Rightarrow> reliability_service" where
  \<comment> \<open>the type is one of host, container and backup\<close>
  "buildIncidentService type active recovered rng generatedAt available =
     (let rangeEnd = ms_of generatedAt;
          rangeStart = rangeEnd - incident_range_hours rng * 3600000;
          downtime = collectKnownDowntime active recovered rangeStart rangeEnd;
          known = (if available then Some (kd_seconds downtime) else None);
          durations = map any_durationSeconds recovered
      in \<lparr> sr_id = service_of_entity type, sr_label = SLO_LABELS type,
           sr_health = incident_health active available,
           sr_activeIncidentCount = int (length active),
           sr_activeCriticalCount = count_severity CriticalIncident active,
           sr_activeWarningCount = count_severity WarningIncident active,
           sr_recoveredIncidentCount = int (length recovered),
           sr_knownDowntimeSeconds = known,
           sr_incidentFreeRatio = map_option (\<lambda>d. free_ratio d rng) known,
           sr_exactCoverage = (available \<and> kd_exactCoverage downtime),
           sr_medianRecoverySeconds = median durations, sr_longestRecoverySeconds = maximum durations,
           sr_latestRecoveredAt = js_first (sort_desc ms_of (map any_recoveredAt recovered)),
           sr_affectedEntityCount = int (card (incidentEntityKey ` (ActiveOf ` set active \<union> RecoveredOf ` set recovered))),
           sr_detailHref = (case type of HostService \<Rightarrow> ''/hosts'' | ContainerService \<Rightarrow> ''/containers''
             | _ \<Rightarrow> ''/backups?range='' @ incident_range_text rng) \<rparr>)"

definition DISPATCHER_STALE_AFTER_MS :: int where
  "DISPATCHER_STALE_AFTER_MS = 180000"

definition notificationHealth :: "notification_summary option \<Rightarrow> reliability_health" where
  "notificationHealth summary =
     (case summary of
        None \<Rightarrow> UnknownServiceHealth
      | Some n \<Rightarrow>
          if \<not> ns_channelEnabled n then DisabledHealth
          else if \<not> ns_channelConfigured n \<or> nonempty (ns_channelLastErrorCode n) \<noteq> None \<or>
              nonempty (ns_dispatcherLastErrorCode n) \<noteq> None \<or> ns_failedCount n > 0 then CriticalHealth
          else (case (Date_parse (ns_generatedAt n),
                      Option.bind (nonempty (ns_dispatcherLastInvokedAt n)) Date_parse) of
                  (Some generated, Some invoked) \<Rightarrow>
                    if generated - invoked > DISPATCHER_STALE_AFTER_MS then CriticalHealth
                    else if ns_pendingCount n > 0 \<or> ns_retryCount n > 0 then Degraded else Operational
                | _ \<Rightarrow> CriticalHealth))"

definition buildNotificationService :: "notification_summary option \<Rightarrow> reliability_service" where
  "buildNotificationService summary =
     (let field = (\<lambda>f. case summary of None \<Rightarrow> 0 | Some n \<Rightarrow> f n)
      in \<lparr> sr_id = NotificationReliability, sr_label = ''Notification Delivery'',
           sr_health = notificationHealth summary,
           sr_activeIncidentCount = field ns_activeSignalCount,
           sr_activeCriticalCount = field ns_activeCriticalCount,
           sr_activeWarningCount = field ns_activeWarningCount,
           sr_recoveredIncidentCount = field ns_sent24hCount,
           sr_knownDowntimeSeconds = None, sr_incidentFreeRatio = None, sr_exactCoverage = False,
           sr_medianRecoverySeconds = None, sr_longestRecoverySeconds = None,
           sr_latestRecoveredAt = Option.bind summary ns_lastDeliveryAt,
           sr_affectedEntityCount = field ns_activeSignalCount, sr_detailHref = ''/notifications'' \<rparr>)"

definition overallHealth :: "reliability_service list \<Rightarrow> reliability_health" where
  "overallHealth services =
     (let enabled = filter (\<lambda>s. sr_health s \<noteq> DisabledHealth) services;
          some = (\<lambda>h. list_ex (\<lambda>s. sr_health s = h) enabled)
      in if some CriticalHealth then CriticalHealth
         else if some Degraded then Degraded
         else if some UnknownServiceHealth then UnknownServiceHealth
         else Operational)"

record reliability_overall =
  ov_health :: reliability_health
  ov_activeIncidentCount :: int
  ov_activeCriticalCount :: int
  ov_knownDowntimeSeconds :: int
  ov_incidentFreeRatio :: rat
  ov_exactCoverage :: bool
  ov_recoveredIncidentCount :: int
  ov_medianRecoverySeconds :: "int option"
  ov_longestRecoverySeconds :: "int option"
  ov_affectedEntityCount :: nat

definition buildOverall :: "unified_snapshot \<Rightarrow> reliability_service list \<Rightarrow> incident_range \<Rightarrow> reliability_overall" where
  "buildOverall data services rng =
     (let finish = ms_of (un_generatedAt data);
          start = finish - incident_range_hours rng * 3600000;
          downtime = collectKnownDowntime (un_active data) (un_recovered data) start finish;
          durations = map any_durationSeconds (un_recovered data)
      in \<lparr> ov_health = overallHealth services,
           ov_activeIncidentCount = int (length (un_active data)),
           ov_activeCriticalCount = count_severity CriticalIncident (un_active data),
           ov_knownDowntimeSeconds = kd_seconds downtime,
           ov_incidentFreeRatio = free_ratio (kd_seconds downtime) rng,
           ov_exactCoverage = (kd_exactCoverage downtime \<and> un_backupDataAvailable data),
           ov_recoveredIncidentCount = int (length (un_recovered data)),
           ov_medianRecoverySeconds = median durations, ov_longestRecoverySeconds = maximum durations,
           ov_affectedEntityCount = su_affectedEntityCount (un_summary data) \<rparr>)"

section \<open>Policies\<close>

record slo_policy =
  sp_serviceId :: slo_service
  sp_targetPercent :: "rat option"
  sp_enabled :: bool
  sp_updatedAt :: string

definition parseTargetPercent :: "jsval \<Rightarrow> rat option option" where
  "parseTargetPercent = nullable (\<lambda>v.
     case to_number v of
       Fin q \<Rightarrow> (let parsed = js_float q in if parsed \<le> 0 \<or> parsed \<ge> 100 then None else Some parsed)
     | _ \<Rightarrow> None)"

definition parsePolicy :: "jsval \<Rightarrow> slo_policy option" where
  "parsePolicy row =
     (if \<not> is_record row then None
      else do {
        target \<leftarrow> parseTargetPercent (get_prop row ''target_percent'');
        updatedAt \<leftarrow> read_timestamp (get_prop row ''updated_at'');
        service \<leftarrow> Option.bind (as_string (get_prop row ''service_id'')) isReliabilitySloServiceId;
        enabled \<leftarrow> as_bool (get_prop row ''enabled'');
        if enabled \<and> target = None then None
        else Some \<lparr> sp_serviceId = service, sp_targetPercent = target, sp_enabled = enabled,
          sp_updatedAt = updatedAt \<rparr>
      })"

definition parseSinglePolicyPayload :: "jsval \<Rightarrow> slo_policy option" where
  "parseSinglePolicyPayload payload =
     (case as_array payload of Some [row] \<Rightarrow> parsePolicy row | _ \<Rightarrow> None)"

definition getReliabilitySloPolicies :: "jsval option \<Rightarrow> slo_policy list option" where
  \<comment> \<open>the answer of \<open>reliability_slo_policies\<close>\<close>
  "getReliabilitySloPolicies answered = do {
     payload \<leftarrow> answered;
     rows \<leftarrow> as_array payload;
     map_rows parsePolicy rows
   }"

record policy_update =
  pu_serviceId :: slo_service
  pu_targetPercent :: "rat option"
  pu_enabled :: bool
  pu_requestId :: string
  pu_actor :: actor

definition update_body :: "policy_update \<Rightarrow> jsval" where
  "update_body u =
     Obj [(''p_service_id'', Str (slo_service_text (pu_serviceId u))),
       (''p_target_percent'', case pu_targetPercent u of None \<Rightarrow> Null | Some q \<Rightarrow> Num (Fin q)),
       (''p_enabled'', Bool (pu_enabled u)), (''p_request_id'', Str (pu_requestId u)),
       (''p_actor_email'', or_null (ac_email (pu_actor u))),
       (''p_actor_role'', Str (role_text (ac_role (pu_actor u)))),
       (''p_actor_discord_user_id'', or_null (ac_discordUserId (pu_actor u)))]"

definition updateReliabilitySloPolicy ::
  "(string \<Rightarrow> jsval \<Rightarrow> jsval option) \<Rightarrow> policy_update \<Rightarrow> slo_policy option \<times> rpc_call list" where
  "updateReliabilitySloPolicy rpc u =
     (if (case pu_targetPercent u of None \<Rightarrow> pu_enabled u | Some q \<Rightarrow> q \<le> 0 \<or> q \<ge> 100) \<or>
         \<not> UUID_PATTERN (pu_requestId u) \<or> \<not> validateIdentity (pu_actor u)
      then (None, [])
      else (Option.bind (rpc ''update_reliability_slo_policy_v2'' (update_body u)) parseSinglePolicyPayload,
            [(''update_reliability_slo_policy_v2'', update_body u)]))"

section \<open>Error budgets\<close>

record reliability_source =
  so_label :: string
  so_rawDowntimeSeconds :: "int option"
  so_knownDowntimeSeconds :: "int option"
  so_maintenanceExcludedSeconds :: "int option"
  so_incidentFreeRatio :: "rat option"
  so_exactCoverage :: bool
  so_detailHref :: string

definition adjusted_source ::
  "string \<Rightarrow> int option \<Rightarrow> bool \<Rightarrow> string \<Rightarrow> incident_range \<Rightarrow> adjusted_downtime option \<Rightarrow> reliability_source" where
  \<comment> \<open>\<open>adjustment\<close> is \<open>None\<close> when there are no adjustments, none for the service, or no data of it\<close>
  "adjusted_source label raw exact href rng adjustment =
     \<lparr> so_label = label, so_rawDowntimeSeconds = raw,
       so_knownDowntimeSeconds = map_option ad_countedDowntimeSeconds adjustment,
       so_maintenanceExcludedSeconds = map_option ad_excludedMaintenanceSeconds adjustment,
       so_incidentFreeRatio = map_option (\<lambda>a. free_ratio (ad_countedDowntimeSeconds a) rng) adjustment,
       so_exactCoverage = (case adjustment of None \<Rightarrow> False | Some a \<Rightarrow> exact \<and> ad_exactCoverage a),
       so_detailHref = href \<rparr>"

definition sourceFor ::
  "slo_service \<Rightarrow> reliability_service list \<Rightarrow> reliability_overall \<Rightarrow> incident_range \<Rightarrow>
   (slo_service \<times> adjusted_downtime) list option \<Rightarrow> reliability_source option" where
  "sourceFor s services overall rng adjustments =
     (let adjustment = Option.bind adjustments (\<lambda>as. map_of as s)
      in if s = OverallService
         then Some (adjusted_source (SLO_LABELS s) (Some (ov_knownDowntimeSeconds overall))
                (ov_exactCoverage overall) (''/incidents?range='' @ incident_range_text rng) rng adjustment)
         else map_option (\<lambda>service.
                adjusted_source (sr_label service) (sr_knownDowntimeSeconds service) (sr_exactCoverage service)
                  (sr_detailHref service) rng
                  (if sr_knownDowntimeSeconds service = None \<or> sr_incidentFreeRatio service = None then None
                   else adjustment))
              (List.find (\<lambda>service. sr_id service = service_of_entity s) services))"

datatype budget_state = Unconfigured | WithinBudget | Exhausted | CoverageUnknown | DataUnavailable

record slo_budget =
  sb_serviceId :: slo_service
  sb_label :: string
  sb_targetPercent :: "rat option"
  sb_enabled :: bool
  sb_updatedAt :: "string option"
  sb_observedAvailabilityPercent :: "rat option"
  sb_observedExact :: bool
  sb_rawDowntimeSeconds :: "int option"
  sb_knownDowntimeSeconds :: "int option"
  sb_maintenanceExcludedSeconds :: "int option"
  sb_detailHref :: string
  sb_state :: budget_state
  sb_allowedDowntimeSeconds :: "rat option"
  sb_remainingBudgetSeconds :: "rat option"
  sb_remainingExact :: bool
  sb_budgetUsedPercent :: "rat option"
  sb_burnRate :: "rat option"

definition budget_base :: "slo_service \<Rightarrow> incident_range \<Rightarrow> slo_policy option \<Rightarrow> reliability_source option \<Rightarrow> slo_budget" where
  \<comment> \<open>\<open>base\<close> together with what the branches without a budget share\<close>
  "budget_base s rng policy source =
     \<lparr> sb_serviceId = s,
       sb_label = (case source of None \<Rightarrow> SLO_LABELS s | Some x \<Rightarrow> so_label x),
       sb_targetPercent = Option.bind policy sp_targetPercent,
       sb_enabled = (case policy of None \<Rightarrow> False | Some p \<Rightarrow> sp_enabled p),
       sb_updatedAt = map_option sp_updatedAt policy,
       sb_observedAvailabilityPercent = map_option (\<lambda>r. js_float (r * 100)) (Option.bind source so_incidentFreeRatio),
       sb_observedExact = (case source of None \<Rightarrow> False | Some x \<Rightarrow> so_exactCoverage x),
       sb_rawDowntimeSeconds = Option.bind source so_rawDowntimeSeconds,
       sb_knownDowntimeSeconds = Option.bind source so_knownDowntimeSeconds,
       sb_maintenanceExcludedSeconds = Option.bind source so_maintenanceExcludedSeconds,
       sb_detailHref = (case source of None \<Rightarrow> ''/reliability?range='' @ incident_range_text rng
         | Some x \<Rightarrow> so_detailHref x),
       sb_state = DataUnavailable, sb_allowedDowntimeSeconds = None, sb_remainingBudgetSeconds = None,
       sb_remainingExact = False, sb_budgetUsedPercent = None, sb_burnRate = None \<rparr>"

definition allowed_downtime :: "int \<Rightarrow> rat \<Rightarrow> rat" where
  "allowed_downtime seconds target = js_float (of_int seconds * js_float (1 - js_float (target / 100)))"

definition budget_of ::
  "slo_service \<Rightarrow> incident_range \<Rightarrow> bool \<Rightarrow> slo_policy option \<Rightarrow> reliability_source option \<Rightarrow> bool \<Rightarrow> slo_budget" where
  \<comment> \<open>the body of the map: are the policies known, the policy, the source, are adjustments known\<close>
  "budget_of s rng policiesKnown policy source adjustmentsKnown =
     (let base = budget_base s rng policy source
      in if \<not> policiesKnown then base
         else (case policy of
                 None \<Rightarrow> base \<lparr> sb_state := Unconfigured \<rparr>
               | Some p \<Rightarrow>
                   if \<not> sp_enabled p then base \<lparr> sb_state := Unconfigured \<rparr>
                   else (case sp_targetPercent p of
                           None \<Rightarrow> base \<lparr> sb_state := Unconfigured \<rparr>
                         | Some target \<Rightarrow>
                             (let allowed = allowed_downtime (range_seconds rng) target
                              in case (Option.bind source so_knownDowntimeSeconds,
                                       Option.bind source so_incidentFreeRatio) of
                                   (Some known, Some _) \<Rightarrow>
                                     if \<not> adjustmentsKnown then base \<lparr> sb_allowedDowntimeSeconds := Some allowed \<rparr>
                                     else (let burn = js_float (of_int known / allowed);
                                               exact = sb_observedExact base;
                                               exhausted = burn \<ge> 1
                                           in base \<lparr> sb_state := (if exhausted then Exhausted
                                                  else if exact then WithinBudget else CoverageUnknown),
                                                sb_allowedDowntimeSeconds := Some allowed,
                                                sb_remainingBudgetSeconds := Some (max 0 (js_float (allowed - of_int known))),
                                                sb_remainingExact := (exact \<or> exhausted),
                                                sb_budgetUsedPercent := Some (js_float (burn * 100)),
                                                sb_burnRate := Some burn \<rparr>)
                                 | _ \<Rightarrow> base \<lparr> sb_allowedDowntimeSeconds := Some allowed \<rparr>))))"

definition buildReliabilitySloBudgets ::
  "reliability_service list \<Rightarrow> reliability_overall \<Rightarrow> slo_policy list option \<Rightarrow> incident_range \<Rightarrow>
   (slo_service \<times> adjusted_downtime) list option \<Rightarrow> slo_budget list" where
  "buildReliabilitySloBudgets services overall policies rng adjustments =
     (let policyByService = index_by sp_serviceId (case policies of None \<Rightarrow> [] | Some ps \<Rightarrow> ps)
      in map (\<lambda>s. budget_of s rng (policies \<noteq> None) (map_of policyByService s)
             (sourceFor s services overall rng adjustments) (adjustments \<noteq> None)) SLO_SERVICE_IDS)"

section \<open>Budgets and availability\<close>

lemma parsePolicy_target:
  assumes "parsePolicy row = Some p" and "sp_targetPercent p = Some t"
  shows "0 < t \<and> t \<le> 100 - 1 / 2 ^ 46"
proof -
  from assms obtain q where q: "t = js_float q" "0 < t" "t < 100"
    by (auto simp: parsePolicy_def parseTargetPercent_def nullable_def bind_eq_Some_conv Let_def
        split: if_splits option.splits jsnum.splits)
  then have "0 < q" using js_float_neg [of q] by (cases q "0 :: rat" rule: linorder_cases) auto
  with q js_float_below_hundred [of q] show ?thesis by simp
qed

lemma policies_target:
  "getReliabilitySloPolicies answered = Some ps \<Longrightarrow> p \<in> set ps \<Longrightarrow> sp_targetPercent p = Some q \<Longrightarrow>
     0 < q \<and> q \<le> 100 - 1 / 2 ^ 46"
  by (auto simp: getReliabilitySloPolicies_def bind_eq_Some_conv dest!: map_rows_set dest: parsePolicy_target)

lemma range_seconds_bounds [simp]: "0 < range_seconds rng" "range_seconds rng \<le> 2592000"
  by (cases rng; simp add: range_seconds_def incident_range_hours_def)+

text \<open>What the allowance, the availability and the verdict are without rounding.\<close>

definition exact_allowance :: "incident_range \<Rightarrow> rat \<Rightarrow> rat" where
  "exact_allowance rng target = of_int (range_seconds rng) * (1 - target / 100)"

definition exact_availability :: "incident_range \<Rightarrow> int \<Rightarrow> rat" where
  "exact_availability rng known = 100 * max 0 (min 1 (1 - of_int known / of_int (range_seconds rng)))"

lemma availability_below_target:
  assumes "0 < target" and "target < 100"
  shows "exact_availability rng known \<le> target \<longleftrightarrow> exact_allowance rng target \<le> of_int known"
proof -
  define r :: rat where "r = 1 - of_int known / of_int (range_seconds rng)"
  have clamp: "100 * max 0 (min 1 r) \<le> target \<longleftrightarrow> 100 * r \<le> target"
    using assms by (auto simp: max_def min_def)
  have scale: "100 * (1 - q) \<le> target \<longleftrightarrow> 1 - target / 100 \<le> q" for q :: rat
    by (auto simp: field_simps)
  have "100 * r \<le> target \<longleftrightarrow> 1 - target / 100 \<le> of_int known / of_int (range_seconds rng)"
    unfolding r_def by (rule scale)
  also have "\<dots> \<longleftrightarrow> exact_allowance rng target \<le> of_int known"
    by (simp add: exact_allowance_def pos_le_divide_eq mult.commute)
  finally show ?thesis using clamp by (simp add: exact_availability_def r_def)
qed

lemma target_fraction:
  assumes "0 < target" and "target \<le> 100 - 1 / 2 ^ 46"
  shows "0 < js_float (target / 100)" and "js_float (target / 100) < 1"
    and "\<bar>js_float (target / 100) - target / 100\<bar> \<le> 1 / 2 ^ 53"
proof -
  show "0 < js_float (target / 100)" using assms(1) by (simp add: js_float_pos)
  have "(100 - 1 / 2 ^ 46) / 100 \<le> 1 - 1 / (2 :: rat) ^ 53" by simp
  then show "js_float (target / 100) < 1"
    using assms(2) by (intro js_float_less_one) (simp add: divide_right_mono)
  have "\<bar>target / 100\<bar> / 2 ^ 53 \<le> 1 / 2 ^ 53" using assms by (simp add: abs_if)
  then show "\<bar>js_float (target / 100) - target / 100\<bar> \<le> 1 / 2 ^ 53"
    using js_float_error [of "target / 100"] by linarith
qed

text \<open>The share left by the target, rounded, is positive and at most one.\<close>

lemma target_share:
  assumes "0 < target" and "target \<le> 100 - 1 / 2 ^ 46"
  shows "0 < js_float (1 - js_float (target / 100))" and "js_float (1 - js_float (target / 100)) \<le> 2"
    and "\<bar>js_float (1 - js_float (target / 100)) - (1 - target / 100)\<bar> \<le> 2 / 2 ^ 53"
proof -
  let ?f = "js_float (target / 100)"
  note f = target_fraction [OF assms]
  show "0 < js_float (1 - ?f)" using f by (simp add: js_float_pos)
  have "\<bar>1 - ?f\<bar> / 2 ^ 53 \<le> 1 / 2 ^ 53" using f by (simp add: abs_if)
  then have e: "\<bar>js_float (1 - ?f) - (1 - ?f)\<bar> \<le> 1 / 2 ^ 53" using js_float_error [of "1 - ?f"] by linarith
  with f show "\<bar>js_float (1 - ?f) - (1 - target / 100)\<bar> \<le> 2 / 2 ^ 53" by linarith
  have "1 / (2 :: rat) ^ 53 \<le> 1" by simp
  with e f show "js_float (1 - ?f) \<le> 2" by linarith
qed

lemma allowed_downtime_bounds:
  assumes t: "0 < target" "target \<le> 100 - 1 / 2 ^ 46"
  shows "0 < of_int (range_seconds rng) * js_float (1 - js_float (target / 100))"
    and "of_int (range_seconds rng) * js_float (1 - js_float (target / 100)) < 2 ^ 52"
    and "\<bar>allowed_downtime (range_seconds rng) target - exact_allowance rng target\<bar> \<le> 1 / 10 ^ 8"
proof -
  let ?R = "of_int (range_seconds rng) :: rat" and ?s = "js_float (1 - js_float (target / 100))"
  have R: "0 < ?R" "?R \<le> 2592000" using range_seconds_bounds [of rng] by simp_all
  note s = target_share [OF t]
  show pos: "0 < ?R * ?s" using R s by simp
  have top: "?R * ?s \<le> 2592000 * 2" using R s by (intro mult_mono) simp_all
  then show "?R * ?s < 2 ^ 52" by simp
  have "\<bar>?R * ?s\<bar> / 2 ^ 53 \<le> 2592000 * 2 / 2 ^ 53" using top pos by (simp add: abs_if)
  then have 1: "\<bar>js_float (?R * ?s) - ?R * ?s\<bar> \<le> 5184000 / 2 ^ 53" using js_float_error [of "?R * ?s"] by linarith
  have "?R * ?s - exact_allowance rng target = ?R * (?s - (1 - target / 100))"
    by (simp add: exact_allowance_def right_diff_distrib)
  then have "\<bar>?R * ?s - exact_allowance rng target\<bar> = ?R * \<bar>?s - (1 - target / 100)\<bar>"
    using R(1) by (simp only: abs_mult abs_of_pos)
  also have "\<dots> \<le> 2592000 * (2 / 2 ^ 53)" using R s(3) by (intro mult_mono) simp_all
  finally have 2: "\<bar>?R * ?s - exact_allowance rng target\<bar> \<le> 5184000 / 2 ^ 53" by simp
  have "5184000 / 2 ^ 53 + 5184000 / 2 ^ 53 \<le> 1 / (10 :: rat) ^ 8" by simp
  with 1 2 show "\<bar>allowed_downtime (range_seconds rng) target - exact_allowance rng target\<bar> \<le> 1 / 10 ^ 8"
    unfolding allowed_downtime_def by linarith
qed

lemma clamp_error: "\<bar>max 0 (min 1 a) - max 0 (min 1 b)\<bar> \<le> \<bar>a - b\<bar>" for a b :: rat
  by (auto simp: max_def min_def)

lemma free_ratio_error:
  "\<bar>free_ratio known rng - max 0 (min 1 (1 - of_int known / of_int (range_seconds rng)))\<bar> \<le> 3 / 2 ^ 53"
proof -
  let ?q = "of_int known / of_int (range_seconds rng) :: rat"
  consider (none) "?q \<le> 0" | (part) "0 < ?q" "?q < 1" | (full) "1 \<le> ?q" by linarith
  then show ?thesis
  proof cases
    case none
    then have "js_float ?q \<le> 0" using js_float_neg [of ?q] by (cases "?q = 0") (auto simp del: divide_eq_0_iff)
    then have "1 \<le> js_float (1 - js_float ?q)" by (intro js_float_ge_one) simp
    with none show ?thesis by (simp add: free_ratio_def max_def min_def)
  next
    case part
    have "\<bar>?q\<bar> / 2 ^ 53 \<le> 1 / 2 ^ 53" using part by (intro divide_right_mono) (linarith, simp)
    then have 1: "\<bar>js_float ?q - ?q\<bar> \<le> 1 / 2 ^ 53" using js_float_error [of ?q] by linarith
    moreover have "1 / (2 :: rat) ^ 53 \<le> 1" by simp
    ultimately have "\<bar>1 - js_float ?q\<bar> \<le> 2" using part by linarith
    then have "\<bar>1 - js_float ?q\<bar> / 2 ^ 53 \<le> 2 / 2 ^ 53" by (intro divide_right_mono) simp_all
    then have "\<bar>js_float (1 - js_float ?q) - (1 - js_float ?q)\<bar> \<le> 2 / 2 ^ 53"
      using js_float_error [of "1 - js_float ?q"] by linarith
    with 1 have "\<bar>js_float (1 - js_float ?q) - (1 - ?q)\<bar> \<le> 3 / 2 ^ 53" by linarith
    then show ?thesis unfolding free_ratio_def by (rule order_trans [OF clamp_error])
  next
    case full
    then have "1 - js_float ?q \<le> 0" using js_float_ge_one [of ?q] by simp
    then have "js_float (1 - js_float ?q) \<le> 0" using js_float_neg [of "1 - js_float ?q"]
      by (cases "1 - js_float ?q = 0") auto
    then have "free_ratio known rng = 0" by (simp add: free_ratio_def max_def min_def)
    moreover have "max 0 (min 1 (1 - ?q)) = 0"
      using full by (intro max_absorb1 min.coboundedI2) linarith
    ultimately show ?thesis unfolding \<open>free_ratio known rng = 0\<close> by (simp only: diff_self abs_zero) simp
  qed
qed

lemma free_ratio_range: "0 \<le> free_ratio known rng" "free_ratio known rng \<le> 1"
  by (simp_all add: free_ratio_def)

lemma observed_availability_error:
  "\<bar>js_float (free_ratio known rng * 100) - exact_availability rng known\<bar> \<le> 1 / 10 ^ 12"
proof -
  have "\<bar>free_ratio known rng * 100\<bar> / 2 ^ 53 \<le> 100 / 2 ^ 53"
    using free_ratio_range [of known rng] by (intro divide_right_mono) simp_all
  then have "\<bar>js_float (free_ratio known rng * 100) - free_ratio known rng * 100\<bar> \<le> 100 / 2 ^ 53"
    using js_float_error [of "free_ratio known rng * 100"] by linarith
  moreover have "\<bar>free_ratio known rng * 100 - exact_availability rng known\<bar> \<le> 300 / 2 ^ 53"
  proof -
    define y where "y = max 0 (min 1 (1 - of_int known / of_int (range_seconds rng) :: rat))"
    have "\<bar>free_ratio known rng - y\<bar> \<le> 3 / 2 ^ 53" using free_ratio_error [of known rng] by (simp only: y_def)
    then have "\<bar>free_ratio known rng * 100 - 100 * y\<bar> \<le> 300 / 2 ^ 53" by linarith
    then show ?thesis by (simp only: exact_availability_def y_def)
  qed
  moreover have "100 / 2 ^ 53 + 300 / 2 ^ 53 \<le> 1 / (10 :: rat) ^ 12" by simp
  ultimately show ?thesis by linarith
qed

lemma source_ratio:
  "sourceFor s services overall rng adjustments = Some x \<Longrightarrow> so_knownDowntimeSeconds x = Some known \<Longrightarrow>
     so_incidentFreeRatio x = Some (free_ratio known rng)"
  by (auto simp: sourceFor_def adjusted_source_def Let_def split: if_splits)

definition budget_verdict :: "incident_range \<Rightarrow> slo_budget \<Rightarrow> bool" where
  "budget_verdict rng b \<longleftrightarrow>
     (case (sb_burnRate b, sb_targetPercent b, sb_knownDowntimeSeconds b, sb_allowedDowntimeSeconds b,
            sb_observedAvailabilityPercent b, sb_remainingBudgetSeconds b) of
        (None, _, _, _, _, r) \<Rightarrow> sb_state b \<in> {Unconfigured, DataUnavailable} \<and> r = None
      | (Some burn, Some target, Some known, Some allowed, Some available, Some remaining) \<Rightarrow>
          (sb_state b = Exhausted \<longleftrightarrow> allowed \<le> of_int known) \<and>
          (sb_state b = WithinBudget \<longleftrightarrow> of_int known < allowed \<and> sb_observedExact b) \<and>
          (sb_state b = CoverageUnknown \<longleftrightarrow> of_int known < allowed \<and> \<not> sb_observedExact b) \<and>
          \<bar>allowed - exact_allowance rng target\<bar> \<le> 1 / 10 ^ 8 \<and>
          \<bar>available - exact_availability rng known\<bar> \<le> 1 / 10 ^ 12 \<and>
          (\<bar>of_int known - exact_allowance rng target\<bar> > 1 / 10 ^ 8 \<longrightarrow>
             (sb_state b = Exhausted \<longleftrightarrow> exact_availability rng known \<le> target)) \<and>
          (if sb_state b = Exhausted then remaining = 0
           else 0 < remaining \<and> \<bar>remaining - (allowed - of_int known)\<bar> \<le> (allowed - of_int known) / 2 ^ 53) \<and>
          \<bar>burn - of_int known / allowed\<bar> \<le> \<bar>of_int known / allowed\<bar> / 2 ^ 53
      | _ \<Rightarrow> False)"

lemma budget_service: "sb_serviceId (budget_of s rng known policy source adj) = s"
  by (simp add: budget_of_def budget_base_def Let_def split: option.split)

lemma rounded_rest:
  "max 0 (js_float (a - k)) = 0" if "a \<le> k"
  using that js_float_neg [of "a - k"] by (cases "a = k") (auto simp: max_def)

lemma positive_rest:
  assumes "k < a"
  shows "0 < max 0 (js_float (a - k))" and "\<bar>max 0 (js_float (a - k)) - (a - k)\<bar> \<le> (a - k) / 2 ^ 53"
  using js_float_pos [of "a - k"] js_float_error_pos [of "a - k"] assms by (simp_all add: max_def)

lemma budget_of_verdict:
  assumes "\<And>p q. policy = Some p \<Longrightarrow> sp_targetPercent p = Some q \<Longrightarrow> 0 < q \<and> q \<le> 100 - 1 / 2 ^ 46"
  shows "budget_verdict rng
    (budget_of s rng known policy (sourceFor s services overall rng adjustments) adj)"
proof (cases "known \<and> adj \<and> (\<exists>p target x down. policy = Some p \<and> sp_enabled p \<and> sp_targetPercent p = Some target \<and>
    sourceFor s services overall rng adjustments = Some x \<and> so_knownDowntimeSeconds x = Some down)")
  case False
  then show ?thesis
    by (auto simp: budget_verdict_def budget_of_def budget_base_def Let_def bind_eq_Some_conv
        split: option.splits)
next
  case True
  then obtain p target x down where p: "policy = Some p" "sp_enabled p" "sp_targetPercent p = Some target"
    and x: "sourceFor s services overall rng adjustments = Some x" "so_knownDowntimeSeconds x = Some down"
    and k: "known" "adj" by blast
  from assms p have t: "0 < target" "target \<le> 100 - 1 / 2 ^ 46" by auto
  have t100: "target < 100" by (rule order.strict_trans1 [OF t(2)]) simp
  let ?a = "allowed_downtime (range_seconds rng) target"
  have burn: "1 \<le> js_float (of_int down / ?a) \<longleftrightarrow> ?a \<le> of_int down"
    unfolding allowed_downtime_def by (rule js_float_quotient_ge_one [OF allowed_downtime_bounds(1,2) [OF t]])
  have near: "\<bar>?a - exact_allowance rng target\<bar> \<le> 1 / 10 ^ 8" by (rule allowed_downtime_bounds(3) [OF t])
  have away: "\<bar>of_int down - exact_allowance rng target\<bar> > 1 / 10 ^ 8 \<Longrightarrow>
      ?a \<le> of_int down \<longleftrightarrow> exact_availability rng down \<le> target"
    using near unfolding availability_below_target [OF t(1) t100] by linarith
  show ?thesis
  proof (cases "?a \<le> of_int down")
    case a: True
    show ?thesis
      using near away a observed_availability_error [of down rng] js_float_error [of "of_int down / ?a"]
      by (simp add: budget_verdict_def budget_of_def budget_base_def Let_def p k x source_ratio [OF x] burn
          rounded_rest [OF a] del: power_one_over times_divide_eq_left times_divide_eq_right divide_divide_eq_left)
  next
    case a: False
    then have less: "of_int down < ?a" by simp
    show ?thesis
      using near away a observed_availability_error [of down rng] js_float_error [of "of_int down / ?a"]
        positive_rest [OF less]
      by (simp add: budget_verdict_def budget_of_def budget_base_def Let_def p k x source_ratio [OF x] burn less
          del: power_one_over times_divide_eq_left times_divide_eq_right divide_divide_eq_left)
  qed
qed

text \<open>C22. The page shows one budget for each of the four services, in order. Where it shows a burn rate, the
  budget is exhausted exactly when the downtime after maintenance reaches the allowance it shows, and then
  nothing remains; otherwise it is only called kept when every start is known exactly, and what remains is
  positive, the allowance less the downtime up to the rounding of one subtraction. All numbers are doubles:
  the allowance shown is within a hundred-millionth of a second of the exact share the target leaves of the
  range, the availability shown within a trillionth of a percent of the exact one, and the state is
  that of the exact availability, exhausted exactly when it does not exceed the target, unless the downtime is
  within a hundred-millionth of a second of the exact allowance. Without a burn rate it shows no verdict.\<close>

theorem budget_agrees_with_availability:
  assumes "getReliabilitySloPolicies answered = Some policies"
  shows "map sb_serviceId (buildReliabilitySloBudgets services overall (Some policies) rng adjustments) =
      [OverallService, HostService, ContainerService, BackupService] \<and>
    list_all (budget_verdict rng) (buildReliabilitySloBudgets services overall (Some policies) rng adjustments)"
proof -
  have "0 < q \<and> q \<le> 100 - 1 / 2 ^ 46"
    if "map_of (index_by sp_serviceId policies) s = Some p" "sp_targetPercent p = Some q" for s p q
    using policies_target [OF assms _ that(2)] index_by_lookupD [OF that(1)] by blast
  then have "budget_verdict rng (budget_of s rng True (map_of (index_by sp_serviceId policies) s)
      (sourceFor s services overall rng adjustments) (adjustments \<noteq> None))" for s
    by (rule budget_of_verdict)
  then show ?thesis
    unfolding buildReliabilitySloBudgets_def SLO_SERVICE_IDS_def Let_def
    by (simp add: budget_service del: not_None_eq)
qed

definition sample_policy_row :: jsval where
  "sample_policy_row = Obj [(''service_id'', Str ''overall''), (''target_percent'', jint 99),
     (''enabled'', Bool True), (''updated_at'', Str ''2026-01-01T00:00:00Z'')]"

definition sample_overall :: reliability_overall where
  "sample_overall = \<lparr> ov_health = Operational, ov_activeIncidentCount = 0, ov_activeCriticalCount = 0,
     ov_knownDowntimeSeconds = 900, ov_incidentFreeRatio = 1, ov_exactCoverage = True,
     ov_recoveredIncidentCount = 1, ov_medianRecoverySeconds = None, ov_longestRecoverySeconds = None,
     ov_affectedEntityCount = 1 \<rparr>"

definition sample_adjustments :: "(slo_service \<times> adjusted_downtime) list" where
  "sample_adjustments = [(OverallService, \<lparr> ad_rawDowntimeSeconds = 900, ad_countedDowntimeSeconds = 900,
     ad_excludedMaintenanceSeconds = 0, ad_exactCoverage = True \<rparr>)]"

definition sample_policies :: "slo_policy list" where
  "sample_policies = [\<lparr> sp_serviceId = OverallService, sp_targetPercent = Some 99, sp_enabled = True,
     sp_updatedAt = ''2026-01-01T00:00:00Z'' \<rparr>]"

theorem budget_agrees_with_availability_witness:
  "list_all (budget_verdict Range24h)
     (buildReliabilitySloBudgets [] sample_overall (Some sample_policies) Range24h (Some sample_adjustments))"
proof -
  have d: "Date_parse ''2026-01-01T00:00:00Z'' = Some 1767225600000"
    by (simp add: sample_instants)
  have f: "js_float 99 = 99" by code_simp
  have "getReliabilitySloPolicies (Some (Arr [sample_policy_row])) = Some sample_policies"
    by (simp add: getReliabilitySloPolicies_def sample_policy_row_def parsePolicy_def prop_or_def d read_timestamp_def
        parseTargetPercent_def nullable_def isReliabilitySloServiceId_def SLO_SERVICE_IDS_def slo_service_text_def
        sample_policies_def f)
  from budget_agrees_with_availability [OF this, of "[]" sample_overall Range24h "Some sample_adjustments"]
  show ?thesis by (rule conjunct2)
qed

text \<open>
  At the boundary the rounding decides: a target of 99 percent leaves 864 seconds of a day, the code computes
  an allowance just above that, and with a downtime of exactly 864 seconds calls the budget kept although the
  availability is the target.
\<close>

definition boundary_budget :: slo_budget where
  "boundary_budget = budget_of OverallService Range24h True (Some (hd sample_policies))
     (Some (adjusted_source ''Overall Reliability'' (Some 864) True ''/incidents'' Range24h
        (Some \<lparr> ad_rawDowntimeSeconds = 864, ad_countedDowntimeSeconds = 864,
                ad_excludedMaintenanceSeconds = 0, ad_exactCoverage = True \<rparr>))) True"

lemma boundary_budget_is_kept:
  "sb_state boundary_budget = WithinBudget" "exact_availability Range24h 864 = 99"
proof -
  have "\<not> 1 \<le> js_float (864 / allowed_downtime 86400 99)" by code_simp
  then show "sb_state boundary_budget = WithinBudget"
    by (simp add: boundary_budget_def budget_of_def budget_base_def adjusted_source_def sample_policies_def Let_def
        range_seconds_def incident_range_hours_def)
qed (simp add: exact_availability_def range_seconds_def incident_range_hours_def)

section \<open>Setting a policy\<close>

definition two_digits :: "string \<Rightarrow> bool" where
  \<comment> \<open>\<open>/^\d{1,2}(?:\.\d{1,4})?$/\<close>\<close>
  "two_digits s \<longleftrightarrow>
     (case split_on CHR ''.'' s of
        [whole] \<Rightarrow> chars_between is_digit 1 2 whole
      | [whole, part] \<Rightarrow> chars_between is_digit 1 2 whole \<and> chars_between is_digit 1 4 part
      | _ \<Rightarrow> False)"

definition target_percent :: "(rat \<Rightarrow> string) \<Rightarrow> jsval \<Rightarrow> rat option option" where
  \<comment> \<open>the first argument is \<open>String\<close> of a finite number\<close>
  "target_percent number_text value =
     (if value \<in> {Null, Undefined, Str []} then Some None
      else (case (case value of Str s \<Rightarrow> Some s | Num (Fin q) \<Rightarrow> Some (number_text q) | _ \<Rightarrow> None) of
              None \<Rightarrow> None
            | Some raw \<Rightarrow>
                (let text = trim raw
                 in if \<not> two_digits text then None
                    else (case to_number (Str text) of
                            Fin q \<Rightarrow>
                              (let parsed = js_float q in if parsed > 0 \<and> parsed < 100 then Some (Some parsed) else None)
                          | _ \<Rightarrow> None))))"

definition enabled_value :: "jsval \<Rightarrow> bool option" where
  "enabled_value value =
     (if value \<in> {Bool True, Str ''true'', Str ''1'', Str ''on''} then Some True
      else if value \<in> {Bool False, Str ''false'', Str ''0'', Null, Undefined} then Some False
      else None)"

record policy_request =
  pr_header :: reader
  pr_origin :: string
  pr_json :: "jsval option"  \<comment> \<open>\<open>request.json()\<close>\<close>
  pr_form :: "(string \<times> string) list option"  \<comment> \<open>\<open>request.formData()\<close>\<close>

definition policy_body :: "policy_request \<Rightarrow> jsval option" where
  "policy_body r =
     (if str_includes ''application/json'' (case pr_header r ''content-type'' of None \<Rightarrow> [] | Some c \<Rightarrow> to_lower c)
      then Option.bind (pr_json r) (\<lambda>v. if is_record v then Some v else None)
      else map_option (\<lambda>form. Obj [(''serviceId'', or_null (map_of form ''serviceId'')),
             (''targetPercent'', or_null (map_of form ''targetPercent'')),
             (''enabled'', Bool (map_of form ''enabled'' \<noteq> None)),
             (''range'', or_null (map_of form ''range''))]) (pr_form r))"

datatype policy_reply = PolicyError nat string | PolicyReply slo_policy | PolicyRedirect incident_range string

definition policy_refuse :: "policy_request \<Rightarrow> incident_range \<Rightarrow> nat \<Rightarrow> string \<Rightarrow> string \<Rightarrow> policy_reply" where
  "policy_refuse r rng status err outcome =
     (if (case pr_header r ''accept'' of None \<Rightarrow> False | Some a \<Rightarrow> str_includes ''application/json'' a)
      then PolicyError status err else PolicyRedirect rng outcome)"

definition slo_post ::
  "(rat \<Rightarrow> string) \<Rightarrow> (string \<Rightarrow> jsval \<Rightarrow> jsval option) \<Rightarrow> console_session \<Rightarrow> policy_request \<Rightarrow> string \<Rightarrow>
   policy_reply \<times> rpc_call list" where
  "slo_post number_text rpc session r requestId =
     (if nonempty (pr_header r ''origin'') \<noteq> Some (pr_origin r) then (PolicyError 403 ''origin_mismatch'', [])
      else (case administrator_of session of
              None \<Rightarrow> (PolicyError 403 ''administrator_role_required'', [])
            | Some role \<Rightarrow>
                (case policy_body r of
                   None \<Rightarrow> (PolicyError 400 ''request_body_invalid'', [])
                 | Some body \<Rightarrow>
                     (let rng = parseIncidentRange (as_string (get_prop body ''range''))
                      in case Option.bind (as_string (get_prop body ''serviceId'')) isReliabilitySloServiceId of
                           None \<Rightarrow> (policy_refuse r rng 400 ''service_id_invalid'' ''service_invalid'', [])
                         | Some service \<Rightarrow>
                             (case target_percent number_text (get_prop body ''targetPercent'') of
                                None \<Rightarrow> (policy_refuse r rng 400 ''target_percent_invalid'' ''target_invalid'', [])
                              | Some target \<Rightarrow>
                                  (case enabled_value (get_prop body ''enabled'') of
                                     None \<Rightarrow> (policy_refuse r rng 400 ''enabled_target_required'' ''target_required'', [])
                                   | Some enabled \<Rightarrow>
                                       if enabled \<and> target = None
                                       then (policy_refuse r rng 400 ''enabled_target_required'' ''target_required'', [])
                                       else (case updateReliabilitySloPolicy rpc
                                               \<lparr> pu_serviceId = service, pu_targetPercent = target,
                                                 pu_enabled = enabled, pu_requestId = requestId,
                                                 pu_actor = \<lparr> ac_email = cs_email session,
                                                   ac_discordUserId = cs_discordUserId session, ac_role = role \<rparr> \<rparr> of
                                               (None, calls) \<Rightarrow>
                                                 (policy_refuse r rng 503 ''slo_policy_update_failed'' ''update_failed'', calls)
                                             | (Some p, calls) \<Rightarrow>
                                                 (if (case pr_header r ''accept'' of None \<Rightarrow> False
                                                      | Some a \<Rightarrow> str_includes ''application/json'' a)
                                                  then PolicyReply p else PolicyRedirect rng ''updated'', calls))))))))"

lemma policy_change_is_authorised:
  "call \<in> set (snd (slo_post number_text rpc session r requestId)) \<Longrightarrow>
     \<exists>role. administrator_of session = Some role \<and> nonempty (pr_header r ''origin'') = Some (pr_origin r)"
  by (auto simp: slo_post_def Let_def split: if_splits option.splits)

end
