(* ===== verification/BurnRates.thy ===== *)
theory BurnRates
  imports ReliabilityCenter MetricHistory
begin

text \<open>
  Burn rates of the error budgets: their evaluation over three windows
  (\<open>apps/web/lib/reliability-burn-rate.ts\<close>), the recorded history and the health of the reconciler
  (\<open>reliability-burn-observability.ts\<close>), the reconciliation of the alerts with its route
  (\<open>reliability-burn-notifications.ts\<close>, \<open>app/api/reliability/burn-reconcile/route.ts\<close>), and the
  snapshot of the page (\<open>reliability.ts\<close>). The Japanese reasons are left to constructors or omitted; a
  database function is a parameter, \<open>None\<close> for a failed call.
\<close>

section \<open>Burn rates\<close>

datatype burn_window_id = Burn1h | Burn6h | Burn24h

datatype burn_state =
  BurnUnconfigured | BurnHealthy | BurnWarning | BurnCritical | BurnCoverageUnknown | BurnDataUnavailable

definition RELIABILITY_BURN_WINDOWS :: "(burn_window_id \<times> int) list" where
  \<comment> \<open>with the hours\<close>
  "RELIABILITY_BURN_WINDOWS = [(Burn1h, 1), (Burn6h, 6), (Burn24h, 24)]"

record burn_window =
  bw_windowId :: burn_window_id
  bw_hours :: int
  bw_rawDowntimeSeconds :: "int option"
  bw_maintenanceExcludedSeconds :: "int option"
  bw_countedDowntimeSeconds :: "int option"
  bw_allowedDowntimeSeconds :: "rat option"
  bw_burnRate :: "rat option"
  bw_exactCoverage :: bool

datatype burn_reason = RatesReason burn_state "burn_window list" | NoPolicyReason | NoDataReason | EndedReason

record burn_service =
  bs_serviceId :: slo_service
  bs_label :: string
  bs_targetPercent :: "rat option"
  bs_enabled :: bool
  bs_state :: burn_state
  bs_reason :: burn_reason
  bs_windows :: "burn_window list"

definition findWindow :: "burn_window list \<Rightarrow> burn_window_id \<Rightarrow> burn_window option" where
  "findWindow windows i = List.find (\<lambda>w. bw_windowId w = i) windows"

definition reaches :: "burn_window option \<Rightarrow> rat \<Rightarrow> bool" where
  "reaches window threshold \<longleftrightarrow>
     (case window of
        None \<Rightarrow> False
      | Some w \<Rightarrow> bw_exactCoverage w \<and> (case bw_burnRate w of None \<Rightarrow> False | Some r \<Rightarrow> r \<ge> threshold))"

definition stateFor :: "burn_window list \<Rightarrow> burn_state" where
  "stateFor windows =
     (if reaches (findWindow windows Burn1h) (144 / 10) \<and> reaches (findWindow windows Burn6h) 6 then BurnCritical
      else if reaches (findWindow windows Burn6h) 6 \<and> reaches (findWindow windows Burn24h) 3 then BurnWarning
      else if list_all bw_exactCoverage windows then BurnHealthy else BurnCoverageUnknown)"

definition reasonFor :: "burn_state \<Rightarrow> burn_window list \<Rightarrow> burn_reason" where
  "reasonFor state windows =
     (case state of BurnUnconfigured \<Rightarrow> NoPolicyReason | BurnDataUnavailable \<Rightarrow> NoDataReason
      | _ \<Rightarrow> RatesReason state windows)"

definition burn_window_of ::
  "unified_snapshot \<Rightarrow> maintenance_window list \<Rightarrow> slo_policy \<Rightarrow> slo_service \<Rightarrow> burn_window_id \<times> int \<Rightarrow> burn_window" where
  "burn_window_of incidents maintenance policy s = (\<lambda>(i, hours).
     let rangeEnd = ms_of (un_generatedAt incidents);
         rangeStart = rangeEnd - hours * 3600000;
         adjustment = map_of (buildReliabilityMaintenanceAdjustments (un_active incidents) (un_recovered incidents)
           maintenance rangeStart rangeEnd) s
     in case (adjustment, sp_targetPercent policy) of
          (Some a, Some target) \<Rightarrow>
            (let allowed = allowed_downtime (hours * 3600) target
             in \<lparr> bw_windowId = i, bw_hours = hours, bw_rawDowntimeSeconds = Some (ad_rawDowntimeSeconds a),
                  bw_maintenanceExcludedSeconds = Some (ad_excludedMaintenanceSeconds a),
                  bw_countedDowntimeSeconds = Some (ad_countedDowntimeSeconds a),
                  bw_allowedDowntimeSeconds = Some allowed,
                  bw_burnRate = (if allowed = 0 then None
                    else Some (js_float (of_int (ad_countedDowntimeSeconds a) / allowed))),
                  bw_exactCoverage = (ad_exactCoverage a \<and>
                    (s \<notin> {OverallService, BackupService} \<or> un_backupDataAvailable incidents)) \<rparr>)
        | _ \<Rightarrow> \<lparr> bw_windowId = i, bw_hours = hours, bw_rawDowntimeSeconds = None,
                 bw_maintenanceExcludedSeconds = None, bw_countedDowntimeSeconds = None,
                 bw_allowedDowntimeSeconds = None, bw_burnRate = None, bw_exactCoverage = False \<rparr>)"

definition buildConfiguredWindows ::
  "unified_snapshot \<Rightarrow> maintenance_window list \<Rightarrow> slo_policy \<Rightarrow> slo_service \<Rightarrow> burn_window list" where
  "buildConfiguredWindows incidents maintenance policy s =
     map (burn_window_of incidents maintenance policy s) RELIABILITY_BURN_WINDOWS"

definition burn_service_of ::
  "unified_snapshot \<Rightarrow> slo_policy list option \<Rightarrow> maintenance_window list option \<Rightarrow> slo_service \<Rightarrow> burn_service" where
  "burn_service_of incidents policies maintenance s =
     (let policy = map_of (index_by sp_serviceId (case policies of None \<Rightarrow> [] | Some ps \<Rightarrow> ps)) s;
          base = (\<lambda>state windows. \<lparr> bs_serviceId = s, bs_label = SLO_LABELS s,
             bs_targetPercent = Option.bind policy sp_targetPercent,
             bs_enabled = (case policy of None \<Rightarrow> False | Some p \<Rightarrow> sp_enabled p),
             bs_state = state, bs_reason = reasonFor state windows, bs_windows = windows \<rparr>)
      in case (policies, maintenance) of
           (Some _, Some windows) \<Rightarrow>
             (case policy of
                Some p \<Rightarrow>
                  if sp_enabled p \<and> sp_targetPercent p \<noteq> None
                  then (let ws = buildConfiguredWindows incidents windows p s in base (stateFor ws) ws)
                  else base BurnUnconfigured []
              | None \<Rightarrow> base BurnUnconfigured [])
         | _ \<Rightarrow> base BurnDataUnavailable [])"

definition buildReliabilityBurnRates ::
  "unified_snapshot \<Rightarrow> slo_policy list option \<Rightarrow> maintenance_window list option \<Rightarrow> burn_service list" where
  "buildReliabilityBurnRates incidents policies maintenance =
     map (burn_service_of incidents policies maintenance) SLO_SERVICE_IDS"

definition getReliabilityBurnRateSnapshot ::
  "int \<Rightarrow> unified_snapshot option \<Rightarrow> jsval option \<Rightarrow> (window_query \<Rightarrow> jsval option) \<Rightarrow> jsval option \<Rightarrow>
   (string \<times> burn_service list) option" where
  \<comment> \<open>the instant of the request, the awaited incident centre, the policies' answer, the window queries and
    the hosts' answer\<close>
  "getReliabilityBurnRateSnapshot requestedAt incidents policiesAnswer query hostsAnswer =
     map_option (\<lambda>un. (un_generatedAt un, buildReliabilityBurnRates un (getReliabilitySloPolicies policiesAnswer)
         (getReliabilityMaintenanceWindows query hostsAnswer
           (iso_text (requestedAt - 24 * 3600000 - 60000)) (iso_text requestedAt) None)))
       incidents"

section \<open>Observability\<close>

definition HISTORY_BUCKET_MINUTES :: "incident_range \<Rightarrow> int" where
  "HISTORY_BUCKET_MINUTES r = (case r of Range24h \<Rightarrow> 5 | Range7d \<Rightarrow> 30 | Range30d \<Rightarrow> 120)"

definition burn_state_text :: "burn_state \<Rightarrow> string" where
  "burn_state_text s =
     (case s of BurnUnconfigured \<Rightarrow> ''unconfigured'' | BurnHealthy \<Rightarrow> ''healthy'' | BurnWarning \<Rightarrow> ''warning''
      | BurnCritical \<Rightarrow> ''critical'' | BurnCoverageUnknown \<Rightarrow> ''coverage_unknown''
      | BurnDataUnavailable \<Rightarrow> ''data_unavailable'')"

definition isBurnState :: "jsval \<Rightarrow> burn_state option" where
  "isBurnState v = Option.bind (as_string v) (\<lambda>s. List.find (\<lambda>b. burn_state_text b = s)
     [BurnUnconfigured, BurnHealthy, BurnWarning, BurnCritical, BurnCoverageUnknown, BurnDataUnavailable])"

datatype reconciler_reason =
    ReconcilerStopped | EndpointMissing | ReferenceUnknown | LatestFailed | NeverInvoked | AwaitingFirstRun
  | NeverSucceeded | AwaitingFirstSuccess | SuccessTooOld | SuccessLate | InvocationLate | ReconcilerHealthy
  | StateUnavailable

record reconciler_input =
  rc_enabled :: bool
  rc_endpointConfigured :: bool
  rc_stateUpdatedAt :: string
  rc_lastInvokedAt :: "string option"
  rc_lastSuccessAt :: "string option"
  rc_lastErrorAt :: "string option"
  rc_referenceAt :: string

definition reconcilerHealth :: "reconciler_input \<Rightarrow> reliability_health \<times> reconciler_reason" where
  "reconcilerHealth i =
     (let time = (\<lambda>v. Option.bind (nonempty v) Date_parse)
      in if \<not> rc_enabled i then (DisabledHealth, ReconcilerStopped)
         else if \<not> rc_endpointConfigured i then (CriticalHealth, EndpointMissing)
         else (case (Date_parse (rc_referenceAt i), Date_parse (rc_stateUpdatedAt i)) of
                 (Some reference, Some updated) \<Rightarrow>
                   (let success = time (rc_lastSuccessAt i); invoked = time (rc_lastInvokedAt i);
                        failure = time (rc_lastErrorAt i);
                        age = (\<lambda>t. max 0 (reference - t))
                    in if (case (failure, success) of (None, _) \<Rightarrow> False | (Some _, None) \<Rightarrow> True
                           | (Some f, Some s) \<Rightarrow> f > s)
                       then (CriticalHealth, LatestFailed)
                       else (case invoked of
                               None \<Rightarrow> if age updated > 180000 then (CriticalHealth, NeverInvoked)
                                        else (Degraded, AwaitingFirstRun)
                             | Some invocation \<Rightarrow>
                                 (case success of
                                    None \<Rightarrow> if age invocation > 180000 then (CriticalHealth, NeverSucceeded)
                                             else (Degraded, AwaitingFirstSuccess)
                                  | Some s \<Rightarrow>
                                      if age s > 180000 then (CriticalHealth, SuccessTooOld)
                                      else if age s > 120000 then (Degraded, SuccessLate)
                                      else if age invocation > 120000 then (Degraded, InvocationLate)
                                      else (Operational, ReconcilerHealthy))))
               | _ \<Rightarrow> (UnknownServiceHealth, ReferenceUnknown)))"

record reconciler_state =
  rn_dataAvailable :: bool
  rn_health :: reliability_health
  rn_reason :: reconciler_reason
  rn_enabled :: "bool option"
  rn_endpointConfigured :: "bool option"
  rn_lastInvokedAt :: "string option"
  rn_lastSuccessAt :: "string option"
  rn_lastErrorAt :: "string option"
  rn_lastErrorCode :: "string option"
  rn_lastEvaluatedCount :: "int option"

definition unavailableReliabilityBurnReconcilerState :: reconciler_state where
  "unavailableReliabilityBurnReconcilerState =
     \<lparr> rn_dataAvailable = False, rn_health = UnknownServiceHealth, rn_reason = StateUnavailable,
       rn_enabled = None, rn_endpointConfigured = None, rn_lastInvokedAt = None, rn_lastSuccessAt = None,
       rn_lastErrorAt = None, rn_lastErrorCode = None, rn_lastEvaluatedCount = None \<rparr>"

definition getReliabilityBurnReconcilerState ::
  "(string \<Rightarrow> jsval \<Rightarrow> jsval option) \<Rightarrow> string \<Rightarrow> reconciler_state option" where
  "getReliabilityBurnReconcilerState rpc referenceAt = do {
     payload \<leftarrow> rpc ''get_reliability_burn_reconcile_state_v2'' (Obj []);
     rows \<leftarrow> as_array payload;
     row \<leftarrow> (case rows of [r] \<Rightarrow> if is_record r then Some r else None | _ \<Rightarrow> None);
     updatedAt \<leftarrow> read_timestamp (get_prop row ''state_updated_at'');
     invokedAt \<leftarrow> nullable read_timestamp (get_prop row ''last_invoked_at'');
     successAt \<leftarrow> nullable read_timestamp (get_prop row ''last_success_at'');
     errorAt \<leftarrow> nullable read_timestamp (get_prop row ''last_error_at'');
     evaluated \<leftarrow> integer_number (get_prop row ''last_evaluated_count'');
     enabled \<leftarrow> as_bool (get_prop row ''enabled'');
     configured \<leftarrow> as_bool (get_prop row ''endpoint_configured'');
     errorCode \<leftarrow> nullable as_string (get_prop row ''last_error_code'');
     if evaluated < 0 \<or> evaluated > 4 then None
     else (case reconcilerHealth \<lparr> rc_enabled = enabled, rc_endpointConfigured = configured,
               rc_stateUpdatedAt = updatedAt, rc_lastInvokedAt = invokedAt, rc_lastSuccessAt = successAt,
               rc_lastErrorAt = errorAt, rc_referenceAt = referenceAt \<rparr> of
             (health, reason) \<Rightarrow>
               Some \<lparr> rn_dataAvailable = True, rn_health = health, rn_reason = reason,
                 rn_enabled = Some enabled, rn_endpointConfigured = Some configured,
                 rn_lastInvokedAt = invokedAt, rn_lastSuccessAt = successAt, rn_lastErrorAt = errorAt,
                 rn_lastErrorCode = errorCode, rn_lastEvaluatedCount = Some evaluated \<rparr>)
   }"

record burn_history_point =
  bp_serviceId :: slo_service
  bp_bucketStartedAt :: string
  bp_observedAt :: string
  bp_state :: burn_state
  bp_targetPercent :: "rat option"
  bp_burnRate1h :: "rat option"
  bp_burnRate6h :: "rat option"
  bp_burnRate24h :: "rat option"
  bp_exact1h :: bool
  bp_exact6h :: bool
  bp_exact24h :: bool

definition parseNumber :: "jsval \<Rightarrow> rat option option" where
  "parseNumber = nullable (\<lambda>v. case to_number v of Fin q \<Rightarrow> Some q | _ \<Rightarrow> None)"

definition parseHistoryPoint :: "jsval \<Rightarrow> burn_history_point option" where
  "parseHistoryPoint row =
     (if \<not> is_record row then None
      else do {
        bucketStartedAt \<leftarrow> read_timestamp (get_prop row ''bucket_started_at'');
        observedAt \<leftarrow> read_timestamp (get_prop row ''observed_at'');
        target \<leftarrow> parseNumber (get_prop row ''target_percent'');
        rate1 \<leftarrow> parseNumber (get_prop row ''burn_rate_1h'');
        rate6 \<leftarrow> parseNumber (get_prop row ''burn_rate_6h'');
        rate24 \<leftarrow> parseNumber (get_prop row ''burn_rate_24h'');
        service \<leftarrow> Option.bind (as_string (get_prop row ''service_id'')) isReliabilitySloServiceId;
        state \<leftarrow> isBurnState (get_prop row ''state'');
        exact1 \<leftarrow> as_bool (get_prop row ''exact_1h'');
        exact6 \<leftarrow> as_bool (get_prop row ''exact_6h'');
        exact24 \<leftarrow> as_bool (get_prop row ''exact_24h'');
        Some \<lparr> bp_serviceId = service, bp_bucketStartedAt = bucketStartedAt, bp_observedAt = observedAt,
          bp_state = state, bp_targetPercent = target, bp_burnRate1h = rate1, bp_burnRate6h = rate6,
          bp_burnRate24h = rate24, bp_exact1h = exact1, bp_exact6h = exact6, bp_exact24h = exact24 \<rparr>
      })"

record burn_history =
  bh_dataAvailable :: bool
  bh_bucketMinutes :: int
  bh_points :: "burn_history_point list"

definition unavailableReliabilityBurnRateHistory :: "incident_range \<Rightarrow> burn_history" where
  "unavailableReliabilityBurnRateHistory rng =
     \<lparr> bh_dataAvailable = False, bh_bucketMinutes = HISTORY_BUCKET_MINUTES rng, bh_points = [] \<rparr>"

definition getReliabilityBurnRateHistory ::
  "(string \<Rightarrow> jsval \<Rightarrow> jsval option) \<Rightarrow> incident_range \<Rightarrow> string \<Rightarrow> burn_history option" where
  "getReliabilityBurnRateHistory rpc rng referenceAt = do {
     reference \<leftarrow> Date_parse referenceAt;
     since \<leftarrow> Date_toISOString (reference - incident_range_hours rng * 3600000);
     payload \<leftarrow> rpc ''list_reliability_burn_rate_history_v1''
       (Obj [(''p_since'', Str since), (''p_bucket_minutes'', jint (HISTORY_BUCKET_MINUTES rng))]);
     rows \<leftarrow> as_array payload;
     points \<leftarrow> map_rows parseHistoryPoint rows;
     Some \<lparr> bh_dataAvailable = True, bh_bucketMinutes = HISTORY_BUCKET_MINUTES rng, bh_points = points \<rparr>
   }"

definition number_or_null :: "rat option \<Rightarrow> jsval" where
  "number_or_null v = (case v of None \<Rightarrow> Null | Some q \<Rightarrow> Num (Fin q))"

definition sampleFor :: "burn_service \<Rightarrow> jsval" where
  "sampleFor service =
     (let field = (\<lambda>f i. number_or_null (Option.bind (findWindow (bs_windows service) i) f));
          seconds = (\<lambda>f. field (\<lambda>w. map_option of_int (f w)));
          exact = (\<lambda>i. Bool (case findWindow (bs_windows service) i of None \<Rightarrow> False | Some w \<Rightarrow> bw_exactCoverage w))
      in Obj [(''service_id'', Str (slo_service_text (bs_serviceId service))),
           (''state'', Str (burn_state_text (bs_state service))),
           (''target_percent'', number_or_null (bs_targetPercent service)),
           (''burn_rate_1h'', field bw_burnRate Burn1h), (''burn_rate_6h'', field bw_burnRate Burn6h),
           (''burn_rate_24h'', field bw_burnRate Burn24h),
           (''exact_1h'', exact Burn1h), (''exact_6h'', exact Burn6h), (''exact_24h'', exact Burn24h),
           (''counted_downtime_1h'', seconds bw_countedDowntimeSeconds Burn1h),
           (''counted_downtime_6h'', seconds bw_countedDowntimeSeconds Burn6h),
           (''counted_downtime_24h'', seconds bw_countedDowntimeSeconds Burn24h),
           (''maintenance_excluded_1h'', seconds bw_maintenanceExcludedSeconds Burn1h),
           (''maintenance_excluded_6h'', seconds bw_maintenanceExcludedSeconds Burn6h),
           (''maintenance_excluded_24h'', seconds bw_maintenanceExcludedSeconds Burn24h)])"

definition recordReliabilityBurnRateHistory ::
  "(string \<Rightarrow> jsval \<Rightarrow> jsval option) \<Rightarrow> string \<Rightarrow> burn_service list \<Rightarrow> unit option \<times> rpc_call list" where
  "recordReliabilityBurnRateHistory rpc generatedAt burnRates =
     (case map_rows (map_of (index_by bs_serviceId burnRates)) SLO_SERVICE_IDS of
        None \<Rightarrow> (None, [])
      | Some ordered \<Rightarrow>
          (let body = Obj [(''p_observed_at'', Str generatedAt), (''p_samples'', Arr (map sampleFor ordered))];
               name = ''record_reliability_burn_rate_samples_v1''
           in (case rpc name body of
                 None \<Rightarrow> None
               | Some result \<Rightarrow> if to_number result = Fin 4 then Some () else None, [(name, body)])))"

section \<open>Reconciling the alerts\<close>

definition verifyReliabilityBurnReconcileToken ::
  "(string \<Rightarrow> string) \<Rightarrow> (string \<Rightarrow> jsval \<Rightarrow> jsval option) \<Rightarrow> string \<Rightarrow> bool option" where
  \<comment> \<open>with SHA-256 in hexadecimal; \<open>None\<close> when the check failed\<close>
  "verifyReliabilityBurnReconcileToken sha256 rpc token =
     (if length token < 32 \<or> length token > 256 then Some False
      else map_option (\<lambda>result. result = Bool True)
        (rpc ''verify_reliability_burn_reconcile_token_v1'' (Obj [(''p_token_sha256'', Str (sha256 token))])))"

definition signalDecision :: "burn_service \<Rightarrow> (bool \<times> incident_severity \<times> burn_reason) option" where
  \<comment> \<open>active, severity, reason; \<open>None\<close> to skip\<close>
  "signalDecision s =
     (case bs_state s of
        BurnCritical \<Rightarrow> Some (True, CriticalIncident, bs_reason s)
      | BurnWarning \<Rightarrow> Some (True, WarningIncident, bs_reason s)
      | BurnHealthy \<Rightarrow> Some (False, WarningIncident, bs_reason s)
      | BurnUnconfigured \<Rightarrow> Some (False, WarningIncident, EndedReason)
      | _ \<Rightarrow> None)"

definition severity_word :: "incident_severity \<Rightarrow> string" where
  "severity_word s = (case s of WarningIncident \<Rightarrow> ''warning'' | CriticalIncident \<Rightarrow> ''critical'')"

definition signal_call ::
  "(burn_reason \<Rightarrow> string) \<Rightarrow> string \<Rightarrow> slo_service \<Rightarrow> bool \<times> incident_severity \<times> burn_reason \<Rightarrow> rpc_call" where
  "signal_call reason_text occurredAt s = (\<lambda>(active, severity, reason).
     (''apply_reliability_burn_signal_v1'',
      Obj [(''p_service_id'', Str (slo_service_text s)), (''p_active'', Bool active),
        (''p_severity'', Str (severity_word severity)), (''p_occurred_at'', Str occurredAt),
        (''p_reason'', Str (reason_text reason))]))"

record reconcile_counts =
  rk_evaluated :: nat
  rk_changed :: nat
  rk_skipped :: nat

fun reconcile_loop ::
  "(string \<Rightarrow> jsval \<Rightarrow> jsval option) \<Rightarrow> (burn_reason \<Rightarrow> string) \<Rightarrow> string \<Rightarrow> burn_service list \<Rightarrow> reconcile_counts \<Rightarrow>
   reconcile_counts option \<times> rpc_call list" where
  \<comment> \<open>a failed signal ends the loop with an exception\<close>
  "reconcile_loop rpc rt occurredAt [] c = (Some c, [])"
| "reconcile_loop rpc rt occurredAt (s # rest) c =
     (case signalDecision s of
        None \<Rightarrow> reconcile_loop rpc rt occurredAt rest (c \<lparr> rk_skipped := rk_skipped c + 1 \<rparr>)
      | Some decision \<Rightarrow>
          (let call = signal_call rt occurredAt (bs_serviceId s) decision
           in case Option.bind (rpc (fst call) (snd call)) as_string of
                None \<Rightarrow> (None, [call])
              | Some transition \<Rightarrow>
                  (let c' = c \<lparr> rk_evaluated := rk_evaluated c + 1,
                         rk_changed := rk_changed c +
                           (if transition \<in> {''unchanged'', ''stale_ignored'', ''deescalated''} then 0 else 1) \<rparr>;
                       (result, calls) = reconcile_loop rpc rt occurredAt rest c'
                   in (result, call # calls))))"

definition reconcileReliabilityBurnNotifications ::
  "(string \<Rightarrow> jsval \<Rightarrow> jsval option) \<Rightarrow> (burn_reason \<Rightarrow> string) \<Rightarrow> (string \<times> burn_service list) option \<Rightarrow>
   (string \<times> reconcile_counts \<times> bool) option \<times> rpc_call list" where
  \<comment> \<open>the last component says whether the history was recorded; its failure is ignored\<close>
  "reconcileReliabilityBurnNotifications rpc reason_text snapshot =
     (case snapshot of
        None \<Rightarrow> (None, [])
      | Some (generatedAt, services) \<Rightarrow>
          (let (stored, history_calls) = recordReliabilityBurnRateHistory rpc generatedAt services;
               (counts, calls) = reconcile_loop rpc reason_text generatedAt services
                 \<lparr> rk_evaluated = 0, rk_changed = 0, rk_skipped = 0 \<rparr>
           in (map_option (\<lambda>c. (generatedAt, c, stored \<noteq> None)) counts, history_calls @ calls)))"

definition markReliabilityBurnReconcile :: "bool \<Rightarrow> nat \<Rightarrow> string option \<Rightarrow> rpc_call" where
  "markReliabilityBurnReconcile success evaluated errorCode =
     (''mark_reliability_burn_reconcile_v1'',
      Obj [(''p_success'', Bool success), (''p_evaluated_count'', jint (int evaluated)),
        (''p_error_code'', or_null errorCode)])"

definition MAX_RECONCILE_BODY_BYTES :: nat where
  "MAX_RECONCILE_BODY_BYTES = 1024"

datatype reconcile_reply = ReconcileError nat string | Reconciled string reconcile_counts bool

definition reconcile_body_ok :: "reader \<Rightarrow> byte list list option \<Rightarrow> bool" where
  \<comment> \<open>an absent length header converts to 0\<close>
  "reconcile_body_ok header body \<longleftrightarrow>
     \<not> length_declared_too_large MAX_RECONCILE_BODY_BYTES header \<and>
     (case body of None \<Rightarrow> True | Some chunks \<Rightarrow> read_chunks MAX_RECONCILE_BODY_BYTES 0 chunks \<noteq> None)"

definition reconcile_post ::
  "(string \<Rightarrow> string) \<Rightarrow> (string \<Rightarrow> jsval \<Rightarrow> jsval option) \<Rightarrow> (burn_reason \<Rightarrow> string) \<Rightarrow>
   (string \<times> burn_service list) option \<Rightarrow> reader \<Rightarrow> byte list list option \<Rightarrow> reconcile_reply \<times> rpc_call list" where
  "reconcile_post sha256 rpc reason_text snapshot header body =
     (if \<not> reconcile_body_ok header body then (ReconcileError 413 ''payload_too_large'', [])
      else (case verifyReliabilityBurnReconcileToken sha256 rpc
                   (case header ''x-ivrm-reliability-token'' of None \<Rightarrow> [] | Some t \<Rightarrow> trim t) of
              None \<Rightarrow> (ReconcileError 503 ''verification_unavailable'', [])
            | Some False \<Rightarrow> (ReconcileError 401 ''unauthorized'', [])
            | Some True \<Rightarrow>
                (let (result, calls) = reconcileReliabilityBurnNotifications rpc reason_text snapshot;
                     failed = markReliabilityBurnReconcile False 0 (Some ''reconcile_failed'')
                 in case result of
                      None \<Rightarrow> (ReconcileError 500 ''reconcile_failed'', calls @ [failed])
                    | Some (generatedAt, counts, stored) \<Rightarrow>
                        (let mark = markReliabilityBurnReconcile True (rk_evaluated counts) None
                         in if rpc (fst mark) (snd mark) = None
                            then (ReconcileError 500 ''reconcile_failed'', calls @ [mark, failed])
                            else (Reconciled generatedAt counts stored, calls @ [mark])))))"

section \<open>The snapshot of the page\<close>

record reliability_snapshot =
  rl_generatedAt :: string
  rl_range :: incident_range
  rl_backupDataAvailable :: bool
  rl_notificationDataAvailable :: bool
  rl_sloPolicyDataAvailable :: bool
  rl_maintenanceDataAvailable :: bool
  rl_maintenanceWindows :: "maintenance_window list"
  rl_overall :: reliability_overall
  rl_services :: "reliability_service list"
  rl_sloBudgets :: "slo_budget list"
  rl_burnRates :: "burn_service list"
  rl_burnReconciler :: reconciler_state
  rl_burnHistory :: burn_history
  rl_notifications :: "notification_summary option"  \<comment> \<open>the page shows some of its fields\<close>
  rl_lastErrorCode :: "string option"

definition of_entity :: "slo_service \<Rightarrow> any_active list \<Rightarrow> any_active list" where
  "of_entity t active = filter (\<lambda>i. incident_entity (ActiveOf i) = t) active"

definition recovered_of_entity :: "slo_service \<Rightarrow> any_recovered list \<Rightarrow> any_recovered list" where
  "recovered_of_entity t recovered = filter (\<lambda>i. incident_entity (RecoveredOf i) = t) recovered"

definition reliability_services :: "unified_snapshot \<Rightarrow> notification_summary option \<Rightarrow> incident_range \<Rightarrow> reliability_service list" where
  "reliability_services un summary rng =
     (let build = (\<lambda>t available. buildIncidentService t (of_entity t (un_active un))
            (recovered_of_entity t (un_recovered un)) rng (un_generatedAt un) available)
      in [build HostService True, build ContainerService True,
          build BackupService (un_backupDataAvailable un), buildNotificationService summary])"

definition getReliabilitySnapshot ::
  "incident_range \<Rightarrow> unified_snapshot option \<Rightarrow> notification_summary option \<Rightarrow> slo_policy list option \<Rightarrow>
   maintenance_window list option \<Rightarrow> reconciler_state option \<Rightarrow> burn_history option \<Rightarrow> reliability_snapshot option" where
  \<comment> \<open>the six awaited results\<close>
  "getReliabilitySnapshot rng incidents summary policies windows reconciler history =
     map_option (\<lambda>un.
       let services = reliability_services un summary rng;
           overall = buildOverall un services rng;
           rangeEnd = ms_of (un_generatedAt un);
           rangeStart = rangeEnd - incident_range_hours rng * 3600000;
           adjustments = map_option (\<lambda>ws. buildReliabilityMaintenanceAdjustments (un_active un)
             (un_recovered un) ws rangeStart rangeEnd) windows
       in \<lparr> rl_generatedAt = un_generatedAt un, rl_range = rng,
            rl_backupDataAvailable = un_backupDataAvailable un,
            rl_notificationDataAvailable = (summary \<noteq> None),
            rl_sloPolicyDataAvailable = (policies \<noteq> None),
            rl_maintenanceDataAvailable = (windows \<noteq> None),
            rl_maintenanceWindows = (case windows of None \<Rightarrow> [] | Some ws \<Rightarrow> ws),
            rl_overall = overall, rl_services = services,
            rl_sloBudgets = buildReliabilitySloBudgets services overall policies rng adjustments,
            rl_burnRates = buildReliabilityBurnRates un policies windows,
            rl_burnReconciler = (case reconciler of None \<Rightarrow> unavailableReliabilityBurnReconcilerState | Some s \<Rightarrow> s),
            rl_burnHistory = (case history of None \<Rightarrow> unavailableReliabilityBurnRateHistory rng | Some h \<Rightarrow> h),
            rl_notifications = summary,
            rl_lastErrorCode = (case Option.bind summary ns_dispatcherLastErrorCode of
               Some c \<Rightarrow> Some c | None \<Rightarrow> Option.bind summary ns_channelLastErrorCode) \<rparr>)
     incidents"

section \<open>Which alerts are raised\<close>

lemma stateFor_alert:
  "stateFor ws \<in> {BurnCritical, BurnWarning} \<Longrightarrow>
     \<exists>w. findWindow ws Burn6h = Some w \<and> bw_exactCoverage w \<and> (\<exists>r. bw_burnRate w = Some r \<and> 6 \<le> r)"
  by (auto simp: stateFor_def reaches_def split: if_splits option.splits)

lemma stateFor_healthy: "stateFor ws = BurnHealthy \<Longrightarrow> list_all bw_exactCoverage ws"
  by (auto simp: stateFor_def split: if_splits)

text \<open>An alert is only cleared on exact data or for a policy that is not in force: a service whose starts
  are unknown, or whose data is missing, keeps the alert it has.\<close>

lemma stateFor_range: "stateFor ws \<in> {BurnCritical, BurnWarning, BurnHealthy, BurnCoverageUnknown}"
  by (simp add: stateFor_def)

lemma burn_service_windows:
  "bs_windows (burn_service_of incidents policies maintenance s) = [] \<or>
     bs_state (burn_service_of incidents policies maintenance s) =
       stateFor (bs_windows (burn_service_of incidents policies maintenance s))"
  by (simp add: burn_service_of_def Let_def split: option.split)

lemma signal_cleared:
  assumes "signalDecision (burn_service_of incidents policies maintenance s) = Some (False, severity, reason)"
  shows "list_all bw_exactCoverage (bs_windows (burn_service_of incidents policies maintenance s))"
proof -
  let ?b = "burn_service_of incidents policies maintenance s"
  have "bs_state ?b = BurnHealthy \<or> bs_state ?b = BurnUnconfigured"
    using assms by (auto simp: signalDecision_def split: burn_state.splits)
  with burn_service_windows [of incidents policies maintenance s] show ?thesis
    using stateFor_healthy [of "bs_windows ?b"] stateFor_range [of "bs_windows ?b"] by auto
qed

end
