(* ===== verification/MaintenanceForm.thy ===== *)
theory MaintenanceForm
  imports Maintenance ConsoleUi
begin

text \<open>
  The maintenance windows on the page of the reliability centre: the list of the windows
  (\<open>app/reliability/maintenance-panel.tsx\<close>) and the form that plans one (\<open>app/reliability/maintenance-form.tsx\<close>).
  The form is a small state machine over the selected scope and target. Whatever it can submit is compared with
  what the whole route, \<^const>\<open>maintenance_post\<close>, accepts. Japanese texts, dates for display and markup are left out.
\<close>

section \<open>The list of windows\<close>

datatype window_status = ActiveWindow | UpcomingWindow | EndedWindow | CancelledWindow

record window_card =
  wc_window :: maintenance_window
  wc_status :: window_status
  wc_targetLabel :: string
  wc_cancellable :: bool

record maintenance_view =
  mv_outcomeKnown :: bool
  mv_activeCount :: nat
  mv_upcomingCount :: nat
  mv_loaded :: nat
  mv_cards :: "window_card list"
  mv_more :: bool

definition effectiveEnd :: "maintenance_window \<Rightarrow> int" where
  \<comment> \<open>for windows whose times parse\<close>
  "effectiveEnd w =
     (case nonempty (mw_cancelledAt w) of
        None \<Rightarrow> ms_of (mw_endsAt w) | Some c \<Rightarrow> min (ms_of (mw_endsAt w)) (ms_of c))"

definition windowStatus :: "maintenance_window \<Rightarrow> int \<Rightarrow> window_status" where
  "windowStatus w now =
     (if nonempty (mw_cancelledAt w) \<noteq> None then CancelledWindow
      else (let start = ms_of (mw_startsAt w); finish = effectiveEnd w
            in if start \<le> now \<and> now < finish then ActiveWindow
               else if now < start then UpcomingWindow else EndedWindow))"

definition service_label :: "slo_service \<Rightarrow> string" where
  "service_label s =
     (case s of OverallService \<Rightarrow> ''Overall Reliability'' | HostService \<Rightarrow> ''Host Platform''
      | ContainerService \<Rightarrow> ''Container Runtime'' | BackupService \<Rightarrow> ''Backup Protection'')"

definition coalesce :: "string option list \<Rightarrow> string \<Rightarrow> string" where
  \<comment> \<open>\<open>a ?? b ?? c\<close>\<close>
  "coalesce vs d = (case List.map_filter id vs of [] \<Rightarrow> d | v # _ \<Rightarrow> v)"

definition targetLabel :: "maintenance_window \<Rightarrow> string" where
  "targetLabel w =
     (case mw_scopeType w of
        ServiceScope \<Rightarrow> (case mw_serviceId w of Some s \<Rightarrow> service_label s | None \<Rightarrow> ''Service'')
      | HostScope \<Rightarrow> coalesce [mw_hostDisplayName w, mw_serverId w] ''Host'' @
          (case (nonempty (mw_serverId w), nonempty (mw_hostDisplayName w)) of
             (Some serverId, Some _) \<Rightarrow> '' / '' @ serverId | _ \<Rightarrow> [])
      | ContainerScope \<Rightarrow> coalesce [mw_hostDisplayName w, mw_serverId w] ''Host'' @ '' / '' @
          coalesce [mw_containerName w] ''Container''
      | BackupScope \<Rightarrow> coalesce [mw_hostDisplayName w, mw_serverId w] ''Host'' @ '' / '' @
          coalesce [mw_backupTarget w] ''Backup'' @ '' / '' @ coalesce [mw_gameMode w] ''-'' @ '' / '' @
          coalesce [map_option backup_type_text (mw_backupType w)] ''-'')"

definition status_rank :: "window_status \<Rightarrow> nat" where
  "status_rank s = (case s of ActiveWindow \<Rightarrow> 0 | UpcomingWindow \<Rightarrow> 1 | EndedWindow \<Rightarrow> 2 | CancelledWindow \<Rightarrow> 3)"

definition order_within :: "int \<Rightarrow> maintenance_window \<Rightarrow> int" where
  \<comment> \<open>windows that are over come with the newest end first, the others with the next start first\<close>
  "order_within now w =
     (if windowStatus w now \<in> {EndedWindow, CancelledWindow} then - effectiveEnd w else ms_of (mw_startsAt w))"

definition ordered_windows :: "int \<Rightarrow> maintenance_window list \<Rightarrow> maintenance_window list" where
  "ordered_windows now ws = sort_key (\<lambda>w. status_rank (windowStatus w now)) (sort_key (order_within now) ws)"

definition OUTCOMES :: "string list" where
  "OUTCOMES = [''created'', ''cancelled'', ''target_invalid'', ''time_invalid'', ''reason_invalid'',
     ''acknowledgement_required'', ''idempotency_invalid'', ''window_invalid'', ''mutation_failed'']"

definition window_card_of :: "bool \<Rightarrow> int \<Rightarrow> maintenance_window \<Rightarrow> window_card" where
  "window_card_of canManage now w =
     \<lparr> wc_window = w, wc_status = windowStatus w now, wc_targetLabel = targetLabel w,
       wc_cancellable = (canManage \<and> nonempty (mw_cancelledAt w) = None \<and> now < ms_of (mw_endsAt w)) \<rparr>"

definition ReliabilityMaintenancePanel ::
  "maintenance_window list \<Rightarrow> bool \<Rightarrow> bool \<Rightarrow> string option \<Rightarrow> string \<Rightarrow> maintenance_view" where
  "ReliabilityMaintenancePanel windows dataAvailable canManage outcome generatedAt =
     (let now = ms_of generatedAt;
          ordered = ordered_windows now windows;
          visible = take 24 ordered;
          with_status = (\<lambda>s. length (filter (\<lambda>w. windowStatus w now = s) windows))
      in \<lparr> mv_outcomeKnown = (case nonempty outcome of None \<Rightarrow> False | Some s \<Rightarrow> s \<in> set OUTCOMES),
           mv_activeCount = with_status ActiveWindow, mv_upcomingCount = with_status UpcomingWindow,
           mv_loaded = length windows,
           mv_cards = (if dataAvailable then map (window_card_of canManage now) visible else []),
           mv_more = (length ordered > length visible) \<rparr>)"

section \<open>The form\<close>

record target_option =
  to_value :: string
  to_label :: string

record maintenance_form =
  fm_scopeType :: maintenance_scope
  fm_targetKey :: string

definition SERVICE_TARGETS :: "target_option list" where
  \<comment> \<open>the label of the last one has a Japanese part, which is left out\<close>
  "SERVICE_TARGETS = map (\<lambda>s. \<lparr> to_value = slo_service_text s, to_label = service_label s \<rparr>)
     [ContainerService, BackupService, HostService, OverallService]"

definition optionsFor :: "maintenance_scope \<Rightarrow> target_catalog \<Rightarrow> target_option list" where
  "optionsFor scopeType catalog =
     (case scopeType of
        ServiceScope \<Rightarrow> SERVICE_TARGETS
      | HostScope \<Rightarrow> map (\<lambda>h. \<lparr> to_value = ht_hostId h, to_label = ht_displayName h @ '' / '' @ ht_serverId h \<rparr>) (tc_hosts catalog)
      | ContainerScope \<Rightarrow>
          map (\<lambda>c. \<lparr> to_value = ct_hostId c @ ''/'' @ ct_containerName c,
            to_label = ct_hostDisplayName c @ '' / '' @ ct_containerName c \<rparr>) (tc_containers catalog)
      | BackupScope \<Rightarrow>
          map (\<lambda>b. \<lparr> to_value = bq_hostId b @ ''/'' @ bq_backupTarget b @ ''/'' @ bq_gameMode b @ ''/'' @
              backup_type_text (bq_backupType b),
            to_label = bq_hostDisplayName b @ '' / '' @ bq_backupTarget b @ '' / '' @ bq_gameMode b @ '' / '' @
              backup_type_text (bq_backupType b) \<rparr>) (tc_backups catalog))"

definition initialScope :: "target_catalog \<Rightarrow> maintenance_scope" where
  "initialScope catalog =
     (if tc_containers catalog \<noteq> [] then ContainerScope
      else if tc_backups catalog \<noteq> [] then BackupScope
      else if tc_hosts catalog \<noteq> [] then HostScope else ServiceScope)"

definition first_value :: "target_option list \<Rightarrow> string" where
  "first_value options = (case options of [] \<Rightarrow> [] | t # _ \<Rightarrow> to_value t)"

definition initial_form :: "target_catalog \<Rightarrow> maintenance_form" where
  "initial_form catalog =
     \<lparr> fm_scopeType = initialScope catalog, fm_targetKey = first_value (optionsFor (initialScope catalog) catalog) \<rparr>"

definition changeScope :: "target_catalog \<Rightarrow> maintenance_scope \<Rightarrow> maintenance_form \<Rightarrow> maintenance_form" where
  "changeScope catalog scope f = f \<lparr> fm_scopeType := scope, fm_targetKey := first_value (optionsFor scope catalog) \<rparr>"

inductive form_step :: "target_catalog \<Rightarrow> maintenance_form \<Rightarrow> maintenance_form \<Rightarrow> bool" for catalog where
  step_scope: "form_step catalog f (changeScope catalog scope f)"
| step_target: "t \<in> set (optionsFor (fm_scopeType f) catalog) \<Longrightarrow>
    form_step catalog f (f \<lparr> fm_targetKey := to_value t \<rparr>)"

definition submit_disabled :: "target_catalog \<Rightarrow> maintenance_form \<Rightarrow> bool" where
  "submit_disabled catalog f \<longleftrightarrow> optionsFor (fm_scopeType f) catalog = []"

definition broadScope :: "maintenance_form \<Rightarrow> bool" where
  "broadScope f \<longleftrightarrow> fm_scopeType f \<in> {HostScope, ServiceScope}"

definition localDateTimeInput :: "int \<Rightarrow> string" where
  "localDateTimeInput t = take 16 (iso_text (t + 9 * 3600000))"

definition default_times :: "int \<Rightarrow> string \<times> string" where
  "default_times generatedAtMs =
     (localDateTimeInput (generatedAtMs + 15 * 60000), localDateTimeInput (generatedAtMs + 75 * 60000))"

definition form_newlines :: "string \<Rightarrow> string" where
  \<comment> \<open>the line breaks of a text area, which are single in its value, are two characters once the form is sent\<close>
  "form_newlines s = concat (map (\<lambda>c. if c = CHR 0x0A then [CHR 0x0D, CHR 0x0A] else [c]) s)"

definition submitted :: "incident_range \<Rightarrow> string \<Rightarrow> maintenance_form \<Rightarrow> string \<times> string \<Rightarrow> string \<Rightarrow> (string \<times> string) list" where
  \<comment> \<open>the fields of the form as the browser sends them, with the box ticked; the reason is the only field that can
    have line breaks\<close>
  "submitted rng idempotencyKey f times_given reason =
     [(''action'', ''create''), (''range'', incident_range_text rng), (''idempotencyKey'', idempotencyKey),
      (''scopeType'', scope_text (fm_scopeType f)), (''targetKey'', fm_targetKey f),
      (''startsAt'', fst times_given), (''endsAt'', snd times_given),
      (''reason'', form_newlines reason), (''acknowledged'', ''on'')]"

section \<open>Every target of the catalogue is accepted\<close>

definition catalog_ok :: "target_catalog \<Rightarrow> bool" where
  "catalog_ok c \<longleftrightarrow>
     (\<forall>h \<in> set (tc_hosts c). UUID_PATTERN (ht_hostId h)) \<and>
     (\<forall>t \<in> set (tc_containers c). UUID_PATTERN (ct_hostId t) \<and> CONTAINER_IDENTIFIER_PATTERN (ct_containerName t)) \<and>
     (\<forall>b \<in> set (tc_backups c). UUID_PATTERN (bq_hostId b) \<and> TARGET_NAME_PATTERN (bq_backupTarget b) \<and>
        TARGET_NAME_PATTERN (bq_gameMode b))"

lemma satisfying_value: "satisfying P s = Some x \<Longrightarrow> x = s \<and> P s"
  by (simp add: satisfying_def split: if_splits)

lemma add_target_ok: "add_target c row = Some c' \<Longrightarrow> catalog_ok c \<Longrightarrow> catalog_ok c'"
  by (auto simp: add_target_def catalog_ok_def bind_eq_Some_conv Let_def dest!: satisfying_value
      split: if_splits maintenance_scope.splits)

lemma add_targets_ok: "add_targets c rows = Some c' \<Longrightarrow> catalog_ok c \<Longrightarrow> catalog_ok c'"
  by (induction rows arbitrary: c) (auto simp: bind_eq_Some_conv dest: add_target_ok)

lemma fetched_catalog_ok: "getReliabilityMaintenanceTargets rpc = Some catalog \<Longrightarrow> catalog_ok catalog"
proof -
  have "catalog_ok \<lparr> tc_hosts = [], tc_containers = [], tc_backups = [] \<rparr>" by (simp add: catalog_ok_def)
  moreover assume "getReliabilityMaintenanceTargets rpc = Some catalog"
  ultimately show ?thesis
    by (auto simp: getReliabilityMaintenanceTargets_def bind_eq_Some_conv intro: add_targets_ok)
qed

lemma no_slash: "\<not> label_char CHR ''/''"
  by (simp add: js_eval)

lemma uuid_plain: "UUID_PATTERN s \<Longrightarrow> CHR ''/'' \<notin> set s \<and> length s = 36"
  using uuid_chars [of s] no_slash by (auto simp: list_all_iff)

lemma container_name_plain: "CONTAINER_IDENTIFIER_PATTERN s \<Longrightarrow> CHR ''/'' \<notin> set s \<and> length s \<le> 128"
  using no_slash by (cases s) (auto simp: CONTAINER_IDENTIFIER_PATTERN_def headed_chars_def chars_between_def list_all_iff
      label_char_def id_char_def)

lemma target_name_plain: "TARGET_NAME_PATTERN s \<Longrightarrow> CHR ''/'' \<notin> set s \<and> length s \<le> 64"
  using no_slash by (cases s) (auto simp: TARGET_NAME_PATTERN_def headed_chars_def chars_between_def list_all_iff
      label_char_def id_char_def)

lemma backup_type_text_plain: "CHR ''/'' \<notin> set (backup_type_text t) \<and> length (backup_type_text t) \<le> 11"
  by (cases t) (simp_all add: backup_type_text_def)

lemma backup_type_read: "isReliabilityBackupType (backup_type_text t) = Some t"
  by (cases t) (simp_all add: isReliabilityBackupType_def backup_type_text_def)

lemma service_target_accepted: "parseTarget ServiceScope (Str (slo_service_text s)) \<noteq> None"
  by (cases s) (simp_all add: parseTarget_def slo_service_text_def isReliabilitySloServiceId_def SLO_SERVICE_IDS_def Let_def)

lemma split_parts:
  "CHR ''/'' \<notin> set a \<Longrightarrow> CHR ''/'' \<notin> set b \<Longrightarrow> split_on CHR ''/'' (a @ ''/'' @ b) = [a, b]"
  "CHR ''/'' \<notin> set a \<Longrightarrow> CHR ''/'' \<notin> set b \<Longrightarrow> CHR ''/'' \<notin> set c \<Longrightarrow> CHR ''/'' \<notin> set d \<Longrightarrow>
    split_on CHR ''/'' (a @ ''/'' @ b @ ''/'' @ c @ ''/'' @ d) = [a, b, c, d]"
  by (simp_all add: split_on_append split_on_plain)

lemma listed_target_accepted:
  assumes ok: "catalog_ok catalog" and t: "t \<in> set (optionsFor scope catalog)"
  shows "parseTarget scope (Str (to_value t)) \<noteq> None"
proof (cases scope)
  case ServiceScope
  with t show ?thesis using service_target_accepted by (auto simp: optionsFor_def SERVICE_TARGETS_def)
next
  case HostScope
  with t obtain h where "h \<in> set (tc_hosts catalog)" "to_value t = ht_hostId h" by (auto simp: optionsFor_def)
  with ok uuid_plain [of "ht_hostId h"] show ?thesis
    using HostScope by (auto simp: catalog_ok_def parseTarget_def split_on_plain Let_def)
next
  case ContainerScope
  with t obtain c where "c \<in> set (tc_containers catalog)" "to_value t = ct_hostId c @ ''/'' @ ct_containerName c"
    by (auto simp: optionsFor_def)
  with ok uuid_plain [of "ct_hostId c"] container_name_plain [of "ct_containerName c"]
    split_parts(1) [of "ct_hostId c" "ct_containerName c"] show ?thesis
    using ContainerScope by (auto simp: catalog_ok_def parseTarget_def Let_def)
next
  case BackupScope
  with t obtain b where b: "b \<in> set (tc_backups catalog)" "to_value t = bq_hostId b @ ''/'' @ bq_backupTarget b @ ''/'' @
      bq_gameMode b @ ''/'' @ backup_type_text (bq_backupType b)"
    by (auto simp: optionsFor_def)
  with ok have p: "UUID_PATTERN (bq_hostId b)" "TARGET_NAME_PATTERN (bq_backupTarget b)" "TARGET_NAME_PATTERN (bq_gameMode b)"
    by (auto simp: catalog_ok_def)
  note plain = uuid_plain [OF p(1)] target_name_plain [OF p(2)] target_name_plain [OF p(3)] backup_type_text_plain [of "bq_backupType b"]
  then have "split_on CHR ''/'' (to_value t) = [bq_hostId b, bq_backupTarget b, bq_gameMode b, backup_type_text (bq_backupType b)]"
    unfolding b(2) by (intro split_parts(2)) auto
  moreover have "1 \<le> length (to_value t) \<and> length (to_value t) \<le> 400" using plain unfolding b(2) by simp
  ultimately show ?thesis using BackupScope p by (auto simp: parseTarget_def Let_def backup_type_read)
qed

lemma reached_form_selects:
  "(form_step catalog)\<^sup>*\<^sup>* (initial_form catalog) f \<Longrightarrow>
    optionsFor (fm_scopeType f) catalog = [] \<or> (\<exists>t \<in> set (optionsFor (fm_scopeType f) catalog). fm_targetKey f = to_value t)"
proof (induction rule: rtranclp_induct)
  case base
  then show ?case by (cases "optionsFor (initialScope catalog) catalog") (auto simp: initial_form_def first_value_def)
next
  case (step f g)
  from step(2) show ?case
  proof cases
    case (step_scope scope)
    then show ?thesis by (cases "optionsFor scope catalog") (auto simp: changeScope_def first_value_def)
  qed auto
qed

section \<open>The proposed times are accepted\<close>

lemma civil_year_four_digits:
  assumes "civil_from_days z = (y, m, d)" "0 \<le> z" "z < 2786860"
  shows "1000 \<le> y \<and> y \<le> 9999"
proof -
  from assms(1) obtain era c q n doy mp where
    s: "split_days (z + 719468) = (era, c, q, n, doy)"
    and y: "y = (if m \<le> 2 then 1 else 0) + (era * 400 + 100 * c + 4 * q + n)"
    by (rule civil_cases)
  note parts = split_days_parts [OF s]
  have "4 \<le> era" "era \<le> 23" using assms(2,3) parts(10) by linarith+
  then show ?thesis using parts(1-6) by (simp add: y)
qed

lemma not_digit_char: "\<not> is_digit c \<Longrightarrow> digit_char n \<noteq> c"
  using is_digit_digit_char [of n] by metis

lemma digit_char_not_space: "\<not> is_space (digit_char n)"
  using is_digit_digit_char [of n] by (simp add: is_space_def)

lemma digit_char_plain: "digit_char n \<noteq> CHR ''Z''" "digit_char n \<noteq> CHR '':''"
  by (rule not_digit_char, simp)+

lemma dec_chars: "dec 2 n = [digit_char (n div 10), digit_char n]"
  "dec 4 n = [digit_char (n div 10 div 10 div 10), digit_char (n div 10 div 10), digit_char (n div 10), digit_char n]"
proof -
  have w: "(2::nat) = Suc (Suc 0)" "(4::nat) = Suc (Suc (Suc (Suc 0)))" by simp_all
  show "dec 2 n = [digit_char (n div 10), digit_char n]" unfolding w(1) by simp
  show "dec 4 n = [digit_char (n div 10 div 10 div 10), digit_char (n div 10 div 10), digit_char (n div 10), digit_char n]"
    unfolding w(2) by simp
qed

lemma take_exact: "length a = n \<Longrightarrow> take n (a @ r) = a"
  by simp

lemma local_parts_dec:
  assumes "n4 < 10000" "n2 < 100" "n3 < 100" "n5 < 100" "n6 < 100"
  shows "local_parts (dec 4 n4 @ CHR ''-'' # dec 2 n2 @ CHR ''-'' # dec 2 n3 @ CHR ''T'' # dec 2 n5 @ CHR '':'' # dec 2 n6) =
    Some (int n4, int n2, int n3, int n5, int n6)"
  using assms take_after_dec [of n6 "CHR '':''" "[]"] by (simp add: local_parts_def)

lemma trim_plain:
  assumes "s \<noteq> []" "\<not> is_space (hd s)" "\<not> is_space (last s)"
  shows "trim s = s"
proof -
  have "dropWhile is_space s = s" using assms(1,2) by (cases s) auto
  moreover have "dropWhile is_space (rev s) = rev s" using assms(1,3) by (cases s rule: rev_cases) auto
  ultimately show ?thesis by (simp add: trim_def)
qed

lemma local_time_format:
  fixes n4 n2 n3 n5 n6 :: nat
  defines "s \<equiv> dec 4 n4 @ CHR ''-'' # dec 2 n2 @ CHR ''-'' # dec 2 n3 @ CHR ''T'' # dec 2 n5 @ CHR '':'' # dec 2 n6"
  shows "length s = 16" "trim s = s" "\<not> has_zone s"
proof -
  show len: "length s = 16" by (simp add: s_def del: dec.simps)
  have ends: "hd s = digit_char (n4 div 10 div 10 div 10)" "last s = digit_char n6"
    by (simp_all only: s_def dec_chars) simp_all
  from len have "s \<noteq> []" by auto
  then show "trim s = s" by (rule trim_plain) (simp_all add: ends digit_char_not_space)
  have "drop 15 s = [digit_char n6]" "drop 10 s = [CHR ''T'', digit_char (n5 div 10), digit_char n5, CHR '':'', digit_char (n6 div 10), digit_char n6]"
    by (simp_all only: s_def dec_chars) simp_all
  then show "\<not> has_zone s" using len by (simp add: has_zone_def ends_with_def digit_char_plain)
qed

lemma day_parts:
  fixes x :: int
  defines "tod \<equiv> x mod 86400000"
  shows "0 \<le> tod div 3600000" "tod div 3600000 \<le> 23" "0 \<le> tod div 60000 mod 60" "tod div 60000 mod 60 \<le> 59"
    and "x div 86400000 * 86400000 + tod div 3600000 * 3600000 + tod div 60000 mod 60 * 60000 = x - x mod 60000"
proof -
  have tod: "0 \<le> tod" "tod < 86400000" by (simp_all add: tod_def)
  then show "0 \<le> tod div 3600000" "tod div 3600000 \<le> 23" by linarith+
  show "0 \<le> tod div 60000 mod 60" "tod div 60000 mod 60 \<le> 59" by simp_all
  define b where "b = tod div 60000"
  have "tod div 3600000 = b div 60" by (simp add: b_def zdiv_zmult2_eq [symmetric])
  moreover have "b = b div 60 * 60 + b mod 60" by simp
  moreover have "tod = b * 60000 + tod mod 60000" by (simp add: b_def)
  moreover have "tod mod 60000 = x mod 60000" unfolding tod_def by (simp add: mod_mod_cancel)
  moreover have "x = x div 86400000 * 86400000 + tod" by (simp add: tod_def)
  ultimately show "x div 86400000 * 86400000 + tod div 3600000 * 3600000 + tod div 60000 mod 60 * 60000 = x - x mod 60000"
    unfolding b_def [symmetric] by linarith
qed

lemma minute_parts:
  fixes z h mi :: int
  assumes "0 \<le> h" "h \<le> 23" "0 \<le> mi" "mi \<le> 59"
  defines "x \<equiv> z * 86400000 + h * 3600000 + mi * 60000"
  shows "x div 86400000 = z" "x mod 86400000 div 3600000 = h" "x mod 3600000 div 60000 = mi"
proof -
  have a: "0 \<le> h * 3600000 + mi * 60000" "h * 3600000 + mi * 60000 < 86400000" using assms(1-4) by linarith+
  have x: "x = z * 86400000 + (h * 3600000 + mi * 60000)" by (simp add: x_def)
  show "x div 86400000 = z" unfolding x using a by simp
  have "x mod 86400000 = h * 3600000 + mi * 60000" unfolding x using a by simp
  moreover have b: "0 \<le> mi * 60000" "mi * 60000 < 3600000" using assms(3,4) by linarith+
  ultimately show "x mod 86400000 div 3600000 = h" by simp
  have "x = (z * 24 + h) * 3600000 + mi * 60000" by (simp add: x_def)
  then have "x mod 3600000 = mi * 60000 mod 3600000" by (simp only: mod_mult_self3)
  with b have "x mod 3600000 = mi * 60000" by simp
  then show "x mod 3600000 div 60000 = mi" by simp
qed

lemma parse_local:
  assumes "length s = 16" "trim s = s" "\<not> has_zone s" "local_parts s = Some (y, m, d, h, mi)"
    and "1 \<le> m" "m \<le> 12" "1 \<le> d" "d \<le> 31" "0 \<le> h" "h \<le> 23" "0 \<le> mi" "mi \<le> 59"
    and utc: "Date_UTC y m d h mi = z * 86400000 + h * 3600000 + mi * 60000" and "civil_from_days z = (y, m, d)"
  shows "parseDateTime (Str s) = Date_toISOString (z * 86400000 + h * 3600000 + mi * 60000 - JST_OFFSET_MS)"
proof (rule parseDateTime_local [OF _ _ _ _ utc])
  let ?v = "z * 86400000 + h * 3600000 + mi * 60000"
  have v: "?v div 86400000 = z" "?v mod 86400000 div 3600000 = h" "?v mod 3600000 div 60000 = mi"
    by (rule minute_parts; fact)+
  show "civil_from_days (?v div 86400000) = (y, m, d)" unfolding v by fact
  show "?v mod 86400000 div 3600000 = h" "?v mod 3600000 div 60000 = mi" by (fact v)+
  show "\<not> (m < 1 \<or> m > 12 \<or> d < 1 \<or> d > 31 \<or> h < 0 \<or> h > 23 \<or> mi < 0 \<or> mi > 59)"
    using assms(5-12) by linarith
qed (use assms(1-4) in simp_all)

lemma local_input_read:
  assumes "- 32400000 \<le> t" "t < 240000000000000"
  shows "parseDateTime (Str (localDateTimeInput t)) = Some (iso_text (t - t mod 60000))"
proof -
  define x where "x = t + 9 * 3600000"
  define tod where "tod = x mod 86400000"
  obtain y m d where c: "civil_from_days (x div 86400000) = (y, m, d)" by (cases "civil_from_days (x div 86400000)")
  note inv = civil_from_days_inverse [OF c]
  have year: "1000 \<le> y" "y \<le> 9999"
    using civil_year_four_digits [OF c] assms unfolding x_def by linarith+
  note parts = day_parts [of x, folded tod_def]
  let ?h = "tod div 3600000" and ?mi = "tod div 60000 mod 60"
  let ?s = "dec 4 (nat y) @ CHR ''-'' # dec 2 (nat m) @ CHR ''-'' # dec 2 (nat d) @ CHR ''T'' # dec 2 (nat ?h) @
    CHR '':'' # dec 2 (nat ?mi)"
  have iso: "iso_text x = ?s @ CHR '':'' # dec 2 (nat (tod div 1000 mod 60)) @ CHR ''.'' # dec 3 (nat (tod mod 1000)) @ ''Z''"
    unfolding iso_text_def Let_def tod_def [symmetric] c prod.case year_text_def using year by (simp del: dec.simps)
  have s: "localDateTimeInput t = ?s"
    unfolding localDateTimeInput_def x_def [symmetric] iso by (rule take_exact) (rule local_time_format(1))
  have small: "nat y < 10000" "nat m < 100" "nat d < 100" "nat ?h < 100" "nat ?mi < 100"
    using year inv(2-5) parts(1-4) by linarith+
  have inverse: "int (nat y) = y" "int (nat m) = m" "int (nat d) = d" "int (nat ?h) = ?h" "int (nat ?mi) = ?mi"
    using year inv(2-5) parts(1-4) by linarith+
  have local_s: "local_parts ?s = Some (y, m, d, ?h, ?mi)"
    using local_parts_dec [OF small] unfolding inverse by simp
  let ?c = "x div 86400000 * 86400000 + ?h * 3600000 + ?mi * 60000"
  have utc: "Date_UTC y m d ?h ?mi = ?c" using year inv(1) by (simp add: Date_UTC_def)
  have result: "Date_toISOString (?c - JST_OFFSET_MS) = Some (iso_text (t - t mod 60000))"
  proof -
    have "x mod 60000 = t mod 60000" by (simp add: x_def mod_add_eq [symmetric])
    then have "?c - JST_OFFSET_MS = t - t mod 60000" unfolding parts(5) by (simp add: x_def JST_OFFSET_MS_def)
    moreover have "\<bar>t - t mod 60000\<bar> \<le> max_time"
      using assms pos_mod_bound [of 60000 t] pos_mod_sign [of 60000 t] unfolding max_time_def by linarith
    ultimately show ?thesis by (simp only: Date_toISOString_def if_True)
  qed
  show ?thesis
    unfolding s result [symmetric] by (rule parse_local [OF local_time_format local_s inv(2-5) parts(1-4) utc c])
qed

section \<open>What the form submits is accepted\<close>

lemma form_body_fields:
  "get_prop (form_body (submitted rng key f times_given reason)) ''scopeType'' = Str (scope_text (fm_scopeType f))"
  "get_prop (form_body (submitted rng key f times_given reason)) ''targetKey'' = Str (fm_targetKey f)"
  "get_prop (form_body (submitted rng key f times_given reason)) ''startsAt'' = Str (fst times_given)"
  "get_prop (form_body (submitted rng key f times_given reason)) ''endsAt'' = Str (snd times_given)"
  "get_prop (form_body (submitted rng key f times_given reason)) ''reason'' = Str (form_newlines reason)"
  "get_prop (form_body (submitted rng key f times_given reason)) ''acknowledged'' = Bool True"
  "get_prop (form_body (submitted rng key f times_given reason)) ''idempotencyKey'' = Str key"
  "get_prop (form_body (submitted rng key f times_given reason)) ''action'' = Str ''create''"
  "get_prop (form_body (submitted rng key f times_given reason)) ''range'' = Str (incident_range_text rng)"
  by (simp_all add: form_body_def submitted_def FORM_FIELDS_def prop_or_def or_null_def Let_def)

lemma scope_read: "isReliabilityMaintenanceScopeType (Str (scope_text s)) = Some s"
  by (cases s) (simp_all add: isReliabilityMaintenanceScopeType_def scope_text_def)

lemma range_reads_back: "parseIncidentRange (Some (incident_range_text rng)) = rng"
  by (cases rng) (simp_all add: parseIncidentRange_def incident_range_text_def nonempty_def)

definition browser_sends :: "form_services \<Rightarrow> form_request \<Rightarrow> (string \<times> string) list \<Rightarrow> bool" where
  \<comment> \<open>the request of the form from a page of the console: its own origin, the type of a form, a body that is not
    too long and that reads back as the fields\<close>
  "browser_sends s r pairs \<longleftrightarrow>
     same_origin r \<and> \<not> wantsJson r \<and> fr_header r ''content-type'' = Some ''application/x-www-form-urlencoded'' \<and>
     (\<exists>text. readLimitedText s r = Inr text \<and> fs_parse_form s text = pairs)"

lemma form_post:
  assumes "browser_sends s r (submitted rng key f times_given reason)" and "administrator_of session = Some role"
  shows "maintenance_post s db (Some session) r now requestId =
    create_window db \<lparr> ac_email = cs_email session, ac_discordUserId = cs_discordUserId session, ac_role = role \<rparr>
      now r rng (form_body (submitted rng key f times_given reason))"
proof -
  have plain: "\<not> str_includes ''application/json'' (to_lower ''application/x-www-form-urlencoded'')"
    "str_includes ''application/x-www-form-urlencoded'' (to_lower ''application/x-www-form-urlencoded'')"
    by code_simp+
  have "readBody s r = FormOk (form_body (submitted rng key f times_given reason))"
    using assms(1) plain by (auto simp: browser_sends_def readBody_def Let_def)
  with assms show ?thesis
    by (simp add: maintenance_post_def browser_sends_def form_body_fields range_reads_back)
qed

text \<open>C35. The form of a maintenance window only offers what the route accepts: for every catalogue of targets that
  the console fetched, for every choice of scope and target made in it, and with the untouched times and the ticked
  box, the request of an administrator's or owner's browser makes the database function register a window of the
  chosen scope and target, from a quarter of an hour after the page was made, to the minute, for one hour, and when
  that function answers with the window the reader is sent back to the page with the outcome that it was created. The page
  may be nineteen minutes old; the administrator has an e-mail address or a Discord identifier, which is then
  well-formed; and the reason, once its line breaks count twice as they do on the way, has 1 to 200 characters
  without the space around it.\<close>

theorem offered_maintenance_is_registered:
  assumes catalog: "getReliabilityMaintenanceTargets rpc = Some catalog"
    and form: "(form_step catalog)\<^sup>*\<^sup>* (initial_form catalog) f" "\<not> submit_disabled catalog f"
    and key: "UUID_PATTERN key"
    and reason: "1 \<le> length (trim (form_newlines reason))" "length (trim (form_newlines reason)) \<le> 200"
    and age: "0 \<le> made" "made < 230000000000000" "made \<le> now" "now \<le> made + 19 * 60000"
    and admin: "administrator_of session = Some role"
    and who: "who = \<lparr> ac_email = cs_email session, ac_discordUserId = cs_discordUserId session, ac_role = role \<rparr>"
      "validateIdentity who"
    and sent: "browser_sends s r (submitted rng key f (default_times made) reason)"
  defines "start \<equiv> made + 15 * 60000 - made mod 60000"
  shows "\<exists>target call. parseTarget (fm_scopeType f) (Str (fm_targetKey f)) = Some target \<and>
    call = (''create_reliability_maintenance_window_v2'', create_body
      \<lparr> ci_scopeType = fm_scopeType f, ci_target = target, ci_startsAt = iso_text start,
        ci_endsAt = iso_text (start + 3600000), ci_reason = trim (form_newlines reason), ci_idempotencyKey = key,
        ci_actor = who \<rparr>) \<and>
    maintenance_post s db (Some session) r now requestId =
      (RedirectReply rng (if fst (callMutationRpc db (fst call) (snd call)) = None then ''mutation_failed'' else ''created''),
       [call])"
proof -
  from reached_form_selects [OF form(1)] form(2) obtain t where
    "t \<in> set (optionsFor (fm_scopeType f) catalog)" "fm_targetKey f = to_value t"
    by (auto simp: submit_disabled_def)
  with listed_target_accepted [OF fetched_catalog_ok [OF catalog]] obtain target where
    target: "parseTarget (fm_scopeType f) (Str (fm_targetKey f)) = Some target"
    by fastforce
  have minute: "(made + 15 * 60000) - (made + 15 * 60000) mod 60000 = start"
      "(made + 75 * 60000) - (made + 75 * 60000) mod 60000 = start + 3600000"
    unfolding start_def using mod_mult_self1 [of made 15 60000] mod_mult_self1 [of made 75 60000] by simp_all
  have given: "parseDateTime (Str (fst (default_times made))) = Some (iso_text start)"
      "parseDateTime (Str (snd (default_times made))) = Some (iso_text (start + 3600000))"
    unfolding default_times_def fst_conv snd_conv minute(1) [symmetric] using local_input_read [of "made + 15 * 60000"]
      local_input_read [of "made + 75 * 60000", unfolded minute(2)] age minute(1) by simp_all
  have bound: "made + 14 * 60000 < start" "start \<le> made + 15 * 60000"
    unfolding start_def using pos_mod_bound [of 60000 made] pos_mod_sign [of 60000 made] by linarith+
  have parsed: "Date_parse (iso_text start) = Some start" "Date_parse (iso_text (start + 3600000)) = Some (start + 3600000)"
    by (rule Date_parse_iso_text; use bound age in \<open>simp add: max_time_def\<close>)+
  then have "\<not> times_invalid (ms_of (iso_text start)) (ms_of (iso_text (start + 3600000))) now"
    using bound age by (simp add: times_invalid_def MAX_DURATION_MS_def)
  moreover have "trim (form_newlines reason) \<noteq> []" using reason(1) by auto
  moreover have "\<not> wantsJson r" using sent by (simp add: browser_sends_def)
  ultimately show ?thesis
    unfolding form_post [OF sent admin, folded who(1)]
    using key reason who(2) parsed given target
    by (simp add: create_window_def Let_def form_body_fields scope_read text_or_empty_def acknowledgement_def answer_def
        createReliabilityMaintenanceWindow_def refuse_def callMutationRpc_def option.case_eq_if del: not_None_eq)
qed

text \<open>
  The limit of the form counts a line break once: a reason of 200 characters with a line break, which the form
  lets pass, is refused by the route.
\<close>

definition two_line_reason :: string where
  "two_line_reason = replicate 100 CHR ''a'' @ CHR 0x0A # replicate 99 CHR ''a''"

lemma two_line_reason_is_too_long:
  "length two_line_reason = 200" "length (trim (form_newlines two_line_reason)) = 201"
  by code_simp+

lemma long_reason_is_refused:
  assumes "200 < length (trim (form_newlines reason))"
  shows "snd (create_window db who now r rng (form_body (submitted rng key f times_given reason))) = []"
  using assms by (auto simp: create_window_def Let_def form_body_fields text_or_empty_def split: option.splits)

definition planner :: console_session where
  "planner = sample_admin"

definition empty_catalog :: target_catalog where
  "empty_catalog = \<lparr> tc_hosts = [], tc_containers = [], tc_backups = [] \<rparr>"

definition planned_row :: jsval where
  "planned_row = Obj [(''id'', Str ''22222222-2222-4222-8222-222222222222''), (''scope_type'', Str ''service''),
     (''service_id'', Str ''container''), (''host_id'', Null), (''container_name'', Null), (''backup_target'', Null),
     (''game_mode'', Null), (''backup_type'', Null), (''starts_at'', Str (iso_text 1767226500000)),
     (''ends_at'', Str (iso_text 1767230100000)), (''reason'', Str ''x''), (''cancelled_at'', Null),
     (''created_at'', Str (iso_text 1767225660000))]"

definition planning_database :: database where
  "planning_database = \<lparr> db_rpc = (\<lambda>_ _. Some (Arr [planned_row])), db_hosts = None \<rparr>"

definition planning_fields :: "(string \<times> string) list" where
  "planning_fields = submitted Range24h ''11111111-1111-4111-8111-111111111111'' (initial_form empty_catalog)
     (default_times 1767225600000) ''x''"

definition planning_services :: form_services where
  "planning_services = \<lparr> fs_decode_text = (\<lambda>_. Some ''form''), fs_parse_json = (\<lambda>_. None),
     fs_parse_form = (\<lambda>_. planning_fields) \<rparr>"

definition planning_request :: form_request where
  "planning_request = \<lparr> fr_header = map_of [(''origin'', ''https://ivroom.jp''),
     (''content-type'', ''application/x-www-form-urlencoded'')], fr_origin = ''https://ivroom.jp'', fr_body = Some [[1]] \<rparr>"

theorem offered_maintenance_is_registered_witness:
  "\<exists>call. maintenance_post planning_services planning_database (Some planner) planning_request 1767225660000 ''id'' =
     (RedirectReply Range24h ''created'', [call])"
proof -
  have c: "getReliabilityMaintenanceTargets (\<lambda>_ _. Some (Arr [])) = Some empty_catalog"
    by (simp add: getReliabilityMaintenanceTargets_def empty_catalog_def)
  have f: "\<not> submit_disabled empty_catalog (initial_form empty_catalog)"
    by (simp add: initial_form_def initialScope_def empty_catalog_def optionsFor_def SERVICE_TARGETS_def submit_disabled_def)
  have uuid: "UUID_PATTERN ''11111111-1111-4111-8111-111111111111''" "UUID_PATTERN ''22222222-2222-4222-8222-222222222222''"
    by (simp_all add: js_eval)
  have x: "trim (form_newlines ''x'') = ''x''" by (simp add: form_newlines_def js_eval)
  have admin: "administrator_of planner = Some Administrator"
    by (simp add: planner_def administrator_of_def sample_admin_def plain_session_def hasConsoleRole_def role_rank_def)
  have who: "validateIdentity \<lparr> ac_email = cs_email planner, ac_discordUserId = cs_discordUserId planner, ac_role = Administrator \<rparr>"
    by (simp add: validateIdentity_def planner_def sample_admin_def plain_session_def nonempty_def js_eval)
  have sent: "browser_sends planning_services planning_request planning_fields"
    by (simp add: browser_sends_def same_origin_def wantsJson_def planning_request_def planning_services_def nonempty_def
        readLimitedText_def length_declared_too_large_def MAX_MAINTENANCE_BODY_BYTES_def js_eval)
  have "parseWindow planned_row [] \<noteq> None"
    by (simp add: parseWindow_def planned_row_def prop_or_def read_timestamp_def Date_parse_iso_text max_time_def nullable_def uuid
        satisfying_def isReliabilityMaintenanceScopeType_def scope_text_def optional_text_def
        isReliabilitySloServiceId_def SLO_SERVICE_IDS_def slo_service_text_def target_shape_def Let_def
        del: Date_parse_def)
  then have row: "fst (callMutationRpc planning_database name body) \<noteq> None" for name body
    by (simp add: callMutationRpc_def planning_database_def planned_row_def)
  show ?thesis
    using offered_maintenance_is_registered [OF c rtranclp.rtrancl_refl f uuid(1), of "''x''" 1767225600000 1767225660000
        planner Administrator _ planning_services planning_request Range24h planning_database "''id''"] x admin who sent row
    by (fastforce simp: planning_fields_def)
qed

end
