(* ===== verification/ReliabilityPage.thy ===== *)
theory ReliabilityPage
  imports BurnRates MaintenanceForm
begin

text \<open>
  The page of the reliability centre (\<open>app/reliability/page.tsx\<close>) with its panels: budgets
  (\<open>slo-panel.tsx\<close>), burn rates (\<open>burn-rate-panel.tsx\<close>), their history with its charts
  (\<open>burn-history-panel.tsx\<close>), the services (\<open>service-card.tsx\<close>) and the delivery of notifications
  (\<open>notification-panel.tsx\<close>). Japanese words are constructors; dates for display and markup are left out.
\<close>

section \<open>Amounts\<close>

datatype lasting =
    NotApplicable | UnderASecond | Seconds int | MinutesOnly int | MinutesAndSeconds int int
  | HoursOnly int | HoursAndMinutes int int | DaysOnly int | DaysAndHours int int

definition page_duration :: "int option \<Rightarrow> lasting" where
  \<comment> \<open>\<open>duration\<close> of the page\<close>
  "page_duration seconds =
     (case seconds of
        None \<Rightarrow> NotApplicable
      | Some s \<Rightarrow>
          if s < 60 then Seconds s else if s < 3600 then MinutesOnly (s div 60)
          else if s < 86400 then HoursAndMinutes (s div 3600) (s mod 3600 div 60)
          else DaysAndHours (s div 86400) (s mod 86400 div 3600))"

definition card_duration :: "int option \<Rightarrow> lasting" where
  \<comment> \<open>\<open>duration\<close> of a service card: a zero remainder is left out\<close>
  "card_duration seconds =
     (case seconds of
        None \<Rightarrow> NotApplicable
      | Some s \<Rightarrow>
          if s < 60 then Seconds s else if s < 3600 then MinutesOnly (s div 60)
          else if s < 86400 then
            (let minutes = s mod 3600 div 60
             in if minutes \<noteq> 0 then HoursAndMinutes (s div 3600) minutes else HoursOnly (s div 3600))
          else (let hours = s mod 86400 div 3600
                in if hours \<noteq> 0 then DaysAndHours (s div 86400) hours else DaysOnly (s div 86400)))"

definition budget_duration :: "rat option \<Rightarrow> lasting" where
  \<comment> \<open>\<open>duration\<close> of the budgets, of an amount that may be a fraction; a negative one is below a minute\<close>
  "budget_duration seconds =
     (case seconds of
        None \<Rightarrow> NotApplicable
      | Some q \<Rightarrow>
          (let s = \<lfloor>q\<rfloor>
           in if 0 < q \<and> q < 1 then UnderASecond else if q < 60 then Seconds s
              else if q < 3600 then MinutesAndSeconds (s div 60) (s mod 60)
              else if q < 86400 then HoursAndMinutes (s div 3600) (s mod 3600 div 60)
              else DaysAndHours (s div 86400) (s mod 86400 div 3600)))"

definition at_most :: "bool \<Rightarrow> string \<Rightarrow> bool \<times> string" where
  \<comment> \<open>a text, and whether it stands for itself: otherwise the page writes a bound before it\<close>
  "at_most exact s = (exact, s)"

definition page_ratio :: "rat \<Rightarrow> bool \<Rightarrow> bool \<times> string" where
  "page_ratio v exact = at_most exact (toFixed (if v \<ge> js_float (999 / 1000) then 3 else 2) (js_float (v * 100)) @ ''%'')"

definition card_ratio :: "rat option \<Rightarrow> bool \<Rightarrow> (bool \<times> string) option" where
  "card_ratio v exact = map_option (\<lambda>q. page_ratio q exact) v"

section \<open>Budgets\<close>

definition budget_percent :: "rat option \<Rightarrow> nat \<Rightarrow> string option" where
  "budget_percent v digits = map_option (\<lambda>q. toFixed digits q @ ''%'') v"

datatype target_text = TargetUnknown | TargetUnset | TargetShown string bool

definition target :: "slo_budget \<Rightarrow> target_text" where
  "target b =
     (case budget_percent (sb_targetPercent b) 4 of
        None \<Rightarrow> if sb_state b = DataUnavailable then TargetUnknown else TargetUnset
      | Some v \<Rightarrow> TargetShown v (sb_enabled b))"

definition observed :: "slo_budget \<Rightarrow> (bool \<times> string) option" where
  "observed b = map_option (at_most (sb_observedExact b)) (budget_percent (sb_observedAvailabilityPercent b) 3)"

definition used :: "slo_budget \<Rightarrow> (bool \<times> string) option" where
  "used b = map_option (\<lambda>q. at_most (sb_observedExact b) (toFixed (if q \<ge> 100 then 0 else 1) q @ ''%''))
     (sb_budgetUsedPercent b)"

definition remaining :: "slo_budget \<Rightarrow> (bool \<times> lasting) option" where
  "remaining b =
     (case sb_remainingBudgetSeconds b of
        None \<Rightarrow> None
      | Some q \<Rightarrow> Some (sb_remainingExact b, budget_duration (Some q)))"

definition budget_burn :: "slo_budget \<Rightarrow> (bool \<times> string) option" where
  "budget_burn b = map_option (\<lambda>q. at_most (sb_observedExact b) (toFixed (if q \<ge> 10 then 1 else 2) q @ ''x''))
     (sb_burnRate b)"

datatype budget_class = ClassUnconfigured | ClassWithin | ClassUnknown | ClassExhausted

definition budget_tone :: "budget_state \<Rightarrow> budget_class" where
  \<comment> \<open>\<open>STATE_CLASSES\<close>\<close>
  "budget_tone s =
     (case s of Unconfigured \<Rightarrow> ClassUnconfigured | WithinBudget \<Rightarrow> ClassWithin | Exhausted \<Rightarrow> ClassExhausted
      | CoverageUnknown \<Rightarrow> ClassUnknown | DataUnavailable \<Rightarrow> ClassUnknown)"

definition POLICY_OUTCOMES :: "string list" where
  "POLICY_OUTCOMES = [''updated'', ''service_invalid'', ''target_invalid'', ''target_required'', ''update_failed'']"

datatype policy_message = NoMessage | PolicySuccess | PolicyFailure string

definition policy_message_of :: "string option \<Rightarrow> policy_message" where
  \<comment> \<open>an outcome without a message is not shown\<close>
  "policy_message_of outcome =
     (case nonempty outcome of
        None \<Rightarrow> NoMessage
      | Some s \<Rightarrow> if s \<notin> set POLICY_OUTCOMES then NoMessage
                  else if s = ''updated'' then PolicySuccess else PolicyFailure s)"

record policy_form =
  pf_serviceId :: string
  pf_range :: string
  pf_target :: "rat option"
  pf_enabled :: bool

record budget_card =
  bc_serviceId :: slo_service
  bc_tone :: budget_class
  bc_target :: target_text
  bc_observed :: "(bool \<times> string) option"
  bc_allowed :: lasting
  bc_used :: "(bool \<times> string) option"
  bc_remaining :: "(bool \<times> lasting) option"
  bc_burn :: "(bool \<times> string) option"
  bc_raw :: lasting
  bc_excluded :: lasting
  bc_counted :: lasting
  bc_detailHref :: string
  bc_form :: "policy_form option"

definition whole_duration :: "int option \<Rightarrow> lasting" where
  "whole_duration v = budget_duration (map_option of_int v)"

definition budget_card_of :: "bool \<Rightarrow> incident_range \<Rightarrow> slo_budget \<Rightarrow> budget_card" where
  \<comment> \<open>the form is offered where \<open>editable\<close>\<close>
  "budget_card_of editable rng b =
     \<lparr> bc_serviceId = sb_serviceId b, bc_tone = budget_tone (sb_state b), bc_target = target b,
       bc_observed = observed b, bc_allowed = budget_duration (sb_allowedDowntimeSeconds b), bc_used = used b,
       bc_remaining = remaining b, bc_burn = budget_burn b, bc_raw = whole_duration (sb_rawDowntimeSeconds b),
       bc_excluded = whole_duration (sb_maintenanceExcludedSeconds b),
       bc_counted = whole_duration (sb_knownDowntimeSeconds b), bc_detailHref = sb_detailHref b,
       bc_form = (if editable then Some \<lparr> pf_serviceId = slo_service_text (sb_serviceId b), pf_range = incident_range_text rng,
         pf_target = sb_targetPercent b, pf_enabled = sb_enabled b \<rparr> else None) \<rparr>"

definition ReliabilitySloPanel ::
  "slo_budget list \<Rightarrow> bool \<Rightarrow> bool \<Rightarrow> incident_range \<Rightarrow> string option \<Rightarrow>
   policy_message \<times> budget_card list" where
  "ReliabilitySloPanel budgets policyDataAvailable canManage rng outcome =
     (policy_message_of outcome, map (budget_card_of (canManage \<and> policyDataAvailable) rng) budgets)"

section \<open>Burn rates\<close>

definition window_burn :: "burn_service \<Rightarrow> burn_window_id \<Rightarrow> (bool \<times> string) option" where
  \<comment> \<open>\<open>burn\<close> of the panel of burn rates\<close>
  "window_burn service i =
     (case List.find (\<lambda>w. bw_windowId w = i) (bs_windows service) of
        None \<Rightarrow> None
      | Some w \<Rightarrow> map_option (\<lambda>q. at_most (bw_exactCoverage w) (toFixed (if q \<ge> 10 then 1 else 2) q @ ''x''))
          (bw_burnRate w))"

definition counted :: "burn_service \<Rightarrow> burn_window_id \<Rightarrow> lasting" where
  \<comment> \<open>whole seconds, so that none is below one\<close>
  "counted service i =
     (case Option.bind (List.find (\<lambda>w. bw_windowId w = i) (bs_windows service)) bw_countedDowntimeSeconds of
        None \<Rightarrow> NotApplicable
      | Some s \<Rightarrow>
          if s < 60 then Seconds s
          else if s < 3600 then MinutesAndSeconds (s div 60) (s mod 60)
          else HoursAndMinutes (s div 3600) (s mod 3600 div 60))"

definition burn_tone :: "burn_state \<Rightarrow> budget_class" where
  \<comment> \<open>\<open>STATE_CLASSES\<close> of the panel of burn rates\<close>
  "burn_tone s =
     (case s of BurnUnconfigured \<Rightarrow> ClassUnconfigured | BurnHealthy \<Rightarrow> ClassWithin | BurnCritical \<Rightarrow> ClassExhausted
      | BurnWarning \<Rightarrow> ClassUnknown | BurnCoverageUnknown \<Rightarrow> ClassUnknown | BurnDataUnavailable \<Rightarrow> ClassUnknown)"

definition ReliabilityBurnRatePanel ::
  "burn_service list \<Rightarrow> (slo_service \<times> budget_class \<times> ((bool \<times> string) option \<times> lasting) list) list" where
  "ReliabilityBurnRatePanel burnRates =
     map (\<lambda>service. (bs_serviceId service, burn_tone (bs_state service),
       map (\<lambda>i. (window_burn service i, counted service i)) [Burn1h, Burn6h, Burn24h])) burnRates"

section \<open>The history of the burn rates\<close>

datatype burn_series = Series1h | Series6h | Series24h

definition BURN_SERIES :: "burn_series list" where
  \<comment> \<open>\<open>SERIES\<close>\<close>
  "BURN_SERIES = [Series1h, Series6h, Series24h]"

definition series_rate :: "burn_series \<Rightarrow> burn_history_point \<Rightarrow> rat option" where
  "series_rate k p = (case k of Series1h \<Rightarrow> bp_burnRate1h p | Series6h \<Rightarrow> bp_burnRate6h p | Series24h \<Rightarrow> bp_burnRate24h p)"

definition series_exact :: "burn_series \<Rightarrow> burn_history_point \<Rightarrow> bool" where
  "series_exact k p = (case k of Series1h \<Rightarrow> bp_exact1h p | Series6h \<Rightarrow> bp_exact6h p | Series24h \<Rightarrow> bp_exact24h p)"

definition seriesValue :: "burn_series \<Rightarrow> burn_history_point \<Rightarrow> rat option" where
  "seriesValue k p = (case series_rate k p of None \<Rightarrow> None | Some v \<Rightarrow> if v \<ge> 0 then Some v else None)"

definition burn_rate_text :: "rat option \<Rightarrow> bool \<Rightarrow> (bool \<times> string) option" where
  \<comment> \<open>\<open>rate\<close>\<close>
  "burn_rate_text v exact =
     map_option (\<lambda>q. at_most exact (toFixed (if q \<ge> 100 then 0 else if q \<ge> 10 then 1 else 2) q @ ''x'')) v"

definition burn_age :: "string option \<Rightarrow> string \<Rightarrow> elapsed" where
  \<comment> \<open>\<open>age\<close>: no days\<close>
  "burn_age v generatedAt =
     (case (Option.bind (nonempty v) Date_parse, Date_parse generatedAt) of
        (Some timestamp, Some reference) \<Rightarrow>
          (let seconds = max 0 ((reference - timestamp) div 1000)
           in if seconds < 60 then SecondsAgo seconds else if seconds < 3600 then MinutesAgo (seconds div 60)
              else HoursAgo (seconds div 3600))
      | _ \<Rightarrow> TimeUnknown)"

datatype empty_message = CollectingHistory | DataMissing | CoverageMissing | PolicyMissing | NotDetermined

definition emptyHistoryMessage :: "burn_history_point list \<Rightarrow> bool \<Rightarrow> empty_message option" where
  "emptyHistoryMessage points hasBurnValue =
     (if points = [] then Some CollectingHistory
      else if hasBurnValue then None
      else if BurnDataUnavailable \<in> bp_state ` set points then Some DataMissing
      else if BurnCoverageUnknown \<in> bp_state ` set points then Some CoverageMissing
      else if list_all (\<lambda>p. bp_state p = BurnUnconfigured) points then Some PolicyMissing
      else Some NotDetermined)"

definition servicePoints :: "burn_history \<Rightarrow> slo_service \<Rightarrow> burn_history_point list" where
  "servicePoints history s =
     sort_key (\<lambda>p. ms_of (bp_bucketStartedAt p)) (filter (\<lambda>p. bp_serviceId p = s) (bh_points history))"

definition burn_valid :: "burn_series \<Rightarrow> burn_history_point \<Rightarrow> bool" where
  "burn_valid k p \<longleftrightarrow> Date_parse (bp_bucketStartedAt p) \<noteq> None \<and> seriesValue k p \<noteq> None \<and> series_exact k p"

definition burn_place :: "burn_series \<Rightarrow> int \<Rightarrow> int \<Rightarrow> rat \<Rightarrow> burn_history_point \<Rightarrow> rat \<times> rat" where
  \<comment> \<open>the coordinates of a valid point in a plot of 600 by 150 with a border of 12\<close>
  "burn_place k xMin xMax yMax p =
     (let moment = ms_of (bp_bucketStartedAt p); v = the (seriesValue k p);
          xRatio = (if xMax > xMin then of_int (moment - xMin) / of_int (xMax - xMin) else 1 / 2);
          yRatio = (if yMax > 0 then min 1 (v / yMax) else 0)
      in (12 + xRatio * (600 - 12 * 2), 150 - 12 - yRatio * (150 - 12 * 2)))"

definition burn_gap :: "int \<Rightarrow> rat" where
  \<comment> \<open>\<open>maxGapMs\<close>\<close>
  "burn_gap bucketMinutes = of_int (bucketMinutes * 60000) * (16 / 10)"

definition burn_step ::
  "(burn_history_point \<Rightarrow> 'c) \<Rightarrow> (burn_history_point \<Rightarrow> bool) \<Rightarrow> rat \<Rightarrow>
   'c list list \<times> 'c list \<times> int option \<Rightarrow> burn_history_point \<Rightarrow> 'c list list \<times> 'c list \<times> int option" where
  \<comment> \<open>one round of the loop over the points; a time that is not finite makes the point invalid\<close>
  "burn_step place valid limit st p =
     (case st of (pieces, current, previousAt) \<Rightarrow>
        (let continuous = (case (previousAt, Date_parse (bp_bucketStartedAt p)) of
               (Some b, Some a) \<Rightarrow> of_int (a - b) \<le> limit | _ \<Rightarrow> False);
             cut = (\<not> valid p \<or> (current \<noteq> [] \<and> \<not> continuous));
             pieces' = (if cut \<and> length current \<ge> 2 then pieces @ [current] else pieces);
             current' = (if cut then [] else current)
         in if \<not> valid p then (pieces', current', None)
            else (pieces', current' @ [place p], Date_parse (bp_bucketStartedAt p))))"

definition burn_pieces ::
  "(burn_history_point \<Rightarrow> 'c) \<Rightarrow> (burn_history_point \<Rightarrow> bool) \<Rightarrow> rat \<Rightarrow> burn_history_point list \<Rightarrow> 'c list list" where
  "burn_pieces place valid limit points =
     (case foldl (burn_step place valid limit) ([], [], None) points of
        (pieces, current, _) \<Rightarrow> if length current \<ge> 2 then pieces @ [current] else pieces)"

definition chartSegments ::
  "burn_history_point list \<Rightarrow> burn_series \<Rightarrow> int \<Rightarrow> int \<Rightarrow> int \<Rightarrow> rat \<Rightarrow> (rat \<times> rat) list list" where
  "chartSegments points k bucketMinutes xMin xMax yMax =
     burn_pieces (burn_place k xMin xMax yMax) (burn_valid k) (burn_gap bucketMinutes) points"

definition segment_text :: "(rat \<times> rat) list \<Rightarrow> string" where
  "segment_text piece = join '' '' (map (\<lambda>(x, y). toFixed 2 x @ '','' @ toFixed 2 y) piece)"

definition exact_values :: "burn_history_point list \<Rightarrow> rat list" where
  \<comment> \<open>\<open>exactValues\<close>\<close>
  "exact_values points =
     concat (map (\<lambda>k. List.map_filter (seriesValue k) (filter (series_exact k) points)) BURN_SERIES)"

definition BurnChart :: "burn_history_point list \<Rightarrow> int \<Rightarrow> (burn_series \<times> string list) list option" where
  \<comment> \<open>\<open>None\<close> where nothing is drawn\<close>
  "BurnChart points bucketMinutes =
     (let exactValues = exact_values points
      in if length points < 2 \<or> length exactValues < 2 then None
         else (let timestamps = List.map_filter (\<lambda>p. Date_parse (bp_bucketStartedAt p)) points;
                   xMin = Min (set timestamps); xMax = Max (set timestamps);
                   rawMax = Max (set exactValues);
                   yMax = (if rawMax \<le> 0 then 1 else rawMax * (108 / 100));
                   rendered = map (\<lambda>k. (k, map segment_text (chartSegments points k bucketMinutes xMin xMax yMax)))
                     BURN_SERIES
               in if list_all (\<lambda>s. snd s = []) rendered then None else Some rendered))"

definition burn_state_tone :: "burn_state option \<Rightarrow> reliability_health" where
  \<comment> \<open>\<open>stateTone\<close>: the tones are those of a health; \<open>healthTone\<close> is the tone of the health itself\<close>
  "burn_state_tone s =
     (case s of
        None \<Rightarrow> UnknownServiceHealth | Some BurnHealthy \<Rightarrow> Operational
      | Some BurnWarning \<Rightarrow> Degraded | Some BurnCoverageUnknown \<Rightarrow> Degraded
      | Some BurnCritical \<Rightarrow> CriticalHealth | Some BurnDataUnavailable \<Rightarrow> CriticalHealth
      | Some BurnUnconfigured \<Rightarrow> DisabledHealth)"

record burn_history_card =
  bk_serviceId :: slo_service
  bk_tone :: reliability_health
  bk_latest :: "(bool \<times> string) option list"
  bk_points :: nat
  bk_body :: "empty_message + (burn_series \<times> string list) list option"

definition burn_history_card_of :: "burn_history \<Rightarrow> slo_service \<Rightarrow> burn_history_card" where
  "burn_history_card_of history s =
     (let points = servicePoints history s;
          latestBucket = js_last points;
          hasBurnValue = list_ex (\<lambda>p. list_ex (\<lambda>k. series_rate k p \<noteq> None) BURN_SERIES) points
      in \<lparr> bk_serviceId = s, bk_tone = burn_state_tone (map_option bp_state latestBucket),
           bk_latest = map (\<lambda>k. Option.bind latestBucket (\<lambda>p. burn_rate_text (series_rate k p) (series_exact k p))) BURN_SERIES,
           bk_points = length points,
           bk_body = (case emptyHistoryMessage points hasBurnValue of
             Some m \<Rightarrow> Inl m | None \<Rightarrow> Inr (BurnChart points (bh_bucketMinutes history))) \<rparr>)"

record burn_history_view =
  bhv_tone :: reliability_health
  bhv_lastSuccess :: elapsed
  bhv_lastInvoked :: elapsed
  bhv_stateMissing :: bool
  bhv_cards :: "burn_history_card list option"

definition ReliabilityBurnHistoryPanel :: "string \<Rightarrow> burn_history \<Rightarrow> reconciler_state \<Rightarrow> burn_history_view" where
  "ReliabilityBurnHistoryPanel generatedAt history reconciler =
     \<lparr> bhv_tone = rn_health reconciler,
       bhv_lastSuccess = burn_age (rn_lastSuccessAt reconciler) generatedAt,
       bhv_lastInvoked = burn_age (rn_lastInvokedAt reconciler) generatedAt,
       bhv_stateMissing = (\<not> rn_dataAvailable reconciler),
       bhv_cards = (if bh_dataAvailable history
         then Some (map (burn_history_card_of history) SLO_SERVICE_IDS) else None) \<rparr>"

section \<open>Services and notifications\<close>

record reliability_service_card =
  rsc_health :: reliability_health
  rsc_ratio :: "(bool \<times> string) option"
  rsc_downtime :: lasting
  rsc_counts :: "int list"
  rsc_median :: lasting
  rsc_longest :: lasting
  rsc_notification :: bool
  rsc_bound :: bool  \<comment> \<open>the note that the ratio is an upper bound\<close>
  rsc_hrefs :: "string list"

definition ReliabilityServiceCard :: "reliability_service \<Rightarrow> incident_range \<Rightarrow> reliability_service_card" where
  "ReliabilityServiceCard service rng =
     \<lparr> rsc_health = sr_health service, rsc_ratio = card_ratio (sr_incidentFreeRatio service) (sr_exactCoverage service),
       rsc_downtime = card_duration (sr_knownDowntimeSeconds service),
       rsc_counts = [sr_activeIncidentCount service, sr_recoveredIncidentCount service, sr_affectedEntityCount service],
       rsc_median = card_duration (sr_medianRecoverySeconds service),
       rsc_longest = card_duration (sr_longestRecoverySeconds service),
       rsc_notification = (sr_id service = NotificationReliability),
       rsc_bound = (\<not> sr_exactCoverage service \<and> sr_incidentFreeRatio service \<noteq> None),
       rsc_hrefs = [sr_detailHref service, ''/incidents?range='' @ incident_range_text rng] \<rparr>"

record delivery_panel =
  dp_enabled :: "bool option"
  dp_configured :: "bool option"
  dp_counts :: "int option list"
  dp_lastErrorCode :: "string option"

definition ReliabilityNotificationPanel :: "reliability_snapshot \<Rightarrow> delivery_panel" where
  \<comment> \<open>\<open>None\<close> is unknown\<close>
  "ReliabilityNotificationPanel d =
     (let of_summary = (\<lambda>f. map_option f (rl_notifications d))
      in \<lparr> dp_enabled = map_option ns_channelEnabled (rl_notifications d),
           dp_configured = map_option ns_channelConfigured (rl_notifications d),
           dp_counts = map of_summary [ns_pendingCount, ns_retryCount, ns_failedCount, ns_sent24hCount, ns_suppressedCount,
             ns_activeSuppressionCount],
           dp_lastErrorCode = nonempty (rl_lastErrorCode d) \<rparr>)"

section \<open>The page\<close>

record reliability_page =
  rp_health :: reliability_health
  rp_exact :: bool
  rp_ratio :: "bool \<times> string"
  rp_downtime :: lasting
  rp_active :: "int \<times> int"
  rp_median :: "lasting \<times> int"
  rp_longest :: lasting
  rp_partial :: bool
  rp_maintenance :: maintenance_view
  rp_targets :: "target_catalog option"
  rp_targetsDataAvailable :: bool
  rp_budgets :: "policy_message \<times> budget_card list"
  rp_burnRates :: "(slo_service \<times> budget_class \<times> ((bool \<times> string) option \<times> lasting) list) list"
  rp_burnHistory :: burn_history_view
  rp_services :: "reliability_service_card list"
  rp_delivery :: delivery_panel

definition can_manage :: "console_session option \<Rightarrow> bool" where
  \<comment> \<open>\<open>canManageSlo\<close>, for a session that may have failed\<close>
  "can_manage sess = (case sess of None \<Rightarrow> False | Some s \<Rightarrow> hasConsoleRole s Administrator)"

definition reliability_page_of ::
  "reliability_snapshot \<Rightarrow> incident_range \<Rightarrow> bool \<Rightarrow> target_catalog option \<Rightarrow> string option \<Rightarrow> string option \<Rightarrow>
   reliability_page" where
  "reliability_page_of d rng canManage targets policyOutcome maintenanceOutcome =
     (let overall = rl_overall d
      in \<lparr> rp_health = ov_health overall, rp_exact = ov_exactCoverage overall,
           rp_ratio = page_ratio (ov_incidentFreeRatio overall) (ov_exactCoverage overall),
           rp_downtime = page_duration (Some (ov_knownDowntimeSeconds overall)),
           rp_active = (ov_activeIncidentCount overall, ov_activeCriticalCount overall),
           rp_median = (page_duration (ov_medianRecoverySeconds overall), ov_recoveredIncidentCount overall),
           rp_longest = page_duration (ov_longestRecoverySeconds overall),
           rp_partial = (\<not> rl_backupDataAvailable d \<or> \<not> rl_notificationDataAvailable d),
           rp_maintenance = ReliabilityMaintenancePanel (rl_maintenanceWindows d) (rl_maintenanceDataAvailable d)
             canManage maintenanceOutcome (rl_generatedAt d),
           rp_targets = targets, rp_targetsDataAvailable = (\<not> canManage \<or> targets \<noteq> None),
           rp_budgets = ReliabilitySloPanel (rl_sloBudgets d) (rl_sloPolicyDataAvailable d) canManage rng policyOutcome,
           rp_burnRates = ReliabilityBurnRatePanel (rl_burnRates d),
           rp_burnHistory = ReliabilityBurnHistoryPanel (rl_generatedAt d) (rl_burnHistory d) (rl_burnReconciler d),
           rp_services = map (\<lambda>service. ReliabilityServiceCard service rng) (rl_services d),
           rp_delivery = ReliabilityNotificationPanel d \<rparr>)"

definition ReliabilityPage ::
  "(incident_range \<Rightarrow> reliability_snapshot option) \<Rightarrow> console_session option \<Rightarrow> target_catalog option \<Rightarrow>
   query_param \<Rightarrow> query_param \<Rightarrow> query_param \<Rightarrow> reliability_page option" where
  \<comment> \<open>the snapshot, the session and the targets may each have failed; the targets are only asked for by who may plan\<close>
  "ReliabilityPage load sess targets rangeParam policyParam maintenanceParam =
     (let rng = parseIncidentRange (firstValue rangeParam); canManage = can_manage sess
      in map_option (\<lambda>d. reliability_page_of d rng canManage (if canManage then targets else None)
           (firstValue policyParam) (firstValue maintenanceParam)) (load rng))"

section \<open>What the charts join\<close>

definition neighbours :: "'a list \<Rightarrow> ('a \<times> 'a) list" where
  "neighbours xs = zip xs (tl xs)"

lemma neighbours_simps [simp]: "neighbours [] = []" "neighbours [x] = []"
  by (simp_all add: neighbours_def)

lemma neighbours_snoc: "xs \<noteq> [] \<Longrightarrow> neighbours (xs @ [x]) = neighbours xs @ [(last xs, x)]"
proof (induction xs)
  case (Cons y ys)
  then show ?case by (cases ys) (simp_all add: neighbours_def)
qed simp

lemma neighbours_short: "length xs < 2 \<Longrightarrow> neighbours xs = []"
  by (cases xs; cases "tl xs") (auto simp: neighbours_def)

definition joined :: "(burn_history_point \<Rightarrow> bool) \<Rightarrow> rat \<Rightarrow> burn_history_point \<times> burn_history_point \<Rightarrow> bool" where
  \<comment> \<open>both buckets can be drawn and the second follows the first closely\<close>
  "joined valid limit = (\<lambda>(p, q). valid p \<and> valid q \<and>
     of_int (ms_of (bp_bucketStartedAt q) - ms_of (bp_bucketStartedAt p)) \<le> limit)"

definition drawn_lines :: "'c list list \<times> 'c list \<times> int option \<Rightarrow> ('c \<times> 'c) list" where
  "drawn_lines st = concat (map neighbours (fst st)) @ neighbours (fst (snd st))"

definition loop_agrees ::
  "(burn_history_point \<Rightarrow> 'c) \<Rightarrow> (burn_history_point \<Rightarrow> bool) \<Rightarrow> rat \<Rightarrow> burn_history_point list \<Rightarrow>
   'c list list \<times> 'c list \<times> int option \<Rightarrow> bool" where
  "loop_agrees place valid limit seen st \<longleftrightarrow>
     drawn_lines st = map (map_prod place place) (filter (joined valid limit) (neighbours seen)) \<and>
     (case snd (snd st) of
        None \<Rightarrow> fst (snd st) = [] \<and> (seen = [] \<or> \<not> valid (last seen))
      | Some t \<Rightarrow> fst (snd st) \<noteq> [] \<and> seen \<noteq> [] \<and> valid (last seen) \<and> last (fst (snd st)) = place (last seen) \<and>
          Date_parse (bp_bucketStartedAt (last seen)) = Some t)"

lemma flushed_lines:
  "concat (map neighbours (if length current \<ge> 2 then pieces @ [current] else pieces)) =
     concat (map neighbours pieces) @ neighbours current"
  by (simp add: neighbours_short)

lemma step_agrees:
  assumes agrees: "loop_agrees place valid limit seen st"
    and times: "\<And>q. valid q \<Longrightarrow> Date_parse (bp_bucketStartedAt q) \<noteq> None"
  shows "loop_agrees place valid limit (seen @ [p]) (burn_step place valid limit st p)"
proof -
  obtain pieces current previousAt where st: "st = (pieces, current, previousAt)" by (cases st)
  let ?lines = "concat (map neighbours pieces) @ neighbours current"
  have lines: "?lines = map (map_prod place place) (filter (joined valid limit) (neighbours seen))"
    using agrees by (simp add: loop_agrees_def drawn_lines_def st)
  show ?thesis
  proof (cases "valid p")
    case False
    then have none: "filter (joined valid limit) (neighbours (seen @ [p])) = filter (joined valid limit) (neighbours seen)"
      by (cases "seen = []") (simp_all add: neighbours_snoc joined_def)
    have "burn_step place valid limit st p =
        (if length current \<ge> 2 then pieces @ [current] else pieces, [], None)"
      using False by (simp add: burn_step_def st Let_def)
    then show ?thesis using False lines none by (simp add: loop_agrees_def drawn_lines_def flushed_lines)
  next
    case valid_p: True
    then obtain a where a: "Date_parse (bp_bucketStartedAt p) = Some a" using times by blast
    show ?thesis
    proof (cases previousAt)
      case None
      then have empty: "current = []" "seen = [] \<or> \<not> valid (last seen)"
        using agrees by (simp_all add: loop_agrees_def st)
      then have "filter (joined valid limit) (neighbours (seen @ [p])) = filter (joined valid limit) (neighbours seen)"
        by (cases "seen = []") (simp_all add: neighbours_snoc joined_def)
      then show ?thesis
        using valid_p a lines empty(1) by (simp add: loop_agrees_def drawn_lines_def burn_step_def st Let_def)
    next
      case (Some b)
      then have run: "current \<noteq> []" "seen \<noteq> []" "valid (last seen)" "last current = place (last seen)"
        "Date_parse (bp_bucketStartedAt (last seen)) = Some b"
        using agrees by (simp_all add: loop_agrees_def st)
      have joins: "joined valid limit (last seen, p) \<longleftrightarrow> of_int (a - b) \<le> limit"
        using run(3,5) valid_p a by (simp add: joined_def)
      have more_lines: "neighbours (seen @ [p]) = neighbours seen @ [(last seen, p)]"
        using run(2) by (rule neighbours_snoc)
      show ?thesis
      proof (cases "of_int (a - b) \<le> limit")
        case True
        then have "burn_step place valid limit st p = (pieces, current @ [place p], Some a)"
          using valid_p a Some by (simp add: burn_step_def st Let_def)
        then show ?thesis
          using True lines more_lines joins run valid_p a
          by (simp add: loop_agrees_def drawn_lines_def neighbours_snoc)
      next
        case False
        then have "burn_step place valid limit st p =
            (if length current \<ge> 2 then pieces @ [current] else pieces, [place p], Some a)"
          using valid_p a Some run(1) by (simp add: burn_step_def st Let_def)
        then show ?thesis
          using False lines more_lines joins valid_p a
          by (simp add: loop_agrees_def drawn_lines_def flushed_lines)
      qed
    qed
  qed
qed

lemma pieces_agree:
  assumes "\<And>q. valid q \<Longrightarrow> Date_parse (bp_bucketStartedAt q) \<noteq> None"
  shows "concat (map neighbours (burn_pieces place valid limit points)) =
    map (map_prod place place) (filter (joined valid limit) (neighbours points))"
proof -
  have "loop_agrees place valid limit points (foldl (burn_step place valid limit) ([], [], None) points)"
    by (induction points rule: rev_induct)
      (simp_all add: step_agrees [OF _ assms] loop_agrees_def [of _ _ _ "[]"] drawn_lines_def)
  then show ?thesis
    by (cases "foldl (burn_step place valid limit) ([], [], None) points")
      (simp add: burn_pieces_def loop_agrees_def drawn_lines_def flushed_lines)
qed

text \<open>C38. A chart of the burn history joins two buckets exactly when they follow each other in the list, both have an
  exact rate of at least nothing, and the second begins at most one and six tenths of a bucket after the first: no
  line crosses a gap, an estimate or a missing value, and no line is missing. The loop that cuts the series into
  pieces agrees with this description, in the order of the buckets.\<close>

theorem burn_lines_join_exact_neighbours:
  "concat (map neighbours (chartSegments points k bucketMinutes xMin xMax yMax)) =
     map (map_prod (burn_place k xMin xMax yMax) (burn_place k xMin xMax yMax))
       (filter (joined (burn_valid k) (burn_gap bucketMinutes)) (neighbours points))"
  unfolding chartSegments_def by (rule pieces_agree) (simp add: burn_valid_def)

end
