(* ===== verification/BackupPage.thy ===== *)
theory BackupPage
  imports DetailPages ReliabilityPage
begin

text \<open>
  The page of the backup centre (\<open>app/backups/page.tsx\<close>): its cards with their anchors, the series and markers of
  its charts, and the list of runs. Japanese words are constructors or arguments; dates for display, fixed texts and
  markup are left out.
\<close>

section \<open>Amounts\<close>

definition parseBackupRange :: "string option \<Rightarrow> incident_range" where
  "parseBackupRange v =
     (if v = Some ''7d'' then Range7d else if v = Some ''30d'' then Range30d else Range24h)"

definition backup_tone :: "backup_health \<Rightarrow> console_tone" where
  \<comment> \<open>\<open>healthTone\<close>\<close>
  "backup_tone h =
     (if h = BackupHealthy then SuccessUi else if h = BackupWarning then WarningUi
      else if h = BackupCritical then DangerUi else NeutralUi)"

definition outcomeTone :: "backup_outcome \<Rightarrow> console_tone" where
  "outcomeTone x =
     (if x = BackupSuccess then SuccessUi else if x = BackupFailed then DangerUi
      else if x = BackupRunning then WarningUi else NeutralUi)"

definition formatAge :: "int option \<Rightarrow> lasting" where
  "formatAge seconds =
     (case seconds of
        None \<Rightarrow> NotApplicable
      | Some s \<Rightarrow>
          if s < 60 then Seconds s else if s < 3600 then MinutesOnly (s div 60)
          else if s < 86400 then HoursOnly (s div 3600)
          else (let hours = s mod 86400 div 3600
                in if hours > 0 then DaysAndHours (s div 86400) hours else DaysOnly (s div 86400)))"

definition run_duration :: "int option \<Rightarrow> lasting" where
  \<comment> \<open>\<open>formatDuration\<close> of the page of the backups\<close>
  "run_duration seconds =
     (case seconds of
        None \<Rightarrow> NotApplicable
      | Some s \<Rightarrow>
          if s < 60 then Seconds s
          else (let minutes = s div 60; hours = minutes div 60; rest = minutes mod 60
                in if minutes < 60 then MinutesOnly minutes
                   else if rest > 0 then HoursAndMinutes hours rest else HoursOnly hours))"

definition backup_bytes :: "int option \<Rightarrow> string option" where
  \<comment> \<open>\<open>formatBytes\<close> of the page of the backups\<close>
  "backup_bytes bytes =
     map_option (\<lambda>b.
       if b < 1024 then int_text b @ '' B''
       else if b < 1024 ^ 2 then toFixed 1 (of_int b / 1024) @ '' KiB''
       else if b < 1024 ^ 3 then toFixed 1 (of_int b / 1024 ^ 2) @ '' MiB''
       else toFixed 2 (of_int b / 1024 ^ 3) @ '' GiB'') bytes"

definition series_key :: "string \<Rightarrow> string \<Rightarrow> string \<Rightarrow> backup_type \<Rightarrow> string" where
  \<comment> \<open>\<open>targetKey\<close> of the page\<close>
  "series_key hostId name mode type =
     hostId @ '':'' @ name @ '':'' @ mode @ '':'' @ backup_type_text type"

definition target_series_key :: "'a backup_policy_scheme \<Rightarrow> string" where
  "target_series_key t = series_key (bt_hostId t) (bt_backupTarget t) (bt_gameMode t) (bt_backupType t)"

definition targetAnchor :: "'a backup_policy_scheme \<Rightarrow> string" where
  "targetAnchor t =
     ''backup-target-'' @ bt_hostId t @ ''-'' @ bt_backupTarget t @ ''-'' @ bt_gameMode t @ ''-'' @
     backup_type_text (bt_backupType t)"

definition series_label :: "'a backup_policy_scheme \<Rightarrow> string" where
  "series_label t = bt_backupTarget t @ '' / '' @ bt_gameMode t @ '' / '' @ bt_hostDisplayName t"

definition completed_runs :: "backup_history_run list \<Rightarrow> string \<Rightarrow> (string \<times> backup_history_run) list" where
  \<comment> \<open>the completed runs of a key, with the time of completion\<close>
  "completed_runs history key =
     List.map_filter (\<lambda>r. map_option (\<lambda>t. (t, r)) (br_completedAt r))
       (filter (\<lambda>r. series_key (bh_hostId r) (bh_backupTarget r) (bh_gameMode r) (bh_backupType r) = key) history)"

definition backup_series ::
  "string \<Rightarrow> (backup_history_run \<Rightarrow> rat option) \<Rightarrow> backup_target_snapshot list \<Rightarrow> backup_history_run list \<Rightarrow>
   chart_series list" where
  \<comment> \<open>\<open>durationSeries\<close> and \<open>sizeSeries\<close>: one series for each key of the map of the targets\<close>
  "backup_series ending amount targets history =
     map (\<lambda>(key, t). line (key @ ending) (series_label t) fst (completed_runs history key) (amount \<circ> snd))
       (index_by target_series_key targets)"

definition durationSeries :: "backup_target_snapshot list \<Rightarrow> backup_history_run list \<Rightarrow> chart_series list" where
  "durationSeries = backup_series '':duration'' (\<lambda>r. map_option of_int (br_durationSeconds r))"

definition sizeSeries :: "backup_target_snapshot list \<Rightarrow> backup_history_run list \<Rightarrow> chart_series list" where
  "sizeSeries = backup_series '':size'' (\<lambda>r. map_option (\<lambda>b. of_int b / 1024 ^ 3) (br_sizeBytes r))"

definition failureMarkers :: "(backup_failure_code option \<Rightarrow> string) \<Rightarrow> backup_history_run list \<Rightarrow> chart_marker list" where
  "failureMarkers labels history =
     List.map_filter (\<lambda>r. map_option (\<lambda>t.
         \<lparr> ck_id = ''backup-failure-'' @ int_text (bh_rowId r), ck_timestamp = t,
           ck_label = bh_backupTarget r @ '': '' @ labels (br_failureCode r), ck_severity = CriticalSeverity \<rparr>)
         (nonempty (br_completedAt r)))
       (filter (\<lambda>r. br_outcome r = BackupFailed) history)"

datatype verified_text = VerifiedText | FailedText | UnknownText

definition verified_text_of :: "bool option \<Rightarrow> verified_text" where
  "verified_text_of v = (case v of Some True \<Rightarrow> VerifiedText | Some False \<Rightarrow> FailedText | None \<Rightarrow> UnknownText)"

datatype sync_text = SyncOptional | Synced | SyncPending

record backup_card =
  bcd_anchor :: string
  bcd_tone :: console_tone
  bcd_age :: lasting
  bcd_limits :: "lasting \<times> lasting"
  bcd_paused :: bool
  bcd_outcome :: "backup_outcome option"
  bcd_bytes :: "string option"
  bcd_duration :: lasting
  bcd_checksum :: verified_text
  bcd_remote :: sync_text
  bcd_restore :: restore_readiness
  bcd_reasons :: "backup_reason list"

definition backup_card_of :: "int option \<Rightarrow> backup_target_snapshot \<Rightarrow> backup_card" where
  \<comment> \<open>at the time of the snapshot; without one nothing is paused\<close>
  "backup_card_of endMs t =
     \<lparr> bcd_anchor = targetAnchor t, bcd_tone = backup_tone (bt_health t), bcd_age = formatAge (bt_backupAgeSeconds t),
       bcd_limits = (formatAge (Some (bt_warningAfterSeconds t)), formatAge (Some (bt_criticalAfterSeconds t))),
       bcd_paused = (case endMs of None \<Rightarrow> False | Some now \<Rightarrow> isBackupAgePaused t now),
       bcd_outcome = map_option br_outcome (bt_latest t),
       bcd_bytes = backup_bytes (Option.bind (bt_latestSuccess t) bs_sizeBytes),
       bcd_duration = run_duration (Option.bind (bt_latest t) br_durationSeconds),
       bcd_checksum = verified_text_of (Option.bind (bt_latestSuccess t) bs_sha256Verified),
       bcd_remote = (if \<not> bt_remoteSyncRequired t then SyncOptional
         else if nonempty (Option.bind (bt_latestSuccess t) bs_remoteSyncedAt) \<noteq> None then Synced else SyncPending),
       bcd_restore = bt_restoreReadiness t, bcd_reasons = bt_healthReasons t \<rparr>"

record backups_page =
  bpg_summary :: "backup_summary option"
  bpg_tone :: console_tone
  bpg_cards :: "backup_card list"
  bpg_charts :: "chart_input list"
  bpg_runs :: "(backup_history_run \<times> console_tone) list"

definition backup_period :: "incident_range \<Rightarrow> string \<Rightarrow> shared_props option" where
  "backup_period rng endAt = do {
     finish \<leftarrow> Date_parse endAt;
     startAt \<leftarrow> Date_toISOString (finish - incident_range_hours rng * 3600000);
     Some \<lparr> sd_startAt = startAt, sd_endAt = endAt, sd_expectedIntervalSeconds = 86400 \<rparr>
   }"

definition BackupsPage ::
  "(backup_failure_code option \<Rightarrow> string) \<Rightarrow> string \<Rightarrow> (incident_range \<Rightarrow> backup_center_snapshot option) \<Rightarrow> query_param \<Rightarrow>
   int \<Rightarrow> backups_page found" where
  \<comment> \<open>\<open>seconds\<close> is the Japanese unit; a snapshot that cannot be read is \<open>None\<close>\<close>
  "BackupsPage labels seconds load rangeParam now =
     (let rng = parseBackupRange (firstValue rangeParam);
          d = load rng;
          targets = (case d of None \<Rightarrow> [] | Some b \<Rightarrow> bk_targets b);
          history = (case d of None \<Rightarrow> [] | Some b \<Rightarrow> bk_history b);
          endAt = (case d of None \<Rightarrow> iso_text now | Some b \<Rightarrow> bk_generatedAt b);
          markers = failureMarkers labels history
      in case backup_period rng endAt of
           None \<Rightarrow> PageThrows
         | Some shared \<Rightarrow> Found
             \<lparr> bpg_summary = map_option bk_summary d,
               bpg_tone = (case d of None \<Rightarrow> NeutralUi | Some b \<Rightarrow> backup_tone (bc_overallHealth (bk_summary b))),
               bpg_cards = map (backup_card_of (Date_parse endAt)) targets,
               bpg_charts = [detail_chart shared markers seconds None (Some 0) (durationSeries targets history),
                 detail_chart shared markers '' GiB'' None (Some 2) (sizeSeries targets history)],
               bpg_runs = map (\<lambda>r. (r, outcomeTone (br_outcome r))) history \<rparr>)"

section \<open>The links of the backup incidents\<close>

lemma active_backup_target:
  assumes "BackupActive b \<in> set (un_active (unified_with_backup rng base backup contexts))"
  shows "\<exists>t \<in> set (bk_targets backup). ba_detailHref b =
    ''/backups?range='' @ incident_range_text rng @ ''#'' @ targetAnchor t \<and> bt_health t \<in> {BackupWarning, BackupCritical}"
proof -
  obtain openStates where "b \<in> set (deriveActiveBackupIncidents backup openStates rng)"
    using assms by (auto simp: unified_with_backup_def Let_def sortActive_def split: prod.splits)
  then obtain t severity where t: "t \<in> set (bk_targets backup)" "active_severity_of (bt_health t) = Some severity"
    "b = active_backup_incident (bk_generatedAt backup) rng openStates (group_by runKey (bk_history backup)) t severity"
    by (auto simp: deriveActiveBackupIncidents_def set_map_filter)
  then show ?thesis
    by (intro bexI [of _ t])
      (auto simp: active_backup_incident_def Let_def backupHref_def targetAnchor_def active_severity_of_def
        split: backup_health.splits)
qed

lemma backup_period_defined:
  assumes "Date_parse endAt = Some t" and "0 \<le> t"
  shows "backup_period rng endAt \<noteq> None"
proof -
  have "t \<le> max_time" using Date_parse_bound [OF assms(1)] by simp
  then have "Date_toISOString (t - incident_range_hours rng * 3600000) \<noteq> None"
    using assms(2) by (cases rng) (simp_all add: Date_toISOString_def incident_range_hours_def max_time_def)
  then show ?thesis using assms(1) by (auto simp: backup_period_def)
qed

text \<open>The link of a backup incident leads to the card of its target: the page that the link names is rendered for the
  same range, and when it reads the targets that the incident was derived from, one of its cards carries the
  anchor of the link and shows a target that is not healthy.\<close>

lemma backup_incident_links_reach_their_card:
  assumes "getUnifiedIncidentCenterSnapshot rng base (Some backup) rpc = Some u" and "BackupActive b \<in> set (un_active u)"
    and "\<And>r. \<exists>again. load r = Some again \<and> bk_targets again = bk_targets backup \<and> Date_parse (bk_generatedAt again) = Some t"
    and "0 \<le> t"
  shows "\<exists>anchor page card. ba_detailHref b = ''/backups?range='' @ incident_range_text (un_range u) @ ''#'' @ anchor \<and>
    BackupsPage labels seconds load (One (incident_range_text (un_range u))) now = Found page \<and>
    card \<in> set (bpg_cards page) \<and> bcd_anchor card = anchor \<and> bcd_tone card \<in> {WarningUi, DangerUi}"
proof -
  obtain ic where ic: "base = Some ic" using assms(1) by (auto simp: getUnifiedIncidentCenterSnapshot_def)
  have "BackupActive b \<notin> set (un_active (unified_without_backup ic))" by (auto simp: unified_without_backup_def)
  then obtain contexts where u: "u = unified_with_backup rng ic backup contexts"
    using assms(1,2) by (auto simp: getUnifiedIncidentCenterSnapshot_def ic split: option.splits)
  have rng: "un_range u = rng" by (simp add: u unified_with_backup_def Let_def split: prod.splits)
  obtain x where x: "x \<in> set (bk_targets backup)" "bt_health x \<in> {BackupWarning, BackupCritical}"
    "ba_detailHref b = ''/backups?range='' @ incident_range_text rng @ ''#'' @ targetAnchor x"
    using active_backup_target assms(2) unfolding u by blast
  obtain again where again: "load rng = Some again" "bk_targets again = bk_targets backup"
    "Date_parse (bk_generatedAt again) = Some t" using assms(3) by blast
  have param: "parseBackupRange (firstValue (One (incident_range_text rng))) = rng"
    by (cases rng) (simp_all add: parseBackupRange_def firstValue_def nonempty_def incident_range_text_def)
  have "\<exists>page. BackupsPage labels seconds load (One (incident_range_text rng)) now = Found page \<and>
      bpg_cards page = map (backup_card_of (Some t)) (bk_targets backup)"
    unfolding BackupsPage_def Let_def param again(1) option.case
    by (rule found_when [OF backup_period_defined [OF again(3) assms(4)]]) (simp add: again)
  then obtain page where page: "BackupsPage labels seconds load (One (incident_range_text rng)) now = Found page"
    "bpg_cards page = map (backup_card_of (Some t)) (bk_targets backup)" by blast
  have "backup_card_of (Some t) x \<in> set (bpg_cards page)" using x(1) page(2) by simp
  moreover have "bcd_anchor (backup_card_of (Some t) x) = targetAnchor x"
    "bcd_tone (backup_card_of (Some t) x) \<in> {WarningUi, DangerUi}"
    using x(2) by (auto simp: backup_card_of_def backup_tone_def)
  ultimately show ?thesis using page(1) x(3) rng by blast
qed

end
