(* ===== verification/SecurityAdmin.thy ===== *)
theory SecurityAdmin
  imports Maintenance
begin

text \<open>
  The administration of Discord sessions (\<open>lib/discord-security-admin.ts\<close>), the projection of the sign-in
  audit for the security page (\<open>lib/security-event-projection.ts\<close>) and their routes under
  \<open>app/api/security\<close>, with \<open>app/api/auth/session\<close>. A handler returns its reply and the database functions it
  called. Every handler resolves the session of the request itself, with \<^const>\<open>getConsoleSession\<close>.
\<close>

section \<open>Rows\<close>

datatype resolved_status = ActiveSession | ExpiredSession | RevokedSession

datatype session_filter = OnlySessions resolved_status | AllSessions

datatype audit_action = LoginSucceeded | LoginDenied | SessionRevoked | SessionAdminRevoked

datatype audit_result = AuditSuccess | AuditDenied | AuditConflict | AuditError

definition resolved_status_of :: "string \<Rightarrow> resolved_status option" where
  "resolved_status_of s = map_of
     [(''active'', ActiveSession), (''expired'', ExpiredSession), (''revoked'', RevokedSession)] s"

definition filter_text :: "session_filter \<Rightarrow> string" where
  "filter_text f =
     (case f of AllSessions \<Rightarrow> ''all''
      | OnlySessions ActiveSession \<Rightarrow> ''active''
      | OnlySessions ExpiredSession \<Rightarrow> ''expired''
      | OnlySessions RevokedSession \<Rightarrow> ''revoked'')"

definition action_name :: "audit_action \<Rightarrow> string" where
  "action_name a =
     (case a of LoginSucceeded \<Rightarrow> ''DISCORD_LOGIN_SUCCEEDED'' | LoginDenied \<Rightarrow> ''DISCORD_LOGIN_DENIED''
      | SessionRevoked \<Rightarrow> ''DISCORD_SESSION_REVOKED'' | SessionAdminRevoked \<Rightarrow> ''DISCORD_SESSION_ADMIN_REVOKED'')"

definition AUDIT_ACTIONS :: "audit_action list" where
  "AUDIT_ACTIONS = [LoginSucceeded, LoginDenied, SessionRevoked, SessionAdminRevoked]"

definition result_name :: "audit_result \<Rightarrow> string" where
  "result_name r =
     (case r of AuditSuccess \<Rightarrow> ''success'' | AuditDenied \<Rightarrow> ''denied'' | AuditConflict \<Rightarrow> ''conflict''
      | AuditError \<Rightarrow> ''error'')"

definition AUDIT_RESULTS :: "audit_result list" where
  "AUDIT_RESULTS = [AuditSuccess, AuditDenied, AuditConflict, AuditError]"

definition action_of :: "string \<Rightarrow> audit_action option" where
  "action_of s = find (\<lambda>a. action_name a = s) AUDIT_ACTIONS"

definition result_of :: "string \<Rightarrow> audit_result option" where
  "result_of s = find (\<lambda>r. result_name r = s) AUDIT_RESULTS"

record session_admin_row =
  sa_sessionId :: string
  sa_discordUserId :: string
  sa_discordUsername :: string
  sa_discordGlobalName :: "string option"
  sa_discordAvatarUrl :: "string option"
  sa_consoleRole :: console_role
  sa_status :: resolved_status
  sa_createdAt :: string
  sa_lastSeenAt :: string
  sa_expiresAt :: string
  sa_revokedAt :: "string option"
  sa_revokeReason :: "string option"
  sa_isCurrent :: bool

record audit_row =
  al_auditId :: int
  al_requestId :: string
  al_action :: audit_action
  al_result :: audit_result
  al_actorRole :: "console_role option"
  al_targetId :: "string option"
  al_discordUserId :: "string option"
  al_reason :: "string option"
  al_providerError :: "string option"
  al_consoleRole :: "console_role option"
  al_occurredAt :: string

definition text_where :: "(string \<Rightarrow> bool) \<Rightarrow> jsval \<Rightarrow> string option" where
  "text_where p v = Option.bind (as_string v) (\<lambda>s. if p s then Some s else None)"

definition role_value :: "jsval \<Rightarrow> console_role option" where
  "role_value v = Option.bind (as_string v) isConsoleRole"

definition PROVIDER_ERROR_PATTERN :: "string \<Rightarrow> bool" where
  \<comment> \<open>\<open>^[a-z0-9_]{1,64}$\<close>\<close>
  "PROVIDER_ERROR_PATTERN = chars_between (\<lambda>c. is_lower c \<or> is_digit c \<or> c = CHR ''_'') 1 64"

definition parseProviderError :: "string option \<Rightarrow> string option" where
  "parseProviderError v = (case v of Some s \<Rightarrow> if PROVIDER_ERROR_PATTERN s then Some s else None | None \<Rightarrow> None)"

definition parseAdminSessionRow :: "jsval \<Rightarrow> session_admin_row option" where
  "parseAdminSessionRow v =
     (if \<not> is_record v then None
      else do {
        sessionId \<leftarrow> text_where UUID_PATTERN (get_prop v ''session_id'');
        userId \<leftarrow> text_where SNOWFLAKE_PATTERN (get_prop v ''discord_user_id'');
        username \<leftarrow> as_string (get_prop v ''discord_username'');
        globalName \<leftarrow> nullable_string (get_prop v ''discord_global_name'');
        avatarHash \<leftarrow> nullable_string (get_prop v ''discord_avatar_hash'');
        role \<leftarrow> role_value (get_prop v ''console_role'');
        status \<leftarrow> Option.bind (as_string (get_prop v ''session_status'')) resolved_status_of;
        createdAt \<leftarrow> as_string (get_prop v ''created_at'');
        lastSeenAt \<leftarrow> as_string (get_prop v ''last_seen_at'');
        expiresAt \<leftarrow> as_string (get_prop v ''expires_at'');
        revokedAt \<leftarrow> nullable_string (get_prop v ''revoked_at'');
        revokeReason \<leftarrow> nullable_string (get_prop v ''revoke_reason'');
        isCurrent \<leftarrow> as_bool (get_prop v ''is_current'');
        Some \<lparr> sa_sessionId = sessionId, sa_discordUserId = userId, sa_discordUsername = username,
          sa_discordGlobalName = globalName, sa_discordAvatarUrl = discordAvatarUrl (Some userId) avatarHash,
          sa_consoleRole = role, sa_status = status, sa_createdAt = createdAt, sa_lastSeenAt = lastSeenAt,
          sa_expiresAt = expiresAt, sa_revokedAt = revokedAt, sa_revokeReason = revokeReason,
          sa_isCurrent = isCurrent \<rparr>
      })"

definition parseAuditRow :: "jsval \<Rightarrow> audit_row option" where
  "parseAuditRow v =
     (if \<not> is_record v then None
      else do {
        auditId \<leftarrow> as_safe_integer (get_prop v ''audit_id'');
        _ \<leftarrow> (if auditId < 1 then None else Some ());
        requestId \<leftarrow> text_where UUID_PATTERN (get_prop v ''request_id'');
        action \<leftarrow> Option.bind (as_string (get_prop v ''action'')) action_of;
        result \<leftarrow> Option.bind (as_string (get_prop v ''result'')) result_of;
        actorRole \<leftarrow> nullable role_value (get_prop v ''actor_role'');
        targetId \<leftarrow> nullable_string (get_prop v ''target_id'');
        userId \<leftarrow> nullable_string (get_prop v ''discord_user_id'');
        reason \<leftarrow> nullable_string (get_prop v ''reason'');
        providerError \<leftarrow> nullable_string (get_prop v ''provider_error'');
        role \<leftarrow> nullable role_value (get_prop v ''console_role'');
        occurredAt \<leftarrow> as_string (get_prop v ''occurred_at'');
        Some \<lparr> al_auditId = auditId, al_requestId = requestId, al_action = action, al_result = result,
          al_actorRole = actorRole, al_targetId = targetId, al_discordUserId = userId, al_reason = reason,
          al_providerError = parseProviderError providerError, al_consoleRole = role, al_occurredAt = occurredAt \<rparr>
      })"

section \<open>Parameters of a request\<close>

definition parseDiscordSessionStatus :: "string option \<Rightarrow> session_filter" where
  "parseDiscordSessionStatus value =
     (case value of
        None \<Rightarrow> OnlySessions ActiveSession
      | Some s \<Rightarrow>
          if s = ''all'' then AllSessions
          else (case resolved_status_of s of Some st \<Rightarrow> OnlySessions st | None \<Rightarrow> OnlySessions ActiveSession))"

definition parseDiscordAuditAction :: "string option \<Rightarrow> audit_action option" where
  "parseDiscordAuditAction value = Option.bind value action_of"

definition parseAuditResult :: "string option \<Rightarrow> audit_result option" where
  "parseAuditResult value = Option.bind value result_of"

definition parseUuid :: "string option \<Rightarrow> string option" where
  "parseUuid value = Option.bind value (\<lambda>s. if UUID_PATTERN s then Some s else None)"

definition parsePositiveInteger :: "string option \<Rightarrow> int option" where
  "parsePositiveInteger value =
     (case nonempty value of
        None \<Rightarrow> None
      | Some s \<Rightarrow>
          if \<not> list_all is_digit s then None
          else (let parsed = int (dec_val s)
                in if parsed \<le> max_safe_integer \<and> parsed > 0 then Some parsed else None))"

definition parseCursorDate :: "string option \<Rightarrow> string option" where
  "parseCursorDate value =
     (case nonempty value of
        None \<Rightarrow> None
      | Some s \<Rightarrow> (case Date_parse s of None \<Rightarrow> None | Some _ \<Rightarrow> Some s))"

section \<open>Database functions\<close>

type_synonym security_call = "string \<times> (string \<times> jsval) list"

definition page_limit :: "int \<Rightarrow> int" where
  "page_limit limit = min (max limit 1) 100"

definition valid_rows :: "(jsval \<Rightarrow> 'a option) \<Rightarrow> jsval option \<Rightarrow> 'a list option" where
  \<comment> \<open>the rows that parse, in order; \<open>None\<close> for a failed call or an answer that is no array\<close>
  "valid_rows parse response = map_option (List.map_filter parse) (Option.bind response as_array)"

definition session_list_call :: "(string \<Rightarrow> string) \<Rightarrow> string \<Rightarrow> session_filter \<Rightarrow> int \<Rightarrow> string option \<Rightarrow> string option \<Rightarrow> security_call" where
  "session_list_call hash actorToken status limit beforeCreatedAt beforeId =
     (''list_discord_console_sessions'',
      [(''p_actor_session_token_hash'', Str (hash actorToken)), (''p_status'', Str (filter_text status)),
       (''p_limit'', jint (page_limit limit)), (''p_before_created_at'', or_null beforeCreatedAt),
       (''p_before_id'', or_null beforeId)])"

definition listDiscordConsoleSessions ::
  "session_rpc \<Rightarrow> (string \<Rightarrow> string) \<Rightarrow> string \<Rightarrow> session_filter \<Rightarrow> int \<Rightarrow> string option \<Rightarrow> string option \<Rightarrow>
   session_admin_row list option \<times> security_call list" where
  "listDiscordConsoleSessions rpc hash actorToken status limit beforeCreatedAt beforeId =
     (let call = session_list_call hash actorToken status limit beforeCreatedAt beforeId
      in (valid_rows parseAdminSessionRow (rpc (fst call) (snd call)), [call]))"

definition audit_list_call ::
  "(string \<Rightarrow> string) \<Rightarrow> string \<Rightarrow> audit_action option \<Rightarrow> audit_result option \<Rightarrow> int \<Rightarrow> string option \<Rightarrow> int option \<Rightarrow> security_call" where
  "audit_list_call hash actorToken action result limit beforeOccurredAt beforeId =
     (''list_discord_auth_audit_logs'',
      [(''p_actor_session_token_hash'', Str (hash actorToken)), (''p_action'', or_null (map_option action_name action)),
       (''p_result'', or_null (map_option result_name result)), (''p_limit'', jint (page_limit limit)),
       (''p_before_occurred_at'', or_null beforeOccurredAt),
       (''p_before_id'', case beforeId of None \<Rightarrow> Null | Some n \<Rightarrow> jint n)])"

definition listDiscordAuthAuditLogs ::
  "session_rpc \<Rightarrow> (string \<Rightarrow> string) \<Rightarrow> string \<Rightarrow> audit_action option \<Rightarrow> audit_result option \<Rightarrow> int \<Rightarrow> string option \<Rightarrow> int option \<Rightarrow>
   audit_row list option \<times> security_call list" where
  "listDiscordAuthAuditLogs rpc hash actorToken action result limit beforeOccurredAt beforeId =
     (let call = audit_list_call hash actorToken action result limit beforeOccurredAt beforeId
      in (valid_rows parseAuditRow (rpc (fst call) (snd call)), [call]))"

datatype revoke_outcome = Revoked | Unchanged | RevokeDenied | SessionNotFound

record revoke_result =
  rv_outcome :: revoke_outcome
  rv_targetWasCurrent :: bool
  rv_targetConsoleRole :: "console_role option"

definition revoke_outcome_of :: "string \<Rightarrow> revoke_outcome option" where
  "revoke_outcome_of s = map_of
     [(''revoked'', Revoked), (''unchanged'', Unchanged), (''denied'', RevokeDenied), (''not_found'', SessionNotFound)] s"

definition parse_revoke_result :: "jsval \<Rightarrow> revoke_result option" where
  "parse_revoke_result rows =
     (case rows of
        Arr [row] \<Rightarrow>
          if \<not> is_record row then None
          else do {
            outcome \<leftarrow> Option.bind (as_string (get_prop row ''outcome'')) revoke_outcome_of;
            wasCurrent \<leftarrow> as_bool (get_prop row ''target_was_current'');
            role \<leftarrow> nullable role_value (get_prop row ''target_console_role'');
            Some \<lparr> rv_outcome = outcome, rv_targetWasCurrent = wasCurrent, rv_targetConsoleRole = role \<rparr>
          }
      | _ \<Rightarrow> None)"

definition revoke_call :: "(string \<Rightarrow> string) \<Rightarrow> string \<Rightarrow> string \<Rightarrow> string \<Rightarrow> security_call" where
  "revoke_call hash requestId actorToken targetId =
     (''revoke_discord_console_session_by_id'',
      [(''p_request_id'', Str requestId), (''p_actor_session_token_hash'', Str (hash actorToken)),
       (''p_target_session_id'', Str targetId)])"

definition revokeDiscordConsoleSessionById ::
  "session_rpc \<Rightarrow> (string \<Rightarrow> string) \<Rightarrow> string \<Rightarrow> string \<Rightarrow> string \<Rightarrow> revoke_result option \<times> security_call list" where
  "revokeDiscordConsoleSessionById rpc hash requestId actorToken targetId =
     (if \<not> UUID_PATTERN requestId \<or> \<not> UUID_PATTERN targetId then (None, [])
      else (let call = revoke_call hash requestId actorToken targetId
            in (Option.bind (rpc (fst call) (snd call)) parse_revoke_result, [call])))"

section \<open>Security events\<close>

datatype event_target = DiscordUserTarget | DiscordSessionTarget

datatype event_severity = InfoEvent | LowEvent | MediumEvent

record security_event =
  se_eventId :: string
  se_occurredAt :: string
  se_requestId :: string
  se_actorRole :: "console_role option"
  se_action :: audit_action
  se_target :: event_target
  se_result :: audit_result
  se_severity :: event_severity
  se_auditId :: int

definition projectDiscordAuthAuditEvent :: "audit_row \<Rightarrow> security_event" where
  "projectDiscordAuthAuditEvent row =
     \<lparr> se_eventId = ''discord-auth-audit:'' @ int_text (al_auditId row), se_occurredAt = al_occurredAt row,
       se_requestId = al_requestId row, se_actorRole = al_actorRole row, se_action = al_action row,
       se_target = (if starts_with ''DISCORD_SESSION_'' (action_name (al_action row)) then DiscordSessionTarget
         else DiscordUserTarget),
       se_result = al_result row,
       se_severity = (if al_action row = LoginDenied then MediumEvent
         else if al_action row = SessionAdminRevoked then LowEvent else InfoEvent),
       se_auditId = al_auditId row \<rparr>"

section \<open>Handlers\<close>

record security_services =
  ss_env :: environment
  ss_rpc :: session_rpc
  ss_hash :: "string \<Rightarrow> string"
  ss_fetch :: "string \<Rightarrow> jsval option"

record security_request =
  sq_header :: reader
  sq_cookie :: reader
  sq_query :: reader
  sq_origin :: string  \<comment> \<open>\<open>request.nextUrl.origin\<close>\<close>
  sq_json :: "jsval option"  \<comment> \<open>the body read as JSON\<close>
  sq_form :: reader  \<comment> \<open>the text of the first entry of a name, if the body is a form\<close>

definition session_of :: "security_services \<Rightarrow> security_request \<Rightarrow> console_session" where
  "session_of s r =
     getConsoleSession (ss_env s) (ss_rpc s) (ss_hash s) (ss_fetch s) (sq_header r) (sq_cookie r)"

definition actor_token :: "security_request \<Rightarrow> string option" where
  "actor_token r = nonempty (sq_cookie r DISCORD_SESSION_COOKIE)"

datatype 'a security_reply = SecurityError nat string | SecurityOk 'a

definition with_administrator ::
  "security_services \<Rightarrow> security_request \<Rightarrow> (string \<Rightarrow> 'a security_reply \<times> security_call list) \<Rightarrow>
   'a security_reply \<times> security_call list" where
  \<comment> \<open>the beginning of the three lists\<close>
  "with_administrator s r body =
     (if \<not> hasConsoleRole (session_of s r) Administrator
      then (SecurityError 403 ''administrator_role_required'', [])
      else (case actor_token r of
              None \<Rightarrow> (SecurityError 401 ''discord_session_required'', [])
            | Some actorToken \<Rightarrow> body actorToken))"

definition next_cursor :: "('a \<Rightarrow> 'c) \<Rightarrow> 'a list \<Rightarrow> 'c option" where
  "next_cursor cursor rows = (if length rows = 50 then map_option cursor (js_last rows) else None)"

definition sessions_get ::
  "security_services \<Rightarrow> security_request \<Rightarrow>
   (session_admin_row list \<times> (string \<times> string) option) security_reply \<times> security_call list" where
  "sessions_get s r = with_administrator s r (\<lambda>actorToken.
     let status = parseDiscordSessionStatus (sq_query r ''status'');
         beforeCreatedAt = parseCursorDate (sq_query r ''beforeCreatedAt'');
         beforeId = parseUuid (sq_query r ''beforeId'')
     in if (beforeCreatedAt = None) \<noteq> (beforeId = None) then (SecurityError 400 ''cursor_invalid'', [])
        else (case listDiscordConsoleSessions (ss_rpc s) (ss_hash s) actorToken status 50 beforeCreatedAt beforeId of
                (None, calls) \<Rightarrow> (SecurityError 503 ''discord_session_list_failed'', calls)
              | (Some rows, calls) \<Rightarrow>
                  (SecurityOk (rows, next_cursor (\<lambda>row. (sa_createdAt row, sa_sessionId row)) rows), calls)))"

definition audit_get ::
  "security_services \<Rightarrow> security_request \<Rightarrow>
   (audit_row list \<times> (string \<times> int) option) security_reply \<times> security_call list" where
  "audit_get s r = with_administrator s r (\<lambda>actorToken.
     let actionRaw = nonempty (sq_query r ''action'');
         resultRaw = nonempty (sq_query r ''result'');
         action = parseDiscordAuditAction actionRaw;
         result = parseAuditResult resultRaw;
         beforeOccurredAt = parseCursorDate (sq_query r ''beforeOccurredAt'');
         beforeId = parsePositiveInteger (sq_query r ''beforeId'')
     in if actionRaw \<noteq> None \<and> action = None then (SecurityError 400 ''action_filter_invalid'', [])
        else if resultRaw \<noteq> None \<and> result = None then (SecurityError 400 ''result_filter_invalid'', [])
        else if (beforeOccurredAt = None) \<noteq> (beforeId = None) then (SecurityError 400 ''cursor_invalid'', [])
        else (case listDiscordAuthAuditLogs (ss_rpc s) (ss_hash s) actorToken action result 50 beforeOccurredAt beforeId of
                (None, calls) \<Rightarrow> (SecurityError 503 ''discord_auth_audit_list_failed'', calls)
              | (Some rows, calls) \<Rightarrow>
                  (SecurityOk (rows, next_cursor (\<lambda>row. (al_occurredAt row, al_auditId row)) rows), calls)))"

definition events_page ::
  "security_services \<Rightarrow> string \<Rightarrow> string option \<Rightarrow> int option \<Rightarrow>
   (security_event list \<times> (string \<times> int) option) security_reply \<times> security_call list" where
  "events_page s actorToken beforeOccurredAt beforeId =
     (case listDiscordAuthAuditLogs (ss_rpc s) (ss_hash s) actorToken None None 50 beforeOccurredAt beforeId of
        (None, calls) \<Rightarrow> (SecurityError 503 ''security_events_unavailable'', calls)
      | (Some rows, calls) \<Rightarrow>
          (SecurityOk (map projectDiscordAuthAuditEvent rows,
             next_cursor (\<lambda>row. (al_occurredAt row, al_auditId row)) rows), calls))"

definition events_get ::
  "security_services \<Rightarrow> security_request \<Rightarrow>
   (security_event list \<times> (string \<times> int) option) security_reply \<times> security_call list" where
  "events_get s r = with_administrator s r (\<lambda>actorToken.
     let occurredAtRaw = sq_query r ''beforeOccurredAt'';
         idRaw = sq_query r ''beforeId'';
         beforeId = parsePositiveInteger idRaw;
         beforeOccurredAt = parseCursorDate occurredAtRaw
     in if (occurredAtRaw \<noteq> None \<and> beforeOccurredAt = None) \<or> (idRaw \<noteq> None \<and> beforeId = None) \<or>
           (beforeOccurredAt = None) \<noteq> (beforeId = None)
        then (SecurityError 400 ''cursor_invalid'', [])
        else events_page s actorToken beforeOccurredAt beforeId)"

definition readConfirmation :: "security_request \<Rightarrow> string option" where
  "readConfirmation r =
     (let contentType = (case sq_header r ''content-type'' of None \<Rightarrow> [] | Some c \<Rightarrow> to_lower c)
      in if str_includes ''application/json'' contentType
         then (case sq_json r of
                 Some (Obj entries) \<Rightarrow> as_string (prop_or entries ''confirmation'')
               | _ \<Rightarrow> None)
         else sq_form r ''confirmation'')"

definition asks_json :: "security_request \<Rightarrow> bool" where
  "asks_json r \<longleftrightarrow> (case sq_header r ''accept'' of None \<Rightarrow> False | Some a \<Rightarrow> str_includes ''application/json'' a)"

datatype revoke_reply =
    RevokeError nat string
  | RevokeJson revoke_outcome bool bool  \<comment> \<open>the last argument: the session cookie is cleared\<close>
  | ToLogin  \<comment> \<open>redirected to the sign-in page, and the session cookie is cleared\<close>
  | ToSessions revoke_outcome

definition clears_cookie :: "revoke_reply \<Rightarrow> bool" where
  "clears_cookie reply \<longleftrightarrow> reply = ToLogin \<or> (\<exists>outcome current. reply = RevokeJson outcome current True)"

definition revoke_answer :: "security_request \<Rightarrow> revoke_result option \<Rightarrow> revoke_reply" where
  "revoke_answer r result =
     (case result of
        None \<Rightarrow> RevokeError 503 ''discord_session_revoke_failed''
      | Some v \<Rightarrow>
          if rv_outcome v = RevokeDenied then RevokeError 403 ''owner_session_protected''
          else if rv_outcome v = SessionNotFound then RevokeError 404 ''session_not_found''
          else if asks_json r then RevokeJson (rv_outcome v) (rv_targetWasCurrent v) (rv_targetWasCurrent v)
          else if rv_targetWasCurrent v then ToLogin
          else ToSessions (rv_outcome v))"

definition revoke_post ::
  "security_services \<Rightarrow> string \<Rightarrow> security_request \<Rightarrow> string \<Rightarrow> revoke_reply \<times> security_call list" where
  \<comment> \<open>\<open>targetId\<close> is the identifier in the path, \<open>requestId\<close> is \<open>randomUUID()\<close>\<close>
  "revoke_post s targetId r requestId =
     (if nonempty (sq_header r ''origin'') \<noteq> Some (sq_origin r) then (RevokeError 403 ''origin_mismatch'', [])
      else if \<not> hasConsoleRole (session_of s r) Administrator
      then (RevokeError 403 ''administrator_role_required'', [])
      else (case parseUuid (Some targetId) of
              None \<Rightarrow> (RevokeError 400 ''session_id_invalid'', [])
            | Some targetSessionId \<Rightarrow>
                if readConfirmation r \<noteq> Some ''REVOKE'' then (RevokeError 400 ''confirmation_required'', [])
                else (case actor_token r of
                        None \<Rightarrow> (RevokeError 401 ''discord_session_required'', [])
                      | Some actorToken \<Rightarrow>
                          (case revokeDiscordConsoleSessionById (ss_rpc s) (ss_hash s) requestId actorToken targetSessionId of
                             (result, calls) \<Rightarrow> (revoke_answer r result, calls)))))"

record session_view =
  sw_authProvider :: auth_provider
  sw_status :: session_status
  sw_role :: "console_role option"
  sw_displayName :: "string option"
  sw_email :: "string option"
  sw_discordMode :: discord_auth_mode
  sw_discordUserId :: "string option"
  sw_discordUsername :: "string option"
  sw_discordAvatarUrl :: "string option"
  sw_matchedRoleCount :: nat
  sw_sessionExpiresAt :: "string option"
  sw_accessMode :: access_mode
  sw_accessState :: access_state

definition auth_session_get :: "security_services \<Rightarrow> security_request \<Rightarrow> session_view" where
  "auth_session_get s r =
     (let session = session_of s r
      in \<lparr> sw_authProvider = cs_authProvider session, sw_status = cs_status session, sw_role = cs_role session,
           sw_displayName = cs_displayName session, sw_email = cs_email session,
           sw_discordMode = cs_discordMode session, sw_discordUserId = cs_discordUserId session,
           sw_discordUsername = cs_discordUsername session, sw_discordAvatarUrl = cs_discordAvatarUrl session,
           sw_matchedRoleCount = length (cs_matchedDiscordRoleIds session),
           sw_sessionExpiresAt = cs_sessionExpiresAt session, sw_accessMode = cs_mode session,
           sw_accessState = cs_accessState session \<rparr>)"

section \<open>What the lists call\<close>

lemma hasConsoleRole_AdministratorD:
  "hasConsoleRole session Administrator \<Longrightarrow>
     cs_status session = Authenticated \<and> (\<exists>role. cs_role session = Some role \<and> role \<in> {Administrator, Owner})"
  by (cases "cs_role session")
    (auto simp: hasConsoleRole_def role_rank_def split: console_role.splits)

text \<open>The contract of the three lists: one database function is called, in the name of the signed-in
  administrator, and only its answer becomes data of the reply.\<close>

locale administrator_list =
  fixes route :: "security_services \<Rightarrow> security_request \<Rightarrow> 'a security_reply \<times> security_call list"
    and list_name :: string
  assumes called: "call \<in> set (snd (route s r)) \<Longrightarrow>
      hasConsoleRole (session_of s r) Administrator \<and> snd (route s r) = [call] \<and> fst call = list_name \<and>
      (\<exists>actorToken. actor_token r = Some actorToken \<and>
         map_of (snd call) ''p_actor_session_token_hash'' = Some (Str (ss_hash s actorToken)) \<and>
         map_of (snd call) ''p_limit'' = Some (jint 50))"
    and data_is_answered: "fst (route s r) = SecurityOk a \<Longrightarrow>
      \<exists>call \<in> set (snd (route s r)). ss_rpc s (fst call) (snd call) \<noteq> None"
begin

lemma data_for_administrators:
  assumes "fst (route s r) = SecurityOk a"
  shows "\<exists>role. cs_status (session_of s r) = Authenticated \<and> cs_role (session_of s r) = Some role \<and>
    role \<in> {Administrator, Owner}"
  using data_is_answered [OF assms] called hasConsoleRole_AdministratorD by blast

lemma others_call_nothing:
  assumes "\<not> hasConsoleRole (session_of s r) Administrator"
  shows "snd (route s r) = [] \<and> (\<exists>status err. fst (route s r) = SecurityError status err)"
proof -
  have none: "snd (route s r) = []"
  proof (rule ccontr)
    assume "snd (route s r) \<noteq> []"
    then obtain call where "call \<in> set (snd (route s r))" by (meson last_in_set)
    from called [OF this] assms show False by blast
  qed
  show ?thesis
  proof (cases "fst (route s r)")
    case (SecurityOk a)
    from data_is_answered [OF this] none show ?thesis by simp
  qed (use none in simp)
qed

lemma unanswered_is_an_error:
  assumes "\<And>args. ss_rpc s list_name args = None"
  shows "\<exists>status err. fst (route s r) = SecurityError status err"
proof (cases "fst (route s r)")
  case (SecurityOk a)
  from data_is_answered [OF this] obtain call where "call \<in> set (snd (route s r))"
    "ss_rpc s (fst call) (snd call) \<noteq> None" by blast
  with called [OF this(1)] assms show ?thesis by (metis option.distinct(1))
qed auto

end

lemma page_limit_50 [simp]: "page_limit 50 = 50"
  by (simp add: page_limit_def)

lemma valid_rows_None [simp]: "valid_rows parse None = None"
  by (simp add: valid_rows_def)

lemma early_error [simp]:
  "call \<in> set (snd (if b then (SecurityError status err, []) else x)) \<longleftrightarrow> \<not> b \<and> call \<in> set (snd x)"
  "fst (if b then (SecurityError status err, []) else x) = SecurityOk a \<longleftrightarrow> \<not> b \<and> fst x = SecurityOk a"
  by auto

lemma with_administrator_called:
  assumes "call \<in> set (snd (with_administrator s r body))"
  obtains actorToken where "hasConsoleRole (session_of s r) Administrator" "actor_token r = Some actorToken"
    "with_administrator s r body = body actorToken" "call \<in> set (snd (body actorToken))"
  using assms by (auto simp: with_administrator_def split: if_splits option.splits)

lemma with_administrator_ok:
  assumes "fst (with_administrator s r body) = SecurityOk a"
  obtains actorToken where "with_administrator s r body = body actorToken" "fst (body actorToken) = SecurityOk a"
  using assms by (auto simp: with_administrator_def split: if_splits option.splits)

lemmas list_calls = events_page_def listDiscordConsoleSessions_def session_list_call_def
  listDiscordAuthAuditLogs_def audit_list_call_def Let_def

interpretation sessions_list: administrator_list sessions_get "''list_discord_console_sessions''"
proof
  fix call s r
  assume "call \<in> set (snd (sessions_get s r))"
  then show "hasConsoleRole (session_of s r) Administrator \<and> snd (sessions_get s r) = [call] \<and>
      fst call = ''list_discord_console_sessions'' \<and>
      (\<exists>actorToken. actor_token r = Some actorToken \<and>
         map_of (snd call) ''p_actor_session_token_hash'' = Some (Str (ss_hash s actorToken)) \<and>
         map_of (snd call) ''p_limit'' = Some (jint 50))"
    unfolding sessions_get_def by (rule with_administrator_called) (auto simp: list_calls split: option.splits)
next
  fix s r a
  assume "fst (sessions_get s r) = SecurityOk a"
  then show "\<exists>call \<in> set (snd (sessions_get s r)). ss_rpc s (fst call) (snd call) \<noteq> None"
    unfolding sessions_get_def by (rule with_administrator_ok) (auto simp: list_calls valid_rows_def bind_eq_Some_conv split: option.splits)
qed

interpretation audit_list: administrator_list audit_get "''list_discord_auth_audit_logs''"
proof
  fix call s r
  assume "call \<in> set (snd (audit_get s r))"
  then show "hasConsoleRole (session_of s r) Administrator \<and> snd (audit_get s r) = [call] \<and>
      fst call = ''list_discord_auth_audit_logs'' \<and>
      (\<exists>actorToken. actor_token r = Some actorToken \<and>
         map_of (snd call) ''p_actor_session_token_hash'' = Some (Str (ss_hash s actorToken)) \<and>
         map_of (snd call) ''p_limit'' = Some (jint 50))"
    unfolding audit_get_def by (rule with_administrator_called) (auto simp: list_calls split: option.splits)
next
  fix s r a
  assume "fst (audit_get s r) = SecurityOk a"
  then show "\<exists>call \<in> set (snd (audit_get s r)). ss_rpc s (fst call) (snd call) \<noteq> None"
    unfolding audit_get_def by (rule with_administrator_ok) (auto simp: list_calls valid_rows_def bind_eq_Some_conv split: option.splits)
qed

interpretation events_list: administrator_list events_get "''list_discord_auth_audit_logs''"
proof
  fix call s r
  assume "call \<in> set (snd (events_get s r))"
  then show "hasConsoleRole (session_of s r) Administrator \<and> snd (events_get s r) = [call] \<and>
      fst call = ''list_discord_auth_audit_logs'' \<and>
      (\<exists>actorToken. actor_token r = Some actorToken \<and>
         map_of (snd call) ''p_actor_session_token_hash'' = Some (Str (ss_hash s actorToken)) \<and>
         map_of (snd call) ''p_limit'' = Some (jint 50))"
    unfolding events_get_def by (rule with_administrator_called) (auto simp: list_calls split: option.splits)
next
  fix s r a
  assume "fst (events_get s r) = SecurityOk a"
  then show "\<exists>call \<in> set (snd (events_get s r)). ss_rpc s (fst call) (snd call) \<noteq> None"
    unfolding events_get_def by (rule with_administrator_ok) (auto simp: list_calls valid_rows_def bind_eq_Some_conv split: option.splits)
qed

section \<open>Paging\<close>

lemma map_filter_length_less:
  "v \<in> set vs \<Longrightarrow> parse v = None \<Longrightarrow> length (List.map_filter parse vs) < length vs"
  by (simp add: map_filter_def length_filter_less)

text \<open>A row that does not parse is left out before the length of the page is looked at: a full page with
  one such row has no next cursor, and the rows after it cannot be reached.\<close>

lemma malformed_row_ends_paging:
  assumes "valid_rows parse (Some (Arr vs)) = Some rows" "length vs = 50" "v \<in> set vs" "parse v = None"
  shows "next_cursor cursor rows = None"
proof -
  from assms(1) have "rows = List.map_filter parse vs" by (simp add: valid_rows_def)
  with map_filter_length_less [of v vs parse] assms show ?thesis by (simp add: next_cursor_def)
qed

lemma full_page_has_cursor:
  "length rows = 50 \<Longrightarrow> next_cursor cursor rows = Some (cursor (last rows))"
  by (auto simp: next_cursor_def js_last_def)

section \<open>What an event shows\<close>

definition visible :: "audit_row \<Rightarrow> audit_row" where
  \<comment> \<open>the row without what an event must not show\<close>
  "visible row = row \<lparr> al_targetId := None, al_discordUserId := None, al_reason := None,
     al_providerError := None, al_consoleRole := None \<rparr>"

lemma project_visible: "projectDiscordAuthAuditEvent (visible row) = projectDiscordAuthAuditEvent row"
  by (simp add: projectDiscordAuthAuditEvent_def visible_def)

lemma same_visible_project:
  "map visible rows = map visible rows' \<Longrightarrow>
     map projectDiscordAuthAuditEvent rows = map projectDiscordAuthAuditEvent rows'"
  by (induction rows rows' rule: list_induct2') (auto, metis project_visible)

lemma same_visible_cursor:
  assumes "map visible rows = map visible rows'"
  shows "next_cursor (\<lambda>row. (al_occurredAt row, al_auditId row)) rows =
    next_cursor (\<lambda>row. (al_occurredAt row, al_auditId row)) rows'"
proof -
  have same: "length rows = length rows'" using assms by (rule map_eq_imp_length_eq)
  have keys: "al_occurredAt (visible row) = al_occurredAt row" "al_auditId (visible row) = al_auditId row" for row
    by (simp_all add: visible_def)
  show ?thesis
  proof (cases "rows = []")
    case False
    with same have "rows' \<noteq> []" by auto
    with False assms have "visible (last rows) = visible (last rows')" by (metis last_map)
    with same False \<open>rows' \<noteq> []\<close> show ?thesis
      by (simp add: next_cursor_def js_last_def) (metis keys)
  qed (use same in simp)
qed

definition listed_rows :: "session_rpc \<Rightarrow> (string \<times> jsval) list \<Rightarrow> audit_row list option" where
  "listed_rows rpc args = valid_rows parseAuditRow (rpc ''list_discord_auth_audit_logs'' args)"

lemma session_of_agrees:
  assumes "\<And>name args. name \<noteq> ''list_discord_auth_audit_logs'' \<Longrightarrow> rpc name args = rpc' name args"
  shows "session_of (s \<lparr> ss_rpc := rpc \<rparr>) r = session_of (s \<lparr> ss_rpc := rpc' \<rparr>) r"
proof -
  have same: "resolveDiscordConsoleSession rpc = resolveDiscordConsoleSession rpc'"
    using assms [of "''resolve_discord_console_session''"] by (auto simp: resolveDiscordConsoleSession_def fun_eq_iff)
  have "getConsoleSession env rpc = getConsoleSession env rpc'" for env
    unfolding getConsoleSession_def same ..
  then show ?thesis by (simp add: session_of_def)
qed

lemma events_page_agrees:
  assumes "\<And>args. map_option (map visible) (listed_rows rpc args) = map_option (map visible) (listed_rows rpc' args)"
  shows "events_page (s \<lparr> ss_rpc := rpc \<rparr>) actorToken d n = events_page (s \<lparr> ss_rpc := rpc' \<rparr>) actorToken d n"
proof -
  let ?args = "snd (audit_list_call (ss_hash s) actorToken None None 50 d n)"
  have page: "events_page (s \<lparr> ss_rpc := q \<rparr>) actorToken d n =
      (case listed_rows q ?args of
         None \<Rightarrow> (SecurityError 503 ''security_events_unavailable'', [audit_list_call (ss_hash s) actorToken None None 50 d n])
       | Some rows \<Rightarrow> (SecurityOk (map projectDiscordAuthAuditEvent rows,
           next_cursor (\<lambda>row. (al_occurredAt row, al_auditId row)) rows),
           [audit_list_call (ss_hash s) actorToken None None 50 d n]))" for q
    by (simp add: events_page_def listDiscordAuthAuditLogs_def listed_rows_def audit_list_call_def Let_def
        split: option.splits)
  show ?thesis
  proof (cases "listed_rows rpc ?args")
    case None
    with assms [of ?args] show ?thesis by (simp add: page)
  next
    case (Some rows)
    with assms [of ?args] obtain rows' where rows': "listed_rows rpc' ?args = Some rows'"
      "map visible rows = map visible rows'" by (cases "listed_rows rpc' ?args") auto
    with Some same_visible_project [OF rows'(2)] same_visible_cursor [OF rows'(2)] show ?thesis by (simp add: page)
  qed
qed

text \<open>C30. The security events show nothing of an audit row but its identifiers, action, result, actor role and
  time: two databases that answer alike but for the target, the Discord user, the reason, the provider error and
  the resolved role of the audit rows give the same reply.\<close>

theorem security_events_hide_identities:
  assumes "\<And>name args. name \<noteq> ''list_discord_auth_audit_logs'' \<Longrightarrow> rpc name args = rpc' name args"
    and "\<And>args. map_option (map visible) (listed_rows rpc args) = map_option (map visible) (listed_rows rpc' args)"
  shows "events_get (s \<lparr> ss_rpc := rpc \<rparr>) r = events_get (s \<lparr> ss_rpc := rpc' \<rparr>) r"
proof -
  have page: "events_page (s \<lparr> ss_rpc := rpc \<rparr>) = events_page (s \<lparr> ss_rpc := rpc' \<rparr>)"
    by (intro ext events_page_agrees assms(2))
  have session: "session_of (s \<lparr> ss_rpc := rpc \<rparr>) r = session_of (s \<lparr> ss_rpc := rpc' \<rparr>) r"
    by (rule session_of_agrees) (rule assms(1))
  show ?thesis
    unfolding events_get_def with_administrator_def page session ..
qed

section \<open>Revoking a session\<close>

lemma clears_cookie_simps [simp]:
  "clears_cookie ToLogin" "\<not> clears_cookie (RevokeError status err)" "\<not> clears_cookie (ToSessions outcome)"
  "clears_cookie (RevokeJson outcome current cleared) \<longleftrightarrow> cleared"
  by (auto simp: clears_cookie_def)

lemma revoke_answer_clears:
  "clears_cookie (revoke_answer r result) \<longleftrightarrow>
     (\<exists>v. result = Some v \<and> rv_outcome v \<in> {Revoked, Unchanged} \<and> rv_targetWasCurrent v)"
  by (cases "rv_outcome (the result)") (auto simp: revoke_answer_def split: option.splits)

text \<open>C9. A session is only revoked for an authenticated administrator or owner, from the console's own origin, with
  a well-formed identifier and the confirmation word; the one database call carries the hash of the
  session cookie of the request. The cookie is cleared exactly when the database says that the session
  revoked, now or before, was the one of the request.\<close>

theorem session_revocation_is_authorised:
  assumes "call \<in> set (snd (revoke_post s targetId r requestId))"
  shows "\<exists>role actorToken.
    nonempty (sq_header r ''origin'') = Some (sq_origin r) \<and>
    cs_status (session_of s r) = Authenticated \<and> cs_role (session_of s r) = Some role \<and>
    role \<in> {Administrator, Owner} \<and>
    UUID_PATTERN targetId \<and> readConfirmation r = Some ''REVOKE'' \<and> actor_token r = Some actorToken \<and>
    snd (revoke_post s targetId r requestId) = [call] \<and>
    call = revoke_call (ss_hash s) requestId actorToken targetId \<and>
    (clears_cookie (fst (revoke_post s targetId r requestId)) \<longleftrightarrow>
       (\<exists>v. Option.bind (ss_rpc s (fst call) (snd call)) parse_revoke_result = Some v \<and>
          rv_outcome v \<in> {Revoked, Unchanged} \<and> rv_targetWasCurrent v))"
proof -
  from assms obtain actorToken where
    g: "nonempty (sq_header r ''origin'') = Some (sq_origin r)" "hasConsoleRole (session_of s r) Administrator"
      "UUID_PATTERN targetId" "readConfirmation r = Some ''REVOKE''" "actor_token r = Some actorToken"
      "UUID_PATTERN requestId"
    by (auto simp: revoke_post_def parseUuid_def revokeDiscordConsoleSessionById_def Let_def split: if_splits option.splits)
  let ?call = "revoke_call (ss_hash s) requestId actorToken targetId"
  from g have post: "revoke_post s targetId r requestId =
      (revoke_answer r (Option.bind (ss_rpc s (fst ?call) (snd ?call)) parse_revoke_result), [?call])"
    by (simp add: revoke_post_def parseUuid_def revokeDiscordConsoleSessionById_def Let_def)
  with assms have "call = ?call" by simp
  with post hasConsoleRole_AdministratorD [OF g(2)] g show ?thesis
    by (auto simp: revoke_answer_clears)
qed

section \<open>A session that is revoked\<close>

definition sample_security_rpc :: "string option \<Rightarrow> session_rpc" where
  \<comment> \<open>a database that knows one administrator, and answers with one audit row about a user\<close>
  "sample_security_rpc userId name args =
     (if name = ''resolve_discord_console_session''
      then Some (Arr [Obj [(''session_id'', Str ''s''), (''discord_user_id'', Str ''123456789012345678''),
        (''discord_username'', Str ''admin''), (''discord_global_name'', Null), (''discord_avatar_hash'', Null),
        (''guild_id'', Str ''223456789012345678''), (''matched_role_ids'', Arr []),
        (''console_role'', Str ''administrator''), (''created_at'', Str ''2026-01-01T00:00:00Z''),
        (''expires_at'', Str ''2026-01-02T00:00:00Z'')]])
      else if name = ''revoke_discord_console_session_by_id''
      then Some (Arr [Obj [(''outcome'', Str ''revoked''), (''target_was_current'', Bool True),
        (''target_console_role'', Null)]])
      else if name \<noteq> ''list_discord_auth_audit_logs'' then None
      else Some (Arr [Obj [(''audit_id'', jint 7), (''request_id'', Str ''00000000-0000-4000-8000-000000000000''),
        (''action'', Str ''DISCORD_LOGIN_DENIED''), (''result'', Str ''denied''), (''actor_role'', Null),
        (''target_id'', or_null userId), (''discord_user_id'', or_null userId), (''reason'', Null),
        (''provider_error'', Null), (''console_role'', Null), (''occurred_at'', Str ''2026-01-01T00:00:00Z'')]]))"

definition sample_security :: security_services where
  "sample_security = \<lparr> ss_env = map_of [(''IVRM_DISCORD_AUTH_MODE'', ''enforce'')], ss_rpc = sample_security_rpc None,
     ss_hash = (\<lambda>t. t), ss_fetch = (\<lambda>_. None) \<rparr>"

definition sample_revocation :: security_request where
  "sample_revocation = \<lparr> sq_header = map_of [(''origin'', ''https://ivrm.jp'')],
     sq_cookie = map_of [(DISCORD_SESSION_COOKIE, ''0123456789012345678901234567890123456789'')],
     sq_query = Map.empty, sq_origin = ''https://ivrm.jp'', sq_json = None,
     sq_form = map_of [(''confirmation'', ''REVOKE'')] \<rparr>"

lemma sample_security_session:
  "hasConsoleRole (session_of sample_security sample_revocation) Administrator"
proof -
  have mode: "safeDiscordMode (ss_env sample_security) = DiscordEnforce"
    by (simp add: sample_security_def safeDiscordMode_def getDiscordAuthMode_def js_eval)
  obtain row where row: "resolveDiscordConsoleSession (ss_rpc sample_security) (ss_hash sample_security)
      ''0123456789012345678901234567890123456789'' = Some (Some row)" "ds_consoleRole row = Administrator"
    by (simp add: resolveDiscordConsoleSession_def token_length_ok_def sample_security_def sample_security_rpc_def
        parseSessionRow_def prop_or_def nullable_string_def nullable_def isConsoleRole_def)
  show ?thesis
    using mode row by (simp add: session_of_def getConsoleSession_def sample_revocation_def nonempty_def
        discord_session_def hasConsoleRole_def role_rank_def)
qed

theorem session_revocation_is_authorised_witness:
  "\<exists>call. snd (revoke_post sample_security ''00000000-0000-4000-8000-000000000000'' sample_revocation
      ''00000000-0000-4000-8000-000000000001'') = [call] \<and> readConfirmation sample_revocation = Some ''REVOKE'' \<and>
    clears_cookie (fst (revoke_post sample_security ''00000000-0000-4000-8000-000000000000'' sample_revocation
      ''00000000-0000-4000-8000-000000000001''))"
proof -
  let ?post = "revoke_post sample_security ''00000000-0000-4000-8000-000000000000'' sample_revocation
      ''00000000-0000-4000-8000-000000000001''"
  let ?call = "revoke_call (ss_hash sample_security) ''00000000-0000-4000-8000-000000000001''
    ''0123456789012345678901234567890123456789'' ''00000000-0000-4000-8000-000000000000''"
  have uuid: "UUID_PATTERN ''00000000-0000-4000-8000-000000000000''" "UUID_PATTERN ''00000000-0000-4000-8000-000000000001''"
    by (simp_all add: js_eval)
  have confirmed: "readConfirmation sample_revocation = Some ''REVOKE''"
    by (simp add: readConfirmation_def sample_revocation_def)
  have token: "actor_token sample_revocation = Some ''0123456789012345678901234567890123456789''"
    by (simp add: actor_token_def sample_revocation_def nonempty_def)
  have origin: "nonempty (sq_header sample_revocation ''origin'') = Some (sq_origin sample_revocation)"
    by (simp add: sample_revocation_def nonempty_def)
  have called: "?call \<in> set (snd ?post)"
    by (simp add: revoke_post_def origin sample_security_session parseUuid_def uuid confirmed token
        revokeDiscordConsoleSessionById_def Let_def)
  have result: "Option.bind (ss_rpc sample_security (fst ?call) (snd ?call)) parse_revoke_result =
      Some \<lparr> rv_outcome = Revoked, rv_targetWasCurrent = True, rv_targetConsoleRole = None \<rparr>"
    by (simp add: revoke_call_def sample_security_def sample_security_rpc_def parse_revoke_result_def
        revoke_outcome_of_def prop_or_def nullable_def)
  from session_revocation_is_authorised [OF called] result show ?thesis by auto
qed

theorem security_events_hide_identities_witness:
  "events_get (sample_security \<lparr> ss_rpc := sample_security_rpc None \<rparr>) sample_revocation =
     events_get (sample_security \<lparr> ss_rpc := sample_security_rpc (Some ''123456789012345678'') \<rparr>) sample_revocation"
proof (rule security_events_hide_identities)
  fix args
  show "map_option (map visible) (listed_rows (sample_security_rpc None) args) =
      map_option (map visible) (listed_rows (sample_security_rpc (Some ''123456789012345678'')) args)"
    by (simp add: listed_rows_def valid_rows_def sample_security_rpc_def map_filter_def parseAuditRow_def prop_or_def
        text_where_def nullable_string_def nullable_def or_null_def action_of_def result_of_def AUDIT_ACTIONS_def
        AUDIT_RESULTS_def action_name_def result_name_def visible_def parseProviderError_def sample_instants js_eval
        del: Date_parse_def)
qed (simp add: sample_security_rpc_def)

end
