(* ===== verification/SecurityPages.thy ===== *)
theory SecurityPages
  imports SecurityAdmin AuthRoutes ConsoleUi
begin

text \<open>
  The security pages: the list of sessions (\<open>app/security/sessions/page.tsx\<close>), the audit of sign-ins
  (\<open>app/security/audit/page.tsx\<close>) and the page of the own session (\<open>app/security/page.tsx\<close>), with the links by
  which the lists are paged. A link is followed by the decoder of a form-encoded query, which is defined here.
  Japanese texts, dates and markup are left out.
\<close>

section \<open>Following a link\<close>

fun form_bytes :: "string \<Rightarrow> nat list" where
  \<comment> \<open>the bytes that a form-encoded text stands for\<close>
  "form_bytes [] = []"
| "form_bytes (c # cs) =
     (if c = CHR ''+'' then 32 # form_bytes cs
      else if c = CHR ''%'' then
        (case cs of
           a # b # r \<Rightarrow>
             if is_hex_any a \<and> is_hex_any b then (16 * hex_val a + hex_val b) # form_bytes r
             else code c # form_bytes cs
         | _ \<Rightarrow> code c # form_bytes cs)
      else (if code c < 128 then [code c] else [192 + code c div 64, 128 + code c mod 64]) @ form_bytes cs)"

fun utf8_text :: "nat list \<Rightarrow> string" where
  \<comment> \<open>UTF-8, with a question mark for what is no code unit below 256\<close>
  "utf8_text [] = []"
| "utf8_text (b # bs) =
     (if b < 128 then char_of b # utf8_text bs
      else if b = 194 \<or> b = 195 then
        (case bs of
           d # r \<Rightarrow> if 128 \<le> d \<and> d < 192 then char_of (64 * (b - 192) + (d - 128)) # utf8_text r
             else CHR ''?'' # utf8_text bs
         | [] \<Rightarrow> [CHR ''?''])
      else CHR ''?'' # utf8_text bs)"

definition form_decode :: "string \<Rightarrow> string" where
  "form_decode s = utf8_text (form_bytes s)"

definition parse_pair :: "string \<Rightarrow> string \<times> string" where
  "parse_pair part =
     (form_decode (takeWhile (\<lambda>c. c \<noteq> CHR ''='') part), form_decode (tl (dropWhile (\<lambda>c. c \<noteq> CHR ''='') part)))"

definition parse_query :: "string \<Rightarrow> (string \<times> string) list" where
  "parse_query s = map parse_pair (filter (\<lambda>part. part \<noteq> []) (split_on CHR ''&'' s))"

definition link_params :: "string \<Rightarrow> string \<Rightarrow> query_param" where
  \<comment> \<open>the parameters of a link that has a query and no fragment\<close>
  "link_params href k =
     (case map snd (filter (\<lambda>p. fst p = k) (parse_query (tl (dropWhile (\<lambda>c. c \<noteq> CHR ''?'') href)))) of
        [] \<Rightarrow> Absent | [v] \<Rightarrow> One v | vs \<Rightarrow> Many vs)"

type_synonym search_params = "string \<Rightarrow> query_param"

section \<open>The list of sessions\<close>

datatype 'a page = RedirectPage string | ShownPage 'a

record session_row_view =
  sv_row :: session_admin_row
  sv_revocable :: bool
  sv_tone :: console_tone

record sessions_view =
  sp_status :: session_filter
  sp_outcomeShown :: bool
  sp_loadError :: bool
  sp_rows :: "session_row_view list"
  sp_nextHref :: "string option"

definition canRevoke :: "console_role option \<Rightarrow> session_admin_row \<Rightarrow> bool" where
  "canRevoke actorRole target \<longleftrightarrow>
     (if sa_status target \<noteq> ActiveSession then False
      else if actorRole = Some Owner then True
      else actorRole = Some Administrator \<and> sa_consoleRole target \<noteq> Owner)"

definition session_statusTone :: "resolved_status \<Rightarrow> console_tone" where
  "session_statusTone s = (case s of ActiveSession \<Rightarrow> SuccessUi | ExpiredSession \<Rightarrow> WarningUi | RevokedSession \<Rightarrow> DangerUi)"

definition filterHref :: "session_filter \<Rightarrow> string" where
  "filterHref status = ''/security/sessions?status='' @ filter_text status"

definition sessions_next_href :: "session_filter \<Rightarrow> session_admin_row list \<Rightarrow> string option" where
  "sessions_next_href status rows =
     (if length rows = 50
      then map_option (\<lambda>row. ''/security/sessions?status='' @ filter_text status @ ''&beforeCreatedAt='' @
        encodeURIComponent (sa_createdAt row) @ ''&beforeId='' @ encodeURIComponent (sa_sessionId row)) (js_last rows)
      else None)"

definition administrator_page ::
  "security_services \<Rightarrow> security_request \<Rightarrow> (string \<Rightarrow> 'a \<times> security_call list) \<Rightarrow> 'a page \<times> security_call list" where
  \<comment> \<open>the beginning of both lists\<close>
  "administrator_page s r body =
     (if \<not> hasConsoleRole (session_of s r) Administrator
      then (RedirectPage ''/security?error=administrator_role_required'', [])
      else (case actor_token r of
              None \<Rightarrow> (RedirectPage ''/login?error=unauthenticated'', [])
            | Some token \<Rightarrow> (case body token of (v, calls) \<Rightarrow> (ShownPage v, calls))))"

definition DiscordSessionsPage ::
  "security_services \<Rightarrow> security_request \<Rightarrow> search_params \<Rightarrow> sessions_view page \<times> security_call list" where
  "DiscordSessionsPage s r params = administrator_page s r (\<lambda>actorSessionToken.
     let status = parseDiscordSessionStatus (firstValue (params ''status''));
         beforeCreatedAt = parseCursorDate (firstValue (params ''beforeCreatedAt''));
         beforeId = parseUuid (firstValue (params ''beforeId''));
         result = (if (beforeCreatedAt = None) = (beforeId = None)
           then listDiscordConsoleSessions (ss_rpc s) (ss_hash s) actorSessionToken status 50 beforeCreatedAt beforeId
           else (None, []));
         rows = (case fst result of None \<Rightarrow> [] | Some found \<Rightarrow> found)
     in (\<lparr> sp_status = status,
           sp_outcomeShown = (firstValue (params ''outcome'') \<in> {Some ''revoked'', Some ''unchanged''}),
           sp_loadError = (fst result = None),
           sp_rows = map (\<lambda>row. \<lparr> sv_row = row, sv_revocable = canRevoke (cs_role (session_of s r)) row,
             sv_tone = session_statusTone (sa_status row) \<rparr>) rows,
           sp_nextHref = sessions_next_href status rows \<rparr>, snd result))"

section \<open>The audit of sign-ins\<close>

record audit_view =
  av_action :: "audit_action option"
  av_result :: "audit_result option"
  av_loadError :: bool
  av_rows :: "(audit_row \<times> console_tone) list"
  av_nextHref :: "string option"

definition resultTone :: "audit_result \<Rightarrow> console_tone" where
  "resultTone result =
     (if result = AuditSuccess then SuccessUi else if result = AuditConflict then WarningUi else DangerUi)"

definition query_text :: "(string \<times> string) list \<Rightarrow> string" where
  \<comment> \<open>\<open>URLSearchParams.toString\<close>\<close>
  "query_text pairs = join ''&'' (map (\<lambda>(k, v). form_encode k @ ''='' @ form_encode v) pairs)"

definition audit_pairs :: "audit_action option \<Rightarrow> audit_result option \<Rightarrow> audit_row \<Rightarrow> (string \<times> string) list" where
  "audit_pairs action result row =
     (case action of None \<Rightarrow> [] | Some a \<Rightarrow> [(''action'', action_name a)]) @
     (case result of None \<Rightarrow> [] | Some x \<Rightarrow> [(''result'', result_name x)]) @
     [(''beforeOccurredAt'', al_occurredAt row), (''beforeId'', int_text (al_auditId row))]"

definition buildNextHref :: "audit_action option \<Rightarrow> audit_result option \<Rightarrow> audit_row \<Rightarrow> string" where
  "buildNextHref action result row = ''/security/audit?'' @ query_text (audit_pairs action result row)"

definition DiscordAuthAuditPage ::
  "security_services \<Rightarrow> security_request \<Rightarrow> search_params \<Rightarrow> audit_view page \<times> security_call list" where
  "DiscordAuthAuditPage s r params = administrator_page s r (\<lambda>actorSessionToken.
     let actionRaw = firstValue (params ''action'');
         resultRaw = firstValue (params ''result'');
         action = parseDiscordAuditAction actionRaw;
         result = parseAuditResult resultRaw;
         beforeOccurredAt = parseCursorDate (firstValue (params ''beforeOccurredAt''));
         beforeId = parsePositiveInteger (firstValue (params ''beforeId''));
         filtersValid = ((actionRaw = None \<or> action \<noteq> None) \<and> (resultRaw = None \<or> result \<noteq> None));
         listed = (if filtersValid \<and> (beforeOccurredAt = None) = (beforeId = None)
           then listDiscordAuthAuditLogs (ss_rpc s) (ss_hash s) actorSessionToken action result 50 beforeOccurredAt beforeId
           else (None, []));
         logs = (case fst listed of None \<Rightarrow> [] | Some found \<Rightarrow> found)
     in (\<lparr> av_action = action, av_result = result, av_loadError = (fst listed = None),
           av_rows = map (\<lambda>row. (row, resultTone (al_result row))) logs,
           av_nextHref = (if length logs = 50 then map_option (buildNextHref action result) (js_last logs) else None) \<rparr>,
         snd listed))"

section \<open>The own session\<close>

datatype panel_variant = EmptyPanel | ErrorPanel | WarningPanel | InfoPanel

definition security_statusTone :: "session_status \<Rightarrow> console_tone" where
  "security_statusTone status =
     (if status = Authenticated then SuccessUi
      else if status = SessionError \<or> status = IdentityMismatch then DangerUi
      else if status = Unregistered \<or> status = Inactive then WarningUi
      else if status = SessionDisabled then InfoUi else NeutralUi)"

definition stateVariant :: "session_status \<Rightarrow> panel_variant" where
  "stateVariant status =
     (if status = SessionError \<or> status = IdentityMismatch then ErrorPanel
      else if status = Unregistered \<or> status = Inactive then WarningPanel
      else if status = Authenticated \<or> status = SessionDisabled then InfoPanel else EmptyPanel)"

definition canAdministerDiscordSecurity :: "console_session \<Rightarrow> bool" where
  "canAdministerDiscordSecurity session \<longleftrightarrow>
     cs_authProvider session = DiscordProvider \<and> hasConsoleRole session Administrator"


section \<open>Encoding and decoding\<close>

definition utf8_bytes :: "char \<Rightarrow> nat list" where
  "utf8_bytes c = (if code c < 128 then [code c] else [192 + code c div 64, 128 + code c mod 64])"

lemma code_less: "code c < 256"
  by (simp add: code_def)

lemma code_hex_digit: "n < 16 \<Longrightarrow> code (hex_digit n) = (if n < 10 then 48 + n else 55 + n)"
  by (simp add: hex_digit_def code_def)

lemma hex_digit_read:
  assumes "n < 16"
  shows "is_hex_any (hex_digit n) \<and> hex_val (hex_digit n) = n \<and> hex_digit n \<notin> set ''&=+%?''"
proof -
  have "hex_digit n \<notin> set ''&=+%?''"
  proof
    assume "hex_digit n \<in> set ''&=+%?''"
    then have "code (hex_digit n) \<in> {38, 61, 43, 37, 63}" by (auto simp: code_def)
    then show False using code_hex_digit [OF assms] assms by (auto split: if_splits)
  qed
  then show ?thesis
    using code_hex_digit [OF assms] assms by (auto simp: is_hex_any_def is_hex_lower_def is_digit_def hex_val_def)
qed

lemma utf8_bounds: "192 + code c div 64 < 256" "128 + code c mod 64 < 256"
  using code_less [of c] by linarith+

lemma form_bytes_percent: "n < 256 \<Longrightarrow> form_bytes (percent n @ r) = n # form_bytes r"
  using hex_digit_read [of "n div 16"] hex_digit_read [of "n mod 16"] by (simp add: percent_def)

lemma form_bytes_utf8: "form_bytes (utf8_percent c @ r) = utf8_bytes c @ form_bytes r"
proof -
  show ?thesis
    by (simp add: utf8_percent_def utf8_bytes_def form_bytes_percent [OF utf8_bounds(1)] form_bytes_percent [OF utf8_bounds(2)]
        form_bytes_percent [OF code_less] del: form_bytes.simps)
qed

definition plain_char :: "char \<Rightarrow> bool" where
  "plain_char c \<longleftrightarrow> code c < 128 \<and> c \<notin> set ''&=+%?''"

lemma unreserved_plain: "unreserved c \<Longrightarrow> plain_char c"
  by (auto simp: plain_char_def unreserved_def is_alnum_def is_digit_def is_lower_def is_upper_def code_def)

lemma form_char_plain: "form_char c \<Longrightarrow> plain_char c"
  by (auto simp: plain_char_def form_char_def is_alnum_def is_digit_def is_lower_def is_upper_def code_def)

lemma form_bytes_plain: "plain_char c \<Longrightarrow> form_bytes (c # r) = utf8_bytes c @ form_bytes r"
  by (auto simp: plain_char_def utf8_bytes_def)

lemma form_bytes_encode_unless:
  assumes "\<And>c. keep c \<Longrightarrow> plain_char c"
  shows "form_bytes (encode_unless keep s @ r) = concat (map utf8_bytes s) @ form_bytes r"
  using assms
  by (induction s) (auto simp: encode_unless_def form_bytes_utf8 form_bytes_plain simp del: form_bytes.simps)

lemma utf8_text_bytes: "utf8_text (concat (map utf8_bytes s)) = s"
proof (induction s)
  case (Cons c s)
  have "code c div 64 = 2 \<or> code c div 64 = 3" if "\<not> code c < 128"
    using that code_less [of c] by linarith
  moreover have "64 * (code c div 64) + code c mod 64 = code c" by simp
  moreover have "char_of (code c) = c" by (simp add: code_def)
  ultimately show ?case
    using Cons.IH by (cases "code c < 128") (auto simp: utf8_bytes_def)
qed simp

lemma form_decode_encodeURIComponent: "form_decode (encodeURIComponent s) = s"
  using form_bytes_encode_unless [of unreserved s "[]"] unreserved_plain
  by (simp add: form_decode_def encodeURIComponent_def utf8_text_bytes)

lemma form_decode_form_encode: "form_decode (form_encode s) = s"
proof -
  have "form_bytes (concat (map (\<lambda>c. if c = CHR '' '' then ''+'' else encode_unless form_char [c]) s)) =
      concat (map utf8_bytes s)"
  proof (induction s)
    case (Cons c s)
    then show ?case
      using form_bytes_encode_unless [of form_char "[c]"] form_char_plain
      by (auto simp: utf8_bytes_def code_def)
  qed simp
  then show ?thesis by (simp add: form_decode_def form_encode_def utf8_text_bytes)
qed

lemma encoded_chars:
  assumes "\<And>c. keep c \<Longrightarrow> plain_char c"
  shows "set (encode_unless keep s) \<inter> set ''&=?'' = {}"
proof -
  have p: "set (percent n) \<inter> set ''&=?'' = {}" if "n < 256" for n
    using hex_digit_read [of "n div 16"] hex_digit_read [of "n mod 16"] that by (auto simp: percent_def)
  have "set (utf8_percent c) \<inter> set ''&=?'' = {}" for c
    using p [OF code_less [of c]] p [OF utf8_bounds(1) [of c]] p [OF utf8_bounds(2) [of c]]
    by (auto simp: utf8_percent_def)
  with assms show ?thesis by (fastforce simp: encode_unless_def plain_char_def)
qed

lemma encodeURIComponent_chars: "set (encodeURIComponent s) \<inter> set ''&=?'' = {}"
  unfolding encodeURIComponent_def by (rule encoded_chars) (rule unreserved_plain)

lemma form_encode_chars: "set (form_encode s) \<inter> set ''&=?'' = {}"
proof -
  have one: "set (if c = CHR '' '' then ''+'' else encode_unless form_char [c]) \<inter> set ''&=?'' = {}" for c
    using encoded_chars [of form_char "[c]", OF form_char_plain] by (cases "c = CHR '' ''") simp_all
  show ?thesis unfolding form_encode_def set_concat set_map using one by blast
qed

lemma parse_pair_text:
  "CHR ''='' \<notin> set k \<Longrightarrow> parse_pair (k @ CHR ''='' # v) = (form_decode k, form_decode v)"
  by (auto simp: parse_pair_def takeWhile_append dropWhile_append)

lemma parse_query_join:
  assumes "xs \<noteq> []" and "\<And>x. x \<in> set xs \<Longrightarrow> CHR ''&'' \<notin> set x \<and> x \<noteq> []"
  shows "parse_query (join ''&'' xs) = map parse_pair xs"
proof -
  have "split_on CHR ''&'' (join ''&'' xs) = xs" using assms by (intro split_on_join) auto
  moreover have "filter (\<lambda>part. part \<noteq> []) xs = xs" using assms(2) by (auto simp: filter_id_conv)
  ultimately show ?thesis by (simp add: parse_query_def)
qed

lemma parse_query_text: "pairs \<noteq> [] \<Longrightarrow> parse_query (query_text pairs) = pairs"
proof -
  assume ne: "pairs \<noteq> []"
  let ?text = "\<lambda>(k, v). form_encode k @ ''='' @ form_encode v"
  have "parse_query (query_text pairs) = map parse_pair (map ?text pairs)"
    unfolding query_text_def using ne form_encode_chars by (intro parse_query_join) fastforce+
  also have "\<dots> = map (\<lambda>p. p) pairs"
    using form_encode_chars unfolding map_map
    by (intro map_cong) (fastforce simp: parse_pair_text form_decode_form_encode)+
  finally show ?thesis by simp
qed

lemma link_params_path:
  assumes "CHR ''?'' \<notin> set path"
  shows "link_params (path @ ''?'' @ text) k =
    (case map snd (filter (\<lambda>p. fst p = k) (parse_query text)) of [] \<Rightarrow> Absent | [v] \<Rightarrow> One v | vs \<Rightarrow> Many vs)"
proof -
  have "tl (dropWhile (\<lambda>c. c \<noteq> CHR ''?'') (path @ ''?'' @ text)) = text"
    using assms by (subst dropWhile_append2) auto
  then show ?thesis by (simp add: link_params_def)
qed

section \<open>Paging the lists\<close>

lemma filter_text_not_empty: "filter_text status \<noteq> []"
  by (auto simp: filter_text_def split: session_filter.split resolved_status.split)

lemma parse_filter_text: "parseDiscordSessionStatus (Some (filter_text status)) = status"
  by (auto simp: parseDiscordSessionStatus_def filter_text_def resolved_status_of_def
      split: session_filter.split resolved_status.split)

lemma form_decode_plain: "list_all plain_char s \<Longrightarrow> form_decode s = s"
proof -
  assume "list_all plain_char s"
  then have "form_bytes s = concat (map utf8_bytes s)"
    by (induction s) (auto simp: form_bytes_plain simp del: form_bytes.simps(2))
  then show ?thesis by (simp add: form_decode_def utf8_text_bytes)
qed

lemma plain_filter_text: "list_all plain_char (filter_text status)"
  by (auto simp: filter_text_def plain_char_def code_def split: session_filter.split resolved_status.split)

lemma plain_no_separator: "list_all plain_char s \<Longrightarrow> CHR ''&'' \<notin> set s \<and> CHR ''='' \<notin> set s"
  by (auto simp: list_all_iff plain_char_def)

lemma sessions_link_query:
  "parse_query (''status='' @ filter_text status @ ''&beforeCreatedAt='' @ encodeURIComponent c @ ''&beforeId='' @
      encodeURIComponent i) = [(''status'', filter_text status), (''beforeCreatedAt'', c), (''beforeId'', i)]"
proof -
  let ?xs = "[''status'' @ CHR ''='' # filter_text status, ''beforeCreatedAt'' @ CHR ''='' # encodeURIComponent c,
    ''beforeId'' @ CHR ''='' # encodeURIComponent i]"
  have names: "list_all plain_char ''status''" "list_all plain_char ''beforeCreatedAt''" "list_all plain_char ''beforeId''"
    by (simp_all add: plain_char_def code_def)
  have "parse_query (join ''&'' ?xs) = map parse_pair ?xs"
    using encodeURIComponent_chars [of c] encodeURIComponent_chars [of i]
      plain_no_separator [OF plain_filter_text [of status]] by (intro parse_query_join) auto
  also have "\<dots> = [(''status'', filter_text status), (''beforeCreatedAt'', c), (''beforeId'', i)]"
    using names by (simp only: list.map parse_pair_text [OF conjunct2 [OF plain_no_separator]]
        form_decode_plain [OF plain_filter_text] form_decode_plain form_decode_encodeURIComponent)
  finally show ?thesis by simp
qed

lemma parsed_session_id: "parseAdminSessionRow v = Some row \<Longrightarrow> UUID_PATTERN (sa_sessionId row)"
  by (auto simp: parseAdminSessionRow_def text_where_def bind_eq_Some_conv split: if_splits)

lemma valid_rows_parsed:
  "valid_rows parse response = Some rows \<Longrightarrow> x \<in> set rows \<Longrightarrow> \<exists>v. parse v = Some x"
  by (auto simp: valid_rows_def set_map_filter)

lemma cursor_date: "Date_parse s \<noteq> None \<Longrightarrow> s \<noteq> [] \<Longrightarrow> parseCursorDate (Some s) = Some s"
  by (auto simp: parseCursorDate_def nonempty_def split: option.split)

lemma uuid_not_empty: "UUID_PATTERN s \<Longrightarrow> s \<noteq> []"
  by (auto simp: js_eval)

lemma administrator_page_shown:
  "administrator_page s r body = (ShownPage v, calls) \<longleftrightarrow>
    hasConsoleRole (session_of s r) Administrator \<and> (\<exists>token. actor_token r = Some token \<and> body token = (v, calls))"
  by (auto simp: administrator_page_def split: option.splits prod.splits)

lemma sessions_link_params:
  "sessions_next_href status rows = Some href \<Longrightarrow> js_last rows = Some row \<Longrightarrow>
    link_params href ''status'' = One (filter_text status) \<and>
    link_params href ''beforeCreatedAt'' = One (sa_createdAt row) \<and> link_params href ''beforeId'' = One (sa_sessionId row)"
proof -
  let ?text = "''status='' @ filter_text status @ ''&beforeCreatedAt='' @ encodeURIComponent (sa_createdAt row) @
    ''&beforeId='' @ encodeURIComponent (sa_sessionId row)"
  assume "sessions_next_href status rows = Some href" "js_last rows = Some row"
  then have "href = ''/security/sessions'' @ ''?'' @ ?text" by (auto simp: sessions_next_href_def split: if_splits)
  moreover have no_mark: "CHR ''?'' \<notin> set ''/security/sessions''" by simp
  ultimately have "link_params href k = (case map snd (filter (\<lambda>p. fst p = k) [(''status'', filter_text status),
      (''beforeCreatedAt'', sa_createdAt row), (''beforeId'', sa_sessionId row)]) of
      [] \<Rightarrow> Absent | [v] \<Rightarrow> One v | vs \<Rightarrow> Many vs)" for k
    by (simp only: link_params_path [OF no_mark] sessions_link_query)
  then show ?thesis by simp
qed

lemma shown_rows_parsed:
  "x \<in> set (case fst (if valid then listDiscordConsoleSessions rpc hash token status n c i else (None, [])) of
      None \<Rightarrow> [] | Some found \<Rightarrow> found) \<Longrightarrow> \<exists>w. parseAdminSessionRow w = Some x"
  "y \<in> set (case fst (if valid then listDiscordAuthAuditLogs rpc hash token action result n o' j else (None, [])) of
      None \<Rightarrow> [] | Some found \<Rightarrow> found) \<Longrightarrow> \<exists>w. parseAuditRow w = Some y"
  by (auto simp: listDiscordConsoleSessions_def listDiscordAuthAuditLogs_def Let_def
      dest!: sym [of "Some _"] dest: valid_rows_parsed split: if_splits option.splits)

lemma sessions_page_shown:
  assumes "DiscordSessionsPage s r params = (ShownPage v, calls)"
  shows "hasConsoleRole (session_of s r) Administrator \<and> (\<exists>token. actor_token r = Some token) \<and>
    sp_nextHref v = sessions_next_href (sp_status v) (map sv_row (sp_rows v)) \<and>
    (\<forall>x \<in> set (map sv_row (sp_rows v)). \<exists>w. parseAdminSessionRow w = Some x)"
  using assms shown_rows_parsed(1) unfolding DiscordSessionsPage_def administrator_page_shown Let_def prod.inject
  by (elim conjE exE) (hypsubst, simp add: comp_def)

lemma sessions_page_calls:
  assumes "hasConsoleRole (session_of s r) Administrator" "actor_token r = Some token"
  shows "snd (DiscordSessionsPage s r params) =
    (let status = parseDiscordSessionStatus (firstValue (params ''status''));
         beforeCreatedAt = parseCursorDate (firstValue (params ''beforeCreatedAt''));
         beforeId = parseUuid (firstValue (params ''beforeId''))
     in if (beforeCreatedAt = None) = (beforeId = None)
        then [session_list_call (ss_hash s) token status 50 beforeCreatedAt beforeId] else [])"
  using assms by (auto simp: DiscordSessionsPage_def administrator_page_def Let_def listDiscordConsoleSessions_def)

text \<open>C32. The link below the list of sessions continues the list: when the page shows a link to the next 50
  sessions and the last row shown has a date that parses, following that link asks the database for the sessions
  of the same state that come after this very row, and for nothing else. Encoding the link and decoding it lose
  nothing.\<close>

theorem next_sessions_link_continues:
  assumes page: "DiscordSessionsPage s r params = (ShownPage v, calls)" and link: "sp_nextHref v = Some href"
    and shown: "js_last (sp_rows v) = Some last_shown" and date: "Date_parse (sa_createdAt (sv_row last_shown)) \<noteq> None"
  shows "\<exists>token. actor_token r = Some token \<and>
    snd (DiscordSessionsPage s r (link_params href)) =
      [session_list_call (ss_hash s) token (sp_status v) 50 (Some (sa_createdAt (sv_row last_shown)))
         (Some (sa_sessionId (sv_row last_shown)))]"
proof -
  note * = sessions_page_shown [OF page]
  then obtain token where admin: "hasConsoleRole (session_of s r) Administrator" and token: "actor_token r = Some token"
    by blast
  let ?row = "sv_row last_shown"
  from shown have row: "js_last (map sv_row (sp_rows v)) = Some ?row"
    by (cases "sp_rows v" rule: rev_cases) auto
  with * have "UUID_PATTERN (sa_sessionId ?row)" using parsed_session_id js_last_SomeD by metis
  moreover have "parseCursorDate (Some (sa_createdAt ?row)) = Some (sa_createdAt ?row)" "sa_createdAt ?row \<noteq> []"
    using date cursor_date Date_parse_Nil by metis+
  moreover have "sessions_next_href (sp_status v) (map sv_row (sp_rows v)) = Some href" using * link by simp
  ultimately show ?thesis
    using sessions_link_params [OF _ row, of "sp_status v" href] token
      uuid_not_empty [of "sa_sessionId ?row"] sessions_page_calls [OF admin token, of "link_params href"]
    by (simp add: firstValue_def filter_text_not_empty parse_filter_text nonempty_def parseUuid_def)
qed

lemma action_of_name: "action_of (action_name a) = Some a"
  by (cases a) (simp_all add: action_of_def action_name_def AUDIT_ACTIONS_def)

lemma result_of_name: "result_of (result_name x) = Some x"
  by (cases x) (simp_all add: result_of_def result_name_def AUDIT_RESULTS_def)

lemma names_not_empty: "action_name a \<noteq> []" "result_name x \<noteq> []"
  by (cases a; simp add: action_name_def) (cases x; simp add: result_name_def)

lemma parse_int_text:
  "1 \<le> n \<Longrightarrow> n \<le> max_safe_integer \<Longrightarrow> parsePositiveInteger (Some (int_text n)) = Some n"
  by (simp add: parsePositiveInteger_def nonempty_def int_text_def)

lemma parsed_audit_id: "parseAuditRow v = Some row \<Longrightarrow> 1 \<le> al_auditId row \<and> al_auditId row \<le> max_safe_integer"
  by (auto simp: parseAuditRow_def bind_eq_Some_conv dest!: as_safe_integer_SomeD split: if_splits)

lemma audit_link_params:
  "link_params (buildNextHref action result row) ''action'' =
     (case action of None \<Rightarrow> Absent | Some a \<Rightarrow> One (action_name a)) \<and>
   link_params (buildNextHref action result row) ''result'' =
     (case result of None \<Rightarrow> Absent | Some x \<Rightarrow> One (result_name x)) \<and>
   link_params (buildNextHref action result row) ''beforeOccurredAt'' = One (al_occurredAt row) \<and>
   link_params (buildNextHref action result row) ''beforeId'' = One (int_text (al_auditId row))"
proof -
  have "audit_pairs action result row \<noteq> []" by (simp add: audit_pairs_def)
  from parse_query_text [OF this] link_params_path [of "''/security/audit''" "query_text (audit_pairs action result row)"]
  show ?thesis by (cases action; cases result; simp add: buildNextHref_def audit_pairs_def)
qed

lemma audit_link_first:
  fixes action result row
  defines "param \<equiv> (\<lambda>k. firstValue (link_params (buildNextHref action result row) k))"
  assumes "int_text (al_auditId row) \<noteq> []" "al_occurredAt row \<noteq> []"
  shows "parseDiscordAuditAction (param ''action'') = action \<and> (param ''action'' = None \<or> action \<noteq> None) \<and>
    parseAuditResult (param ''result'') = result \<and> (param ''result'' = None \<or> result \<noteq> None) \<and>
    param ''beforeOccurredAt'' = Some (al_occurredAt row) \<and> param ''beforeId'' = Some (int_text (al_auditId row))"
proof -
  have "param ''action'' = map_option action_name action" "param ''result'' = map_option result_name result"
    "param ''beforeOccurredAt'' = Some (al_occurredAt row)" "param ''beforeId'' = Some (int_text (al_auditId row))"
    using audit_link_params [of action result row] assms(2,3) names_not_empty
    by (auto simp: param_def firstValue_def nonempty_def split: option.splits)
  then show ?thesis
    by (cases action; cases result;
        simp add: parseDiscordAuditAction_def parseAuditResult_def action_of_name result_of_name)
qed

lemma audit_page_calls:
  assumes "hasConsoleRole (session_of s r) Administrator" "actor_token r = Some token"
  shows "snd (DiscordAuthAuditPage s r params) =
    (let actionRaw = firstValue (params ''action''); resultRaw = firstValue (params ''result'');
         action = parseDiscordAuditAction actionRaw; result = parseAuditResult resultRaw;
         beforeOccurredAt = parseCursorDate (firstValue (params ''beforeOccurredAt''));
         beforeId = parsePositiveInteger (firstValue (params ''beforeId''))
     in if (actionRaw = None \<or> action \<noteq> None) \<and> (resultRaw = None \<or> result \<noteq> None) \<and>
          (beforeOccurredAt = None) = (beforeId = None)
        then [audit_list_call (ss_hash s) token action result 50 beforeOccurredAt beforeId] else [])"
  using assms by (simp add: DiscordAuthAuditPage_def administrator_page_def Let_def listDiscordAuthAuditLogs_def
      if_distrib [of snd] split del: if_split cong: if_cong)

lemma audit_page_shown:
  assumes "DiscordAuthAuditPage s r params = (ShownPage v, calls)"
  shows "hasConsoleRole (session_of s r) Administrator \<and> (\<exists>token. actor_token r = Some token) \<and>
    av_nextHref v = (if length (av_rows v) = 50
      then map_option (buildNextHref (av_action v) (av_result v)) (js_last (map fst (av_rows v))) else None) \<and>
    (\<forall>x \<in> set (map fst (av_rows v)). \<exists>w. parseAuditRow w = Some x)"
  using assms shown_rows_parsed(2) unfolding DiscordAuthAuditPage_def administrator_page_shown Let_def prod.inject
  by (elim conjE exE) (hypsubst, simp add: comp_def)

text \<open>The audit of sign-ins is continued in the same way, under the same filters: the link
  below a full page asks for the entries after the last one shown, with the action and the result that the page
  was filtered by.\<close>

theorem next_audit_link_continues:
  assumes page: "DiscordAuthAuditPage s r params = (ShownPage v, calls)" and link: "av_nextHref v = Some href"
    and shown: "js_last (av_rows v) = Some (row, tone)" and date: "Date_parse (al_occurredAt row) \<noteq> None"
  shows "\<exists>token. actor_token r = Some token \<and>
    snd (DiscordAuthAuditPage s r (link_params href)) =
      [audit_list_call (ss_hash s) token (av_action v) (av_result v) 50 (Some (al_occurredAt row)) (Some (al_auditId row))]"
proof -
  note * = audit_page_shown [OF page]
  then obtain token where admin: "hasConsoleRole (session_of s r) Administrator" and token: "actor_token r = Some token"
    by blast
  from shown have row: "js_last (map fst (av_rows v)) = Some row" by (cases "av_rows v" rule: rev_cases) auto
  then have "1 \<le> al_auditId row \<and> al_auditId row \<le> max_safe_integer"
    using * parsed_audit_id js_last_SomeD by metis
  then have id: "parsePositiveInteger (Some (int_text (al_auditId row))) = Some (al_auditId row)" "int_text (al_auditId row) \<noteq> []"
    using parse_int_text by (auto simp: int_text_def)
  moreover have "parseCursorDate (Some (al_occurredAt row)) = Some (al_occurredAt row)" "al_occurredAt row \<noteq> []"
    using date cursor_date Date_parse_Nil by metis+
  moreover have href: "href = buildNextHref (av_action v) (av_result v) row"
    using * link row by (simp split: if_splits)
  ultimately show ?thesis
    using audit_link_first [of row "av_action v" "av_result v"] token audit_page_calls [OF admin token, of "link_params href"]
    by (simp only: option.distinct) simp
qed

section \<open>Witnesses\<close>

definition listed_session :: jsval where
  "listed_session = Obj [(''session_id'', Str ''00000000-0000-4000-8000-000000000000''),
     (''discord_user_id'', Str ''123456789012345678''), (''discord_username'', Str ''u''),
     (''discord_global_name'', Null), (''discord_avatar_hash'', Null), (''console_role'', Str ''viewer''),
     (''session_status'', Str ''active''), (''created_at'', Str ''2026-01-01T00:00:00+00:00''),
     (''last_seen_at'', Str ''2026-01-01T00:00:00+00:00''), (''expires_at'', Str ''2026-01-02T00:00:00+00:00''),
     (''revoked_at'', Null), (''revoke_reason'', Null), (''is_current'', Bool False)]"

definition listed_entry :: jsval where
  "listed_entry = Obj [(''audit_id'', jint 7), (''request_id'', Str ''00000000-0000-4000-8000-000000000000''),
     (''action'', Str ''DISCORD_LOGIN_DENIED''), (''result'', Str ''denied''), (''actor_role'', Null),
     (''target_id'', Null), (''discord_user_id'', Null), (''reason'', Null), (''provider_error'', Null),
     (''console_role'', Null), (''occurred_at'', Str ''2026-01-01T00:00:00+00:00'')]"

definition full_lists :: security_services where
  \<comment> \<open>a database that answers with full pages\<close>
  "full_lists = sample_security \<lparr> ss_rpc := (\<lambda>name args.
     if name = ''list_discord_console_sessions'' then Some (Arr (replicate 50 listed_session))
     else if name = ''list_discord_auth_audit_logs'' then Some (Arr (replicate 50 listed_entry))
     else sample_security_rpc None name args) \<rparr>"

lemma full_lists_session: "session_of full_lists sample_revocation = session_of sample_security sample_revocation"
proof -
  have "resolveDiscordConsoleSession (ss_rpc full_lists) hash token =
      resolveDiscordConsoleSession (ss_rpc sample_security) hash token" for hash token
    by (simp add: full_lists_def sample_security_def resolveDiscordConsoleSession_def)
  moreover have "ss_env full_lists = ss_env sample_security" "ss_hash full_lists = ss_hash sample_security"
    "ss_fetch full_lists = ss_fetch sample_security"
    by (simp_all add: full_lists_def)
  ultimately show ?thesis by (simp only: session_of_def getConsoleSession_def)
qed

lemma valid_rows_replicate:
  "parse v = Some x \<Longrightarrow> valid_rows parse (Some (Arr (replicate n v))) = Some (replicate n x)"
  by (induction n) (auto simp: valid_rows_def map_filter_def)

lemma full_lists_token: "actor_token sample_revocation = Some ''0123456789012345678901234567890123456789''"
  by (simp add: actor_token_def sample_revocation_def nonempty_def)

theorem next_sessions_link_continues_witness:
  "\<exists>v calls href shown. DiscordSessionsPage full_lists sample_revocation (\<lambda>_. Absent) = (ShownPage v, calls) \<and>
     sp_nextHref v = Some href \<and> js_last (sp_rows v) = Some shown \<and>
     (\<exists>token. actor_token sample_revocation = Some token \<and>
        snd (DiscordSessionsPage full_lists sample_revocation (link_params href)) =
          [session_list_call (ss_hash full_lists) token (sp_status v) 50 (Some (sa_createdAt (sv_row shown)))
             (Some (sa_sessionId (sv_row shown)))])"
proof -
  have "UUID_PATTERN ''00000000-0000-4000-8000-000000000000''" "SNOWFLAKE_PATTERN ''123456789012345678''"
    by (simp_all add: js_eval)
  then obtain row where row: "parseAdminSessionRow listed_session = Some row" "sa_createdAt row = ''2026-01-01T00:00:00+00:00''"
    by (simp add: parseAdminSessionRow_def listed_session_def prop_or_def text_where_def nullable_string_def nullable_def
        role_value_def isConsoleRole_def resolved_status_of_def)
  have rpc: "ss_rpc full_lists ''list_discord_console_sessions'' args = Some (Arr (replicate 50 listed_session))" for args
    by (simp add: full_lists_def)
  have admin: "hasConsoleRole (session_of full_lists sample_revocation) Administrator"
    by (simp add: full_lists_session sample_security_session)
  have "listDiscordConsoleSessions (ss_rpc full_lists) (ss_hash full_lists) token status 50 None None =
      (Some (replicate 50 row), [session_list_call (ss_hash full_lists) token status 50 None None])" for token status
    unfolding listDiscordConsoleSessions_def Let_def session_list_call_def fst_conv rpc
    using valid_rows_replicate [of parseAdminSessionRow listed_session row 50] row(1) by simp
  then obtain v calls where page: "DiscordSessionsPage full_lists sample_revocation (\<lambda>_. Absent) = (ShownPage v, calls)"
    and v: "map sv_row (sp_rows v) = replicate 50 row" "sp_nextHref v = sessions_next_href (sp_status v) (replicate 50 row)"
    using admin by (simp add: DiscordSessionsPage_def administrator_page_def full_lists_token Let_def firstValue_def
        parseCursorDate_def parseUuid_def nonempty_def comp_def map_replicate_const)
  have last: "js_last (replicate 50 row) = Some row" by (simp add: js_last_def)
  with v(2) obtain href where href: "sp_nextHref v = Some href" by (auto simp: sessions_next_href_def)
  from v(1) have "sp_rows v \<noteq> []" by auto
  then obtain shown where shown: "js_last (sp_rows v) = Some shown" by (auto simp: js_last_def)
  then have "shown \<in> set (sp_rows v)" by (rule js_last_SomeD)
  then have "sv_row shown \<in> set (map sv_row (sp_rows v))" by simp
  then have same: "sv_row shown = row" unfolding v(1) by simp
  have "Date_parse (sa_createdAt (sv_row shown)) \<noteq> None" unfolding same row(2) by (simp add: sample_instants)
  from next_sessions_link_continues [OF page href shown this] page href shown show ?thesis by blast
qed

theorem next_audit_link_continues_witness:
  "\<exists>v calls href row tone. DiscordAuthAuditPage full_lists sample_revocation (\<lambda>_. Absent) = (ShownPage v, calls) \<and>
     av_nextHref v = Some href \<and> js_last (av_rows v) = Some (row, tone) \<and>
     (\<exists>token. actor_token sample_revocation = Some token \<and>
        snd (DiscordAuthAuditPage full_lists sample_revocation (link_params href)) =
          [audit_list_call (ss_hash full_lists) token (av_action v) (av_result v) 50 (Some (al_occurredAt row))
             (Some (al_auditId row))])"
proof -
  have "UUID_PATTERN ''00000000-0000-4000-8000-000000000000''" by (simp add: js_eval)
  then obtain row where row: "parseAuditRow listed_entry = Some row" "al_occurredAt row = ''2026-01-01T00:00:00+00:00''"
    by (simp add: parseAuditRow_def listed_entry_def prop_or_def text_where_def nullable_string_def nullable_def
        role_value_def action_of_def result_of_def AUDIT_ACTIONS_def AUDIT_RESULTS_def action_name_def result_name_def
        num_safe_integer_def max_safe_integer_def parseProviderError_def sample_instants js_eval del: Date_parse_def)
  have rpc: "ss_rpc full_lists ''list_discord_auth_audit_logs'' args = Some (Arr (replicate 50 listed_entry))" for args
    by (simp add: full_lists_def)
  have admin: "hasConsoleRole (session_of full_lists sample_revocation) Administrator"
    by (simp add: full_lists_session sample_security_session)
  have "listDiscordAuthAuditLogs (ss_rpc full_lists) (ss_hash full_lists) token action result 50 None None =
      (Some (replicate 50 row), [audit_list_call (ss_hash full_lists) token action result 50 None None])" for token action result
    unfolding listDiscordAuthAuditLogs_def Let_def audit_list_call_def fst_conv rpc
    using valid_rows_replicate [of parseAuditRow listed_entry row 50] row(1) by simp
  then obtain v calls where page: "DiscordAuthAuditPage full_lists sample_revocation (\<lambda>_. Absent) = (ShownPage v, calls)"
    and v: "av_rows v = replicate 50 (row, resultTone (al_result row))"
      "av_nextHref v = map_option (buildNextHref (av_action v) (av_result v)) (js_last (replicate 50 row))"
    using admin by (simp add: DiscordAuthAuditPage_def administrator_page_def full_lists_token Let_def firstValue_def
        parseCursorDate_def parsePositiveInteger_def parseDiscordAuditAction_def parseAuditResult_def nonempty_def)
  then obtain href where href: "av_nextHref v = Some href" by (auto simp: js_last_def)
  have shown: "js_last (av_rows v) = Some (row, resultTone (al_result row))" by (simp add: v(1) js_last_def)
  have "Date_parse (al_occurredAt row) \<noteq> None" unfolding row(2) by (simp add: sample_instants)
  from next_audit_link_continues [OF page href shown this] page href shown show ?thesis by blast
qed

end
