(* ===== verification/ListPages.thy ===== *)
theory ListPages
  imports DetailPages SecurityPages
begin

text \<open>
  The login page (\<open>app/login/page.tsx\<close>), the list of containers (\<open>app/containers/page.tsx\<close>), the list of events
  (\<open>app/events/page.tsx\<close>) and the incident centre (\<open>app/incidents/page.tsx\<close>). Japanese words are constructors; dates
  for display and markup are left out.
\<close>

section \<open>Login\<close>

definition LOGIN_ERRORS :: "string list" where
  \<comment> \<open>the keys of \<open>errorMessages\<close>\<close>
  "LOGIN_ERRORS = [''oauth_denied'', ''oauth_provider_error'', ''oauth_state_invalid'', ''oauth_code_missing'',
     ''oauth_exchange_failed'', ''discord_identity_invalid'', ''guild_membership_required'',
     ''membership_screening_pending'', ''required_role_missing'', ''session_create_failed'', ''configuration_error'',
     ''auth_disabled'', ''unauthenticated'']"

datatype login_message = NoLoginError | KnownLoginError string | InheritedMember string | OtherLoginError

definition login_message_of :: "string option \<Rightarrow> login_message" where
  "login_message_of errorCode =
     (case errorCode of
        None \<Rightarrow> NoLoginError
      | Some s \<Rightarrow> if s \<in> set LOGIN_ERRORS then KnownLoginError s
          else if s \<in> set OBJECT_MEMBERS then InheritedMember s else OtherLoginError)"

record login_page =
  lgn_message :: login_message
  lgn_loggedOut :: bool
  lgn_href :: "string option"  \<comment> \<open>of the button, where sign-in is configured\<close>
  lgn_mode :: discord_auth_mode

datatype login_result = LoginRedirect string | LoginShown login_page

definition loginHref :: "string \<Rightarrow> string" where
  "loginHref returnPath = ''/api/auth/discord/start?returnTo='' @ encodeURIComponent returnPath"

definition LoginPage :: "auth_environment \<Rightarrow> console_session \<Rightarrow> search_params \<Rightarrow> login_result" where
  \<comment> \<open>an exception of the mode or of the configuration leaves the page without a button\<close>
  "LoginPage e session params =
     (let returnPath = sanitizeReturnPath (ae_authority e) (firstValue (params ''returnTo''))
      in if cs_status session = Authenticated then LoginRedirect returnPath
         else (let mode = (case getDiscordAuthMode (ae_env e) of None \<Rightarrow> DiscordEnforce | Some m \<Rightarrow> m);
                   configured = (case getDiscordAuthMode (ae_env e) of
                       None \<Rightarrow> False
                     | Some m \<Rightarrow> m \<noteq> DiscordDisabled \<and>
                         (case configuration_of e of Some (Some _) \<Rightarrow> True | _ \<Rightarrow> False))
               in LoginShown
                  \<lparr> lgn_message = login_message_of (firstValue (params ''error'')),
                    lgn_loggedOut = (firstValue (params ''loggedOut'') = Some ''1''),
                    lgn_href = (if configured then Some (loginHref returnPath) else None), lgn_mode = mode \<rparr>))"

text \<open>A member that every object inherits passes for a known error.\<close>

lemma inherited_member_is_shown: "login_message_of (Some ''toString'') = InheritedMember ''toString''"
  by (simp add: login_message_of_def LOGIN_ERRORS_def OBJECT_MEMBERS_def)

section \<open>The list of containers\<close>

definition container_status_tone :: "container_status \<Rightarrow> console_tone" where
  \<comment> \<open>\<open>statusTone\<close>\<close>
  "container_status_tone s =
     (if s = CtOnline then SuccessUi else if s = CtStandby then InfoUi else if s = CtMaintenance then MaintenanceUi
      else if s = CtStale then WarningUi else DangerUi)"

definition list_memory :: "container_overview \<Rightarrow> string option" where
  \<comment> \<open>\<open>formatMemory\<close> of the list\<close>
  "list_memory c =
     (case (co_memoryUsageBytes c, co_memoryLimitBytes c) of
        (Some usage, Some limit) \<Rightarrow>
          if limit \<le> 0 then None
          else Some (the (formatBytes (Some usage)) @ '' / '' @ toFixed 1 (usage / limit * 100) @ ''%'')
      | _ \<Rightarrow> None)"

record container_card =
  cnc_container :: container_overview
  cnc_tone :: console_tone
  cnc_href :: "string option"
  cnc_cpu :: "(string \<times> rat option) option"
  cnc_memory :: "string option"
  cnc_network :: "string option \<times> string option"
  cnc_age :: elapsed

definition container_card_of :: "(string \<times> host_overview) list \<Rightarrow> string \<Rightarrow> container_overview \<Rightarrow> container_card" where
  "container_card_of hostsById generatedAt c =
     \<lparr> cnc_container = c, cnc_tone = container_status_tone (co_status c),
       cnc_href = map_option (\<lambda>h. ''/containers/'' @ encodeURIComponent (ho_serverId h) @ ''/'' @
         encodeURIComponent (co_name c)) (map_of hostsById (co_hostId c)),
       cnc_cpu = map_option (\<lambda>q. (toFixed 2 q @ ''%'', co_pids c)) (co_cpuPercent c), cnc_memory = list_memory c,
       cnc_network = (formatBytes (co_networkRxBytes c), formatBytes (co_networkTxBytes c)),
       cnc_age = formatRelativeTime (co_receivedAt c) generatedAt \<rparr>"

record containers_page =
  cnp_failed :: bool
  cnp_hosts :: nat
  cnp_monitored :: nat
  cnp_healthyCount :: nat
  cnp_issueCount :: nat
  cnp_maintenanceCount :: nat
  cnp_cards :: "container_card list"

definition ContainersPage :: "int \<Rightarrow> monitoring_snapshot option \<Rightarrow> containers_page" where
  "ContainersPage now snapshot =
     (let hosts = (case snapshot of None \<Rightarrow> [] | Some s \<Rightarrow> ms_hosts s);
          containers = (case snapshot of None \<Rightarrow> [] | Some s \<Rightarrow> ms_containers s);
          generatedAt = (case snapshot of None \<Rightarrow> iso_text now | Some s \<Rightarrow> ms_generatedAt s);
          counted = (\<lambda>p. length (filter p containers))
      in \<lparr> cnp_failed = (snapshot = None), cnp_hosts = length hosts, cnp_monitored = length containers,
           cnp_healthyCount = counted (\<lambda>c. co_status c \<in> set [CtOnline, CtStandby, CtMaintenance]),
           cnp_issueCount = counted (\<lambda>c. co_status c \<in> set [CtOffline, CtStale, CtError]),
           cnp_maintenanceCount = counted co_maintenanceActive,
           cnp_cards = map (container_card_of (index_by ho_id hosts) generatedAt) containers \<rparr>)"

lemma every_container_is_counted:
  "cnp_healthyCount (ContainersPage now s) + cnp_issueCount (ContainersPage now s) = cnp_monitored (ContainersPage now s)"
proof -
  have one: "co_status c \<in> set [CtOnline, CtStandby, CtMaintenance] \<longleftrightarrow>
      \<not> co_status c \<in> set [CtOffline, CtStale, CtError]" for c :: container_overview
    by (cases "co_status c") simp_all
  show ?thesis
    unfolding ContainersPage_def Let_def containers_page.select_convs by (rule filter_length_partition) (rule one)
qed

section \<open>The list of events\<close>

definition parse_event_target :: "string option \<Rightarrow> (string \<times> string) option" where
  \<comment> \<open>\<open>parseTarget\<close>: the server before the first slash, the container after it\<close>
  "parse_event_target v = do {
     s \<leftarrow> nonempty v;
     let serverId = takeWhile (\<lambda>c. c \<noteq> CHR ''/'') s; containerName = tl (dropWhile (\<lambda>c. c \<noteq> CHR ''/'') s)
     in if CHR ''/'' \<notin> set s \<or> serverId = [] \<or> containerName = [] then None
        else if \<not> isValidHostServerId serverId \<or> \<not> CONTAINER_IDENTIFIER_PATTERN containerName then None
        else Some (serverId, containerName)
   }"

definition severityTone :: "MonitoringEvents.event_severity \<Rightarrow> console_tone" where
  "severityTone s =
     (if s = CriticalSeverity then DangerUi else if s = WarningSeverity then WarningUi
      else if s = RecoverySeverity then SuccessUi else InfoUi)"

definition transitionLabel :: "monitoring_event \<Rightarrow> event_transition option" where
  \<comment> \<open>\<open>None\<close> is the fixed text for a container killed for lack of memory; the others are those of the panel\<close>
  "transitionLabel e = (if ev_eventType e = OomKilled then None else Some (transition e))"

definition severityCount :: "monitoring_event list \<Rightarrow> MonitoringEvents.event_severity \<Rightarrow> nat" where
  "severityCount events s = length (filter (\<lambda>e. ev_severity e = s) events)"

record event_target_option =
  eto_serverId :: string
  eto_containerName :: string
  eto_hostDisplayName :: string

definition target_options :: "(string \<Rightarrow> string) \<Rightarrow> monitoring_snapshot option \<Rightarrow> event_target_option list" where
  "target_options collate snapshot =
     (case snapshot of
        None \<Rightarrow> []
      | Some s \<Rightarrow>
          sort_key (\<lambda>x. collate (eto_hostDisplayName x @ '':'' @ eto_containerName x))
            (List.map_filter (\<lambda>c. map_option (\<lambda>h.
                \<lparr> eto_serverId = ho_serverId h, eto_containerName = co_name c, eto_hostDisplayName = ho_displayName h \<rparr>)
                (map_of (index_by ho_id (ms_hosts s)) (co_hostId c))) (ms_containers s)))"

definition severity_name :: "MonitoringEvents.event_severity \<Rightarrow> string" where
  "severity_name s =
     (case s of InfoSeverity \<Rightarrow> ''info'' | WarningSeverity \<Rightarrow> ''warning'' | CriticalSeverity \<Rightarrow> ''critical''
      | RecoverySeverity \<Rightarrow> ''recovery'')"

record event_query =
  eq_range :: history_range
  eq_server :: "string option"
  eq_container :: "string option"
  eq_severity :: "string option"

definition event_query_of :: "search_params \<Rightarrow> event_query" where
  "event_query_of params =
     (let picked = parse_event_target (firstValue (params ''target''))
      in \<lparr> eq_range = parseHistoryRange (firstValue (params ''range'')), eq_server = map_option fst picked,
           eq_container = map_option snd picked,
           eq_severity = map_option severity_name (parseMonitoringEventSeverity (firstValue (params ''severity''))) \<rparr>)"

record event_line =
  evl_event :: monitoring_event
  evl_tone :: console_tone
  evl_transition :: "event_transition option"
  evl_age :: elapsed
  evl_href :: string

record events_page =
  evp_query :: event_query
  evp_error :: bool
  evp_counts :: "nat \<times> nat \<times> nat"
  evp_selected :: string
  evp_options :: "(string \<times> event_target_option) list"
  evp_lines :: "event_line list"

definition event_line_of :: "history_range \<Rightarrow> int \<Rightarrow> monitoring_event \<Rightarrow> event_line" where
  "event_line_of rng now e =
     \<lparr> evl_event = e, evl_tone = severityTone (ev_severity e), evl_transition = transitionLabel e,
       evl_age = formatRelativeTime (ev_occurredAt e) (iso_text now),
       evl_href = container_historyHref (ev_serverId e) (ev_containerName e) rng \<rparr>"

definition EventsPage ::
  "(string \<Rightarrow> string) \<Rightarrow> (event_query \<Rightarrow> monitoring_event list option) \<Rightarrow> monitoring_snapshot option \<Rightarrow> int \<Rightarrow>
   search_params \<Rightarrow> events_page" where
  \<comment> \<open>the feed may fail for a query; the snapshot only feeds the selection\<close>
  "EventsPage collate load snapshot now params =
     (let q = event_query_of params;
          events = (case load q of None \<Rightarrow> [] | Some l \<Rightarrow> l)
      in \<lparr> evp_query = q, evp_error = (load q = None),
           evp_counts = (severityCount events CriticalSeverity, severityCount events WarningSeverity,
             severityCount events RecoverySeverity),
           evp_selected = (case (eq_server q, eq_container q) of
             (Some sid, Some name) \<Rightarrow> sid @ ''/'' @ name | _ \<Rightarrow> ''all''),
           evp_options = map (\<lambda>x. (eto_serverId x @ ''/'' @ eto_containerName x, x)) (target_options collate snapshot),
           evp_lines = map (event_line_of (eq_range q) now) events \<rparr>)"

section \<open>The incident centre\<close>

datatype incident_amount =
    NotComputed | IncidentSeconds int | IncidentMinutes int int | IncidentHours int int | IncidentDays int int
  \<comment> \<open>the smaller unit is left out of the text where it is 0\<close>

definition incident_duration :: "int option \<Rightarrow> incident_amount" where
  \<comment> \<open>\<open>formatDuration\<close> of the incident centre\<close>
  "incident_duration seconds =
     (case seconds of
        None \<Rightarrow> NotComputed
      | Some s \<Rightarrow>
          if s < 60 then IncidentSeconds s
          else if s < 3600 then IncidentMinutes (s div 60) (s mod 60)
          else if s < 86400 then IncidentHours (s div 3600) (s mod 3600 div 60)
          else IncidentDays (s div 86400) (s mod 86400 div 3600))"

definition entityName :: "any_active \<Rightarrow> string" where
  "entityName i =
     (case i of
        BackupActive b \<Rightarrow> ba_backupTarget b
      | MonitoringActive a \<Rightarrow> (case ai_containerName a of None \<Rightarrow> ai_hostDisplayName a | Some n \<Rightarrow> n))"

definition recovered_name :: "any_recovered \<Rightarrow> string" where
  \<comment> \<open>\<open>entityName\<close> of a recovered incident\<close>
  "recovered_name i =
     (case i of
        BackupRecovered b \<Rightarrow> bi_backupTarget b
      | MonitoringRecovered r \<Rightarrow> (case ri_containerName r of None \<Rightarrow> ri_hostDisplayName r | Some n \<Rightarrow> n))"

definition upper_backup_type :: "backup_type \<Rightarrow> string" where
  \<comment> \<open>\<open>backupType.toUpperCase()\<close>\<close>
  "upper_backup_type t =
     (case t of WorldBackup \<Rightarrow> ''WORLD'' | ConfigBackup \<Rightarrow> ''CONFIG'' | PermissionsBackup \<Rightarrow> ''PERMISSIONS''
      | FullBackup \<Rightarrow> ''FULL'')"

definition entityMeta :: "any_active \<Rightarrow> string" where
  "entityMeta i =
     (case i of
        BackupActive b \<Rightarrow> ba_gameMode b @ '' / '' @ upper_backup_type (ba_backupType b) @ '' / '' @
          ba_hostDisplayName b @ '' / '' @ ba_serverId b
      | MonitoringActive a \<Rightarrow>
          (case nonempty (ai_containerName a) of
             Some _ \<Rightarrow> ai_hostDisplayName a @ '' / '' @ ai_serverId a | None \<Rightarrow> ai_serverId a @ '' / Host''))"

definition entityTypeLabel :: "any_active \<Rightarrow> string" where
  "entityTypeLabel i =
     (case i of
        BackupActive _ \<Rightarrow> ''BACKUP''
      | MonitoringActive a \<Rightarrow> (case ai_entityType a of HostEntity \<Rightarrow> ''HOST'' | ContainerEntity \<Rightarrow> ''CONTAINER''))"

definition incident_tone :: "incident_severity \<Rightarrow> console_tone" where
  \<comment> \<open>\<open>severityTone\<close> of the incident centre\<close>
  "incident_tone s = (if s = CriticalIncident then DangerUi else WarningUi)"

record incident_card =
  icd_type :: string
  icd_name :: string
  icd_meta :: string
  icd_tone :: console_tone
  icd_started :: "elapsed option"
  icd_duration :: incident_amount
  icd_detailHref :: string
  icd_eventsHref :: "string option"

definition incident_card_of :: "string \<Rightarrow> any_active \<Rightarrow> incident_card" where
  "incident_card_of generatedAt i =
     (let ago = (\<lambda>exact t. if exact then Some (case nonempty t of None \<Rightarrow> TimeUnknown
            | Some s \<Rightarrow> formatRelativeTime s generatedAt) else None)
      in \<lparr> icd_type = entityTypeLabel i, icd_name = entityName i, icd_meta = entityMeta i,
           icd_tone = incident_tone (any_severity i),
           icd_started = (case i of MonitoringActive a \<Rightarrow> ago (ai_exactStart a) (ai_startedAt a)
             | BackupActive b \<Rightarrow> ago (ba_exactStart b) (ba_startedAt b)),
           icd_duration = incident_duration (case i of MonitoringActive a \<Rightarrow> ai_durationSeconds a
             | BackupActive b \<Rightarrow> ba_durationSeconds b),
           icd_detailHref = (case i of MonitoringActive a \<Rightarrow> ai_detailHref a | BackupActive b \<Rightarrow> ba_detailHref b),
           icd_eventsHref = (case i of MonitoringActive a \<Rightarrow> Some (ai_eventsHref a) | BackupActive b \<Rightarrow> None) \<rparr>)"

record incidents_page =
  inp_range :: incident_range
  inp_failed :: bool
  inp_backupMissing :: bool
  inp_summary :: "incident_summary option"
  inp_activeTone :: console_tone
  inp_eventTone :: console_tone
  inp_median :: incident_amount
  inp_longest :: incident_amount
  inp_active :: "incident_card list"
  inp_recovered :: "(string \<times> console_tone \<times> incident_amount) list"

definition count_tone :: "nat \<Rightarrow> nat \<Rightarrow> console_tone" where
  \<comment> \<open>critical before warning\<close>
  "count_tone critical warnings = (if critical > 0 then DangerUi else if warnings > 0 then WarningUi else NeutralUi)"

definition recovered_row :: "any_recovered \<Rightarrow> string \<times> console_tone \<times> incident_amount" where
  "recovered_row i =
     (recovered_name i,
      incident_tone (case i of MonitoringRecovered r \<Rightarrow> ri_severity r | BackupRecovered b \<Rightarrow> bi_severity b),
      incident_duration (Some (any_durationSeconds i)))"

definition IncidentsPage :: "(incident_range \<Rightarrow> unified_snapshot option) \<Rightarrow> search_params \<Rightarrow> incidents_page" where
  "IncidentsPage load params =
     (let rng = parseIncidentRange (firstValue (params ''range''))
      in case load rng of
           None \<Rightarrow> \<lparr> inp_range = rng, inp_failed = True, inp_backupMissing = False, inp_summary = None,
             inp_activeTone = NeutralUi, inp_eventTone = NeutralUi, inp_median = NotComputed, inp_longest = NotComputed,
             inp_active = [], inp_recovered = [] \<rparr>
         | Some d \<Rightarrow>
             (let s = un_summary d
              in \<lparr> inp_range = rng, inp_failed = False, inp_backupMissing = (\<not> un_backupDataAvailable d),
                   inp_summary = Some s,
                   inp_activeTone = count_tone (su_activeCriticalCount s) (su_activeWarningCount s),
                   inp_eventTone = count_tone (su_criticalEventCount s) (su_warningEventCount s),
                   inp_median = incident_duration (su_medianRecoverySeconds s),
                   inp_longest = incident_duration (su_longestRecoverySeconds s),
                   inp_active = map (incident_card_of (un_generatedAt d)) (un_active d),
                   inp_recovered = map recovered_row (un_recovered d) \<rparr>))"

section \<open>The links to the events\<close>

definition events_link :: "string \<Rightarrow> string \<Rightarrow> string \<Rightarrow> string" where
  \<comment> \<open>what the links of the incidents and of the panel of a container have in common\<close>
  "events_link t serverId name = ''/events?range='' @ t @ ''&target='' @ encodeURIComponent (serverId @ ''/'' @ name)"

lemma panel_link: "evp_href (ContainerEventPanel events rng serverId name failed) = events_link (history_range_text rng) serverId name"
  by (simp add: ContainerEventPanel_def events_link_def)

lemma incident_link: "containerEventsHref serverId name rng = events_link (incident_range_text rng) serverId name"
  by (simp add: containerEventsHref_def events_link_def)

lemma events_link_query:
  assumes "list_all plain_char t"
  shows "parse_query (''range='' @ t @ ''&target='' @ encodeURIComponent picked) = [(''range'', t), (''target'', picked)]"
proof -
  let ?xs = "[''range'' @ CHR ''='' # t, ''target'' @ CHR ''='' # encodeURIComponent picked]"
  have names: "list_all plain_char ''range''" "list_all plain_char ''target''"
    by (simp_all add: plain_char_def code_def)
  have "parse_query (join ''&'' ?xs) = map parse_pair ?xs"
    using encodeURIComponent_chars [of picked] plain_no_separator [OF assms] by (intro parse_query_join) auto
  also have "\<dots> = [(''range'', t), (''target'', picked)]"
    using names assms by (simp only: list.map parse_pair_text [OF conjunct2 [OF plain_no_separator]]
        form_decode_plain form_decode_encodeURIComponent)
  finally show ?thesis by simp
qed

lemma events_link_params:
  assumes "list_all plain_char t"
  shows "link_params (events_link t serverId name) ''range'' = One t"
    and "link_params (events_link t serverId name) ''target'' = One (serverId @ ''/'' @ name)"
    and "link_params (events_link t serverId name) ''severity'' = Absent"
proof -
  have no_mark: "CHR ''?'' \<notin> set ''/events''" by simp
  have split: "events_link t serverId name =
      ''/events'' @ ''?'' @ (''range='' @ t @ ''&target='' @ encodeURIComponent (serverId @ ''/'' @ name))"
    by (simp add: events_link_def)
  have "link_params (events_link t serverId name) k = (case map snd (filter (\<lambda>p. fst p = k) [(''range'', t),
      (''target'', serverId @ ''/'' @ name)]) of [] \<Rightarrow> Absent | [v] \<Rightarrow> One v | vs \<Rightarrow> Many vs)" for k
    unfolding split by (simp only: link_params_path [OF no_mark] events_link_query [OF assms])
  then show "link_params (events_link t serverId name) ''range'' = One t"
    and "link_params (events_link t serverId name) ''target'' = One (serverId @ ''/'' @ name)"
    and "link_params (events_link t serverId name) ''severity'' = Absent" by simp_all
qed

lemma plain_range: "list_all plain_char (history_range_text rng)"
  by (cases rng) (simp_all add: history_range_text_def plain_char_def code_def)

lemma range_read: "parseHistoryRange (Some (history_range_text rng)) = rng"
  by (cases rng) (simp_all add: parseHistoryRange_def history_range_text_def nonempty_def)

lemma server_no_slash: "isValidHostServerId s \<Longrightarrow> CHR ''/'' \<notin> set s \<and> s \<noteq> []"
  using slash_no_id_char
  by (auto simp: isValidHostServerId_def SERVER_ID_PATTERN_def chars_between_def list_all_iff)

lemma identifier_not_empty: "CONTAINER_IDENTIFIER_PATTERN s \<Longrightarrow> s \<noteq> []"
  by (auto simp: CONTAINER_IDENTIFIER_PATTERN_def headed_chars_def)

lemma target_read:
  assumes "isValidHostServerId serverId" and "CONTAINER_IDENTIFIER_PATTERN name"
  shows "parse_event_target (Some (serverId @ ''/'' @ name)) = Some (serverId, name)"
proof -
  have p: "CHR ''/'' \<notin> set serverId" "serverId \<noteq> []" "name \<noteq> []"
    using server_no_slash [OF assms(1)] identifier_not_empty [OF assms(2)] by auto
  have "takeWhile (\<lambda>c. c \<noteq> CHR ''/'') (serverId @ ''/'' @ name) = serverId"
    "dropWhile (\<lambda>c. c \<noteq> CHR ''/'') (serverId @ ''/'' @ name) = ''/'' @ name"
    using p(1) by (subst takeWhile_append2 dropWhile_append2; auto)+
  then show ?thesis using p assms by (simp add: parse_event_target_def nonempty_def)
qed

lemma events_link_selects:
  assumes "isValidHostServerId serverId" and "CONTAINER_IDENTIFIER_PATTERN name"
  shows "event_query_of (link_params (events_link (history_range_text rng) serverId name)) =
    \<lparr> eq_range = rng, eq_server = Some serverId, eq_container = Some name, eq_severity = None \<rparr>"
  unfolding event_query_of_def Let_def events_link_params [OF plain_range]
  using range_read [of rng] target_read [OF assms] identifier_not_empty [OF assms(2)]
  by (cases rng) (simp_all add: firstValue_def nonempty_def history_range_text_def parseMonitoringEventSeverity_def)

lemma derived_container:
  assumes "i \<in> set (deriveActiveContainerIncidents snap grouped rng)"
  shows "\<exists>c \<in> set (ms_containers snap). \<exists>host \<in> set (ms_hosts snap).
    map_of (index_by ho_id (ms_hosts snap)) (co_hostId c) = Some host \<and> ai_serverId i = ho_serverId host \<and>
    ai_containerName i = Some (co_name c) \<and> ai_eventsHref i = containerEventsHref (ho_serverId host) (co_name c) rng"
proof -
  obtain c host status events where c: "c \<in> set (ms_containers snap)"
    "map_of (index_by ho_id (ms_hosts snap)) (co_hostId c) = Some host"
    "i = active_container_incident (ms_generatedAt snap) rng c status host events"
    using assms by (auto simp: deriveActiveContainerIncidents_def Let_def split: option.splits if_splits)
  from c(3) have "ai_serverId i = ho_serverId host" "ai_containerName i = Some (co_name c)"
    "ai_eventsHref i = containerEventsHref (ho_serverId host) (co_name c) rng"
    by (simp_all add: active_container_incident_def Let_def)
  moreover have "host \<in> set (ms_hosts snap)" using index_by_lookupD [OF c(2)] by simp
  ultimately show ?thesis using c(1,2) by blast
qed

lemma incident_range_history: "\<exists>h. history_range_text h = incident_range_text rng"
proof (cases rng)
  case Range24h
  then show ?thesis by (intro exI [of _ History24h]) (simp add: history_range_text_def incident_range_text_def)
next
  case Range7d
  then show ?thesis by (intro exI [of _ History7d]) (simp add: history_range_text_def incident_range_text_def)
next
  case Range30d
  then show ?thesis by (intro exI [of _ History30d]) (simp add: history_range_text_def incident_range_text_def)
qed

definition lists_container :: "monitoring_snapshot \<Rightarrow> string \<Rightarrow> string \<Rightarrow> bool" where
  \<comment> \<open>the snapshot has a container of this name on a host with this identifier\<close>
  "lists_container snap serverId name \<longleftrightarrow>
     (\<exists>c \<in> set (ms_containers snap). \<exists>host. map_of (index_by ho_id (ms_hosts snap)) (co_hostId c) = Some host \<and>
        ho_serverId host = serverId \<and> co_name c = name)"

lemma listed_container_is_offered:
  assumes "lists_container snap serverId name"
  shows "serverId @ ''/'' @ name \<in> fst ` set (evp_options (EventsPage collate load (Some snap) now params))"
proof -
  from assms obtain c host where c: "c \<in> set (ms_containers snap)"
    "map_of (index_by ho_id (ms_hosts snap)) (co_hostId c) = Some host" "ho_serverId host = serverId" "co_name c = name"
    by (auto simp: lists_container_def)
  have "\<lparr> eto_serverId = ho_serverId host, eto_containerName = co_name c, eto_hostDisplayName = ho_displayName host \<rparr>
      \<in> set (target_options collate (Some snap))"
    using c(1,2) by (auto simp: target_options_def set_map_filter)
  then show ?thesis using c(3,4) by (force simp: EventsPage_def Let_def)
qed

text \<open>C40. The events of an active incident of a container are one link away, when the identifier of its server and its
  own name satisfy the patterns of both (which the constraints of the tables demand): the list of events that the
  link of its card opens is asked for the range of the incident centre, for this server and container and for every
  severity, and names this container as selected, whatever snapshot the list reads for itself and even if it gets
  none. Its selection offers the container whenever that snapshot still lists it on that server, as the one the
  incident was derived from does.\<close>

theorem event_links_select_their_container:
  assumes "i \<in> set (deriveActiveContainerIncidents snap grouped rng)"
    and "isValidHostServerId (ai_serverId i)"
    and "\<forall>name. ai_containerName i = Some name \<longrightarrow> CONTAINER_IDENTIFIER_PATTERN name"
  shows "\<exists>href name page. icd_eventsHref (incident_card_of generatedAt (MonitoringActive i)) = Some href \<and>
    ai_containerName i = Some name \<and> page = EventsPage collate load current now (link_params href) \<and>
    history_range_text (eq_range (evp_query page)) = incident_range_text rng \<and>
    eq_server (evp_query page) = Some (ai_serverId i) \<and> eq_container (evp_query page) = Some name \<and>
    eq_severity (evp_query page) = None \<and> evp_selected page = ai_serverId i @ ''/'' @ name \<and>
    lists_container snap (ai_serverId i) name \<and>
    (\<forall>latest. current = Some latest \<longrightarrow> lists_container latest (ai_serverId i) name \<longrightarrow>
       evp_selected page \<in> fst ` set (evp_options page))"
proof -
  obtain c host where c: "c \<in> set (ms_containers snap)"
    "map_of (index_by ho_id (ms_hosts snap)) (co_hostId c) = Some host" "ai_serverId i = ho_serverId host"
    "ai_containerName i = Some (co_name c)" "ai_eventsHref i = containerEventsHref (ho_serverId host) (co_name c) rng"
    using derived_container [OF assms(1)] by blast
  obtain h where h: "history_range_text h = incident_range_text rng" using incident_range_history by blast
  let ?href = "ai_eventsHref i"
  let ?page = "EventsPage collate load current now (link_params ?href)"
  have "event_query_of (link_params ?href) =
      \<lparr> eq_range = h, eq_server = Some (ai_serverId i), eq_container = Some (co_name c), eq_severity = None \<rparr>"
    using events_link_selects [of "ai_serverId i" "co_name c" h] assms(2,3) c(4) by (simp add: c(3,5) incident_link h)
  then have q: "evp_query ?page = \<lparr> eq_range = h, eq_server = Some (ai_serverId i), eq_container = Some (co_name c),
      eq_severity = None \<rparr>" "evp_selected ?page = ai_serverId i @ ''/'' @ co_name c"
    by (simp_all add: EventsPage_def Let_def)
  have "lists_container snap (ai_serverId i) (co_name c)" using c(1-3) by (auto simp: lists_container_def)
  moreover have "icd_eventsHref (incident_card_of generatedAt (MonitoringActive i)) = Some ?href"
    by (simp add: incident_card_of_def Let_def)
  moreover have "evp_selected ?page \<in> fst ` set (evp_options ?page)"
    if "current = Some latest" "lists_container latest (ai_serverId i) (co_name c)" for latest
    using listed_container_is_offered [OF that(2), of collate load now "link_params ?href"] q(2) unfolding that(1)
    by metis
  ultimately show ?thesis
    by (intro exI [of _ ?href] exI [of _ "co_name c"] exI [of _ ?page]) (simp add: q c(4) h)
qed

text \<open>An incident of a container that is offline.\<close>

definition fallen_snapshot :: monitoring_snapshot where
  "fallen_snapshot = linked_snapshot\<lparr> ms_containers := [linked_container\<lparr> co_status := CtOffline \<rparr>] \<rparr>"

theorem event_links_select_their_container_witness:
  "\<exists>i href page. deriveActiveContainerIncidents fallen_snapshot [] Range7d = [i] \<and>
    icd_eventsHref (incident_card_of [] (MonitoringActive i)) = Some href \<and>
    page = EventsPage id (\<lambda>_. None) (Some linked_snapshot) 0 (link_params href) \<and>
    eq_server (evp_query page) = Some ''oci-1'' \<and> eq_container (evp_query page) = Some ''mc-main'' \<and>
    ''oci-1/mc-main'' \<in> fst ` set (evp_options page)"
proof -
  note lists = fallen_snapshot_def linked_snapshot_def linked_host_def linked_container_def
  obtain i where i: "deriveActiveContainerIncidents fallen_snapshot [] Range7d = [i]" "ai_serverId i = ''oci-1''"
    "ai_containerName i = Some ''mc-main''"
    by (simp add: deriveActiveContainerIncidents_def Let_def lists incident_status_of_def active_container_incident_def
        index_by_def)
  have ids: "isValidHostServerId (ai_serverId i)"
    "\<forall>name. ai_containerName i = Some name \<longrightarrow> CONTAINER_IDENTIFIER_PATTERN name"
    by (simp_all add: i isValidHostServerId_def js_eval)
  have offered: "lists_container linked_snapshot ''oci-1'' ''mc-main''"
    by (simp add: lists_container_def lists index_by_def)
  have "i \<in> set (deriveActiveContainerIncidents fallen_snapshot [] Range7d)" using i(1) by simp
  from event_links_select_their_container [OF this ids, of "[]" id "\<lambda>_. None" "Some linked_snapshot" 0]
  show ?thesis
  proof (elim exE conjE)
    fix href name page
    assume page: "icd_eventsHref (incident_card_of [] (MonitoringActive i)) = Some href"
      "ai_containerName i = Some name" "page = EventsPage id (\<lambda>_. None) (Some linked_snapshot) 0 (link_params href)"
      "eq_server (evp_query page) = Some (ai_serverId i)" "eq_container (evp_query page) = Some name"
      "evp_selected page = ai_serverId i @ ''/'' @ name"
      "\<forall>latest. Some linked_snapshot = Some latest \<longrightarrow> lists_container latest (ai_serverId i) name \<longrightarrow>
         evp_selected page \<in> fst ` set (evp_options page)"
    have name: "name = ''mc-main''" using page(2) i(3) by simp
    have "evp_selected page \<in> fst ` set (evp_options page)" using page(7) offered by (simp add: i(2) name)
    then have "''oci-1/mc-main'' \<in> fst ` set (evp_options page)" by (simp add: page(6) i(2) name)
    with page(1,3,4,5) i(1,2) name show ?thesis by (intro exI conjI) (assumption | simp only:)+
  qed
qed

end
