(* ===== verification/JsRegex.thy ===== *)
theory JsRegex
  imports JsValues
begin

text \<open>
  The regular expressions of JavaScript as far as the redaction of log messages uses them: classes, sequence,
  ordered choice, greedy repetition, groups, back references, word boundaries and one-character assertions, and
  \<open>String.replace\<close> with the flag \<open>g\<close>. An expression maps a cursor to the cursors it can reach, in the order
  in which the backtracking search tries them; the match is the first.
\<close>

datatype rx =
    Class "char \<Rightarrow> bool"
  | Eps
  | Seq rx rx
  | Alt rx rx
  | Repeat nat "nat option" rx  \<comment> \<open>at least, and at most where there is a bound\<close>
  | Group nat rx
  | Back nat
  | NotAfter "char \<Rightarrow> bool"  \<comment> \<open>\<open>(?<![...])\<close>\<close>
  | NotBefore "char \<Rightarrow> bool"  \<comment> \<open>\<open>(?![...])\<close>\<close>
  | WordBoundary

record cursor =
  cu_before :: string  \<comment> \<open>what was read, the last character first\<close>
  cu_rest :: string
  cu_groups :: "(nat \<times> string) list"

definition word_char :: "char \<Rightarrow> bool" where
  "word_char c \<longleftrightarrow> is_alnum c \<or> c = CHR ''_''"

definition head_is :: "(char \<Rightarrow> bool) \<Rightarrow> string \<Rightarrow> bool" where
  "head_is p s \<longleftrightarrow> (case s of [] \<Rightarrow> False | c # _ \<Rightarrow> p c)"

definition advance :: "nat \<Rightarrow> cursor \<Rightarrow> cursor" where
  "advance n c = c \<lparr> cu_before := rev (take n (cu_rest c)) @ cu_before c, cu_rest := drop n (cu_rest c) \<rparr>"

definition consumed :: "cursor \<Rightarrow> cursor \<Rightarrow> string" where
  "consumed c d = take (length (cu_rest c) - length (cu_rest d)) (cu_rest c)"

definition group_text :: "(nat \<times> string) list \<Rightarrow> nat \<Rightarrow> string" where
  \<comment> \<open>a group that took no part is the empty text\<close>
  "group_text groups n = (case map_of groups n of None \<Rightarrow> [] | Some s \<Rightarrow> s)"

fun repeat_runs :: "(cursor \<Rightarrow> cursor list) \<Rightarrow> nat \<Rightarrow> nat \<Rightarrow> nat option \<Rightarrow> cursor \<Rightarrow> cursor list" where
  \<comment> \<open>every further round reads a character, so the length of the rest is enough fuel\<close>
  "repeat_runs f 0 least most c = (if least = 0 \<or> most = Some 0 then [c] else [])"
| "repeat_runs f (Suc fuel) least most c =
     (if most = Some 0 then [c]
      else concat (map (repeat_runs f fuel (least - 1) (map_option (\<lambda>n. n - 1) most))
             (filter (\<lambda>d. length (cu_rest d) < length (cu_rest c)) (f c))) @
           (if least = 0 then [c] else []))"

primrec runs :: "rx \<Rightarrow> cursor \<Rightarrow> cursor list" where
  "runs (Class p) c = (if head_is p (cu_rest c) then [advance 1 c] else [])"
| "runs Eps c = [c]"
| "runs (Seq a b) c = concat (map (runs b) (runs a c))"
| "runs (Alt a b) c = runs a c @ runs b c"
| "runs (Repeat least most a) c = repeat_runs (runs a) (length (cu_rest c)) least most c"
| "runs (Group n a) c = map (\<lambda>d. d \<lparr> cu_groups := (n, consumed c d) # cu_groups d \<rparr>) (runs a c)"
| "runs (Back n) c =
     (let s = group_text (cu_groups c) n in if starts_with s (cu_rest c) then [advance (length s) c] else [])"
| "runs (NotAfter p) c = (if head_is p (cu_before c) then [] else [c])"
| "runs (NotBefore p) c = (if head_is p (cu_rest c) then [] else [c])"
| "runs WordBoundary c =
     (if head_is word_char (cu_before c) = head_is word_char (cu_rest c) then [] else [c])"

definition match_at :: "rx \<Rightarrow> string \<Rightarrow> string \<Rightarrow> cursor option" where
  "match_at r prior rest =
     (case runs r \<lparr> cu_before = prior, cu_rest = rest, cu_groups = [] \<rparr> of [] \<Rightarrow> None | d # _ \<Rightarrow> Some d)"

text \<open>The replacement gets the groups and the matched text. The expressions in use match no empty text.\<close>

function replace_from :: "rx \<Rightarrow> ((nat \<times> string) list \<Rightarrow> string \<Rightarrow> string) \<Rightarrow> string \<Rightarrow> string \<Rightarrow> string" where
  "replace_from r f prior [] = []"
| "replace_from r f prior (x # xs) =
     (case match_at r prior (x # xs) of
        Some d \<Rightarrow>
          if length (cu_rest d) \<le> length xs
          then f (cu_groups d) (take (Suc (length xs) - length (cu_rest d)) (x # xs)) @
               replace_from r f (cu_before d) (cu_rest d)
          else x # replace_from r f (x # prior) xs
      | None \<Rightarrow> x # replace_from r f (x # prior) xs)"
  by pat_completeness auto
termination by (relation "measure (\<lambda>(r, f, prior, s). length s)") auto

definition js_replace :: "rx \<Rightarrow> ((nat \<times> string) list \<Rightarrow> string \<Rightarrow> string) \<Rightarrow> string \<Rightarrow> string" where
  "js_replace r f s = replace_from r f [] s"

fun seqs :: "rx list \<Rightarrow> rx" where
  "seqs [] = Eps"
| "seqs [r] = r"
| "seqs (r # rs) = Seq r (seqs rs)"

fun alts :: "rx list \<Rightarrow> rx" where
  "alts [] = Class (\<lambda>_. False)"
| "alts [r] = r"
| "alts (r # rs) = Alt r (alts rs)"

definition chr :: "char \<Rightarrow> rx" where
  "chr c = Class (\<lambda>d. d = c)"

definition chr_i :: "char \<Rightarrow> rx" where
  \<comment> \<open>ignoring case\<close>
  "chr_i c = Class (\<lambda>d. lower_char d = lower_char c)"

definition word_i :: "string \<Rightarrow> rx" where
  "word_i s = seqs (map chr_i s)"

definition optional :: "rx \<Rightarrow> rx" where
  "optional r = Repeat 0 (Some 1) r"

definition star :: "rx \<Rightarrow> rx" where
  "star r = Repeat 0 None r"

definition plus_rx :: "rx \<Rightarrow> rx" where
  "plus_rx r = Repeat 1 None r"

section \<open>What a run reads\<close>

definition reads :: "cursor \<Rightarrow> cursor \<Rightarrow> bool" where
  \<comment> \<open>the second cursor is reached from the first by reading a part of its rest\<close>
  "reads c d \<longleftrightarrow> (\<exists>s. cu_rest c = s @ cu_rest d \<and> cu_before d = rev s @ cu_before c)"

lemma reads_refl [simp]: "reads c c"
  by (auto simp: reads_def)

lemma reads_trans [trans]: "reads c d \<Longrightarrow> reads d e \<Longrightarrow> reads c e"
  by (force simp: reads_def)

lemma reads_advance [simp]: "n \<le> length (cu_rest c) \<Longrightarrow> reads c (advance n c)"
  by (auto simp: reads_def advance_def intro: exI [of _ "take n (cu_rest c)"])

lemma reads_groups [simp]: "reads c (d \<lparr> cu_groups := g \<rparr>) \<longleftrightarrow> reads c d"
  by (simp add: reads_def)

lemma reads_consumed: "reads c d \<Longrightarrow> cu_rest c = consumed c d @ cu_rest d \<and> cu_before d = rev (consumed c d) @ cu_before c"
  by (auto simp: reads_def consumed_def)

lemma repeat_runs_step:
  assumes "d \<in> set (repeat_runs f (Suc fuel) least most c)"
  obtains "d = c" | e where "e \<in> set (f c)" "length (cu_rest e) < length (cu_rest c)"
    "d \<in> set (repeat_runs f fuel (least - 1) (map_option (\<lambda>n. n - 1) most) e)"
  using assms by (auto split: if_splits)

lemma repeat_runs_invariant:
  assumes "\<And>c d. d \<in> set (f c) \<Longrightarrow> P c \<Longrightarrow> P d" "d \<in> set (repeat_runs f fuel least most c)" "P c"
  shows "P d"
  using assms(2,3)
proof (induction fuel arbitrary: least most c)
  case (Suc fuel)
  from Suc.prems(1) show ?case
    by (rule repeat_runs_step) (use Suc assms(1) in blast)+
qed (auto split: if_splits)

lemma runs_reads: "d \<in> set (runs r c) \<Longrightarrow> reads c d"
proof (induction r arbitrary: c d)
  case (Class p)
  then show ?case by (cases "cu_rest c") (auto simp: head_is_def split: if_splits)
next
  case (Seq a b)
  from Seq.prems obtain e where "e \<in> set (runs a c)" "d \<in> set (runs b e)" by auto
  with Seq.IH reads_trans show ?case by blast
next
  case (Repeat least most r)
  then show ?case
    using repeat_runs_invariant [of "runs r" "reads c"] reads_trans by (metis reads_refl runs.simps(5))
next
  case (Back n)
  then show ?case by (auto simp: Let_def starts_with_def intro!: reads_advance dest: arg_cong [of _ _ length] split: if_splits)
qed (auto split: if_splits)

text \<open>More fuel than the length of the rest changes nothing.\<close>

lemma repeat_runs_fuel:
  assumes "length (cu_rest c) \<le> fuel" "length (cu_rest c) \<le> fuel'"
  shows "repeat_runs f fuel least most c = repeat_runs f fuel' least most c"
  using assms
proof (induction f fuel least most c arbitrary: fuel' rule: repeat_runs.induct)
  case (1 f least most c)
  then show ?case by (cases fuel') auto
next
  case (2 f fuel least most c)
  show ?case
  proof (cases fuel')
    case 0
    with "2.prems" show ?thesis by auto
  next
    case (Suc n)
    have "repeat_runs f fuel (least - 1) (map_option (\<lambda>n. n - 1) most) d = repeat_runs f n (least - 1) (map_option (\<lambda>n. n - 1) most) d"
      if "d \<in> set (filter (\<lambda>d. length (cu_rest d) < length (cu_rest c)) (f c))" "most \<noteq> Some 0" for d
      using "2.IH" that "2.prems" Suc by simp
    then show ?thesis by (auto simp: Suc intro!: arg_cong [of _ _ concat])
  qed
qed

lemma match_at_reads:
  assumes "match_at r prior rest = Some d"
  shows "rest = take (length rest - length (cu_rest d)) rest @ cu_rest d \<and>
    cu_before d = rev (take (length rest - length (cu_rest d)) rest) @ prior"
proof -
  from assms have "d \<in> set (runs r \<lparr> cu_before = prior, cu_rest = rest, cu_groups = [] \<rparr>)"
    by (auto simp: match_at_def split: list.splits)
  from reads_consumed [OF runs_reads [OF this]] show ?thesis by (simp add: consumed_def)
qed

section \<open>Replacing\<close>

text \<open>The two equations that determine what is replaced: a character at which no match begins is kept, and
  the first match is replaced as a whole.\<close>

lemma replace_keeps:
  assumes "match_at r prior (x # xs) = None"
  shows "replace_from r f prior (x # xs) = x # replace_from r f (x # prior) xs"
  using assms by simp

lemma replace_matched:
  assumes "match_at r prior (m @ rest) = Some d" "cu_rest d = rest" "m \<noteq> []"
  shows "replace_from r f prior (m @ rest) = f (cu_groups d) m @ replace_from r f (rev m @ prior) rest"
proof (cases m)
  case (Cons x xs)
  with assms match_at_reads [OF assms(1)] show ?thesis by simp
qed (use assms(3) in simp)

lemma replace_no_match:
  assumes "\<And>u x v. s = u @ x # v \<Longrightarrow> match_at r (rev u @ prior) (x # v) = None"
  shows "replace_from r f prior s = s"
  using assms
proof (induction s arbitrary: prior)
  case (Cons x xs)
  from Cons.prems [of "[]" x xs] have "match_at r prior (x # xs) = None" by simp
  moreover have "replace_from r f (x # prior) xs = xs"
  proof (rule Cons.IH)
    fix u y v
    assume "xs = u @ y # v"
    with Cons.prems [of "x # u" y v] show "match_at r (rev u @ x # prior) (y # v) = None" by simp
  qed
  ultimately show ?case by simp
qed simp

lemma js_replace_no_match:
  assumes "\<And>u x v. s = u @ x # v \<Longrightarrow> match_at r (rev u) (x # v) = None"
  shows "js_replace r f s = s"
  unfolding js_replace_def by (rule replace_no_match) (use assms in simp)

lemma replace_class: "js_replace (Class p) (\<lambda>_ _. s) t = concat (map (\<lambda>c. if p c then s else [c]) t)"
proof -
  have "replace_from (Class p) (\<lambda>_ _. s) prior t = concat (map (\<lambda>c. if p c then s else [c]) t)" for prior
    by (induction t arbitrary: prior) (simp_all add: match_at_def head_is_def advance_def)
  then show ?thesis by (simp add: js_replace_def)
qed

text \<open>Characters of the result are characters of the text or come from a replacement.\<close>

definition groups_within :: "char set \<Rightarrow> (nat \<times> string) list \<Rightarrow> bool" where
  "groups_within A g \<longleftrightarrow> (\<forall>(n, s) \<in> set g. set s \<subseteq> A)"

lemma consumed_subset: "set (consumed c d) \<subseteq> set (cu_rest c)"
  by (simp add: consumed_def set_take_subset)

lemma reads_subset: "reads c d \<Longrightarrow> set (cu_rest d) \<subseteq> set (cu_rest c)"
  by (auto simp: reads_def)

lemma runs_within:
  "d \<in> set (runs r c) \<Longrightarrow> set (cu_rest c) \<subseteq> A \<Longrightarrow> groups_within A (cu_groups c) \<Longrightarrow>
     set (cu_rest d) \<subseteq> A \<and> groups_within A (cu_groups d)"
proof (induction r arbitrary: c d)
  case (Class p)
  then show ?case by (auto simp: advance_def dest: in_set_dropD split: if_splits)
next
  case (Seq a b)
  from Seq.prems obtain e where e: "e \<in> set (runs a c)" "d \<in> set (runs b e)" by auto
  from Seq.IH(1) [OF e(1) Seq.prems(2,3)] Seq.IH(2) [OF e(2)] show ?case by blast
next
  case (Repeat least most r)
  have d: "d \<in> set (repeat_runs (runs r) (length (cu_rest c)) least most c)"
    using Repeat.prems(1) by (simp only: runs.simps)
  have step: "set (cu_rest e') \<subseteq> A \<and> groups_within A (cu_groups e')"
    if "e' \<in> set (runs r e)" "set (cu_rest e) \<subseteq> A \<and> groups_within A (cu_groups e)" for e e'
    using Repeat.IH [OF that(1)] that(2) by blast
  show ?case
    by (rule repeat_runs_invariant [where f = "runs r" and P = "\<lambda>e. set (cu_rest e) \<subseteq> A \<and> groups_within A (cu_groups e)", OF step d])
      (use Repeat.prems in blast)+
next
  case (Group n r)
  then obtain e where e: "e \<in> set (runs r c)" "d = e \<lparr> cu_groups := (n, consumed c e) # cu_groups e \<rparr>" by auto
  from Group.IH [OF e(1) Group.prems(2,3)] have w: "set (cu_rest e) \<subseteq> A" "groups_within A (cu_groups e)" by auto
  from consumed_subset [of c e] Group.prems(2) have "set (consumed c e) \<subseteq> A" by (rule order_trans)
  with w show ?case unfolding e(2) by (simp add: groups_within_def)
next
  case (Alt a b)
  then show ?case unfolding runs.simps set_append by blast
next
  case (Back n)
  then show ?case by (auto simp: Let_def advance_def dest: in_set_dropD split: if_splits)
qed (auto split: if_splits)

lemma replace_from_within:
  assumes "\<And>g m. groups_within A g \<Longrightarrow> set m \<subseteq> A \<Longrightarrow> set (f g m) \<subseteq> A" "set s \<subseteq> A"
  shows "set (replace_from r f prior s) \<subseteq> A"
  using assms
proof (induction r f prior s rule: replace_from.induct)
  case (2 r f prior x xs)
  show ?case
  proof (cases "match_at r prior (x # xs)")
    case None
    with 2 show ?thesis by simp
  next
    case (Some d)
    then have "d \<in> set (runs r \<lparr> cu_before = prior, cu_rest = x # xs, cu_groups = [] \<rparr>)"
      by (auto simp: match_at_def split: list.splits)
    from runs_within [OF this, of A] "2.prems" have d: "set (cu_rest d) \<subseteq> A" "groups_within A (cu_groups d)"
      by (auto simp: groups_within_def)
    show ?thesis
    proof (cases "length (cu_rest d) \<le> length xs")
      case True
      have "set (f (cu_groups d) (take (Suc (length xs) - length (cu_rest d)) (x # xs))) \<subseteq> A"
        by (rule "2.prems"(1) [OF d(2)]) (use "2.prems"(2) in \<open>meson order_trans set_take_subset\<close>)
      moreover have "set (replace_from r f (cu_before d) (cu_rest d)) \<subseteq> A"
        using "2.IH"(2) [OF Some True "2.prems"(1) d(1)] by simp
      ultimately show ?thesis using Some True by simp
    next
      case False
      with 2 Some show ?thesis by simp
    qed
  qed
qed simp

lemma js_replace_within:
  "(\<And>g m. groups_within A g \<Longrightarrow> set m \<subseteq> A \<Longrightarrow> set (f g m) \<subseteq> A) \<Longrightarrow> set s \<subseteq> A \<Longrightarrow> set (js_replace r f s) \<subseteq> A"
  unfolding js_replace_def by (rule replace_from_within)

lemma group_text_within: "groups_within A g \<Longrightarrow> set (group_text g n) \<subseteq> A"
  by (cases "map_of g n") (auto simp: groups_within_def group_text_def dest!: map_of_SomeD)

end
