(* ===== verification/LogRedaction.thy ===== *)
theory LogRedaction
  imports JsRegex
begin

text \<open>
  The redaction of log messages (\<open>redactConsoleLogMessage\<close> of \<open>lib/log-report.ts\<close>): terminal and Minecraft
  formatting is removed, control characters become spaces, credentials and addresses are replaced, and the
  text is cut. \<open>isIP\<close> of Node is a parameter.
\<close>

section \<open>Expressions\<close>

definition char_in :: "nat \<Rightarrow> nat \<Rightarrow> char \<Rightarrow> bool" where
  "char_in a b c \<longleftrightarrow> a \<le> code c \<and> code c \<le> b"

definition hex_class :: "char \<Rightarrow> bool" where
  "hex_class c \<longleftrightarrow> is_digit c \<or> char_in 65 70 c \<or> char_in 97 102 c"

definition ANSI_PATTERN :: rx where
  \<comment> \<open>\<open>/\x1b\[[0-?]*[ -/]*[@-~]/g\<close>\<close>
  "ANSI_PATTERN = seqs [chr CHR 0x1B, chr CHR ''['', star (Class (char_in 48 63)), star (Class (char_in 32 47)),
     Class (char_in 64 126)]"

definition minecraft_code :: "char \<Rightarrow> bool" where
  "minecraft_code c \<longleftrightarrow> is_digit c \<or> char_in 65 70 c \<or> char_in 75 79 c \<or> char_in 97 102 c \<or> char_in 107 111 c \<or>
     lower_char c = CHR ''r'' \<or> lower_char c = CHR ''x''"

definition MINECRAFT_FORMAT_PATTERN :: rx where
  "MINECRAFT_FORMAT_PATTERN = Seq (chr CHR 0xA7) (Class minecraft_code)"

definition octet :: rx where
  \<comment> \<open>\<open>25[0-5]|2[0-4]\d|1?\d?\d\<close>\<close>
  "octet = alts [seqs [chr CHR ''2'', chr CHR ''5'', Class (char_in 48 53)],
     seqs [chr CHR ''2'', Class (char_in 48 52), Class is_digit],
     seqs [optional (chr CHR ''1''), optional (Class is_digit), Class is_digit]]"

definition ipv4_neighbour :: "char \<Rightarrow> bool" where
  "ipv4_neighbour c \<longleftrightarrow> is_digit c \<or> c = CHR ''.''"

definition IPV4_PATTERN :: rx where
  "IPV4_PATTERN = seqs [NotAfter ipv4_neighbour, octet, Repeat 3 (Some 3) (Seq (chr CHR ''.'') octet),
     NotBefore ipv4_neighbour]"

definition ipv6_neighbour :: "char \<Rightarrow> bool" where
  "ipv6_neighbour c \<longleftrightarrow> hex_class c \<or> c = CHR '':''"

definition ipv6_of :: "nat \<Rightarrow> rx" where
  "ipv6_of least = seqs [NotAfter ipv6_neighbour,
     Repeat 2 (Some 7) (Seq (Repeat least (Some 4) (Class hex_class)) (chr CHR '':'')),
     Repeat 0 (Some 4) (Class hex_class), NotBefore ipv6_neighbour]"

definition IPV6_PATTERN :: rx where
  "IPV6_PATTERN = ipv6_of 1"

definition IPV6_CANDIDATE_PATTERN :: rx where
  "IPV6_CANDIDATE_PATTERN = ipv6_of 0"

definition bearer_char :: "char \<Rightarrow> bool" where
  "bearer_char c \<longleftrightarrow> is_alnum c \<or> c \<in> set ''._~+/=-''"

definition BEARER_PATTERN :: rx where
  "BEARER_PATTERN = seqs [WordBoundary, word_i ''Bearer'', plus_rx (Class is_space), Repeat 8 None (Class bearer_char)]"

definition one_char :: "string \<Rightarrow> rx" where
  "one_char s = Class (\<lambda>c. c \<in> set s)"

definition dashed :: "string \<Rightarrow> string \<Rightarrow> rx" where
  \<comment> \<open>two words with at most one of \<open>_\<close> and \<open>-\<close> between them\<close>
  "dashed a b = seqs [word_i a, optional (one_char ''_-''), word_i b]"

definition SECRET_QUERY_PATTERN :: rx where
  "SECRET_QUERY_PATTERN =
     Seq (Group 1 (seqs [one_char ''?&'',
       alts [dashed ''access'' ''token'', dashed ''refresh'' ''token'', word_i ''token'', word_i ''password'',
         word_i ''passwd'', word_i ''secret'', dashed ''rcon'' ''password'', dashed ''forwarding'' ''secret''],
       chr CHR ''='']))
     (plus_rx (Class (\<lambda>c. c \<noteq> CHR ''&'' \<and> \<not> is_space c)))"

definition secret_name :: rx where
  "secret_name = alts [word_i ''authorization'', dashed ''access'' ''token'', dashed ''refresh'' ''token'', word_i ''token'',
     word_i ''password'', word_i ''passwd'', word_i ''secret'',
     Seq (word_i ''rcon'') (optional (Seq (optional (one_char ''._-'')) (word_i ''password''))),
     seqs [word_i ''forwarding'', optional (one_char ''._-''), word_i ''secret'']]"

definition assignment_sign :: rx where
  "assignment_sign = Alt (seqs [star (Class is_space), one_char '':='', star (Class is_space)]) (plus_rx (Class is_space))"

definition quote_char :: "char \<Rightarrow> bool" where
  "quote_char c \<longleftrightarrow> c = CHR ''\"'' \<or> c = CHR 0x27"

definition assignment :: "rx \<Rightarrow> rx" where
  "assignment secret = seqs [WordBoundary, Group 1 secret_name, WordBoundary, Group 2 (optional (Class quote_char)),
     Group 3 assignment_sign, secret]"

definition SECRET_QUOTED_ASSIGNMENT_PATTERN :: rx where
  "SECRET_QUOTED_ASSIGNMENT_PATTERN = assignment
     (seqs [Group 4 (Class quote_char), Group 5 (star (Class (\<lambda>c. \<not> quote_char c))), Back 4])"

definition SECRET_ASSIGNMENT_PATTERN :: rx where
  "SECRET_ASSIGNMENT_PATTERN = assignment
     (Group 4 (plus_rx (Class (\<lambda>c. \<not> (is_space c \<or> c \<in> set '',;}'' \<or> quote_char c)))))"

definition CONTROL_PATTERN :: rx where
  "CONTROL_PATTERN = Class (\<lambda>c. code c \<le> 31 \<or> code c = 127)"

section \<open>Redaction\<close>

definition put :: "string \<Rightarrow> (nat \<times> string) list \<Rightarrow> string \<Rightarrow> string" where
  "put s groups matched = s"

definition keep_groups :: "nat list \<Rightarrow> string \<Rightarrow> (nat \<times> string) list \<Rightarrow> string \<Rightarrow> string" where
  "keep_groups ns s groups matched = concat (map (group_text groups) ns) @ s"

definition redactCompressedIpv6Candidates :: "(string \<Rightarrow> bool) \<Rightarrow> string \<Rightarrow> string" where
  "redactCompressedIpv6Candidates is_ipv6 message =
     js_replace IPV6_CANDIDATE_PATTERN (\<lambda>groups candidate. if is_ipv6 candidate then ''[REDACTED_IP]'' else candidate) message"

definition replacements :: "(rx \<times> ((nat \<times> string) list \<Rightarrow> string \<Rightarrow> string)) list" where
  \<comment> \<open>the calls of \<open>replace\<close> in their order\<close>
  "replacements =
     [(ANSI_PATTERN, put []), (MINECRAFT_FORMAT_PATTERN, put []), (CONTROL_PATTERN, put '' ''),
      (BEARER_PATTERN, put ''Bearer [REDACTED]''), (SECRET_QUERY_PATTERN, keep_groups [1] ''[REDACTED]''),
      (SECRET_QUOTED_ASSIGNMENT_PATTERN, \<lambda>groups matched. keep_groups [1, 2, 3, 4] ''[REDACTED]'' groups matched @ group_text groups 4),
      (SECRET_ASSIGNMENT_PATTERN, keep_groups [1, 2, 3] ''[REDACTED]''),
      (IPV4_PATTERN, put ''[REDACTED_IP]''), (IPV6_PATTERN, put ''[REDACTED_IP]'')]"

definition replace_in_turn :: "(rx \<times> ((nat \<times> string) list \<Rightarrow> string \<Rightarrow> string)) list \<Rightarrow> string \<Rightarrow> string" where
  "replace_in_turn rules message = fold (\<lambda>(r, f) s. js_replace r f s) rules message"

definition MAX_MESSAGE_CHARACTERS :: nat where
  "MAX_MESSAGE_CHARACTERS = 2048"

definition redactConsoleLogMessage :: "(string \<Rightarrow> bool) \<Rightarrow> string \<Rightarrow> string" where
  "redactConsoleLogMessage is_ipv6 message =
     take MAX_MESSAGE_CHARACTERS (trim (js_replace (plus_rx (Class is_space)) (put '' '')
       (redactCompressedIpv6Candidates is_ipv6 (replace_in_turn replacements message))))"

section \<open>What a redacted message holds\<close>

definition printable :: "char \<Rightarrow> bool" where
  "printable c \<longleftrightarrow> 32 \<le> code c \<and> code c \<noteq> 127"

lemma put_within: "set s \<subseteq> A \<Longrightarrow> set (put s groups matched) \<subseteq> A"
  by (simp add: put_def)

lemma keep_groups_within: "groups_within A groups \<Longrightarrow> set s \<subseteq> A \<Longrightarrow> set (keep_groups ns s groups matched) \<subseteq> A"
  using group_text_within [of A groups] by (auto simp: keep_groups_def)

lemma replace_in_turn_Cons:
  "replace_in_turn ((r, f) # rules) s = replace_in_turn rules (js_replace r f s)"
  by (simp add: replace_in_turn_def)

lemma replace_in_turn_within:
  assumes "\<And>r f g m. (r, f) \<in> set rules \<Longrightarrow> groups_within A g \<Longrightarrow> set m \<subseteq> A \<Longrightarrow> set (f g m) \<subseteq> A" "set s \<subseteq> A"
  shows "set (replace_in_turn rules s) \<subseteq> A"
  using assms
proof (induction rules arbitrary: s)
  case (Cons rule rules)
  obtain r f where rule: "rule = (r, f)" by (cases rule)
  have "set (js_replace r f s) \<subseteq> A"
    by (rule js_replace_within) (use Cons.prems(1) [of r f] Cons.prems(2) rule in simp_all)
  moreover have "set (f' g m) \<subseteq> A" if "(r', f') \<in> set rules" "groups_within A g" "set m \<subseteq> A" for r' f' g m
    using Cons.prems(1) [of r' f' g m] that by simp
  ultimately have "set (replace_in_turn rules (js_replace r f s)) \<subseteq> A" by (intro Cons.IH)
  then show ?case by (simp add: rule replace_in_turn_Cons)
qed (simp add: replace_in_turn_def)

lemma control_replaced: "set (js_replace CONTROL_PATTERN (put '' '') s) \<subseteq> Collect printable"
  unfolding CONTROL_PATTERN_def put_def replace_class
  by (auto simp: printable_def code_def)

lemma set_trim: "set (trim s) \<subseteq> set s"
  by (auto simp: trim_def dest!: set_dropWhileD)

lemma replacements_split:
  "replace_in_turn replacements s = replace_in_turn (drop 3 replacements) (js_replace CONTROL_PATTERN (put '' '')
     (js_replace MINECRAFT_FORMAT_PATTERN (put []) (js_replace ANSI_PATTERN (put []) s)))"
  by (simp add: replacements_def replace_in_turn_def)

lemma redacted_printable:
  "list_all printable (redactConsoleLogMessage is_ipv6 message) \<and>
     length (redactConsoleLogMessage is_ipv6 message) \<le> MAX_MESSAGE_CHARACTERS"
proof -
  let ?A = "Collect printable"
  have const: "set ''Bearer [REDACTED]'' \<subseteq> ?A" "set ''[REDACTED]'' \<subseteq> ?A" "set ''[REDACTED_IP]'' \<subseteq> ?A" "set '' '' \<subseteq> ?A"
    by (simp_all add: printable_def code_def)
  have rules: "set (f g m) \<subseteq> ?A" if "(r, f) \<in> set (drop 3 replacements)" "groups_within ?A g" for r f g m
  proof -
    have "printable x" if "x \<in> set (group_text g n)" for x n
      using group_text_within [OF \<open>groups_within ?A g\<close>, of n] that by blast
    with that(1) show ?thesis
      by (auto simp: replacements_def put_def keep_groups_def) (simp_all add: printable_def code_def)
  qed
  have "set (replace_in_turn replacements message) \<subseteq> ?A"
    unfolding replacements_split by (rule replace_in_turn_within) (use rules control_replaced in blast)+
  then have "set (redactCompressedIpv6Candidates is_ipv6 (replace_in_turn replacements message)) \<subseteq> ?A"
    unfolding redactCompressedIpv6Candidates_def by (intro js_replace_within) (use const in \<open>auto split: if_splits\<close>)
  then have "set (js_replace (plus_rx (Class is_space)) (put '' '')
      (redactCompressedIpv6Candidates is_ipv6 (replace_in_turn replacements message))) \<subseteq> ?A"
    by (intro js_replace_within put_within const)
  then show ?thesis
    using set_trim by (auto simp: redactConsoleLogMessage_def list_all_iff dest!: in_set_takeD)
qed

text \<open>Two shapes of credentials that pass: the scheme of an authorization is taken for its value, and the name of a
  variable that only ends in a listed word has no word boundary before it.\<close>

lemma basic_credentials_pass:
  "redactConsoleLogMessage (\<lambda>_. False) ''Authorization: Basic dXNlcjpw'' = ''Authorization: [REDACTED] dXNlcjpw''"
  by code_simp

lemma prefixed_password_passes: "redactConsoleLogMessage (\<lambda>_. False) ''DB_PASSWORD=hunter2'' = ''DB_PASSWORD=hunter2''"
  by code_simp

end
