(* ===== verification/ReportRoutes.thy ===== *)
theory ReportRoutes
  imports AgentAuth
begin

text \<open>
  What the reporting routes of the agents share (\<open>app/api/agent/heartbeat\<close>, \<open>app/api/agent/backups\<close>):
  read a bounded body, parse it, check the signature against the secret of the server it names, and
  store it. The interface \<open>report_route\<close> states what a route's parser has to guarantee, and the lemma
  in it what an accepted report then shows. One instant stands for the successive readings of the
  clock while a request is handled.
\<close>

record report_services =
  rs_env :: environment
  rs_crypto :: agent_crypto
  rs_parse_json :: "string \<Rightarrow> jsval option"
  rs_decode_json :: "byte list \<Rightarrow> jsval option"

text \<open>How the database may answer the call that stores a report.\<close>

datatype store_answer =
    StoreNotConfigured
  | StoreThrew
  | StoreFailed  \<comment> \<open>a status that is not a success\<close>
  | StoreAnswered jsval

definition read_report_body :: "nat \<Rightarrow> header_reader \<Rightarrow> byte list list option \<Rightarrow> agent_error + byte list" where
  "read_report_body limit header body =
     (if \<not> json_content header then Inl (415, ''unsupported_media_type'')
      else if declared_too_large limit header then Inl (413, ''payload_too_large'')
      else (case read_chunks limit 0 (case body of None \<Rightarrow> [] | Some chunks \<Rightarrow> chunks) of
              None \<Rightarrow> Inl (413, ''payload_too_large'')
            | Some read \<Rightarrow> if concat read = [] then Inl (400, ''empty_payload'') else Inr (concat read)))"

definition readAgentSecrets :: "report_services \<Rightarrow> agent_error + secret_map" where
  "readAgentSecrets s =
     (case parseAgentSecretMaps (rs_parse_json s) (rs_env s ''IVRM_AGENT_SECRETS_JSON'')
             (rs_env s ''IVRM_AGENT_SECRETS_ADDITIONAL_JSON'') of
        Inl _ \<Rightarrow> Inl (503, ''service_not_configured'')
      | Inr secrets \<Rightarrow> Inr secrets)"

definition authenticate_report ::
  "report_services \<Rightarrow> header_reader \<Rightarrow> byte list \<Rightarrow> string \<Rightarrow> int \<Rightarrow> agent_error + string \<times> string" where
  "authenticate_report s header rawBody serverId now =
     (if header_or_empty header ''x-ivrm-agent-id'' \<noteq> serverId then Inl (401, ''agent_id_mismatch'')
      else check_signature (rs_crypto s) header rawBody serverId (readAgentSecrets s) now)"

datatype 'p report_reply = ReportAccepted 'p | ReportRefused nat string | ReportFailed

definition handle_persist_result :: "store_answer \<Rightarrow> (agent_error + unit) option" where
  \<comment> \<open>\<open>None\<close> is an error of another kind, which the route answers with status 500\<close>
  "handle_persist_result answer =
     (case answer of
        StoreNotConfigured \<Rightarrow> Some (Inl (503, ''service_not_configured''))
      | StoreThrew \<Rightarrow> None
      | StoreFailed \<Rightarrow> Some (Inl (503, ''storage_unavailable''))
      | StoreAnswered result \<Rightarrow>
          (if result = Str ''accepted'' then Some (Inr ())
           else if result = Str ''unknown_agent'' then Some (Inl (401, ''unknown_agent''))
           else if result = Str ''rate_limited'' then Some (Inl (429, ''rate_limited''))
           else if result = Str ''replayed_request'' then Some (Inl (409, ''replayed_request''))
           else if result = Str ''invalid_payload'' then Some (Inl (400, ''invalid_payload''))
           else Some (Inl (503, ''storage_unavailable''))))"

definition report_post ::
  "nat \<Rightarrow> ((byte list \<Rightarrow> jsval option) \<Rightarrow> byte list \<Rightarrow> int \<Rightarrow> agent_error + 'p) \<Rightarrow> ('p \<Rightarrow> string) \<Rightarrow>
   report_services \<Rightarrow> ('p \<Rightarrow> string \<Rightarrow> string \<Rightarrow> store_answer) \<Rightarrow> header_reader \<Rightarrow> byte list list option \<Rightarrow> int \<Rightarrow>
   'p report_reply \<times> ('p \<times> string \<times> string) list" where
  \<comment> \<open>the reply, and what was handed to the database: payload, nonce and digest\<close>
  "report_post limit parse server_of s store header body now =
     (case read_report_body limit header body of
        Inl (status, err) \<Rightarrow> (ReportRefused status err, [])
      | Inr rawBody \<Rightarrow>
          (case parse (rs_decode_json s) rawBody now of
             Inl (status, err) \<Rightarrow> (ReportRefused status err, [])
           | Inr payload \<Rightarrow>
               (case authenticate_report s header rawBody (server_of payload) now of
                  Inl (status, err) \<Rightarrow>
                    (if (status, err) = INTERNAL_ERROR then ReportFailed else ReportRefused status err, [])
                | Inr (nonce, bodySha256) \<Rightarrow>
                    (case handle_persist_result (store payload nonce bodySha256) of
                       None \<Rightarrow> (ReportFailed, [(payload, nonce, bodySha256)])
                     | Some (Inl (status, err)) \<Rightarrow> (ReportRefused status err, [(payload, nonce, bodySha256)])
                     | Some (Inr _) \<Rightarrow> (ReportAccepted payload, [(payload, nonce, bodySha256)])))))"

text \<open>What reached the database was signed by the server it is about, and its parser vouches for it.\<close>

definition signed_report ::
  "nat \<Rightarrow> ((byte list \<Rightarrow> jsval option) \<Rightarrow> byte list \<Rightarrow> int \<Rightarrow> agent_error + 'p) \<Rightarrow> ('p \<Rightarrow> string) \<Rightarrow>
   report_services \<Rightarrow> header_reader \<Rightarrow> byte list list option \<Rightarrow> int \<Rightarrow> 'p \<Rightarrow> string \<Rightarrow> string \<Rightarrow> bool" where
  "signed_report limit parse server_of s header body now payload nonce sha \<longleftrightarrow>
     (\<exists>chunks secrets. body = Some chunks \<and> length (concat chunks) \<le> limit \<and>
        parse (rs_decode_json s) (concat chunks) now = Inr payload \<and>
        readAgentSecrets s = Inr secrets \<and>
        header ''x-ivrm-agent-id'' = Some (server_of payload) \<and>
        authentic (rs_crypto s) header (concat chunks) (server_of payload) secrets now \<and>
        header ''x-ivrm-nonce'' = Some nonce \<and> sha = ag_sha256_hex (rs_crypto s) (concat chunks))"

lemma read_report_body_InrD:
  "read_report_body limit header body = Inr raw \<Longrightarrow>
     \<exists>chunks. body = Some chunks \<and> raw = concat chunks \<and> length (concat chunks) \<le> limit"
  by (cases body) (auto simp: read_report_body_def read_chunks_iff split: if_split_asm)

lemma no_secrets: "check_signature crypto header raw serverId (Inl e) now \<noteq> Inr x"
  by (simp add: check_signature_def Let_def)

lemma inherited_report:
  assumes "authenticate_report s header raw serverId now = Inl INTERNAL_ERROR"
  shows "\<exists>member \<in> set OBJECT_MEMBERS. header ''x-ivrm-agent-id'' = Some member"
proof -
  have checked: "check_signature (rs_crypto s) header raw serverId (readAgentSecrets s) now = Inl INTERNAL_ERROR"
    and named: "header_or_empty header ''x-ivrm-agent-id'' = serverId"
    using assms by (auto simp: authenticate_report_def INTERNAL_ERROR_def split: if_split_asm)
  obtain secrets where "readAgentSecrets s = Inr secrets"
    using checked
    by (auto simp: readAgentSecrets_def check_signature_def Let_def INTERNAL_ERROR_def
        split: sum.splits if_split_asm)
  with checked have "serverId \<in> set OBJECT_MEMBERS"
    by (simp add: internal_error_inherited)
  with named show ?thesis
    by (auto simp: header_or_empty_def OBJECT_MEMBERS_def split: option.splits)
qed

locale report_route =
  fixes limit :: nat
    and parse :: "(byte list \<Rightarrow> jsval option) \<Rightarrow> byte list \<Rightarrow> int \<Rightarrow> agent_error + 'p"
    and server_of :: "'p \<Rightarrow> string"
    and well_formed :: "int \<Rightarrow> 'p \<Rightarrow> bool"
  assumes parse_well_formed: "parse decode raw now = Inr payload \<Longrightarrow> well_formed now payload"
    and parse_server: "parse decode raw now = Inr payload \<Longrightarrow> server_of payload \<noteq> []"
begin

lemma stored_reports:
  assumes "report_post limit parse server_of s store header body now = (reply, calls)"
  shows "(calls = [] \<and> ((\<exists>status err. reply = ReportRefused status err) \<or> reply = ReportFailed \<and>
      (\<exists>member \<in> set OBJECT_MEMBERS. header ''x-ivrm-agent-id'' = Some member))) \<or>
    (\<exists>payload nonce sha. calls = [(payload, nonce, sha)] \<and> well_formed now payload \<and>
       signed_report limit parse server_of s header body now payload nonce sha \<and>
       (\<forall>p. reply = ReportAccepted p \<longleftrightarrow> p = payload \<and> store payload nonce sha = StoreAnswered (Str ''accepted'')))"
proof (cases calls)
  case Nil
  have inherited: "\<exists>member \<in> set OBJECT_MEMBERS. header ''x-ivrm-agent-id'' = Some member"
    if "authenticate_report s header raw (server_of payload) now = Inl INTERNAL_ERROR" for raw payload
    using inherited_report [OF that] .
  have "(\<exists>status err. reply = ReportRefused status err) \<or>
      reply = ReportFailed \<and> (\<exists>raw payload. authenticate_report s header raw (server_of payload) now = Inl INTERNAL_ERROR)"
    using assms Nil by (auto simp: report_post_def split: sum.splits prod.splits option.splits if_split_asm)
  with Nil inherited show ?thesis by blast
next
  case (Cons c cs)
  with assms obtain raw payload nonce sha where read: "read_report_body limit header body = Inr raw"
    and parsed: "parse (rs_decode_json s) raw now = Inr payload"
    and auth: "authenticate_report s header raw (server_of payload) now = Inr (nonce, sha)"
    and calls: "calls = [(payload, nonce, sha)]"
    and reply: "\<forall>p. reply = ReportAccepted p \<longleftrightarrow> p = payload \<and> handle_persist_result (store payload nonce sha) = Some (Inr ())"
    by (auto simp: report_post_def split: sum.splits prod.splits option.splits)
  have stored: "handle_persist_result a = Some (Inr ()) \<longleftrightarrow> a = StoreAnswered (Str ''accepted'')" for a
    by (auto simp: handle_persist_result_def split: store_answer.split)
  have named: "header_or_empty header ''x-ivrm-agent-id'' = server_of payload"
    and checked: "check_signature (rs_crypto s) header raw (server_of payload) (readAgentSecrets s) now = Inr (nonce, sha)"
    using auth by (auto simp: authenticate_report_def split: if_split_asm)
  obtain secrets where secrets: "readAgentSecrets s = Inr secrets"
    using checked no_secrets by (cases "readAgentSecrets s") auto
  have "header ''x-ivrm-agent-id'' = Some (server_of payload)"
    using named parse_server [OF parsed] by (auto simp: header_or_empty_def split: option.splits)
  then have "signed_report limit parse server_of s header body now payload nonce sha"
    using read_report_body_InrD [OF read] parsed secrets check_signature_sound [OF checked [unfolded secrets]]
    unfolding signed_report_def by blast
  with parse_well_formed [OF parsed] calls reply [unfolded stored] show ?thesis
    by (intro disjI2 exI [of _ payload] exI [of _ nonce] exI [of _ sha]) simp
qed

end

definition sample_reports :: "string \<Rightarrow> jsval \<Rightarrow> report_services" where
  "sample_reports serverId v = \<lparr> rs_env = map_of [(''IVRM_AGENT_SECRETS_JSON'', ''j'')],
     rs_crypto = sample_agent_crypto,
     rs_parse_json = (\<lambda>_. Some (Obj [(serverId, Str (replicate 32 CHR ''k''))])),
     rs_decode_json = (\<lambda>_. Some v) \<rparr>"

lemma sample_report_post:
  assumes "parse (\<lambda>_. Some v) [1] 1700000000000 = Inr p" "server_of p = i" "SERVER_ID_PATTERN i" "i \<noteq> ''__proto__''" "0 < limit"
  shows "report_post limit parse server_of (sample_reports i v) (\<lambda>_ _ _. StoreAnswered (Str ''accepted''))
    (sample_header i) (Some [[1]]) 1700000000000 =
      (ReportAccepted p, [(p, replicate 32 CHR ''a'', replicate 64 CHR ''0'')])"
proof -
  have "readAgentSecrets (sample_reports i v) = Inr [(i, replicate 32 CHR ''k'')]"
    using assms(3,4)
    by (simp add: readAgentSecrets_def parseAgentSecretMaps_def parseAgentSecretMap_def sample_reports_def nonempty_def)
  moreover have "rs_crypto (sample_reports i v) = sample_agent_crypto" "rs_decode_json (sample_reports i v) = (\<lambda>_. Some v)"
    by (simp_all add: sample_reports_def)
  ultimately show ?thesis
    using assms
    by (simp add: report_post_def read_report_body_def sample_header_json declared_too_large_def read_chunks_iff
        authenticate_report_def sample_header_id sample_check handle_persist_result_def)
qed

end
