(* ===== verification/BackupReports.thy ===== *)
theory BackupReports
  imports ReportRoutes Backups
begin

text \<open>
  The backup report of an agent (\<open>apps/web/lib/backup-report.ts\<close> and
  \<open>app/api/agent/backups/route.ts\<close>): the validation of each run and of the report, and the route. The
  enumerations are those of the backup centre, which lists the same words.
\<close>

definition MAX_RUNS :: nat where
  "MAX_RUNS = 20"

definition MAX_DURATION_SECONDS :: int where
  "MAX_DURATION_SECONDS = 7 * 24 * 60 * 60"

definition MAX_BACKUP_REPORT_BODY_BYTES :: nat where
  "MAX_BACKUP_REPORT_BODY_BYTES = 32 * 1024"

record backup_run_report =
  rp_runId :: string
  rp_backupTarget :: string
  rp_gameMode :: string
  rp_backupType :: backup_type
  rp_destinationType :: backup_destination
  rp_startedAt :: string
  rp_completedAt :: "string option"
  rp_outcome :: backup_outcome
  rp_durationSeconds :: "int option"
  rp_sizeBytes :: "int option"
  rp_sha256Verified :: "bool option"
  rp_remoteSyncedAt :: "string option"
  rp_restoreTestedAt :: "string option"
  rp_retentionExpiresAt :: "string option"
  rp_failureCode :: "backup_failure_code option"

record backup_report =
  rt_serverId :: string
  rt_reportedAt :: string
  rt_runs :: "backup_run_report list"

definition REPORT_KEYS :: "string list" where
  "REPORT_KEYS = [''serverId'', ''reportedAt'', ''runs'']"

definition RUN_KEYS :: "string list" where
  "RUN_KEYS = [''runId'', ''backupTarget'', ''gameMode'', ''backupType'', ''destinationType'', ''startedAt'',
     ''completedAt'', ''outcome'', ''durationSeconds'', ''sizeBytes'', ''sha256Verified'', ''remoteSyncedAt'',
     ''restoreTestedAt'', ''retentionExpiresAt'', ''failureCode'']"

definition hasOnlyKeys :: "jsval \<Rightarrow> string list \<Rightarrow> bool" where
  "hasOnlyKeys value allowed \<longleftrightarrow> list_all (\<lambda>k. k \<in> set allowed) (obj_keys value)"

definition optional_value :: "(jsval \<Rightarrow> 'a option) \<Rightarrow> jsval \<Rightarrow> 'a option option" where
  \<comment> \<open>\<open>null\<close> and \<open>undefined\<close> are \<open>null\<close>; an unusable value is the outer \<open>None\<close>\<close>
  "optional_value r v = (if v = Null \<or> v = Undefined then Some None else map_option Some (r v))"

definition nullableTimestamp :: "jsval \<Rightarrow> string option option" where
  "nullableTimestamp = optional_value read_timestamp"

definition nullableSafeInteger :: "int \<Rightarrow> jsval \<Rightarrow> int option option" where
  "nullableSafeInteger m = optional_value (\<lambda>v. case as_safe_integer v of None \<Rightarrow> None
     | Some i \<Rightarrow> if 0 \<le> i \<and> i \<le> m then Some i else None)"

definition matching_text :: "(string \<Rightarrow> bool) \<Rightarrow> jsval \<Rightarrow> string option" where
  "matching_text P v = (case as_string v of None \<Rightarrow> None | Some s \<Rightarrow> if P s then Some s else None)"

definition read_run :: "jsval \<Rightarrow> backup_run_report option" where
  \<comment> \<open>the fields, each on its own\<close>
  "read_run value =
     (if \<not> is_record value \<or> \<not> hasOnlyKeys value RUN_KEYS then None
      else do {
        startedAt \<leftarrow> read_timestamp (get_prop value ''startedAt'');
        completedAt \<leftarrow> nullableTimestamp (get_prop value ''completedAt'');
        remoteSyncedAt \<leftarrow> nullableTimestamp (get_prop value ''remoteSyncedAt'');
        restoreTestedAt \<leftarrow> nullableTimestamp (get_prop value ''restoreTestedAt'');
        retentionExpiresAt \<leftarrow> nullableTimestamp (get_prop value ''retentionExpiresAt'');
        durationSeconds \<leftarrow> nullableSafeInteger MAX_DURATION_SECONDS (get_prop value ''durationSeconds'');
        sizeBytes \<leftarrow> nullableSafeInteger max_safe_integer (get_prop value ''sizeBytes'');
        runId \<leftarrow> matching_text UUID_PATTERN (get_prop value ''runId'');
        backupTarget \<leftarrow> matching_text TARGET_NAME_PATTERN (get_prop value ''backupTarget'');
        gameMode \<leftarrow> matching_text TARGET_NAME_PATTERN (get_prop value ''gameMode'');
        backupType \<leftarrow> Option.bind (as_string (get_prop value ''backupType'')) parse_backup_type;
        destination \<leftarrow> Option.bind (as_string (get_prop value ''destinationType'')) parse_destination;
        outcome \<leftarrow> Option.bind (as_string (get_prop value ''outcome'')) parse_outcome;
        sha \<leftarrow> optional_value as_bool (get_prop value ''sha256Verified'');
        failureCode \<leftarrow> optional_value (\<lambda>v. Option.bind (as_string v) parse_failure_code)
          (get_prop value ''failureCode'');
        Some \<lparr> rp_runId = runId, rp_backupTarget = backupTarget, rp_gameMode = gameMode,
          rp_backupType = backupType, rp_destinationType = destination, rp_startedAt = startedAt,
          rp_completedAt = completedAt, rp_outcome = outcome, rp_durationSeconds = durationSeconds,
          rp_sizeBytes = sizeBytes, rp_sha256Verified = sha, rp_remoteSyncedAt = remoteSyncedAt,
          rp_restoreTestedAt = restoreTestedAt, rp_retentionExpiresAt = retentionExpiresAt,
          rp_failureCode = failureCode \<rparr>
      })"

definition later_step_bad :: "int \<Rightarrow> int option \<Rightarrow> string option \<Rightarrow> bool" where
  \<comment> \<open>a synchronisation or restore test without completion, before it, or after the report\<close>
  "later_step_bad latest completed step =
     (case step of
        None \<Rightarrow> False
      | Some s \<Rightarrow> (case completed of None \<Rightarrow> True | Some c \<Rightarrow> ms_of s < c \<or> ms_of s > latest))"

definition run_inconsistent :: "backup_run_report \<Rightarrow> int \<Rightarrow> bool" where
  "run_inconsistent r reportTime \<longleftrightarrow>
     (let skew = MAX_CLOCK_SKEW_SECONDS * 1000;
          started = ms_of (rp_startedAt r);
          completed = map_option ms_of (rp_completedAt r);
          settled = (rp_outcome r = BackupSuccess \<or> rp_outcome r = BackupFailed)
      in started > reportTime + skew \<or>
         started < reportTime - 90 * 24 * 60 * 60 * 1000 \<or>
         (settled \<and> (completed = None \<or> rp_durationSeconds r = None)) \<or>
         (\<not> settled \<and> (completed \<noteq> None \<or> rp_durationSeconds r \<noteq> None)) \<or>
         (case completed of None \<Rightarrow> False | Some c \<Rightarrow> c < started \<or> c > reportTime + skew) \<or>
         (rp_outcome r = BackupFailed \<and> rp_failureCode r = None) \<or>
         (rp_outcome r \<noteq> BackupFailed \<and> rp_failureCode r \<noteq> None) \<or>
         later_step_bad (reportTime + skew) completed (rp_remoteSyncedAt r) \<or>
         later_step_bad (reportTime + skew) completed (rp_restoreTestedAt r) \<or>
         (case rp_retentionExpiresAt r of
            None \<Rightarrow> False
          | Some e \<Rightarrow> (case completed of None \<Rightarrow> True | Some c \<Rightarrow> ms_of e \<le> c)))"

definition normalizeRun :: "string \<Rightarrow> jsval \<Rightarrow> backup_run_report option" where
  "normalizeRun reportedAt value =
     (case read_run value of
        None \<Rightarrow> None
      | Some r \<Rightarrow> if run_inconsistent r (ms_of reportedAt) then None else Some r)"

definition read_report :: "jsval \<Rightarrow> (string \<times> string \<times> jsval list) option" where
  \<comment> \<open>server, time and raw runs\<close>
  "read_report value =
     (if \<not> is_record value \<or> \<not> hasOnlyKeys value REPORT_KEYS then None
      else do {
        serverId \<leftarrow> matching_text SERVER_ID_PATTERN (get_prop value ''serverId'');
        reportedAt \<leftarrow> read_timestamp (get_prop value ''reportedAt'');
        runs \<leftarrow> as_array (get_prop value ''runs'');
        if length runs < 1 \<or> length runs > MAX_RUNS then None else Some (serverId, reportedAt, runs)
      })"

definition parseBackupReport ::
  "(byte list \<Rightarrow> jsval option) \<Rightarrow> byte list \<Rightarrow> int \<Rightarrow> agent_error + backup_report" where
  "parseBackupReport decode_json rawBody now =
     (case decode_json rawBody of
        None \<Rightarrow> Inl (400, ''invalid_json'')
      | Some value \<Rightarrow>
          (case read_report value of
             None \<Rightarrow> Inl (400, ''invalid_payload'')
           | Some (serverId, reportedAt, rawRuns) \<Rightarrow>
               if \<bar>now - ms_of reportedAt\<bar> > MAX_CLOCK_SKEW_SECONDS * 1000 then Inl (401, ''expired_request'')
               else (case map_rows (normalizeRun reportedAt) rawRuns of
                       None \<Rightarrow> Inl (400, ''invalid_payload'')
                     | Some runs \<Rightarrow>
                         if \<not> distinct (map rp_runId runs) then Inl (400, ''duplicate_run_id'')
                         else Inr \<lparr> rt_serverId = serverId, rt_reportedAt = reportedAt, rt_runs = runs \<rparr>)))"

definition backup_report_post ::
  "report_services \<Rightarrow> (backup_report \<Rightarrow> string \<Rightarrow> string \<Rightarrow> store_answer) \<Rightarrow> header_reader \<Rightarrow>
   byte list list option \<Rightarrow> int \<Rightarrow>
   backup_report report_reply \<times> (backup_report \<times> string \<times> string) list" where
  "backup_report_post = report_post MAX_BACKUP_REPORT_BODY_BYTES parseBackupReport rt_serverId"

section \<open>What an accepted report guarantees\<close>

text \<open>
  The life of a run in order: started, completed exactly when it is settled, then synchronised and
  restored, with a failure code exactly when it failed. Times are in milliseconds; \<open>limit\<close> is the
  report's time with the allowed skew.
\<close>

definition run_ordered :: "int \<Rightarrow> backup_run_report \<Rightarrow> bool" where
  "run_ordered limit r \<longleftrightarrow>
     ms_of (rp_startedAt r) \<le> limit \<and>
     (rp_outcome r \<in> {BackupSuccess, BackupFailed} \<longleftrightarrow> rp_completedAt r \<noteq> None) \<and>
     (rp_completedAt r \<noteq> None \<longleftrightarrow> rp_durationSeconds r \<noteq> None) \<and>
     (rp_outcome r = BackupFailed \<longleftrightarrow> rp_failureCode r \<noteq> None) \<and>
     (\<forall>c. rp_completedAt r = Some c \<longrightarrow> ms_of (rp_startedAt r) \<le> ms_of c \<and> ms_of c \<le> limit) \<and>
     (\<forall>step. step \<in> {rp_remoteSyncedAt r, rp_restoreTestedAt r} \<longrightarrow>
        (\<forall>t. step = Some t \<longrightarrow> (\<exists>c. rp_completedAt r = Some c \<and> ms_of c \<le> ms_of t \<and> ms_of t \<le> limit))) \<and>
     (\<forall>e. rp_retentionExpiresAt r = Some e \<longrightarrow> (\<exists>c. rp_completedAt r = Some c \<and> ms_of c < ms_of e))"

definition backup_report_ok :: "int \<Rightarrow> backup_report \<Rightarrow> bool" where
  "backup_report_ok now p \<longleftrightarrow>
     SERVER_ID_PATTERN (rt_serverId p) \<and> \<bar>now - ms_of (rt_reportedAt p)\<bar> \<le> 300000 \<and>
     1 \<le> length (rt_runs p) \<and> length (rt_runs p) \<le> 20 \<and> distinct (map rp_runId (rt_runs p)) \<and>
     list_all (run_ordered (ms_of (rt_reportedAt p) + 300000)) (rt_runs p)"

lemma consistent_ordered: "\<not> run_inconsistent r t \<Longrightarrow> run_ordered (t + 300000) r"
  by (cases "rp_outcome r"; cases "rp_completedAt r")
    (auto simp: run_inconsistent_def run_ordered_def Let_def later_step_bad_def AgentAuth.MAX_CLOCK_SKEW_SECONDS_def
      split: option.splits)

lemma normalizeRun_ordered: "normalizeRun at_time v = Some r \<Longrightarrow> run_ordered (ms_of at_time + 300000) r"
  by (auto simp: normalizeRun_def consistent_ordered split: option.splits if_split_asm)

lemma backup_report_parsed: "parseBackupReport decode raw now = Inr p \<Longrightarrow> backup_report_ok now p"
proof -
  assume "parseBackupReport decode raw now = Inr p"
  then obtain serverId reportedAt rawRuns runs val where
      read: "read_report val = Some (serverId, reportedAt, rawRuns)"
    and time: "\<bar>now - ms_of reportedAt\<bar> \<le> 300000"
    and runs: "map_rows (normalizeRun reportedAt) rawRuns = Some runs" "distinct (map rp_runId runs)"
    and p: "p = \<lparr> rt_serverId = serverId, rt_reportedAt = reportedAt, rt_runs = runs \<rparr>"
    by (auto simp: parseBackupReport_def AgentAuth.MAX_CLOCK_SKEW_SECONDS_def not_less split: option.splits if_split_asm)
  have "SERVER_ID_PATTERN serverId" "1 \<le> length rawRuns" "length rawRuns \<le> 20"
    using read by (auto simp: read_report_def bind_eq_Some_conv matching_text_def MAX_RUNS_def Suc_le_eq
        split: if_split_asm option.splits)
  moreover have "list_all (run_ordered (ms_of reportedAt + 300000)) runs"
    using map_rows_set [OF runs(1)] by (auto simp: list_all_iff dest: normalizeRun_ordered)
  ultimately show ?thesis
    using time runs map_rows_length [OF runs(1)] by (simp add: backup_report_ok_def p)
qed

lemma backup_report_server: "parseBackupReport decode raw now = Inr p \<Longrightarrow> rt_serverId p \<noteq> []"
  by (auto dest!: backup_report_parsed simp: backup_report_ok_def SERVER_ID_PATTERN_def chars_between_def)

interpretation backup_reports: report_route MAX_BACKUP_REPORT_BODY_BYTES parseBackupReport rt_serverId backup_report_ok
  by unfold_locales (rule backup_report_parsed, assumption, rule backup_report_server, assumption)


text \<open>The runs that a backup report stores tell a possible story and are signed. What reaches the database
  is the parse of bytes that the named server signed within five minutes; it has between one and twenty
  runs with distinct identifiers, and each run is in order: it started before it completed, it has a
  completion and a duration exactly when it is settled and a failure code exactly when it failed, it
  was synchronised and restored only after it completed and not after the report, and its retention
  ends after its completion.
\<close>

theorem stored_backup_report_is_ordered:
  assumes "backup_report_post s store header body now = (reply, calls)"
  shows "(calls = [] \<and> ((\<exists>status err. reply = ReportRefused status err) \<or> reply = ReportFailed \<and>
      (\<exists>member \<in> set OBJECT_MEMBERS. header ''x-ivrm-agent-id'' = Some member))) \<or>
    (\<exists>payload nonce sha. calls = [(payload, nonce, sha)] \<and> backup_report_ok now payload \<and>
       signed_report MAX_BACKUP_REPORT_BODY_BYTES parseBackupReport rt_serverId s header body now payload nonce sha \<and>
       (\<forall>p. reply = ReportAccepted p \<longleftrightarrow> p = payload \<and> store payload nonce sha = StoreAnswered (Str ''accepted'')))"
  using assms unfolding backup_report_post_def by (rule backup_reports.stored_reports)

definition sample_report :: jsval where
  "sample_report = Obj [(''serverId'', Str ''oci''), (''reportedAt'', Str ''2023-11-14T22:13:20Z''),
     (''runs'', Arr [Obj [(''runId'', Str ''11111111-1111-4111-8111-111111111111''), (''backupTarget'', Str ''mc''),
        (''gameMode'', Str ''mc''), (''backupType'', Str ''world''), (''destinationType'', Str ''s3''),
        (''startedAt'', Str ''2023-11-14T22:10:00Z''), (''completedAt'', Str ''2023-11-14T22:12:00Z''),
        (''outcome'', Str ''success''), (''durationSeconds'', jint 120)]])]"

lemma sample_report_parses:
  "\<exists>p. parseBackupReport (\<lambda>_. Some sample_report) raw 1700000000000 = Inr p \<and> rt_serverId p = ''oci''"
proof -
  have times: "Date_parse ''2023-11-14T22:13:20Z'' = Some 1700000000000"
    "Date_parse ''2023-11-14T22:10:00Z'' = Some 1699999800000"
    "Date_parse ''2023-11-14T22:12:00Z'' = Some 1699999920000" by (simp_all add: sample_instants)
  have "UUID_PATTERN ''11111111-1111-4111-8111-111111111111''" "SERVER_ID_PATTERN ''oci''" "TARGET_NAME_PATTERN ''mc''"
    by (simp_all add: js_eval)
  with times show ?thesis
    by (simp add: parseBackupReport_def sample_report_def read_report_def normalizeRun_def read_run_def hasOnlyKeys_def
        REPORT_KEYS_def RUN_KEYS_def optional_value_def nullableTimestamp_def nullableSafeInteger_def matching_text_def
        read_timestamp_def parse_backup_type_def parse_destination_def parse_outcome_def run_inconsistent_def
        later_step_bad_def prop_or_def ms_of_def MAX_RUNS_def MAX_DURATION_SECONDS_def
        AgentAuth.MAX_CLOCK_SKEW_SECONDS_def Let_def num_safe_integer_def is_integer_rat_def max_safe_integer_def)
qed

lemma stored_backup_report_is_ordered_witness:
  "\<exists>reply payload nonce sha. backup_report_post (sample_reports ''oci'' sample_report)
      (\<lambda>_ _ _. StoreAnswered (Str ''accepted'')) (sample_header ''oci'') (Some [[1]]) 1700000000000 =
        (reply, [(payload, nonce, sha)]) \<and>
     reply = ReportAccepted payload \<and> backup_report_ok 1700000000000 payload"
proof -
  obtain p where p: "parseBackupReport (\<lambda>_. Some sample_report) [1] 1700000000000 = Inr p" "rt_serverId p = ''oci''"
    using sample_report_parses by blast
  have run: "backup_report_post (sample_reports ''oci'' sample_report)
      (\<lambda>_ _ _. StoreAnswered (Str ''accepted'')) (sample_header ''oci'') (Some [[1]]) 1700000000000 =
      (ReportAccepted p, [(p, replicate 32 CHR ''a'', replicate 64 CHR ''0'')])"
    unfolding backup_report_post_def
    by (rule sample_report_post [where parse = parseBackupReport and server_of = rt_serverId, OF p])
      (simp_all add: js_eval MAX_BACKUP_REPORT_BODY_BYTES_def)
  from stored_backup_report_is_ordered [OF run] run show ?thesis by auto
qed

end
