(* ===== verification/ConsoleLogs.thy ===== *)
theory ConsoleLogs
  imports LogRedaction BackupReports OperationRoutes
begin

text \<open>
  The console logs: the lists of sources, levels and ranges (\<open>lib/console-log-types.ts\<close>), the reports of an
  agent (\<open>lib/log-report.ts\<close>, \<open>app/api/agent/logs\<close>), their query (\<open>lib/logs.ts\<close>, \<open>app/api/logs\<close>) and their
  export (\<open>lib/log-export.ts\<close>). The reports instantiate the interface \<open>report_route\<close>.
\<close>

section \<open>Sources, levels and ranges\<close>

datatype log_source_type = ContainerLog | SystemdLog

datatype log_level = DebugLevel | InfoLogLevel | WarningLogLevel | ErrorLogLevel | CriticalLogLevel

record log_source =
  lo_type :: log_source_type
  lo_name :: string
  lo_label :: string

definition source_type_text :: "log_source_type \<Rightarrow> string" where
  "source_type_text t = (case t of ContainerLog \<Rightarrow> ''container'' | SystemdLog \<Rightarrow> ''systemd'')"

definition level_text :: "log_level \<Rightarrow> string" where
  "level_text l =
     (case l of DebugLevel \<Rightarrow> ''debug'' | InfoLogLevel \<Rightarrow> ''info'' | WarningLogLevel \<Rightarrow> ''warning''
      | ErrorLogLevel \<Rightarrow> ''error'' | CriticalLogLevel \<Rightarrow> ''critical'')"

definition CONSOLE_LOG_SOURCES :: "log_source list" where
  "CONSOLE_LOG_SOURCES =
     [\<lparr> lo_type = ContainerLog, lo_name = ''mc-main'', lo_label = ''Minecraft / mc-main'' \<rparr>,
      \<lparr> lo_type = ContainerLog, lo_name = ''mc-block'', lo_label = ''Minecraft / mc-block'' \<rparr>,
      \<lparr> lo_type = ContainerLog, lo_name = ''ivrm-velocity'', lo_label = ''Velocity'' \<rparr>,
      \<lparr> lo_type = ContainerLog, lo_name = ''mc-resource'', lo_label = ''Resource Server'' \<rparr>,
      \<lparr> lo_type = ContainerLog, lo_name = ''mc-resource-router'', lo_label = ''Resource Router'' \<rparr>,
      \<lparr> lo_type = SystemdLog, lo_name = ''ivrm-agent'', lo_label = ''IVRM Agent'' \<rparr>]"

definition CONSOLE_LOG_LEVELS :: "log_level list" where
  "CONSOLE_LOG_LEVELS = [DebugLevel, InfoLogLevel, WarningLogLevel, ErrorLogLevel, CriticalLogLevel]"

definition CONSOLE_LOG_RANGES :: "(string \<times> int) list" where
  "CONSOLE_LOG_RANGES = [(''5m'', 5), (''15m'', 15), (''1h'', 60), (''6h'', 360), (''24h'', 1440)]"

definition getConsoleLogSource :: "string \<Rightarrow> log_source option" where
  "getConsoleLogSource v = List.find (\<lambda>s. lo_name s = v) CONSOLE_LOG_SOURCES"

definition isConsoleLogSourceName :: "string \<Rightarrow> bool" where
  "isConsoleLogSourceName v \<longleftrightarrow> getConsoleLogSource v \<noteq> None"

definition consoleLogLevel :: "string \<Rightarrow> log_level option" where
  "consoleLogLevel v = List.find (\<lambda>l. level_text l = v) CONSOLE_LOG_LEVELS"

definition isConsoleLogRange :: "string \<Rightarrow> bool" where
  "isConsoleLogRange v \<longleftrightarrow> map_of CONSOLE_LOG_RANGES v \<noteq> None"

definition getConsoleLogRangeMinutes :: "string \<Rightarrow> int" where
  "getConsoleLogRangeMinutes v = (case map_of CONSOLE_LOG_RANGES v of None \<Rightarrow> 1440 | Some m \<Rightarrow> m)"

definition LOG_SERVER_PATTERN :: "string \<Rightarrow> bool" where
  \<comment> \<open>\<open>^[A-Za-z0-9._-]{1,64}$\<close>\<close>
  "LOG_SERVER_PATTERN = chars_between (\<lambda>c. is_alnum c \<or> c \<in> set ''._-'') 1 64"

section \<open>The report of an agent\<close>

definition MAX_LOG_REPORT_BODY_BYTES :: nat where
  "MAX_LOG_REPORT_BODY_BYTES = 64 * 1024"

definition MAX_ENTRIES :: nat where
  "MAX_ENTRIES = 120"

definition MAX_RAW_MESSAGE_CHARACTERS :: nat where
  "MAX_RAW_MESSAGE_CHARACTERS = 4096"

definition RFC3339_MICRO_PATTERN :: "string \<Rightarrow> bool" where
  "RFC3339_MICRO_PATTERN s \<longleftrightarrow>
     list_all2 (\<lambda>p c. if p = CHR ''d'' then is_digit c else c = p) ''dddd-dd-ddTdd:dd:dd.ddddddZ'' s"

record log_report_entry =
  le_eventId :: string
  le_sourceType :: log_source_type
  le_sourceName :: string
  le_observedAt :: string
  le_level :: log_level
  le_message :: string

record log_report =
  lp_serverId :: string
  lp_reportedAt :: string
  lp_entries :: "log_report_entry list"

definition REPORT_FIELDS :: "string list" where
  "REPORT_FIELDS = [''serverId'', ''reportedAt'', ''entries'']"

definition ENTRY_FIELDS :: "string list" where
  "ENTRY_FIELDS = [''sourceType'', ''sourceName'', ''observedAt'', ''level'', ''message'']"

record log_runtime =
  lg_sha256_hex :: "string \<Rightarrow> string"
  lg_is_ipv6 :: "string \<Rightarrow> bool"

definition eventIdFor :: "log_runtime \<Rightarrow> log_source_type \<Rightarrow> string \<Rightarrow> string \<Rightarrow> string \<Rightarrow> string" where
  "eventIdFor g sourceType sourceName observedAt message =
     lg_sha256_hex g (source_type_text sourceType @ [CHR 0x00] @ sourceName @ [CHR 0x00] @ observedAt @ [CHR 0x00] @ message)"

definition normalizeEntry :: "log_runtime \<Rightarrow> string \<Rightarrow> jsval \<Rightarrow> log_report_entry option" where
  "normalizeEntry g reportedAt v =
     (if \<not> is_record v \<or> \<not> hasOnlyKeys v ENTRY_FIELDS then None
      else do {
        sourceType \<leftarrow> as_string (get_prop v ''sourceType'');
        sourceName \<leftarrow> as_string (get_prop v ''sourceName'');
        observedAt \<leftarrow> as_string (get_prop v ''observedAt'');
        level \<leftarrow> Option.bind (as_string (get_prop v ''level'')) consoleLogLevel;
        raw \<leftarrow> as_string (get_prop v ''message'');
        source \<leftarrow> getConsoleLogSource sourceName;
        observedAtMs \<leftarrow> Date_parse observedAt;
        reportedAtMs \<leftarrow> Date_parse reportedAt;
        if \<not> RFC3339_MICRO_PATTERN observedAt \<or> length raw < 1 \<or> length raw > MAX_RAW_MESSAGE_CHARACTERS \<or>
           source_type_text (lo_type source) \<noteq> sourceType \<or>
           observedAtMs < reportedAtMs - MAX_CLOCK_SKEW_SECONDS * 1000 \<or>
           observedAtMs > reportedAtMs + MAX_CLOCK_SKEW_SECONDS * 1000 then None
        else (let message = redactConsoleLogMessage (lg_is_ipv6 g) raw
              in if message = [] then None
                 else Some \<lparr> le_eventId = eventIdFor g (lo_type source) (lo_name source) observedAt message,
                   le_sourceType = lo_type source, le_sourceName = lo_name source, le_observedAt = observedAt,
                   le_level = level, le_message = message \<rparr>)
      })"

definition parseLogReport :: "log_runtime \<Rightarrow> (byte list \<Rightarrow> jsval option) \<Rightarrow> byte list \<Rightarrow> int \<Rightarrow> agent_error + log_report" where
  \<comment> \<open>\<open>decode\<close> reads UTF-8 with replacement characters, then JSON\<close>
  "parseLogReport g decode raw now =
     (case decode raw of
        None \<Rightarrow> Inl (400, ''invalid_json'')
      | Some v \<Rightarrow>
          if \<not> is_record v \<or> \<not> hasOnlyKeys v REPORT_FIELDS then Inl (400, ''invalid_payload'')
          else (case (as_string (get_prop v ''serverId''), as_string (get_prop v ''reportedAt''),
                   as_array (get_prop v ''entries'')) of
                  (Some serverId, Some reportedAt, Some rawEntries) \<Rightarrow>
                    if \<not> LOG_SERVER_PATTERN serverId \<or> \<not> RFC3339_MICRO_PATTERN reportedAt \<or>
                       length rawEntries < 1 \<or> length rawEntries > MAX_ENTRIES then Inl (400, ''invalid_payload'')
                    else (case Date_parse reportedAt of
                            None \<Rightarrow> Inl (401, ''expired_request'')
                          | Some reportedAtMs \<Rightarrow>
                              if \<bar>now - reportedAtMs\<bar> > MAX_CLOCK_SKEW_SECONDS * 1000
                              then Inl (401, ''expired_request'')
                              else (case map_rows (normalizeEntry g reportedAt) rawEntries of
                                      None \<Rightarrow> Inl (400, ''invalid_payload'')
                                    | Some entries \<Rightarrow>
                                        Inr \<lparr> lp_serverId = serverId, lp_reportedAt = reportedAt,
                                          lp_entries = map_values (index_by le_eventId entries) \<rparr>))
                | _ \<Rightarrow> Inl (400, ''invalid_payload'')))"

definition log_report_post ::
  "log_runtime \<Rightarrow> report_services \<Rightarrow> (log_report \<Rightarrow> string \<Rightarrow> string \<Rightarrow> store_answer) \<Rightarrow> header_reader \<Rightarrow>
   byte list list option \<Rightarrow> int \<Rightarrow> log_report report_reply \<times> (log_report \<times> string \<times> string) list" where
  "log_report_post g = report_post MAX_LOG_REPORT_BODY_BYTES (parseLogReport g) lp_serverId"

section \<open>The query\<close>

record log_entry =
  ln_id :: int
  ln_serverId :: string
  ln_hostDisplayName :: string
  ln_sourceType :: log_source_type
  ln_sourceName :: string
  ln_observedAt :: string
  ln_level :: log_level
  ln_message :: string
  ln_receivedAt :: string

record log_query =
  lq_serverId :: string
  lq_sourceName :: "string option"
  lq_level :: "string option"
  lq_query :: "string option"
  lq_windowMinutes :: int
  lq_afterId :: "int option"
  lq_limit :: int

definition normalizeQuery :: "log_query \<Rightarrow> log_query option" where
  \<comment> \<open>\<open>None\<close> is the error \<open>invalid_query\<close>\<close>
  "normalizeQuery q =
     (let query = nonempty (map_option trim (lq_query q))
      in if \<not> LOG_SERVER_PATTERN (lq_serverId q) \<or>
            (case lq_sourceName q of None \<Rightarrow> False | Some s \<Rightarrow> \<not> isConsoleLogSourceName s) \<or>
            (case lq_level q of None \<Rightarrow> False | Some l \<Rightarrow> consoleLogLevel l = None) \<or>
            (case query of None \<Rightarrow> False | Some t \<Rightarrow> length t > 80) \<or>
            lq_windowMinutes q \<notin> set (map snd CONSOLE_LOG_RANGES) \<or>
            (case lq_afterId q of None \<Rightarrow> False | Some n \<Rightarrow> \<bar>n\<bar> > max_safe_integer \<or> n < 0) \<or>
            lq_limit q < 1 \<or> lq_limit q > 500
         then None
         else Some (q \<lparr> lq_query := query \<rparr>))"

definition query_params :: "log_query \<Rightarrow> jsval" where
  "query_params q =
     (let text = (\<lambda>v. case v of None \<Rightarrow> Null | Some s \<Rightarrow> Str s)
      in Obj [(''p_server_id'', Str (lq_serverId q)), (''p_source_name'', text (lq_sourceName q)),
           (''p_level'', text (lq_level q)), (''p_query'', text (lq_query q)),
           (''p_window_minutes'', jint (lq_windowMinutes q)),
           (''p_after_id'', case lq_afterId q of None \<Rightarrow> Null | Some n \<Rightarrow> jint n), (''p_limit'', jint (lq_limit q))])"

definition source_type_of :: "jsval \<Rightarrow> log_source_type option" where
  "source_type_of v =
     (if v = Str ''container'' then Some ContainerLog else if v = Str ''systemd'' then Some SystemdLog else None)"

definition parseLogRow :: "jsval \<Rightarrow> log_entry option" where
  "parseLogRow v =
     (if \<not> is_record v then None
      else do {
        i \<leftarrow> coerced_integer (get_prop v ''row_id'');
        observedAt \<leftarrow> read_timestamp (get_prop v ''observed_at'');
        receivedAt \<leftarrow> read_timestamp (get_prop v ''received_at'');
        serverId \<leftarrow> as_string (get_prop v ''server_id'');
        host \<leftarrow> as_string (get_prop v ''host_display_name'');
        sourceType \<leftarrow> source_type_of (get_prop v ''source_type'');
        sourceName \<leftarrow> as_string (get_prop v ''source_name'');
        level \<leftarrow> Option.bind (as_string (get_prop v ''level'')) consoleLogLevel;
        message \<leftarrow> as_string (get_prop v ''message'');
        if i < 1 \<or> \<not> isConsoleLogSourceName sourceName \<or> length message < 1 \<or> length message > 2048 then None
        else Some \<lparr> ln_id = i, ln_serverId = serverId, ln_hostDisplayName = host, ln_sourceType = sourceType,
          ln_sourceName = sourceName, ln_observedAt = observedAt, ln_level = level, ln_message = message,
          ln_receivedAt = receivedAt \<rparr>
      })"

datatype logs_failure = LogsError string | LogsUnexpected

definition stored_logs :: "store_answer \<Rightarrow> logs_failure + log_entry list" where
  "stored_logs response =
     (case response of
        StoreNotConfigured \<Rightarrow> Inl (LogsError ''service_not_configured'')
      | StoreThrew \<Rightarrow> Inl LogsUnexpected
      | StoreFailed \<Rightarrow> Inl (LogsError ''storage_unavailable'')
      | StoreAnswered payload \<Rightarrow>
          (case Option.bind (as_array payload) (map_rows parseLogRow) of
             None \<Rightarrow> Inl (LogsError ''invalid_storage_response'')
           | Some entries \<Rightarrow> Inr entries))"

definition getConsoleLogs :: "(jsval \<Rightarrow> store_answer) \<Rightarrow> log_query \<Rightarrow> (logs_failure + log_entry list) \<times> jsval list" where
  \<comment> \<open>with the queries made\<close>
  "getConsoleLogs store input =
     (case normalizeQuery input of
        None \<Rightarrow> (Inl (LogsError ''invalid_query''), [])
      | Some q \<Rightarrow> (stored_logs (store (query_params q)), [query_params q]))"

definition DEFAULT_SERVER_ID :: string where
  "DEFAULT_SERVER_ID = ''oci-minecraft-01''"

definition DEFAULT_RANGE :: string where
  "DEFAULT_RANGE = ''24h''"

definition parseOptionalInteger :: "string option \<Rightarrow> int option option" where
  \<comment> \<open>the outer \<open>None\<close> is the error \<open>invalid_query\<close>\<close>
  "parseOptionalInteger v =
     (case nonempty v of
        None \<Rightarrow> Some None
      | Some s \<Rightarrow>
          if \<not> list_all is_digit s then None
          else if int (dec_val s) > max_safe_integer then None
          else Some (Some (int (dec_val s))))"

datatype logs_reply = LogsShown "log_entry list" int | LogsRefused nat string

definition logs_failure_reply :: "logs_failure \<Rightarrow> logs_reply" where
  "logs_failure_reply failure =
     (case failure of
        LogsError err \<Rightarrow> LogsRefused (if err = ''invalid_query'' then 400 else 503) err
      | LogsUnexpected \<Rightarrow> LogsRefused 500 ''internal_error'')"

definition last_id :: "log_entry list \<Rightarrow> int option \<Rightarrow> int" where
  "last_id entries afterId =
     (case js_last entries of
        Some e \<Rightarrow> ln_id e
      | None \<Rightarrow> (case afterId of None \<Rightarrow> 0 | Some n \<Rightarrow> n))"

definition route_query :: "reader \<Rightarrow> log_query option" where
  \<comment> \<open>the query that the route asks for, \<open>None\<close> for \<open>invalid_query\<close>\<close>
  "route_query param =
     (let serverId = (case nonempty (param ''server'') of None \<Rightarrow> DEFAULT_SERVER_ID | Some s \<Rightarrow> s);
          rangeValue = (case nonempty (param ''range'') of None \<Rightarrow> DEFAULT_RANGE | Some s \<Rightarrow> s);
          query = nonempty (map_option trim (param ''q''))
      in case (parseOptionalInteger (param ''after''), parseOptionalInteger (param ''limit'')) of
           (Some afterId, Some limitValue) \<Rightarrow>
             if \<not> LOG_SERVER_PATTERN serverId \<or>
                (case param ''source'' of None \<Rightarrow> False | Some s \<Rightarrow> \<not> isConsoleLogSourceName s) \<or>
                (case param ''level'' of None \<Rightarrow> False | Some l \<Rightarrow> consoleLogLevel l = None) \<or>
                \<not> isConsoleLogRange rangeValue \<or>
                (case query of None \<Rightarrow> False | Some t \<Rightarrow> length t > 80) \<or>
                (case limitValue of None \<Rightarrow> False | Some n \<Rightarrow> n < 1 \<or> n > 500) then None
             else Some \<lparr> lq_serverId = serverId, lq_sourceName = param ''source'', lq_level = param ''level'',
               lq_query = query, lq_windowMinutes = getConsoleLogRangeMinutes rangeValue, lq_afterId = afterId,
               lq_limit = (case limitValue of None \<Rightarrow> 200 | Some n \<Rightarrow> n) \<rparr>
         | _ \<Rightarrow> None)"

definition logs_get :: "console_session \<Rightarrow> (jsval \<Rightarrow> store_answer) \<Rightarrow> reader \<Rightarrow> logs_reply \<times> jsval list" where
  "logs_get session store param =
     (if \<not> canReadConsoleDuringRollout session then (LogsRefused 403 ''forbidden'', [])
      else (case route_query param of
              None \<Rightarrow> (logs_failure_reply (LogsError ''invalid_query''), [])
            | Some q \<Rightarrow>
                (case getConsoleLogs store q of
                   (Inl failure, calls) \<Rightarrow> (logs_failure_reply failure, calls)
                 | (Inr entries, calls) \<Rightarrow> (LogsShown entries (last_id entries (lq_afterId q)), calls))))"

section \<open>The export\<close>

datatype log_export_format = ExportTxt | ExportJsonl

definition export_line :: "(jsval \<Rightarrow> string) \<Rightarrow> log_export_format \<Rightarrow> log_entry \<Rightarrow> string" where
  \<comment> \<open>\<open>stringify\<close> is \<open>JSON.stringify\<close>\<close>
  "export_line stringify format e =
     (case format of
        ExportJsonl \<Rightarrow> stringify (Obj [(''id'', jint (ln_id e)), (''observedAt'', Str (ln_observedAt e)),
          (''receivedAt'', Str (ln_receivedAt e)), (''serverId'', Str (ln_serverId e)),
          (''sourceType'', Str (source_type_text (ln_sourceType e))), (''sourceName'', Str (ln_sourceName e)),
          (''level'', Str (level_text (ln_level e))), (''message'', Str (ln_message e))])
      | ExportTxt \<Rightarrow> ln_observedAt e @ '' ['' @ ln_serverId e @ ''/'' @ ln_sourceName e @ ''] ['' @
          level_text (ln_level e) @ ''] '' @ ln_message e)"

definition serializeLogEntries :: "(jsval \<Rightarrow> string) \<Rightarrow> log_entry list \<Rightarrow> log_export_format \<Rightarrow> string" where
  "serializeLogEntries stringify entries format =
     join [CHR 0x0A] (map (export_line stringify format) entries) @ (if entries = [] then [] else [CHR 0x0A])"

section \<open>What a stored report holds\<close>

definition report_entry_ok :: "log_runtime \<Rightarrow> string \<Rightarrow> log_report_entry \<Rightarrow> bool" where
  "report_entry_ok g reportedAt e \<longleftrightarrow>
     (\<exists>source raw t r. source \<in> set CONSOLE_LOG_SOURCES \<and> le_sourceName e = lo_name source \<and>
        le_sourceType e = lo_type source \<and>
        1 \<le> length raw \<and> length raw \<le> 4096 \<and> le_message e = redactConsoleLogMessage (lg_is_ipv6 g) raw \<and>
        le_message e \<noteq> [] \<and> length (le_message e) \<le> 2048 \<and> list_all printable (le_message e) \<and>
        Date_parse (le_observedAt e) = Some t \<and> Date_parse reportedAt = Some r \<and> \<bar>t - r\<bar> \<le> 300000 \<and>
        le_eventId e = eventIdFor g (le_sourceType e) (le_sourceName e) (le_observedAt e) (le_message e))"

definition log_report_ok :: "log_runtime \<Rightarrow> int \<Rightarrow> log_report \<Rightarrow> bool" where
  "log_report_ok g now p \<longleftrightarrow>
     LOG_SERVER_PATTERN (lp_serverId p) \<and>
     (\<exists>r. Date_parse (lp_reportedAt p) = Some r \<and> \<bar>now - r\<bar> \<le> 300000) \<and>
     1 \<le> length (lp_entries p) \<and> length (lp_entries p) \<le> 120 \<and> distinct (map le_eventId (lp_entries p)) \<and>
     list_all (report_entry_ok g (lp_reportedAt p)) (lp_entries p)"

lemma getConsoleLogSource_SomeD: "getConsoleLogSource v = Some s \<Longrightarrow> s \<in> set CONSOLE_LOG_SOURCES"
  unfolding getConsoleLogSource_def by (auto simp: find_Some_iff)

lemma normalizeEntry_ok:
  assumes "normalizeEntry g reportedAt v = Some e"
  shows "report_entry_ok g reportedAt e"
proof -
  from assms obtain name source raw t r where
    source: "getConsoleLogSource name = Some source" "le_sourceName e = lo_name source" "le_sourceType e = lo_type source"
    and raw: "\<not> length raw < 1" "\<not> length raw > 4096" "le_message e = redactConsoleLogMessage (lg_is_ipv6 g) raw" "le_message e \<noteq> []"
    and times: "Date_parse (le_observedAt e) = Some t" "Date_parse reportedAt = Some r" "\<not> t < r - 300000" "\<not> t > r + 300000"
    and eventId: "le_eventId e = eventIdFor g (le_sourceType e) (le_sourceName e) (le_observedAt e) (le_message e)"
    by (auto simp: normalizeEntry_def bind_eq_Some_conv Let_def MAX_RAW_MESSAGE_CHARACTERS_def MAX_CLOCK_SKEW_SECONDS_def
        split: if_splits)
  from raw have "1 \<le> length raw \<and> length raw \<le> 4096" by linarith
  moreover from times(3,4) have "\<bar>t - r\<bar> \<le> 300000" by linarith
  moreover note redacted_printable [of "lg_is_ipv6 g" raw]
  ultimately show ?thesis
    using getConsoleLogSource_SomeD [OF source(1)] source(2,3) raw(3,4) times(1,2) eventId
    unfolding report_entry_ok_def MAX_MESSAGE_CHARACTERS_def by metis
qed

lemma index_by_values_distinct: "distinct (map k (map_values (index_by k xs)))"
proof -
  have "k x = key" if "(key, x) \<in> set (index_by k xs)" for key x
  proof -
    from that have "map_of (index_by k xs) key = Some x" by (intro map_of_is_SomeI) simp_all
    then show ?thesis by (rule index_by_lookupD [THEN conjunct2])
  qed
  then have "map k (map_values (index_by k xs)) = map_keys (index_by k xs)" by auto
  then show ?thesis by (simp only: distinct_index_by)
qed

lemma index_by_length: "length (index_by k xs) \<le> length xs \<and> (xs \<noteq> [] \<longrightarrow> 1 \<le> length (index_by k xs))"
proof -
  have "length (index_by k xs) = card (k ` set xs)"
    using distinct_card [of "map_keys (index_by k xs)"] by simp
  moreover have "card (k ` set xs) \<le> length xs"
    using card_image_le [of "set xs" k] card_length [of xs] by simp
  moreover have "xs \<noteq> [] \<Longrightarrow> card (k ` set xs) \<noteq> 0" by simp
  ultimately show ?thesis by fastforce
qed

lemma parseLogReport_ok:
  assumes "parseLogReport g decode raw now = Inr p"
  shows "log_report_ok g now p \<and> lp_serverId p \<noteq> []"
proof -
  from assms obtain serverId reportedAt rawEntries entries r where
    p: "p = \<lparr> lp_serverId = serverId, lp_reportedAt = reportedAt, lp_entries = map_values (index_by le_eventId entries) \<rparr>"
    and server: "LOG_SERVER_PATTERN serverId" and count: "\<not> (length rawEntries < 1 \<or> length rawEntries > 120)"
    and r: "Date_parse reportedAt = Some r" "\<not> \<bar>now - r\<bar> > 300000"
    and rows: "map_rows (normalizeEntry g reportedAt) rawEntries = Some entries"
    unfolding parseLogReport_def MAX_ENTRIES_def MAX_CLOCK_SKEW_SECONDS_def
    by (fastforce split: option.splits if_splits prod.splits)
  from map_rows_length [OF rows] count index_by_length [of le_eventId entries]
  have "1 \<le> length (lp_entries p) \<and> length (lp_entries p) \<le> 120" unfolding p by fastforce
  moreover have "list_all (report_entry_ok g reportedAt) (lp_entries p)"
    unfolding p list_all_iff using map_rows_set [OF rows] index_by_values normalizeEntry_ok
    by (metis log_report.select_convs(3))
  moreover have "serverId \<noteq> []" using server by (auto simp: LOG_SERVER_PATTERN_def chars_between_def)
  ultimately show ?thesis
    using server r index_by_values_distinct [of le_eventId entries] unfolding p log_report_ok_def
    by (simp del: ms_of_parse)
qed

interpretation log_reports: report_route MAX_LOG_REPORT_BODY_BYTES "parseLogReport g" lp_serverId "log_report_ok g"
  for g
  by unfold_locales (use parseLogReport_ok in blast)+

text \<open>C12. What a log report stores is redacted and signed. Only the parse of bytes that the named server signed within
  five minutes reaches the database: between one and 120 entries with distinct identifiers, each from a known
  source of its type and observed within five minutes of the report. The stored message is the redaction of a
  message of at most 4096 characters; it is not empty, holds at most 2048 characters and no control
  character, and the identifier of the entry is the digest of what is stored, not of the raw message.
  The route fails without an answer of its own, storing nothing, only for a server named like a member every
  object inherits, whose secret the code reads from the prototype.\<close>

theorem stored_log_report_is_redacted:
  assumes "log_report_post g s store header body now = (reply, calls)"
  shows "(calls = [] \<and> ((\<exists>status err. reply = ReportRefused status err) \<or> reply = ReportFailed \<and>
      (\<exists>member \<in> set OBJECT_MEMBERS. header ''x-ivrm-agent-id'' = Some member))) \<or>
    (\<exists>payload nonce sha. calls = [(payload, nonce, sha)] \<and> log_report_ok g now payload \<and>
       signed_report MAX_LOG_REPORT_BODY_BYTES (parseLogReport g) lp_serverId s header body now payload nonce sha \<and>
       (\<forall>p. reply = ReportAccepted p \<longleftrightarrow> p = payload \<and> store payload nonce sha = StoreAnswered (Str ''accepted'')))"
  using assms unfolding log_report_post_def by (rule log_reports.stored_reports)

section \<open>What a query may ask for\<close>

lemma window_of_range: "isConsoleLogRange v \<Longrightarrow> getConsoleLogRangeMinutes v \<in> set (map snd CONSOLE_LOG_RANGES)"
  by (cases "map_of CONSOLE_LOG_RANGES v")
    (auto simp: isConsoleLogRange_def getConsoleLogRangeMinutes_def dest!: map_of_SomeD intro: rev_image_eqI)

lemma parseOptionalInteger_bounds:
  "parseOptionalInteger v = Some (Some n) \<Longrightarrow> 0 \<le> n \<and> n \<le> max_safe_integer"
  by (auto simp: parseOptionalInteger_def split: option.splits if_splits)

definition query_ok :: "log_query \<Rightarrow> bool" where
  "query_ok q \<longleftrightarrow> LOG_SERVER_PATTERN (lq_serverId q) \<and> (\<forall>s. lq_sourceName q = Some s \<longrightarrow> isConsoleLogSourceName s) \<and>
     (\<forall>l. lq_level q = Some l \<longrightarrow> consoleLogLevel l \<noteq> None) \<and>
     (\<forall>t. lq_query q = Some t \<longrightarrow> t \<noteq> [] \<and> length t \<le> 80) \<and>
     lq_windowMinutes q \<in> {5, 15, 60, 360, 1440} \<and> (\<forall>n. lq_afterId q = Some n \<longrightarrow> 0 \<le> n) \<and>
     1 \<le> lq_limit q \<and> lq_limit q \<le> 500"

lemma windows: "set (map snd CONSOLE_LOG_RANGES) = {5, 15, 60, 360, 1440}"
  by (simp add: CONSOLE_LOG_RANGES_def)

lemma normalizeQuery_ok:
  assumes "normalizeQuery q = Some q'"
  shows "query_ok q'"
proof -
  from assms have q': "q' = q \<lparr> lq_query := nonempty (map_option trim (lq_query q)) \<rparr>"
    by (auto simp: normalizeQuery_def Let_def split: if_splits)
  from assms have "LOG_SERVER_PATTERN (lq_serverId q)" "\<forall>s. lq_sourceName q = Some s \<longrightarrow> isConsoleLogSourceName s"
    "\<forall>l. lq_level q = Some l \<longrightarrow> consoleLogLevel l \<noteq> None"
    "\<forall>t. nonempty (map_option trim (lq_query q)) = Some t \<longrightarrow> length t \<le> 80"
    "lq_windowMinutes q \<in> set (map snd CONSOLE_LOG_RANGES)" "\<forall>n. lq_afterId q = Some n \<longrightarrow> 0 \<le> n"
    "1 \<le> lq_limit q" "lq_limit q \<le> 500"
    by (auto simp: normalizeQuery_def Let_def split: if_splits option.splits)
  then show ?thesis unfolding windows by (auto simp: query_ok_def q' dest: nonempty_SomeD)
qed

text \<open>The checks of the route imply those of the query: a query that the route builds is never refused by it.\<close>

lemma route_query_normal:
  assumes "route_query param = Some q"
  shows "\<exists>q'. normalizeQuery q = Some q'"
proof -
  obtain afterId limitValue where n: "parseOptionalInteger (param ''after'') = Some afterId"
    "parseOptionalInteger (param ''limit'') = Some limitValue"
    using assms by (auto simp: route_query_def Let_def split: option.splits)
  define serverId where "serverId = (case nonempty (param ''server'') of None \<Rightarrow> DEFAULT_SERVER_ID | Some s \<Rightarrow> s)"
  define rangeValue where "rangeValue = (case nonempty (param ''range'') of None \<Rightarrow> DEFAULT_RANGE | Some s \<Rightarrow> s)"
  define query where "query = nonempty (map_option trim (param ''q''))"
  from assms have c: "LOG_SERVER_PATTERN serverId" "\<not> (case param ''source'' of None \<Rightarrow> False | Some s \<Rightarrow> \<not> isConsoleLogSourceName s)"
      "\<not> (case param ''level'' of None \<Rightarrow> False | Some l \<Rightarrow> consoleLogLevel l = None)" "isConsoleLogRange rangeValue"
      "\<not> (case query of None \<Rightarrow> False | Some t \<Rightarrow> length t > 80)"
      "\<not> (case limitValue of None \<Rightarrow> False | Some n \<Rightarrow> n < 1 \<or> n > 500)"
    and q: "q = \<lparr> lq_serverId = serverId, lq_sourceName = param ''source'', lq_level = param ''level'',
      lq_query = query, lq_windowMinutes = getConsoleLogRangeMinutes rangeValue, lq_afterId = afterId,
      lq_limit = (case limitValue of None \<Rightarrow> 200 | Some n \<Rightarrow> n) \<rparr>"
    unfolding route_query_def Let_def n serverId_def [symmetric] rangeValue_def [symmetric] query_def [symmetric]
    by (simp_all split: if_split_asm)
  have again: "nonempty (map_option trim query) = query"
    by (cases "param ''q''") (auto simp: query_def nonempty_def)
  have after: "\<not> (case afterId of None \<Rightarrow> False | Some n \<Rightarrow> \<bar>n\<bar> > max_safe_integer \<or> n < 0)"
    using n(1) by (auto dest!: parseOptionalInteger_bounds split: option.splits)
  have limit: "\<not> (case limitValue of None \<Rightarrow> 200 | Some n \<Rightarrow> n) < 1" "\<not> (case limitValue of None \<Rightarrow> 200 | Some n \<Rightarrow> n) > 500"
    using c(6) by (auto split: option.splits)
  show ?thesis
    using c(1-5) after limit window_of_range [OF c(4)] by (simp add: normalizeQuery_def q again)
qed

lemma getConsoleLogs_calls:
  "call \<in> set (snd (getConsoleLogs store q)) \<Longrightarrow> \<exists>q'. query_ok q' \<and> call = query_params q' \<and> snd (getConsoleLogs store q) = [call]"
  by (auto simp: getConsoleLogs_def dest: normalizeQuery_ok split: option.splits)

definition entry_ok :: "log_entry \<Rightarrow> bool" where
  "entry_ok e \<longleftrightarrow> 1 \<le> ln_id e \<and> isConsoleLogSourceName (ln_sourceName e) \<and> 1 \<le> length (ln_message e) \<and>
     length (ln_message e) \<le> 2048 \<and> (\<exists>t. Date_parse (ln_observedAt e) = Some t) \<and> (\<exists>t. Date_parse (ln_receivedAt e) = Some t)"

lemma parseLogRow_ok: "parseLogRow v = Some e \<Longrightarrow> entry_ok e"
  by (auto simp: parseLogRow_def bind_eq_Some_conv entry_ok_def read_timestamp_def Suc_le_eq not_less
      split: if_splits option.splits)

lemma shown_entries_ok:
  assumes "fst (logs_get session store param) = LogsShown entries lastId"
  shows "list_all entry_ok entries"
proof -
  from assms obtain q where "fst (getConsoleLogs store q) = Inr entries"
    by (auto simp: logs_get_def logs_failure_reply_def split: if_splits option.splits sum.splits prod.splits logs_failure.splits) (metis fst_conv)
  then obtain payload where "Option.bind (as_array payload) (map_rows parseLogRow) = Some entries"
    by (auto simp: getConsoleLogs_def stored_logs_def split: option.splits store_answer.splits)
  then show ?thesis
    by (auto simp: bind_eq_Some_conv list_all_iff dest!: map_rows_set intro: parseLogRow_ok)
qed

text \<open>A query of the log viewer reaches the database only for a session that may read the console, once, and within
  the bounds: a well-formed server, listed sources, levels and windows, a search text of one to 80 characters
  and between one and 500 rows. A request that the route accepts is never refused by the reader behind it.
  Every entry that is shown has a known source, a message of one to 2048 characters and real time stamps.\<close>

theorem log_queries_are_bounded:
  shows "(\<forall>call \<in> set (snd (logs_get session store param)).
      canReadConsoleDuringRollout session \<and> snd (logs_get session store param) = [call] \<and>
      (\<exists>q. query_ok q \<and> call = query_params q)) \<and>
    (canReadConsoleDuringRollout session \<and> route_query param \<noteq> None \<longrightarrow>
      (\<exists>call. snd (logs_get session store param) = [call])) \<and>
    (\<forall>entries lastId. fst (logs_get session store param) = LogsShown entries lastId \<longrightarrow> list_all entry_ok entries)"
proof (intro conjI)
  have snd_get: "snd (logs_get session store param) =
      (if canReadConsoleDuringRollout session
       then (case route_query param of None \<Rightarrow> [] | Some q \<Rightarrow> snd (getConsoleLogs store q)) else [])"
    by (cases "route_query param"; cases "getConsoleLogs store (the (route_query param))"; cases "fst (getConsoleLogs store (the (route_query param)))")
      (simp_all add: logs_get_def)
  show "\<forall>call \<in> set (snd (logs_get session store param)).
      canReadConsoleDuringRollout session \<and> snd (logs_get session store param) = [call] \<and>
      (\<exists>q. query_ok q \<and> call = query_params q)"
  proof
    fix call
    assume "call \<in> set (snd (logs_get session store param))"
    then obtain q where q: "canReadConsoleDuringRollout session" "route_query param = Some q"
      "call \<in> set (snd (getConsoleLogs store q))"
      unfolding snd_get by (cases "canReadConsoleDuringRollout session"; cases "route_query param") simp_all
    from getConsoleLogs_calls [OF q(3)] obtain q' where q': "query_ok q'" "call = query_params q'"
      "snd (getConsoleLogs store q) = [call]" by blast
    have "snd (logs_get session store param) = [call]" unfolding snd_get using q q'(3) by simp
    with q(1) q'(1,2) show "canReadConsoleDuringRollout session \<and>
        snd (logs_get session store param) = [call] \<and> (\<exists>q. query_ok q \<and> call = query_params q)" by blast
  qed
  show "canReadConsoleDuringRollout session \<and> route_query param \<noteq> None \<longrightarrow>
      (\<exists>call. snd (logs_get session store param) = [call])"
    unfolding snd_get using route_query_normal [of param]
    by (cases "route_query param") (auto simp: getConsoleLogs_def)
  show "\<forall>entries lastId. fst (logs_get session store param) = LogsShown entries lastId \<longrightarrow> list_all entry_ok entries"
    using shown_entries_ok by blast
qed

definition sample_reader :: console_session where
  "sample_reader = plain_session AccessEnforce StateVerified DiscordEnforce DiscordProvider Authenticated
     (Some ''viewer@ivrm.jp'') None (Some Viewer)"

theorem log_queries_are_bounded_witness:
  "\<exists>q. query_ok q \<and> snd (logs_get sample_reader (\<lambda>_. StoreAnswered (Arr [])) (\<lambda>_. None)) = [query_params q]"
proof -
  have reader: "canReadConsoleDuringRollout sample_reader"
    by (simp add: canReadConsoleDuringRollout_def hasConsoleRole_def sample_reader_def plain_session_def role_rank_def)
  have route: "route_query (\<lambda>_. None) \<noteq> None"
    by (simp add: route_query_def Let_def parseOptionalInteger_def nonempty_def DEFAULT_SERVER_ID_def DEFAULT_RANGE_def
        LOG_SERVER_PATTERN_def isConsoleLogRange_def CONSOLE_LOG_RANGES_def js_eval)
  note bounded = log_queries_are_bounded [of sample_reader "\<lambda>_. StoreAnswered (Arr [])" "\<lambda>_. None"]
  from bounded reader route obtain call where call: "snd (logs_get sample_reader (\<lambda>_. StoreAnswered (Arr [])) (\<lambda>_. None)) = [call]"
    by blast
  with bounded show ?thesis by auto
qed

section \<open>A report that is stored\<close>

definition sample_log_report :: jsval where
  "sample_log_report = Obj [(''serverId'', Str ''oci''), (''reportedAt'', Str ''2023-11-14T22:13:20.000000Z''),
     (''entries'', Arr [Obj [(''sourceType'', Str ''container''), (''sourceName'', Str ''mc-main''),
        (''observedAt'', Str ''2023-11-14T22:13:20.000000Z''), (''level'', Str ''info''), (''message'', Str ''up'')]])]"

definition sample_log_runtime :: log_runtime where
  "sample_log_runtime = \<lparr> lg_sha256_hex = (\<lambda>s. s), lg_is_ipv6 = (\<lambda>_. False) \<rparr>"

lemma sample_message: "redactConsoleLogMessage (\<lambda>_. False) ''up'' = ''up''"
  by code_simp

lemma sample_log_report_parses:
  "\<exists>p. parseLogReport sample_log_runtime (\<lambda>_. Some sample_log_report) raw 1700000000000 = Inr p \<and> lp_serverId p = ''oci''"
proof -
  have time: "Date_parse ''2023-11-14T22:13:20.000000Z'' = Some 1700000000000" by (simp add: sample_instants)
  have pattern: "RFC3339_MICRO_PATTERN ''2023-11-14T22:13:20.000000Z''" "LOG_SERVER_PATTERN ''oci''"
    by (simp_all add: RFC3339_MICRO_PATTERN_def LOG_SERVER_PATTERN_def js_eval)
  show ?thesis
    by (simp add: parseLogReport_def sample_log_report_def hasOnlyKeys_def REPORT_FIELDS_def ENTRY_FIELDS_def prop_or_def
        pattern time MAX_ENTRIES_def MAX_CLOCK_SKEW_SECONDS_def normalizeEntry_def consoleLogLevel_def CONSOLE_LOG_LEVELS_def
        level_text_def getConsoleLogSource_def CONSOLE_LOG_SOURCES_def MAX_RAW_MESSAGE_CHARACTERS_def source_type_text_def
        sample_log_runtime_def sample_message Let_def)
qed

theorem stored_log_report_is_redacted_witness:
  "\<exists>reply payload nonce sha. log_report_post sample_log_runtime (sample_reports ''oci'' sample_log_report)
      (\<lambda>_ _ _. StoreAnswered (Str ''accepted'')) (sample_header ''oci'') (Some [[1]]) 1700000000000 =
        (reply, [(payload, nonce, sha)]) \<and>
     reply = ReportAccepted payload \<and> log_report_ok sample_log_runtime 1700000000000 payload"
proof -
  obtain p where p: "parseLogReport sample_log_runtime (\<lambda>_. Some sample_log_report) [1] 1700000000000 = Inr p" "lp_serverId p = ''oci''"
    using sample_log_report_parses by blast
  have run: "log_report_post sample_log_runtime (sample_reports ''oci'' sample_log_report)
      (\<lambda>_ _ _. StoreAnswered (Str ''accepted'')) (sample_header ''oci'') (Some [[1]]) 1700000000000 =
      (ReportAccepted p, [(p, replicate 32 CHR ''a'', replicate 64 CHR ''0'')])"
    unfolding log_report_post_def
    by (rule sample_report_post [where parse = "parseLogReport sample_log_runtime" and server_of = lp_serverId, OF p])
      (simp_all add: js_eval MAX_LOG_REPORT_BODY_BYTES_def)
  from stored_log_report_is_redacted [OF run] run show ?thesis by auto
qed

text \<open>The exported text has one line for every entry, as long as no field of an entry breaks a line.\<close>

lemma exported_lines:
  assumes "entries \<noteq> []" "\<And>e. e \<in> set entries \<Longrightarrow> CHR 0x0A \<notin> set (export_line stringify format e)"
  shows "split_on CHR 0x0A (butlast (serializeLogEntries stringify entries format)) =
    map (export_line stringify format) entries"
proof -
  have "split_on CHR 0x0A (join [CHR 0x0A] (map (export_line stringify format) entries)) =
      map (export_line stringify format) entries"
    using assms by (intro split_on_join) auto
  with assms(1) show ?thesis by (simp add: serializeLogEntries_def)
qed

end
