(* ===== verification/LogViewer.thy ===== *)
theory LogViewer
  imports ConsoleLogs
begin

text \<open>
  The log viewer (\<open>components/log-viewer.tsx\<close>) as a state machine: the lines it shows, the polls that add to
  them, the two independent switches (follow and automatic scrolling) and the scrolling itself, whose two
  animation frames are steps of their own. A poll's answer is the JSON of the route \<open>/api/logs\<close>, which checks
  every row before it sends it: an array of entries holds lines of the declared type. The viewer itself only
  asks whether the entries are an array; what an array of anything else would do to it is not modelled.
\<close>

section \<open>State\<close>

record viewer_props =
  vp_serverId :: string
  vp_sourceName :: "string option"
  vp_level :: "string option"
  vp_range :: string
  vp_query :: "string option"

datatype frame = ScrollFrame | BottomFrame
  \<comment> \<open>an animation frame that scrolls to the newest line, and one that notes that the bottom is reached\<close>

record viewer =
  vw_entries :: "log_entry list"
  vw_follow :: bool
  vw_autoScroll :: bool
  vw_atBottom :: bool
  vw_pollError :: bool
  vw_lastPollAt :: "string option"
  vw_lastId :: int
  vw_shouldStick :: bool
  vw_frames :: "frame list"

record poll_response =
  pr_entries :: "log_entry list option"  \<comment> \<open>\<open>None\<close> where the property is not an array\<close>
  pr_lastId :: jsval
  pr_polledAt :: jsval

datatype poll_answer = PollAnswered poll_response | PollFailed | PollAborted

definition MAX_RENDERED_ENTRIES :: nat where
  "MAX_RENDERED_ENTRIES = 800"

definition BOTTOM_TOLERANCE_PX :: int where
  "BOTTOM_TOLERANCE_PX = 72"

definition isNearBottom :: "int \<Rightarrow> int \<Rightarrow> int \<Rightarrow> bool" where
  "isNearBottom scrollHeight scrollTop clientHeight \<longleftrightarrow> scrollHeight - scrollTop - clientHeight \<le> BOTTOM_TOLERANCE_PX"

definition initial_viewer :: "log_entry list \<Rightarrow> viewer" where
  \<comment> \<open>with the frame of the first effect\<close>
  "initial_viewer initialEntries =
     \<lparr> vw_entries = take_last MAX_RENDERED_ENTRIES initialEntries, vw_follow = True, vw_autoScroll = True,
       vw_atBottom = True, vw_pollError = False, vw_lastPollAt = None,
       vw_lastId = (case js_last initialEntries of None \<Rightarrow> 0 | Some e \<Rightarrow> ln_id e), vw_shouldStick = True,
       vw_frames = [ScrollFrame] \<rparr>"

section \<open>Polls\<close>

definition recent_entry :: "int \<Rightarrow> log_entry \<Rightarrow> bool" where
  \<comment> \<open>\<open>Date.parse(entry.observedAt) >= cutoffMs\<close>\<close>
  "recent_entry cutoffMs e \<longleftrightarrow> (case Date_parse (ln_observedAt e) of None \<Rightarrow> False | Some t \<Rightarrow> cutoffMs \<le> t)"

definition poll_cutoff :: "string \<Rightarrow> string \<Rightarrow> int" where
  \<comment> \<open>for a reference time that parses\<close>
  "poll_cutoff range_name referenceTime = ms_of referenceTime - getConsoleLogRangeMinutes range_name * 60000"

definition mergeEntries :: "log_entry list \<Rightarrow> log_entry list \<Rightarrow> string \<Rightarrow> string \<Rightarrow> log_entry list" where
  "mergeEntries current incoming range_name referenceTime =
     (let cutoffMs = poll_cutoff range_name referenceTime;
          byId = index_by ln_id (filter (recent_entry cutoffMs) current @ filter (recent_entry cutoffMs) incoming)
      in take_last MAX_RENDERED_ENTRIES (sort_key ln_id (map_values byId)))"

definition poll_params :: "viewer_props \<Rightarrow> viewer \<Rightarrow> (string \<times> string) list" where
  "poll_params p v =
     [(''server'', vp_serverId p), (''after'', int_text (vw_lastId v)), (''limit'', ''200''), (''range'', vp_range p)] @
     (case nonempty (vp_sourceName p) of None \<Rightarrow> [] | Some s \<Rightarrow> [(''source'', s)]) @
     (case nonempty (vp_level p) of None \<Rightarrow> [] | Some l \<Rightarrow> [(''level'', l)]) @
     (case nonempty (vp_query p) of None \<Rightarrow> [] | Some q \<Rightarrow> [(''q'', q)])"

definition usable_poll :: "poll_response \<Rightarrow> (log_entry list \<times> int \<times> string) option" where
  "usable_poll r = do {
     entries \<leftarrow> pr_entries r;
     lastId \<leftarrow> as_safe_integer (pr_lastId r);
     polledAt \<leftarrow> read_timestamp (pr_polledAt r);
     Some (entries, lastId, polledAt)
   }"

definition take_poll :: "viewer_props \<Rightarrow> viewer \<Rightarrow> log_entry list \<Rightarrow> int \<Rightarrow> string \<Rightarrow> viewer" where
  "take_poll p v entries lastId polledAt =
     v \<lparr> vw_lastId := max (vw_lastId v) lastId,
         vw_entries := mergeEntries (vw_entries v) entries (vp_range p) polledAt,
         vw_frames := vw_frames v @
           (if entries \<noteq> [] \<and> vw_autoScroll v \<and> vw_shouldStick v then [ScrollFrame] else []),
         vw_lastPollAt := Some polledAt, vw_pollError := False \<rparr>"

definition poll :: "viewer_props \<Rightarrow> viewer \<Rightarrow> poll_answer \<Rightarrow> viewer" where
  "poll p v answered =
     (case answered of
        PollAborted \<Rightarrow> v
      | PollFailed \<Rightarrow> v \<lparr> vw_pollError := True \<rparr>
      | PollAnswered r \<Rightarrow>
          (case usable_poll r of
             None \<Rightarrow> v \<lparr> vw_pollError := True \<rparr>
           | Some (entries, lastId, polledAt) \<Rightarrow> take_poll p v entries lastId polledAt))"

section \<open>Scrolling and switches\<close>

definition handleScroll :: "bool \<Rightarrow> viewer \<Rightarrow> viewer" where
  "handleScroll nearBottom v = v \<lparr> vw_shouldStick := nearBottom, vw_atBottom := nearBottom \<rparr>"

definition handleAutoScrollToggle :: "viewer \<Rightarrow> viewer" where
  "handleAutoScrollToggle v =
     (if vw_autoScroll v \<and> vw_atBottom v then v \<lparr> vw_autoScroll := False \<rparr>
      else v \<lparr> vw_autoScroll := True, vw_frames := vw_frames v @ [ScrollFrame] \<rparr>)"

definition toggleFollow :: "viewer \<Rightarrow> viewer" where
  "toggleFollow v = v \<lparr> vw_follow := \<not> vw_follow v \<rparr>"

definition scroll_to_latest :: "viewer \<Rightarrow> viewer" where
  "scroll_to_latest v = v \<lparr> vw_shouldStick := True, vw_frames := vw_frames v @ [BottomFrame] \<rparr>"

definition run_frame :: "viewer \<Rightarrow> viewer" where
  "run_frame v =
     (case vw_frames v of
        [] \<Rightarrow> v
      | ScrollFrame # fs \<Rightarrow> scroll_to_latest (v \<lparr> vw_frames := fs \<rparr>)
      | BottomFrame # fs \<Rightarrow> v \<lparr> vw_frames := fs, vw_atBottom := True \<rparr>)"

inductive viewer_step :: "viewer_props \<Rightarrow> viewer \<Rightarrow> viewer \<Rightarrow> bool" for p where
  step_poll: "vw_follow v \<Longrightarrow> viewer_step p v (poll p v answered)"
| step_scroll: "viewer_step p v (handleScroll nearBottom v)"
| step_toggle_scroll: "viewer_step p v (handleAutoScrollToggle v)"
| step_toggle_follow: "viewer_step p v (toggleFollow v)"
| step_latest: "\<not> vw_atBottom v \<Longrightarrow> viewer_step p v (scroll_to_latest v)"
| step_frame: "vw_frames v \<noteq> [] \<Longrightarrow> viewer_step p v (run_frame v)"

inductive_cases viewer_stepE: "viewer_step p v v'"

definition autoScrollStatus :: "viewer \<Rightarrow> string" where
  "autoScrollStatus v =
     (if vw_autoScroll v then (if vw_atBottom v then ''Auto-scroll ON'' else ''Auto-scroll PAUSED'')
      else ''Auto-scroll OFF'')"

section \<open>Export\<close>

definition copied_text :: "(jsval \<Rightarrow> string) \<Rightarrow> log_entry list \<Rightarrow> string" where
  "copied_text stringify selected = serializeLogEntries stringify selected ExportTxt"

definition download_name :: "int \<Rightarrow> log_export_format \<Rightarrow> string" where
  "download_name now format =
     ''ivrm-visible-logs-'' @ map (\<lambda>c. if c = CHR '':'' \<or> c = CHR ''.'' then CHR ''-'' else c) (iso_text now) @
     (case format of ExportTxt \<Rightarrow> ''.txt'' | ExportJsonl \<Rightarrow> ''.jsonl'')"

definition downloaded :: "(jsval \<Rightarrow> string) \<Rightarrow> viewer \<Rightarrow> int \<Rightarrow> log_export_format \<Rightarrow> string \<times> string" where
  "downloaded stringify v now format = (download_name now format, serializeLogEntries stringify (vw_entries v) format)"

section \<open>The lines\<close>

definition ascending :: "log_entry list \<Rightarrow> bool" where
  "ascending es \<longleftrightarrow> sorted_wrt (\<lambda>a b. ln_id a < ln_id b) es"

definition lines_ok :: "log_entry list \<Rightarrow> viewer \<Rightarrow> bool" where
  \<comment> \<open>what is shown before and after the first answered poll\<close>
  "lines_ok initialEntries v \<longleftrightarrow>
     length (vw_entries v) \<le> MAX_RENDERED_ENTRIES \<and>
     (case vw_lastPollAt v of
        None \<Rightarrow> vw_entries v = take_last MAX_RENDERED_ENTRIES initialEntries
      | Some _ \<Rightarrow> ascending (vw_entries v))"

lemma index_by_values_ids: "map ln_id (map_values (index_by ln_id xs)) = map_keys (index_by ln_id xs)"
proof -
  have "ln_id (snd p) = fst p" if "p \<in> set (index_by ln_id xs)" for p
  proof -
    from that have "map_of (index_by ln_id xs) (fst p) = Some (snd p)" by (intro map_of_is_SomeI) simp_all
    then show ?thesis by (rule index_by_lookupD [THEN conjunct2])
  qed
  then show ?thesis by simp
qed

lemma sorted_distinct_strict:
  fixes f :: "'a \<Rightarrow> int"
  assumes "distinct (map f xs)"
  shows "sorted_wrt (\<lambda>a b. f a < f b) (sort_key f xs)"
proof -
  have "distinct (map f (sort_key f xs))" using assms by (metis mset_map mset_sort mset_eq_imp_distinct_iff)
  moreover have "sorted (map f (sort_key f xs))" by simp
  ultimately have "sorted_wrt (<) (map f (sort_key f xs))" by (simp only: strict_sorted_iff)
  then show ?thesis by (simp add: sorted_wrt_map)
qed

lemma take_last_sorted: "sorted_wrt R xs \<Longrightarrow> sorted_wrt R (take_last n xs)"
  by (simp add: take_last_def sorted_wrt_drop)

lemma mergeEntries_ok:
  "ascending (mergeEntries current incoming r t)" "length (mergeEntries current incoming r t) \<le> MAX_RENDERED_ENTRIES"
  unfolding ascending_def mergeEntries_def Let_def
  by (intro take_last_sorted sorted_distinct_strict) (simp_all add: index_by_values_ids del: map_map)

lemma poll_ok:
  "lines_ok initialEntries v \<Longrightarrow> lines_ok initialEntries (poll p v answered) \<and> vw_lastId v \<le> vw_lastId (poll p v answered)"
  by (auto simp: poll_def take_poll_def lines_ok_def mergeEntries_ok split: poll_answer.splits option.splits)

lemma step_keeps:
  assumes "viewer_step p v v'" and "lines_ok initialEntries v"
  shows "lines_ok initialEntries v' \<and> vw_lastId v \<le> vw_lastId v'"
  using assms(1)
proof (cases rule: viewer_step.cases)
  case (step_poll answered)
  with poll_ok [OF assms(2)] show ?thesis by simp
qed (use assms(2) in \<open>auto simp: lines_ok_def handleScroll_def handleAutoScrollToggle_def toggleFollow_def
      scroll_to_latest_def run_frame_def split: list.splits frame.splits option.splits\<close>)

text \<open>C31. Whatever lines the page was rendered with, whatever the reader does and whatever lines the polls bring,
  failed and repeated polls included: the viewer shows at most eight hundred lines; until the first answered
  poll they are the last ones the page was rendered with, in their order, and from then on they are in ascending
  order of their identifiers, each line once; and the viewer never asks for older lines than it already did. The
  lines of a poll are of the type the polled route sends.\<close>

theorem viewer_lines_stay_ordered:
  assumes "(viewer_step p)\<^sup>*\<^sup>* (initial_viewer initialEntries) v" and "(viewer_step p)\<^sup>*\<^sup>* v v'"
  shows "length (vw_entries v') \<le> MAX_RENDERED_ENTRIES \<and>
    (case vw_lastPollAt v' of
       None \<Rightarrow> vw_entries v' = take_last MAX_RENDERED_ENTRIES initialEntries
     | Some _ \<Rightarrow> sorted_wrt (\<lambda>a b. ln_id a < ln_id b) (vw_entries v')) \<and>
    vw_lastId v \<le> vw_lastId v'"
proof -
  have run: "lines_ok initialEntries b \<and> vw_lastId a \<le> vw_lastId b"
    if "(viewer_step p)\<^sup>*\<^sup>* a b" "lines_ok initialEntries a" for a b
    using that by (induction rule: rtranclp_induct) (auto dest: step_keeps)
  have "lines_ok initialEntries (initial_viewer initialEntries)"
    by (simp add: initial_viewer_def lines_ok_def)
  with run assms have "lines_ok initialEntries v' \<and> vw_lastId v \<le> vw_lastId v'" by blast
  then show ?thesis unfolding lines_ok_def ascending_def by blast
qed

section \<open>No line is lost\<close>

text \<open>A poll loses nothing: every line that was shown or that arrives, and that is recent enough, is shown
  afterwards, unless eight hundred lines with greater identifiers are.\<close>

theorem merged_lines_are_kept:
  assumes "e \<in> set (current @ incoming)" and "recent_entry (poll_cutoff r t) e"
  shows "(\<exists>e' \<in> set (mergeEntries current incoming r t). ln_id e' = ln_id e) \<or>
    length (mergeEntries current incoming r t) = MAX_RENDERED_ENTRIES \<and>
    (\<forall>e' \<in> set (mergeEntries current incoming r t). ln_id e < ln_id e')"
proof (rule disjCI)
  assume new: "\<not> (length (mergeEntries current incoming r t) = MAX_RENDERED_ENTRIES \<and>
    (\<forall>e' \<in> set (mergeEntries current incoming r t). ln_id e < ln_id e'))"
  let ?recent = "filter (recent_entry (poll_cutoff r t)) current @ filter (recent_entry (poll_cutoff r t)) incoming"
  let ?all = "sort_key ln_id (map_values (index_by ln_id ?recent))"
  let ?cut = "length ?all - MAX_RENDERED_ENTRIES"
  have merged: "mergeEntries current incoming r t = drop ?cut ?all"
    by (simp add: mergeEntries_def Let_def take_last_def)
  have "e \<in> set ?recent" using assms(1,2) by auto
  then have "ln_id e \<in> set (map_keys (index_by ln_id ?recent))" by (simp only: set_keys_index_by set_map) blast
  then have "ln_id e \<in> ln_id ` set ?all"
    by (metis index_by_values_ids set_map set_sort)
  then obtain x where x: "x \<in> set ?all" "ln_id x = ln_id e" by (metis imageE)
  show "\<exists>e' \<in> set (mergeEntries current incoming r t). ln_id e' = ln_id e"
  proof (rule ccontr)
    assume "\<not> (\<exists>e' \<in> set (mergeEntries current incoming r t). ln_id e' = ln_id e)"
    then have "x \<notin> set (drop ?cut ?all)" using x(2) unfolding merged by blast
    with x(1) have taken: "x \<in> set (take ?cut ?all)"
      by (metis Un_iff append_take_drop_id set_append)
    then have "MAX_RENDERED_ENTRIES < length ?all" by (cases "?cut = 0") auto
    moreover have "sorted_wrt (\<lambda>a b. ln_id a < ln_id b) (take ?cut ?all @ drop ?cut ?all)"
      unfolding append_take_drop_id
      by (rule sorted_distinct_strict) (simp only: index_by_values_ids distinct_index_by)
    ultimately show False
      using new taken x(2) unfolding merged by (auto simp: sorted_wrt_append simp del: append_take_drop_id)
  qed
qed

definition sample_line :: log_entry where
  "sample_line =
     \<lparr> ln_id = 7, ln_serverId = ''oci'', ln_hostDisplayName = ''OCI'', ln_sourceType = ContainerLog,
       ln_sourceName = ''mc-main'', ln_observedAt = ''2026-01-01T00:00:00Z'', ln_level = InfoLogLevel,
       ln_message = ''started'', ln_receivedAt = ''2026-01-01T00:00:01Z'' \<rparr>"

definition sample_viewer_props :: viewer_props where
  "sample_viewer_props =
     \<lparr> vp_serverId = ''oci'', vp_sourceName = None, vp_level = None, vp_range = ''1h'', vp_query = None \<rparr>"

definition sample_poll :: poll_answer where
  "sample_poll = PollAnswered \<lparr> pr_entries = Some [sample_line], pr_lastId = jint 7,
     pr_polledAt = Str ''2026-01-01T00:00:02Z'' \<rparr>"

theorem viewer_lines_stay_ordered_witness:
  "sorted_wrt (\<lambda>a b. ln_id a < ln_id b)
     (vw_entries (poll sample_viewer_props (initial_viewer [sample_line, sample_line]) sample_poll))"
proof -
  let ?v = "initial_viewer [sample_line, sample_line]"
  have "viewer_step sample_viewer_props ?v (poll sample_viewer_props ?v sample_poll)"
    by (rule step_poll) (simp add: initial_viewer_def)
  then have run: "(viewer_step sample_viewer_props)\<^sup>*\<^sup>* ?v (poll sample_viewer_props ?v sample_poll)"
    by (rule r_into_rtranclp)
  have "vw_lastPollAt (poll sample_viewer_props ?v sample_poll) = Some ''2026-01-01T00:00:02Z''"
    by (simp add: poll_def sample_poll_def usable_poll_def take_poll_def read_timestamp_def sample_instants
        num_safe_integer_def max_safe_integer_def is_integer_rat_def
        del: Date_parse_def)
  with viewer_lines_stay_ordered [OF rtranclp.rtrancl_refl run] show ?thesis by simp
qed

theorem merged_lines_are_kept_witness:
  "(\<exists>e' \<in> set (mergeEntries [] [sample_line] ''1h'' ''2026-01-01T00:00:02Z''). ln_id e' = 7) \<or>
     length (mergeEntries [] [sample_line] ''1h'' ''2026-01-01T00:00:02Z'') = MAX_RENDERED_ENTRIES \<and>
     (\<forall>e' \<in> set (mergeEntries [] [sample_line] ''1h'' ''2026-01-01T00:00:02Z''). 7 < ln_id e')"
proof -
  have "recent_entry (poll_cutoff ''1h'' ''2026-01-01T00:00:02Z'') sample_line"
    by (simp add: recent_entry_def poll_cutoff_def sample_line_def ms_of_def getConsoleLogRangeMinutes_def
        CONSOLE_LOG_RANGES_def sample_instants js_eval del: Date_parse_def)
  from merged_lines_are_kept [OF _ this, of "[]" "[sample_line]"] show ?thesis by (simp add: sample_line_def)
qed

end
