(* ===== verification/LogPage.thy ===== *)
theory LogPage
  imports LogViewer ConsoleUi
begin

text \<open>
  The page of the logs (\<open>app/logs/page.tsx\<close>): the reading of its query parameters, the query it renders the first
  lines with, and the viewer that it hands them to. Dates, labels and markup are left out.
\<close>

section \<open>The parameters\<close>

record log_page_params =
  pm_source :: query_param
  pm_level :: query_param
  pm_range :: query_param
  pm_limit :: query_param
  pm_q :: query_param

definition CONSOLE_LOG_INITIAL_LIMITS :: "int list" where
  "CONSOLE_LOG_INITIAL_LIMITS = [100, 300, 500]"

definition isConsoleLogInitialLimit :: "jsnum \<Rightarrow> int option" where
  \<comment> \<open>the limit that the number is\<close>
  "isConsoleLogInitialLimit n = find (\<lambda>l. n = Fin (of_int l)) CONSOLE_LOG_INITIAL_LIMITS"

definition DEFAULT_LIMIT :: int where
  "DEFAULT_LIMIT = 300"

definition page_source :: "query_param \<Rightarrow> string option" where
  \<comment> \<open>\<open>sourceName\<close>\<close>
  "page_source v =
     (case firstValue v of
        None \<Rightarrow> None
      | Some s \<Rightarrow> if s \<noteq> ''all'' \<and> getConsoleLogSource s \<noteq> None then Some s else None)"

definition page_level :: "query_param \<Rightarrow> string option" where
  "page_level v =
     (case firstValue v of
        None \<Rightarrow> None
      | Some l \<Rightarrow> if l \<noteq> ''all'' \<and> consoleLogLevel l \<noteq> None then Some l else None)"

definition page_range :: "query_param \<Rightarrow> string" where
  "page_range v =
     (let rangeValue = (case firstValue v of None \<Rightarrow> DEFAULT_RANGE | Some r \<Rightarrow> r)
      in if isConsoleLogRange rangeValue then rangeValue else DEFAULT_RANGE)"

definition page_limit :: "query_param \<Rightarrow> int" where
  \<comment> \<open>\<open>initialLimit\<close>\<close>
  "page_limit v =
     (let rawLimit = (case firstValue v of None \<Rightarrow> Fin (of_int DEFAULT_LIMIT) | Some s \<Rightarrow> string_to_number s)
      in case isConsoleLogInitialLimit rawLimit of None \<Rightarrow> DEFAULT_LIMIT | Some l \<Rightarrow> l)"

definition page_text :: "query_param \<Rightarrow> string option" where
  \<comment> \<open>\<open>query\<close>: a longer text is dropped\<close>
  "page_text v =
     (case nonempty (map_option trim (firstValue v)) of
        None \<Rightarrow> None
      | Some t \<Rightarrow> if length t \<le> 80 then Some t else None)"

section \<open>The page\<close>

definition page_query :: "log_page_params \<Rightarrow> log_query" where
  "page_query ps =
     \<lparr> lq_serverId = DEFAULT_SERVER_ID, lq_sourceName = page_source (pm_source ps), lq_level = page_level (pm_level ps),
       lq_query = page_text (pm_q ps), lq_windowMinutes = getConsoleLogRangeMinutes (page_range (pm_range ps)),
       lq_afterId = None, lq_limit = page_limit (pm_limit ps) \<rparr>"

definition page_viewer_props :: "log_page_params \<Rightarrow> viewer_props" where
  "page_viewer_props ps =
     \<lparr> vp_serverId = DEFAULT_SERVER_ID, vp_sourceName = page_source (pm_source ps), vp_level = page_level (pm_level ps),
       vp_range = page_range (pm_range ps), vp_query = page_text (pm_q ps) \<rparr>"

definition or_text :: "string \<Rightarrow> string option \<Rightarrow> string" where
  "or_text d v = (case v of None \<Rightarrow> d | Some s \<Rightarrow> s)"

definition viewerKey :: "log_page_params \<Rightarrow> string" where
  "viewerKey ps =
     join '':'' [or_text ''all'' (page_source (pm_source ps)), or_text ''all'' (page_level (pm_level ps)),
       page_range (pm_range ps), int_text (page_limit (pm_limit ps)), or_text [] (page_text (pm_q ps))]"

record log_page =
  lpg_loadError :: bool
  lpg_shown :: nat
  lpg_warningOrHigherCount :: nat
  lpg_latest :: "log_entry option"
  lpg_viewer :: "(string \<times> viewer_props \<times> viewer) option"  \<comment> \<open>the key, the properties and the first state\<close>

definition LogsPage :: "(jsval \<Rightarrow> store_answer) \<Rightarrow> log_page_params \<Rightarrow> log_page \<times> jsval list" where
  \<comment> \<open>with the queries made\<close>
  "LogsPage store ps =
     (let (result, calls) = getConsoleLogs store (page_query ps);
          loadError = (case result of Inl _ \<Rightarrow> True | Inr _ \<Rightarrow> False);
          entries = (case result of Inl _ \<Rightarrow> [] | Inr found \<Rightarrow> found)
      in (\<lparr> lpg_loadError = loadError, lpg_shown = length entries,
            lpg_warningOrHigherCount =
              length (filter (\<lambda>e. level_text (ln_level e) \<in> set [''warning'', ''error'', ''critical'']) entries),
            lpg_latest = js_last entries,
            lpg_viewer = (if loadError then None
              else Some (viewerKey ps, page_viewer_props ps, initial_viewer entries)) \<rparr>, calls))"

section \<open>What the viewer may ask\<close>

lemma page_source_known: "page_source v = Some s \<Longrightarrow> isConsoleLogSourceName s \<and> s \<noteq> []"
  by (auto simp: page_source_def firstValue_def isConsoleLogSourceName_def nonempty_def
      split: option.splits if_splits query_param.splits)

lemma page_level_known: "page_level v = Some l \<Longrightarrow> consoleLogLevel l \<noteq> None \<and> l \<noteq> []"
  by (auto simp: page_level_def firstValue_def nonempty_def split: option.splits if_splits query_param.splits)

lemma page_text_trimmed: "page_text v = Some t \<Longrightarrow> trim t = t \<and> t \<noteq> [] \<and> length t \<le> 80"
  by (auto simp: page_text_def nonempty_def split: option.splits if_splits)

lemma page_range_known: "isConsoleLogRange (page_range v)"
  by (simp add: page_range_def Let_def isConsoleLogRange_def DEFAULT_RANGE_def CONSOLE_LOG_RANGES_def)

lemma range_nonempty: "isConsoleLogRange r \<Longrightarrow> r \<noteq> []"
  by (auto simp: isConsoleLogRange_def CONSOLE_LOG_RANGES_def)

lemma page_limit_bounds: "1 \<le> page_limit v \<and> page_limit v \<le> 500"
  by (auto simp: page_limit_def Let_def isConsoleLogInitialLimit_def CONSOLE_LOG_INITIAL_LIMITS_def DEFAULT_LIMIT_def
      split: option.splits)

lemma page_text_again: "nonempty (map_option trim (page_text v)) = page_text v"
  using page_text_trimmed [of v] by (cases "page_text v") (simp_all add: nonempty_def)

lemma default_server_ok: "LOG_SERVER_PATTERN DEFAULT_SERVER_ID" "nonempty (Some DEFAULT_SERVER_ID) = Some DEFAULT_SERVER_ID"
  by (simp_all add: LOG_SERVER_PATTERN_def DEFAULT_SERVER_ID_def js_eval nonempty_def)

lemma page_query_normal: "normalizeQuery (page_query ps) = Some (page_query ps)"
proof -
  have short: "(case page_text (pm_q ps) of None \<Rightarrow> False | Some t \<Rightarrow> length t > 80) \<longleftrightarrow> False"
    using page_text_trimmed [of "pm_q ps"] by (auto split: option.splits)
  have source: "(case page_source (pm_source ps) of None \<Rightarrow> False | Some s \<Rightarrow> \<not> isConsoleLogSourceName s) \<longleftrightarrow> False"
    using page_source_known [of "pm_source ps"] by (auto split: option.splits)
  have level: "(case page_level (pm_level ps) of None \<Rightarrow> False | Some l \<Rightarrow> consoleLogLevel l = None) \<longleftrightarrow> False"
    using page_level_known [of "pm_level ps"] by (auto split: option.splits)
  show ?thesis
    using window_of_range [OF page_range_known [of "pm_range ps"]] page_limit_bounds [of "pm_limit ps"]
    by (simp add: normalizeQuery_def page_query_def default_server_ok(1) short source level page_text_again)
qed

lemma int_text_read: "0 \<le> n \<Longrightarrow> n \<le> max_safe_integer \<Longrightarrow> parseOptionalInteger (Some (int_text n)) = Some (Some n)"
  by (simp add: parseOptionalInteger_def nonempty_def int_text_def)

lemma limit_200_read: "parseOptionalInteger (Some ''200'') = Some (Some 200)"
  by (simp add: parseOptionalInteger_def nonempty_def max_safe_integer_def js_eval)

lemma polled_query:
  assumes "0 \<le> vw_lastId v" and "vw_lastId v \<le> max_safe_integer"
  shows "route_query (map_of (poll_params (page_viewer_props ps) v)) =
    Some (page_query ps \<lparr> lq_afterId := Some (vw_lastId v), lq_limit := 200 \<rparr>)"
proof -
  let ?param = "map_of (poll_params (page_viewer_props ps) v)"
  have source: "?param ''source'' = page_source (pm_source ps)"
    using page_source_known [of "pm_source ps"]
    by (cases "page_source (pm_source ps)"; cases "page_level (pm_level ps)"; cases "page_text (pm_q ps)")
      (auto simp: poll_params_def page_viewer_props_def nonempty_def)
  have level: "?param ''level'' = page_level (pm_level ps)"
    using page_level_known [of "pm_level ps"]
    by (cases "page_source (pm_source ps)"; cases "page_level (pm_level ps)"; cases "page_text (pm_q ps)")
      (auto simp: poll_params_def page_viewer_props_def nonempty_def)
  have q: "?param ''q'' = page_text (pm_q ps)"
    using page_text_trimmed [of "pm_q ps"]
    by (cases "page_source (pm_source ps)"; cases "page_level (pm_level ps)"; cases "page_text (pm_q ps)")
      (auto simp: poll_params_def page_viewer_props_def nonempty_def)
  have fixed: "?param ''server'' = Some DEFAULT_SERVER_ID" "?param ''after'' = Some (int_text (vw_lastId v))"
    "?param ''limit'' = Some ''200''" "?param ''range'' = Some (page_range (pm_range ps))"
    by (simp_all add: poll_params_def page_viewer_props_def)
  have range_kept: "nonempty (Some (page_range (pm_range ps))) = Some (page_range (pm_range ps))"
    using range_nonempty [OF page_range_known] by (simp add: nonempty_def)
  have checks: "\<not> (case page_source (pm_source ps) of None \<Rightarrow> False | Some s \<Rightarrow> \<not> isConsoleLogSourceName s)"
    "\<not> (case page_level (pm_level ps) of None \<Rightarrow> False | Some l \<Rightarrow> consoleLogLevel l = None)"
    "\<not> (case page_text (pm_q ps) of None \<Rightarrow> False | Some t \<Rightarrow> length t > 80)"
    using page_source_known [of "pm_source ps"] page_level_known [of "pm_level ps"] page_text_trimmed [of "pm_q ps"]
    by (auto split: option.splits)
  show ?thesis
    unfolding route_query_def Let_def source level q fixed page_text_again range_kept default_server_ok(2)
      int_text_read [OF assms] limit_200_read option.case prod.case
    using checks page_range_known default_server_ok(1) by (simp add: page_query_def)
qed

section \<open>The last identifier\<close>

lemma read_row_bounds: "parseLogRow v = Some e \<Longrightarrow> 0 \<le> ln_id e \<and> ln_id e \<le> max_safe_integer"
  by (auto simp: parseLogRow_def bind_eq_Some_conv dest!: coerced_integer_bound split: if_splits)

lemma read_entries_bounds:
  assumes "fst (getConsoleLogs store q) = Inr entries" and "e \<in> set entries"
  shows "0 \<le> ln_id e \<and> ln_id e \<le> max_safe_integer"
proof -
  obtain payload where "Option.bind (as_array payload) (map_rows parseLogRow) = Some entries"
    using assms(1) by (auto simp: getConsoleLogs_def stored_logs_def split: option.splits store_answer.splits)
  then show ?thesis using assms(2) read_row_bounds by (auto simp: bind_eq_Some_conv dest!: map_rows_set)
qed

definition id_bounded :: "viewer \<Rightarrow> bool" where
  "id_bounded v \<longleftrightarrow> 0 \<le> vw_lastId v \<and> vw_lastId v \<le> max_safe_integer"

lemma step_id_bounded: "viewer_step p v v' \<Longrightarrow> id_bounded v \<Longrightarrow> id_bounded v'"
proof (induction rule: viewer_step.induct)
  case (step_poll v answered)
  then show ?case
    by (auto simp: id_bounded_def poll_def take_poll_def usable_poll_def bind_eq_Some_conv
        dest!: as_safe_integer_SomeD split: poll_answer.splits option.splits)
next
  case (step_frame v)
  then show ?case
    by (auto simp: id_bounded_def run_frame_def scroll_to_latest_def split: list.splits frame.splits)
qed (auto simp: id_bounded_def handleScroll_def handleAutoScrollToggle_def toggleFollow_def scroll_to_latest_def)

lemma reached_id_bounded: "(viewer_step p)\<^sup>*\<^sup>* v v' \<Longrightarrow> id_bounded v \<Longrightarrow> id_bounded v'"
  by (induction rule: rtranclp_induct) (auto intro: step_id_bounded)

text \<open>C37. The viewer follows the page it stands on: whatever the parameters of the page are, its first lines come
  from one query that is never refused as invalid, and every poll of the viewer, in whatever state it has
  reached, is a query that the route accepts; it asks for the same server, source, level, text and window as the
  page did, for the lines after the last one that the viewer knows.\<close>

theorem viewer_follows_its_page:
  assumes "LogsPage store ps = (page, calls)" and "lpg_viewer page = Some (key, p, v0)"
    and "(viewer_step p)\<^sup>*\<^sup>* v0 v"
  shows "calls = [query_params (page_query ps)] \<and>
    route_query (map_of (poll_params p v)) =
      Some (page_query ps \<lparr> lq_afterId := Some (vw_lastId v), lq_limit := 200 \<rparr>)"
proof -
  obtain result where result: "getConsoleLogs store (page_query ps) = (result, [query_params (page_query ps)])"
    by (simp add: getConsoleLogs_def page_query_normal)
  with assms(1,2) obtain entries where entries: "result = Inr entries" "p = page_viewer_props ps"
    "v0 = initial_viewer entries" "calls = [query_params (page_query ps)]"
    by (cases result) (auto simp: LogsPage_def Let_def)
  have "id_bounded v0"
  proof (cases "js_last entries")
    case (Some e)
    then have "e \<in> set entries" by (rule js_last_SomeD)
    then show ?thesis
      using read_entries_bounds [of store "page_query ps" entries e] result entries(1,3) Some
      by (simp add: id_bounded_def initial_viewer_def)
  qed (simp add: entries(3) id_bounded_def initial_viewer_def max_safe_integer_def)
  then have "id_bounded v" using reached_id_bounded [OF assms(3)] by blast
  then show ?thesis using polled_query [of v ps] entries(2,4) by (simp add: id_bounded_def)
qed

definition sample_page_params :: log_page_params where
  "sample_page_params = \<lparr> pm_source = One ''mc-main'', pm_level = Absent, pm_range = One ''1h'', pm_limit = One ''100'',
     pm_q = One '' Done '' \<rparr>"

theorem viewer_follows_its_page_witness:
  "\<exists>page key p v0. LogsPage (\<lambda>_. StoreAnswered (Arr [])) sample_page_params =
      (page, [query_params (page_query sample_page_params)]) \<and> lpg_viewer page = Some (key, p, v0) \<and>
    route_query (map_of (poll_params p v0)) =
      Some (page_query sample_page_params \<lparr> lq_afterId := Some (vw_lastId v0), lq_limit := 200 \<rparr>)"
proof -
  have logs: "getConsoleLogs (\<lambda>_. StoreAnswered (Arr [])) (page_query sample_page_params) =
      (Inr [], [query_params (page_query sample_page_params)])"
    by (simp add: getConsoleLogs_def page_query_normal stored_logs_def)
  obtain page key p v0 where page: "LogsPage (\<lambda>_. StoreAnswered (Arr [])) sample_page_params =
      (page, [query_params (page_query sample_page_params)])" "lpg_viewer page = Some (key, p, v0)"
    by (simp add: LogsPage_def logs)
  show ?thesis using page viewer_follows_its_page [OF page rtranclp.rtrancl_refl] by blast
qed

end
