(* ===== verification/Capacity.thy ===== *)
theory Capacity
  imports MetricHistory UnifiedIncidents
begin

text \<open>
  The capacity centre (\<open>apps/web/lib/capacity.ts\<close>): a weighted linear regression over the metric
  history of every host and container, the forecast of when a threshold is reached, the growth of the
  backups, and the snapshot that puts them together. Figures are rationals, so the regression is exact;
  the comparisons with \<open>Number.EPSILON\<close> keep its value. The Japanese reason texts are constructors
  with the numbers they show.
\<close>

section \<open>Policy\<close>

type_synonym capacity_range = incident_range

definition capacity_hours :: "capacity_range \<Rightarrow> int" where
  "capacity_hours r = (case r of Range24h \<Rightarrow> 24 | Range7d \<Rightarrow> 24 * 7 | Range30d \<Rightarrow> 24 * 30)"

definition capacity_refresh_ms :: "capacity_range \<Rightarrow> int" where
  "capacity_refresh_ms r = (case r of Range24h \<Rightarrow> 60000 | Range7d \<Rightarrow> 120000 | Range30d \<Rightarrow> 300000)"

definition parseCapacityRange :: "string option \<Rightarrow> capacity_range" where
  "parseCapacityRange value =
     (if value = Some ''24h'' then Range24h else if value = Some ''7d'' then Range7d else Range30d)"

record capacity_thresholds =
  warningPercent :: rat
  criticalPercent :: rat

definition disk_policy :: capacity_thresholds where
  "disk_policy = \<lparr> warningPercent = 80, criticalPercent = 90 \<rparr>"

definition memory_policy :: capacity_thresholds where
  "memory_policy = \<lparr> warningPercent = 85, criticalPercent = 95 \<rparr>"

record forecast_policy =
  minimumPointCount :: nat
  minimumCoverageRatio :: rat
  minimumSpanRatio :: rat
  minimumRSquared :: rat
  mediumRSquared :: rat
  highRSquared :: rat
  mediumCoverageRatio :: rat
  highCoverageRatio :: rat
  minimumGrowthPercentPerDay :: rat
  warningHorizonDays :: rat
  criticalHorizonDays :: rat
  maximumForecastDays :: rat

definition forecast_rules :: forecast_policy where
  "forecast_rules =
     \<lparr> minimumPointCount = 24, minimumCoverageRatio = 4 / 10, minimumSpanRatio = 5 / 10,
       minimumRSquared = 3 / 10, mediumRSquared = 5 / 10, highRSquared = 75 / 100,
       mediumCoverageRatio = 65 / 100, highCoverageRatio = 8 / 10,
       minimumGrowthPercentPerDay = 5 / 100, warningHorizonDays = 30, criticalHorizonDays = 7,
       maximumForecastDays = 365 \<rparr>"

record backup_growth_policy =
  bg_minimumPointCount :: nat
  bg_minimumSpanRatio :: rat
  bg_minimumRSquared :: rat
  bg_materialGrowthBytesPerDay :: rat

definition backup_growth_rules :: backup_growth_policy where
  "backup_growth_rules =
     \<lparr> bg_minimumPointCount = 3, bg_minimumSpanRatio = 15 / 100, bg_minimumRSquared = 25 / 100,
       bg_materialGrowthBytesPerDay = 1048576 \<rparr>"

definition MAX_ACCEPTED_PERCENT :: rat where
  "MAX_ACCEPTED_PERCENT = 200"

definition EPSILON :: rat where
  \<comment> \<open>\<open>Number.EPSILON\<close>\<close>
  "EPSILON = 1 / 2 ^ 52"

section \<open>Data\<close>

datatype capacity_resource_kind = DiskResource | MemoryResource

datatype forecast_confidence = HighConfidence | MediumConfidence | LowConfidence | InsufficientConfidence

datatype capacity_state =
    CapHealthy | CapGrowth | CapForecastWarning | CapForecastCritical | CapWarning | CapCritical | CapInsufficient

datatype backup_growth_state = BackupGrowth | BackupStable | BackupShrinking | BackupGrowthInsufficient

datatype capacity_reason =
    NoCurrentUsage
  | CriticalReached rat
  | WarningReached rat
  | TooFewSamples nat nat
  | CoverageTooLow
  | TrendTooNoisy
  | StableTrend
  | CriticalInDays int
  | WarningInDays int
  | GrowingTrend

record capacity_forecast =
  cf_currentPercent :: "rat option"
  cf_state :: capacity_state
  cf_slopePercentPerDay :: "rat option"
  cf_rSquared :: "rat option"
  cf_confidence :: forecast_confidence
  cf_coverageRatio :: rat
  cf_spanRatio :: rat
  cf_validPointCount :: nat
  cf_expectedPointCount :: int
  cf_daysToWarning :: "rat option"
  cf_daysToCritical :: "rat option"
  cf_warningPercent :: rat
  cf_criticalPercent :: rat
  cf_reason :: capacity_reason

record host_capacity_resource =
  hc_id :: string
  hc_hostId :: string
  hc_serverId :: "string option"
  hc_hostDisplayName :: string
  hc_kind :: capacity_resource_kind
  hc_totalBytes :: "rat option"
  hc_availableBytes :: "rat option"
  hc_detailHref :: "string option"
  hc_forecast :: capacity_forecast

record container_capacity_resource =
  cc_id :: string
  cc_hostId :: string
  cc_serverId :: "string option"
  cc_hostDisplayName :: string
  cc_containerName :: string
  cc_memoryUsageBytes :: "rat option"
  cc_memoryLimitBytes :: "rat option"
  cc_detailHref :: "string option"
  cc_forecast :: capacity_forecast

record backup_growth_forecast =
  bf_id :: string
  bf_hostId :: string
  bf_hostDisplayName :: string
  bf_backupTarget :: string
  bf_latestSizeBytes :: "int option"
  bf_growthBytesPerDay :: "rat option"
  bf_growthPercentPerDay :: "rat option"
  bf_rSquared :: "rat option"
  bf_confidence :: forecast_confidence
  bf_state :: backup_growth_state
  bf_sampleCount :: nat
  bf_spanRatio :: rat

record capacity_summary =
  cm_forecastAttentionCount :: nat
  cm_criticalCount :: nat
  cm_warningCount :: nat
  cm_growthCount :: nat
  cm_insufficientCount :: nat
  cm_backupGrowthCount :: nat

record capacity_snapshot =
  cap_generatedAt :: string
  cap_range :: capacity_range
  cap_sources :: "bool \<times> bool \<times> bool \<times> bool" \<comment> \<open>monitoring, host history, container history, backups\<close>
  cap_hostResources :: "host_capacity_resource list"
  cap_containerResources :: "container_capacity_resource list"
  cap_backupGrowth :: "backup_growth_forecast list"
  cap_hostHistory :: "host_history_series list"
  cap_containerHistory :: "container_history_series list"
  cap_summary :: capacity_summary

record percent_trend_point =
  tp_timestamp :: string
  tp_value :: "rat option"
  tp_sampleCount :: int

record regression_point =
  rg_timestamp :: string
  rg_value :: rat
  rg_weight :: rat

record regression_fit =
  slopePerDay :: rat
  rSquared :: rat
  pointCount :: nat
  spanDays :: rat

section \<open>Current usage\<close>

definition percentFromCapacity :: "rat option \<Rightarrow> rat option \<Rightarrow> rat option" where
  "percentFromCapacity totalBytes availableBytes =
     (case (totalBytes, availableBytes) of
        (Some t, Some a) \<Rightarrow> if t \<le> 0 \<or> a < 0 then None else Some (max 0 ((t - a) / t * 100))
      | _ \<Rightarrow> None)"

definition percentFromContainer :: "container_overview option \<Rightarrow> rat option" where
  "percentFromContainer container =
     (case container of
        None \<Rightarrow> None
      | Some c \<Rightarrow>
          (case (co_memoryUsageBytes c, co_memoryLimitBytes c) of
             (Some u, Some l) \<Rightarrow> if l \<le> 0 then None else Some (max 0 (u / l * 100))
           | _ \<Rightarrow> None))"

definition latestPercent :: "percent_trend_point list \<Rightarrow> rat option" where
  "latestPercent points = js_last (List.map_filter tp_value points)"

section \<open>Regression\<close>

record plane_point =
  px :: rat
  py :: rat
  pw :: rat

definition sum_of :: "('a \<Rightarrow> rat) \<Rightarrow> 'a list \<Rightarrow> rat" where
  \<comment> \<open>\<open>xs.reduce((sum, x) => sum + f(x), 0)\<close>\<close>
  "sum_of f xs = foldl (\<lambda>s x. s + f x) 0 xs"

definition sorted_points :: "regression_point list \<Rightarrow> regression_point list" where
  "sorted_points points = sort_key (\<lambda>p. ms_of (rg_timestamp p)) points"

definition normalized :: "int \<Rightarrow> regression_point list \<Rightarrow> plane_point list" where
  \<comment> \<open>days since the first point; a point without a time or with no weight is left out\<close>
  "normalized firstTime points = List.map_filter (\<lambda>p.
     case Date_parse (rg_timestamp p) of
       None \<Rightarrow> None
     | Some t \<Rightarrow> if rg_weight p \<le> 0 then None
         else Some \<lparr> px = of_int (t - firstTime) / 86400000, py = rg_value p, pw = rg_weight p \<rparr>) points"

definition totalWeight :: "plane_point list \<Rightarrow> rat" where
  "totalWeight ps = sum_of pw ps"

definition meanX :: "plane_point list \<Rightarrow> rat" where
  "meanX ps = sum_of (\<lambda>p. px p * pw p) ps / totalWeight ps"

definition meanY :: "plane_point list \<Rightarrow> rat" where
  "meanY ps = sum_of (\<lambda>p. py p * pw p) ps / totalWeight ps"

definition varianceX :: "plane_point list \<Rightarrow> rat" where
  "varianceX ps = sum_of (\<lambda>p. pw p * (px p - meanX ps) ^ 2) ps"

definition covariance :: "plane_point list \<Rightarrow> rat" where
  "covariance ps = sum_of (\<lambda>p. pw p * (px p - meanX ps) * (py p - meanY ps)) ps"

definition totalVarianceY :: "plane_point list \<Rightarrow> rat" where
  "totalVarianceY ps = sum_of (\<lambda>p. pw p * (py p - meanY ps) ^ 2) ps"

definition fit_slope :: "plane_point list \<Rightarrow> rat" where
  "fit_slope ps = covariance ps / varianceX ps"

definition fit_intercept :: "plane_point list \<Rightarrow> rat" where
  "fit_intercept ps = meanY ps - fit_slope ps * meanX ps"

definition residual :: "plane_point list \<Rightarrow> rat \<Rightarrow> rat \<Rightarrow> rat" where
  \<comment> \<open>of the line with this intercept and slope\<close>
  "residual ps a b = sum_of (\<lambda>p. pw p * (py p - (a + b * px p)) ^ 2) ps"

definition regression_line :: "plane_point list \<Rightarrow> rat \<Rightarrow> regression_fit option" where
  "regression_line ps days =
     (if length ps < 2 then None
      else if totalWeight ps \<le> 0 then None
      else if varianceX ps \<le> EPSILON then None
      else Some \<lparr> slopePerDay = fit_slope ps,
        rSquared = (if totalVarianceY ps \<le> EPSILON then 1
          else max 0 (min 1 (1 - residual ps (fit_intercept ps) (fit_slope ps) / totalVarianceY ps))),
        pointCount = length ps, spanDays = days \<rparr>)"

definition regression :: "regression_point list \<Rightarrow> regression_fit option" where
  "regression points =
     (if length points < 2 then None
      else (let sorted = sorted_points points
            in case (Date_parse (rg_timestamp (hd sorted)), Date_parse (rg_timestamp (last sorted))) of
                 (Some firstTime, Some lastTime) \<Rightarrow>
                   if lastTime \<le> firstTime then None
                   else regression_line (normalized firstTime sorted)
                     (of_int (lastTime - firstTime) / 86400000)
               | _ \<Rightarrow> None))"

section \<open>Forecasts\<close>

definition confidenceFor :: "rat \<Rightarrow> rat \<Rightarrow> rat \<Rightarrow> forecast_confidence" where
  "confidenceFor r2 coverage span_ratio =
     (if r2 \<ge> highRSquared forecast_rules \<and> coverage \<ge> highCoverageRatio forecast_rules \<and>
         span_ratio \<ge> highCoverageRatio forecast_rules then HighConfidence
      else if r2 \<ge> mediumRSquared forecast_rules \<and> coverage \<ge> mediumCoverageRatio forecast_rules \<and>
         span_ratio \<ge> mediumCoverageRatio forecast_rules then MediumConfidence
      else LowConfidence)"

definition daysToThreshold :: "rat \<Rightarrow> rat \<Rightarrow> rat \<Rightarrow> rat option" where
  "daysToThreshold current slope threshold =
     (if current \<ge> threshold then Some 0
      else if slope < minimumGrowthPercentPerDay forecast_rules then None
      else (let days = (threshold - current) / slope
            in if days \<ge> 0 \<and> days \<le> maximumForecastDays forecast_rules then Some days else None))"

definition valid_points :: "percent_trend_point list \<Rightarrow> regression_point list" where
  "valid_points points = List.map_filter (\<lambda>p.
     case (tp_value p, Date_parse (tp_timestamp p)) of
       (Some v, Some t) \<Rightarrow>
         if v < 0 \<or> v > MAX_ACCEPTED_PERCENT then None
         else Some \<lparr> rg_timestamp = tp_timestamp p, rg_value = v, rg_weight = of_int (max 1 (tp_sampleCount p)) \<rparr>
     | _ \<Rightarrow> None) points"

definition expected_points :: "int \<Rightarrow> capacity_range \<Rightarrow> int" where
  "expected_points bucketSeconds rng = max 1 (capacity_hours rng * 3600 div max 1 bucketSeconds)"

definition span_ratio_of :: "regression_fit option \<Rightarrow> capacity_range \<Rightarrow> rat" where
  "span_ratio_of fitted rng =
     (case fitted of None \<Rightarrow> 0
      | Some f \<Rightarrow> min 1 (spanDays f / max (1 / 24) (of_int (capacity_hours rng) / 24)))"

definition trend_usable :: "regression_fit \<Rightarrow> nat \<Rightarrow> rat \<Rightarrow> rat \<Rightarrow> bool" where
  "trend_usable f n coverage span_ratio \<longleftrightarrow>
     n \<ge> minimumPointCount forecast_rules \<and> coverage \<ge> minimumCoverageRatio forecast_rules \<and>
     span_ratio \<ge> minimumSpanRatio forecast_rules \<and> rSquared f \<ge> minimumRSquared forecast_rules"

definition within_days :: "rat option \<Rightarrow> rat \<Rightarrow> bool" where
  "within_days days horizon = (case days of None \<Rightarrow> False | Some d \<Rightarrow> d \<le> horizon)"

type_synonym outlook = "capacity_state \<times> forecast_confidence \<times> rat option \<times> rat option \<times> capacity_reason"
  \<comment> \<open>state, confidence, days to the warning and critical thresholds, reason\<close>

definition trend_outlook :: "rat \<Rightarrow> regression_fit \<Rightarrow> rat \<Rightarrow> rat \<Rightarrow> capacity_thresholds \<Rightarrow> outlook" where
  \<comment> \<open>the end of the function, for a usable trend below the warning threshold\<close>
  "trend_outlook current f coverage span_ratio th =
     (let confidence = confidenceFor (rSquared f) coverage span_ratio;
          toWarning = daysToThreshold current (slopePerDay f) (warningPercent th);
          toCritical = daysToThreshold current (slopePerDay f) (criticalPercent th);
          shown = (\<lambda>d. max 1 (\<lceil>the d\<rceil> :: int));
          (state, reason) =
            (if within_days toCritical (criticalHorizonDays forecast_rules)
             then (CapForecastCritical, CriticalInDays (shown toCritical))
             else if within_days toWarning (warningHorizonDays forecast_rules)
             then (CapForecastWarning, WarningInDays (shown toWarning))
             else if slopePerDay f \<ge> minimumGrowthPercentPerDay forecast_rules then (CapGrowth, GrowingTrend)
             else (CapHealthy, StableTrend))
      in (state, confidence, toWarning, toCritical, reason))"

definition outlook_of ::
  "rat option \<Rightarrow> regression_fit option \<Rightarrow> nat \<Rightarrow> rat \<Rightarrow> rat \<Rightarrow> capacity_thresholds \<Rightarrow> outlook" where
  \<comment> \<open>the branches in the order of the code\<close>
  "outlook_of currentPercent fitted n coverage span_ratio th =
     (let trusted = (\<lambda>f. confidenceFor (rSquared f) coverage span_ratio)
      in case currentPercent of
           None \<Rightarrow> (CapInsufficient, InsufficientConfidence, None, None, NoCurrentUsage)
         | Some current \<Rightarrow>
             if current \<ge> criticalPercent th then
               (CapCritical, (case fitted of None \<Rightarrow> InsufficientConfidence | Some f \<Rightarrow> trusted f),
                Some 0, Some 0, CriticalReached (criticalPercent th))
             else if current \<ge> warningPercent th then
               (case fitted of
                  Some f \<Rightarrow>
                    if trend_usable f n coverage span_ratio
                    then (CapWarning, trusted f, Some 0,
                          daysToThreshold current (slopePerDay f) (criticalPercent th),
                          WarningReached (warningPercent th))
                    else (CapWarning, InsufficientConfidence, Some 0, None, WarningReached (warningPercent th))
                | None \<Rightarrow> (CapWarning, InsufficientConfidence, Some 0, None, WarningReached (warningPercent th)))
             else (case fitted of
                 None \<Rightarrow> (CapInsufficient, InsufficientConfidence, None, None,
                           TooFewSamples n (minimumPointCount forecast_rules))
               | Some f \<Rightarrow>
                   if n < minimumPointCount forecast_rules
                   then (CapInsufficient, InsufficientConfidence, None, None,
                         TooFewSamples n (minimumPointCount forecast_rules))
                   else if coverage < minimumCoverageRatio forecast_rules \<or>
                           span_ratio < minimumSpanRatio forecast_rules
                   then (CapInsufficient, InsufficientConfidence, None, None, CoverageTooLow)
                   else if rSquared f < minimumRSquared forecast_rules
                   then (CapInsufficient, InsufficientConfidence, None, None, TrendTooNoisy)
                   else trend_outlook current f coverage span_ratio th))"

definition percentForecast ::
  "percent_trend_point list \<Rightarrow> rat option \<Rightarrow> int \<Rightarrow> capacity_range \<Rightarrow> capacity_thresholds \<Rightarrow> capacity_forecast" where
  "percentForecast points currentOverride bucketSeconds rng th =
     (let valid = valid_points points;
          expected = expected_points bucketSeconds rng;
          coverage = min 1 (of_nat (length valid) / of_int expected);
          fitted = regression valid;
          span_ratio = span_ratio_of fitted rng;
          currentPercent = (case currentOverride of Some c \<Rightarrow> Some c | None \<Rightarrow> latestPercent points);
          (state, confidence, toWarning, toCritical, reason) =
            outlook_of currentPercent fitted (length valid) coverage span_ratio th
      in \<lparr> cf_currentPercent = currentPercent, cf_state = state,
           cf_slopePercentPerDay = map_option slopePerDay fitted, cf_rSquared = map_option rSquared fitted,
           cf_confidence = confidence, cf_coverageRatio = coverage, cf_spanRatio = span_ratio,
           cf_validPointCount = length valid, cf_expectedPointCount = expected,
           cf_daysToWarning = toWarning, cf_daysToCritical = toCritical,
           cf_warningPercent = warningPercent th, cf_criticalPercent = criticalPercent th,
           cf_reason = reason \<rparr>)"

section \<open>Backup growth\<close>

definition backup_points :: "backup_history_run list \<Rightarrow> regression_point list" where
  "backup_points runs = List.map_filter (\<lambda>r.
     case (br_sizeBytes r, nonempty (br_completedAt r)) of
       (Some size_, Some completed) \<Rightarrow>
         if br_outcome r \<noteq> BackupSuccess \<or> size_ < 0 then None
         else Some \<lparr> rg_timestamp = completed, rg_value = of_int size_, rg_weight = 1 \<rparr>
     | _ \<Rightarrow> None) runs"

definition backupGrowthForecast ::
  "backup_target_snapshot \<Rightarrow> backup_history_run list \<Rightarrow> capacity_range \<Rightarrow> backup_growth_forecast" where
  "backupGrowthForecast target runs rng =
     (let points = backup_points runs;
          fitted = regression points;
          span_ratio = span_ratio_of fitted rng;
          latest = Option.bind (bt_latestSuccess target) bs_sizeBytes;
          growth = map_option slopePerDay fitted;
          growthPercent = (case (growth, latest) of
             (Some g, Some l) \<Rightarrow> if l > 0 then Some (g / of_int l * 100) else None
           | _ \<Rightarrow> None);
          material = bg_materialGrowthBytesPerDay backup_growth_rules;
          (confidence, state) =
            (case fitted of
               None \<Rightarrow> (InsufficientConfidence, BackupGrowthInsufficient)
             | Some f \<Rightarrow>
                 if length points \<ge> bg_minimumPointCount backup_growth_rules \<and>
                    span_ratio \<ge> bg_minimumSpanRatio backup_growth_rules \<and>
                    rSquared f \<ge> bg_minimumRSquared backup_growth_rules
                 then ((if rSquared f \<ge> highRSquared forecast_rules \<and>
                           span_ratio \<ge> highCoverageRatio forecast_rules then HighConfidence
                        else if rSquared f \<ge> mediumRSquared forecast_rules \<and>
                           span_ratio \<ge> mediumCoverageRatio forecast_rules then MediumConfidence
                        else LowConfidence),
                       (if slopePerDay f > material then BackupGrowth
                        else if slopePerDay f < - material then BackupShrinking
                        else BackupStable))
                 else (InsufficientConfidence, BackupGrowthInsufficient))
      in \<lparr> bf_id = bt_hostId target @ '':'' @ bt_backupTarget target @ '':'' @ backup_type_text (bt_backupType target),
           bf_hostId = bt_hostId target, bf_hostDisplayName = bt_hostDisplayName target,
           bf_backupTarget = bt_backupTarget target, bf_latestSizeBytes = latest,
           bf_growthBytesPerDay = growth, bf_growthPercentPerDay = growthPercent,
           bf_rSquared = map_option rSquared fitted, bf_confidence = confidence, bf_state = state,
           bf_sampleCount = length points, bf_spanRatio = span_ratio \<rparr>)"

section \<open>The snapshot\<close>

definition historyHostName :: "host_history_series option \<Rightarrow> host_overview option \<Rightarrow> string" where
  "historyHostName series host =
     (case host of Some h \<Rightarrow> ho_displayName h
      | None \<Rightarrow> (case series of Some s \<Rightarrow> hs_hostDisplayName s | None \<Rightarrow> ''Unknown Host''))"

definition trend_of :: "(host_history_point \<Rightarrow> rat option) \<Rightarrow> host_history_series option \<Rightarrow> percent_trend_point list" where
  "trend_of f series =
     (case series of None \<Rightarrow> []
      | Some s \<Rightarrow> map (\<lambda>p. \<lparr> tp_timestamp = hp_timestamp p, tp_value = f p, tp_sampleCount = hp_sampleCount p \<rparr>)
          (hs_points s))"

definition host_capacity ::
  "capacity_range \<Rightarrow> host_overview option \<Rightarrow> host_history_series option \<Rightarrow> string \<Rightarrow>
   capacity_resource_kind \<Rightarrow> host_capacity_resource" where
  "host_capacity rng host series hostId kind =
     (let totalBytes = Option.bind host
            (case kind of DiskResource \<Rightarrow> ho_diskTotalBytes | MemoryResource \<Rightarrow> ho_memoryTotalBytes);
          availableBytes = Option.bind host
            (case kind of DiskResource \<Rightarrow> ho_diskAvailableBytes | MemoryResource \<Rightarrow> ho_memoryAvailableBytes);
          serverId = map_option ho_serverId host
      in \<lparr> hc_id = hostId @ (case kind of DiskResource \<Rightarrow> '':disk'' | MemoryResource \<Rightarrow> '':memory''),
           hc_hostId = hostId, hc_serverId = serverId, hc_hostDisplayName = historyHostName series host,
           hc_kind = kind, hc_totalBytes = totalBytes, hc_availableBytes = availableBytes,
           hc_detailHref = map_option (\<lambda>s. ''/hosts/'' @ encodeURIComponent s) (nonempty serverId),
           hc_forecast = percentForecast
             (trend_of (case kind of DiskResource \<Rightarrow> hp_diskPercent | MemoryResource \<Rightarrow> hp_memoryPercent) series)
             (case host of None \<Rightarrow> None | Some h \<Rightarrow> percentFromCapacity totalBytes availableBytes)
             (case series of None \<Rightarrow> 3600 | Some s \<Rightarrow> hs_bucketSeconds s) rng
             (case kind of DiskResource \<Rightarrow> disk_policy | MemoryResource \<Rightarrow> memory_policy) \<rparr>)"

definition host_resources ::
  "capacity_range \<Rightarrow> host_overview list \<Rightarrow> host_history_series list \<Rightarrow> host_capacity_resource list" where
  "host_resources rng hosts history =
     (let monitoringHosts = index_by ho_id hosts;
          historyHosts = index_by hs_hostId history
      in concat (map (\<lambda>hostId.
           [host_capacity rng (map_of monitoringHosts hostId) (map_of historyHosts hostId) hostId DiskResource,
            host_capacity rng (map_of monitoringHosts hostId) (map_of historyHosts hostId) hostId MemoryResource])
           (js_set (map_keys monitoringHosts @ map_keys historyHosts))))"

definition container_trend :: "container_history_series option \<Rightarrow> percent_trend_point list" where
  "container_trend series =
     (case series of None \<Rightarrow> []
      | Some s \<Rightarrow> map (\<lambda>p. \<lparr> tp_timestamp = cp_timestamp p, tp_value = cp_memoryPercent p,
          tp_sampleCount = cp_sampleCount p \<rparr>) (ch_points s))"

definition container_capacity ::
  "capacity_range \<Rightarrow> (string \<times> host_overview) list \<Rightarrow> container_overview option \<Rightarrow>
   container_history_series option \<Rightarrow> container_capacity_resource option" where
  \<comment> \<open>the body of the loop; \<open>None\<close> where it continues with the next key\<close>
  "container_capacity rng monitoringHosts container series = do {
     hostId \<leftarrow> nonempty (case container of Some c \<Rightarrow> Some (co_hostId c) | None \<Rightarrow> map_option ch_hostId series);
     containerName \<leftarrow> nonempty (case container of Some c \<Rightarrow> Some (co_name c)
       | None \<Rightarrow> map_option ch_containerName series);
     let serverId = map_option ho_serverId (map_of monitoringHosts hostId);
     Some \<lparr> cc_id = hostId @ '':'' @ containerName, cc_hostId = hostId, cc_serverId = serverId,
       cc_hostDisplayName = (case container of Some c \<Rightarrow> co_hostDisplayName c
         | None \<Rightarrow> (case series of Some s \<Rightarrow> ch_hostDisplayName s | None \<Rightarrow> ''Unknown Host'')),
       cc_containerName = containerName,
       cc_memoryUsageBytes = Option.bind container co_memoryUsageBytes,
       cc_memoryLimitBytes = Option.bind container co_memoryLimitBytes,
       cc_detailHref = map_option (\<lambda>s. ''/containers/'' @ encodeURIComponent s @ ''/'' @
         encodeURIComponent containerName) (nonempty serverId),
       cc_forecast = percentForecast (container_trend series) (percentFromContainer container)
         (case series of None \<Rightarrow> 3600 | Some s \<Rightarrow> ch_bucketSeconds s) rng memory_policy \<rparr>
   }"

definition container_resources ::
  "capacity_range \<Rightarrow> host_overview list \<Rightarrow> container_overview list \<Rightarrow> container_history_series list \<Rightarrow>
   container_capacity_resource list" where
  "container_resources rng hosts containers history =
     (let monitoringContainers = index_by (\<lambda>c. co_hostId c @ '':'' @ co_name c) containers;
          historyContainers = index_by (\<lambda>s. ch_hostId s @ '':'' @ ch_containerName s) history
      in List.map_filter (\<lambda>key. container_capacity rng (index_by ho_id hosts)
             (map_of monitoringContainers key) (map_of historyContainers key))
           (js_set (map_keys monitoringContainers @ map_keys historyContainers)))"

definition backup_growth_of :: "capacity_range \<Rightarrow> backup_center_snapshot option \<Rightarrow> backup_growth_forecast list" where
  "backup_growth_of rng backups =
     (case backups of None \<Rightarrow> []
      | Some b \<Rightarrow> map (\<lambda>t. backupGrowthForecast t
          (filter (\<lambda>r. bh_hostId r = bt_hostId t \<and> bh_backupTarget r = bt_backupTarget t \<and>
             bh_backupType r = bt_backupType t) (bk_history b)) rng) (bk_targets b))"

definition capacity_summary_of :: "capacity_forecast list \<Rightarrow> backup_growth_forecast list \<Rightarrow> capacity_summary" where
  "capacity_summary_of forecasts growth =
     (let count = (\<lambda>P. length (filter (\<lambda>f. P (cf_state f)) forecasts));
          criticalCount = count (\<lambda>s. s = CapCritical \<or> s = CapForecastCritical);
          warningCount = count (\<lambda>s. s = CapWarning \<or> s = CapForecastWarning)
      in \<lparr> cm_forecastAttentionCount = criticalCount + warningCount, cm_criticalCount = criticalCount,
           cm_warningCount = warningCount, cm_growthCount = count (\<lambda>s. s = CapGrowth),
           cm_insufficientCount = count (\<lambda>s. s = CapInsufficient),
           cm_backupGrowthCount = length (filter (\<lambda>b. bf_state b = BackupGrowth) growth) \<rparr>)"

definition kind_text :: "capacity_resource_kind \<Rightarrow> string" where
  "kind_text k = (case k of DiskResource \<Rightarrow> ''disk'' | MemoryResource \<Rightarrow> ''memory'')"

definition settled :: "'a list option \<Rightarrow> 'a list" where
  \<comment> \<open>\<open>result.status === "fulfilled" ? result.value : []\<close>\<close>
  "settled r = (case r of None \<Rightarrow> [] | Some xs \<Rightarrow> xs)"

definition getCapacitySnapshot ::
  "(string \<Rightarrow> string) \<Rightarrow> int \<Rightarrow> capacity_range \<Rightarrow> monitoring_snapshot option \<Rightarrow>
   host_history_series list option \<Rightarrow> container_history_series list option \<Rightarrow>
   backup_center_snapshot option \<Rightarrow> capacity_snapshot" where
  "getCapacitySnapshot collate now rng monitoring hostResult containerResult backups =
     (let hostHistory = settled hostResult;
          containerHistory = settled containerResult;
          hosts = settled (map_option ms_hosts monitoring);
          containers = settled (map_option ms_containers monitoring);
          hostResources = sort_key (\<lambda>r. collate (hc_hostDisplayName r @ '':'' @ kind_text (hc_kind r)))
            (host_resources rng hosts hostHistory);
          containerResources = sort_key (\<lambda>r. collate (cc_hostDisplayName r @ '':'' @ cc_containerName r))
            (container_resources rng hosts containers containerHistory);
          backupGrowth = sort_key (\<lambda>g. collate (bf_hostDisplayName g @ '':'' @ bf_backupTarget g))
            (backup_growth_of rng backups);
          forecasts = map hc_forecast hostResources @ map cc_forecast containerResources
      in \<lparr> cap_generatedAt = iso_text now, cap_range = rng,
           cap_sources = (monitoring \<noteq> None, hostResult \<noteq> None, containerResult \<noteq> None, backups \<noteq> None),
           cap_hostResources = hostResources, cap_containerResources = containerResources,
           cap_backupGrowth = backupGrowth, cap_hostHistory = hostHistory,
           cap_containerHistory = containerHistory,
           cap_summary = capacity_summary_of forecasts backupGrowth \<rparr>)"

section \<open>Weighted sums\<close>

lemma sum_of_sum_list: "sum_of f xs = sum_list (map f xs)"
proof -
  have "foldl (\<lambda>s x. s + f x) a xs = a + sum_list (map f xs)" for a
    by (induction xs arbitrary: a) auto
  then show ?thesis by (simp add: sum_of_def)
qed

lemma sum_of_simps [simp]: "sum_of f [] = 0" "sum_of f (x # xs) = f x + sum_of f xs"
  by (simp_all add: sum_of_sum_list)

lemma sum_of_add: "sum_of (\<lambda>x. f x + g x) xs = sum_of f xs + sum_of g xs"
  by (induction xs) auto

lemma sum_of_scale: "sum_of (\<lambda>x. c * f x) xs = c * sum_of f xs"
  by (induction xs) (auto simp: algebra_simps)

lemma sum_of_nonneg: "(\<And>x. x \<in> set xs \<Longrightarrow> 0 \<le> f x) \<Longrightarrow> 0 \<le> sum_of f xs"
  by (induction xs) auto

lemma sum_of_cong: "(\<And>x. x \<in> set xs \<Longrightarrow> f x = g x) \<Longrightarrow> sum_of f xs = sum_of g xs"
  by (induction xs) auto

text \<open>A weighted mean leaves no weighted deviation.\<close>

lemma mean_deviation:
  assumes "totalWeight ps \<noteq> 0"
  shows "sum_of (\<lambda>p. pw p * (px p - meanX ps)) ps = 0" and "sum_of (\<lambda>p. pw p * (py p - meanY ps)) ps = 0"
proof -
  have *: "sum_of (\<lambda>p. pw p * (f p - c)) ps = sum_of (\<lambda>p. f p * pw p) ps - c * totalWeight ps"
    for f :: "plane_point \<Rightarrow> rat" and c
    unfolding totalWeight_def by (induction ps) (auto simp: algebra_simps)
  show "sum_of (\<lambda>p. pw p * (px p - meanX ps)) ps = 0" using assms by (simp add: * meanX_def)
  show "sum_of (\<lambda>p. pw p * (py p - meanY ps)) ps = 0" using assms by (simp add: * meanY_def)
qed

text \<open>The residual of any line, around the means.\<close>

lemma residual_split:
  assumes "totalWeight ps \<noteq> 0" and d: "d = meanY ps - (a + b * meanX ps)"
  shows "residual ps a b = totalVarianceY ps - 2 * b * covariance ps + b ^ 2 * varianceX ps + totalWeight ps * d ^ 2"
proof -
  let ?u = "\<lambda>p. px p - meanX ps" and ?v = "\<lambda>p. py p - meanY ps"
  have "residual ps a b = sum_of (\<lambda>p. ((pw p * ?v p ^ 2 + (- 2 * b) * (pw p * ?u p * ?v p)) +
      (b ^ 2 * (pw p * ?u p ^ 2) + d ^ 2 * pw p)) +
      ((2 * d) * (pw p * ?v p) + (- 2 * b * d) * (pw p * ?u p))) ps"
    unfolding residual_def d by (rule sum_of_cong) (simp add: algebra_simps power2_eq_square)
  also have "\<dots> = totalVarianceY ps - 2 * b * covariance ps + b ^ 2 * varianceX ps + totalWeight ps * d ^ 2"
    by (simp only: sum_of_add sum_of_scale mean_deviation [OF assms(1)])
      (simp add: totalVarianceY_def covariance_def varianceX_def totalWeight_def)
  finally show ?thesis .
qed

lemma fit_residual:
  assumes "totalWeight ps \<noteq> 0" and "varianceX ps \<noteq> 0"
  shows "residual ps (fit_intercept ps) (fit_slope ps) = totalVarianceY ps - fit_slope ps ^ 2 * varianceX ps"
proof -
  have "covariance ps = fit_slope ps * varianceX ps" using assms(2) by (simp add: fit_slope_def)
  then show ?thesis
    by (simp add: residual_split [OF assms(1) refl] fit_intercept_def algebra_simps power2_eq_square)
qed

lemma fit_residual_least:
  assumes "0 < totalWeight ps" and "0 < varianceX ps"
  shows "residual ps (fit_intercept ps) (fit_slope ps) \<le> residual ps a b"
proof -
  have c: "covariance ps = fit_slope ps * varianceX ps" using assms(2) by (simp add: fit_slope_def)
  let ?d = "meanY ps - (a + b * meanX ps)"
  have "residual ps a b - residual ps (fit_intercept ps) (fit_slope ps)
      = (b - fit_slope ps) ^ 2 * varianceX ps + totalWeight ps * ?d ^ 2"
    using assms residual_split [of ps ?d a b]
    by (simp add: fit_residual c) (simp add: algebra_simps power2_eq_square)
  also have "\<dots> \<ge> 0" using assms by simp
  finally show ?thesis by simp
qed

lemma residual_nonneg: "(\<And>p. p \<in> set ps \<Longrightarrow> 0 < pw p) \<Longrightarrow> 0 \<le> residual ps a b"
  unfolding residual_def by (rule sum_of_nonneg) (simp add: less_imp_le)

lemma normalized_weights: "p \<in> set (normalized t ps) \<Longrightarrow> 0 < pw p"
  by (auto simp: normalized_def set_map_filter split: option.splits if_splits)

section \<open>The regression\<close>

lemma regression_cases:
  assumes "regression points = Some f"
  obtains first latest where
    "Date_parse (rg_timestamp (hd (sorted_points points))) = Some first"
    "first < latest" "spanDays f = of_int (latest - first) / 86400000"
    "regression_line (normalized first (sorted_points points)) (spanDays f) = Some f"
  using assms
  by (fastforce simp: regression_def Let_def regression_line_def split: if_splits option.splits)

text \<open>C21. The regression behind every forecast is the weighted least-squares line: no other line has a
  smaller residual, its coefficient of determination lies between 0 and 1 and is the explained share of
  the variance whenever the values vary (the clamps of the code never change it), and it rests on at
  least two points over a positive span.\<close>

theorem regression_is_least_squares:
  assumes "regression points = Some f"
  shows "\<exists>first ps a. Date_parse (rg_timestamp (hd (sorted_points points))) = Some first \<and>
    ps = normalized first (sorted_points points) \<and>
    (\<forall>a' b. residual ps a (slopePerDay f) \<le> residual ps a' b) \<and>
    0 \<le> rSquared f \<and> rSquared f \<le> 1 \<and>
    (totalVarianceY ps \<le> EPSILON \<or> rSquared f = 1 - residual ps a (slopePerDay f) / totalVarianceY ps) \<and>
    pointCount f = length ps \<and> 2 \<le> pointCount f \<and> 0 < spanDays f"
proof -
  from assms obtain first latest where first: "Date_parse (rg_timestamp (hd (sorted_points points))) = Some first"
    and later: "first < latest" "spanDays f = of_int (latest - first) / 86400000"
    and line: "regression_line (normalized first (sorted_points points)) (spanDays f) = Some f"
    by (rule regression_cases)
  define ps where "ps = normalized first (sorted_points points)"
  have eps: "0 < EPSILON" by (simp add: EPSILON_def)
  from line have w: "0 < totalWeight ps" and v: "0 < varianceX ps" and n: "2 \<le> length ps"
    and f: "slopePerDay f = fit_slope ps" "pointCount f = length ps"
      "rSquared f = (if totalVarianceY ps \<le> EPSILON then 1
        else max 0 (min 1 (1 - residual ps (fit_intercept ps) (fit_slope ps) / totalVarianceY ps)))"
    using eps by (cases f; auto simp: ps_def [symmetric] regression_line_def split: if_splits)+
  have nonneg: "0 \<le> residual ps (fit_intercept ps) (fit_slope ps)"
    by (rule residual_nonneg) (simp add: ps_def normalized_weights)
  have below: "residual ps (fit_intercept ps) (fit_slope ps) \<le> totalVarianceY ps"
    using fit_residual [of ps] w v by simp
  have clamp: "totalVarianceY ps \<le> EPSILON \<or>
      rSquared f = 1 - residual ps (fit_intercept ps) (fit_slope ps) / totalVarianceY ps"
    using nonneg below eps by (auto simp: f(3) divide_le_eq)
  have bounds: "0 \<le> rSquared f \<and> rSquared f \<le> 1" by (simp add: f(3))
  have "0 < spanDays f" using later by simp
  with first clamp bounds f n fit_residual_least [OF w v] show ?thesis
    unfolding ps_def by metis
qed

lemma sample_regression:
  "regression [\<lparr> rg_timestamp = iso_text 0, rg_value = 10, rg_weight = 1 \<rparr>,
     \<lparr> rg_timestamp = iso_text 86400000, rg_value = 20, rg_weight = 1 \<rparr>] =
   Some \<lparr> slopePerDay = 10, rSquared = 1, pointCount = 2, spanDays = 1 \<rparr>"
proof -
  have p: "Date_parse (iso_text 0) = Some 0" "Date_parse (iso_text 86400000) = Some 86400000"
    by (simp_all add: max_time_def)
  show ?thesis
    by (simp add: regression_def sorted_points_def p normalized_def map_filter_simps regression_line_def
        totalWeight_def varianceX_def covariance_def totalVarianceY_def meanX_def meanY_def fit_slope_def
        fit_intercept_def residual_def EPSILON_def power2_eq_square)
qed

theorem regression_is_least_squares_witness:
  "\<exists>first ps a. Date_parse (iso_text 0) = Some first \<and> length ps = 2 \<and>
     (\<forall>a' b. residual ps a 10 \<le> residual ps a' b)"
proof -
  have "sorted_points [\<lparr> rg_timestamp = iso_text 0, rg_value = 10, rg_weight = 1 \<rparr>,
     \<lparr> rg_timestamp = iso_text 86400000, rg_value = 20, rg_weight = 1 \<rparr>] =
     [\<lparr> rg_timestamp = iso_text 0, rg_value = 10, rg_weight = 1 \<rparr>,
     \<lparr> rg_timestamp = iso_text 86400000, rg_value = 20, rg_weight = 1 \<rparr>]"
    by (simp add: sorted_points_def max_time_def)
  with regression_is_least_squares [OF sample_regression] show ?thesis by auto
qed

section \<open>The forecast against its reference\<close>

text \<open>
  The reference reads the state off the line through the current value: \<open>current + slope * days\<close> is
  compared with the thresholds at the two horizons.
\<close>

definition usable_slope :: "percent_trend_point list \<Rightarrow> int \<Rightarrow> capacity_range \<Rightarrow> rat option" where
  "usable_slope points bucket rng =
     (let n = length (valid_points points)
      in case regression (valid_points points) of
           None \<Rightarrow> None
         | Some f \<Rightarrow>
             if trend_usable f n (min 1 (of_nat n / of_int (expected_points bucket rng))) (span_ratio_of (Some f) rng)
             then Some (slopePerDay f) else None)"

definition reference_state :: "rat option \<Rightarrow> rat option \<Rightarrow> capacity_thresholds \<Rightarrow> capacity_state" where
  "reference_state current slope th =
     (case current of
        None \<Rightarrow> CapInsufficient
      | Some c \<Rightarrow>
          if c \<ge> criticalPercent th then CapCritical
          else if c \<ge> warningPercent th then CapWarning
          else (case slope of
             None \<Rightarrow> CapInsufficient
           | Some s \<Rightarrow>
               if s < 5 / 100 then CapHealthy
               else if c + 7 * s \<ge> criticalPercent th then CapForecastCritical
               else if c + 30 * s \<ge> warningPercent th then CapForecastWarning
               else CapGrowth))"

lemma daysToThreshold_Some_iff:
  "daysToThreshold c s t = Some d \<longleftrightarrow>
     (t \<le> c \<and> d = 0) \<or> (c < t \<and> 5 / 100 \<le> s \<and> c + d * s = t \<and> d \<le> 365)"
proof (cases "t \<le> c \<or> s < 5 / 100")
  case True
  then show ?thesis by (auto simp: daysToThreshold_def forecast_rules_def)
next
  case False
  then have s: "0 < s" "5 / 100 \<le> s" "c < t" by auto
  have "c + d * s = t \<longleftrightarrow> (t - c) / s = d" using s by (auto simp: field_simps)
  with s show ?thesis by (auto simp: daysToThreshold_def forecast_rules_def Let_def)
qed

lemma daysToThreshold_within:
  assumes "c < t" and "0 \<le> h" and "h \<le> 365"
  shows "within_days (daysToThreshold c s t) h \<longleftrightarrow> 5 / 100 \<le> s \<and> t \<le> c + h * s"
proof
  assume "within_days (daysToThreshold c s t) h"
  then have "\<exists>d. daysToThreshold c s t = Some d \<and> d \<le> h" by (auto simp: within_days_def split: option.splits)
  then obtain d where "5 / 100 \<le> s" "c + d * s = t" "d \<le> h"
    using assms(1) by (auto simp: daysToThreshold_Some_iff)
  moreover then have "d * s \<le> h * s" by (intro mult_right_mono) auto
  ultimately show "5 / 100 \<le> s \<and> t \<le> c + h * s" by auto
next
  assume s: "5 / 100 \<le> s \<and> t \<le> c + h * s"
  then have pos: "0 < s" by (auto intro: less_le_trans [of 0 "5 / 100"])
  let ?d = "(t - c) / s"
  have "c + ?d * s = t" using pos by simp
  moreover have "?d \<le> h" using s pos by (simp add: pos_divide_le_eq)
  ultimately have "daysToThreshold c s t = Some ?d \<and> ?d \<le> h"
    unfolding daysToThreshold_Some_iff using assms s by auto
  then show "within_days (daysToThreshold c s t) h" by (simp add: within_days_def)
qed

lemma rules:
  "criticalHorizonDays forecast_rules = 7" "warningHorizonDays forecast_rules = 30"
  "minimumGrowthPercentPerDay forecast_rules = 5 / 100" "maximumForecastDays forecast_rules = 365"
  by (simp_all add: forecast_rules_def)

lemma trend_outlook_state:
  assumes "c < warningPercent th" and "c < criticalPercent th"
  shows "fst (trend_outlook c f cov sp th) = reference_state (Some c) (Some (slopePerDay f)) th"
  using assms
  by (simp add: trend_outlook_def reference_state_def rules daysToThreshold_within Let_def)

lemma outlook_state:
  assumes "warningPercent th \<le> criticalPercent th"
  shows "fst (outlook_of current fitted n cov sp th) =
     reference_state current (case fitted of None \<Rightarrow> None
       | Some f \<Rightarrow> if trend_usable f n cov sp then Some (slopePerDay f) else None) th"
proof (cases current)
  case (Some c)
  show ?thesis
  proof (cases "warningPercent th \<le> c")
    case True
    with Some show ?thesis
      by (auto simp: outlook_of_def reference_state_def Let_def split: option.split)
  next
    case False
    with assms have below: "c < warningPercent th" "c < criticalPercent th" by auto
    show ?thesis
    proof (cases fitted)
      case None
      with Some below show ?thesis by (simp add: outlook_of_def reference_state_def)
    next
      case fit: (Some f)
      show ?thesis
        using below Some fit trend_outlook_state [OF below, of f cov sp]
        by (auto simp: outlook_of_def trend_usable_def reference_state_def [of _ None] not_less)
    qed
  qed
qed (simp add: outlook_of_def reference_state_def)

lemma outlook_days:
  assumes "warningPercent th \<le> criticalPercent th"
    and "outlook_of current fitted n cov sp th = (st, conf, Some w, Some k, r)"
  shows "w \<le> k \<and> 0 \<le> w \<and> k \<le> 365"
proof -
  have order: "w \<le> k \<and> 0 \<le> w \<and> k \<le> 365"
    if "daysToThreshold c s (warningPercent th) = Some w" "daysToThreshold c s (criticalPercent th) = Some k" for c s
  proof (cases "criticalPercent th \<le> c \<or> warningPercent th \<le> c")
    case True
    moreover have "0 \<le> k" if "5 / 100 \<le> s" "c < c + k * s"
    proof -
      from that have "0 < s" by (auto intro: less_le_trans [of 0 "5 / 100"])
      with that show ?thesis by (simp add: zero_less_mult_iff)
    qed
    ultimately show ?thesis using that assms(1) by (auto simp: daysToThreshold_Some_iff)
  next
    case False
    with that have d: "5 / 100 \<le> s" "c + k * s = criticalPercent th" "c + w * s = warningPercent th"
      "c < warningPercent th" "k \<le> 365"
      by (auto simp: daysToThreshold_Some_iff)
    have s: "5 / 100 \<le> s" "w * s \<le> k * s" "0 < w * s" "k \<le> 365"
      using d assms(1) by linarith+
    then have "0 < s" by (auto intro: less_le_trans [of 0 "5 / 100"])
    with s show ?thesis
      using mult_le_cancel_right_pos [of s w k] by (simp add: zero_less_mult_iff)
  qed
  have zero: "0 \<le> k \<and> k \<le> 365" if "daysToThreshold c s (criticalPercent th) = Some k" for c s
  proof (cases "criticalPercent th \<le> c")
    case False
    with that have s: "5 / 100 \<le> s" "0 < k * s" "k \<le> 365" by (auto simp: daysToThreshold_Some_iff)
    then have "0 < s" by (auto intro: less_le_trans [of 0 "5 / 100"])
    with s show ?thesis by (auto simp: zero_less_mult_iff)
  qed (use that in \<open>auto simp: daysToThreshold_Some_iff\<close>)
  from assms(2) order zero show ?thesis
    by (auto simp: outlook_of_def trend_outlook_def Let_def split: option.splits if_splits prod.splits)
qed

lemma percentForecast_fields:
  "cf_currentPercent (percentForecast points cur bucket rng th) =
     (case cur of Some c \<Rightarrow> Some c | None \<Rightarrow> latestPercent points)"
  "(cf_state (percentForecast points cur bucket rng th), cf_confidence (percentForecast points cur bucket rng th),
    cf_daysToWarning (percentForecast points cur bucket rng th),
    cf_daysToCritical (percentForecast points cur bucket rng th),
    cf_reason (percentForecast points cur bucket rng th)) =
   outlook_of (case cur of Some c \<Rightarrow> Some c | None \<Rightarrow> latestPercent points) (regression (valid_points points))
     (length (valid_points points))
     (min 1 (of_nat (length (valid_points points)) / of_int (expected_points bucket rng)))
     (span_ratio_of (regression (valid_points points)) rng) th"
  by (simp_all add: percentForecast_def Let_def split: prod.split)

text \<open>C20. The forecast of a resource agrees with its reference: the state is read off the current figure,
  the thresholds and the line with the slope of a usable trend, and when days to both thresholds are
  shown, the warning comes no later than the critical threshold and both lie within a year.\<close>

theorem forecast_agrees_with_reference:
  assumes "warningPercent th \<le> criticalPercent th"
  shows "cf_state (percentForecast points cur bucket rng th) =
      reference_state (cf_currentPercent (percentForecast points cur bucket rng th))
        (usable_slope points bucket rng) th \<and>
    (\<forall>w k. cf_daysToWarning (percentForecast points cur bucket rng th) = Some w \<longrightarrow>
      cf_daysToCritical (percentForecast points cur bucket rng th) = Some k \<longrightarrow> w \<le> k \<and> 0 \<le> w \<and> k \<le> 365)"
proof -
  let ?f = "percentForecast points cur bucket rng th"
  note fields = percentForecast_fields [of points cur bucket rng th]
  have "cf_state ?f = fst (cf_state ?f, cf_confidence ?f, cf_daysToWarning ?f, cf_daysToCritical ?f, cf_reason ?f)"
    by simp
  also have "\<dots> = reference_state (cf_currentPercent ?f) (usable_slope points bucket rng) th"
    unfolding fields outlook_state [OF assms] usable_slope_def Let_def
    by (simp split: option.split)
  finally show ?thesis
    using outlook_days [OF assms] fields(2) by metis
qed

definition sample_trend :: "percent_trend_point list" where
  "sample_trend = map (\<lambda>i. \<lparr> tp_timestamp = iso_text (i * 3600000), tp_value = Some (50 + of_int i),
     tp_sampleCount = 1 \<rparr>) [0..23]"

definition sample_valid :: "regression_point list" where
  "sample_valid = map (\<lambda>i. \<lparr> rg_timestamp = iso_text (i * 3600000), rg_value = 50 + of_int i, rg_weight = 1 \<rparr>)
     [0..23]"

lemma sample_time: "0 \<le> i \<Longrightarrow> i \<le> 23 \<Longrightarrow> Date_parse (iso_text (i * 3600000)) = Some (i * 3600000)"
  by (simp add: max_time_def)

lemma sample_valid_points: "valid_points sample_trend = sample_valid"
proof -
  have "(case (tp_value p, Date_parse (tp_timestamp p)) of
       (Some v, Some t) \<Rightarrow>
         if v < 0 \<or> v > MAX_ACCEPTED_PERCENT then None
         else Some \<lparr> rg_timestamp = tp_timestamp p, rg_value = v, rg_weight = of_int (max 1 (tp_sampleCount p)) \<rparr>
     | _ \<Rightarrow> None) = Some \<lparr> rg_timestamp = iso_text (i * 3600000), rg_value = 50 + of_int i, rg_weight = 1 \<rparr>"
    if "p = \<lparr> tp_timestamp = iso_text (i * 3600000), tp_value = Some (50 + of_int i), tp_sampleCount = 1 \<rparr>"
      "0 \<le> i" "i \<le> 23" for p i
    using that sample_time [of i] by (simp add: MAX_ACCEPTED_PERCENT_def)
  then show ?thesis
    by (auto simp: valid_points_def sample_trend_def sample_valid_def map_filter_def filter_map comp_def
        intro!: map_cong filter_True)
qed

lemma sample_plane: "regression sample_valid =
  regression_line (map (\<lambda>i. \<lparr> px = of_int i / 24, py = 50 + of_int i, pw = 1 \<rparr>) [0..23]) (23 / 24)"
proof -
  have ms: "map (\<lambda>p. ms_of (rg_timestamp p)) sample_valid = map (\<lambda>i. i * 3600000) [0..23]"
    unfolding sample_valid_def map_map comp_def by (rule map_cong) (simp_all add: sample_time)
  have "sorted (map (\<lambda>p. ms_of (rg_timestamp p)) sample_valid)"
    unfolding ms by (simp add: upto_rec1)
  then have s: "sorted_points sample_valid = sample_valid"
    unfolding sorted_points_def by (rule sort_key_id_if_sorted)
  have n: "normalized 0 sample_valid = map (\<lambda>i. \<lparr> px = of_int i / 24, py = 50 + of_int i, pw = 1 \<rparr>) [0..23]"
    unfolding normalized_def sample_valid_def map_filter_def filter_map map_map comp_def
    by (rule map_cong) (auto simp: sample_time intro!: filter_True)
  have "hd sample_valid = \<lparr> rg_timestamp = iso_text (0 * 3600000), rg_value = 50 + of_int 0, rg_weight = 1 \<rparr>"
    "last sample_valid = \<lparr> rg_timestamp = iso_text (23 * 3600000), rg_value = 50 + of_int 23, rg_weight = 1 \<rparr>"
    "length sample_valid = 24"
    by (simp_all add: sample_valid_def hd_map last_map upto_rec1)
  then show ?thesis
    using sample_time [of 0] sample_time [of 23] by (simp add: regression_def s n)
qed

lemma sample_line: "regression_line (map (\<lambda>i. \<lparr> px = of_int i / 24, py = 50 + of_int i, pw = 1 \<rparr>) [0..23]) (23 / 24) =
   Some \<lparr> slopePerDay = 24, rSquared = 1, pointCount = 24, spanDays = 23 / 24 \<rparr>"
  by (simp add: upto_rec1 regression_line_def
        totalWeight_def varianceX_def covariance_def totalVarianceY_def meanX_def meanY_def fit_slope_def
        fit_intercept_def residual_def EPSILON_def power2_eq_square)

theorem forecast_agrees_with_reference_witness:
  "cf_state (percentForecast sample_trend None 3600 Range24h disk_policy) = CapForecastCritical"
proof -
  have th: "warningPercent disk_policy \<le> criticalPercent disk_policy" by (simp add: disk_policy_def)
  have fit: "regression sample_valid =
      Some \<lparr> slopePerDay = 24, rSquared = 1, pointCount = 24, spanDays = 23 / 24 \<rparr>"
    by (simp only: sample_plane sample_line)
  have n: "length sample_valid = 24" by (simp add: sample_valid_def)
  have slope: "usable_slope sample_trend 3600 Range24h = Some 24"
    unfolding usable_slope_def sample_valid_points fit
    by (simp add: n expected_points_def capacity_hours_def trend_usable_def forecast_rules_def
        span_ratio_of_def)
  have current: "cf_currentPercent (percentForecast sample_trend None 3600 Range24h disk_policy) = Some 73"
    by (simp add: percentForecast_fields latestPercent_def sample_trend_def map_filter_simps upto_rec1
        js_last_def)
  have "reference_state (Some 73) (Some 24) disk_policy = CapForecastCritical"
    by (simp add: reference_state_def disk_policy_def)
  with forecast_agrees_with_reference [OF th, of sample_trend None 3600 Range24h]
  show ?thesis by (simp only: slope current)
qed

section \<open>The snapshot covers every resource\<close>

lemma capacity_states_counted:
  "cm_criticalCount (capacity_summary_of fs gs) + cm_warningCount (capacity_summary_of fs gs) +
   cm_growthCount (capacity_summary_of fs gs) + cm_insufficientCount (capacity_summary_of fs gs) +
   length (filter (\<lambda>f. cf_state f = CapHealthy) fs) = length fs"
proof (induction fs)
  case (Cons f fs)
  then show ?case by (cases "cf_state f") (simp_all add: capacity_summary_of_def Let_def)
qed (simp add: capacity_summary_of_def)

lemma host_resources_keys:
  "map (\<lambda>r. (hc_hostId r, hc_kind r)) (host_resources rng hosts history) =
     concat (map (\<lambda>h. [(h, DiskResource), (h, MemoryResource)])
       (js_set (map_keys (index_by ho_id hosts) @ map_keys (index_by hs_hostId history))))"
  by (simp add: host_resources_def Let_def map_concat comp_def host_capacity_def)

lemma distinct_two_each:
  "distinct hs \<Longrightarrow> distinct (concat (map (\<lambda>h. [(h, DiskResource), (h, MemoryResource)]) hs))"
  by (induction hs) auto

text \<open>The capacity centre shows every host that the monitoring or the history knows with exactly one
  disk and one memory resource, whatever requests failed; the counts of its summary together with the
  healthy resources account for every forecast, and the attention count is the critical and warning ones.\<close>

theorem capacity_covers_every_host:
  "let s = getCapacitySnapshot collate now rng monitoring hostResult containerResult backups;
       keys = map (\<lambda>r. (hc_hostId r, hc_kind r)) (cap_hostResources s);
       forecasts = map hc_forecast (cap_hostResources s) @ map cc_forecast (cap_containerResources s)
   in distinct keys \<and>
      set keys = (ho_id ` set (settled (map_option ms_hosts monitoring)) \<union> hs_hostId ` set (settled hostResult)) \<times>
        {DiskResource, MemoryResource} \<and>
      cm_criticalCount (cap_summary s) + cm_warningCount (cap_summary s) + cm_growthCount (cap_summary s) +
        cm_insufficientCount (cap_summary s) + length (filter (\<lambda>f. cf_state f = CapHealthy) forecasts) =
        length forecasts \<and>
      cm_forecastAttentionCount (cap_summary s) = cm_criticalCount (cap_summary s) + cm_warningCount (cap_summary s)"
proof -
  define s where "s = getCapacitySnapshot collate now rng monitoring hostResult containerResult backups"
  let ?rs = "host_resources rng (settled (map_option ms_hosts monitoring)) (settled hostResult)"
  let ?key = "\<lambda>r. (hc_hostId r, hc_kind r)"
  have m: "mset (cap_hostResources s) = mset ?rs"
    by (simp add: s_def getCapacitySnapshot_def Let_def)
  then have "mset (map ?key (cap_hostResources s)) = mset (map ?key ?rs)" by simp
  moreover have "distinct (map ?key ?rs)"
    unfolding host_resources_keys by (rule distinct_two_each) simp
  ultimately have d: "distinct (map ?key (cap_hostResources s))" using mset_eq_imp_distinct_iff by blast
  have "set (map ?key (cap_hostResources s)) = set (map ?key ?rs)" using mset_eq_setD [OF m] by simp
  also have "\<dots> = (ho_id ` set (settled (map_option ms_hosts monitoring)) \<union> hs_hostId ` set (settled hostResult)) \<times>
      {DiskResource, MemoryResource}"
    unfolding host_resources_keys by (auto simp: image_Un)
  finally have keys: "set (map ?key (cap_hostResources s)) =
      (ho_id ` set (settled (map_option ms_hosts monitoring)) \<union> hs_hostId ` set (settled hostResult)) \<times>
      {DiskResource, MemoryResource}" .
  have summary: "cap_summary s = capacity_summary_of
      (map hc_forecast (cap_hostResources s) @ map cc_forecast (cap_containerResources s)) (cap_backupGrowth s)"
    by (simp add: s_def getCapacitySnapshot_def Let_def)
  have attention: "cm_forecastAttentionCount (capacity_summary_of fs gs) =
      cm_criticalCount (capacity_summary_of fs gs) + cm_warningCount (capacity_summary_of fs gs)" for fs gs
    by (simp add: capacity_summary_of_def Let_def)
  show ?thesis
    unfolding s_def [symmetric] Let_def summary attention capacity_states_counted using d keys by simp
qed

end
