(* ===== verification/Overview.thy ===== *)
theory Overview
  imports ReliabilityCenter Minecraft ConsoleUi
begin

text \<open>
  The overview (\<open>lib/overview.ts\<close>): what the monitoring, Minecraft, incident and notification sources say together,
  each of which may be missing, and the dashboard that shows it (\<open>app/overview-dashboard.tsx\<close>). Titles and
  details of activities are constructors. Sources that were rejected are \<open>None\<close>.
\<close>

section \<open>Data\<close>

datatype activity_tone = SuccessActivity | WarningActivity | DangerActivity | InfoActivity

datatype activity_title = CriticalTitle string | WarningTitle string | RecoveredTitle string | DeliveryTitle

datatype activity_detail =
    MonitoringReason reason | BackupReasons "backup_reason list" | BackupTransitionDetail backup_transition
  | BackupRecoveryDetail backup_recovery_reason | DeliveryDetail string int

record overview_activity =
  oa_id :: string
  oa_occurredAt :: string
  oa_title :: activity_title
  oa_detail :: activity_detail
  oa_href :: string
  oa_tone :: activity_tone

record overview_snapshot =
  os_generatedAt :: string
  os_monitoring :: "monitoring_snapshot option"
  os_minecraft :: "minecraft_overview option"
  os_incidents :: "unified_snapshot option"
  os_notification :: "notification_summary option"
  os_backupAvailable :: bool
  os_minecraftStatus :: minecraft_status
  os_infrastructure :: reliability_health
  os_backup :: reliability_health
  os_notifications :: reliability_health
  os_reliability :: reliability_health
  os_activeCritical :: "nat option"
  os_activeWarning :: "nat option"
  os_failedNotifications :: "int option"
  os_backupCritical :: "nat option"
  os_staleOrOffline :: "nat option"
  os_activities :: "overview_activity list"

section \<open>Services\<close>

definition unavailableIncidentService :: "slo_service \<Rightarrow> reliability_service" where
  \<comment> \<open>the type is one of host, container and backup\<close>
  "unavailableIncidentService type =
     \<lparr> sr_id = service_of_entity type,
       sr_label = (case type of HostService \<Rightarrow> ''host'' | ContainerService \<Rightarrow> ''container'' | _ \<Rightarrow> ''backup''),
       sr_health = UnknownServiceHealth, sr_activeIncidentCount = 0, sr_activeCriticalCount = 0,
       sr_activeWarningCount = 0, sr_recoveredIncidentCount = 0, sr_knownDowntimeSeconds = None,
       sr_incidentFreeRatio = None, sr_exactCoverage = False, sr_medianRecoverySeconds = None,
       sr_longestRecoverySeconds = None, sr_latestRecoveredAt = None, sr_affectedEntityCount = 0,
       sr_detailHref = (case type of HostService \<Rightarrow> ''/hosts'' | ContainerService \<Rightarrow> ''/containers''
         | _ \<Rightarrow> ''/backups?range=24h'') \<rparr>"

definition active_of_type :: "slo_service \<Rightarrow> unified_snapshot \<Rightarrow> any_active list" where
  "active_of_type type incidents = filter (\<lambda>i. incident_entity (ActiveOf i) = type) (un_active incidents)"

definition recovered_of_type :: "slo_service \<Rightarrow> unified_snapshot \<Rightarrow> any_recovered list" where
  "recovered_of_type type incidents = filter (\<lambda>i. incident_entity (RecoveredOf i) = type) (un_recovered incidents)"

definition overview_service :: "unified_snapshot \<Rightarrow> bool \<Rightarrow> slo_service \<Rightarrow> reliability_service" where
  "overview_service incidents available type =
     buildIncidentService type (active_of_type type incidents) (recovered_of_type type incidents) Range24h
       (un_generatedAt incidents) available"

definition incidentServices :: "unified_snapshot option \<Rightarrow> reliability_service \<times> reliability_service \<times> reliability_service" where
  "incidentServices incidents =
     (case incidents of
        None \<Rightarrow> (unavailableIncidentService HostService, unavailableIncidentService ContainerService,
          unavailableIncidentService BackupService)
      | Some i \<Rightarrow> (overview_service i True HostService, overview_service i True ContainerService,
          overview_service i (un_backupDataAvailable i) BackupService))"

definition infrastructureHealth :: "monitoring_snapshot option \<Rightarrow> reliability_health" where
  "infrastructureHealth monitoring =
     (case monitoring of
        None \<Rightarrow> UnknownServiceHealth
      | Some m \<Rightarrow>
          if ms_hosts m = [] then UnknownServiceHealth
          else if list_ex (\<lambda>h. ho_status h = HostOffline) (ms_hosts m) \<or>
             list_ex (\<lambda>c. co_status c = CtOffline \<or> co_status c = CtError) (ms_containers m) then CriticalHealth
          else if list_ex (\<lambda>h. ho_status h = HostStale) (ms_hosts m) \<or>
             list_ex (\<lambda>c. co_status c = CtStale) (ms_containers m) then Degraded
          else Operational)"

section \<open>Activities\<close>

definition active_name :: "any_active \<Rightarrow> string" where
  "active_name i =
     (case i of
        BackupActive b \<Rightarrow> ba_backupTarget b
      | MonitoringActive a \<Rightarrow> (case ai_containerName a of Some n \<Rightarrow> n | None \<Rightarrow> ai_hostDisplayName a))"

definition recovered_name :: "any_recovered \<Rightarrow> string" where
  "recovered_name i =
     (case i of
        BackupRecovered b \<Rightarrow> bi_backupTarget b
      | MonitoringRecovered r \<Rightarrow> (case ri_containerName r of Some n \<Rightarrow> n | None \<Rightarrow> ri_hostDisplayName r))"

definition active_id :: "any_active \<Rightarrow> string" where
  "active_id i = (case i of MonitoringActive a \<Rightarrow> ai_id a | BackupActive b \<Rightarrow> ba_id b)"

definition recovered_id :: "any_recovered \<Rightarrow> string" where
  "recovered_id i = (case i of MonitoringRecovered r \<Rightarrow> ri_id r | BackupRecovered b \<Rightarrow> bi_id b)"

definition active_time :: "any_active \<Rightarrow> string option" where
  \<comment> \<open>\<open>latestTransitionAt ?? startedAt\<close>\<close>
  "active_time i =
     (case i of
        MonitoringActive a \<Rightarrow> (case ai_latestTransitionAt a of Some t \<Rightarrow> Some t | None \<Rightarrow> ai_startedAt a)
      | BackupActive b \<Rightarrow> (case ba_latestTransitionAt b of Some t \<Rightarrow> Some t | None \<Rightarrow> ba_startedAt b))"

definition active_detail :: "any_active \<Rightarrow> activity_detail" where
  "active_detail i =
     (case i of
        MonitoringActive a \<Rightarrow>
          MonitoringReason (case ai_latestTransition a of Some r \<Rightarrow> r | None \<Rightarrow> ai_startReason a)
      | BackupActive b \<Rightarrow>
          (case ba_latestTransition b of Some t \<Rightarrow> BackupTransitionDetail t | None \<Rightarrow> BackupReasons (ba_startReason b)))"

definition active_href :: "any_active \<Rightarrow> string" where
  "active_href i = (case i of MonitoringActive a \<Rightarrow> ai_detailHref a | BackupActive b \<Rightarrow> ba_detailHref b)"

definition incidentActivity :: "any_active \<Rightarrow> overview_activity option" where
  "incidentActivity i =
     (case nonempty (active_time i) of
        None \<Rightarrow> None
      | Some occurredAt \<Rightarrow>
          Some \<lparr> oa_id = ''active:'' @ active_id i, oa_occurredAt = occurredAt,
            oa_title = (if any_severity i = CriticalIncident then CriticalTitle (active_name i)
              else WarningTitle (active_name i)),
            oa_detail = active_detail i, oa_href = active_href i,
            oa_tone = (if any_severity i = CriticalIncident then DangerActivity else WarningActivity) \<rparr>)"

definition recoveryActivity :: "any_recovered \<Rightarrow> overview_activity" where
  "recoveryActivity i =
     \<lparr> oa_id = ''recovered:'' @ recovered_id i, oa_occurredAt = any_recoveredAt i,
       oa_title = RecoveredTitle (recovered_name i),
       oa_detail = (case i of MonitoringRecovered r \<Rightarrow> MonitoringReason (ri_recoveryReason r)
         | BackupRecovered b \<Rightarrow> BackupRecoveryDetail (bi_recoveryReason b)),
       oa_href = (case i of MonitoringRecovered r \<Rightarrow> ri_detailHref r | BackupRecovered b \<Rightarrow> bi_detailHref b),
       oa_tone = SuccessActivity \<rparr>"

definition notification_activity :: "notification_summary \<Rightarrow> overview_activity option" where
  "notification_activity n =
     map_option (\<lambda>deliveredAt.
       \<lparr> oa_id = ''notification:'' @ deliveredAt, oa_occurredAt = deliveredAt, oa_title = DeliveryTitle,
         oa_detail = DeliveryDetail (ns_channelDisplayName n) (ns_sent24hCount n), oa_href = ''/notifications'',
         oa_tone = (if ns_failedCount n > 0 then DangerActivity else InfoActivity) \<rparr>)
       (nonempty (ns_lastDeliveryAt n))"

definition candidate_activities :: "unified_snapshot option \<Rightarrow> notification_summary option \<Rightarrow> overview_activity list" where
  "candidate_activities incidents notification =
     (case incidents of
        None \<Rightarrow> []
      | Some i \<Rightarrow> List.map_filter incidentActivity (un_active i) @ map recoveryActivity (un_recovered i)) @
     (case Option.bind notification notification_activity of None \<Rightarrow> [] | Some a \<Rightarrow> [a])"

definition within_day :: "string \<Rightarrow> overview_activity \<Rightarrow> bool" where
  "within_day referenceAt item \<longleftrightarrow>
     (case (Date_parse (oa_occurredAt item), Date_parse referenceAt) of
        (Some t, Some rangeEnd) \<Rightarrow> rangeEnd - 24 * 60 * 60 * 1000 \<le> t \<and> t \<le> rangeEnd
      | _ \<Rightarrow> False)"

definition recentActivities ::
  "unified_snapshot option \<Rightarrow> notification_summary option \<Rightarrow> string \<Rightarrow> overview_activity list" where
  "recentActivities incidents notification referenceAt =
     take 6 (sort_desc (\<lambda>a. ms_of (oa_occurredAt a))
       (filter (within_day referenceAt) (candidate_activities incidents notification)))"

section \<open>The snapshot\<close>

definition count_where :: "('a \<Rightarrow> bool) \<Rightarrow> 'a list \<Rightarrow> nat" where
  "count_where p xs = length (filter p xs)"

definition stale_or_offline :: "monitoring_snapshot \<Rightarrow> nat" where
  "stale_or_offline m =
     count_where (\<lambda>h. ho_status h = HostStale \<or> ho_status h = HostOffline) (ms_hosts m) +
     count_where (\<lambda>c. co_status c = CtStale \<or> co_status c = CtOffline) (ms_containers m)"

definition backup_critical :: "unified_snapshot option \<Rightarrow> nat option" where
  "backup_critical incidents =
     (case incidents of
        None \<Rightarrow> None
      | Some i \<Rightarrow>
          if un_backupDataAvailable i
          then Some (count_where (\<lambda>a. incident_entity (ActiveOf a) = BackupService \<and> any_severity a = CriticalIncident)
            (un_active i))
          else None)"

definition overview_services :: "unified_snapshot option \<Rightarrow> notification_summary option \<Rightarrow> reliability_service list" where
  "overview_services incidents notification =
     (case incidentServices incidents of
        (host, container, backup) \<Rightarrow> [host, container, backup, buildNotificationService notification])"

definition getOverviewSnapshot ::
  "int \<Rightarrow> monitoring_snapshot option \<Rightarrow> minecraft_sample list option \<Rightarrow> unified_snapshot option \<Rightarrow>
   notification_summary option \<Rightarrow> overview_snapshot" where
  "getOverviewSnapshot now monitoring rows incidents notification =
     (let minecraft = getMinecraftOverview monitoring rows;
          services = overview_services incidents notification;
          generatedAt = iso_text now
      in \<lparr> os_generatedAt = generatedAt, os_monitoring = monitoring, os_minecraft = minecraft,
           os_incidents = incidents, os_notification = notification,
           os_backupAvailable = (case incidents of None \<Rightarrow> False | Some i \<Rightarrow> un_backupDataAvailable i),
           os_minecraftStatus = (case minecraft of None \<Rightarrow> MinecraftUnknown | Some m \<Rightarrow> mo_status m),
           os_infrastructure = infrastructureHealth monitoring, os_backup = sr_health (services ! 2),
           os_notifications = sr_health (services ! 3),
           os_reliability = (if incidents = None then UnknownServiceHealth else overallHealth services),
           os_activeCritical = map_option (su_activeCriticalCount \<circ> un_summary) incidents,
           os_activeWarning = map_option (su_activeWarningCount \<circ> un_summary) incidents,
           os_failedNotifications = map_option ns_failedCount notification,
           os_backupCritical = backup_critical incidents,
           os_staleOrOffline = map_option stale_or_offline monitoring,
           os_activities = recentActivities incidents notification generatedAt \<rparr>)"

section \<open>The dashboard\<close>

definition dashboard_statusText :: "(string \<times> string) list" where
  "dashboard_statusText =
     [(''online'', ''ONLINE''), (''offline'', ''OFFLINE''), (''stale'', ''STALE''), (''error'', ''ERROR''),
      (''standby'', ''STANDBY''), (''maintenance'', ''MAINTENANCE'')]"

definition toneFor :: "string \<Rightarrow> console_tone" where
  "toneFor status =
     (if status = ''online'' then SuccessUi else if status = ''offline'' \<or> status = ''error'' then DangerUi
      else if status = ''stale'' then WarningUi else NeutralUi)"

definition minecraft_status_text :: "minecraft_status \<Rightarrow> string" where
  "minecraft_status_text s =
     (case s of MinecraftOperational \<Rightarrow> ''operational'' | MinecraftDegraded \<Rightarrow> ''degraded''
      | PartialOutage \<Rightarrow> ''partial_outage'' | MajorOutage \<Rightarrow> ''major_outage''
      | MinecraftMaintenance \<Rightarrow> ''maintenance'' | MinecraftUnknown \<Rightarrow> ''unknown'')"

definition health_text :: "reliability_health \<Rightarrow> string" where
  "health_text h =
     (case h of Operational \<Rightarrow> ''operational'' | Degraded \<Rightarrow> ''degraded'' | CriticalHealth \<Rightarrow> ''critical''
      | DisabledHealth \<Rightarrow> ''disabled'' | UnknownServiceHealth \<Rightarrow> ''unknown'')"

definition service_badge :: "string \<Rightarrow> string \<times> console_tone" where
  \<comment> \<open>\<open>statusText[status] ?? "OPERATIONAL"\<close> in the tone of the status\<close>
  "service_badge status =
     ((case map_of dashboard_statusText status of None \<Rightarrow> ''OPERATIONAL'' | Some t \<Rightarrow> t), toneFor status)"

definition service_list :: "overview_snapshot \<Rightarrow> (string \<times> string \<times> string) list" where
  \<comment> \<open>name, link and status of each row\<close>
  "service_list s =
     [(''Minecraft'', ''/minecraft'', minecraft_status_text (os_minecraftStatus s)),
      (''Infrastructure'', ''/inventory'', health_text (os_infrastructure s)),
      (''Backup'', ''/backups?range=24h'', health_text (os_backup s)),
      (''Notifications'', ''/notifications'', health_text (os_notifications s))]"

definition dashboard_headline :: "overview_snapshot \<Rightarrow> string" where
  "dashboard_headline s =
     (if os_reliability s = Operational then ''ALL SYSTEMS OPERATIONAL'' else ''ACTION REQUIRED'')"

definition js_round :: "rat \<Rightarrow> int" where
  "js_round q = \<lfloor>q + 1 / 2\<rfloor>"

definition dashboard_percent :: "rat option \<Rightarrow> rat option \<Rightarrow> int option" where
  "dashboard_percent whole free =
     (case (whole, free) of
        (Some t, Some a) \<Rightarrow> if t = 0 then None else Some (js_round ((t - a) / t * 100)) | _ \<Rightarrow> None)"

definition fleet_memory :: "host_overview list \<Rightarrow> int option" where
  \<comment> \<open>\<open>None\<close> shows a dash\<close>
  "fleet_memory hosts =
     (if hosts = [] then None
      else Some (js_round (of_int (\<Sum>h \<leftarrow> hosts.
        case dashboard_percent (ho_memoryTotalBytes h) (ho_memoryAvailableBytes h) of None \<Rightarrow> 0 | Some p \<Rightarrow> p) /
        of_nat (length hosts))))"

definition dashboard_bytes :: "rat option \<Rightarrow> string option" where
  "dashboard_bytes amount =
     map_option (\<lambda>v. if v > 1000000000 then toFixed 1 (v / 1000000000) @ '' GB''
       else int_text (js_round (v / 1000000)) @ '' MB'') amount"

definition dashboard_relative :: "string option \<Rightarrow> string \<Rightarrow> string" where
  "dashboard_relative date now =
     (case nonempty date of
        None \<Rightarrow> ''NO SIGNAL''
      | Some d \<Rightarrow>
          (case (Date_parse now, Date_parse d) of
             (Some n, Some t) \<Rightarrow>
               (let seconds = max 0 ((n - t) div 1000)
                in if seconds < 60 then int_text seconds @ ''s ago'' else int_text (seconds div 60) @ ''m ago'')
           | _ \<Rightarrow> ''NaNm ago''))"

definition host_status_text :: "host_status \<Rightarrow> string" where
  "host_status_text s = (case s of HostOnline \<Rightarrow> ''online'' | HostStale \<Rightarrow> ''stale'' | HostOffline \<Rightarrow> ''offline'')"

definition has_part :: "string \<Rightarrow> string \<Rightarrow> bool" where
  "has_part s part \<longleftrightarrow> list_ex (\<lambda>i. starts_with part (drop i s)) [0..<Suc (length s)]"

definition filtered_hosts :: "string \<Rightarrow> string \<Rightarrow> host_overview list \<Rightarrow> host_overview list" where
  "filtered_hosts query choice hosts =
     filter (\<lambda>h. has_part (to_lower (ho_displayName h)) (to_lower query) \<and>
       (choice = ''all'' \<or> host_status_text (ho_status h) = choice)) hosts"

record fleet_row =
  fr_host :: string
  fr_badge :: "string \<times> console_tone"
  fr_memory :: "int option"
  fr_disk :: "int option"
  fr_containers :: nat
  fr_load :: "string option"
  fr_seen :: string

definition FleetRow :: "host_overview \<Rightarrow> container_overview list \<Rightarrow> string \<Rightarrow> fleet_row" where
  "FleetRow host containers generatedAt =
     \<lparr> fr_host = ho_displayName host, fr_badge = service_badge (host_status_text (ho_status host)),
       fr_memory = dashboard_percent (ho_memoryTotalBytes host) (ho_memoryAvailableBytes host),
       fr_disk = dashboard_percent (ho_diskTotalBytes host) (ho_diskAvailableBytes host),
       fr_containers = count_where (\<lambda>c. co_hostId c = ho_id host) containers,
       fr_load = map_option (toFixed 2) (ho_loadAverage1 host),
       fr_seen = dashboard_relative (ho_receivedAt host) generatedAt \<rparr>"

section \<open>When everything is operational\<close>

lemma overallHealth_operational:
  "overallHealth services = Operational \<longleftrightarrow> (\<forall>s \<in> set services. sr_health s \<in> {Operational, DisabledHealth})"
proof -
  have mem: "h \<in> {Operational, DisabledHealth} \<longleftrightarrow> h \<noteq> CriticalHealth \<and> h \<noteq> Degraded \<and> h \<noteq> UnknownServiceHealth" for h
    by (cases h) auto
  show ?thesis unfolding mem by (auto simp: overallHealth_def Let_def list_ex_iff)
qed

lemma incident_health_operational:
  "incident_health active available = Operational \<longleftrightarrow> available \<and> active = []"
  by (auto simp: incident_health_def)

lemma active_types: "incident_entity (ActiveOf i) \<in> {HostService, ContainerService, BackupService}"
  by (auto simp: incident_entity_def split: any_active.splits monitored_entity.splits)

text \<open>The overview announces that reliability is operational exactly when the incident centre answered with the
  backup data, nothing at all is active in it, and the notification channel is operational or switched off.
  A source that is missing never counts as healthy.\<close>

theorem overview_operational_iff:
  "os_reliability (getOverviewSnapshot now monitoring rows incidents notification) = Operational \<longleftrightarrow>
   (\<exists>i. incidents = Some i \<and> un_backupDataAvailable i \<and> un_active i = []) \<and>
   notificationHealth notification \<in> {Operational, DisabledHealth}"
proof (cases incidents)
  case (Some i)
  have none: "(\<forall>type \<in> {HostService, ContainerService, BackupService}. active_of_type type i = []) \<longleftrightarrow> un_active i = []"
    using active_types [of "hd (un_active i)"] by (cases "un_active i") (auto simp: active_of_type_def)
  have "os_reliability (getOverviewSnapshot now monitoring rows incidents notification) = Operational \<longleftrightarrow>
      un_backupDataAvailable i \<and> (\<forall>type \<in> {HostService, ContainerService, BackupService}. active_of_type type i = []) \<and>
      notificationHealth notification \<in> {Operational, DisabledHealth}"
    by (auto simp: getOverviewSnapshot_def Let_def Some overview_services_def incidentServices_def
        overallHealth_operational overview_service_def buildIncidentService_def buildNotificationService_def
        incident_health_def)
  then show ?thesis by (auto simp only: none Some)
qed (simp add: getOverviewSnapshot_def Let_def)

section \<open>The newest activities\<close>

lemma take_sort_desc_newest:
  assumes "x \<in> set xs" and "x \<notin> set (take n (sort_desc f xs))" and "y \<in> set (take n (sort_desc f xs))"
  shows "f x \<le> f y"
proof -
  let ?s = "sort_desc f xs"
  have "x \<in> set (drop n ?s)"
    using assms(1,2) by (metis Un_iff append_take_drop_id set_append set_sort_desc)
  moreover have "sorted_wrt (\<lambda>a b. f b \<le> f a) (take n ?s @ drop n ?s)"
    using sorted_sort_desc [of f xs] by simp
  ultimately show ?thesis
    using assms(3) by (simp only: sorted_wrt_append)
qed

definition newest_of_day :: "string \<Rightarrow> overview_activity list \<Rightarrow> overview_activity list \<Rightarrow> bool" where
  \<comment> \<open>the shown activities: of the last day, newest first, at most six, and none that is left out is newer\<close>
  "newest_of_day referenceAt candidates shown \<longleftrightarrow>
     length shown = min 6 (length (filter (within_day referenceAt) candidates)) \<and>
     set shown \<subseteq> set (filter (within_day referenceAt) candidates) \<and>
     sorted_wrt (\<lambda>a b. ms_of (oa_occurredAt b) \<le> ms_of (oa_occurredAt a)) shown \<and>
     (\<forall>a \<in> set (filter (within_day referenceAt) candidates) - set shown.
        \<forall>b \<in> set shown. ms_of (oa_occurredAt a) \<le> ms_of (oa_occurredAt b))"

text \<open>The activities of the overview are the newest six of the last day, newest first: fewer only when there are
  fewer, and nothing of the day that is left out is newer than something that is shown.\<close>

theorem overview_shows_newest_activities:
  "newest_of_day (iso_text now) (candidate_activities incidents notification)
     (os_activities (getOverviewSnapshot now monitoring rows incidents notification))"
proof -
  let ?f = "\<lambda>a. ms_of (oa_occurredAt a)"
  let ?day = "filter (within_day (iso_text now)) (candidate_activities incidents notification)"
  let ?shown = "take 6 (sort_desc ?f ?day)"
  have shown: "os_activities (getOverviewSnapshot now monitoring rows incidents notification) = ?shown"
    by (simp add: getOverviewSnapshot_def Let_def recentActivities_def)
  have "length ?shown = min 6 (length ?day)" by (simp add: min.commute)
  moreover have "set ?shown \<subseteq> set ?day" using set_take_subset [of 6 "sort_desc ?f ?day"] by (simp only: set_sort_desc)
  moreover have "sorted_wrt (\<lambda>a b. ?f b \<le> ?f a) ?shown"
    by (rule sorted_wrt_take) (rule sorted_sort_desc)
  moreover have "\<forall>a \<in> set ?day - set ?shown. \<forall>b \<in> set ?shown. ?f a \<le> ?f b"
    using take_sort_desc_newest [of _ ?day 6 ?f] by blast
  ultimately show ?thesis unfolding newest_of_day_def shown by blast
qed

section \<open>The badge of a service\<close>

text \<open>
  The dashboard looks up the health of a service in a table of the states of hosts and containers. The table has
  none of the words for a health, and the fallback of the lookup is \<open>OPERATIONAL\<close>.
\<close>

theorem service_badges_say_operational:
  "service_badge (health_text h) = (''OPERATIONAL'', NeutralUi) \<and>
   (s \<noteq> MinecraftMaintenance \<longrightarrow> service_badge (minecraft_status_text s) = (''OPERATIONAL'', NeutralUi))"
  by (cases h; cases s)
    (simp_all add: service_badge_def dashboard_statusText_def toneFor_def health_text_def minecraft_status_text_def)

lemma has_part_iff: "has_part s part \<longleftrightarrow> (\<exists>pre post. s = pre @ part @ post)"
proof
  assume "has_part s part"
  then obtain i where "starts_with part (drop i s)"
    unfolding has_part_def list_ex_iff by blast
  then have "take (length part) (drop i s) = part" by (simp add: starts_with_def)
  then have "s = take i s @ part @ drop (length part) (drop i s)"
    by (metis append_take_drop_id)
  then show "\<exists>pre post. s = pre @ part @ post" by blast
next
  assume "\<exists>pre post. s = pre @ part @ post"
  then obtain pre post where "s = pre @ part @ post" by blast
  then show "has_part s part"
    by (auto simp: has_part_def list_ex_iff starts_with_def intro!: bexI [of _ "length pre"])
qed

end
