(* ===== verification/ResourcePages.thy ===== *)
theory ResourcePages
  imports Capacity Minecraft HistoryPage Overview
begin

text \<open>
  The page of the capacity forecast (\<open>app/capacity/page.tsx\<close>) and the page of the Minecraft service
  (\<open>app/minecraft/page.tsx\<close>). Japanese words are constructors; dates for display, fixed texts and markup are left
  out.
\<close>

section \<open>Figures of the capacity page\<close>

definition formatPercent :: "rat option \<Rightarrow> nat \<Rightarrow> string option" where
  "formatPercent v digits = map_option (\<lambda>q. toFixed digits q @ ''%'') v"

definition sign_prefix :: "rat \<Rightarrow> string" where
  \<comment> \<open>\<open>value > 0 ? "+" : ""\<close>\<close>
  "sign_prefix q = (if q > 0 then ''+'' else [])"

definition formatSlope :: "rat option \<Rightarrow> string option" where
  \<comment> \<open>the figure before the unit\<close>
  "formatSlope v = map_option (\<lambda>q. sign_prefix q @ toFixed (if \<bar>q\<bar> \<ge> 10 then 1 else 2) q) v"

datatype days_text = NoDays | DaysReached | UnderOneDay | AboutDays string

definition formatDays :: "rat option \<Rightarrow> days_text" where
  "formatDays v =
     (case v of
        None \<Rightarrow> NoDays
      | Some q \<Rightarrow>
          if q \<le> 0 then DaysReached else if q < 1 then UnderOneDay
          else if q < 10 then AboutDays (toFixed 1 q) else AboutDays (int_text \<lceil>q\<rceil>))"

definition capacity_bytes :: "rat option \<Rightarrow> string option" where
  \<comment> \<open>\<open>formatBytes\<close> of the capacity page: no negative amounts, a decimal from GiB on\<close>
  "capacity_bytes v =
     map_option (\<lambda>q.
       case scaled_by 1024 (max 0 q) [''B'', ''KiB'', ''MiB'', ''GiB'', ''TiB''] of
         (b, u) \<Rightarrow> toFixed (if u = ''GiB'' \<or> u = ''TiB'' then 1 else 0) b @ '' '' @ u) v"

datatype growth_text = GrowthUp string | GrowthDown string | GrowthNone string
  \<comment> \<open>the prefix and the text of the amount\<close>

definition formatByteGrowth :: "rat option \<Rightarrow> growth_text option" where
  "formatByteGrowth v =
     (case v of
        None \<Rightarrow> None
      | Some q \<Rightarrow>
          (let amount = the (capacity_bytes (Some \<bar>q\<bar>))
           in Some (if q > 0 then GrowthUp amount else if q < 0 then GrowthDown amount else GrowthNone amount)))"

definition capacity_tone :: "capacity_state \<Rightarrow> console_tone" where
  \<comment> \<open>\<open>stateTone\<close>\<close>
  "capacity_tone s =
     (if s = CapHealthy then SuccessUi else if s = CapGrowth then InfoUi
      else if s = CapForecastWarning \<or> s = CapWarning then WarningUi
      else if s = CapForecastCritical \<or> s = CapCritical then DangerUi else NeutralUi)"

definition backupStateTone :: "backup_growth_state \<Rightarrow> console_tone" where
  "backupStateTone s =
     (if s = BackupStable then SuccessUi else if s = BackupGrowth \<or> s = BackupShrinking then InfoUi else NeutralUi)"

section \<open>The capacity page\<close>

definition sourceFailures :: "capacity_snapshot option \<Rightarrow> string list" where
  "sourceFailures d =
     (case d of
        None \<Rightarrow> []
      | Some c \<Rightarrow>
          (case cap_sources c of (monitoring, hostHistory, containerHistory, backups) \<Rightarrow>
             map fst (filter (\<lambda>(name, available). \<not> available)
               [(''monitoring'', monitoring), (''hostHistory'', hostHistory),
                (''containerHistory'', containerHistory), (''backups'', backups)])))"

definition host_series :: "string \<Rightarrow> (host_history_point \<Rightarrow> rat option) \<Rightarrow> capacity_snapshot option \<Rightarrow> chart_series list" where
  \<comment> \<open>\<open>diskSeries\<close> and \<open>hostMemorySeries\<close>\<close>
  "host_series ending selector d =
     (case d of
        None \<Rightarrow> []
      | Some c \<Rightarrow> map (\<lambda>h. line (hs_hostId h @ ending) (hs_hostDisplayName h) hp_timestamp (hs_points h) selector)
          (cap_hostHistory c))"

definition container_series ::
  "string \<Rightarrow> (container_history_point \<Rightarrow> rat option) \<Rightarrow> capacity_snapshot option \<Rightarrow> chart_series list" where
  \<comment> \<open>\<open>containerMemorySeries\<close> and \<open>containerCpuSeries\<close>\<close>
  "container_series ending selector d =
     (case d of
        None \<Rightarrow> []
      | Some c \<Rightarrow> map (\<lambda>h. line (ch_hostId h @ '':'' @ ch_containerName h @ ending)
            (ch_containerName h @ '' / '' @ ch_hostDisplayName h) cp_timestamp (ch_points h) selector)
          (cap_containerHistory c))"

definition summary_tones :: "capacity_summary \<Rightarrow> console_tone list" where
  \<comment> \<open>of the six cards, in their order\<close>
  "summary_tones s =
     (let tone_if = (\<lambda>n t. if n > (0::nat) then t else NeutralUi)
      in [if cm_criticalCount s > 0 then DangerUi else tone_if (cm_forecastAttentionCount s) WarningUi,
          tone_if (cm_criticalCount s) DangerUi, tone_if (cm_warningCount s) WarningUi,
          tone_if (cm_growthCount s) InfoUi, tone_if (cm_insufficientCount s) InfoUi,
          tone_if (cm_backupGrowthCount s) InfoUi])"

record forecast_row =
  fr_href :: "string option"
  fr_tone :: console_tone
  fr_current :: "string option"
  fr_amounts :: "string option list"
  fr_slope :: "string option"
  fr_warning :: days_text
  fr_critical :: days_text
  fr_coverage :: int
  fr_samples :: nat
  fr_rSquared :: "string option"

definition forecast_row_of :: "string option \<Rightarrow> string option list \<Rightarrow> capacity_forecast \<Rightarrow> forecast_row" where
  \<comment> \<open>what the rows of hosts and of containers share\<close>
  "forecast_row_of href amounts f =
     \<lparr> fr_href = nonempty href, fr_tone = capacity_tone (cf_state f), fr_current = formatPercent (cf_currentPercent f) 1,
       fr_amounts = amounts, fr_slope = formatSlope (cf_slopePercentPerDay f),
       fr_warning = formatDays (cf_daysToWarning f), fr_critical = formatDays (cf_daysToCritical f),
       fr_coverage = js_round (cf_coverageRatio f * 100), fr_samples = cf_validPointCount f,
       fr_rSquared = map_option (toFixed 2) (cf_rSquared f) \<rparr>"

definition host_row :: "host_capacity_resource \<Rightarrow> forecast_row" where
  "host_row r = forecast_row_of (hc_detailHref r)
     [capacity_bytes (hc_totalBytes r), capacity_bytes (hc_availableBytes r)] (hc_forecast r)"

definition container_row :: "container_capacity_resource \<Rightarrow> forecast_row" where
  "container_row r = forecast_row_of (cc_detailHref r)
     [capacity_bytes (cc_memoryUsageBytes r), capacity_bytes (cc_memoryLimitBytes r)] (cc_forecast r)"

record growth_row =
  gr_tone :: console_tone
  gr_size :: "string option"
  gr_growth :: "growth_text option"
  gr_relative :: "string option"
  gr_rSquared :: "string option"
  gr_samples :: nat
  gr_span :: int

definition growth_row_of :: "backup_growth_forecast \<Rightarrow> growth_row" where
  "growth_row_of b =
     \<lparr> gr_tone = backupStateTone (bf_state b), gr_size = capacity_bytes (map_option of_int (bf_latestSizeBytes b)),
       gr_growth = formatByteGrowth (bf_growthBytesPerDay b),
       gr_relative = map_option (\<lambda>q. sign_prefix q @ toFixed 2 q @ ''%'') (bf_growthPercentPerDay b),
       gr_rSquared = map_option (toFixed 2) (bf_rSquared b), gr_samples = bf_sampleCount b,
       gr_span = js_round (bf_spanRatio b * 100) \<rparr>"

record capacity_page =
  cpg_sourceFailures :: "string list"
  cpg_tones :: "console_tone list"
  cpg_hostRows :: "forecast_row list"
  cpg_containerRows :: "forecast_row list"
  cpg_charts :: "chart_input list"
  cpg_growthRows :: "growth_row list"

definition history_range_of :: "capacity_range \<Rightarrow> history_range" where
  \<comment> \<open>the key of \<open>HISTORY_RANGE_CONFIG\<close> of the same name\<close>
  "history_range_of r = (case r of Range24h \<Rightarrow> History24h | Range7d \<Rightarrow> History7d | Range30d \<Rightarrow> History30d)"

definition capacity_chart :: "shared_props \<Rightarrow> rat option \<Rightarrow> chart_series list \<Rightarrow> chart_input" where
  "capacity_chart shared limit series =
     \<lparr> cp_series = series, cp_startAt = sd_startAt shared, cp_endAt = sd_endAt shared,
       cp_expectedIntervalSeconds = sd_expectedIntervalSeconds shared, cp_unit = ''%'', cp_maximum = limit,
       cp_valueDigits = None, cp_markers = [], cp_regions = [] \<rparr>"

definition capacity_charts :: "shared_props \<Rightarrow> capacity_snapshot option \<Rightarrow> chart_input list" where
  "capacity_charts shared d =
     [capacity_chart shared (Some 100) (host_series '':disk'' hp_diskPercent d),
      capacity_chart shared (Some 100) (host_series '':memory'' hp_memoryPercent d),
      capacity_chart shared (Some 100) (container_series '':memory'' cp_memoryPercent d),
      capacity_chart shared None (container_series '':cpu'' cp_cpuPercent d)]"

definition CapacityPage :: "(capacity_range \<Rightarrow> capacity_snapshot option) \<Rightarrow> query_param \<Rightarrow> int \<Rightarrow> capacity_page option" where
  \<comment> \<open>\<open>None\<close> where the page says that the snapshot cannot be read; the clock is within the range of dates\<close>
  "CapacityPage load rangeParam now =
     (let rng = parseCapacityRange (firstValue rangeParam); d = load rng;
          shared = \<lparr> sd_startAt = iso_text (now - capacity_hours rng * 3600000), sd_endAt = iso_text now,
            sd_expectedIntervalSeconds = fst (snd (history_range_config (history_range_of rng))) \<rparr>
      in map_option (\<lambda>c.
           \<lparr> cpg_sourceFailures = sourceFailures d, cpg_tones = summary_tones (cap_summary c),
             cpg_hostRows = map host_row (cap_hostResources c),
             cpg_containerRows = map container_row (cap_containerResources c),
             cpg_charts = capacity_charts shared d, cpg_growthRows = map growth_row_of (cap_backupGrowth c) \<rparr>) d)"

section \<open>The Minecraft page\<close>

definition overallTone :: "minecraft_status \<Rightarrow> console_tone" where
  "overallTone s =
     (if s = MinecraftOperational then SuccessUi else if s = MinecraftDegraded then WarningUi
      else if s = PartialOutage \<or> s = MajorOutage then DangerUi
      else if s = MinecraftMaintenance then MaintenanceUi else NeutralUi)"

definition checked_ago :: "string option \<Rightarrow> int \<Rightarrow> elapsed option" where
  \<comment> \<open>\<open>formatRelativeTime\<close>: no days; \<open>None\<close> without a time stamp, which otherwise parses\<close>
  "checked_ago timestamp now =
     map_option (\<lambda>s.
       case Date_parse s of
         None \<Rightarrow> TimeUnknown
       | Some t \<Rightarrow>
           (let ageSeconds = max 0 ((now - t) div 1000)
            in if ageSeconds < 60 then SecondsAgo ageSeconds
               else if ageSeconds < 3600 then MinutesAgo (ageSeconds div 60) else HoursAgo (ageSeconds div 3600)))
       (nonempty timestamp)"

definition minecraft_bytes :: "rat \<Rightarrow> string" where
  \<comment> \<open>\<open>formatBytes\<close> of the Minecraft page\<close>
  "minecraft_bytes bytes =
     (case scaled_by 1024 bytes [''B'', ''KiB'', ''MiB'', ''GiB'', ''TiB''] of
        (v, u) \<Rightarrow> toFixed (if v \<ge> 10 then 1 else 2) v @ '' '' @ u)"

definition formatContainerMemory :: "container_overview option \<Rightarrow> string option" where
  "formatContainerMemory container =
     (case container of
        None \<Rightarrow> None
      | Some c \<Rightarrow>
          (case (co_memoryUsageBytes c, co_memoryLimitBytes c) of
             (Some usage, Some limit) \<Rightarrow>
               (let p = (if limit > 0 then usage / limit * 100 else 0)
                in Some (minecraft_bytes usage @ '' / '' @ minecraft_bytes limit @ '' ('' @ toFixed 1 p @ ''%)''))
           | _ \<Rightarrow> None))"

definition formatContainerState :: "container_overview option \<Rightarrow> (container_state \<times> container_health) option" where
  "formatContainerState container = map_option (\<lambda>c. (co_state c, co_health c)) container"

definition formatContainerCPU :: "container_overview option \<Rightarrow> (string \<times> rat option) option" where
  \<comment> \<open>with the number of processes\<close>
  "formatContainerCPU container =
     (case container of
        None \<Rightarrow> None
      | Some c \<Rightarrow> map_option (\<lambda>q. (toFixed 2 q @ ''%'', co_pids c)) (co_cpuPercent c))"

definition formatPlayers :: "minecraft_overview option \<Rightarrow> (rat \<times> rat) option" where
  "formatPlayers overview =
     (case overview of
        None \<Rightarrow> None
      | Some m \<Rightarrow>
          (case (me_online (mo_publicEndpoint m), me_max (mo_publicEndpoint m)) of
             (Some online, Some most) \<Rightarrow> Some (online, most) | _ \<Rightarrow> None))"

definition isStableContainer :: "container_overview option \<Rightarrow> bool" where
  "isStableContainer container \<longleftrightarrow>
     (case container of None \<Rightarrow> False | Some c \<Rightarrow> co_status c \<in> set [CtOnline, CtStandby, CtMaintenance])"

datatype stable_label = LabelMaintenance | LabelStandby | LabelNormal | LabelAttention

definition stableContainerLabel :: "container_overview option \<Rightarrow> stable_label" where
  "stableContainerLabel container =
     (if map_option co_status container = Some CtMaintenance then LabelMaintenance
      else if map_option co_status container = Some CtStandby then LabelStandby
      else if isStableContainer container then LabelNormal else LabelAttention)"

definition containerTone :: "container_overview option \<Rightarrow> console_tone" where
  "containerTone container =
     (case container of
        None \<Rightarrow> NeutralUi
      | Some c \<Rightarrow>
          if co_status c = CtMaintenance then MaintenanceUi else if co_status c = CtOnline then SuccessUi
          else if co_status c = CtStandby then InfoUi else if co_status c = CtStale then WarningUi else DangerUi)"

datatype backend_label = BackendUnreachable | BackendStable stable_label | BackendAttention

record minecraft_page =
  mpg_status :: minecraft_status
  mpg_tone :: console_tone
  mpg_players :: "(rat \<times> rat) option"
  mpg_latency :: "rat option"
  mpg_checked :: "elapsed option"
  mpg_publicTone :: console_tone
  mpg_velocity :: "console_tone \<times> stable_label"
  mpg_velocityState :: "(container_state \<times> container_health) option"
  mpg_velocityCpu :: "(string \<times> rat option) option"
  mpg_velocityMemory :: "string option"
  mpg_backend :: "console_tone \<times> backend_label"
  mpg_backendState :: "(container_state \<times> container_health) option"
  mpg_backendCpu :: "(string \<times> rat option) option"
  mpg_backendMemory :: "string option"
  mpg_backendLatency :: "rat option"
  mpg_voiceTone :: console_tone
  mpg_proxyTone :: console_tone
  mpg_directTone :: console_tone

definition holds_of :: "(minecraft_overview \<Rightarrow> bool) \<Rightarrow> minecraft_overview option \<Rightarrow> bool" where
  \<comment> \<open>an optional chain that ends in a flag\<close>
  "holds_of flag overview \<longleftrightarrow> (case overview of None \<Rightarrow> False | Some m \<Rightarrow> flag m)"

definition MinecraftPage :: "minecraft_overview option \<Rightarrow> int \<Rightarrow> minecraft_page option" where
  \<comment> \<open>\<open>None\<close> where the overview could not be read\<close>
  "MinecraftPage loaded now =
     (case loaded of
        None \<Rightarrow> None
      | Some m \<Rightarrow>
          (let velocity = mo_velocity m; backend = mo_backend m;
               reachable = me_reachable (mo_backendProbe m); stable = isStableContainer backend
           in Some
             \<lparr> mpg_status = mo_status m, mpg_tone = overallTone (mo_status m), mpg_players = formatPlayers loaded,
               mpg_latency = me_latencyMs (mo_publicEndpoint m), mpg_checked = checked_ago (mo_checkedAt m) now,
               mpg_publicTone = (if holds_of (me_reachable \<circ> mo_publicEndpoint) loaded then SuccessUi else DangerUi),
               mpg_velocity = (containerTone velocity, stableContainerLabel velocity),
               mpg_velocityState = formatContainerState velocity, mpg_velocityCpu = formatContainerCPU velocity,
               mpg_velocityMemory = formatContainerMemory velocity,
               mpg_backend = (if \<not> reachable then DangerUi else if stable then containerTone backend else DangerUi,
                 if \<not> reachable then BackendUnreachable
                 else if stable then BackendStable (stableContainerLabel backend) else BackendAttention),
               mpg_backendState = formatContainerState backend, mpg_backendCpu = formatContainerCPU backend,
               mpg_backendMemory = formatContainerMemory backend,
               mpg_backendLatency = me_latencyMs (mo_backendProbe m),
               mpg_voiceTone = (if holds_of mo_voiceChatPublished loaded then SuccessUi else WarningUi),
               mpg_proxyTone = (if holds_of mo_proxyPortPublished loaded then SuccessUi else DangerUi),
               mpg_directTone = (if holds_of mo_backendDirectAccessBlocked loaded then SuccessUi else DangerUi) \<rparr>))"

text \<open>C39. The page of the Minecraft service does not contradict itself: when the badge of the overall state is green, on
  the monitoring snapshot that the console computes, every other badge of the page is green too, the public
  connection, the proxy, the backend, the voice chat and both checks of the published ports.\<close>

theorem green_minecraft_page_is_green_throughout:
  assumes "MinecraftPage (getMinecraftOverview
      (Some (getMonitoringSnapshot collate now hosts beats samples expectations)) (Some rows)) clock = Some page"
    and "mpg_tone page = SuccessUi"
  shows "mpg_publicTone page = SuccessUi \<and> mpg_velocity page = (SuccessUi, LabelNormal) \<and>
    mpg_backend page = (SuccessUi, BackendStable LabelNormal) \<and> mpg_voiceTone page = SuccessUi \<and>
    mpg_proxyTone page = SuccessUi \<and> mpg_directTone page = SuccessUi"
proof -
  let ?snap = "getMonitoringSnapshot collate now hosts beats samples expectations"
  let ?m = "minecraft_overview_of ?snap (js_first rows)"
  have page: "MinecraftPage (Some ?m) clock = Some page" using assms(1) by (simp add: getMinecraftOverview_def)
  then have "overallTone (mo_status ?m) = SuccessUi" using assms(2) by (auto simp: MinecraftPage_def Let_def)
  then have "mo_status ?m = MinecraftOperational" by (auto simp: overallTone_def split: if_splits)
  then obtain s where s: "js_first rows = Some s" "mc_public_reachable s" "mc_backend_reachable s"
      "mc_proxy_port_published s" "mc_voice_chat_port_published s" "\<not> mc_backend_port_published s"
    and runs: "container_runs (target_container ?snap ''ivrm-velocity'')" "container_runs (target_container ?snap ''mc-main'')"
    unfolding minecraft_operational_iff by blast
  obtain v b where vb: "target_container ?snap ''ivrm-velocity'' = Some v" "co_status v = CtOnline"
    "target_container ?snap ''mc-main'' = Some b" "co_status b = CtOnline"
    using runs by (auto simp: container_runs_def)
  have fields: "mo_velocity ?m = Some v" "mo_backend ?m = Some b" "me_reachable (mo_publicEndpoint ?m)"
    "me_reachable (mo_backendProbe ?m)" "mo_voiceChatPublished ?m" "mo_proxyPortPublished ?m"
    "mo_backendDirectAccessBlocked ?m"
    using s vb by (simp_all add: minecraft_overview_of_def Let_def public_endpoint_def backend_endpoint_def published_def)
  have tones: "containerTone (Some v) = SuccessUi" "containerTone (Some b) = SuccessUi"
    "stableContainerLabel (Some v) = LabelNormal" "stableContainerLabel (Some b) = LabelNormal" "isStableContainer (Some b)"
    using vb by (simp_all add: containerTone_def stableContainerLabel_def isStableContainer_def)
  show ?thesis
    using page fields tones by (auto simp: MinecraftPage_def Let_def holds_of_def)
qed

definition running_row :: "string \<Rightarrow> container_sample_row" where
  "running_row name = \<lparr> cs_host_id = ''h'', cs_container_name = name, cs_state = RunningState, cs_health = HealthyHealth,
     cs_restart_count = 0, cs_oom_killed = False, cs_exit_code = None, cs_cpu_percent = None,
     cs_memory_usage_bytes = None, cs_memory_limit_bytes = None, cs_network_rx_bytes = None, cs_network_tx_bytes = None,
     cs_block_read_bytes = None, cs_block_write_bytes = None, cs_pids = None,
     cs_received_at = ''2026-07-01T10:00:00.000Z'' \<rparr>"

definition oci_row :: host_row where
  "oci_row = \<lparr> hr_id = ''h'', hr_server_id = ''oci-minecraft-01'', hr_display_name = ''OCI'', hr_provider = ''oci'',
     hr_environment = ''production'', hr_enabled = True \<rparr>"

definition reachable_sample :: minecraft_sample where
  "reachable_sample = \<lparr> mc_received_at = ''2026-07-01T10:00:00.000Z'', mc_public_reachable = True,
     mc_public_latency_ms = None, mc_public_version = None, mc_public_online = None, mc_public_max = None,
     mc_backend_reachable = True, mc_backend_latency_ms = None, mc_backend_version = None, mc_backend_online = None,
     mc_backend_max = None, mc_proxy_port_published = True, mc_backend_port_published = False,
     mc_voice_chat_port_published = True, mc_performance_source = None, mc_tps_1m = None, mc_tps_5m = None,
     mc_tps_15m = None, mc_mspt_median_1m = None, mc_mspt_p95_1m = None, mc_mspt_max_1m = None \<rparr>"

definition calm_snapshot :: monitoring_snapshot where
  "calm_snapshot = getMonitoringSnapshot id 1782900005000 [oci_row] [] [running_row ''ivrm-velocity'', running_row ''mc-main''] []"

lemma received_time: "Date_parse ''2026-07-01T10:00:00.000Z'' = Some 1782900000000"
  by (simp add: sample_instants)

lemma running_view: "co_status (container_view 1782900005000 [oci_row] [] (running_row name)) = CtOnline"
  by (simp add: container_view_def Let_def running_row_def age_seconds_def received_time expectation_by_key_def
      determineContainerStatus_def isMaintenanceActive_def STALE_THRESHOLD_SECONDS_def ONLINE_THRESHOLD_SECONDS_def)

lemma running_view_names: "co_name (container_view t hosts ex (running_row name)) = name"
  "co_hostId (container_view t hosts ex (running_row name)) = ''h''"
  by (simp_all add: container_view_def Let_def running_row_def)

lemma calm_containers:
  "set (ms_containers calm_snapshot) = (\<lambda>name. container_view 1782900005000 [oci_row] [] (running_row name)) ` {''ivrm-velocity'', ''mc-main''}"
  "ms_hosts calm_snapshot = [host_view 1782900005000 [] oci_row]"
  by (auto simp: calm_snapshot_def getMonitoringSnapshot_def Let_def latest_container_by_key_def keep_first_def
      host_name_by_id_def index_by_def running_row_def oci_row_def container_key_def)

lemma calm_target:
  assumes "name \<in> {''ivrm-velocity'', ''mc-main''}"
  shows "container_runs (target_container calm_snapshot name)"
proof -
  let ?view = "\<lambda>name. container_view 1782900005000 [oci_row] [] (running_row name)"
  have host: "List.find (\<lambda>h. ho_serverId h = TARGET_SERVER_ID) (ms_hosts calm_snapshot) =
      Some (host_view 1782900005000 [] oci_row)" "ho_id (host_view 1782900005000 [] oci_row) = ''h''"
    by (simp_all add: calm_containers(2) host_view_def Let_def oci_row_def TARGET_SERVER_ID_def)
  have listed: "?view name \<in> set (filter (\<lambda>c. co_hostId c = ''h'') (ms_containers calm_snapshot))"
    using assms running_view_names(2) unfolding set_filter mem_Collect_eq calm_containers(1) by blast
  have "List.find (\<lambda>c. co_name c = name) (filter (\<lambda>c. co_hostId c = ''h'') (ms_containers calm_snapshot)) \<noteq> None"
    unfolding find_None_iff using listed running_view_names(1) by blast
  then obtain c where c: "List.find (\<lambda>c. co_name c = name) (filter (\<lambda>c. co_hostId c = ''h'') (ms_containers calm_snapshot)) = Some c"
    by blast
  then have "c \<in> set (ms_containers calm_snapshot)" by (auto dest!: find_SomeD)
  then have "co_status c = CtOnline" unfolding calm_containers(1) using running_view by blast
  then show ?thesis using c host by (simp add: target_container_def container_runs_def)
qed

theorem green_minecraft_page_is_green_throughout_witness:
  "\<exists>page. MinecraftPage (getMinecraftOverview (Some calm_snapshot) (Some [reachable_sample])) 1782900005000 = Some page \<and>
    mpg_tone page = SuccessUi \<and> mpg_velocity page = (SuccessUi, LabelNormal) \<and> mpg_proxyTone page = SuccessUi"
proof -
  note operational = minecraft_operational_iff [of id 1782900005000 "[oci_row]" "[]"
    "[running_row ''ivrm-velocity'', running_row ''mc-main'']" "[]" "Some reachable_sample", folded calm_snapshot_def]
  have age: "sample_age (iso_text 1782900005000) (Some reachable_sample) = Some 5"
    by (simp add: sample_age_def reachable_sample_def received_time ms_of_def max_time_def)
  have "mo_status (minecraft_overview_of calm_snapshot (js_first [reachable_sample])) = MinecraftOperational"
    using operational calm_target age by (simp add: reachable_sample_def)
  then obtain page where page: "MinecraftPage (getMinecraftOverview (Some calm_snapshot) (Some [reachable_sample])) 1782900005000 = Some page"
    "mpg_tone page = SuccessUi"
    by (simp add: MinecraftPage_def getMinecraftOverview_def Let_def overallTone_def)
  have "mpg_velocity page = (SuccessUi, LabelNormal) \<and> mpg_proxyTone page = SuccessUi"
    using green_minecraft_page_is_green_throughout [OF page(1) [unfolded calm_snapshot_def] page(2)] by blast
  then show ?thesis using page by blast
qed

end
