(* ===== verification/StatusCenter.thy ===== *)
theory StatusCenter
  imports Maintenance
begin

text \<open>
  The status centre: reading its overview (\<open>apps/web/lib/status-center.ts\<close>), the feed of the public
  status page (\<open>status-public-feed.ts\<close>) and the mutations (\<open>status-center-mutations.ts\<close>). The database
  function is a parameter, \<open>None\<close> for a failed request; a mutation yields its checked answer together with
  the calls it made.
\<close>

section \<open>Values\<close>

datatype incident_lifecycle = Investigating | Identified | MonitoringFix | ResolvedIncident

datatype incident_impact = NoImpact | MinorImpact | MajorImpact | CriticalImpact

datatype publication = Draft | Published | Archived

datatype maintenance_publication = DraftNotice | PublishedNotice | CancelledNotice

datatype announcement_kind = InfoNotice | WarningNotice

datatype incident_source = AutomaticSource | ManualSource

datatype public_maintenance_state = Scheduled | InProgress | Completed | Cancelled

definition lifecycle_text :: "incident_lifecycle \<Rightarrow> string" where
  "lifecycle_text x = (case x of Investigating \<Rightarrow> ''investigating'' | Identified \<Rightarrow> ''identified''
     | MonitoringFix \<Rightarrow> ''monitoring'' | ResolvedIncident \<Rightarrow> ''resolved'')"

definition impact_text :: "incident_impact \<Rightarrow> string" where
  "impact_text x = (case x of NoImpact \<Rightarrow> ''none'' | MinorImpact \<Rightarrow> ''minor'' | MajorImpact \<Rightarrow> ''major''
     | CriticalImpact \<Rightarrow> ''critical'')"

definition publication_text :: "publication \<Rightarrow> string" where
  "publication_text x = (case x of Draft \<Rightarrow> ''draft'' | Published \<Rightarrow> ''published'' | Archived \<Rightarrow> ''archived'')"

definition notice_publication_text :: "maintenance_publication \<Rightarrow> string" where
  "notice_publication_text x =
     (case x of DraftNotice \<Rightarrow> ''draft'' | PublishedNotice \<Rightarrow> ''published'' | CancelledNotice \<Rightarrow> ''cancelled'')"

definition announcement_kind_text :: "announcement_kind \<Rightarrow> string" where
  "announcement_kind_text x = (case x of InfoNotice \<Rightarrow> ''info'' | WarningNotice \<Rightarrow> ''warning'')"

definition source_text :: "incident_source \<Rightarrow> string" where
  "source_text x = (case x of AutomaticSource \<Rightarrow> ''automatic'' | ManualSource \<Rightarrow> ''manual'')"

definition maintenance_state_text :: "public_maintenance_state \<Rightarrow> string" where
  "maintenance_state_text x = (case x of Scheduled \<Rightarrow> ''scheduled'' | InProgress \<Rightarrow> ''in_progress''
     | Completed \<Rightarrow> ''completed'' | Cancelled \<Rightarrow> ''cancelled'')"

definition LIFECYCLE :: "incident_lifecycle list" where
  "LIFECYCLE = [Investigating, Identified, MonitoringFix, ResolvedIncident]"

definition IMPACTS :: "incident_impact list" where
  "IMPACTS = [NoImpact, MinorImpact, MajorImpact, CriticalImpact]"

definition enumValue :: "('a \<Rightarrow> string) \<Rightarrow> 'a list \<Rightarrow> jsval \<Rightarrow> 'a option" where
  "enumValue text_of_value allowed value =
     Option.bind (as_string value) (\<lambda>s. List.find (\<lambda>x. text_of_value x = s) allowed)"

datatype public_id_prefix = INC | MNT | ANN

definition prefix_text :: "public_id_prefix \<Rightarrow> string" where
  "prefix_text p = (case p of INC \<Rightarrow> ''INC'' | MNT \<Rightarrow> ''MNT'' | ANN \<Rightarrow> ''ANN'')"

definition public_id_of :: "public_id_prefix \<Rightarrow> string \<Rightarrow> bool" where
  \<comment> \<open>\<open>/^P-[A-F0-9]{12}$/\<close> for the prefix \<open>P\<close>\<close>
  "public_id_of p s \<longleftrightarrow>
     take 4 s = prefix_text p @ ''-'' \<and>
     chars_between (\<lambda>c. is_digit c \<or> (65 \<le> code c \<and> code c \<le> 70)) 12 12 (drop 4 s)"

definition PUBLIC_ID_PATTERN :: "string \<Rightarrow> bool" where
  "PUBLIC_ID_PATTERN s \<longleftrightarrow> public_id_of INC s \<or> public_id_of MNT s \<or> public_id_of ANN s"

definition SERVICE_ID_PATTERN :: "string \<Rightarrow> bool" where
  \<comment> \<open>\<open>/^[a-z0-9][a-z0-9-]{2,63}$/\<close>\<close>
  "SERVICE_ID_PATTERN s \<longleftrightarrow>
     (let lower = (\<lambda>c. is_digit c \<or> is_lower c)
      in 3 \<le> length s \<and> headed_chars lower (\<lambda>c. lower c \<or> c = CHR ''-'') 63 s)"

definition stringValue :: "nat \<Rightarrow> jsval \<Rightarrow> string option" where
  "stringValue most value = Option.bind (as_string value) (satisfying (\<lambda>s. 1 \<le> length s \<and> length s \<le> most))"

definition publicId :: "public_id_prefix \<Rightarrow> jsval \<Rightarrow> string option" where
  "publicId p value =
     Option.bind (stringValue 32 value) (satisfying (\<lambda>s. PUBLIC_ID_PATTERN s \<and> starts_with (prefix_text p @ ''-'') s))"

definition service_list :: "jsval list \<Rightarrow> string list option" where
  "service_list items = do {
     ids \<leftarrow> map_rows (\<lambda>v. Option.bind (as_string v) (satisfying SERVICE_ID_PATTERN)) items;
     if distinct ids then Some ids else None
   }"

definition serviceIds :: "bool \<Rightarrow> jsval \<Rightarrow> string list option" where
  "serviceIds optional value =
     (if optional \<and> value = Null then Some []
      else (case as_array value of
              None \<Rightarrow> None
            | Some items \<Rightarrow> if length items < 1 \<or> length items > 32 then None else service_list items))"

section \<open>The overview\<close>

record status_incident =
  sti_publicId :: string
  sti_title :: string
  sti_lifecycleStatus :: incident_lifecycle
  sti_impact :: incident_impact
  sti_affectedServiceIds :: "string list"
  sti_sourceType :: incident_source
  sti_startedAt :: string
  sti_resolvedAt :: "string option"
  sti_summary :: string
  sti_publicationState :: publication
  sti_publishedAt :: "string option"
  sti_createdAt :: string
  sti_updatedAt :: string

record status_maintenance =
  stm_publicId :: string
  stm_title :: string
  stm_body :: string
  stm_affectedServiceIds :: "string list"
  stm_startsAt :: string
  stm_endsAt :: string
  stm_publicationState :: maintenance_publication
  stm_publishedAt :: "string option"
  stm_cancelledAt :: "string option"
  stm_reliabilityWindowId :: "string option"
  stm_createdAt :: string
  stm_updatedAt :: string

record status_announcement =
  sta_publicId :: string
  sta_kind :: announcement_kind
  sta_title :: string
  sta_body :: string
  sta_affectedServiceIds :: "string list"
  sta_publishAt :: string
  sta_expiresAt :: "string option"
  sta_publicationState :: publication
  sta_publishedAt :: "string option"
  sta_archivedAt :: "string option"
  sta_createdAt :: string
  sta_updatedAt :: string

record status_overview =
  sto_generatedAt :: string
  sto_incidents :: "status_incident list"
  sto_maintenance :: "status_maintenance list"
  sto_announcements :: "status_announcement list"

definition object_row :: "jsval \<Rightarrow> jsval option" where
  "object_row value = (if is_record value then Some value else None)"

definition parseStatusIncident :: "jsval \<Rightarrow> status_incident option" where
  "parseStatusIncident value = do {
     row \<leftarrow> object_row value;
     pid \<leftarrow> publicId INC (get_prop row ''public_id'');
     title \<leftarrow> stringValue 160 (get_prop row ''title'');
     lifecycle \<leftarrow> enumValue lifecycle_text LIFECYCLE (get_prop row ''lifecycle_status'');
     impact \<leftarrow> enumValue impact_text IMPACTS (get_prop row ''impact'');
     services \<leftarrow> serviceIds False (get_prop row ''affected_service_ids'');
     source \<leftarrow> enumValue source_text [AutomaticSource, ManualSource] (get_prop row ''source_type'');
     startedAt \<leftarrow> read_timestamp (get_prop row ''started_at'');
     resolvedAt \<leftarrow> nullable read_timestamp (get_prop row ''resolved_at'');
     summary \<leftarrow> stringValue 2000 (get_prop row ''summary'');
     state \<leftarrow> enumValue publication_text [Draft, Published, Archived] (get_prop row ''publication_state'');
     publishedAt \<leftarrow> nullable read_timestamp (get_prop row ''published_at'');
     createdAt \<leftarrow> read_timestamp (get_prop row ''created_at'');
     updatedAt \<leftarrow> read_timestamp (get_prop row ''updated_at'');
     Some \<lparr> sti_publicId = pid, sti_title = title, sti_lifecycleStatus = lifecycle, sti_impact = impact,
       sti_affectedServiceIds = services, sti_sourceType = source, sti_startedAt = startedAt,
       sti_resolvedAt = resolvedAt, sti_summary = summary, sti_publicationState = state,
       sti_publishedAt = publishedAt, sti_createdAt = createdAt, sti_updatedAt = updatedAt \<rparr>
   }"

definition parseStatusMaintenance :: "jsval \<Rightarrow> status_maintenance option" where
  "parseStatusMaintenance value = do {
     row \<leftarrow> object_row value;
     windowId \<leftarrow> optional_text (satisfying UUID8_PATTERN) (get_prop row ''reliability_window_id'');
     pid \<leftarrow> publicId MNT (get_prop row ''public_id'');
     title \<leftarrow> stringValue 160 (get_prop row ''title'');
     body \<leftarrow> stringValue 4000 (get_prop row ''body'');
     services \<leftarrow> serviceIds False (get_prop row ''affected_service_ids'');
     startsAt \<leftarrow> read_timestamp (get_prop row ''starts_at'');
     endsAt \<leftarrow> read_timestamp (get_prop row ''ends_at'');
     state \<leftarrow> enumValue notice_publication_text [DraftNotice, PublishedNotice, CancelledNotice]
       (get_prop row ''publication_state'');
     publishedAt \<leftarrow> nullable read_timestamp (get_prop row ''published_at'');
     cancelledAt \<leftarrow> nullable read_timestamp (get_prop row ''cancelled_at'');
     createdAt \<leftarrow> read_timestamp (get_prop row ''created_at'');
     updatedAt \<leftarrow> read_timestamp (get_prop row ''updated_at'');
     Some \<lparr> stm_publicId = pid, stm_title = title, stm_body = body, stm_affectedServiceIds = services,
       stm_startsAt = startsAt, stm_endsAt = endsAt, stm_publicationState = state, stm_publishedAt = publishedAt,
       stm_cancelledAt = cancelledAt, stm_reliabilityWindowId = windowId, stm_createdAt = createdAt,
       stm_updatedAt = updatedAt \<rparr>
   }"

definition parseStatusAnnouncement :: "jsval \<Rightarrow> status_announcement option" where
  "parseStatusAnnouncement value = do {
     row \<leftarrow> object_row value;
     pid \<leftarrow> publicId ANN (get_prop row ''public_id'');
     kind \<leftarrow> enumValue announcement_kind_text [InfoNotice, WarningNotice] (get_prop row ''kind'');
     title \<leftarrow> stringValue 160 (get_prop row ''title'');
     body \<leftarrow> stringValue 4000 (get_prop row ''body'');
     services \<leftarrow> serviceIds True (get_prop row ''affected_service_ids'');
     publishAt \<leftarrow> read_timestamp (get_prop row ''publish_at'');
     expiresAt \<leftarrow> nullable read_timestamp (get_prop row ''expires_at'');
     state \<leftarrow> enumValue publication_text [Draft, Published, Archived] (get_prop row ''publication_state'');
     publishedAt \<leftarrow> nullable read_timestamp (get_prop row ''published_at'');
     archivedAt \<leftarrow> nullable read_timestamp (get_prop row ''archived_at'');
     createdAt \<leftarrow> read_timestamp (get_prop row ''created_at'');
     updatedAt \<leftarrow> read_timestamp (get_prop row ''updated_at'');
     Some \<lparr> sta_publicId = pid, sta_kind = kind, sta_title = title, sta_body = body,
       sta_affectedServiceIds = services, sta_publishAt = publishAt, sta_expiresAt = expiresAt,
       sta_publicationState = state, sta_publishedAt = publishedAt, sta_archivedAt = archivedAt,
       sta_createdAt = createdAt, sta_updatedAt = updatedAt \<rparr>
   }"

definition status_limit :: "rat \<Rightarrow> int" where
  \<comment> \<open>\<open>Math.min(Math.max(Math.trunc(limit), 1), 250)\<close> for a finite limit\<close>
  "status_limit l = min (max (if l < 0 then \<lceil>l\<rceil> else \<lfloor>l\<rfloor>) 1) 250"

definition getStatusCenterOverview :: "(string \<Rightarrow> jsval \<Rightarrow> jsval option) \<Rightarrow> rat \<Rightarrow> status_overview option" where
  "getStatusCenterOverview rpc limit = do {
     answer \<leftarrow> rpc ''get_status_center_overview_v1'' (Obj [(''p_limit'', jint (status_limit limit))]);
     payload \<leftarrow> object_row answer;
     generatedAt \<leftarrow> read_timestamp (get_prop payload ''generatedAt'');
     incidents \<leftarrow> as_array (get_prop payload ''incidents'');
     maintenance \<leftarrow> as_array (get_prop payload ''maintenance'');
     announcements \<leftarrow> as_array (get_prop payload ''announcements'');
     incidentList \<leftarrow> map_rows parseStatusIncident incidents;
     maintenanceList \<leftarrow> map_rows parseStatusMaintenance maintenance;
     announcementList \<leftarrow> map_rows parseStatusAnnouncement announcements;
     Some \<lparr> sto_generatedAt = generatedAt, sto_incidents = incidentList, sto_maintenance = maintenanceList,
       sto_announcements = announcementList \<rparr>
   }"

section \<open>The public feed\<close>

record public_update =
  pu_status :: incident_lifecycle
  pu_message :: string
  pu_publishedAt :: string

record public_incident =
  pi_publicId :: string
  pi_title :: string
  pi_status :: incident_lifecycle
  pi_impact :: incident_impact
  pi_affectedServiceIds :: "string list"
  pi_startedAt :: string
  pi_resolvedAt :: "string option"
  pi_updatedAt :: string
  pi_summary :: string
  pi_source :: incident_source
  pi_updates :: "public_update list"

record public_maintenance =
  pm_publicId :: string
  pm_title :: string
  pm_summary :: string
  pm_affectedServiceIds :: "string list"
  pm_startsAt :: string
  pm_endsAt :: string
  pm_state :: public_maintenance_state
  pm_updatedAt :: string

record public_announcement =
  pa_publicId :: string
  pa_kind :: announcement_kind
  pa_title :: string
  pa_body :: string
  pa_affectedServiceIds :: "string list"
  pa_publishedAt :: string
  pa_expiresAt :: "string option"
  pa_active :: bool

record public_feed =
  pf_generatedAt :: string
  pf_incidents :: "public_incident list"
  pf_maintenance :: "public_maintenance list"
  pf_announcements :: "public_announcement list"

definition instant :: "jsval \<Rightarrow> string option" where
  "instant value = Option.bind (stringValue 64 value) (satisfying (\<lambda>s. Date_parse s \<noteq> None))"

definition public_services :: "jsval \<Rightarrow> string list option" where
  \<comment> \<open>\<open>services\<close>, which unlike the overview accepts an empty list\<close>
  "public_services value =
     (case as_array value of
        None \<Rightarrow> None
      | Some items \<Rightarrow> if length items > 32 then None else service_list items)"

definition parse_public_update :: "jsval \<Rightarrow> public_update option" where
  "parse_public_update update = do {
     detail \<leftarrow> object_row update;
     status \<leftarrow> enumValue lifecycle_text LIFECYCLE (get_prop detail ''status'');
     message \<leftarrow> stringValue 2000 (get_prop detail ''message'');
     publishedAt \<leftarrow> instant (get_prop detail ''publishedAt'');
     Some \<lparr> pu_status = status, pu_message = message, pu_publishedAt = publishedAt \<rparr>
   }"

definition parse_public_incident :: "jsval \<Rightarrow> public_incident option" where
  "parse_public_incident value = do {
     item \<leftarrow> object_row value;
     updates \<leftarrow> as_array (get_prop item ''updates'');
     if length updates > 500 then None
     else do {
       pid \<leftarrow> publicId INC (get_prop item ''publicId'');
       title \<leftarrow> stringValue 160 (get_prop item ''title'');
       status \<leftarrow> enumValue lifecycle_text LIFECYCLE (get_prop item ''status'');
       impact \<leftarrow> enumValue impact_text IMPACTS (get_prop item ''impact'');
       services \<leftarrow> public_services (get_prop item ''affectedServiceIds'');
       startedAt \<leftarrow> instant (get_prop item ''startedAt'');
       resolvedAt \<leftarrow> nullable instant (get_prop item ''resolvedAt'');
       updatedAt \<leftarrow> instant (get_prop item ''updatedAt'');
       summary \<leftarrow> stringValue 2000 (get_prop item ''summary'');
       source \<leftarrow> enumValue source_text [AutomaticSource, ManualSource] (get_prop item ''source'');
       updateList \<leftarrow> map_rows parse_public_update updates;
       Some \<lparr> pi_publicId = pid, pi_title = title, pi_status = status, pi_impact = impact,
         pi_affectedServiceIds = services, pi_startedAt = startedAt, pi_resolvedAt = resolvedAt,
         pi_updatedAt = updatedAt, pi_summary = summary, pi_source = source, pi_updates = updateList \<rparr>
     }
   }"

definition parse_public_maintenance :: "jsval \<Rightarrow> public_maintenance option" where
  "parse_public_maintenance value = do {
     item \<leftarrow> object_row value;
     pid \<leftarrow> publicId MNT (get_prop item ''publicId'');
     title \<leftarrow> stringValue 160 (get_prop item ''title'');
     summary \<leftarrow> stringValue 4000 (get_prop item ''summary'');
     services \<leftarrow> public_services (get_prop item ''affectedServiceIds'');
     startsAt \<leftarrow> instant (get_prop item ''startsAt'');
     endsAt \<leftarrow> instant (get_prop item ''endsAt'');
     state \<leftarrow> enumValue maintenance_state_text [Scheduled, InProgress, Completed, Cancelled]
       (get_prop item ''state'');
     updatedAt \<leftarrow> instant (get_prop item ''updatedAt'');
     Some \<lparr> pm_publicId = pid, pm_title = title, pm_summary = summary, pm_affectedServiceIds = services,
       pm_startsAt = startsAt, pm_endsAt = endsAt, pm_state = state, pm_updatedAt = updatedAt \<rparr>
   }"

definition parse_public_announcement :: "jsval \<Rightarrow> public_announcement option" where
  "parse_public_announcement value = do {
     item \<leftarrow> object_row value;
     active \<leftarrow> as_bool (get_prop item ''active'');
     pid \<leftarrow> publicId ANN (get_prop item ''publicId'');
     kind \<leftarrow> enumValue announcement_kind_text [InfoNotice, WarningNotice] (get_prop item ''kind'');
     title \<leftarrow> stringValue 160 (get_prop item ''title'');
     body \<leftarrow> stringValue 4000 (get_prop item ''body'');
     services \<leftarrow> public_services (get_prop item ''affectedServiceIds'');
     publishedAt \<leftarrow> instant (get_prop item ''publishedAt'');
     expiresAt \<leftarrow> nullable instant (get_prop item ''expiresAt'');
     Some \<lparr> pa_publicId = pid, pa_kind = kind, pa_title = title, pa_body = body, pa_affectedServiceIds = services,
       pa_publishedAt = publishedAt, pa_expiresAt = expiresAt, pa_active = active \<rparr>
   }"

definition getPublicStatusFeed ::
  "environment \<Rightarrow> (string \<Rightarrow> jsval \<Rightarrow> jsval option) \<Rightarrow> int \<Rightarrow> public_feed option" where
  "getPublicStatusFeed env rpc now = do {
     url \<leftarrow> requireEnvironment env ''SUPABASE_URL'';
     key \<leftarrow> requireEnvironment env ''SUPABASE_SERVICE_ROLE_KEY'';
     since \<leftarrow> Date_toISOString (now - 10 * 365 * 86400000);
     answer \<leftarrow> rpc ''get_status_public_feed_v1'' (Obj [(''p_since'', Str since), (''p_limit'', jint 500)]);
     payload \<leftarrow> object_row answer;
     incidents \<leftarrow> as_array (get_prop payload ''incidents'');
     maintenance \<leftarrow> as_array (get_prop payload ''maintenance'');
     announcements \<leftarrow> as_array (get_prop payload ''announcements'');
     if get_prop payload ''schemaVersion'' \<noteq> Str ''1.0'' then None
     else do {
       generatedAt \<leftarrow> instant (get_prop payload ''generatedAt'');
       incidentList \<leftarrow> map_rows parse_public_incident incidents;
       maintenanceList \<leftarrow> map_rows parse_public_maintenance maintenance;
       announcementList \<leftarrow> map_rows parse_public_announcement announcements;
       Some \<lparr> pf_generatedAt = generatedAt, pf_incidents = incidentList, pf_maintenance = maintenanceList,
         pf_announcements = announcementList \<rparr>
     }
   }"

datatype feed_reply = FeedReply public_feed | FeedUnavailable nat

definition status_feed_get ::
  "environment \<Rightarrow> (string \<Rightarrow> jsval \<Rightarrow> jsval option) \<Rightarrow> int \<Rightarrow> feed_reply" where
  "status_feed_get env rpc now =
     (case getPublicStatusFeed env rpc now of Some feed \<Rightarrow> FeedReply feed | None \<Rightarrow> FeedUnavailable 503)"

section \<open>Mutations\<close>

type_synonym status_rpc = "string \<Rightarrow> jsval \<Rightarrow> jsval option"

record status_result =
  sr_publicId :: string
  sr_lifecycleStatus :: "string option"  \<comment> \<open>only of an incident\<close>
  sr_publicationState :: string

definition singleRow :: "jsval \<Rightarrow> jsval option" where
  "singleRow value = (case as_array value of Some [row] \<Rightarrow> object_row row | _ \<Rightarrow> None)"

definition result_id :: "public_id_prefix \<Rightarrow> jsval \<Rightarrow> string option" where
  "result_id p row = Option.bind (as_string (get_prop row ''public_id'')) (satisfying (public_id_of p))"

definition parseIncidentResult :: "jsval \<Rightarrow> status_result option" where
  "parseIncidentResult value = do {
     row \<leftarrow> singleRow value;
     pid \<leftarrow> result_id INC row;
     lifecycle \<leftarrow> as_string (get_prop row ''lifecycle_status'');
     state \<leftarrow> as_string (get_prop row ''publication_state'');
     Some \<lparr> sr_publicId = pid, sr_lifecycleStatus = Some lifecycle, sr_publicationState = state \<rparr>
   }"

definition parseMaintenanceResult :: "jsval \<Rightarrow> status_result option" where
  "parseMaintenanceResult value = do {
     row \<leftarrow> singleRow value;
     pid \<leftarrow> result_id MNT row;
     state \<leftarrow> enumValue notice_publication_text [DraftNotice, PublishedNotice, CancelledNotice]
       (get_prop row ''publication_state'');
     Some \<lparr> sr_publicId = pid, sr_lifecycleStatus = None, sr_publicationState = notice_publication_text state \<rparr>
   }"

definition parseAnnouncementResult :: "jsval \<Rightarrow> status_result option" where
  "parseAnnouncementResult value = do {
     row \<leftarrow> singleRow value;
     pid \<leftarrow> result_id ANN row;
     state \<leftarrow> enumValue publication_text [Draft, Published, Archived] (get_prop row ''publication_state'');
     Some \<lparr> sr_publicId = pid, sr_lifecycleStatus = None, sr_publicationState = publication_text state \<rparr>
   }"

definition actorParams :: "actor \<Rightarrow> (string \<times> jsval) list" where
  "actorParams who =
     [(''p_actor_email'', or_null (ac_email who)), (''p_actor_role'', Str (role_text (ac_role who))),
      (''p_actor_discord_user_id'', or_null (ac_discordUserId who))]"

type_synonym status_mutation = "status_result option \<times> rpc_call list"

definition call_status ::
  "status_rpc \<Rightarrow> (jsval \<Rightarrow> status_result option) \<Rightarrow> string \<Rightarrow> (string \<times> jsval) list \<Rightarrow> actor \<Rightarrow> status_mutation" where
  "call_status rpc parse name params who =
     (let body = Obj (params @ actorParams who) in (Option.bind (rpc name body) parse, [(name, body)]))"

definition str_array :: "string list \<Rightarrow> jsval" where
  "str_array xs = Arr (map Str xs)"

record create_incident_input =
  cii_title :: string
  cii_impact :: incident_impact
  cii_affectedServiceIds :: "string list"
  cii_startedAt :: string
  cii_summary :: string
  cii_idempotencyKey :: string

record create_maintenance_input =
  cmi_title :: string
  cmi_body :: string
  cmi_affectedServiceIds :: "string list"
  cmi_startsAt :: string
  cmi_endsAt :: string
  cmi_reliabilityWindowId :: "string option"
  cmi_idempotencyKey :: string

record create_announcement_input =
  cai_kind :: announcement_kind
  cai_title :: string
  cai_body :: string
  cai_affectedServiceIds :: "string list option"
  cai_publishAt :: string
  cai_expiresAt :: "string option"
  cai_idempotencyKey :: string

definition incident_params :: "create_incident_input \<Rightarrow> (string \<times> jsval) list" where
  "incident_params i =
     [(''p_title'', Str (cii_title i)), (''p_impact'', Str (impact_text (cii_impact i))),
      (''p_affected_service_ids'', str_array (cii_affectedServiceIds i)), (''p_started_at'', Str (cii_startedAt i)),
      (''p_summary'', Str (cii_summary i)), (''p_idempotency_key'', Str (cii_idempotencyKey i))]"

definition createStatusIncident :: "status_rpc \<Rightarrow> create_incident_input \<Rightarrow> actor \<Rightarrow> status_mutation" where
  "createStatusIncident rpc i = call_status rpc parseIncidentResult ''create_status_incident_v1'' (incident_params i)"

definition identified_call :: "string \<Rightarrow> string \<Rightarrow> (string \<times> jsval) list" where
  "identified_call pid requestId = [(''p_public_id'', Str pid), (''p_request_id'', Str requestId)]"

definition publishStatusIncident :: "status_rpc \<Rightarrow> string \<Rightarrow> string \<Rightarrow> actor \<Rightarrow> status_mutation" where
  "publishStatusIncident rpc pid requestId =
     call_status rpc parseIncidentResult ''publish_status_incident_v1'' (identified_call pid requestId)"

definition update_params :: "string \<Rightarrow> incident_lifecycle \<Rightarrow> string \<Rightarrow> string \<Rightarrow> (string \<times> jsval) list" where
  "update_params pid lifecycle message requestId =
     [(''p_public_id'', Str pid), (''p_lifecycle_status'', Str (lifecycle_text lifecycle)),
      (''p_message'', Str message), (''p_request_id'', Str requestId)]"

definition updateStatusIncident ::
  "status_rpc \<Rightarrow> string \<Rightarrow> incident_lifecycle \<Rightarrow> string \<Rightarrow> string \<Rightarrow> actor \<Rightarrow> status_mutation" where
  "updateStatusIncident rpc pid lifecycle message requestId =
     call_status rpc parseIncidentResult ''append_status_incident_update_v1''
       (update_params pid lifecycle message requestId)"

definition maintenance_params :: "create_maintenance_input \<Rightarrow> (string \<times> jsval) list" where
  "maintenance_params i =
     [(''p_title'', Str (cmi_title i)), (''p_body'', Str (cmi_body i)),
      (''p_affected_service_ids'', str_array (cmi_affectedServiceIds i)), (''p_starts_at'', Str (cmi_startsAt i)),
      (''p_ends_at'', Str (cmi_endsAt i)), (''p_reliability_window_id'', or_null (cmi_reliabilityWindowId i)),
      (''p_idempotency_key'', Str (cmi_idempotencyKey i))]"

definition createStatusMaintenance :: "status_rpc \<Rightarrow> create_maintenance_input \<Rightarrow> actor \<Rightarrow> status_mutation" where
  "createStatusMaintenance rpc i =
     call_status rpc parseMaintenanceResult ''create_status_maintenance_v1'' (maintenance_params i)"

definition publishStatusMaintenance :: "status_rpc \<Rightarrow> string \<Rightarrow> string \<Rightarrow> actor \<Rightarrow> status_mutation" where
  "publishStatusMaintenance rpc pid requestId =
     call_status rpc parseMaintenanceResult ''publish_status_maintenance_v1'' (identified_call pid requestId)"

definition cancelStatusMaintenance :: "status_rpc \<Rightarrow> string \<Rightarrow> string \<Rightarrow> actor \<Rightarrow> status_mutation" where
  "cancelStatusMaintenance rpc pid requestId =
     call_status rpc parseMaintenanceResult ''cancel_status_maintenance_v1'' (identified_call pid requestId)"

definition announcement_params :: "create_announcement_input \<Rightarrow> (string \<times> jsval) list" where
  "announcement_params i =
     [(''p_kind'', Str (announcement_kind_text (cai_kind i))), (''p_title'', Str (cai_title i)),
      (''p_body'', Str (cai_body i)),
      (''p_affected_service_ids'', case cai_affectedServiceIds i of None \<Rightarrow> Null | Some ids \<Rightarrow> str_array ids),
      (''p_publish_at'', Str (cai_publishAt i)), (''p_expires_at'', or_null (cai_expiresAt i)),
      (''p_idempotency_key'', Str (cai_idempotencyKey i))]"

definition createStatusAnnouncement :: "status_rpc \<Rightarrow> create_announcement_input \<Rightarrow> actor \<Rightarrow> status_mutation" where
  "createStatusAnnouncement rpc i =
     call_status rpc parseAnnouncementResult ''create_status_announcement_v1'' (announcement_params i)"

definition publishStatusAnnouncement :: "status_rpc \<Rightarrow> string \<Rightarrow> string \<Rightarrow> actor \<Rightarrow> status_mutation" where
  "publishStatusAnnouncement rpc pid requestId =
     call_status rpc parseAnnouncementResult ''publish_status_announcement_v1'' (identified_call pid requestId)"

definition archiveStatusAnnouncement :: "status_rpc \<Rightarrow> string \<Rightarrow> string \<Rightarrow> actor \<Rightarrow> status_mutation" where
  "archiveStatusAnnouncement rpc pid requestId =
     call_status rpc parseAnnouncementResult ''archive_status_announcement_v1'' (identified_call pid requestId)"

section \<open>What a reader guarantees\<close>

definition services_ok :: "string list \<Rightarrow> bool" where
  "services_ok ids \<longleftrightarrow> distinct ids \<and> length ids \<le> 32 \<and> list_all SERVICE_ID_PATTERN ids"

lemma satisfying_SomeD: "satisfying P s = Some t \<Longrightarrow> t = s \<and> P s"
  by (auto simp: satisfying_def split: if_splits)

lemma publicId_SomeD:
  assumes "publicId p v = Some s"
  shows "public_id_of p s"
proof -
  have "length (prefix_text p @ ''-'') = 4" by (cases p) (simp_all add: prefix_text_def)
  then have "take 4 s = prefix_text p @ ''-''" "PUBLIC_ID_PATTERN s"
    using assms by (auto simp: publicId_def starts_with_def bind_eq_Some_conv dest!: satisfying_SomeD)
  then show ?thesis
    by (auto simp: PUBLIC_ID_PATTERN_def public_id_of_def)
qed

lemma service_list_SomeD:
  assumes "service_list items = Some ids"
  shows "distinct ids \<and> length ids = length items \<and> list_all SERVICE_ID_PATTERN ids"
proof -
  have m: "map_rows (\<lambda>v. Option.bind (as_string v) (satisfying SERVICE_ID_PATTERN)) items = Some ids"
    and d: "distinct ids"
    using assms by (auto simp: service_list_def bind_eq_Some_conv split: if_splits)
  have "length items = length ids"
    using m unfolding map_rows_Some_iff by (metis length_map)
  moreover have "SERVICE_ID_PATTERN s" if "s \<in> set ids" for s
    using map_rows_set [OF m that] by (auto simp: bind_eq_Some_conv dest: satisfying_SomeD)
  ultimately show ?thesis using d by (simp add: list_all_iff)
qed

lemma serviceIds_SomeD: "serviceIds b v = Some ids \<Longrightarrow> services_ok ids \<and> (b \<or> ids \<noteq> [])"
  by (auto simp: serviceIds_def services_ok_def dest!: service_list_SomeD split: if_splits option.splits)

lemma public_services_SomeD: "public_services v = Some ids \<Longrightarrow> services_ok ids"
  by (auto simp: public_services_def services_ok_def dest!: service_list_SomeD split: if_splits option.splits)

lemma stringValue_SomeD: "stringValue n v = Some s \<Longrightarrow> v = Str s \<and> 1 \<le> length s \<and> length s \<le> n"
  by (auto simp: stringValue_def bind_eq_Some_conv dest!: satisfying_SomeD)

lemma instant_SomeD: "instant v = Some s \<Longrightarrow> \<exists>t. Date_parse s = Some t"
  by (auto simp: instant_def bind_eq_Some_conv dest!: satisfying_SomeD)

definition public_incident_ok :: "public_incident \<Rightarrow> bool" where
  "public_incident_ok i \<longleftrightarrow>
     public_id_of INC (pi_publicId i) \<and> services_ok (pi_affectedServiceIds i) \<and>
     1 \<le> length (pi_title i) \<and> length (pi_title i) \<le> 160 \<and> length (pi_summary i) \<le> 2000 \<and>
     Date_parse (pi_startedAt i) \<noteq> None \<and> Date_parse (pi_updatedAt i) \<noteq> None \<and>
     length (pi_updates i) \<le> 500 \<and>
     (\<forall>u \<in> set (pi_updates i). length (pu_message u) \<le> 2000 \<and> Date_parse (pu_publishedAt u) \<noteq> None)"

definition public_maintenance_ok :: "public_maintenance \<Rightarrow> bool" where
  "public_maintenance_ok m \<longleftrightarrow>
     public_id_of MNT (pm_publicId m) \<and> services_ok (pm_affectedServiceIds m) \<and>
     1 \<le> length (pm_title m) \<and> length (pm_title m) \<le> 160 \<and> length (pm_summary m) \<le> 4000 \<and>
     Date_parse (pm_startsAt m) \<noteq> None \<and> Date_parse (pm_endsAt m) \<noteq> None"

definition public_announcement_ok :: "public_announcement \<Rightarrow> bool" where
  "public_announcement_ok a \<longleftrightarrow>
     public_id_of ANN (pa_publicId a) \<and> services_ok (pa_affectedServiceIds a) \<and>
     1 \<le> length (pa_title a) \<and> length (pa_title a) \<le> 160 \<and> length (pa_body a) \<le> 4000 \<and>
     Date_parse (pa_publishedAt a) \<noteq> None \<and>
     (case pa_expiresAt a of None \<Rightarrow> True | Some e \<Rightarrow> Date_parse e \<noteq> None)"

lemmas feed_readers = publicId_SomeD public_services_SomeD stringValue_SomeD instant_SomeD

lemma parse_public_update_ok:
  "parse_public_update v = Some u \<Longrightarrow> length (pu_message u) \<le> 2000 \<and> Date_parse (pu_publishedAt u) \<noteq> None"
  by (auto simp: parse_public_update_def bind_eq_Some_conv dest!: feed_readers)

lemma parse_public_incident_ok:
  assumes "parse_public_incident v = Some i"
  shows "public_incident_ok i"
proof -
  have "\<exists>items. map_rows parse_public_update items = Some (pi_updates i) \<and> length items \<le> 500"
    using assms by (auto simp: parse_public_incident_def bind_eq_Some_conv split: if_splits)
  then obtain items where u: "map_rows parse_public_update items = Some (pi_updates i)" and n: "length items \<le> 500"
    by blast
  have "length items = length (pi_updates i)"
    using u unfolding map_rows_Some_iff by (metis length_map)
  moreover have "\<forall>x \<in> set (pi_updates i). length (pu_message x) \<le> 2000 \<and> Date_parse (pu_publishedAt x) \<noteq> None"
    using map_rows_set [OF u] parse_public_update_ok by blast
  ultimately show ?thesis
    using assms n
    by (auto simp: public_incident_ok_def parse_public_incident_def bind_eq_Some_conv dest!: feed_readers
        split: if_splits)
qed

lemma parse_public_maintenance_ok: "parse_public_maintenance v = Some m \<Longrightarrow> public_maintenance_ok m"
  by (auto simp: public_maintenance_ok_def parse_public_maintenance_def bind_eq_Some_conv dest!: feed_readers)

lemma parse_public_announcement_ok: "parse_public_announcement v = Some a \<Longrightarrow> public_announcement_ok a"
  by (auto simp: public_announcement_ok_def parse_public_announcement_def bind_eq_Some_conv nullable_def
      dest!: feed_readers split: if_splits option.splits)

text \<open>Everything on the public status page was checked: an incident, a maintenance notice and an
  announcement carry an identifier of their own kind, at most 32 different service identifiers, a title of 1
  to 160 characters, bounded texts and valid instants; an incident has at most 500 updates, each bounded.\<close>

theorem public_feed_is_well_formed:
  assumes "status_feed_get env rpc now = FeedReply feed"
  shows "Date_parse (pf_generatedAt feed) \<noteq> None \<and>
    (\<forall>i \<in> set (pf_incidents feed). public_incident_ok i) \<and>
    (\<forall>m \<in> set (pf_maintenance feed). public_maintenance_ok m) \<and>
    (\<forall>a \<in> set (pf_announcements feed). public_announcement_ok a)"
proof -
  from assms obtain v incidents maintenance announcements where
    "instant v = Some (pf_generatedAt feed)" and
    i: "map_rows parse_public_incident incidents = Some (pf_incidents feed)" and
    m: "map_rows parse_public_maintenance maintenance = Some (pf_maintenance feed)" and
    a: "map_rows parse_public_announcement announcements = Some (pf_announcements feed)"
    by (auto simp: status_feed_get_def getPublicStatusFeed_def bind_eq_Some_conv split: option.splits if_splits)
  then show ?thesis
    using map_rows_set [OF i] map_rows_set [OF m] map_rows_set [OF a] parse_public_incident_ok
      parse_public_maintenance_ok parse_public_announcement_ok instant_SomeD by blast
qed

definition sample_feed_answer :: jsval where
  "sample_feed_answer = Obj [(''schemaVersion'', Str ''1.0''), (''generatedAt'', Str ''2026-01-01T00:00:00Z''),
     (''incidents'', Arr []), (''announcements'', Arr []),
     (''maintenance'', Arr [Obj [(''publicId'', Str ''MNT-0123456789AB''), (''title'', Str ''Reboot''),
        (''summary'', Str ''Kernel''), (''affectedServiceIds'', Arr [Str ''minecraft'']),
        (''startsAt'', Str ''2026-01-02T00:00:00Z''), (''endsAt'', Str ''2026-01-02T01:00:00Z''),
        (''state'', Str ''scheduled''), (''updatedAt'', Str ''2026-01-01T00:00:00Z'')]])]"

definition sample_feed_environment :: environment where
  "sample_feed_environment = (\<lambda>_. Some ''configured'')"

lemma sample_feed:
  "\<exists>feed. status_feed_get sample_feed_environment (\<lambda>_ _. Some sample_feed_answer) 1767225600000 = FeedReply feed \<and>
     map pm_publicId (pf_maintenance feed) = [''MNT-0123456789AB'']"
proof -
  have times: "instant (Str ''2026-01-01T00:00:00Z'') = Some ''2026-01-01T00:00:00Z''"
    "instant (Str ''2026-01-02T00:00:00Z'') = Some ''2026-01-02T00:00:00Z''"
    "instant (Str ''2026-01-02T01:00:00Z'') = Some ''2026-01-02T01:00:00Z''"
    by (simp_all add: instant_def stringValue_def satisfying_def sample_instants js_eval del: Date_parse_def)
  have pid: "publicId MNT (Str ''MNT-0123456789AB'') = Some ''MNT-0123456789AB''"
    by (simp add: publicId_def stringValue_def satisfying_def PUBLIC_ID_PATTERN_def public_id_of_def prefix_text_def
        starts_with_def chars_between_def js_eval)
  have "requireEnvironment sample_feed_environment name = Some ''configured''" for name
    by (simp add: requireEnvironment_def sample_feed_environment_def js_eval)
  then show ?thesis
    by (simp add: status_feed_get_def getPublicStatusFeed_def sample_feed_answer_def object_row_def prop_or_def
        Date_toISOString_def max_time_def times pid parse_public_maintenance_def stringValue_def satisfying_def
        public_services_def service_list_def SERVICE_ID_PATTERN_def headed_chars_def is_lower_def is_digit_def
        code_def enumValue_def maintenance_state_text_def Let_def)
qed

theorem public_feed_is_well_formed_witness:
  "\<exists>feed. status_feed_get sample_feed_environment (\<lambda>_ _. Some sample_feed_answer) 1767225600000 = FeedReply feed \<and>
     pf_maintenance feed \<noteq> [] \<and> (\<forall>m \<in> set (pf_maintenance feed). public_maintenance_ok m)"
  using sample_feed public_feed_is_well_formed [of sample_feed_environment "\<lambda>_ _. Some sample_feed_answer" 1767225600000]
  by (metis list.simps(3,8))

end
