(* ===== verification/StatusRoutes.thy ===== *)
theory StatusRoutes
  imports StatusCenter
begin

text \<open>
  The routes through which an administrator changes the status centre
  (\<open>apps/web/app/api/status-center/incidents/route.ts\<close>, \<open>maintenance/route.ts\<close> and
  \<open>announcements/route.ts\<close>). The three handlers begin with the same guard and read the body alike; they are
  modelled once, with the limit and the form fields of each.
\<close>

section \<open>What the handlers share\<close>

definition status_body_text :: "form_services \<Rightarrow> nat \<Rightarrow> form_request \<Rightarrow> body_result + string" where
  "status_body_text s limit r =
     (if length_declared_too_large limit (fr_header r) then Inl FormTooLarge
      else (case fr_body r of
              None \<Rightarrow> Inr []
            | Some chunks \<Rightarrow>
                (case read_chunks limit 0 chunks of
                   None \<Rightarrow> Inl FormTooLarge
                 | Some read \<Rightarrow>
                     (case fs_decode_text s (concat read) of None \<Rightarrow> Inl FormInvalid | Some text \<Rightarrow> Inr text))))"

definition status_form :: "string list \<Rightarrow> (string \<times> string) list \<Rightarrow> jsval" where
  \<comment> \<open>\<open>form.get\<close> of every field and \<open>form.has("acknowledged")\<close>\<close>
  "status_form names form =
     Obj (map (\<lambda>k. (k, or_null (map_of form k))) names @ [(''acknowledged'', Bool (map_of form ''acknowledged'' \<noteq> None))])"

definition status_body :: "form_services \<Rightarrow> nat \<Rightarrow> string list \<Rightarrow> form_request \<Rightarrow> body_result" where
  "status_body s limit names r =
     (case status_body_text s limit r of
        Inl failure \<Rightarrow> failure
      | Inr text \<Rightarrow>
          (let contentType = (case fr_header r ''content-type'' of None \<Rightarrow> [] | Some c \<Rightarrow> to_lower c)
           in if str_includes ''application/json'' contentType
              then (case fs_parse_json s text of Some (Obj entries) \<Rightarrow> FormOk (Obj entries) | _ \<Rightarrow> FormInvalid)
              else if str_includes ''application/x-www-form-urlencoded'' contentType
              then FormOk (status_form names (fs_parse_form s text))
              else FormInvalid))"

datatype status_reply =
    StatusError nat string
  | StatusAccepted nat status_result
  | StatusRedirect string "string option"  \<comment> \<open>outcome and public identifier of the query\<close>

type_synonym status_change = "status_reply \<times> rpc_call list"

definition status_refuse :: "form_request \<Rightarrow> nat \<Rightarrow> string \<Rightarrow> string \<Rightarrow> string option \<Rightarrow> status_reply" where
  "status_refuse r status err outcome pid =
     (if wantsJson r then StatusError status err else StatusRedirect outcome pid)"

definition status_answer ::
  "form_request \<Rightarrow> nat \<Rightarrow> string \<Rightarrow> string \<Rightarrow> string option \<Rightarrow> status_mutation \<Rightarrow> status_change" where
  \<comment> \<open>the \<open>try\<close> block of a mutation with its \<open>catch\<close>\<close>
  "status_answer r status completed failed pid m =
     ((case fst m of
         Some x \<Rightarrow> if wantsJson r then StatusAccepted status x else StatusRedirect completed (Some (sr_publicId x))
       | None \<Rightarrow> status_refuse r 503 failed ''mutation_failed'' pid), snd m)"

definition statusDateTime :: "jsval \<Rightarrow> string option" where
  \<comment> \<open>\<open>parseDateTime\<close>: fields out of range move into the next one, so they never agree with what was read\<close>
  "statusDateTime = Maintenance.parseDateTime"

definition split_services :: "string \<Rightarrow> string list" where
  \<comment> \<open>\<open>split(",").map(trim).filter(Boolean)\<close>\<close>
  "split_services s = filter (\<lambda>i. i \<noteq> []) (map trim (split_on CHR '','' s))"

definition parseServices :: "jsval \<Rightarrow> string list option" where
  "parseServices value =
     (case as_string value of
        None \<Rightarrow> None
      | Some s \<Rightarrow>
          if length s > 2100 then None
          else (let ids = split_services s
                in if length ids < 1 \<or> length ids > 32 \<or> \<not> distinct ids then None
                   else if list_all SERVICE_ID_PATTERN ids then Some ids else None))"

definition identity_ok :: "public_id_prefix \<Rightarrow> string \<Rightarrow> string \<Rightarrow> bool" where
  "identity_ok p pid requestId \<longleftrightarrow> public_id_of p pid \<and> UUID8_PATTERN requestId"

definition status_guard ::
  "form_services \<Rightarrow> nat \<Rightarrow> string list \<Rightarrow> console_session option \<Rightarrow> form_request \<Rightarrow>
   (actor \<Rightarrow> jsval \<Rightarrow> status_change) \<Rightarrow> status_change" where
  \<comment> \<open>the beginning of \<open>POST\<close>; the session is \<open>None\<close> when reading it failed\<close>
  "status_guard s limit names sessionResult r change =
     (if \<not> same_origin r then (StatusError 403 ''origin_mismatch'', [])
      else (case sessionResult of
              None \<Rightarrow> (StatusError 503 ''session_unavailable'', [])
            | Some session \<Rightarrow>
                (case administrator_of session of
                   None \<Rightarrow> (StatusError 403 ''administrator_role_required'', [])
                 | Some role \<Rightarrow>
                     (case status_body s limit names r of
                        FormTooLarge \<Rightarrow> (StatusError 413 ''request_body_too_large'', [])
                      | FormInvalid \<Rightarrow> (StatusError 400 ''request_body_invalid'', [])
                      | FormOk body \<Rightarrow>
                          change \<lparr> ac_email = cs_email session, ac_discordUserId = cs_discordUserId session,
                            ac_role = role \<rparr> body))))"

section \<open>Incidents\<close>

definition MAX_INCIDENT_BODY_BYTES :: nat where
  "MAX_INCIDENT_BODY_BYTES = 12288"

definition INCIDENT_FIELDS :: "string list" where
  "INCIDENT_FIELDS = [''action'', ''title'', ''impact'', ''serviceIds'', ''startedAt'', ''summary'', ''publicId'',
     ''lifecycleStatus'', ''message'', ''idempotencyKey'', ''requestId'']"

definition started_at_invalid :: "int \<Rightarrow> int \<Rightarrow> bool" where
  "started_at_invalid startedMs now \<longleftrightarrow> startedMs < now - 30 * 86400000 \<or> startedMs > now + 5 * 60000"

definition incident_create :: "status_rpc \<Rightarrow> actor \<Rightarrow> int \<Rightarrow> form_request \<Rightarrow> jsval \<Rightarrow> status_change" where
  "incident_create rpc who now r body =
     (let title = trim (text_or_empty (get_prop body ''title''));
          summary = trim (text_or_empty (get_prop body ''summary''));
          idempotencyKey = text_or_empty (get_prop body ''idempotencyKey'')
      in case (enumValue impact_text IMPACTS (get_prop body ''impact''),
               parseServices (get_prop body ''serviceIds''), statusDateTime (get_prop body ''startedAt'')) of
           (Some impact, Some services, Some startedAt) \<Rightarrow>
             if length title < 1 \<or> length title > 160 \<or> length summary < 1 \<or> length summary > 2000 \<or>
                \<not> UUID8_PATTERN idempotencyKey
             then (status_refuse r 400 ''incident_create_input_invalid'' ''create_invalid'' None, [])
             else if started_at_invalid (ms_of startedAt) now
             then (status_refuse r 400 ''incident_started_at_invalid'' ''create_invalid'' None, [])
             else status_answer r 201 ''created'' ''incident_create_failed'' None
               (createStatusIncident rpc \<lparr> cii_title = title, cii_impact = impact, cii_affectedServiceIds = services,
                  cii_startedAt = startedAt, cii_summary = summary, cii_idempotencyKey = idempotencyKey \<rparr> who)
         | _ \<Rightarrow> (status_refuse r 400 ''incident_create_input_invalid'' ''create_invalid'' None, []))"

definition incident_update ::
  "status_rpc \<Rightarrow> actor \<Rightarrow> form_request \<Rightarrow> jsval \<Rightarrow> string \<Rightarrow> string \<Rightarrow> status_change" where
  "incident_update rpc who r body pid requestId =
     (let message = trim (text_or_empty (get_prop body ''message''));
          refused = (status_refuse r 400 ''incident_update_input_invalid'' ''update_invalid'' (Some pid), [])
      in case enumValue lifecycle_text LIFECYCLE (get_prop body ''lifecycleStatus'') of
           None \<Rightarrow> refused
         | Some lifecycle \<Rightarrow>
             if length message < 1 \<or> length message > 2000 then refused
             else if lifecycle = ResolvedIncident \<and> \<not> acknowledgement (get_prop body ''acknowledged'')
             then (status_refuse r 400 ''incident_resolve_acknowledgement_required'' ''acknowledgement_required''
                 (Some pid), [])
             else status_answer r 200 (if lifecycle = ResolvedIncident then ''resolved'' else ''updated'')
               ''incident_update_failed'' (Some pid) (updateStatusIncident rpc pid lifecycle message requestId who))"

definition acknowledged_change ::
  "form_request \<Rightarrow> jsval \<Rightarrow> string \<Rightarrow> string \<Rightarrow> string \<Rightarrow> string \<Rightarrow> status_mutation \<Rightarrow> status_change" where
  \<comment> \<open>publish, cancel and archive: refused unless acknowledged\<close>
  "acknowledged_change r body required completed failed pid m =
     (if \<not> acknowledgement (get_prop body ''acknowledged'')
      then (status_refuse r 400 required ''acknowledgement_required'' (Some pid), [])
      else status_answer r 200 completed failed (Some pid) m)"

definition incident_change :: "status_rpc \<Rightarrow> int \<Rightarrow> form_request \<Rightarrow> actor \<Rightarrow> jsval \<Rightarrow> status_change" where
  "incident_change rpc now r who body =
     (let action = get_prop body ''action'';
          pid = text_or_empty (get_prop body ''publicId'');
          requestId = text_or_empty (get_prop body ''requestId'')
      in if action = Str ''create'' then incident_create rpc who now r body
         else if \<not> identity_ok INC pid requestId
         then (status_refuse r 400 ''incident_identity_invalid'' ''identity_invalid'' None, [])
         else if action = Str ''publish''
         then acknowledged_change r body ''incident_publish_acknowledgement_required'' ''published''
           ''incident_publish_failed'' pid (publishStatusIncident rpc pid requestId who)
         else if action = Str ''update'' then incident_update rpc who r body pid requestId
         else (StatusError 400 ''action_invalid'', []))"

definition incidents_post ::
  "form_services \<Rightarrow> status_rpc \<Rightarrow> console_session option \<Rightarrow> form_request \<Rightarrow> int \<Rightarrow> status_change" where
  "incidents_post s rpc sessionResult r now =
     status_guard s MAX_INCIDENT_BODY_BYTES INCIDENT_FIELDS sessionResult r (incident_change rpc now r)"

section \<open>Maintenance notices\<close>

definition MAX_NOTICE_BODY_BYTES :: nat where
  "MAX_NOTICE_BODY_BYTES = 16384"

definition NOTICE_FIELDS :: "string list" where
  "NOTICE_FIELDS = [''action'', ''title'', ''body'', ''serviceIds'', ''startsAt'', ''endsAt'', ''reliabilityWindowId'',
     ''publicId'', ''idempotencyKey'', ''requestId'']"

definition MAX_NOTICE_DURATION_MS :: int where
  "MAX_NOTICE_DURATION_MS = 14 * 86400000"

definition parseOptionalUuid :: "jsval \<Rightarrow> string option option" where
  \<comment> \<open>the outer \<open>None\<close>: \<open>"invalid"\<close>\<close>
  "parseOptionalUuid value =
     (if value = Null \<or> value = Undefined \<or> value = Str [] then Some None
      else (case as_string value of
              None \<Rightarrow> None
            | Some s \<Rightarrow>
                if trim s = [] then Some None
                else if UUID8_PATTERN (trim s) then Some (Some (trim s)) else None))"

definition notice_create :: "status_rpc \<Rightarrow> actor \<Rightarrow> form_request \<Rightarrow> jsval \<Rightarrow> status_change" where
  "notice_create rpc who r body =
     (let title = trim (text_or_empty (get_prop body ''title''));
          publicBody = trim (text_or_empty (get_prop body ''body''));
          idempotencyKey = text_or_empty (get_prop body ''idempotencyKey'')
      in case (parseServices (get_prop body ''serviceIds''), statusDateTime (get_prop body ''startsAt''),
               statusDateTime (get_prop body ''endsAt''), parseOptionalUuid (get_prop body ''reliabilityWindowId'')) of
           (Some services, Some startsAt, Some endsAt, Some windowId) \<Rightarrow>
             if length title < 1 \<or> length title > 160 \<or> length publicBody < 1 \<or> length publicBody > 4000 \<or>
                \<not> UUID8_PATTERN idempotencyKey
             then (status_refuse r 400 ''maintenance_create_input_invalid'' ''create_invalid'' None, [])
             else if ms_of endsAt \<le> ms_of startsAt \<or> ms_of endsAt - ms_of startsAt > MAX_NOTICE_DURATION_MS
             then (status_refuse r 400 ''maintenance_schedule_invalid'' ''create_invalid'' None, [])
             else status_answer r 201 ''created'' ''maintenance_create_failed'' None
               (createStatusMaintenance rpc \<lparr> cmi_title = title, cmi_body = publicBody,
                  cmi_affectedServiceIds = services, cmi_startsAt = startsAt, cmi_endsAt = endsAt,
                  cmi_reliabilityWindowId = windowId, cmi_idempotencyKey = idempotencyKey \<rparr> who)
         | _ \<Rightarrow> (status_refuse r 400 ''maintenance_create_input_invalid'' ''create_invalid'' None, []))"

definition notice_change :: "status_rpc \<Rightarrow> form_request \<Rightarrow> actor \<Rightarrow> jsval \<Rightarrow> status_change" where
  "notice_change rpc r who body =
     (let action = get_prop body ''action'';
          pid = text_or_empty (get_prop body ''publicId'');
          requestId = text_or_empty (get_prop body ''requestId'')
      in if action = Str ''create'' then notice_create rpc who r body
         else if \<not> identity_ok MNT pid requestId
         then (status_refuse r 400 ''maintenance_identity_invalid'' ''identity_invalid'' None, [])
         else if action = Str ''publish''
         then acknowledged_change r body ''maintenance_publish_acknowledgement_required'' ''published''
           ''maintenance_publish_failed'' pid (publishStatusMaintenance rpc pid requestId who)
         else if action = Str ''cancel''
         then acknowledged_change r body ''maintenance_cancel_acknowledgement_required'' ''cancelled''
           ''maintenance_cancel_failed'' pid (cancelStatusMaintenance rpc pid requestId who)
         else (StatusError 400 ''action_invalid'', []))"

definition notices_post ::
  "form_services \<Rightarrow> status_rpc \<Rightarrow> console_session option \<Rightarrow> form_request \<Rightarrow> status_change" where
  "notices_post s rpc sessionResult r =
     status_guard s MAX_NOTICE_BODY_BYTES NOTICE_FIELDS sessionResult r (notice_change rpc r)"

section \<open>Announcements\<close>

definition ANNOUNCEMENT_FIELDS :: "string list" where
  "ANNOUNCEMENT_FIELDS = [''action'', ''kind'', ''title'', ''body'', ''serviceIds'', ''publishAt'', ''expiresAt'',
     ''publicId'', ''idempotencyKey'', ''requestId'']"

fun digits_prefix :: "nat \<Rightarrow> string \<Rightarrow> string \<times> string" where
  \<comment> \<open>at most \<open>n\<close> leading digits and the rest\<close>
  "digits_prefix (Suc n) (c # cs) =
     (if is_digit c then (let (ds, rest) = digits_prefix n cs in (c # ds, rest)) else ([], c # cs))"
| "digits_prefix n cs = ([], cs)"

definition zone_ok :: "string \<Rightarrow> bool" where
  \<comment> \<open>\<open>Z|[+-]\d{2}:\d{2}\<close> with an hour up to 23 and a minute up to 59\<close>
  "zone_ok z \<longleftrightarrow>
     z = ''Z'' \<or>
     (case z of
        [g, a, b, c, d, e] \<Rightarrow>
          g \<in> set ''+-'' \<and> c = CHR '':'' \<and> list_all is_digit [a, b, d, e] \<and>
          dec_val [a, b] \<le> 23 \<and> dec_val [d, e] \<le> 59
      | _ \<Rightarrow> False)"

definition offset_seconds :: "string \<Rightarrow> (int \<times> string) option" where
  \<comment> \<open>\<open>(?::(\d{2})(?:\.(\d{1,3}))?)?\<close> and the zone that follows; the milliseconds are always in range\<close>
  "offset_seconds r =
     (if next_is CHR '':'' r
      then do {
        (se, r1) \<leftarrow> take_after CHR '':'' r;
        if next_is CHR ''.'' r1
        then (let (ds, r2) = digits_prefix 3 (tl r1) in if ds = [] then None else Some (se, r2))
        else Some (se, r1)
      }
      else Some (0, r))"

definition parseOffsetDateTime :: "string \<Rightarrow> string option" where
  "parseOffsetDateTime s = do {
     (y, r1) \<leftarrow> take_digits 4 s;
     (m, r2) \<leftarrow> take_after CHR ''-'' r1;
     (d, r3) \<leftarrow> take_after CHR ''-'' r2;
     (h, r4) \<leftarrow> take_after CHR ''T'' r3;
     (mi, r5) \<leftarrow> take_after CHR '':'' r4;
     (se, zone) \<leftarrow> offset_seconds r5;
     if m < 1 \<or> m > 12 \<or> d < 1 \<or> d > 31 \<or> h > 23 \<or> mi > 59 \<or> se > 59 \<or>
        civil_from_days (Date_UTC y m d h mi div 86400000) \<noteq> (y, m, d) \<or> \<not> zone_ok zone
     then None
     else Option.bind (Date_parse s) Date_toISOString
   }"

definition announcementDateTime :: "jsval \<Rightarrow> string option" where
  "announcementDateTime value =
     (case as_string value of
        None \<Rightarrow> None
      | Some raw \<Rightarrow>
          if length raw > 40 then None
          else if has_zone (trim raw) then parseOffsetDateTime (trim raw) else statusDateTime value)"

definition parseOptionalDateTime :: "jsval \<Rightarrow> string option option" where
  "parseOptionalDateTime value =
     (case as_string value of
        None \<Rightarrow> Some None
      | Some s \<Rightarrow> if trim s = [] then Some None else map_option Some (announcementDateTime value))"

definition service_item :: "jsval \<Rightarrow> string option" where
  "service_item v = Option.bind (as_string v) (\<lambda>s. satisfying SERVICE_ID_PATTERN (trim s))"

definition services_of :: "jsval list \<Rightarrow> string list option" where
  "services_of items =
     (if length items < 1 \<or> length items > 32 then None
      else Option.bind (map_rows service_item items) (\<lambda>ids. if distinct ids then Some ids else None))"

definition parseOptionalServices :: "jsval \<Rightarrow> string list option option" where
  "parseOptionalServices value =
     (case value of
        Null \<Rightarrow> Some None
      | Undefined \<Rightarrow> Some None
      | Str s \<Rightarrow>
          if s = [] then Some None
          else if length s > 2100 then None
          else if trim s = [] then Some None
          else map_option Some (services_of (map Str (split_services (trim s))))
      | Arr items \<Rightarrow> map_option Some (services_of items)
      | _ \<Rightarrow> None)"

definition announcement_create :: "status_rpc \<Rightarrow> actor \<Rightarrow> form_request \<Rightarrow> jsval \<Rightarrow> status_change" where
  "announcement_create rpc who r body =
     (let title = trim (text_or_empty (get_prop body ''title''));
          publicBody = trim (text_or_empty (get_prop body ''body''));
          idempotencyKey = trim (text_or_empty (get_prop body ''idempotencyKey''))
      in case (enumValue announcement_kind_text [InfoNotice, WarningNotice] (get_prop body ''kind''),
               parseOptionalServices (get_prop body ''serviceIds''), announcementDateTime (get_prop body ''publishAt''),
               parseOptionalDateTime (get_prop body ''expiresAt'')) of
           (Some kind, Some services, Some publishAt, Some expiresAt) \<Rightarrow>
             if length title < 1 \<or> length title > 160 \<or> length publicBody < 1 \<or> length publicBody > 4000 \<or>
                \<not> UUID8_PATTERN idempotencyKey
             then (status_refuse r 400 ''announcement_create_input_invalid'' ''create_invalid'' None, [])
             else if (case expiresAt of None \<Rightarrow> False | Some e \<Rightarrow> ms_of e \<le> ms_of publishAt)
             then (status_refuse r 400 ''announcement_schedule_invalid'' ''create_invalid'' None, [])
             else status_answer r 201 ''created'' ''announcement_create_failed'' None
               (createStatusAnnouncement rpc \<lparr> cai_kind = kind, cai_title = title, cai_body = publicBody,
                  cai_affectedServiceIds = services, cai_publishAt = publishAt, cai_expiresAt = expiresAt,
                  cai_idempotencyKey = idempotencyKey \<rparr> who)
         | _ \<Rightarrow> (status_refuse r 400 ''announcement_create_input_invalid'' ''create_invalid'' None, []))"

definition announcement_change :: "status_rpc \<Rightarrow> form_request \<Rightarrow> actor \<Rightarrow> jsval \<Rightarrow> status_change" where
  "announcement_change rpc r who body =
     (let action = get_prop body ''action'';
          pid = trim (text_or_empty (get_prop body ''publicId''));
          requestId = trim (text_or_empty (get_prop body ''requestId''))
      in if action = Str ''create'' then announcement_create rpc who r body
         else if \<not> identity_ok ANN pid requestId
         then (status_refuse r 400 ''announcement_identity_invalid'' ''identity_invalid'' None, [])
         else if action = Str ''publish''
         then acknowledged_change r body ''announcement_publish_acknowledgement_required'' ''published''
           ''announcement_publish_failed'' pid (publishStatusAnnouncement rpc pid requestId who)
         else if action = Str ''archive''
         then acknowledged_change r body ''announcement_archive_acknowledgement_required'' ''archived''
           ''announcement_archive_failed'' pid (archiveStatusAnnouncement rpc pid requestId who)
         else (StatusError 400 ''action_invalid'', []))"

definition announcements_post ::
  "form_services \<Rightarrow> status_rpc \<Rightarrow> console_session option \<Rightarrow> form_request \<Rightarrow> status_change" where
  "announcements_post s rpc sessionResult r =
     status_guard s MAX_NOTICE_BODY_BYTES ANNOUNCEMENT_FIELDS sessionResult r (announcement_change rpc r)"

section \<open>What a change needs\<close>

definition incident_input_ok :: "int \<Rightarrow> create_incident_input \<Rightarrow> bool" where
  "incident_input_ok now i \<longleftrightarrow>
     1 \<le> length (cii_title i) \<and> length (cii_title i) \<le> 160 \<and>
     1 \<le> length (cii_summary i) \<and> length (cii_summary i) \<le> 2000 \<and>
     services_ok (cii_affectedServiceIds i) \<and> cii_affectedServiceIds i \<noteq> [] \<and> UUID8_PATTERN (cii_idempotencyKey i) \<and>
     (case Date_parse (cii_startedAt i) of
        None \<Rightarrow> False | Some t \<Rightarrow> now - 2592000000 \<le> t \<and> t \<le> now + 300000)"

definition notice_input_ok :: "create_maintenance_input \<Rightarrow> bool" where
  "notice_input_ok i \<longleftrightarrow>
     1 \<le> length (cmi_title i) \<and> length (cmi_title i) \<le> 160 \<and>
     1 \<le> length (cmi_body i) \<and> length (cmi_body i) \<le> 4000 \<and>
     services_ok (cmi_affectedServiceIds i) \<and> cmi_affectedServiceIds i \<noteq> [] \<and> UUID8_PATTERN (cmi_idempotencyKey i) \<and>
     (case cmi_reliabilityWindowId i of None \<Rightarrow> True | Some w \<Rightarrow> UUID8_PATTERN w) \<and>
     (case (Date_parse (cmi_startsAt i), Date_parse (cmi_endsAt i)) of
        (Some a, Some b) \<Rightarrow> a < b \<and> b - a \<le> MAX_NOTICE_DURATION_MS | _ \<Rightarrow> False)"

definition announcement_input_ok :: "create_announcement_input \<Rightarrow> bool" where
  "announcement_input_ok i \<longleftrightarrow>
     1 \<le> length (cai_title i) \<and> length (cai_title i) \<le> 160 \<and>
     1 \<le> length (cai_body i) \<and> length (cai_body i) \<le> 4000 \<and> UUID8_PATTERN (cai_idempotencyKey i) \<and>
     (case cai_affectedServiceIds i of None \<Rightarrow> True | Some ids \<Rightarrow> services_ok ids \<and> ids \<noteq> []) \<and>
     (case Date_parse (cai_publishAt i) of
        None \<Rightarrow> False
      | Some p \<Rightarrow>
          (case cai_expiresAt i of None \<Rightarrow> True
           | Some e \<Rightarrow> (case Date_parse e of None \<Rightarrow> False | Some t \<Rightarrow> p < t)))"

text \<open>The calls that each handler may make, for an actor and a body.\<close>

definition identified ::
  "public_id_prefix \<Rightarrow> string \<Rightarrow> actor \<Rightarrow> jsval \<Rightarrow> rpc_call \<Rightarrow> bool" where
  "identified p name who body call \<longleftrightarrow>
     acknowledgement (get_prop body ''acknowledged'') \<and>
     (\<exists>pid requestId. identity_ok p pid requestId \<and>
        call = (name, Obj (identified_call pid requestId @ actorParams who)))"

definition incident_call :: "int \<Rightarrow> actor \<Rightarrow> jsval \<Rightarrow> rpc_call \<Rightarrow> bool" where
  "incident_call now who body call \<longleftrightarrow>
     (\<exists>i. incident_input_ok now i \<and> call = (''create_status_incident_v1'', Obj (incident_params i @ actorParams who))) \<or>
     identified INC ''publish_status_incident_v1'' who body call \<or>
     (\<exists>pid lifecycle message requestId. identity_ok INC pid requestId \<and>
        1 \<le> length message \<and> length message \<le> 2000 \<and>
        (lifecycle = ResolvedIncident \<longrightarrow> acknowledgement (get_prop body ''acknowledged'')) \<and>
        call = (''append_status_incident_update_v1'',
          Obj (update_params pid lifecycle message requestId @ actorParams who)))"

definition notice_call :: "actor \<Rightarrow> jsval \<Rightarrow> rpc_call \<Rightarrow> bool" where
  "notice_call who body call \<longleftrightarrow>
     (\<exists>i. notice_input_ok i \<and> call = (''create_status_maintenance_v1'', Obj (maintenance_params i @ actorParams who))) \<or>
     identified MNT ''publish_status_maintenance_v1'' who body call \<or>
     identified MNT ''cancel_status_maintenance_v1'' who body call"

definition announcement_call :: "actor \<Rightarrow> jsval \<Rightarrow> rpc_call \<Rightarrow> bool" where
  "announcement_call who body call \<longleftrightarrow>
     (\<exists>i. announcement_input_ok i \<and>
        call = (''create_status_announcement_v1'', Obj (announcement_params i @ actorParams who))) \<or>
     identified ANN ''publish_status_announcement_v1'' who body call \<or>
     identified ANN ''archive_status_announcement_v1'' who body call"

lemma status_calls [simp]:
  "snd (call_status rpc parse name params who) = [(name, Obj (params @ actorParams who))]"
  "snd (status_answer r status completed failed pid m) = snd m"
  by (simp_all add: call_status_def status_answer_def Let_def)

lemma parseServices_SomeD: "parseServices v = Some ids \<Longrightarrow> services_ok ids \<and> ids \<noteq> []"
  by (auto simp: parseServices_def services_ok_def Let_def split: option.splits if_splits)

lemma services_of_SomeD:
  assumes "services_of items = Some ids"
  shows "services_ok ids \<and> ids \<noteq> []"
proof -
  have m: "map_rows service_item items = Some ids" and d: "distinct ids" and n: "1 \<le> length items" "length items \<le> 32"
    using assms by (auto simp: services_of_def bind_eq_Some_conv Suc_le_eq split: if_splits)
  have "length items = length ids"
    using m unfolding map_rows_Some_iff by (metis length_map)
  moreover have "SERVICE_ID_PATTERN s" if "s \<in> set ids" for s
    using map_rows_set [OF m that] by (auto simp: service_item_def bind_eq_Some_conv dest: satisfying_SomeD)
  ultimately show ?thesis using d n by (auto simp: services_ok_def list_all_iff)
qed

lemma parseOptionalServices_SomeD:
  "parseOptionalServices v = Some (Some ids) \<Longrightarrow> services_ok ids \<and> ids \<noteq> []"
  by (cases v) (auto simp: parseOptionalServices_def dest: services_of_SomeD split: if_splits)

lemma date_texts:
  "statusDateTime v = Some s \<Longrightarrow> \<exists>t. Date_parse s = Some t"
  "announcementDateTime v = Some s \<Longrightarrow> \<exists>t. Date_parse s = Some t"
proof -
  show a: "statusDateTime v = Some s \<Longrightarrow> \<exists>t. Date_parse s = Some t" for v
    by (auto simp: statusDateTime_def dest!: parseDateTime_SomeD)
  show "announcementDateTime v = Some s \<Longrightarrow> \<exists>t. Date_parse s = Some t"
    by (auto simp: announcementDateTime_def parseOffsetDateTime_def bind_eq_Some_conv Date_toISOString_def
        dest!: a split: option.splits if_splits prod.splits)
qed

lemma parseOptionalDateTime_SomeD:
  "parseOptionalDateTime v = Some (Some s) \<Longrightarrow> \<exists>t. Date_parse s = Some t"
  by (auto simp: parseOptionalDateTime_def dest!: date_texts(2) split: option.splits if_splits)

lemma parseOptionalUuid_SomeD: "parseOptionalUuid v = Some (Some w) \<Longrightarrow> UUID8_PATTERN w"
  by (auto simp: parseOptionalUuid_def split: if_splits option.splits)

text \<open>A handler that returns early makes no call.\<close>

lemma calls_if: "call \<in> set (snd (if c then (e, []) else m)) \<longleftrightarrow> \<not> c \<and> call \<in> set (snd m)"
  by simp

lemma calls_case3:
  "call \<in> set (snd (case (x, y, z) of (Some a, Some b, Some c) \<Rightarrow> f a b c | _ \<Rightarrow> (e, []))) \<longleftrightarrow>
     (\<exists>a b c. x = Some a \<and> y = Some b \<and> z = Some c \<and> call \<in> set (snd (f a b c)))"
  by (simp split: option.split)

lemma calls_case4:
  "call \<in> set (snd (case (w, x, y, z) of (Some a, Some b, Some c, Some d) \<Rightarrow> f a b c d | _ \<Rightarrow> (e, []))) \<longleftrightarrow>
     (\<exists>a b c d. w = Some a \<and> x = Some b \<and> y = Some c \<and> z = Some d \<and> call \<in> set (snd (f a b c d)))"
  by (simp split: option.split)

lemmas early_returns = calls_if calls_case3 calls_case4

text \<open>A call that a creation makes carries the input that was checked.\<close>

lemma incident_create_call:
  assumes "call \<in> set (snd (incident_create rpc who now r body))"
  shows "\<exists>i. incident_input_ok now i \<and> call = (''create_status_incident_v1'', Obj (incident_params i @ actorParams who))"
  using assms unfolding incident_create_def createStatusIncident_def Let_def early_returns
  apply (elim exE conjE)
  subgoal premises prems for impact services startedAt
  proof -
    have "incident_input_ok now \<lparr> cii_title = trim (text_or_empty (get_prop body ''title'')), cii_impact = impact,
        cii_affectedServiceIds = services, cii_startedAt = startedAt,
        cii_summary = trim (text_or_empty (get_prop body ''summary'')),
        cii_idempotencyKey = text_or_empty (get_prop body ''idempotencyKey'') \<rparr>"
      using prems(4,5) parseServices_SomeD [OF prems(2)] date_texts(1) [OF prems(3)]
      by (auto simp: incident_input_ok_def started_at_invalid_def Suc_le_eq not_less)
    then show ?thesis using prems(6) by auto
  qed
  done

lemma notice_create_call:
  assumes "call \<in> set (snd (notice_create rpc who r body))"
  shows "\<exists>i. notice_input_ok i \<and> call = (''create_status_maintenance_v1'', Obj (maintenance_params i @ actorParams who))"
  using assms unfolding notice_create_def createStatusMaintenance_def Let_def early_returns
  apply (elim exE conjE)
  subgoal premises prems for services startsAt endsAt windowId
  proof -
    have "case windowId of None \<Rightarrow> True | Some w \<Rightarrow> UUID8_PATTERN w"
      using prems(4) by (auto dest: parseOptionalUuid_SomeD split: option.splits)
    then have "notice_input_ok \<lparr> cmi_title = trim (text_or_empty (get_prop body ''title'')),
        cmi_body = trim (text_or_empty (get_prop body ''body'')), cmi_affectedServiceIds = services,
        cmi_startsAt = startsAt, cmi_endsAt = endsAt, cmi_reliabilityWindowId = windowId,
        cmi_idempotencyKey = text_or_empty (get_prop body ''idempotencyKey'') \<rparr>"
      using prems(5,6) parseServices_SomeD [OF prems(1)] date_texts(1) [OF prems(2)] date_texts(1) [OF prems(3)]
      by (auto simp: notice_input_ok_def Suc_le_eq not_less not_le)
    then show ?thesis using prems(7) by auto
  qed
  done

lemma announcement_create_call:
  assumes "call \<in> set (snd (announcement_create rpc who r body))"
  shows "\<exists>i. announcement_input_ok i \<and>
     call = (''create_status_announcement_v1'', Obj (announcement_params i @ actorParams who))"
  using assms unfolding announcement_create_def createStatusAnnouncement_def Let_def early_returns
  apply (elim exE conjE)
  subgoal premises prems for kind services publishAt expiresAt
  proof -
    obtain t where t: "Date_parse publishAt = Some t" using date_texts(2) [OF prems(3)] by blast
    have "case services of None \<Rightarrow> True | Some ids \<Rightarrow> services_ok ids \<and> ids \<noteq> []"
      using prems(2) by (auto dest: parseOptionalServices_SomeD split: option.splits)
    moreover have "case expiresAt of None \<Rightarrow> True | Some e \<Rightarrow>
        (case Date_parse e of None \<Rightarrow> False | Some u \<Rightarrow> t < u)"
      using prems(4,6) t by (auto dest!: parseOptionalDateTime_SomeD split: option.splits)
    ultimately have "announcement_input_ok \<lparr> cai_kind = kind,
        cai_title = trim (text_or_empty (get_prop body ''title'')),
        cai_body = trim (text_or_empty (get_prop body ''body'')), cai_affectedServiceIds = services,
        cai_publishAt = publishAt, cai_expiresAt = expiresAt,
        cai_idempotencyKey = trim (text_or_empty (get_prop body ''idempotencyKey'')) \<rparr>"
      using prems(5) t by (auto simp: announcement_input_ok_def Suc_le_eq not_less)
    then show ?thesis using prems(7) by auto
  qed
  done

text \<open>The handlers make no other call than those.\<close>

lemma acknowledged_change_calls:
  "snd (acknowledged_change r body required completed failed pid m) =
     (if acknowledgement (get_prop body ''acknowledged'') then snd m else [])"
  by (simp add: acknowledged_change_def)

lemma at_most_one_call:
  "length (snd (incident_change rpc now r who body)) \<le> 1" "length (snd (notice_change rpc r who body)) \<le> 1"
  "length (snd (announcement_change rpc r who body)) \<le> 1"
  by (simp_all add: incident_change_def notice_change_def announcement_change_def incident_create_def
      incident_update_def notice_create_def announcement_create_def acknowledged_change_calls createStatusIncident_def
      publishStatusIncident_def updateStatusIncident_def createStatusMaintenance_def publishStatusMaintenance_def
      cancelStatusMaintenance_def createStatusAnnouncement_def publishStatusAnnouncement_def
      archiveStatusAnnouncement_def Let_def split: option.split)

lemma incident_change_call:
  assumes "call \<in> set (snd (incident_change rpc now r who body))"
  shows "incident_call now who body call"
proof (cases "get_prop body ''action'' = Str ''create''")
  case True
  with assms have "call \<in> set (snd (incident_create rpc who now r body))" by (simp add: incident_change_def)
  from incident_create_call [OF this] show ?thesis by (simp add: incident_call_def)
next
  case False
  let ?pid = "text_or_empty (get_prop body ''publicId'')"
  let ?rid = "text_or_empty (get_prop body ''requestId'')"
  from assms False have id: "identity_ok INC ?pid ?rid"
    and "call \<in> set (snd (acknowledged_change r body ''incident_publish_acknowledgement_required'' ''published''
           ''incident_publish_failed'' ?pid (publishStatusIncident rpc ?pid ?rid who))) \<or>
         call \<in> set (snd (incident_update rpc who r body ?pid ?rid))"
    by (auto simp: incident_change_def Let_def split: if_splits)
  then show ?thesis
  proof (elim disjE)
    assume "call \<in> set (snd (incident_update rpc who r body ?pid ?rid))"
    then obtain lifecycle where "trim (text_or_empty (get_prop body ''message'')) \<noteq> []"
      "length (trim (text_or_empty (get_prop body ''message''))) \<le> 2000"
      "lifecycle = ResolvedIncident \<longrightarrow> acknowledgement (get_prop body ''acknowledged'')"
      "call = (''append_status_incident_update_v1'', Obj (update_params ?pid lifecycle
          (trim (text_or_empty (get_prop body ''message''))) ?rid @ actorParams who))"
      by (auto simp: incident_update_def updateStatusIncident_def Let_def not_less split: option.splits if_splits)
    with id show ?thesis by (fastforce simp: incident_call_def Suc_le_eq)
  qed (use id in \<open>auto simp: acknowledged_change_calls incident_call_def identified_def publishStatusIncident_def
      split: if_splits\<close>)
qed

lemma notice_change_call:
  assumes "call \<in> set (snd (notice_change rpc r who body))"
  shows "notice_call who body call"
proof (cases "get_prop body ''action'' = Str ''create''")
  case True
  with assms have "call \<in> set (snd (notice_create rpc who r body))" by (simp add: notice_change_def)
  from notice_create_call [OF this] show ?thesis by (simp add: notice_call_def)
next
  case False
  with assms show ?thesis
    by (auto simp: notice_change_def acknowledged_change_calls notice_call_def identified_def
        publishStatusMaintenance_def cancelStatusMaintenance_def Let_def split: if_splits)
qed

lemma announcement_change_call:
  assumes "call \<in> set (snd (announcement_change rpc r who body))"
  shows "announcement_call who body call"
proof (cases "get_prop body ''action'' = Str ''create''")
  case True
  with assms have "call \<in> set (snd (announcement_create rpc who r body))" by (simp add: announcement_change_def)
  from announcement_create_call [OF this] show ?thesis by (simp add: announcement_call_def)
next
  case False
  with assms show ?thesis
    by (auto simp: announcement_change_def acknowledged_change_calls announcement_call_def identified_def
        publishStatusAnnouncement_def archiveStatusAnnouncement_def Let_def split: if_splits)
qed

text \<open>The guard: a change is applied for an administrator of the console's own origin.\<close>

lemma status_guard_call:
  assumes "call \<in> set (snd (status_guard s limit names sessionResult r change))"
  shows "\<exists>session role body. sessionResult = Some session \<and> same_origin r \<and> cs_status session = Authenticated \<and>
    cs_role session = Some role \<and> role \<in> {Administrator, Owner} \<and> status_body s limit names r = FormOk body \<and>
    status_guard s limit names sessionResult r change =
      change \<lparr> ac_email = cs_email session, ac_discordUserId = cs_discordUserId session, ac_role = role \<rparr> body"
proof -
  from assms obtain session role body where
    g: "sessionResult = Some session" "same_origin r" "administrator_of session = Some role"
      "status_body s limit names r = FormOk body"
    by (auto simp: status_guard_def split: if_splits option.splits body_result.splits)
  with administrator_of_SomeD [OF g(3)] show ?thesis by (simp add: status_guard_def)
qed

lemma single_call: "call \<in> set cs \<Longrightarrow> length cs \<le> 1 \<Longrightarrow> cs = [call]"
  by (cases cs) auto

definition session_actor :: "console_session \<Rightarrow> console_role \<Rightarrow> actor" where
  "session_actor session role =
     \<lparr> ac_email = cs_email session, ac_discordUserId = cs_discordUserId session, ac_role = role \<rparr>"

text \<open>The three routes together, with the body each reads and the calls each may make.\<close>

datatype status_route = IncidentsRoute | NoticesRoute | AnnouncementsRoute

definition status_center_post ::
  "status_route \<Rightarrow> form_services \<Rightarrow> status_rpc \<Rightarrow> console_session option \<Rightarrow> form_request \<Rightarrow> int \<Rightarrow> status_change" where
  "status_center_post route s rpc sessionResult r now =
     (case route of
        IncidentsRoute \<Rightarrow> incidents_post s rpc sessionResult r now
      | NoticesRoute \<Rightarrow> notices_post s rpc sessionResult r
      | AnnouncementsRoute \<Rightarrow> announcements_post s rpc sessionResult r)"

definition route_body :: "status_route \<Rightarrow> form_services \<Rightarrow> form_request \<Rightarrow> body_result" where
  "route_body route s r =
     (case route of
        IncidentsRoute \<Rightarrow> status_body s MAX_INCIDENT_BODY_BYTES INCIDENT_FIELDS r
      | NoticesRoute \<Rightarrow> status_body s MAX_NOTICE_BODY_BYTES NOTICE_FIELDS r
      | AnnouncementsRoute \<Rightarrow> status_body s MAX_NOTICE_BODY_BYTES ANNOUNCEMENT_FIELDS r)"

definition permitted_call :: "status_route \<Rightarrow> int \<Rightarrow> actor \<Rightarrow> jsval \<Rightarrow> rpc_call \<Rightarrow> bool" where
  "permitted_call route now who body call \<longleftrightarrow>
     (case route of
        IncidentsRoute \<Rightarrow> incident_call now who body call
      | NoticesRoute \<Rightarrow> notice_call who body call
      | AnnouncementsRoute \<Rightarrow> announcement_call who body call)"

text \<open>C8. A change of the public status centre comes from the console's own origin and from an authenticated
  administrator or owner, who is recorded with it, and makes exactly one database call. A created incident,
  notice or announcement has bounded texts, valid different services and a valid schedule; an incident, notice
  or announcement is only published, cancelled, archived or resolved when that was acknowledged, and is named
  by an identifier of its own kind.\<close>

theorem status_change_is_authorised:
  assumes "call \<in> set (snd (status_center_post route s rpc sessionResult r now))"
  shows "\<exists>session role body. sessionResult = Some session \<and> same_origin r \<and> cs_status session = Authenticated \<and>
    cs_role session = Some role \<and> role \<in> {Administrator, Owner} \<and> route_body route s r = FormOk body \<and>
    snd (status_center_post route s rpc sessionResult r now) = [call] \<and>
    permitted_call route now (session_actor session role) body call"
proof -
  define change where "change = (case route of IncidentsRoute \<Rightarrow> incident_change rpc now r
    | NoticesRoute \<Rightarrow> notice_change rpc r | AnnouncementsRoute \<Rightarrow> announcement_change rpc r)"
  obtain limit names where
    post: "status_center_post route s rpc sessionResult r now = status_guard s limit names sessionResult r change" and
    read: "route_body route s r = status_body s limit names r"
    by (cases route) (auto simp: status_center_post_def route_body_def change_def incidents_post_def
        notices_post_def announcements_post_def)
  from status_guard_call [OF assms [unfolded post]] obtain session role body where
    g: "sessionResult = Some session" "same_origin r" "cs_status session = Authenticated"
      "cs_role session = Some role" "role \<in> {Administrator, Owner}" "status_body s limit names r = FormOk body" and
    c: "status_guard s limit names sessionResult r change = change (session_actor session role) body"
    unfolding session_actor_def by metis
  have call: "call \<in> set (snd (change (session_actor session role) body))" using assms post c by simp
  have "length (snd (change who b)) \<le> 1" for who b
    by (cases route) (use at_most_one_call in \<open>simp_all add: change_def\<close>)
  then have "snd (change (session_actor session role) body) = [call]" using single_call [OF call] by blast
  moreover have "permitted_call route now (session_actor session role) body call"
    using call incident_change_call notice_change_call announcement_change_call
    by (cases route) (simp_all add: change_def permitted_call_def)
  ultimately show ?thesis using g c post read by auto
qed

definition sample_status_body :: "(string \<times> jsval) list" where
  "sample_status_body = [(''action'', Str ''publish''), (''publicId'', Str ''MNT-0123456789AB''),
     (''requestId'', Str ''00000000-0000-4000-8000-000000000000''), (''acknowledged'', Bool True)]"

definition sample_status_services :: form_services where
  "sample_status_services = sample_form_services \<lparr> fs_parse_json := (\<lambda>_. Some (Obj sample_status_body)) \<rparr>"

lemma sample_notice_published:
  "snd (status_center_post NoticesRoute sample_status_services (\<lambda>_ _. None) (Some sample_admin)
     sample_form_request 0) \<noteq> []"
proof -
  have admin: "administrator_of sample_admin = Some Administrator"
    by (simp add: administrator_of_def sample_admin_def plain_session_def hasConsoleRole_def role_rank_def)
  have origin: "same_origin sample_form_request"
    by (simp add: same_origin_def sample_form_request_def nonempty_def)
  have body: "status_body sample_status_services MAX_NOTICE_BODY_BYTES NOTICE_FIELDS sample_form_request =
      FormOk (Obj sample_status_body)"
    by (simp add: status_body_def status_body_text_def sample_status_services_def sample_form_services_def
        sample_form_request_def length_declared_too_large_def nonempty_def MAX_NOTICE_BODY_BYTES_def js_eval)
  have identity: "identity_ok MNT ''MNT-0123456789AB'' ''00000000-0000-4000-8000-000000000000''"
    by (simp add: identity_ok_def public_id_of_def prefix_text_def chars_between_def js_eval)
  show ?thesis
    by (simp add: status_center_post_def notices_post_def status_guard_def origin admin body notice_change_def
        sample_status_body_def prop_or_def text_or_empty_def identity acknowledged_change_calls acknowledgement_def
        publishStatusMaintenance_def Let_def)
qed

theorem status_change_is_authorised_witness:
  "\<exists>call. snd (status_center_post NoticesRoute sample_status_services (\<lambda>_ _. None) (Some sample_admin)
       sample_form_request 0) = [call] \<and> same_origin sample_form_request \<and> cs_status sample_admin = Authenticated"
proof -
  obtain call where "call \<in> set (snd (status_center_post NoticesRoute sample_status_services (\<lambda>_ _. None)
      (Some sample_admin) sample_form_request 0))"
    using sample_notice_published by (metis list.set_sel(1))
  from status_change_is_authorised [OF this] show ?thesis by blast
qed

text \<open>
  Two irregularities of the handlers. A date of a notice (or an incident) that carries a zone is only checked by
  the date parser, which lets a day beyond the end of its month move into the next one; the announcements refuse
  it. An expiry that is no text is read as if there were none, while other malformed fields are refused.
\<close>

lemma zoned_day_moves:
  "statusDateTime (Str ''2026-02-31T00:00Z'') = Some (iso_text 1772496000000)"
  "announcementDateTime (Str ''2026-02-31T00:00Z'') = None"
proof -
  have t: "trim ''2026-02-31T00:00Z'' = ''2026-02-31T00:00Z''" "has_zone ''2026-02-31T00:00Z''"
    "Date_parse ''2026-02-31T00:00Z'' = Some 1772496000000"
    by (simp_all add: has_zone_def sample_instants js_eval del: Date_parse_def)
  then show "statusDateTime (Str ''2026-02-31T00:00Z'') = Some (iso_text 1772496000000)"
    by (simp add: statusDateTime_def parseDateTime_def Date_toISOString_def max_time_def)
  have parts: "take_digits 4 ''2026-02-31T00:00Z'' = Some (2026, ''-02-31T00:00Z'')"
    "take_after CHR ''-'' ''-02-31T00:00Z'' = Some (2, ''-31T00:00Z'')"
    "take_after CHR ''-'' ''-31T00:00Z'' = Some (31, ''T00:00Z'')"
    "take_after CHR ''T'' ''T00:00Z'' = Some (0, '':00Z'')"
    "take_after CHR '':'' '':00Z'' = Some (0, ''Z'')"
    by (simp_all add: js_eval)
  have seconds: "offset_seconds ''Z'' = Some (0, ''Z'')"
    by (simp add: offset_seconds_def)
  have day: "Date_UTC 2026 2 31 0 0 = 1772496000000" "civil_from_days 20515 = (2026, 3, 3)"
    by code_simp+
  have "parseOffsetDateTime ''2026-02-31T00:00Z'' = None"
    by (simp add: parseOffsetDateTime_def parts seconds day)
  with t show "announcementDateTime (Str ''2026-02-31T00:00Z'') = None"
    by (simp add: announcementDateTime_def)
qed

lemma expiry_not_text_ignored: "parseOptionalDateTime (jint 1772496000000) = Some None"
  by (simp add: parseOptionalDateTime_def)

end
