(* ===== verification/StatusCenterPage.thy ===== *)
theory StatusCenterPage
  imports StatusRoutes MaintenanceForm
begin

text \<open>
  The page of the status centre (\<open>app/status-center/page.tsx\<close>): the lifecycles that it derives from times, its
  tones, its messages after a change, the items that it offers to change, the fields of its forms and its counts.
  Japanese texts, dates for display and markup are left out; a form is the list of the fields it submits.
\<close>

section \<open>Tones and lifecycles\<close>

datatype notice_lifecycle = DraftLifecycle | CancelledLifecycle | ScheduledLifecycle | InProgressLifecycle | CompletedLifecycle

datatype announcement_lifecycle =
    DraftAnnouncement | ArchivedAnnouncement | ScheduledAnnouncement | ExpiredAnnouncement | ActiveAnnouncement

definition publicationTone :: "string \<Rightarrow> console_tone" where
  "publicationTone state =
     (if state = ''published'' then SuccessUi
      else if state = ''cancelled'' \<or> state = ''archived'' then NeutralUi else WarningUi)"

definition impactTone :: "incident_impact \<Rightarrow> console_tone" where
  "impactTone impact =
     (if impact = CriticalImpact then DangerUi
      else if impact = MajorImpact \<or> impact = MinorImpact then WarningUi else NeutralUi)"

definition maintenanceLifecycle :: "status_maintenance \<Rightarrow> int \<Rightarrow> notice_lifecycle" where
  \<comment> \<open>for items whose times parse, as those of \<^const>\<open>parseStatusMaintenance\<close> do\<close>
  "maintenanceLifecycle item now =
     (if stm_publicationState item = DraftNotice then DraftLifecycle
      else if stm_publicationState item = CancelledNotice then CancelledLifecycle
      else if now < ms_of (stm_startsAt item) then ScheduledLifecycle
      else if now < ms_of (stm_endsAt item) then InProgressLifecycle else CompletedLifecycle)"

definition maintenanceLifecycleTone :: "notice_lifecycle \<Rightarrow> console_tone" where
  "maintenanceLifecycleTone state =
     (if state = InProgressLifecycle then WarningUi else if state = CompletedLifecycle then SuccessUi
      else if state = CancelledLifecycle then NeutralUi else if state = ScheduledLifecycle then InfoUi else WarningUi)"

definition announcementLifecycle :: "status_announcement \<Rightarrow> int \<Rightarrow> announcement_lifecycle" where
  "announcementLifecycle item now =
     (if sta_publicationState item = Draft then DraftAnnouncement
      else if sta_publicationState item = Archived then ArchivedAnnouncement
      else if now < ms_of (sta_publishAt item) then ScheduledAnnouncement
      else (case nonempty (sta_expiresAt item) of
              Some e \<Rightarrow> if ms_of e \<le> now then ExpiredAnnouncement else ActiveAnnouncement
            | None \<Rightarrow> ActiveAnnouncement))"

definition announcementLifecycleTone :: "announcement_lifecycle \<Rightarrow> console_tone" where
  "announcementLifecycleTone state =
     (if state = ActiveAnnouncement then SuccessUi else if state = ScheduledAnnouncement then InfoUi
      else if state = ExpiredAnnouncement \<or> state = ArchivedAnnouncement then NeutralUi else WarningUi)"

section \<open>Messages\<close>

datatype mutation_message = ChangeDone string | AcknowledgementMissing | InputInvalid | ChangeFailed

definition mutation_message :: "string list \<Rightarrow> string option \<Rightarrow> mutation_message option" where
  "mutation_message completed outcome =
     (case nonempty outcome of
        None \<Rightarrow> None
      | Some s \<Rightarrow>
          Some (if s \<in> set completed then ChangeDone s
            else if s = ''acknowledgement_required'' then AcknowledgementMissing
            else if ends_with ''_invalid'' s \<or> s = ''identity_invalid'' then InputInvalid else ChangeFailed))"

definition incidentMutationMessage :: "string option \<Rightarrow> mutation_message option" where
  "incidentMutationMessage = mutation_message [''created'', ''published'', ''updated'', ''resolved'']"

definition maintenanceMutationMessage :: "string option \<Rightarrow> mutation_message option" where
  "maintenanceMutationMessage = mutation_message [''created'', ''published'', ''cancelled'']"

definition announcementMutationMessage :: "string option \<Rightarrow> mutation_message option" where
  "announcementMutationMessage = mutation_message [''created'', ''published'', ''archived'']"

definition message_variant :: "mutation_message \<Rightarrow> string" where
  "message_variant m =
     (case m of ChangeDone _ \<Rightarrow> ''info'' | AcknowledgementMissing \<Rightarrow> ''warning'' | InputInvalid \<Rightarrow> ''warning''
      | ChangeFailed \<Rightarrow> ''error'')"

section \<open>Forms\<close>

type_synonym form_fields = "(string \<times> string) list"

definition jstDateTimeLocalAfter :: "int \<Rightarrow> int \<Rightarrow> string" where
  "jstDateTimeLocalAfter now minutes = take 16 (iso_text (now + minutes * 60000 + 9 * 3600000))"

definition IncidentCreateForm :: "int \<Rightarrow> string \<Rightarrow> string \<Rightarrow> string \<Rightarrow> form_fields" where
  \<comment> \<open>the proposed fields with a given title and summary\<close>
  "IncidentCreateForm now key title summary =
     [(''action'', ''create''), (''idempotencyKey'', key), (''title'', title), (''impact'', ''major''),
      (''startedAt'', jstDateTimeLocalAfter now 0), (''serviceIds'', ''minecraft-network''), (''summary'', summary)]"

definition MaintenanceCreateForm :: "int \<Rightarrow> string \<Rightarrow> string \<Rightarrow> string \<Rightarrow> form_fields" where
  "MaintenanceCreateForm now key title publicBody =
     [(''action'', ''create''), (''idempotencyKey'', key), (''title'', title),
      (''startsAt'', jstDateTimeLocalAfter now 60), (''endsAt'', jstDateTimeLocalAfter now 120),
      (''serviceIds'', ''minecraft-network''), (''body'', publicBody), (''reliabilityWindowId'', [])]"

definition AnnouncementCreateForm :: "int \<Rightarrow> string \<Rightarrow> string \<Rightarrow> string \<Rightarrow> form_fields" where
  "AnnouncementCreateForm now key title publicBody =
     [(''action'', ''create''), (''idempotencyKey'', key), (''kind'', ''info''),
      (''publishAt'', jstDateTimeLocalAfter now 15), (''title'', title), (''serviceIds'', []), (''body'', publicBody),
      (''expiresAt'', [])]"

definition lifecycle_choices :: "incident_lifecycle \<Rightarrow> incident_lifecycle list" where
  "lifecycle_choices s =
     (if s = Investigating then [Investigating] else []) @
     (if s = Investigating \<or> s = Identified then [Identified] else []) @ [MonitoringFix, ResolvedIncident]"

definition lifecycle_default :: "incident_lifecycle \<Rightarrow> incident_lifecycle" where
  "lifecycle_default s = (if s = Investigating then Identified else MonitoringFix)"

definition acknowledged_form :: "string \<Rightarrow> string \<Rightarrow> string \<Rightarrow> form_fields" where
  \<comment> \<open>publish, cancel and archive, with the box ticked\<close>
  "acknowledged_form action pid requestId =
     [(''action'', action), (''publicId'', pid), (''requestId'', requestId), (''acknowledged'', ''on'')]"

definition manageable_incidents :: "status_incident list \<Rightarrow> (status_incident \<times> string) list" where
  \<comment> \<open>with the action of the form\<close>
  "manageable_incidents incidents =
     map (\<lambda>i. (i, if sti_publicationState i = Draft then ''publish'' else ''update''))
       (filter (\<lambda>i. sti_publicationState i \<noteq> Archived \<and> sti_lifecycleStatus i \<noteq> ResolvedIncident) incidents)"

definition manageable_maintenance :: "int \<Rightarrow> status_maintenance list \<Rightarrow> (status_maintenance \<times> string) list" where
  "manageable_maintenance now items =
     map (\<lambda>m. (m, if stm_publicationState m = DraftNotice then ''publish'' else ''cancel''))
       (filter (\<lambda>m. stm_publicationState m = DraftNotice \<or>
          (stm_publicationState m = PublishedNotice \<and> ms_of (stm_startsAt m) > now)) items)"

definition manageable_announcements :: "status_announcement list \<Rightarrow> (status_announcement \<times> string) list" where
  "manageable_announcements items =
     map (\<lambda>a. (a, if sta_publicationState a = Draft then ''publish'' else ''archive''))
       (filter (\<lambda>a. sta_publicationState a \<noteq> Archived) items)"

section \<open>The page\<close>

record status_page =
  spg_messages :: "mutation_message option list"
  spg_canMutate :: bool
  spg_data :: "status_overview option"
  spg_activeIncidents :: nat
  spg_upcomingMaintenance :: nat
  spg_activeAnnouncements :: nat
  spg_drafts :: nat

definition StatusCenterPage ::
  "environment \<Rightarrow> console_session option \<Rightarrow> status_overview option \<Rightarrow> (string \<Rightarrow> query_param) \<Rightarrow> int \<Rightarrow> status_page" where
  \<comment> \<open>a session or an overview that cannot be read is \<open>None\<close>\<close>
  "StatusCenterPage env sessionResult overview query now =
     (let legacyEditorEnabled = (env ''IVRM_STATUS_LEGACY_EDITOR_ENABLED'' = Some ''true'');
          incidents = (case overview of None \<Rightarrow> [] | Some d \<Rightarrow> sto_incidents d);
          maintenance = (case overview of None \<Rightarrow> [] | Some d \<Rightarrow> sto_maintenance d);
          announcements = (case overview of None \<Rightarrow> [] | Some d \<Rightarrow> sto_announcements d)
      in \<lparr> spg_messages = [incidentMutationMessage (firstValue (query ''incidentMutation'')),
             maintenanceMutationMessage (firstValue (query ''maintenanceMutation'')),
             announcementMutationMessage (firstValue (query ''announcementMutation''))],
           spg_canMutate = (case sessionResult of None \<Rightarrow> False
             | Some session \<Rightarrow> legacyEditorEnabled \<and> hasConsoleRole session Administrator \<and>
                 cs_role session \<in> {Some Administrator, Some Owner}),
           spg_data = overview,
           spg_activeIncidents = length (filter (\<lambda>i. sti_publicationState i = Published \<and>
             sti_lifecycleStatus i \<noteq> ResolvedIncident) incidents),
           spg_upcomingMaintenance = length (filter (\<lambda>m. stm_publicationState m = PublishedNotice \<and>
             ms_of (stm_endsAt m) > now) maintenance),
           spg_activeAnnouncements = length (filter (\<lambda>a. sta_publicationState a = Published \<and>
             ms_of (sta_publishAt a) \<le> now \<and>
             (case nonempty (sta_expiresAt a) of None \<Rightarrow> True | Some e \<Rightarrow> ms_of e > now)) announcements),
           spg_drafts = length (filter (\<lambda>i. sti_publicationState i = Draft) incidents) +
             length (filter (\<lambda>m. stm_publicationState m = DraftNotice) maintenance) +
             length (filter (\<lambda>a. sta_publicationState a = Draft) announcements) \<rparr>)"

section \<open>Counts and lifecycles agree\<close>

lemma active_announcement_iff:
  "announcementLifecycle a now = ActiveAnnouncement \<longleftrightarrow>
    sta_publicationState a = Published \<and> ms_of (sta_publishAt a) \<le> now \<and>
    (case nonempty (sta_expiresAt a) of None \<Rightarrow> True | Some e \<Rightarrow> ms_of e > now)"
  by (cases "sta_publicationState a") (auto simp: announcementLifecycle_def split: option.split)

lemma maintenance_lifecycle_iff:
  "maintenanceLifecycle m now = DraftLifecycle \<longleftrightarrow> stm_publicationState m = DraftNotice"
  "maintenanceLifecycle m now = ScheduledLifecycle \<longleftrightarrow>
    stm_publicationState m = PublishedNotice \<and> now < ms_of (stm_startsAt m)"
  "maintenanceLifecycle m now = InProgressLifecycle \<longleftrightarrow>
    stm_publicationState m = PublishedNotice \<and> ms_of (stm_startsAt m) \<le> now \<and> now < ms_of (stm_endsAt m)"
  by (cases "stm_publicationState m"; auto simp: maintenanceLifecycle_def)+

text \<open>The counts at the top of the status page agree with the badges below them, although the page computes
  the two separately: as many announcements are counted as active as carry the badge of an active one, and, when
  no notice ends before it begins, as many maintenances are counted as upcoming as are scheduled or in progress.
  The notices that can be changed are the drafts and the scheduled ones.\<close>

theorem counts_agree_with_lifecycles:
  assumes "StatusCenterPage env session (Some d) query now = page"
    and "\<And>m. m \<in> set (sto_maintenance d) \<Longrightarrow> ms_of (stm_startsAt m) \<le> ms_of (stm_endsAt m)"
  shows "spg_activeAnnouncements page = length (filter (\<lambda>a. announcementLifecycle a now = ActiveAnnouncement) (sto_announcements d)) \<and>
    spg_upcomingMaintenance page = length (filter (\<lambda>m. maintenanceLifecycle m now \<in> {ScheduledLifecycle, InProgressLifecycle})
      (sto_maintenance d)) \<and>
    map fst (manageable_maintenance now (sto_maintenance d)) =
      filter (\<lambda>m. maintenanceLifecycle m now \<in> {DraftLifecycle, ScheduledLifecycle}) (sto_maintenance d)"
proof -
  have "(stm_publicationState m = PublishedNotice \<and> ms_of (stm_endsAt m) > now) =
      (maintenanceLifecycle m now \<in> {ScheduledLifecycle, InProgressLifecycle})" if "m \<in> set (sto_maintenance d)" for m
    using assms(2) [OF that] by (auto simp: maintenance_lifecycle_iff)
  then have "filter (\<lambda>m. stm_publicationState m = PublishedNotice \<and> ms_of (stm_endsAt m) > now) (sto_maintenance d) =
      filter (\<lambda>m. maintenanceLifecycle m now \<in> {ScheduledLifecycle, InProgressLifecycle}) (sto_maintenance d)"
    by (rule filter_cong [OF refl])
  then show ?thesis
    unfolding assms(1) [symmetric]
    by (simp add: StatusCenterPage_def Let_def active_announcement_iff maintenance_lifecycle_iff manageable_maintenance_def comp_def)
qed

theorem counts_agree_with_lifecycles_witness:
  "\<exists>d. length (sto_maintenance d) = 1 \<and>
     spg_upcomingMaintenance (StatusCenterPage Map.empty None (Some d) (\<lambda>_. Absent) 0) = 1 \<and>
     map fst (manageable_maintenance 0 (sto_maintenance d)) = sto_maintenance d"
proof -
  let ?m = "\<lparr> stm_publicId = ''MNT-0123456789AB'', stm_title = ''t'', stm_body = ''b'', stm_affectedServiceIds = [],
    stm_startsAt = ''2026-01-01T00:00:00Z'', stm_endsAt = ''2026-01-01T01:00:00Z'', stm_publicationState = PublishedNotice,
    stm_publishedAt = None, stm_cancelledAt = None, stm_reliabilityWindowId = None,
    stm_createdAt = ''2026-01-01T00:00:00Z'', stm_updatedAt = ''2026-01-01T00:00:00Z'' \<rparr>"
  let ?d = "\<lparr> sto_generatedAt = ''2026-01-01T00:00:00Z'', sto_incidents = [], sto_maintenance = [?m], sto_announcements = [] \<rparr>"
  have times: "ms_of ''2026-01-01T00:00:00Z'' = 1767225600000" "ms_of ''2026-01-01T01:00:00Z'' = 1767229200000"
    by (simp_all add: ms_of_def sample_instants)
  then have "maintenanceLifecycle ?m 0 = ScheduledLifecycle" by (simp add: maintenanceLifecycle_def)
  with counts_agree_with_lifecycles [OF refl, of ?d Map.empty None "\<lambda>_. Absent" 0] times
  have "spg_upcomingMaintenance (StatusCenterPage Map.empty None (Some ?d) (\<lambda>_. Absent) 0) = 1 \<and>
      map fst (manageable_maintenance 0 (sto_maintenance ?d)) = sto_maintenance ?d" by simp
  then show ?thesis by (intro exI [of _ ?d]) simp
qed

section \<open>What the forms submit is accepted\<close>

lemma jst_input: "jstDateTimeLocalAfter now minutes = localDateTimeInput (now + minutes * 60000)"
  by (simp add: jstDateTimeLocalAfter_def localDateTimeInput_def)

lemma proposed_time_read:
  assumes "0 \<le> now" "now < 230000000000000" "0 \<le> k" "k \<le> 120"
  shows "statusDateTime (Str (jstDateTimeLocalAfter now k)) = Some (iso_text (now - now mod 60000 + k * 60000))"
    and "ms_of (iso_text (now - now mod 60000 + k * 60000)) = now - now mod 60000 + k * 60000"
proof -
  have e: "(now + k * 60000) - (now + k * 60000) mod 60000 = now - now mod 60000 + k * 60000" by simp
  show "statusDateTime (Str (jstDateTimeLocalAfter now k)) = Some (iso_text (now - now mod 60000 + k * 60000))"
    unfolding jst_input statusDateTime_def e [symmetric] by (rule local_input_read) (use assms in linarith)+
  have "\<bar>now - now mod 60000 + k * 60000\<bar> \<le> max_time"
    using assms pos_mod_bound [of 60000 now] pos_mod_sign [of 60000 now] unfolding max_time_def by linarith
  then show "ms_of (iso_text (now - now mod 60000 + k * 60000)) = now - now mod 60000 + k * 60000"
    using Date_parse_iso_text ms_of_parse by blast
qed

lemma proposed_service: "parseServices (Str ''minecraft-network'') = Some [''minecraft-network'']"
  by (simp add: parseServices_def split_services_def SERVICE_ID_PATTERN_def js_eval)

lemma empty_fields: "parseOptionalUuid (Str []) = Some None"
  by (simp add: parseOptionalUuid_def)

lemma proposed_notice_is_created:
  assumes "UUID8_PATTERN key" and "1 \<le> length (trim title)" "length (trim title) \<le> 160"
    and "1 \<le> length (trim publicBody)" "length (trim publicBody) \<le> 4000" and "0 \<le> now" "now < 230000000000000"
  shows "snd (notice_change rpc r who (status_form NOTICE_FIELDS (MaintenanceCreateForm now key title publicBody))) =
    snd (createStatusMaintenance rpc \<lparr> cmi_title = trim title, cmi_body = trim publicBody,
      cmi_affectedServiceIds = [''minecraft-network''], cmi_startsAt = iso_text (now - now mod 60000 + 3600000),
      cmi_endsAt = iso_text (now - now mod 60000 + 7200000), cmi_reliabilityWindowId = None, cmi_idempotencyKey = key \<rparr> who)"
proof -
  let ?body = "status_form NOTICE_FIELDS (MaintenanceCreateForm now key title publicBody)"
  have fields: "get_prop ?body ''action'' = Str ''create''" "get_prop ?body ''title'' = Str title"
    "get_prop ?body ''body'' = Str publicBody" "get_prop ?body ''idempotencyKey'' = Str key"
    "get_prop ?body ''serviceIds'' = Str ''minecraft-network''" "get_prop ?body ''reliabilityWindowId'' = Str []"
    "get_prop ?body ''startsAt'' = Str (jstDateTimeLocalAfter now 60)"
    "get_prop ?body ''endsAt'' = Str (jstDateTimeLocalAfter now 120)"
    by (simp_all add: status_form_def NOTICE_FIELDS_def MaintenanceCreateForm_def prop_or_def or_null_def)
  have "trim title \<noteq> []" "trim publicBody \<noteq> []" using assms(2,4) by auto
  then show ?thesis
    using assms(1,3,5) proposed_time_read [of now 60] proposed_time_read [of now 120] assms(6,7)
    by (simp add: notice_change_def notice_create_def fields proposed_service empty_fields text_or_empty_def Let_def
        MAX_NOTICE_DURATION_MS_def status_answer_def)
qed

lemma offered_notice_change_is_made:
  assumes "(m, action) \<in> set (manageable_maintenance now items)" and "public_id_of MNT (stm_publicId m)" "UUID8_PATTERN requestId"
  shows "snd (notice_change rpc r who (status_form NOTICE_FIELDS (acknowledged_form action (stm_publicId m) requestId))) =
    snd (if stm_publicationState m = DraftNotice then publishStatusMaintenance rpc (stm_publicId m) requestId who
         else cancelStatusMaintenance rpc (stm_publicId m) requestId who)"
proof -
  define body where "body = status_form NOTICE_FIELDS (acknowledged_form action (stm_publicId m) requestId)"
  have fields: "get_prop body ''action'' = Str action" "get_prop body ''publicId'' = Str (stm_publicId m)"
    "get_prop body ''requestId'' = Str requestId" "get_prop body ''acknowledged'' = Bool True"
    by (simp_all add: body_def status_form_def NOTICE_FIELDS_def acknowledged_form_def prop_or_def or_null_def)
  have "action = (if stm_publicationState m = DraftNotice then ''publish'' else ''cancel'')"
    using assms(1) by (auto simp: manageable_maintenance_def)
  then show ?thesis
    using assms(2,3) unfolding body_def [symmetric]
    by (cases "stm_publicationState m = DraftNotice")
      (simp_all add: notice_change_def fields text_or_empty_def Let_def identity_ok_def acknowledged_change_def
        acknowledgement_def status_answer_def)
qed

text \<open>The states that an update can choose are the present one and those after it.\<close>

lemma lifecycle_choices_move_on:
  "s \<noteq> ResolvedIncident \<Longrightarrow> lifecycle_choices s = dropWhile (\<lambda>x. x \<noteq> s) LIFECYCLE \<and>
    lifecycle_default s \<in> set (lifecycle_choices s)"
  by (cases s) (simp_all add: lifecycle_default_def lifecycle_choices_def LIFECYCLE_def)

end
