(* ===== verification/OperationPanel.thy ===== *)
theory OperationPanel
  imports OperationRoutes ConsoleUi
begin

text \<open>
  The page of the operations (\<open>app/operations/page.tsx\<close>) and its panel
  (\<open>components/operation-lifecycle-panel.tsx\<close>). The panel is a state machine: typed confirmation phrases, one request
  at a time, a refresh of the jobs every three seconds while one is active. A step carries the request it posts. An
  answer that never comes leaves the panel pending. Japanese texts, dates and markup are left out.
\<close>

section \<open>The page\<close>

record action_config =
  ac_action :: operation_type
  ac_confirmationPhrase :: "string option"
  ac_requiredRole :: console_role
  ac_allowed :: bool





definition active_job :: "job_view \<Rightarrow> bool" where
  "active_job j \<longleftrightarrow> jv_status j \<in> {Queued, Leased, Running}"




section \<open>The panel\<close>

datatype panel_message = ConflictMessage | NotAccepted string | AcceptedMessage

record panel =
  pl_jobs :: "job_view list"
  pl_message :: "panel_message option"
  pl_confirmations :: "operation_type \<Rightarrow> string option"
  pl_pending :: "operation_type option"

record post_answer =
  pa_status :: nat
  pa_error :: "string option"


definition hasActiveJob :: "panel \<Rightarrow> bool" where
  "hasActiveJob p \<longleftrightarrow> list_ex active_job (pl_jobs p)"

definition refresh_jobs :: "job_view list option \<Rightarrow> panel \<Rightarrow> panel" where
  \<comment> \<open>\<open>None\<close>: the page is hidden, the answer is a refusal or it has no list of jobs\<close>
  "refresh_jobs listed p = (case listed of None \<Rightarrow> p | Some jobs \<Rightarrow> p \<lparr> pl_jobs := jobs \<rparr>)"

definition typed_phrase :: "panel \<Rightarrow> operation_type \<Rightarrow> string" where
  "typed_phrase p a = (case pl_confirmations p a of None \<Rightarrow> [] | Some s \<Rightarrow> s)"

definition locked :: "bool \<Rightarrow> panel \<Rightarrow> action_config \<Rightarrow> bool" where
  "locked requestsEnabled p config \<longleftrightarrow>
     \<not> requestsEnabled \<or> \<not> ac_allowed config \<or> pl_pending p \<noteq> None \<or> hasActiveJob p"

definition confirmationMatches :: "panel \<Rightarrow> action_config \<Rightarrow> bool" where
  "confirmationMatches p config \<longleftrightarrow>
     (case nonempty (ac_confirmationPhrase config) of None \<Rightarrow> True | Some phrase \<Rightarrow> pl_confirmations p (ac_action config) = Some phrase)"

definition button_disabled :: "bool \<Rightarrow> panel \<Rightarrow> action_config \<Rightarrow> bool" where
  "button_disabled requestsEnabled p config \<longleftrightarrow> locked requestsEnabled p config \<or> \<not> confirmationMatches p config"

definition type_phrase :: "action_config \<Rightarrow> string \<Rightarrow> panel \<Rightarrow> panel" where
  "type_phrase config s p = p \<lparr> pl_confirmations := (pl_confirmations p)(ac_action config \<mapsto> s) \<rparr>"

definition posted_body :: "panel \<Rightarrow> action_config \<Rightarrow> jsval" where
  "posted_body p config =
     Obj [(''target'', Str ''mc-main''), (''action'', Str (operation_text (ac_action config))),
       (''confirmation'', case nonempty (ac_confirmationPhrase config) of
          None \<Rightarrow> Null | Some _ \<Rightarrow> Str (typed_phrase p (ac_action config))),
       (''payload'', Obj [])]"

definition submit_start :: "action_config \<Rightarrow> panel \<Rightarrow> panel" where
  "submit_start config p = p \<lparr> pl_message := None, pl_pending := Some (ac_action config) \<rparr>"

definition submit_end :: "operation_type \<Rightarrow> post_answer \<Rightarrow> job_view list option \<Rightarrow> panel \<Rightarrow> panel" where
  \<comment> \<open>the answer and the refresh that follows it\<close>
  "submit_end action a listed p =
     refresh_jobs listed
       (if pa_status a < 200 \<or> 300 \<le> pa_status a
        then p \<lparr> pl_message := Some (if pa_status a = 409 then ConflictMessage
                 else NotAccepted (case pa_error a of Some e \<Rightarrow> e | None \<Rightarrow> nat_text (pa_status a))), pl_pending := None \<rparr>
        else p \<lparr> pl_message := Some AcceptedMessage, pl_pending := None,
                 pl_confirmations := (pl_confirmations p)(action \<mapsto> []) \<rparr>)"

inductive panel_step :: "action_config list \<Rightarrow> bool \<Rightarrow> panel \<Rightarrow> jsval option \<Rightarrow> panel \<Rightarrow> bool" for actions on where
  step_type: "config \<in> set actions \<Longrightarrow> nonempty (ac_confirmationPhrase config) \<noteq> None \<Longrightarrow> \<not> locked on p config \<Longrightarrow>
    panel_step actions on p None (type_phrase config s p)"
| step_submit: "config \<in> set actions \<Longrightarrow> \<not> button_disabled on p config \<Longrightarrow>
    panel_step actions on p (Some (posted_body p config)) (submit_start config p)"
| step_answer: "pl_pending p = Some action \<Longrightarrow> panel_step actions on p None (submit_end action a listed p)"
| step_tick: "hasActiveJob p \<Longrightarrow> panel_step actions on p None (refresh_jobs listed p)"

inductive_cases panel_stepE: "panel_step actions on p posted p'"

inductive panel_run :: "action_config list \<Rightarrow> bool \<Rightarrow> panel \<Rightarrow> jsval list \<Rightarrow> panel \<Rightarrow> bool" for actions on p where
  run_start: "panel_run actions on p [] p"
| run_quiet: "panel_run actions on p posts q \<Longrightarrow> panel_step actions on q None q' \<Longrightarrow> panel_run actions on p posts q'"
| run_post: "panel_run actions on p posts q \<Longrightarrow> panel_step actions on q (Some body) q' \<Longrightarrow>
    panel_run actions on p (posts @ [body]) q'"

section \<open>What the button promises\<close>











section \<open>Runs of the panel\<close>

definition confirmed_body :: "action_config list \<Rightarrow> jsval \<Rightarrow> bool" where
  "confirmed_body actions body \<longleftrightarrow>
     (\<exists>config \<in> set actions. ac_allowed config \<and> get_prop body ''action'' = Str (operation_text (ac_action config)) \<and>
        confirmed (nonempty (ac_confirmationPhrase config)) (get_prop body ''confirmation''))"

lemma posted_is_confirmed:
  "panel_step actions on p (Some body) q \<Longrightarrow> confirmed_body actions body \<and> pl_pending p = None \<and> \<not> hasActiveJob p \<and>
    pl_pending q \<noteq> None"
  by (erule panel_stepE)
    (auto simp: confirmed_body_def button_disabled_def locked_def posted_body_def prop_or_def confirmed_def
      confirmationMatches_def typed_phrase_def submit_start_def split: option.splits)

lemma runs_post_confirmed: "panel_run actions on p posts q \<Longrightarrow> list_all (confirmed_body actions) posts"
  by (induction rule: panel_run.induct) (auto dest: posted_is_confirmed)

text \<open>After an accepted request the phrase has to be typed again.\<close>

lemma typed_phrase_type: "typed_phrase (type_phrase config s p) a = (if a = ac_action config then s else typed_phrase p a)"
  by (simp add: typed_phrase_def type_phrase_def)

lemma step_keeps_cleared:
  assumes "panel_step actions on p posted q" and "typed_phrase p a = []" and "typed_phrase q a \<noteq> []"
  shows "\<exists>config \<in> set actions. ac_action config = a \<and> posted = None \<and> (\<exists>s. q = type_phrase config s p)"
proof (cases rule: panel_stepE [OF assms(1)])
  case (1 config s)
  with assms(2,3) show ?thesis by (auto simp: typed_phrase_type split: if_splits)
qed (use assms(2,3) in \<open>auto simp: typed_phrase_def submit_start_def submit_end_def refresh_jobs_def
  split: option.splits if_splits\<close>)

lemma accepted_clears: "200 \<le> pa_status a \<Longrightarrow> pa_status a < 300 \<Longrightarrow> typed_phrase (submit_end action a listed p) action = []"
  by (auto simp: submit_end_def refresh_jobs_def typed_phrase_def split: option.split)

end
