(* ===== verification/NotificationDispatch.thy ===== *)
theory NotificationDispatch
  imports Patterns
begin

text \<open>
  The dispatcher of notifications (\<open>supabase/functions/notification-dispatch/index.ts\<close>): a scheduled
  call that proves itself by a token claims two batches of rows, asks for each row whether it may still be
  delivered, posts it to the webhook and reports what became of it. Every call to the database and every
  post is an effect; the state threaded through the program is the list of the effects so far, and the answers
  of the database and of the webhook may depend on it.
\<close>

section \<open>Effects\<close>

datatype notification_source = HostSource | ContainerSource | BackupSource | ReliabilitySource | CloudSource

datatype notification_severity = InfoLevel | WarningLevel | CriticalLevel | RecoveryLevel

datatype legacy_transition = OpenedSignal | EscalatedSignal | RecoveredSignal | EventSignal

datatype delivery_event =
    IncidentPublished | IncidentUpdatePublished | IncidentResolved | MaintenancePublished | MaintenanceCancelled
  | AnnouncementPublished

datatype event_source = IncidentSource | MaintenanceSource | AnnouncementSource

record legacy_row =
  lr_id :: int
  lr_source :: notification_source
  lr_serverId :: string
  lr_entityName :: string
  lr_transition :: legacy_transition
  lr_severity :: notification_severity
  lr_title :: string
  lr_message :: string
  lr_detailHref :: string
  lr_occurredAt :: string
  lr_attempts :: int

record event_row =
  er_id :: int
  er_eventType :: delivery_event
  er_source :: event_source
  er_sourcePublicId :: string
  er_severity :: notification_severity
  er_title :: string
  er_message :: string
  er_detailHref :: string
  er_occurredAt :: string
  er_attempts :: int

datatype state_label = TransitionLabel legacy_transition | EventLabel delivery_event

datatype bot_name = MonitorBot | StatusBot

record discord_message =
  dm_username :: bot_name
  dm_allowedMentions :: "string list"
  dm_title :: string
  dm_description :: string
  dm_color :: int
  dm_url :: "string option"
  dm_state :: state_label
  dm_target :: string
  dm_server :: "string option"
  dm_attempt :: int
  dm_timestamp :: string

datatype effect = CallRpc string jsval | PostMessage string discord_message

type_synonym trace = "effect list"

datatype rpc_answer = RpcThrows | RpcAnswer jsval bool  \<comment> \<open>the data and whether there is an error\<close>

datatype post_answer = PostThrows | PostAnswer nat "jsval option"  \<comment> \<open>the status and the JSON body, if it is one\<close>

record dispatch_world =
  dw_rpc :: "trace \<Rightarrow> string \<Rightarrow> jsval \<Rightarrow> rpc_answer"
  dw_post :: "trace \<Rightarrow> string \<Rightarrow> discord_message \<Rightarrow> post_answer"
  dw_href :: "string \<Rightarrow> (string \<times> string) option"  \<comment> \<open>origin and text of \<open>new URL(href, CONSOLE_BASE_URL)\<close>\<close>

definition call_rpc :: "dispatch_world \<Rightarrow> string \<Rightarrow> jsval \<Rightarrow> trace \<Rightarrow> rpc_answer \<times> trace" where
  "call_rpc w name args t = (dw_rpc w t name args, t @ [CallRpc name args])"

definition postDiscord :: "dispatch_world \<Rightarrow> string \<Rightarrow> discord_message \<Rightarrow> trace \<Rightarrow> post_answer \<times> trace" where
  "postDiscord w webhook m t = (dw_post w t webhook m, t @ [PostMessage webhook m])"

section \<open>Messages\<close>

definition CONSOLE_BASE_URL :: string where
  "CONSOLE_BASE_URL = ''https://console.ivrm.jp''"

definition MAX_BATCH :: int where
  "MAX_BATCH = 10"

definition colorForSeverity :: "notification_severity \<Rightarrow> int" where
  "colorForSeverity s =
     (case s of CriticalLevel \<Rightarrow> 15548997 | WarningLevel \<Rightarrow> 16705372 | RecoveryLevel \<Rightarrow> 5763719
      | InfoLevel \<Rightarrow> 5793266)"

definition sourceLabel :: "notification_source \<Rightarrow> string" where
  "sourceLabel s =
     (case s of HostSource \<Rightarrow> ''HOST'' | ContainerSource \<Rightarrow> ''CONTAINER'' | BackupSource \<Rightarrow> ''BACKUP''
      | ReliabilitySource \<Rightarrow> ''SLO'' | CloudSource \<Rightarrow> ''CLOUD'')"

definition eventSourceLabel :: "event_source \<Rightarrow> string" where
  "eventSourceLabel s =
     (case s of IncidentSource \<Rightarrow> ''INCIDENT'' | MaintenanceSource \<Rightarrow> ''MAINTENANCE''
      | AnnouncementSource \<Rightarrow> ''ANNOUNCEMENT'')"

definition detailUrl :: "dispatch_world \<Rightarrow> string \<Rightarrow> string option" where
  "detailUrl w href =
     (if \<not> starts_with ''/'' href \<or> starts_with ''//'' href then None
      else (case dw_href w href of
              None \<Rightarrow> None
            | Some (origin, url) \<Rightarrow> if origin \<noteq> CONSOLE_BASE_URL then None else Some url))"

definition legacy_message :: "dispatch_world \<Rightarrow> legacy_row \<Rightarrow> discord_message" where
  "legacy_message w r =
     \<lparr> dm_username = MonitorBot, dm_allowedMentions = [], dm_title = take 256 (lr_title r),
       dm_description = take 4096 (lr_message r), dm_color = colorForSeverity (lr_severity r),
       dm_url = detailUrl w (lr_detailHref r), dm_state = TransitionLabel (lr_transition r),
       dm_target = take 1024 (sourceLabel (lr_source r) @ '' / '' @ lr_entityName r),
       dm_server = Some (take 1024 (lr_serverId r)), dm_attempt = lr_attempts r, dm_timestamp = lr_occurredAt r \<rparr>"

definition event_message :: "dispatch_world \<Rightarrow> event_row \<Rightarrow> discord_message" where
  "event_message w r =
     \<lparr> dm_username = StatusBot, dm_allowedMentions = [], dm_title = take 256 (er_title r),
       dm_description = take 4096 (er_message r), dm_color = colorForSeverity (er_severity r),
       dm_url = detailUrl w (er_detailHref r), dm_state = EventLabel (er_eventType r),
       dm_target = take 1024 (eventSourceLabel (er_source r) @ '' / '' @ er_sourcePublicId r),
       dm_server = None, dm_attempt = er_attempts r, dm_timestamp = er_occurredAt r \<rparr>"

section \<open>One delivery\<close>

datatype delivery_outcome = SentDelivery | FailedDelivery | SuppressedDelivery

text \<open>Both kinds of rows are delivered alike, by database functions of their own.\<close>

record delivery_functions =
  df_gate :: string
  df_suppress :: string
  df_complete :: string

definition LEGACY :: delivery_functions where
  "LEGACY = \<lparr> df_gate = ''notification_delivery_block_reason_v1'',
     df_suppress = ''suppress_notification_delivery_v1'', df_complete = ''complete_notification_delivery_v1'' \<rparr>"

definition EVENT :: delivery_functions where
  "EVENT = \<lparr> df_gate = ''notification_event_delivery_block_reason_v1'',
     df_suppress = ''suppress_notification_event_delivery_v1'',
     df_complete = ''complete_notification_event_delivery_v1'' \<rparr>"

definition row_args :: "int \<Rightarrow> string \<Rightarrow> (string \<times> jsval) list" where
  "row_args rowId claimToken = [(''p_id'', jint rowId), (''p_claim_token'', Str claimToken)]"

definition complete_args :: "int \<Rightarrow> string \<Rightarrow> bool \<Rightarrow> nat option \<Rightarrow> string option \<Rightarrow> string option \<Rightarrow> jsval" where
  "complete_args rowId claimToken success status externalId err =
     (let text = (\<lambda>v. case v of None \<Rightarrow> Null | Some s \<Rightarrow> Str s)
      in Obj (row_args rowId claimToken @
           [(''p_success'', Bool success),
            (''p_http_status'', case status of None \<Rightarrow> Null | Some n \<Rightarrow> jint (int n)),
            (''p_external_delivery_id'', text externalId), (''p_error_code'', text err)]))"

definition responseExternalId :: "jsval option \<Rightarrow> string option" where
  "responseExternalId body =
     (case body of
        Some (Obj fs) \<Rightarrow> string_at_most 128 (prop_or fs ''id'')
      | _ \<Rightarrow> None)"

definition block_reason :: "jsval \<Rightarrow> bool \<Rightarrow> string option" where
  \<comment> \<open>why the row is not delivered; \<open>None\<close> clears it\<close>
  "block_reason answer err =
     (if err then Some ''delivery_gate_failed''
      else (case answer of Str s \<Rightarrow> if s = [] then None else Some (take 256 s) | _ \<Rightarrow> None))"

definition row_error ::
  "dispatch_world \<Rightarrow> delivery_functions \<Rightarrow> string \<Rightarrow> int \<Rightarrow> trace \<Rightarrow> delivery_outcome option \<times> trace" where
  \<comment> \<open>the \<open>catch\<close> block; \<open>None\<close> is an exception of its own\<close>
  "row_error w f claimToken rowId t =
     (case call_rpc w (df_complete f) (complete_args rowId claimToken False None None (Some ''dispatcher_row_error'')) t of
        (RpcThrows, t') \<Rightarrow> (None, t')
      | (RpcAnswer _ _, t') \<Rightarrow> (Some FailedDelivery, t'))"

definition suppress_row ::
  "dispatch_world \<Rightarrow> delivery_functions \<Rightarrow> string \<Rightarrow> int \<Rightarrow> string \<Rightarrow> trace \<Rightarrow> delivery_outcome option \<times> trace" where
  "suppress_row w f claimToken rowId reason t =
     (case call_rpc w (df_suppress f) (Obj (row_args rowId claimToken @ [(''p_reason'', Str reason)])) t of
        (RpcThrows, t') \<Rightarrow> row_error w f claimToken rowId t'
      | (RpcAnswer _ err, t') \<Rightarrow> (Some (if err then FailedDelivery else SuppressedDelivery), t'))"

definition http_error :: "nat \<Rightarrow> string" where
  "http_error status = ''discord_http_'' @ nat_text status"

definition post_row ::
  "dispatch_world \<Rightarrow> delivery_functions \<Rightarrow> string \<Rightarrow> string \<Rightarrow> int \<Rightarrow> discord_message \<Rightarrow> trace \<Rightarrow>
   delivery_outcome option \<times> trace" where
  "post_row w f webhook claimToken rowId m t =
     (case postDiscord w webhook m t of
        (PostThrows, t') \<Rightarrow> row_error w f claimToken rowId t'
      | (PostAnswer status body, t') \<Rightarrow>
          if status < 200 \<or> 299 < status
          then (case call_rpc w (df_complete f)
                  (complete_args rowId claimToken False (Some status) None (Some (http_error status))) t' of
                  (RpcThrows, t2) \<Rightarrow> row_error w f claimToken rowId t2
                | (RpcAnswer _ _, t2) \<Rightarrow> (Some FailedDelivery, t2))
          else (case call_rpc w (df_complete f)
                  (complete_args rowId claimToken True (Some status) (responseExternalId body) None) t' of
                  (RpcThrows, t2) \<Rightarrow> row_error w f claimToken rowId t2
                | (RpcAnswer _ err, t2) \<Rightarrow> (Some (if err then FailedDelivery else SentDelivery), t2)))"

definition deliver ::
  "dispatch_world \<Rightarrow> delivery_functions \<Rightarrow> string \<Rightarrow> string \<Rightarrow> int \<Rightarrow> discord_message \<Rightarrow> trace \<Rightarrow>
   delivery_outcome option \<times> trace" where
  "deliver w f webhook claimToken rowId m t =
     (case call_rpc w (df_gate f) (Obj (row_args rowId claimToken)) t of
        (RpcThrows, t') \<Rightarrow> row_error w f claimToken rowId t'
      | (RpcAnswer answer err, t') \<Rightarrow>
          (case block_reason answer err of
             Some reason \<Rightarrow> suppress_row w f claimToken rowId reason t'
           | None \<Rightarrow> post_row w f webhook claimToken rowId m t'))"

definition deliverLegacyRow ::
  "dispatch_world \<Rightarrow> string \<Rightarrow> string \<Rightarrow> legacy_row \<Rightarrow> trace \<Rightarrow> delivery_outcome option \<times> trace" where
  "deliverLegacyRow w webhook claimToken r = deliver w LEGACY webhook claimToken (lr_id r) (legacy_message w r)"

definition deliverEventRow ::
  "dispatch_world \<Rightarrow> string \<Rightarrow> string \<Rightarrow> event_row \<Rightarrow> trace \<Rightarrow> delivery_outcome option \<times> trace" where
  "deliverEventRow w webhook claimToken r = deliver w EVENT webhook claimToken (er_id r) (event_message w r)"

section \<open>The dispatcher\<close>

record counters =
  ct_sent :: nat
  ct_failed :: nat
  ct_suppressed :: nat
  ct_claimFailures :: nat
  ct_claimed :: nat

definition count_outcome :: "delivery_outcome \<Rightarrow> counters \<Rightarrow> counters" where
  "count_outcome outcome c =
     (case outcome of
        SentDelivery \<Rightarrow> c \<lparr> ct_sent := ct_sent c + 1 \<rparr>
      | SuppressedDelivery \<Rightarrow> c \<lparr> ct_suppressed := ct_suppressed c + 1 \<rparr>
      | FailedDelivery \<Rightarrow> c \<lparr> ct_failed := ct_failed c + 1 \<rparr>)"

fun deliver_all ::
  "('r \<Rightarrow> trace \<Rightarrow> delivery_outcome option \<times> trace) \<Rightarrow> 'r list \<Rightarrow> counters \<Rightarrow> trace \<Rightarrow> counters option \<times> trace" where
  \<comment> \<open>the loop over the claimed rows\<close>
  "deliver_all f [] c t = (Some c, t)"
| "deliver_all f (r # rs) c t =
     (case f r t of
        (None, t') \<Rightarrow> (None, t')
      | (Some outcome, t') \<Rightarrow> deliver_all f rs (count_outcome outcome c) t')"

definition claim_batch ::
  "dispatch_world \<Rightarrow> (jsval \<Rightarrow> 'r list) \<Rightarrow> ('r \<Rightarrow> trace \<Rightarrow> delivery_outcome option \<times> trace) \<Rightarrow> string \<Rightarrow> jsval \<Rightarrow>
   counters \<Rightarrow> trace \<Rightarrow> counters option \<times> trace" where
  \<comment> \<open>\<open>rows_of\<close> reads the claimed rows as the database typed them, and no row when the answer is no array\<close>
  "claim_batch w rows_of f name args c t =
     (case call_rpc w name args t of
        (RpcThrows, t') \<Rightarrow> (None, t')
      | (RpcAnswer answer err, t') \<Rightarrow>
          if err then (Some (c \<lparr> ct_claimFailures := ct_claimFailures c + 1 \<rparr>), t')
          else deliver_all f (rows_of answer) (c \<lparr> ct_claimed := ct_claimed c + length (rows_of answer) \<rparr>) t')"

datatype dispatch_reply =
    DispatchRefused nat string
  | Dispatched bool counters

definition START :: counters where
  "START = \<lparr> ct_sent = 0, ct_failed = 0, ct_suppressed = 0, ct_claimFailures = 0, ct_claimed = 0 \<rparr>"

definition dispatch_succeeded :: "counters \<Rightarrow> bool" where
  "dispatch_succeeded c \<longleftrightarrow> ct_failed c = 0 \<and> ct_claimFailures c = 0"

definition mark_dispatch :: "dispatch_world \<Rightarrow> counters \<Rightarrow> trace \<Rightarrow> dispatch_reply option \<times> trace" where
  "mark_dispatch w c t =
     (case call_rpc w ''mark_notification_dispatch_v1''
        (Obj [(''p_success'', Bool (dispatch_succeeded c)), (''p_batch_count'', jint (int (ct_claimed c))),
          (''p_error_code'', if dispatch_succeeded c then Null
            else if ct_claimFailures c > 0 then Str ''partial_claim_failure'' else Str ''partial_delivery_failure'')]) t of
        (RpcThrows, t') \<Rightarrow> (None, t')
      | (RpcAnswer _ _, t') \<Rightarrow> (Some (Dispatched (dispatch_succeeded c) c), t'))"

record dispatch_rows =
  dr_legacy :: "jsval \<Rightarrow> legacy_row list"
  dr_event :: "jsval \<Rightarrow> event_row list"

definition run_dispatch ::
  "dispatch_world \<Rightarrow> dispatch_rows \<Rightarrow> string \<Rightarrow> string \<Rightarrow> string \<Rightarrow> trace \<Rightarrow> dispatch_reply option \<times> trace" where
  \<comment> \<open>from the webhook on, with the two fresh claim tokens\<close>
  "run_dispatch w rows webhook legacyToken eventToken t =
     (case claim_batch w (dr_legacy rows) (deliverLegacyRow w webhook legacyToken) ''claim_notification_outbox_v1''
        (Obj [(''p_claim_token'', Str legacyToken), (''p_limit'', jint MAX_BATCH)]) START t of
        (None, t1) \<Rightarrow> (None, t1)
      | (Some c1, t1) \<Rightarrow>
          (case claim_batch w (dr_event rows) (deliverEventRow w webhook eventToken) ''claim_notification_deliveries_v1''
             (Obj [(''p_provider_type'', Str ''discord''), (''p_claim_token'', Str eventToken),
               (''p_limit'', jint MAX_BATCH)]) c1 t1 of
             (None, t2) \<Rightarrow> (None, t2)
           | (Some c2, t2) \<Rightarrow> mark_dispatch w c2 t2))"

record parsed_webhook =
  pw_protocol :: string
  pw_hostname :: string
  pw_pathname :: string
  pw_href :: string  \<comment> \<open>the text of the URL once \<open>wait=true\<close> is set\<close>

definition webhook_path :: "string \<Rightarrow> bool" where
  \<comment> \<open>\<open>/^\/api\/webhooks\/[0-9]+\/[^/]+\/?$/\<close>\<close>
  "webhook_path p \<longleftrightarrow>
     (case split_on CHR ''/'' p of
        [a, b, c, d, e] \<Rightarrow> a = [] \<and> b = ''api'' \<and> c = ''webhooks'' \<and> d \<noteq> [] \<and> list_all is_digit d \<and> e \<noteq> []
      | [a, b, c, d, e, f] \<Rightarrow> a = [] \<and> b = ''api'' \<and> c = ''webhooks'' \<and> d \<noteq> [] \<and> list_all is_digit d \<and> e \<noteq> [] \<and> f = []
      | _ \<Rightarrow> False)"

definition discordWebhookUrl :: "(string \<Rightarrow> parsed_webhook option) \<Rightarrow> string \<Rightarrow> string option" where
  "discordWebhookUrl parse raw =
     (case parse raw of
        None \<Rightarrow> None
      | Some url \<Rightarrow>
          if pw_protocol url \<noteq> ''https:'' then None
          else if pw_hostname url \<noteq> ''discord.com'' \<and> pw_hostname url \<noteq> ''discordapp.com'' then None
          else if \<not> webhook_path (pw_pathname url) then None
          else Some (pw_href url))"

record dispatch_runtime =
  dn_env :: "string \<Rightarrow> string option"
  dn_sha256_hex :: "string \<Rightarrow> string"
  dn_parse_url :: "string \<Rightarrow> parsed_webhook option"

definition env_text :: "dispatch_runtime \<Rightarrow> string \<Rightarrow> string option" where
  "env_text n name = nonempty (map_option trim (dn_env n name))"

definition VERIFY :: string where
  "VERIFY = ''verify_notification_dispatch_token_v1''"

definition token_args :: "dispatch_runtime \<Rightarrow> string \<Rightarrow> jsval" where
  "token_args n token = Obj [(''p_token_sha256'', Str (dn_sha256_hex n token))]"

definition dispatch_verified ::
  "dispatch_world \<Rightarrow> dispatch_rows \<Rightarrow> dispatch_runtime \<Rightarrow> string \<Rightarrow> string \<Rightarrow> trace \<Rightarrow> dispatch_reply option \<times> trace" where
  "dispatch_verified w rows n legacyToken eventToken t =
     (case discordWebhookUrl (dn_parse_url n) (case map_option trim (dn_env n ''DISCORD_WEBHOOK_URL'') of
             None \<Rightarrow> [] | Some raw \<Rightarrow> raw) of
        None \<Rightarrow>
          (case call_rpc w ''mark_notification_dispatch_v1''
             (Obj [(''p_success'', Bool False), (''p_batch_count'', jint 0),
               (''p_error_code'', Str ''channel_unconfigured'')]) t of
             (RpcThrows, t') \<Rightarrow> (None, t')
           | (RpcAnswer _ _, t') \<Rightarrow> (Some (DispatchRefused 503 ''channel_unconfigured''), t'))
      | Some webhook \<Rightarrow> run_dispatch w rows webhook legacyToken eventToken t)"

definition dispatch_serve ::
  "dispatch_world \<Rightarrow> dispatch_rows \<Rightarrow> dispatch_runtime \<Rightarrow> string \<Rightarrow> string option \<Rightarrow> string \<Rightarrow> string \<Rightarrow>
   dispatch_reply option \<times> trace" where
  \<comment> \<open>the method and the token header of the request; the outer \<open>None\<close> is an exception that escapes\<close>
  "dispatch_serve w rows n httpMethod tokenHeader legacyToken eventToken =
     (if httpMethod \<noteq> ''POST'' then (Some (DispatchRefused 405 ''method_not_allowed''), [])
      else if env_text n ''SUPABASE_URL'' = None \<or> env_text n ''SUPABASE_SERVICE_ROLE_KEY'' = None
      then (Some (DispatchRefused 500 ''runtime_configuration_missing''), [])
      else (case map_option trim tokenHeader of
              None \<Rightarrow> (Some (DispatchRefused 401 ''unauthorized''), [])
            | Some token \<Rightarrow>
                if length token < 32 \<or> length token > 256 then (Some (DispatchRefused 401 ''unauthorized''), [])
                else (case call_rpc w VERIFY (token_args n token) [] of
                        (RpcThrows, t) \<Rightarrow> (None, t)
                      | (RpcAnswer verified err, t) \<Rightarrow>
                          if err \<or> verified \<noteq> Bool True then (Some (DispatchRefused 401 ''unauthorized''), t)
                          else dispatch_verified w rows n legacyToken eventToken t)))"

section \<open>What may be posted\<close>

text \<open>
  \<open>own\<close> says of a trace that a row of a kind, with an identifier and a claim token, is the one a message is made
  from. A post is cleared when the last effect asked the gate about the row of its own message and the answer
  was that nothing blocks it.
\<close>

type_synonym ownership = "trace \<Rightarrow> delivery_functions \<Rightarrow> int \<Rightarrow> string \<Rightarrow> discord_message \<Rightarrow> bool"

definition cleared :: "dispatch_world \<Rightarrow> ownership \<Rightarrow> discord_message \<Rightarrow> trace \<Rightarrow> bool" where
  "cleared w own m t \<longleftrightarrow>
     (\<exists>f rowId claimToken before answer. own before f rowId claimToken m \<and>
        t = before @ [CallRpc (df_gate f) (Obj (row_args rowId claimToken))] \<and>
        dw_rpc w before (df_gate f) (Obj (row_args rowId claimToken)) = RpcAnswer answer False \<and>
        block_reason answer False = None)"

definition claimed_row ::
  "dispatch_world \<Rightarrow> (jsval \<Rightarrow> 'r list) \<Rightarrow> string \<Rightarrow> jsval \<Rightarrow> 'r \<Rightarrow> trace \<Rightarrow> bool" where
  \<comment> \<open>the call claimed the row earlier in the trace\<close>
  "claimed_row w rows_of name args r t \<longleftrightarrow>
     (\<exists>u v answer. t = u @ CallRpc name args # v \<and> dw_rpc w u name args = RpcAnswer answer False \<and>
        r \<in> set (rows_of answer))"

definition own_row :: "dispatch_world \<Rightarrow> dispatch_rows \<Rightarrow> string \<Rightarrow> string \<Rightarrow> ownership" where
  \<comment> \<open>a row claimed under the run's token, of either kind, and the message made from it\<close>
  "own_row w rows legacyToken eventToken t f rowId claimToken m \<longleftrightarrow>
     (f = LEGACY \<and> claimToken = legacyToken \<and>
        (\<exists>r. claimed_row w (dr_legacy rows) ''claim_notification_outbox_v1''
               (Obj [(''p_claim_token'', Str legacyToken), (''p_limit'', jint MAX_BATCH)]) r t \<and>
             rowId = lr_id r \<and> m = legacy_message w r)) \<or>
     (f = EVENT \<and> claimToken = eventToken \<and>
        (\<exists>r. claimed_row w (dr_event rows) ''claim_notification_deliveries_v1''
               (Obj [(''p_provider_type'', Str ''discord''), (''p_claim_token'', Str eventToken),
                 (''p_limit'', jint MAX_BATCH)]) r t \<and>
             rowId = er_id r \<and> m = event_message w r))"

definition posts_cleared :: "dispatch_world \<Rightarrow> ownership \<Rightarrow> string \<Rightarrow> trace \<Rightarrow> bool" where
  "posts_cleared w own webhook t \<longleftrightarrow>
     (\<forall>before x m rest. t = before @ PostMessage x m # rest \<longrightarrow>
        x = webhook \<and> dm_allowedMentions m = [] \<and> cleared w own m before)"

definition posts :: "trace \<Rightarrow> nat" where
  "posts t = length (filter (\<lambda>e. case e of PostMessage _ _ \<Rightarrow> True | CallRpc _ _ \<Rightarrow> False) t)"

lemma posts_append [simp]:
  "posts [] = 0" "posts (t @ [CallRpc name args]) = posts t" "posts (t @ [PostMessage x m]) = Suc (posts t)"
  by (simp_all add: posts_def)

lemma append_last_split:
  "t @ [e] = before @ x # rest \<longleftrightarrow> (rest = [] \<and> before = t \<and> x = e) \<or> (\<exists>r. rest = r @ [e] \<and> t = before @ x # r)"
  by (cases rest rule: rev_cases) auto

lemma posts_cleared_rpc: "posts_cleared w own webhook t \<Longrightarrow> posts_cleared w own webhook (t @ [CallRpc name args])"
  by (auto simp: posts_cleared_def append_last_split)

lemma posts_cleared_post:
  "posts_cleared w own webhook t \<Longrightarrow> cleared w own m t \<Longrightarrow> dm_allowedMentions m = [] \<Longrightarrow>
     posts_cleared w own webhook (t @ [PostMessage webhook m])"
  by (auto simp: posts_cleared_def append_last_split)

lemma posts_cleared_Nil [simp]: "posts_cleared w own webhook []"
  by (simp add: posts_cleared_def)

text \<open>
  What a step adds to the trace: it keeps the posts cleared, it posts nothing for a suppressed row, exactly once
  for a sent one and at most once for a failed one.
\<close>

definition posts_for :: "delivery_outcome option \<Rightarrow> nat \<Rightarrow> bool" where
  "posts_for outcome k \<longleftrightarrow>
     (case outcome of
        Some SentDelivery \<Rightarrow> k = 1
      | Some SuppressedDelivery \<Rightarrow> k = 0
      | _ \<Rightarrow> k \<le> 1)"

definition good_step ::
  "dispatch_world \<Rightarrow> ownership \<Rightarrow> string \<Rightarrow> trace \<Rightarrow> delivery_outcome option \<times> trace \<Rightarrow> bool" where
  "good_step w own webhook t result \<longleftrightarrow>
     (\<exists>u. snd result = t @ u) \<and> posts t \<le> posts (snd result) \<and> posts_for (fst result) (posts (snd result) - posts t) \<and>
     (posts_cleared w own webhook t \<longrightarrow> posts_cleared w own webhook (snd result))"

lemmas step_defs = good_step_def posts_for_def call_rpc_def

lemma row_error_step:
  assumes "\<exists>u. s = t @ u" "posts t \<le> posts s" "posts s \<le> Suc (posts t)"
    and "posts_cleared w own webhook t \<Longrightarrow> posts_cleared w own webhook s"
  shows "good_step w own webhook t (row_error w f claimToken rowId s)"
  using assms
  by (auto simp: row_error_def step_defs split: rpc_answer.split intro: posts_cleared_rpc)

lemma suppress_row_step:
  assumes "\<exists>u. s = t @ u" "posts s = posts t"
    and "posts_cleared w own webhook t \<Longrightarrow> posts_cleared w own webhook s"
  shows "good_step w own webhook t (suppress_row w f claimToken rowId reason s)"
proof -
  have "good_step w own webhook t (row_error w f claimToken rowId (s @ [CallRpc name args]))" for name args
    by (rule row_error_step) (use assms in \<open>auto intro: posts_cleared_rpc\<close>)
  then show ?thesis
    using assms by (auto simp: suppress_row_def step_defs split: rpc_answer.split intro: posts_cleared_rpc)
qed

lemma complete_step:
  assumes p: "\<exists>u. s = t @ u" "posts s = Suc (posts t)"
      "posts_cleared w own webhook t \<Longrightarrow> posts_cleared w own webhook s"
    and g: "\<And>err. g err = SentDelivery \<or> g err = FailedDelivery"
  shows "good_step w own webhook t
    (case call_rpc w name args s of
       (RpcThrows, t2) \<Rightarrow> row_error w f claimToken rowId t2
     | (RpcAnswer x err, t2) \<Rightarrow> (Some (g err), t2))"
proof (cases "dw_rpc w s name args")
  case RpcThrows
  have "good_step w own webhook t (row_error w f claimToken rowId (s @ [CallRpc name args]))"
    by (rule row_error_step) (use p in \<open>auto intro: posts_cleared_rpc\<close>)
  with RpcThrows show ?thesis by (simp add: call_rpc_def)
next
  case (RpcAnswer x err)
  with p g [of err] show ?thesis
    by (auto simp: step_defs intro: posts_cleared_rpc)
qed

lemma post_row_step:
  assumes "\<exists>u. s = t @ u" "posts s = posts t"
    and "posts_cleared w own webhook t \<Longrightarrow> posts_cleared w own webhook s" "cleared w own m s"
    and "dm_allowedMentions m = []"
  shows "good_step w own webhook t (post_row w f webhook claimToken rowId m s)"
proof -
  let ?p = "s @ [PostMessage webhook m]"
  have p: "\<exists>u. ?p = t @ u" "posts ?p = Suc (posts t)" "posts_cleared w own webhook t \<Longrightarrow> posts_cleared w own webhook ?p"
    using assms posts_cleared_post by auto
  show ?thesis
  proof (cases "dw_post w s webhook m")
    case PostThrows
    have "good_step w own webhook t (row_error w f claimToken rowId ?p)"
      by (rule row_error_step) (use p in auto)
    with PostThrows show ?thesis by (simp add: post_row_def postDiscord_def)
  next
    case (PostAnswer status body)
    have "good_step w own webhook t (case call_rpc w (df_complete f)
        (complete_args rowId claimToken False (Some status) None (Some (http_error status))) ?p of
          (RpcThrows, t2) \<Rightarrow> row_error w f claimToken rowId t2
        | (RpcAnswer _ _, t2) \<Rightarrow> (Some FailedDelivery, t2))"
      by (rule complete_step [OF p, where g = "\<lambda>_. FailedDelivery"]) simp_all
    moreover have "good_step w own webhook t (case call_rpc w (df_complete f)
        (complete_args rowId claimToken True (Some status) (responseExternalId body) None) ?p of
          (RpcThrows, t2) \<Rightarrow> row_error w f claimToken rowId t2
        | (RpcAnswer _ err, t2) \<Rightarrow> (Some (if err then FailedDelivery else SentDelivery), t2))"
      by (rule complete_step [OF p, where g = "\<lambda>err. if err then FailedDelivery else SentDelivery"]) simp_all
    ultimately show ?thesis using PostAnswer by (simp add: post_row_def postDiscord_def)
  qed
qed

lemma deliver_step:
  assumes own: "own t f rowId claimToken m" and m: "dm_allowedMentions m = []"
  shows "good_step w own webhook t (deliver w f webhook claimToken rowId m t)"
proof -
  let ?args = "Obj (row_args rowId claimToken)"
  let ?s = "t @ [CallRpc (df_gate f) ?args]"
  have s: "\<exists>u. ?s = t @ u" "posts ?s = posts t" "posts_cleared w own webhook t \<Longrightarrow> posts_cleared w own webhook ?s"
    by (auto intro: posts_cleared_rpc)
  show ?thesis
  proof (cases "dw_rpc w t (df_gate f) ?args")
    case RpcThrows
    then show ?thesis
      using row_error_step [OF s(1) _ _ s(3)] by (simp add: deliver_def call_rpc_def)
  next
    case (RpcAnswer answer err)
    show ?thesis
    proof (cases "block_reason answer err")
      case None
      then have "\<not> err" by (auto simp: block_reason_def split: if_splits)
      then have "cleared w own m ?s" using RpcAnswer None own by (auto simp: cleared_def)
      from post_row_step [OF s this m] RpcAnswer None show ?thesis
        by (simp add: deliver_def call_rpc_def)
    next
      case (Some reason)
      from suppress_row_step [OF s] RpcAnswer Some show ?thesis
        by (simp add: deliver_def call_rpc_def)
    qed
  qed
qed

definition counted :: "counters \<Rightarrow> bool" where
  "counted c \<longleftrightarrow> ct_claimed c = ct_sent c + ct_failed c + ct_suppressed c"

definition accounted :: "counters \<Rightarrow> nat \<Rightarrow> bool" where
  \<comment> \<open>how the counters and the number of posts relate\<close>
  "accounted c k \<longleftrightarrow> ct_sent c \<le> k \<and> k \<le> ct_sent c + ct_failed c"

lemma deliver_all_step:
  assumes "\<And>r u. r \<in> set rs \<Longrightarrow> good_step w own webhook (t @ u) (f r (t @ u))"
    and "deliver_all f rs c t = (result, t')"
  shows "(posts_cleared w own webhook t \<longrightarrow> posts_cleared w own webhook t') \<and>
    (\<forall>c'. result = Some c' \<longrightarrow> accounted c (posts t) \<longrightarrow> accounted c' (posts t') \<and>
       ct_claimed c' = ct_claimed c \<and> ct_claimFailures c' = ct_claimFailures c \<and>
       ct_sent c' + ct_failed c' + ct_suppressed c' = ct_sent c + ct_failed c + ct_suppressed c + length rs)"
  using assms
proof (induction rs arbitrary: c t)
  case (Cons r rs)
  obtain outcome s where step: "f r t = (outcome, s)" by fastforce
  have g: "good_step w own webhook t (outcome, s)" using Cons.prems(1) [of r "[]"] step by simp
  then obtain v where v: "s = t @ v" by (auto simp: good_step_def)
  show ?case
  proof (cases outcome)
    case None
    with Cons.prems step g show ?thesis by (auto simp: good_step_def)
  next
    case (Some o1)
    have "deliver_all f rs (count_outcome o1 c) s = (result, t')" using Cons.prems step Some by simp
    moreover have "good_step w own webhook (s @ u) (f x (s @ u))" if "x \<in> set rs" for x u
      using Cons.prems(1) [of x "v @ u"] that by (simp add: v)
    ultimately have IH: "(posts_cleared w own webhook s \<longrightarrow> posts_cleared w own webhook t') \<and>
        (\<forall>c'. result = Some c' \<longrightarrow> accounted (count_outcome o1 c) (posts s) \<longrightarrow> accounted c' (posts t') \<and>
           ct_claimed c' = ct_claimed (count_outcome o1 c) \<and>
           ct_claimFailures c' = ct_claimFailures (count_outcome o1 c) \<and>
           ct_sent c' + ct_failed c' + ct_suppressed c' = ct_sent (count_outcome o1 c) +
             ct_failed (count_outcome o1 c) + ct_suppressed (count_outcome o1 c) + length rs)"
      by (intro Cons.IH) auto
    have "accounted c (posts t) \<Longrightarrow> accounted (count_outcome o1 c) (posts s)"
      using g Some by (cases o1) (auto simp: good_step_def posts_for_def accounted_def count_outcome_def)
    moreover have "ct_claimed (count_outcome o1 c) = ct_claimed c"
      "ct_claimFailures (count_outcome o1 c) = ct_claimFailures c"
      "ct_sent (count_outcome o1 c) + ct_failed (count_outcome o1 c) + ct_suppressed (count_outcome o1 c) =
         Suc (ct_sent c + ct_failed c + ct_suppressed c)"
      by (cases o1; simp add: count_outcome_def)+
    ultimately show ?thesis using IH g by (auto simp: good_step_def)
  qed
qed auto

lemma claim_batch_step:
  assumes "\<And>r s. claimed_row w rows_of name args r s \<Longrightarrow> good_step w own webhook s (f r s)"
    and "claim_batch w rows_of f name args c t = (result, t')"
  shows "(posts_cleared w own webhook t \<longrightarrow> posts_cleared w own webhook t') \<and>
    (\<forall>c'. result = Some c' \<longrightarrow> accounted c (posts t) \<and> counted c \<longrightarrow> accounted c' (posts t') \<and> counted c')"
proof (cases "dw_rpc w t name args")
  case RpcThrows
  with assms(2) show ?thesis by (auto simp: claim_batch_def call_rpc_def intro: posts_cleared_rpc)
next
  case (RpcAnswer answer err)
  let ?s = "t @ [CallRpc name args]"
  show ?thesis
  proof (cases err)
    case True
    with assms(2) RpcAnswer show ?thesis
      by (auto simp: claim_batch_def call_rpc_def accounted_def counted_def intro: posts_cleared_rpc)
  next
    case False
    let ?c = "c \<lparr> ct_claimed := ct_claimed c + length (rows_of answer) \<rparr>"
    have "deliver_all f (rows_of answer) ?c ?s = (result, t')"
      using assms(2) RpcAnswer False by (simp add: claim_batch_def call_rpc_def)
    moreover have "good_step w own webhook (?s @ u) (f r (?s @ u))" if "r \<in> set (rows_of answer)" for r u
      using that RpcAnswer False by (intro assms(1)) (auto simp: claimed_row_def)
    ultimately have "(posts_cleared w own webhook ?s \<longrightarrow> posts_cleared w own webhook t') \<and>
        (\<forall>c'. result = Some c' \<longrightarrow> accounted ?c (posts ?s) \<longrightarrow> accounted c' (posts t') \<and>
           ct_claimed c' = ct_claimed ?c \<and> ct_claimFailures c' = ct_claimFailures ?c \<and>
           ct_sent c' + ct_failed c' + ct_suppressed c' =
             ct_sent ?c + ct_failed ?c + ct_suppressed ?c + length (rows_of answer))"
      by (intro deliver_all_step) auto
    with posts_cleared_rpc [of w own webhook t name args] show ?thesis
      by (auto simp: accounted_def counted_def)
  qed
qed

lemma row_steps:
  "claimed_row w (dr_legacy rows) ''claim_notification_outbox_v1''
     (Obj [(''p_claim_token'', Str legacyToken), (''p_limit'', jint MAX_BATCH)]) r s \<Longrightarrow>
   good_step w (own_row w rows legacyToken eventToken) webhook s (deliverLegacyRow w webhook legacyToken r s)"
  "claimed_row w (dr_event rows) ''claim_notification_deliveries_v1''
     (Obj [(''p_provider_type'', Str ''discord''), (''p_claim_token'', Str eventToken),
       (''p_limit'', jint MAX_BATCH)]) e s \<Longrightarrow>
   good_step w (own_row w rows legacyToken eventToken) webhook s (deliverEventRow w webhook eventToken e s)"
  unfolding deliverLegacyRow_def deliverEventRow_def
  by (rule deliver_step; auto simp: own_row_def legacy_message_def event_message_def)+

lemma run_dispatch_step:
  assumes "run_dispatch w rows webhook legacyToken eventToken t = (result, t')" "posts t = 0"
    and "posts_cleared w (own_row w rows legacyToken eventToken) webhook t"
  shows "posts_cleared w (own_row w rows legacyToken eventToken) webhook t' \<and>
    (\<forall>ok c. result = Some (Dispatched ok c) \<longrightarrow> accounted c (posts t') \<and> counted c \<and> (ok \<longleftrightarrow> dispatch_succeeded c))
    \<and> (\<forall>status err. result \<noteq> Some (DispatchRefused status err))"
proof -
  obtain r1 t1 where one: "claim_batch w (dr_legacy rows) (deliverLegacyRow w webhook legacyToken)
      ''claim_notification_outbox_v1'' (Obj [(''p_claim_token'', Str legacyToken), (''p_limit'', jint MAX_BATCH)])
      START t = (r1, t1)" by fastforce
  note first = claim_batch_step [OF row_steps(1) one]
  have start: "accounted START (posts t)" "counted START"
    using assms(2) by (auto simp: accounted_def counted_def START_def)
  show ?thesis
  proof (cases r1)
    case None
    with assms(1,3) one first show ?thesis by (auto simp: run_dispatch_def)
  next
    case (Some c1)
    obtain r2 t2 where two: "claim_batch w (dr_event rows) (deliverEventRow w webhook eventToken)
        ''claim_notification_deliveries_v1'' (Obj [(''p_provider_type'', Str ''discord''),
          (''p_claim_token'', Str eventToken), (''p_limit'', jint MAX_BATCH)]) c1 t1 = (r2, t2)" by fastforce
    note second = claim_batch_step [OF row_steps(2) two]
    show ?thesis
    proof (cases r2)
      case None
      with assms one two Some first second show ?thesis by (auto simp: run_dispatch_def)
    next
      case r2: (Some c2)
      have "mark_dispatch w c2 t2 = (result, t')"
        using assms(1) one two Some r2 by (simp add: run_dispatch_def)
      moreover have "posts_cleared w (own_row w rows legacyToken eventToken) webhook t2" "accounted c2 (posts t2)" "counted c2"
        using assms(3) start first second Some r2 by auto
      ultimately show ?thesis
        by (auto simp: mark_dispatch_def call_rpc_def split: rpc_answer.splits intro: posts_cleared_rpc)
    qed
  qed
qed

definition token_verified :: "dispatch_world \<Rightarrow> dispatch_runtime \<Rightarrow> string option \<Rightarrow> bool" where
  "token_verified w n header \<longleftrightarrow>
     (\<exists>token. map_option trim header = Some token \<and> 32 \<le> length token \<and> length token \<le> 256 \<and>
        dw_rpc w [] VERIFY (token_args n token) = RpcAnswer (Bool True) False)"

lemma dispatch_serve_step:
  assumes "dispatch_serve w rows n httpMethod header legacyToken eventToken = (result, t)"
  shows "(posts t > 0 \<or> (\<exists>ok c. result = Some (Dispatched ok c)) \<longrightarrow>
      httpMethod = ''POST'' \<and> token_verified w n header \<and>
      (\<exists>webhook. discordWebhookUrl (dn_parse_url n) (case map_option trim (dn_env n ''DISCORD_WEBHOOK_URL'') of
         None \<Rightarrow> [] | Some raw \<Rightarrow> raw) = Some webhook \<and> posts_cleared w (own_row w rows legacyToken eventToken) webhook t)) \<and>
    (\<forall>ok c. result = Some (Dispatched ok c) \<longrightarrow> accounted c (posts t) \<and> counted c \<and> (ok \<longleftrightarrow> dispatch_succeeded c))"
proof (cases "httpMethod = ''POST'' \<and> token_verified w n header \<and> env_text n ''SUPABASE_URL'' \<noteq> None \<and>
    env_text n ''SUPABASE_SERVICE_ROLE_KEY'' \<noteq> None")
  case False
  with assms show ?thesis
    by (auto simp: dispatch_serve_def token_verified_def call_rpc_def posts_def not_less
        split: option.splits if_splits rpc_answer.splits)
next
  case True
  then obtain token where token: "map_option trim header = Some token" "32 \<le> length token" "length token \<le> 256"
    "dw_rpc w [] VERIFY (token_args n token) = RpcAnswer (Bool True) False"
    by (auto simp: token_verified_def)
  let ?t = "[CallRpc VERIFY (token_args n token)]"
  let ?url = "discordWebhookUrl (dn_parse_url n) (case map_option trim (dn_env n ''DISCORD_WEBHOOK_URL'') of
         None \<Rightarrow> [] | Some raw \<Rightarrow> raw)"
  have t: "posts ?t = 0" "posts_cleared w (own_row w rows legacyToken eventToken) webhook ?t" for webhook
    using posts_append(2) [of "[]"] posts_cleared_rpc [OF posts_cleared_Nil] by simp_all
  have d: "dispatch_verified w rows n legacyToken eventToken ?t = (result, t)"
    using assms True token by (simp add: dispatch_serve_def call_rpc_def not_less)
  show ?thesis
  proof (cases ?url)
    case None
    with d t(1) show ?thesis
      by (auto simp: dispatch_verified_def call_rpc_def posts_def split: rpc_answer.splits)
  next
    case (Some webhook)
    then have "run_dispatch w rows webhook legacyToken eventToken ?t = (result, t)"
      using d by (simp add: dispatch_verified_def)
    from run_dispatch_step [OF this t] Some True show ?thesis by auto
  qed
qed

text \<open>C10. Nothing is posted to Discord unless the scheduler proved itself: the request is a POST with a token of
  32 to 256 characters whose hash the database confirmed. Every post goes to the configured webhook, mentions
  nobody, and is the message of a row this run claimed under its own token; the effect directly before it asked
  the gate of that kind of rows about the identifier and token of that very row, and the answer was no reason
  against it (an error of that question counts as a reason).\<close>

theorem posts_are_verified_and_cleared:
  assumes "dispatch_serve w rows n httpMethod header legacyToken eventToken = (result, t)"
    and "t = before @ PostMessage url m # rest"
  shows "httpMethod = ''POST'' \<and> token_verified w n header \<and> dm_allowedMentions m = [] \<and>
    cleared w (own_row w rows legacyToken eventToken) m before \<and>
    discordWebhookUrl (dn_parse_url n) (case map_option trim (dn_env n ''DISCORD_WEBHOOK_URL'') of
       None \<Rightarrow> [] | Some raw \<Rightarrow> raw) = Some url"
proof -
  have "posts t > 0" by (simp add: assms(2) posts_def)
  with dispatch_serve_step [OF assms(1)] obtain webhook where
    w: "httpMethod = ''POST''" "token_verified w n header" "posts_cleared w (own_row w rows legacyToken eventToken) webhook t"
      "discordWebhookUrl (dn_parse_url n) (case map_option trim (dn_env n ''DISCORD_WEBHOOK_URL'') of
         None \<Rightarrow> [] | Some raw \<Rightarrow> raw) = Some webhook"
    by blast
  then have "url = webhook \<and> dm_allowedMentions m = [] \<and>
      cleared w (own_row w rows legacyToken eventToken) m before"
    using assms(2) unfolding posts_cleared_def by blast
  with w show ?thesis by blast
qed

text \<open>C29. The reply of the dispatcher accounts for every row it claimed: each was sent, failed or was suppressed;
  a sent row was posted and a suppressed one was not, so the posts are at least the sent rows and at most the
  sent and the failed ones; and the run is reported as successful exactly when no row and no claim failed.\<close>

theorem dispatch_accounts_for_every_row:
  assumes "dispatch_serve w rows n httpMethod header legacyToken eventToken = (Some (Dispatched ok c), t)"
  shows "ct_claimed c = ct_sent c + ct_failed c + ct_suppressed c \<and>
    ct_sent c \<le> posts t \<and> posts t \<le> ct_sent c + ct_failed c \<and>
    (ok \<longleftrightarrow> ct_failed c = 0 \<and> ct_claimFailures c = 0)"
  using dispatch_serve_step [OF assms] by (auto simp: accounted_def counted_def dispatch_succeeded_def)

text \<open>A run with one legacy row that is sent, and an event row that a maintenance window suppresses.\<close>

definition sample_legacy :: legacy_row where
  "sample_legacy = \<lparr> lr_id = 7, lr_source = HostSource, lr_serverId = ''alpha'', lr_entityName = ''alpha'',
     lr_transition = OpenedSignal, lr_severity = CriticalLevel, lr_title = ''Offline'', lr_message = ''No heartbeat'',
     lr_detailHref = ''/hosts/alpha'', lr_occurredAt = ''2026-01-01T00:00:00Z'', lr_attempts = 1 \<rparr>"

definition sample_event_row :: event_row where
  "sample_event_row = \<lparr> er_id = 9, er_eventType = MaintenancePublished, er_source = MaintenanceSource,
     er_sourcePublicId = ''MNT-0123456789AB'', er_severity = InfoLevel, er_title = ''Reboot'',
     er_message = ''Kernel'', er_detailHref = ''/status-center'', er_occurredAt = ''2026-01-01T00:00:00Z'',
     er_attempts = 1 \<rparr>"

definition sample_world :: dispatch_world where
  "sample_world = \<lparr> dw_rpc = (\<lambda>_ name _.
       if name = VERIFY then RpcAnswer (Bool True) False
       else if name = df_gate EVENT then RpcAnswer (Str ''maintenance'') False else RpcAnswer Null False),
     dw_post = (\<lambda>_ _ _. PostAnswer 200 None), dw_href = (\<lambda>h. Some (CONSOLE_BASE_URL, CONSOLE_BASE_URL @ h)) \<rparr>"

definition sample_batch :: dispatch_rows where
  "sample_batch = \<lparr> dr_legacy = (\<lambda>_. [sample_legacy]), dr_event = (\<lambda>_. [sample_event_row]) \<rparr>"

definition sample_runtime :: dispatch_runtime where
  "sample_runtime = \<lparr> dn_env = (\<lambda>_. Some ''configured''), dn_sha256_hex = id, dn_parse_url = (\<lambda>_. Some
     \<lparr> pw_protocol = ''https:'', pw_hostname = ''discord.com'', pw_pathname = ''/api/webhooks/1/x'',
       pw_href = ''https://discord.com/api/webhooks/1/x?wait=true'' \<rparr>) \<rparr>"

definition sample_token :: string where
  "sample_token = replicate 40 CHR ''t''"

lemma sample_token_trim: "trim sample_token = sample_token" "length sample_token = 40"
  by (simp_all add: sample_token_def trim_def is_space_def code_def)

lemma sample_dispatch:
  "\<exists>t. dispatch_serve sample_world sample_batch sample_runtime ''POST'' (Some sample_token) ''a'' ''b'' =
     (Some (Dispatched True \<lparr> ct_sent = 1, ct_failed = 0, ct_suppressed = 1, ct_claimFailures = 0, ct_claimed = 2 \<rparr>), t)"
proof -
  have env: "env_text sample_runtime name = Some ''configured''" for name
    by (simp add: env_text_def sample_runtime_def nonempty_def js_eval)
  have url: "discordWebhookUrl (dn_parse_url sample_runtime) raw =
      Some ''https://discord.com/api/webhooks/1/x?wait=true''" for raw
    by (simp add: discordWebhookUrl_def sample_runtime_def webhook_path_def is_digit_def code_def)
  have rpc: "dw_rpc sample_world t name args =
      (if name = VERIFY then RpcAnswer (Bool True) False
       else if name = df_gate EVENT then RpcAnswer (Str ''maintenance'') False else RpcAnswer Null False)"
    "dw_post sample_world t x m = PostAnswer 200 None" for t name args x m
    by (simp_all add: sample_world_def)
  have rows: "dr_legacy sample_batch v = [sample_legacy]" "dr_event sample_batch v = [sample_event_row]" for v
    by (simp_all add: sample_batch_def)
  have legacy: "\<exists>t'. deliverLegacyRow sample_world url token sample_legacy t = (Some SentDelivery, t')" for url token t
    by (simp add: deliverLegacyRow_def deliver_def call_rpc_def rpc LEGACY_def EVENT_def VERIFY_def block_reason_def
        post_row_def postDiscord_def)
  have event: "\<exists>t'. deliverEventRow sample_world url token sample_event_row t = (Some SuppressedDelivery, t')"
    for url token t
    by (simp add: deliverEventRow_def deliver_def call_rpc_def rpc EVENT_def VERIFY_def block_reason_def
        suppress_row_def)
  obtain g where g: "deliverLegacyRow sample_world u k sample_legacy t = (Some SentDelivery, g u k t)" for u k t
    using legacy by metis
  obtain h where h: "deliverEventRow sample_world u k sample_event_row t = (Some SuppressedDelivery, h u k t)" for u k t
    using event by metis
  show ?thesis
    by (simp add: dispatch_serve_def env sample_token_trim call_rpc_def rpc dispatch_verified_def url
        run_dispatch_def claim_batch_def rows g h count_outcome_def START_def mark_dispatch_def dispatch_succeeded_def
        VERIFY_def EVENT_def)
qed

theorem dispatch_accounts_for_every_row_witness:
  "\<exists>t. dispatch_serve sample_world sample_batch sample_runtime ''POST'' (Some sample_token) ''a'' ''b'' =
     (Some (Dispatched True \<lparr> ct_sent = 1, ct_failed = 0, ct_suppressed = 1, ct_claimFailures = 0, ct_claimed = 2 \<rparr>), t)
   \<and> posts t = 1"
  using sample_dispatch dispatch_accounts_for_every_row [of sample_world sample_batch sample_runtime "''POST''"
      "Some sample_token" "''a''" "''b''" True
      "\<lparr> ct_sent = 1, ct_failed = 0, ct_suppressed = 1, ct_claimFailures = 0, ct_claimed = 2 \<rparr>"]
  by fastforce

lemma posts_split: "posts t > 0 \<Longrightarrow> \<exists>before x m rest. t = before @ PostMessage x m # rest"
proof (induction t)
  case (Cons e t)
  show ?case
  proof (cases e)
    case (CallRpc name args)
    with Cons have "posts t > 0" by (simp add: posts_def)
    from Cons.IH [OF this] show ?thesis by (metis append_Cons)
  next
    case (PostMessage x m)
    then show ?thesis by (metis append_Nil)
  qed
qed (simp add: posts_def)

theorem posts_are_verified_and_cleared_witness:
  "\<exists>before url m rest.
     snd (dispatch_serve sample_world sample_batch sample_runtime ''POST'' (Some sample_token) ''a'' ''b'') =
       before @ PostMessage url m # rest \<and>
     token_verified sample_world sample_runtime (Some sample_token) \<and> 
     cleared sample_world (own_row sample_world sample_batch ''a'' ''b'') m before"
proof -
  obtain t where t: "dispatch_serve sample_world sample_batch sample_runtime ''POST'' (Some sample_token) ''a'' ''b'' =
     (Some (Dispatched True \<lparr> ct_sent = 1, ct_failed = 0, ct_suppressed = 1, ct_claimFailures = 0, ct_claimed = 2 \<rparr>), t)"
    using sample_dispatch by blast
  have "posts t > 0" using dispatch_serve_step [OF t] by (auto simp: accounted_def)
  then obtain before url m rest where s: "t = before @ PostMessage url m # rest" using posts_split by blast
  from posts_are_verified_and_cleared [OF t s] t s show ?thesis by auto
qed

end
