(* ===== verification/Notifications.thy ===== *)
theory Notifications
  imports ReliabilityCenter NotificationDispatch ConsoleUi
begin

text \<open>
  The notification centre (\<open>lib/notifications.ts\<close>): the four answers of the database it is made of, each row
  checked before it is shown, and what its page (\<open>app/notifications/page.tsx\<close>) derives from them. The row
  types reuse the sources, severities and transitions of the dispatcher, the summary that of the
  reliability centre.
\<close>

section \<open>Rows\<close>

datatype delivery_status = PendingDelivery | SendingDelivery | DeliveredStatus | RetryDelivery | FailedStatus | SuppressedStatus

datatype suppression_scope = GlobalScope | SourceScope notification_source | SignalScope

record notification_signal =
  sg_signalKey :: string
  sg_sourceType :: notification_source
  sg_serverId :: string
  sg_entityType :: notification_source
  sg_entityName :: string
  sg_signalType :: string
  sg_severity :: notification_severity
  sg_openedAt :: string
  sg_lastSeenAt :: string
  sg_reason :: string
  sg_detailHref :: string

record notification_delivery =
  nd_rowId :: int
  nd_sourceType :: notification_source
  nd_serverId :: string
  nd_entityType :: notification_source
  nd_entityName :: string
  nd_transition :: legacy_transition
  nd_severity :: notification_severity
  nd_title :: string
  nd_message :: string
  nd_detailHref :: string
  nd_occurredAt :: string
  nd_status :: delivery_status
  nd_suppressionReason :: "string option"
  nd_attempts :: int
  nd_sentAt :: "string option"
  nd_lastHttpStatus :: "int option"
  nd_lastErrorCode :: "string option"

record notification_suppression =
  np_rowId :: int
  np_scopeType :: suppression_scope
  np_scopeKey :: string
  np_reason :: string
  np_startsAt :: string
  np_endsAt :: "string option"

record notification_center =
  nc_summary :: notification_summary
  nc_signals :: "notification_signal list"
  nc_deliveries :: "notification_delivery list"
  nc_suppressions :: "notification_suppression list"

definition choice_of :: "(string \<times> 'a) list \<Rightarrow> string option \<Rightarrow> 'a option" where
  \<comment> \<open>the member of a set of texts, \<open>null\<close> for a text that is not in it\<close>
  "choice_of table v = Option.bind v (map_of table)"

definition SOURCES :: "(string \<times> notification_source) list" where
  "SOURCES = [(''host'', HostSource), (''container'', ContainerSource), (''backup'', BackupSource),
     (''reliability'', ReliabilitySource), (''cloud'', CloudSource)]"

definition SEVERITIES :: "(string \<times> notification_severity) list" where
  "SEVERITIES = [(''info'', InfoLevel), (''warning'', WarningLevel), (''critical'', CriticalLevel),
     (''recovery'', RecoveryLevel)]"

definition SIGNAL_SEVERITIES :: "(string \<times> notification_severity) list" where
  "SIGNAL_SEVERITIES = [(''warning'', WarningLevel), (''critical'', CriticalLevel)]"

definition STATUSES :: "(string \<times> delivery_status) list" where
  "STATUSES = [(''pending'', PendingDelivery), (''sending'', SendingDelivery), (''sent'', DeliveredStatus),
     (''retry'', RetryDelivery), (''failed'', FailedStatus), (''suppressed'', SuppressedStatus)]"

definition TRANSITIONS :: "(string \<times> legacy_transition) list" where
  "TRANSITIONS = [(''opened'', OpenedSignal), (''escalated'', EscalatedSignal), (''recovered'', RecoveredSignal),
     (''event'', EventSignal)]"

definition SUPPRESSION_SCOPES :: "(string \<times> suppression_scope) list" where
  "SUPPRESSION_SCOPES = [(''global'', GlobalScope), (''host'', SourceScope HostSource),
     (''container'', SourceScope ContainerSource), (''backup'', SourceScope BackupSource),
     (''reliability'', SourceScope ReliabilitySource), (''cloud'', SourceScope CloudSource),
     (''signal'', SignalScope)]"

section \<open>Readers\<close>

definition center_text :: "nat \<Rightarrow> jsval \<Rightarrow> string option" where
  "center_text limit v = nonempty (string_at_most limit v)"

definition validRelativeHref :: "jsval \<Rightarrow> string option" where
  "validRelativeHref v =
     Option.bind (center_text 1001 v) (\<lambda>href. if starts_with ''/'' href \<and> \<not> starts_with ''//'' href then Some href else None)"

definition singleRow :: "jsval \<Rightarrow> jsval option" where
  "singleRow payload =
     (case as_array payload of Some [row] \<Rightarrow> if is_record row then Some row else None | _ \<Rightarrow> None)"

definition SUMMARY_COUNTS :: "string list" where
  "SUMMARY_COUNTS =
     [''active_signal_count'', ''active_critical_count'', ''active_warning_count'', ''pending_count'',
      ''retry_count'', ''failed_count'', ''suppressed_count'', ''sent_24h_count'', ''active_suppression_count'']"

definition parseSummary :: "jsval \<Rightarrow> notification_summary option" where
  "parseSummary payload = do {
     row \<leftarrow> singleRow payload;
     generatedAt \<leftarrow> read_timestamp (get_prop row ''generated_at'');
     enabled \<leftarrow> as_bool (get_prop row ''channel_enabled'');
     configured \<leftarrow> as_bool (get_prop row ''channel_configured'');
     displayName \<leftarrow> center_text 80 (get_prop row ''channel_display_name'');
     counts \<leftarrow> map_rows (\<lambda>k. coerced_integer (get_prop row k)) SUMMARY_COUNTS;
     lastDeliveryAt \<leftarrow> nullable read_timestamp (get_prop row ''last_delivery_at'');
     channelErrorAt \<leftarrow> nullable read_timestamp (get_prop row ''channel_last_error_at'');
     channelErrorCode \<leftarrow> nullable (center_text 128) (get_prop row ''channel_last_error_code'');
     invokedAt \<leftarrow> nullable read_timestamp (get_prop row ''dispatcher_last_invoked_at'');
     successAt \<leftarrow> nullable read_timestamp (get_prop row ''dispatcher_last_success_at'');
     errorAt \<leftarrow> nullable read_timestamp (get_prop row ''dispatcher_last_error_at'');
     errorCode \<leftarrow> nullable (center_text 128) (get_prop row ''dispatcher_last_error_code'');
     Some \<lparr> ns_generatedAt = generatedAt, ns_channelEnabled = enabled, ns_channelConfigured = configured,
       ns_channelDisplayName = displayName, ns_activeSignalCount = counts ! 0,
       ns_activeCriticalCount = counts ! 1, ns_activeWarningCount = counts ! 2, ns_pendingCount = counts ! 3,
       ns_retryCount = counts ! 4, ns_failedCount = counts ! 5, ns_suppressedCount = counts ! 6,
       ns_sent24hCount = counts ! 7, ns_activeSuppressionCount = counts ! 8,
       ns_lastDeliveryAt = lastDeliveryAt, ns_channelLastErrorAt = channelErrorAt,
       ns_channelLastErrorCode = channelErrorCode, ns_dispatcherLastInvokedAt = invokedAt,
       ns_dispatcherLastSuccessAt = successAt, ns_dispatcherLastErrorAt = errorAt,
       ns_dispatcherLastErrorCode = errorCode \<rparr>
   }"

definition parse_signal :: "jsval \<Rightarrow> notification_signal option" where
  "parse_signal row =
     (if \<not> is_record row then None
      else do {
        signalKey \<leftarrow> center_text 500 (get_prop row ''signal_key'');
        sourceType \<leftarrow> choice_of SOURCES (center_text 2000 (get_prop row ''source_type''));
        serverId \<leftarrow> center_text 128 (get_prop row ''server_id'');
        entityType \<leftarrow> choice_of SOURCES (center_text 2000 (get_prop row ''entity_type''));
        entityName \<leftarrow> center_text 256 (get_prop row ''entity_name'');
        signalType \<leftarrow> center_text 80 (get_prop row ''signal_type'');
        severity \<leftarrow> choice_of SIGNAL_SEVERITIES (center_text 2000 (get_prop row ''severity''));
        openedAt \<leftarrow> read_timestamp (get_prop row ''opened_at'');
        lastSeenAt \<leftarrow> read_timestamp (get_prop row ''last_seen_at'');
        reason \<leftarrow> center_text 1800 (get_prop row ''reason'');
        detailHref \<leftarrow> validRelativeHref (get_prop row ''detail_href'');
        Some \<lparr> sg_signalKey = signalKey, sg_sourceType = sourceType, sg_serverId = serverId,
          sg_entityType = entityType, sg_entityName = entityName, sg_signalType = signalType,
          sg_severity = severity, sg_openedAt = openedAt, sg_lastSeenAt = lastSeenAt, sg_reason = reason,
          sg_detailHref = detailHref \<rparr>
      })"

definition parseSignals :: "jsval \<Rightarrow> notification_signal list option" where
  "parseSignals payload = Option.bind (as_array payload) (map_rows parse_signal)"

definition parse_delivery :: "jsval \<Rightarrow> notification_delivery option" where
  "parse_delivery row =
     (if \<not> is_record row then None
      else do {
        rowId \<leftarrow> coerced_integer (get_prop row ''row_id'');
        sourceType \<leftarrow> choice_of SOURCES (center_text 2000 (get_prop row ''source_type''));
        serverId \<leftarrow> center_text 128 (get_prop row ''server_id'');
        entityType \<leftarrow> choice_of SOURCES (center_text 2000 (get_prop row ''entity_type''));
        entityName \<leftarrow> center_text 256 (get_prop row ''entity_name'');
        transition \<leftarrow> choice_of TRANSITIONS (center_text 2000 (get_prop row ''transition''));
        severity \<leftarrow> choice_of SEVERITIES (center_text 2000 (get_prop row ''severity''));
        title \<leftarrow> center_text 160 (get_prop row ''title'');
        message \<leftarrow> center_text 1800 (get_prop row ''message'');
        detailHref \<leftarrow> validRelativeHref (get_prop row ''detail_href'');
        occurredAt \<leftarrow> read_timestamp (get_prop row ''occurred_at'');
        status \<leftarrow> choice_of STATUSES (center_text 2000 (get_prop row ''status''));
        suppressionReason \<leftarrow> nullable (center_text 256) (get_prop row ''suppression_reason'');
        attempts \<leftarrow> coerced_integer (get_prop row ''attempts'');
        sentAt \<leftarrow> nullable read_timestamp (get_prop row ''sent_at'');
        lastHttpStatus \<leftarrow> nullable coerced_integer (get_prop row ''last_http_status'');
        lastErrorCode \<leftarrow> nullable (center_text 128) (get_prop row ''last_error_code'');
        if rowId < 1 then None
        else Some \<lparr> nd_rowId = rowId, nd_sourceType = sourceType, nd_serverId = serverId,
          nd_entityType = entityType, nd_entityName = entityName, nd_transition = transition,
          nd_severity = severity, nd_title = title, nd_message = message, nd_detailHref = detailHref,
          nd_occurredAt = occurredAt, nd_status = status, nd_suppressionReason = suppressionReason,
          nd_attempts = attempts, nd_sentAt = sentAt, nd_lastHttpStatus = lastHttpStatus,
          nd_lastErrorCode = lastErrorCode \<rparr>
      })"

definition parseDeliveries :: "jsval \<Rightarrow> notification_delivery list option" where
  "parseDeliveries payload = Option.bind (as_array payload) (map_rows parse_delivery)"

definition parse_suppression :: "jsval \<Rightarrow> notification_suppression option" where
  "parse_suppression row =
     (if \<not> is_record row then None
      else do {
        rowId \<leftarrow> coerced_integer (get_prop row ''row_id'');
        scopeType \<leftarrow> choice_of SUPPRESSION_SCOPES (center_text 2000 (get_prop row ''scope_type''));
        scopeKey \<leftarrow> center_text 400 (get_prop row ''scope_key'');
        reason \<leftarrow> center_text 256 (get_prop row ''reason'');
        startsAt \<leftarrow> read_timestamp (get_prop row ''starts_at'');
        endsAt \<leftarrow> nullable read_timestamp (get_prop row ''ends_at'');
        if rowId < 1 then None
        else Some \<lparr> np_rowId = rowId, np_scopeType = scopeType, np_scopeKey = scopeKey, np_reason = reason,
          np_startsAt = startsAt, np_endsAt = endsAt \<rparr>
      })"

definition parseSuppressions :: "jsval \<Rightarrow> notification_suppression list option" where
  "parseSuppressions payload = Option.bind (as_array payload) (map_rows parse_suppression)"

definition getNotificationCenterSnapshot :: "(string \<Rightarrow> jsval \<Rightarrow> jsval option) \<Rightarrow> notification_center option" where
  \<comment> \<open>the four calls are made together; a rejected one or an unusable row is an exception\<close>
  "getNotificationCenterSnapshot rpc = do {
     summaryPayload \<leftarrow> rpc ''get_notification_center_summary_v1'' (Obj []);
     signalsPayload \<leftarrow> rpc ''get_notification_active_signals_v1'' (Obj [(''p_limit'', jint 100)]);
     deliveriesPayload \<leftarrow> rpc ''get_notification_deliveries_v1''
       (Obj [(''p_limit'', jint 100), (''p_before_occurred_at'', Null), (''p_before_id'', Null)]);
     suppressionsPayload \<leftarrow> rpc ''get_notification_suppressions_v1'' (Obj []);
     summary \<leftarrow> parseSummary summaryPayload;
     signals \<leftarrow> parseSignals signalsPayload;
     deliveries \<leftarrow> parseDeliveries deliveriesPayload;
     suppressions \<leftarrow> parseSuppressions suppressionsPayload;
     Some \<lparr> nc_summary = summary, nc_signals = signals, nc_deliveries = deliveries,
       nc_suppressions = suppressions \<rparr>
   }"

section \<open>The page\<close>

definition notification_severityTone :: "notification_severity \<Rightarrow> console_tone" where
  "notification_severityTone s =
     (case s of CriticalLevel \<Rightarrow> DangerUi | WarningLevel \<Rightarrow> WarningUi | RecoveryLevel \<Rightarrow> SuccessUi | InfoLevel \<Rightarrow> InfoUi)"

definition delivery_statusTone :: "delivery_status \<Rightarrow> console_tone" where
  "delivery_statusTone s =
     (if s = DeliveredStatus then SuccessUi else if s = FailedStatus then DangerUi
      else if s = RetryDelivery \<or> s = PendingDelivery \<or> s = SendingDelivery then WarningUi else NeutralUi)"

definition notificationTone :: "bool \<Rightarrow> bool \<Rightarrow> int \<Rightarrow> int \<Rightarrow> bool \<Rightarrow> bool \<Rightarrow> console_tone" where
  "notificationTone channelEnabled channelConfigured failedCount retryCount dispatcherStale dispatcherError =
     (if \<not> channelEnabled then InfoUi
      else if \<not> channelConfigured then WarningUi
      else if failedCount > 0 \<or> dispatcherStale \<or> dispatcherError then DangerUi
      else if retryCount > 0 then WarningUi else SuccessUi)"

definition dispatcherStale :: "notification_summary \<Rightarrow> bool" where
  "dispatcherStale n \<longleftrightarrow>
     ns_channelEnabled n \<and> ns_channelConfigured n \<and>
     (case nonempty (ns_dispatcherLastInvokedAt n) of
        None \<Rightarrow> True
      | Some invoked \<Rightarrow>
          (case (Date_parse (ns_generatedAt n), Date_parse invoked) of
             (Some g, Some i) \<Rightarrow> g - i > 180000 | _ \<Rightarrow> False))"

definition dispatcherError :: "notification_summary \<Rightarrow> bool" where
  "dispatcherError n \<longleftrightarrow>
     ns_channelEnabled n \<and> ns_channelConfigured n \<and>
     (nonempty (ns_dispatcherLastErrorCode n) \<noteq> None \<or> nonempty (ns_channelLastErrorCode n) \<noteq> None)"

definition health_tone :: "notification_summary \<Rightarrow> console_tone" where
  "health_tone n =
     notificationTone (ns_channelEnabled n) (ns_channelConfigured n) (ns_failedCount n) (ns_retryCount n)
       (dispatcherStale n) (dispatcherError n)"

definition signal_tone :: "notification_summary \<Rightarrow> console_tone" where
  "signal_tone n =
     (if ns_activeCriticalCount n > 0 then DangerUi else if ns_activeWarningCount n > 0 then WarningUi else NeutralUi)"

definition signalLabels :: "(string \<times> string) list" where
  "signalLabels =
     [(''heartbeat'', ''Heartbeat''), (''state_changed'', ''State''), (''health_changed'', ''Health''),
      (''exit_code_changed'', ''ExitCode''), (''run_failure'', ''Backup Run''), (''checksum'', ''Checksum''),
      (''backup_age'', ''Backup Age''), (''remote_sync'', ''Remote Sync''), (''retention'', ''Retention''),
      (''restore_test'', ''Restore Test''), (''slo_burn_rate'', ''SLO Burn Rate'')]"

definition signalKey :: "notification_signal \<Rightarrow> string" where
  "signalKey s =
     sourceLabel (sg_sourceType s) @ '' / '' @
     (case map_of signalLabels (sg_signalType s) of None \<Rightarrow> sg_signalType s | Some l \<Rightarrow> l)"

definition deliveryMeta :: "notification_delivery \<Rightarrow> string" where
  "deliveryMeta d =
     join '' / ''
       ([sourceLabel (nd_sourceType d), nd_serverId d,
         int_text (nd_attempts d) @ '' attempt'' @ (if nd_attempts d = 1 then [] else ''s'')] @
        (case nd_lastHttpStatus d of None \<Rightarrow> [] | Some s \<Rightarrow> [''HTTP '' @ int_text s]))"

section \<open>What the centre shows\<close>

lemma center_text_SomeD: "center_text n v = Some s \<Longrightarrow> v = Str s \<and> 0 < length s \<and> length s \<le> n"
  by (auto simp: center_text_def dest!: nonempty_SomeD string_at_most_SomeD)

lemma validRelativeHref_SomeD:
  "validRelativeHref v = Some href \<Longrightarrow> starts_with ''/'' href \<and> \<not> starts_with ''//'' href \<and> length href \<le> 1001"
  by (auto simp: validRelativeHref_def bind_eq_Some_conv dest: center_text_SomeD split: if_splits)

definition local_href :: "string \<Rightarrow> bool" where
  "local_href href \<longleftrightarrow> starts_with ''/'' href \<and> \<not> starts_with ''//'' href"

definition dated :: "string \<Rightarrow> bool" where
  "dated s \<longleftrightarrow> Date_parse s \<noteq> None"

definition signal_ok :: "notification_signal \<Rightarrow> bool" where
  "signal_ok s \<longleftrightarrow>
     sg_signalKey s \<noteq> [] \<and> sg_severity s \<in> {WarningLevel, CriticalLevel} \<and> dated (sg_openedAt s) \<and>
     dated (sg_lastSeenAt s) \<and> length (sg_reason s) \<le> 1800 \<and> local_href (sg_detailHref s)"

definition delivery_ok :: "notification_delivery \<Rightarrow> bool" where
  "delivery_ok d \<longleftrightarrow>
     1 \<le> nd_rowId d \<and> \<bar>nd_attempts d\<bar> \<le> max_safe_integer \<and> length (nd_title d) \<le> 160 \<and>
     length (nd_message d) \<le> 1800 \<and> dated (nd_occurredAt d) \<and>
     (\<forall>t. nd_sentAt d = Some t \<longrightarrow> dated t) \<and> local_href (nd_detailHref d)"

definition suppression_ok :: "notification_suppression \<Rightarrow> bool" where
  "suppression_ok r \<longleftrightarrow>
     1 \<le> np_rowId r \<and> np_scopeKey r \<noteq> [] \<and> dated (np_startsAt r) \<and> (\<forall>t. np_endsAt r = Some t \<longrightarrow> dated t)"

lemma read_timestamp_dated: "read_timestamp v = Some s \<Longrightarrow> dated s"
  by (auto simp: dated_def dest: read_timestamp_SomeD)

lemma nullable_timestamp_dated: "nullable read_timestamp v = Some (Some s) \<Longrightarrow> dated s"
  by (auto simp: dated_def dest: nullable_timestampD)

lemma parse_signal_ok: "parse_signal row = Some s \<Longrightarrow> signal_ok s"
  by (auto simp: parse_signal_def signal_ok_def local_href_def bind_eq_Some_conv choice_of_def SIGNAL_SEVERITIES_def
      dest: center_text_SomeD validRelativeHref_SomeD read_timestamp_dated split: if_splits)

lemma parse_delivery_ok: "parse_delivery row = Some d \<Longrightarrow> delivery_ok d"
  by (auto simp: parse_delivery_def delivery_ok_def local_href_def bind_eq_Some_conv
      dest: center_text_SomeD validRelativeHref_SomeD read_timestamp_dated nullable_timestamp_dated
        coerced_integer_bound split: if_splits)

lemma parse_suppression_ok: "parse_suppression row = Some r \<Longrightarrow> suppression_ok r"
  by (auto simp: parse_suppression_def suppression_ok_def bind_eq_Some_conv
      dest: center_text_SomeD read_timestamp_dated nullable_timestamp_dated split: if_splits)

definition summary_dated :: "notification_summary \<Rightarrow> bool" where
  "summary_dated n \<longleftrightarrow> dated (ns_generatedAt n) \<and> (\<forall>t. ns_dispatcherLastInvokedAt n = Some t \<longrightarrow> dated t)"

lemma parseSummary_dated: "parseSummary payload = Some n \<Longrightarrow> summary_dated n"
  by (auto simp: parseSummary_def summary_dated_def bind_eq_Some_conv
      dest: read_timestamp_dated nullable_timestamp_dated)

lemma dated_nonempty [simp]: "dated s \<Longrightarrow> nonempty (Some s) = Some s"
  by (cases s) (auto simp: nonempty_def dated_def Date_parse_Nil)

definition center_ok :: "notification_center \<Rightarrow> bool" where
  "center_ok c \<longleftrightarrow>
     summary_dated (nc_summary c) \<and> list_all signal_ok (nc_signals c) \<and> list_all delivery_ok (nc_deliveries c) \<and>
     list_all suppression_ok (nc_suppressions c)"

lemma map_rows_all:
  assumes "map_rows f xs = Some ys" and "\<And>x y. f x = Some y \<Longrightarrow> P y"
  shows "list_all P ys"
  using assms by (auto simp: list_all_iff dest: map_rows_set)

text \<open>A notification centre that is shown is made of usable rows only: every time parses, every identifier is
  positive, the texts keep their bounds, and every link leads to the console itself.\<close>

theorem shown_notification_center_is_well_formed:
  assumes "getNotificationCenterSnapshot rpc = Some c"
  shows "center_ok c"
  using assms
  by (auto simp: getNotificationCenterSnapshot_def center_ok_def parseSignals_def parseDeliveries_def
      parseSuppressions_def bind_eq_Some_conv
      intro: parseSummary_dated map_rows_all parse_signal_ok parse_delivery_ok parse_suppression_ok)

definition sample_center_summary :: jsval where
  "sample_center_summary = Obj
     [(''generated_at'', Str ''2026-01-01T00:00:00Z''), (''channel_enabled'', Bool True),
      (''channel_configured'', Bool True), (''channel_display_name'', Str ''Discord''),
      (''active_signal_count'', jint 1), (''active_critical_count'', jint 0), (''active_warning_count'', jint 1),
      (''pending_count'', jint 2), (''retry_count'', jint 0), (''failed_count'', jint 0),
      (''suppressed_count'', jint 0), (''sent_24h_count'', jint 4), (''active_suppression_count'', jint 0),
      (''last_delivery_at'', Null), (''channel_last_error_at'', Null), (''channel_last_error_code'', Null),
      (''dispatcher_last_invoked_at'', Str ''2026-01-01T00:00:00Z''), (''dispatcher_last_success_at'', Null),
      (''dispatcher_last_error_at'', Null), (''dispatcher_last_error_code'', Null)]"

definition sample_center_rpc :: "string \<Rightarrow> jsval \<Rightarrow> jsval option" where
  "sample_center_rpc name args =
     Some (Arr (if name = ''get_notification_center_summary_v1'' then [sample_center_summary] else []))"

lemma sample_center_summary_read: "\<exists>n. parseSummary (Arr [sample_center_summary]) = Some n"
  by (simp add: parseSummary_def singleRow_def sample_center_summary_def SUMMARY_COUNTS_def center_text_def
      prop_or_def sample_instants js_eval del: Date_parse_def)

lemma sample_center_shown: "\<exists>c. getNotificationCenterSnapshot sample_center_rpc = Some c"
  using sample_center_summary_read
  by (auto simp: getNotificationCenterSnapshot_def sample_center_rpc_def parseSignals_def parseDeliveries_def
      parseSuppressions_def)

theorem shown_notification_center_is_well_formed_witness:
  "\<exists>c. getNotificationCenterSnapshot sample_center_rpc = Some c \<and> center_ok c"
  using sample_center_shown shown_notification_center_is_well_formed [of sample_center_rpc] by blast

section \<open>Two readers and two verdicts\<close>

lemma count_value_coerced: "count_value v = Some i \<Longrightarrow> coerced_integer v = Some i"
  by (auto simp: count_value_def split: if_splits option.splits)

lemma map_rows_mono:
  assumes "map_rows f xs = Some ys" and "\<And>x y. f x = Some y \<Longrightarrow> g x = Some y"
  shows "map_rows g xs = Some ys"
  using assms(1)
proof (induction xs arbitrary: ys)
  case (Cons x xs)
  then show ?case by (auto split: option.splits dest: assms(2))
qed simp

lemma nullableText_center: "nullableText v = Some t \<Longrightarrow> nullable (center_text 128) v = Some t"
  by (cases v)
    (auto simp: nullableText_def optional_text_def nullable_def center_text_def satisfying_def string_at_most_def
      nonempty_def split: option.splits if_splits)

lemma one_row: "(case rows of [r] \<Rightarrow> Some r | _ \<Rightarrow> None) = Some row \<longleftrightarrow> rows = [row]"
  by (auto split: list.splits)

text \<open>The reader of the notification summary that the overview and the reliability centre use is stricter than
  the one of the notification centre: a summary it accepts is accepted there, with the same content, if the
  name of the channel is short enough to be shown.\<close>

theorem notification_readers_agree:
  assumes "getNotificationSummary rpc = Some n" and "length (ns_channelDisplayName n) \<le> 80"
  shows "Option.bind (rpc ''get_notification_center_summary_v1'' (Obj [])) parseSummary = Some n"
proof -
  obtain payload row where row: "rpc ''get_notification_center_summary_v1'' (Obj []) = Some payload"
      "as_array payload = Some [row]" "read_timestamp (get_prop row ''generated_at'') \<noteq> None"
    using assms(1) by (auto simp: getNotificationSummary_def bind_eq_Some_conv one_row)
  then have "is_record row" by (cases row) (auto simp: read_timestamp_def)
  have counts: "map_rows (\<lambda>k. count_value (get_prop row k)) SUMMARY_COUNTS = Some cs \<Longrightarrow>
      map_rows (\<lambda>k. coerced_integer (get_prop row k)) SUMMARY_COUNTS = Some cs" for cs
    by (erule map_rows_mono) (rule count_value_coerced)
  have label: "nonempty (as_string v) = Some s \<Longrightarrow> length s \<le> 80 \<Longrightarrow> center_text 80 v = Some s" for v s
    by (auto simp: center_text_def string_at_most_def nonempty_def split: option.splits if_splits)
  show ?thesis
    using assms row \<open>is_record row\<close>
    by (auto simp: getNotificationSummary_def parseSummary_def singleRow_def SUMMARY_COUNTS_def [symmetric]
        bind_eq_Some_conv one_row simp del: map_rows.simps dest!: counts label nullableText_center)
qed

theorem notification_readers_agree_witness:
  "\<exists>n. getNotificationSummary sample_center_rpc = Some n \<and>
     Option.bind (sample_center_rpc ''get_notification_center_summary_v1'' (Obj [])) parseSummary = Some n"
proof -
  have "\<exists>n. getNotificationSummary sample_center_rpc = Some n \<and> length (ns_channelDisplayName n) \<le> 80"
    by (simp add: getNotificationSummary_def sample_center_rpc_def sample_center_summary_def count_value_def
        nullableText_def optional_text_def satisfying_def prop_or_def sample_instants js_eval del: Date_parse_def)
  then show ?thesis using notification_readers_agree [of sample_center_rpc] by blast
qed

text \<open>The page of the notifications and the reliability centre judge the delivery alike: on every summary that
  the page shows, its verdict is a danger exactly when the delivery is critical there and the channel is
  configured.\<close>

theorem page_danger_is_critical_delivery:
  assumes "parseSummary payload = Some n"
  shows "health_tone n = DangerUi \<longleftrightarrow> notificationHealth (Some n) = CriticalHealth \<and> ns_channelConfigured n"
  using parseSummary_dated [OF assms]
  by (cases "ns_dispatcherLastInvokedAt n")
    (auto simp: health_tone_def notificationTone_def notificationHealth_def dispatcherStale_def dispatcherError_def
      summary_dated_def dated_def DISPATCHER_STALE_AFTER_MS_def nonempty_def split: option.splits if_splits)

theorem page_danger_is_critical_delivery_witness:
  "\<exists>n. parseSummary (Arr [sample_center_summary]) = Some n \<and>
     (health_tone n = DangerUi \<longleftrightarrow> notificationHealth (Some n) = CriticalHealth \<and> ns_channelConfigured n)"
  using sample_center_summary_read page_danger_is_critical_delivery by blast

end
