(* ===== verification/Telemetry.thy ===== *)
theory Telemetry
  imports ReportRoutes Maintenance
begin

text \<open>
  Two reports of the agents that name their contents: the inventory of the containers of a server
  (\<open>lib/runtime-inventory-core.ts\<close>, \<open>lib/runtime-inventory.ts\<close>, \<open>app/api/agent/runtime\<close>) and the results of the
  cloud monitor (\<open>lib/cloud-monitor-core.ts\<close>, \<open>lib/cloud-monitor.ts\<close>, \<open>app/api/agent/cloud\<close>). Both handlers are
  one definition over their parser, their authentication and their database function.
\<close>

section \<open>A bounded, signed report\<close>

definition keys_joined :: "jsval \<Rightarrow> string" where
  \<comment> \<open>\<open>Object.keys(v).sort().join()\<close>\<close>
  "keys_joined v = join '','' (sort (obj_keys v))"

definition media_type_json :: "header_reader \<Rightarrow> bool" where
  "media_type_json header \<longleftrightarrow>
     (case header ''content-type'' of
        None \<Rightarrow> False
      | Some s \<Rightarrow> to_lower (trim (hd (split_on CHR '';'' s))) = ''application/json'')"

definition length_header_exceeds :: "nat \<Rightarrow> header_reader \<Rightarrow> bool" where
  \<comment> \<open>\<open>Number(headers.get("content-length")) > limit\<close>; \<open>Number(null)\<close> is zero\<close>
  "length_header_exceeds limit header \<longleftrightarrow>
     (case header ''content-length'' of
        None \<Rightarrow> False
      | Some s \<Rightarrow> (case to_number (Str s) of Fin n \<Rightarrow> n > of_nat limit | PosInf \<Rightarrow> True | _ \<Rightarrow> False))"

datatype telemetry_reply = TelemetryAccepted | TelemetryRefused nat string

definition telemetry_status :: "string \<Rightarrow> nat option" where
  "telemetry_status result = map_of
     [(''unknown_agent'', 401), (''target_not_allowed'', 403), (''replayed_request'', 409), (''rate_limited'', 429),
      (''invalid_payload'', 400)] result"

definition telemetry_answer :: "jsval option \<Rightarrow> telemetry_reply" where
  \<comment> \<open>\<open>None\<close> is an exception of the database call\<close>
  "telemetry_answer stored =
     (case stored of
        Some (Str result) \<Rightarrow>
          if result = ''accepted'' then TelemetryAccepted
          else (case telemetry_status result of
                  Some status \<Rightarrow> TelemetryRefused status result
                | None \<Rightarrow> TelemetryRefused 503 ''store_unavailable'')
      | _ \<Rightarrow> TelemetryRefused 503 ''store_unavailable'')"

definition telemetry_post ::
  "nat \<Rightarrow> (byte list \<Rightarrow> 'p option) \<Rightarrow> (byte list \<Rightarrow> 'p \<Rightarrow> agent_error + string \<times> string) \<Rightarrow>
   ('p \<Rightarrow> string \<Rightarrow> string \<Rightarrow> jsval option) \<Rightarrow> header_reader \<Rightarrow> byte list list option \<Rightarrow>
   telemetry_reply \<times> ('p \<times> string \<times> string) list" where
  \<comment> \<open>the reply, and what was handed to the database: payload, nonce and digest\<close>
  "telemetry_post limit parse auth store header body =
     (if \<not> media_type_json header then (TelemetryRefused 415 ''unsupported_media_type'', [])
      else if length_header_exceeds limit header then (TelemetryRefused 413 ''payload_too_large'', [])
      else (case body of
              None \<Rightarrow> (TelemetryRefused 400 ''empty_payload'', [])
            | Some chunks \<Rightarrow>
                (case read_chunks limit 0 chunks of
                   None \<Rightarrow> (TelemetryRefused 413 ''payload_too_large'', [])
                 | Some read \<Rightarrow>
                     (case parse (concat read) of
                        None \<Rightarrow> (TelemetryRefused 400 ''invalid_payload'', [])
                      | Some payload \<Rightarrow>
                          (case auth (concat read) payload of
                             Inl (status, err) \<Rightarrow>
                               (if (status, err) = INTERNAL_ERROR then TelemetryRefused 503 ''store_unavailable''
                                else TelemetryRefused status err, [])
                           | Inr (nonce, sha) \<Rightarrow>
                               (telemetry_answer (store payload nonce sha), [(payload, nonce, sha)]))))))"

section \<open>The inventory of a server\<close>

definition RUNTIME_CONTAINERS :: "(string \<times> string list) list" where
  "RUNTIME_CONTAINERS =
     [(''aws-app-01'', [''ivrm-admin'', ''ivrm-api'', ''ivrm-home'', ''ivrm-member'', ''ivrm-contact'',
        ''ivrm-cloudflared'', ''ivrm-runtime-caddy'', ''ivrm-runtime-health'']),
      (''lightsail-herta'', [''herta-api-1'', ''herta-studio-1'', ''herta-worker-1'', ''herta-bot-1'',
        ''herta-postgres-1'', ''herta-redis-1'', ''herta-caddy-1'', ''herta-nginx-1'']),
      (''oci-minecraft-01'', [''mc-main'', ''ivrm-velocity'', ''mc-resource-router'', ''ivrm-status-api'', ''caddy''])]"

record runtime_details =
  rd_state :: string
  rd_health :: string
  rd_restartCount :: int
  rd_oomKilled :: bool
  rd_exitCode :: int
  rd_image :: string
  rd_imageId :: string

datatype runtime_container = UnavailableContainer string | ObservedContainer string runtime_details

fun rt_name :: "runtime_container \<Rightarrow> string" where
  "rt_name (UnavailableContainer n) = n"
| "rt_name (ObservedContainer n _) = n"

record runtime_inventory =
  rn_serverId :: string
  rn_observedAt :: string
  rn_containers :: "runtime_container list"

definition runtimeOnlySecrets :: "string \<Rightarrow> string option \<Rightarrow> secret_map option" where
  "runtimeOnlySecrets serverId secret =
     (case nonempty secret of
        Some s \<Rightarrow>
          if serverId = ''lightsail-herta'' \<and> chars_between is_hex_lower 64 64 s then Some [(''lightsail-herta'', s)]
          else None
      | None \<Rightarrow> None)"

definition RUNTIME_STATES :: "string list" where
  "RUNTIME_STATES = [''created'', ''running'', ''paused'', ''restarting'', ''removing'', ''exited'', ''dead'']"

definition RUNTIME_HEALTH :: "string list" where
  "RUNTIME_HEALTH = [''starting'', ''healthy'', ''unhealthy'', ''none'']"

definition image_char :: "char \<Rightarrow> bool" where
  "image_char c \<longleftrightarrow> is_alnum c \<or> c \<in> set ''._:/@-''"

definition IMAGE_PATTERN :: "string \<Rightarrow> bool" where
  \<comment> \<open>\<open>^[a-zA-Z0-9][a-zA-Z0-9._:/@-]{0,254}$\<close>\<close>
  "IMAGE_PATTERN = headed_chars is_alnum image_char 254"

definition IMAGE_ID_PATTERN :: "string \<Rightarrow> bool" where
  \<comment> \<open>\<open>^sha256:[0-9a-f]{64}$\<close>\<close>
  "IMAGE_ID_PATTERN s \<longleftrightarrow> starts_with ''sha256:'' s \<and> chars_between is_hex_lower 64 64 (drop 7 s)"

definition bounded_integer :: "int \<Rightarrow> jsval \<Rightarrow> int option" where
  "bounded_integer limit v =
     Option.bind (as_integer v) (\<lambda>n. if n < 0 \<or> n > limit then None else Some n)"

definition one_of :: "string list \<Rightarrow> jsval \<Rightarrow> string option" where
  "one_of allowed v = Option.bind (as_string v) (\<lambda>s. if s \<in> set allowed then Some s else None)"

definition matching :: "(string \<Rightarrow> bool) \<Rightarrow> jsval \<Rightarrow> string option" where
  "matching p v = Option.bind (as_string v) (\<lambda>s. if p s then Some s else None)"

definition parse_runtime_details :: "jsval \<Rightarrow> runtime_details option" where
  "parse_runtime_details row =
     (if keys_joined row \<noteq> ''collection,exitCode,health,image,imageId,name,oomKilled,restartCount,state'' then None
      else do {
        state \<leftarrow> one_of RUNTIME_STATES (get_prop row ''state'');
        health \<leftarrow> one_of RUNTIME_HEALTH (get_prop row ''health'');
        oomKilled \<leftarrow> as_bool (get_prop row ''oomKilled'');
        restartCount \<leftarrow> bounded_integer 2147483647 (get_prop row ''restartCount'');
        exitCode \<leftarrow> bounded_integer 255 (get_prop row ''exitCode'');
        image \<leftarrow> matching IMAGE_PATTERN (get_prop row ''image'');
        imageId \<leftarrow> matching IMAGE_ID_PATTERN (get_prop row ''imageId'');
        Some \<lparr> rd_state = state, rd_health = health, rd_restartCount = restartCount, rd_oomKilled = oomKilled,
          rd_exitCode = exitCode, rd_image = image, rd_imageId = imageId \<rparr>
      })"

definition parse_runtime_container :: "string \<Rightarrow> jsval \<Rightarrow> runtime_container option" where
  "parse_runtime_container name row =
     (if get_prop row ''collection'' = Str ''unavailable''
      then (if keys_joined row \<noteq> ''collection,name'' then None else Some (UnavailableContainer name))
      else if get_prop row ''collection'' = Str ''ok''
      then map_option (ObservedContainer name) (parse_runtime_details row)
      else None)"

fun read_containers :: "string list \<Rightarrow> string list \<Rightarrow> jsval list \<Rightarrow> runtime_container list option" where
  \<comment> \<open>the loop, with the names that are expected and those seen so far\<close>
  "read_containers expected seen [] = Some []"
| "read_containers expected seen (row # rows) =
     (if \<not> is_record row then None
      else (case as_string (get_prop row ''name'') of
              None \<Rightarrow> None
            | Some name \<Rightarrow>
                if name \<notin> set expected \<or> name \<in> set seen then None
                else (case parse_runtime_container name row of
                        None \<Rightarrow> None
                      | Some c \<Rightarrow> map_option ((#) c) (read_containers expected (name # seen) rows))))"

definition observed_between :: "int \<Rightarrow> int \<Rightarrow> jsval \<Rightarrow> string option" where
  \<comment> \<open>a time stamp with a zone, not before the first and not after the second instant\<close>
  "observed_between earliest latest v =
     (case as_string v of
        None \<Rightarrow> None
      | Some s \<Rightarrow>
          (case Date_parse s of
             None \<Rightarrow> None
           | Some t \<Rightarrow> if \<not> has_zone s \<or> t < earliest \<or> t > latest then None else Some s))"

definition MAX_RUNTIME_BYTES :: nat where
  "MAX_RUNTIME_BYTES = 32768"

definition runtime_of_value :: "jsval \<Rightarrow> int \<Rightarrow> runtime_inventory option" where
  "runtime_of_value payload now =
     (if \<not> is_record payload \<or> keys_joined payload \<noteq> ''containers,kind,observedAt,serverId'' \<or>
         get_prop payload ''kind'' \<noteq> Str ''runtime-inventory-v1'' then None
      else do {
        serverId \<leftarrow> as_string (get_prop payload ''serverId'');
        expected \<leftarrow> map_of RUNTIME_CONTAINERS serverId;
        observedAt \<leftarrow> observed_between (now - 300000) (now + 30000) (get_prop payload ''observedAt'');
        rows \<leftarrow> as_array (get_prop payload ''containers'');
        containers \<leftarrow> (if length rows \<noteq> length expected then None else read_containers expected [] rows);
        Some \<lparr> rn_serverId = serverId, rn_observedAt = observedAt, rn_containers = containers \<rparr>
      })"

definition parseRuntimeInventory :: "(byte list \<Rightarrow> jsval option) \<Rightarrow> byte list \<Rightarrow> int \<Rightarrow> runtime_inventory option" where
  "parseRuntimeInventory decode raw now =
     (if length raw > MAX_RUNTIME_BYTES then None
      else Option.bind (decode raw) (\<lambda>payload. runtime_of_value payload now))"

definition runtimeInventoryEnabled :: "environment \<Rightarrow> bool" where
  "runtimeInventoryEnabled env \<longleftrightarrow> env ''IVRM_RUNTIME_INVENTORY_ENABLED'' = Some ''true''"

definition runtime_authenticate ::
  "report_services \<Rightarrow> header_reader \<Rightarrow> int \<Rightarrow> byte list \<Rightarrow> runtime_inventory \<Rightarrow> agent_error + string \<times> string" where
  \<comment> \<open>the server \<open>lightsail-herta\<close> signs with a secret of its own, for this route alone\<close>
  "runtime_authenticate s header now raw payload =
     (if rn_serverId payload = ''lightsail-herta''
      then (case runtimeOnlySecrets (rn_serverId payload) (rs_env s ''IVRM_RUNTIME_HERTA_SECRET'') of
              None \<Rightarrow> Inl (503, ''service_not_configured'')
            | Some secrets \<Rightarrow>
                authenticateOperationAgentWithSecrets (rs_crypto s) header raw (rn_serverId payload) secrets now)
      else authenticate_report s header raw (rn_serverId payload) now)"

definition runtime_post ::
  "report_services \<Rightarrow> (runtime_inventory \<Rightarrow> string \<Rightarrow> string \<Rightarrow> jsval option) \<Rightarrow> header_reader \<Rightarrow> byte list list option \<Rightarrow>
   int \<Rightarrow> telemetry_reply \<times> (runtime_inventory \<times> string \<times> string) list" where
  "runtime_post s store header body now =
     (if \<not> runtimeInventoryEnabled (rs_env s) then (TelemetryRefused 404 ''not_enabled'', [])
      else telemetry_post MAX_RUNTIME_BYTES (\<lambda>raw. parseRuntimeInventory (rs_decode_json s) raw now)
        (runtime_authenticate s header now) store header body)"

record runtime_observation =
  ro_inventory :: runtime_inventory
  ro_receivedAt :: string

definition instant_text :: "jsval \<Rightarrow> string option" where
  "instant_text v = matching (\<lambda>s. Date_parse s \<noteq> None) v"

definition stored_payload :: "jsval \<Rightarrow> jsval" where
  \<comment> \<open>the payload as \<open>JSON.stringify\<close> writes it: a field that is undefined is left out\<close>
  "stored_payload row =
     Obj (filter (\<lambda>(k, v). v \<noteq> Undefined)
       [(''kind'', Str ''runtime-inventory-v1''), (''serverId'', get_prop row ''server_id''),
        (''observedAt'', get_prop row ''observed_at''), (''containers'', get_prop row ''containers'')])"

definition read_observation :: "(byte list \<Rightarrow> jsval option) \<Rightarrow> (jsval \<Rightarrow> byte list) \<Rightarrow> jsval \<Rightarrow> runtime_observation option" where
  "read_observation decode encode row =
     do {
       receivedAt \<leftarrow> instant_text (get_prop row ''received_at'');
       observedAt \<leftarrow> instant_text (get_prop row ''observed_at'');
       inventory \<leftarrow> parseRuntimeInventory decode (encode (stored_payload row)) (ms_of observedAt);
       Some \<lparr> ro_inventory = inventory, ro_receivedAt = receivedAt \<rparr>
     }"

definition getRuntimeInventory ::
  "environment \<Rightarrow> (byte list \<Rightarrow> jsval option) \<Rightarrow> (jsval \<Rightarrow> byte list) \<Rightarrow> jsval option \<Rightarrow> runtime_observation list option" where
  \<comment> \<open>the answer of the database; \<open>encode\<close> is \<open>JSON.stringify\<close> in UTF-8\<close>
  "getRuntimeInventory env decode encode rows =
     (if \<not> runtimeInventoryEnabled env then Some []
      else Option.bind (Option.bind rows as_array) (map_rows (read_observation decode encode)))"

section \<open>The cloud monitor\<close>

datatype cloud_status = CloudOperational | CloudDegraded | CloudOutage | CloudUnknown | CloudError

definition cloud_status_of :: "string \<Rightarrow> cloud_status option" where
  "cloud_status_of s = map_of
     [(''operational'', CloudOperational), (''degraded'', CloudDegraded), (''outage'', CloudOutage),
      (''unknown'', CloudUnknown), (''error'', CloudError)] s"

definition CLOUD_CODES :: "string list" where
  "CLOUD_CODES = [''ok'', ''not_configured'', ''auth_error'', ''forbidden'', ''timeout'', ''provider_error'',
     ''not_found'', ''unexpected_state'', ''dns_mismatch'']"

record cloud_result =
  cr_id :: string
  cr_status :: cloud_status
  cr_reasonCode :: string

record cloud_envelope =
  cv_serverId :: string
  cv_observedAt :: string
  cv_results :: "cloud_result list"

definition CLOUD_SERVER_PATTERN :: "string \<Rightarrow> bool" where
  \<comment> \<open>\<open>^[a-zA-Z0-9][a-zA-Z0-9_-]{0,127}$\<close>\<close>
  "CLOUD_SERVER_PATTERN = headed_chars is_alnum (\<lambda>c. is_alnum c \<or> c = CHR ''_'' \<or> c = CHR ''-'') 127"

definition CLOUD_ID_PATTERN :: "string \<Rightarrow> bool" where
  \<comment> \<open>\<open>^[a-z0-9][a-z0-9-]{0,79}$\<close>\<close>
  "CLOUD_ID_PATTERN = headed_chars (\<lambda>c. is_lower c \<or> is_digit c) (\<lambda>c. is_lower c \<or> is_digit c \<or> c = CHR ''-'') 79"

definition cloud_status_value :: "jsval \<Rightarrow> cloud_status option" where
  "cloud_status_value v = Option.bind (as_string v) cloud_status_of"

definition parse_cloud_result :: "jsval \<Rightarrow> cloud_result option" where
  "parse_cloud_result item =
     (if \<not> is_record item \<or> keys_joined item \<noteq> ''id,reasonCode,status'' then None
      else do {
        i \<leftarrow> matching CLOUD_ID_PATTERN (get_prop item ''id'');
        status \<leftarrow> cloud_status_value (get_prop item ''status'');
        reasonCode \<leftarrow> one_of CLOUD_CODES (get_prop item ''reasonCode'');
        if status = CloudOperational \<and> reasonCode \<noteq> ''ok'' then None
        else Some \<lparr> cr_id = i, cr_status = status, cr_reasonCode = reasonCode \<rparr>
      })"

fun read_results :: "string list \<Rightarrow> jsval list \<Rightarrow> cloud_result list option" where
  "read_results seen [] = Some []"
| "read_results seen (item # items) =
     (case parse_cloud_result item of
        None \<Rightarrow> None
      | Some r \<Rightarrow>
          if cr_id r \<in> set seen then None
          else map_option ((#) r) (read_results (cr_id r # seen) items))"

definition parseCloudEnvelope :: "(byte list \<Rightarrow> jsval option) \<Rightarrow> byte list \<Rightarrow> int \<Rightarrow> cloud_envelope option" where
  "parseCloudEnvelope decode raw now =
     do {
       row \<leftarrow> decode raw;
       if \<not> is_record row \<or> keys_joined row \<noteq> ''kind,observedAt,results,serverId'' \<or>
          get_prop row ''kind'' \<noteq> Str ''cloud-monitor-v1'' then None
       else do {
         serverId \<leftarrow> matching CLOUD_SERVER_PATTERN (get_prop row ''serverId'');
         observedAt \<leftarrow> observed_between (now - 300000) (now + 30000) (get_prop row ''observedAt'');
         items \<leftarrow> as_array (get_prop row ''results'');
         results \<leftarrow> (if length items < 1 \<or> length items > 50 then None else read_results [] items);
         Some \<lparr> cv_serverId = serverId, cv_observedAt = observedAt, cv_results = results \<rparr>
       }
     }"

datatype cloud_health = Reported cloud_status | StaleCloud

definition cloudHealth :: "cloud_status \<Rightarrow> string option \<Rightarrow> int \<Rightarrow> int \<Rightarrow> cloud_health" where
  "cloudHealth status receivedAt staleSeconds now =
     (case nonempty receivedAt of
        None \<Rightarrow> Reported CloudUnknown
      | Some s \<Rightarrow>
          (case Date_parse s of
             None \<Rightarrow> Reported CloudUnknown
           | Some t \<Rightarrow>
               if t > now + 30000 then Reported CloudUnknown
               else if now - t > staleSeconds * 1000 then StaleCloud else Reported status))"

definition MAX_CLOUD_BYTES :: nat where
  "MAX_CLOUD_BYTES = 16 * 1024"

definition cloud_post ::
  "report_services \<Rightarrow> (cloud_envelope \<Rightarrow> string \<Rightarrow> string \<Rightarrow> jsval option) \<Rightarrow> header_reader \<Rightarrow> byte list list option \<Rightarrow>
   int \<Rightarrow> telemetry_reply \<times> (cloud_envelope \<times> string \<times> string) list" where
  "cloud_post s store header body now =
     telemetry_post MAX_CLOUD_BYTES (\<lambda>raw. parseCloudEnvelope (rs_decode_json s) raw now)
       (\<lambda>raw payload. authenticate_report s header raw (cv_serverId payload) now) store header body"

record cloud_target =
  ct_id :: string
  ct_provider :: string
  ct_display_name :: string
  ct_enabled :: bool
  ct_status :: cloud_status
  ct_reason_code :: string
  ct_received_at :: "string option"
  ct_observed_at :: "string option"
  ct_stale_after_seconds :: int

definition parse_cloud_target :: "jsval \<Rightarrow> cloud_target option" where
  "parse_cloud_target row =
     do {
       i \<leftarrow> as_string (get_prop row ''id'');
       displayName \<leftarrow> as_string (get_prop row ''display_name'');
       provider \<leftarrow> as_string (get_prop row ''provider'');
       enabled \<leftarrow> as_bool (get_prop row ''enabled'');
       status \<leftarrow> cloud_status_value (get_prop row ''status'');
       reasonCode \<leftarrow> as_string (get_prop row ''reason_code'');
       stale \<leftarrow> as_integer (get_prop row ''stale_after_seconds'');
       _ \<leftarrow> (if stale < 120 \<or> stale > 86400 then None else Some ());
       receivedAt \<leftarrow> nullable instant_text (get_prop row ''received_at'');
       observedAt \<leftarrow> nullable instant_text (get_prop row ''observed_at'');
       Some \<lparr> ct_id = i, ct_provider = provider, ct_display_name = displayName, ct_enabled = enabled,
         ct_status = status, ct_reason_code = reasonCode, ct_received_at = receivedAt, ct_observed_at = observedAt,
         ct_stale_after_seconds = stale \<rparr>
     }"

definition getCloudTargets :: "jsval option \<Rightarrow> cloud_target list option" where
  "getCloudTargets answered = Option.bind (Option.bind answered as_array) (map_rows parse_cloud_target)"

section \<open>What reaches the database\<close>

definition signed_payload ::
  "nat \<Rightarrow> (byte list \<Rightarrow> 'p option) \<Rightarrow> ('p \<Rightarrow> string) \<Rightarrow> report_services \<Rightarrow> ('p \<Rightarrow> secret_map \<Rightarrow> bool) \<Rightarrow> header_reader \<Rightarrow>
   byte list list option \<Rightarrow> int \<Rightarrow> 'p \<Rightarrow> string \<Rightarrow> string \<Rightarrow> bool" where
  \<comment> \<open>the body is within the limit, is the payload, and is signed by its server with one of the secrets that
     are trusted for it\<close>
  "signed_payload limit parse server_of s trusted header body now payload nonce sha \<longleftrightarrow>
     (\<exists>chunks secrets. body = Some chunks \<and> length (concat chunks) \<le> limit \<and> parse (concat chunks) = Some payload \<and>
        trusted payload secrets \<and> header ''x-ivrm-agent-id'' = Some (server_of payload) \<and>
        authentic (rs_crypto s) header (concat chunks) (server_of payload) secrets now \<and>
        header ''x-ivrm-nonce'' = Some nonce \<and> sha = ag_sha256_hex (rs_crypto s) (concat chunks))"

locale telemetry_route =
  fixes limit :: nat
    and parse :: "report_services \<Rightarrow> int \<Rightarrow> byte list \<Rightarrow> 'p option"
    and server_of :: "'p \<Rightarrow> string"
    and auth :: "report_services \<Rightarrow> header_reader \<Rightarrow> int \<Rightarrow> byte list \<Rightarrow> 'p \<Rightarrow> agent_error + string \<times> string"
    and trusted :: "report_services \<Rightarrow> 'p \<Rightarrow> secret_map \<Rightarrow> bool"
    and well_formed :: "int \<Rightarrow> 'p \<Rightarrow> bool"
  assumes parse_well_formed: "parse s now raw = Some payload \<Longrightarrow> well_formed now payload"
    and parse_server: "parse s now raw = Some payload \<Longrightarrow> server_of payload \<noteq> []"
    and auth_sound: "server_of payload \<noteq> [] \<Longrightarrow> auth s header now raw payload = Inr (nonce, sha) \<Longrightarrow>
      \<exists>secrets. trusted s payload secrets \<and> header ''x-ivrm-agent-id'' = Some (server_of payload) \<and>
        authentic (rs_crypto s) header raw (server_of payload) secrets now \<and>
        header ''x-ivrm-nonce'' = Some nonce \<and> sha = ag_sha256_hex (rs_crypto s) raw"
begin

lemma stored_telemetry:
  assumes "telemetry_post limit (parse s now) (auth s header now) store header body = (reply, calls)" "calls \<noteq> []"
  shows "\<exists>payload nonce sha. calls = [(payload, nonce, sha)] \<and> well_formed now payload \<and>
    signed_payload limit (parse s now) server_of s (trusted s) header body now payload nonce sha \<and>
    reply = telemetry_answer (store payload nonce sha)"
proof -
  from assms obtain chunks read payload nonce sha where body: "body = Some chunks"
    and read: "read_chunks limit 0 chunks = Some read"
    and parsed: "parse s now (concat read) = Some payload"
    and signed: "auth s header now (concat read) payload = Inr (nonce, sha)"
    and calls: "calls = [(payload, nonce, sha)]" "reply = telemetry_answer (store payload nonce sha)"
    by (auto simp: telemetry_post_def split: if_splits option.splits sum.splits prod.splits)
  from read have chunks: "read = chunks" "length (concat chunks) \<le> limit"
    by (auto simp: read_chunks_iff split: if_splits)
  from auth_sound [OF parse_server [OF parsed] signed] body chunks parsed
  have "signed_payload limit (parse s now) server_of s (trusted s) header body now payload nonce sha"
    by (auto simp: signed_payload_def)
  with parse_well_formed [OF parsed] calls show ?thesis by blast
qed

end

lemma authenticate_report_sound:
  assumes "serverId \<noteq> []" "authenticate_report s header raw serverId now = Inr (nonce, sha)"
  shows "\<exists>secrets. readAgentSecrets s = Inr secrets \<and> header ''x-ivrm-agent-id'' = Some serverId \<and>
    authentic (rs_crypto s) header raw serverId secrets now \<and>
    header ''x-ivrm-nonce'' = Some nonce \<and> sha = ag_sha256_hex (rs_crypto s) raw"
proof -
  from assms have named: "header_or_empty header ''x-ivrm-agent-id'' = serverId"
    and checked: "check_signature (rs_crypto s) header raw serverId (readAgentSecrets s) now = Inr (nonce, sha)"
    by (auto simp: authenticate_report_def split: if_split_asm)
  obtain secrets where secrets: "readAgentSecrets s = Inr secrets"
    using checked no_secrets by (cases "readAgentSecrets s") auto
  have "header ''x-ivrm-agent-id'' = Some serverId"
    using named assms(1) by (auto simp: header_or_empty_def split: option.splits)
  with secrets check_signature_sound [OF checked [unfolded secrets]] show ?thesis by blast
qed

section \<open>Well-formed inventories\<close>

lemma bind_if_None: "Option.bind a (\<lambda>x. if P x then None else Some (f x)) = Some y \<longleftrightarrow> (\<exists>x. a = Some x \<and> \<not> P x \<and> y = f x)"
  by (cases a) auto

lemma parse_runtime_container_name: "parse_runtime_container name row = Some c \<Longrightarrow> rt_name c = name"
  by (auto simp: parse_runtime_container_def split: if_splits)

lemma read_containers_names:
  assumes "read_containers expected seen rows = Some cs"
  shows "length cs = length rows \<and> set (map rt_name cs) \<subseteq> set expected \<and> distinct (map rt_name cs) \<and>
    set (map rt_name cs) \<inter> set seen = {}"
  using assms
proof (induction expected seen rows arbitrary: cs rule: read_containers.induct)
  case (2 expected seen row rows)
  from "2.prems" obtain name c ds where row: "is_record row" "as_string (get_prop row ''name'') = Some name"
    "name \<in> set expected" "name \<notin> set seen" "parse_runtime_container name row = Some c"
    "read_containers expected (name # seen) rows = Some ds" and cs: "cs = c # ds"
    by (auto split: if_splits option.splits)
  from "2.IH" [of name c ds] row have "length ds = length rows \<and> set (map rt_name ds) \<subseteq> set expected \<and>
      distinct (map rt_name ds) \<and> set (map rt_name ds) \<inter> set (name # seen) = {}" by simp
  with row parse_runtime_container_name [OF row(5)] show ?case unfolding cs by auto
qed simp

definition details_ok :: "runtime_details \<Rightarrow> bool" where
  "details_ok d \<longleftrightarrow> rd_state d \<in> set RUNTIME_STATES \<and> rd_health d \<in> set RUNTIME_HEALTH \<and>
     0 \<le> rd_restartCount d \<and> rd_restartCount d < 2 ^ 31 \<and> 0 \<le> rd_exitCode d \<and> rd_exitCode d < 256 \<and>
     IMAGE_PATTERN (rd_image d) \<and> IMAGE_ID_PATTERN (rd_imageId d)"

fun container_ok :: "runtime_container \<Rightarrow> bool" where
  "container_ok (UnavailableContainer _) \<longleftrightarrow> True"
| "container_ok (ObservedContainer _ d) \<longleftrightarrow> details_ok d"

lemma telemetry_one_of_SomeD: "one_of allowed v = Some s \<Longrightarrow> v = Str s \<and> s \<in> set allowed"
  by (cases v) (auto simp: one_of_def split: if_splits)

lemma matching_SomeD: "matching p v = Some s \<Longrightarrow> v = Str s \<and> p s"
  by (cases v) (auto simp: matching_def split: if_splits)

lemma bounded_integer_SomeD: "bounded_integer limit v = Some n \<Longrightarrow> 0 \<le> n \<and> n \<le> limit"
  by (auto simp: bounded_integer_def bind_eq_Some_conv split: if_splits)

lemma parse_runtime_container_ok:
  assumes "parse_runtime_container name row = Some c"
  shows "container_ok c"
proof (cases c)
  case (ObservedContainer n d)
  with assms have "parse_runtime_details row = Some d"
    by (auto simp: parse_runtime_container_def split: if_splits)
  then have "details_ok d"
    by (auto simp: parse_runtime_details_def bind_eq_Some_conv details_ok_def
        dest!: telemetry_one_of_SomeD matching_SomeD bounded_integer_SomeD split: if_splits)
  with ObservedContainer show ?thesis by simp
qed simp

lemma read_containers_ok:
  "read_containers expected seen rows = Some cs \<Longrightarrow> list_all container_ok cs"
proof (induction expected seen rows arbitrary: cs rule: read_containers.induct)
  case (2 expected seen row rows)
  then show ?case by (auto dest: parse_runtime_container_ok split: if_splits option.splits)
qed simp

lemma observed_between_SomeD:
  assumes "observed_between earliest latest v = Some s"
  shows "\<exists>t. Date_parse s = Some t \<and> has_zone s \<and> earliest \<le> t \<and> t \<le> latest"
  using assms by (auto simp: observed_between_def split: option.splits if_splits)

definition inventory_ok :: "int \<Rightarrow> runtime_inventory \<Rightarrow> bool" where
  "inventory_ok now p \<longleftrightarrow>
     (\<exists>expected t. map_of RUNTIME_CONTAINERS (rn_serverId p) = Some expected \<and>
        distinct (map rt_name (rn_containers p)) \<and> set (map rt_name (rn_containers p)) = set expected \<and>
        list_all container_ok (rn_containers p) \<and>
        Date_parse (rn_observedAt p) = Some t \<and> now - 300000 \<le> t \<and> t \<le> now + 30000)"

lemma RUNTIME_CONTAINERS_distinct:
  "map_of RUNTIME_CONTAINERS serverId = Some expected \<Longrightarrow> distinct expected \<and> serverId \<noteq> []"
  by (auto simp: RUNTIME_CONTAINERS_def split: if_splits)

lemma complete_names:
  assumes "length xs = length ys" "set xs \<subseteq> set ys" "distinct xs" "distinct ys"
  shows "set xs = set ys"
  using assms by (metis card_subset_eq distinct_card finite_set)

lemma parseRuntimeInventory_ok:
  assumes "parseRuntimeInventory decode raw now = Some p"
  shows "inventory_ok now p \<and> rn_serverId p \<noteq> []"
proof -
  from assms obtain expected rows cs where e: "map_of RUNTIME_CONTAINERS (rn_serverId p) = Some expected"
    and o: "\<exists>v. observed_between (now - 300000) (now + 30000) v = Some (rn_observedAt p)"
    and l: "length rows = length expected" and cs: "read_containers expected [] rows = Some cs"
    and p: "rn_containers p = cs"
    by (auto simp: parseRuntimeInventory_def runtime_of_value_def bind_eq_Some_conv split: if_splits) blast
  note e' = RUNTIME_CONTAINERS_distinct [OF e]
  from read_containers_names [OF cs] l e' have "set (map rt_name cs) = set expected"
    by (intro complete_names) auto
  with read_containers_names [OF cs] read_containers_ok [OF cs] o e e' p show ?thesis
    by (auto simp: inventory_ok_def dest!: observed_between_SomeD)
qed

definition runtime_trusted :: "report_services \<Rightarrow> runtime_inventory \<Rightarrow> secret_map \<Rightarrow> bool" where
  \<comment> \<open>the dedicated secret signs for its server only, and no other secret does\<close>
  "runtime_trusted s p secrets \<longleftrightarrow>
     (if rn_serverId p = ''lightsail-herta''
      then (\<exists>secret. rs_env s ''IVRM_RUNTIME_HERTA_SECRET'' = Some secret \<and> length secret = 64 \<and>
              secrets = [(''lightsail-herta'', secret)])
      else readAgentSecrets s = Inr secrets)"

lemma runtime_authenticate_sound:
  assumes "rn_serverId p \<noteq> []" "runtime_authenticate s header now raw p = Inr (nonce, sha)"
  shows "\<exists>secrets. runtime_trusted s p secrets \<and> header ''x-ivrm-agent-id'' = Some (rn_serverId p) \<and>
    authentic (rs_crypto s) header raw (rn_serverId p) secrets now \<and>
    header ''x-ivrm-nonce'' = Some nonce \<and> sha = ag_sha256_hex (rs_crypto s) raw"
proof (cases "rn_serverId p = ''lightsail-herta''")
  case True
  with assms obtain secrets where secrets: "runtimeOnlySecrets (rn_serverId p) (rs_env s ''IVRM_RUNTIME_HERTA_SECRET'') = Some secrets"
    and auth: "authenticateOperationAgentWithSecrets (rs_crypto s) header raw (rn_serverId p) secrets now = Inr (nonce, sha)"
    by (auto simp: runtime_authenticate_def split: option.splits)
  from secrets True have "runtime_trusted s p secrets"
    by (auto simp: runtimeOnlySecrets_def runtime_trusted_def chars_between_def
        dest!: nonempty_SomeD split: option.splits if_splits)
  moreover from auth have named: "header_or_empty header ''x-ivrm-agent-id'' = rn_serverId p"
    and checked: "check_signature (rs_crypto s) header raw (rn_serverId p) (Inr secrets) now = Inr (nonce, sha)"
    by (auto simp: authenticateOperationAgentWithSecrets_def Let_def split: if_split_asm)
  moreover have "header ''x-ivrm-agent-id'' = Some (rn_serverId p)"
    using named assms(1) by (auto simp: header_or_empty_def split: option.splits)
  ultimately show ?thesis using check_signature_sound [OF checked] by blast
next
  case False
  with assms authenticate_report_sound [OF assms(1)] show ?thesis
    by (auto simp: runtime_authenticate_def runtime_trusted_def)
qed

interpretation runtime_reports: telemetry_route MAX_RUNTIME_BYTES
  "\<lambda>s now raw. parseRuntimeInventory (rs_decode_json s) raw now" rn_serverId runtime_authenticate runtime_trusted inventory_ok
  by standard (use parseRuntimeInventory_ok runtime_authenticate_sound in blast)+

section \<open>Well-formed cloud results\<close>

definition result_ok :: "cloud_result \<Rightarrow> bool" where
  "result_ok r \<longleftrightarrow> CLOUD_ID_PATTERN (cr_id r) \<and> cr_reasonCode r \<in> set CLOUD_CODES \<and>
     (cr_status r = CloudOperational \<longrightarrow> cr_reasonCode r = ''ok'')"

definition envelope_ok :: "int \<Rightarrow> cloud_envelope \<Rightarrow> bool" where
  "envelope_ok now p \<longleftrightarrow>
     (\<exists>t. CLOUD_SERVER_PATTERN (cv_serverId p) \<and> 1 \<le> length (cv_results p) \<and> length (cv_results p) \<le> 50 \<and>
        distinct (map cr_id (cv_results p)) \<and> list_all result_ok (cv_results p) \<and>
        Date_parse (cv_observedAt p) = Some t \<and> now - 300000 \<le> t \<and> t \<le> now + 30000)"

lemma parse_cloud_result_ok: "parse_cloud_result item = Some r \<Longrightarrow> result_ok r"
  by (auto simp: parse_cloud_result_def bind_eq_Some_conv result_ok_def
      dest!: matching_SomeD telemetry_one_of_SomeD split: if_splits)

lemma read_results_ok:
  assumes "read_results seen items = Some rs"
  shows "length rs = length items \<and> distinct (map cr_id rs) \<and> set (map cr_id rs) \<inter> set seen = {} \<and> list_all result_ok rs"
  using assms
proof (induction seen items arbitrary: rs rule: read_results.induct)
  case (2 seen item items)
  from "2.prems" obtain r ds where r: "parse_cloud_result item = Some r" "cr_id r \<notin> set seen"
    "read_results (cr_id r # seen) items = Some ds" and rs: "rs = r # ds"
    by (auto split: if_splits option.splits)
  from "2.IH" [of r ds] r parse_cloud_result_ok [OF r(1)] show ?case unfolding rs by auto
qed simp

lemma parseCloudEnvelope_ok:
  assumes "parseCloudEnvelope decode raw now = Some p"
  shows "envelope_ok now p \<and> cv_serverId p \<noteq> []"
proof -
  from assms obtain items where
    o: "\<exists>v. observed_between (now - 300000) (now + 30000) v = Some (cv_observedAt p)"
    and i: "\<exists>v. matching CLOUD_SERVER_PATTERN v = Some (cv_serverId p)"
    and l: "\<not> (length items < 1 \<or> length items > 50)" and rs: "read_results [] items = Some (cv_results p)"
    by (auto simp: parseCloudEnvelope_def bind_eq_Some_conv split: if_splits) blast
  from l have l': "1 \<le> length items \<and> length items \<le> 50" by linarith
  from i have "CLOUD_SERVER_PATTERN (cv_serverId p)" by (auto dest: matching_SomeD)
  moreover then have "cv_serverId p \<noteq> []" by (auto simp: CLOUD_SERVER_PATTERN_def headed_chars_def)
  ultimately show ?thesis
    using read_results_ok [OF rs] l' o by (auto simp: envelope_ok_def dest!: observed_between_SomeD)
qed

interpretation cloud_reports: telemetry_route MAX_CLOUD_BYTES
  "\<lambda>s now raw. parseCloudEnvelope (rs_decode_json s) raw now" cv_serverId
  "\<lambda>s header now raw payload. authenticate_report s header raw (cv_serverId payload) now"
  "\<lambda>s p secrets. readAgentSecrets s = Inr secrets" envelope_ok
  by standard (use parseCloudEnvelope_ok authenticate_report_sound in blast)+

lemma stored_cloud_results:
  "cloud_post s store header body now = (reply, calls) \<Longrightarrow> calls \<noteq> [] \<Longrightarrow>
     \<exists>payload nonce sha. calls = [(payload, nonce, sha)] \<and> envelope_ok now payload \<and>
       reply = telemetry_answer (store payload nonce sha)"
  unfolding cloud_post_def by (drule cloud_reports.stored_telemetry) auto

text \<open>A runtime inventory reaches the database only while the feature is enabled, at most once per request, and
  only when the server it names signed it: with the dedicated secret for lightsail-herta and nothing else, with
  the agents' secrets for any other server. It then lists every container expected on that server exactly
  once, each unavailable or within the bounds of its fields, and was observed between five minutes ago and
  half a minute ahead. It is accepted exactly when the database says so.\<close>

theorem stored_inventory_is_complete:
  assumes "runtime_post s store header body now = (reply, calls)" "calls \<noteq> []"
  shows "\<exists>payload nonce sha. calls = [(payload, nonce, sha)] \<and> runtimeInventoryEnabled (rs_env s) \<and>
    inventory_ok now payload \<and>
    signed_payload MAX_RUNTIME_BYTES (\<lambda>raw. parseRuntimeInventory (rs_decode_json s) raw now) rn_serverId s
      (runtime_trusted s) header body now payload nonce sha \<and>
    (reply = TelemetryAccepted \<longleftrightarrow> store payload nonce sha = Some (Str ''accepted''))"
proof -
  from assms have e: "runtimeInventoryEnabled (rs_env s)" and p: "telemetry_post MAX_RUNTIME_BYTES
      (\<lambda>raw. parseRuntimeInventory (rs_decode_json s) raw now) (runtime_authenticate s header now) store header body = (reply, calls)"
    by (auto simp: runtime_post_def split: if_splits)
  have "telemetry_answer a = TelemetryAccepted \<longleftrightarrow> a = Some (Str ''accepted'')" for a
    by (auto simp: telemetry_answer_def split: option.splits jsval.splits)
  with runtime_reports.stored_telemetry [OF p assms(2)] e show ?thesis by metis
qed

lemma keys_joined_sorted: "sorted (map fst fs) \<Longrightarrow> keys_joined (Obj fs) = join '','' (map fst fs)"
  by (simp add: keys_joined_def sorted_sort_id)

definition sample_row :: "string \<Rightarrow> jsval" where
  "sample_row name = Obj [(''collection'', Str ''unavailable''), (''name'', Str name)]"

definition sample_inventory_value :: jsval where
  "sample_inventory_value = Obj [(''containers'', Arr (map sample_row
       [''caddy'', ''mc-main'', ''ivrm-velocity'', ''mc-resource-router'', ''ivrm-status-api''])),
     (''kind'', Str ''runtime-inventory-v1''), (''observedAt'', Str (iso_text 1700000000000)),
     (''serverId'', Str ''oci-minecraft-01'')]"

definition sample_inventory :: runtime_inventory where
  "sample_inventory = \<lparr> rn_serverId = ''oci-minecraft-01'', rn_observedAt = iso_text 1700000000000,
     rn_containers = map UnavailableContainer
       [''caddy'', ''mc-main'', ''ivrm-velocity'', ''mc-resource-router'', ''ivrm-status-api''] \<rparr>"

lemma sample_row_read: "parse_runtime_container name (sample_row name) = Some (UnavailableContainer name)"
proof -
  have "keys_joined (sample_row name) = ''collection,name''"
    by (simp add: sample_row_def keys_joined_def less_char_def)
  then show ?thesis by (simp add: parse_runtime_container_def sample_row_def prop_or_def)
qed

lemma sample_inventory_read: "runtime_of_value sample_inventory_value 1700000000000 = Some sample_inventory"
proof -
  have keys: "keys_joined sample_inventory_value = ''containers,kind,observedAt,serverId''"
    by (simp add: sample_inventory_value_def keys_joined_def less_char_def)
  have zone: "has_zone (iso_text 1700000000000)" by (simp add: has_zone_def iso_text_def ends_with_def Let_def split: prod.splits)
  have named: "is_record (sample_row name)" "as_string (get_prop (sample_row name) ''name'') = Some name" for name
    by (simp_all add: sample_row_def prop_or_def)
  show ?thesis
    by (simp add: runtime_of_value_def keys) (simp add: sample_inventory_value_def sample_inventory_def prop_or_def RUNTIME_CONTAINERS_def
        observed_between_def zone max_time_def named sample_row_read)
qed

definition sample_inventory_services :: report_services where
  "sample_inventory_services = (sample_reports ''oci-minecraft-01'' sample_inventory_value)
     \<lparr> rs_env := map_of [(''IVRM_AGENT_SECRETS_JSON'', ''j''), (''IVRM_RUNTIME_INVENTORY_ENABLED'', ''true'')] \<rparr>"

theorem stored_inventory_is_complete_witness:
  "inventory_ok 1700000000000 sample_inventory \<and>
     fst (runtime_post sample_inventory_services (\<lambda>_ _ _. Some (Str ''accepted'')) (sample_header ''oci-minecraft-01'')
       (Some [[1]]) 1700000000000) = TelemetryAccepted"
proof -
  let ?post = "runtime_post sample_inventory_services (\<lambda>_ _ _. Some (Str ''accepted'')) (sample_header ''oci-minecraft-01'')
       (Some [[1]]) 1700000000000"
  have secrets: "readAgentSecrets sample_inventory_services = Inr [(''oci-minecraft-01'', replicate 32 CHR ''k'')]"
    by (simp add: readAgentSecrets_def parseAgentSecretMaps_def parseAgentSecretMap_def sample_inventory_services_def
        sample_reports_def nonempty_def js_eval)
  have services: "rs_crypto sample_inventory_services = sample_agent_crypto"
    "rs_decode_json sample_inventory_services = (\<lambda>_. Some sample_inventory_value)"
    "runtimeInventoryEnabled (rs_env sample_inventory_services)"
    by (simp_all add: sample_inventory_services_def sample_reports_def runtimeInventoryEnabled_def)
  have header: "media_type_json (sample_header i)" "\<not> length_header_exceeds n (sample_header i)" for i n
    by (simp_all add: media_type_json_def length_header_exceeds_def sample_header_def js_eval)
  have not_herta: "rn_serverId sample_inventory = ''oci-minecraft-01''" by (simp add: sample_inventory_def)
  have post: "snd ?post \<noteq> [] \<and> fst (hd (snd ?post)) = sample_inventory \<and> length (snd ?post) = 1"
    by (simp add: runtime_post_def services telemetry_post_def header read_chunks_iff MAX_RUNTIME_BYTES_def
        parseRuntimeInventory_def sample_inventory_read runtime_authenticate_def not_herta authenticate_report_def
        sample_header_id secrets sample_check)
  then obtain payload nonce sha where "snd ?post = [(payload, nonce, sha)]" "inventory_ok 1700000000000 payload"
    "fst ?post = TelemetryAccepted"
    using stored_inventory_is_complete [of sample_inventory_services "\<lambda>_ _ _. Some (Str ''accepted'')"
        "sample_header ''oci-minecraft-01''" "Some [[1]]" 1700000000000 "fst ?post" "snd ?post"] by auto
  with post show ?thesis by simp
qed

end
