(* ===== verification/Services.thy ===== *)
theory Services
  imports Minecraft Telemetry
begin

text \<open>
  The catalogue of the public services (\<open>lib/service-catalog.ts\<close>) and what the page of the services makes of
  the monitoring snapshot, the cloud targets, the Minecraft overview and the runtime inventory
  (\<open>app/services/page.tsx\<close>): the checks, containers and health of every service. The rows of the cloud page
  (\<open>app/cloud/page.tsx\<close>) use the same reading of a cloud target.
\<close>

section \<open>The catalogue\<close>

record brand_service =
  bs_id :: string
  bs_domain :: string
  bs_label :: string
  bs_provider :: string
  bs_serverId :: "string option"
  bs_containers :: "string list"
  bs_dependencies :: "string list"
  bs_cloudTargets :: "string list"
  bs_publicTarget :: "string option"
  bs_operationTarget :: bool

definition shared_runtime :: "string list" where
  "shared_runtime = [''ivrm-cloudflared'', ''ivrm-runtime-caddy'']"

definition BRAND_SERVICES :: "brand_service list" where
  "BRAND_SERVICES =
    [\<lparr> bs_id = ''minecraft'', bs_domain = ''mc.ivrm.jp'', bs_label = ''Minecraft'', bs_provider = ''OCI'',
       bs_serverId = Some ''oci-minecraft-01'', bs_containers = [''mc-main'', ''ivrm-velocity''], bs_dependencies = [],
       bs_cloudTargets = [''oci-minecraft''], bs_publicTarget = None, bs_operationTarget = True \<rparr>,
     \<lparr> bs_id = ''status'', bs_domain = ''status.ivrm.jp'', bs_label = ''Public Status'', bs_provider = ''OCI'',
       bs_serverId = Some ''oci-minecraft-01'', bs_containers = [''ivrm-status-api'', ''caddy''], bs_dependencies = [],
       bs_cloudTargets = [''oci-minecraft''], bs_publicTarget = Some ''http-status'', bs_operationTarget = False \<rparr>,
     \<lparr> bs_id = ''member'', bs_domain = ''member.ivrm.jp'', bs_label = ''Member'', bs_provider = ''AWS EC2'',
       bs_serverId = Some ''aws-app-01'', bs_containers = [''ivrm-member''], bs_dependencies = ''ivrm-api'' # shared_runtime,
       bs_cloudTargets = [''aws-app'', ''cloudflare-runtime-tunnel''], bs_publicTarget = Some ''http-member'',
       bs_operationTarget = False \<rparr>,
     \<lparr> bs_id = ''admin'', bs_domain = ''admin.ivrm.jp'', bs_label = ''Admin'', bs_provider = ''AWS EC2'',
       bs_serverId = Some ''aws-app-01'', bs_containers = [''ivrm-admin''], bs_dependencies = ''ivrm-api'' # shared_runtime,
       bs_cloudTargets = [''aws-app'', ''cloudflare-runtime-tunnel''], bs_publicTarget = Some ''http-admin'',
       bs_operationTarget = False \<rparr>,
     \<lparr> bs_id = ''herta'', bs_domain = ''herta.ivrm.jp'', bs_label = ''Herta'', bs_provider = ''AWS Lightsail'',
       bs_serverId = Some ''lightsail-herta'',
       bs_containers = [''herta-api-1'', ''herta-studio-1'', ''herta-worker-1'', ''herta-bot-1''],
       bs_dependencies = [''herta-postgres-1'', ''herta-redis-1'', ''herta-caddy-1'', ''herta-nginx-1''],
       bs_cloudTargets = [''lightsail-herta''], bs_publicTarget = Some ''http-herta'', bs_operationTarget = False \<rparr>,
     \<lparr> bs_id = ''home'', bs_domain = ''ivrm.jp'', bs_label = ''IVRM Home'', bs_provider = ''AWS EC2'',
       bs_serverId = Some ''aws-app-01'', bs_containers = [''ivrm-home''], bs_dependencies = shared_runtime,
       bs_cloudTargets = [''aws-app'', ''cloudflare-runtime-tunnel''], bs_publicTarget = Some ''http-ivrm-home'',
       bs_operationTarget = False \<rparr>,
     \<lparr> bs_id = ''api'', bs_domain = ''api.ivrm.jp'', bs_label = ''IVRM API'', bs_provider = ''AWS EC2'',
       bs_serverId = Some ''aws-app-01'', bs_containers = [''ivrm-api''], bs_dependencies = shared_runtime,
       bs_cloudTargets = [''aws-app'', ''cloudflare-runtime-tunnel''], bs_publicTarget = Some ''http-api'',
       bs_operationTarget = False \<rparr>,
     \<lparr> bs_id = ''console'', bs_domain = ''console.ivrm.jp'', bs_label = ''Operations Console'', bs_provider = ''Vercel'',
       bs_serverId = None, bs_containers = [], bs_dependencies = [],
       bs_cloudTargets = [''vercel-console'', ''cloudflare-console-dns''], bs_publicTarget = Some ''http-console'',
       bs_operationTarget = False \<rparr>,
     \<lparr> bs_id = ''ivmz'', bs_domain = ''ivmz.ivrm.jp'', bs_label = ''ivmz Home'', bs_provider = ''Netlify'',
       bs_serverId = None, bs_containers = [], bs_dependencies = [],
       bs_cloudTargets = [''netlify-home''], bs_publicTarget = Some ''http-home'', bs_operationTarget = False \<rparr>]"

datatype service_health = ServiceOperational | ServiceAttention | ServiceUnknown

definition combineServiceHealth :: "service_health list \<Rightarrow> service_health" where
  "combineServiceHealth states =
     (if ServiceAttention \<in> set states then ServiceAttention
      else if states \<noteq> [] \<and> list_all (\<lambda>s. s = ServiceOperational) states then ServiceOperational
      else ServiceUnknown)"

section \<open>The page\<close>

record service_sources =
  so_monitoring :: "monitoring_snapshot option"  \<comment> \<open>\<open>None\<close> where the promise is rejected\<close>
  so_clouds :: "cloud_target list option"
  so_minecraft :: "minecraft_overview option"
  so_runtime :: "runtime_observation list option"

definition observed_recently :: "int \<Rightarrow> string \<Rightarrow> bool" where
  "observed_recently now s \<longleftrightarrow>
     (case Date_parse s of None \<Rightarrow> False | Some t \<Rightarrow> t \<le> now + 30000 \<and> now - t \<le> 900000)"

definition runtime_fresh :: "int \<Rightarrow> runtime_observation option \<Rightarrow> bool" where
  "runtime_fresh now r \<longleftrightarrow>
     (case r of None \<Rightarrow> False
      | Some o' \<Rightarrow> observed_recently now (rn_observedAt (ro_inventory o')) \<and> observed_recently now (ro_receivedAt o'))"

definition service_host :: "service_sources \<Rightarrow> brand_service \<Rightarrow> host_overview option" where
  "service_host so service =
     Option.bind (so_monitoring so) (\<lambda>m. List.find (\<lambda>h. Some (ho_serverId h) = bs_serverId service) (ms_hosts m))"

definition service_runtime :: "service_sources \<Rightarrow> brand_service \<Rightarrow> runtime_observation option" where
  "service_runtime so service =
     Option.bind (so_runtime so) (List.find (\<lambda>r. Some (rn_serverId (ro_inventory r)) = bs_serverId service))"

definition monitored_container :: "service_sources \<Rightarrow> brand_service \<Rightarrow> string \<Rightarrow> container_overview option" where
  "monitored_container so service name =
     Option.bind (so_monitoring so) (\<lambda>m. Option.bind (service_host so service) (\<lambda>host.
       List.find (\<lambda>c. co_hostId c = ho_id host \<and> co_name c = name) (ms_containers m)))"

definition runtime_sample :: "service_sources \<Rightarrow> brand_service \<Rightarrow> string \<Rightarrow> runtime_container option" where
  "runtime_sample so service name =
     Option.bind (service_runtime so service) (\<lambda>r. List.find (\<lambda>c. rt_name c = name) (rn_containers (ro_inventory r)))"

definition target_status :: "service_sources \<Rightarrow> int \<Rightarrow> string \<Rightarrow> cloud_health" where
  "target_status so now i =
     (case Option.bind (so_clouds so) (List.find (\<lambda>t. ct_id t = i)) of
        None \<Rightarrow> Reported CloudUnknown
      | Some t \<Rightarrow>
          if ct_enabled t then cloudHealth (ct_status t) (ct_received_at t) (ct_stale_after_seconds t) now
          else Reported CloudUnknown)"

definition check_health :: "service_sources \<Rightarrow> int \<Rightarrow> string \<Rightarrow> service_health" where
  "check_health so now i =
     (case target_status so now i of
        Reported CloudOperational \<Rightarrow> ServiceOperational
      | Reported CloudUnknown \<Rightarrow> ServiceUnknown
      | _ \<Rightarrow> ServiceAttention)"

definition container_health_of :: "bool \<Rightarrow> container_overview option \<Rightarrow> runtime_container option \<Rightarrow> service_health" where
  "container_health_of fresh sample runtime =
     (case sample of
        Some c \<Rightarrow> if co_status c = CtOnline then ServiceOperational else ServiceAttention
      | None \<Rightarrow>
          (case runtime of
             Some (ObservedContainer _ d) \<Rightarrow>
               if \<not> fresh \<or> rd_state d \<noteq> ''running'' \<or> rd_health d = ''unhealthy'' \<or> rd_health d = ''starting'' \<or>
                  rd_oomKilled d then ServiceAttention
               else ServiceOperational
           | _ \<Rightarrow> ServiceUnknown))"

definition host_health :: "host_overview option \<Rightarrow> service_health" where
  "host_health host =
     (case host of
        None \<Rightarrow> ServiceUnknown
      | Some h \<Rightarrow> if ho_status h = HostOnline then ServiceOperational else ServiceAttention)"

definition minecraft_health :: "minecraft_overview option \<Rightarrow> service_health" where
  "minecraft_health overview =
     (case overview of
        None \<Rightarrow> ServiceUnknown
      | Some v \<Rightarrow>
          if mo_status v = MinecraftUnknown then ServiceUnknown
          else if mo_status v = MinecraftOperational then ServiceOperational else ServiceAttention)"

definition check_ids :: "brand_service \<Rightarrow> string list" where
  "check_ids service = bs_cloudTargets service @ (case bs_publicTarget service of None \<Rightarrow> [] | Some i \<Rightarrow> if i = [] then [] else [i])"

definition expected_containers :: "brand_service \<Rightarrow> string list" where
  "expected_containers service = bs_containers service @ bs_dependencies service"

definition has_server :: "brand_service \<Rightarrow> bool" where
  "has_server service \<longleftrightarrow> nonempty (bs_serverId service) \<noteq> None"

definition service_states :: "service_sources \<Rightarrow> int \<Rightarrow> brand_service \<Rightarrow> service_health list" where
  "service_states so now service =
     (let fresh = runtime_fresh now (service_runtime so service)
      in map (check_health so now) (check_ids service) @
         (if has_server service \<and> \<not> fresh then [host_health (service_host so service)] else []) @
         map (\<lambda>name. container_health_of fresh (monitored_container so service name) (runtime_sample so service name))
           (expected_containers service) @
         (if bs_id service = ''minecraft'' then [minecraft_health (so_minecraft so)] else []))"

definition service_state :: "service_sources \<Rightarrow> int \<Rightarrow> brand_service \<Rightarrow> service_health" where
  "service_state so now service = combineServiceHealth (service_states so now service)"

definition sources_incomplete :: "service_sources \<Rightarrow> bool" where
  \<comment> \<open>the page says that a part of the data could not be read\<close>
  "sources_incomplete so \<longleftrightarrow> so_monitoring so = None \<or> so_clouds so = None \<or> so_runtime so = None"

definition services_page :: "service_sources \<Rightarrow> int \<Rightarrow> (brand_service \<times> service_health) list" where
  "services_page so now = map (\<lambda>service. (service, service_state so now service)) BRAND_SERVICES"

datatype badge_tone = NeutralTone | SuccessTone | DangerTone

definition service_tone :: "service_health \<Rightarrow> badge_tone" where
  "service_tone health =
     (if health = ServiceOperational then SuccessTone else if health = ServiceAttention then DangerTone else NeutralTone)"

definition cloud_row_tone :: "cloud_target \<Rightarrow> int \<Rightarrow> badge_tone" where
  \<comment> \<open>a row of the cloud page\<close>
  "cloud_row_tone t now =
     (let status = cloudHealth (ct_status t) (ct_received_at t) (ct_stale_after_seconds t) now
      in if \<not> ct_enabled t then NeutralTone
         else if status = Reported CloudOperational then SuccessTone
         else if status = Reported CloudUnknown then NeutralTone
         else DangerTone)"

section \<open>What makes a service operational\<close>

definition target_confirmed :: "service_sources \<Rightarrow> int \<Rightarrow> string \<Rightarrow> bool" where
  \<comment> \<open>an enabled target that reported success, not longer ago than its limit\<close>
  "target_confirmed so now i \<longleftrightarrow>
     (\<exists>targets t s ms. so_clouds so = Some targets \<and> List.find (\<lambda>t. ct_id t = i) targets = Some t \<and> ct_enabled t \<and>
        ct_status t = CloudOperational \<and> ct_received_at t = Some s \<and> Date_parse s = Some ms \<and>
        ms \<le> now + 30000 \<and> now - ms \<le> ct_stale_after_seconds t * 1000)"

definition container_confirmed :: "service_sources \<Rightarrow> int \<Rightarrow> brand_service \<Rightarrow> string \<Rightarrow> bool" where
  \<comment> \<open>the agent's sample says online; without one, a fresh inventory says running\<close>
  "container_confirmed so now service name \<longleftrightarrow>
     (case monitored_container so service name of
        Some c \<Rightarrow> co_status c = CtOnline
      | None \<Rightarrow>
          runtime_fresh now (service_runtime so service) \<and>
          (\<exists>n d. runtime_sample so service name = Some (ObservedContainer n d) \<and> rd_state d = ''running'' \<and>
             rd_health d \<notin> {''unhealthy'', ''starting''} \<and> \<not> rd_oomKilled d))"

lemma cloudHealth_operational_iff:
  "cloudHealth status received stale now = Reported CloudOperational \<longleftrightarrow>
     status = CloudOperational \<and> (\<exists>s ms. received = Some s \<and> Date_parse s = Some ms \<and> ms \<le> now + 30000 \<and>
       now - ms \<le> stale * 1000)"
proof -
  have "Date_parse [] = None" by (simp add: Date_parse_def parse_year_def take_digits_def js_eval)
  then show ?thesis
    by (cases received) (auto simp: cloudHealth_def nonempty_def split: option.splits)
qed

lemma check_health_operational_iff: "check_health so now i = ServiceOperational \<longleftrightarrow> target_confirmed so now i"
proof -
  have "check_health so now i = ServiceOperational \<longleftrightarrow> target_status so now i = Reported CloudOperational"
    by (simp add: check_health_def split: cloud_health.splits cloud_status.splits)
  also have "\<dots> \<longleftrightarrow> target_confirmed so now i"
    by (auto simp: target_status_def target_confirmed_def cloudHealth_operational_iff bind_eq_Some_conv
        split: option.splits if_splits)
  finally show ?thesis .
qed

lemma container_health_operational_iff:
  "container_health_of (runtime_fresh now (service_runtime so service)) (monitored_container so service name)
       (runtime_sample so service name) = ServiceOperational \<longleftrightarrow> container_confirmed so now service name"
  by (auto simp: container_health_of_def container_confirmed_def split: option.splits runtime_container.splits)

lemma combine_operational_iff:
  "combineServiceHealth states = ServiceOperational \<longleftrightarrow> states \<noteq> [] \<and> (\<forall>s \<in> set states. s = ServiceOperational)"
  by (auto simp: combineServiceHealth_def list_all_iff)

lemma combine_attention_iff: "combineServiceHealth states = ServiceAttention \<longleftrightarrow> ServiceAttention \<in> set states"
  by (auto simp: combineServiceHealth_def)

lemma catalogue_has_targets: "service \<in> set BRAND_SERVICES \<Longrightarrow> bs_cloudTargets service \<noteq> []"
  by (auto simp: BRAND_SERVICES_def)

text \<open>The containers of the catalogue are among those that the inventory of their server must list.\<close>

lemma catalogue_is_inventoried:
  "list_all (\<lambda>service. case bs_serverId service of
       None \<Rightarrow> expected_containers service = []
     | Some server \<Rightarrow> (case map_of RUNTIME_CONTAINERS server of
         None \<Rightarrow> False
       | Some names \<Rightarrow> list_all (\<lambda>name. name \<in> set names) (expected_containers service))) BRAND_SERVICES"
  by (simp add: BRAND_SERVICES_def expected_containers_def RUNTIME_CONTAINERS_def shared_runtime_def)

text \<open>C11. A service of the catalogue is shown as operational exactly when everything is confirmed: each of its
  cloud and public targets is enabled and reported success recently enough, each of its containers and
  dependencies is online in the agent's sample or, without a sample, runs in a fresh inventory, its host is
  online or its inventory fresh if it has a server, and the Minecraft overview is operational if it is that
  service. What is missing, disabled or stale never makes a service operational.\<close>

theorem operational_service_is_confirmed:
  assumes "service \<in> set BRAND_SERVICES"
  shows "service_state so now service = ServiceOperational \<longleftrightarrow>
    (\<forall>i \<in> set (check_ids service). target_confirmed so now i) \<and>
    (\<forall>name \<in> set (expected_containers service). container_confirmed so now service name) \<and>
    (has_server service \<longrightarrow> runtime_fresh now (service_runtime so service) \<or>
       (\<exists>h. service_host so service = Some h \<and> ho_status h = HostOnline)) \<and>
    (bs_id service = ''minecraft'' \<longrightarrow>
       (\<exists>v. so_minecraft so = Some v \<and> mo_status v = MinecraftOperational))"
proof -
  have checks: "check_ids service \<noteq> []" using catalogue_has_targets [OF assms] by (simp add: check_ids_def)
  have host: "host_health h = ServiceOperational \<longleftrightarrow> (\<exists>v. h = Some v \<and> ho_status v = HostOnline)" for h
    by (simp add: host_health_def split: option.splits)
  have game: "minecraft_health m = ServiceOperational \<longleftrightarrow> (\<exists>v. m = Some v \<and> mo_status v = MinecraftOperational)" for m
    by (auto simp: minecraft_health_def split: option.splits)
  define fresh where "fresh = runtime_fresh now (service_runtime so service)"
  note containers = container_health_operational_iff [of now so service, folded fresh_def]
  have "service_states so now service \<noteq> []"
    using checks by (simp add: service_states_def Let_def)
  moreover have "(\<forall>s \<in> set (service_states so now service). s = ServiceOperational) \<longleftrightarrow>
      (\<forall>i \<in> set (check_ids service). check_health so now i = ServiceOperational) \<and>
      (has_server service \<and> \<not> fresh \<longrightarrow> host_health (service_host so service) = ServiceOperational) \<and>
      (\<forall>name \<in> set (expected_containers service). container_health_of fresh (monitored_container so service name)
         (runtime_sample so service name) = ServiceOperational) \<and>
      (bs_id service = ''minecraft'' \<longrightarrow> minecraft_health (so_minecraft so) = ServiceOperational)"
    unfolding service_states_def Let_def fresh_def [symmetric] by auto
  ultimately show ?thesis
    unfolding service_state_def combine_operational_iff containers check_health_operational_iff host game
      fresh_def [symmetric] by blast
qed

definition sample_target :: "string \<Rightarrow> cloud_target" where
  "sample_target i = \<lparr> ct_id = i, ct_provider = ''p'', ct_display_name = i, ct_enabled = True,
     ct_status = CloudOperational, ct_reason_code = ''ok'', ct_received_at = Some (iso_text 1700000000000),
     ct_observed_at = None, ct_stale_after_seconds = 600 \<rparr>"

definition sample_sources :: service_sources where
  "sample_sources = \<lparr> so_monitoring = None,
     so_clouds = Some (map sample_target [''vercel-console'', ''cloudflare-console-dns'', ''http-console'']),
     so_minecraft = None, so_runtime = Some [] \<rparr>"

theorem operational_service_is_confirmed_witness:
  "service_state sample_sources 1700000300000 (BRAND_SERVICES ! 7) = ServiceOperational \<and>
     service_state sample_sources 1700000700000 (BRAND_SERVICES ! 7) \<noteq> ServiceOperational"
proof -
  have member: "BRAND_SERVICES ! 7 \<in> set BRAND_SERVICES" by (simp add: BRAND_SERVICES_def)
  have console: "check_ids (BRAND_SERVICES ! 7) = [''vercel-console'', ''cloudflare-console-dns'', ''http-console'']"
    "expected_containers (BRAND_SERVICES ! 7) = []" "\<not> has_server (BRAND_SERVICES ! 7)"
    "bs_id (BRAND_SERVICES ! 7) = ''console''"
    by (simp_all add: BRAND_SERVICES_def check_ids_def expected_containers_def has_server_def nonempty_def)
  show ?thesis
    by (simp add: operational_service_is_confirmed [OF member] console target_confirmed_def sample_sources_def
        sample_target_def max_time_def)
qed

end
