(* ===== verification/Heartbeat.thy ===== *)
theory Heartbeat
  imports ReportRoutes
begin

text \<open>
  The heartbeat of a host (\<open>apps/web/lib/heartbeat.ts\<close> and \<open>app/api/agent/heartbeat/route.ts\<close>): the
  validation of the report, field by field as in the code, and the route. The eight resource figures of
  a container are one record. \<open>HeartbeatError\<close> is a status with a code.
\<close>

section \<open>Limits\<close>

definition MAX_CONTAINERS :: nat where
  "MAX_CONTAINERS = 20"

definition MAX_CPU_PERCENT :: rat where
  "MAX_CPU_PERCENT = 100000"

definition MAX_PIDS :: int where
  "MAX_PIDS = 2147483647"

definition MAX_MINECRAFT_PLAYERS :: int where
  "MAX_MINECRAFT_PLAYERS = 1000000"

definition MAX_MINECRAFT_LATENCY_MS :: int where
  "MAX_MINECRAFT_LATENCY_MS = 60000"

definition MAX_MINECRAFT_TPS :: rat where
  "MAX_MINECRAFT_TPS = 1000"

definition MAX_MINECRAFT_MSPT_MS :: rat where
  "MAX_MINECRAFT_MSPT_MS = 60000"

definition MAX_HEARTBEAT_BODY_BYTES :: nat where
  "MAX_HEARTBEAT_BODY_BYTES = 32 * 1024"

lemmas heartbeat_limits = MAX_CONTAINERS_def MAX_CPU_PERCENT_def MAX_PIDS_def MAX_MINECRAFT_PLAYERS_def
  MAX_MINECRAFT_LATENCY_MS_def MAX_MINECRAFT_TPS_def MAX_MINECRAFT_MSPT_MS_def

definition containerStates :: "string list" where
  "containerStates = [''created'', ''running'', ''paused'', ''restarting'', ''removing'', ''exited'', ''dead'',
     ''unknown'', ''not_found'']"

definition containerHealthStates :: "string list" where
  "containerHealthStates = [''starting'', ''healthy'', ''unhealthy'', ''none'', ''unknown'']"

section \<open>Payload\<close>

record resource_metrics =
  rm_cpuPercent :: rat
  rm_memoryUsageBytes :: int
  rm_memoryLimitBytes :: int
  rm_networkRxBytes :: int
  rm_networkTxBytes :: int
  rm_blockReadBytes :: int
  rm_blockWriteBytes :: int
  rm_pids :: int

record container_heartbeat =
  hc_name :: string
  hc_state :: string
  hc_health :: string
  hc_restartCount :: int
  hc_oomKilled :: bool
  hc_exitCode :: "int option"
  hc_resources :: "resource_metrics option"  \<comment> \<open>\<open>None\<close>: all eight are \<open>null\<close>\<close>

record minecraft_endpoint =
  me_reachable :: bool
  me_latencyMs :: "int option"
  me_version :: "string option"
  me_online :: "int option"
  me_max :: "int option"

record minecraft_performance =
  mp_tps1m :: rat
  mp_tps5m :: rat
  mp_tps15m :: rat
  mp_msptMedian1m :: rat
  mp_msptP95_1m :: rat
  mp_msptMax1m :: rat

record minecraft_heartbeat =
  mh_publicEndpoint :: minecraft_endpoint
  mh_backend :: minecraft_endpoint
  mh_proxyPortPublished :: bool
  mh_backendPortPublished :: bool
  mh_voiceChatPortPublished :: bool
  mh_performance :: "minecraft_performance option"

record host_heartbeat =
  hh_cpuCount :: int
  hh_memoryTotalBytes :: rat
  hh_memoryAvailableBytes :: rat
  hh_diskTotalBytes :: rat
  hh_diskAvailableBytes :: rat
  hh_loadAverage1 :: rat
  hh_loadAverage5 :: rat
  hh_loadAverage15 :: rat
  hh_uptimeSeconds :: rat

record heartbeat_payload =
  hp_serverId :: string
  hp_agentVersion :: string
  hp_sentAt :: string
  hp_host :: host_heartbeat
  hp_containers :: "container_heartbeat list"
  hp_minecraft :: "minecraft_heartbeat option"

section \<open>Validation\<close>

definition finite_non_negative :: "jsval \<Rightarrow> rat option" where
  \<comment> \<open>\<open>isFiniteNonNegative\<close>\<close>
  "finite_non_negative v = (case as_finite v of None \<Rightarrow> None | Some q \<Rightarrow> if q \<ge> 0 then Some q else None)"

definition at_most :: "'a :: linorder \<Rightarrow> 'a option \<Rightarrow> 'a option" where
  "at_most m v = (case v of None \<Rightarrow> None | Some x \<Rightarrow> if x \<le> m then Some x else None)"

definition non_negative :: "int option \<Rightarrow> int option" where
  "non_negative v = (case v of None \<Rightarrow> None | Some x \<Rightarrow> if x \<ge> 0 then Some x else None)"

definition METRIC_KEYS :: "string list" where
  "METRIC_KEYS = [''cpuPercent'', ''memoryUsageBytes'', ''memoryLimitBytes'', ''networkRxBytes'',
     ''networkTxBytes'', ''blockReadBytes'', ''blockWriteBytes'', ''pids'']"

definition absent :: "jsval \<Rightarrow> string \<Rightarrow> bool" where
  \<comment> \<open>\<open>(value.key ?? null) === null\<close>\<close>
  "absent value key \<longleftrightarrow> nullish (get_prop value key) Null = Null"

definition normalizeResourceMetrics :: "jsval \<Rightarrow> resource_metrics option option" where
  \<comment> \<open>the outer \<open>None\<close> refuses\<close>
  "normalizeResourceMetrics value =
     (if list_all (absent value) METRIC_KEYS then Some None
      else if list_ex (absent value) METRIC_KEYS then None
      else do {
        cpu \<leftarrow> at_most MAX_CPU_PERCENT (finite_non_negative (get_prop value ''cpuPercent''));
        usage \<leftarrow> non_negative (as_safe_integer (get_prop value ''memoryUsageBytes''));
        limit \<leftarrow> non_negative (as_safe_integer (get_prop value ''memoryLimitBytes''));
        rx \<leftarrow> non_negative (as_safe_integer (get_prop value ''networkRxBytes''));
        tx \<leftarrow> non_negative (as_safe_integer (get_prop value ''networkTxBytes''));
        rd \<leftarrow> non_negative (as_safe_integer (get_prop value ''blockReadBytes''));
        wr \<leftarrow> non_negative (as_safe_integer (get_prop value ''blockWriteBytes''));
        pids \<leftarrow> at_most MAX_PIDS (non_negative (as_safe_integer (get_prop value ''pids'')));
        if usage > limit then None
        else Some (Some \<lparr> rm_cpuPercent = cpu, rm_memoryUsageBytes = usage, rm_memoryLimitBytes = limit,
          rm_networkRxBytes = rx, rm_networkTxBytes = tx, rm_blockReadBytes = rd, rm_blockWriteBytes = wr,
          rm_pids = pids \<rparr>)
      })"

definition one_of :: "string list \<Rightarrow> jsval \<Rightarrow> string option" where
  "one_of words v = (case as_string v of None \<Rightarrow> None | Some s \<Rightarrow> if s \<in> set words then Some s else None)"

definition normalizeContainerHeartbeat :: "jsval \<Rightarrow> container_heartbeat option" where
  "normalizeContainerHeartbeat value =
     (if \<not> is_record value then None
      else do {
        resources \<leftarrow> normalizeResourceMetrics value;
        name \<leftarrow> as_string (get_prop value ''name'');
        state \<leftarrow> one_of containerStates (get_prop value ''state'');
        health \<leftarrow> one_of containerHealthStates (get_prop value ''health'');
        restartCount \<leftarrow> non_negative (as_integer (get_prop value ''restartCount''));
        oomKilled \<leftarrow> as_bool (get_prop value ''oomKilled'');
        exitCode \<leftarrow> nullable as_integer (get_prop value ''exitCode'');
        if \<not> CONTAINER_IDENTIFIER_PATTERN name then None
        else Some \<lparr> hc_name = name, hc_state = state, hc_health = health, hc_restartCount = restartCount,
          hc_oomKilled = oomKilled, hc_exitCode = exitCode, hc_resources = resources \<rparr>
      })"

fun distinct_containers :: "string list \<Rightarrow> jsval list \<Rightarrow> container_heartbeat list option" where
  \<comment> \<open>the loop, with the names seen so far\<close>
  "distinct_containers seen [] = Some []"
| "distinct_containers seen (v # vs) =
     (case normalizeContainerHeartbeat v of
        None \<Rightarrow> None
      | Some c \<Rightarrow>
          if hc_name c \<in> set seen then None
          else map_option ((#) c) (distinct_containers (hc_name c # seen) vs))"

definition normalizeContainers :: "jsval \<Rightarrow> container_heartbeat list option" where
  "normalizeContainers value =
     (case value of
        Undefined \<Rightarrow> Some []
      | Arr vs \<Rightarrow> if length vs > MAX_CONTAINERS then None else distinct_containers [] vs
      | _ \<Rightarrow> None)"

definition normalizeMinecraftEndpoint :: "jsval \<Rightarrow> minecraft_endpoint option" where
  \<comment> \<open>\<open>unicodeLength\<close> is the length, as code units are below 256\<close>
  "normalizeMinecraftEndpoint value =
     (if \<not> is_record value then None
      else (case as_bool (get_prop value ''reachable'') of
              None \<Rightarrow> None
            | Some False \<Rightarrow>
                (if \<not> list_all (absent value) [''latencyMs'', ''version'', ''online'', ''max''] then None
                 else Some \<lparr> me_reachable = False, me_latencyMs = None, me_version = None, me_online = None,
                   me_max = None \<rparr>)
            | Some True \<Rightarrow> do {
                version \<leftarrow> map_option trim (as_string (get_prop value ''version''));
                latency \<leftarrow> at_most MAX_MINECRAFT_LATENCY_MS (non_negative (as_integer (get_prop value ''latencyMs'')));
                online \<leftarrow> non_negative (as_integer (get_prop value ''online''));
                capacity \<leftarrow> at_most MAX_MINECRAFT_PLAYERS (as_integer (get_prop value ''max''));
                if length version < 1 \<or> length version > 128 \<or> capacity < 1 \<or> online > capacity then None
                else Some \<lparr> me_reachable = True, me_latencyMs = Some latency, me_version = Some version,
                  me_online = Some online, me_max = Some capacity \<rparr>
              }))"

definition normalizeMinecraftPerformance :: "jsval \<Rightarrow> minecraft_performance option" where
  "normalizeMinecraftPerformance value =
     (if \<not> is_record value \<or> get_prop value ''source'' \<noteq> Str ''spark'' then None
      else do {
        tps1 \<leftarrow> at_most MAX_MINECRAFT_TPS (finite_non_negative (get_prop value ''tps1m''));
        tps5 \<leftarrow> at_most MAX_MINECRAFT_TPS (finite_non_negative (get_prop value ''tps5m''));
        tps15 \<leftarrow> at_most MAX_MINECRAFT_TPS (finite_non_negative (get_prop value ''tps15m''));
        med \<leftarrow> at_most MAX_MINECRAFT_MSPT_MS (finite_non_negative (get_prop value ''msptMedian1m''));
        p95 \<leftarrow> at_most MAX_MINECRAFT_MSPT_MS (finite_non_negative (get_prop value ''msptP95_1m''));
        mx \<leftarrow> at_most MAX_MINECRAFT_MSPT_MS (finite_non_negative (get_prop value ''msptMax1m''));
        if med > p95 \<or> p95 > mx then None
        else Some \<lparr> mp_tps1m = tps1, mp_tps5m = tps5, mp_tps15m = tps15, mp_msptMedian1m = med,
          mp_msptP95_1m = p95, mp_msptMax1m = mx \<rparr>
      })"

definition normalizeMinecraft :: "jsval \<Rightarrow> minecraft_heartbeat option" where
  \<comment> \<open>of a value that was provided\<close>
  "normalizeMinecraft value =
     (if \<not> is_record value then None
      else do {
        publicEndpoint \<leftarrow> normalizeMinecraftEndpoint (get_prop value ''publicEndpoint'');
        backend \<leftarrow> normalizeMinecraftEndpoint (get_prop value ''backend'');
        performance \<leftarrow> (if absent value ''performance'' then Some None
          else map_option Some (normalizeMinecraftPerformance (get_prop value ''performance'')));
        proxyPort \<leftarrow> as_bool (get_prop value ''proxyPortPublished'');
        backendPort \<leftarrow> as_bool (get_prop value ''backendPortPublished'');
        voicePort \<leftarrow> as_bool (get_prop value ''voiceChatPortPublished'');
        Some \<lparr> mh_publicEndpoint = publicEndpoint, mh_backend = backend, mh_proxyPortPublished = proxyPort,
          mh_backendPortPublished = backendPort, mh_voiceChatPortPublished = voicePort,
          mh_performance = performance \<rparr>
      })"

definition read_host :: "jsval \<Rightarrow> host_heartbeat option" where
  "read_host host =
     (if \<not> is_record host then None
      else do {
        cpus \<leftarrow> as_integer (get_prop host ''cpuCount'');
        memTotal \<leftarrow> finite_non_negative (get_prop host ''memoryTotalBytes'');
        memAvailable \<leftarrow> finite_non_negative (get_prop host ''memoryAvailableBytes'');
        diskTotal \<leftarrow> finite_non_negative (get_prop host ''diskTotalBytes'');
        diskAvailable \<leftarrow> finite_non_negative (get_prop host ''diskAvailableBytes'');
        load1 \<leftarrow> finite_non_negative (get_prop host ''loadAverage1'');
        load5 \<leftarrow> finite_non_negative (get_prop host ''loadAverage5'');
        load15 \<leftarrow> finite_non_negative (get_prop host ''loadAverage15'');
        uptime \<leftarrow> finite_non_negative (get_prop host ''uptimeSeconds'');
        if cpus \<le> 0 \<or> memAvailable > memTotal \<or> diskAvailable > diskTotal then None
        else Some \<lparr> hh_cpuCount = cpus, hh_memoryTotalBytes = memTotal, hh_memoryAvailableBytes = memAvailable,
          hh_diskTotalBytes = diskTotal, hh_diskAvailableBytes = diskAvailable, hh_loadAverage1 = load1,
          hh_loadAverage5 = load5, hh_loadAverage15 = load15, hh_uptimeSeconds = uptime \<rparr>
      })"

definition parseHeartbeatValue :: "jsval \<Rightarrow> heartbeat_payload option" where
  "parseHeartbeatValue value =
     (if \<not> is_record value then None
      else do {
        host \<leftarrow> read_host (get_prop value ''host'');
        containers \<leftarrow> normalizeContainers (get_prop value ''containers'');
        minecraft \<leftarrow> (if absent value ''minecraft'' then Some None
          else map_option Some (normalizeMinecraft (get_prop value ''minecraft'')));
        serverId \<leftarrow> as_string (get_prop value ''serverId'');
        agentVersion \<leftarrow> as_string (get_prop value ''agentVersion'');
        sentAt \<leftarrow> as_string (get_prop value ''sentAt'');
        if \<not> SERVER_ID_PATTERN serverId \<or> length agentVersion < 1 \<or> length agentVersion > 32 then None
        else Some \<lparr> hp_serverId = serverId, hp_agentVersion = agentVersion, hp_sentAt = sentAt, hp_host = host,
          hp_containers = containers, hp_minecraft = minecraft \<rparr>
      })"

definition parseHeartbeat ::
  "(byte list \<Rightarrow> jsval option) \<Rightarrow> byte list \<Rightarrow> int \<Rightarrow> agent_error + heartbeat_payload" where
  "parseHeartbeat decode_json rawBody now =
     (case decode_json rawBody of
        None \<Rightarrow> Inl (400, ''invalid_json'')
      | Some value \<Rightarrow>
          (case parseHeartbeatValue value of
             None \<Rightarrow> Inl (400, ''invalid_payload'')
           | Some parsed \<Rightarrow>
               (case Date_parse (hp_sentAt parsed) of
                  None \<Rightarrow> Inl (400, ''invalid_sent_at'')
                | Some sentAt \<Rightarrow>
                    if \<bar>now - sentAt\<bar> > MAX_CLOCK_SKEW_SECONDS * 1000 then Inl (401, ''expired_request'')
                    else Inr parsed)))"

definition heartbeat_post ::
  "report_services \<Rightarrow> (heartbeat_payload \<Rightarrow> string \<Rightarrow> string \<Rightarrow> store_answer) \<Rightarrow> header_reader \<Rightarrow>
   byte list list option \<Rightarrow> int \<Rightarrow>
   heartbeat_payload report_reply \<times> (heartbeat_payload \<times> string \<times> string) list" where
  "heartbeat_post = report_post MAX_HEARTBEAT_BODY_BYTES parseHeartbeat hp_serverId"

section \<open>What an accepted heartbeat guarantees\<close>

definition metrics_ok :: "resource_metrics \<Rightarrow> bool" where
  "metrics_ok m \<longleftrightarrow>
     0 \<le> rm_cpuPercent m \<and> rm_cpuPercent m \<le> 100000 \<and>
     0 \<le> rm_memoryUsageBytes m \<and> rm_memoryUsageBytes m \<le> rm_memoryLimitBytes m \<and>
     list_all (\<lambda>n. 0 \<le> n \<and> n \<le> max_safe_integer)
       [rm_memoryLimitBytes m, rm_networkRxBytes m, rm_networkTxBytes m, rm_blockReadBytes m, rm_blockWriteBytes m] \<and>
     0 \<le> rm_pids m \<and> rm_pids m < 2 ^ 31"

definition container_ok :: "container_heartbeat \<Rightarrow> bool" where
  "container_ok c \<longleftrightarrow>
     CONTAINER_IDENTIFIER_PATTERN (hc_name c) \<and> hc_state c \<in> set containerStates \<and>
     hc_health c \<in> set containerHealthStates \<and> 0 \<le> hc_restartCount c \<and> pred_option metrics_ok (hc_resources c)"

definition endpoint_ok :: "minecraft_endpoint \<Rightarrow> bool" where
  "endpoint_ok e \<longleftrightarrow>
     (if me_reachable e
      then (\<exists>latency version online capacity. me_latencyMs e = Some latency \<and> me_version e = Some version \<and>
              me_online e = Some online \<and> me_max e = Some capacity \<and> 0 \<le> latency \<and> latency \<le> 60000 \<and>
              1 \<le> length version \<and> length version \<le> 128 \<and> 0 \<le> online \<and> online \<le> capacity \<and>
              1 \<le> capacity \<and> capacity \<le> 1000000)
      else me_latencyMs e = None \<and> me_version e = None \<and> me_online e = None \<and> me_max e = None)"

definition performance_ok :: "minecraft_performance \<Rightarrow> bool" where
  "performance_ok p \<longleftrightarrow>
     list_all (\<lambda>t. 0 \<le> t \<and> t \<le> 1000) [mp_tps1m p, mp_tps5m p, mp_tps15m p] \<and>
     0 \<le> mp_msptMedian1m p \<and> mp_msptMedian1m p \<le> mp_msptP95_1m p \<and> mp_msptP95_1m p \<le> mp_msptMax1m p \<and>
     mp_msptMax1m p \<le> 60000"

definition minecraft_ok :: "minecraft_heartbeat \<Rightarrow> bool" where
  "minecraft_ok m \<longleftrightarrow> endpoint_ok (mh_publicEndpoint m) \<and> endpoint_ok (mh_backend m) \<and>
     pred_option performance_ok (mh_performance m)"

definition host_ok :: "host_heartbeat \<Rightarrow> bool" where
  "host_ok h \<longleftrightarrow>
     0 < hh_cpuCount h \<and> 0 \<le> hh_memoryAvailableBytes h \<and> hh_memoryAvailableBytes h \<le> hh_memoryTotalBytes h \<and>
     0 \<le> hh_diskAvailableBytes h \<and> hh_diskAvailableBytes h \<le> hh_diskTotalBytes h \<and>
     list_all (\<lambda>x. 0 \<le> x) [hh_loadAverage1 h, hh_loadAverage5 h, hh_loadAverage15 h, hh_uptimeSeconds h]"

definition heartbeat_ok :: "int \<Rightarrow> heartbeat_payload \<Rightarrow> bool" where
  "heartbeat_ok now p \<longleftrightarrow>
     SERVER_ID_PATTERN (hp_serverId p) \<and> 1 \<le> length (hp_agentVersion p) \<and> length (hp_agentVersion p) \<le> 32 \<and>
     (\<exists>t. Date_parse (hp_sentAt p) = Some t \<and> \<bar>now - t\<bar> \<le> 300000) \<and>
     host_ok (hp_host p) \<and> length (hp_containers p) \<le> 20 \<and> list_all container_ok (hp_containers p) \<and>
     distinct (map hc_name (hp_containers p)) \<and> pred_option minecraft_ok (hp_minecraft p)"

lemma finite_non_negative_SomeD: "finite_non_negative v = Some q \<Longrightarrow> 0 \<le> q"
  by (auto simp: finite_non_negative_def split: option.splits if_splits)

lemma at_most_SomeD: "at_most m v = Some x \<Longrightarrow> v = Some x \<and> x \<le> m"
  by (auto simp: at_most_def split: option.splits if_splits)

lemma non_negative_SomeD: "non_negative v = Some x \<Longrightarrow> v = Some x \<and> 0 \<le> x"
  by (auto simp: non_negative_def split: option.splits if_splits)

lemma one_of_SomeD: "one_of ws v = Some s \<Longrightarrow> s \<in> set ws"
  by (auto simp: one_of_def split: option.splits if_splits)

lemmas reader_facts = finite_non_negative_SomeD at_most_SomeD non_negative_SomeD one_of_SomeD

lemma safe_non_negative: "non_negative (as_safe_integer v) = Some x \<Longrightarrow> 0 \<le> x \<and> x \<le> max_safe_integer"
  by (auto dest!: non_negative_SomeD as_safe_integer_SomeD)

lemma metrics_parsed: "normalizeResourceMetrics value = Some (Some m) \<Longrightarrow> metrics_ok m"
  by (auto simp: normalizeResourceMetrics_def bind_eq_Some_conv metrics_ok_def heartbeat_limits
      dest!: at_most_SomeD finite_non_negative_SomeD safe_non_negative split: if_split_asm)

lemma container_parsed: "normalizeContainerHeartbeat value = Some c \<Longrightarrow> container_ok c"
  by (auto simp: normalizeContainerHeartbeat_def bind_eq_Some_conv container_ok_def
      dest!: one_of_SomeD non_negative_SomeD split: if_split_asm)
    (metis metrics_parsed pred_option_def option.pred_inject(1) option.pred_inject(2) option.exhaust)

lemma containers_parsed:
  "distinct_containers seen vs = Some cs \<Longrightarrow>
     length cs = length vs \<and> list_all container_ok cs \<and> distinct (map hc_name cs) \<and> hc_name ` set cs \<inter> set seen = {}"
proof (induction seen vs arbitrary: cs rule: distinct_containers.induct)
  case (2 seen v vs)
  then obtain c rest where c: "normalizeContainerHeartbeat v = Some c" "hc_name c \<notin> set seen"
    and rest: "distinct_containers (hc_name c # seen) vs = Some rest" "cs = c # rest"
    by (auto split: option.splits if_splits)
  from "2.IH" [OF c rest(1)] container_parsed [OF c(1)] rest(2) c(2) show ?case by auto
qed simp

lemma endpoint_parsed: "normalizeMinecraftEndpoint value = Some e \<Longrightarrow> endpoint_ok e"
  by (auto simp: normalizeMinecraftEndpoint_def bind_eq_Some_conv endpoint_ok_def heartbeat_limits not_less
      Suc_le_eq dest!: at_most_SomeD non_negative_SomeD split: if_split_asm option.splits bool.splits)

lemma performance_parsed: "normalizeMinecraftPerformance value = Some p \<Longrightarrow> performance_ok p"
  by (auto simp: normalizeMinecraftPerformance_def bind_eq_Some_conv performance_ok_def heartbeat_limits
      dest!: at_most_SomeD finite_non_negative_SomeD split: if_split_asm)

lemma minecraft_parsed: "normalizeMinecraft value = Some m \<Longrightarrow> minecraft_ok m"
  by (auto simp: normalizeMinecraft_def bind_eq_Some_conv minecraft_ok_def
      dest!: endpoint_parsed performance_parsed split: if_split_asm)

lemma minecraft_parsed_option [simp]: "pred_option minecraft_ok (normalizeMinecraft value)"
  by (cases "normalizeMinecraft value") (simp_all add: minecraft_parsed)

lemma host_parsed: "read_host value = Some h \<Longrightarrow> host_ok h"
  by (auto simp: read_host_def bind_eq_Some_conv host_ok_def dest!: finite_non_negative_SomeD split: if_split_asm)

lemma heartbeat_parsed: "parseHeartbeat decode raw now = Inr p \<Longrightarrow> heartbeat_ok now p"
  by (auto simp: parseHeartbeat_def parseHeartbeatValue_def normalizeContainers_def bind_eq_Some_conv heartbeat_ok_def
      MAX_CLOCK_SKEW_SECONDS_def MAX_CONTAINERS_def not_less Suc_le_eq
      dest!: host_parsed minecraft_parsed containers_parsed split: option.splits if_split_asm jsval.splits)

lemma heartbeat_server: "parseHeartbeat decode raw now = Inr p \<Longrightarrow> hp_serverId p \<noteq> []"
  by (auto dest!: heartbeat_parsed simp: heartbeat_ok_def SERVER_ID_PATTERN_def chars_between_def)

interpretation heartbeat: report_route MAX_HEARTBEAT_BODY_BYTES parseHeartbeat hp_serverId heartbeat_ok
  by unfold_locales (rule heartbeat_parsed, assumption, rule heartbeat_server, assumption)

text \<open>C23.
  What a heartbeat stores is well formed and signed. A heartbeat request reaches the database at most
  once, and then with a payload that the signed bytes themselves parse to, under the secret of the
  server it names and with a time stamp within five minutes: bounded and consistent figures for the
  host, at most twenty containers with distinct names and known states, resource figures all or none,
  and game server figures within their ranges. It is acknowledged exactly when the database accepted
  it; any other request reaches nothing and is refused, or makes the route fail when the server is named like
  a member that every object inherits.
\<close>

theorem stored_heartbeat_is_well_formed:
  assumes "heartbeat_post s store header body now = (reply, calls)"
  shows "(calls = [] \<and> ((\<exists>status err. reply = ReportRefused status err) \<or> reply = ReportFailed \<and>
      (\<exists>member \<in> set OBJECT_MEMBERS. header ''x-ivrm-agent-id'' = Some member))) \<or>
    (\<exists>payload nonce sha. calls = [(payload, nonce, sha)] \<and> heartbeat_ok now payload \<and>
       signed_report MAX_HEARTBEAT_BODY_BYTES parseHeartbeat hp_serverId s header body now payload nonce sha \<and>
       (\<forall>p. reply = ReportAccepted p \<longleftrightarrow> p = payload \<and> store payload nonce sha = StoreAnswered (Str ''accepted'')))"
  using assms unfolding heartbeat_post_def by (rule heartbeat.stored_reports)

definition sample_heartbeat :: jsval where
  "sample_heartbeat = Obj [(''serverId'', Str ''oci''), (''agentVersion'', Str ''1''),
     (''sentAt'', Str ''2023-11-14T22:13:20Z''),
     (''host'', Obj [(''cpuCount'', jint 4), (''memoryTotalBytes'', jint 8), (''memoryAvailableBytes'', jint 8),
        (''diskTotalBytes'', jint 9), (''diskAvailableBytes'', jint 1), (''loadAverage1'', jint 0),
        (''loadAverage5'', jint 0), (''loadAverage15'', jint 0), (''uptimeSeconds'', jint 60)])]"

lemma sample_heartbeat_parses: "\<exists>p. parseHeartbeat (\<lambda>_. Some sample_heartbeat) raw 1700000000000 = Inr p \<and> hp_serverId p = ''oci''"
proof -
  have "Date_parse ''2023-11-14T22:13:20Z'' = Some 1700000000000" by (simp add: sample_instants)
  then show ?thesis
    by (simp add: parseHeartbeat_def parseHeartbeatValue_def sample_heartbeat_def read_host_def normalizeContainers_def
        finite_non_negative_def absent_def prop_or_def nullish_def SERVER_ID_PATTERN_def chars_between_def
        MAX_CLOCK_SKEW_SECONDS_def is_integer_rat_def id_char_def is_alnum_def is_lower_def code_def)
qed

lemma stored_heartbeat_is_well_formed_witness:
  "\<exists>reply payload nonce sha. heartbeat_post (sample_reports ''oci'' sample_heartbeat)
      (\<lambda>_ _ _. StoreAnswered (Str ''accepted'')) (sample_header ''oci'') (Some [[1]]) 1700000000000 =
        (reply, [(payload, nonce, sha)]) \<and>
     reply = ReportAccepted payload \<and> heartbeat_ok 1700000000000 payload"
proof -
  obtain p where p: "parseHeartbeat (\<lambda>_. Some sample_heartbeat) [1] 1700000000000 = Inr p" "hp_serverId p = ''oci''"
    using sample_heartbeat_parses by blast
  have run: "heartbeat_post (sample_reports ''oci'' sample_heartbeat)
      (\<lambda>_ _ _. StoreAnswered (Str ''accepted'')) (sample_header ''oci'') (Some [[1]]) 1700000000000 =
      (ReportAccepted p, [(p, replicate 32 CHR ''a'', replicate 64 CHR ''0'')])"
    unfolding heartbeat_post_def
    by (rule sample_report_post [where parse = parseHeartbeat and server_of = hp_serverId, OF p]) (simp_all add: js_eval MAX_HEARTBEAT_BODY_BYTES_def)
  from stored_heartbeat_is_well_formed [OF run] run show ?thesis by auto
qed

end
