(* ===== verification/Spec2Isabelle.thy ===== *)
theory Spec2Isabelle
  imports BackupPage ListPages LogPage ReliabilityPage ResourcePages StatusCenterPage DetailPages OperationPanel
    MaintenanceForm SecurityPages LogViewer HistoryPage Overview Notifications Inventory ConsoleLogs Services
    SecurityAdmin NotificationDispatch StatusRoutes HistoryOverlays BurnRates Heartbeat BackupReports Capacity
    EventFeeds AuthRoutes
begin

text \<open>
  Verification library of the ivRooM dashboard, the operations console of a small fleet of hosts with a Minecraft
  service on it. The program is a Next.js application (\<open>src/apps/web\<close>) over a database that it reaches through HTTP,
  and one scheduled function (\<open>src/supabase/functions/notification-dispatch\<close>). Paths below are relative to
  \<open>src/apps/web\<close>.

  \<^bold>\<open>The program.\<close> Agents on the hosts post signed reports (heartbeats, backups, logs, runtime inventories, cloud
  monitors) to routes under \<open>app/api/agent\<close>, which check and store them. The modules under \<open>lib\<close> read the stored rows
  back, refuse rows that do not have the expected form, and derive from them what the console shows: the monitoring
  snapshot, the two feeds of events, incidents, backups, capacity, reliability with its budgets and burn rates, the
  status centre, notifications, the inventory, logs. People sign in through Discord or Cloudflare Access
  (\<open>lib/discord-auth.ts\<close>, \<open>lib/cloudflare-access.ts\<close>, \<open>lib/console-auth.ts\<close>, \<open>proxy.ts\<close>); administrators plan maintenance,
  publish notices, revoke sessions and queue operations, which an agent claims and reports on. The dispatcher sends
  what is due to a webhook.

  \<^bold>\<open>Theories and code.\<close> Each theory names the files it models in its first block.
  \<^item> Language and library: \<open>Prelude\<close> (lists, options, \<open>Map\<close>, stable sorts, the collections of rules), \<open>JsValues\<close> (values
    read as \<open>unknown\<close>, numbers, texts), \<open>JsDoubles\<close> (rounding to doubles), \<open>JsDates\<close> (\<open>Date.parse\<close>, \<open>toISOString\<close>), \<open>JsRegex\<close> (regular expressions as
    functions from a cursor to the cursors it can reach), \<open>Patterns\<close> (the shared patterns and row readers), \<open>Urls\<close>,
    \<open>Paging\<close> (keyset paging), \<open>EpisodeLog\<close> (logs of closed episodes).
  \<^item> Monitoring: \<open>Monitoring\<close>, \<open>MonitoringEvents\<close>, \<open>EventFeeds\<close>, \<open>MetricHistory\<close>, \<open>Incidents\<close>, \<open>UnifiedIncidents\<close>, \<open>Backups\<close>,
    \<open>Capacity\<close>, \<open>HistoryOverlays\<close>, \<open>Minecraft\<close>, \<open>Inventory\<close>, \<open>Services\<close>.
  \<^item> Reliability: \<open>Reliability\<close> (downtime), \<open>Maintenance\<close> (windows, targets and their route), \<open>ReliabilityCenter\<close> (services,
    budgets, policies), \<open>BurnRates\<close>.
  \<^item> Sign-in and roles: \<open>DiscordAuth\<close>, \<open>DiscordOAuthCookies\<close>, \<open>CloudflareAccess\<close>, \<open>ConsoleAuth\<close>, \<open>AuthRoutes\<close>, \<open>SecurityAdmin\<close>.
  \<^item> Agents: \<open>AgentAuth\<close>, \<open>ReportRoutes\<close> (what the reporting routes share), \<open>Heartbeat\<close>, \<open>BackupReports\<close>, \<open>ConsoleLogs\<close> with
    \<open>LogRedaction\<close>, \<open>Telemetry\<close>, \<open>Operations\<close>, \<open>OperationRoutes\<close>.
  \<^item> Publication: \<open>StatusCenter\<close>, \<open>StatusRoutes\<close>, \<open>Notifications\<close>, \<open>NotificationDispatch\<close>.
  \<^item> Pages: \<open>ConsoleUi\<close>, \<open>Overview\<close>, \<open>Charts\<close>, \<open>HistoryPage\<close>, \<open>DetailPages\<close>, \<open>LogViewer\<close>, \<open>SecurityPages\<close>, \<open>OperationPanel\<close>,
    \<open>MaintenanceForm\<close>, \<open>StatusCenterPage\<close>, \<open>LogPage\<close>, \<open>ReliabilityPage\<close>, \<open>ResourcePages\<close> (capacity, Minecraft), \<open>BackupPage\<close>,
    \<open>ListPages\<close> (login, containers, events, incidents). A page is a function from the address and the loaded sources to a
    record of what it shows.

  \<^bold>\<open>How code becomes definitions.\<close>
  \<^item> An interface is a record, a union of string literals a datatype, a function a definition of the same name; names
    that HOL or another theory uses carry a prefix. A handler of a route is a function from the environment, the
    request and the answers of the services to a record of the reply together with the calls that change the
    database, so that \<open>which calls are made\<close> is part of the statement. The dispatcher returns the trace of its effects
    in order. The cache of signing keys is state that is passed and returned. The log viewer, the panel of the
    operations and the maintenance form are states with inductive steps for what the user and the timers do.
  \<^item> An exception and a rejected promise are \<open>None\<close> or \<open>Inl\<close>; \<open>Promise.allSettled\<close> is an optional argument per source.
    Where one text would be thrown for many causes the cause is not kept.
  \<^item> Numbers of JavaScript are rationals with the infinities and \<open>NaN\<close> (\<open>jsnum\<close>), or rationals and integers where the code
    has excluded the others. The error budgets, the burn rates and the ratios on their page are rounded to doubles
    operation by operation (\<open>js_float\<close> of \<open>JsDoubles\<close>, with the exponent unbounded); elsewhere (the regression of
    the capacity, the coordinates of the charts, averages of metrics) rounding is not modelled. Texts are lists of characters below 256, as
    code units; \<open>localeCompare\<close> is an injective collation key. Bytes of the signed OAuth state are words of eight bits.
  \<^item> A \<open>Map\<close> is an association list in insertion order, sorts are stable. Lookups of names of \<open>Object.prototype\<close> in
    plain objects are modelled where the name comes from outside and reaches the lookup unchecked: the error of the
    login page and the identifier of a reporting agent. Successive readings of the clock within one handler are one instant, save where
    the code depends on the difference.
  \<^item> Database functions, HTTP, cryptographic functions, \<open>JSON.parse\<close>, form parsing, the URL parser beyond paths, and
    \<open>isIP\<close> are arguments. Texts for display in Japanese are constructors, arguments or left out.

  \<^bold>\<open>Interfaces.\<close> The locale \<open>keyset_feed\<close> states what a paged query over a window that moves with the clock promises
  for the cursors that occur, and is interpreted on the query of a table in keyset order; the feeds rest on it. \<open>worst_of\<close> (the worse of two levels) is interpreted for severities and for the
  health of backups. \<open>signal_loop\<close> relates two loops over events to one abstract state, and is interpreted for the loop
  of open signals and the loop of recovered incidents. \<open>episode_log\<close> keeps closed episodes apart, for container
  incidents and for backup targets. \<open>report_route\<close> (heartbeats, backup reports, log reports) and \<open>telemetry_route\<close> (runtime and cloud
  reports) state that only parsed and signed bytes are stored. \<open>administrator_list\<close> states that a list is read once, in the
  name of an administrator, for the three lists of \<open>SecurityAdmin\<close>.

  \<^bold>\<open>What is shown.\<close>
  \<^item> Authority: a console role needs a verified identity; a session needs the whole chain of sign-in; a queued operation, a
    change of maintenance or status, a revocation was asked for by someone entitled to it, from the console's own
    origin, and no other database call is made; agent calls, reports and OAuth states are authentic and fresh.
  \<^item> Data: what is stored or shown is well formed; log messages are stored redacted; security events hide identities.
  \<^item> Derivations: open signals and recovered incidents agree with each other and with their specification; downtime is
    the measure of a union of intervals, with maintenance taken out of it; the regression is the least-squares line
    and forecasts agree with their reference; budgets agree with the allowance they show and, but for its rounding,
    with availability; health is operational only when
    every check confirms it.
  \<^item> Delivery: every row the dispatcher claims is accounted for; what it posts is the message of a row it claimed
    and asked the gate about just before.
  \<^item> Pages: links lead to pages that exist, paging links continue where the page stopped, buttons that can be pressed are
    accepted by the routes and lead to the outcome the database function answers with, charts cut series at gaps and stay inside their plot, the lines of the burn history join
    exact neighbours only, the badges of the Minecraft page agree, the viewer of the logs asks for what its page shows,
    keeps its lines ordered and loses none.

  \<^bold>\<open>Loops and bounds.\<close> Loops over rows are folds or structural recursion. The paging loops that may run for ever are
  partial functions whose result \<open>None\<close> is not returning, and the feeds are shown to return; loops with a bound in the code
  (the pages of backup history, 25 pages of maintenance windows, the batches of the dispatcher) have that bound as fuel
  and the exhausted case of the code. A repetition in a regular expression is unfolded once for every character that
  is left, which is enough since the expressions in use consume one in each round. Calendar arithmetic is in closed form.

  \<^bold>\<open>Not modelled.\<close> The markup and the style of the pages, dates in the local format, fixed response headers and texts of error
  pages; the cards of the inventory and the front page, which only lay out values of modelled modules; the rules of the access matcher of the framework; the
  database itself (\<open>src/supabase/migrations\<close>), the agents (\<open>src/apps/agent\<close> in Go, the collectors in Python, the
  bridge in Java), deployment and tests. They are in other languages, configuration, or without decisions of their
  own. Time limits of requests and concurrency of requests beyond the order of the effects are not modelled either.
\<close>

end
